(* ===== verification/Go_Prelude.thy ===== *)
theory Go_Prelude
  imports Main "HOL-Library.AList" "HOL-Library.Char_ord" "HOL-Library.List_Lexorder"
begin

text \<open>
  What the components share: the errors a Go function returns, the action type in which the
  handlers and providers are written (explicit state passing with an error result), loops over
  slices, and the functions of the Go standard library on strings that the sources call.

  A Go function \<^verbatim>\<open>func f(ctx, x) (T, error)\<close> that talks to the API server is an
  \<open>('s, 'a) act\<close>: it takes the world state and returns the error or the value, and the state
  it leaves behind. The state is returned on the error path as well, because a failing request
  keeps what it wrote before it failed.
\<close>

section \<open>Automation\<close>

named_theorems act_defs \<open>definitions of the action combinators\<close>
named_theorems act_simps \<open>equations that run the action combinators\<close>
named_theorems reads_intros \<open>rules showing that an action leaves the state alone\<close>
named_theorems outcome_intros \<open>rules for the outcome of an action\<close>

section \<open>Errors\<close>

text \<open>
  The reasons carried by \<^verbatim>\<open>apierrors.StatusError\<close> and the errors the sources build or test.
  Messages are not modelled; two errors of one kind with different messages are the same value.
  \<open>Wrapped\<close> is \<^verbatim>\<open>fmt.Errorf("...: %w", err)\<close>, which \<^verbatim>\<open>errors.As\<close> sees through.
  \<open>Panic\<close> is a run-time panic. The constructors \<open>Util...\<close> are the constructor functions of the
  package \<^verbatim>\<open>util/errors\<close> that the sources call by name; \<open>HTTPError\<close> is its \<^verbatim>\<open>New(code, ...)\<close>.
\<close>

datatype reason =
    RBadRequest | RForbidden | RNotFound | RAlreadyExists | RConflict
  | RInternalError | RServiceUnavailable | ROther string

datatype go_error =
    StatusError reason int
  | HTTPError int
  | UtilBadRequest
  | UtilNotAuthorized
  | UtilAlreadyExists
  | UtilNotFound
  | ErrNotFound
  | TokenExpiredError
  | Aggregate "go_error list"
  | Plain string
  | Wrapped go_error
  | Panic

text \<open>The constructors of \<^verbatim>\<open>k8s.io/apimachinery/pkg/api/errors\<close> that the sources call.\<close>

abbreviation NewBadRequest :: go_error where "NewBadRequest \<equiv> StatusError RBadRequest 400"
abbreviation NewForbidden :: go_error where "NewForbidden \<equiv> StatusError RForbidden 403"
abbreviation NewNotFound :: go_error where "NewNotFound \<equiv> StatusError RNotFound 404"
abbreviation NewAlreadyExists :: go_error where "NewAlreadyExists \<equiv> StatusError RAlreadyExists 409"
abbreviation NewInternalError :: go_error where "NewInternalError \<equiv> StatusError RInternalError 500"
abbreviation NewServiceUnavailable :: go_error where
  "NewServiceUnavailable \<equiv> StatusError RServiceUnavailable 503"

text \<open>\<^verbatim>\<open>errors.As(err, &statusErr)\<close>: the status error in the chain of wrapped errors.\<close>

fun as_status :: "go_error \<Rightarrow> (reason \<times> int) option" where
  "as_status (StatusError r c) = Some (r, c)"
| "as_status (Wrapped e) = as_status e"
| "as_status _ = None"

definition has_reason :: "reason \<Rightarrow> go_error \<Rightarrow> bool" where
  "has_reason r e = (case as_status e of None \<Rightarrow> False | Some (r', _) \<Rightarrow> r' = r)"

abbreviation IsNotFound :: "go_error \<Rightarrow> bool" where "IsNotFound \<equiv> has_reason RNotFound"
abbreviation IsAlreadyExists :: "go_error \<Rightarrow> bool" where "IsAlreadyExists \<equiv> has_reason RAlreadyExists"
abbreviation IsConflict :: "go_error \<Rightarrow> bool" where "IsConflict \<equiv> has_reason RConflict"

text \<open>\<^verbatim>\<open>errors.Is(err, provider.ErrNotFound)\<close> for the sentinel error of the providers.\<close>

fun isErrNotFound :: "go_error \<Rightarrow> bool" where
  "isErrNotFound ErrNotFound = True"
| "isErrNotFound (Wrapped e) = isErrNotFound e"
| "isErrNotFound _ = False"

text \<open>\<^verbatim>\<open>errors.As(err, &expired)\<close> for \<^verbatim>\<open>*TokenExpiredError\<close>.\<close>

fun isTokenExpired :: "go_error \<Rightarrow> bool" where
  "isTokenExpired TokenExpiredError = True"
| "isTokenExpired (Wrapped e) = isTokenExpired e"
| "isTokenExpired _ = False"

section \<open>Actions\<close>

type_synonym 'a result = "go_error + 'a"
type_synonym ('s, 'a) act = "'s \<Rightarrow> 'a result \<times> 's"

definition retA :: "'a \<Rightarrow> ('s, 'a) act" where
  [act_defs]: "retA x = (\<lambda>s. (Inr x, s))"

definition failA :: "go_error \<Rightarrow> ('s, 'a) act" where
  [act_defs]: "failA e = (\<lambda>s. (Inl e, s))"

definition liftA :: "'a result \<Rightarrow> ('s, 'a) act" where
  [act_defs]: "liftA r = (\<lambda>s. (r, s))"

definition readA :: "('s \<Rightarrow> 'a result) \<Rightarrow> ('s, 'a) act" where
  [act_defs]: "readA f = (\<lambda>s. (f s, s))"

text \<open>
  \<open>tryA m k\<close> runs \<open>m\<close> and hands its result, error or value, to \<open>k\<close>; a panic is not an error value
  and unwinds past \<open>k\<close>.
\<close>

definition tryA :: "('s, 'a) act \<Rightarrow> ('a result \<Rightarrow> ('s, 'b) act) \<Rightarrow> ('s, 'b) act" where
  [act_defs]: "tryA m k = (\<lambda>s. case m s of (r, s') \<Rightarrow> if r = Inl Panic then (Inl Panic, s') else k r s')"

text \<open>The same without a test for equality on the values, so that it runs at every type.\<close>

definition panics :: "'a result \<Rightarrow> bool" where
  "panics r = (case r of Inl e \<Rightarrow> e = Panic | Inr _ \<Rightarrow> False)"

lemma tryA_code [code]:
  "tryA m k = (\<lambda>s. case m s of (r, s') \<Rightarrow> if panics r then (Inl Panic, s') else k r s')"
  by (auto simp: tryA_def panics_def fun_eq_iff split: prod.split sum.split)

text \<open>\<open>bindA m k\<close> is \<^verbatim>\<open>x, err := m; if err != nil { return nil, err }; k(x)\<close>.\<close>

definition bindA :: "('s, 'a) act \<Rightarrow> ('a \<Rightarrow> ('s, 'b) act) \<Rightarrow> ('s, 'b) act" where
  [act_defs]: "bindA m k = (\<lambda>s. case m s of (Inl e, s') \<Rightarrow> (Inl e, s') | (Inr x, s') \<Rightarrow> k x s')"

text \<open>\<open>wrapA f m\<close> is \<open>m\<close> with its error, if any, replaced by \<open>f\<close> of it.\<close>

definition wrap_err :: "(go_error \<Rightarrow> go_error) \<Rightarrow> go_error \<Rightarrow> go_error" where
  "wrap_err f e = (if e = Panic then Panic else f e)"

definition wrapA :: "(go_error \<Rightarrow> go_error) \<Rightarrow> ('s, 'a) act \<Rightarrow> ('s, 'a) act" where
  [act_defs]: "wrapA f m = (\<lambda>s. case m s of (Inl e, s') \<Rightarrow> (Inl (wrap_err f e), s') | (Inr x, s') \<Rightarrow> (Inr x, s'))"

text \<open>A loop over a slice whose body may fail, with the loop's variables as the accumulator.\<close>

fun foldA :: "('a \<Rightarrow> 'b \<Rightarrow> ('s, 'b) act) \<Rightarrow> 'a list \<Rightarrow> 'b \<Rightarrow> ('s, 'b) act" where
  "foldA f [] acc = retA acc"
| "foldA f (x # xs) acc = bindA (f x acc) (foldA f xs)"

subsection \<open>Running actions\<close>

lemma retA_run [simp, act_simps]: "retA x s = (Inr x, s)"
  by (simp add: act_defs)

lemma failA_run [simp, act_simps]: "failA e s = (Inl e, s)"
  by (simp add: act_defs)

lemma liftA_run [simp, act_simps]: "liftA r s = (r, s)"
  by (simp add: act_defs)

lemma readA_run [simp, act_simps]: "readA f s = (f s, s)"
  by (simp add: act_defs)

lemma bindA_Inr [simp, act_simps]: "m s = (Inr x, t) \<Longrightarrow> bindA m k s = k x t"
  by (simp add: act_defs)

lemma bindA_Inl [simp, act_simps]: "m s = (Inl e, t) \<Longrightarrow> bindA m k s = (Inl e, t)"
  by (simp add: act_defs)

lemma tryA_run [simp, act_simps]: "m s = (r, t) \<Longrightarrow> r \<noteq> Inl Panic \<Longrightarrow> tryA m k s = k r t"
  by (simp add: act_defs)

lemma wrapA_Inr [simp, act_simps]: "m s = (Inr x, t) \<Longrightarrow> wrapA f m s = (Inr x, t)"
  by (simp add: act_defs)

lemma wrapA_Inl [simp, act_simps]: "m s = (Inl e, t) \<Longrightarrow> wrapA f m s = (Inl (wrap_err f e), t)"
  by (simp add: act_defs)

lemma bindA_retA [simp]: "bindA (retA x) k = k x"
  by (simp add: act_defs)

lemma bindA_failA [simp]: "bindA (failA e) k = failA e"
  by (simp add: act_defs)

lemma bindA_liftA_Inr [simp]: "bindA (liftA (Inr x)) k = k x"
  by (simp add: act_defs)

lemma bindA_liftA_Inl [simp]: "bindA (liftA (Inl e)) k = failA e"
  by (simp add: act_defs)

lemma tryA_retA [simp]: "tryA (retA x) k = k (Inr x)"
  by (simp add: act_defs)

lemma tryA_failA [simp]: "e \<noteq> Panic \<Longrightarrow> tryA (failA e) k = k (Inl e)"
  by (simp add: act_defs)

lemma wrap_err_simps [simp]:
  "wrap_err f Panic = Panic" "e \<noteq> Panic \<Longrightarrow> wrap_err f e = f e"
  by (simp_all add: wrap_err_def)

lemma wrapA_retA [simp]: "wrapA f (retA x) = retA x"
  by (simp add: act_defs)

lemma wrapA_failA [simp]: "wrapA f (failA e) = failA (wrap_err f e)"
  by (simp add: act_defs)

text \<open>Inversion: how a composed action can have succeeded.\<close>

lemma bindA_eq_Inr:
  "bindA m k s = (Inr y, u) \<longleftrightarrow> (\<exists>x t. m s = (Inr x, t) \<and> k x t = (Inr y, u))"
  by (auto simp: act_defs split: prod.splits sum.splits)

lemma bindA_InrE:
  assumes "bindA m k s = (Inr y, u)"
  obtains x t where "m s = (Inr x, t)" and "k x t = (Inr y, u)"
  using assms by (auto simp: bindA_eq_Inr)

lemma wrapA_eq_Inr: "wrapA f m s = (Inr y, u) \<longleftrightarrow> m s = (Inr y, u)"
  by (auto simp: act_defs split: prod.splits sum.splits)

lemma retA_eq_Inr: "retA x s = (Inr y, u) \<longleftrightarrow> y = x \<and> u = s"
  by auto

lemma failA_neq_Inr: "failA e s \<noteq> (Inr y, u)"
  by simp

lemma tryA_eq_Inr:
  "tryA m k s = (Inr y, u) \<longleftrightarrow> (\<exists>r t. m s = (r, t) \<and> r \<noteq> Inl Panic \<and> k r t = (Inr y, u))"
  by (auto simp: tryA_def split: prod.splits)

lemma tryA_case_Inr:
  "tryA m (\<lambda>res. case res of Inl e \<Rightarrow> h e | Inr x \<Rightarrow> k x) s = (Inr y, u) \<longleftrightarrow>
     (\<exists>e t. m s = (Inl e, t) \<and> e \<noteq> Panic \<and> h e t = (Inr y, u)) \<or>
     (\<exists>x t. m s = (Inr x, t) \<and> k x t = (Inr y, u))"
  by (cases "m s"; cases "fst (m s)") (auto simp: tryA_def)

lemmas act_inv = bindA_eq_Inr wrapA_eq_Inr

subsection \<open>Actions that only read\<close>

definition reads :: "('s, 'a) act \<Rightarrow> bool" where
  "reads m \<longleftrightarrow> (\<forall>s. snd (m s) = s)"

lemma readsI: "(\<And>s. snd (m s) = s) \<Longrightarrow> reads m"
  by (simp add: reads_def)

lemma readsD: "reads m \<Longrightarrow> m s = (r, t) \<Longrightarrow> t = s"
  by (metis reads_def snd_conv)

lemma readsE:
  assumes "reads m"
  obtains r where "m s = (r, s)"
  using assms by (metis reads_def prod.collapse)

lemma reads_retA [reads_intros]: "reads (retA x)"
  by (simp add: reads_def)

lemma reads_failA [reads_intros]: "reads (failA e)"
  by (simp add: reads_def)

lemma reads_liftA [reads_intros]: "reads (liftA r)"
  by (simp add: reads_def)

lemma reads_readA [reads_intros]: "reads (readA f)"
  by (simp add: reads_def)

lemma reads_bindA [reads_intros]:
  assumes "reads m" and "\<And>x. reads (k x)"
  shows "reads (bindA m k)"
proof (rule readsI)
  fix s
  from assms(1) obtain r where "m s = (r, s)" by (rule readsE)
  with assms(2) show "snd (bindA m k s) = s"
    by (cases r) (auto simp: reads_def)
qed

lemma reads_tryA [reads_intros]:
  assumes "reads m" and "\<And>r. reads (k r)"
  shows "reads (tryA m k)"
proof (rule readsI)
  fix s
  from assms(1) obtain r where "m s = (r, s)" by (rule readsE)
  with assms(2) show "snd (tryA m k s) = s"
    by (simp add: reads_def tryA_def)
qed

lemma reads_wrapA [reads_intros]: "reads m \<Longrightarrow> reads (wrapA f m)"
  by (auto simp: reads_def act_defs split: prod.splits sum.splits) (metis snd_conv)+

lemma reads_if [reads_intros]: "reads m \<Longrightarrow> reads n \<Longrightarrow> reads (if b then m else n)"
  by simp

lemma reads_case_option [reads_intros]:
  "reads m \<Longrightarrow> (\<And>x. reads (k x)) \<Longrightarrow> reads (case v of None \<Rightarrow> m | Some x \<Rightarrow> k x)"
  by (cases v) auto

lemma reads_case_sum [reads_intros]:
  "(\<And>e. reads (h e)) \<Longrightarrow> (\<And>x. reads (k x)) \<Longrightarrow> reads (case v of Inl e \<Rightarrow> h e | Inr x \<Rightarrow> k x)"
  by (cases v) auto

lemma reads_case_list [reads_intros]:
  "reads m \<Longrightarrow> (\<And>x xs. reads (k x xs)) \<Longrightarrow> reads (case v of [] \<Rightarrow> m | x # xs \<Rightarrow> k x xs)"
  by (cases v) auto

lemma reads_let [reads_intros]: "(\<And>x. reads (k x)) \<Longrightarrow> reads (let x = v in k x)"
  by (simp add: Let_def)

lemma reads_foldA [reads_intros]:
  "(\<And>x acc. reads (f x acc)) \<Longrightarrow> reads (foldA f xs acc)"
  by (induction xs arbitrary: acc) (auto intro: reads_intros)

text \<open>How a composed action succeeds whose first part only reads.\<close>

lemma bind_reads:
  "reads m \<Longrightarrow> bindA m k s = (Inr y, u) \<longleftrightarrow> (\<exists>x. m s = (Inr x, s) \<and> k x s = (Inr y, u))"
  by (auto simp: bindA_eq_Inr dest: readsD)

lemma reads_Inr: "reads m \<Longrightarrow> m s = (Inr x, t) \<longleftrightarrow> m s = (Inr x, s) \<and> t = s"
  by (auto dest: readsD)

lemma success_obtain: "\<not> isl (fst p) \<Longrightarrow> \<exists>r t. p = (Inr r, t)"
  by (metis isl_def prod.collapse sum.exhaust_sel)

subsection \<open>Outcomes\<close>

text \<open>
  What holds after an action, separately for an error and for a result. The rules follow the structure of an
  action; the first part of a composition only reads in most handlers.
\<close>

definition outcome :: "('s, 'a) act \<Rightarrow> 's \<Rightarrow> ('s \<Rightarrow> bool) \<Rightarrow> ('a \<Rightarrow> 's \<Rightarrow> bool) \<Rightarrow> bool" where
  "outcome m s F G \<longleftrightarrow> (case m s of (Inl _, t) \<Rightarrow> F t | (Inr x, t) \<Rightarrow> G x t)"

lemma outcomeD: "outcome m s F G \<Longrightarrow> m s = (Inl e, t) \<Longrightarrow> F t" "outcome m s F G \<Longrightarrow> m s = (Inr x, t) \<Longrightarrow> G x t"
  by (simp_all add: outcome_def)

lemma outcome_failA [outcome_intros]: "F s \<Longrightarrow> outcome (failA e) s F G"
  by (simp add: outcome_def)

lemma outcome_retA [outcome_intros]: "G x s \<Longrightarrow> outcome (retA x) s F G"
  by (simp add: outcome_def)

lemma outcome_if [outcome_intros]:
  "(b \<Longrightarrow> outcome m s F G) \<Longrightarrow> (\<not> b \<Longrightarrow> outcome n s F G) \<Longrightarrow> outcome (if b then m else n) s F G"
  by simp

lemma outcome_case_sum [outcome_intros]:
  "(\<And>e. v = Inl e \<Longrightarrow> outcome (f e) s F G) \<Longrightarrow> (\<And>x. v = Inr x \<Longrightarrow> outcome (g x) s F G) \<Longrightarrow>
     outcome (case v of Inl e \<Rightarrow> f e | Inr x \<Rightarrow> g x) s F G"
  by (cases v) auto

lemma outcome_bindA: "outcome m s F (\<lambda>x t. outcome (k x) t F G) \<Longrightarrow> outcome (bindA m k) s F G"
  by (auto simp: outcome_def bindA_def split: prod.splits sum.splits)

lemma outcome_wrapA [outcome_intros]: "outcome m s F G \<Longrightarrow> outcome (wrapA f m) s F G"
  by (auto simp: outcome_def act_defs split: prod.splits sum.splits)

lemma outcome_reads: "reads m \<Longrightarrow> F s \<Longrightarrow> (\<And>x. m s = (Inr x, s) \<Longrightarrow> G x s) \<Longrightarrow> outcome m s F G"
  by (auto simp: outcome_def dest: readsD split: prod.splits sum.splits)

lemma outcome_bind_reads:
  "reads m \<Longrightarrow> F s \<Longrightarrow> (\<And>x. m s = (Inr x, s) \<Longrightarrow> outcome (k x) s F G) \<Longrightarrow> outcome (bindA m k) s F G"
  by (rule outcome_bindA, rule outcome_reads)

lemma outcome_bind_wrap_reads:
  "reads m \<Longrightarrow> F s \<Longrightarrow> (\<And>x. m s = (Inr x, s) \<Longrightarrow> outcome (k x) s F G) \<Longrightarrow> outcome (bindA (wrapA f m) k) s F G"
  by (rule outcome_bindA, rule outcome_wrapA, rule outcome_reads)

lemma outcome_mono:
  "outcome m s F G \<Longrightarrow> (\<And>t. F t \<Longrightarrow> F' t) \<Longrightarrow> (\<And>x t. m s = (Inr x, t) \<Longrightarrow> G x t \<Longrightarrow> G' x t) \<Longrightarrow> outcome m s F' G'"
  by (auto simp: outcome_def split: prod.splits sum.splits)

text \<open>A slice that must have exactly one element.\<close>

lemma single_case_Inr:
  "(case xs of [] \<Rightarrow> failA e | [x] \<Rightarrow> k x | _ \<Rightarrow> failA e') s = (Inr y, u) \<longleftrightarrow> (\<exists>x. xs = [x] \<and> k x s = (Inr y, u))"
  by (auto split: list.splits)

section \<open>Strings\<close>

text \<open>
  A Go string is a sequence of bytes, a HOL \<open>string\<close> a list of characters, each one a byte.
  Case mapping is that of ASCII letters; bytes from 128 on are left as they are, so the model
  is that of \<^verbatim>\<open>strings.ToLower\<close> and \<^verbatim>\<open>strings.EqualFold\<close> on ASCII text.
\<close>

definition lower_char :: "char \<Rightarrow> char" where
  "lower_char c = (let n = (of_char c :: nat) in if 65 \<le> n \<and> n \<le> 90 then char_of (n + 32) else c)"

definition ToLower :: "string \<Rightarrow> string" where
  "ToLower s = map lower_char s"

definition EqualFold :: "string \<Rightarrow> string \<Rightarrow> bool" where
  "EqualFold s t \<longleftrightarrow> ToLower s = ToLower t"

definition HasPrefix :: "string \<Rightarrow> string \<Rightarrow> bool" where
  "HasPrefix s p \<longleftrightarrow> take (length p) s = p"

definition TrimPrefix :: "string \<Rightarrow> string \<Rightarrow> string" where
  "TrimPrefix s p = (if HasPrefix s p then drop (length p) s else s)"

fun Contains :: "string \<Rightarrow> string \<Rightarrow> bool" where
  "Contains [] t = (t = [])"
| "Contains (c # s) t = (HasPrefix (c # s) t \<or> Contains s t)"

text \<open>\<^verbatim>\<open>strings.Split(s, sep)\<close> for a one-byte separator: never empty.\<close>

fun split_on :: "char \<Rightarrow> string \<Rightarrow> string list" where
  "split_on sep [] = [[]]"
| "split_on sep (c # s) =
     (if c = sep then [] # split_on sep s
      else (case split_on sep s of [] \<Rightarrow> [[c]] | w # ws \<Rightarrow> (c # w) # ws))"

definition is_space :: "char \<Rightarrow> bool" where
  "is_space c = (let n = (of_char c :: nat) in n = 32 \<or> (9 \<le> n \<and> n \<le> 13))"

definition TrimSpace :: "string \<Rightarrow> string" where
  "TrimSpace s = rev (dropWhile is_space (rev (dropWhile is_space s)))"

subsection \<open>Laws of the string functions\<close>

lemma lower_char_idem [simp]: "lower_char (lower_char c) = lower_char c"
proof (cases "65 \<le> (of_char c :: nat) \<and> (of_char c :: nat) \<le> 90")
  case True
  then have "(of_char (char_of ((of_char c :: nat) + 32) :: char) :: nat) = of_char c + 32"
    by simp
  with True show ?thesis by (simp add: lower_char_def Let_def)
next
  case False
  then show ?thesis by (auto simp: lower_char_def Let_def)
qed

lemma ToLower_idem [simp]: "ToLower (ToLower s) = ToLower s"
  by (simp add: ToLower_def)

lemma ToLower_Nil_iff [simp]: "ToLower s = [] \<longleftrightarrow> s = []"
  by (simp add: ToLower_def)

lemma EqualFold_refl [simp]: "EqualFold s s"
  by (simp add: EqualFold_def)

lemma EqualFold_sym: "EqualFold s t \<Longrightarrow> EqualFold t s"
  by (simp add: EqualFold_def)

lemma EqualFold_trans: "EqualFold s t \<Longrightarrow> EqualFold t u \<Longrightarrow> EqualFold s u"
  by (simp add: EqualFold_def)

lemma EqualFold_ToLower [simp]:
  "EqualFold (ToLower s) t \<longleftrightarrow> EqualFold s t" "EqualFold s (ToLower t) \<longleftrightarrow> EqualFold s t"
  by (simp_all add: EqualFold_def)

lemma HasPrefix_append [simp]: "HasPrefix (p @ s) p"
  by (simp add: HasPrefix_def)

lemma HasPrefix_iff: "HasPrefix s p \<longleftrightarrow> (\<exists>r. s = p @ r)"
  by (metis HasPrefix_def append_eq_conv_conj)

lemma TrimPrefix_append [simp]: "TrimPrefix (p @ s) p = s"
  by (simp add: TrimPrefix_def)

lemma TrimPrefix_no_prefix: "\<not> HasPrefix s p \<Longrightarrow> TrimPrefix s p = s"
  by (simp add: TrimPrefix_def)

lemma split_on_nonempty [simp]: "split_on sep s \<noteq> []"
  by (cases s) (auto split: list.splits)

lemma split_on_hd_takeWhile: "hd (split_on sep s) = takeWhile (\<lambda>c. c \<noteq> sep) s"
  by (induction s) (auto split: list.splits)

section \<open>Slices\<close>

text \<open>
  The loop \<^verbatim>\<open>for _, x := range xs { if p(x) { out = append(out, x); break } }\<close> keeps the first
  match only.
\<close>

definition first_match :: "('a \<Rightarrow> bool) \<Rightarrow> 'a list \<Rightarrow> 'a list" where
  "first_match p xs = (case List.find p xs of None \<Rightarrow> [] | Some x \<Rightarrow> [x])"

lemma find_SomeD: "List.find p xs = Some x \<Longrightarrow> x \<in> set xs \<and> p x"
  by (metis find_Some_iff nth_mem)

lemma first_match_length: "length (first_match p xs) \<le> 1"
  by (simp add: first_match_def split: option.splits)

lemma first_match_Nil_iff: "first_match p xs = [] \<longleftrightarrow> (\<forall>x \<in> set xs. \<not> p x)"
  by (auto simp: first_match_def find_None_iff find_Some_iff split: option.splits)

lemma find_append:
  "List.find p (xs @ ys) = (case List.find p xs of None \<Rightarrow> List.find p ys | Some x \<Rightarrow> Some x)"
  by (induction xs) auto

lemma first_match_mem: "x \<in> set (first_match p xs) \<Longrightarrow> x \<in> set xs \<and> p x"
  by (cases "List.find p xs") (auto simp: first_match_def dest: find_SomeD)

lemma set_first_match_filter: "set (first_match q (filter p xs)) \<subseteq> {x \<in> set xs. p x}"
  by (auto dest!: first_match_mem)

end
