(* ===== verification/Kube_Api.thy ===== *)
theory Kube_Api
  imports Go_Prelude
begin

text \<open>
  The world the program talks to. The API server, the impersonating client factory, the random
  source, the clock and the packages of the Kubermatic SDK are not part of this repository: they
  are fields of one record that every definition takes as an argument. The state \<open>'s\<close> they act
  on is a type variable, and nothing is known of it but what a theorem states as a hypothesis.

  The records below carry the fields of the API objects that the modelled code reads or writes.
  A Go map of strings is an association list read with \<^const>\<open>map_of\<close>; a nil map and an
  empty one are the same, except for the data of a secret, where writing to a nil map panics.
\<close>

section \<open>API objects\<close>

type_synonym time = int \<comment> \<open>nanoseconds since the zero \<^verbatim>\<open>time.Time\<close>\<close>
type_synonym smap = "(string \<times> string) list"

record owner_ref =
  or_apiVersion :: string
  or_kind :: string
  or_uid :: string
  or_name :: string

record objmeta =
  om_name :: string
  om_namespace :: string
  om_uid :: string
  om_labels :: smap
  om_annotations :: smap
  om_creationTimestamp :: time
  om_deletionTimestamp :: "time option"
  om_ownerReferences :: "owner_ref list"

record UserSettings =
  uset_selectedProjectID :: string
  uset_useClustersView :: bool
  uset_other :: string \<comment> \<open>the fields no modelled code reads, as JSON text\<close>

record user = objmeta +
  us_name :: string
  us_email :: string
  us_groups :: "string list"
  us_isAdmin :: bool
  us_isGlobalViewer :: bool
  us_project :: string
  us_settings :: "UserSettings option"
  us_readAnnouncements :: "string list"
  us_invalidTokensReference :: "(string \<times> string) option" \<comment> \<open>namespace, name\<close>
  us_lastSeen :: time

record upb = objmeta +
  upb_projectID :: string
  upb_userEmail :: string
  upb_group :: string

record gpb = objmeta +
  gpb_projectID :: string
  gpb_group :: string
  gpb_role :: string

record project = objmeta +
  pr_name :: string
  pr_allowedOperatingSystems :: "(string \<times> bool) list"
  pr_phase :: string

record secret = objmeta +
  sec_data :: "smap option" \<comment> \<open>\<^const>\<open>None\<close> is a nil map\<close>
  sec_type :: string

record settings = objmeta +
  gs_userProjectsLimit :: int
  gs_restrictProjectCreation :: bool
  gs_restrictProjectDeletion :: bool
  gs_restrictProjectModification :: bool
  gs_enableDashboard :: bool
  gs_enableExternalClusterImport :: bool
  gs_enableOIDCKubeconfig :: bool
  gs_enableShareCluster :: "bool option"
  gs_displayDemoInfo :: bool
  gs_displayAPIDocs :: bool
  gs_displayTermsOfService :: bool
  gs_defaultNodeCount :: int
  gs_customLinks :: "string list"
  gs_cleanupOptions :: "bool \<times> bool" \<comment> \<open>enabled, enforced\<close>
  gs_vmResourceQuota :: "(int \<times> int \<times> int \<times> int \<times> bool) option" \<comment> \<open>CPU and RAM bounds, GPU\<close>
  gs_webTerminalEnabled :: "bool option option"

definition blank_meta :: objmeta where
  "blank_meta = \<lparr>om_name = [], om_namespace = [], om_uid = [], om_labels = [], om_annotations = [],
     om_creationTimestamp = 0, om_deletionTimestamp = None, om_ownerReferences = []\<rparr>"

text \<open>Zero values of the Go structs, to which the code assigns fields.\<close>

definition zero_user :: user where
  "zero_user = objmeta.extend blank_meta (user.fields [] [] [] False False [] None [] None 0)"

definition zero_upb :: upb where
  "zero_upb = objmeta.extend blank_meta (upb.fields [] [] [])"

definition zero_project :: project where
  "zero_project = objmeta.extend blank_meta (project.fields [] [] [])"

definition zero_secret :: secret where
  "zero_secret = objmeta.extend blank_meta (secret.fields None [])"

lemmas zero_defs = zero_user_def zero_upb_def zero_project_def zero_secret_def blank_meta_def
  objmeta.extend_def user.fields_def upb.fields_def project.fields_def secret.fields_def

text \<open>Reading a Go map, nil or not.\<close>

definition data_lookup :: "smap option \<Rightarrow> string \<Rightarrow> string option" where
  "data_lookup d k = (case d of None \<Rightarrow> None | Some m \<Rightarrow> map_of m k)"

text \<open>Indexing a map of strings gives the empty string for a key it does not have.\<close>

definition mget :: "smap \<Rightarrow> string \<Rightarrow> string" where
  "mget m k = (case map_of m k of None \<Rightarrow> [] | Some v \<Rightarrow> v)"

section \<open>The client of the API server\<close>

datatype selector = Everything | LabelEquals string string | Both selector selector

fun selects :: "selector \<Rightarrow> smap \<Rightarrow> bool" where
  "selects Everything ls = True"
| "selects (LabelEquals k v) ls = (map_of ls k = Some v)"
| "selects (Both a b) ls = (selects a ls \<and> selects b ls)"

text \<open>\<^verbatim>\<open>labels.SelectorFromSet\<close>.\<close>

definition SelectorFromSet :: "smap \<Rightarrow> selector" where
  "SelectorFromSet m = foldr (\<lambda>(k, v). Both (LabelEquals k v)) m Everything"

lemma selects_SelectorFromSet [simp]: "selects (SelectorFromSet m) ls = (\<forall>(k, v) \<in> set m. map_of ls k = Some v)"
  by (induction m) (auto simp: SelectorFromSet_def)

type_synonym okey = "string \<times> string" \<comment> \<open>namespace, name\<close>

definition key_of :: "'a objmeta_scheme \<Rightarrow> okey" where
  "key_of m = (om_namespace m, om_name m)"

text \<open>
  \<^verbatim>\<open>ctrlruntimeclient.Client\<close> at one kind of object. Create, Update and the status patch return
  the object as the server answered it, since the Go client overwrites its argument with it.
\<close>

record ('o, 's) kclient =
  kGet :: "okey \<Rightarrow> 's \<Rightarrow> 'o result"
  kList :: "selector \<Rightarrow> 's \<Rightarrow> 'o list result"
  kCreate :: "'o \<Rightarrow> ('s, 'o) act"
  kUpdate :: "'o \<Rightarrow> ('s, 'o) act"
  kDelete :: "okey \<Rightarrow> ('s, unit) act"
  kPatchStatus :: "'o \<Rightarrow> 'o \<Rightarrow> ('s, 'o) act"

record 's clientset =
  cs_users :: "(user, 's) kclient"
  cs_upbs :: "(upb, 's) kclient"
  cs_gpbs :: "(gpb, 's) kclient"
  cs_projects :: "(project, 's) kclient"
  cs_secrets :: "(secret, 's) kclient"
  cs_settings :: "(settings, 's) kclient"

abbreviation getA :: "('o, 's) kclient \<Rightarrow> okey \<Rightarrow> ('s, 'o) act" where
  "getA c k \<equiv> readA (kGet c k)"

abbreviation listA :: "('o, 's) kclient \<Rightarrow> selector \<Rightarrow> ('s, 'o list) act" where
  "listA c sel \<equiv> readA (kList c sel)"

section \<open>The Kubermatic SDK and the environment\<close>

record blacklistToken =
  bt_token :: string
  bt_expiry :: time

text \<open>
  Functions and constants of \<^verbatim>\<open>k8c.io/kubermatic\<close> and \<^verbatim>\<open>k8s.io/apimachinery\<close> that the code
  calls. The JSON form of the token blacklist is here too: \<^verbatim>\<open>encoding/json\<close> with the time
  format of \<^verbatim>\<open>api/v1/time.go\<close>.
\<close>

record sdk =
  isSA :: "string \<Rightarrow> bool" \<comment> \<open>\<^verbatim>\<open>IsProjectServiceAccount\<close>\<close>
  ensureSA :: "string \<Rightarrow> string" \<comment> \<open>\<^verbatim>\<open>EnsureProjectServiceAccountPrefix\<close>\<close>
  removeSA :: "string \<Rightarrow> string" \<comment> \<open>\<^verbatim>\<open>RemoveProjectServiceAccountPrefix\<close>\<close>
  groupNameFor :: "string \<Rightarrow> string \<Rightarrow> string" \<comment> \<open>\<^verbatim>\<open>rbac.GenerateActualGroupNameFor\<close>\<close>
  rbacGroupPrefix :: "string \<Rightarrow> string" \<comment> \<open>\<^verbatim>\<open>rbac.ExtractGroupPrefix\<close>\<close>
  allGroupsPrefixes :: "string list"
  ownerGroupPrefix :: string
  editorGroupPrefix :: string
  viewerGroupPrefix :: string
  projectManagerGroupPrefix :: string
  projectIDLabelKey :: string
  workerNameLabelKey :: string
  isCredentialPresetLabelKey :: string
  adminGrantedByGroupAnnotation :: string
  kubermaticNamespace :: string
  tokenBlacklistKey :: string
  globalSettingsName :: string
  projectActive :: string
  userAPIVersion :: string \<comment> \<open>\<^verbatim>\<open>SchemeGroupVersion.String()\<close>\<close>
  userKindName :: string
  invalidTokensSecretName :: "user \<Rightarrow> string"
  sha256hex :: "string \<Rightarrow> string"
  newRequirement :: "string \<Rightarrow> string \<Rightarrow> selector result" \<comment> \<open>\<^verbatim>\<open>labels.NewRequirement(k, Equals, v)\<close>\<close>
  parseSelector :: "string \<Rightarrow> string \<Rightarrow> selector result" \<comment> \<open>\<^verbatim>\<open>labels.Parse("k=v")\<close>\<close>
  marshalTokens :: "blacklistToken list \<Rightarrow> string result"
  unmarshalTokens :: "string \<Rightarrow> blacklistToken list result"

record 's env = sdk +
  privileged :: "'s clientset"
  impersonated :: "string \<Rightarrow> string list \<Rightarrow> 's clientset result"
  randString :: "'s \<Rightarrow> string \<times> 's"
  clock :: "'s \<Rightarrow> time \<times> 's"
  saDomain :: string

definition randA :: "('s, 'x) env_scheme \<Rightarrow> ('s, string) act" where
  "randA E = (\<lambda>s. case randString E s of (r, s') \<Rightarrow> (Inr r, s'))"

definition nowA :: "('s, 'x) env_scheme \<Rightarrow> ('s, time) act" where
  "nowA E = (\<lambda>s. case clock E s of (r, s') \<Rightarrow> (Inr r, s'))"

lemma randA_run [simp, act_simps]: "randString E s = (r, t) \<Longrightarrow> randA E s = (Inr r, t)"
  by (simp add: randA_def)

lemma nowA_run [simp, act_simps]: "clock E s = (r, t) \<Longrightarrow> nowA E s = (Inr r, t)"
  by (simp add: nowA_def)

section \<open>Documented behaviour of the environment, as hypotheses\<close>

text \<open>The service account helpers add, test and strip one prefix.\<close>

definition sa_helpers_ok :: "'x sdk_scheme \<Rightarrow> bool" where
  "sa_helpers_ok K \<longleftrightarrow>
     (\<forall>n. isSA K (ensureSA K n)) \<and>
     (\<forall>n. isSA K n \<longrightarrow> ensureSA K n = n) \<and>
     (\<forall>n. \<not> isSA K n \<longrightarrow> removeSA K (ensureSA K n) = n) \<and>
     (\<forall>n. isSA K n \<and> \<not> isSA K (removeSA K n) \<longrightarrow> ensureSA K (removeSA K n) = n) \<and>
     (\<forall>n d. isSA K n \<longrightarrow> isSA K (n @ d))"

text \<open>The label selectors built for a valid label value select that value.\<close>

definition selectors_ok :: "'x sdk_scheme \<Rightarrow> bool" where
  "selectors_ok K \<longleftrightarrow>
     (\<forall>k v sel. newRequirement K k v = Inr sel \<longrightarrow> sel = LabelEquals k v) \<and>
     (\<forall>k v sel. parseSelector K k v = Inr sel \<longrightarrow> sel = LabelEquals k v)"

text \<open>
  A client that works on the objects \<open>view s\<close> stored in the state: lists are complete, a get finds
  the object with the key, a successful create adds the object (the server may set the creation
  time and the uid, the rest is kept), a delete removes it, an update replaces it. Failing calls
  leave the store alone.
\<close>

definition same_object :: "'a objmeta_scheme \<Rightarrow> 'a objmeta_scheme \<Rightarrow> bool" where
  "same_object a b \<longleftrightarrow>
     key_of a = key_of b \<and> om_labels a = om_labels b \<and> om_annotations a = om_annotations b \<and>
     om_ownerReferences a = om_ownerReferences b \<and> objmeta.more a = objmeta.more b"

definition list_ok :: "('s \<Rightarrow> 'a objmeta_scheme list) \<Rightarrow> ('a objmeta_scheme, 's) kclient \<Rightarrow> bool" where
  "list_ok view c \<longleftrightarrow>
     (\<forall>sel s. kList c sel s = Inr (filter (\<lambda>x. selects sel (om_labels x)) (view s)))"

definition get_ok :: "('s \<Rightarrow> 'a objmeta_scheme list) \<Rightarrow> ('a objmeta_scheme, 's) kclient \<Rightarrow> bool" where
  "get_ok view c \<longleftrightarrow>
     (\<forall>k s. kGet c k s =
        (case List.find (\<lambda>x. key_of x = k) (view s) of None \<Rightarrow> Inl NewNotFound | Some x \<Rightarrow> Inr x))"

definition create_ok :: "('s \<Rightarrow> 'a objmeta_scheme list) \<Rightarrow> ('a objmeta_scheme, 's) kclient \<Rightarrow> bool" where
  "create_ok view c \<longleftrightarrow>
     (\<forall>x s x' s'. kCreate c x s = (Inr x', s') \<longrightarrow>
        same_object x' x \<and> view s' = view s @ [x'] \<and> key_of x \<notin> key_of ` set (view s)) \<and>
     (\<forall>x s e s'. kCreate c x s = (Inl e, s') \<longrightarrow> view s' = view s)"

definition delete_ok :: "('s \<Rightarrow> 'a objmeta_scheme list) \<Rightarrow> ('a objmeta_scheme, 's) kclient \<Rightarrow> bool" where
  "delete_ok view c \<longleftrightarrow>
     (\<forall>k s s'. kDelete c k s = (Inr (), s') \<longrightarrow> view s' = filter (\<lambda>x. key_of x \<noteq> k) (view s)) \<and>
     (\<forall>k s e s'. kDelete c k s = (Inl e, s') \<longrightarrow> view s' = view s)"

definition update_ok :: "('s \<Rightarrow> 'a objmeta_scheme list) \<Rightarrow> ('a objmeta_scheme, 's) kclient \<Rightarrow> bool" where
  "update_ok view c \<longleftrightarrow>
     (\<forall>x s x' s'. kUpdate c x s = (Inr x', s') \<longrightarrow>
        same_object x' x \<and>
        view s' = map (\<lambda>y. if key_of y = key_of x then x' else y) (view s)) \<and>
     (\<forall>x s e s'. kUpdate c x s = (Inl e, s') \<longrightarrow> view s' = view s)"

text \<open>Stored objects have distinct keys.\<close>

definition keys_ok :: "'a objmeta_scheme list \<Rightarrow> bool" where
  "keys_ok xs \<longleftrightarrow> distinct (map key_of xs)"

lemma list_okD:
  "list_ok view c \<Longrightarrow> kList c sel s = Inr (filter (\<lambda>x. selects sel (om_labels x)) (view s))"
  by (simp add: list_ok_def)

lemma list_ok_Everything [simp]: "list_ok view c \<Longrightarrow> kList c Everything s = Inr (view s)"
  by (simp add: list_ok_def)

lemma create_okD:
  assumes "create_ok view c" and "kCreate c x s = (Inr x', s')"
  shows "same_object x' x" and "view s' = view s @ [x']" and "key_of x \<notin> key_of ` set (view s)"
  using assms unfolding create_ok_def by blast+

lemma create_ok_failD: "create_ok view c \<Longrightarrow> kCreate c x s = (Inl e, s') \<Longrightarrow> view s' = view s"
  unfolding create_ok_def by blast

lemma delete_okD:
  "delete_ok view c \<Longrightarrow> kDelete c k s = (Inr (), s') \<Longrightarrow>
     view s' = filter (\<lambda>x. key_of x \<noteq> k) (view s)"
  unfolding delete_ok_def by blast

lemma delete_ok_failD: "delete_ok view c \<Longrightarrow> kDelete c k s = (Inl e, s') \<Longrightarrow> view s' = view s"
  unfolding delete_ok_def by blast

lemma update_okD:
  assumes "update_ok view c" and "kUpdate c x s = (Inr x', s')"
  shows "same_object x' x"
    and "view s' = map (\<lambda>y. if key_of y = key_of x then x' else y) (view s)"
  using assms unfolding update_ok_def by blast+

lemma update_ok_failD: "update_ok view c \<Longrightarrow> kUpdate c x s = (Inl e, s') \<Longrightarrow> view s' = view s"
  unfolding update_ok_def by blast

lemma same_objectD:
  assumes "same_object a b"
  shows "om_name a = om_name b" and "om_namespace a = om_namespace b" and "key_of a = key_of b"
    and "om_labels a = om_labels b" and "om_ownerReferences a = om_ownerReferences b"
    and "objmeta.more a = objmeta.more b"
  using assms by (auto simp: same_object_def key_of_def)

end
