(* ===== verification/Provider_Types.thy ===== *)
theory Provider_Types
  imports Kube_Api
begin

text \<open>
  The interfaces of \<^verbatim>\<open>pkg/provider/types.go\<close>: the option structs, the authenticated user and one
  record of operations per Go interface. A handler takes these records as arguments, as the Go
  endpoint takes values of the interface types, so it is modelled independently of the
  implementation it is wired to. A pointer the code compares with nil is an \<open>option\<close>.
\<close>

section \<open>Structs\<close>

record UserInfo =
  ui_email :: string
  ui_groups :: "string list"
  ui_roles :: "string set"
  ui_isAdmin :: bool
  ui_isGlobalViewer :: bool

record ProjectGetOptions =
  includeUninitialized :: bool

record ProjectListOptions =
  plo_projectName :: string

record ProjectMemberListOptions =
  memberEmail :: string
  skipPrivilegeVerification :: bool

record ServiceAccountGetOptions =
  removePrefix :: bool

record ServiceAccountListOptions =
  serviceAccountName :: string

record ServiceAccountTokenListOptions =
  opt_tokenID :: string
  opt_tokenName :: string
  opt_labelSelector :: "selector option"
  opt_serviceAccountID :: string

record ProjectSpec =
  ps_name :: string
  ps_allowedOperatingSystems :: "(string \<times> bool) list"

definition ViewersRole :: string where "ViewersRole = ''viewers''"
definition EditorsRole :: string where "EditorsRole = ''editors''"
definition OwnersRole :: string where "OwnersRole = ''owners''"

lemmas role_defs = ViewersRole_def EditorsRole_def OwnersRole_def

text \<open>\<^verbatim>\<open>fmt.Sprintf("%s-%s", group, projectID)\<close>: a group name made specific to a project.\<close>

definition suffixed :: "string \<Rightarrow> string \<Rightarrow> string" where
  "suffixed g pid = g @ ''-'' @ pid"

text \<open>A user info getter, given the request's context, maps a project id to the caller's rights.\<close>

type_synonym 's UserInfoGetter = "string \<Rightarrow> ('s, UserInfo) act"

section \<open>Interfaces\<close>

record 's ProjectMemberMapper =
  mm_MapUserToGroup :: "string \<Rightarrow> string \<Rightarrow> ('s, string) act"
  mm_MappingsFor :: "string \<Rightarrow> ('s, upb list) act"
  mm_GroupMappingsFor :: "string list \<Rightarrow> ('s, gpb list) act"
  mm_MapUserToRoles :: "user \<Rightarrow> string \<Rightarrow> ('s, string set) act"
  mm_MapUserToGroups :: "user \<Rightarrow> string \<Rightarrow> ('s, string set) act"

record 's ProjectMemberProvider =
  mp_Create :: "UserInfo \<Rightarrow> project \<Rightarrow> string \<Rightarrow> string \<Rightarrow> ('s, upb) act"
  mp_List :: "UserInfo \<Rightarrow> project \<Rightarrow> ProjectMemberListOptions option \<Rightarrow> ('s, upb list) act"
  mp_Delete :: "UserInfo \<Rightarrow> string \<Rightarrow> ('s, unit) act"
  mp_Update :: "UserInfo \<Rightarrow> upb \<Rightarrow> ('s, upb) act"

record 's PrivilegedProjectMemberProvider =
  pmp_CreateUnsecured :: "project \<Rightarrow> string \<Rightarrow> string \<Rightarrow> ('s, upb) act"
  pmp_CreateUnsecuredForServiceAccount :: "project \<Rightarrow> string \<Rightarrow> string \<Rightarrow> ('s, upb) act"
  pmp_DeleteUnsecured :: "string \<Rightarrow> ('s, unit) act"
  pmp_UpdateUnsecured :: "upb \<Rightarrow> ('s, upb) act"

record 's UserProvider =
  up_UserByEmail :: "string \<Rightarrow> ('s, user) act"
  up_CreateUser :: "string \<Rightarrow> string \<Rightarrow> string list \<Rightarrow> ('s, user) act"
  up_UpdateUser :: "user \<Rightarrow> ('s, user) act"
  up_UserByID :: "string \<Rightarrow> ('s, user) act"
  up_InvalidateToken :: "user option \<Rightarrow> string \<Rightarrow> time \<Rightarrow> ('s, unit) act"
  up_GetInvalidatedTokens :: "user option \<Rightarrow> ('s, string list) act"
  up_List :: "('s, user list) act"

record 's ProjectProvider =
  pp_New :: "ProjectSpec \<Rightarrow> smap \<Rightarrow> ('s, project) act"
  pp_Delete :: "UserInfo option \<Rightarrow> string \<Rightarrow> ('s, unit) act"
  pp_Get :: "UserInfo option \<Rightarrow> string \<Rightarrow> ProjectGetOptions option \<Rightarrow> ('s, project) act"
  pp_Update :: "UserInfo option \<Rightarrow> project \<Rightarrow> ('s, project) act"
  pp_List :: "ProjectListOptions option \<Rightarrow> ('s, project list) act"

record 's PrivilegedProjectProvider =
  ppp_GetUnsecured :: "string \<Rightarrow> ProjectGetOptions option \<Rightarrow> ('s, project) act"
  ppp_DeleteUnsecured :: "string \<Rightarrow> ('s, unit) act"
  ppp_UpdateUnsecured :: "project \<Rightarrow> ('s, project) act"

record 's ServiceAccountProvider =
  sap_Create :: "UserInfo \<Rightarrow> project option \<Rightarrow> string \<Rightarrow> string \<Rightarrow> ('s, user) act"
  sap_List :: "UserInfo option \<Rightarrow> project option \<Rightarrow> ServiceAccountListOptions option \<Rightarrow> ('s, user list) act"
  sap_Get :: "UserInfo option \<Rightarrow> string \<Rightarrow> ServiceAccountGetOptions option \<Rightarrow> ('s, user) act"
  sap_Update :: "UserInfo option \<Rightarrow> user option \<Rightarrow> ('s, user) act"
  sap_Delete :: "UserInfo option \<Rightarrow> string \<Rightarrow> ('s, unit) act"

record 's PrivilegedServiceAccountProvider =
  psap_Create :: "project option \<Rightarrow> string \<Rightarrow> string \<Rightarrow> ('s, user) act"
  psap_List :: "project option \<Rightarrow> ServiceAccountListOptions option \<Rightarrow> ('s, user list) act"
  psap_Get :: "string \<Rightarrow> ServiceAccountGetOptions option \<Rightarrow> ('s, user) act"
  psap_Update :: "user option \<Rightarrow> ('s, user) act"
  psap_Delete :: "string \<Rightarrow> ('s, unit) act"

record 's ServiceAccountTokenProvider =
  stp_Create :: "UserInfo option \<Rightarrow> user option \<Rightarrow> string \<Rightarrow> string \<Rightarrow> string \<Rightarrow> string \<Rightarrow> ('s, secret) act"
  stp_List :: "UserInfo option \<Rightarrow> project option \<Rightarrow> user option \<Rightarrow>
      ServiceAccountTokenListOptions option \<Rightarrow> ('s, secret list) act"
  stp_Get :: "UserInfo option \<Rightarrow> string \<Rightarrow> ('s, secret) act"
  stp_Update :: "UserInfo option \<Rightarrow> secret option \<Rightarrow> ('s, secret) act"
  stp_Delete :: "UserInfo option \<Rightarrow> string \<Rightarrow> ('s, unit) act"

record 's PrivilegedServiceAccountTokenProvider =
  pstp_ListUnsecured :: "ServiceAccountTokenListOptions option \<Rightarrow> ('s, secret list) act"
  pstp_CreateUnsecured :: "user option \<Rightarrow> string \<Rightarrow> string \<Rightarrow> string \<Rightarrow> string \<Rightarrow> ('s, secret) act"
  pstp_GetUnsecured :: "string \<Rightarrow> ('s, secret) act"
  pstp_UpdateUnsecured :: "secret option \<Rightarrow> ('s, secret) act"
  pstp_DeleteUnsecured :: "string \<Rightarrow> ('s, unit) act"

record 's SettingsProvider =
  sp_GetGlobalSettings :: "('s, settings) act"
  sp_UpdateGlobalSettings :: "UserInfo \<Rightarrow> settings \<Rightarrow> ('s, settings) act"

record Admin =
  ad_email :: string
  ad_isAdmin :: "bool option"
  ad_isGlobalViewer :: "bool option"

record 's AdminProvider =
  ap_SetAdmin :: "UserInfo \<Rightarrow> Admin \<Rightarrow> ('s, user) act"
  ap_GetAdmins :: "UserInfo \<Rightarrow> ('s, user list) act"

section \<open>Secret key selectors\<close>

text \<open>\<^verbatim>\<open>SecretKeySelectorValueFuncFactory\<close>: the value of one key of a referenced secret.\<close>

definition secretKeySelectorValue ::
  "(secret, 's) kclient \<Rightarrow> (string \<times> string) option \<Rightarrow> string \<Rightarrow> ('s, string) act" where
  "secretKeySelectorValue c configVar key =
     (case configVar of
        None \<Rightarrow> failA (Plain ''configVar is nil'')
      | Some (ns, name) \<Rightarrow>
          if name = [] then failA (Plain ''configVar.Name is empty'')
          else if ns = [] then failA (Plain ''configVar.Namespace is empty'')
          else if key = [] then failA (Plain ''key is empty'')
          else bindA (wrapA Wrapped (getA c (ns, name))) (\<lambda>secret.
            case data_lookup (sec_data secret) key of
              None \<Rightarrow> failA (Plain ''secret has no key'')
            | Some v \<Rightarrow> retA v))"

lemma reads_secretKeySelectorValue [reads_intros]: "reads (secretKeySelectorValue c r k)"
  unfolding secretKeySelectorValue_def
  by (cases r) (auto intro!: reads_intros)

end
