(* ===== verification/Member_Provider.thy ===== *)
theory Member_Provider
  imports Provider_Types
begin

text \<open>
  Project membership: \<^verbatim>\<open>pkg/provider/kubernetes/member.go\<close>, the impersonation helper of
  \<^verbatim>\<open>util.go\<close>, \<^verbatim>\<open>ExtractGroupPrefix\<close> of \<^verbatim>\<open>pkg/api/v1/types.go\<close> and the user info getter of
  \<^verbatim>\<open>pkg/provider/userinfo.go\<close>. Bindings of users and of identity provider groups to projects
  decide in which groups a caller is impersonated and which roles the handlers see.
\<close>

section \<open>Operations\<close>

definition createImpersonationClientWrapperFromUserInfo ::
  "('s, 'x) env_scheme \<Rightarrow> UserInfo \<Rightarrow> ('s, 's clientset) act" where
  "createImpersonationClientWrapperFromUserInfo E userInfo =
     liftA (impersonated E (ui_email userInfo) (ui_groups userInfo))"

definition ExtractGroupPrefix :: "string \<Rightarrow> string" where
  "ExtractGroupPrefix groupName =
     (case split_on (CHR ''-'') groupName of [] \<Rightarrow> groupName | w # _ \<Rightarrow> w)"

definition genBinding :: "('s, 'x) env_scheme \<Rightarrow> project \<Rightarrow> string \<Rightarrow> string \<Rightarrow> ('s, upb) act" where
  "genBinding E project email grp =
     bindA (randA E) (\<lambda>name.
       retA (zero_upb\<lparr>om_name := name, upb_projectID := om_name project,
                      upb_userEmail := email, upb_group := grp\<rparr>))"

definition member_Create ::
  "('s, 'x) env_scheme \<Rightarrow> UserInfo \<Rightarrow> project \<Rightarrow> string \<Rightarrow> string \<Rightarrow> ('s, upb) act" where
  "member_Create E userInfo project email grp =
     (if isSA E email then failA NewBadRequest
      else bindA (genBinding E project email grp) (\<lambda>binding.
           bindA (createImpersonationClientWrapperFromUserInfo E userInfo) (\<lambda>client.
             kCreate (cs_upbs client) binding)))"

definition member_List ::
  "('s, 'x) env_scheme \<Rightarrow> UserInfo \<Rightarrow> project \<Rightarrow> ProjectMemberListOptions option \<Rightarrow> ('s, upb list) act" where
  "member_List E userInfo project options =
     bindA (listA (cs_upbs (privileged E)) Everything) (\<lambda>allMembers.
       let projectMembers = filter (\<lambda>m. upb_projectID m = om_name project \<and> \<not> isSA E (upb_userEmail m)) allMembers;
           options = (case options of None \<Rightarrow> \<lparr>memberEmail = [], skipPrivilegeVerification = False\<rparr> | Some opts \<Rightarrow> opts)
       in bindA
            (case projectMembers of
               [] \<Rightarrow> retA ()
             | memberToGet # _ \<Rightarrow>
                 if skipPrivilegeVerification options then retA ()
                 else bindA (createImpersonationClientWrapperFromUserInfo E userInfo) (\<lambda>client.
                      bindA (getA (cs_upbs client) ([], om_name memberToGet)) (\<lambda>_. retA ())))
            (\<lambda>_. if memberEmail options = [] then retA projectMembers
                 else retA (first_match (\<lambda>m. EqualFold (upb_userEmail m) (memberEmail options)) projectMembers)))"

definition member_Delete :: "('s, 'x) env_scheme \<Rightarrow> UserInfo \<Rightarrow> string \<Rightarrow> ('s, unit) act" where
  "member_Delete E userInfo bindingName =
     bindA (createImpersonationClientWrapperFromUserInfo E userInfo) (\<lambda>client.
       kDelete (cs_upbs client) ([], bindingName))"

definition member_Update :: "('s, 'x) env_scheme \<Rightarrow> UserInfo \<Rightarrow> upb \<Rightarrow> ('s, upb) act" where
  "member_Update E userInfo binding =
     bindA (createImpersonationClientWrapperFromUserInfo E userInfo) (\<lambda>client.
       kUpdate (cs_upbs client) binding)"

definition getUserBindingRole ::
  "string \<Rightarrow> string \<Rightarrow> 's clientset \<Rightarrow> ('s, string) act" where
  "getUserBindingRole email projectID client =
     bindA (listA (cs_upbs client) Everything) (\<lambda>allMembers.
       case List.find (\<lambda>m. EqualFold (upb_userEmail m) email \<and> upb_projectID m = projectID) allMembers of
         None \<Rightarrow> retA []
       | Some member \<Rightarrow> retA (upb_group member))"

definition MapUserToGroup :: "('s, 'x) env_scheme \<Rightarrow> string \<Rightarrow> string \<Rightarrow> ('s, string) act" where
  "MapUserToGroup E email projectID =
     bindA (getUserBindingRole email projectID (privileged E)) (\<lambda>grp.
       if grp = [] then failA NewForbidden else retA grp)"

definition MappingsFor :: "('s, 'x) env_scheme \<Rightarrow> string \<Rightarrow> ('s, upb list) act" where
  "MappingsFor E email =
     bindA (listA (cs_upbs (privileged E)) Everything) (\<lambda>allMemberMappings.
       retA (filter (\<lambda>m. EqualFold (upb_userEmail m) email) allMemberMappings))"

definition GroupMappingsFor :: "('s, 'x) env_scheme \<Rightarrow> string list \<Rightarrow> ('s, gpb list) act" where
  "GroupMappingsFor E groups =
     bindA (listA (cs_gpbs (privileged E)) Everything) (\<lambda>allBindings.
       retA (filter (\<lambda>b. gpb_group b \<in> set groups) allBindings))"

definition MapUserToGroups :: "('s, 'x) env_scheme \<Rightarrow> user \<Rightarrow> string \<Rightarrow> ('s, string set) act" where
  "MapUserToGroups E user projectID =
     bindA (getUserBindingRole (us_email user) projectID (privileged E)) (\<lambda>userBindingGroup.
       let groups = (if userBindingGroup \<noteq> [] then {userBindingGroup} else {}) in
       bindA (GroupMappingsFor E (us_groups user)) (\<lambda>groupBindings.
         let groups = groups \<union>
               set (map (\<lambda>b. suffixed (gpb_group b) projectID)
                        (filter (\<lambda>b. gpb_projectID b = projectID) groupBindings));
             groups = (if us_isAdmin user then insert (suffixed ''owners'' projectID) groups else groups);
             groups = (if us_isGlobalViewer user then insert (suffixed ''viewers'' projectID) groups else groups)
         in if groups \<noteq> {} then retA groups else failA NewForbidden))"

definition MapUserToRoles :: "('s, 'x) env_scheme \<Rightarrow> user \<Rightarrow> string \<Rightarrow> ('s, string set) act" where
  "MapUserToRoles E user projectID =
     bindA (wrapA Wrapped (liftA (newRequirement E (projectIDLabelKey E) projectID))) (\<lambda>projectReq.
     bindA (listA (cs_gpbs (privileged E)) projectReq) (\<lambda>groupProjectBindings.
       if us_isAdmin user then retA {OwnersRole}
       else
         let roles = (if us_isGlobalViewer user then {ViewersRole} else {}) \<union>
               set (map gpb_role
                 (filter (\<lambda>b. gpb_group b \<in> set (us_groups user) \<and> gpb_projectID b = projectID) groupProjectBindings))
         in bindA (getUserBindingRole (us_email user) projectID (privileged E)) (\<lambda>userBindingRole.
              if userBindingRole = [] then retA roles
              else retA (insert (ExtractGroupPrefix userBindingRole) roles))))"

definition member_CreateUnsecured ::
  "('s, 'x) env_scheme \<Rightarrow> project \<Rightarrow> string \<Rightarrow> string \<Rightarrow> ('s, upb) act" where
  "member_CreateUnsecured E project email grp =
     (if isSA E email then failA NewBadRequest
      else bindA (genBinding E project email grp) (\<lambda>binding.
             kCreate (cs_upbs (privileged E)) binding))"

definition member_CreateUnsecuredForServiceAccount ::
  "('s, 'x) env_scheme \<Rightarrow> project \<Rightarrow> string \<Rightarrow> string \<Rightarrow> ('s, upb) act" where
  "member_CreateUnsecuredForServiceAccount E project email grp =
     (if isSA E email \<and> \<not> HasPrefix grp (projectManagerGroupPrefix E) then failA NewBadRequest
      else bindA (genBinding E project email grp) (\<lambda>binding.
             kCreate (cs_upbs (privileged E)) binding))"

definition member_DeleteUnsecured :: "('s, 'x) env_scheme \<Rightarrow> string \<Rightarrow> ('s, unit) act" where
  "member_DeleteUnsecured E bindingName = kDelete (cs_upbs (privileged E)) ([], bindingName)"

definition member_UpdateUnsecured :: "('s, 'x) env_scheme \<Rightarrow> upb \<Rightarrow> ('s, upb) act" where
  "member_UpdateUnsecured E binding = kUpdate (cs_upbs (privileged E)) binding"

text \<open>The Go values handed to the handlers at the interface types.\<close>

definition kube_memberMapper :: "('s, 'x) env_scheme \<Rightarrow> 's ProjectMemberMapper" where
  "kube_memberMapper E = \<lparr>mm_MapUserToGroup = MapUserToGroup E, mm_MappingsFor = MappingsFor E,
     mm_GroupMappingsFor = GroupMappingsFor E, mm_MapUserToRoles = MapUserToRoles E,
     mm_MapUserToGroups = MapUserToGroups E\<rparr>"

definition kube_memberProvider :: "('s, 'x) env_scheme \<Rightarrow> 's ProjectMemberProvider" where
  "kube_memberProvider E = \<lparr>mp_Create = member_Create E, mp_List = member_List E,
     mp_Delete = member_Delete E, mp_Update = member_Update E\<rparr>"

definition kube_privilegedMemberProvider :: "('s, 'x) env_scheme \<Rightarrow> 's PrivilegedProjectMemberProvider" where
  "kube_privilegedMemberProvider E = \<lparr>pmp_CreateUnsecured = member_CreateUnsecured E,
     pmp_CreateUnsecuredForServiceAccount = member_CreateUnsecuredForServiceAccount E,
     pmp_DeleteUnsecured = member_DeleteUnsecured E, pmp_UpdateUnsecured = member_UpdateUnsecured E\<rparr>"

section \<open>The user info getter\<close>

text \<open>
  \<open>ctxUser\<close> is the user object the middleware stored in the request's context, if it did. The
  branch of the loop for a non-empty project id is dead code of the source, kept as it is.
\<close>

definition UserInfoGetterFactory ::
  "'s ProjectMemberMapper \<Rightarrow> user option \<Rightarrow> 's UserInfoGetter" where
  "UserInfoGetterFactory mapper ctxUser projectID =
     (case ctxUser of
        None \<Rightarrow> failA (Plain ''unable to get authenticated user object'')
      | Some user \<Rightarrow>
          let info = (\<lambda>groups roles. \<lparr>ui_email = us_email user, ui_groups = sorted_list_of_set groups,
                        ui_roles = roles, ui_isAdmin = us_isAdmin user,
                        ui_isGlobalViewer = us_isGlobalViewer user\<rparr>)
          in if projectID \<noteq> [] then
               bindA (mm_MapUserToGroups mapper user projectID) (\<lambda>groups.
               bindA (mm_MapUserToRoles mapper user projectID) (\<lambda>roles.
                 retA (info groups roles)))
             else
               retA (info (set (map (\<lambda>grp. if projectID \<noteq> [] then suffixed grp projectID else grp)
                                    (us_groups user))) {}))"


section \<open>The operations only read, or write one binding\<close>

lemma reads_createImpersonation [reads_intros]:
  "reads (createImpersonationClientWrapperFromUserInfo E u)"
  unfolding createImpersonationClientWrapperFromUserInfo_def by (intro reads_intros)

lemma reads_member_List [reads_intros]: "reads (member_List E u p opts)"
  unfolding member_List_def by (intro reads_intros)

lemma reads_getUserBindingRole [reads_intros]: "reads (getUserBindingRole e p c)"
  unfolding getUserBindingRole_def by (intro reads_intros)

lemma reads_MapUserToGroup [reads_intros]: "reads (MapUserToGroup E e p)"
  unfolding MapUserToGroup_def by (intro reads_intros)

lemma reads_MappingsFor [reads_intros]: "reads (MappingsFor E e)"
  unfolding MappingsFor_def by (intro reads_intros)

lemma reads_GroupMappingsFor [reads_intros]: "reads (GroupMappingsFor E gs)"
  unfolding GroupMappingsFor_def by (intro reads_intros)

lemma reads_MapUserToGroups [reads_intros]: "reads (MapUserToGroups E u p)"
  unfolding MapUserToGroups_def by (intro reads_intros)

lemma reads_MapUserToRoles [reads_intros]: "reads (MapUserToRoles E u p)"
  unfolding MapUserToRoles_def by (intro reads_intros)

section \<open>What the mapper computes\<close>

text \<open>
  The abstract view: the group of the first binding of the user in the project, and the set of
  groups and roles that bindings, the admin flag and the global viewer flag grant.
\<close>

definition own_binding :: "upb list \<Rightarrow> string \<Rightarrow> string \<Rightarrow> string" where
  "own_binding ms email pid =
     (case List.find (\<lambda>m. EqualFold (upb_userEmail m) email \<and> upb_projectID m = pid) ms of
        None \<Rightarrow> [] | Some m \<Rightarrow> upb_group m)"

definition granted_groups :: "upb list \<Rightarrow> gpb list \<Rightarrow> user \<Rightarrow> string \<Rightarrow> string set" where
  "granted_groups ms gs u pid =
     {g. g \<noteq> [] \<and> g = own_binding ms (us_email u) pid} \<union>
     {suffixed (gpb_group b) pid | b. b \<in> set gs \<and> gpb_group b \<in> set (us_groups u) \<and> gpb_projectID b = pid} \<union>
     {g. us_isAdmin u \<and> g = suffixed ''owners'' pid} \<union>
     {g. us_isGlobalViewer u \<and> g = suffixed ''viewers'' pid}"

definition granted_roles :: "upb list \<Rightarrow> gpb list \<Rightarrow> user \<Rightarrow> string \<Rightarrow> string set" where
  "granted_roles ms gs u pid =
     (if us_isAdmin u then {OwnersRole}
      else {r. us_isGlobalViewer u \<and> r = ViewersRole} \<union>
           {gpb_role b | b. b \<in> set gs \<and> gpb_group b \<in> set (us_groups u) \<and> gpb_projectID b = pid} \<union>
           {ExtractGroupPrefix g | g. g \<noteq> [] \<and> g = own_binding ms (us_email u) pid})"

lemma own_binding_stored:
  assumes "own_binding ms email pid = g" and "g \<noteq> []"
  shows "\<exists>m \<in> set ms. EqualFold (upb_userEmail m) email \<and> upb_projectID m = pid \<and> upb_group m = g"
  using assms by (auto simp: own_binding_def split: option.splits dest!: find_SomeD)

lemma own_binding_none:
  assumes "\<forall>m \<in> set ms. \<not> (EqualFold (upb_userEmail m) email \<and> upb_projectID m = pid)"
  shows "own_binding ms email pid = []"
  using assms by (auto simp: own_binding_def split: option.splits dest!: find_SomeD)

lemma getUserBindingRole_run:
  "getUserBindingRole e p c s =
     (case kList (cs_upbs c) Everything s of Inl er \<Rightarrow> (Inl er, s) | Inr ms \<Rightarrow> (Inr (own_binding ms e p), s))"
  by (simp add: getUserBindingRole_def own_binding_def bindA_def split: sum.split option.split)

lemma GroupMappingsFor_run:
  "GroupMappingsFor E gs s =
     (case kList (cs_gpbs (privileged E)) Everything s of Inl er \<Rightarrow> (Inl er, s)
      | Inr bs \<Rightarrow> (Inr (filter (\<lambda>b. gpb_group b \<in> set gs) bs), s))"
  by (simp add: GroupMappingsFor_def bindA_def split: sum.split)

lemma MapUserToGroups_run:
  assumes ms: "kList (cs_upbs (privileged E)) Everything s = Inr ms"
    and gs: "kList (cs_gpbs (privileged E)) Everything s = Inr gs"
  shows "MapUserToGroups E u p s =
     (if granted_groups ms gs u p = {} then Inl NewForbidden else Inr (granted_groups ms gs u p), s)"
proof -
  let ?b = "if own_binding ms (us_email u) p \<noteq> [] then {own_binding ms (us_email u) p} else {}"
  let ?g = "set (map (\<lambda>b. suffixed (gpb_group b) p)
     (filter (\<lambda>b. gpb_projectID b = p) (filter (\<lambda>b. gpb_group b \<in> set (us_groups u)) gs)))"
  let ?a = "if us_isAdmin u then insert (suffixed ''owners'' p) (?b \<union> ?g) else ?b \<union> ?g"
  let ?v = "if us_isGlobalViewer u then insert (suffixed ''viewers'' p) ?a else ?a"
  have eq: "?v = granted_groups ms gs u p"
    unfolding granted_groups_def by auto
  have "MapUserToGroups E u p s = (if ?v \<noteq> {} then retA ?v else failA NewForbidden) s"
    using ms gs
    by (simp add: MapUserToGroups_def Let_def bindA_def getUserBindingRole_run GroupMappingsFor_run
        del: insert_not_empty)
  then show ?thesis unfolding eq by simp
qed

lemma MapUserToGroups_InrD:
  assumes "MapUserToGroups E u p s = (Inr G, t)"
  obtains ms gs where "kList (cs_upbs (privileged E)) Everything s = Inr ms"
    and "kList (cs_gpbs (privileged E)) Everything s = Inr gs"
    and "G = granted_groups ms gs u p" and "G \<noteq> {}" and "t = s"
proof -
  from assms obtain b t1 bs t2 where 1: "getUserBindingRole (us_email u) p (privileged E) s = (Inr b, t1)"
    and 2: "GroupMappingsFor E (us_groups u) t1 = (Inr bs, t2)"
    by (auto simp: MapUserToGroups_def Let_def bindA_eq_Inr simp del: insert_not_empty)
  have "t1 = s" using readsD[OF reads_getUserBindingRole 1] by simp
  with 1 2 obtain ms gs where l: "kList (cs_upbs (privileged E)) Everything s = Inr ms"
      "kList (cs_gpbs (privileged E)) Everything s = Inr gs"
    by (auto simp: getUserBindingRole_run GroupMappingsFor_run split: sum.splits)
  with assms show ?thesis
    by (intro that[OF l]) (auto simp: MapUserToGroups_run[OF l] split: if_splits)
qed

lemma finite_granted_groups: "finite (granted_groups ms gs u p)"
proof -
  have "{suffixed (gpb_group b) p | b. b \<in> set gs \<and> gpb_group b \<in> set (us_groups u) \<and> gpb_projectID b = p}
        \<subseteq> (\<lambda>b. suffixed (gpb_group b) p) ` set gs" by blast
  then have "finite {suffixed (gpb_group b) p | b. b \<in> set gs \<and> gpb_group b \<in> set (us_groups u) \<and> gpb_projectID b = p}"
    by (rule finite_subset) simp
  then show ?thesis unfolding granted_groups_def by simp
qed

lemma MapUserToRoles_run:
  assumes sel: "newRequirement E (projectIDLabelKey E) p = Inr sel"
    and gs: "kList (cs_gpbs (privileged E)) sel s = Inr gs"
    and ms: "kList (cs_upbs (privileged E)) Everything s = Inr ms"
  shows "MapUserToRoles E u p s = (Inr (granted_roles ms gs u p), s)"
proof (cases "us_isAdmin u")
  case True
  then show ?thesis using sel gs by (simp add: MapUserToRoles_def granted_roles_def wrapA_def bindA_def)
next
  case False
  let ?r = "(if us_isGlobalViewer u then {ViewersRole} else {}) \<union>
     set (map gpb_role (filter (\<lambda>b. gpb_group b \<in> set (us_groups u) \<and> gpb_projectID b = p) gs))"
  let ?o = "own_binding ms (us_email u) p"
  have "MapUserToRoles E u p s = (Inr (if ?o = [] then ?r else insert (ExtractGroupPrefix ?o) ?r), s)"
    using False sel gs ms
    by (simp add: MapUserToRoles_def Let_def wrapA_def bindA_def getUserBindingRole_run)
  moreover have "(if ?o = [] then ?r else insert (ExtractGroupPrefix ?o) ?r) = granted_roles ms gs u p"
    using False unfolding granted_roles_def by (auto simp del: insert_not_empty)
  ultimately show ?thesis by simp
qed

lemma admin_MapUserToRoles:
  assumes "us_isAdmin u" and "MapUserToRoles E u p s = (Inr R, t)"
  shows "R = {OwnersRole}"
  using assms by (auto simp: MapUserToRoles_def act_inv)

section \<open>The mapper's contract and its client\<close>

text \<open>
  What the handlers rely on in \<^verbatim>\<open>provider.ProjectMemberMapper\<close>: mapping a user does not change the
  world; a user who is mapped at all has some group, and an administrator is an owner.
\<close>

locale project_member_mapper =
  fixes mapper :: "'s ProjectMemberMapper"
  assumes groups_read: "reads (mm_MapUserToGroups mapper u p)"
    and roles_read: "reads (mm_MapUserToRoles mapper u p)"
    and groups_finite: "mm_MapUserToGroups mapper u p s = (Inr G, t) \<Longrightarrow> finite G \<and> G \<noteq> {}"
    and admin_owner: "us_isAdmin u \<Longrightarrow> mm_MapUserToGroups mapper u p s = (Inr G, t) \<Longrightarrow> suffixed ''owners'' p \<in> G"
    and admin_roles: "us_isAdmin u \<Longrightarrow> mm_MapUserToRoles mapper u p s = (Inr R, t) \<Longrightarrow> R = {OwnersRole}"
begin

lemma getter_reads [reads_intros]: "reads (UserInfoGetterFactory mapper ctxUser p)"
  unfolding UserInfoGetterFactory_def by (intro reads_intros groups_read roles_read)

lemma getter_no_user: "UserInfoGetterFactory mapper None p s = (Inl (Plain ''unable to get authenticated user object''), s)"
  by (simp add: UserInfoGetterFactory_def)

lemma getter_global:
  "UserInfoGetterFactory mapper (Some u) [] s =
     (Inr \<lparr>ui_email = us_email u, ui_groups = sorted_list_of_set (set (us_groups u)), ui_roles = {},
           ui_isAdmin = us_isAdmin u, ui_isGlobalViewer = us_isGlobalViewer u\<rparr>, s)"
  by (simp add: UserInfoGetterFactory_def)

lemma getter_project:
  assumes "UserInfoGetterFactory mapper (Some u) p s = (Inr i, t)" and "p \<noteq> []"
  shows "\<exists>G. mm_MapUserToGroups mapper u p s = (Inr G, s) \<and>
             mm_MapUserToRoles mapper u p s = (Inr (ui_roles i), s) \<and> t = s \<and>
             set (ui_groups i) = G \<and> sorted (ui_groups i) \<and> distinct (ui_groups i) \<and> ui_groups i \<noteq> []"
proof -
  from assms obtain G t1 R where G: "mm_MapUserToGroups mapper u p s = (Inr G, t1)"
    and R: "mm_MapUserToRoles mapper u p t1 = (Inr R, t)"
    and i: "ui_groups i = sorted_list_of_set G" "ui_roles i = R"
    by (auto simp: UserInfoGetterFactory_def Let_def act_inv)
  have "t1 = s" using readsD[OF groups_read G] by simp
  moreover have "t = t1" using readsD[OF roles_read R] by simp
  moreover have "finite G" "G \<noteq> {}" using groups_finite[OF G] by auto
  ultimately show ?thesis using G R i by auto
qed

lemma getter_identity:
  assumes "UserInfoGetterFactory mapper (Some u) p s = (Inr i, t)"
  shows "ui_email i = us_email u" and "ui_isAdmin i = us_isAdmin u"
    and "ui_isGlobalViewer i = us_isGlobalViewer u" and "t = s"
  using assms readsD[OF getter_reads assms]
  by (auto simp: UserInfoGetterFactory_def Let_def act_inv split: if_splits)

lemma getter_admin:
  assumes "UserInfoGetterFactory mapper (Some u) p s = (Inr i, t)" and "p \<noteq> []" and "us_isAdmin u"
  shows "suffixed ''owners'' p \<in> set (ui_groups i)" and "ui_roles i = {OwnersRole}"
  using getter_project[OF assms(1,2)] admin_owner[OF assms(3)] admin_roles[OF assms(3)] by blast+

end

lemma mapper_groups_finite: "MapUserToGroups E u p s = (Inr G, t) \<Longrightarrow> finite G \<and> G \<noteq> {}"
  by (erule MapUserToGroups_InrD) (simp add: finite_granted_groups)

lemma mapper_admin_owner:
  assumes "us_isAdmin u" and "MapUserToGroups E u p s = (Inr G, t)"
  shows "suffixed ''owners'' p \<in> G"
  using assms(2) by (rule MapUserToGroups_InrD) (use assms(1) in \<open>simp add: granted_groups_def\<close>)

interpretation mapper: project_member_mapper "kube_memberMapper E" for E :: "('s, 'x) env_scheme"
  by unfold_locales
    (simp_all add: kube_memberMapper_def reads_intros mapper_groups_finite mapper_admin_owner admin_MapUserToRoles)

end
