(* ===== verification/Api_Contract.thy ===== *)
theory Api_Contract
  imports Kube_Api
begin

text \<open>
  The API server's contract, over an abstract store: what is behind the clients is, as far as the
  program can tell, six lists of objects, and a write changes one list by one object. The contract is
  a hypothesis of the properties that speak of several requests or several kinds of objects.
\<close>

section \<open>The store\<close>

record store =
  st_users :: "user list"
  st_upbs :: "upb list"
  st_gpbs :: "gpb list"
  st_projects :: "project list"
  st_secrets :: "secret list"
  st_settings :: "settings list"

text \<open>
  Users and projects have a status that only the status endpoint writes: a create or an update may
  come back with another one.
\<close>

definition same_user_spec :: "user \<Rightarrow> user \<Rightarrow> bool" where
  "same_user_spec a b \<longleftrightarrow> same_object (a\<lparr>us_lastSeen := 0\<rparr>) (b\<lparr>us_lastSeen := 0\<rparr>)"

definition same_project_spec :: "project \<Rightarrow> project \<Rightarrow> bool" where
  "same_project_spec a b \<longleftrightarrow> same_object (a\<lparr>pr_phase := []\<rparr>) (b\<lparr>pr_phase := []\<rparr>)"

text \<open>
  \<open>writes_ok V same get upd c\<close>: every successful write through \<open>c\<close> changes the list that \<open>upd\<close> updates and
  nothing else, by an object that is the \<open>same\<close> as the one sent; a failing one changes nothing. A
  reading call that succeeds returns a stored object.
\<close>

definition creates_ok ::
  "('s \<Rightarrow> store) \<Rightarrow> ('a objmeta_scheme \<Rightarrow> 'a objmeta_scheme \<Rightarrow> bool) \<Rightarrow> (store \<Rightarrow> 'a objmeta_scheme list) \<Rightarrow>
     (('a objmeta_scheme list \<Rightarrow> 'a objmeta_scheme list) \<Rightarrow> store \<Rightarrow> store) \<Rightarrow>
     ('a objmeta_scheme, 's) kclient \<Rightarrow> bool" where
  "creates_ok V same get upd c \<longleftrightarrow>
     (\<forall>x s x' s'. kCreate c x s = (Inr x', s') \<longrightarrow>
        same x' x \<and> V s' = upd (\<lambda>xs. xs @ [x']) (V s) \<and> key_of x \<notin> key_of ` set (get (V s))) \<and>
     (\<forall>x s e s'. kCreate c x s = (Inl e, s') \<longrightarrow> V s' = V s)"

definition updates_ok ::
  "('s \<Rightarrow> store) \<Rightarrow> ('a objmeta_scheme \<Rightarrow> 'a objmeta_scheme \<Rightarrow> bool) \<Rightarrow> (store \<Rightarrow> 'a objmeta_scheme list) \<Rightarrow>
     (('a objmeta_scheme list \<Rightarrow> 'a objmeta_scheme list) \<Rightarrow> store \<Rightarrow> store) \<Rightarrow>
     ('a objmeta_scheme, 's) kclient \<Rightarrow> bool" where
  "updates_ok V same get upd c \<longleftrightarrow>
     (\<forall>x s x' s'. kUpdate c x s = (Inr x', s') \<longrightarrow>
        same x' x \<and> V s' = upd (map (\<lambda>y. if key_of y = key_of x then x' else y)) (V s)) \<and>
     (\<forall>x s e s'. kUpdate c x s = (Inl e, s') \<longrightarrow> V s' = V s)"

definition deletes_ok ::
  "('s \<Rightarrow> store) \<Rightarrow> ('a objmeta_scheme \<Rightarrow> 'a objmeta_scheme \<Rightarrow> bool) \<Rightarrow> (store \<Rightarrow> 'a objmeta_scheme list) \<Rightarrow>
     (('a objmeta_scheme list \<Rightarrow> 'a objmeta_scheme list) \<Rightarrow> store \<Rightarrow> store) \<Rightarrow>
     ('a objmeta_scheme, 's) kclient \<Rightarrow> bool" where
  "deletes_ok V same get upd c \<longleftrightarrow>
     (\<forall>k s s'. kDelete c k s = (Inr (), s') \<longrightarrow> V s' = upd (filter (\<lambda>x. key_of x \<noteq> k)) (V s)) \<and>
     (\<forall>k s e s'. kDelete c k s = (Inl e, s') \<longrightarrow> V s' = V s)"

definition gets_ok ::
  "('s \<Rightarrow> store) \<Rightarrow> ('a objmeta_scheme \<Rightarrow> 'a objmeta_scheme \<Rightarrow> bool) \<Rightarrow> (store \<Rightarrow> 'a objmeta_scheme list) \<Rightarrow>
     (('a objmeta_scheme list \<Rightarrow> 'a objmeta_scheme list) \<Rightarrow> store \<Rightarrow> store) \<Rightarrow>
     ('a objmeta_scheme, 's) kclient \<Rightarrow> bool" where
  "gets_ok V same get upd c \<longleftrightarrow>
     (\<forall>k s x. kGet c k s = Inr x \<longrightarrow> x \<in> set (get (V s)) \<and> key_of x = k)"

definition writes_ok ::
  "('s \<Rightarrow> store) \<Rightarrow> ('a objmeta_scheme \<Rightarrow> 'a objmeta_scheme \<Rightarrow> bool) \<Rightarrow> (store \<Rightarrow> 'a objmeta_scheme list) \<Rightarrow>
     (('a objmeta_scheme list \<Rightarrow> 'a objmeta_scheme list) \<Rightarrow> store \<Rightarrow> store) \<Rightarrow>
     ('a objmeta_scheme, 's) kclient \<Rightarrow> bool" where
  "writes_ok V same get upd c \<longleftrightarrow>
     creates_ok V same get upd c \<and> updates_ok V same get upd c \<and> deletes_ok V same get upd c \<and> gets_ok V same get upd c"

lemmas writes_ok_defs = writes_ok_def creates_ok_def updates_ok_def deletes_ok_def gets_ok_def

definition clientset_ok :: "('s \<Rightarrow> store) \<Rightarrow> 's clientset \<Rightarrow> bool" where
  "clientset_ok V c \<longleftrightarrow>
     writes_ok V same_user_spec st_users st_users_update (cs_users c) \<and>
     writes_ok V same_object st_upbs st_upbs_update (cs_upbs c) \<and>
     writes_ok V same_object st_gpbs st_gpbs_update (cs_gpbs c) \<and>
     writes_ok V same_project_spec st_projects st_projects_update (cs_projects c) \<and>
     writes_ok V same_object st_secrets st_secrets_update (cs_secrets c) \<and>
     writes_ok V same_object st_settings st_settings_update (cs_settings c)"

text \<open>
  The privileged client may read everything; an impersonating client may be denied, but what it does
  it does to the same store.
\<close>

definition api_ok :: "('s \<Rightarrow> store) \<Rightarrow> ('s, 'x) env_scheme \<Rightarrow> bool" where
  "api_ok V E \<longleftrightarrow>
     clientset_ok V (privileged E) \<and>
     (\<forall>email groups c. impersonated E email groups = Inr c \<longrightarrow> clientset_ok V c) \<and>
     list_ok (\<lambda>s. st_users (V s)) (cs_users (privileged E)) \<and>
     list_ok (\<lambda>s. st_upbs (V s)) (cs_upbs (privileged E)) \<and>
     list_ok (\<lambda>s. st_gpbs (V s)) (cs_gpbs (privileged E)) \<and>
     list_ok (\<lambda>s. st_projects (V s)) (cs_projects (privileged E)) \<and>
     list_ok (\<lambda>s. st_secrets (V s)) (cs_secrets (privileged E)) \<and>
     get_ok (\<lambda>s. st_users (V s)) (cs_users (privileged E)) \<and>
     get_ok (\<lambda>s. st_projects (V s)) (cs_projects (privileged E)) \<and>
     get_ok (\<lambda>s. st_secrets (V s)) (cs_secrets (privileged E)) \<and>
     get_ok (\<lambda>s. st_settings (V s)) (cs_settings (privileged E)) \<and>
     (\<forall>s. V (snd (randString E s)) = V s) \<and>
     (\<forall>s. V (snd (clock E s)) = V s)"

section \<open>Using the contract\<close>

lemma create_V:
  "writes_ok V same get upd c \<Longrightarrow> kCreate c x s = (Inr x', s') \<Longrightarrow> V s' = upd (\<lambda>xs. xs @ [x']) (V s)"
  unfolding writes_ok_def creates_ok_def by blast

lemma create_same:
  "writes_ok V same get upd c \<Longrightarrow> kCreate c x s = (Inr x', s') \<Longrightarrow> same x' x"
  unfolding writes_ok_def creates_ok_def by blast

lemma create_fresh:
  "writes_ok V same get upd c \<Longrightarrow> kCreate c x s = (Inr x', s') \<Longrightarrow> key_of x \<notin> key_of ` set (get (V s))"
  unfolding writes_ok_def creates_ok_def by blast

lemma create_fail:
  "writes_ok V same get upd c \<Longrightarrow> kCreate c x s = (Inl e, s') \<Longrightarrow> V s' = V s"
  unfolding writes_ok_def creates_ok_def by blast

lemma update_V:
  "writes_ok V same get upd c \<Longrightarrow> kUpdate c x s = (Inr x', s') \<Longrightarrow> V s' = upd (map (\<lambda>y. if key_of y = key_of x then x' else y)) (V s)"
  unfolding writes_ok_def updates_ok_def by blast

lemma update_same:
  "writes_ok V same get upd c \<Longrightarrow> kUpdate c x s = (Inr x', s') \<Longrightarrow> same x' x"
  unfolding writes_ok_def updates_ok_def by blast

lemma update_fail:
  "writes_ok V same get upd c \<Longrightarrow> kUpdate c x s = (Inl e, s') \<Longrightarrow> V s' = V s"
  unfolding writes_ok_def updates_ok_def by blast

lemma delete_V:
  "writes_ok V same get upd c \<Longrightarrow> kDelete c k s = (Inr (), s') \<Longrightarrow> V s' = upd (filter (\<lambda>x. key_of x \<noteq> k)) (V s)"
  unfolding writes_ok_def deletes_ok_def by blast

lemma delete_fail:
  "writes_ok V same get upd c \<Longrightarrow> kDelete c k s = (Inl e, s') \<Longrightarrow> V s' = V s"
  unfolding writes_ok_def deletes_ok_def by blast

lemma get_stored:
  "writes_ok V same get upd c \<Longrightarrow> kGet c k s = Inr x \<Longrightarrow> x \<in> set (get (V s)) \<and> key_of x = k"
  unfolding writes_ok_def gets_ok_def by blast

lemma clientset_okD:
  assumes "clientset_ok V c"
  shows "writes_ok V same_user_spec st_users st_users_update (cs_users c)"
    and "writes_ok V same_object st_upbs st_upbs_update (cs_upbs c)"
    and "writes_ok V same_object st_gpbs st_gpbs_update (cs_gpbs c)"
    and "writes_ok V same_project_spec st_projects st_projects_update (cs_projects c)"
    and "writes_ok V same_object st_secrets st_secrets_update (cs_secrets c)"
    and "writes_ok V same_object st_settings st_settings_update (cs_settings c)"
  using assms by (simp_all add: clientset_ok_def)

lemma api_ok_privileged: "api_ok V E \<Longrightarrow> clientset_ok V (privileged E)"
  by (simp add: api_ok_def)

lemma api_ok_impersonated: "api_ok V E \<Longrightarrow> impersonated E email groups = Inr c \<Longrightarrow> clientset_ok V c"
  by (simp add: api_ok_def)

lemma api_okD:
  assumes "api_ok V E"
  shows "list_ok (\<lambda>s. st_users (V s)) (cs_users (privileged E))"
    and "list_ok (\<lambda>s. st_upbs (V s)) (cs_upbs (privileged E))"
    and "list_ok (\<lambda>s. st_gpbs (V s)) (cs_gpbs (privileged E))"
    and "list_ok (\<lambda>s. st_projects (V s)) (cs_projects (privileged E))"
    and "list_ok (\<lambda>s. st_secrets (V s)) (cs_secrets (privileged E))"
    and "get_ok (\<lambda>s. st_users (V s)) (cs_users (privileged E))"
    and "get_ok (\<lambda>s. st_projects (V s)) (cs_projects (privileged E))"
    and "get_ok (\<lambda>s. st_secrets (V s)) (cs_secrets (privileged E))"
    and "get_ok (\<lambda>s. st_settings (V s)) (cs_settings (privileged E))"
  using assms by (simp_all add: api_ok_def)

lemmas api_ok_lists =
  list_ok_Everything [OF api_okD(1)] list_ok_Everything [OF api_okD(2)] list_ok_Everything [OF api_okD(3)]
  list_ok_Everything [OF api_okD(4)] list_ok_Everything [OF api_okD(5)]

lemmas api_ok_selects = list_okD [OF api_okD(3)] list_okD [OF api_okD(5)]

definition lookup_key :: "okey \<Rightarrow> 'a objmeta_scheme list \<Rightarrow> 'a objmeta_scheme result" where
  "lookup_key k xs = (case List.find (\<lambda>x. key_of x = k) xs of None \<Rightarrow> Inl NewNotFound | Some x \<Rightarrow> Inr x)"

lemma get_okD: "get_ok view c \<Longrightarrow> kGet c k s = lookup_key k (view s)"
  unfolding get_ok_def lookup_key_def by blast

lemma api_ok_gets:
  assumes "api_ok V E"
  shows "kGet (cs_users (privileged E)) k s = lookup_key k (st_users (V s))"
    and "kGet (cs_projects (privileged E)) k s = lookup_key k (st_projects (V s))"
    and "kGet (cs_secrets (privileged E)) k s = lookup_key k (st_secrets (V s))"
    and "kGet (cs_settings (privileged E)) k s = lookup_key k (st_settings (V s))"
  using api_okD(6-9)[OF assms, THEN get_okD] by simp_all

lemma api_ok_rand: "api_ok V E \<Longrightarrow> randA E s = (r, t) \<Longrightarrow> V t = V s \<and> (\<exists>n. r = Inr n)"
  by (auto simp: api_ok_def randA_def split: prod.splits) (metis snd_conv)

lemma api_ok_clock: "api_ok V E \<Longrightarrow> nowA E s = (r, t) \<Longrightarrow> V t = V s \<and> (\<exists>n. r = Inr n)"
  by (auto simp: api_ok_def nowA_def split: prod.splits) (metis snd_conv)

section \<open>Lists of objects\<close>

lemma lookup_key_mem: "lookup_key k xs = Inr x \<Longrightarrow> x \<in> set xs \<and> key_of x = k"
  by (auto simp: lookup_key_def split: option.splits dest: find_SomeD)

lemma lookup_key_missing: "k \<notin> key_of ` set xs \<Longrightarrow> lookup_key k xs = Inl NewNotFound"
  by (auto simp: lookup_key_def find_None_iff split: option.splits dest!: find_SomeD)

lemma lookup_key_append:
  "k \<notin> key_of ` set xs \<Longrightarrow> lookup_key k (xs @ [x]) = (if key_of x = k then Inr x else Inl NewNotFound)"
  using lookup_key_missing[of k xs] by (auto simp: lookup_key_def find_append split: option.splits if_splits)

lemma lookup_key_unique: "keys_ok xs \<Longrightarrow> x \<in> set xs \<Longrightarrow> lookup_key (key_of x) xs = Inr x"
  by (induction xs) (auto simp: keys_ok_def lookup_key_def split: option.splits)

lemma lookup_key_map:
  assumes "\<And>y. key_of (f y) = key_of y"
  shows "lookup_key k (map f xs) = map_sum id f (lookup_key k xs)"
  by (induction xs) (auto simp: lookup_key_def assms split: option.splits)

lemma lookup_key_filter: "lookup_key k (filter (\<lambda>x. key_of x \<noteq> k) xs) = Inl NewNotFound"
  by (rule lookup_key_missing) auto

subsection \<open>What the server keeps of an object\<close>

lemma same_user:
  assumes "same_user_spec a b"
  shows "us_name a = us_name b" and "us_email a = us_email b" and "us_groups a = us_groups b"
    and "us_isAdmin a = us_isAdmin b" and "us_isGlobalViewer a = us_isGlobalViewer b"
    and "us_project a = us_project b" and "us_invalidTokensReference a = us_invalidTokensReference b"
    and "key_of a = key_of b" and "om_name a = om_name b" and "om_labels a = om_labels b"
    and "om_annotations a = om_annotations b" and "om_ownerReferences a = om_ownerReferences b"
  using assms by (cases a; cases b; simp add: same_user_spec_def same_object_def key_of_def)+

lemma same_upb:
  assumes "same_object (a :: upb) b"
  shows "upb_projectID a = upb_projectID b" and "upb_userEmail a = upb_userEmail b" and "upb_group a = upb_group b"
  using assms by (cases a; cases b; simp add: same_object_def)+

lemma same_secret:
  assumes "same_object (a :: secret) b"
  shows "sec_data a = sec_data b" and "sec_type a = sec_type b"
  using assms by (cases a; cases b; simp add: same_object_def)+

lemma same_project:
  assumes "same_project_spec a b"
  shows "pr_name a = pr_name b" and "pr_allowedOperatingSystems a = pr_allowedOperatingSystems b"
    and "key_of a = key_of b" and "om_name a = om_name b" and "om_labels a = om_labels b"
    and "om_ownerReferences a = om_ownerReferences b"
  using assms by (cases a; cases b; simp add: same_project_spec_def same_object_def key_of_def)+

section \<open>Writes of one kind of object\<close>

lemma outcome_kCreate:
  "writes_ok V same get upd c \<Longrightarrow>
     outcome (kCreate c x) s (\<lambda>t. V t = V s) (\<lambda>x' t. same x' x \<and> V t = upd (\<lambda>xs. xs @ [x']) (V s))"
  by (auto simp: outcome_def dest: create_V create_same create_fail split: prod.split sum.split)

lemma outcome_kUpdate:
  "writes_ok V same get upd c \<Longrightarrow>
     outcome (kUpdate c x) s (\<lambda>t. V t = V s)
       (\<lambda>x' t. same x' x \<and> V t = upd (map (\<lambda>y. if key_of y = key_of x then x' else y)) (V s))"
  by (auto simp: outcome_def dest: update_V update_same update_fail split: prod.split sum.split)

lemma outcome_kDelete:
  "writes_ok V same get upd c \<Longrightarrow>
     outcome (kDelete c k) s (\<lambda>t. V t = V s) (\<lambda>_ t. V t = upd (filter (\<lambda>y. key_of y \<noteq> k)) (V s))"
  by (auto simp: outcome_def dest: delete_V delete_fail split: prod.split sum.split)

lemma outcome_randA:
  "api_ok V E \<Longrightarrow> outcome (randA E) s (\<lambda>t. V t = V s) (\<lambda>_ t. V t = V s)"
  by (cases "randA E s") (auto simp: outcome_def dest: api_ok_rand split: sum.split)

end
