(* ===== verification/Mem_Api.thy ===== *)
theory Mem_Api
  imports Provider_Types Api_Contract
begin

text \<open>
  A concrete environment: an API server that keeps its objects in lists, and the SDK functions
  with their documented behaviour. The theorems of the development hold for every environment
  that satisfies their hypotheses; this one shows that the hypotheses can be met together, and it
  is what the witnesses evaluate on.
\<close>

section \<open>An in-memory API server\<close>

record mem =
  m_users :: "user list"
  m_upbs :: "upb list"
  m_gpbs :: "gpb list"
  m_projects :: "project list"
  m_secrets :: "secret list"
  m_settings :: "settings list"
  m_seq :: nat
  m_now :: time

definition mem_client ::
  "('s \<Rightarrow> 'a objmeta_scheme list) \<Rightarrow> ('a objmeta_scheme list \<Rightarrow> 's \<Rightarrow> 's) \<Rightarrow> ('a objmeta_scheme, 's) kclient" where
  "mem_client get put =
     \<lparr>kGet = (\<lambda>k s. case List.find (\<lambda>x. key_of x = k) (get s) of None \<Rightarrow> Inl NewNotFound | Some x \<Rightarrow> Inr x),
      kList = (\<lambda>sel s. Inr (filter (\<lambda>x. selects sel (om_labels x)) (get s))),
      kCreate = (\<lambda>x s. if key_of x \<in> key_of ` set (get s) then (Inl NewAlreadyExists, s)
                        else (Inr x, put (get s @ [x]) s)),
      kUpdate = (\<lambda>x s. if key_of x \<in> key_of ` set (get s)
                        then (Inr x, put (map (\<lambda>y. if key_of y = key_of x then x else y) (get s)) s)
                        else (Inl NewNotFound, s)),
      kDelete = (\<lambda>k s. if k \<in> key_of ` set (get s)
                        then (Inr (), put (filter (\<lambda>x. key_of x \<noteq> k) (get s)) s)
                        else (Inl NewNotFound, s)),
      kPatchStatus = (\<lambda>old x s. (Inr x, put (map (\<lambda>y. if key_of y = key_of x then x else y) (get s)) s))\<rparr>"

lemma same_object_refl [simp]: "same_object x x"
  by (simp add: same_object_def)

lemma mem_client_ok:
  assumes "\<And>xs s. get (put xs s) = xs"
  shows "list_ok get (mem_client get put)" and "get_ok get (mem_client get put)"
    and "create_ok get (mem_client get put)" and "delete_ok get (mem_client get put)"
    and "update_ok get (mem_client get put)"
  using assms
  by (auto simp: list_ok_def get_ok_def create_ok_def delete_ok_def update_ok_def mem_client_def
      split: if_splits)

definition mem_clientset :: "mem clientset" where
  "mem_clientset =
     \<lparr>cs_users = mem_client m_users (\<lambda>xs s. s\<lparr>m_users := xs\<rparr>),
      cs_upbs = mem_client m_upbs (\<lambda>xs s. s\<lparr>m_upbs := xs\<rparr>),
      cs_gpbs = mem_client m_gpbs (\<lambda>xs s. s\<lparr>m_gpbs := xs\<rparr>),
      cs_projects = mem_client m_projects (\<lambda>xs s. s\<lparr>m_projects := xs\<rparr>),
      cs_secrets = mem_client m_secrets (\<lambda>xs s. s\<lparr>m_secrets := xs\<rparr>),
      cs_settings = mem_client m_settings (\<lambda>xs s. s\<lparr>m_settings := xs\<rparr>)\<rparr>"

text \<open>A client whose calls are all forbidden, for a caller with no group.\<close>

definition deny_client :: "('o, 's) kclient" where
  "deny_client = \<lparr>kGet = (\<lambda>_ _. Inl NewForbidden), kList = (\<lambda>_ _. Inl NewForbidden),
     kCreate = (\<lambda>_. failA NewForbidden), kUpdate = (\<lambda>_. failA NewForbidden),
     kDelete = (\<lambda>_. failA NewForbidden), kPatchStatus = (\<lambda>_ _. failA NewForbidden)\<rparr>"

definition deny_clientset :: "'s clientset" where
  "deny_clientset = \<lparr>cs_users = deny_client, cs_upbs = deny_client, cs_gpbs = deny_client,
     cs_projects = deny_client, cs_secrets = deny_client, cs_settings = deny_client\<rparr>"

section \<open>The SDK as documented\<close>

definition sa_prefix :: string where "sa_prefix = ''serviceaccount-''"

definition ref_isSA :: "string \<Rightarrow> bool" where
  "ref_isSA n = HasPrefix n sa_prefix"

definition ref_ensureSA :: "string \<Rightarrow> string" where
  "ref_ensureSA n = (if ref_isSA n then n else sa_prefix @ n)"

definition ref_removeSA :: "string \<Rightarrow> string" where
  "ref_removeSA n = TrimPrefix n sa_prefix"

text \<open>A self-delimiting text form of the token blacklist, with times in whole seconds.\<close>

definition enc_nat :: "nat \<Rightarrow> string" where
  "enc_nat n = replicate n (CHR ''i'') @ ''.''"

fun dec_nat :: "string \<Rightarrow> (nat \<times> string) option" where
  "dec_nat [] = None"
| "dec_nat (c # s) =
     (if c = CHR ''.'' then Some (0, s)
      else if c = CHR ''i'' then (case dec_nat s of None \<Rightarrow> None | Some (n, r) \<Rightarrow> Some (Suc n, r))
      else None)"

lemma dec_enc_nat [simp]: "dec_nat (enc_nat n @ s) = Some (n, s)"
  by (induction n) (auto simp: enc_nat_def)

definition enc_tok :: "blacklistToken \<Rightarrow> string" where
  "enc_tok t = (let e = bt_expiry t div 1000000000 in
     enc_nat (length (bt_token t)) @ bt_token t @ enc_nat (nat e) @ enc_nat (nat (- e)))"

definition dec_tok :: "string \<Rightarrow> (blacklistToken \<times> string) option" where
  "dec_tok s = (case dec_nat s of None \<Rightarrow> None
     | Some (n, r) \<Rightarrow> (case dec_nat (drop n r) of None \<Rightarrow> None
        | Some (p, r') \<Rightarrow> (case dec_nat r' of None \<Rightarrow> None
           | Some (q, r'') \<Rightarrow> Some (\<lparr>bt_token = take n r, bt_expiry = (int p - int q) * 1000000000\<rparr>, r''))))"

definition whole_seconds :: "time \<Rightarrow> time" where
  "whole_seconds t = t div 1000000000 * 1000000000"

lemma dec_enc_tok [simp]:
  "dec_tok (enc_tok t @ s) = Some (t\<lparr>bt_expiry := whole_seconds (bt_expiry t)\<rparr>, s)"
  by (cases t) (auto simp: enc_tok_def dec_tok_def Let_def whole_seconds_def)

fun dec_toks :: "nat \<Rightarrow> string \<Rightarrow> blacklistToken list option" where
  "dec_toks 0 s = Some []"
| "dec_toks (Suc n) s = (case dec_tok s of None \<Rightarrow> None
     | Some (t, r) \<Rightarrow> map_option (Cons t) (dec_toks n r))"

definition ref_marshal :: "blacklistToken list \<Rightarrow> string result" where
  "ref_marshal ts = Inr (enc_nat (length ts) @ concat (map enc_tok ts))"

definition ref_unmarshal :: "string \<Rightarrow> blacklistToken list result" where
  "ref_unmarshal s = (case dec_nat s of None \<Rightarrow> Inl (Plain ''invalid JSON'')
     | Some (n, r) \<Rightarrow> (case dec_toks n r of None \<Rightarrow> Inl (Plain ''invalid JSON'') | Some ts \<Rightarrow> Inr ts))"

lemma dec_toks_enc:
  "dec_toks (length ts) (concat (map enc_tok ts)) =
     Some (map (\<lambda>t. t\<lparr>bt_expiry := whole_seconds (bt_expiry t)\<rparr>) ts)"
  by (induction ts) auto

lemma ref_unmarshal_marshal:
  "ref_marshal ts = Inr d \<Longrightarrow>
     ref_unmarshal d = Inr (map (\<lambda>t. t\<lparr>bt_expiry := whole_seconds (bt_expiry t)\<rparr>) ts)"
  by (auto simp: ref_marshal_def ref_unmarshal_def dec_toks_enc)

definition mem_env :: "mem env" where
  "mem_env =
     \<lparr>isSA = ref_isSA, ensureSA = ref_ensureSA, removeSA = ref_removeSA,
      groupNameFor = (\<lambda>p g. g @ ''-'' @ p),
      rbacGroupPrefix = takeWhile (\<lambda>c. c \<noteq> CHR ''-''),
      allGroupsPrefixes = [''owners'', ''editors'', ''viewers'', ''projectmanagers''],
      ownerGroupPrefix = ''owners'', editorGroupPrefix = ''editors'', viewerGroupPrefix = ''viewers'',
      projectManagerGroupPrefix = ''projectmanagers'',
      projectIDLabelKey = ''project-id'', workerNameLabelKey = ''worker-name'',
      isCredentialPresetLabelKey = ''is-credential-preset'',
      adminGrantedByGroupAnnotation = ''granted-by-group'',
      kubermaticNamespace = ''kubermatic'', tokenBlacklistKey = ''blacklist'',
      globalSettingsName = ''globalsettings'', projectActive = ''Active'',
      userAPIVersion = ''kubermatic/v1'', userKindName = ''User'',
      invalidTokensSecretName = (\<lambda>u. ''token-blacklist-'' @ om_name u),
      sha256hex = (\<lambda>s. s),
      newRequirement = (\<lambda>k v. Inr (LabelEquals k v)), parseSelector = (\<lambda>k v. Inr (LabelEquals k v)),
      marshalTokens = ref_marshal, unmarshalTokens = ref_unmarshal,
      privileged = mem_clientset,
      impersonated = (\<lambda>email groups. Inr (if groups = [] then deny_clientset else mem_clientset)),
      randString = (\<lambda>s. (replicate (Suc (m_seq s)) (CHR ''x''), s\<lparr>m_seq := Suc (m_seq s)\<rparr>)),
      clock = (\<lambda>s. (m_now s, s)),
      saDomain = ''sa.local''\<rparr>"

text \<open>The hypotheses hold of it.\<close>

lemma mem_sa_helpers_ok: "sa_helpers_ok mem_env"
proof -
  have pre: "HasPrefix (n @ d) p" if "HasPrefix n p" for n d p
    using that by (auto simp: HasPrefix_iff)
  have add: "sa_prefix @ TrimPrefix n sa_prefix = n" if "HasPrefix n sa_prefix" for n
    using that by (auto simp: HasPrefix_iff)
  show ?thesis
    by (auto simp: sa_helpers_ok_def mem_env_def ref_isSA_def ref_ensureSA_def ref_removeSA_def pre add)
qed

lemma mem_selectors_ok: "selectors_ok mem_env"
  by (simp add: selectors_ok_def mem_env_def)

lemma mem_list_ok [simp]:
  "list_ok m_users (cs_users (privileged mem_env))" "list_ok m_upbs (cs_upbs (privileged mem_env))"
  "list_ok m_gpbs (cs_gpbs (privileged mem_env))" "list_ok m_secrets (cs_secrets (privileged mem_env))"
  by (auto simp: mem_env_def mem_clientset_def intro!: mem_client_ok)

lemma mem_write_ok [simp]:
  "create_ok m_upbs (cs_upbs (privileged mem_env))" "delete_ok m_upbs (cs_upbs (privileged mem_env))"
  "update_ok m_upbs (cs_upbs (privileged mem_env))"
  "create_ok m_users (cs_users (privileged mem_env))" "delete_ok m_users (cs_users (privileged mem_env))"
  "update_ok m_users (cs_users (privileged mem_env))"
  "create_ok m_secrets (cs_secrets (privileged mem_env))" "delete_ok m_secrets (cs_secrets (privileged mem_env))"
  "update_ok m_secrets (cs_secrets (privileged mem_env))"
  by (auto simp: mem_env_def mem_clientset_def intro!: mem_client_ok)

lemma mem_get_ok [simp]:
  "get_ok m_users (cs_users (privileged mem_env))" "get_ok m_projects (cs_projects (privileged mem_env))"
  "get_ok m_secrets (cs_secrets (privileged mem_env))"
  by (auto simp: mem_env_def mem_clientset_def intro!: mem_client_ok)

lemma mem_rand_frame [simp]:
  "m_upbs (snd (randString mem_env s)) = m_upbs s" "m_users (snd (randString mem_env s)) = m_users s"
  "m_secrets (snd (randString mem_env s)) = m_secrets s"
  by (simp_all add: mem_env_def)

definition mem_store :: "mem \<Rightarrow> store" where
  "mem_store s = \<lparr>st_users = m_users s, st_upbs = m_upbs s, st_gpbs = m_gpbs s, st_projects = m_projects s,
     st_secrets = m_secrets s, st_settings = m_settings s\<rparr>"

lemma mem_client_writes_ok:
  assumes "\<And>s. get (V s) = g s" and "\<And>f s. V (p (f (g s)) s) = upd f (V s)" and "\<And>x. same x x"
  shows "writes_ok V same get upd (mem_client g p)"
  using assms(2)[where f = "\<lambda>xs. xs @ [_]"] assms(2)[where f = "map _"] assms(2)[where f = "filter _"]
  by (auto simp: writes_ok_defs mem_client_def assms(1,3) split: if_splits option.splits dest!: find_SomeD)

lemma deny_client_writes_ok: "writes_ok V same get upd deny_client"
  by (simp add: writes_ok_defs deny_client_def)

lemma mem_clientset_ok: "clientset_ok mem_store mem_clientset"
  by (auto simp: clientset_ok_def mem_clientset_def mem_store_def same_user_spec_def same_project_spec_def
      intro!: mem_client_writes_ok)

lemma deny_clientset_ok: "clientset_ok mem_store deny_clientset"
  by (simp add: clientset_ok_def deny_clientset_def deny_client_writes_ok)

lemma mem_api_ok: "api_ok mem_store mem_env"
proof -
  have "list_ok m_projects (cs_projects (privileged mem_env))"
    "get_ok m_settings (cs_settings (privileged mem_env))"
    by (auto simp: mem_env_def mem_clientset_def intro!: mem_client_ok)
  moreover have "clientset_ok mem_store c" if "impersonated mem_env e gs = Inr c" for e gs c
    using that mem_clientset_ok deny_clientset_ok by (auto simp: mem_env_def split: if_splits)
  moreover have "privileged mem_env = mem_clientset" by (simp add: mem_env_def)
  moreover have "mem_store (snd (randString mem_env s)) = mem_store s" "mem_store (snd (clock mem_env s)) = mem_store s" for s
    by (simp_all add: mem_env_def mem_store_def)
  ultimately show ?thesis
    using mem_list_ok mem_get_ok mem_clientset_ok by (simp add: api_ok_def mem_store_def)
qed

definition mem0 :: mem where
  "mem0 = \<lparr>m_users = [], m_upbs = [], m_gpbs = [], m_projects = [], m_secrets = [],
     m_settings = [], m_seq = 0, m_now = 0\<rparr>"

lemmas mem_defs = mem_env_def mem_clientset_def mem_client_def deny_clientset_def deny_client_def mem0_def
  ref_isSA_def ref_ensureSA_def ref_removeSA_def sa_prefix_def

end
