(* ===== verification/Member_Properties.thy ===== *)
theory Member_Properties
  imports Member_Provider Mem_Api
begin

text \<open>
  The properties of project membership: what groups and roles a caller is given, that an
  outsider is given none, what a member list shows, and that creating and deleting a binding
  changes membership as it should. Each is followed by a witness on the in-memory environment.
\<close>

section \<open>A concrete world for the witnesses\<close>

definition bob :: user where
  "bob = zero_user\<lparr>om_name := ''bob-id'', us_name := ''Bob'', us_email := ''bob@acme.com'', us_groups := [''dev'']\<rparr>"

definition eve :: user where
  "eve = zero_user\<lparr>om_name := ''eve-id'', us_name := ''Eve'', us_email := ''eve@acme.com''\<rparr>"

definition root_user :: user where
  "root_user = zero_user\<lparr>om_name := ''root-id'', us_name := ''Root'', us_email := ''root@acme.com'', us_isAdmin := True\<rparr>"

definition bob_binding :: upb where
  "bob_binding = zero_upb\<lparr>om_name := ''b1'', upb_projectID := ''p1'', upb_userEmail := ''Bob@acme.com'',
     upb_group := ''editors-p1''\<rparr>"

definition dev_binding :: gpb where
  "dev_binding = objmeta.extend (blank_meta\<lparr>om_name := ''g1'', om_labels := [(''project-id'', ''p1'')]\<rparr>)
     (gpb.fields ''p1'' ''dev'' ''viewers'')"

definition proj1 :: project where
  "proj1 = zero_project\<lparr>om_name := ''p1'', pr_name := ''first'', pr_phase := ''Active''\<rparr>"

definition world1 :: mem where
  "world1 = mem0\<lparr>m_users := [bob, eve, root_user], m_upbs := [bob_binding], m_gpbs := [dev_binding],
     m_projects := [proj1]\<rparr>"

lemmas world1_defs = world1_def bob_def eve_def root_user_def bob_binding_def dev_binding_def proj1_def
  zero_defs gpb.fields_def mem0_def

lemma world1_groups:
  "granted_groups (m_upbs world1) (m_gpbs world1) bob ''p1'' = {''editors-p1'', ''dev-p1''}"
proof -
  have "own_binding (m_upbs world1) (us_email bob) ''p1'' = ''editors-p1''" by code_simp
  then show ?thesis unfolding granted_groups_def by (auto simp: world1_defs suffixed_def)
qed

section \<open>Groups and roles of a caller\<close>

text \<open>
  C1: MapUserToGroups returns exactly the granted groups: the group of the user's own binding in
  the project, one project-suffixed group for each of the user's identity provider groups that is
  bound to the project, the project's owners for an administrator and its viewers for a global
  viewer. When nothing grants a group the call is forbidden. Nothing is written.
\<close>

theorem MapUserToGroups_grants:
  assumes "list_ok mv (cs_upbs (privileged E))" and "list_ok gv (cs_gpbs (privileged E))"
  shows "MapUserToGroups E u p s =
     (if granted_groups (mv s) (gv s) u p = {} then Inl NewForbidden
      else Inr (granted_groups (mv s) (gv s) u p), s)"
  using assms by (simp add: MapUserToGroups_run)

theorem MapUserToGroups_grants_witness:
  "MapUserToGroups mem_env bob ''p1'' world1 = (Inr {''editors-p1'', ''dev-p1''}, world1)"
  using MapUserToGroups_grants[of m_upbs mem_env m_gpbs bob "''p1''" world1]
  by (simp add: world1_groups)

text \<open>
  Groups do not leak between projects. A group that MapUserToGroups returns for a project is
  either suffixed with the project's id or the group stored in a binding of this very user to this
  very project.
\<close>

theorem MapUserToGroups_no_leak:
  assumes "MapUserToGroups E u p s = (Inr G, t)" and "g \<in> G"
  shows "(\<exists>h. g = suffixed h p) \<or>
         (\<exists>ms. kList (cs_upbs (privileged E)) Everything s = Inr ms \<and>
            (\<exists>m \<in> set ms. EqualFold (upb_userEmail m) (us_email u) \<and> upb_projectID m = p \<and> upb_group m = g))"
  using assms(1)
proof (rule MapUserToGroups_InrD)
  fix ms gs
  assume l: "kList (cs_upbs (privileged E)) Everything s = Inr ms" and G: "G = granted_groups ms gs u p"
  show ?thesis
  proof (cases "g = own_binding ms (us_email u) p \<and> g \<noteq> []")
    case True
    then show ?thesis using l own_binding_stored[of ms "us_email u" p g] by blast
  next
    case False
    then have "\<exists>h. g = suffixed h p" using assms(2) unfolding G granted_groups_def by blast
    then show ?thesis by blast
  qed
qed

theorem MapUserToGroups_no_leak_witness:
  "MapUserToGroups mem_env bob ''p1'' world1 = (Inr {''editors-p1'', ''dev-p1''}, world1) \<and>
   ''dev-p1'' \<in> {''editors-p1'', ''dev-p1''} \<and>
   ((\<exists>h. ''dev-p1'' = suffixed h ''p1'') \<or>
    (\<exists>ms. kList (cs_upbs (privileged mem_env)) Everything world1 = Inr ms \<and>
       (\<exists>m \<in> set ms. EqualFold (upb_userEmail m) (us_email bob) \<and> upb_projectID m = ''p1'' \<and> upb_group m = ''dev-p1'')))"
proof -
  have G: "MapUserToGroups mem_env bob ''p1'' world1 = (Inr {''editors-p1'', ''dev-p1''}, world1)"
    by (simp add: world1_groups MapUserToGroups_run[where ms = "m_upbs world1" and gs = "m_gpbs world1"])
  show ?thesis using G MapUserToGroups_no_leak[OF G, of "''dev-p1''"] by blast
qed

text \<open>
  MapUserToRoles returns exactly the granted roles: only owners for an administrator; otherwise
  viewers for a global viewer, the role of each group binding of the project (found by the project
  label) for one of the user's groups, and the prefix of the group in the user's own binding.
\<close>

theorem MapUserToRoles_grants:
  assumes "list_ok mv (cs_upbs (privileged E))" and "list_ok gv (cs_gpbs (privileged E))"
    and "selectors_ok E" and "newRequirement E (projectIDLabelKey E) p = Inr sel"
  shows "MapUserToRoles E u p s =
     (Inr (granted_roles (mv s)
        (filter (\<lambda>b. map_of (om_labels b) (projectIDLabelKey E) = Some p) (gv s)) u p), s)"
proof -
  from assms(3,4) have sel: "sel = LabelEquals (projectIDLabelKey E) p"
    unfolding selectors_ok_def by blast
  show ?thesis
    using assms(1,2) by (subst MapUserToRoles_run[OF assms(4)]) (simp_all add: list_okD sel)
qed

theorem MapUserToRoles_grants_witness:
  "MapUserToRoles mem_env bob ''p1'' world1 = (Inr {''viewers'', ''editors''}, world1)"
proof -
  have req: "newRequirement mem_env (projectIDLabelKey mem_env) ''p1'' = Inr (LabelEquals ''project-id'' ''p1'')"
    by (simp add: mem_env_def)
  have own: "own_binding (m_upbs world1) (us_email bob) ''p1'' = ''editors-p1''" by code_simp
  have "granted_roles (m_upbs world1) (filter (\<lambda>b. map_of (om_labels b) ''project-id'' = Some ''p1'') (m_gpbs world1))
      bob ''p1'' = {''viewers'', ''editors''}"
    unfolding granted_roles_def own by (auto simp: world1_defs ExtractGroupPrefix_def)
  then show ?thesis
    using MapUserToRoles_grants[OF mem_list_ok(2) mem_list_ok(3) mem_selectors_ok req, of bob world1]
    by (simp add: mem_env_def)
qed

text \<open>
  C2: the user info getter admits a caller to a project exactly when some group is granted to him
  there. An outsider (no binding of his, no bound group, no admin or viewer flag) is refused
  with a Forbidden error, and the getter never writes.
\<close>

theorem user_info_admits_iff_granted:
  assumes "list_ok mv (cs_upbs (privileged E))" and "list_ok gv (cs_gpbs (privileged E))"
    and "newRequirement E (projectIDLabelKey E) p = Inr sel" and "p \<noteq> []"
  shows "UserInfoGetterFactory (kube_memberMapper E) (Some u) p s = (Inl NewForbidden, s) \<and>
           granted_groups (mv s) (gv s) u p = {} \<or>
         (\<exists>i. UserInfoGetterFactory (kube_memberMapper E) (Some u) p s = (Inr i, s) \<and>
              set (ui_groups i) = granted_groups (mv s) (gv s) u p \<and> ui_groups i \<noteq> [])"
proof -
  let ?G = "granted_groups (mv s) (gv s) u p"
  have G: "mm_MapUserToGroups (kube_memberMapper E) u p s = (if ?G = {} then Inl NewForbidden else Inr ?G, s)"
    using assms(1,2) by (simp add: kube_memberMapper_def MapUserToGroups_run)
  have R: "\<exists>R. mm_MapUserToRoles (kube_memberMapper E) u p s = (Inr R, s)"
    using assms(1-3) by (auto simp: kube_memberMapper_def list_okD MapUserToRoles_run)
  show ?thesis
  proof (cases "?G = {}")
    case True
    then show ?thesis using G assms(4) by (simp add: UserInfoGetterFactory_def bindA_def)
  next
    case False
    then show ?thesis using G R assms(4)
      by (auto simp: UserInfoGetterFactory_def bindA_def finite_granted_groups)
  qed
qed

theorem user_info_admits_iff_granted_witness:
  "(\<exists>i. UserInfoGetterFactory (kube_memberMapper mem_env) (Some bob) ''p1'' world1 = (Inr i, world1)) \<and>
   UserInfoGetterFactory (kube_memberMapper mem_env) (Some eve) ''p1'' world1 = (Inl NewForbidden, world1)"
proof -
  have req: "newRequirement mem_env (projectIDLabelKey mem_env) ''p1'' = Inr (LabelEquals ''project-id'' ''p1'')"
    by (simp add: mem_env_def)
  have own: "own_binding (m_upbs world1) (us_email eve) ''p1'' = []" by code_simp
  have "granted_groups (m_upbs world1) (m_gpbs world1) eve ''p1'' = {}"
    unfolding granted_groups_def own by (simp add: world1_defs)
  then have e: "UserInfoGetterFactory (kube_memberMapper mem_env) (Some eve) ''p1'' world1 = (Inl NewForbidden, world1)"
    using user_info_admits_iff_granted[OF mem_list_ok(2) mem_list_ok(3) req, of eve world1] by auto
  have "\<exists>i. UserInfoGetterFactory (kube_memberMapper mem_env) (Some bob) ''p1'' world1 = (Inr i, world1)"
    using user_info_admits_iff_granted[OF mem_list_ok(2) mem_list_ok(3) req, of bob world1] world1_groups by auto
  with e show ?thesis by simp
qed

section \<open>Lists of members\<close>

lemma member_List_run:
  assumes "kList (cs_upbs (privileged E)) Everything s = Inr ms" and "skipPrivilegeVerification opts"
  shows "member_List E u p (Some opts) s =
     (let pm = filter (\<lambda>m. upb_projectID m = om_name p \<and> \<not> isSA E (upb_userEmail m)) ms
      in (Inr (if memberEmail opts = [] then pm
               else first_match (\<lambda>m. EqualFold (upb_userEmail m) (memberEmail opts)) pm), s))"
  using assms by (auto simp: member_List_def Let_def bindA_def split: list.split)

lemma member_List_InrD:
  assumes "member_List E u p opts s = (Inr xs, t)"
  obtains ms where "kList (cs_upbs (privileged E)) Everything s = Inr ms"
    and "set xs \<subseteq> {m \<in> set ms. upb_projectID m = om_name p \<and> \<not> isSA E (upb_userEmail m)}"
proof -
  from assms obtain ms t' where l: "kList (cs_upbs (privileged E)) Everything s = Inr ms"
    and xs: "xs = (let pm = filter (\<lambda>m. upb_projectID m = om_name p \<and> \<not> isSA E (upb_userEmail m)) ms;
        os = (case opts of None \<Rightarrow> \<lparr>memberEmail = [], skipPrivilegeVerification = False\<rparr> | Some x \<Rightarrow> x)
        in if memberEmail os = [] then pm else first_match (\<lambda>m. EqualFold (upb_userEmail m) (memberEmail os)) pm)"
    unfolding member_List_def by (auto simp: Let_def bindA_eq_Inr split: if_splits)
  show ?thesis
    by (rule that[OF l]) (auto simp: xs Let_def dest!: first_match_mem)
qed

text \<open>
  A successful List of a project's members returns bindings of that project only, and no
  binding of a service account. With the privilege check skipped and no email filter it returns all
  of them, in the order of the store.
\<close>

theorem member_List_exact:
  assumes "list_ok mv (cs_upbs (privileged E))"
  shows "(member_List E u p opts s = (Inr xs, t) \<longrightarrow>
            t = s \<and> set xs \<subseteq> {m \<in> set (mv s). upb_projectID m = om_name p \<and> \<not> isSA E (upb_userEmail m)}) \<and>
         member_List E u p (Some \<lparr>memberEmail = [], skipPrivilegeVerification = True\<rparr>) s =
            (Inr (filter (\<lambda>m. upb_projectID m = om_name p \<and> \<not> isSA E (upb_userEmail m)) (mv s)), s)"
proof (intro conjI impI)
  assume l: "member_List E u p opts s = (Inr xs, t)"
  show "t = s" using readsD[OF reads_member_List l] .
  from l obtain ms where "kList (cs_upbs (privileged E)) Everything s = Inr ms"
    and sub: "set xs \<subseteq> {m \<in> set ms. upb_projectID m = om_name p \<and> \<not> isSA E (upb_userEmail m)}"
    by (rule member_List_InrD)
  with assms have "ms = mv s" by simp
  with sub show "set xs \<subseteq> {m \<in> set (mv s). upb_projectID m = om_name p \<and> \<not> isSA E (upb_userEmail m)}"
    by simp
next
  show "member_List E u p (Some \<lparr>memberEmail = [], skipPrivilegeVerification = True\<rparr>) s =
      (Inr (filter (\<lambda>m. upb_projectID m = om_name p \<and> \<not> isSA E (upb_userEmail m)) (mv s)), s)"
    using assms by (subst member_List_run) simp_all
qed

theorem member_List_exact_witness:
  "member_List mem_env \<lparr>ui_email = ''x'', ui_groups = [], ui_roles = {}, ui_isAdmin = False, ui_isGlobalViewer = False\<rparr>
     proj1 (Some \<lparr>memberEmail = [], skipPrivilegeVerification = True\<rparr>) world1 = (Inr [bob_binding], world1)"
proof -
  have "filter (\<lambda>m. upb_projectID m = om_name proj1 \<and> \<not> isSA mem_env (upb_userEmail m)) (m_upbs world1) = [bob_binding]"
    by (simp add: world1_defs mem_env_def ref_isSA_def sa_prefix_def HasPrefix_def)
  then show ?thesis using conjunct2[OF member_List_exact[OF mem_list_ok(2)], of _ proj1 world1] by simp
qed

section \<open>Creating and deleting bindings\<close>

lemma genBinding_run:
  assumes "randString E s = (r, s1)"
  shows "genBinding E p e g s =
     (Inr (zero_upb\<lparr>om_name := r, upb_projectID := om_name p, upb_userEmail := e, upb_group := g\<rparr>), s1)"
  using assms by (simp add: genBinding_def)

lemma member_CreateUnsecured_InrD:
  assumes "member_CreateUnsecured E p e g s = (Inr b, t)"
  obtains r s1 where "randString E s = (r, s1)" and "\<not> isSA E e"
    and "kCreate (cs_upbs (privileged E))
           (zero_upb\<lparr>om_name := r, upb_projectID := om_name p, upb_userEmail := e, upb_group := g\<rparr>) s1 = (Inr b, t)"
  using assms
  by (cases "randString E s") (auto simp: member_CreateUnsecured_def bindA_eq_Inr genBinding_run split: if_splits)

text \<open>
  Adding a member takes effect. When CreateUnsecured succeeds for an email with no binding in
  the project, the email is not a service account's, exactly one binding was added to the store, and
  MapUserToGroup answers the new group for that email in any spelling of its case.
\<close>

theorem member_create_then_mapped:
  assumes view: "list_ok mv (cs_upbs (privileged E))" "create_ok mv (cs_upbs (privileged E))"
    and rand: "\<And>s. mv (snd (randString E s)) = mv s"
    and fresh: "\<forall>m \<in> set (mv s). \<not> (EqualFold (upb_userEmail m) e \<and> upb_projectID m = om_name p)"
    and created: "member_CreateUnsecured E p e g s = (Inr b, t)" and "g \<noteq> []" and "EqualFold e e'"
  shows "\<not> isSA E e \<and> mv t = mv s @ [b] \<and> MapUserToGroup E e' (om_name p) t = (Inr g, t)"
  using created
proof (rule member_CreateUnsecured_InrD)
  fix r s1
  let ?b = "zero_upb\<lparr>om_name := r, upb_projectID := om_name p, upb_userEmail := e, upb_group := g\<rparr>"
  assume r: "randString E s = (r, s1)" and sa: "\<not> isSA E e"
    and c: "kCreate (cs_upbs (privileged E)) ?b s1 = (Inr b, t)"
  have s1: "mv s1 = mv s" using rand[of s] r by simp
  have so: "same_object b ?b" and mv: "mv t = mv s @ [b]" using create_okD[OF view(2) c] s1 by auto
  have b: "upb_userEmail b = e" "upb_projectID b = om_name p" "upb_group b = g"
    using same_objectD(6)[OF so] by (cases b, simp add: zero_defs)+
  have "own_binding (mv t) e' (om_name p) = g"
    using fresh b \<open>EqualFold e e'\<close> unfolding mv own_binding_def
    by (auto simp: EqualFold_def find_append split: option.split dest!: find_SomeD)
  then show ?thesis using view(1) sa mv \<open>g \<noteq> []\<close>
    by (simp add: MapUserToGroup_def bindA_def getUserBindingRole_run)
qed

theorem member_create_then_mapped_witness:
  "\<exists>b t. member_CreateUnsecured mem_env proj1 ''eve@acme.com'' ''viewers-p1'' world1 = (Inr b, t) \<and>
     m_upbs t = [bob_binding, b] \<and> MapUserToGroup mem_env ''EVE@acme.com'' ''p1'' t = (Inr ''viewers-p1'', t)"
proof -
  let ?e = "''eve@acme.com''" and ?g = "''viewers-p1''"
  let ?b = "zero_upb\<lparr>om_name := ''x'', upb_projectID := ''p1'', upb_userEmail := ?e, upb_group := ?g\<rparr>"
  have c: "member_CreateUnsecured mem_env proj1 ?e ?g world1 = (Inr ?b, world1\<lparr>m_seq := 1, m_upbs := [bob_binding, ?b]\<rparr>)"
    by (simp add: member_CreateUnsecured_def genBinding_def bindA_def randA_def mem_defs world1_defs key_of_def
        HasPrefix_def)
  have fold: "EqualFold ?e ''EVE@acme.com''" by code_simp
  have fresh: "\<forall>m \<in> set (m_upbs world1). \<not> (EqualFold (upb_userEmail m) ?e \<and> upb_projectID m = om_name proj1)"
    by code_simp
  have p: "om_name proj1 = ''p1''" "m_upbs world1 = [bob_binding]" by (simp_all add: world1_defs)
  show ?thesis
    using c member_create_then_mapped[OF mem_list_ok(2) mem_write_ok(1) mem_rand_frame(1) fresh c _ fold] p by auto
qed

text \<open>
  Removing a member takes effect. When DeleteUnsecured succeeds for the only binding of an email
  in a project, MapUserToGroup forbids that email afterwards, and every other binding is kept.
\<close>

theorem member_delete_then_forbidden:
  assumes view: "list_ok mv (cs_upbs (privileged E))" "delete_ok mv (cs_upbs (privileged E))"
    and only: "\<forall>m \<in> set (mv s). EqualFold (upb_userEmail m) e \<and> upb_projectID m = p \<longrightarrow> key_of m = ([], name)"
    and deleted: "member_DeleteUnsecured E name s = (Inr (), t)"
  shows "MapUserToGroup E e p t = (Inl NewForbidden, t) \<and>
         mv t = filter (\<lambda>m. key_of m \<noteq> ([], name)) (mv s)"
proof -
  have mv: "mv t = filter (\<lambda>m. key_of m \<noteq> ([], name)) (mv s)"
    using delete_okD[OF view(2)] deleted by (simp add: member_DeleteUnsecured_def)
  have "own_binding (mv t) e p = []"
    by (rule own_binding_none) (use only in \<open>auto simp: mv\<close>)
  then show ?thesis using view(1) mv
    by (simp add: MapUserToGroup_def bindA_def getUserBindingRole_run)
qed

theorem member_delete_then_forbidden_witness:
  "\<exists>t. member_DeleteUnsecured mem_env ''b1'' world1 = (Inr (), t) \<and>
     MapUserToGroup mem_env ''bob@acme.com'' ''p1'' t = (Inl NewForbidden, t) \<and> m_upbs t = []"
proof -
  have d: "member_DeleteUnsecured mem_env ''b1'' world1 = (Inr (), world1\<lparr>m_upbs := []\<rparr>)"
    by (simp add: member_DeleteUnsecured_def mem_defs world1_defs key_of_def)
  have only: "\<forall>m \<in> set (m_upbs world1). EqualFold (upb_userEmail m) ''bob@acme.com'' \<and> upb_projectID m = ''p1''
      \<longrightarrow> key_of m = ([], ''b1'')"
    by (simp add: world1_defs key_of_def)
  show ?thesis
    using d member_delete_then_forbidden[OF mem_list_ok(2) mem_write_ok(2) only d] by simp
qed

end
