(* ===== verification/Project_Provider.thy ===== *)
theory Project_Provider
  imports Member_Provider
begin

text \<open>
  Projects: \<^verbatim>\<open>pkg/provider/kubernetes/project.go\<close>, the system labels of
  \<^verbatim>\<open>pkg/handler/v1/label/label.go\<close> and the global settings of
  \<^verbatim>\<open>pkg/provider/kubernetes/settings.go\<close>.
\<close>

section \<open>System labels\<close>

definition ProjectResourceType :: string where "ProjectResourceType = ''project''"
definition ClusterResourceType :: string where "ClusterResourceType = ''cluster''"
definition NodeDeploymentResourceType :: string where "NodeDeploymentResourceType = ''nodedeployment''"

definition systemLabels :: "'x sdk_scheme \<Rightarrow> string \<Rightarrow> string list" where
  "systemLabels K res =
     (if res = ProjectResourceType then []
      else if res = ClusterResourceType then
        [workerNameLabelKey K, projectIDLabelKey K, isCredentialPresetLabelKey K]
      else [])"

definition FilterLabels :: "'x sdk_scheme \<Rightarrow> string \<Rightarrow> smap \<Rightarrow> smap" where
  "FilterLabels K res ls = fold AList.delete (systemLabels K res) ls"

section \<open>The project provider\<close>

definition project_New :: "('s, 'x) env_scheme \<Rightarrow> ProjectSpec \<Rightarrow> smap \<Rightarrow> ('s, project) act" where
  "project_New E spec ls =
     bindA (randA E) (\<lambda>name.
       kCreate (cs_projects (privileged E))
         (zero_project\<lparr>om_name := name, om_labels := ls, pr_name := ps_name spec,
                       pr_allowedOperatingSystems := ps_allowedOperatingSystems spec\<rparr>))"

definition project_Update :: "('s, 'x) env_scheme \<Rightarrow> UserInfo option \<Rightarrow> project \<Rightarrow> ('s, project) act" where
  "project_Update E userInfo newProject =
     (case userInfo of
        None \<Rightarrow> failA (Plain ''a user is missing but required'')
      | Some ui \<Rightarrow>
          bindA (createImpersonationClientWrapperFromUserInfo E ui) (\<lambda>client.
            kUpdate (cs_projects client) newProject))"

definition project_Delete :: "('s, 'x) env_scheme \<Rightarrow> UserInfo option \<Rightarrow> string \<Rightarrow> ('s, unit) act" where
  "project_Delete E userInfo name =
     (case userInfo of
        None \<Rightarrow> failA (Plain ''a user is missing but required'')
      | Some ui \<Rightarrow>
          bindA (createImpersonationClientWrapperFromUserInfo E ui) (\<lambda>client.
          bindA (getA (cs_projects client) ([], name)) (\<lambda>existingProject.
            kDelete (cs_projects client) (key_of existingProject))))"

definition default_get_options :: "ProjectGetOptions option \<Rightarrow> ProjectGetOptions" where
  "default_get_options options =
     (case options of None \<Rightarrow> \<lparr>includeUninitialized = True\<rparr> | Some opts \<Rightarrow> opts)"

definition project_Get ::
  "('s, 'x) env_scheme \<Rightarrow> UserInfo option \<Rightarrow> string \<Rightarrow> ProjectGetOptions option \<Rightarrow> ('s, project) act" where
  "project_Get E userInfo name options =
     (case userInfo of
        None \<Rightarrow> failA (Plain ''a user is missing but required'')
      | Some ui \<Rightarrow>
          let options = default_get_options options in
          bindA (createImpersonationClientWrapperFromUserInfo E ui) (\<lambda>client.
          bindA (getA (cs_projects client) ([], name)) (\<lambda>existingProject.
            if \<not> includeUninitialized options \<and> pr_phase existingProject \<noteq> projectActive E
            then failA NewServiceUnavailable
            else retA existingProject)))"

definition project_GetUnsecured ::
  "('s, 'x) env_scheme \<Rightarrow> string \<Rightarrow> ProjectGetOptions option \<Rightarrow> ('s, project) act" where
  "project_GetUnsecured E name options =
     (let options = default_get_options options in
      bindA (getA (cs_projects (privileged E)) ([], name)) (\<lambda>project.
        if \<not> includeUninitialized options \<and> pr_phase project \<noteq> projectActive E
        then failA NewServiceUnavailable
        else retA project))"

definition project_DeleteUnsecured :: "('s, 'x) env_scheme \<Rightarrow> string \<Rightarrow> ('s, unit) act" where
  "project_DeleteUnsecured E name =
     bindA (getA (cs_projects (privileged E)) ([], name)) (\<lambda>existingProject.
       kDelete (cs_projects (privileged E)) (key_of existingProject))"

definition project_UpdateUnsecured :: "('s, 'x) env_scheme \<Rightarrow> project \<Rightarrow> ('s, project) act" where
  "project_UpdateUnsecured E project = kUpdate (cs_projects (privileged E)) project"

definition project_List ::
  "('s, 'x) env_scheme \<Rightarrow> ProjectListOptions option \<Rightarrow> ('s, project list) act" where
  "project_List E options =
     (let options = (case options of None \<Rightarrow> \<lparr>plo_projectName = []\<rparr> | Some opts \<Rightarrow> opts) in
      bindA (listA (cs_projects (privileged E)) Everything) (\<lambda>projects.
        retA (map (\<lambda>p. p\<lparr>om_labels := FilterLabels E ClusterResourceType (om_labels p)\<rparr>)
               (filter (\<lambda>p. \<not> (plo_projectName options \<noteq> [] \<and> pr_name p \<noteq> plo_projectName options)) projects))))"

definition kube_projectProvider :: "('s, 'x) env_scheme \<Rightarrow> 's ProjectProvider" where
  "kube_projectProvider E = \<lparr>pp_New = project_New E, pp_Delete = project_Delete E, pp_Get = project_Get E,
     pp_Update = project_Update E, pp_List = project_List E\<rparr>"

definition kube_privilegedProjectProvider :: "('s, 'x) env_scheme \<Rightarrow> 's PrivilegedProjectProvider" where
  "kube_privilegedProjectProvider E = \<lparr>ppp_GetUnsecured = project_GetUnsecured E,
     ppp_DeleteUnsecured = project_DeleteUnsecured E, ppp_UpdateUnsecured = project_UpdateUnsecured E\<rparr>"

section \<open>Global settings\<close>

text \<open>
  The fields of the record are those that \<^verbatim>\<open>createDefaultGlobalSettings\<close> sets.
\<close>

definition defaultGlobalSettings :: "'x sdk_scheme \<Rightarrow> settings" where
  "defaultGlobalSettings K = objmeta.extend (blank_meta\<lparr>om_name := globalSettingsName K\<rparr>)
     (settings.fields 0 False False False True True False (Some False) False False False 2 []
       (False, False) (Some (2, 32, 2, 128, False)) (Some (Some False)))"

definition createDefaultGlobalSettings :: "('s, 'x) env_scheme \<Rightarrow> ('s, settings) act" where
  "createDefaultGlobalSettings E = kCreate (cs_settings (privileged E)) (defaultGlobalSettings E)"

definition GetGlobalSettings :: "('s, 'x) env_scheme \<Rightarrow> ('s, settings) act" where
  "GetGlobalSettings E =
     tryA (getA (cs_settings (privileged E)) ([], globalSettingsName E)) (\<lambda>r.
       case r of
         Inl e \<Rightarrow> if IsNotFound e then createDefaultGlobalSettings E else failA e
       | Inr settings \<Rightarrow> retA settings)"

definition UpdateGlobalSettings :: "('s, 'x) env_scheme \<Rightarrow> UserInfo \<Rightarrow> settings \<Rightarrow> ('s, settings) act" where
  "UpdateGlobalSettings E userInfo newSettings =
     (if \<not> ui_isAdmin userInfo then failA NewForbidden
      else kUpdate (cs_settings (privileged E)) newSettings)"

definition kube_settingsProvider :: "('s, 'x) env_scheme \<Rightarrow> 's SettingsProvider" where
  "kube_settingsProvider E = \<lparr>sp_GetGlobalSettings = GetGlobalSettings E,
     sp_UpdateGlobalSettings = UpdateGlobalSettings E\<rparr>"

section \<open>Lemmas\<close>

lemma reads_project_Get [reads_intros]: "reads (project_Get E ui n opts)"
  unfolding project_Get_def by (intro reads_intros)

lemma reads_project_GetUnsecured [reads_intros]: "reads (project_GetUnsecured E n opts)"
  unfolding project_GetUnsecured_def by (intro reads_intros)

lemma reads_project_List [reads_intros]: "reads (project_List E opts)"
  unfolding project_List_def by (intro reads_intros)

lemma map_of_fold_delete:
  "map_of (fold AList.delete ks ls) k = (if k \<in> set ks then None else map_of ls k)"
  by (induction ks arbitrary: ls) (auto simp: AList.delete_conv')

lemma FilterLabels_lookup:
  "map_of (FilterLabels K res ls) k = (if k \<in> set (systemLabels K res) then None else map_of ls k)"
  by (simp add: FilterLabels_def map_of_fold_delete)

end
