(* ===== verification/User_Provider.thy ===== *)
theory User_Provider
  imports Member_Provider
begin

text \<open>
  Users, their token blacklist and administrators: \<^verbatim>\<open>pkg/provider/kubernetes/user.go\<close> and
  \<^verbatim>\<open>pkg/provider/kubernetes/admin.go\<close>.
\<close>

section \<open>The user provider\<close>

definition UserByID :: "('s, 'x) env_scheme \<Rightarrow> string \<Rightarrow> ('s, user) act" where
  "UserByID E userID = getA (cs_users (privileged E)) ([], userID)"

definition UserByEmail :: "('s, 'x) env_scheme \<Rightarrow> string \<Rightarrow> ('s, user) act" where
  "UserByEmail E email =
     bindA (listA (cs_users (privileged E)) Everything) (\<lambda>users.
       case List.find (\<lambda>u. EqualFold (us_email u) email) users of
         None \<Rightarrow> failA ErrNotFound
       | Some user \<Rightarrow> retA user)"

definition CreateUser ::
  "('s, 'x) env_scheme \<Rightarrow> string \<Rightarrow> string \<Rightarrow> string list \<Rightarrow> ('s, user) act" where
  "CreateUser E name email0 groups =
     (if name = [] \<or> email0 = [] then failA NewBadRequest
      else let email = ToLower email0 in
        if isSA E email then failA NewBadRequest
        else
          let user = zero_user\<lparr>om_name := sha256hex E email, us_name := name, us_email := email, us_groups := groups\<rparr>
          in bindA (listA (cs_users (privileged E)) Everything) (\<lambda>userList.
               let user = (if userList = [] then user\<lparr>us_isAdmin := True\<rparr> else user)
               in kCreate (cs_users (privileged E)) user))"

text \<open>
  The update and then the status patch: the object sent first carries the old status, and the
  patch is the difference between the server's answer and that answer with the wanted status.
\<close>

definition UpdateUser :: "('s, 'x) env_scheme \<Rightarrow> user \<Rightarrow> ('s, user) act" where
  "UpdateUser E user =
     (let status = us_lastSeen user in
      bindA (kUpdate (cs_users (privileged E)) user) (\<lambda>oldUser.
        kPatchStatus (cs_users (privileged E)) oldUser (oldUser\<lparr>us_lastSeen := status\<rparr>)))"

definition ensureTokenBlacklistSecret :: "('s, 'x) env_scheme \<Rightarrow> user \<Rightarrow> ('s, secret) act" where
  "ensureTokenBlacklistSecret E user =
     (let name = invalidTokensSecretName E user;
          ns = kubermaticNamespace E;
          secrets = cs_secrets (privileged E);
          probe = tryA (getA secrets (ns, name)) (\<lambda>r. case r of
                    Inl e \<Rightarrow> if \<not> IsNotFound e then failA (Wrapped e) else retA zero_secret
                  | Inr x \<Rightarrow> retA x)
      in bindA probe (\<lambda>existingSecret.
         bindA (if om_name existingSecret = [] then
                  wrapA Wrapped (kCreate secrets
                    (zero_secret\<lparr>om_name := name, om_namespace := ns, sec_type := ''Opaque'',
                                 sec_data := Some [(tokenBlacklistKey E, [])]\<rparr>))
                else retA existingSecret) (\<lambda>existingSecret.
           if us_invalidTokensReference user = None then
             bindA (wrapA Wrapped (kUpdate (cs_users (privileged E))
                      (user\<lparr>us_invalidTokensReference := Some (ns, name)\<rparr>))) (\<lambda>_.
               retA existingSecret)
           else retA existingSecret)))"

text \<open>Each turn of the loop asks the clock anew.\<close>

definition clearExpiredTokens :: "('s, 'x) env_scheme \<Rightarrow> blacklistToken list \<Rightarrow> ('s, blacklistToken list) act" where
  "clearExpiredTokens E tokens =
     foldA (\<lambda>blockedToken blockedTokens.
       bindA (nowA E) (\<lambda>now.
         retA (if now < bt_expiry blockedToken then blockedTokens @ [blockedToken] else blockedTokens)))
       tokens []"

definition InvalidateToken ::
  "('s, 'x) env_scheme \<Rightarrow> user option \<Rightarrow> string \<Rightarrow> time \<Rightarrow> ('s, unit) act" where
  "InvalidateToken E userPtr token expiry =
     (case userPtr of
        None \<Rightarrow> failA NewBadRequest
      | Some user \<Rightarrow>
          if token = [] then failA NewBadRequest
          else
            bindA (ensureTokenBlacklistSecret E user) (\<lambda>secret.
            case data_lookup (sec_data secret) (tokenBlacklistKey E) of
              None \<Rightarrow> failA (Plain ''secret has no blacklist key'')
            | Some tokenList \<Rightarrow>
                bindA (if tokenList \<noteq> [] then liftA (unmarshalTokens E tokenList) else retA []) (\<lambda>blockedTokens.
                bindA (clearExpiredTokens E (blockedTokens @ [\<lparr>bt_token = token, bt_expiry = expiry\<rparr>])) (\<lambda>blockedTokens.
                bindA (liftA (marshalTokens E blockedTokens)) (\<lambda>tokenJSON.
                bindA (kUpdate (cs_secrets (privileged E))
                         (secret\<lparr>sec_data := Some [(tokenBlacklistKey E, tokenJSON)]\<rparr>)) (\<lambda>_.
                  retA ()))))))"

definition GetInvalidatedTokens :: "('s, 'x) env_scheme \<Rightarrow> user option \<Rightarrow> ('s, string list) act" where
  "GetInvalidatedTokens E userPtr =
     (case userPtr of
        None \<Rightarrow> failA NewBadRequest
      | Some user \<Rightarrow>
          if us_invalidTokensReference user = None then retA []
          else
            bindA (secretKeySelectorValue (cs_secrets (privileged E)) (us_invalidTokensReference user)
                     (tokenBlacklistKey E)) (\<lambda>tokenList.
            bindA (if tokenList \<noteq> [] then liftA (unmarshalTokens E tokenList) else retA []) (\<lambda>blockedTokens.
              retA (map bt_token blockedTokens))))"

definition user_List :: "('s, 'x) env_scheme \<Rightarrow> ('s, user list) act" where
  "user_List E = listA (cs_users (privileged E)) Everything"

definition kube_userProvider :: "('s, 'x) env_scheme \<Rightarrow> 's UserProvider" where
  "kube_userProvider E = \<lparr>up_UserByEmail = UserByEmail E, up_CreateUser = CreateUser E,
     up_UpdateUser = UpdateUser E, up_UserByID = UserByID E, up_InvalidateToken = InvalidateToken E,
     up_GetInvalidatedTokens = GetInvalidatedTokens E, up_List = user_List E\<rparr>"

section \<open>Administrators\<close>

definition GetAdmins :: "('s, 'x) env_scheme \<Rightarrow> UserInfo \<Rightarrow> ('s, user list) act" where
  "GetAdmins E userInfo =
     (if \<not> ui_isAdmin userInfo then failA NewForbidden
      else bindA (listA (cs_users (privileged E)) Everything) (\<lambda>users.
             retA (filter us_isAdmin users)))"

definition SetAdmin :: "('s, 'x) env_scheme \<Rightarrow> UserInfo \<Rightarrow> Admin \<Rightarrow> ('s, user) act" where
  "SetAdmin E userInfo adminBody =
     (if \<not> ui_isAdmin userInfo then failA NewForbidden
      else if EqualFold (ui_email userInfo) (ad_email adminBody) then failA NewBadRequest
      else bindA (listA (cs_users (privileged E)) Everything) (\<lambda>userList.
        case List.find (\<lambda>u. EqualFold (us_email u) (ad_email adminBody)) userList of
          None \<Rightarrow> failA (Plain ''the given user was not found'')
        | Some user \<Rightarrow>
            if ad_isAdmin adminBody = Some False \<and>
               mget (om_annotations user) (adminGrantedByGroupAnnotation E) \<noteq> []
            then failA NewBadRequest
            else
              let userCopy = (case ad_isAdmin adminBody of None \<Rightarrow> user | Some b \<Rightarrow> user\<lparr>us_isAdmin := b\<rparr>);
                  userCopy = (case ad_isGlobalViewer adminBody of None \<Rightarrow> userCopy
                              | Some b \<Rightarrow> userCopy\<lparr>us_isGlobalViewer := b\<rparr>)
              in kUpdate (cs_users (privileged E)) userCopy))"

definition kube_adminProvider :: "('s, 'x) env_scheme \<Rightarrow> 's AdminProvider" where
  "kube_adminProvider E = \<lparr>ap_SetAdmin = SetAdmin E, ap_GetAdmins = GetAdmins E\<rparr>"

section \<open>Lemmas\<close>

lemma reads_UserByID [reads_intros]: "reads (UserByID E i)"
  unfolding UserByID_def by (intro reads_intros)

lemma reads_UserByEmail [reads_intros]: "reads (UserByEmail E e)"
  unfolding UserByEmail_def by (intro reads_intros)

lemma reads_GetInvalidatedTokens [reads_intros]: "reads (GetInvalidatedTokens E u)"
  unfolding GetInvalidatedTokens_def by (intro reads_intros)

lemma UserByEmail_run:
  "UserByEmail E e s = (case kList (cs_users (privileged E)) Everything s of
      Inl er \<Rightarrow> (Inl er, s)
    | Inr us \<Rightarrow> (case List.find (\<lambda>u. EqualFold (us_email u) e) us of
        None \<Rightarrow> (Inl ErrNotFound, s) | Some u \<Rightarrow> (Inr u, s)))"
  by (simp add: UserByEmail_def bindA_def split: sum.split option.split)

end
