(* ===== verification/Service_Accounts.thy ===== *)
theory Service_Accounts
  imports Member_Provider
begin

text \<open>
  Project service accounts and their tokens: \<^verbatim>\<open>pkg/provider/kubernetes/sa.go\<close> and
  \<^verbatim>\<open>pkg/provider/kubernetes/sa_token.go\<close>. A service account is a user object whose name carries
  a prefix, its tokens are secrets owned by that user object whose names carry another prefix.
  Callers see both names without the prefix.
\<close>

section \<open>Service accounts\<close>

definition ServiceAccountLabelGroup :: string where
  "ServiceAccountLabelGroup = ''initialGroup''"

definition strip_sa_name :: "'x sdk_scheme \<Rightarrow> user \<Rightarrow> user" where
  "strip_sa_name K sa = sa\<lparr>om_name := removeSA K (om_name sa)\<rparr>"

definition genProjectServiceAccount ::
  "('s, 'x) env_scheme \<Rightarrow> project \<Rightarrow> string \<Rightarrow> string \<Rightarrow> string \<Rightarrow> ('s, user) act" where
  "genProjectServiceAccount E project name grp domain =
     bindA (randA E) (\<lambda>uniqueID.
       let uniqueName = ensureSA E uniqueID in
       retA (zero_user\<lparr>om_name := uniqueName, us_email := uniqueName @ ''@'' @ domain, us_name := name,
                       us_project := om_name project, om_labels := [(ServiceAccountLabelGroup, grp)]\<rparr>))"

definition sa_Create ::
  "('s, 'x) env_scheme \<Rightarrow> UserInfo \<Rightarrow> project option \<Rightarrow> string \<Rightarrow> string \<Rightarrow> ('s, user) act" where
  "sa_Create E userInfo projectPtr name grp =
     (case projectPtr of
        None \<Rightarrow> failA NewBadRequest
      | Some project \<Rightarrow>
          if name = [] \<or> grp = [] then failA NewBadRequest
          else
            bindA (genProjectServiceAccount E project name grp (saDomain E)) (\<lambda>sa.
            bindA (createImpersonationClientWrapperFromUserInfo E userInfo) (\<lambda>client.
            bindA (kCreate (cs_users client) sa) (\<lambda>sa.
              retA (strip_sa_name E sa)))))"

definition sa_CreateUnsecured ::
  "('s, 'x) env_scheme \<Rightarrow> project option \<Rightarrow> string \<Rightarrow> string \<Rightarrow> ('s, user) act" where
  "sa_CreateUnsecured E projectPtr name grp =
     (case projectPtr of
        None \<Rightarrow> failA NewBadRequest
      | Some project \<Rightarrow>
          if name = [] \<or> grp = [] then failA NewBadRequest
          else
            bindA (genProjectServiceAccount E project name grp (saDomain E)) (\<lambda>sa.
            bindA (kCreate (cs_users (privileged E)) sa) (\<lambda>sa.
              retA (strip_sa_name E sa))))"

definition listProjectSA :: "('s, 'x) env_scheme \<Rightarrow> project \<Rightarrow> ('s, user list) act" where
  "listProjectSA E project =
     bindA (listA (cs_users (privileged E)) Everything) (\<lambda>serviceAccounts.
       retA (filter (\<lambda>sa. isSA E (om_name sa) \<and> us_project sa = om_name project) serviceAccounts))"

definition default_sa_list_options :: "ServiceAccountListOptions option \<Rightarrow> ServiceAccountListOptions" where
  "default_sa_list_options options =
     (case options of None \<Rightarrow> \<lparr>serviceAccountName = []\<rparr> | Some opts \<Rightarrow> opts)"

definition sa_List ::
  "('s, 'x) env_scheme \<Rightarrow> UserInfo option \<Rightarrow> project option \<Rightarrow>
     ServiceAccountListOptions option \<Rightarrow> ('s, user list) act" where
  "sa_List E userInfo projectPtr options =
     (case userInfo of
        None \<Rightarrow> failA NewBadRequest
      | Some ui \<Rightarrow>
        (case projectPtr of
           None \<Rightarrow> failA NewBadRequest
         | Some project \<Rightarrow>
             let options = default_sa_list_options options in
             bindA (listProjectSA E project) (\<lambda>resultList.
             bindA (case resultList of
                      [] \<Rightarrow> retA ()
                    | saToGet # _ \<Rightarrow>
                        bindA (createImpersonationClientWrapperFromUserInfo E ui) (\<lambda>client.
                        bindA (getA (cs_users client) ([], om_name saToGet)) (\<lambda>_. retA ()))) (\<lambda>_.
               let resultList = map (strip_sa_name E) resultList in
               if serviceAccountName options = [] then retA resultList
               else retA (first_match (\<lambda>sa. us_name sa = serviceAccountName options) resultList)))))"

definition sa_ListUnsecured ::
  "('s, 'x) env_scheme \<Rightarrow> project option \<Rightarrow> ServiceAccountListOptions option \<Rightarrow> ('s, user list) act" where
  "sa_ListUnsecured E projectPtr options =
     (case projectPtr of
        None \<Rightarrow> failA NewBadRequest
      | Some project \<Rightarrow>
          let options = default_sa_list_options options in
          bindA (listProjectSA E project) (\<lambda>resultList.
            let resultList = map (strip_sa_name E) resultList in
            if serviceAccountName options = [] then retA resultList
            else retA (first_match (\<lambda>sa. us_name sa = serviceAccountName options) resultList)))"

definition default_sa_get_options :: "ServiceAccountGetOptions option \<Rightarrow> ServiceAccountGetOptions" where
  "default_sa_get_options options =
     (case options of None \<Rightarrow> \<lparr>removePrefix = True\<rparr> | Some opts \<Rightarrow> opts)"

definition sa_Get ::
  "('s, 'x) env_scheme \<Rightarrow> UserInfo option \<Rightarrow> string \<Rightarrow> ServiceAccountGetOptions option \<Rightarrow> ('s, user) act" where
  "sa_Get E userInfo name0 options =
     (case userInfo of
        None \<Rightarrow> failA NewBadRequest
      | Some ui \<Rightarrow>
          if name0 = [] then failA NewBadRequest
          else
            let options = default_sa_get_options options in
            bindA (createImpersonationClientWrapperFromUserInfo E ui) (\<lambda>client.
              let name = ensureSA E name0 in
              bindA (getA (cs_users client) ([], name)) (\<lambda>serviceAccount.
                retA (if removePrefix options then strip_sa_name E serviceAccount else serviceAccount))))"

definition sa_GetUnsecured ::
  "('s, 'x) env_scheme \<Rightarrow> string \<Rightarrow> ServiceAccountGetOptions option \<Rightarrow> ('s, user) act" where
  "sa_GetUnsecured E name0 options =
     (if name0 = [] then failA NewBadRequest
      else
        let options = default_sa_get_options options;
            name = ensureSA E name0
        in bindA (getA (cs_users (privileged E)) ([], name)) (\<lambda>serviceAccount.
             retA (if removePrefix options then strip_sa_name E serviceAccount else serviceAccount)))"

definition ensure_sa_name :: "'x sdk_scheme \<Rightarrow> user \<Rightarrow> user" where
  "ensure_sa_name K sa = sa\<lparr>om_name := ensureSA K (om_name sa)\<rparr>"

definition sa_Update ::
  "('s, 'x) env_scheme \<Rightarrow> UserInfo option \<Rightarrow> user option \<Rightarrow> ('s, user) act" where
  "sa_Update E userInfo saPtr =
     (case userInfo of
        None \<Rightarrow> failA NewBadRequest
      | Some ui \<Rightarrow>
        (case saPtr of
           None \<Rightarrow> failA NewBadRequest
         | Some serviceAccount \<Rightarrow>
             bindA (createImpersonationClientWrapperFromUserInfo E ui) (\<lambda>client.
             bindA (kUpdate (cs_users client) (ensure_sa_name E serviceAccount)) (\<lambda>serviceAccount.
               retA (strip_sa_name E serviceAccount)))))"

definition sa_UpdateUnsecured :: "('s, 'x) env_scheme \<Rightarrow> user option \<Rightarrow> ('s, user) act" where
  "sa_UpdateUnsecured E saPtr =
     (case saPtr of
        None \<Rightarrow> failA NewBadRequest
      | Some serviceAccount \<Rightarrow>
          bindA (kUpdate (cs_users (privileged E)) (ensure_sa_name E serviceAccount)) (\<lambda>serviceAccount.
            retA (strip_sa_name E serviceAccount)))"

definition sa_Delete :: "('s, 'x) env_scheme \<Rightarrow> UserInfo option \<Rightarrow> string \<Rightarrow> ('s, unit) act" where
  "sa_Delete E userInfo name =
     (case userInfo of
        None \<Rightarrow> failA NewBadRequest
      | Some ui \<Rightarrow>
          if name = [] then failA NewBadRequest
          else bindA (createImpersonationClientWrapperFromUserInfo E ui) (\<lambda>client.
                 kDelete (cs_users client) ([], ensureSA E name)))"

definition sa_DeleteUnsecured :: "('s, 'x) env_scheme \<Rightarrow> string \<Rightarrow> ('s, unit) act" where
  "sa_DeleteUnsecured E name =
     (if name = [] then failA NewBadRequest
      else kDelete (cs_users (privileged E)) ([], ensureSA E name))"

definition kube_serviceAccountProvider :: "('s, 'x) env_scheme \<Rightarrow> 's ServiceAccountProvider" where
  "kube_serviceAccountProvider E = \<lparr>sap_Create = sa_Create E, sap_List = sa_List E, sap_Get = sa_Get E,
     sap_Update = sa_Update E, sap_Delete = sa_Delete E\<rparr>"

definition kube_privilegedServiceAccountProvider :: "('s, 'x) env_scheme \<Rightarrow> 's PrivilegedServiceAccountProvider" where
  "kube_privilegedServiceAccountProvider E = \<lparr>psap_Create = sa_CreateUnsecured E,
     psap_List = sa_ListUnsecured E, psap_Get = sa_GetUnsecured E,
     psap_Update = sa_UpdateUnsecured E, psap_Delete = sa_DeleteUnsecured E\<rparr>"

section \<open>Tokens\<close>

definition labelTokenName :: string where "labelTokenName = ''token''"
definition tokenPrefix :: string where "tokenPrefix = ''sa-token-''"
definition tokenNameLabel :: string where "tokenNameLabel = ''name''"

definition hasTokenPrefix :: "string \<Rightarrow> bool" where
  "hasTokenPrefix token = HasPrefix token tokenPrefix"

definition addTokenPrefix :: "string \<Rightarrow> string" where
  "addTokenPrefix i = (if \<not> hasTokenPrefix i then tokenPrefix @ i else i)"

definition removeTokenPrefix :: "string \<Rightarrow> string" where
  "removeTokenPrefix i = TrimPrefix i tokenPrefix"

definition isToken :: "secret option \<Rightarrow> bool" where
  "isToken secretPtr =
     (case secretPtr of None \<Rightarrow> False | Some secret \<Rightarrow> HasPrefix (om_name secret) ''sa-token'')"

definition strip_token_name :: "secret \<Rightarrow> secret" where
  "strip_token_name t = t\<lparr>om_name := removeTokenPrefix (om_name t)\<rparr>"

definition genToken ::
  "'x sdk_scheme \<Rightarrow> user \<Rightarrow> string \<Rightarrow> string \<Rightarrow> string \<Rightarrow> string \<Rightarrow> secret" where
  "genToken K sa projectID tokenName tokenID token =
     zero_secret\<lparr>om_name := addTokenPrefix tokenID,
       om_ownerReferences := [\<lparr>or_apiVersion = userAPIVersion K, or_kind = userKindName K,
                              or_uid = om_uid sa, or_name = om_name sa\<rparr>],
       om_labels := [(projectIDLabelKey K, projectID), (tokenNameLabel, tokenName)],
       sec_data := Some [(labelTokenName, token)],
       sec_type := ''Opaque''\<rparr>"

definition token_Create ::
  "('s, 'x) env_scheme \<Rightarrow> UserInfo option \<Rightarrow> user option \<Rightarrow> string \<Rightarrow> string \<Rightarrow> string \<Rightarrow> string \<Rightarrow> ('s, secret) act" where
  "token_Create E userInfo saPtr projectID tokenName tokenID token =
     (case userInfo of
        None \<Rightarrow> failA NewBadRequest
      | Some ui \<Rightarrow>
        (case saPtr of
           None \<Rightarrow> failA NewBadRequest
         | Some sa \<Rightarrow>
             let secret = (genToken E sa projectID tokenName tokenID token)\<lparr>om_namespace := kubermaticNamespace E\<rparr>
             in bindA (wrapA (\<lambda>_. NewInternalError) (createImpersonationClientWrapperFromUserInfo E ui)) (\<lambda>client.
                bindA (kCreate (cs_secrets client) secret) (\<lambda>secret.
                  retA (strip_token_name secret)))))"

definition token_CreateUnsecured ::
  "('s, 'x) env_scheme \<Rightarrow> user option \<Rightarrow> string \<Rightarrow> string \<Rightarrow> string \<Rightarrow> string \<Rightarrow> ('s, secret) act" where
  "token_CreateUnsecured E saPtr projectID tokenName tokenID token =
     (case saPtr of
        None \<Rightarrow> failA NewBadRequest
      | Some sa \<Rightarrow>
          let secret = (genToken E sa projectID tokenName tokenID token)\<lparr>om_namespace := kubermaticNamespace E\<rparr>
          in bindA (kCreate (cs_secrets (privileged E)) secret) (\<lambda>secret.
               retA (strip_token_name secret)))"

definition owned_by_user :: "'x sdk_scheme \<Rightarrow> string \<Rightarrow> owner_ref \<Rightarrow> bool" where
  "owned_by_user K name owner =
     (or_apiVersion owner = userAPIVersion K \<and> or_kind owner = userKindName K \<and> or_name owner = name)"

text \<open>The inner loop appends the secret once for every matching owner reference.\<close>

definition token_List ::
  "('s, 'x) env_scheme \<Rightarrow> UserInfo option \<Rightarrow> project option \<Rightarrow> user option \<Rightarrow>
     ServiceAccountTokenListOptions option \<Rightarrow> ('s, secret list) act" where
  "token_List E userInfo projectPtr saPtr options =
     (case userInfo of
        None \<Rightarrow> failA NewBadRequest
      | Some ui \<Rightarrow>
     (case projectPtr of
        None \<Rightarrow> failA NewBadRequest
      | Some project \<Rightarrow>
     (case saPtr of
        None \<Rightarrow> failA NewBadRequest
      | Some sa \<Rightarrow>
          bindA (listA (cs_secrets (privileged E)) (LabelEquals (projectIDLabelKey E) (om_name project))) (\<lambda>allSecrets.
            let resultList = concat (map (\<lambda>secret.
                  map (\<lambda>_. secret) (filter (\<lambda>owner. owned_by_user E (om_name sa) owner \<and> or_uid owner = om_uid sa)
                                      (om_ownerReferences secret)))
                  (filter (\<lambda>secret. isToken (Some secret)) allSecrets))
            in bindA (case resultList of
                        [] \<Rightarrow> retA ()
                      | tokenToGet # _ \<Rightarrow>
                          bindA (createImpersonationClientWrapperFromUserInfo E ui) (\<lambda>client.
                          bindA (getA (cs_secrets client) (kubermaticNamespace E, om_name tokenToGet)) (\<lambda>_.
                            retA ()))) (\<lambda>_.
                 let resultList = map strip_token_name resultList;
                     tokenID = (case options of None \<Rightarrow> [] | Some opts \<Rightarrow> opt_tokenID opts)
                 in if tokenID = [] then retA resultList
                    else retA (first_match (\<lambda>token.
                           map_of (om_labels token) tokenNameLabel = Some tokenID) resultList))))))"

definition filterByTokenName :: "secret list \<Rightarrow> string \<Rightarrow> secret list" where
  "filterByTokenName allTokens tokenName =
     (if tokenName \<noteq> [] then
        first_match (\<lambda>token. map_of (om_labels token) tokenNameLabel = Some tokenName) allTokens
      else allTokens)"

definition token_ListUnsecured ::
  "('s, 'x) env_scheme \<Rightarrow> ServiceAccountTokenListOptions option \<Rightarrow> ('s, secret list) act" where
  "token_ListUnsecured E options =
     (let labelSelector =
            (case options of None \<Rightarrow> Everything
             | Some opts \<Rightarrow> (case opt_labelSelector opts of None \<Rightarrow> Everything | Some sel \<Rightarrow> sel))
      in bindA (listA (cs_secrets (privileged E)) labelSelector) (\<lambda>allSecrets.
           let allTokens = map strip_token_name (filter (\<lambda>secret. isToken (Some secret)) allSecrets) in
           case options of
             None \<Rightarrow> retA allTokens
           | Some opts \<Rightarrow>
               if opt_tokenID opts \<noteq> [] then
                 (case List.find (\<lambda>token. om_name token = opt_tokenID opts) allTokens of
                    Some token \<Rightarrow> retA [token]
                  | None \<Rightarrow> failA NewNotFound)
               else if opt_serviceAccountID opts \<noteq> [] then
                 retA (filterByTokenName
                   (concat (map (\<lambda>token. map (\<lambda>_. token)
                      (filter (owned_by_user E (opt_serviceAccountID opts)) (om_ownerReferences token))) allTokens))
                   (opt_tokenName opts))
               else retA (filterByTokenName allTokens (opt_tokenName opts))))"

definition token_Get :: "('s, 'x) env_scheme \<Rightarrow> UserInfo option \<Rightarrow> string \<Rightarrow> ('s, secret) act" where
  "token_Get E userInfo name =
     (case userInfo of
        None \<Rightarrow> failA NewBadRequest
      | Some ui \<Rightarrow>
          if name = [] then failA NewBadRequest
          else
            bindA (wrapA (\<lambda>_. NewInternalError) (createImpersonationClientWrapperFromUserInfo E ui)) (\<lambda>client.
            bindA (getA (cs_secrets client) (kubermaticNamespace E, addTokenPrefix name)) (\<lambda>token.
              retA (strip_token_name token))))"

definition token_GetUnsecured :: "('s, 'x) env_scheme \<Rightarrow> string \<Rightarrow> ('s, secret) act" where
  "token_GetUnsecured E name =
     (if name = [] then failA NewBadRequest
      else bindA (getA (cs_secrets (privileged E)) (kubermaticNamespace E, addTokenPrefix name)) (\<lambda>token.
             retA (strip_token_name token)))"

definition prefixed_copy :: "'x sdk_scheme \<Rightarrow> secret \<Rightarrow> secret" where
  "prefixed_copy K secret =
     secret\<lparr>om_name := addTokenPrefix (om_name secret), om_namespace := kubermaticNamespace K\<rparr>"

definition token_Update :: "('s, 'x) env_scheme \<Rightarrow> UserInfo option \<Rightarrow> secret option \<Rightarrow> ('s, secret) act" where
  "token_Update E userInfo secretPtr =
     (case userInfo of
        None \<Rightarrow> failA NewBadRequest
      | Some ui \<Rightarrow>
        (case secretPtr of
           None \<Rightarrow> failA NewBadRequest
         | Some secret \<Rightarrow>
             bindA (wrapA (\<lambda>_. NewInternalError) (createImpersonationClientWrapperFromUserInfo E ui)) (\<lambda>client.
             bindA (kUpdate (cs_secrets client) (prefixed_copy E secret)) (\<lambda>secretCpy.
               retA (strip_token_name secretCpy)))))"

definition token_UpdateUnsecured :: "('s, 'x) env_scheme \<Rightarrow> secret option \<Rightarrow> ('s, secret) act" where
  "token_UpdateUnsecured E secretPtr =
     (case secretPtr of
        None \<Rightarrow> failA NewBadRequest
      | Some secret \<Rightarrow>
          bindA (kUpdate (cs_secrets (privileged E)) (prefixed_copy E secret)) (\<lambda>secretCpy.
            retA (strip_token_name secretCpy)))"

definition token_Delete :: "('s, 'x) env_scheme \<Rightarrow> UserInfo option \<Rightarrow> string \<Rightarrow> ('s, unit) act" where
  "token_Delete E userInfo name =
     (case userInfo of
        None \<Rightarrow> failA NewBadRequest
      | Some ui \<Rightarrow>
          if name = [] then failA NewBadRequest
          else
            bindA (wrapA (\<lambda>_. NewInternalError) (createImpersonationClientWrapperFromUserInfo E ui)) (\<lambda>client.
              kDelete (cs_secrets client) (kubermaticNamespace E, addTokenPrefix name)))"

definition token_DeleteUnsecured :: "('s, 'x) env_scheme \<Rightarrow> string \<Rightarrow> ('s, unit) act" where
  "token_DeleteUnsecured E name =
     (if name = [] then failA NewBadRequest
      else kDelete (cs_secrets (privileged E)) (kubermaticNamespace E, addTokenPrefix name))"

definition kube_serviceAccountTokenProvider :: "('s, 'x) env_scheme \<Rightarrow> 's ServiceAccountTokenProvider" where
  "kube_serviceAccountTokenProvider E = \<lparr>stp_Create = token_Create E, stp_List = token_List E,
     stp_Get = token_Get E, stp_Update = token_Update E, stp_Delete = token_Delete E\<rparr>"

definition kube_privilegedServiceAccountTokenProvider :: "('s, 'x) env_scheme \<Rightarrow> 's PrivilegedServiceAccountTokenProvider" where
  "kube_privilegedServiceAccountTokenProvider E = \<lparr>pstp_ListUnsecured = token_ListUnsecured E,
     pstp_CreateUnsecured = token_CreateUnsecured E, pstp_GetUnsecured = token_GetUnsecured E,
     pstp_UpdateUnsecured = token_UpdateUnsecured E, pstp_DeleteUnsecured = token_DeleteUnsecured E\<rparr>"

section \<open>Reading operations\<close>

lemma reads_listProjectSA [reads_intros]: "reads (listProjectSA E p)"
  unfolding listProjectSA_def by (intro reads_intros)

lemma reads_sa_List [reads_intros]: "reads (sa_List E u p opts)"
  unfolding sa_List_def by (intro reads_intros)

lemma reads_sa_ListUnsecured [reads_intros]: "reads (sa_ListUnsecured E p opts)"
  unfolding sa_ListUnsecured_def by (intro reads_intros)

lemma reads_sa_Get [reads_intros]: "reads (sa_Get E u n opts)"
  unfolding sa_Get_def by (intro reads_intros)

lemma reads_sa_GetUnsecured [reads_intros]: "reads (sa_GetUnsecured E n opts)"
  unfolding sa_GetUnsecured_def by (intro reads_intros)

lemma reads_token_List [reads_intros]: "reads (token_List E u p sa opts)"
  unfolding token_List_def by (intro reads_intros)

lemma reads_token_ListUnsecured [reads_intros]: "reads (token_ListUnsecured E opts)"
  unfolding token_ListUnsecured_def by (intro reads_intros)

lemma reads_token_Get [reads_intros]: "reads (token_Get E u n)"
  unfolding token_Get_def by (intro reads_intros)

lemma reads_token_GetUnsecured [reads_intros]: "reads (token_GetUnsecured E n)"
  unfolding token_GetUnsecured_def by (intro reads_intros)

section \<open>Token names\<close>

lemma hasTokenPrefix_add [simp]: "hasTokenPrefix (addTokenPrefix i)"
  by (simp add: addTokenPrefix_def hasTokenPrefix_def)

lemma addTokenPrefix_idem [simp]: "addTokenPrefix (addTokenPrefix i) = addTokenPrefix i"
  by (simp add: addTokenPrefix_def hasTokenPrefix_def)

lemma removeTokenPrefix_add: "\<not> hasTokenPrefix i \<Longrightarrow> removeTokenPrefix (addTokenPrefix i) = i"
  by (simp add: addTokenPrefix_def removeTokenPrefix_def)

lemma addTokenPrefix_remove:
  "hasTokenPrefix n \<Longrightarrow> \<not> hasTokenPrefix (removeTokenPrefix n) \<Longrightarrow> addTokenPrefix (removeTokenPrefix n) = n"
  by (auto simp: addTokenPrefix_def removeTokenPrefix_def hasTokenPrefix_def HasPrefix_iff)

lemma addTokenPrefix_nonempty [simp]: "addTokenPrefix i \<noteq> []"
  by (auto simp: addTokenPrefix_def hasTokenPrefix_def HasPrefix_iff tokenPrefix_def)

lemma hasTokenPrefix_isToken: "hasTokenPrefix (om_name t) \<Longrightarrow> isToken (Some t)"
  by (auto simp: hasTokenPrefix_def isToken_def tokenPrefix_def HasPrefix_iff)

end
