(* ===== verification/Auth.thy ===== *)
theory Auth
  imports Service_Accounts
begin

text \<open>
  Tokens on their way in: signing and checking service account tokens
  (\<^verbatim>\<open>pkg/serviceaccount/jwt.go\<close>), the verifiers and extractors of \<^verbatim>\<open>pkg/handler/auth\<close>
  (\<^verbatim>\<open>sa.go\<close>, \<^verbatim>\<open>oidc.go\<close>, \<^verbatim>\<open>plugin.go\<close>) and the types of \<^verbatim>\<open>pkg/provider/auth/types\<close>.
  The JOSE library and the OpenID Connect client are parameters.
\<close>

section \<open>Claims\<close>

record CustomTokenClaim =
  ct_email :: string
  ct_projectID :: string
  ct_tokenID :: string

record jwt_claims =
  jc_issuedAt :: "int option"
  jc_notBefore :: "int option"
  jc_expiry :: "int option"

record TokenClaims =
  tc_name :: string
  tc_email :: string
  tc_subject :: string
  tc_groups :: "string list"
  tc_nonce :: string
  tc_expiry :: time \<comment> \<open>zero when the token carries none\<close>

definition zero_claims :: TokenClaims where
  "zero_claims = \<lparr>tc_name = [], tc_email = [], tc_subject = [], tc_groups = [], tc_nonce = [], tc_expiry = 0\<rparr>"

type_synonym 's TokenVerifier = "string \<Rightarrow> ('s, TokenClaims) act"

text \<open>\<^verbatim>\<open>github.com/go-jose/go-jose\<close>, as far as the code calls it.\<close>

datatype jwt_error = ErrExpired | JwtErr

record jose =
  newSigner :: "string \<Rightarrow> string result" \<comment> \<open>the signer made from a key\<close>
  serializeSigned :: "string \<Rightarrow> CustomTokenClaim \<Rightarrow> jwt_claims \<Rightarrow> string result"
  newNumericDate :: "time \<Rightarrow> int option"
  numericTime :: "int option \<Rightarrow> time" \<comment> \<open>\<^verbatim>\<open>NumericDate.Time()\<close>, also of a nil date\<close>
  parseSigned :: "string \<Rightarrow> string result"
  tokenClaims :: "string \<Rightarrow> string \<Rightarrow> (CustomTokenClaim \<times> jwt_claims) result" \<comment> \<open>token, key\<close>
  validateAt :: "jwt_claims \<Rightarrow> time \<Rightarrow> jwt_error option"

section \<open>Calendar\<close>

text \<open>
  \<^verbatim>\<open>Time.AddDate\<close> works on the proleptic Gregorian calendar: the date with the year changed is
  normalised, so the 29th of February becomes the 1st of March in a common year. Days are counted
  from the 1st of January of year 1, in UTC.
\<close>

definition civil_from_days :: "int \<Rightarrow> int \<times> int \<times> int" where
  "civil_from_days n =
     (let z = n + 306;
          era = z div 146097;
          doe = z mod 146097;
          yoe = (doe - doe div 1460 + doe div 36524 - doe div 146096) div 365;
          doy = doe - (365 * yoe + yoe div 4 - yoe div 100);
          mp = (5 * doy + 2) div 153;
          d = doy - (153 * mp + 2) div 5 + 1;
          m = (if mp < 10 then mp + 3 else mp - 9)
      in (yoe + era * 400 + (if m \<le> 2 then 1 else 0), m, d))"

definition days_from_civil :: "int \<Rightarrow> int \<Rightarrow> int \<Rightarrow> int" where
  "days_from_civil y0 m d =
     (let y = (if m \<le> 2 then y0 - 1 else y0);
          era = y div 400;
          yoe = y mod 400;
          doy = (153 * (if m > 2 then m - 3 else m + 9) + 2) div 5 + d - 1;
          doe = yoe * 365 + yoe div 4 - yoe div 100 + doy
      in era * 146097 + doe - 306)"

definition day_ns :: int where "day_ns = 86400 * 1000000000"

definition addYears :: "int \<Rightarrow> time \<Rightarrow> time" where
  "addYears n t =
     (case civil_from_days (t div day_ns) of (y, m, d) \<Rightarrow> days_from_civil (y + n) m d * day_ns + t mod day_ns)"

section \<open>Service account tokens\<close>

definition Claims ::
  "('s, 'x) env_scheme \<Rightarrow> jose \<Rightarrow> string \<Rightarrow> string \<Rightarrow> string \<Rightarrow> ('s, jwt_claims \<times> CustomTokenClaim) act" where
  "Claims E J email projectID tokenID =
     bindA (nowA E) (\<lambda>now1.
     bindA (nowA E) (\<lambda>now2.
     bindA (nowA E) (\<lambda>now3.
       retA (\<lparr>jc_issuedAt = newNumericDate J now1, jc_notBefore = newNumericDate J now2,
              jc_expiry = newNumericDate J (addYears 3 now3)\<rparr>,
             \<lparr>ct_email = email, ct_projectID = projectID, ct_tokenID = tokenID\<rparr>))))"

definition ValidateKey :: "string \<Rightarrow> unit result" where
  "ValidateKey privateKey =
     (if length privateKey = 0 then Inl (Plain ''the signing key can not be empty'')
      else if length privateKey < 32 then Inl (Plain ''the signing key is to short'')
      else Inr ())"

definition JWTTokenGenerator :: "jose \<Rightarrow> string \<Rightarrow> string result" where
  "JWTTokenGenerator J privateKey =
     (case ValidateKey privateKey of Inl e \<Rightarrow> Inl e | Inr _ \<Rightarrow> newSigner J privateKey)"

definition Generate :: "jose \<Rightarrow> string \<Rightarrow> jwt_claims \<Rightarrow> CustomTokenClaim \<Rightarrow> string result" where
  "Generate J signer claims customClaims = serializeSigned J signer customClaims claims"

definition Authenticate ::
  "('s, 'x) env_scheme \<Rightarrow> jose \<Rightarrow> string \<Rightarrow> string \<Rightarrow> ('s, jwt_claims \<times> CustomTokenClaim) act" where
  "Authenticate E J key tokenData =
     bindA (liftA (parseSigned J tokenData)) (\<lambda>tok.
     bindA (liftA (tokenClaims J tok key)) (\<lambda>(customClaims, public).
     bindA (nowA E) (\<lambda>now.
       case validateAt J public now of
         Some ErrExpired \<Rightarrow> failA (Plain ''token has expired'')
       | Some JwtErr \<Rightarrow> failA (Wrapped (Plain ''token could not be validated''))
       | None \<Rightarrow> retA (public, customClaims))))"

definition sa_Verify ::
  "(string \<Rightarrow> ('s, jwt_claims \<times> CustomTokenClaim) act) \<Rightarrow> 's PrivilegedServiceAccountTokenProvider \<Rightarrow>
     's TokenVerifier" where
  "sa_Verify authenticate saTokenProvider token =
     bindA (authenticate token) (\<lambda>(_, customClaims).
       tryA (pstp_ListUnsecured saTokenProvider
               (Some \<lparr>opt_tokenID = ct_tokenID customClaims, opt_tokenName = [],
                      opt_labelSelector = None, opt_serviceAccountID = []\<rparr>)) (\<lambda>r.
         let tokenList = (case r of Inl _ \<Rightarrow> [] | Inr ts \<Rightarrow> ts) in
         if (case r of Inl e \<Rightarrow> IsNotFound e | Inr _ \<Rightarrow> False) then failA TokenExpiredError
         else (case tokenList of
             [rawToken] \<Rightarrow>
               (case data_lookup (sec_data rawToken) ''token'' of
                  None \<Rightarrow> failA (Plain ''sa: the token in the database is invalid'')
                | Some tokenFromDB \<Rightarrow>
                    if tokenFromDB \<noteq> token then failA TokenExpiredError
                    else retA (zero_claims\<lparr>tc_name := ct_tokenID customClaims, tc_email := ct_email customClaims,
                                           tc_subject := ct_email customClaims\<rparr>))
           | _ \<Rightarrow> failA (Plain ''sa: found zero or more than one token with the given id''))))"

section \<open>OpenID Connect tokens\<close>

text \<open>
  A JSON number of the claims is given by the two integers the code takes from the \<^verbatim>\<open>float64\<close>: its
  whole seconds and its fraction in nanoseconds.
\<close>

datatype json = JString string | JNumber int int | JList "json list" | JOther

record 's oidc =
  verifyIDToken :: "string \<Rightarrow> ('s, string) act"
  idTokenClaims :: "string \<Rightarrow> (string \<times> json) list result"
  errorText :: "go_error \<Rightarrow> string"

text \<open>\<^verbatim>\<open>time.Unix(secs, nsecs)\<close>.\<close>

definition unix_time :: "int \<Rightarrow> int \<Rightarrow> time" where
  "unix_time secs nsecs = (secs + 62135596800) * 1000000000 + nsecs"

text \<open>The type assertion \<^verbatim>\<open>raw.(string)\<close> panics on any other value.\<close>

definition string_claim :: "(string \<times> json) list \<Rightarrow> string \<Rightarrow> string result" where
  "string_claim claims k =
     (case map_of claims k of None \<Rightarrow> Inr [] | Some (JString v) \<Rightarrow> Inr v | Some _ \<Rightarrow> Inl Panic)"

definition group_claims :: "(string \<times> json) list \<Rightarrow> string list result" where
  "group_claims claims =
     (case map_of claims ''groups'' of
        None \<Rightarrow> Inr []
      | Some (JList raws) \<Rightarrow> Inr (concat (map (\<lambda>raw. case raw of JString grp \<Rightarrow> [grp] | _ \<Rightarrow> []) raws))
      | Some _ \<Rightarrow> Inl Panic)"

definition expiry_claim :: "(string \<times> json) list \<Rightarrow> time result" where
  "expiry_claim claims =
     (case map_of claims ''exp'' of
        None \<Rightarrow> Inr 0
      | Some (JNumber secs nsecs) \<Rightarrow> Inr (unix_time secs nsecs)
      | Some _ \<Rightarrow> Inl Panic)"

definition oidc_Verify :: "'s oidc \<Rightarrow> 's TokenVerifier" where
  "oidc_Verify oc token =
     (if token = [] then failA (Plain ''token cannot be empty'')
      else
        bindA (wrapA (\<lambda>err. if Contains (errorText oc err) ''oidc: token is expired'' then TokenExpiredError else err)
                 (verifyIDToken oc token)) (\<lambda>idToken.
        bindA (liftA (idTokenClaims oc idToken)) (\<lambda>claims.
        bindA (liftA (string_claim claims ''name'')) (\<lambda>name.
        bindA (liftA (string_claim claims ''email'')) (\<lambda>email.
        bindA (liftA (string_claim claims ''sub'')) (\<lambda>sub.
        bindA (liftA (group_claims claims)) (\<lambda>groups.
        bindA (liftA (expiry_claim claims)) (\<lambda>expiry.
          retA \<lparr>tc_name = name, tc_email = email, tc_subject = sub, tc_groups = groups,
                tc_nonce = (case map_of claims ''nonce'' of Some (JString nonce) \<Rightarrow> nonce | _ \<Rightarrow> []),
                tc_expiry = expiry\<rparr>))))))))"

section \<open>Plugins\<close>

fun verify_plugins :: "'s TokenVerifier list \<Rightarrow> string \<Rightarrow> go_error list \<Rightarrow> ('s, TokenClaims) act" where
  "verify_plugins [] token errList = failA (Aggregate errList)"
| "verify_plugins (plugin # plugins) token errList =
     tryA (plugin token) (\<lambda>r. case r of
       Inr claims \<Rightarrow> retA claims
     | Inl err \<Rightarrow> if isTokenExpired err then failA err
                 else verify_plugins plugins token (errList @ [err]))"

definition TokenVerifierPlugins :: "'s TokenVerifier list \<Rightarrow> 's TokenVerifier" where
  "TokenVerifierPlugins plugins token =
     (if plugins = [] then failA (Plain ''cannot validate the token - no plugins registered'')
      else verify_plugins plugins token [])"

section \<open>Extractors\<close>

text \<open>
  An HTTP request as the standard library presents it: \<^verbatim>\<open>Header.Get\<close> and \<^verbatim>\<open>URL.Query().Get\<close>, which
  are empty for a missing name, and the list of parsed cookies.
\<close>

record http_request =
  rq_header :: "string \<Rightarrow> string"
  rq_query :: "string \<Rightarrow> string"
  rq_cookies :: "(string \<times> string) list"
  rq_vars :: "string \<Rightarrow> string option" \<comment> \<open>\<^verbatim>\<open>mux.Vars(r)\<close>\<close>

type_synonym TokenExtractor = "http_request \<Rightarrow> string result"

definition headerBearerTokenExtractor :: "string \<Rightarrow> TokenExtractor" where
  "headerBearerTokenExtractor name r =
     (let header = rq_header r name in
      if length header < 7 then Inl (Plain ''haven't found a Bearer token in the header'')
      else Inr (drop 7 header))"

definition queryParamBearerTokenExtractor :: "string \<Rightarrow> TokenExtractor" where
  "queryParamBearerTokenExtractor name r =
     (let val = rq_query r name in
      if length val = 0 then Inl (Plain ''haven't found an OIDC token in the query param'') else Inr val)"

definition cookieHeaderBearerTokenExtractor :: "string \<Rightarrow> TokenExtractor" where
  "cookieHeaderBearerTokenExtractor name r =
     (case map_of (rq_cookies r) ''token'' of
        None \<Rightarrow> Inl (Wrapped (Plain ''named cookie not present''))
      | Some v \<Rightarrow> Inr v)"

fun itoa :: "nat \<Rightarrow> string" where
  "itoa n = (if n < 10 then [char_of (48 + n)] else itoa (n div 10) @ [char_of (48 + n mod 10)])"

declare itoa.simps [simp del]

definition atoi :: "string \<Rightarrow> nat" where
  "atoi s = foldl (\<lambda>n c. n * 10 + (of_char c - 48)) 0 s"

lemma atoi_itoa: "atoi (itoa n) = n"
proof (induction n rule: itoa.induct)
  case (1 n)
  show ?case
  proof (cases "n < 10")
    case True
    then show ?thesis by (subst itoa.simps) (simp add: atoi_def)
  next
    case False
    have "n mod 10 < 10" by simp
    then have "48 + n mod 10 < 256" by linarith
    moreover from False 1 have "atoi (itoa (n div 10)) = n div 10" by simp
    ultimately show ?thesis using False by (subst itoa.simps) (simp add: atoi_def)
  qed
qed

lemma inj_itoa: "inj itoa"
  by (rule inj_on_inverseI [where g = atoi]) (rule atoi_itoa)

definition indexed_cookie :: "string \<Rightarrow> nat \<Rightarrow> string" where
  "indexed_cookie name i = name @ ''-'' @ itoa i"

lemma inj_indexed_cookie: "inj (indexed_cookie name)"
  using inj_itoa by (auto simp: inj_on_def indexed_cookie_def)

text \<open>
  The loop \<^verbatim>\<open>for i := 1; ; i++\<close> ends because every turn uses up one more of the finitely many
  cookies of the request.
\<close>

function cookie_chunks :: "(string \<times> string) list \<Rightarrow> string \<Rightarrow> nat \<Rightarrow> string" where
  "cookie_chunks cookies name i =
     (case map_of cookies (indexed_cookie name i) of
        None \<Rightarrow> []
      | Some v \<Rightarrow> v @ cookie_chunks cookies name (Suc i))"
  by pat_completeness auto

lemma finite_cookie_indices:
  "finite {j. i \<le> j \<and> indexed_cookie name j \<in> fst ` set cookies}"
proof (rule finite_subset)
  show "finite (indexed_cookie name -` fst ` set cookies)"
    by (rule finite_vimageI) (auto intro: inj_indexed_cookie)
qed auto

lemma cookie_indices_shrink:
  assumes "map_of cookies (indexed_cookie name i) = Some v"
  shows "card {j. Suc i \<le> j \<and> indexed_cookie name j \<in> fst ` set cookies} <
         card {j. i \<le> j \<and> indexed_cookie name j \<in> fst ` set cookies}"
proof (rule psubset_card_mono [OF finite_cookie_indices])
  from assms have "(indexed_cookie name i, v) \<in> set cookies" by (rule map_of_SomeD)
  then have "indexed_cookie name i \<in> fst ` set cookies" by (metis fst_conv image_eqI)
  then have "i \<in> {j. i \<le> j \<and> indexed_cookie name j \<in> fst ` set cookies}" by simp
  moreover have "i \<notin> {j. Suc i \<le> j \<and> indexed_cookie name j \<in> fst ` set cookies}" by simp
  moreover have "{j. Suc i \<le> j \<and> indexed_cookie name j \<in> fst ` set cookies} \<subseteq>
      {j. i \<le> j \<and> indexed_cookie name j \<in> fst ` set cookies}" by auto
  ultimately show "{j. Suc i \<le> j \<and> indexed_cookie name j \<in> fst ` set cookies} \<subset>
      {j. i \<le> j \<and> indexed_cookie name j \<in> fst ` set cookies}" by blast
qed

termination cookie_chunks
  by (relation "measure (\<lambda>(cookies, name, i). card {j. i \<le> j \<and> indexed_cookie name j \<in> fst ` set cookies})")
    (simp_all only: wf_measure in_measure split cookie_indices_shrink)

declare cookie_chunks.simps [simp del]

definition cookieHeaderBearerMultiTokenExtractor :: "string \<Rightarrow> TokenExtractor" where
  "cookieHeaderBearerMultiTokenExtractor name r =
     (let finalToken = cookie_chunks (rq_cookies r) name 1 in
      if length finalToken = 0 then Inl (Plain ''haven't found a Bearer token in the Cookie header'')
      else Inr finalToken)"

fun combined_Extract :: "TokenExtractor list \<Rightarrow> http_request \<Rightarrow> string result" where
  "combined_Extract [] r = Inl (Plain ''haven't found an OIDC token'')"
| "combined_Extract (extractor # extractors) r =
     (case extractor r of Inr token \<Rightarrow> Inr token | Inl _ \<Rightarrow> combined_Extract extractors r)"

fun extract_plugins :: "TokenExtractor list \<Rightarrow> http_request \<Rightarrow> go_error list \<Rightarrow> string result" where
  "extract_plugins [] r errList = Inl (Aggregate errList)"
| "extract_plugins (plugin # plugins) r errList =
     (case plugin r of Inr token \<Rightarrow> Inr token | Inl err \<Rightarrow> extract_plugins plugins r (errList @ [err]))"

definition TokenExtractorPlugins :: "TokenExtractor list \<Rightarrow> TokenExtractor" where
  "TokenExtractorPlugins plugins r =
     (if plugins = [] then Inl (Plain ''cannot validate the token - no plugins registered'')
      else extract_plugins plugins r [])"

end
