(* ===== verification/Cloud_Spec.thy ===== *)
theory Cloud_Spec
  imports Go_Prelude
begin

text \<open>
  Specifications of user clusters: the part of the cloud provider, as the presets fill it, and the rest of the
  specification of a cluster, which clusters, cluster templates and the API share. The fields that no modelled code looks into are
  one text.
\<close>

section \<open>Cloud specifications\<close>

text \<open>A reference to the secret that holds the credentials: its namespace and its name.\<close>

type_synonym credentials_ref = "string \<times> string"

record TokenCloud = \<comment> \<open>Digitalocean, Anexia, Fake\<close>
  ct_token :: string
  ct_credentialsReference :: "credentials_ref option"

record HetznerCloud =
  ch_token :: string
  ch_network :: string
  ch_credentialsReference :: "credentials_ref option"

record AzureCloud =
  cz_tenantID :: string
  cz_subscriptionID :: string
  cz_clientID :: string
  cz_clientSecret :: string
  cz_resourceGroup :: string
  cz_vnetResourceGroup :: string
  cz_vnet :: string
  cz_subnet :: string
  cz_routeTable :: string
  cz_securityGroup :: string
  cz_loadBalancerSKU :: string
  cz_credentialsReference :: "credentials_ref option"

record VSphereCloud =
  cv_username :: string
  cv_password :: string
  cv_vmNetName :: string
  cv_networks :: "string list"
  cv_datastore :: string
  cv_datastoreCluster :: string
  cv_resourcePool :: string
  cv_basePath :: string
  cv_storagePolicy :: string
  cv_infraUsername :: string
  cv_infraPassword :: string
  cv_credentialsReference :: "credentials_ref option"

record BaremetalCloud =
  cb_tinkerbell :: "string option"
  cb_credentialsReference :: "credentials_ref option"

record AWSCloud =
  ca_accessKeyID :: string
  ca_secretAccessKey :: string
  ca_assumeRoleARN :: string
  ca_assumeRoleExternalID :: string
  ca_instanceProfileName :: string
  ca_routeTableID :: string
  ca_securityGroupID :: string
  ca_vpcID :: string
  ca_controlPlaneRoleARN :: string
  ca_credentialsReference :: "credentials_ref option"

record OpenstackCloud =
  co_useToken :: bool
  co_username :: string
  co_password :: string
  co_domain :: string
  co_project :: string
  co_projectID :: string
  co_applicationCredentialID :: string
  co_applicationCredentialSecret :: string
  co_network :: string
  co_securityGroups :: string
  co_floatingIPPool :: string
  co_routerID :: string
  co_subnetID :: string
  co_token :: string
  co_credentialsReference :: "credentials_ref option"

record GCPCloud =
  cg_serviceAccount :: string
  cg_network :: string
  cg_subnetwork :: string
  cg_credentialsReference :: "credentials_ref option"

record KubevirtCloud =
  ck_kubeconfig :: string
  ck_csiKubeconfig :: string
  ck_vpcName :: string
  ck_subnetName :: string
  ck_credentialsReference :: "credentials_ref option"

record AlibabaCloud =
  cal_accessKeyID :: string
  cal_accessKeySecret :: string
  cal_credentialsReference :: "credentials_ref option"

record NutanixCloud =
  cn_username :: string
  cn_password :: string
  cn_proxyURL :: string
  cn_clusterName :: string
  cn_projectName :: string
  cn_csi :: "(string \<times> string \<times> string \<times> int option) option" \<comment> \<open>user, password, endpoint, port\<close>
  cn_credentialsReference :: "credentials_ref option"

record VCDCloud =
  cvc_username :: string
  cvc_password :: string
  cvc_organization :: string
  cvc_vdc :: string
  cvc_ovdcNetworks :: "string list option"
  cvc_apiToken :: string
  cvc_credentialsReference :: "credentials_ref option"

text \<open>
  \<open>cl_providerName\<close> is what \<^verbatim>\<open>ClusterCloudProviderName\<close> of the SDK says about the specification, and \<open>cl_cloudProvider\<close> its field
  \<^verbatim>\<open>ProviderName\<close>. Filling in credentials changes neither.
\<close>

record CloudSpec =
  cl_datacenterName :: string
  cl_providerName :: "string result"
  cl_cloudProvider :: string
  cl_vsphere :: "VSphereCloud option"
  cl_baremetal :: "BaremetalCloud option"
  cl_openstack :: "OpenstackCloud option"
  cl_azure :: "AzureCloud option"
  cl_digitalocean :: "TokenCloud option"
  cl_hetzner :: "HetznerCloud option"
  cl_aws :: "AWSCloud option"
  cl_gcp :: "GCPCloud option"
  cl_fake :: "TokenCloud option"
  cl_kubevirt :: "KubevirtCloud option"
  cl_alibaba :: "AlibabaCloud option"
  cl_anexia :: "TokenCloud option"
  cl_nutanix :: "NutanixCloud option"
  cl_vmwareCloudDirector :: "VCDCloud option"

section \<open>Datacenters and seeds\<close>

record datacenter =
  dc_openstack :: "bool option" \<comment> \<open>\<^verbatim>\<open>EnforceFloatingIP\<close>\<close>
  dc_vsphere :: "string option" \<comment> \<open>\<^verbatim>\<open>DefaultStoragePolicy\<close>\<close>
  dc_requiredEmails :: "string list"

record seed =
  sd_name :: string
  sd_invalid :: bool \<comment> \<open>the phase is \<^verbatim>\<open>SeedInvalidPhase\<close>\<close>
  sd_datacenters :: "(string \<times> datacenter) list"

section \<open>Specifications of clusters\<close>

text \<open>Audit logging with its webhook backend, encryption at rest, and the proxy of the operating system manager.\<close>

record AuditLogging =
  al_webhookBackend :: "string option"
  al_rest :: string

record SecretboxKey =
  sbk_name :: string
  sbk_secretRef :: "string \<times> string" \<comment> \<open>name, key\<close>

record EncryptionConfiguration =
  enc_enabled :: bool
  enc_resources :: "string list option"
  enc_secretbox :: "SecretboxKey list option"

record OSMSettings =
  osm_httpProxy :: "string option"
  osm_noProxy :: "string option"
  osm_rest :: string

record ClusterNetwork =
  cn_konnectivityEnabled :: "bool option"
  cn_proxyMode :: string
  cn_rest :: string

record clusterSpec =
  cl_humanReadableName :: string
  cl_cloud :: CloudSpec
  cl_oidc :: "string option" \<comment> \<open>\<^const>\<open>None\<close> is the zero value\<close>
  cl_version :: "string option"
  cl_enableUserSSHKeyAgent :: "bool option"
  cl_dashboardEnabled :: "bool option"
  cl_auditLogging :: "AuditLogging option"
  cl_containerRuntime :: string
  cl_network :: ClusterNetwork
  cl_backupConfig :: "string option"
  cl_encryption :: "EncryptionConfiguration option"
  cl_osm :: "OSMSettings option"
  cl_features :: "(string \<times> bool) list"
  cl_rest :: string \<comment> \<open>the other fields that the API has too; they are only copied\<close>
  cl_internal :: string \<comment> \<open>the fields that the API does not have\<close>

end
