(* ===== verification/Common_Handlers.thy ===== *)
theory Common_Handlers
  imports Auth Project_Provider User_Provider Cloud_Spec
begin

text \<open>
  What the HTTP handlers share: \<^verbatim>\<open>pkg/handler/v1/common\<close> (\<^verbatim>\<open>error.go\<close>, \<^verbatim>\<open>common.go\<close>, \<^verbatim>\<open>conversion.go\<close>,
  \<^verbatim>\<open>event.go\<close>, \<^verbatim>\<open>request.go\<close>), the API types of \<^verbatim>\<open>pkg/api/v1/types.go\<close> they return, and the seeds
  with their cluster providers. A request body that the handler decodes from JSON is given as the
  outcome of the decoder.
\<close>

section \<open>Errors\<close>

definition KubernetesErrorToHTTPError :: "go_error \<Rightarrow> go_error" where
  "KubernetesErrorToHTTPError err =
     (case as_status err of Some (_, code) \<Rightarrow> HTTPError code | None \<Rightarrow> err)"

abbreviation httpA :: "('s, 'a) act \<Rightarrow> ('s, 'a) act" where
  "httpA m \<equiv> wrapA KubernetesErrorToHTTPError m"

section \<open>API objects\<close>

record apiObject =
  ao_id :: string
  ao_name :: string
  ao_annotations :: smap
  ao_creationTimestamp :: time
  ao_deletionTimestamp :: "time option"

record apiUser = apiObject +
  au_email :: string
  au_isAdmin :: bool
  au_isGlobalViewer :: bool
  au_projects :: "(string \<times> string) list" \<comment> \<open>\<^verbatim>\<open>ProjectGroup\<close>: id, group prefix\<close>
  au_groups :: "string list"
  au_settings :: "UserSettings option"
  au_lastSeen :: "time option"
  au_readAnnouncements :: "string list"

record apiProject = apiObject +
  aj_allowedOperatingSystems :: "(string \<times> bool) list"
  aj_status :: string
  aj_labels :: smap
  aj_owners :: "apiUser list"
  aj_clustersNumber :: int

definition blank_object :: apiObject where
  "blank_object = \<lparr>ao_id = [], ao_name = [], ao_annotations = [], ao_creationTimestamp = 0,
     ao_deletionTimestamp = None\<rparr>"

definition zero_apiUser :: apiUser where
  "zero_apiUser = apiObject.extend blank_object (apiUser.fields [] False False [] [] None None [])"

lemmas api_zero_defs = blank_object_def zero_apiUser_def apiObject.extend_def apiUser.fields_def

text \<open>A user as it is listed among the owners of a project.\<close>

definition owner_entry :: "user \<Rightarrow> apiUser" where
  "owner_entry u = zero_apiUser\<lparr>ao_name := us_name u, au_email := us_email u\<rparr>"

definition RolePriority :: "string \<Rightarrow> int" where
  "RolePriority role =
     (if role = ''owners'' then 1000 else if role = ''projectmanagers'' then 100
      else if role = ''editors'' then 10 else if role = ''viewers'' then 1 else 0)"

definition add_group_binding :: "gpb \<Rightarrow> (string \<times> string) list \<Rightarrow> (string \<times> string) list" where
  "add_group_binding binding projects =
     (case List.find (\<lambda>pg. fst pg = gpb_projectID binding) projects of
        None \<Rightarrow> projects @ [(gpb_projectID binding, gpb_role binding)]
      | Some pg \<Rightarrow>
          if RolePriority (gpb_role binding) > RolePriority (snd pg)
          then projects @ [(gpb_projectID binding, gpb_role binding)]
          else projects)"

definition ConvertInternalUserToExternal :: "user \<Rightarrow> bool \<Rightarrow> upb list \<Rightarrow> gpb list \<Rightarrow> apiUser" where
  "ConvertInternalUserToExternal internalUser includeSettings userBindings groupBindings =
     (let projects = map (\<lambda>b. (upb_projectID b, ExtractGroupPrefix (upb_group b))) userBindings;
          projects = fold add_group_binding groupBindings projects
      in zero_apiUser\<lparr>
           ao_id := om_name internalUser,
           ao_name := us_name internalUser,
           ao_creationTimestamp := om_creationTimestamp internalUser,
           ao_deletionTimestamp := om_deletionTimestamp internalUser,
           au_email := us_email internalUser,
           au_groups := us_groups internalUser,
           au_isAdmin := us_isAdmin internalUser,
           au_isGlobalViewer := us_isGlobalViewer internalUser,
           au_readAnnouncements := us_readAnnouncements internalUser,
           au_lastSeen := (if us_lastSeen internalUser \<noteq> 0 then Some (us_lastSeen internalUser) else None),
           au_settings := (if includeSettings then us_settings internalUser else None),
           au_projects := projects\<rparr>)"

definition ConvertInternalProjectToExternal ::
  "'x sdk_scheme \<Rightarrow> project \<Rightarrow> apiUser list \<Rightarrow> int \<Rightarrow> apiProject" where
  "ConvertInternalProjectToExternal K kubermaticProject projectOwners clustersNumber =
     apiObject.extend
       \<lparr>ao_id = om_name kubermaticProject, ao_name = pr_name kubermaticProject,
        ao_annotations = om_annotations kubermaticProject,
        ao_creationTimestamp = om_creationTimestamp kubermaticProject,
        ao_deletionTimestamp = om_deletionTimestamp kubermaticProject\<rparr>
       (apiProject.fields (pr_allowedOperatingSystems kubermaticProject) (pr_phase kubermaticProject)
          (FilterLabels K ProjectResourceType (om_labels kubermaticProject)) projectOwners clustersNumber)"

subsection \<open>SSH keys and events\<close>

record sshkey = objmeta +
  sk_name :: string
  sk_project :: string
  sk_clusters :: "string list"
  sk_fingerprint :: string
  sk_publicKey :: string

record apiSSHKey = apiObject +
  ak_fingerprint :: string
  ak_publicKey :: string

definition ConvertInternalSSHKeysToExternal :: "sshkey list \<Rightarrow> apiSSHKey list" where
  "ConvertInternalSSHKeysToExternal internalKeys =
     map (\<lambda>key. apiObject.extend
       \<lparr>ao_id = om_name key, ao_name = sk_name key, ao_annotations = [],
        ao_creationTimestamp = om_creationTimestamp key, ao_deletionTimestamp = om_deletionTimestamp key\<rparr>
       (apiSSHKey.fields (sk_fingerprint key) (sk_publicKey key))) internalKeys"

record event = objmeta +
  ev_kind :: string
  ev_objName :: string
  ev_objNamespace :: string
  ev_message :: string
  ev_type :: string
  ev_count :: int
  ev_seriesCount :: "int option" \<comment> \<open>\<^const>\<open>None\<close> when the event has no series\<close>
  ev_lastTimestamp :: time
  ev_eventTime :: time

record apiEvent = apiObject +
  ae_message :: string
  ae_type :: string
  ae_objName :: string
  ae_objNamespace :: string
  ae_objType :: string
  ae_lastTimestamp :: time
  ae_count :: int

definition resolveEventCount :: "event \<Rightarrow> int" where
  "resolveEventCount ev =
     (if ev_count ev > 0 then ev_count ev
      else (case ev_seriesCount ev of
              Some n \<Rightarrow> if n > 0 then n else 1
            | None \<Rightarrow> 1))"

definition resolveEventLastTimestamp :: "event \<Rightarrow> time" where
  "resolveEventLastTimestamp ev =
     (if ev_lastTimestamp ev \<noteq> 0 then ev_lastTimestamp ev
      else if ev_eventTime ev \<noteq> 0 then ev_eventTime ev
      else om_creationTimestamp ev)"

definition ConvertInternalEventToExternal :: "event \<Rightarrow> apiEvent" where
  "ConvertInternalEventToExternal ev =
     (let kind = (if ev_kind ev = ''Machine'' then ''Node''
                  else if ev_kind ev = ''MachineSet'' then ''Node Set''
                  else if ev_kind ev = ''MachineDeployment'' then ''Node Deployment''
                  else ev_kind ev)
      in apiObject.extend
           \<lparr>ao_id = om_uid ev, ao_name = om_name ev, ao_annotations = [],
            ao_creationTimestamp = om_creationTimestamp ev, ao_deletionTimestamp = None\<rparr>
           (apiEvent.fields (ev_message ev) (ev_type ev) (ev_objName ev) (ev_objNamespace ev) kind
              (resolveEventLastTimestamp ev) (resolveEventCount ev)))"

definition FilterEventsByType :: "apiEvent list \<Rightarrow> string \<Rightarrow> apiEvent list" where
  "FilterEventsByType events eventType =
     (if eventType = [] \<or> events = [] then events
      else filter (\<lambda>ev. ae_type ev = eventType) events)"

text \<open>\<open>listEvents ns name\<close> is the client's list with the namespace and the field selector.\<close>

definition GetEvents ::
  "(string \<Rightarrow> string \<Rightarrow> ('s, event list) act) \<Rightarrow> 'a objmeta_scheme \<Rightarrow> string \<Rightarrow> ('s, apiEvent list) act" where
  "GetEvents listEvents obj objNamespace =
     bindA (listEvents objNamespace (om_name obj)) (\<lambda>events.
       retA (map ConvertInternalEventToExternal events))"

section \<open>Projects and their owners\<close>

text \<open>A user that cannot be found, for whatever reason, is left out of the owners.\<close>

definition GetOwnersForProject ::
  "'x sdk_scheme \<Rightarrow> UserInfo \<Rightarrow> project \<Rightarrow> 's ProjectMemberProvider \<Rightarrow> 's UserProvider \<Rightarrow> ('s, apiUser list) act" where
  "GetOwnersForProject K userInfo project memberProvider userProvider =
     bindA (mp_List memberProvider userInfo project
              (Some \<lparr>memberEmail = [], skipPrivilegeVerification = True\<rparr>)) (\<lambda>allProjectMembers.
       foldA (\<lambda>projectMember projectOwners.
         if rbacGroupPrefix K (upb_group projectMember) = ownerGroupPrefix K then
           tryA (up_UserByEmail userProvider (upb_userEmail projectMember)) (\<lambda>r. case r of
             Inl _ \<Rightarrow> retA projectOwners
           | Inr user \<Rightarrow> retA (projectOwners @ [owner_entry user]))
         else retA projectOwners) allProjectMembers [])"

definition GetProject ::
  "'s UserInfoGetter \<Rightarrow> 's ProjectProvider \<Rightarrow> 's PrivilegedProjectProvider \<Rightarrow> string \<Rightarrow>
     ProjectGetOptions option \<Rightarrow> ('s, project) act" where
  "GetProject userInfoGetter projectProvider privilegedProjectProvider projectID options =
     bindA (userInfoGetter []) (\<lambda>adminUserInfo.
     bindA (ppp_GetUnsecured privilegedProjectProvider projectID options) (\<lambda>adminProject.
       if ui_isAdmin adminUserInfo then retA adminProject
       else
         bindA (userInfoGetter projectID) (\<lambda>userInfo.
           pp_Get projectProvider (Some userInfo) projectID options)))"

definition ValidateUserCanModifyProject :: "'s UserInfoGetter \<Rightarrow> string \<Rightarrow> ('s, unit) act" where
  "ValidateUserCanModifyProject userInfoGetter projectID =
     bindA (userInfoGetter projectID) (\<lambda>userInfo.
       if \<not> ui_isAdmin userInfo \<and> \<not> (''editors'' \<in> ui_roles userInfo \<or> ''owners'' \<in> ui_roles userInfo)
       then failA (HTTPError 403)
       else retA ())"

section \<open>Requests\<close>

definition mux_var :: "http_request \<Rightarrow> string \<Rightarrow> string" where
  "mux_var r k = (case rq_vars r k of None \<Rightarrow> [] | Some v \<Rightarrow> v)"

record ProjectReq =
  req_projectID :: string

definition DecodeProjectRequest :: "http_request \<Rightarrow> ProjectReq result" where
  "DecodeProjectRequest r = Inr \<lparr>req_projectID = mux_var r ''project_id''\<rparr>"

definition GetProjectID :: "'a ProjectReq_scheme \<Rightarrow> string" where
  "GetProjectID pr = req_projectID pr"

definition DecodeGetProject :: "http_request \<Rightarrow> ProjectReq result" where
  "DecodeGetProject r = (case DecodeProjectRequest r of Inl e \<Rightarrow> Inl e | Inr p \<Rightarrow> Inr p)"

record SeedCluster =
  sc_seedName :: string
  sc_clusterID :: string

record DCReq = ProjectReq +
  req_dc :: string

definition GetSeedCluster :: "'a DCReq_scheme \<Rightarrow> SeedCluster" where
  "GetSeedCluster req = \<lparr>sc_seedName = req_dc req, sc_clusterID = []\<rparr>"

definition DecodeDcReq :: "http_request \<Rightarrow> DCReq result" where
  "DecodeDcReq r = (case DecodeProjectRequest r of Inl e \<Rightarrow> Inl e
     | Inr p \<Rightarrow> Inr \<lparr>req_projectID = req_projectID p, req_dc = mux_var r ''dc''\<rparr>)"

record GetClusterReq = DCReq +
  req_clusterID :: string

definition required_var :: "http_request \<Rightarrow> string \<Rightarrow> string result" where
  "required_var r k =
     (if mux_var r k = [] then Inl (Plain ''parameter is required but was not provided'')
      else Inr (mux_var r k))"

definition DecodeClusterID :: "http_request \<Rightarrow> string result" where
  "DecodeClusterID r = required_var r ''cluster_id''"

definition DecodeSSHKeyID :: "http_request \<Rightarrow> string result" where
  "DecodeSSHKeyID r = required_var r ''key_id''"

definition DecodeNamespace :: "http_request \<Rightarrow> string result" where
  "DecodeNamespace r = required_var r ''namespace''"

definition DecodeGetClusterReq :: "http_request \<Rightarrow> GetClusterReq result" where
  "DecodeGetClusterReq r =
     (case DecodeClusterID r of
        Inl e \<Rightarrow> Inl e
      | Inr clusterID \<Rightarrow>
          (case DecodeDcReq r of
             Inl e \<Rightarrow> Inl e
           | Inr dcr \<Rightarrow> Inr \<lparr>req_projectID = req_projectID dcr, req_dc = req_dc dcr, req_clusterID = clusterID\<rparr>))"

text \<open>\<^verbatim>\<open>strconv.ParseBool\<close>.\<close>

definition ParseBool :: "string \<Rightarrow> bool result" where
  "ParseBool s =
     (if s \<in> {''1'', ''t'', ''T'', ''TRUE'', ''true'', ''True''} then Inr True
      else if s \<in> {''0'', ''f'', ''F'', ''FALSE'', ''false'', ''False''} then Inr False
      else Inl (Plain ''invalid syntax''))"

section \<open>Seeds and clusters\<close>

text \<open>
  What the code asks the SDK about the health of a cluster, and the two statuses it compares itself. A cluster has
  the fields of specification and status that the code reads or writes.
\<close>

record health =
  he_AllHealthy :: bool
  he_ControlPlaneHealthy :: bool
  he_infrastructureUp :: bool
  he_controllerManagerUp :: bool

record cluster = objmeta +
  cl_finalizers :: "string list"
  cl_spec :: clusterSpec
  cl_health :: health
  cl_userEmail :: string \<comment> \<open>of the status\<close>
  cl_namespaceName :: string \<comment> \<open>of the status\<close>
  cl_externalAddress :: string \<comment> \<open>of the status\<close>
  cl_adminToken :: string \<comment> \<open>of the status\<close>
  cl_inheritedLabels :: smap \<comment> \<open>of the status\<close>
  cl_controlPlaneVersion :: string \<comment> \<open>of the status\<close>
  cl_url :: string \<comment> \<open>of the status\<close>
  cl_encryptionPhase :: "string option" \<comment> \<open>of the status\<close>

record 's ClusterProvider =
  cp_IsCluster :: "string \<Rightarrow> ('s, bool) act"
  cp_List :: "project \<Rightarrow> ('s, cluster list) act"
  cp_ListAll :: "selector \<Rightarrow> ('s, cluster list) act"

text \<open>The map of seeds as the list of its entries in the order in which Go ranges over it.\<close>

type_synonym seedmap = "(string \<times> seed) list"
type_synonym 's SeedsGetter = "('s, seedmap) act"
type_synonym 's ClusterProviderGetter = "seed \<Rightarrow> ('s, 's ClusterProvider) act"

text \<open>
  The loop over the seeds that several handlers contain: seeds in an invalid phase and seeds whose
  cluster provider cannot be made are skipped.
\<close>

definition range_seeds ::
  "'s ClusterProviderGetter \<Rightarrow> ('s ClusterProvider \<Rightarrow> 'b \<Rightarrow> ('s, 'b) act) \<Rightarrow> seedmap \<Rightarrow> 'b \<Rightarrow> ('s, 'b) act" where
  "range_seeds clusterProviderGetter body =
     foldA (\<lambda>(seedName, seed) acc.
       if sd_invalid seed then retA acc
       else tryA (clusterProviderGetter seed) (\<lambda>r. case r of
              Inl _ \<Rightarrow> retA acc
            | Inr clusterProvider \<Rightarrow> body clusterProvider acc))"

section \<open>Lemmas\<close>

lemma KubernetesErrorToHTTPError_idem [simp]:
  "KubernetesErrorToHTTPError (KubernetesErrorToHTTPError e) = KubernetesErrorToHTTPError e"
  by (simp add: KubernetesErrorToHTTPError_def split: option.split)

lemma KubernetesErrorToHTTPError_simps [simp]:
  "KubernetesErrorToHTTPError (StatusError r c) = HTTPError c"
  "KubernetesErrorToHTTPError (HTTPError c) = HTTPError c"
  "KubernetesErrorToHTTPError Panic = Panic"
  by (simp_all add: KubernetesErrorToHTTPError_def)

end
