(* ===== verification/Project_Handlers.thy ===== *)
theory Project_Handlers
  imports Common_Handlers
begin

text \<open>
  The project endpoints of \<^verbatim>\<open>pkg/handler/v1/project/project.go\<close>. The user object the middleware
  put into the context is \<open>ctxUser\<close>; the code asserts its type, which panics when it is missing.
  A request of another type than the endpoint expects is \<^const>\<open>None\<close>.
\<close>

section \<open>Requests\<close>

record projectReq =
  pq_name :: string
  pq_allowedOperatingSystems :: "(string \<times> bool) list"
  pq_labels :: smap
  pq_users :: "string list"

record updateRq = ProjectReq +
  uq_name :: string
  uq_allowedOperatingSystems :: "(string \<times> bool) list"
  uq_labels :: smap

record ListReq =
  lq_displayAll :: bool
  lq_search :: string

definition updateRq_validate :: "updateRq \<Rightarrow> unit result" where
  "updateRq_validate r =
     (if req_projectID r = [] then Inl (Plain ''the id of the project cannot be empty'')
      else if uq_name r = [] then Inl (Plain ''the name of the project cannot be empty'')
      else Inr ())"

text \<open>\<open>body\<close> is the outcome of decoding the request's JSON body.\<close>

definition DecodeUpdateRq :: "http_request \<Rightarrow> projectReq result \<Rightarrow> updateRq result" where
  "DecodeUpdateRq r body =
     (case DecodeProjectRequest r of
        Inl e \<Rightarrow> Inl e
      | Inr pReq \<Rightarrow>
          (case body of
             Inl e \<Rightarrow> Inl e
           | Inr b \<Rightarrow> Inr \<lparr>req_projectID = req_projectID pReq, uq_name = pq_name b,
                           uq_allowedOperatingSystems = pq_allowedOperatingSystems b, uq_labels = pq_labels b\<rparr>))"

definition DecodeCreate :: "projectReq result \<Rightarrow> projectReq result" where
  "DecodeCreate body = (case body of Inl e \<Rightarrow> Inl e | Inr req \<Rightarrow> Inr req)"

definition DecodeDelete :: "http_request \<Rightarrow> ProjectReq option result" where
  "DecodeDelete r = (case DecodeProjectRequest r of Inl _ \<Rightarrow> Inr None | Inr req \<Rightarrow> Inr (Some req))"

definition DecodeList :: "http_request \<Rightarrow> ListReq result" where
  "DecodeList r =
     (let queryParam = rq_query r ''displayAll'';
          searchParam = rq_query r ''search''
      in if queryParam \<noteq> [] then
           (case ParseBool queryParam of
              Inl e \<Rightarrow> Inl (Wrapped e)
            | Inr displayAll \<Rightarrow> Inr \<lparr>lq_displayAll = displayAll, lq_search = searchParam\<rparr>)
         else Inr \<lparr>lq_displayAll = False, lq_search = searchParam\<rparr>)"

section \<open>Checks\<close>

definition checkProjectCreationRestriction :: "user \<Rightarrow> settings \<Rightarrow> unit result" where
  "checkProjectCreationRestriction user settings =
     (if us_isAdmin user then Inr ()
      else if gs_restrictProjectCreation settings then Inl (HTTPError 403)
      else Inr ())"

definition checkProjectDeletionRestriction :: "user \<Rightarrow> settings \<Rightarrow> unit result" where
  "checkProjectDeletionRestriction user settings =
     (if us_isAdmin user then Inr ()
      else if gs_restrictProjectDeletion settings then Inl (HTTPError 403)
      else Inr ())"

definition checkProjectModificationRestriction :: "user \<Rightarrow> settings \<Rightarrow> unit result" where
  "checkProjectModificationRestriction user settings =
     (if us_isAdmin user then Inr ()
      else if gs_restrictProjectModification settings then Inl (HTTPError 403)
      else Inr ())"

definition isStatus :: "go_error \<Rightarrow> int \<Rightarrow> bool" where
  "isStatus err status = (case as_status err of Some (_, code) \<Rightarrow> status = code | None \<Rightarrow> False)"

definition uninitialized_too :: "ProjectGetOptions option" where
  "uninitialized_too = Some \<lparr>includeUninitialized = True\<rparr>"

text \<open>
  The errors are collected, counted owners added up; an error of the unsecured get that is nil is
  not a status error, so the original error is stored in that case as well.
\<close>

definition count_owned_project ::
  "'x sdk_scheme \<Rightarrow> user \<Rightarrow> 's ProjectProvider \<Rightarrow> 's PrivilegedProjectProvider \<Rightarrow> 's ProjectMemberProvider \<Rightarrow>
     's UserProvider \<Rightarrow> upb \<Rightarrow> go_error list \<times> int \<Rightarrow> ('s, go_error list \<times> int) act" where
  "count_owned_project K user projectProvider privilegedProjectProvider memberProvider userProvider mapping acc =
     (case acc of (errorList, projectsCounter) \<Rightarrow>
      let userInfo = \<lparr>ui_email = upb_userEmail mapping, ui_groups = [upb_group mapping], ui_roles = {},
                      ui_isAdmin = False, ui_isGlobalViewer = False\<rparr>
      in tryA (pp_Get projectProvider (Some userInfo) (upb_projectID mapping) uninitialized_too) (\<lambda>r. case r of
           Inl err \<Rightarrow>
             if \<not> isStatus err 403 then retA (errorList @ [err], projectsCounter)
             else tryA (ppp_GetUnsecured privilegedProjectProvider (upb_projectID mapping) uninitialized_too) (\<lambda>r'.
                    let isMissing = (case r' of Inl e \<Rightarrow> isStatus e 404 | Inr _ \<Rightarrow> False) in
                    retA (if \<not> isMissing then (errorList @ [err], projectsCounter)
                          else (errorList, projectsCounter)))
         | Inr projectInternal \<Rightarrow>
             bindA (httpA (GetOwnersForProject K userInfo projectInternal memberProvider userProvider)) (\<lambda>projectOwners.
               retA (errorList, projectsCounter +
                 int (length (filter (\<lambda>owner. EqualFold (au_email owner) (us_email user)) projectOwners))))))"

definition validateUserProjectsLimit ::
  "'x sdk_scheme \<Rightarrow> user \<Rightarrow> settings \<Rightarrow> 's ProjectProvider \<Rightarrow> 's PrivilegedProjectProvider \<Rightarrow>
     's ProjectMemberMapper \<Rightarrow> 's ProjectMemberProvider \<Rightarrow> 's UserProvider \<Rightarrow> ('s, unit) act" where
  "validateUserProjectsLimit K user settings projectProvider privilegedProjectProvider memberMapper
     memberProvider userProvider =
     (if us_isAdmin user then retA ()
      else if gs_userProjectsLimit settings \<le> 0 then retA ()
      else
        bindA (httpA (mm_MappingsFor memberMapper (us_email user))) (\<lambda>userMappings.
        bindA (foldA (count_owned_project K user projectProvider privilegedProjectProvider memberProvider userProvider)
                 userMappings ([], 0)) (\<lambda>(errorList, projectsCounter).
          if errorList \<noteq> [] then failA (HTTPError 500)
          else if projectsCounter \<ge> gs_userProjectsLimit settings then failA (HTTPError 403)
          else retA ())))"

section \<open>Counting clusters\<close>

definition getNumberOfClustersForProject ::
  "'s ClusterProviderGetter \<Rightarrow> 's SeedsGetter \<Rightarrow> project \<Rightarrow> ('s, int) act" where
  "getNumberOfClustersForProject clusterProviderGetter seedsGetter project =
     bindA (wrapA (\<lambda>_. HTTPError 500) seedsGetter) (\<lambda>seeds.
       range_seeds clusterProviderGetter (\<lambda>clusterProvider clustersNumber.
         bindA (cp_List clusterProvider project) (\<lambda>clusters.
           retA (clustersNumber + int (length clusters)))) seeds 0)"

definition cluster_matches :: "cluster \<Rightarrow> string \<Rightarrow> bool" where
  "cluster_matches c search =
     (Contains (ToLower (cl_humanReadableName (cl_spec c))) search \<or> Contains (ToLower (om_name c)) search)"

definition getNumberOfClustersForProjectAndMatch ::
  "'s ClusterProviderGetter \<Rightarrow> 's SeedsGetter \<Rightarrow> project \<Rightarrow> string \<Rightarrow> ('s, int \<times> bool) act" where
  "getNumberOfClustersForProjectAndMatch clusterProviderGetter seedsGetter project query =
     (let search = TrimSpace (ToLower query) in
      bindA (wrapA (\<lambda>_. HTTPError 500) seedsGetter) (\<lambda>seeds.
        range_seeds clusterProviderGetter (\<lambda>clusterProvider (clustersNumber, matchesQuery).
          bindA (cp_List clusterProvider project) (\<lambda>clusters.
            let clustersNumber = clustersNumber + int (length clusters) in
            if search = [] \<or> matchesQuery then retA (clustersNumber, matchesQuery)
            else retA (clustersNumber, \<exists>c \<in> set clusters. cluster_matches c search))) seeds (0, False)))"

definition count_cluster ::
  "'x sdk_scheme \<Rightarrow> string \<Rightarrow> string set \<Rightarrow> cluster \<Rightarrow> (string \<times> int) list \<times> string set \<Rightarrow> (string \<times> int) list \<times> string set" where
  "count_cluster K search allowedProjectIDs c acc =
     (case acc of (clustersNumber, clusterMatchedProjectIDs) \<Rightarrow>
        (case map_of (om_labels c) (projectIDLabelKey K) of
           None \<Rightarrow> (clustersNumber, clusterMatchedProjectIDs)
         | Some projectName \<Rightarrow>
             let old = (case map_of clustersNumber projectName of None \<Rightarrow> 0 | Some n \<Rightarrow> n);
                 clustersNumber = AList.update projectName (old + 1) clustersNumber
             in if search = [] then (clustersNumber, clusterMatchedProjectIDs)
                else if allowedProjectIDs \<noteq> {} \<and> projectName \<notin> allowedProjectIDs
                then (clustersNumber, clusterMatchedProjectIDs)
                else if cluster_matches c search
                then (clustersNumber, insert projectName clusterMatchedProjectIDs)
                else (clustersNumber, clusterMatchedProjectIDs)))"

definition getClusterCountsAndMatches ::
  "'x sdk_scheme \<Rightarrow> 's ClusterProviderGetter \<Rightarrow> 's SeedsGetter \<Rightarrow> string \<Rightarrow> string set \<Rightarrow>
     ('s, (string \<times> int) list \<times> string set) act" where
  "getClusterCountsAndMatches K clusterProviderGetter seedsGetter query allowedProjectIDs =
     (let search = TrimSpace (ToLower query) in
      bindA (wrapA (\<lambda>_. HTTPError 500) seedsGetter) (\<lambda>seeds.
        range_seeds clusterProviderGetter (\<lambda>clusterProvider acc.
          bindA (cp_ListAll clusterProvider Everything) (\<lambda>clusters.
            retA (fold (count_cluster K search allowedProjectIDs) clusters acc))) seeds ([], {})))"

section \<open>Searching\<close>

definition projectMatchesQuery :: "apiProject \<Rightarrow> string \<Rightarrow> string set \<Rightarrow> bool" where
  "projectMatchesQuery project query clusterMatchedProjectIDs =
     (if Contains (ToLower (ao_name project)) query then True
      else if Contains (ToLower (ao_id project)) query then True
      else if (\<exists>owner \<in> set (aj_owners project). Contains (ToLower (ao_name owner)) query) then True
      else if (\<exists>(key, v) \<in> set (aj_labels project). Contains (ToLower key) query \<or> Contains (ToLower v) query) then True
      else ao_id project \<in> clusterMatchedProjectIDs)"

definition filterProjectsBySearch :: "apiProject list \<Rightarrow> string \<Rightarrow> string set \<Rightarrow> apiProject list" where
  "filterProjectsBySearch projects query clusterMatchedProjectIDs =
     (let search = TrimSpace (ToLower query) in
      if search = [] then projects
      else filter (\<lambda>p. projectMatchesQuery p search clusterMatchedProjectIDs) projects)"

section \<open>Endpoints\<close>

definition createProjectByServiceAccount ::
  "'x sdk_scheme \<Rightarrow> string \<Rightarrow> projectReq \<Rightarrow> 's ProjectMemberMapper \<Rightarrow> 's UserProvider \<Rightarrow>
     's PrivilegedProjectMemberProvider \<Rightarrow> 's ProjectProvider \<Rightarrow> ('s, apiProject) act" where
  "createProjectByServiceAccount K saEmail req memberMapper userProvider privilegedMemberProvider projectProvider =
     bindA (httpA (mm_MappingsFor memberMapper saEmail)) (\<lambda>bindings.
       case bindings of
         [] \<Rightarrow> failA (HTTPError 500)
       | saBinding # _ \<Rightarrow>
           if \<not> HasPrefix (upb_group saBinding) (projectManagerGroupPrefix K) then failA (HTTPError 403)
           else
             bindA (foldA (\<lambda>userEmail humanUserOwnerList.
                      if isSA K userEmail then failA (HTTPError 400)
                      else bindA (httpA (up_UserByEmail userProvider userEmail)) (\<lambda>humanUserOwner.
                             retA (humanUserOwnerList @ [humanUserOwner]))) (pq_users req) []) (\<lambda>humanUserOwnerList.
               if humanUserOwnerList = [] then failA (HTTPError 400)
               else
                 bindA (httpA (pp_New projectProvider
                          \<lparr>ps_name = pq_name req, ps_allowedOperatingSystems = pq_allowedOperatingSystems req\<rparr>
                          (pq_labels req))) (\<lambda>kubermaticProject.
                 let generatedGroupName = groupNameFor K (om_name kubermaticProject) (projectManagerGroupPrefix K) in
                 bindA (httpA (pmp_CreateUnsecuredForServiceAccount privilegedMemberProvider kubermaticProject
                          saEmail generatedGroupName)) (\<lambda>_.
                 bindA (foldA (\<lambda>user _. bindA (httpA (pmp_CreateUnsecured privilegedMemberProvider kubermaticProject
                                                   (us_email user) generatedGroupName)) (\<lambda>_. retA ()))
                          humanUserOwnerList ()) (\<lambda>_.
                   retA (ConvertInternalProjectToExternal K kubermaticProject (map owner_entry humanUserOwnerList) 0))))))"

definition project_CreateEndpoint ::
  "'x sdk_scheme \<Rightarrow> 's ProjectProvider \<Rightarrow> 's PrivilegedProjectProvider \<Rightarrow> 's SettingsProvider \<Rightarrow>
     's ProjectMemberMapper \<Rightarrow> 's ProjectMemberProvider \<Rightarrow> 's PrivilegedProjectMemberProvider \<Rightarrow>
     's UserProvider \<Rightarrow> user option \<Rightarrow> projectReq option \<Rightarrow> ('s, apiProject) act" where
  "project_CreateEndpoint K projectProvider privilegedProjectProvider settingsProvider memberMapper
     memberProvider privilegedMemberProvider userProvider ctxUser request =
     (case request of
        None \<Rightarrow> failA UtilBadRequest
      | Some projectRq \<Rightarrow>
          if pq_name projectRq = [] then failA UtilBadRequest
          else
            bindA (httpA (sp_GetGlobalSettings settingsProvider)) (\<lambda>settings.
            case ctxUser of
              None \<Rightarrow> failA Panic
            | Some user \<Rightarrow>
                bindA (liftA (checkProjectCreationRestriction user settings)) (\<lambda>_.
                bindA (validateUserProjectsLimit K user settings projectProvider privilegedProjectProvider
                         memberMapper memberProvider userProvider) (\<lambda>_.
                let userEmail = us_email user in
                if isSA K userEmail then
                  createProjectByServiceAccount K userEmail projectRq memberMapper userProvider
                    privilegedMemberProvider projectProvider
                else
                  bindA (httpA (pp_New projectProvider
                           \<lparr>ps_name = pq_name projectRq,
                            ps_allowedOperatingSystems = pq_allowedOperatingSystems projectRq\<rparr>
                           (pq_labels projectRq))) (\<lambda>kubermaticProject.
                  let generatedGroupName = groupNameFor K (om_name kubermaticProject) (ownerGroupPrefix K) in
                  bindA (httpA (pmp_CreateUnsecured privilegedMemberProvider kubermaticProject userEmail
                           generatedGroupName)) (\<lambda>_.
                    retA (ConvertInternalProjectToExternal K kubermaticProject [owner_entry user] 0)))))))"

definition getAllProjectsForAdmin ::
  "'x sdk_scheme \<Rightarrow> UserInfo \<Rightarrow> 's ProjectProvider \<Rightarrow> 's ProjectMemberProvider \<Rightarrow> 's UserProvider \<Rightarrow>
     's ClusterProviderGetter \<Rightarrow> 's SeedsGetter \<Rightarrow> string \<Rightarrow> ('s, apiProject list \<times> string set) act" where
  "getAllProjectsForAdmin K userInfo projectProvider memberProvider userProvider clusterProviderGetter
     seedsGetter search =
     bindA (httpA (pp_List projectProvider None)) (\<lambda>projectList.
     let allowedProjectIDs = set (map om_name projectList) in
     bindA (httpA (getClusterCountsAndMatches K clusterProviderGetter seedsGetter search allowedProjectIDs))
       (\<lambda>(clustersNumbers, clusterMatchedProjectIDs).
     bindA (foldA (\<lambda>project projects.
              bindA (httpA (GetOwnersForProject K userInfo project memberProvider userProvider)) (\<lambda>projectOwners.
                retA (projects @ [ConvertInternalProjectToExternal K project projectOwners
                  (case map_of clustersNumbers (om_name project) of None \<Rightarrow> 0 | Some n \<Rightarrow> n)])))
            projectList []) (\<lambda>projects.
       retA (projects, clusterMatchedProjectIDs))))"

definition list_bound_project ::
  "'s ProjectProvider \<Rightarrow> 's PrivilegedProjectProvider \<Rightarrow> UserInfo \<Rightarrow> upb \<Rightarrow>
     project list \<times> string set \<times> go_error list \<Rightarrow> ('s, project list \<times> string set \<times> go_error list) act" where
  "list_bound_project projectProvider privilegedProjectProvider userInfo mapping acc =
     (case acc of (projects, projectIDSet, errorList) \<Rightarrow>
      let mappedInfo = \<lparr>ui_email = upb_userEmail mapping, ui_groups = ui_groups userInfo @ [upb_group mapping],
                        ui_roles = ui_roles userInfo, ui_isAdmin = ui_isAdmin userInfo, ui_isGlobalViewer = False\<rparr>
      in tryA (pp_Get projectProvider (Some mappedInfo) (upb_projectID mapping) uninitialized_too) (\<lambda>r. case r of
           Inl err \<Rightarrow>
             if isStatus err 404 then retA acc
             else if \<not> isStatus err 403 then retA (projects, projectIDSet, errorList @ [err])
             else tryA (ppp_GetUnsecured privilegedProjectProvider (upb_projectID mapping) uninitialized_too) (\<lambda>r'.
                    retA (case r' of
                            Inl e \<Rightarrow> if \<not> isStatus e 404 then (projects, projectIDSet, errorList @ [err]) else acc
                          | Inr _ \<Rightarrow> acc))
         | Inr projectInternal \<Rightarrow>
             retA (projects @ [projectInternal], insert (om_name projectInternal) projectIDSet, errorList)))"

definition list_group_project ::
  "'s ProjectProvider \<Rightarrow> UserInfo \<Rightarrow> gpb \<Rightarrow>
     project list \<times> string set \<times> go_error list \<Rightarrow> ('s, project list \<times> string set \<times> go_error list) act" where
  "list_group_project projectProvider userInfo grp acc =
     (case acc of (projects, projectIDSet, errorList) \<Rightarrow>
      let projectID = gpb_projectID grp in
      if projectID \<in> projectIDSet then retA acc
      else
        let projectUserInfo = \<lparr>ui_email = ui_email userInfo,
              ui_groups = ui_groups userInfo @ [suffixed (gpb_group grp) projectID],
              ui_roles = ui_roles userInfo, ui_isAdmin = ui_isAdmin userInfo, ui_isGlobalViewer = False\<rparr>
        in tryA (pp_Get projectProvider (Some projectUserInfo) projectID uninitialized_too) (\<lambda>r. case r of
             Inl err \<Rightarrow> if isStatus err 404 then retA acc else retA (projects, projectIDSet, errorList @ [err])
           | Inr project \<Rightarrow> retA (projects @ [project], insert (om_name project) projectIDSet, errorList)))"

definition project_ListEndpoint ::
  "'x sdk_scheme \<Rightarrow> 's UserInfoGetter \<Rightarrow> 's ProjectProvider \<Rightarrow> 's PrivilegedProjectProvider \<Rightarrow>
     's ProjectMemberMapper \<Rightarrow> 's ProjectMemberProvider \<Rightarrow> 's UserProvider \<Rightarrow> 's ClusterProviderGetter \<Rightarrow>
     's SeedsGetter \<Rightarrow> ListReq option \<Rightarrow> ('s, apiProject list) act" where
  "project_ListEndpoint K userInfoGetter projectProvider privilegedProjectProvider memberMapper memberProvider
     userProvider clusterProviderGetter seedsGetter request =
     (case request of
        None \<Rightarrow> failA UtilBadRequest
      | Some req \<Rightarrow>
          bindA (httpA (userInfoGetter [])) (\<lambda>userInfo.
          if lq_displayAll req \<and> (ui_isAdmin userInfo \<or> ui_isGlobalViewer userInfo) then
            bindA (getAllProjectsForAdmin K userInfo projectProvider memberProvider userProvider
                     clusterProviderGetter seedsGetter (lq_search req)) (\<lambda>(allProjects, clusterMatchedProjectIDs).
              retA (filterProjectsBySearch allProjects (lq_search req) clusterMatchedProjectIDs))
          else
            bindA (httpA (mm_MappingsFor memberMapper (ui_email userInfo))) (\<lambda>userMappings.
            bindA (foldA (list_bound_project projectProvider privilegedProjectProvider userInfo) userMappings
                     ([], {}, [])) (\<lambda>acc.
            bindA (mm_GroupMappingsFor memberMapper (ui_groups userInfo)) (\<lambda>groupMappings.
            bindA (foldA (list_group_project projectProvider userInfo) groupMappings acc)
              (\<lambda>(projects, projectIDSet, errorList).
            bindA (foldA (\<lambda>project (apiProjects, clusterMatchedProjectIDs).
                     bindA (httpA (GetOwnersForProject K userInfo project memberProvider userProvider)) (\<lambda>projectOwners.
                     bindA (httpA (getNumberOfClustersForProjectAndMatch clusterProviderGetter seedsGetter project
                              (lq_search req))) (\<lambda>(clustersNumber, matchesQuery).
                       retA (apiProjects @ [ConvertInternalProjectToExternal K project projectOwners clustersNumber],
                             if matchesQuery then insert (om_name project) clusterMatchedProjectIDs
                             else clusterMatchedProjectIDs)))) projects ([], {}))
              (\<lambda>(apiProjects, clusterMatchedProjectIDs).
               if errorList \<noteq> [] then failA (HTTPError 500)
               else retA (filterProjectsBySearch apiProjects (lq_search req) clusterMatchedProjectIDs))))))))"

definition deleteProjectByRegularUser ::
  "'s UserInfoGetter \<Rightarrow> 's ProjectProvider \<Rightarrow> string \<Rightarrow> ('s, unit) act" where
  "deleteProjectByRegularUser userInfoGetter projectProvider projectID =
     bindA (httpA (userInfoGetter projectID)) (\<lambda>userInfo.
       httpA (pp_Delete projectProvider (Some userInfo) projectID))"

definition project_DeleteEndpoint ::
  "'s ProjectProvider \<Rightarrow> 's SettingsProvider \<Rightarrow> 's PrivilegedProjectProvider \<Rightarrow> 's UserInfoGetter \<Rightarrow>
     user option \<Rightarrow> ProjectReq option \<Rightarrow> ('s, unit) act" where
  "project_DeleteEndpoint projectProvider settingsProvider privilegedProjectProvider userInfoGetter ctxUser request =
     (case request of
        None \<Rightarrow> failA UtilBadRequest
      | Some req \<Rightarrow>
          if req_projectID req = [] then failA UtilBadRequest
          else
            bindA (httpA (sp_GetGlobalSettings settingsProvider)) (\<lambda>settings.
            case ctxUser of
              None \<Rightarrow> failA Panic
            | Some user \<Rightarrow>
                bindA (liftA (checkProjectDeletionRestriction user settings)) (\<lambda>_.
                bindA (httpA (userInfoGetter [])) (\<lambda>adminUserInfo.
                  if ui_isAdmin adminUserInfo then
                    httpA (ppp_DeleteUnsecured privilegedProjectProvider (req_projectID req))
                  else deleteProjectByRegularUser userInfoGetter projectProvider (req_projectID req)))))"

definition updateProject ::
  "'s UserInfoGetter \<Rightarrow> 's ProjectProvider \<Rightarrow> 's PrivilegedProjectProvider \<Rightarrow> project \<Rightarrow> ('s, project) act" where
  "updateProject userInfoGetter projectProvider privilegedProjectProvider kubermaticProject =
     bindA (userInfoGetter []) (\<lambda>adminUserInfo.
       if ui_isAdmin adminUserInfo then ppp_UpdateUnsecured privilegedProjectProvider kubermaticProject
       else
         bindA (userInfoGetter (om_name kubermaticProject)) (\<lambda>userInfo.
           pp_Update projectProvider (Some userInfo) kubermaticProject))"

text \<open>
  The endpoint assigns the fields of the object it fetched; the update overwrites that same object
  with the server's answer, so the owners are looked up for the updated project.
\<close>

definition project_UpdateEndpoint ::
  "'x sdk_scheme \<Rightarrow> 's ProjectProvider \<Rightarrow> 's PrivilegedProjectProvider \<Rightarrow> 's SettingsProvider \<Rightarrow>
     's ProjectMemberProvider \<Rightarrow> 's UserProvider \<Rightarrow> 's UserInfoGetter \<Rightarrow> 's ClusterProviderGetter \<Rightarrow>
     's SeedsGetter \<Rightarrow> user option \<Rightarrow> updateRq option \<Rightarrow> ('s, apiProject) act" where
  "project_UpdateEndpoint K projectProvider privilegedProjectProvider settingsProvider memberProvider userProvider
     userInfoGetter clusterProviderGetter seedsGetter ctxUser request =
     (case request of
        None \<Rightarrow> failA UtilBadRequest
      | Some req \<Rightarrow>
          bindA (wrapA (\<lambda>_. UtilBadRequest) (liftA (updateRq_validate req))) (\<lambda>_.
          bindA (httpA (sp_GetGlobalSettings settingsProvider)) (\<lambda>settings.
          case ctxUser of
            None \<Rightarrow> failA Panic
          | Some user \<Rightarrow>
              bindA (liftA (checkProjectModificationRestriction user settings)) (\<lambda>_.
              bindA (httpA (GetProject userInfoGetter projectProvider privilegedProjectProvider
                       (req_projectID req) None)) (\<lambda>kubermaticProject.
              let kubermaticProject = kubermaticProject\<lparr>pr_name := uq_name req, om_labels := uq_labels req,
                    pr_allowedOperatingSystems := uq_allowedOperatingSystems req\<rparr> in
              bindA (httpA (updateProject userInfoGetter projectProvider privilegedProjectProvider kubermaticProject)) (\<lambda>project.
              bindA (httpA (userInfoGetter [])) (\<lambda>adminUserInfo.
              bindA (httpA (GetOwnersForProject K adminUserInfo project memberProvider userProvider)) (\<lambda>projectOwners.
              bindA (httpA (getNumberOfClustersForProject clusterProviderGetter seedsGetter project)) (\<lambda>clustersNumber.
                retA (ConvertInternalProjectToExternal K project projectOwners clustersNumber))))))))))"

definition project_GetEndpoint ::
  "'x sdk_scheme \<Rightarrow> 's ProjectProvider \<Rightarrow> 's PrivilegedProjectProvider \<Rightarrow> 's ProjectMemberProvider \<Rightarrow>
     's UserProvider \<Rightarrow> 's UserInfoGetter \<Rightarrow> 's ClusterProviderGetter \<Rightarrow> 's SeedsGetter \<Rightarrow>
     ProjectReq option \<Rightarrow> ('s, apiProject) act" where
  "project_GetEndpoint K projectProvider privilegedProjectProvider memberProvider userProvider userInfoGetter
     clusterProviderGetter seedsGetter request =
     (case request of
        None \<Rightarrow> failA UtilBadRequest
      | Some req \<Rightarrow>
          if req_projectID req = [] then failA UtilBadRequest
          else
            bindA (httpA (userInfoGetter [])) (\<lambda>adminUserInfo.
            bindA (httpA (GetProject userInfoGetter projectProvider privilegedProjectProvider
                     (req_projectID req) None)) (\<lambda>kubermaticProject.
            bindA (httpA (GetOwnersForProject K adminUserInfo kubermaticProject memberProvider userProvider)) (\<lambda>projectOwners.
            bindA (httpA (getNumberOfClustersForProject clusterProviderGetter seedsGetter kubermaticProject)) (\<lambda>clustersNumber.
              retA (ConvertInternalProjectToExternal K kubermaticProject projectOwners clustersNumber))))))"

end
