(* ===== verification/User_Handlers.thy ===== *)
theory User_Handlers
  imports Common_Handlers
begin

text \<open>
  The endpoints on project members and on the current user,
  \<^verbatim>\<open>pkg/handler/v1/user/user.go\<close>. The RFC 5322 address parser of the standard library is the
  argument \<open>parseAddress\<close>; the JSON and JSON merge patch functions are arguments of the endpoint
  that uses them.
\<close>

section \<open>Requests\<close>

record AddReq = ProjectReq +
  aq_body :: apiUser

record IDReq =
  iq_userID :: string

record EditReq = AddReq +
  eq_userID :: string

record DeleteReq = ProjectReq +
  dq_userID :: string

definition AddReq_Validate :: "'x sdk_scheme \<Rightarrow> (string \<Rightarrow> bool) \<Rightarrow> 'a AddReq_scheme \<Rightarrow> UserInfo \<Rightarrow> unit result" where
  "AddReq_Validate K parseAddress r authenticatesUserInfo =
     (if req_projectID r = [] then Inl UtilBadRequest
      else let apiUserFromRequest = aq_body r in
      if au_email apiUserFromRequest = [] then Inl UtilBadRequest
      else if \<not> parseAddress (au_email apiUserFromRequest) then Inl UtilBadRequest
      else (case au_projects apiUserFromRequest of
        [(pgID, pgGroupPrefix)] \<Rightarrow>
          if pgID = [] \<or> pgGroupPrefix = [] then Inl UtilBadRequest
          else if pgID \<noteq> req_projectID r then Inl (HTTPError 403)
          else if EqualFold (au_email apiUserFromRequest) (ui_email authenticatesUserInfo) \<and>
                  \<not> ui_isAdmin authenticatesUserInfo then Inl (HTTPError 403)
          else if pgGroupPrefix \<notin> set (allGroupsPrefixes K) then Inl UtilBadRequest
          else Inr ()
      | _ \<Rightarrow> Inl UtilBadRequest))"

definition DecodeAddReq :: "http_request \<Rightarrow> apiUser result \<Rightarrow> AddReq result" where
  "DecodeAddReq r body =
     (case DecodeProjectRequest r of
        Inl e \<Rightarrow> Inl e
      | Inr prjReq \<Rightarrow>
          (case body of Inl e \<Rightarrow> Inl e
           | Inr b \<Rightarrow> Inr \<lparr>req_projectID = req_projectID prjReq, aq_body = b\<rparr>))"

definition decodeUserIDReq :: "http_request \<Rightarrow> IDReq result" where
  "decodeUserIDReq r =
     (case rq_vars r ''user_id'' of
        None \<Rightarrow> Inl (Plain ''user_id parameter is required'')
      | Some userID \<Rightarrow> Inr \<lparr>iq_userID = userID\<rparr>)"

definition EditReq_Validate :: "'x sdk_scheme \<Rightarrow> (string \<Rightarrow> bool) \<Rightarrow> EditReq \<Rightarrow> UserInfo \<Rightarrow> unit result" where
  "EditReq_Validate K parseAddress r authenticatesUserInfo =
     (case AddReq_Validate K parseAddress r authenticatesUserInfo of
        Inl e \<Rightarrow> Inl e
      | Inr _ \<Rightarrow> if eq_userID r \<noteq> ao_id (aq_body r) then Inl UtilBadRequest else Inr ())"

definition DecodeEditReq :: "http_request \<Rightarrow> apiUser result \<Rightarrow> EditReq result" where
  "DecodeEditReq r body =
     (case DecodeProjectRequest r of
        Inl e \<Rightarrow> Inl e
      | Inr prjReq \<Rightarrow>
          (case body of
             Inl e \<Rightarrow> Inl e
           | Inr b \<Rightarrow>
               (case decodeUserIDReq r of
                  Inl e \<Rightarrow> Inl e
                | Inr userIDReq \<Rightarrow>
                    Inr \<lparr>req_projectID = req_projectID prjReq, aq_body = b, eq_userID = iq_userID userIDReq\<rparr>)))"

definition DecodeDeleteReq :: "http_request \<Rightarrow> DeleteReq result" where
  "DecodeDeleteReq r =
     (case DecodeProjectRequest r of
        Inl e \<Rightarrow> Inl e
      | Inr prjReq \<Rightarrow>
          (case decodeUserIDReq r of
             Inl e \<Rightarrow> Inl e
           | Inr userIDReq \<Rightarrow> Inr \<lparr>req_projectID = req_projectID prjReq, dq_userID = iq_userID userIDReq\<rparr>))"

definition DecodePatchSettingsReq :: "string result \<Rightarrow> string result" where
  "DecodePatchSettingsReq readAll = (case readAll of Inl e \<Rightarrow> Inl e | Inr patch \<Rightarrow> Inr patch)"

definition DecodePatchReadAnnouncementsReq :: "string list result \<Rightarrow> string list result" where
  "DecodePatchReadAnnouncementsReq body = (case body of Inl e \<Rightarrow> Inl e | Inr req \<Rightarrow> Inr req)"

section \<open>Bindings on behalf of the caller\<close>

text \<open>
  The three write operations have one shape: an administrator goes through the privileged provider,
  everyone else through the impersonating one, with the rights in the project.
\<close>

definition deleteBinding ::
  "'s UserInfoGetter \<Rightarrow> 's ProjectMemberProvider \<Rightarrow> 's PrivilegedProjectMemberProvider \<Rightarrow> string \<Rightarrow> string \<Rightarrow> ('s, unit) act" where
  "deleteBinding userInfoGetter memberProvider privilegedMemberProvider projectID bindingID =
     bindA (userInfoGetter []) (\<lambda>adminUserInfo.
       if ui_isAdmin adminUserInfo then pmp_DeleteUnsecured privilegedMemberProvider bindingID
       else
         bindA (userInfoGetter projectID) (\<lambda>userInfo.
           mp_Delete memberProvider userInfo bindingID))"

definition updateBinding ::
  "'s UserInfoGetter \<Rightarrow> 's ProjectMemberProvider \<Rightarrow> 's PrivilegedProjectMemberProvider \<Rightarrow> string \<Rightarrow> upb \<Rightarrow> ('s, upb) act" where
  "updateBinding userInfoGetter memberProvider privilegedMemberProvider projectID binding =
     bindA (userInfoGetter []) (\<lambda>adminUserInfo.
       if ui_isAdmin adminUserInfo then pmp_UpdateUnsecured privilegedMemberProvider binding
       else
         bindA (userInfoGetter projectID) (\<lambda>userInfo.
           mp_Update memberProvider userInfo binding))"

definition createBinding ::
  "'s UserInfoGetter \<Rightarrow> 's ProjectMemberProvider \<Rightarrow> 's PrivilegedProjectMemberProvider \<Rightarrow> project \<Rightarrow> string \<Rightarrow> string \<Rightarrow> ('s, upb) act" where
  "createBinding userInfoGetter memberProvider privilegedMemberProvider project email grp =
     bindA (userInfoGetter []) (\<lambda>adminUserInfo.
       if ui_isAdmin adminUserInfo then pmp_CreateUnsecured privilegedMemberProvider project email grp
       else
         bindA (userInfoGetter (om_name project)) (\<lambda>userInfo.
           mp_Create memberProvider userInfo project email grp))"

definition getMemberList ::
  "'s UserInfoGetter \<Rightarrow> 's ProjectMemberProvider \<Rightarrow> project \<Rightarrow> string \<Rightarrow> ('s, upb list) act" where
  "getMemberList userInfoGetter memberProvider project userEmail =
     bindA (httpA (userInfoGetter [])) (\<lambda>userInfo.
     bindA (if \<not> ui_isAdmin userInfo \<and> \<not> ui_isGlobalViewer userInfo then
              bindA (httpA (userInfoGetter (om_name project))) (\<lambda>userInfo. retA (userInfo, False))
            else retA (userInfo, True)) (\<lambda>(userInfo, skipVerification).
       mp_List memberProvider userInfo project
         (Some \<lparr>memberEmail = userEmail, skipPrivilegeVerification = skipVerification\<rparr>)))"

definition filterExternalUser :: "apiUser \<Rightarrow> string \<Rightarrow> apiUser" where
  "filterExternalUser externalUser projectID =
     (case List.find (\<lambda>pg. fst pg = projectID) (au_projects externalUser) of
        None \<Rightarrow> externalUser
      | Some pg \<Rightarrow> externalUser\<lparr>au_projects := [pg]\<rparr>)"

section \<open>Endpoints\<close>

definition member_DeleteEndpoint ::
  "'s ProjectProvider \<Rightarrow> 's PrivilegedProjectProvider \<Rightarrow> 's UserProvider \<Rightarrow> 's ProjectMemberProvider \<Rightarrow>
     's PrivilegedProjectMemberProvider \<Rightarrow> 's UserInfoGetter \<Rightarrow> DeleteReq option \<Rightarrow> ('s, unit) act" where
  "member_DeleteEndpoint projectProvider privilegedProjectProvider userProvider memberProvider
     privilegedMemberProvider userInfoGetter request =
     (case request of
        None \<Rightarrow> failA UtilBadRequest
      | Some req \<Rightarrow>
          if dq_userID req = [] then failA UtilBadRequest
          else
            bindA (httpA (GetProject userInfoGetter projectProvider privilegedProjectProvider (req_projectID req) None)) (\<lambda>project.
            bindA (httpA (up_UserByID userProvider (dq_userID req))) (\<lambda>user.
            bindA (httpA (getMemberList userInfoGetter memberProvider project (us_email user))) (\<lambda>memberList.
            case memberList of
              [] \<Rightarrow> failA (HTTPError 400)
            | [bindingForRequestedMember] \<Rightarrow>
                bindA (httpA (userInfoGetter [])) (\<lambda>userInfo.
                if EqualFold (upb_userEmail bindingForRequestedMember) (ui_email userInfo) then failA (HTTPError 403)
                else
                  httpA (deleteBinding userInfoGetter memberProvider privilegedMemberProvider (req_projectID req)
                    (om_name bindingForRequestedMember)))
            | _ \<Rightarrow> failA (HTTPError 500)))))"

definition member_EditEndpoint ::
  "'x sdk_scheme \<Rightarrow> (string \<Rightarrow> bool) \<Rightarrow> 's ProjectProvider \<Rightarrow> 's PrivilegedProjectProvider \<Rightarrow> 's UserProvider \<Rightarrow>
     's ProjectMemberProvider \<Rightarrow> 's PrivilegedProjectMemberProvider \<Rightarrow> 's UserInfoGetter \<Rightarrow>
     EditReq option \<Rightarrow> ('s, apiUser) act" where
  "member_EditEndpoint K parseAddress projectProvider privilegedProjectProvider userProvider memberProvider
     privilegedMemberProvider userInfoGetter request =
     (case request of
        None \<Rightarrow> failA UtilBadRequest
      | Some req \<Rightarrow>
          bindA (httpA (userInfoGetter [])) (\<lambda>userInfo.
          bindA (liftA (EditReq_Validate K parseAddress req userInfo)) (\<lambda>_.
          let currentMemberFromRequest = aq_body req in
          case au_projects currentMemberFromRequest of
            [] \<Rightarrow> failA Panic
          | projectFromRequest # _ \<Rightarrow>
              bindA (httpA (GetProject userInfoGetter projectProvider privilegedProjectProvider (req_projectID req) None)) (\<lambda>project.
              bindA (wrapA (\<lambda>err. if isErrNotFound err then UtilBadRequest else KubernetesErrorToHTTPError err)
                       (up_UserByEmail userProvider (au_email currentMemberFromRequest))) (\<lambda>memberToUpdate.
              bindA (httpA (getMemberList userInfoGetter memberProvider project (au_email currentMemberFromRequest))) (\<lambda>memberList.
              case memberList of
                [] \<Rightarrow> failA (HTTPError 400)
              | [currentMemberBinding] \<Rightarrow>
                  let generatedGroupName = groupNameFor K (om_name project) (snd projectFromRequest) in
                  bindA (httpA (updateBinding userInfoGetter memberProvider privilegedMemberProvider (req_projectID req)
                           (currentMemberBinding\<lparr>upb_group := generatedGroupName\<rparr>))) (\<lambda>updatedMemberBinding.
                    retA (filterExternalUser
                      (ConvertInternalUserToExternal memberToUpdate False [updatedMemberBinding] []) (om_name project)))
              | _ \<Rightarrow> failA (HTTPError 500)))))))"

definition member_ListEndpoint ::
  "'s ProjectProvider \<Rightarrow> 's PrivilegedProjectProvider \<Rightarrow> 's UserProvider \<Rightarrow> 's ProjectMemberProvider \<Rightarrow>
     's UserInfoGetter \<Rightarrow> ProjectReq option \<Rightarrow> ('s, apiUser list) act" where
  "member_ListEndpoint projectProvider privilegedProjectProvider userProvider memberProvider userInfoGetter request =
     (case request of
        None \<Rightarrow> failA UtilBadRequest
      | Some req \<Rightarrow>
          if req_projectID req = [] then failA UtilBadRequest
          else
            bindA (httpA (GetProject userInfoGetter projectProvider privilegedProjectProvider (req_projectID req) None)) (\<lambda>project.
            bindA (httpA (getMemberList userInfoGetter memberProvider project [])) (\<lambda>members.
              foldA (\<lambda>memberOfProjectBinding externalUsers.
                tryA (up_UserByEmail userProvider (upb_userEmail memberOfProjectBinding)) (\<lambda>r. case r of
                  Inl err \<Rightarrow> if isErrNotFound err then retA externalUsers
                             else failA (KubernetesErrorToHTTPError err)
                | Inr user \<Rightarrow>
                    retA (externalUsers @ [filterExternalUser
                      (ConvertInternalUserToExternal user False [memberOfProjectBinding] []) (om_name project)])))
                members [])))"

definition member_AddEndpoint ::
  "'x sdk_scheme \<Rightarrow> (string \<Rightarrow> bool) \<Rightarrow> 's ProjectProvider \<Rightarrow> 's PrivilegedProjectProvider \<Rightarrow> 's UserProvider \<Rightarrow>
     's ProjectMemberProvider \<Rightarrow> 's PrivilegedProjectMemberProvider \<Rightarrow> 's UserInfoGetter \<Rightarrow>
     AddReq option \<Rightarrow> ('s, apiUser) act" where
  "member_AddEndpoint K parseAddress projectProvider privilegedProjectProvider userProvider memberProvider
     privilegedMemberProvider userInfoGetter request =
     (case request of
        None \<Rightarrow> failA Panic
      | Some req \<Rightarrow>
          bindA (httpA (userInfoGetter [])) (\<lambda>userInfo.
          bindA (liftA (AddReq_Validate K parseAddress req userInfo)) (\<lambda>_.
          let apiUserFromRequest = aq_body req in
          case au_projects apiUserFromRequest of
            [] \<Rightarrow> failA Panic
          | projectFromRequest # _ \<Rightarrow>
              bindA (wrapA (\<lambda>err. if isErrNotFound err then UtilBadRequest else KubernetesErrorToHTTPError err)
                       (up_UserByEmail userProvider (au_email apiUserFromRequest))) (\<lambda>userToInvite.
              bindA (httpA (GetProject userInfoGetter projectProvider privilegedProjectProvider (req_projectID req) None)) (\<lambda>project.
              bindA (httpA (getMemberList userInfoGetter memberProvider project (us_email userToInvite))) (\<lambda>memberList.
              if memberList \<noteq> [] then failA (HTTPError 400)
              else
                let generatedGroupName = groupNameFor K (om_name project) (snd projectFromRequest) in
                bindA (httpA (createBinding userInfoGetter memberProvider privilegedMemberProvider project
                         (us_email userToInvite) generatedGroupName)) (\<lambda>generatedBinding.
                  retA (filterExternalUser
                    (ConvertInternalUserToExternal userToInvite False [generatedBinding] []) (om_name project)))))))))"

text \<open>
  \<open>rawToken\<close> and \<open>tokenExpiry\<close> are the values the middleware stored in the request's context.
\<close>

definition LogoutEndpoint ::
  "'s UserProvider \<Rightarrow> user option \<Rightarrow> string option \<Rightarrow> time option \<Rightarrow> ('s, unit) act" where
  "LogoutEndpoint userProvider ctxUser rawToken tokenExpiry =
     (case ctxUser of
        None \<Rightarrow> failA Panic
      | Some authenticatedUser \<Rightarrow>
          (case rawToken of
             None \<Rightarrow> failA UtilNotAuthorized
           | Some token \<Rightarrow>
               if token = [] then failA UtilNotAuthorized
               else (case tokenExpiry of
                       None \<Rightarrow> failA UtilNotAuthorized
                     | Some expiry \<Rightarrow> up_InvalidateToken userProvider (Some authenticatedUser) token expiry)))"

definition user_GetEndpoint :: "'s ProjectMemberMapper \<Rightarrow> user option \<Rightarrow> ('s, apiUser) act" where
  "user_GetEndpoint memberMapper ctxUser =
     (case ctxUser of
        None \<Rightarrow> failA Panic
      | Some authenticatedUser \<Rightarrow>
          bindA (httpA (mm_MappingsFor memberMapper (us_email authenticatedUser))) (\<lambda>userBindings.
          bindA (httpA (mm_GroupMappingsFor memberMapper (us_groups authenticatedUser))) (\<lambda>groupBindings.
            retA (ConvertInternalUserToExternal authenticatedUser True userBindings groupBindings))))"

definition GetSettingsEndpoint :: "user option \<Rightarrow> ('s, UserSettings option) act" where
  "GetSettingsEndpoint ctxUser =
     (case ctxUser of None \<Rightarrow> failA Panic | Some authenticatedUser \<Rightarrow> retA (us_settings authenticatedUser))"

definition PatchSettingsEndpoint ::
  "'s UserProvider \<Rightarrow> UserSettings \<Rightarrow> (UserSettings \<Rightarrow> string result) \<Rightarrow> (string \<Rightarrow> string \<Rightarrow> string result) \<Rightarrow>
     (string \<Rightarrow> UserSettings option result) \<Rightarrow> user option \<Rightarrow> string \<Rightarrow> ('s, UserSettings option) act" where
  "PatchSettingsEndpoint userProvider emptySettings marshal mergePatch unmarshal ctxUser patch =
     (case ctxUser of
        None \<Rightarrow> failA Panic
      | Some existingUser \<Rightarrow>
          let existingSettings = (case us_settings existingUser of None \<Rightarrow> emptySettings | Some x \<Rightarrow> x) in
          bindA (wrapA (\<lambda>_. NewBadRequest) (liftA (marshal existingSettings))) (\<lambda>existingSettingsJSON.
          bindA (wrapA (\<lambda>_. NewBadRequest) (liftA (mergePatch existingSettingsJSON patch))) (\<lambda>patchedSettingsJSON.
          bindA (wrapA (\<lambda>_. NewBadRequest) (liftA (unmarshal patchedSettingsJSON))) (\<lambda>patchedSettings.
          bindA (httpA (up_UpdateUser userProvider (existingUser\<lparr>us_settings := patchedSettings\<rparr>))) (\<lambda>updatedUser.
            retA (us_settings updatedUser))))))"

definition PatchReadAnnouncementsEndpoint ::
  "'s UserProvider \<Rightarrow> user option \<Rightarrow> string list \<Rightarrow> ('s, string list) act" where
  "PatchReadAnnouncementsEndpoint userProvider ctxUser body =
     (case ctxUser of
        None \<Rightarrow> failA Panic
      | Some existingUser \<Rightarrow>
          bindA (httpA (up_UpdateUser userProvider (existingUser\<lparr>us_readAnnouncements := body\<rparr>))) (\<lambda>updatedUser.
            retA (us_readAnnouncements updatedUser)))"

end
