(* ===== verification/SA_Handlers.thy ===== *)
theory SA_Handlers
  imports Common_Handlers
begin

text \<open>
  The endpoints on project service accounts and their tokens,
  \<^verbatim>\<open>pkg/handler/v1/serviceaccount/sa.go\<close> and \<^verbatim>\<open>token.go\<close>.
\<close>

section \<open>Service accounts\<close>

subsection \<open>API objects and requests\<close>

definition ServiceAccountActive :: string where "ServiceAccountActive = ''Active''"
definition ServiceAccountInactive :: string where "ServiceAccountInactive = ''Inactive''"

record apiServiceAccount = apiObject +
  as_status_text :: string
  as_group :: string

definition getStatus :: "user \<Rightarrow> string" where
  "getStatus serviceAccount =
     (case map_of (om_labels serviceAccount) ServiceAccountLabelGroup of
        Some _ \<Rightarrow> ServiceAccountInactive | None \<Rightarrow> ServiceAccountActive)"

definition convertInternalServiceAccountToExternal :: "user \<Rightarrow> apiServiceAccount" where
  "convertInternalServiceAccountToExternal internal =
     apiObject.extend
       \<lparr>ao_id = om_name internal, ao_name = us_name internal, ao_annotations = [],
        ao_creationTimestamp = om_creationTimestamp internal,
        ao_deletionTimestamp = om_deletionTimestamp internal\<rparr>
       (apiServiceAccount.fields (getStatus internal) (mget (om_labels internal) ServiceAccountLabelGroup))"

record saAddReq = ProjectReq +
  sq_body :: apiServiceAccount

record saUpdateReq = saAddReq +
  sq_serviceAccountID :: string

record saIDReq = ProjectReq +
  si_serviceAccountID :: string

definition serviceAccountGroupsPrefixes :: "'x sdk_scheme \<Rightarrow> string list" where
  "serviceAccountGroupsPrefixes K = [editorGroupPrefix K, viewerGroupPrefix K, projectManagerGroupPrefix K]"

definition saAddReq_Validate :: "'x sdk_scheme \<Rightarrow> 'a saAddReq_scheme \<Rightarrow> unit result" where
  "saAddReq_Validate K r =
     (if req_projectID r = [] \<or> ao_name (sq_body r) = [] \<or> as_group (sq_body r) = []
      then Inl (Plain ''the name, project ID and group cannot be empty'')
      else if as_group (sq_body r) \<in> set (serviceAccountGroupsPrefixes K) then Inr ()
      else Inl (Plain ''invalid group name''))"

definition saUpdateReq_Validate :: "'x sdk_scheme \<Rightarrow> saUpdateReq \<Rightarrow> unit result" where
  "saUpdateReq_Validate K r =
     (case saAddReq_Validate K r of
        Inl e \<Rightarrow> Inl e
      | Inr _ \<Rightarrow> if sq_serviceAccountID r \<noteq> ao_id (sq_body r) then Inl (Plain ''service account ID mismatch'')
                 else Inr ())"

definition saDeleteReq_Validate :: "saIDReq \<Rightarrow> unit result" where
  "saDeleteReq_Validate r =
     (if si_serviceAccountID r = [] then Inl (Plain ''the service account ID cannot be empty'') else Inr ())"

definition decodeServiceAccountIDReq :: "http_request \<Rightarrow> string result" where
  "decodeServiceAccountIDReq r =
     (case rq_vars r ''serviceaccount_id'' of
        None \<Rightarrow> Inl (Plain ''serviceaccount_id parameter is required'')
      | Some saID \<Rightarrow> Inr saID)"

definition sa_DecodeAddReq :: "http_request \<Rightarrow> apiServiceAccount result \<Rightarrow> saAddReq result" where
  "sa_DecodeAddReq r body =
     (case DecodeProjectRequest r of
        Inl e \<Rightarrow> Inl e
      | Inr prjReq \<Rightarrow> (case body of Inl e \<Rightarrow> Inl e
          | Inr b \<Rightarrow> Inr \<lparr>req_projectID = req_projectID prjReq, sq_body = b\<rparr>))"

definition sa_DecodeUpdateReq :: "http_request \<Rightarrow> apiServiceAccount result \<Rightarrow> saUpdateReq result" where
  "sa_DecodeUpdateReq r body =
     (case DecodeProjectRequest r of
        Inl e \<Rightarrow> Inl e
      | Inr prjReq \<Rightarrow> (case body of Inl e \<Rightarrow> Inl e
          | Inr b \<Rightarrow> (case decodeServiceAccountIDReq r of Inl e \<Rightarrow> Inl e
              | Inr saID \<Rightarrow> Inr \<lparr>req_projectID = req_projectID prjReq, sq_body = b, sq_serviceAccountID = saID\<rparr>)))"

definition sa_DecodeDeleteReq :: "http_request \<Rightarrow> saIDReq result" where
  "sa_DecodeDeleteReq r =
     (case DecodeProjectRequest r of
        Inl e \<Rightarrow> Inl e
      | Inr prjReq \<Rightarrow> (case decodeServiceAccountIDReq r of Inl e \<Rightarrow> Inl e
          | Inr saID \<Rightarrow> Inr \<lparr>req_projectID = req_projectID prjReq, si_serviceAccountID = saID\<rparr>))"

subsection \<open>On behalf of the caller\<close>

definition listSA ::
  "'s ServiceAccountProvider \<Rightarrow> 's PrivilegedServiceAccountProvider \<Rightarrow> 's UserInfoGetter \<Rightarrow> project \<Rightarrow>
     apiServiceAccount option \<Rightarrow> ('s, user list) act" where
  "listSA serviceAccountProvider privilegedServiceAccount userInfoGetter project sa =
     bindA (userInfoGetter []) (\<lambda>adminUserInfo.
     let options = (case sa of None \<Rightarrow> None | Some x \<Rightarrow> Some \<lparr>serviceAccountName = ao_name x\<rparr>) in
       if ui_isAdmin adminUserInfo then psap_List privilegedServiceAccount (Some project) options
       else
         bindA (userInfoGetter (om_name project)) (\<lambda>userInfo.
           sap_List serviceAccountProvider (Some userInfo) (Some project) options))"

definition createSA ::
  "'x sdk_scheme \<Rightarrow> 's ServiceAccountProvider \<Rightarrow> 's PrivilegedServiceAccountProvider \<Rightarrow> 's UserInfoGetter \<Rightarrow> project \<Rightarrow>
     apiServiceAccount \<Rightarrow> ('s, user) act" where
  "createSA K serviceAccountProvider privilegedServiceAccount userInfoGetter project sa =
     bindA (userInfoGetter []) (\<lambda>adminUserInfo.
     let groupName = groupNameFor K (om_name project) (as_group sa) in
       if ui_isAdmin adminUserInfo then
         psap_Create privilegedServiceAccount (Some project) (ao_name sa) groupName
       else
         bindA (userInfoGetter (om_name project)) (\<lambda>userInfo.
           sap_Create serviceAccountProvider userInfo (Some project) (ao_name sa) groupName))"

definition updateSA ::
  "'s ServiceAccountProvider \<Rightarrow> 's PrivilegedServiceAccountProvider \<Rightarrow> 's UserInfoGetter \<Rightarrow> project \<Rightarrow>
     user \<Rightarrow> ('s, user) act" where
  "updateSA serviceAccountProvider privilegedServiceAccount userInfoGetter project sa =
     bindA (userInfoGetter []) (\<lambda>adminUserInfo.
       if ui_isAdmin adminUserInfo then psap_Update privilegedServiceAccount (Some sa)
       else
         bindA (userInfoGetter (om_name project)) (\<lambda>userInfo.
           sap_Update serviceAccountProvider (Some userInfo) (Some sa)))"

definition getSA ::
  "'s ServiceAccountProvider \<Rightarrow> 's PrivilegedServiceAccountProvider \<Rightarrow> 's UserInfoGetter \<Rightarrow> project \<Rightarrow>
     string \<Rightarrow> ServiceAccountGetOptions option \<Rightarrow> ('s, user) act" where
  "getSA serviceAccountProvider privilegedServiceAccount userInfoGetter project serviceAccountID options =
     bindA (userInfoGetter []) (\<lambda>adminUserInfo.
       if ui_isAdmin adminUserInfo then psap_Get privilegedServiceAccount serviceAccountID options
       else
         bindA (userInfoGetter (om_name project)) (\<lambda>userInfo.
           sap_Get serviceAccountProvider (Some userInfo) serviceAccountID options))"

definition deleteSA ::
  "'s ServiceAccountProvider \<Rightarrow> 's PrivilegedServiceAccountProvider \<Rightarrow> 's UserInfoGetter \<Rightarrow> project \<Rightarrow>
     string \<Rightarrow> ('s, unit) act" where
  "deleteSA serviceAccountProvider privilegedServiceAccount userInfoGetter project serviceAccountID =
     bindA (userInfoGetter []) (\<lambda>adminUserInfo.
       if ui_isAdmin adminUserInfo then psap_Delete privilegedServiceAccount serviceAccountID
       else
         bindA (userInfoGetter (om_name project)) (\<lambda>userInfo.
           sap_Delete serviceAccountProvider (Some userInfo) serviceAccountID))"

subsection \<open>Endpoints\<close>

definition sa_CreateEndpoint ::
  "'x sdk_scheme \<Rightarrow> 's ProjectProvider \<Rightarrow> 's PrivilegedProjectProvider \<Rightarrow> 's ServiceAccountProvider \<Rightarrow>
     's PrivilegedServiceAccountProvider \<Rightarrow> 's UserInfoGetter \<Rightarrow> saAddReq option \<Rightarrow> ('s, apiServiceAccount) act" where
  "sa_CreateEndpoint K projectProvider privilegedProjectProvider serviceAccountProvider privilegedServiceAccount
     userInfoGetter request =
     (case request of
        None \<Rightarrow> failA Panic
      | Some req \<Rightarrow>
          bindA (wrapA (\<lambda>_. UtilBadRequest) (liftA (saAddReq_Validate K req))) (\<lambda>_.
          let saFromRequest = sq_body req in
          bindA (httpA (GetProject userInfoGetter projectProvider privilegedProjectProvider (req_projectID req) None)) (\<lambda>project.
          bindA (httpA (listSA serviceAccountProvider privilegedServiceAccount userInfoGetter project
                   (Some saFromRequest))) (\<lambda>existingSAList.
            if existingSAList \<noteq> [] then failA UtilAlreadyExists
            else
              bindA (httpA (createSA K serviceAccountProvider privilegedServiceAccount userInfoGetter project
                       saFromRequest)) (\<lambda>sa.
                retA (convertInternalServiceAccountToExternal sa))))))"

text \<open>On the error path the Go endpoint also returns the partial list, which the transport drops.\<close>

definition sa_ListEndpoint ::
  "'s ProjectProvider \<Rightarrow> 's PrivilegedProjectProvider \<Rightarrow> 's ServiceAccountProvider \<Rightarrow>
     's PrivilegedServiceAccountProvider \<Rightarrow> 's ProjectMemberMapper \<Rightarrow> 's UserInfoGetter \<Rightarrow> ProjectReq option \<Rightarrow>
     ('s, apiServiceAccount list) act" where
  "sa_ListEndpoint projectProvider privilegedProjectProvider serviceAccountProvider privilegedServiceAccount
     memberMapper userInfoGetter request =
     (case request of
        None \<Rightarrow> failA UtilBadRequest
      | Some req \<Rightarrow>
          if req_projectID req = [] then failA UtilBadRequest
          else
            bindA (httpA (GetProject userInfoGetter projectProvider privilegedProjectProvider (req_projectID req) None)) (\<lambda>project.
            bindA (httpA (listSA serviceAccountProvider privilegedServiceAccount userInfoGetter project None)) (\<lambda>saList.
            bindA (foldA (\<lambda>sa (errorList, response).
                     let externalSA = convertInternalServiceAccountToExternal sa in
                     if as_status_text externalSA = ServiceAccountInactive
                     then retA (errorList, response @ [externalSA])
                     else tryA (mm_MapUserToGroup memberMapper (us_email sa) (om_name project)) (\<lambda>r. retA (case r of
                            Inl err \<Rightarrow> (errorList @ [err], response)
                          | Inr grp \<Rightarrow> (errorList, response @ [externalSA\<lparr>as_group := grp\<rparr>]))))
                   saList ([], [])) (\<lambda>(errorList, response).
              if errorList \<noteq> [] then failA (HTTPError 500) else retA response))))"

definition sa_UpdateEndpoint ::
  "'x sdk_scheme \<Rightarrow> 's ProjectProvider \<Rightarrow> 's PrivilegedProjectProvider \<Rightarrow> 's ServiceAccountProvider \<Rightarrow>
     's PrivilegedServiceAccountProvider \<Rightarrow> 's ProjectMemberMapper \<Rightarrow> 's UserInfoGetter \<Rightarrow> saUpdateReq option \<Rightarrow>
     ('s, apiServiceAccount) act" where
  "sa_UpdateEndpoint K projectProvider privilegedProjectProvider serviceAccountProvider privilegedServiceAccount
     memberMapper userInfoGetter request =
     (case request of
        None \<Rightarrow> failA UtilBadRequest
      | Some req \<Rightarrow>
          bindA (wrapA (\<lambda>_. UtilBadRequest) (liftA (saUpdateReq_Validate K req))) (\<lambda>_.
          let saFromRequest = sq_body req in
          bindA (httpA (GetProject userInfoGetter projectProvider privilegedProjectProvider (req_projectID req) None)) (\<lambda>project.
          bindA (httpA (getSA serviceAccountProvider privilegedServiceAccount userInfoGetter project
                   (sq_serviceAccountID req) None)) (\<lambda>sa.
          bindA (if us_name sa \<noteq> ao_name saFromRequest then
                   bindA (httpA (listSA serviceAccountProvider privilegedServiceAccount userInfoGetter project
                            (Some saFromRequest))) (\<lambda>existingSAList.
                     if existingSAList \<noteq> [] then failA UtilAlreadyExists
                     else retA (sa\<lparr>us_name := ao_name saFromRequest\<rparr>))
                 else retA sa) (\<lambda>sa.
          bindA (httpA (mm_MapUserToGroup memberMapper (us_email sa) (om_name project))) (\<lambda>currentGroup.
          let newGroup = groupNameFor K (om_name project) (as_group saFromRequest);
              sa = (if newGroup \<noteq> currentGroup
                    then sa\<lparr>om_labels := AList.update ServiceAccountLabelGroup newGroup (om_labels sa)\<rparr>
                    else sa)
          in bindA (httpA (updateSA serviceAccountProvider privilegedServiceAccount userInfoGetter project sa)) (\<lambda>updatedSA.
               retA ((convertInternalServiceAccountToExternal updatedSA)\<lparr>as_group := newGroup\<rparr>))))))))"

definition sa_DeleteEndpoint ::
  "'s ServiceAccountProvider \<Rightarrow> 's PrivilegedServiceAccountProvider \<Rightarrow> 's ProjectProvider \<Rightarrow>
     's PrivilegedProjectProvider \<Rightarrow> 's UserInfoGetter \<Rightarrow> saIDReq option \<Rightarrow> ('s, unit) act" where
  "sa_DeleteEndpoint serviceAccountProvider privilegedServiceAccount projectProvider privilegedProjectProvider
     userInfoGetter request =
     (case request of
        None \<Rightarrow> failA UtilBadRequest
      | Some req \<Rightarrow>
          bindA (wrapA (\<lambda>_. UtilBadRequest) (liftA (saDeleteReq_Validate req))) (\<lambda>_.
          bindA (httpA (GetProject userInfoGetter projectProvider privilegedProjectProvider (req_projectID req) None)) (\<lambda>project.
          bindA (httpA (getSA serviceAccountProvider privilegedServiceAccount userInfoGetter project
                   (si_serviceAccountID req) None)) (\<lambda>_.
            httpA (deleteSA serviceAccountProvider privilegedServiceAccount userInfoGetter project
              (si_serviceAccountID req))))))"

section \<open>Tokens\<close>

subsection \<open>API objects and requests\<close>

record apiPublicToken = apiObject +
  at_expiry :: time
  at_invalidated :: bool

record apiToken = apiPublicToken +
  at_token :: string

text \<open>
  \<^verbatim>\<open>utf8.RuneCountInString\<close>: the number of characters, a byte that starts no valid encoding
  counting as one.
\<close>

definition in_range :: "nat \<Rightarrow> nat \<Rightarrow> char \<Rightarrow> bool" where
  "in_range lo hi c = (let n = (of_char c :: nat) in lo \<le> n \<and> n \<le> hi)"

definition cont :: "char \<Rightarrow> bool" where
  "cont = in_range 128 191"

definition rune_len :: "string \<Rightarrow> nat" where
  "rune_len s =
     (case s of
        c0 # c1 # c2 # c3 # _ \<Rightarrow>
          if in_range 240 240 c0 \<and> in_range 144 191 c1 \<and> cont c2 \<and> cont c3 \<or>
             in_range 241 243 c0 \<and> cont c1 \<and> cont c2 \<and> cont c3 \<or>
             in_range 244 244 c0 \<and> in_range 128 143 c1 \<and> cont c2 \<and> cont c3 then 4
          else if in_range 224 224 c0 \<and> in_range 160 191 c1 \<and> cont c2 \<or>
             (in_range 225 236 c0 \<or> in_range 238 239 c0) \<and> cont c1 \<and> cont c2 \<or>
             in_range 237 237 c0 \<and> in_range 128 159 c1 \<and> cont c2 then 3
          else if in_range 194 223 c0 \<and> cont c1 then 2 else 1
      | c0 # c1 # c2 # _ \<Rightarrow>
          if in_range 224 224 c0 \<and> in_range 160 191 c1 \<and> cont c2 \<or>
             (in_range 225 236 c0 \<or> in_range 238 239 c0) \<and> cont c1 \<and> cont c2 \<or>
             in_range 237 237 c0 \<and> in_range 128 159 c1 \<and> cont c2 then 3
          else if in_range 194 223 c0 \<and> cont c1 then 2 else 1
      | c0 # c1 # _ \<Rightarrow> if in_range 194 223 c0 \<and> cont c1 then 2 else 1
      | _ \<Rightarrow> 1)"

lemma rune_len_pos: "0 < rune_len s"
  by (auto simp: rune_len_def split: list.splits)

function RuneCountInString :: "string \<Rightarrow> nat" where
  "RuneCountInString s = (if s = [] then 0 else Suc (RuneCountInString (drop (rune_len s) s)))"
  by pat_completeness auto

termination RuneCountInString
  by (relation "measure length") (simp_all add: rune_len_pos)

declare RuneCountInString.simps [simp del]

record addTokenReq = saIDReq +
  kq_name :: string

record tokenIDReq = saIDReq +
  kq_tokenID :: string

record updateTokenReq = tokenIDReq +
  kq_bodyID :: string
  kq_bodyName :: string

record patchTokenReq = tokenIDReq +
  kq_bodyText :: string

definition addTokenReq_Validate :: "addTokenReq \<Rightarrow> unit result" where
  "addTokenReq_Validate r =
     (if kq_name r = [] \<or> req_projectID r = [] \<or> si_serviceAccountID r = []
      then Inl (Plain ''the name, service account ID and project ID cannot be empty'')
      else if RuneCountInString (kq_name r) > 50 then Inl (Plain ''the name is too long, max 50 chars'')
      else Inr ())"

definition commonTokenReq_Validate :: "'a saIDReq_scheme \<Rightarrow> unit result" where
  "commonTokenReq_Validate r =
     (if req_projectID r = [] \<or> si_serviceAccountID r = []
      then Inl (Plain ''service account ID and project ID cannot be empty'') else Inr ())"

definition updateTokenReq_Validate :: "updateTokenReq \<Rightarrow> unit result" where
  "updateTokenReq_Validate r =
     (case commonTokenReq_Validate r of
        Inl e \<Rightarrow> Inl e
      | Inr _ \<Rightarrow>
          if kq_tokenID r = [] then Inl (Plain ''token ID cannot be empty'')
          else if kq_bodyName r = [] then Inl (Plain ''new name can not be empty'')
          else if kq_tokenID r \<noteq> kq_bodyID r then Inl (Plain ''token ID mismatch'')
          else Inr ())"

definition patchTokenReq_Validate :: "patchTokenReq \<Rightarrow> unit result" where
  "patchTokenReq_Validate r =
     (case commonTokenReq_Validate r of
        Inl e \<Rightarrow> Inl e
      | Inr _ \<Rightarrow>
          if kq_tokenID r = [] then Inl (Plain ''token ID cannot be empty'')
          else if kq_bodyText r = [] then Inl (Plain ''body can not be empty'')
          else Inr ())"

definition deleteTokenReq_Validate :: "tokenIDReq \<Rightarrow> unit result" where
  "deleteTokenReq_Validate r =
     (case commonTokenReq_Validate r of
        Inl e \<Rightarrow> Inl e
      | Inr _ \<Rightarrow> if kq_tokenID r = [] then Inl (Plain ''token ID cannot be empty'') else Inr ())"

definition DecodeTokenReq :: "http_request \<Rightarrow> saIDReq result" where
  "DecodeTokenReq r =
     (case DecodeProjectRequest r of
        Inl e \<Rightarrow> Inl e
      | Inr prjReq \<Rightarrow> (case decodeServiceAccountIDReq r of Inl e \<Rightarrow> Inl e
          | Inr saID \<Rightarrow> Inr \<lparr>req_projectID = req_projectID prjReq, si_serviceAccountID = saID\<rparr>))"

definition decodeTokenIDReq :: "http_request \<Rightarrow> string result" where
  "decodeTokenIDReq r =
     (case rq_vars r ''token_id'' of
        None \<Rightarrow> Inl (Plain ''token_id parameter is required'') | Some tokenID \<Rightarrow> Inr tokenID)"

text \<open>The body of the add request is given by its name, that of the update by its id and name.\<close>

definition DecodeAddTokenReq :: "http_request \<Rightarrow> string result \<Rightarrow> addTokenReq result" where
  "DecodeAddTokenReq r body =
     (case DecodeTokenReq r of
        Inl e \<Rightarrow> Inl e
      | Inr t \<Rightarrow> (case body of Inl e \<Rightarrow> Inl e
          | Inr name \<Rightarrow> Inr \<lparr>req_projectID = req_projectID t, si_serviceAccountID = si_serviceAccountID t,
                             kq_name = name\<rparr>))"

definition DecodeUpdateTokenReq :: "http_request \<Rightarrow> (string \<times> string) result \<Rightarrow> updateTokenReq result" where
  "DecodeUpdateTokenReq r body =
     (case DecodeTokenReq r of
        Inl e \<Rightarrow> Inl e
      | Inr t \<Rightarrow> (case body of Inl e \<Rightarrow> Inl e
          | Inr (i, name) \<Rightarrow> (case decodeTokenIDReq r of Inl e \<Rightarrow> Inl e
              | Inr tokenID \<Rightarrow> Inr \<lparr>req_projectID = req_projectID t, si_serviceAccountID = si_serviceAccountID t,
                                    kq_tokenID = tokenID, kq_bodyID = i, kq_bodyName = name\<rparr>)))"

definition DecodePatchTokenReq :: "http_request \<Rightarrow> string result \<Rightarrow> patchTokenReq result" where
  "DecodePatchTokenReq r readAll =
     (case DecodeTokenReq r of
        Inl e \<Rightarrow> Inl e
      | Inr t \<Rightarrow> (case readAll of Inl e \<Rightarrow> Inl e
          | Inr body \<Rightarrow> (case decodeTokenIDReq r of Inl e \<Rightarrow> Inl e
              | Inr tokenID \<Rightarrow> Inr \<lparr>req_projectID = req_projectID t, si_serviceAccountID = si_serviceAccountID t,
                                    kq_tokenID = tokenID, kq_bodyText = body\<rparr>)))"

definition DecodeDeleteTokenReq :: "http_request \<Rightarrow> tokenIDReq result" where
  "DecodeDeleteTokenReq r =
     (case DecodeTokenReq r of
        Inl e \<Rightarrow> Inl e
      | Inr t \<Rightarrow> (case decodeTokenIDReq r of Inl e \<Rightarrow> Inl e
          | Inr tokenID \<Rightarrow> Inr \<lparr>req_projectID = req_projectID t, si_serviceAccountID = si_serviceAccountID t,
                                kq_tokenID = tokenID\<rparr>))"

subsection \<open>Conversion\<close>

type_synonym 's TokenAuthenticator = "string \<Rightarrow> ('s, jwt_claims \<times> CustomTokenClaim) act"

definition convertInternalTokenToPublicExternal ::
  "jose \<Rightarrow> secret \<Rightarrow> 's TokenAuthenticator \<Rightarrow> ('s, apiPublicToken) act" where
  "convertInternalTokenToPublicExternal J internal authenticator =
     (case data_lookup (sec_data internal) ''token'' of
        None \<Rightarrow> failA (Plain ''can not find token data'')
      | Some token \<Rightarrow>
        (case map_of (om_labels internal) tokenNameLabel of
           None \<Rightarrow> failA (Plain ''can not find token name in secret'')
         | Some name \<Rightarrow>
             let ext = (\<lambda>expiry invalidated. apiObject.extend
                   \<lparr>ao_id = om_name internal, ao_name = name, ao_annotations = [],
                    ao_creationTimestamp = om_creationTimestamp internal, ao_deletionTimestamp = None\<rparr>
                   (apiPublicToken.fields expiry invalidated))
             in tryA (authenticator token) (\<lambda>r. retA (case r of
                  Inl _ \<Rightarrow> ext 0 True
                | Inr (publicClaim, _) \<Rightarrow> ext (numericTime J (jc_expiry publicClaim)) False))))"

definition convertInternalTokenToPrivateExternal ::
  "jose \<Rightarrow> secret \<Rightarrow> 's TokenAuthenticator \<Rightarrow> ('s, apiToken) act" where
  "convertInternalTokenToPrivateExternal J internal authenticator =
     bindA (convertInternalTokenToPublicExternal J internal authenticator) (\<lambda>public.
       case data_lookup (sec_data internal) ''token'' of
         None \<Rightarrow> failA (Plain ''can not find token data in secret'')
       | Some token \<Rightarrow> retA (apiPublicToken.extend public (apiToken.fields token)))"

subsection \<open>On behalf of the caller\<close>

definition listSAToken ::
  "'x sdk_scheme \<Rightarrow> 's UserInfoGetter \<Rightarrow> 's ServiceAccountTokenProvider \<Rightarrow> 's PrivilegedServiceAccountTokenProvider \<Rightarrow>
     project \<Rightarrow> user \<Rightarrow> string \<Rightarrow> ('s, secret list) act" where
  "listSAToken K userInfoGetter serviceAccountTokenProvider privilegedServiceAccountTokenProvider project sa tokenID =
     (let options = \<lparr>opt_tokenID = tokenID, opt_tokenName = [], opt_labelSelector = None, opt_serviceAccountID = []\<rparr> in
      bindA (httpA (userInfoGetter [])) (\<lambda>adminUserInfo.
        if ui_isAdmin adminUserInfo then
          bindA (liftA (parseSelector K (projectIDLabelKey K) (om_name project))) (\<lambda>labelSelector.
            tryA (pstp_ListUnsecured privilegedServiceAccountTokenProvider
                    (Some (options\<lparr>opt_labelSelector := Some labelSelector, opt_serviceAccountID := om_name sa\<rparr>))) (\<lambda>r.
              case r of
                Inl e \<Rightarrow> if IsNotFound e then retA [] else failA e
              | Inr tokens \<Rightarrow> retA tokens))
        else
          bindA (userInfoGetter (om_name project)) (\<lambda>userInfo.
            stp_List serviceAccountTokenProvider (Some userInfo) (Some project) (Some sa) (Some options))))"

definition createSAToken ::
  "'s UserInfoGetter \<Rightarrow> 's ServiceAccountTokenProvider \<Rightarrow> 's PrivilegedServiceAccountTokenProvider \<Rightarrow>
     user \<Rightarrow> string \<Rightarrow> string \<Rightarrow> string \<Rightarrow> string \<Rightarrow> ('s, secret) act" where
  "createSAToken userInfoGetter serviceAccountTokenProvider privilegedServiceAccountTokenProvider sa projectID
     tokenName tokenID tokenData =
     bindA (userInfoGetter []) (\<lambda>adminUserInfo.
       if ui_isAdmin adminUserInfo then
         pstp_CreateUnsecured privilegedServiceAccountTokenProvider (Some sa) projectID tokenName tokenID tokenData
       else
         bindA (userInfoGetter projectID) (\<lambda>userInfo.
           stp_Create serviceAccountTokenProvider (Some userInfo) (Some sa) projectID tokenName tokenID tokenData))"

definition deleteSAToken ::
  "'s UserInfoGetter \<Rightarrow> 's ServiceAccountTokenProvider \<Rightarrow> 's PrivilegedServiceAccountTokenProvider \<Rightarrow>
     string \<Rightarrow> string \<Rightarrow> ('s, unit) act" where
  "deleteSAToken userInfoGetter serviceAccountTokenProvider privilegedServiceAccountTokenProvider projectID tokenID =
     bindA (userInfoGetter []) (\<lambda>adminUserInfo.
       if ui_isAdmin adminUserInfo then pstp_DeleteUnsecured privilegedServiceAccountTokenProvider tokenID
       else
         bindA (userInfoGetter projectID) (\<lambda>userInfo.
           stp_Delete serviceAccountTokenProvider (Some userInfo) tokenID))"

definition getSAToken ::
  "'s UserInfoGetter \<Rightarrow> 's ServiceAccountTokenProvider \<Rightarrow> 's PrivilegedServiceAccountTokenProvider \<Rightarrow>
     string \<Rightarrow> string \<Rightarrow> ('s, secret) act" where
  "getSAToken userInfoGetter serviceAccountTokenProvider privilegedServiceAccountTokenProvider projectID tokenID =
     bindA (userInfoGetter []) (\<lambda>adminUserInfo.
       if ui_isAdmin adminUserInfo then pstp_GetUnsecured privilegedServiceAccountTokenProvider tokenID
       else
         bindA (userInfoGetter projectID) (\<lambda>userInfo.
           stp_Get serviceAccountTokenProvider (Some userInfo) tokenID))"

definition updateSAToken ::
  "'s UserInfoGetter \<Rightarrow> 's ServiceAccountTokenProvider \<Rightarrow> 's PrivilegedServiceAccountTokenProvider \<Rightarrow>
     secret \<Rightarrow> string \<Rightarrow> ('s, secret) act" where
  "updateSAToken userInfoGetter serviceAccountTokenProvider privilegedServiceAccountTokenProvider token projectID =
     bindA (userInfoGetter []) (\<lambda>adminUserInfo.
       if ui_isAdmin adminUserInfo then pstp_UpdateUnsecured privilegedServiceAccountTokenProvider (Some token)
       else
         bindA (userInfoGetter projectID) (\<lambda>userInfo.
           stp_Update serviceAccountTokenProvider (Some userInfo) (Some token)))"

subsection \<open>Endpoints\<close>

text \<open>
  What the token endpoints are constructed with. \<open>generate email project id\<close> is
  \<^verbatim>\<open>tokenGenerator.Generate(serviceaccount.Claims(email, project, id))\<close>.
\<close>

record 's token_deps =
  td_projects :: "'s ProjectProvider"
  td_privilegedProjects :: "'s PrivilegedProjectProvider"
  td_accounts :: "'s ServiceAccountProvider"
  td_privilegedAccounts :: "'s PrivilegedServiceAccountProvider"
  td_tokens :: "'s ServiceAccountTokenProvider"
  td_privilegedTokens :: "'s PrivilegedServiceAccountTokenProvider"
  td_authenticator :: "'s TokenAuthenticator"
  td_generate :: "string \<Rightarrow> string \<Rightarrow> string \<Rightarrow> ('s, string) act"
  td_userInfoGetter :: "'s UserInfoGetter"

definition generate_token ::
  "('s, 'x) env_scheme \<Rightarrow> jose \<Rightarrow> string \<Rightarrow> string \<Rightarrow> string \<Rightarrow> string \<Rightarrow> ('s, string) act" where
  "generate_token E J signer email projectID tokenID =
     bindA (Claims E J email projectID tokenID) (\<lambda>(claims, customClaims).
       liftA (Generate J signer claims customClaims))"

definition keep_prefix :: "ServiceAccountGetOptions option" where
  "keep_prefix = Some \<lparr>removePrefix = False\<rparr>"

definition CreateTokenEndpoint ::
  "('s, 'x) env_scheme \<Rightarrow> jose \<Rightarrow> 's token_deps \<Rightarrow> addTokenReq option \<Rightarrow> ('s, apiToken) act" where
  "CreateTokenEndpoint E J D request =
     (case request of
        None \<Rightarrow> failA Panic
      | Some req \<Rightarrow>
          bindA (wrapA (\<lambda>_. UtilBadRequest) (liftA (addTokenReq_Validate req))) (\<lambda>_.
          bindA (httpA (GetProject (td_userInfoGetter D) (td_projects D) (td_privilegedProjects D)
                   (req_projectID req) None)) (\<lambda>project.
          bindA (httpA (getSA (td_accounts D) (td_privilegedAccounts D) (td_userInfoGetter D) project
                   (si_serviceAccountID req) keep_prefix)) (\<lambda>sa.
          bindA (httpA (listSAToken E (td_userInfoGetter D) (td_tokens D) (td_privilegedTokens D) project sa
                   (kq_name req))) (\<lambda>existingTokenList.
          if existingTokenList \<noteq> [] then failA UtilAlreadyExists
          else
            bindA (randA E) (\<lambda>tokenID.
            bindA (wrapA (\<lambda>_. HTTPError 500) (td_generate D (us_email sa) (om_name project) tokenID)) (\<lambda>token.
            bindA (httpA (createSAToken (td_userInfoGetter D) (td_tokens D) (td_privilegedTokens D) sa
                     (om_name project) (kq_name req) tokenID token)) (\<lambda>secret.
              wrapA (\<lambda>_. HTTPError 500) (convertInternalTokenToPrivateExternal J secret (td_authenticator D))))))))))"

definition ListTokenEndpoint ::
  "'x sdk_scheme \<Rightarrow> jose \<Rightarrow> 's token_deps \<Rightarrow> saIDReq option \<Rightarrow> ('s, apiPublicToken list) act" where
  "ListTokenEndpoint K J D request =
     (case request of
        None \<Rightarrow> failA Panic
      | Some req \<Rightarrow>
          bindA (wrapA (\<lambda>_. UtilBadRequest) (liftA (commonTokenReq_Validate req))) (\<lambda>_.
          bindA (httpA (GetProject (td_userInfoGetter D) (td_projects D) (td_privilegedProjects D)
                   (req_projectID req) None)) (\<lambda>project.
          bindA (httpA (getSA (td_accounts D) (td_privilegedAccounts D) (td_userInfoGetter D) project
                   (si_serviceAccountID req) keep_prefix)) (\<lambda>sa.
          bindA (httpA (listSAToken K (td_userInfoGetter D) (td_tokens D) (td_privilegedTokens D) project sa []))
            (\<lambda>existingSecretList.
          bindA (foldA (\<lambda>secret (errorList, resultList).
                   tryA (convertInternalTokenToPublicExternal J secret (td_authenticator D)) (\<lambda>r. retA (case r of
                     Inl err \<Rightarrow> (errorList @ [err], resultList)
                   | Inr externalToken \<Rightarrow> (errorList, resultList @ [externalToken]))))
                 existingSecretList ([], [])) (\<lambda>(errorList, resultList).
            if errorList \<noteq> [] then failA (HTTPError 500) else retA resultList))))))"

definition token_updateEndpoint ::
  "'x sdk_scheme \<Rightarrow> 's token_deps \<Rightarrow> string \<Rightarrow> string \<Rightarrow> string \<Rightarrow> string \<Rightarrow> bool \<Rightarrow> ('s, secret) act" where
  "token_updateEndpoint K D projectID saID tokenID newName regenerateToken =
     bindA (GetProject (td_userInfoGetter D) (td_projects D) (td_privilegedProjects D) projectID None) (\<lambda>project.
     bindA (getSA (td_accounts D) (td_privilegedAccounts D) (td_userInfoGetter D) project saID keep_prefix) (\<lambda>sa.
     bindA (getSAToken (td_userInfoGetter D) (td_tokens D) (td_privilegedTokens D) projectID tokenID) (\<lambda>existingSecret.
     case map_of (om_labels existingSecret) tokenNameLabel of
       None \<Rightarrow> failA (Plain ''can not find token name in secret'')
     | Some existingName \<Rightarrow>
         if newName = existingName \<and> \<not> regenerateToken then retA existingSecret
         else
           bindA (if newName \<noteq> existingName then
                    bindA (listSAToken K (td_userInfoGetter D) (td_tokens D) (td_privilegedTokens D) project sa newName)
                      (\<lambda>existingTokenList.
                        if existingTokenList \<noteq> [] then failA UtilAlreadyExists
                        else retA (existingSecret\<lparr>om_labels :=
                               AList.update tokenNameLabel newName (om_labels existingSecret)\<rparr>))
                  else retA existingSecret) (\<lambda>existingSecret.
           bindA (if regenerateToken then
                    bindA (wrapA (\<lambda>_. Plain ''can not generate token data'')
                             (td_generate D (us_email sa) (om_name project) (om_name existingSecret))) (\<lambda>token.
                      case sec_data existingSecret of
                        None \<Rightarrow> failA Panic
                      | Some d \<Rightarrow> retA (existingSecret\<lparr>sec_data := Some (AList.update ''token'' token d)\<rparr>))
                  else retA existingSecret) (\<lambda>existingSecret.
             updateSAToken (td_userInfoGetter D) (td_tokens D) (td_privilegedTokens D) existingSecret projectID)))))"

definition UpdateTokenEndpoint ::
  "'x sdk_scheme \<Rightarrow> jose \<Rightarrow> 's token_deps \<Rightarrow> updateTokenReq option \<Rightarrow> ('s, apiToken) act" where
  "UpdateTokenEndpoint K J D request =
     (case request of
        None \<Rightarrow> failA Panic
      | Some req \<Rightarrow>
          bindA (wrapA (\<lambda>_. UtilBadRequest) (liftA (updateTokenReq_Validate req))) (\<lambda>_.
          bindA (httpA (token_updateEndpoint K D (req_projectID req) (si_serviceAccountID req) (kq_tokenID req)
                   (kq_bodyName req) True)) (\<lambda>secret.
            wrapA (\<lambda>_. HTTPError 500) (convertInternalTokenToPrivateExternal J secret (td_authenticator D)))))"

text \<open>\<open>unmarshalName\<close> is the outcome of decoding the body: the name it carries.\<close>

definition PatchTokenEndpoint ::
  "'x sdk_scheme \<Rightarrow> jose \<Rightarrow> 's token_deps \<Rightarrow> (string \<Rightarrow> string result) \<Rightarrow> patchTokenReq option \<Rightarrow> ('s, apiPublicToken) act" where
  "PatchTokenEndpoint K J D unmarshalName request =
     (case request of
        None \<Rightarrow> failA Panic
      | Some req \<Rightarrow>
          bindA (wrapA (\<lambda>_. UtilBadRequest) (liftA (patchTokenReq_Validate req))) (\<lambda>_.
          bindA (wrapA (\<lambda>_. UtilBadRequest) (liftA (unmarshalName (kq_bodyText req)))) (\<lambda>newName.
          if newName = [] then failA UtilBadRequest
          else
            bindA (httpA (token_updateEndpoint K D (req_projectID req) (si_serviceAccountID req) (kq_tokenID req)
                     newName False)) (\<lambda>secret.
              wrapA (\<lambda>_. HTTPError 500) (convertInternalTokenToPublicExternal J secret (td_authenticator D))))))"

definition DeleteTokenEndpoint :: "'s token_deps \<Rightarrow> tokenIDReq option \<Rightarrow> ('s, unit) act" where
  "DeleteTokenEndpoint D request =
     (case request of
        None \<Rightarrow> failA Panic
      | Some req \<Rightarrow>
          bindA (wrapA (\<lambda>_. UtilBadRequest) (liftA (deleteTokenReq_Validate req))) (\<lambda>_.
          bindA (httpA (GetProject (td_userInfoGetter D) (td_projects D) (td_privilegedProjects D)
                   (req_projectID req) None)) (\<lambda>project.
          bindA (httpA (getSA (td_accounts D) (td_privilegedAccounts D) (td_userInfoGetter D) project
                   (si_serviceAccountID req) keep_prefix)) (\<lambda>_.
            httpA (deleteSAToken (td_userInfoGetter D) (td_tokens D) (td_privilegedTokens D) (req_projectID req)
              (kq_tokenID req))))))"

end
