(* ===== verification/Middleware.thy ===== *)
theory Middleware
  imports Common_Handlers
begin

text \<open>
  The endpoint middleware of \<^verbatim>\<open>pkg/handler/middleware/middleware.go\<close>: who is calling (token
  extraction and verification, the user object, the user info) and which seed the request is for
  (the providers injected into the context). A middleware takes the next endpoint and the request's
  context; the request itself is the argument each middleware looks at.
\<close>

section \<open>The request's context\<close>

text \<open>
  The values stored under the context keys. The per-seed providers other than the cluster provider
  are opaque here: \<open>ctx_providers\<close> maps the context key to the provider.
\<close>

record ('s, 'p) reqctx =
  ctx_noTokenFound :: "go_error option"
  ctx_rawToken :: "string option"
  ctx_tokenExpiry :: "time option"
  ctx_authenticatedUser :: "apiUser option"
  ctx_userCR :: "user option"
  ctx_userInfo :: "UserInfo option"
  ctx_datacenter :: "seed option"
  ctx_seedsGetter :: "'s SeedsGetter option"
  ctx_clusterProvider :: "'s ClusterProvider option"
  ctx_privilegedClusterProvider :: "'s ClusterProvider option"
  ctx_providers :: "(string \<times> 'p) list"

type_synonym ('s, 'p, 'r) next_endpoint = "('s, 'p) reqctx \<Rightarrow> ('s, 'r) act"

definition with_provider :: "string \<Rightarrow> 'p \<Rightarrow> ('s, 'p) reqctx \<Rightarrow> ('s, 'p) reqctx" where
  "with_provider key p ctx = ctx\<lparr>ctx_providers := AList.update key p (ctx_providers ctx)\<rparr>"

section \<open>Who is calling\<close>

definition TokenExtractor_middleware ::
  "TokenExtractor \<Rightarrow> ('s, 'p) reqctx \<Rightarrow> http_request \<Rightarrow> ('s, 'p) reqctx" where
  "TokenExtractor_middleware extract ctx r =
     (case extract r of
        Inl err \<Rightarrow> ctx\<lparr>ctx_noTokenFound := Some err\<rparr>
      | Inr token \<Rightarrow> ctx\<lparr>ctx_rawToken := Some token\<rparr>)"

definition checkBlockedTokens :: "string \<Rightarrow> string \<Rightarrow> 's UserProvider \<Rightarrow> ('s, unit) act" where
  "checkBlockedTokens email token userProvider =
     tryA (up_UserByEmail userProvider email) (\<lambda>r. case r of
       Inl err \<Rightarrow> if \<not> isErrNotFound err then failA (KubernetesErrorToHTTPError err) else retA ()
     | Inr user \<Rightarrow>
         bindA (httpA (up_GetInvalidatedTokens userProvider (Some user))) (\<lambda>blockedTokens.
           if token \<in> set blockedTokens then failA UtilNotAuthorized else retA ()))"

definition TokenVerifier_middleware ::
  "'s TokenVerifier \<Rightarrow> 's UserProvider \<Rightarrow> ('s, 'p, 'r) next_endpoint \<Rightarrow> ('s, 'p) reqctx \<Rightarrow> ('s, 'r) act" where
  "TokenVerifier_middleware verify userProvider nxt ctx =
     (case ctx_noTokenFound ctx of
        Some tokenNotFoundErr \<Rightarrow> failA (HTTPError 401)
      | None \<Rightarrow>
        (case ctx_rawToken ctx of
           None \<Rightarrow> failA UtilNotAuthorized
         | Some token \<Rightarrow>
             if token = [] then failA UtilNotAuthorized
             else
               bindA (wrapA (\<lambda>_. HTTPError 401) (verify token)) (\<lambda>claims.
               if tc_subject claims = [] then failA UtilNotAuthorized
               else
                 let user = zero_apiUser\<lparr>ao_name := tc_name claims, au_email := tc_email claims,
                                         au_groups := tc_groups claims\<rparr>
                 in bindA (checkBlockedTokens (tc_email claims) token userProvider) (\<lambda>_.
                      nxt (ctx\<lparr>ctx_tokenExpiry := Some (tc_expiry claims),
                               ctx_authenticatedUser := Some user\<rparr>)))))"

definition find_or_create_user :: "'s UserProvider \<Rightarrow> apiUser \<Rightarrow> ('s, user) act" where
  "find_or_create_user userProvider authenticatedUser =
     tryA (up_UserByEmail userProvider (au_email authenticatedUser)) (\<lambda>r. case r of
       Inr user \<Rightarrow> retA user
     | Inl err \<Rightarrow>
         if \<not> isErrNotFound err then failA (KubernetesErrorToHTTPError err)
         else
           tryA (up_CreateUser userProvider (ao_name authenticatedUser) (au_email authenticatedUser)
                   (au_groups authenticatedUser)) (\<lambda>r. case r of
             Inr user \<Rightarrow> retA user
           | Inl err \<Rightarrow>
               if \<not> IsAlreadyExists err then failA (KubernetesErrorToHTTPError err)
               else httpA (up_UserByEmail userProvider (au_email authenticatedUser))))"

text \<open>Less than a minute, in nanoseconds; a zero time was never set.\<close>

definition seen_recently :: "time \<Rightarrow> time \<Rightarrow> bool" where
  "seen_recently now lastSeen \<longleftrightarrow> lastSeen \<noteq> 0 \<and> now - lastSeen < 60 * 1000000000"

definition UserSaver ::
  "('s, 'x) env_scheme \<Rightarrow> 's UserProvider \<Rightarrow> ('s, 'p, 'r) next_endpoint \<Rightarrow> ('s, 'p) reqctx \<Rightarrow> ('s, 'r) act" where
  "UserSaver E userProvider nxt ctx =
     (case ctx_authenticatedUser ctx of
        None \<Rightarrow> failA (HTTPError 500)
      | Some authenticatedUser \<Rightarrow>
          bindA (find_or_create_user userProvider authenticatedUser) (\<lambda>user.
          bindA (nowA E) (\<lambda>now.
          if seen_recently now (us_lastSeen user) then nxt (ctx\<lparr>ctx_userCR := Some user\<rparr>)
          else
            let updatedUser = user\<lparr>us_lastSeen := now, us_groups := au_groups authenticatedUser\<rparr> in
            tryA (up_UpdateUser userProvider updatedUser) (\<lambda>r. case r of
              Inl err \<Rightarrow>
                if IsConflict err then nxt (ctx\<lparr>ctx_userCR := Some user\<rparr>)
                else failA (KubernetesErrorToHTTPError err)
            | Inr updatedUser \<Rightarrow> nxt (ctx\<lparr>ctx_userCR := Some updatedUser\<rparr>)))))"

definition createUserInfo :: "user \<Rightarrow> string \<Rightarrow> 's ProjectMemberMapper \<Rightarrow> ('s, UserInfo) act" where
  "createUserInfo user projectID userProjectMapper =
     (let info = (\<lambda>groups roles. \<lparr>ui_email = us_email user, ui_groups = sorted_list_of_set groups, ui_roles = roles,
                    ui_isAdmin = False, ui_isGlobalViewer = us_isGlobalViewer user\<rparr>)
      in if projectID \<noteq> [] then
           bindA (mm_MapUserToGroups userProjectMapper user projectID) (\<lambda>groups.
           bindA (mm_MapUserToRoles userProjectMapper user projectID) (\<lambda>roles.
             retA (info groups roles)))
         else retA (info (set (us_groups user)) {}))"

text \<open>
  The two type assertions on the request are \<open>userIDGetter\<close> and \<open>prjIDGetter\<close>: what the request's
  getters return, if it has them.
\<close>

definition UserInfoUnauthorized ::
  "'s ProjectMemberMapper \<Rightarrow> 's UserProvider \<Rightarrow> string option \<Rightarrow> string option \<Rightarrow>
     ('s, 'p, 'r) next_endpoint \<Rightarrow> ('s, 'p) reqctx \<Rightarrow> ('s, 'r) act" where
  "UserInfoUnauthorized userProjectMapper userProvider userIDGetter prjIDGetter nxt ctx =
     (case userIDGetter of
        None \<Rightarrow> failA UtilBadRequest
      | Some userID \<Rightarrow>
        (case prjIDGetter of
           None \<Rightarrow> failA UtilBadRequest
         | Some projectID \<Rightarrow>
             bindA (httpA (up_UserByID userProvider userID)) (\<lambda>user.
             if us_isAdmin user then
               nxt (ctx\<lparr>ctx_userInfo := Some \<lparr>ui_email = us_email user, ui_groups = [], ui_roles = {},
                                             ui_isAdmin = True, ui_isGlobalViewer = False\<rparr>\<rparr>)
             else
               bindA (httpA (createUserInfo user projectID userProjectMapper)) (\<lambda>uInfo.
                 nxt (ctx\<lparr>ctx_userInfo := Some uInfo\<rparr>)))))"

section \<open>Which seed\<close>

subsection \<open>The cluster provider\<close>

fun getClusterProviderByClusterID ::
  "seedmap \<Rightarrow> 's ClusterProviderGetter \<Rightarrow> string \<Rightarrow> ('s, 's ClusterProvider) act" where
  "getClusterProviderByClusterID [] clusterProviderGetter clusterID = failA UtilNotFound"
| "getClusterProviderByClusterID ((_, seed) # seeds) clusterProviderGetter clusterID =
     (if sd_invalid seed then getClusterProviderByClusterID seeds clusterProviderGetter clusterID
      else tryA (clusterProviderGetter seed) (\<lambda>r. case r of
        Inl _ \<Rightarrow> getClusterProviderByClusterID seeds clusterProviderGetter clusterID
      | Inr clusterProvider \<Rightarrow>
          bindA (cp_IsCluster clusterProvider clusterID) (\<lambda>found.
            if found then retA clusterProvider
            else getClusterProviderByClusterID seeds clusterProviderGetter clusterID)))"

text \<open>\<open>getter\<close> is the seed and cluster the request names, if it has the getter method.\<close>

definition GetClusterProvider ::
  "('s, 'p) reqctx \<Rightarrow> SeedCluster option \<Rightarrow> 's SeedsGetter \<Rightarrow> 's ClusterProviderGetter \<Rightarrow>
     ('s, 's ClusterProvider \<times> ('s, 'p) reqctx) act" where
  "GetClusterProvider ctx getter seedsGetter clusterProviderGetter =
     (case getter of
        None \<Rightarrow> failA (Plain ''request is no dcGetter'')
      | Some sc \<Rightarrow>
          bindA (wrapA (\<lambda>_. HTTPError 500) seedsGetter) (\<lambda>seeds.
          if sc_clusterID sc \<noteq> [] then
            bindA (getClusterProviderByClusterID seeds clusterProviderGetter (sc_clusterID sc)) (\<lambda>clusterProvider.
              retA (clusterProvider, ctx))
          else (case map_of seeds (sc_seedName sc) of
              None \<Rightarrow> failA UtilNotFound
            | Some seed \<Rightarrow>
                bindA (wrapA (\<lambda>_. UtilNotFound) (clusterProviderGetter seed)) (\<lambda>clusterProvider.
                  retA (clusterProvider, ctx\<lparr>ctx_datacenter := Some seed\<rparr>)))))"

definition SetClusterProvider ::
  "'s ClusterProviderGetter \<Rightarrow> 's SeedsGetter \<Rightarrow> SeedCluster option \<Rightarrow> ('s, 'p, 'r) next_endpoint \<Rightarrow>
     ('s, 'p) reqctx \<Rightarrow> ('s, 'r) act" where
  "SetClusterProvider clusterProviderGetter seedsGetter request nxt ctx =
     bindA (GetClusterProvider ctx request seedsGetter clusterProviderGetter) (\<lambda>(clusterProvider, ctx).
       nxt (ctx\<lparr>ctx_clusterProvider := Some clusterProvider\<rparr>))"

text \<open>The type assertion of the privileged variant panics when the provider lacks the interface.\<close>

definition SetPrivilegedClusterProvider ::
  "('s ClusterProvider \<Rightarrow> 's ClusterProvider option) \<Rightarrow> 's ClusterProviderGetter \<Rightarrow> 's SeedsGetter \<Rightarrow>
     SeedCluster option \<Rightarrow> ('s, 'p, 'r) next_endpoint \<Rightarrow> ('s, 'p) reqctx \<Rightarrow> ('s, 'r) act" where
  "SetPrivilegedClusterProvider asPrivileged clusterProviderGetter seedsGetter request nxt ctx =
     bindA (GetClusterProvider ctx request seedsGetter clusterProviderGetter) (\<lambda>(clusterProvider, ctx).
       case asPrivileged clusterProvider of
         None \<Rightarrow> failA Panic
       | Some privilegedClusterProvider \<Rightarrow>
           nxt (ctx\<lparr>ctx_clusterProvider := Some clusterProvider,
                    ctx_privilegedClusterProvider := Some privilegedClusterProvider\<rparr>))"

definition SetSeedsGetter :: "'s SeedsGetter \<Rightarrow> ('s, 'p) reqctx \<Rightarrow> ('s, 'p) reqctx" where
  "SetSeedsGetter seedsGetter ctx = ctx\<lparr>ctx_seedsGetter := Some seedsGetter\<rparr>"

subsection \<open>The other providers of a seed\<close>

text \<open>
  The loop the getters share. They differ in what they do when the cluster provider of a seed cannot
  be made: \<open>onErr\<close> is the error to return, or \<^const>\<open>None\<close> to go on with the next seed. The name
  that comes back is the one passed in when no seed has the cluster.
\<close>

type_synonym ('s, 'p) provider_getter = "seed \<Rightarrow> ('s, 'p) act"

fun find_seed ::
  "(go_error \<Rightarrow> go_error option) \<Rightarrow> 's ClusterProviderGetter \<Rightarrow> seedmap \<Rightarrow> string \<Rightarrow> string \<Rightarrow> ('s, string) act" where
  "find_seed onErr clusterProviderGetter [] seedName clusterID = retA seedName"
| "find_seed onErr clusterProviderGetter ((_, seed) # seeds) seedName clusterID =
     (if sd_invalid seed then find_seed onErr clusterProviderGetter seeds seedName clusterID
      else tryA (clusterProviderGetter seed) (\<lambda>r. case r of
        Inl err \<Rightarrow>
          (case onErr err of
             Some e \<Rightarrow> failA e
           | None \<Rightarrow> find_seed onErr clusterProviderGetter seeds seedName clusterID)
      | Inr clusterProvider \<Rightarrow>
          bindA (cp_IsCluster clusterProvider clusterID) (\<lambda>found.
            if found then retA (sd_name seed)
            else find_seed onErr clusterProviderGetter seeds seedName clusterID)))"

definition seed_provider ::
  "(go_error \<Rightarrow> go_error option) \<Rightarrow> 's ClusterProviderGetter \<Rightarrow> ('s, 'p) provider_getter \<Rightarrow> 's SeedsGetter \<Rightarrow>
     string \<Rightarrow> string \<Rightarrow> ('s, 'p) act" where
  "seed_provider onErr clusterProviderGetter providerGetter seedsGetter seedName clusterID =
     bindA seedsGetter (\<lambda>seeds.
     bindA (if clusterID \<noteq> [] then find_seed onErr clusterProviderGetter seeds seedName clusterID
            else retA seedName) (\<lambda>seedName.
       case map_of seeds seedName of
         None \<Rightarrow> failA (Plain ''couldn't find seed'')
       | Some seed \<Rightarrow> providerGetter seed))"

definition getAddonProvider ::
  "'s ClusterProviderGetter \<Rightarrow> ('s, 'p) provider_getter \<Rightarrow> 's SeedsGetter \<Rightarrow> string \<Rightarrow> string \<Rightarrow> ('s, 'p) act" where
  "getAddonProvider = seed_provider (\<lambda>_. Some UtilNotFound)"

definition getConstraintProvider ::
  "'s ClusterProviderGetter \<Rightarrow> ('s, 'p) provider_getter \<Rightarrow> 's SeedsGetter \<Rightarrow> string \<Rightarrow> string \<Rightarrow> ('s, 'p) act" where
  "getConstraintProvider = seed_provider (\<lambda>_. Some UtilNotFound)"

definition getAlertmanagerProvider ::
  "'s ClusterProviderGetter \<Rightarrow> ('s, 'p) provider_getter \<Rightarrow> 's SeedsGetter \<Rightarrow> string \<Rightarrow> string \<Rightarrow> ('s, 'p) act" where
  "getAlertmanagerProvider = seed_provider (\<lambda>err. Some (KubernetesErrorToHTTPError err))"

definition getRuleGroupProvider ::
  "'s ClusterProviderGetter \<Rightarrow> ('s, 'p) provider_getter \<Rightarrow> 's SeedsGetter \<Rightarrow> string \<Rightarrow> string \<Rightarrow> ('s, 'p) act" where
  "getRuleGroupProvider = seed_provider (\<lambda>_. None)"

definition getEtcdBackupConfigProvider ::
  "'s ClusterProviderGetter \<Rightarrow> ('s, 'p) provider_getter \<Rightarrow> 's SeedsGetter \<Rightarrow> string \<Rightarrow> string \<Rightarrow> ('s, 'p) act" where
  "getEtcdBackupConfigProvider = seed_provider (\<lambda>err. Some (KubernetesErrorToHTTPError err))"

definition getEtcdRestoreProvider ::
  "'s ClusterProviderGetter \<Rightarrow> ('s, 'p) provider_getter \<Rightarrow> 's SeedsGetter \<Rightarrow> string \<Rightarrow> string \<Rightarrow> ('s, 'p) act" where
  "getEtcdRestoreProvider = seed_provider (\<lambda>err. Some (KubernetesErrorToHTTPError err))"

definition getPrivilegedMLAAdminSettingProvider ::
  "'s ClusterProviderGetter \<Rightarrow> ('s, 'p) provider_getter \<Rightarrow> 's SeedsGetter \<Rightarrow> string \<Rightarrow> string \<Rightarrow> ('s, 'p) act" where
  "getPrivilegedMLAAdminSettingProvider = seed_provider (\<lambda>err. Some (KubernetesErrorToHTTPError err))"

definition getPrivilegedOperatingSystemProfileProvider ::
  "'s ClusterProviderGetter \<Rightarrow> ('s, 'p) provider_getter \<Rightarrow> 's SeedsGetter \<Rightarrow> string \<Rightarrow> string \<Rightarrow> ('s, 'p) act" where
  "getPrivilegedOperatingSystemProfileProvider = seed_provider (\<lambda>err. Some (KubernetesErrorToHTTPError err))"

definition getEtcdBackupConfigProjectProvider ::
  "(seedmap \<Rightarrow> ('s, 'p) act) \<Rightarrow> 's SeedsGetter \<Rightarrow> ('s, 'p) act" where
  "getEtcdBackupConfigProjectProvider providerGetter seedsGetter =
     bindA seedsGetter (\<lambda>seeds. providerGetter seeds)"

definition getEtcdRestoreProjectProvider ::
  "(seedmap \<Rightarrow> ('s, 'p) act) \<Rightarrow> 's SeedsGetter \<Rightarrow> ('s, 'p) act" where
  "getEtcdRestoreProjectProvider providerGetter seedsGetter =
     bindA seedsGetter (\<lambda>seeds. providerGetter seeds)"

definition GetOIDCIssuerVerifier ::
  "'s ClusterProviderGetter \<Rightarrow> ('s, 'p) provider_getter \<Rightarrow> 's SeedsGetter \<Rightarrow> string \<Rightarrow> ('s, 'p) act" where
  "GetOIDCIssuerVerifier clusterProviderGetter oidcIssuerVerifierGetter seedsGetter clusterID =
     (if clusterID = [] then failA (Plain ''clusterID cannot be empty'')
      else
        bindA seedsGetter (\<lambda>seeds.
        bindA (find_seed (\<lambda>_. Some UtilNotFound) clusterProviderGetter seeds [] clusterID) (\<lambda>seedName.
          if seedName = [] then failA (Plain ''couldn't find seed for cluster'')
          else (case map_of seeds seedName of
              None \<Rightarrow> failA (Plain ''couldn't find seed'')
            | Some seed \<Rightarrow> oidcIssuerVerifierGetter seed))))"

subsection \<open>Injecting them\<close>

text \<open>
  \<open>inject key get\<close> asks the request for its seed and cluster, which panics when the request has no
  such method, gets the provider and stores it. The privileged variant asserts the interface first.
\<close>

definition inject ::
  "string \<Rightarrow> (string \<Rightarrow> string \<Rightarrow> ('s, 'p) act) \<Rightarrow> SeedCluster option \<Rightarrow> ('s, 'p, 'r) next_endpoint \<Rightarrow>
     ('s, 'p) reqctx \<Rightarrow> ('s, 'r) act" where
  "inject key get request nxt ctx =
     (case request of
        None \<Rightarrow> failA Panic
      | Some sc \<Rightarrow> bindA (get (sc_seedName sc) (sc_clusterID sc)) (\<lambda>p. nxt (with_provider key p ctx)))"

definition inject_privileged ::
  "string \<Rightarrow> ('p \<Rightarrow> 'p option) \<Rightarrow> (string \<Rightarrow> string \<Rightarrow> ('s, 'p) act) \<Rightarrow> SeedCluster option \<Rightarrow>
     ('s, 'p, 'r) next_endpoint \<Rightarrow> ('s, 'p) reqctx \<Rightarrow> ('s, 'r) act" where
  "inject_privileged key asPrivileged get request nxt ctx =
     (case request of
        None \<Rightarrow> failA Panic
      | Some sc \<Rightarrow>
          bindA (get (sc_seedName sc) (sc_clusterID sc)) (\<lambda>p.
            case asPrivileged p of None \<Rightarrow> failA Panic | Some q \<Rightarrow> nxt (with_provider key q ctx)))"

definition Addons where
  "Addons clusterProviderGetter providerGetter seedsGetter =
     inject ''addon-provider'' (getAddonProvider clusterProviderGetter providerGetter seedsGetter)"

definition PrivilegedAddons where
  "PrivilegedAddons asPrivileged clusterProviderGetter providerGetter seedsGetter =
     inject_privileged ''privileged-addon-provider'' asPrivileged
       (getAddonProvider clusterProviderGetter providerGetter seedsGetter)"

definition Constraints where
  "Constraints clusterProviderGetter providerGetter seedsGetter =
     inject ''constraint-provider'' (getConstraintProvider clusterProviderGetter providerGetter seedsGetter)"

definition PrivilegedConstraints where
  "PrivilegedConstraints asPrivileged clusterProviderGetter providerGetter seedsGetter =
     inject_privileged ''privileged-constraint-provider'' asPrivileged
       (getConstraintProvider clusterProviderGetter providerGetter seedsGetter)"

definition Alertmanagers where
  "Alertmanagers clusterProviderGetter providerGetter seedsGetter =
     inject ''alertmanager-provider'' (getAlertmanagerProvider clusterProviderGetter providerGetter seedsGetter)"

definition PrivilegedAlertmanagers where
  "PrivilegedAlertmanagers asPrivileged clusterProviderGetter providerGetter seedsGetter =
     inject_privileged ''privileged-alertmanager-provider'' asPrivileged
       (getAlertmanagerProvider clusterProviderGetter providerGetter seedsGetter)"

definition RuleGroups where
  "RuleGroups clusterProviderGetter providerGetter seedsGetter =
     inject ''rulegroup-provider'' (getRuleGroupProvider clusterProviderGetter providerGetter seedsGetter)"

definition PrivilegedRuleGroups where
  "PrivilegedRuleGroups asPrivileged clusterProviderGetter providerGetter seedsGetter =
     inject_privileged ''privileged-rulegroup-provider'' asPrivileged
       (getRuleGroupProvider clusterProviderGetter providerGetter seedsGetter)"

definition EtcdBackupConfig where
  "EtcdBackupConfig clusterProviderGetter providerGetter seedsGetter =
     inject ''etcdbackupconfig-provider'' (getEtcdBackupConfigProvider clusterProviderGetter providerGetter seedsGetter)"

definition PrivilegedEtcdBackupConfig where
  "PrivilegedEtcdBackupConfig asPrivileged clusterProviderGetter providerGetter seedsGetter =
     inject_privileged ''privileged-etcdbackupconfig-provider'' asPrivileged
       (getEtcdBackupConfigProvider clusterProviderGetter providerGetter seedsGetter)"

definition EtcdRestore where
  "EtcdRestore clusterProviderGetter providerGetter seedsGetter =
     inject ''etcdbrestore-provider'' (getEtcdRestoreProvider clusterProviderGetter providerGetter seedsGetter)"

definition PrivilegedEtcdRestore where
  "PrivilegedEtcdRestore asPrivileged clusterProviderGetter providerGetter seedsGetter =
     inject_privileged ''privileged-etcdrestore-provider'' asPrivileged
       (getEtcdRestoreProvider clusterProviderGetter providerGetter seedsGetter)"

definition PrivilegedMLAAdminSetting where
  "PrivilegedMLAAdminSetting clusterProviderGetter providerGetter seedsGetter =
     inject ''privileged-mla-admin-setting-provider''
       (getPrivilegedMLAAdminSettingProvider clusterProviderGetter providerGetter seedsGetter)"

definition PrivilegedOperatingSystemProfile where
  "PrivilegedOperatingSystemProfile clusterProviderGetter providerGetter seedsGetter =
     inject ''privileged-operatingsystemprofile-provider''
       (getPrivilegedOperatingSystemProfileProvider clusterProviderGetter providerGetter seedsGetter)"

definition OIDCProviders where
  "OIDCProviders clusterProviderGetter oidcIssuerVerifierGetter seedsGetter =
     inject ''oidc-issuer-verifier'' (\<lambda>seedName clusterID.
       GetOIDCIssuerVerifier clusterProviderGetter oidcIssuerVerifierGetter seedsGetter clusterID)"

text \<open>The seed named by the request, without a search for the cluster.\<close>

definition named_seed_provider :: "('s, 'p) provider_getter \<Rightarrow> 's SeedsGetter \<Rightarrow> string \<Rightarrow> string \<Rightarrow> ('s, 'p) act" where
  "named_seed_provider providerGetter seedsGetter seedName clusterID =
     bindA seedsGetter (\<lambda>seeds.
       case map_of seeds seedName of None \<Rightarrow> failA UtilBadRequest | Some seed \<Rightarrow> providerGetter seed)"

definition BackupCredentials where
  "BackupCredentials providerGetter seedsGetter =
     inject ''backupcredentials-provider'' (named_seed_provider providerGetter seedsGetter)"

definition PrivilegedIPAMPool where
  "PrivilegedIPAMPool providerGetter seedsGetter =
     inject ''privileged-ipampool-provider'' (named_seed_provider providerGetter seedsGetter)"

text \<open>The project-wide providers do not look at the request.\<close>

definition EtcdBackupConfigProject ::
  "(seedmap \<Rightarrow> ('s, 'p) act) \<Rightarrow> 's SeedsGetter \<Rightarrow> ('s, 'p, 'r) next_endpoint \<Rightarrow> ('s, 'p) reqctx \<Rightarrow> ('s, 'r) act" where
  "EtcdBackupConfigProject providerGetter seedsGetter nxt ctx =
     bindA (getEtcdBackupConfigProjectProvider providerGetter seedsGetter) (\<lambda>p.
       nxt (with_provider ''etcdbackupconfig-project-provider'' p ctx))"

definition PrivilegedEtcdBackupConfigProject ::
  "('p \<Rightarrow> 'p option) \<Rightarrow> (seedmap \<Rightarrow> ('s, 'p) act) \<Rightarrow> 's SeedsGetter \<Rightarrow> ('s, 'p, 'r) next_endpoint \<Rightarrow>
     ('s, 'p) reqctx \<Rightarrow> ('s, 'r) act" where
  "PrivilegedEtcdBackupConfigProject asPrivileged providerGetter seedsGetter nxt ctx =
     bindA (getEtcdBackupConfigProjectProvider providerGetter seedsGetter) (\<lambda>p.
       case asPrivileged p of
         None \<Rightarrow> failA Panic
       | Some q \<Rightarrow> nxt (with_provider ''privileged-etcdbackupconfig-project-provider'' q ctx))"

definition EtcdRestoreProject ::
  "(seedmap \<Rightarrow> ('s, 'p) act) \<Rightarrow> 's SeedsGetter \<Rightarrow> ('s, 'p, 'r) next_endpoint \<Rightarrow> ('s, 'p) reqctx \<Rightarrow> ('s, 'r) act" where
  "EtcdRestoreProject providerGetter seedsGetter nxt ctx =
     bindA (getEtcdRestoreProjectProvider providerGetter seedsGetter) (\<lambda>p.
       nxt (with_provider ''etcdbrestore-project-provider'' p ctx))"

definition PrivilegedEtcdRestoreProject ::
  "('p \<Rightarrow> 'p option) \<Rightarrow> (seedmap \<Rightarrow> ('s, 'p) act) \<Rightarrow> 's SeedsGetter \<Rightarrow> ('s, 'p, 'r) next_endpoint \<Rightarrow>
     ('s, 'p) reqctx \<Rightarrow> ('s, 'r) act" where
  "PrivilegedEtcdRestoreProject asPrivileged providerGetter seedsGetter nxt ctx =
     bindA (getEtcdRestoreProjectProvider providerGetter seedsGetter) (\<lambda>p.
       case asPrivileged p of
         None \<Rightarrow> failA Panic
       | Some q \<Rightarrow> nxt (with_provider ''privileged-etcdrestore-project-provider'' q ctx))"

end
