(* ===== verification/Access_Control.thy ===== *)
theory Access_Control
  imports Project_Handlers User_Handlers SA_Handlers Member_Properties
begin

text \<open>
  Who may do what. Every handler that writes asks the user info getter whether the caller is an
  administrator and then either uses the privileged provider or impersonates the caller with his
  rights in the project. The locale states what the handlers rely on in the getter; it is
  interpreted on the getter the server is wired with.
\<close>

section \<open>Acting on behalf of a caller\<close>

definition on_behalf ::
  "'s UserInfoGetter \<Rightarrow> string \<Rightarrow> ('s, 'a) act \<Rightarrow> (UserInfo \<Rightarrow> ('s, 'a) act) \<Rightarrow> ('s, 'a) act" where
  "on_behalf getter projectID privilegedOp op =
     bindA (getter []) (\<lambda>admin.
       if ui_isAdmin admin then privilegedOp else bindA (getter projectID) op)"

lemma handlers_on_behalf:
  "deleteBinding g mp pmp pid b = on_behalf g pid (pmp_DeleteUnsecured pmp b) (\<lambda>i. mp_Delete mp i b)"
  "updateBinding g mp pmp pid bnd = on_behalf g pid (pmp_UpdateUnsecured pmp bnd) (\<lambda>i. mp_Update mp i bnd)"
  "createBinding g mp pmp p e grp =
     on_behalf g (om_name p) (pmp_CreateUnsecured pmp p e grp) (\<lambda>i. mp_Create mp i p e grp)"
  "updateProject g pp ppp p = on_behalf g (om_name p) (ppp_UpdateUnsecured ppp p) (\<lambda>i. pp_Update pp (Some i) p)"
  "createSA K sap psap g p sa = on_behalf g (om_name p)
     (psap_Create psap (Some p) (ao_name sa) (groupNameFor K (om_name p) (as_group sa)))
     (\<lambda>i. sap_Create sap i (Some p) (ao_name sa) (groupNameFor K (om_name p) (as_group sa)))"
  "updateSA sap psap g p x = on_behalf g (om_name p) (psap_Update psap (Some x)) (\<lambda>i. sap_Update sap (Some i) (Some x))"
  "getSA sap psap g p n opts = on_behalf g (om_name p) (psap_Get psap n opts) (\<lambda>i. sap_Get sap (Some i) n opts)"
  "deleteSA sap psap g p n = on_behalf g (om_name p) (psap_Delete psap n) (\<lambda>i. sap_Delete sap (Some i) n)"
  "createSAToken g stp pstp x pid tn ti td = on_behalf g pid (pstp_CreateUnsecured pstp (Some x) pid tn ti td)
     (\<lambda>i. stp_Create stp (Some i) (Some x) pid tn ti td)"
  "updateSAToken g stp pstp t pid = on_behalf g pid (pstp_UpdateUnsecured pstp (Some t)) (\<lambda>i. stp_Update stp (Some i) (Some t))"
  "getSAToken g stp pstp pid ti = on_behalf g pid (pstp_GetUnsecured pstp ti) (\<lambda>i. stp_Get stp (Some i) ti)"
  "deleteSAToken g stp pstp pid ti = on_behalf g pid (pstp_DeleteUnsecured pstp ti) (\<lambda>i. stp_Delete stp (Some i) ti)"
  by (simp_all add: on_behalf_def deleteBinding_def updateBinding_def createBinding_def updateProject_def
      createSA_def updateSA_def getSA_def deleteSA_def createSAToken_def updateSAToken_def getSAToken_def
      deleteSAToken_def Let_def)

text \<open>What the handlers rely on: the getter only reads, and it tells the truth about one caller.\<close>

locale caller =
  fixes getter :: "'s UserInfoGetter" and admin :: bool
  assumes getter_reads: "reads (getter p)"
    and getter_admin: "getter [] s = (Inr i, t) \<Longrightarrow> ui_isAdmin i = admin"
begin

lemma on_behalf_member: "\<not> admin \<Longrightarrow> on_behalf getter pid priv op s = on_behalf getter pid priv' op s"
  by (cases "getter [] s") (auto simp: on_behalf_def bindA_def split: sum.split dest: getter_admin)

lemma on_behalf_adminD:
  "admin \<Longrightarrow> on_behalf getter pid priv op s = (Inr x, t) \<Longrightarrow> priv s = (Inr x, t)"
  by (auto simp: on_behalf_def bind_reads[OF getter_reads] dest: getter_admin split: if_splits)

lemma on_behalf_memberD:
  "\<not> admin \<Longrightarrow> on_behalf getter pid priv op s = (Inr x, t) \<Longrightarrow>
     \<exists>i. getter pid s = (Inr i, s) \<and> op i s = (Inr x, t)"
  by (auto simp: on_behalf_def bind_reads[OF getter_reads] dest: getter_admin split: if_splits)

lemma on_behalf_cases:
  assumes "on_behalf getter pid priv op s = (Inr x, t)"
  obtains "admin" and "priv s = (Inr x, t)"
  | i where "\<not> admin" and "getter pid s = (Inr i, s)" and "op i s = (Inr x, t)"
  using on_behalf_adminD[OF _ assms] on_behalf_memberD[OF _ assms] by blast

end

abbreviation kube_getter :: "('s, 'x) env_scheme \<Rightarrow> user \<Rightarrow> 's UserInfoGetter" where
  "kube_getter E u \<equiv> UserInfoGetterFactory (kube_memberMapper E) (Some u)"

interpretation me: caller "kube_getter E u" "us_isAdmin u" for E :: "('s, 'x) env_scheme" and u
  by unfold_locales (auto intro: mapper.getter_reads dest: mapper.getter_identity(2))

text \<open>
  A function \<open>F\<close> of a privileged provider that, for the user \<open>u\<close>, does not use this provider: its outcome does not depend on it, and
  when it succeeds, it has done \<open>op\<close> with his email address and with exactly the groups granted to him in the project.
\<close>

definition with_own_rights ::
  "('s \<Rightarrow> store) \<Rightarrow> user \<Rightarrow> string \<Rightarrow> ('p \<Rightarrow> ('s, 'a) act) \<Rightarrow> (UserInfo \<Rightarrow> ('s, 'a) act) \<Rightarrow> 's \<Rightarrow> bool" where
  "with_own_rights V u pid F op s \<longleftrightarrow> (\<forall>p p'. F p s = F p' s) \<and>
     (\<forall>p x t. F p s = (Inr x, t) \<longrightarrow> (\<exists>i. ui_email i = us_email u \<and> \<not> ui_isAdmin i \<and>
        granted_groups (st_upbs (V s)) (st_gpbs (V s)) u pid \<noteq> {} \<and>
        ui_groups i = sorted_list_of_set (granted_groups (st_upbs (V s)) (st_gpbs (V s)) u pid) \<and> op i s = (Inr x, t)))"

lemma getter_own_rights:
  assumes api: "api_ok V E" and pid: "pid \<noteq> []" and i: "kube_getter E u pid s = (Inr i, t)" and adm: "\<not> us_isAdmin u"
  shows "ui_email i = us_email u" and "\<not> ui_isAdmin i" and "granted_groups (st_upbs (V s)) (st_gpbs (V s)) u pid \<noteq> {}"
    and "ui_groups i = sorted_list_of_set (granted_groups (st_upbs (V s)) (st_gpbs (V s)) u pid)"
proof -
  have t: "t = s" by (rule readsD[OF me.getter_reads i])
  show "ui_email i = us_email u" "\<not> ui_isAdmin i" using mapper.getter_identity[OF i] adm by auto
  from mapper.getter_project[OF i[unfolded t] pid] obtain G where m: "MapUserToGroups E u pid s = (Inr G, s)"
    and G: "set (ui_groups i) = G" "sorted (ui_groups i)" "distinct (ui_groups i)"
    by (auto simp: kube_memberMapper_def)
  from m have g: "G = granted_groups (st_upbs (V s)) (st_gpbs (V s)) u pid" "G \<noteq> {}"
    using api by (auto elim!: MapUserToGroups_InrD simp: api_ok_lists)
  then show "granted_groups (st_upbs (V s)) (st_gpbs (V s)) u pid \<noteq> {}" by simp
  show "ui_groups i = sorted_list_of_set (granted_groups (st_upbs (V s)) (st_gpbs (V s)) u pid)"
    using sorted_list_of_set.idem_if_sorted_distinct[OF G(2,3)] G(1) g(1) by simp
qed

lemma on_behalf_own_rights:
  assumes api: "api_ok V E" and adm: "\<not> us_isAdmin u" and pid: "pid \<noteq> []"
  shows "with_own_rights V u pid (\<lambda>p. on_behalf (kube_getter E u) pid (priv p) op) op s"
  unfolding with_own_rights_def
proof (intro conjI allI impI)
  show "on_behalf (kube_getter E u) pid (priv p) op s = on_behalf (kube_getter E u) pid (priv p') op s" for p p'
    by (rule me.on_behalf_member[OF adm])
  fix p x t assume "on_behalf (kube_getter E u) pid (priv p) op s = (Inr x, t)"
  from me.on_behalf_memberD[OF adm this] obtain i where i: "kube_getter E u pid s = (Inr i, s)" and op: "op i s = (Inr x, t)" by blast
  with getter_own_rights[OF api pid i adm] show "\<exists>i. ui_email i = us_email u \<and> \<not> ui_isAdmin i \<and>
      granted_groups (st_upbs (V s)) (st_gpbs (V s)) u pid \<noteq> {} \<and>
      ui_groups i = sorted_list_of_set (granted_groups (st_upbs (V s)) (st_gpbs (V s)) u pid) \<and> op i s = (Inr x, t)" by blast
qed

text \<open>
  C3: ten functions through which the handlers write do it with the rights of the caller. For a caller who is not an administrator,
  creating, updating and deleting the bindings of a member, updating a project, and creating, updating and deleting a
  service account or one of its tokens do not depend on the privileged provider they are given. When they succeed, the ordinary
  provider was asked in the name of the caller, with exactly the groups granted to him in the project, and he has at least one. This
  is not so for creating a project: its handler stores the owner binding with the privileged provider for everybody.
\<close>

theorem member_writes_unprivileged:
  assumes api: "api_ok V E" and adm: "\<not> us_isAdmin u" and pid: "pid \<noteq> []" "om_name p \<noteq> []"
  shows "with_own_rights V u pid (\<lambda>pmp. deleteBinding (kube_getter E u) mp pmp pid b) (\<lambda>i. mp_Delete mp i b) s \<and>
    with_own_rights V u pid (\<lambda>pmp. updateBinding (kube_getter E u) mp pmp pid bnd) (\<lambda>i. mp_Update mp i bnd) s \<and>
    with_own_rights V u (om_name p) (\<lambda>pmp. createBinding (kube_getter E u) mp pmp p e grp) (\<lambda>i. mp_Create mp i p e grp) s \<and>
    with_own_rights V u (om_name p) (\<lambda>ppp. updateProject (kube_getter E u) pp ppp p) (\<lambda>i. pp_Update pp (Some i) p) s \<and>
    with_own_rights V u (om_name p) (\<lambda>psap. createSA E sap psap (kube_getter E u) p sa)
      (\<lambda>i. sap_Create sap i (Some p) (ao_name sa) (groupNameFor E (om_name p) (as_group sa))) s \<and>
    with_own_rights V u (om_name p) (\<lambda>psap. updateSA sap psap (kube_getter E u) p x) (\<lambda>i. sap_Update sap (Some i) (Some x)) s \<and>
    with_own_rights V u (om_name p) (\<lambda>psap. deleteSA sap psap (kube_getter E u) p n) (\<lambda>i. sap_Delete sap (Some i) n) s \<and>
    with_own_rights V u pid (\<lambda>pstp. createSAToken (kube_getter E u) stp pstp x pid tn ti td)
      (\<lambda>i. stp_Create stp (Some i) (Some x) pid tn ti td) s \<and>
    with_own_rights V u pid (\<lambda>pstp. updateSAToken (kube_getter E u) stp pstp tok pid) (\<lambda>i. stp_Update stp (Some i) (Some tok)) s \<and>
    with_own_rights V u pid (\<lambda>pstp. deleteSAToken (kube_getter E u) stp pstp pid ti) (\<lambda>i. stp_Delete stp (Some i) ti) s"
  unfolding handlers_on_behalf by (intro conjI on_behalf_own_rights api adm pid)

text \<open>Bob deletes a binding, next to a privileged provider that always crashes.\<close>

theorem member_writes_unprivileged_witness:
  "\<exists>t i. deleteBinding (kube_getter mem_env bob) (kube_memberProvider mem_env)
     \<lparr>pmp_CreateUnsecured = (\<lambda>_ _ _. failA Panic), pmp_CreateUnsecuredForServiceAccount = (\<lambda>_ _ _. failA Panic),
      pmp_DeleteUnsecured = (\<lambda>_. failA Panic), pmp_UpdateUnsecured = (\<lambda>_. failA Panic)\<rparr> ''p1'' ''b1'' world1 = (Inr (), t) \<and>
   ui_groups i = [''dev-p1'', ''editors-p1''] \<and> mp_Delete (kube_memberProvider mem_env) i ''b1'' world1 = (Inr (), t)"
  (is "\<exists>t i. ?run = _ \<and> _")
proof -
  have b: "\<not> us_isAdmin bob" "''p1'' \<noteq> []" "om_name proj1 \<noteq> []" by (simp_all add: world1_defs)
  have "\<not> isl (fst ?run)" by code_simp
  then obtain t where run: "?run = (Inr (), t)" by (cases ?run; cases "fst ?run") auto
  have "sorted_list_of_set {''editors-p1'', ''dev-p1''} = [''dev-p1'', ''editors-p1'']" by code_simp
  with member_writes_unprivileged[OF mem_api_ok b, of "kube_memberProvider mem_env" "''b1''" world1] run world1_groups show ?thesis
    unfolding with_own_rights_def mem_store_def by fastforce
qed

section \<open>Reaching a project\<close>

lemma reads_kube_pp_Get [reads_intros]: "reads (pp_Get (kube_projectProvider E) ui n opts)"
  by (simp add: kube_projectProvider_def reads_project_Get)

lemma reads_kube_ppp_Get [reads_intros]: "reads (ppp_GetUnsecured (kube_privilegedProjectProvider E) n opts)"
  by (simp add: kube_privilegedProjectProvider_def reads_project_GetUnsecured)

lemma reads_GetProject [reads_intros]:
  "reads (GetProject (kube_getter E u) (kube_projectProvider E) (kube_privilegedProjectProvider E) pid opts)"
  unfolding GetProject_def by (intro reads_intros me.getter_reads)

lemma GetUnsecured_InrD:
  "project_GetUnsecured E n opts s = (Inr p, t) \<Longrightarrow> kGet (cs_projects (privileged E)) ([], n) s = Inr p"
  by (auto simp: project_GetUnsecured_def Let_def bindA_eq_Inr split: if_splits)

lemma project_Get_InrD:
  "project_Get E (Some i) n opts s = (Inr p, t) \<Longrightarrow>
     \<exists>c. impersonated E (ui_email i) (ui_groups i) = Inr c \<and> kGet (cs_projects c) ([], n) s = Inr p"
  by (auto simp: project_Get_def Let_def bindA_eq_Inr createImpersonationClientWrapperFromUserInfo_def
      split: if_splits)

lemma GetProject_InrD:
  assumes "GetProject (kube_getter E u) (kube_projectProvider E) (kube_privilegedProjectProvider E) pid opts s = (Inr p, t)"
  shows "t = s" and "us_isAdmin u \<Longrightarrow> kGet (cs_projects (privileged E)) ([], pid) s = Inr p"
    and "\<not> us_isAdmin u \<Longrightarrow> \<exists>i c. kube_getter E u pid s = (Inr i, s) \<and>
           impersonated E (us_email u) (ui_groups i) = Inr c \<and> kGet (cs_projects c) ([], pid) s = Inr p"
proof -
  show "t = s" using readsD[OF reads_GetProject assms] .
  from assms obtain a q where a: "kube_getter E u [] s = (Inr a, s)"
    and q: "ppp_GetUnsecured (kube_privilegedProjectProvider E) pid opts s = (Inr q, s)"
    and r: "(if ui_isAdmin a then retA q else bindA (kube_getter E u pid)
              (\<lambda>i. pp_Get (kube_projectProvider E) (Some i) pid opts)) s = (Inr p, t)"
    unfolding GetProject_def by (auto simp: bind_reads me.getter_reads reads_kube_ppp_Get)
  have adm: "ui_isAdmin a = us_isAdmin u" using me.getter_admin[OF a] .
  show "kGet (cs_projects (privileged E)) ([], pid) s = Inr p" if "us_isAdmin u"
    using q r adm that GetUnsecured_InrD by (auto simp: kube_privilegedProjectProvider_def)
  show "\<exists>i c. kube_getter E u pid s = (Inr i, s) \<and>
      impersonated E (us_email u) (ui_groups i) = Inr c \<and> kGet (cs_projects c) ([], pid) s = Inr p" if "\<not> us_isAdmin u"
  proof -
    from r that adm obtain i where i: "kube_getter E u pid s = (Inr i, s)"
      and g: "project_Get E (Some i) pid opts s = (Inr p, t)"
      by (auto simp: bind_reads me.getter_reads kube_projectProvider_def)
    from project_Get_InrD[OF g] i mapper.getter_identity(1)[OF i] show ?thesis by auto
  qed
qed

lemma GetProject_stored:
  assumes api: "api_ok V E"
    and got: "GetProject (kube_getter E u) (kube_projectProvider E) (kube_privilegedProjectProvider E) pid opts s = (Inr p, t)"
  shows "p \<in> set (st_projects (V s)) \<and> key_of p = ([], pid)"
proof (cases "us_isAdmin u")
  case True
  then show ?thesis
    using get_stored[OF clientset_okD(4)[OF api_ok_privileged[OF api]] GetProject_InrD(2)[OF got True]] by simp
next
  case False
  then show ?thesis
    using GetProject_InrD(3)[OF got False] get_stored[OF clientset_okD(4)[OF api_ok_impersonated[OF api]]] by blast
qed

lemma GetProject_name:
  assumes "api_ok V E"
    and "GetProject (kube_getter E u) (kube_projectProvider E) (kube_privilegedProjectProvider E) pid opts s = (Inr p, t)"
  shows "om_name p = pid"
  using GetProject_stored[OF assms] by (simp add: key_of_def)

text \<open>
  C4: a project is handed out only to those who may see it. When GetProject succeeds, nothing was
  written, and either the caller is an administrator, or some group is granted to him in this
  project and the API server, asked in his name with exactly these groups, returned the project.
\<close>

theorem GetProject_authorized:
  assumes api: "api_ok V E" and pid: "pid \<noteq> []"
    and got: "GetProject (kube_getter E u) (kube_projectProvider E) (kube_privilegedProjectProvider E) pid opts s = (Inr p, t)"
  shows "t = s \<and> om_name p = pid \<and> p \<in> set (st_projects (V s)) \<and>
    (us_isAdmin u \<or>
     granted_groups (st_upbs (V s)) (st_gpbs (V s)) u pid \<noteq> {} \<and>
     (\<exists>c. impersonated E (us_email u) (sorted_list_of_set (granted_groups (st_upbs (V s)) (st_gpbs (V s)) u pid)) = Inr c \<and>
          kGet (cs_projects c) ([], pid) s = Inr p))"
proof (cases "us_isAdmin u")
  case True
  then show ?thesis using GetProject_InrD(1)[OF got] GetProject_stored[OF api got] by (simp add: key_of_def)
next
  case False
  from GetProject_InrD(3)[OF got False] obtain i c where i: "kube_getter E u pid s = (Inr i, s)"
    and c: "impersonated E (us_email u) (ui_groups i) = Inr c" and g: "kGet (cs_projects c) ([], pid) s = Inr p"
    by blast
  from getter_own_rights[OF api pid i False] c g GetProject_stored[OF api got] GetProject_InrD(1)[OF got] show ?thesis
    by (auto simp: key_of_def)
qed

text \<open>Bob sees his project, Eve does not.\<close>

theorem GetProject_authorized_witness:
  "GetProject (kube_getter mem_env bob) (kube_projectProvider mem_env) (kube_privilegedProjectProvider mem_env)
     ''p1'' None world1 = (Inr proj1, world1) \<and>
   granted_groups (m_upbs world1) (m_gpbs world1) bob ''p1'' \<noteq> {} \<and>
   GetProject (kube_getter mem_env eve) (kube_projectProvider mem_env) (kube_privilegedProjectProvider mem_env)
     ''p1'' None world1 = (Inl NewForbidden, world1)"
proof -
  have g: "GetProject (kube_getter mem_env bob) (kube_projectProvider mem_env) (kube_privilegedProjectProvider mem_env)
     ''p1'' None world1 = (Inr proj1, world1)" by code_simp
  have "GetProject (kube_getter mem_env eve) (kube_projectProvider mem_env) (kube_privilegedProjectProvider mem_env)
     ''p1'' None world1 = (Inl NewForbidden, world1)" by code_simp
  moreover have "\<not> us_isAdmin bob" by (simp add: world1_defs)
  ultimately show ?thesis using g GetProject_authorized[OF mem_api_ok _ g] by (simp add: mem_store_def)
qed

end
