(* ===== verification/Member_Endpoints.thy ===== *)
theory Member_Endpoints
  imports Access_Control
begin

text \<open>
  What the endpoints on project members do to the store, whoever calls them, and the invariant they
  keep: a person has at most one binding in a project.
\<close>

section \<open>The steps of the endpoints\<close>

definition project_members :: "'x sdk_scheme \<Rightarrow> upb list \<Rightarrow> string \<Rightarrow> upb list" where
  "project_members K bs pid = filter (\<lambda>m. upb_projectID m = pid \<and> \<not> isSA K (upb_userEmail m)) bs"

definition members_by_email :: "'x sdk_scheme \<Rightarrow> upb list \<Rightarrow> string \<Rightarrow> string \<Rightarrow> upb list" where
  "members_by_email K bs pid email =
     (if email = [] then project_members K bs pid
      else first_match (\<lambda>m. EqualFold (upb_userEmail m) email) (project_members K bs pid))"

lemma member_List_eq:
  assumes "member_List E i p (Some opts) s = (Inr ms, t)"
    and "kList (cs_upbs (privileged E)) Everything s = Inr bs"
  shows "ms = members_by_email E bs (om_name p) (memberEmail opts)" and "t = s"
  using assms readsD[OF reads_member_List assms(1)]
  by (auto simp: member_List_def members_by_email_def project_members_def Let_def bindA_eq_Inr split: if_splits)

lemma getMemberList_InrD:
  assumes api: "api_ok V E"
    and l: "getMemberList (kube_getter E u) (kube_memberProvider E) p email s = (Inr ms, t)"
  shows "t = s" and "ms = members_by_email E (st_upbs (V s)) (om_name p) email"
proof -
  from l obtain i b where "member_List E i p (Some \<lparr>memberEmail = email, skipPrivilegeVerification = b\<rparr>) s = (Inr ms, t)"
    unfolding getMemberList_def
    by (auto simp: bind_reads reads_wrapA reads_bindA reads_retA me.getter_reads kube_memberProvider_def wrapA_eq_Inr
        split: if_splits)
  from member_List_eq[OF this api_ok_lists(2)[OF api]]
  show "t = s" and "ms = members_by_email E (st_upbs (V s)) (om_name p) email" by simp_all
qed

lemma members_by_email_Nil:
  assumes "members_by_email K bs pid email = []" and "b \<in> set bs" and "upb_projectID b = pid"
    and "EqualFold (upb_userEmail b) email"
  shows "isSA K (upb_userEmail b)"
  using assms by (auto simp: members_by_email_def project_members_def first_match_Nil_iff filter_empty_conv split: if_splits)

lemma members_by_email_mem:
  assumes "members_by_email K bs pid email = [b]" and "email \<noteq> []"
  shows "b \<in> set bs" and "upb_projectID b = pid" and "EqualFold (upb_userEmail b) email" and "\<not> isSA K (upb_userEmail b)"
proof -
  have "b \<in> set (first_match (\<lambda>m. EqualFold (upb_userEmail m) email) (project_members K bs pid))"
    using assms by (simp add: members_by_email_def)
  from first_match_mem[OF this] show "b \<in> set bs" and "upb_projectID b = pid"
    and "EqualFold (upb_userEmail b) email" and "\<not> isSA K (upb_userEmail b)"
    by (auto simp: project_members_def)
qed

text \<open>The writes: one binding is added, replaced or removed, and nothing else changes.\<close>

lemma create_binding_effect:
  assumes api: "api_ok V E" and cl: "clientset_ok V c"
    and b: "bindA (genBinding E p e g) (\<lambda>bnd. kCreate (cs_upbs c) bnd) s = (Inr b, t)"
  shows "V t = (V s)\<lparr>st_upbs := st_upbs (V s) @ [b]\<rparr> \<and> upb_projectID b = om_name p \<and>
         upb_userEmail b = e \<and> upb_group b = g \<and> key_of b \<notin> key_of ` set (st_upbs (V s))"
proof -
  from b obtain r s1 where r: "randA E s = (Inr r, s1)"
    and k: "kCreate (cs_upbs c) (zero_upb\<lparr>om_name := r, upb_projectID := om_name p, upb_userEmail := e, upb_group := g\<rparr>) s1 = (Inr b, t)"
    by (auto simp: genBinding_def bindA_eq_Inr)
  have "V s1 = V s" using api_ok_rand[OF api r] by simp
  then have "V t = (V s)\<lparr>st_upbs := st_upbs (V s) @ [b]\<rparr>"
    using create_V[OF clientset_okD(2)[OF cl] k] by (simp add: store.defs)
  moreover have "key_of b \<notin> key_of ` set (st_upbs (V s))"
    using create_fresh[OF clientset_okD(2)[OF cl] k] same_objectD(3)[OF create_same[OF clientset_okD(2)[OF cl] k]]
      \<open>V s1 = V s\<close> by simp
  ultimately show ?thesis
    using same_upb[OF create_same[OF clientset_okD(2)[OF cl] k]] by (simp add: zero_defs)
qed

lemma createBinding_effect:
  assumes api: "api_ok V E"
    and c: "createBinding (kube_getter E u) (kube_memberProvider E) (kube_privilegedMemberProvider E) p e g s = (Inr b, t)"
  shows "V t = (V s)\<lparr>st_upbs := st_upbs (V s) @ [b]\<rparr> \<and> upb_projectID b = om_name p \<and>
         upb_userEmail b = e \<and> upb_group b = g \<and> \<not> isSA E e \<and> key_of b \<notin> key_of ` set (st_upbs (V s))"
  using c unfolding handlers_on_behalf
proof (rule me.on_behalf_cases)
  assume "pmp_CreateUnsecured (kube_privilegedMemberProvider E) p e g s = (Inr b, t)"
  then have "\<not> isSA E e" and "bindA (genBinding E p e g) (\<lambda>bnd. kCreate (cs_upbs (privileged E)) bnd) s = (Inr b, t)"
    by (auto simp: kube_privilegedMemberProvider_def member_CreateUnsecured_def split: if_splits)
  then show ?thesis using create_binding_effect[OF api api_ok_privileged[OF api]] by blast
next
  fix i
  assume "mp_Create (kube_memberProvider E) i p e g s = (Inr b, t)"
  then obtain cl where "\<not> isSA E e" and "impersonated E (ui_email i) (ui_groups i) = Inr cl"
    and "bindA (genBinding E p e g) (\<lambda>bnd. kCreate (cs_upbs cl) bnd) s = (Inr b, t)"
    by (auto simp: kube_memberProvider_def member_Create_def createImpersonationClientWrapperFromUserInfo_def
        bindA_eq_Inr split: if_splits)
  then show ?thesis using create_binding_effect[OF api api_ok_impersonated[OF api]] by blast
qed

lemma updateBinding_effect:
  assumes api: "api_ok V E"
    and c: "updateBinding (kube_getter E u) (kube_memberProvider E) (kube_privilegedMemberProvider E) pid b s = (Inr b', t)"
  shows "V t = (V s)\<lparr>st_upbs := map (\<lambda>y. if key_of y = key_of b then b' else y) (st_upbs (V s))\<rparr> \<and> same_object b' b"
  using c unfolding handlers_on_behalf
proof (rule me.on_behalf_cases)
  assume "pmp_UpdateUnsecured (kube_privilegedMemberProvider E) b s = (Inr b', t)"
  then have k: "kUpdate (cs_upbs (privileged E)) b s = (Inr b', t)"
    by (simp add: kube_privilegedMemberProvider_def member_UpdateUnsecured_def)
  note w = clientset_okD(2)[OF api_ok_privileged[OF api]]
  show ?thesis using update_V[OF w k] update_same[OF w k] by (simp add: store.defs)
next
  fix i
  assume "mp_Update (kube_memberProvider E) i b s = (Inr b', t)"
  then obtain cl where cl: "impersonated E (ui_email i) (ui_groups i) = Inr cl"
    and k: "kUpdate (cs_upbs cl) b s = (Inr b', t)"
    by (auto simp: kube_memberProvider_def member_Update_def createImpersonationClientWrapperFromUserInfo_def bindA_eq_Inr)
  note w = clientset_okD(2)[OF api_ok_impersonated[OF api cl]]
  show ?thesis using update_V[OF w k] update_same[OF w k] by (simp add: store.defs)
qed

lemma deleteBinding_effect:
  assumes api: "api_ok V E"
    and c: "deleteBinding (kube_getter E u) (kube_memberProvider E) (kube_privilegedMemberProvider E) pid n s = (Inr (), t)"
  shows "V t = (V s)\<lparr>st_upbs := filter (\<lambda>y. key_of y \<noteq> ([], n)) (st_upbs (V s))\<rparr>"
  using c unfolding handlers_on_behalf
proof (rule me.on_behalf_cases)
  assume "pmp_DeleteUnsecured (kube_privilegedMemberProvider E) n s = (Inr (), t)"
  then have k: "kDelete (cs_upbs (privileged E)) ([], n) s = (Inr (), t)"
    by (simp add: kube_privilegedMemberProvider_def member_DeleteUnsecured_def)
  show ?thesis using delete_V[OF clientset_okD(2)[OF api_ok_privileged[OF api]] k] by (simp add: store.defs)
next
  fix i
  assume "mp_Delete (kube_memberProvider E) i n s = (Inr (), t)"
  then obtain cl where cl: "impersonated E (ui_email i) (ui_groups i) = Inr cl"
    and k: "kDelete (cs_upbs cl) ([], n) s = (Inr (), t)"
    by (auto simp: kube_memberProvider_def member_Delete_def createImpersonationClientWrapperFromUserInfo_def bindA_eq_Inr)
  show ?thesis using delete_V[OF clientset_okD(2)[OF api_ok_impersonated[OF api cl]] k] by (simp add: store.defs)
qed

section \<open>Validation\<close>

lemma AddReq_Validate_InrD:
  assumes "AddReq_Validate K pa r i = Inr ()"
  shows "\<exists>prefix. au_projects (aq_body r) = [(req_projectID r, prefix)] \<and> prefix \<in> set (allGroupsPrefixes K) \<and>
           prefix \<noteq> [] \<and> req_projectID r \<noteq> [] \<and> au_email (aq_body r) \<noteq> [] \<and>
           (ui_isAdmin i \<or> \<not> EqualFold (au_email (aq_body r)) (ui_email i))"
  using assms unfolding AddReq_Validate_def
  by (auto simp: Let_def split: if_splits list.splits prod.splits)

lemma EditReq_Validate_InrD:
  assumes "EditReq_Validate K pa r i = Inr ()"
  shows "AddReq_Validate K pa r i = Inr ()" and "eq_userID r = ao_id (aq_body r)"
  using assms unfolding EditReq_Validate_def by (auto split: sum.splits if_splits)

lemma UserByEmail_InrD:
  assumes "api_ok V E" and "UserByEmail E e s = (Inr x, t)"
  shows "t = s" and "x \<in> set (st_users (V s))" and "EqualFold (us_email x) e"
  using assms by (auto simp: UserByEmail_run api_ok_lists split: option.splits dest!: find_SomeD)

lemma kube_user_simps [simp]:
  "up_UserByEmail (kube_userProvider E) = UserByEmail E" "up_UserByID (kube_userProvider E) = UserByID E"
  "up_CreateUser (kube_userProvider E) = CreateUser E" "up_UpdateUser (kube_userProvider E) = UpdateUser E"
  "up_InvalidateToken (kube_userProvider E) = InvalidateToken E"
  "up_GetInvalidatedTokens (kube_userProvider E) = GetInvalidatedTokens E"
  by (simp_all add: kube_userProvider_def)

lemmas endpoint_reads = bind_reads reads_wrapA reads_liftA me.getter_reads reads_GetProject reads_UserByEmail reads_UserByID

text \<open>The endpoints as the API server wires them for the caller \<open>u\<close>, on a request that was decoded.\<close>

abbreviation addMember where
  "addMember E pa u req \<equiv> member_AddEndpoint E pa (kube_projectProvider E) (kube_privilegedProjectProvider E)
     (kube_userProvider E) (kube_memberProvider E) (kube_privilegedMemberProvider E) (kube_getter E u) (Some req)"

abbreviation editMember where
  "editMember E pa u req \<equiv> member_EditEndpoint E pa (kube_projectProvider E) (kube_privilegedProjectProvider E)
     (kube_userProvider E) (kube_memberProvider E) (kube_privilegedMemberProvider E) (kube_getter E u) (Some req)"

abbreviation removeMember where
  "removeMember E u req \<equiv> member_DeleteEndpoint (kube_projectProvider E) (kube_privilegedProjectProvider E)
     (kube_userProvider E) (kube_memberProvider E) (kube_privilegedMemberProvider E) (kube_getter E u) (Some req)"

section \<open>Adding a member\<close>

lemma member_AddEndpoint_InrD:
  assumes api: "api_ok V E"
    and added: "addMember E pa u req s = (Inr r, t)"
  obtains user prefix b where "user \<in> set (st_users (V s))" and "EqualFold (us_email user) (au_email (aq_body req))"
    and "au_projects (aq_body req) = [(req_projectID req, prefix)]" and "prefix \<in> set (allGroupsPrefixes E)"
    and "us_isAdmin u \<or> \<not> EqualFold (au_email (aq_body req)) (us_email u)"
    and "members_by_email E (st_upbs (V s)) (req_projectID req) (us_email user) = []"
    and "V t = (V s)\<lparr>st_upbs := st_upbs (V s) @ [b]\<rparr>" and "upb_projectID b = req_projectID req"
    and "upb_userEmail b = us_email user" and "upb_group b = groupNameFor E (req_projectID req) prefix"
    and "\<not> isSA E (us_email user)" and "key_of b \<notin> key_of ` set (st_upbs (V s))"
proof -
  from added obtain i where i: "kube_getter E u [] s = (Inr i, s)" and v: "AddReq_Validate E pa req i = Inr ()"
    by (auto simp: member_AddEndpoint_def endpoint_reads wrapA_eq_Inr)
  from AddReq_Validate_InrD[OF v] obtain prefix where pg: "au_projects (aq_body req) = [(req_projectID req, prefix)]"
    and pre: "prefix \<in> set (allGroupsPrefixes E)" and pid: "req_projectID req \<noteq> []"
    and self: "ui_isAdmin i \<or> \<not> EqualFold (au_email (aq_body req)) (ui_email i)" by blast
  from added pg obtain user project ms t1 b where
        u: "UserByEmail E (au_email (aq_body req)) s = (Inr user, s)"
    and p: "GetProject (kube_getter E u) (kube_projectProvider E) (kube_privilegedProjectProvider E)
              (req_projectID req) None s = (Inr project, s)"
    and ms: "getMemberList (kube_getter E u) (kube_memberProvider E) project (us_email user) s = (Inr ms, t1)"
    and nil: "ms = []"
    and c: "createBinding (kube_getter E u) (kube_memberProvider E) (kube_privilegedMemberProvider E) project
              (us_email user) (groupNameFor E (om_name project) prefix) t1 = (Inr b, t)"
    by (auto simp: member_AddEndpoint_def endpoint_reads wrapA_eq_Inr bindA_eq_Inr[where m = "httpA (getMemberList _ _ _ _)"]
        bindA_eq_Inr[where m = "httpA (createBinding _ _ _ _ _ _)"] Let_def split: if_splits)
  have project: "om_name project = req_projectID req"
    using GetProject_name[OF api p] .
  note m = getMemberList_InrD[OF api ms]
  from createBinding_effect[OF api c]
  have eff: "V t = (V s)\<lparr>st_upbs := st_upbs (V s) @ [b]\<rparr>" "upb_projectID b = req_projectID req"
    "upb_userEmail b = us_email user" "upb_group b = groupNameFor E (req_projectID req) prefix" "\<not> isSA E (us_email user)"
    "key_of b \<notin> key_of ` set (st_upbs (V s))"
    using m(1) project by auto
  show ?thesis
    using that UserByEmail_InrD[OF api u] pg pre self eff m(2) nil project
      mapper.getter_identity(1,2)[OF i] by auto
qed

text \<open>
  adding a member does what was asked and no more. When the endpoint succeeds, exactly one
  binding was added: of an existing user with the requested address, who is no service account and
  had no binding in the project before, to the project of the request, in the group of a known role.
  A caller who is not an administrator cannot add himself. Nothing else in the store changed.
\<close>

theorem member_AddEndpoint_effect:
  assumes api: "api_ok V E"
    and added: "addMember E pa u req s = (Inr r, t)"
  shows "\<exists>b prefix. V t = (V s)\<lparr>st_upbs := st_upbs (V s) @ [b]\<rparr> \<and>
     au_projects (aq_body req) = [(req_projectID req, prefix)] \<and> prefix \<in> set (allGroupsPrefixes E) \<and>
     upb_projectID b = req_projectID req \<and> upb_group b = groupNameFor E (req_projectID req) prefix \<and>
     EqualFold (upb_userEmail b) (au_email (aq_body req)) \<and> \<not> isSA E (upb_userEmail b) \<and>
     (\<exists>user \<in> set (st_users (V s)). us_email user = upb_userEmail b) \<and>
     (us_isAdmin u \<or> \<not> EqualFold (upb_userEmail b) (us_email u)) \<and>
     (\<forall>m \<in> set (project_members E (st_upbs (V s)) (req_projectID req)). \<not> EqualFold (upb_userEmail m) (upb_userEmail b))"
  using api added
proof (rule member_AddEndpoint_InrD)
  fix user prefix b
  assume a: "user \<in> set (st_users (V s))" "EqualFold (us_email user) (au_email (aq_body req))"
    "au_projects (aq_body req) = [(req_projectID req, prefix)]" "prefix \<in> set (allGroupsPrefixes E)"
    "us_isAdmin u \<or> \<not> EqualFold (au_email (aq_body req)) (us_email u)"
    and nil: "members_by_email E (st_upbs (V s)) (req_projectID req) (us_email user) = []"
    and b: "V t = (V s)\<lparr>st_upbs := st_upbs (V s) @ [b]\<rparr>" "upb_projectID b = req_projectID req"
    "upb_userEmail b = us_email user" "upb_group b = groupNameFor E (req_projectID req) prefix" "\<not> isSA E (us_email user)"
  have "\<forall>m \<in> set (project_members E (st_upbs (V s)) (req_projectID req)). \<not> EqualFold (upb_userEmail m) (upb_userEmail b)"
    using members_by_email_Nil[OF nil] b(3) by (auto simp: project_members_def)
  moreover have "us_isAdmin u \<or> \<not> EqualFold (upb_userEmail b) (us_email u)"
    using a(2,5) b(3) by (auto simp: EqualFold_def)
  ultimately show ?thesis using a b by (intro exI[of _ b] exI[of _ prefix]) auto
qed

definition eve_request :: AddReq where
  "eve_request = \<lparr>req_projectID = ''p1'', aq_body = zero_apiUser\<lparr>au_email := ''eve@acme.com'', au_projects := [(''p1'', ''viewers'')]\<rparr>\<rparr>"

section \<open>Changing and removing a member\<close>

lemma member_EditEndpoint_InrD:
  assumes api: "api_ok V E"
    and edited: "editMember E pa u req s = (Inr r, t)"
  obtains prefix b b' where "au_projects (aq_body req) = [(req_projectID req, prefix)]"
    and "prefix \<in> set (allGroupsPrefixes E)"
    and "us_isAdmin u \<or> \<not> EqualFold (au_email (aq_body req)) (us_email u)"
    and "b \<in> set (st_upbs (V s))" and "upb_projectID b = req_projectID req"
    and "EqualFold (upb_userEmail b) (au_email (aq_body req))" and "\<not> isSA E (upb_userEmail b)"
    and "V t = (V s)\<lparr>st_upbs := map (\<lambda>y. if key_of y = key_of b then b' else y) (st_upbs (V s))\<rparr>"
    and "same_object b' (b\<lparr>upb_group := groupNameFor E (req_projectID req) prefix\<rparr>)"
proof -
  from edited obtain i where i: "kube_getter E u [] s = (Inr i, s)" and v: "EditReq_Validate E pa req i = Inr ()"
    by (auto simp: member_EditEndpoint_def endpoint_reads wrapA_eq_Inr)
  from AddReq_Validate_InrD[OF EditReq_Validate_InrD(1)[OF v]] obtain prefix
    where pg: "au_projects (aq_body req) = [(req_projectID req, prefix)]"
    and pre: "prefix \<in> set (allGroupsPrefixes E)" and em: "au_email (aq_body req) \<noteq> []"
    and self: "ui_isAdmin i \<or> \<not> EqualFold (au_email (aq_body req)) (ui_email i)" by blast
  from edited pg obtain project user ms t1 b b' where
        p: "GetProject (kube_getter E u) (kube_projectProvider E) (kube_privilegedProjectProvider E)
              (req_projectID req) None s = (Inr project, s)"
    and u: "UserByEmail E (au_email (aq_body req)) s = (Inr user, s)"
    and ms: "getMemberList (kube_getter E u) (kube_memberProvider E) project (au_email (aq_body req)) s = (Inr ms, t1)"
    and one: "ms = [b]"
    and c: "updateBinding (kube_getter E u) (kube_memberProvider E) (kube_privilegedMemberProvider E) (req_projectID req)
              (b\<lparr>upb_group := groupNameFor E (om_name project) prefix\<rparr>) t1 = (Inr b', t)"
    by (auto simp: member_EditEndpoint_def endpoint_reads wrapA_eq_Inr bindA_eq_Inr[where m = "httpA (getMemberList _ _ _ _)"]
        bindA_eq_Inr[where m = "httpA (updateBinding _ _ _ _ _)"] Let_def single_case_Inr)
  have project: "om_name project = req_projectID req" using GetProject_name[OF api p] .
  note m = getMemberList_InrD[OF api ms]
  have b: "members_by_email E (st_upbs (V s)) (req_projectID req) (au_email (aq_body req)) = [b]"
    using m(2) one project by simp
  have eff: "V t = (V s)\<lparr>st_upbs := map (\<lambda>y. if key_of y = key_of b then b' else y) (st_upbs (V s))\<rparr>"
    "same_object b' (b\<lparr>upb_group := groupNameFor E (req_projectID req) prefix\<rparr>)"
    using updateBinding_effect[OF api c] m(1) project by (auto simp: key_of_def)
  show ?thesis
    using that pg pre self eff members_by_email_mem[OF b em] mapper.getter_identity(1,2)[OF i] by auto
qed

lemma member_DeleteEndpoint_InrD:
  assumes api: "api_ok V E"
    and deleted: "removeMember E u req s = (Inr (), t)"
  obtains user b where "user \<in> set (st_users (V s))" and "om_name user = dq_userID req"
    and "members_by_email E (st_upbs (V s)) (req_projectID req) (us_email user) = [b]"
    and "\<not> EqualFold (upb_userEmail b) (us_email u)"
    and "V t = (V s)\<lparr>st_upbs := filter (\<lambda>y. key_of y \<noteq> ([], om_name b)) (st_upbs (V s))\<rparr>"
proof -
  from deleted obtain project user ms t1 b i where
        p: "GetProject (kube_getter E u) (kube_projectProvider E) (kube_privilegedProjectProvider E)
              (req_projectID req) None s = (Inr project, s)"
    and u: "UserByID E (dq_userID req) s = (Inr user, s)"
    and ms: "getMemberList (kube_getter E u) (kube_memberProvider E) project (us_email user) s = (Inr ms, t1)"
    and one: "ms = [b]" and i: "kube_getter E u [] t1 = (Inr i, t1)"
    and self: "\<not> EqualFold (upb_userEmail b) (ui_email i)"
    and c: "deleteBinding (kube_getter E u) (kube_memberProvider E) (kube_privilegedMemberProvider E) (req_projectID req)
              (om_name b) t1 = (Inr (), t)"
    by (auto simp: member_DeleteEndpoint_def endpoint_reads wrapA_eq_Inr bindA_eq_Inr[where m = "httpA (getMemberList _ _ _ _)"]
        single_case_Inr split: if_splits)
  have project: "om_name project = req_projectID req" using GetProject_name[OF api p] .
  note m = getMemberList_InrD[OF api ms]
  have "lookup_key ([], dq_userID req) (st_users (V s)) = Inr user"
    using u api by (simp add: UserByID_def api_ok_gets)
  then have "user \<in> set (st_users (V s))" "om_name user = dq_userID req"
    by (auto dest!: lookup_key_mem simp: key_of_def)
  moreover have "members_by_email E (st_upbs (V s)) (req_projectID req) (us_email user) = [b]"
    using m(2) one project by simp
  ultimately show ?thesis
    using that deleteBinding_effect[OF api c] m(1) self mapper.getter_identity(1)[OF i] by auto
qed

text \<open>
  C5: nobody but an administrator changes his own membership. A successful edit changes the group of
  the one binding that the request's address has in the project, to the group of a known role, and
  leaves its owner, its project and every other binding alone; a successful removal removes a binding
  of somebody else. For a caller who is not an administrator the edited binding is not his either.
\<close>

theorem member_changes_are_for_others:
  assumes api: "api_ok V E"
  shows "(editMember E pa u req s = (Inr r, t) \<longrightarrow>
          (\<exists>b \<in> set (st_upbs (V s)). \<exists>b' prefix. prefix \<in> set (allGroupsPrefixes E) \<and>
             V t = (V s)\<lparr>st_upbs := map (\<lambda>y. if key_of y = key_of b then b' else y) (st_upbs (V s))\<rparr> \<and>
             EqualFold (upb_userEmail b) (au_email (aq_body req)) \<and> upb_projectID b = req_projectID req \<and>
             upb_userEmail b' = upb_userEmail b \<and> upb_projectID b' = upb_projectID b \<and> key_of b' = key_of b \<and>
             upb_group b' = groupNameFor E (req_projectID req) prefix \<and>
             (us_isAdmin u \<or> \<not> EqualFold (upb_userEmail b) (us_email u)))) \<and>
         (removeMember E u dreq s = (Inr (), t) \<longrightarrow>
          (\<exists>b \<in> set (project_members E (st_upbs (V s)) (req_projectID dreq)).
             V t = (V s)\<lparr>st_upbs := filter (\<lambda>y. key_of y \<noteq> ([], om_name b)) (st_upbs (V s))\<rparr> \<and>
             \<not> EqualFold (upb_userEmail b) (us_email u)))"
proof (intro conjI impI)
  assume "editMember E pa u req s = (Inr r, t)"
  with api show "\<exists>b \<in> set (st_upbs (V s)). \<exists>b' prefix. prefix \<in> set (allGroupsPrefixes E) \<and>
             V t = (V s)\<lparr>st_upbs := map (\<lambda>y. if key_of y = key_of b then b' else y) (st_upbs (V s))\<rparr> \<and>
             EqualFold (upb_userEmail b) (au_email (aq_body req)) \<and> upb_projectID b = req_projectID req \<and>
             upb_userEmail b' = upb_userEmail b \<and> upb_projectID b' = upb_projectID b \<and> key_of b' = key_of b \<and>
             upb_group b' = groupNameFor E (req_projectID req) prefix \<and>
             (us_isAdmin u \<or> \<not> EqualFold (upb_userEmail b) (us_email u))"
  proof (rule member_EditEndpoint_InrD)
    fix prefix b b'
    assume a: "prefix \<in> set (allGroupsPrefixes E)" "us_isAdmin u \<or> \<not> EqualFold (au_email (aq_body req)) (us_email u)"
      and b: "b \<in> set (st_upbs (V s))" "upb_projectID b = req_projectID req" "EqualFold (upb_userEmail b) (au_email (aq_body req))"
      and t: "V t = (V s)\<lparr>st_upbs := map (\<lambda>y. if key_of y = key_of b then b' else y) (st_upbs (V s))\<rparr>"
      and so: "same_object b' (b\<lparr>upb_group := groupNameFor E (req_projectID req) prefix\<rparr>)"
    have "us_isAdmin u \<or> \<not> EqualFold (upb_userEmail b) (us_email u)" using a(2) b(3) by (auto simp: EqualFold_def)
    then show ?thesis using a(1) b t same_upb[OF so] same_objectD(3)[OF so]
      by (intro bexI[of _ b] exI[of _ b'] exI[of _ prefix]) (simp_all add: key_of_def)
  qed
next
  assume "removeMember E u dreq s = (Inr (), t)"
  with api show "\<exists>b \<in> set (project_members E (st_upbs (V s)) (req_projectID dreq)).
      V t = (V s)\<lparr>st_upbs := filter (\<lambda>y. key_of y \<noteq> ([], om_name b)) (st_upbs (V s))\<rparr> \<and>
      \<not> EqualFold (upb_userEmail b) (us_email u)"
  proof (rule member_DeleteEndpoint_InrD)
    fix user b
    assume m: "members_by_email E (st_upbs (V s)) (req_projectID dreq) (us_email user) = [b]"
      and b: "\<not> EqualFold (upb_userEmail b) (us_email u)"
        "V t = (V s)\<lparr>st_upbs := filter (\<lambda>y. key_of y \<noteq> ([], om_name b)) (st_upbs (V s))\<rparr>"
    have "b \<in> set (members_by_email E (st_upbs (V s)) (req_projectID dreq) (us_email user))" using m by simp
    then have "b \<in> set (project_members E (st_upbs (V s)) (req_projectID dreq))"
      by (auto simp: members_by_email_def split: if_splits dest: first_match_mem)
    with b show ?thesis by blast
  qed
qed

definition bob_edit :: EditReq where
  "bob_edit = \<lparr>req_projectID = ''p1'', aq_body = zero_apiUser\<lparr>ao_id := ''bob-id'', au_email := ''bob@acme.com'',
     au_projects := [(''p1'', ''owners'')]\<rparr>, eq_userID = ''bob-id''\<rparr>"

definition bob_delete :: DeleteReq where
  "bob_delete = \<lparr>req_projectID = ''p1'', dq_userID = ''bob-id''\<rparr>"

theorem member_changes_are_for_others_witness:
  "(\<exists>r t b. editMember mem_env (\<lambda>_. True) root_user bob_edit world1 = (Inr r, t) \<and> b \<in> set (m_upbs world1) \<and>
      EqualFold (upb_userEmail b) ''bob@acme.com'') \<and>
   (\<exists>t b. removeMember mem_env root_user bob_delete world1 = (Inr (), t) \<and>
      b \<in> set (project_members mem_env (m_upbs world1) (req_projectID bob_delete)) \<and>
      \<not> EqualFold (upb_userEmail b) ''root@acme.com'')"
proof -
  have "\<not> isl (fst (editMember mem_env (\<lambda>_. True) root_user bob_edit world1))" by code_simp
  from success_obtain[OF this] obtain r t where e: "editMember mem_env (\<lambda>_. True) root_user bob_edit world1 = (Inr r, t)" by blast
  have "\<not> isl (fst (removeMember mem_env root_user bob_delete world1))" by code_simp
  from success_obtain[OF this] obtain t' where d: "removeMember mem_env root_user bob_delete world1 = (Inr (), t')" by auto
  have data: "au_email (aq_body bob_edit) = ''bob@acme.com''" "us_email root_user = ''root@acme.com''"
    "st_upbs (mem_store world1) = m_upbs world1"
    by (simp_all add: bob_edit_def root_user_def mem_store_def)
  from member_changes_are_for_others[OF mem_api_ok, THEN conjunct1, rule_format, OF e]
  obtain b where b: "b \<in> set (m_upbs world1)" "EqualFold (upb_userEmail b) ''bob@acme.com''"
    unfolding data by blast
  from member_changes_are_for_others[OF mem_api_ok, THEN conjunct2, rule_format, OF d]
  obtain b' where b': "b' \<in> set (project_members mem_env (m_upbs world1) (req_projectID bob_delete))"
    "\<not> EqualFold (upb_userEmail b') ''root@acme.com''" unfolding data by blast
  show ?thesis
  proof (rule conjI)
    show "\<exists>r t b. editMember mem_env (\<lambda>_. True) root_user bob_edit world1 = (Inr r, t) \<and> b \<in> set (m_upbs world1) \<and>
        EqualFold (upb_userEmail b) ''bob@acme.com''"
      by (rule exI[of _ r], rule exI[of _ t], rule exI[of _ b]) (intro conjI e b)
    show "\<exists>t b. removeMember mem_env root_user bob_delete world1 = (Inr (), t) \<and>
        b \<in> set (project_members mem_env (m_upbs world1) (req_projectID bob_delete)) \<and> \<not> EqualFold (upb_userEmail b) ''root@acme.com''"
      by (rule exI[of _ t'], rule exI[of _ b']) (intro conjI d b')
  qed
qed

section \<open>The invariant of the endpoints\<close>

text \<open>Bindings have distinct keys, and no person has two bindings in one project.\<close>

definition members_inv :: "'x sdk_scheme \<Rightarrow> upb list \<Rightarrow> bool" where
  "members_inv K bs \<longleftrightarrow>
     keys_ok bs \<and> (\<forall>pid. distinct (map (\<lambda>b. ToLower (upb_userEmail b)) (project_members K bs pid)))"

lemma members_inv_append:
  assumes "members_inv K bs" and "key_of b \<notin> key_of ` set bs"
    and "members_by_email K bs (upb_projectID b) (upb_userEmail b) = []"
  shows "members_inv K (bs @ [b])"
proof -
  have "ToLower (upb_userEmail b) \<notin> (\<lambda>b. ToLower (upb_userEmail b)) ` set (project_members K bs (upb_projectID b))"
    using members_by_email_Nil[OF assms(3)] by (auto simp: project_members_def EqualFold_def)
  then show ?thesis using assms(1,2) by (auto simp: members_inv_def keys_ok_def project_members_def)
qed

lemma members_inv_map:
  assumes inv: "members_inv K bs" and b: "b \<in> set bs"
    and same: "key_of b' = key_of b" "upb_projectID b' = upb_projectID b" "upb_userEmail b' = upb_userEmail b"
  shows "members_inv K (map (\<lambda>y. if key_of y = key_of b then b' else y) bs)"
proof -
  let ?f = "\<lambda>y. if key_of y = key_of b then b' else y"
  have uniq: "y = b" if "y \<in> set bs" "key_of y = key_of b" for y
    using inv b that by (auto simp: members_inv_def keys_ok_def distinct_map inj_on_def)
  have "key_of \<circ> ?f = key_of" using same(1) by auto
  moreover have "map (\<lambda>b. ToLower (upb_userEmail b)) (project_members K (map ?f bs) pid) =
      map (\<lambda>b. ToLower (upb_userEmail b)) (project_members K bs pid)" for pid
    using uniq same by (induction bs) (auto simp: project_members_def)
  ultimately show ?thesis using inv by (simp add: members_inv_def keys_ok_def)
qed

lemma project_members_filter: "project_members K (filter P bs) pid = filter P (project_members K bs pid)"
  by (simp add: project_members_def conj_commute)

lemma members_inv_filter: "members_inv K bs \<Longrightarrow> members_inv K (filter P bs)"
  by (simp add: members_inv_def keys_ok_def project_members_filter distinct_map_filter)

text \<open>
  C6: the endpoints that add, change and remove members keep the invariant that no person, however
  his address is spelled, has two bindings in one project, and that bindings have distinct keys.
\<close>

theorem member_endpoints_keep_inv:
  assumes api: "api_ok V E" and inv: "members_inv E (st_upbs (V s))"
  shows "(addMember E pa u areq s = (Inr r, t) \<longrightarrow>
          members_inv E (st_upbs (V t))) \<and>
         (editMember E pa u ereq s = (Inr r, t) \<longrightarrow>
          members_inv E (st_upbs (V t))) \<and>
         (removeMember E u dreq s = (Inr (), t) \<longrightarrow>
          members_inv E (st_upbs (V t)))"
proof (intro conjI impI)
  assume "addMember E pa u areq s = (Inr r, t)"
  from api this show "members_inv E (st_upbs (V t))"
    by (rule member_AddEndpoint_InrD) (use inv in \<open>auto intro: members_inv_append\<close>)
next
  assume "editMember E pa u ereq s = (Inr r, t)"
  from api this show "members_inv E (st_upbs (V t))"
  proof (rule member_EditEndpoint_InrD)
    fix prefix b b'
    assume "b \<in> set (st_upbs (V s))"
      and "V t = (V s)\<lparr>st_upbs := map (\<lambda>y. if key_of y = key_of b then b' else y) (st_upbs (V s))\<rparr>"
      and so: "same_object b' (b\<lparr>upb_group := groupNameFor E (req_projectID ereq) prefix\<rparr>)"
    moreover have "key_of b' = key_of b" "upb_projectID b' = upb_projectID b" "upb_userEmail b' = upb_userEmail b"
      using same_upb[OF so] same_objectD(3)[OF so] by (simp_all add: key_of_def)
    ultimately show ?thesis using members_inv_map[OF inv] by simp
  qed
next
  assume "removeMember E u dreq s = (Inr (), t)"
  from api this show "members_inv E (st_upbs (V t))"
    by (rule member_DeleteEndpoint_InrD) (simp add: members_inv_filter inv)
qed

theorem member_endpoints_keep_inv_witness:
  "members_inv mem_env (m_upbs world1) \<and>
   (\<exists>r t. addMember mem_env (\<lambda>_. True) bob eve_request world1 = (Inr r, t) \<and> members_inv mem_env (m_upbs t))"
proof -
  have "\<not> isl (fst (addMember mem_env (\<lambda>_. True) bob eve_request world1))" by code_simp
  from success_obtain[OF this] obtain r t where e: "addMember mem_env (\<lambda>_. True) bob eve_request world1 = (Inr r, t)" by blast
  have "m_upbs world1 = [bob_binding]" by (simp add: world1_def)
  then have inv: "members_inv mem_env (st_upbs (mem_store world1))"
    by (simp add: members_inv_def keys_ok_def project_members_def mem_store_def)
  show ?thesis
    using e inv member_endpoints_keep_inv[OF mem_api_ok inv, THEN conjunct1, rule_format, OF e] by (auto simp: mem_store_def)
qed

end
