(* ===== verification/User_Properties.thy ===== *)
theory User_Properties
  imports Member_Endpoints
begin

text \<open>
  What the user, admin and settings providers do to the store.
\<close>

section \<open>Users\<close>

lemma CreateUser_InrD:
  assumes api: "api_ok V E" and c: "CreateUser E n e gs s = (Inr u, t)"
  shows "V t = (V s)\<lparr>st_users := st_users (V s) @ [u]\<rparr>"
    and "n \<noteq> []" and "e \<noteq> []" and "\<not> isSA E (ToLower e)"
    and "us_name u = n" and "us_email u = ToLower e" and "us_groups u = gs"
    and "us_isAdmin u \<longleftrightarrow> st_users (V s) = []" and "\<not> us_isGlobalViewer u"
    and "om_name u = sha256hex E (ToLower e)" and "key_of u \<notin> key_of ` set (st_users (V s))"
proof -
  let ?u = "zero_user\<lparr>om_name := sha256hex E (ToLower e), us_name := n, us_email := ToLower e, us_groups := gs\<rparr>"
  let ?v = "if st_users (V s) = [] then ?u\<lparr>us_isAdmin := True\<rparr> else ?u"
  note w = clientset_okD(1)[OF api_ok_privileged[OF api]]
  have k: "kCreate (cs_users (privileged E)) ?v s = (Inr u, t)"
    and g: "n \<noteq> []" "e \<noteq> []" "\<not> isSA E (ToLower e)"
    using c by (auto simp: CreateUser_def Let_def bindA_eq_Inr api_ok_lists[OF api] split: if_splits)
  show "V t = (V s)\<lparr>st_users := st_users (V s) @ [u]\<rparr>"
    using create_V[OF w k] by (simp add: store.defs)
  show "n \<noteq> []" and "e \<noteq> []" and "\<not> isSA E (ToLower e)" by fact+
  show "us_name u = n" and "us_email u = ToLower e" and "us_groups u = gs"
    and "us_isAdmin u \<longleftrightarrow> st_users (V s) = []" and "\<not> us_isGlobalViewer u"
    and "om_name u = sha256hex E (ToLower e)"
    using same_user[OF create_same[OF w k]] by (simp_all add: zero_defs)
  show "key_of u \<notin> key_of ` set (st_users (V s))"
    using create_fresh[OF w k] same_user(8)[OF create_same[OF w k]] by simp
qed

lemma UserByEmail_unique:
  assumes "api_ok V E" and "st_users (V s) = us @ [u]" and "EqualFold (us_email u) e"
    and "\<forall>x \<in> set us. \<not> EqualFold (us_email x) e"
  shows "UserByEmail E e s = (Inr u, s)"
proof -
  have "List.find (\<lambda>x. EqualFold (us_email x) e) us = None" using assms(4) by (simp add: find_None_iff)
  then show ?thesis using assms by (simp add: UserByEmail_run api_ok_lists find_append)
qed

text \<open>
  creating a user adds exactly one user, with the address in lower case, who is an
  administrator exactly when he is the first one; the address of a service account is never taken.
  Nobody becomes a global viewer this way. If nobody had the address before, in whatever
  capitalisation, then the new user is found under any capitalisation of it.
\<close>

theorem CreateUser_effect:
  assumes api: "api_ok V E" and c: "CreateUser E n e gs s = (Inr u, t)"
  shows "V t = (V s)\<lparr>st_users := st_users (V s) @ [u]\<rparr> \<and> us_name u = n \<and> us_email u = ToLower e \<and>
     us_groups u = gs \<and> \<not> isSA E (us_email u) \<and> (us_isAdmin u \<longleftrightarrow> st_users (V s) = []) \<and> \<not> us_isGlobalViewer u \<and>
     (\<forall>e'. EqualFold e e' \<and> (\<forall>x \<in> set (st_users (V s)). \<not> EqualFold (us_email x) e) \<longrightarrow>
        UserByEmail E e' t = (Inr u, t))"
proof -
  note d = CreateUser_InrD[OF api c]
  have "UserByEmail E e' t = (Inr u, t)" if "EqualFold e e'" "\<forall>x \<in> set (st_users (V s)). \<not> EqualFold (us_email x) e" for e'
    using that d(1,6) by (intro UserByEmail_unique[OF api]) (auto simp: EqualFold_def)
  with d show ?thesis by simp
qed

section \<open>Administrators\<close>

lemma SetAdmin_InrD:
  assumes api: "api_ok V E" and c: "SetAdmin E i body s = (Inr x, t)"
  obtains u where "ui_isAdmin i" and "\<not> EqualFold (ui_email i) (ad_email body)" and "u \<in> set (st_users (V s))"
    and "EqualFold (us_email u) (ad_email body)"
    and "ad_isAdmin body = Some False \<Longrightarrow> mget (om_annotations u) (adminGrantedByGroupAnnotation E) = []"
    and "V t = (V s)\<lparr>st_users := map (\<lambda>y. if key_of y = key_of u then x else y) (st_users (V s))\<rparr>"
    and "us_email x = us_email u" and "us_groups x = us_groups u" and "key_of x = key_of u"
    and "us_isAdmin x = (case ad_isAdmin body of None \<Rightarrow> us_isAdmin u | Some b \<Rightarrow> b)"
    and "us_isGlobalViewer x = (case ad_isGlobalViewer body of None \<Rightarrow> us_isGlobalViewer u | Some b \<Rightarrow> b)"
proof -
  note w = clientset_okD(1)[OF api_ok_privileged[OF api]]
  define chg :: "user \<Rightarrow> user" where "chg = (\<lambda>u. let u' = (case ad_isAdmin body of None \<Rightarrow> u | Some b \<Rightarrow> u\<lparr>us_isAdmin := b\<rparr>)
     in (case ad_isGlobalViewer body of None \<Rightarrow> u' | Some b \<Rightarrow> u'\<lparr>us_isGlobalViewer := b\<rparr>))"
  from c obtain u where g: "ui_isAdmin i" "\<not> EqualFold (ui_email i) (ad_email body)"
    and f: "List.find (\<lambda>u. EqualFold (us_email u) (ad_email body)) (st_users (V s)) = Some u"
    and a: "ad_isAdmin body = Some False \<Longrightarrow> mget (om_annotations u) (adminGrantedByGroupAnnotation E) = []"
    and k: "kUpdate (cs_users (privileged E)) (chg u) s = (Inr x, t)"
    by (auto simp: SetAdmin_def bindA_eq_Inr api_ok_lists[OF api] chg_def Let_def split: if_splits option.splits)
  have chg: "key_of (chg u) = key_of u" "us_email (chg u) = us_email u" "us_groups (chg u) = us_groups u"
    "us_isAdmin (chg u) = (case ad_isAdmin body of None \<Rightarrow> us_isAdmin u | Some b \<Rightarrow> b)"
    "us_isGlobalViewer (chg u) = (case ad_isGlobalViewer body of None \<Rightarrow> us_isGlobalViewer u | Some b \<Rightarrow> b)"
    by (simp_all add: chg_def Let_def key_of_def split: option.split)
  show ?thesis
    using that g a find_SomeD[OF f] update_V[OF w k] same_user[OF update_same[OF w k]] chg
    by (auto simp: store.defs)
qed

text \<open>
  the switch for administrators is safe. When SetAdmin succeeds, the caller is an administrator
  and the target is somebody else; exactly the target's record changes, and in it only the two flags;
  rights granted through a group are not revoked. An administrator that is stored under the caller's
  address is still stored and still an administrator, so the system never loses its last one.
\<close>

theorem SetAdmin_keeps_an_admin:
  assumes api: "api_ok V E" and keys: "keys_ok (st_users (V s))" and c: "SetAdmin E i body s = (Inr x, t)"
  shows "ui_isAdmin i \<and> \<not> EqualFold (us_email x) (ui_email i) \<and>
     (\<exists>u \<in> set (st_users (V s)). EqualFold (us_email u) (ad_email body) \<and> us_email x = us_email u \<and> key_of x = key_of u \<and>
        V t = (V s)\<lparr>st_users := map (\<lambda>y. if y = u then x else y) (st_users (V s))\<rparr> \<and>
        (us_isAdmin u \<and> \<not> us_isAdmin x \<longrightarrow> mget (om_annotations u) (adminGrantedByGroupAnnotation E) = [])) \<and>
     (\<forall>a \<in> set (st_users (V s)). us_isAdmin a \<and> EqualFold (us_email a) (ui_email i) \<longrightarrow> a \<in> set (st_users (V t)))"
  using api c
proof (rule SetAdmin_InrD)
  fix u
  assume g: "ui_isAdmin i" "\<not> EqualFold (ui_email i) (ad_email body)" "u \<in> set (st_users (V s))"
    "EqualFold (us_email u) (ad_email body)"
    and ann: "ad_isAdmin body = Some False \<Longrightarrow> mget (om_annotations u) (adminGrantedByGroupAnnotation E) = []"
    and t: "V t = (V s)\<lparr>st_users := map (\<lambda>y. if key_of y = key_of u then x else y) (st_users (V s))\<rparr>"
    and x: "us_email x = us_email u" "key_of x = key_of u"
      "us_isAdmin x = (case ad_isAdmin body of None \<Rightarrow> us_isAdmin u | Some b \<Rightarrow> b)"
  have one: "key_of y = key_of u \<longleftrightarrow> y = u" if "y \<in> set (st_users (V s))" for y
    using keys g(3) that by (auto simp: keys_ok_def distinct_map inj_on_def)
  have t': "V t = (V s)\<lparr>st_users := map (\<lambda>y. if y = u then x else y) (st_users (V s))\<rparr>"
    using t one by (simp cong: map_cong)
  have other: "\<not> EqualFold (us_email x) (ui_email i)" using g(2,4) x(1) by (auto simp: EqualFold_def)
  have "a \<in> set (st_users (V t))" if a: "a \<in> set (st_users (V s))" "EqualFold (us_email a) (ui_email i)" for a
  proof -
    have "a \<noteq> u" using a(2) other x(1) by auto
    then show ?thesis using a(1) t' by (auto intro: image_eqI[of _ _ a])
  qed
  then show ?thesis using g x t' other ann by (auto intro!: bexI[of _ u] split: option.splits)
qed

section \<open>Global settings\<close>

lemma GetGlobalSettings_InrD:
  assumes api: "api_ok V E" and g: "GetGlobalSettings E s = (Inr x, t)"
  shows "GetGlobalSettings E t = (Inr x, t)"
    and "case lookup_key ([], globalSettingsName E) (st_settings (V s)) of
        Inr y \<Rightarrow> x = y \<and> t = s
      | Inl _ \<Rightarrow> same_object x (defaultGlobalSettings E) \<and> V t = (V s)\<lparr>st_settings := st_settings (V s) @ [x]\<rparr>"
proof -
  let ?look = "lookup_key ([], globalSettingsName E) (st_settings (V s))"
  have "GetGlobalSettings E t = (Inr x, t) \<and> (case ?look of
        Inr y \<Rightarrow> x = y \<and> t = s
      | Inl _ \<Rightarrow> same_object x (defaultGlobalSettings E) \<and> V t = (V s)\<lparr>st_settings := st_settings (V s) @ [x]\<rparr>)"
  proof (cases ?look)
    case (Inr y)
    then have "kGet (cs_settings (privileged E)) ([], globalSettingsName E) s = Inr y" by (simp add: api_ok_gets[OF api])
    then have "x = y" "t = s" using g by (auto simp: GetGlobalSettings_def tryA_def)
    with g Inr show ?thesis by simp
  next
    case (Inl er)
    note w = clientset_okD(6)[OF api_ok_privileged[OF api]]
    have er: "er = NewNotFound" using Inl by (simp add: lookup_key_def split: option.splits)
    then have k: "kCreate (cs_settings (privileged E)) (defaultGlobalSettings E) s = (Inr x, t)"
      using g Inl by (simp add: GetGlobalSettings_def createDefaultGlobalSettings_def tryA_def has_reason_def
          api_ok_gets[OF api])
    have key: "key_of (defaultGlobalSettings E) = ([], globalSettingsName E)"
      by (simp add: defaultGlobalSettings_def key_of_def zero_defs settings.defs)
    have V: "V t = (V s)\<lparr>st_settings := st_settings (V s) @ [x]\<rparr>" using create_V[OF w k] by (simp add: store.defs)
    have "lookup_key ([], globalSettingsName E) (st_settings (V t)) = Inr x"
      using create_fresh[OF w k] same_objectD(3)[OF create_same[OF w k]] key V by (simp add: lookup_key_append)
    then have "GetGlobalSettings E t = (Inr x, t)" by (simp add: GetGlobalSettings_def tryA_def api_ok_gets[OF api])
    with V Inl create_same[OF w k] show ?thesis by simp
  qed
  then show "GetGlobalSettings E t = (Inr x, t)"
    and "case ?look of Inr y \<Rightarrow> x = y \<and> t = s
      | Inl _ \<Rightarrow> same_object x (defaultGlobalSettings E) \<and> V t = (V s)\<lparr>st_settings := st_settings (V s) @ [x]\<rparr>" by simp_all
qed

lemma GetGlobalSettings_frame:
  assumes "api_ok V E" and "GetGlobalSettings E s = (Inr x, t)"
  shows "st_users (V t) = st_users (V s)" and "st_upbs (V t) = st_upbs (V s)" and "st_gpbs (V t) = st_gpbs (V s)"
    and "st_projects (V t) = st_projects (V s)" and "st_secrets (V t) = st_secrets (V s)"
  using GetGlobalSettings_InrD(2)[OF assms] by (auto split: sum.splits)

text \<open>
  The global settings exist once. Reading them returns the stored object if there is one and
  otherwise stores the defaults, and nothing else changes; whoever reads them again gets the same object
  and writes nothing. Only an administrator updates them.
\<close>

theorem GetGlobalSettings_idempotent:
  assumes "api_ok V E" and "GetGlobalSettings E s = (Inr x, t)"
  shows "GetGlobalSettings E t = (Inr x, t) \<and>
     (case lookup_key ([], globalSettingsName E) (st_settings (V s)) of
        Inr y \<Rightarrow> x = y \<and> t = s
      | Inl _ \<Rightarrow> same_object x (defaultGlobalSettings E) \<and> V t = (V s)\<lparr>st_settings := st_settings (V s) @ [x]\<rparr>) \<and>
     (\<forall>i new. \<not> ui_isAdmin i \<longrightarrow> UpdateGlobalSettings E i new t = (Inl NewForbidden, t))"
  using GetGlobalSettings_InrD[OF assms] by (simp add: UpdateGlobalSettings_def)

theorem GetGlobalSettings_idempotent_witness:
  "\<exists>x t. GetGlobalSettings mem_env world1 = (Inr x, t) \<and> GetGlobalSettings mem_env t = (Inr x, t)"
proof -
  have "\<not> isl (fst (GetGlobalSettings mem_env world1))" by code_simp
  from success_obtain[OF this] obtain x t where e: "GetGlobalSettings mem_env world1 = (Inr x, t)" by blast
  then show ?thesis using GetGlobalSettings_idempotent[OF mem_api_ok e] by blast
qed

end
