(* ===== verification/Session_Properties.thy ===== *)
theory Session_Properties
  imports User_Properties Middleware
begin

text \<open>
  Authentication of a request: what the token middleware lets through, and that logging out
  revokes the token. The middleware relies on the user provider only through the interface
  \<open>user_directory\<close>, interpreted on the provider of the server.
\<close>

section \<open>The gate\<close>

text \<open>A token that was extracted, verified and not revoked.\<close>

definition accepted ::
  "'s UserProvider \<Rightarrow> 's TokenVerifier \<Rightarrow> ('s, 'p) reqctx \<Rightarrow> 's \<Rightarrow> string \<Rightarrow> TokenClaims \<Rightarrow> 's \<Rightarrow> bool" where
  "accepted P verify ctx s tok claims s1 \<longleftrightarrow>
     ctx_noTokenFound ctx = None \<and> ctx_rawToken ctx = Some tok \<and> tok \<noteq> [] \<and> verify tok s = (Inr claims, s1) \<and>
     tc_subject claims \<noteq> [] \<and> checkBlockedTokens (tc_email claims) tok P s1 = (Inr (), s1)"

text \<open>What the middleware relies on in the user provider: looking up a user or his revoked tokens only reads.\<close>

locale user_directory =
  fixes P :: "'s UserProvider"
  assumes lookup_reads: "reads (up_UserByEmail P e)"
    and revoked_reads: "reads (up_GetInvalidatedTokens P u)"
begin

lemma checkBlockedTokens_reads: "reads (checkBlockedTokens e tok P)"
  unfolding checkBlockedTokens_def by (intro reads_intros lookup_reads revoked_reads)

lemma checkBlockedTokens_Inr:
  assumes "checkBlockedTokens e tok P s = (Inr (), t)" and "up_UserByEmail P e s = (Inr u, s)"
  shows "\<exists>ts. up_GetInvalidatedTokens P (Some u) s = (Inr ts, s) \<and> tok \<notin> set ts"
  using assms
  by (auto simp: checkBlockedTokens_def bind_reads reads_wrapA revoked_reads wrapA_eq_Inr split: if_splits)

lemma checkBlockedTokens_revoked:
  assumes "up_UserByEmail P e s = (Inr u, s)" and "up_GetInvalidatedTokens P (Some u) s = (Inr ts, s)" and "tok \<in> set ts"
  shows "checkBlockedTokens e tok P s = (Inl UtilNotAuthorized, s)"
  using assms by (simp add: checkBlockedTokens_def)

lemma checkBlockedTokens_passes:
  assumes "up_UserByEmail P e s = (Inr u, s)" and "up_GetInvalidatedTokens P (Some u) s = (Inr ts, s)" and "tok \<notin> set ts"
  shows "checkBlockedTokens e tok P s = (Inr (), s)"
  using assms by (simp add: checkBlockedTokens_def)

lemma gate_open:
  assumes "accepted P verify ctx s tok claims s1"
  shows "TokenVerifier_middleware verify P nxt ctx s =
    nxt (ctx\<lparr>ctx_tokenExpiry := Some (tc_expiry claims),
             ctx_authenticatedUser := Some (zero_apiUser\<lparr>ao_name := tc_name claims, au_email := tc_email claims,
               au_groups := tc_groups claims\<rparr>)\<rparr>) s1"
  using assms by (simp add: accepted_def TokenVerifier_middleware_def Let_def)

lemma gate_closed:
  assumes "\<nexists>tok claims s1. accepted P verify ctx s tok claims s1"
  shows "\<exists>e s1. \<forall>nxt. TokenVerifier_middleware verify P nxt ctx s = (Inl e, s1)"
proof (cases "ctx_noTokenFound ctx = None \<and> (\<exists>tok. ctx_rawToken ctx = Some tok \<and> tok \<noteq> [])")
  case True
  then obtain tok where tok: "ctx_noTokenFound ctx = None" "ctx_rawToken ctx = Some tok" "tok \<noteq> []" by blast
  obtain r s1 where v: "verify tok s = (r, s1)" by (cases "verify tok s")
  show ?thesis
  proof (cases r)
    case (Inl e)
    with v tok show ?thesis by (simp add: TokenVerifier_middleware_def)
  next
    case (Inr claims)
    obtain b where b: "checkBlockedTokens (tc_email claims) tok P s1 = (b, s1)"
      using readsE[OF checkBlockedTokens_reads] by blast
    have "tc_subject claims = [] \<or> isl b"
      using assms tok v Inr b by (cases b) (auto simp: accepted_def)
    with v tok Inr b show ?thesis
      by (cases "tc_subject claims = []"; cases b) (auto simp: TokenVerifier_middleware_def Let_def)
  qed
next
  case False
  then show ?thesis
    by (cases "ctx_noTokenFound ctx"; cases "ctx_rawToken ctx") (auto simp: TokenVerifier_middleware_def)
qed

end

interpretation directory: user_directory "kube_userProvider E" for E :: "('s, 'x) env_scheme"
  by unfold_locales (simp_all add: reads_UserByEmail reads_GetInvalidatedTokens)

text \<open>
  C7: no request passes unauthenticated. Either the middleware runs the next endpoint, as the user the
  claims name, and then a non-empty token was extracted, the verifier accepted it with a subject, and
  it is not among the revoked tokens of the user who has the claimed address; or the answer is an error
  that does not depend on the next endpoint, which is not run.
\<close>

theorem TokenVerifier_gate:
  fixes E :: "('s, 'x) env_scheme" and ctx :: "('s, 'p) reqctx"
  shows "(\<exists>tok claims s1. ctx_noTokenFound ctx = None \<and> ctx_rawToken ctx = Some tok \<and> tok \<noteq> [] \<and>
       verify tok s = (Inr claims, s1) \<and> tc_subject claims \<noteq> [] \<and>
       (\<forall>u ts. UserByEmail E (tc_email claims) s1 = (Inr u, s1) \<and> GetInvalidatedTokens E (Some u) s1 = (Inr ts, s1) \<longrightarrow> tok \<notin> set ts) \<and>
       (\<forall>nxt. TokenVerifier_middleware verify (kube_userProvider E) nxt ctx s =
         nxt (ctx\<lparr>ctx_tokenExpiry := Some (tc_expiry claims),
                  ctx_authenticatedUser := Some (zero_apiUser\<lparr>ao_name := tc_name claims, au_email := tc_email claims,
                    au_groups := tc_groups claims\<rparr>)\<rparr>) s1)) \<or>
    (\<exists>e s1. \<forall>nxt. TokenVerifier_middleware verify (kube_userProvider E) nxt ctx s = (Inl e, s1))"
proof (cases "\<exists>tok claims s1. accepted (kube_userProvider E) verify ctx s tok claims s1")
  case True
  then obtain tok claims s1 where a: "accepted (kube_userProvider E) verify ctx s tok claims s1" by blast
  have "tok \<notin> set ts"
    if "UserByEmail E (tc_email claims) s1 = (Inr u, s1)" "GetInvalidatedTokens E (Some u) s1 = (Inr ts, s1)" for u ts
    using a that directory.checkBlockedTokens_Inr[where E = E and u = u]
    by (fastforce simp: accepted_def)
  then show ?thesis
    using a directory.gate_open[OF a] by (intro disjI1 exI[of _ tok] exI[of _ claims] exI[of _ s1]) (auto simp: accepted_def)
next
  case False
  from directory.gate_closed[OF False] show ?thesis by blast
qed

section \<open>Revoking tokens\<close>

text \<open>
  What the blacklist relies on: the names of the secret are not empty, and decoding what the JSON
  encoder wrote gives the tokens back (times are rounded to seconds, so not the whole records).
\<close>

definition blacklist_ok :: "'x sdk_scheme \<Rightarrow> bool" where
  "blacklist_ok K \<longleftrightarrow>
     kubermaticNamespace K \<noteq> [] \<and> tokenBlacklistKey K \<noteq> [] \<and> (\<forall>u. invalidTokensSecretName K u \<noteq> []) \<and>
     (\<forall>ts d. marshalTokens K ts = Inr d \<longrightarrow>
        d \<noteq> [] \<and> (\<exists>ts'. unmarshalTokens K d = Inr ts' \<and> map bt_token ts' = map bt_token ts))"

definition blacklist_ref :: "'x sdk_scheme \<Rightarrow> user \<Rightarrow> string \<times> string" where
  "blacklist_ref K u = (kubermaticNamespace K, invalidTokensSecretName K u)"

text \<open>The reference a user carries to the secret is the one the code writes.\<close>

definition ref_ok :: "'x sdk_scheme \<Rightarrow> user \<Rightarrow> bool" where
  "ref_ok K u \<longleftrightarrow> us_invalidTokensReference u = None \<or> us_invalidTokensReference u = Some (blacklist_ref K u)"

text \<open>The tokens stored for a user; none when there is no secret yet.\<close>

definition stored_blacklist :: "'x sdk_scheme \<Rightarrow> store \<Rightarrow> user \<Rightarrow> blacklistToken list option" where
  "stored_blacklist K st u =
     (case lookup_key (blacklist_ref K u) (st_secrets st) of
        Inl _ \<Rightarrow> Some []
      | Inr sec \<Rightarrow> (case data_lookup (sec_data sec) (tokenBlacklistKey K) of
          None \<Rightarrow> None
        | Some d \<Rightarrow> if d = [] then Some []
                    else (case unmarshalTokens K d of Inl _ \<Rightarrow> None | Inr ts \<Rightarrow> Some ts)))"

text \<open>The reading of the clock after \<open>n\<close> readings, and what is not expired when each token is looked at.\<close>

fun clock_at :: "('s, 'x) env_scheme \<Rightarrow> nat \<Rightarrow> 's \<Rightarrow> time" where
  "clock_at E 0 s = fst (clock E s)"
| "clock_at E (Suc n) s = clock_at E n (snd (clock E s))"

fun unexpired :: "('s, 'x) env_scheme \<Rightarrow> blacklistToken list \<Rightarrow> 's \<Rightarrow> blacklistToken list" where
  "unexpired E [] s = []"
| "unexpired E (b # ts) s = (if fst (clock E s) < bt_expiry b then [b] else []) @ unexpired E ts (snd (clock E s))"

lemma unexpired_mem: "x \<in> set (unexpired E ts s) \<Longrightarrow> x \<in> set ts \<and> (\<exists>s. fst (clock E s) < bt_expiry x)"
  by (induction ts arbitrary: s) (auto split: if_splits)

lemma unexpired_last: "clock_at E (length ts) s < bt_expiry b \<Longrightarrow> b \<in> set (unexpired E (ts @ [b]) s)"
  by (induction ts arbitrary: s) auto

lemma clearExpiredTokens_run:
  assumes api: "api_ok V E"
  shows "\<exists>t. clearExpiredTokens E ts s = (Inr (unexpired E ts s), t) \<and> V t = V s"
proof -
  define f where "f = (\<lambda>(b :: blacklistToken) acc. bindA (nowA E) (\<lambda>now. retA (if now < bt_expiry b then acc @ [b] else acc)))"
  have "\<exists>t. foldA f ts acc s = (Inr (acc @ unexpired E ts s), t) \<and> V t = V s" for acc
  proof (induction ts arbitrary: acc s)
    case Nil
    show ?case by simp
  next
    case (Cons b ts)
    obtain now s1 where n: "clock E s = (now, s1)" by (cases "clock E s")
    then have V1: "V s1 = V s" using api_ok_clock[OF api, of s] by simp
    let ?keep = "if now < bt_expiry b then [b] else []"
    have step: "f b acc s = (Inr (acc @ ?keep), s1)" by (simp add: f_def n)
    have "(acc @ ?keep) @ unexpired E ts s1 = acc @ unexpired E (b # ts) s" using n by simp
    with Cons.IH[of "acc @ ?keep" s1] V1 show ?case
      unfolding foldA.simps bindA_Inr[where m = "f b acc", OF step] by metis
  qed
  from this[of "[]"] show ?thesis by (simp add: clearExpiredTokens_def f_def)
qed

lemma find_map_same:
  "(\<And>x. x \<in> set xs \<Longrightarrow> p (f x) = p x) \<Longrightarrow> List.find p (map f xs) = map_option f (List.find p xs)"
  by (induction xs) auto

text \<open>Making sure of the secret: afterwards it is stored, and the user refers to it.\<close>

definition new_blacklist :: "'x sdk_scheme \<Rightarrow> user \<Rightarrow> secret" where
  "new_blacklist K u = zero_secret\<lparr>om_name := invalidTokensSecretName K u, om_namespace := kubermaticNamespace K,
     sec_type := ''Opaque'', sec_data := Some [(tokenBlacklistKey K, [])]\<rparr>"

lemma ensureTokenBlacklistSecret_split:
  assumes api: "api_ok V E" and ok: "blacklist_ok E"
    and e: "ensureTokenBlacklistSecret E u s = (Inr sec, t)"
  obtains s1 where "case lookup_key (blacklist_ref E u) (st_secrets (V s)) of
        Inr x \<Rightarrow> sec = x \<and> s1 = s | Inl _ \<Rightarrow> kCreate (cs_secrets (privileged E)) (new_blacklist E u) s = (Inr sec, s1)"
    and "if us_invalidTokensReference u = None
         then \<exists>x. kUpdate (cs_users (privileged E)) (u\<lparr>us_invalidTokensReference := Some (blacklist_ref E u)\<rparr>) s1 = (Inr x, t)
         else t = s1"
proof (cases "lookup_key (blacklist_ref E u) (st_secrets (V s))")
  case (Inl er)
  then have "er = NewNotFound" by (simp add: lookup_key_def split: option.splits)
  with e Inl show ?thesis
    by (auto simp: ensureTokenBlacklistSecret_def Let_def bindA_eq_Inr[where m = "wrapA _ _"] wrapA_eq_Inr
        api_ok_gets[OF api] blacklist_ref_def has_reason_def new_blacklist_def zero_defs tryA_def bindA_def[of "\<lambda>s. _"]
        split: if_splits intro: that)
next
  case (Inr x)
  then have "om_name x \<noteq> []" using ok lookup_key_mem[OF Inr]
    by (simp add: key_of_def blacklist_ref_def blacklist_ok_def)
  with e Inr show ?thesis
    by (auto simp: ensureTokenBlacklistSecret_def Let_def bindA_eq_Inr[where m = "wrapA _ _"] wrapA_eq_Inr
        api_ok_gets[OF api] blacklist_ref_def tryA_def bindA_def[of "\<lambda>s. _"]
        split: if_splits intro: that)
qed

text \<open>\<open>u'\<close> is what the store has for \<open>u\<close> afterwards.\<close>

lemma ensureTokenBlacklistSecret_secret:
  assumes api: "api_ok V E" and ok: "blacklist_ok E" and keys: "keys_ok (st_secrets (V s))"
    and e: "ensureTokenBlacklistSecret E u s = (Inr sec, t)"
  shows "key_of sec = blacklist_ref E u" and "sec \<in> set (st_secrets (V t))" and "keys_ok (st_secrets (V t))"
    and "stored_blacklist E (V t) u = stored_blacklist E (V s) u"
proof -
  note ws = clientset_okD(5)[OF api_ok_privileged[OF api]] and wu = clientset_okD(1)[OF api_ok_privileged[OF api]]
  from api ok e obtain s1 where s1: "case lookup_key (blacklist_ref E u) (st_secrets (V s)) of
        Inr x \<Rightarrow> sec = x \<and> s1 = s | Inl _ \<Rightarrow> kCreate (cs_secrets (privileged E)) (new_blacklist E u) s = (Inr sec, s1)"
    and t: "if us_invalidTokensReference u = None
         then \<exists>x. kUpdate (cs_users (privileged E)) (u\<lparr>us_invalidTokensReference := Some (blacklist_ref E u)\<rparr>) s1 = (Inr x, t)
         else t = s1" by (rule ensureTokenBlacklistSecret_split)
  have V: "st_secrets (V t) = st_secrets (V s1)" using t update_V[OF wu] by (auto split: if_splits)
  have k: "key_of (new_blacklist E u) = blacklist_ref E u"
    by (simp add: new_blacklist_def key_of_def blacklist_ref_def)
  have "key_of sec = blacklist_ref E u \<and> sec \<in> set (st_secrets (V s1)) \<and> keys_ok (st_secrets (V s1)) \<and>
      stored_blacklist E (V s1) u = stored_blacklist E (V s) u"
  proof (cases "lookup_key (blacklist_ref E u) (st_secrets (V s))")
    case (Inr x)
    then show ?thesis using s1 keys lookup_key_mem[OF Inr] by simp
  next
    case (Inl er)
    with s1 have c: "kCreate (cs_secrets (privileged E)) (new_blacklist E u) s = (Inr sec, s1)" by simp
    have key: "key_of sec = blacklist_ref E u" using same_objectD(3)[OF create_same[OF ws c]] k by simp
    have fresh: "blacklist_ref E u \<notin> key_of ` set (st_secrets (V s))" using create_fresh[OF ws c] k by simp
    have "sec_data sec = Some [(tokenBlacklistKey E, [])]"
      using same_secret(1)[OF create_same[OF ws c]] by (simp add: new_blacklist_def)
    then show ?thesis
      using create_V[OF ws c] key keys fresh lookup_key_append[OF fresh, of sec] Inl
      by (simp add: keys_ok_def stored_blacklist_def data_lookup_def image_iff)
  qed
  then show "key_of sec = blacklist_ref E u" and "sec \<in> set (st_secrets (V t))" and "keys_ok (st_secrets (V t))"
    and "stored_blacklist E (V t) u = stored_blacklist E (V s) u"
    using V by (simp_all add: stored_blacklist_def)
qed

lemma ensureTokenBlacklistSecret_user:
  assumes api: "api_ok V E" and ok: "blacklist_ok E" and ref: "ref_ok E u"
    and keys: "keys_ok (st_users (V s))" and u: "u \<in> set (st_users (V s))"
    and e: "ensureTokenBlacklistSecret E u s = (Inr sec, t)"
  obtains u' where "us_email u' = us_email u" and "key_of u' = key_of u"
    and "us_invalidTokensReference u' = Some (blacklist_ref E u)"
    and "st_users (V t) = map (\<lambda>y. if key_of y = key_of u then u' else y) (st_users (V s))"
proof -
  note ws = clientset_okD(5)[OF api_ok_privileged[OF api]] and wu = clientset_okD(1)[OF api_ok_privileged[OF api]]
  from api ok e obtain s1 where s1: "case lookup_key (blacklist_ref E u) (st_secrets (V s)) of
        Inr x \<Rightarrow> sec = x \<and> s1 = s | Inl _ \<Rightarrow> kCreate (cs_secrets (privileged E)) (new_blacklist E u) s = (Inr sec, s1)"
    and t: "if us_invalidTokensReference u = None
         then \<exists>x. kUpdate (cs_users (privileged E)) (u\<lparr>us_invalidTokensReference := Some (blacklist_ref E u)\<rparr>) s1 = (Inr x, t)
         else t = s1" by (rule ensureTokenBlacklistSecret_split)
  have V1: "st_users (V s1) = st_users (V s)" using s1 create_V[OF ws] by (auto split: sum.splits)
  show ?thesis
  proof (cases "us_invalidTokensReference u = None")
    case True
    with t obtain x where c: "kUpdate (cs_users (privileged E)) (u\<lparr>us_invalidTokensReference := Some (blacklist_ref E u)\<rparr>) s1 = (Inr x, t)"
      by auto
    show ?thesis
      using that[of x] same_user[OF update_same[OF wu c]] update_V[OF wu c] V1 by (simp add: key_of_def)
  next
    case False
    have "(if key_of y = key_of u then u else y) = y" if "y \<in> set (st_users (V s))" for y
      using that u keys by (auto simp: keys_ok_def distinct_map inj_on_def)
    then have "st_users (V s) = map (\<lambda>y. if key_of y = key_of u then u else y) (st_users (V s))"
      by (simp add: map_idI)
    then show ?thesis using that[of u] False t V1 ref by (auto simp: ref_ok_def)
  qed
qed

text \<open>Reading the list of a user who refers to a stored secret.\<close>

lemma GetInvalidatedTokens_run:
  assumes api: "api_ok V E" and ok: "blacklist_ok E"
    and ref: "us_invalidTokensReference u' = Some (blacklist_ref E u)"
    and sec: "lookup_key (blacklist_ref E u) (st_secrets (V s)) = Inr sec"
    and d: "data_lookup (sec_data sec) (tokenBlacklistKey E) = Some d" "d \<noteq> []" "unmarshalTokens E d = Inr ts"
  shows "GetInvalidatedTokens E (Some u') s = (Inr (map bt_token ts), s)"
  using assms
  by (simp add: GetInvalidatedTokens_def secretKeySelectorValue_def blacklist_ref_def blacklist_ok_def api_ok_gets)

lemma InvalidateToken_InrD:
  assumes api: "api_ok V E" and ok: "blacklist_ok E" and ref: "ref_ok E u"
    and keys: "keys_ok (st_users (V s))" "keys_ok (st_secrets (V s))" and u: "u \<in> set (st_users (V s))"
    and inv: "InvalidateToken E (Some u) tok expiry s = (Inr (), t)"
  obtains u' old kept sec s1 where "stored_blacklist E (V s) u = Some old"
    and "ensureTokenBlacklistSecret E u s = (Inr sec, s1)"
    and "kept = unexpired E (old @ [\<lparr>bt_token = tok, bt_expiry = expiry\<rparr>]) s1"
    and "us_email u' = us_email u" and "key_of u' = key_of u"
    and "st_users (V t) = map (\<lambda>y. if key_of y = key_of u then u' else y) (st_users (V s))"
    and "GetInvalidatedTokens E (Some u') t = (Inr (map bt_token kept), t)"
proof -
  note ws = clientset_okD(5)[OF api_ok_privileged[OF api]]
  let ?n = "\<lparr>bt_token = tok, bt_expiry = expiry\<rparr>"
  from inv obtain sec s1 where e: "ensureTokenBlacklistSecret E u s = (Inr sec, s1)"
    and rest: "(case data_lookup (sec_data sec) (tokenBlacklistKey E) of
        None \<Rightarrow> failA (Plain ''secret has no blacklist key'')
      | Some d \<Rightarrow> bindA (if d \<noteq> [] then liftA (unmarshalTokens E d) else retA []) (\<lambda>old.
          bindA (clearExpiredTokens E (old @ [?n])) (\<lambda>kept.
          bindA (liftA (marshalTokens E kept)) (\<lambda>json.
          bindA (kUpdate (cs_secrets (privileged E)) (sec\<lparr>sec_data := Some [(tokenBlacklistKey E, json)]\<rparr>)) (\<lambda>_.
            retA ()))))) s1 = (Inr (), t)"
    by (auto simp: InvalidateToken_def bindA_eq_Inr[where m = "ensureTokenBlacklistSecret _ _"] split: if_splits)
  from rest obtain d where d: "data_lookup (sec_data sec) (tokenBlacklistKey E) = Some d"
    by (cases "data_lookup (sec_data sec) (tokenBlacklistKey E)") auto
  define old where "old = (case unmarshalTokens E d of Inr ts \<Rightarrow> if d = [] then [] else ts | Inl _ \<Rightarrow> [])"
  from rest d obtain kept s2 json sec' where old: "if d = [] then old = [] else unmarshalTokens E d = Inr old"
    and kept: "clearExpiredTokens E (old @ [?n]) s1 = (Inr kept, s2)" and json: "marshalTokens E kept = Inr json"
    and upd: "kUpdate (cs_secrets (privileged E)) (sec\<lparr>sec_data := Some [(tokenBlacklistKey E, json)]\<rparr>) s2 = (Inr sec', t)"
    by (cases "d = []"; cases "unmarshalTokens E d") (auto simp: bindA_eq_Inr old_def)
  note es = ensureTokenBlacklistSecret_secret[OF api ok keys(2) e]
  from ensureTokenBlacklistSecret_user[OF api ok ref keys(1) u e]
  obtain u' where u': "us_email u' = us_email u" "key_of u' = key_of u" "us_invalidTokensReference u' = Some (blacklist_ref E u)"
    "st_users (V s1) = map (\<lambda>y. if key_of y = key_of u then u' else y) (st_users (V s))" by blast
  from clearExpiredTokens_run[OF api, of "old @ [?n]" s1] kept
  have c: "V s2 = V s1" "kept = unexpired E (old @ [?n]) s1" by auto
  have look: "lookup_key (blacklist_ref E u) (st_secrets (V s1)) = Inr sec"
    using lookup_key_unique[OF es(3,2)] es(1) by simp
  then have "stored_blacklist E (V s1) u = Some old"
    using d old by (auto simp: stored_blacklist_def split: if_splits)
  then have "stored_blacklist E (V s) u = Some old" using es(4) by simp
  moreover have "GetInvalidatedTokens E (Some u') t = (Inr (map bt_token kept), t)"
  proof -
    from ok json obtain ts' where ts': "json \<noteq> []" "unmarshalTokens E json = Inr ts'" "map bt_token ts' = map bt_token kept"
      unfolding blacklist_ok_def by blast
    have k: "key_of sec' = key_of sec" and sd: "sec_data sec' = Some [(tokenBlacklistKey E, json)]"
      using same_objectD(3)[OF update_same[OF ws upd]] same_secret(1)[OF update_same[OF ws upd]]
      by (simp_all add: key_of_def)
    have "st_secrets (V t) = map (\<lambda>y. if key_of y = key_of sec then sec' else y) (st_secrets (V s1))"
      using update_V[OF ws upd] c(1) by (simp add: key_of_def)
    then have "lookup_key (blacklist_ref E u) (st_secrets (V t)) = Inr sec'"
      using look k es(1) by (simp add: lookup_key_map)
    from GetInvalidatedTokens_run[OF api ok u'(3) this _ ts'(1,2)] ts'(3) sd show ?thesis
      by (simp add: data_lookup_def)
  qed
  moreover have "st_users (V t) = st_users (V s1)" using update_V[OF ws upd] c(1) by simp
  ultimately show ?thesis using that u' c(2) e by simp
qed

text \<open>The lookup by address finds the updated record.\<close>

lemma UserByEmail_updated:
  assumes api: "api_ok V E" and u: "UserByEmail E e s = (Inr u, s)"
    and t: "st_users (V t) = map (\<lambda>y. if key_of y = key_of u then u' else y) (st_users (V s))"
    and keys: "keys_ok (st_users (V s))" and u': "us_email u' = us_email u"
  shows "UserByEmail E e t = (Inr u', t)"
proof -
  let ?f = "\<lambda>y. if key_of y = key_of u then u' else y"
  have f: "List.find (\<lambda>x. EqualFold (us_email x) e) (st_users (V s)) = Some u"
    using u by (simp add: UserByEmail_run api_ok_lists[OF api] split: option.splits)
  have "EqualFold (us_email (?f y)) e = EqualFold (us_email y) e" if "y \<in> set (st_users (V s))" for y
    using that keys find_SomeD[OF f] u' by (auto simp: keys_ok_def distinct_map inj_on_def)
  then have "List.find (\<lambda>x. EqualFold (us_email x) e) (map ?f (st_users (V s))) = Some u'"
    using f by (simp add: find_map_same)
  then show ?thesis using t by (simp add: UserByEmail_run api_ok_lists[OF api])
qed

lemma InvalidateToken_blocks:
  assumes api: "api_ok V E" and ok: "blacklist_ok E" and ref: "ref_ok E u"
    and keys: "keys_ok (st_users (V s))" "keys_ok (st_secrets (V s))"
    and user: "UserByEmail E email s = (Inr u, s)"
    and inv: "InvalidateToken E (Some u) tok expiry s = (Inr (), t)"
    and valid: "\<forall>sec s1 old. ensureTokenBlacklistSecret E u s = (Inr sec, s1) \<and> stored_blacklist E (V s) u = Some old \<longrightarrow>
                  clock_at E (length old) s1 < expiry"
  shows "checkBlockedTokens email tok (kube_userProvider E) t = (Inl UtilNotAuthorized, t)"
proof -
  have u: "u \<in> set (st_users (V s))" using UserByEmail_InrD(2)[OF api user] .
  from api ok ref keys u inv show ?thesis
  proof (rule InvalidateToken_InrD)
    fix u' old kept sec s1
    assume o: "stored_blacklist E (V s) u = Some old" "ensureTokenBlacklistSecret E u s = (Inr sec, s1)"
      and k: "kept = unexpired E (old @ [\<lparr>bt_token = tok, bt_expiry = expiry\<rparr>]) s1"
      and u': "us_email u' = us_email u"
        "st_users (V t) = map (\<lambda>y. if key_of y = key_of u then u' else y) (st_users (V s))"
      and g: "GetInvalidatedTokens E (Some u') t = (Inr (map bt_token kept), t)"
    have "\<lparr>bt_token = tok, bt_expiry = expiry\<rparr> \<in> set kept"
      unfolding k using valid o by (intro unexpired_last) simp
    then have "tok \<in> set (map bt_token kept)" by (auto intro: image_eqI[rotated])
    then show ?thesis
      using directory.checkBlockedTokens_revoked[where E = E] UserByEmail_updated[OF api user u'(2) keys(1) u'(1)] g by simp
  qed
qed

text \<open>
  C8: logging out revokes the token. Suppose a user logs out with a token that has not expired when it
  is put on his list. A later request that carries this token, and that the verifier still accepts for
  this user, is answered with Unauthorized by the middleware, whatever the endpoint behind it is.
\<close>

theorem logout_revokes_token:
  assumes api: "api_ok V E" and ok: "blacklist_ok E" and ref: "ref_ok E u"
    and keys: "keys_ok (st_users (V s))" "keys_ok (st_secrets (V s))"
    and user: "UserByEmail E email s = (Inr u, s)"
    and logout: "LogoutEndpoint (kube_userProvider E) (Some u) (Some tok) (Some expiry) s = (Inr (), t)"
    and valid: "\<forall>sec s1 old. ensureTokenBlacklistSecret E u s = (Inr sec, s1) \<and> stored_blacklist E (V s) u = Some old \<longrightarrow>
                  clock_at E (length old) s1 < expiry"
    and verified: "verify tok t = (Inr claims, t)" "tc_email claims = email" "tc_subject claims \<noteq> []"
    and request: "ctx_rawToken ctx = Some tok" "ctx_noTokenFound ctx = None"
  shows "TokenVerifier_middleware verify (kube_userProvider E) nxt ctx t = (Inl UtilNotAuthorized, t)"
proof -
  have tok: "tok \<noteq> []" and inv: "InvalidateToken E (Some u) tok expiry s = (Inr (), t)"
    using logout by (auto simp: LogoutEndpoint_def split: if_splits)
  from InvalidateToken_blocks[OF api ok ref keys user inv valid] show ?thesis
    using verified request tok by (simp add: TokenVerifier_middleware_def Let_def)
qed

text \<open>
  C9: a token that carries no expiry, such as that of a service account, is not revoked by logging
  out: its zero expiry lies in the past, so it is dropped from the list in the very call that adds it.
  If it was not on the list before, the middleware still lets it through afterwards.
\<close>

theorem logout_keeps_unexpiring_token:
  assumes api: "api_ok V E" and ok: "blacklist_ok E" and ref: "ref_ok E u"
    and keys: "keys_ok (st_users (V s))" "keys_ok (st_secrets (V s))"
    and user: "UserByEmail E email s = (Inr u, s)"
    and logout: "LogoutEndpoint (kube_userProvider E) (Some u) (Some tok) (Some 0) s = (Inr (), t)"
    and clock: "\<forall>s. 0 \<le> fst (clock E s)"
    and fresh: "\<forall>old. stored_blacklist E (V s) u = Some old \<longrightarrow> tok \<notin> bt_token ` set old"
  shows "checkBlockedTokens email tok (kube_userProvider E) t = (Inr (), t)"
proof -
  have u: "u \<in> set (st_users (V s))" using UserByEmail_InrD(2)[OF api user] .
  have inv: "InvalidateToken E (Some u) tok 0 s = (Inr (), t)"
    using logout by (auto simp: LogoutEndpoint_def split: if_splits)
  from api ok ref keys u inv show ?thesis
  proof (rule InvalidateToken_InrD)
    fix u' old kept sec s1
    assume o: "stored_blacklist E (V s) u = Some old"
      and k: "kept = unexpired E (old @ [\<lparr>bt_token = tok, bt_expiry = 0\<rparr>]) s1"
      and u': "us_email u' = us_email u"
        "st_users (V t) = map (\<lambda>y. if key_of y = key_of u then u' else y) (st_users (V s))"
      and g: "GetInvalidatedTokens E (Some u') t = (Inr (map bt_token kept), t)"
    have "x \<in> set old" if "x \<in> set kept" for x
      using unexpired_mem[of x E] that clock k by (fastforce simp: not_less[symmetric])
    then have "tok \<notin> set (map bt_token kept)" using o fresh by auto
    then show ?thesis
      using directory.checkBlockedTokens_passes[where E = E] UserByEmail_updated[OF api user u'(2) keys(1) u'(1)] g by simp
  qed
qed

section \<open>Witnesses\<close>

text \<open>A server whose clock stands five seconds after the zero time.\<close>

definition still_env :: "mem env" where
  "still_env = mem_env\<lparr>clock := (\<lambda>s. (5000000000, s))\<rparr>"

lemma still_api_ok: "api_ok mem_store still_env"
  using mem_api_ok by (simp add: api_ok_def still_env_def)

lemma still_blacklist_ok: "blacklist_ok still_env"
proof -
  have "\<exists>ts'. ref_unmarshal d = Inr ts' \<and> map bt_token ts' = map bt_token ts" if "ref_marshal ts = Inr d" for ts d
    using ref_unmarshal_marshal[OF that] by auto
  then show ?thesis by (auto simp: blacklist_ok_def still_env_def mem_env_def ref_marshal_def enc_nat_def)
qed

lemma world1_keys: "keys_ok (st_users (mem_store world1))" "keys_ok (st_secrets (mem_store world1))"
  by (simp_all add: keys_ok_def key_of_def mem_store_def world1_defs mem0_def)

lemma world1_bob: "UserByEmail still_env ''bob@acme.com'' world1 = (Inr bob, world1)" and bob_ref: "ref_ok still_env bob"
proof -
  have "EqualFold (us_email bob) ''bob@acme.com''" "us_invalidTokensReference bob = None" by code_simp+
  then show "UserByEmail still_env ''bob@acme.com'' world1 = (Inr bob, world1)" and "ref_ok still_env bob"
    by (simp_all add: UserByEmail_run api_ok_lists[OF still_api_ok] mem_store_def world1_def ref_ok_def)
qed

definition bob_claims :: TokenClaims where
  "bob_claims = zero_claims\<lparr>tc_email := ''bob@acme.com'', tc_subject := ''bob''\<rparr>"

definition bob_ctx :: "(mem, unit) reqctx" where
  "bob_ctx = \<lparr>ctx_noTokenFound = None, ctx_rawToken = Some ''tok'', ctx_tokenExpiry = None, ctx_authenticatedUser = None,
     ctx_userCR = None, ctx_userInfo = None, ctx_datacenter = None, ctx_seedsGetter = None, ctx_clusterProvider = None,
     ctx_privilegedClusterProvider = None, ctx_providers = []\<rparr>"

lemma still_clock: "fst (clock still_env s) = 5000000000" "clock_at still_env n s = 5000000000"
  by (simp add: still_env_def, induction n arbitrary: s) (simp_all add: still_env_def)

theorem TokenVerifier_gate_witness:
  "\<exists>tok ts. ctx_rawToken bob_ctx = Some tok \<and> GetInvalidatedTokens still_env (Some bob) world1 = (Inr ts, world1) \<and> tok \<notin> set ts"
proof -
  have ev: "fst (TokenVerifier_middleware (\<lambda>_. retA bob_claims) (kube_userProvider still_env) (\<lambda>_. retA ()) bob_ctx world1) = Inr ()"
    by code_simp
  have g: "GetInvalidatedTokens still_env (Some bob) world1 = (Inr [], world1)"
    by (simp add: GetInvalidatedTokens_def bob_def zero_defs)
  have e: "tc_email bob_claims = ''bob@acme.com''" by (simp add: bob_claims_def)
  from TokenVerifier_gate[of bob_ctx "\<lambda>_. retA bob_claims" world1 still_env] show ?thesis
  proof
    assume "\<exists>e s1. \<forall>nxt. TokenVerifier_middleware (\<lambda>_. retA bob_claims) (kube_userProvider still_env) nxt bob_ctx world1 =
      ((Inl e, s1) :: unit result \<times> mem)"
    then show ?thesis using ev by fastforce
  qed (use g e world1_bob in auto)
qed

theorem logout_revokes_token_witness:
  "\<exists>t. LogoutEndpoint (kube_userProvider still_env) (Some bob) (Some ''tok'') (Some 9000000000) world1 = (Inr (), t) \<and>
     TokenVerifier_middleware (\<lambda>_. retA bob_claims) (kube_userProvider still_env) (\<lambda>_. retA ()) bob_ctx t = (Inl UtilNotAuthorized, t)"
proof -
  have "\<not> isl (fst (LogoutEndpoint (kube_userProvider still_env) (Some bob) (Some ''tok'') (Some 9000000000) world1))"
    by code_simp
  from success_obtain[OF this] obtain t where
    e: "LogoutEndpoint (kube_userProvider still_env) (Some bob) (Some ''tok'') (Some 9000000000) world1 = (Inr (), t)" by auto
  have "TokenVerifier_middleware (\<lambda>_. retA bob_claims) (kube_userProvider still_env) (\<lambda>_. retA ()) bob_ctx t = (Inl UtilNotAuthorized, t)"
    by (rule logout_revokes_token[OF still_api_ok still_blacklist_ok bob_ref world1_keys world1_bob e, where claims = bob_claims])
      (simp_all add: still_clock bob_claims_def bob_ctx_def)
  with e show ?thesis by blast
qed

theorem logout_keeps_unexpiring_token_witness:
  "\<exists>t. LogoutEndpoint (kube_userProvider still_env) (Some bob) (Some ''tok'') (Some 0) world1 = (Inr (), t) \<and>
     checkBlockedTokens ''bob@acme.com'' ''tok'' (kube_userProvider still_env) t = (Inr (), t)"
proof -
  have "\<not> isl (fst (LogoutEndpoint (kube_userProvider still_env) (Some bob) (Some ''tok'') (Some 0) world1))"
    by code_simp
  from success_obtain[OF this] obtain t where
    e: "LogoutEndpoint (kube_userProvider still_env) (Some bob) (Some ''tok'') (Some 0) world1 = (Inr (), t)" by auto
  have "stored_blacklist still_env (mem_store world1) bob = Some []"
    by (simp add: stored_blacklist_def mem_store_def world1_def mem0_def lookup_key_def)
  then have "checkBlockedTokens ''bob@acme.com'' ''tok'' (kube_userProvider still_env) t = (Inr (), t)"
    by (intro logout_keeps_unexpiring_token[OF still_api_ok still_blacklist_ok bob_ref world1_keys world1_bob e])
      (simp_all add: still_clock)
  with e show ?thesis by blast
qed

end
