(* ===== verification/Token_Properties.thy ===== *)
theory Token_Properties
  imports Session_Properties
begin

text \<open>
  The life of a service account token: signed, stored, verified and revoked; and the chains of
  verifiers and extractors a request's token passes.
\<close>

section \<open>The token store\<close>

text \<open>What the verifier relies on: asked for one token id, the store has that token or reports that there is none.\<close>

definition by_id :: "string \<Rightarrow> ServiceAccountTokenListOptions option" where
  "by_id i = Some \<lparr>opt_tokenID = i, opt_tokenName = [], opt_labelSelector = None, opt_serviceAccountID = []\<rparr>"

definition sa_claims :: "CustomTokenClaim \<Rightarrow> TokenClaims" where
  "sa_claims c = zero_claims\<lparr>tc_name := ct_tokenID c, tc_email := ct_email c, tc_subject := ct_email c\<rparr>"

locale token_store =
  fixes P :: "'s PrivilegedServiceAccountTokenProvider" and stored :: "string \<Rightarrow> 's \<Rightarrow> secret result"
  assumes list_by_id: "i \<noteq> [] \<Longrightarrow> pstp_ListUnsecured P (by_id i) s = (map_sum (\<lambda>e. e) (\<lambda>x. [x]) (stored i s), s)"
begin

lemma verify_stored:
  assumes "authenticate tok s = (Inr (pub, c), t)" and "ct_tokenID c \<noteq> []"
    and "stored (ct_tokenID c) t = Inr x" and "data_lookup (sec_data x) ''token'' = Some tok'"
  shows "sa_Verify authenticate P tok s = (if tok' = tok then (Inr (sa_claims c), t) else (Inl TokenExpiredError, t))"
  using assms list_by_id[of "ct_tokenID c" t] by (simp add: sa_Verify_def by_id_def sa_claims_def)

lemma verify_missing:
  assumes "authenticate tok s = (Inr (pub, c), t)" and "ct_tokenID c \<noteq> []"
    and "stored (ct_tokenID c) t = Inl NewNotFound"
  shows "sa_Verify authenticate P tok s = (Inl TokenExpiredError, t)"
  using assms list_by_id[of "ct_tokenID c" t] by (simp add: sa_Verify_def by_id_def has_reason_def)

end

definition find_token :: "string \<Rightarrow> secret list \<Rightarrow> secret result" where
  "find_token i xs =
     (case List.find (\<lambda>x. om_name x = i) (map strip_token_name (filter (\<lambda>x. isToken (Some x)) xs)) of
        None \<Rightarrow> Inl NewNotFound | Some x \<Rightarrow> Inr x)"

definition kube_stored :: "('s, 'x) env_scheme \<Rightarrow> string \<Rightarrow> 's \<Rightarrow> secret result" where
  "kube_stored E i s = (case kList (cs_secrets (privileged E)) Everything s of Inl e \<Rightarrow> Inl e | Inr xs \<Rightarrow> find_token i xs)"

interpretation tokens: token_store "kube_privilegedServiceAccountTokenProvider E" "kube_stored E"
  for E :: "('s, 'x) env_scheme"
  by unfold_locales
    (simp add: kube_privilegedServiceAccountTokenProvider_def token_ListUnsecured_def by_id_def kube_stored_def
      find_token_def bindA_def Let_def split: sum.split option.split)

text \<open>The well-formed token secrets: distinct keys, in the one namespace, with the whole prefix.\<close>

definition tokens_wf :: "'x sdk_scheme \<Rightarrow> secret list \<Rightarrow> bool" where
  "tokens_wf K xs \<longleftrightarrow> keys_ok xs \<and>
     (\<forall>x \<in> set xs. isToken (Some x) \<longrightarrow> om_namespace x = kubermaticNamespace K \<and> hasTokenPrefix (om_name x))"

definition token_key :: "'x sdk_scheme \<Rightarrow> string \<Rightarrow> okey" where
  "token_key K i = (kubermaticNamespace K, addTokenPrefix i)"

lemma removeTokenPrefix_eq_iff:
  assumes "hasTokenPrefix n" and "\<not> hasTokenPrefix i"
  shows "removeTokenPrefix n = i \<longleftrightarrow> n = addTokenPrefix i"
  using assms by (auto simp: removeTokenPrefix_def addTokenPrefix_def hasTokenPrefix_def HasPrefix_iff)

lemma tokens_wf_stripped:
  assumes "tokens_wf K xs" and "\<not> hasTokenPrefix i" and "x \<in> set xs"
  shows "isToken (Some x) \<and> om_name (strip_token_name x) = i \<longleftrightarrow> key_of x = token_key K i"
proof -
  have "isToken (Some x)" if "om_name x = addTokenPrefix i" using that by (simp add: hasTokenPrefix_isToken)
  then show ?thesis
    using assms removeTokenPrefix_eq_iff[of "om_name x" i]
    by (auto simp: tokens_wf_def token_key_def key_of_def strip_token_name_def)
qed

lemma find_token_lookup:
  assumes "tokens_wf K xs" and "\<not> hasTokenPrefix i"
  shows "find_token i xs = map_sum (\<lambda>e. e) strip_token_name (lookup_key (token_key K i) xs)"
proof -
  have "List.find (\<lambda>x. om_name x = i) (map strip_token_name (filter (\<lambda>x. isToken (Some x)) ys)) =
      map_option strip_token_name (List.find (\<lambda>x. key_of x = token_key K i) ys)" if "set ys \<subseteq> set xs" for ys
    using that
  proof (induction ys)
    case (Cons y ys)
    then show ?case using tokens_wf_stripped[OF assms, of y] by (cases "isToken (Some y)") auto
  qed simp
  from this[of xs] show ?thesis by (simp add: find_token_def lookup_key_def split: option.split)
qed

section \<open>Creating, changing and deleting tokens\<close>

text \<open>The handlers as the server wires them for the caller \<open>u\<close>.\<close>

abbreviation createToken where
  "createToken E u \<equiv> createSAToken (kube_getter E u) (kube_serviceAccountTokenProvider E) (kube_privilegedServiceAccountTokenProvider E)"

abbreviation updateToken where
  "updateToken E u \<equiv> updateSAToken (kube_getter E u) (kube_serviceAccountTokenProvider E) (kube_privilegedServiceAccountTokenProvider E)"

abbreviation deleteToken where
  "deleteToken E u \<equiv> deleteSAToken (kube_getter E u) (kube_serviceAccountTokenProvider E) (kube_privilegedServiceAccountTokenProvider E)"

definition token_secret :: "'x sdk_scheme \<Rightarrow> user \<Rightarrow> string \<Rightarrow> string \<Rightarrow> string \<Rightarrow> string \<Rightarrow> secret" where
  "token_secret K sa pid n i tok = (genToken K sa pid n i tok)\<lparr>om_namespace := kubermaticNamespace K\<rparr>"

lemma token_secret_simps:
  "key_of (token_secret K sa pid n i tok) = token_key K i" "sec_data (token_secret K sa pid n i tok) = Some [(''token'', tok)]"
  "om_labels (token_secret K sa pid n i tok) = [(projectIDLabelKey K, pid), (tokenNameLabel, n)]"
  by (simp_all add: token_secret_def genToken_def key_of_def token_key_def labelTokenName_def)

lemmas token_provider_defs = kube_serviceAccountTokenProvider_def kube_privilegedServiceAccountTokenProvider_def
  token_Create_def token_CreateUnsecured_def token_Update_def token_UpdateUnsecured_def token_Delete_def
  token_DeleteUnsecured_def createImpersonationClientWrapperFromUserInfo_def

lemma createToken_client:
  assumes api: "api_ok V E" and c: "createToken E u sa pid n i tok s = (Inr x, t)"
  obtains cl y where "clientset_ok V cl" and "kCreate (cs_secrets cl) (token_secret E sa pid n i tok) s = (Inr y, t)"
    and "x = strip_token_name y"
  using c unfolding handlers_on_behalf
proof (rule me.on_behalf_cases)
  assume "pstp_CreateUnsecured (kube_privilegedServiceAccountTokenProvider E) (Some sa) pid n i tok s = (Inr x, t)"
  then show ?thesis using that[OF api_ok_privileged[OF api]]
    by (auto simp: token_provider_defs Let_def bindA_eq_Inr token_secret_def)
next
  fix ui
  assume "stp_Create (kube_serviceAccountTokenProvider E) (Some ui) (Some sa) pid n i tok s = (Inr x, t)"
  then show ?thesis
    by (auto simp: token_provider_defs Let_def bindA_eq_Inr wrapA_eq_Inr token_secret_def
        intro: that api_ok_impersonated[OF api])
qed

lemma updateToken_client:
  assumes api: "api_ok V E" and c: "updateToken E u x pid s = (Inr x', t)"
  obtains cl y where "clientset_ok V cl" and "kUpdate (cs_secrets cl) (prefixed_copy E x) s = (Inr y, t)"
    and "x' = strip_token_name y"
  using c unfolding handlers_on_behalf
proof (rule me.on_behalf_cases)
  assume "pstp_UpdateUnsecured (kube_privilegedServiceAccountTokenProvider E) (Some x) s = (Inr x', t)"
  then show ?thesis using that[OF api_ok_privileged[OF api]] by (auto simp: token_provider_defs bindA_eq_Inr)
next
  fix ui
  assume "stp_Update (kube_serviceAccountTokenProvider E) (Some ui) (Some x) s = (Inr x', t)"
  then show ?thesis
    by (auto simp: token_provider_defs bindA_eq_Inr wrapA_eq_Inr intro: that api_ok_impersonated[OF api])
qed

lemma deleteToken_effect:
  assumes api: "api_ok V E" and c: "deleteToken E u pid i s = (Inr (), t)"
  shows "V t = (V s)\<lparr>st_secrets := filter (\<lambda>x. key_of x \<noteq> token_key E i) (st_secrets (V s))\<rparr>"
  using c unfolding handlers_on_behalf
proof (rule me.on_behalf_cases)
  assume "pstp_DeleteUnsecured (kube_privilegedServiceAccountTokenProvider E) i s = (Inr (), t)"
  then have "kDelete (cs_secrets (privileged E)) (token_key E i) s = (Inr (), t)"
    by (auto simp: token_provider_defs token_key_def split: if_splits)
  from delete_V[OF clientset_okD(5)[OF api_ok_privileged[OF api]] this] show ?thesis by (simp add: store.defs)
next
  fix ui
  assume "stp_Delete (kube_serviceAccountTokenProvider E) (Some ui) i s = (Inr (), t)"
  then obtain cl where cl: "impersonated E (ui_email ui) (ui_groups ui) = Inr cl"
    and k: "kDelete (cs_secrets cl) (token_key E i) s = (Inr (), t)"
    by (auto simp: token_provider_defs token_key_def bindA_eq_Inr wrapA_eq_Inr split: if_splits)
  from delete_V[OF clientset_okD(5)[OF api_ok_impersonated[OF api cl]] k] show ?thesis by (simp add: store.defs)
qed

lemma createToken_effect:
  assumes api: "api_ok V E" and c: "createToken E u sa pid n i tok s = (Inr x, t)"
  obtains y where "V t = (V s)\<lparr>st_secrets := st_secrets (V s) @ [y]\<rparr>" and "same_object y (token_secret E sa pid n i tok)"
    and "token_key E i \<notin> key_of ` set (st_secrets (V s))" and "x = strip_token_name y"
  using api c
proof (rule createToken_client)
  fix cl y
  assume cl: "clientset_ok V cl" and k: "kCreate (cs_secrets cl) (token_secret E sa pid n i tok) s = (Inr y, t)"
    and x: "x = strip_token_name y"
  note w = clientset_okD(5)[OF cl]
  have "V t = (V s)\<lparr>st_secrets := st_secrets (V s) @ [y]\<rparr>" using create_V[OF w k] by (simp add: store.defs)
  then show ?thesis using that[of y] create_same[OF w k] create_fresh[OF w k] x by (simp add: token_secret_simps(1))
qed

lemma updateToken_effect:
  assumes api: "api_ok V E" and c: "updateToken E u x pid s = (Inr x', t)"
  obtains y where "V t = (V s)\<lparr>st_secrets := map (\<lambda>z. if key_of z = token_key E (om_name x) then y else z) (st_secrets (V s))\<rparr>"
    and "same_object y (prefixed_copy E x)" and "x' = strip_token_name y"
  using api c
proof (rule updateToken_client)
  fix cl y
  assume cl: "clientset_ok V cl" and k: "kUpdate (cs_secrets cl) (prefixed_copy E x) s = (Inr y, t)"
    and x': "x' = strip_token_name y"
  note w = clientset_okD(5)[OF cl]
  have "key_of (prefixed_copy E x) = token_key E (om_name x)" by (simp add: prefixed_copy_def key_of_def token_key_def)
  then have "V t = (V s)\<lparr>st_secrets := map (\<lambda>z. if key_of z = token_key E (om_name x) then y else z) (st_secrets (V s))\<rparr>"
    using update_V[OF w k] by (simp add: store.defs)
  then show ?thesis using that update_same[OF w k] x' by blast
qed

lemma kube_stored_api:
  assumes "api_ok V E" and "tokens_wf E (st_secrets (V s))" and "\<not> hasTokenPrefix i"
  shows "kube_stored E i s = map_sum (\<lambda>e. e) strip_token_name (lookup_key (token_key E i) (st_secrets (V s)))"
  using assms by (simp add: kube_stored_def api_ok_lists find_token_lookup)

lemma tokens_wf_append:
  assumes "tokens_wf K xs" and "key_of y = token_key K i" and "token_key K i \<notin> key_of ` set xs"
  shows "tokens_wf K (xs @ [y])"
  using assms by (auto simp: tokens_wf_def keys_ok_def token_key_def key_of_def)

lemma tokens_wf_filter: "tokens_wf K xs \<Longrightarrow> tokens_wf K (filter P xs)"
  by (auto simp: tokens_wf_def keys_ok_def distinct_map_filter)

lemma tokens_wf_map:
  assumes "tokens_wf K xs" and "key_of y = token_key K i"
  shows "tokens_wf K (map (\<lambda>z. if key_of z = token_key K i then y else z) xs)"
proof -
  have "key_of \<circ> (\<lambda>z. if key_of z = token_key K i then y else z) = key_of" using assms(2) by auto
  then show ?thesis using assms by (auto simp: tokens_wf_def keys_ok_def token_key_def key_of_def)
qed

section \<open>Verification follows the store\<close>

text \<open>
  C10: a token that was created is accepted. After any caller has stored a new token under a fresh id,
  a request that carries exactly this token is verified as the service account the token names; the
  caller sees the id without its prefix, exactly one secret was added, and the stored tokens stay well formed.
\<close>

theorem created_token_is_accepted:
  assumes api: "api_ok V E" and wf: "tokens_wf E (st_secrets (V s))" and i: "i \<noteq> []" "\<not> hasTokenPrefix i"
    and c: "createSAToken (kube_getter E u) (kube_serviceAccountTokenProvider E) (kube_privilegedServiceAccountTokenProvider E)
              sa pid n i tok s = (Inr x, t)"
    and auth: "authenticate tok t = (Inr (pub, claims), t)" "ct_tokenID claims = i"
  shows "sa_Verify authenticate (kube_privilegedServiceAccountTokenProvider E) tok t = (Inr (sa_claims claims), t) \<and>
     om_name x = i \<and> tokens_wf E (st_secrets (V t)) \<and> (\<exists>y. V t = (V s)\<lparr>st_secrets := st_secrets (V s) @ [y]\<rparr>)"
  using api c
proof (rule createToken_effect)
  fix y
  assume t: "V t = (V s)\<lparr>st_secrets := st_secrets (V s) @ [y]\<rparr>" and so: "same_object y (token_secret E sa pid n i tok)"
    and fresh: "token_key E i \<notin> key_of ` set (st_secrets (V s))" and x: "x = strip_token_name y"
  have key: "key_of y = token_key E i" and d: "data_lookup (sec_data y) ''token'' = Some tok"
    using same_objectD(3)[OF so] same_secret(1)[OF so] by (simp_all add: token_secret_simps data_lookup_def)
  have wf': "tokens_wf E (st_secrets (V t))" using tokens_wf_append[OF wf key fresh] t by simp
  have "kube_stored E i t = Inr (strip_token_name y)"
    using kube_stored_api[OF api wf' i(2)] lookup_key_append[OF fresh, of y] key t by simp
  then have "sa_Verify authenticate (kube_privilegedServiceAccountTokenProvider E) tok t = (Inr (sa_claims claims), t)"
    using tokens.verify_stored[where authenticate = authenticate and tok = tok and s = t and E = E, OF auth(1)] auth(2) i(1) d by (simp add: strip_token_name_def)
  moreover have "om_name x = i" using x key i(2) by (simp add: strip_token_name_def key_of_def token_key_def removeTokenPrefix_add)
  ultimately show ?thesis using wf' t by blast
qed

text \<open>
  C11: a token that was deleted or replaced is refused. After any caller has deleted a token, or has stored other
  token data under its id, a request that carries the old data is answered with the error for an
  expired token, even though its signature is still valid. The stored tokens stay well formed.
\<close>

theorem removed_token_is_refused:
  assumes api: "api_ok V E" and wf: "tokens_wf E (st_secrets (V s))" and i: "i \<noteq> []" "\<not> hasTokenPrefix i"
    and auth: "authenticate tok t = (Inr (pub, claims), t)" "ct_tokenID claims = i"
    and changed: "deleteSAToken (kube_getter E u) (kube_serviceAccountTokenProvider E)
                    (kube_privilegedServiceAccountTokenProvider E) pid i s = (Inr (), t) \<or>
                  updateSAToken (kube_getter E u) (kube_serviceAccountTokenProvider E)
                    (kube_privilegedServiceAccountTokenProvider E) x pid s = (Inr x', t) \<and>
                    om_name x = i \<and> data_lookup (sec_data x) ''token'' = Some tok' \<and> tok' \<noteq> tok"
  shows "sa_Verify authenticate (kube_privilegedServiceAccountTokenProvider E) tok t = (Inl TokenExpiredError, t) \<and>
     tokens_wf E (st_secrets (V t))"
  using changed
proof
  assume "deleteToken E u pid i s = (Inr (), t)"
  from deleteToken_effect[OF api this]
  have t: "st_secrets (V t) = filter (\<lambda>x. key_of x \<noteq> token_key E i) (st_secrets (V s))" by simp
  then have wf': "tokens_wf E (st_secrets (V t))" using tokens_wf_filter[OF wf] by simp
  have "kube_stored E i t = Inl NewNotFound" using kube_stored_api[OF api wf' i(2)] t by (simp add: lookup_key_filter)
  then show ?thesis using tokens.verify_missing[where authenticate = authenticate and tok = tok and s = t and E = E, OF auth(1)] auth(2) i(1) wf' by simp
next
  assume "updateToken E u x pid s = (Inr x', t) \<and> om_name x = i \<and>
    data_lookup (sec_data x) ''token'' = Some tok' \<and> tok' \<noteq> tok"
  then have upd: "updateToken E u x pid s = (Inr x', t)" and x: "om_name x = i" "data_lookup (sec_data x) ''token'' = Some tok'"
    and ne: "tok' \<noteq> tok" by simp_all
  from api upd show ?thesis
  proof (rule updateToken_effect)
    fix y
    assume "V t = (V s)\<lparr>st_secrets := map (\<lambda>z. if key_of z = token_key E (om_name x) then y else z) (st_secrets (V s))\<rparr>"
      and so: "same_object y (prefixed_copy E x)"
    then have t: "st_secrets (V t) = map (\<lambda>z. if key_of z = token_key E i then y else z) (st_secrets (V s))" using x(1) by simp
    have key: "key_of y = token_key E i" and d: "data_lookup (sec_data y) ''token'' = Some tok'"
      using same_objectD(3)[OF so] same_secret(1)[OF so] x by (simp_all add: prefixed_copy_def key_of_def token_key_def)
    have wf': "tokens_wf E (st_secrets (V t))" using tokens_wf_map[OF wf key] t by simp
    have "lookup_key (token_key E i) (st_secrets (V t)) =
        map_sum id (\<lambda>z. if key_of z = token_key E i then y else z) (lookup_key (token_key E i) (st_secrets (V s)))"
      unfolding t using key by (intro lookup_key_map) simp
    then have "lookup_key (token_key E i) (st_secrets (V t)) \<in> {Inr y, Inl NewNotFound}"
      by (auto simp: lookup_key_def split: option.splits if_splits dest: find_SomeD)
    then show ?thesis
      using kube_stored_api[OF api wf' i(2)] tokens.verify_missing[where authenticate = authenticate and tok = tok and s = t and E = E, OF auth(1)]
        tokens.verify_stored[where authenticate = authenticate and tok = tok and s = t and E = E, OF auth(1)] auth(2) i(1) wf' d ne by (auto simp: strip_token_name_def)
  qed
qed

text \<open>A service account and a verifier that reads the id from the token itself.\<close>

definition ci_account :: user where
  "ci_account = zero_user\<lparr>om_name := ''serviceaccount-ci'', us_name := ''ci'', us_email := ''serviceaccount-ci@sa.local'', us_project := ''p1''\<rparr>"

definition plain_auth :: "string \<Rightarrow> (mem, jwt_claims \<times> CustomTokenClaim) act" where
  "plain_auth tok = retA (\<lparr>jc_issuedAt = None, jc_notBefore = None, jc_expiry = None\<rparr>,
     \<lparr>ct_email = ''serviceaccount-ci@sa.local'', ct_projectID = ''p1'', ct_tokenID = ''t1''\<rparr>)"

definition world_token :: mem where
  "world_token = world1\<lparr>m_secrets := [token_secret mem_env ci_account ''p1'' ''deploy'' ''t1'' ''old'']\<rparr>"

lemma token_worlds_wf: "tokens_wf mem_env (st_secrets (mem_store world1))" "tokens_wf mem_env (st_secrets (mem_store world_token))"
  by (simp_all add: tokens_wf_def keys_ok_def mem_store_def world1_def world_token_def mem0_def token_secret_def genToken_def)

lemma t1_id: "''t1'' \<noteq> []" "\<not> hasTokenPrefix ''t1''"
  by code_simp+

theorem created_token_is_accepted_witness:
  "\<exists>x t c. createSAToken (kube_getter mem_env root_user) (kube_serviceAccountTokenProvider mem_env)
      (kube_privilegedServiceAccountTokenProvider mem_env) ci_account ''p1'' ''deploy'' ''t1'' ''tok'' world1 = (Inr x, t) \<and>
     sa_Verify plain_auth (kube_privilegedServiceAccountTokenProvider mem_env) ''tok'' t = (Inr (sa_claims c), t)"
proof -
  have "\<not> isl (fst (createToken mem_env root_user ci_account ''p1'' ''deploy'' ''t1'' ''tok'' world1))" by code_simp
  from success_obtain[OF this] obtain x t where
    e: "createToken mem_env root_user ci_account ''p1'' ''deploy'' ''t1'' ''tok'' world1 = (Inr x, t)" by blast
  have a: "plain_auth ''tok'' t = (Inr (\<lparr>jc_issuedAt = None, jc_notBefore = None, jc_expiry = None\<rparr>,
     \<lparr>ct_email = ''serviceaccount-ci@sa.local'', ct_projectID = ''p1'', ct_tokenID = ''t1''\<rparr>), t)" by (simp add: plain_auth_def)
  from created_token_is_accepted[where authenticate = plain_auth, OF mem_api_ok token_worlds_wf(1) t1_id e a] e
  show ?thesis by auto
qed

theorem removed_token_is_refused_witness:
  "\<exists>t. deleteSAToken (kube_getter mem_env root_user) (kube_serviceAccountTokenProvider mem_env)
      (kube_privilegedServiceAccountTokenProvider mem_env) ''p1'' ''t1'' world_token = (Inr (), t) \<and>
     sa_Verify plain_auth (kube_privilegedServiceAccountTokenProvider mem_env) ''old'' t = (Inl TokenExpiredError, t)"
proof -
  have "\<not> isl (fst (deleteToken mem_env root_user ''p1'' ''t1'' world_token))" by code_simp
  from success_obtain[OF this] obtain t where e: "deleteToken mem_env root_user ''p1'' ''t1'' world_token = (Inr (), t)" by auto
  have a: "plain_auth ''old'' t = (Inr (\<lparr>jc_issuedAt = None, jc_notBefore = None, jc_expiry = None\<rparr>,
     \<lparr>ct_email = ''serviceaccount-ci@sa.local'', ct_projectID = ''p1'', ct_tokenID = ''t1''\<rparr>), t)" by (simp add: plain_auth_def)
  from removed_token_is_refused[where authenticate = plain_auth, OF mem_api_ok token_worlds_wf(2) t1_id a _ disjI1[OF e]] e
  show ?thesis by auto
qed

section \<open>Duplicate token names\<close>

text \<open>
  For an administrator the check for a duplicate token name does not see any name. The endpoint
  asks for the tokens with the wanted name; for an administrator the name is compared with the ids of
  the tokens. As long as no token has that string as its id, the answer is the empty list, whatever the
  tokens of the service account are called.
\<close>

theorem admin_token_name_check_is_blind:
  assumes api: "api_ok V E" and admin: "us_isAdmin u" and n: "n \<noteq> []"
    and sel: "parseSelector E (projectIDLabelKey E) (om_name p) = Inr sel"
    and ids: "\<forall>x \<in> set (st_secrets (V s)). removeTokenPrefix (om_name x) \<noteq> n"
  shows "listSAToken E (kube_getter E u) (kube_serviceAccountTokenProvider E)
     (kube_privilegedServiceAccountTokenProvider E) p sa n s = (Inr [], s)"
proof -
  let ?xs = "filter (\<lambda>x. selects sel (om_labels x)) (st_secrets (V s))"
  have "List.find (\<lambda>x. om_name x = n) (map strip_token_name (filter (\<lambda>x. isToken (Some x)) ?xs)) = None"
    using ids by (auto simp: find_None_iff strip_token_name_def)
  then have "token_ListUnsecured E (Some \<lparr>opt_tokenID = n, opt_tokenName = [], opt_labelSelector = Some sel,
      opt_serviceAccountID = om_name sa\<rparr>) s = (Inl NewNotFound, s)"
    using n by (simp add: token_ListUnsecured_def Let_def api_ok_selects(2)[OF api] bindA_def)
  moreover obtain i where "kube_getter E u [] s = (Inr i, s)" "ui_isAdmin i"
    using admin by (simp add: UserInfoGetterFactory_def)
  ultimately show ?thesis
    using sel by (simp add: listSAToken_def Let_def kube_privilegedServiceAccountTokenProvider_def has_reason_def)
qed

theorem admin_token_name_check_is_blind_witness:
  "(\<exists>x \<in> set (m_secrets world_token). map_of (om_labels x) tokenNameLabel = Some ''deploy'') \<and>
   listSAToken mem_env (kube_getter mem_env root_user) (kube_serviceAccountTokenProvider mem_env)
     (kube_privilegedServiceAccountTokenProvider mem_env) proj1 ci_account ''deploy'' world_token = (Inr [], world_token)"
proof -
  have "removeTokenPrefix (om_name (token_secret mem_env ci_account ''p1'' ''deploy'' ''t1'' ''old'')) \<noteq> ''deploy''" by code_simp
  then have ids: "\<forall>x \<in> set (st_secrets (mem_store world_token)). removeTokenPrefix (om_name x) \<noteq> ''deploy''"
    by (simp add: mem_store_def world_token_def)
  have sel: "parseSelector mem_env (projectIDLabelKey mem_env) (om_name proj1) =
      Inr (LabelEquals (projectIDLabelKey mem_env) (om_name proj1))" by (simp add: mem_env_def)
  have "us_isAdmin root_user" by code_simp
  from admin_token_name_check_is_blind[OF mem_api_ok this _ sel ids]
  have "listSAToken mem_env (kube_getter mem_env root_user) (kube_serviceAccountTokenProvider mem_env)
     (kube_privilegedServiceAccountTokenProvider mem_env) proj1 ci_account ''deploy'' world_token = (Inr [], world_token)" by simp
  moreover have "map_of (om_labels (token_secret mem_env ci_account ''p1'' ''deploy'' ''t1'' ''old'')) tokenNameLabel = Some ''deploy''"
    by code_simp
  ultimately show ?thesis by (simp add: world_token_def)
qed

end
