(* ===== verification/Auth_Properties.thy ===== *)
theory Auth_Properties
  imports Session_Properties
begin

text \<open>
  The chains of verifiers and extractors, tokens split over several cookies, and the round trip of
  a signed token.
\<close>

section \<open>Chains of plugins\<close>

text \<open>A verifier's answer that ends the search: claims, or the news that the token has expired.\<close>

definition decisive :: "'a result \<Rightarrow> bool" where
  "decisive r = (case r of Inr _ \<Rightarrow> True | Inl e \<Rightarrow> isTokenExpired e)"

definition err_of :: "'a result \<Rightarrow> go_error" where
  "err_of r = (case r of Inl e \<Rightarrow> e | Inr _ \<Rightarrow> Plain [])"

lemma verify_plugins_spec:
  assumes "\<forall>p \<in> set ps. reads (p tok) \<and> fst (p tok s) \<noteq> Inl Panic"
  shows "verify_plugins ps tok errs s =
    (case List.find decisive (map (\<lambda>p. fst (p tok s)) ps) of
       Some r \<Rightarrow> (r, s)
     | None \<Rightarrow> (Inl (Aggregate (errs @ map (\<lambda>p. err_of (fst (p tok s))) ps)), s))"
  using assms
proof (induction ps arbitrary: errs)
  case Nil
  show ?case by simp
next
  case (Cons p ps)
  then obtain r where r: "p tok s = (r, s)" "r \<noteq> Inl Panic" by (metis fst_conv list.set_intros(1) readsE)
  show ?case
  proof (cases r)
    case (Inl e)
    have "verify_plugins (p # ps) tok errs s =
        (if isTokenExpired e then (Inl e, s) else verify_plugins ps tok (errs @ [e]) s)"
      using r Inl by simp
    with r Inl Cons show ?thesis by (simp add: decisive_def err_of_def split: option.split)
  next
    case (Inr c)
    with r show ?thesis by (simp add: decisive_def)
  qed
qed

text \<open>
  the chain of verifiers answers with the first decisive answer: the claims of the first verifier that
  accepts the token, or that the token has expired if a verifier before it says so. If no answer is
  decisive, the token is refused with all the errors in the order of the verifiers.
\<close>

theorem TokenVerifierPlugins_first_decisive:
  assumes "\<forall>p \<in> set ps. reads (p tok) \<and> fst (p tok s) \<noteq> Inl Panic" and "ps \<noteq> []"
  shows "TokenVerifierPlugins ps tok s =
    (case List.find decisive (map (\<lambda>p. fst (p tok s)) ps) of
       Some r \<Rightarrow> (r, s)
     | None \<Rightarrow> (Inl (Aggregate (map (\<lambda>p. err_of (fst (p tok s))) ps)), s))"
  using assms by (simp add: TokenVerifierPlugins_def verify_plugins_spec split: option.split)

theorem TokenVerifierPlugins_first_decisive_witness:
  "TokenVerifierPlugins [\<lambda>_. failA (Plain ''not mine''), \<lambda>_. failA TokenExpiredError, \<lambda>_. retA zero_claims] ''t'' mem0 =
     (Inl TokenExpiredError, mem0)"
  by (subst TokenVerifierPlugins_first_decisive) (simp_all add: reads_failA reads_retA decisive_def)

text \<open>
  The chains of extractors, combined extractors and plugins alike, take the token of the first extractor
  that finds one, and fail exactly when none does.
\<close>

theorem extractors_first_success:
  shows "(combined_Extract es r = Inr tok \<longleftrightarrow> List.find (\<lambda>x. \<not> isl x) (map (\<lambda>e. e r) es) = Some (Inr tok)) \<and>
    (TokenExtractorPlugins es r = Inr tok \<longleftrightarrow> List.find (\<lambda>x. \<not> isl x) (map (\<lambda>e. e r) es) = Some (Inr tok)) \<and>
    (isl (combined_Extract es r) \<longleftrightarrow> (\<forall>e \<in> set es. isl (e r))) \<and>
    (isl (TokenExtractorPlugins es r) \<longleftrightarrow> (\<forall>e \<in> set es. isl (e r)))"
proof -
  have p: "extract_plugins es r errs = Inr tok \<longleftrightarrow> List.find (\<lambda>x. \<not> isl x) (map (\<lambda>e. e r) es) = Some (Inr tok)"
    "isl (extract_plugins es r errs) \<longleftrightarrow> (\<forall>e \<in> set es. isl (e r))" for errs
    by (induction es arbitrary: errs) (auto split: sum.split)
  have c: "combined_Extract es r = Inr tok \<longleftrightarrow> List.find (\<lambda>x. \<not> isl x) (map (\<lambda>e. e r) es) = Some (Inr tok)"
    "isl (combined_Extract es r) \<longleftrightarrow> (\<forall>e \<in> set es. isl (e r))"
    by (induction es) (auto split: sum.split)
  show ?thesis using p c by (auto simp: TokenExtractorPlugins_def)
qed

definition token_request :: http_request where
  "token_request = \<lparr>rq_header = (\<lambda>_. ''Bearer abc''), rq_query = (\<lambda>_. []), rq_cookies = [], rq_vars = (\<lambda>_. None)\<rparr>"

theorem extractors_first_success_witness:
  "combined_Extract [queryParamBearerTokenExtractor ''token'', headerBearerTokenExtractor ''Authorization''] token_request =
     Inr ''abc'' \<and> isl (TokenExtractorPlugins [queryParamBearerTokenExtractor ''token''] token_request)"
  using extractors_first_success[of "[queryParamBearerTokenExtractor ''token'', headerBearerTokenExtractor ''Authorization'']"
      token_request "''abc''"]
    extractors_first_success[of "[queryParamBearerTokenExtractor ''token'']" token_request "[]"]
  by (simp add: queryParamBearerTokenExtractor_def headerBearerTokenExtractor_def token_request_def)

section \<open>Tokens split over cookies\<close>

lemma cookie_chunks_concat:
  assumes "\<forall>j < length vs. map_of cookies (indexed_cookie name (i + j)) = Some (vs ! j)"
    and "map_of cookies (indexed_cookie name (i + length vs)) = None"
  shows "cookie_chunks cookies name i = concat vs"
  using assms
proof (induction vs arbitrary: i)
  case Nil
  then show ?case by (subst cookie_chunks.simps) simp
next
  case (Cons v vs)
  have "map_of cookies (indexed_cookie name i) = Some v" using Cons.prems(1) by force
  moreover have "cookie_chunks cookies name (Suc i) = concat vs"
    using Cons.prems by (intro Cons.IH) auto
  ultimately show ?case by (subst cookie_chunks.simps) simp
qed

text \<open>
  A token that was split over the cookies name-1, name-2, ... is put together again: the extractor
  returns the chunks joined in the order of their numbers, whatever the order of the cookies in the
  request, and stops at the first missing number.
\<close>

theorem multi_cookie_token:
  assumes "\<forall>j < length vs. map_of (rq_cookies r) (indexed_cookie name (Suc j)) = Some (vs ! j)"
    and "map_of (rq_cookies r) (indexed_cookie name (Suc (length vs))) = None"
  shows "cookieHeaderBearerMultiTokenExtractor name r =
    (if concat vs = [] then Inl (Plain ''haven't found a Bearer token in the Cookie header'') else Inr (concat vs))"
  using cookie_chunks_concat[of vs "rq_cookies r" name 1] assms
  by (simp add: cookieHeaderBearerMultiTokenExtractor_def Let_def)

theorem multi_cookie_token_witness:
  "cookieHeaderBearerMultiTokenExtractor ''token''
     (token_request\<lparr>rq_cookies := [(''token-2'', ''def''), (''other'', ''x''), (''token-1'', ''abc'')]\<rparr>) = Inr ''abcdef''"
proof -
  let ?r = "token_request\<lparr>rq_cookies := [(''token-2'', ''def''), (''other'', ''x''), (''token-1'', ''abc'')]\<rparr>"
  have i: "indexed_cookie ''token'' (Suc 0) = ''token-1''" "indexed_cookie ''token'' (Suc (Suc 0)) = ''token-2''"
    "indexed_cookie ''token'' (Suc (Suc (Suc 0))) = ''token-3''" by code_simp+
  have "map_of (rq_cookies ?r) (indexed_cookie ''token'' (Suc j)) = Some ([''abc'', ''def''] ! j)"
    if "j < length [''abc'', ''def'']" for j
    using that by (cases j; cases "j - 1") (auto simp: i)
  then show ?thesis
    by (subst multi_cookie_token[where vs = "[''abc'', ''def'']"]) (simp_all add: i)
qed

section \<open>Signed tokens\<close>

text \<open>
  What the code relies on in the JOSE library: a token signed with a key can be parsed, and its claims
  read back with that key; claims are valid between their dates.
\<close>

definition jose_ok :: "jose \<Rightarrow> string \<Rightarrow> bool" where
  "jose_ok J key \<longleftrightarrow>
     (\<forall>signer c pub tok. newSigner J key = Inr signer \<and> serializeSigned J signer c pub = Inr tok \<longrightarrow>
        (\<exists>p. parseSigned J tok = Inr p \<and> tokenClaims J p key = Inr (c, pub))) \<and>
     (\<forall>a b e now. a \<le> now \<and> b \<le> now \<and> now \<le> e \<longrightarrow>
        validateAt J \<lparr>jc_issuedAt = newNumericDate J a, jc_notBefore = newNumericDate J b, jc_expiry = newNumericDate J e\<rparr> now = None)"

text \<open>
  a token that the generator signs is accepted by the authenticator with the same key, with
  exactly the claims it was made for, at any time from its creation until three years later; and the key
  has at least 32 bytes.
\<close>

theorem generated_token_authenticates:
  assumes jose: "jose_ok J key" and gen: "JWTTokenGenerator J key = Inr signer"
    and tok: "generate_token E J signer email pid i s = (Inr tok, t)"
    and now: "clock E s' = (now, t')"
    and dates: "clock_at E 0 s \<le> now" "clock_at E 1 s \<le> now" "now \<le> addYears 3 (clock_at E 2 s)"
  shows "\<exists>pub. Authenticate E J key tok s' = (Inr (pub, \<lparr>ct_email = email, ct_projectID = pid, ct_tokenID = i\<rparr>), t') \<and>
     32 \<le> length key"
proof -
  let ?pub = "\<lparr>jc_issuedAt = newNumericDate J (clock_at E 0 s), jc_notBefore = newNumericDate J (clock_at E 1 s),
     jc_expiry = newNumericDate J (addYears 3 (clock_at E 2 s))\<rparr>"
  let ?c = "\<lparr>ct_email = email, ct_projectID = pid, ct_tokenID = i\<rparr>"
  have key: "32 \<le> length key" and sig: "newSigner J key = Inr signer"
    using gen by (auto simp: JWTTokenGenerator_def ValidateKey_def split: if_splits)
  have "serializeSigned J signer ?c ?pub = Inr tok"
    using tok by (auto simp: generate_token_def Claims_def Generate_def bindA_eq_Inr nowA_def numeral_2_eq_2 split: prod.splits)
  with jose sig obtain p where p: "parseSigned J tok = Inr p" "tokenClaims J p key = Inr (?c, ?pub)"
    unfolding jose_ok_def by blast
  have "validateAt J ?pub now = None" using jose dates unfolding jose_ok_def by blast
  then have "Authenticate E J key tok s' = (Inr (?pub, ?c), t')"
    using p now by (simp add: Authenticate_def)
  with key show ?thesis by blast
qed

subsection \<open>A library that meets the hypotheses\<close>

text \<open>Tokens that carry their key and claims in clear, with dates in seconds and a leeway of a minute.\<close>

definition enc_str :: "string \<Rightarrow> string" where
  "enc_str s = enc_nat (length s) @ s"

definition dec_str :: "string \<Rightarrow> string \<times> string" where
  "dec_str s = (case dec_nat s of None \<Rightarrow> ([], []) | Some (n, r) \<Rightarrow> (take n r, drop n r))"

definition enc_date :: "int option \<Rightarrow> string" where
  "enc_date d = (case d of None \<Rightarrow> enc_nat 0 | Some i \<Rightarrow> enc_nat 1 @ enc_nat (nat i) @ enc_nat (nat (- i)))"

definition dec_date :: "string \<Rightarrow> int option \<times> string" where
  "dec_date s = (case dec_nat s of None \<Rightarrow> (None, []) | Some (n, r) \<Rightarrow>
     if n = 0 then (None, r)
     else (case dec_nat r of None \<Rightarrow> (None, []) | Some (p, r) \<Rightarrow>
       (case dec_nat r of None \<Rightarrow> (None, []) | Some (q, r) \<Rightarrow> (Some (int p - int q), r))))"

lemma dec_enc_str [simp]: "dec_str (enc_str s @ r) = (s, r)"
  by (simp add: dec_str_def enc_str_def)

lemma dec_enc_date [simp]: "dec_date (enc_date d @ r) = (d, r)"
  by (cases d) (auto simp: dec_date_def enc_date_def)

definition enc_token :: "string \<Rightarrow> CustomTokenClaim \<Rightarrow> jwt_claims \<Rightarrow> string" where
  "enc_token key c pub = enc_str key @ enc_str (ct_email c) @ enc_str (ct_projectID c) @ enc_str (ct_tokenID c) @
     enc_date (jc_issuedAt pub) @ enc_date (jc_notBefore pub) @ enc_date (jc_expiry pub)"

definition dec_token :: "string \<Rightarrow> string \<times> CustomTokenClaim \<times> jwt_claims" where
  "dec_token s = (let (key, s) = dec_str s; (email, s) = dec_str s; (pid, s) = dec_str s; (tid, s) = dec_str s;
     (iat, s) = dec_date s; (nbf, s) = dec_date s; (ex, s) = dec_date s
   in (key, \<lparr>ct_email = email, ct_projectID = pid, ct_tokenID = tid\<rparr>,
       \<lparr>jc_issuedAt = iat, jc_notBefore = nbf, jc_expiry = ex\<rparr>))"

lemma dec_enc_token: "dec_token (enc_token key c pub) = (key, c, pub)"
proof -
  have "dec_date (enc_date d) = (d, [])" for d using dec_enc_date[of d "[]"] by simp
  then show ?thesis by (simp add: dec_token_def enc_token_def)
qed

definition ref_jose :: jose where
  "ref_jose = \<lparr>newSigner = (\<lambda>key. Inr key), serializeSigned = (\<lambda>signer c pub. Inr (enc_token signer c pub)),
     newNumericDate = (\<lambda>t. Some (t div 1000000000)),
     numericTime = (\<lambda>d. case d of None \<Rightarrow> 0 | Some i \<Rightarrow> i * 1000000000),
     parseSigned = (\<lambda>tok. Inr tok),
     tokenClaims = (\<lambda>tok key. case dec_token tok of (k, c, pub) \<Rightarrow>
       if k = key then Inr (c, pub) else Inl (Plain ''error in cryptographic primitive'')),
     validateAt = (\<lambda>pub now. let sec = now div 1000000000 in
       if (case jc_notBefore pub of None \<Rightarrow> False | Some d \<Rightarrow> sec + 60 < d) then Some JwtErr
       else if (case jc_expiry pub of None \<Rightarrow> False | Some d \<Rightarrow> d < sec - 60) then Some ErrExpired
       else if (case jc_issuedAt pub of None \<Rightarrow> False | Some d \<Rightarrow> sec + 60 < d) then Some JwtErr
       else None)\<rparr>"

lemma ref_jose_ok: "jose_ok ref_jose key"
proof -
  have "a div 1000000000 \<le> now div 1000000000" if "a \<le> now" for a now :: int
    using that by (rule zdiv_mono1) simp
  then show ?thesis by (fastforce simp: jose_ok_def ref_jose_def dec_enc_token Let_def)
qed

end
