(* ===== verification/Project_Properties.thy ===== *)
theory Project_Properties
  imports User_Properties
begin

text \<open>
  What the project endpoints do: who becomes an owner, what the restrictions of the global settings
  forbid, what an update and a deletion change, and what a list shows.
\<close>

section \<open>The steps of the endpoints\<close>

lemmas kube_provider_defs = kube_projectProvider_def kube_privilegedProjectProvider_def kube_settingsProvider_def
  kube_memberMapper_def kube_memberProvider_def kube_privilegedMemberProvider_def kube_userProvider_def

lemma project_New_InrD:
  assumes api: "api_ok V E" and c: "project_New E spec ls s = (Inr p, t)"
  shows "V t = (V s)\<lparr>st_projects := st_projects (V s) @ [p]\<rparr>" and "pr_name p = ps_name spec" and "om_labels p = ls"
    and "key_of p \<notin> key_of ` set (st_projects (V s))"
proof -
  note w = clientset_okD(4)[OF api_ok_privileged[OF api]]
  from c obtain n s1 where n: "randA E s = (Inr n, s1)"
    and k: "kCreate (cs_projects (privileged E)) (zero_project\<lparr>om_name := n, om_labels := ls, pr_name := ps_name spec,
              pr_allowedOperatingSystems := ps_allowedOperatingSystems spec\<rparr>) s1 = (Inr p, t)"
    by (auto simp: project_New_def bindA_eq_Inr)
  have V1: "V s1 = V s" using api_ok_rand[OF api n] by simp
  show "V t = (V s)\<lparr>st_projects := st_projects (V s) @ [p]\<rparr>" using create_V[OF w k] V1 by (simp add: store.defs)
  show "pr_name p = ps_name spec" and "om_labels p = ls" using same_project[OF create_same[OF w k]] by simp_all
  show "key_of p \<notin> key_of ` set (st_projects (V s))"
    using create_fresh[OF w k] same_project(3)[OF create_same[OF w k]] V1 by simp
qed

lemma member_CreateUnsecured_effect:
  assumes api: "api_ok V E" and c: "member_CreateUnsecured E p e g s = (Inr b, t)"
  shows "V t = (V s)\<lparr>st_upbs := st_upbs (V s) @ [b]\<rparr> \<and> upb_projectID b = om_name p \<and>
         upb_userEmail b = e \<and> upb_group b = g \<and> \<not> isSA E e"
proof -
  have "\<not> isSA E e" and "bindA (genBinding E p e g) (\<lambda>bnd. kCreate (cs_upbs (privileged E)) bnd) s = (Inr b, t)"
    using c by (auto simp: member_CreateUnsecured_def split: if_splits)
  then show ?thesis using create_binding_effect[OF api api_ok_privileged[OF api]] by blast
qed

lemma reads_GetOwnersForProject [reads_intros]:
  "reads (GetOwnersForProject E i p (kube_memberProvider E) (kube_userProvider E))"
  unfolding GetOwnersForProject_def
  by (intro reads_intros) (simp_all add: kube_memberProvider_def reads_member_List reads_UserByEmail)

lemma reads_validateUserProjectsLimit:
  "reads (validateUserProjectsLimit E u g (kube_projectProvider E) (kube_privilegedProjectProvider E)
     (kube_memberMapper E) (kube_memberProvider E) (kube_userProvider E))"
  unfolding validateUserProjectsLimit_def count_owned_project_def
  by (intro reads_intros reads_let) (auto simp: kube_memberMapper_def intro!: reads_intros split: prod.split)

abbreviation createProject where
  "createProject E u req \<equiv> project_CreateEndpoint E (kube_projectProvider E) (kube_privilegedProjectProvider E)
     (kube_settingsProvider E) (kube_memberMapper E) (kube_memberProvider E) (kube_privilegedMemberProvider E)
     (kube_userProvider E) (Some u) (Some req)"

section \<open>Creating a project\<close>

lemma createProject_InrD:
  assumes "createProject E u req s = (Inr r, t)"
  obtains g s1 where "pq_name req \<noteq> []" and "GetGlobalSettings E s = (Inr g, s1)"
    and "us_isAdmin u \<or> \<not> gs_restrictProjectCreation g"
    and "validateUserProjectsLimit E u g (kube_projectProvider E) (kube_privilegedProjectProvider E)
           (kube_memberMapper E) (kube_memberProvider E) (kube_userProvider E) s1 = (Inr (), s1)"
    and "(if isSA E (us_email u) then createProjectByServiceAccount E (us_email u) req (kube_memberMapper E)
             (kube_userProvider E) (kube_privilegedMemberProvider E) (kube_projectProvider E)
          else bindA (httpA (pp_New (kube_projectProvider E)
                 \<lparr>ps_name = pq_name req, ps_allowedOperatingSystems = pq_allowedOperatingSystems req\<rparr> (pq_labels req))) (\<lambda>p.
               bindA (httpA (pmp_CreateUnsecured (kube_privilegedMemberProvider E) p (us_email u)
                       (groupNameFor E (om_name p) (ownerGroupPrefix E)))) (\<lambda>_.
                 retA (ConvertInternalProjectToExternal E p [owner_entry u] 0)))) s1 = (Inr r, t)"
  using assms
  by (auto simp: project_CreateEndpoint_def kube_settingsProvider_def Let_def checkProjectCreationRestriction_def
      bindA_eq_Inr[where m = "httpA (GetGlobalSettings _)"] wrapA_eq_Inr bind_reads[OF reads_validateUserProjectsLimit]
      split: if_splits)

text \<open>
  C12: whoever creates a project owns it. When a person creates a project, exactly one project with the
  requested name and labels is added, under a fresh id, and exactly one binding, of that person to the
  group of its owners; users, other bindings and secrets are left alone. A restriction in the settings stops
  everybody but administrators. If the new id carries no stale binding, the creator is mapped to the
  group of the owners from then on.
\<close>

theorem project_creator_is_owner:
  assumes api: "api_ok V E" and person: "\<not> isSA E (us_email u)"
    and created: "project_CreateEndpoint E (kube_projectProvider E) (kube_privilegedProjectProvider E)
       (kube_settingsProvider E) (kube_memberMapper E) (kube_memberProvider E) (kube_privilegedMemberProvider E)
       (kube_userProvider E) (Some u) (Some req) s = (Inr r, t)"
  shows "\<exists>p b g. st_projects (V t) = st_projects (V s) @ [p] \<and> st_upbs (V t) = st_upbs (V s) @ [b] \<and>
     st_users (V t) = st_users (V s) \<and> st_gpbs (V t) = st_gpbs (V s) \<and> st_secrets (V t) = st_secrets (V s) \<and>
     pr_name p = pq_name req \<and> om_labels p = pq_labels req \<and> key_of p \<notin> key_of ` set (st_projects (V s)) \<and>
     ao_id r = om_name p \<and> upb_projectID b = om_name p \<and> upb_userEmail b = us_email u \<and> upb_group b = g \<and>
     g = groupNameFor E (om_name p) (ownerGroupPrefix E) \<and>
     (\<exists>x s1. GetGlobalSettings E s = (Inr x, s1) \<and> (us_isAdmin u \<or> \<not> gs_restrictProjectCreation x)) \<and>
     (g \<noteq> [] \<and> (\<forall>m \<in> set (st_upbs (V s)). upb_projectID m \<noteq> om_name p) \<longrightarrow>
        MapUserToGroup E (us_email u) (om_name p) t = (Inr g, t))"
  using created
proof (rule createProject_InrD)
  fix x s1
  assume g: "GetGlobalSettings E s = (Inr x, s1)" "us_isAdmin u \<or> \<not> gs_restrictProjectCreation x"
    and rest: "(if isSA E (us_email u) then createProjectByServiceAccount E (us_email u) req (kube_memberMapper E)
             (kube_userProvider E) (kube_privilegedMemberProvider E) (kube_projectProvider E)
          else bindA (httpA (pp_New (kube_projectProvider E)
                 \<lparr>ps_name = pq_name req, ps_allowedOperatingSystems = pq_allowedOperatingSystems req\<rparr> (pq_labels req))) (\<lambda>p.
               bindA (httpA (pmp_CreateUnsecured (kube_privilegedMemberProvider E) p (us_email u)
                       (groupNameFor E (om_name p) (ownerGroupPrefix E)))) (\<lambda>_.
                 retA (ConvertInternalProjectToExternal E p [owner_entry u] 0)))) s1 = (Inr r, t)"
  from rest person obtain p s2 b where
      n: "project_New E \<lparr>ps_name = pq_name req, ps_allowedOperatingSystems = pq_allowedOperatingSystems req\<rparr> (pq_labels req) s1 = (Inr p, s2)"
    and c: "member_CreateUnsecured E p (us_email u) (groupNameFor E (om_name p) (ownerGroupPrefix E)) s2 = (Inr b, t)"
    and r: "r = ConvertInternalProjectToExternal E p [owner_entry u] 0"
    by (auto simp: bindA_eq_Inr wrapA_eq_Inr kube_projectProvider_def kube_privilegedMemberProvider_def)
  note f = GetGlobalSettings_frame[OF api g(1)] and p = project_New_InrD[OF api n]
    and b = member_CreateUnsecured_effect[OF api c]
  let ?g = "groupNameFor E (om_name p) (ownerGroupPrefix E)"
  have upbs: "st_upbs (V t) = st_upbs (V s) @ [b]" using b p(1) f by simp
  have map: "MapUserToGroup E (us_email u) (om_name p) t = (Inr ?g, t)"
    if "?g \<noteq> []" "\<forall>m \<in> set (st_upbs (V s)). upb_projectID m \<noteq> om_name p"
  proof -
    have "own_binding (st_upbs (V t)) (us_email u) (om_name p) = ?g"
      using that(2) b unfolding upbs own_binding_def
      by (auto simp: find_append split: option.split dest!: find_SomeD)
    then show ?thesis
      using that(1) by (simp add: MapUserToGroup_def bindA_def getUserBindingRole_run api_ok_lists[OF api])
  qed
  have "ao_id r = om_name p" by (simp add: r ConvertInternalProjectToExternal_def apiObject.defs)
  then show ?thesis
    using f p b upbs map g by (intro exI[of _ p] exI[of _ b] exI[of _ ?g]) auto
qed

definition shop_request :: projectReq where
  "shop_request = \<lparr>pq_name = ''shop'', pq_allowedOperatingSystems = [], pq_labels = [], pq_users = []\<rparr>"

theorem project_creator_is_owner_witness:
  "\<exists>r t (p :: project) b. project_CreateEndpoint mem_env (kube_projectProvider mem_env) (kube_privilegedProjectProvider mem_env)
       (kube_settingsProvider mem_env) (kube_memberMapper mem_env) (kube_memberProvider mem_env)
       (kube_privilegedMemberProvider mem_env) (kube_userProvider mem_env) (Some bob) (Some shop_request) world1 = (Inr r, t) \<and>
     st_upbs (mem_store t) = st_upbs (mem_store world1) @ [b] \<and> upb_userEmail b = us_email bob \<and>
     upb_projectID b = om_name p \<and> pr_name p = ''shop''"
proof -
  have "\<not> isl (fst (createProject mem_env bob shop_request world1))" by code_simp
  from success_obtain[OF this] obtain r t where e: "createProject mem_env bob shop_request world1 = (Inr r, t)" by blast
  have "\<not> isSA mem_env (us_email bob)" by code_simp
  from project_creator_is_owner[OF mem_api_ok this e] obtain p :: project and b where
    "st_upbs (mem_store t) = st_upbs (mem_store world1) @ [b]" "upb_userEmail b = us_email bob"
    "upb_projectID b = om_name p" "pr_name p = pq_name shop_request" by blast
  moreover have "pq_name shop_request = ''shop''" by (simp add: shop_request_def)
  ultimately show ?thesis using e by (intro exI[of _ r] exI[of _ t] exI[of _ p] exI[of _ b]) simp
qed

section \<open>Projects created by service accounts\<close>

text \<open>The loop that binds the people to the new project.\<close>

lemma bind_people_effect:
  assumes api: "api_ok V E"
    and "foldA (\<lambda>user _. bindA (httpA (member_CreateUnsecured E p (us_email user) g)) (\<lambda>_. retA ())) us () s = (Inr (), t)"
  shows "\<exists>bs. V t = (V s)\<lparr>st_upbs := st_upbs (V s) @ bs\<rparr> \<and> map upb_userEmail bs = map us_email us \<and>
    (\<forall>b \<in> set bs. upb_projectID b = om_name p \<and> upb_group b = g)"
  using assms(2)
proof (induction us arbitrary: s)
  case Nil
  then have "V t = (V s)\<lparr>st_upbs := st_upbs (V s) @ []\<rparr>" by simp
  then show ?case by (intro exI[of _ "[]"]) simp
next
  case (Cons u us)
  from Cons.prems obtain b s1 where c: "member_CreateUnsecured E p (us_email u) g s = (Inr b, s1)"
    and r: "foldA (\<lambda>user _. bindA (httpA (member_CreateUnsecured E p (us_email user) g)) (\<lambda>_. retA ())) us () s1 = (Inr (), t)"
    by (auto simp: bindA_eq_Inr wrapA_eq_Inr retA_eq_Inr simp del: retA_run)
  from Cons.IH[OF r] obtain bs where bs: "V t = (V s1)\<lparr>st_upbs := st_upbs (V s1) @ bs\<rparr>"
    "map upb_userEmail bs = map us_email us" "\<forall>b \<in> set bs. upb_projectID b = om_name p \<and> upb_group b = g" by blast
  then show ?case using member_CreateUnsecured_effect[OF api c] by (intro exI[of _ "b # bs"]) simp
qed

text \<open>
  C13: people named by a service account that creates a project become project managers, not owners,
  although the answer lists them as the owners. Every binding the endpoint adds is in the project managers'
  group of the new project.
\<close>

theorem sa_project_has_no_owner:
  assumes api: "api_ok V E" and sa: "isSA E (us_email u)"
    and created: "project_CreateEndpoint E (kube_projectProvider E) (kube_privilegedProjectProvider E)
       (kube_settingsProvider E) (kube_memberMapper E) (kube_memberProvider E) (kube_privilegedMemberProvider E)
       (kube_userProvider E) (Some u) (Some req) s = (Inr r, t)"
  shows "\<exists>b bs us. st_upbs (V t) = st_upbs (V s) @ b # bs \<and> us \<noteq> [] \<and> map upb_userEmail bs = map us_email us \<and>
     aj_owners r = map owner_entry us \<and> upb_userEmail b = us_email u \<and>
     (\<forall>m \<in> set (b # bs). upb_projectID m = ao_id r \<and> upb_group m = groupNameFor E (ao_id r) (projectManagerGroupPrefix E))"
  using created
proof (rule createProject_InrD)
  fix x s1
  assume g: "GetGlobalSettings E s = (Inr x, s1)"
    and "(if isSA E (us_email u) then createProjectByServiceAccount E (us_email u) req (kube_memberMapper E)
             (kube_userProvider E) (kube_privilegedMemberProvider E) (kube_projectProvider E)
          else bindA (httpA (pp_New (kube_projectProvider E)
                 \<lparr>ps_name = pq_name req, ps_allowedOperatingSystems = pq_allowedOperatingSystems req\<rparr> (pq_labels req))) (\<lambda>p.
               bindA (httpA (pmp_CreateUnsecured (kube_privilegedMemberProvider E) p (us_email u)
                       (groupNameFor E (om_name p) (ownerGroupPrefix E)))) (\<lambda>_.
                 retA (ConvertInternalProjectToExternal E p [owner_entry u] 0)))) s1 = (Inr r, t)"
  then have c: "createProjectByServiceAccount E (us_email u) req (kube_memberMapper E)
             (kube_userProvider E) (kube_privilegedMemberProvider E) (kube_projectProvider E) s1 = (Inr r, t)" using sa by simp
  let ?people = "foldA (\<lambda>e acc. if isSA E e then failA (HTTPError 400)
       else bindA (httpA (up_UserByEmail (kube_userProvider E) e)) (\<lambda>u. retA (acc @ [u]))) (pq_users req) []"
  have reads: "reads (httpA (mm_MappingsFor (kube_memberMapper E) e))" "reads ?people" for e
    by (auto simp: kube_memberMapper_def reads_UserByEmail intro!: reads_intros)
  from c obtain bs0 where "mm_MappingsFor (kube_memberMapper E) (us_email u) s1 = (Inr bs0, s1)"
    by (auto simp: createProjectByServiceAccount_def bind_reads[OF reads(1)] wrapA_eq_Inr)
  with c obtain us p s2 b s3 where us: "us \<noteq> []"
    and n: "project_New E \<lparr>ps_name = pq_name req, ps_allowedOperatingSystems = pq_allowedOperatingSystems req\<rparr> (pq_labels req) s1 = (Inr p, s2)"
    and b: "member_CreateUnsecuredForServiceAccount E p (us_email u) (groupNameFor E (om_name p) (projectManagerGroupPrefix E)) s2 = (Inr b, s3)"
    and f: "foldA (\<lambda>user _. bindA (httpA (member_CreateUnsecured E p (us_email user)
               (groupNameFor E (om_name p) (projectManagerGroupPrefix E)))) (\<lambda>_. retA ())) us () s3 = (Inr (), t)"
    and r: "r = ConvertInternalProjectToExternal E p (map owner_entry us) 0"
    by (cases bs0) (auto simp: createProjectByServiceAccount_def bind_reads[OF reads(2)] Let_def wrapA_eq_Inr retA_eq_Inr
        kube_projectProvider_def kube_privilegedMemberProvider_def
        bindA_eq_Inr[where m = "httpA (project_New _ _ _)"]
        bindA_eq_Inr[where m = "httpA (member_CreateUnsecuredForServiceAccount _ _ _ _)"]
        bindA_eq_Inr[where m = "foldA _ _ ()"] simp del: retA_run split: if_splits)
  let ?g = "groupNameFor E (om_name p) (projectManagerGroupPrefix E)"
  have b': "V s3 = (V s2)\<lparr>st_upbs := st_upbs (V s2) @ [b]\<rparr> \<and> upb_projectID b = om_name p \<and> upb_userEmail b = us_email u \<and> upb_group b = ?g"
  proof -
    have "bindA (genBinding E p (us_email u) ?g) (\<lambda>bnd. kCreate (cs_upbs (privileged E)) bnd) s2 = (Inr b, s3)"
      using b by (auto simp: member_CreateUnsecuredForServiceAccount_def split: if_splits)
    then show ?thesis using create_binding_effect[OF api api_ok_privileged[OF api]] by blast
  qed
  from bind_people_effect[OF api f] obtain bs where bs: "V t = (V s3)\<lparr>st_upbs := st_upbs (V s3) @ bs\<rparr>"
    "map upb_userEmail bs = map us_email us" "\<forall>b \<in> set bs. upb_projectID b = om_name p \<and> upb_group b = ?g" by blast
  have "st_upbs (V t) = st_upbs (V s) @ b # bs"
    using bs(1) b' project_New_InrD(1)[OF api n] GetGlobalSettings_frame(2)[OF api g] by simp
  moreover have "ao_id r = om_name p" "aj_owners r = map owner_entry us"
    by (simp_all add: r ConvertInternalProjectToExternal_def apiObject.defs apiProject.defs)
  ultimately show ?thesis using bs(2,3) b' us by (intro exI[of _ b] exI[of _ bs] exI[of _ us]) simp
qed

definition bot :: user where
  "bot = zero_user\<lparr>om_name := ''serviceaccount-bot'', us_name := ''bot'', us_email := ''serviceaccount-bot@sa.local''\<rparr>"

definition world_bot :: mem where
  "world_bot = world1\<lparr>m_users := bot # m_users world1,
     m_upbs := [zero_upb\<lparr>om_name := ''b2'', upb_projectID := ''p1'', upb_userEmail := ''serviceaccount-bot@sa.local'',
                         upb_group := ''projectmanagers-p1''\<rparr>]\<rparr>"

theorem sa_project_has_no_owner_witness:
  "\<exists>r t us. project_CreateEndpoint mem_env (kube_projectProvider mem_env) (kube_privilegedProjectProvider mem_env)
       (kube_settingsProvider mem_env) (kube_memberMapper mem_env) (kube_memberProvider mem_env)
       (kube_privilegedMemberProvider mem_env) (kube_userProvider mem_env) (Some bot)
       (Some (shop_request\<lparr>pq_users := [''eve@acme.com'']\<rparr>)) world_bot = (Inr r, t) \<and>
     us \<noteq> [] \<and> aj_owners r = map owner_entry us"
proof -
  have "\<not> isl (fst (createProject mem_env bot (shop_request\<lparr>pq_users := [''eve@acme.com'']\<rparr>) world_bot))" by code_simp
  from success_obtain[OF this] obtain r t where
    e: "createProject mem_env bot (shop_request\<lparr>pq_users := [''eve@acme.com'']\<rparr>) world_bot = (Inr r, t)" by blast
  have "isSA mem_env (us_email bot)" by code_simp
  from sa_project_has_no_owner[OF mem_api_ok this e] obtain us where "us \<noteq> []" "aj_owners r = map owner_entry us" by blast
  with e show ?thesis by (intro exI[of _ r] exI[of _ t] exI[of _ us]) simp
qed

section \<open>Restrictions\<close>

abbreviation deleteProject where
  "deleteProject E u req \<equiv> project_DeleteEndpoint (kube_projectProvider E) (kube_settingsProvider E)
     (kube_privilegedProjectProvider E) (kube_getter E u) (Some u) (Some req)"

abbreviation updateProjectEndpoint where
  "updateProjectEndpoint E cpg sg u req \<equiv> project_UpdateEndpoint E (kube_projectProvider E) (kube_privilegedProjectProvider E)
     (kube_settingsProvider E) (kube_memberProvider E) (kube_userProvider E) (kube_getter E u) cpg sg (Some u) (Some req)"

lemma stored_settings_run:
  assumes "api_ok V E" and "lookup_key ([], globalSettingsName E) (st_settings (V s)) = Inr g"
  shows "GetGlobalSettings E s = (Inr g, s)"
  using assms by (simp add: GetGlobalSettings_def tryA_def api_ok_gets)

text \<open>
  The restrictions of the global settings hold. While they forbid it, a caller who is not an
  administrator cannot create, delete or modify a project: the endpoint answers 403 before anything was
  written. The restrictions never stop an administrator.
\<close>

theorem project_restrictions:
  assumes api: "api_ok V E" and g: "lookup_key ([], globalSettingsName E) (st_settings (V s)) = Inr g"
    and ok: "pq_name creq \<noteq> []" "req_projectID dreq \<noteq> []" "updateRq_validate ureq = Inr ()"
  shows "(\<not> us_isAdmin u \<and> gs_restrictProjectCreation g \<longrightarrow> createProject E u creq s = (Inl (HTTPError 403), s)) \<and>
    (\<not> us_isAdmin u \<and> gs_restrictProjectDeletion g \<longrightarrow> deleteProject E u dreq s = (Inl (HTTPError 403), s)) \<and>
    (\<not> us_isAdmin u \<and> gs_restrictProjectModification g \<longrightarrow> updateProjectEndpoint E cpg sg u ureq s = (Inl (HTTPError 403), s)) \<and>
    (us_isAdmin u \<longrightarrow> checkProjectCreationRestriction u g = Inr () \<and> checkProjectDeletionRestriction u g = Inr () \<and>
       checkProjectModificationRestriction u g = Inr ())"
  using ok stored_settings_run[OF api g]
  by (simp add: project_CreateEndpoint_def project_DeleteEndpoint_def project_UpdateEndpoint_def kube_settingsProvider_def
      checkProjectCreationRestriction_def checkProjectDeletionRestriction_def checkProjectModificationRestriction_def)

definition locked_settings :: settings where
  "locked_settings = (defaultGlobalSettings mem_env)\<lparr>gs_restrictProjectCreation := True, gs_restrictProjectDeletion := True\<rparr>"

definition world_locked :: mem where
  "world_locked = world1\<lparr>m_settings := [locked_settings]\<rparr>"

theorem project_restrictions_witness:
  "project_CreateEndpoint mem_env (kube_projectProvider mem_env) (kube_privilegedProjectProvider mem_env)
       (kube_settingsProvider mem_env) (kube_memberMapper mem_env) (kube_memberProvider mem_env)
       (kube_privilegedMemberProvider mem_env) (kube_userProvider mem_env) (Some bob) (Some shop_request) world_locked =
     (Inl (HTTPError 403), world_locked) \<and>
   project_DeleteEndpoint (kube_projectProvider mem_env) (kube_settingsProvider mem_env)
     (kube_privilegedProjectProvider mem_env) (kube_getter mem_env bob) (Some bob) (Some \<lparr>req_projectID = ''p1''\<rparr>) world_locked =
     (Inl (HTTPError 403), world_locked)"
proof -
  have "key_of locked_settings = ([], globalSettingsName mem_env)" by code_simp
  then have g: "lookup_key ([], globalSettingsName mem_env) (st_settings (mem_store world_locked)) = Inr locked_settings"
    by (simp add: world_locked_def mem_store_def lookup_key_def)
  have "pq_name shop_request \<noteq> []" "req_projectID \<lparr>req_projectID = ''p1''\<rparr> \<noteq> []" by (simp_all add: shop_request_def)
  moreover have "updateRq_validate \<lparr>req_projectID = ''p1'', uq_name = ''x'', uq_allowedOperatingSystems = [], uq_labels = []\<rparr> = Inr ()"
    by (simp add: updateRq_validate_def)
  moreover have "\<not> us_isAdmin bob" "gs_restrictProjectCreation locked_settings" "gs_restrictProjectDeletion locked_settings"
    by code_simp+
  ultimately show ?thesis using project_restrictions[OF mem_api_ok g, where u = bob] by blast
qed

section \<open>Updating and deleting\<close>

text \<open>Asking the seeds for clusters only reads.\<close>

definition seeds_read :: "'s ClusterProviderGetter \<Rightarrow> 's SeedsGetter \<Rightarrow> bool" where
  "seeds_read cpg sg \<longleftrightarrow> reads sg \<and> (\<forall>seed. reads (cpg seed)) \<and>
     (\<forall>seed s cp t. cpg seed s = (Inr cp, t) \<longrightarrow> (\<forall>p. reads (cp_List cp p)) \<and> (\<forall>sel. reads (cp_ListAll cp sel)))"

lemma reads_range_seeds:
  assumes "\<And>seed. reads (cpg seed)" and "\<And>seed s cp t acc. cpg seed s = (Inr cp, t) \<Longrightarrow> reads (body cp acc)"
  shows "reads (range_seeds cpg body seeds acc)"
proof -
  have "reads (tryA (cpg seed) (\<lambda>r. case r of Inl _ \<Rightarrow> retA acc | Inr cp \<Rightarrow> body cp acc))" for seed acc
  proof (rule readsI)
    fix s
    obtain r where r: "cpg seed s = (r, s)" using readsE[OF assms(1)] by blast
    show "snd (tryA (cpg seed) (\<lambda>r. case r of Inl _ \<Rightarrow> retA acc | Inr cp \<Rightarrow> body cp acc) s) = s"
      using assms(2)[of seed s _ s acc] r by (cases r) (auto simp: tryA_def reads_def)
  qed
  then show ?thesis
    unfolding range_seeds_def by (intro reads_foldA) (auto intro: reads_intros split: prod.split)
qed

lemma reads_getNumberOfClustersForProject:
  assumes "seeds_read cpg sg"
  shows "reads (getNumberOfClustersForProject cpg sg p)"
  using assms unfolding getNumberOfClustersForProject_def seeds_read_def
  by (intro reads_intros reads_range_seeds) blast+

lemma updateProject_effect:
  assumes api: "api_ok V E"
    and c: "updateProject (kube_getter E u) (kube_projectProvider E) (kube_privilegedProjectProvider E) p s = (Inr p', t)"
  shows "V t = (V s)\<lparr>st_projects := map (\<lambda>y. if key_of y = key_of p then p' else y) (st_projects (V s))\<rparr> \<and> same_project_spec p' p"
  using c unfolding handlers_on_behalf
proof (rule me.on_behalf_cases)
  assume "ppp_UpdateUnsecured (kube_privilegedProjectProvider E) p s = (Inr p', t)"
  then have k: "kUpdate (cs_projects (privileged E)) p s = (Inr p', t)"
    by (simp add: kube_privilegedProjectProvider_def project_UpdateUnsecured_def)
  note w = clientset_okD(4)[OF api_ok_privileged[OF api]]
  show ?thesis using update_V[OF w k] update_same[OF w k] by (simp add: store.defs)
next
  fix i
  assume "pp_Update (kube_projectProvider E) (Some i) p s = (Inr p', t)"
  then obtain cl where cl: "impersonated E (ui_email i) (ui_groups i) = Inr cl"
    and k: "kUpdate (cs_projects cl) p s = (Inr p', t)"
    by (auto simp: kube_projectProvider_def project_Update_def createImpersonationClientWrapperFromUserInfo_def bindA_eq_Inr)
  note w = clientset_okD(4)[OF api_ok_impersonated[OF api cl]]
  show ?thesis using update_V[OF w k] update_same[OF w k] by (simp add: store.defs)
qed

lemma project_DeleteUnsecured_effect:
  assumes api: "api_ok V E" and cl: "clientset_ok V c"
    and d: "bindA (getA (cs_projects c) ([], n)) (\<lambda>p. kDelete (cs_projects c) (key_of p)) s = (Inr (), t)"
  shows "V t = (V s)\<lparr>st_projects := filter (\<lambda>y. key_of y \<noteq> ([], n)) (st_projects (V s))\<rparr> \<and>
    ([], n) \<in> key_of ` set (st_projects (V s))"
proof -
  note w = clientset_okD(4)[OF cl]
  from d obtain p where p: "kGet (cs_projects c) ([], n) s = Inr p" and k: "kDelete (cs_projects c) (key_of p) s = (Inr (), t)"
    by (auto simp: bindA_eq_Inr)
  have "key_of p = ([], n)" "p \<in> set (st_projects (V s))" using get_stored[OF w p] by auto
  then show ?thesis using delete_V[OF w k] by (auto simp: store.defs intro: image_eqI[of _ _ p])
qed

lemma deleteProject_client:
  assumes api: "api_ok V E" and d: "deleteProject E u dreq s = (Inr (), t)"
  obtains g s1 c where "GetGlobalSettings E s = (Inr g, s1)" and "clientset_ok V c"
    and "bindA (getA (cs_projects c) ([], req_projectID dreq)) (\<lambda>p. kDelete (cs_projects c) (key_of p)) s1 = (Inr (), t)"
proof -
  from d obtain g s1 i where g: "GetGlobalSettings E s = (Inr g, s1)" and i: "kube_getter E u [] s1 = (Inr i, s1)"
    and r: "(if ui_isAdmin i then httpA (ppp_DeleteUnsecured (kube_privilegedProjectProvider E) (req_projectID dreq))
             else deleteProjectByRegularUser (kube_getter E u) (kube_projectProvider E) (req_projectID dreq)) s1 = (Inr (), t)"
    by (auto simp: project_DeleteEndpoint_def kube_settingsProvider_def wrapA_eq_Inr bind_reads reads_wrapA reads_liftA
        me.getter_reads bindA_eq_Inr[where m = "httpA (GetGlobalSettings _)"] split: if_splits)
  show ?thesis
  proof (cases "ui_isAdmin i")
    case True
    with r show ?thesis using that[OF g api_ok_privileged[OF api]]
      by (simp add: kube_privilegedProjectProvider_def project_DeleteUnsecured_def wrapA_eq_Inr)
  next
    case False
    with r obtain j :: UserInfo and c where "impersonated E (ui_email j) (ui_groups j) = Inr c"
      and "bindA (getA (cs_projects c) ([], req_projectID dreq)) (\<lambda>p. kDelete (cs_projects c) (key_of p)) s1 = (Inr (), t)"
      by (auto simp: deleteProjectByRegularUser_def kube_projectProvider_def project_Delete_def wrapA_eq_Inr bind_reads
          reads_wrapA me.getter_reads createImpersonationClientWrapperFromUserInfo_def reads_liftA)
    then show ?thesis using that[OF g api_ok_impersonated[OF api]] by blast
  qed
qed

text \<open>
  Updating and deleting touch the named project only. A successful update replaces the project's
  name and labels by the requested ones, under the same id, and changes no other project, binding,
  user or secret; a successful deletion removes the project, which existed, and nothing else.
\<close>

theorem project_changes_are_local:
  assumes api: "api_ok V E" and seeds: "seeds_read cpg sg"
  shows "(updateProjectEndpoint E cpg sg u ureq s = (Inr r, t) \<longrightarrow>
      (\<exists>p'. st_projects (V t) = map (\<lambda>y. if key_of y = ([], req_projectID ureq) then p' else y) (st_projects (V s)) \<and>
         ([], req_projectID ureq) \<in> key_of ` set (st_projects (V s)) \<and> key_of p' = ([], req_projectID ureq) \<and>
         pr_name p' = uq_name ureq \<and> om_labels p' = uq_labels ureq \<and> ao_id r = req_projectID ureq \<and>
         st_users (V t) = st_users (V s) \<and> st_upbs (V t) = st_upbs (V s) \<and> st_gpbs (V t) = st_gpbs (V s) \<and>
         st_secrets (V t) = st_secrets (V s))) \<and>
    (deleteProject E u dreq s = (Inr (), t) \<longrightarrow>
      st_projects (V t) = filter (\<lambda>y. key_of y \<noteq> ([], req_projectID dreq)) (st_projects (V s)) \<and>
      ([], req_projectID dreq) \<in> key_of ` set (st_projects (V s)) \<and>
      st_users (V t) = st_users (V s) \<and> st_upbs (V t) = st_upbs (V s) \<and> st_gpbs (V t) = st_gpbs (V s) \<and>
      st_secrets (V t) = st_secrets (V s))"
proof (intro conjI impI)
  assume "updateProjectEndpoint E cpg sg u ureq s = (Inr r, t)"
  then obtain g s1 p p' os n where g: "GetGlobalSettings E s = (Inr g, s1)"
    and p: "GetProject (kube_getter E u) (kube_projectProvider E) (kube_privilegedProjectProvider E) (req_projectID ureq) None s1 = (Inr p, s1)"
    and c: "updateProject (kube_getter E u) (kube_projectProvider E) (kube_privilegedProjectProvider E)
       (p\<lparr>pr_name := uq_name ureq, om_labels := uq_labels ureq, pr_allowedOperatingSystems := uq_allowedOperatingSystems ureq\<rparr>) s1 = (Inr p', t)"
    and r: "r = ConvertInternalProjectToExternal E p' os n"
    by (auto simp: project_UpdateEndpoint_def kube_settingsProvider_def wrapA_eq_Inr Let_def
        bind_reads reads_wrapA reads_liftA me.getter_reads reads_GetProject reads_GetOwnersForProject
        reads_getNumberOfClustersForProject[OF seeds] reads_Inr[where m = "retA _"]
        bindA_eq_Inr[where m = "httpA (GetGlobalSettings _)"] bindA_eq_Inr[where m = "httpA (updateProject _ _ _ _)"])
  have key: "key_of p = ([], req_projectID ureq)" "p \<in> set (st_projects (V s1))"
    using GetProject_stored[OF api p] by auto
  note f = GetGlobalSettings_frame[OF api g] and e = updateProject_effect[OF api c]
  have same: "same_project_spec p' (p\<lparr>pr_name := uq_name ureq, om_labels := uq_labels ureq, pr_allowedOperatingSystems := uq_allowedOperatingSystems ureq\<rparr>)"
    using e by simp
  have k': "key_of (p\<lparr>pr_name := uq_name ureq, om_labels := uq_labels ureq, pr_allowedOperatingSystems := uq_allowedOperatingSystems ureq\<rparr>) = ([], req_projectID ureq)"
    using key(1) by (simp add: key_of_def)
  have "ao_id r = om_name p'" using r by (auto simp: ConvertInternalProjectToExternal_def apiObject.defs)
  then show "\<exists>p'. st_projects (V t) = map (\<lambda>y. if key_of y = ([], req_projectID ureq) then p' else y) (st_projects (V s)) \<and>
         ([], req_projectID ureq) \<in> key_of ` set (st_projects (V s)) \<and> key_of p' = ([], req_projectID ureq) \<and>
         pr_name p' = uq_name ureq \<and> om_labels p' = uq_labels ureq \<and> ao_id r = req_projectID ureq \<and>
         st_users (V t) = st_users (V s) \<and> st_upbs (V t) = st_upbs (V s) \<and> st_gpbs (V t) = st_gpbs (V s) \<and>
         st_secrets (V t) = st_secrets (V s)"
    using e f key same_project[OF same] k'
    by (intro exI[of _ p']) (auto simp: key_of_def intro: image_eqI[of _ _ p])
next
  assume "deleteProject E u dreq s = (Inr (), t)"
  then obtain g s1 c where g: "GetGlobalSettings E s = (Inr g, s1)" and c: "clientset_ok V c"
    and d: "bindA (getA (cs_projects c) ([], req_projectID dreq)) (\<lambda>p. kDelete (cs_projects c) (key_of p)) s1 = (Inr (), t)"
    by (rule deleteProject_client[OF api])
  note e = project_DeleteUnsecured_effect[OF api c d] and f = GetGlobalSettings_frame[OF api g]
  show "st_projects (V t) = filter (\<lambda>y. key_of y \<noteq> ([], req_projectID dreq)) (st_projects (V s))" using e f by simp
  show "([], req_projectID dreq) \<in> key_of ` set (st_projects (V s))" using e f by simp
  show "st_users (V t) = st_users (V s)" and "st_upbs (V t) = st_upbs (V s)" and "st_gpbs (V t) = st_gpbs (V s)"
    and "st_secrets (V t) = st_secrets (V s)" using e f by simp_all
qed

definition no_seeds :: "mem SeedsGetter" where
  "no_seeds = retA []"

lemma no_seeds_read: "seeds_read (\<lambda>_. failA UtilNotFound) no_seeds"
  by (simp add: seeds_read_def no_seeds_def reads_retA reads_failA)

definition rename_request :: updateRq where
  "rename_request = \<lparr>req_projectID = ''p1'', uq_name = ''renamed'', uq_allowedOperatingSystems = [], uq_labels = []\<rparr>"

theorem project_changes_are_local_witness:
  "(\<exists>r t (p' :: project). updateProjectEndpoint mem_env (\<lambda>_. failA UtilNotFound) no_seeds root_user rename_request world1 = (Inr r, t) \<and>
      pr_name p' = uq_name rename_request \<and> st_projects (mem_store t) =
        map (\<lambda>y. if key_of y = ([], req_projectID rename_request) then p' else y) (st_projects (mem_store world1))) \<and>
   (\<exists>t. deleteProject mem_env root_user \<lparr>req_projectID = ''p1''\<rparr> world1 = (Inr (), t) \<and> st_projects (mem_store t) = [])"
proof (rule conjI)
  have "\<not> isl (fst (updateProjectEndpoint mem_env (\<lambda>_. failA UtilNotFound) no_seeds root_user rename_request world1))" by code_simp
  from success_obtain[OF this] obtain r t where
    e: "updateProjectEndpoint mem_env (\<lambda>_. failA UtilNotFound) no_seeds root_user rename_request world1 = (Inr r, t)" by blast
  from project_changes_are_local[OF mem_api_ok no_seeds_read, THEN conjunct1, rule_format, OF e]
  obtain p' :: project where "pr_name p' = uq_name rename_request" "st_projects (mem_store t) =
        map (\<lambda>y. if key_of y = ([], req_projectID rename_request) then p' else y) (st_projects (mem_store world1))" by blast
  with e show "\<exists>r t (p' :: project). updateProjectEndpoint mem_env (\<lambda>_. failA UtilNotFound) no_seeds root_user rename_request world1 = (Inr r, t) \<and>
      pr_name p' = uq_name rename_request \<and> st_projects (mem_store t) =
        map (\<lambda>y. if key_of y = ([], req_projectID rename_request) then p' else y) (st_projects (mem_store world1))"
    by (intro exI[of _ r] exI[of _ t] exI[of _ p']) simp
next
  have "\<not> isl (fst (deleteProject mem_env root_user \<lparr>req_projectID = ''p1''\<rparr> world1))" by code_simp
  from success_obtain[OF this] obtain t where e: "deleteProject mem_env root_user \<lparr>req_projectID = ''p1''\<rparr> world1 = (Inr (), t)" by auto
  have "st_projects (mem_store world1) = [proj1]" "key_of proj1 = ([], ''p1'')"
    by (simp_all add: mem_store_def world1_defs key_of_def)
  then have "st_projects (mem_store t) = []"
    using project_changes_are_local[OF mem_api_ok no_seeds_read, THEN conjunct2, rule_format, OF e] by simp
  with e show "\<exists>t. deleteProject mem_env root_user \<lparr>req_projectID = ''p1''\<rparr> world1 = (Inr (), t) \<and> st_projects (mem_store t) = []"
    by blast
qed

section \<open>Listing\<close>

text \<open>A project the caller may read: the API server returned it to a client that impersonates him.\<close>

definition readable :: "('s, 'x) env_scheme \<Rightarrow> string \<Rightarrow> 's \<Rightarrow> project \<Rightarrow> bool" where
  "readable E email s p \<longleftrightarrow> (\<exists>e groups c. EqualFold e email \<and> groups \<noteq> [] \<and> impersonated E e groups = Inr c \<and>
     kGet (cs_projects c) ([], om_name p) s = Inr p)"

lemma pp_Get_readable:
  assumes api: "api_ok V E" and got: "pp_Get (kube_projectProvider E) (Some i) pid opts s = (Inr p, t)"
    and "EqualFold (ui_email i) email" and "ui_groups i \<noteq> []"
  shows "readable E email s p" and "t = s"
proof -
  from got obtain c where c: "impersonated E (ui_email i) (ui_groups i) = Inr c" and k: "kGet (cs_projects c) ([], pid) s = Inr p"
    using project_Get_InrD[of E i pid opts s p t] by (auto simp: kube_projectProvider_def)
  have "om_name p = pid" using get_stored[OF clientset_okD(4)[OF api_ok_impersonated[OF api c]] k] by (simp add: key_of_def)
  with c k assms(3,4) show "readable E email s p" unfolding readable_def by blast
  show "t = s" using got by (auto dest: readsD[OF reads_kube_pp_Get])
qed

lemma foldA_invariant:
  assumes "foldA f xs acc s = (Inr acc', t)" and "P acc"
    and "\<And>x acc y t. x \<in> set xs \<Longrightarrow> P acc \<Longrightarrow> f x acc s = (Inr y, t) \<Longrightarrow> P y \<and> t = s"
  shows "P acc' \<and> t = s"
  using assms
proof (induction xs arbitrary: acc)
  case (Cons x xs)
  from Cons.prems(1) obtain y t1 where y: "f x acc s = (Inr y, t1)" and r: "foldA f xs y t1 = (Inr acc', t)"
    by (auto simp: bindA_eq_Inr)
  have "P y" "t1 = s" using Cons.prems(2,3) y by auto
  with Cons.IH[of y] Cons.prems(3) r show ?case by auto
qed simp

lemma list_bound_project_readable:
  assumes api: "api_ok V E" and m: "EqualFold (upb_userEmail m) email" and P: "\<forall>p \<in> set (fst acc). readable E email s p"
    and f: "list_bound_project (kube_projectProvider E) (kube_privilegedProjectProvider E) i m acc s = (Inr y, t)"
  shows "(\<forall>p \<in> set (fst y). readable E email s p) \<and> t = s"
proof -
  obtain ps ids errs where acc: "acc = (ps, ids, errs)" by (cases acc)
  let ?info = "\<lparr>ui_email = upb_userEmail m, ui_groups = ui_groups i @ [upb_group m], ui_roles = ui_roles i,
     ui_isAdmin = ui_isAdmin i, ui_isGlobalViewer = False\<rparr>"
  obtain r where r: "pp_Get (kube_projectProvider E) (Some ?info) (upb_projectID m) uninitialized_too s = (r, s)"
    by (rule readsE[OF reads_kube_pp_Get])
  obtain r' where r': "ppp_GetUnsecured (kube_privilegedProjectProvider E) (upb_projectID m) uninitialized_too s = (r', s)"
    by (rule readsE[OF reads_kube_ppp_Get])
  show ?thesis
  proof (cases r)
    case (Inl e)
    have "fst y = ps \<and> t = s"
      using f[unfolded list_bound_project_def acc] r r' Inl
      by (cases "e = Panic"; cases "r' = Inl Panic"; cases r')
        (auto simp: acc tryA_def split: if_splits)
    with P acc show ?thesis by simp
  next
    case (Inr p)
    have "readable E email s p" using pp_Get_readable(1)[OF api r[unfolded Inr]] m by simp
    moreover have "y = (ps @ [p], insert (om_name p) ids, errs) \<and> t = s"
      using f r Inr by (simp add: list_bound_project_def acc)
    ultimately show ?thesis using P acc by auto
  qed
qed

lemma list_group_project_readable:
  assumes api: "api_ok V E" and i: "EqualFold (ui_email i) email" and P: "\<forall>p \<in> set (fst acc). readable E email s p"
    and f: "list_group_project (kube_projectProvider E) i g acc s = (Inr y, t)"
  shows "(\<forall>p \<in> set (fst y). readable E email s p) \<and> t = s"
proof -
  obtain ps ids errs where acc: "acc = (ps, ids, errs)" by (cases acc)
  let ?info = "\<lparr>ui_email = ui_email i, ui_groups = ui_groups i @ [suffixed (gpb_group g) (gpb_projectID g)],
     ui_roles = ui_roles i, ui_isAdmin = ui_isAdmin i, ui_isGlobalViewer = False\<rparr>"
  obtain r where r: "pp_Get (kube_projectProvider E) (Some ?info) (gpb_projectID g) uninitialized_too s = (r, s)"
    by (rule readsE[OF reads_kube_pp_Get])
  show ?thesis
  proof (cases r)
    case (Inl e)
    have "fst y = ps \<and> t = s"
      using f r Inl by (cases "e = Panic") (auto simp: list_group_project_def acc tryA_def Let_def split: if_splits)
    with P acc show ?thesis by simp
  next
    case (Inr p)
    have "readable E email s p" using pp_Get_readable(1)[OF api r[unfolded Inr]] i by simp
    moreover have "t = s \<and> (y = acc \<or> y = (ps @ [p], insert (om_name p) ids, errs))"
      using f r Inr by (auto simp: list_group_project_def acc Let_def split: if_splits)
    ultimately show ?thesis using P acc by auto
  qed
qed

abbreviation listProjects where
  "listProjects E cpg sg u req \<equiv> project_ListEndpoint E (kube_getter E u) (kube_projectProvider E)
     (kube_privilegedProjectProvider E) (kube_memberMapper E) (kube_memberProvider E) (kube_userProvider E) cpg sg (Some req)"

lemma reads_getNumberOfClustersForProjectAndMatch:
  assumes "seeds_read cpg sg"
  shows "reads (getNumberOfClustersForProjectAndMatch cpg sg p q)"
proof -
  have "reads (body cp acc)" if "cpg seed s = (Inr cp, t)"
    and body: "body = (\<lambda>cp (n, m). bindA (cp_List cp p) (\<lambda>cs. let n = n + int (length cs) in
       if search = [] \<or> m then retA (n, m) else retA (n, \<exists>c \<in> set cs. cluster_matches c search)))"
    for body seed s cp t acc search
  proof -
    have "reads (cp_List cp p)" using assms that(1) unfolding seeds_read_def by blast
    then show ?thesis unfolding body by (cases acc) (auto simp: Let_def intro!: reads_intros)
  qed
  then show ?thesis
    using assms unfolding getNumberOfClustersForProjectAndMatch_def Let_def[of "TrimSpace _"] seeds_read_def
    by (intro reads_intros reads_range_seeds) blast+
qed

lemma reads_kube_mappings:
  "reads (MappingsFor E e)" "reads (mm_GroupMappingsFor (kube_memberMapper E) gs)"
  unfolding kube_memberMapper_def MappingsFor_def GroupMappingsFor_def by (simp_all, (intro reads_intros)+)

lemma kube_memberMapper_mappings: "mm_MappingsFor (kube_memberMapper E) = MappingsFor E"
  by (simp add: kube_memberMapper_def)

text \<open>One entry of the answer.\<close>

definition list_entry ::
  "('s, 'x) env_scheme \<Rightarrow> 's ClusterProviderGetter \<Rightarrow> 's SeedsGetter \<Rightarrow> string \<Rightarrow> UserInfo \<Rightarrow> project \<Rightarrow>
     apiProject list \<times> string set \<Rightarrow> ('s, apiProject list \<times> string set) act" where
  "list_entry E cpg sg q i = (\<lambda>project (apiProjects, clusterMatchedProjectIDs).
     bindA (httpA (GetOwnersForProject E i project (kube_memberProvider E) (kube_userProvider E))) (\<lambda>projectOwners.
     bindA (httpA (getNumberOfClustersForProjectAndMatch cpg sg project q)) (\<lambda>(clustersNumber, matchesQuery).
       retA (apiProjects @ [ConvertInternalProjectToExternal E project projectOwners clustersNumber],
             if matchesQuery then insert (om_name project) clusterMatchedProjectIDs else clusterMatchedProjectIDs))))"

lemma list_entry_step:
  assumes seeds: "seeds_read cpg sg" and Q: "\<forall>r \<in> set (fst acc). \<exists>p \<in> set ps. ao_id r = om_name p \<and> ao_name r = pr_name p"
    and p: "project \<in> set ps" and f: "list_entry E cpg sg q i project acc s = (Inr y, t)"
  shows "(\<forall>r \<in> set (fst y). \<exists>p \<in> set ps. ao_id r = om_name p \<and> ao_name r = pr_name p) \<and> t = s"
proof -
  obtain aps ids where acc: "acc = (aps, ids)" by (cases acc)
  from f obtain os n where y: "fst y = aps @ [ConvertInternalProjectToExternal E project os n]" "t = s"
    by (auto simp: list_entry_def acc bind_reads reads_wrapA reads_GetOwnersForProject
        reads_getNumberOfClustersForProjectAndMatch[OF seeds])
  then show ?thesis using Q p acc by (auto simp: ConvertInternalProjectToExternal_def apiObject.defs)
qed

lemma filterProjectsBySearch_subset: "set (filterProjectsBySearch ps q ids) \<subseteq> set ps"
  by (auto simp: filterProjectsBySearch_def Let_def)

text \<open>
  the list shows a caller only what he may read. Unless an administrator or global viewer asks for
  all projects, every project in the answer was returned by the API server to a client that impersonates
  the caller, with the group of one of his bindings or one of his identity provider's groups; and listing
  writes nothing.
\<close>

theorem project_list_only_readable:
  assumes api: "api_ok V E" and seeds: "seeds_read cpg sg"
    and own: "\<not> (lq_displayAll req \<and> (us_isAdmin u \<or> us_isGlobalViewer u))"
    and l: "project_ListEndpoint E (kube_getter E u) (kube_projectProvider E) (kube_privilegedProjectProvider E)
       (kube_memberMapper E) (kube_memberProvider E) (kube_userProvider E) cpg sg (Some req) s = (Inr rs, t)"
  shows "t = s \<and> (\<forall>r \<in> set rs. \<exists>p. readable E (us_email u) s p \<and> p \<in> set (st_projects (V s)) \<and>
     ao_id r = om_name p \<and> ao_name r = pr_name p)"
proof -
  let ?P = "\<lambda>acc. \<forall>p \<in> set (fst acc). readable E (us_email u) s p"
  let ?Q = "\<lambda>ps acc. \<forall>r \<in> set (fst acc). \<exists>p \<in> set ps. ao_id r = om_name p \<and> ao_name r = pr_name p"
  obtain i where i: "kube_getter E u [] s = (Inr i, s)" "ui_email i = us_email u"
    and all: "\<not> (lq_displayAll req \<and> (ui_isAdmin i \<or> ui_isGlobalViewer i))"
    using own by (auto simp: UserInfoGetterFactory_def Let_def)
  from l i all obtain ms acc t1 gs acc2 t2 where ms: "MappingsFor E (us_email u) s = (Inr ms, s)"
    and f1: "foldA (list_bound_project (kube_projectProvider E) (kube_privilegedProjectProvider E) i) ms ([], {}, []) s = (Inr acc, t1)"
    and f2: "foldA (list_group_project (kube_projectProvider E) i) gs acc t1 = (Inr acc2, t2)"
    and f3: "(case acc2 of (ps, ids, errs) \<Rightarrow> bindA (foldA (list_entry E cpg sg (lq_search req) i) ps ([], {})) (\<lambda>(aps, ids).
        if errs \<noteq> [] then failA (HTTPError 500) else retA (filterProjectsBySearch aps (lq_search req) ids))) t2 = (Inr rs, t)"
    by (auto simp: project_ListEndpoint_def bind_reads reads_wrapA reads_kube_mappings wrapA_eq_Inr kube_memberMapper_mappings
        list_entry_def bindA_eq_Inr[where m = "foldA (list_bound_project _ _ _) _ _"]
        bindA_eq_Inr[where m = "foldA (list_group_project _ _) _ _"] simp del: retA_run)
  have "?P acc \<and> t1 = s"
  proof (rule foldA_invariant[OF f1])
    fix m acc y t
    assume m: "m \<in> set ms" and P: "?P acc"
      and f: "list_bound_project (kube_projectProvider E) (kube_privilegedProjectProvider E) i m acc s = (Inr y, t)"
    have "EqualFold (upb_userEmail m) (us_email u)" using ms m by (auto simp: MappingsFor_def bindA_eq_Inr)
    from list_bound_project_readable[OF api this P f] show "?P y \<and> t = s" .
  qed simp
  then have P: "?P acc" and f2': "foldA (list_group_project (kube_projectProvider E) i) gs acc s = (Inr acc2, t2)"
    using f2 by simp_all
  have "?P acc2 \<and> t2 = s"
  proof (rule foldA_invariant[OF f2'])
    show "?P acc" by (rule P)
  next
    fix g acc y t
    assume "?P acc" and "list_group_project (kube_projectProvider E) i g acc s = (Inr y, t)"
    then show "?P y \<and> t = s" using i(2) by (intro list_group_project_readable[OF api]) simp_all
  qed
  moreover obtain ps ids errs where acc2: "acc2 = (ps, ids, errs)" by (cases acc2)
  ultimately have ps: "\<forall>p \<in> set ps. readable E (us_email u) s p" and t2: "t2 = s" by simp_all
  from f3 acc2 t2 obtain aps ids' t3 where f4: "foldA (list_entry E cpg sg (lq_search req) i) ps ([], {}) s = (Inr (aps, ids'), t3)"
    and rs: "rs = filterProjectsBySearch aps (lq_search req) ids'" "t = t3"
    by (auto simp: bindA_eq_Inr split: if_splits)
  have "?Q ps (aps, ids') \<and> t3 = s"
  proof (rule foldA_invariant[OF f4])
    fix p acc y t
    assume "p \<in> set ps" and "?Q ps acc" and "list_entry E cpg sg (lq_search req) i p acc s = (Inr y, t)"
    then show "?Q ps y \<and> t = s" by (intro list_entry_step[OF seeds])
  qed simp
  moreover have "p \<in> set (st_projects (V s))" if "readable E (us_email u) s p" for p
    using that get_stored[OF clientset_okD(4)[OF api_ok_impersonated[OF api]]] unfolding readable_def by blast
  ultimately show ?thesis using ps rs filterProjectsBySearch_subset[of aps "lq_search req" ids'] by fastforce
qed

end
