(* ===== verification/Auth_Flow.thy ===== *)
theory Auth_Flow
  imports Common_Handlers
begin

text \<open>
  The browser login of the dashboard: \<^verbatim>\<open>pkg/handler/v2/authflow/handler.go\<close>, with the signed state cookie
  (\<^verbatim>\<open>pkg/handler/auth/oauth_state.go\<close>), the check of the origin (\<^verbatim>\<open>redirect.go\<close>) and the OpenID Connect
  client (\<^verbatim>\<open>oidc.go\<close>) it is built on. The cookie codec \<^verbatim>\<open>gorilla/securecookie\<close>, the OAuth 2 client, the
  URL parser, the JSON decoder, the clock and the random source are arguments.

  A handler writes to a \<^verbatim>\<open>http.ResponseWriter\<close>; here it returns the response. \<open>Set-Cookie\<close> headers are kept in
  the order in which they are written, on every path, because \<^verbatim>\<open>http.Error\<close> keeps them.
\<close>

section \<open>Cookies and responses\<close>

record http_cookie =
  ck_name :: string
  ck_value :: string
  ck_path :: string
  ck_maxAge :: int
  ck_httpOnly :: bool
  ck_secure :: bool
  ck_sameSiteLax :: bool

datatype http_body = NoBody | ErrorBody | ExpiresAtBody int | RedirectBody string

record http_response =
  rs_status :: int
  rs_location :: "string option"
  rs_setCookies :: "http_cookie list"
  rs_body :: http_body

record web_request = http_request +
  wr_tls :: bool
  wr_host :: string

text \<open>
  \<^verbatim>\<open>http.SetCookie\<close>: a cookie whose name is not a token is dropped, bytes that may not stand in a
  cookie value are left out of it, and a value with a space or a comma is quoted.
\<close>

definition is_token_char :: "char \<Rightarrow> bool" where
  "is_token_char c = (let n = (of_char c :: nat) in
     (48 \<le> n \<and> n \<le> 57) \<or> (65 \<le> n \<and> n \<le> 90) \<or> (97 \<le> n \<and> n \<le> 122) \<or> c \<in> set ''!#$%&*+-.^_`|~'' \<or> n = 39)"

definition isToken :: "string \<Rightarrow> bool" where
  "isToken s \<longleftrightarrow> s \<noteq> [] \<and> list_all is_token_char s"

definition validCookieValueByte :: "char \<Rightarrow> bool" where
  "validCookieValueByte c =
     (let n = (of_char c :: nat) in 32 \<le> n \<and> n < 127 \<and> n \<noteq> 34 \<and> n \<noteq> 59 \<and> n \<noteq> 92)"

definition sanitizeCookieValue :: "string \<Rightarrow> string" where
  "sanitizeCookieValue v =
     (let v = filter validCookieValueByte v in
      if v = [] then v
      else if list_ex (\<lambda>c. c = CHR '' '' \<or> c = CHR '','') v then [CHR 0x22] @ v @ [CHR 0x22]
      else v)"

definition SetCookie :: "http_cookie \<Rightarrow> http_cookie list \<Rightarrow> http_cookie list" where
  "SetCookie c w = (if isToken (ck_name c) then w @ [c\<lparr>ck_value := sanitizeCookieValue (ck_value c)\<rparr>] else w)"

definition http_Error :: "http_cookie list \<Rightarrow> int \<Rightarrow> ('s, http_response) act" where
  "http_Error w code = retA \<lparr>rs_status = code, rs_location = None, rs_setCookies = w, rs_body = ErrorBody\<rparr>"

definition http_Redirect :: "http_cookie list \<Rightarrow> string \<Rightarrow> ('s, http_response) act" where
  "http_Redirect w url = retA \<lparr>rs_status = 303, rs_location = Some url, rs_setCookies = w, rs_body = NoBody\<rparr>"

definition http_Json :: "http_cookie list \<Rightarrow> http_body \<Rightarrow> ('s, http_response) act" where
  "http_Json w body = retA \<lparr>rs_status = 200, rs_location = None, rs_setCookies = w, rs_body = body\<rparr>"

section \<open>URLs and origins\<close>

record url =
  url_scheme :: string
  url_host :: string
  url_hasUser :: bool
  url_path :: string
  url_rawQuery :: string
  url_forceQuery :: bool
  url_fragment :: string
  url_rest :: string \<comment> \<open>the parts no modelled code reads\<close>

text \<open>The package \<^verbatim>\<open>net/url\<close>; query values are the list of keys with their values.\<close>

record net_url =
  url_Parse :: "string \<Rightarrow> url result"
  url_Hostname :: "url \<Rightarrow> string"
  url_Port :: "url \<Rightarrow> string"
  url_Query :: "url \<Rightarrow> (string \<times> string list) list"
  url_Encode :: "(string \<times> string list) list \<Rightarrow> string"
  url_String :: "url \<Rightarrow> string"

text \<open>\<^verbatim>\<open>net.JoinHostPort\<close>.\<close>

definition JoinHostPort :: "string \<Rightarrow> string \<Rightarrow> string" where
  "JoinHostPort host port =
     (if Contains host '':'' then ''['' @ host @ '']:'' @ port else host @ '':'' @ port)"

definition isHTTPScheme :: "string \<Rightarrow> bool" where
  "isHTTPScheme scheme \<longleftrightarrow> ToLower scheme = ''http'' \<or> ToLower scheme = ''https''"

definition canonicalOrigin :: "net_url \<Rightarrow> url \<Rightarrow> string" where
  "canonicalOrigin U u =
     (let scheme = ToLower (url_scheme u);
          host = ToLower (url_Hostname U u);
          port = url_Port U u;
          port = (if (scheme = ''https'' \<and> port = ''443'') \<or> (scheme = ''http'' \<and> port = ''80'') then [] else port);
          host = (if port \<noteq> [] then JoinHostPort host port
                  else if Contains host '':'' then ''['' @ host @ '']'' else host)
      in scheme @ ''://'' @ host)"

definition parseOrigin :: "net_url \<Rightarrow> string \<Rightarrow> string result" where
  "parseOrigin U origin =
     (case url_Parse U origin of
        Inl err \<Rightarrow> Inl err
      | Inr u \<Rightarrow>
          if \<not> isHTTPScheme (url_scheme u) then Inl (Plain ''scheme must be http or https'')
          else if url_host u = [] then Inl (Plain ''host is missing'')
          else if url_hasUser u \<or> (url_path u \<noteq> [] \<and> url_path u \<noteq> ''/'') \<or> url_rawQuery u \<noteq> [] \<or>
                  url_forceQuery u \<or> url_fragment u \<noteq> []
          then Inl (Plain ''must only contain scheme, host and port'')
          else Inr (canonicalOrigin U u))"

fun allowed_origin :: "net_url \<Rightarrow> string \<Rightarrow> string list \<Rightarrow> string result" where
  "allowed_origin U want [] = Inl (Plain ''origin does not match any allowed redirect URL'')"
| "allowed_origin U want (allowed # rest) =
     (case url_Parse U allowed of
        Inl _ \<Rightarrow> allowed_origin U want rest
      | Inr u \<Rightarrow>
          if \<not> isHTTPScheme (url_scheme u) \<or> url_host u = [] then allowed_origin U want rest
          else if canonicalOrigin U u = want then Inr (url_scheme u @ ''://'' @ url_host u)
          else allowed_origin U want rest)"

definition AllowedOrigin :: "net_url \<Rightarrow> string \<Rightarrow> string list \<Rightarrow> string result" where
  "AllowedOrigin U origin allowedURLs =
     (case parseOrigin U origin of
        Inl err \<Rightarrow> Inl (Wrapped err)
      | Inr want \<Rightarrow> allowed_origin U want allowedURLs)"

section \<open>The signed state\<close>

record OAuthState =
  oa_state :: string
  oa_nonce :: string
  oa_codeVerifier :: string
  oa_redirectURI :: string

record 's securecookie =
  sc_Encode :: "string \<Rightarrow> OAuthState \<Rightarrow> ('s, string) act"
  sc_Decode :: "string \<Rightarrow> string \<Rightarrow> ('s, OAuthState) act"

text \<open>What the handlers take from the standard library besides URLs.\<close>

record 's flow_lib =
  fl_url :: net_url
  fl_text :: "'s \<Rightarrow> string \<times> 's" \<comment> \<open>\<^verbatim>\<open>rand.Text\<close>\<close>
  fl_verifier :: "'s \<Rightarrow> string \<times> 's" \<comment> \<open>\<^verbatim>\<open>oauth2.GenerateVerifier\<close>\<close>
  fl_now :: "'s \<Rightarrow> time \<times> 's"
  fl_unmarshalUI :: "string \<Rightarrow> (string \<times> json) list result"

definition drawA :: "('s \<Rightarrow> 'a \<times> 's) \<Rightarrow> ('s, 'a) act" where
  [act_defs]: "drawA f = (\<lambda>s. case f s of (x, s') \<Rightarrow> (Inr x, s'))"

definition NewOAuthState :: "'s flow_lib \<Rightarrow> ('s, OAuthState) act" where
  "NewOAuthState L =
     bindA (drawA (fl_text L)) (\<lambda>state.
     bindA (drawA (fl_text L)) (\<lambda>nonce.
     bindA (drawA (fl_verifier L)) (\<lambda>verifier.
       retA \<lparr>oa_state = state, oa_nonce = nonce, oa_codeVerifier = verifier, oa_redirectURI = []\<rparr>)))"

definition oauthStateCookie :: "string \<Rightarrow> string \<Rightarrow> string \<Rightarrow> int \<Rightarrow> bool \<Rightarrow> http_cookie" where
  "oauthStateCookie name value path maxAge secureMode =
     \<lparr>ck_name = name, ck_value = value, ck_path = path, ck_maxAge = maxAge, ck_httpOnly = True,
      ck_secure = secureMode, ck_sameSiteLax = True\<rparr>"

definition SetOAuthStateCookie ::
  "http_cookie list \<Rightarrow> string \<Rightarrow> string \<Rightarrow> OAuthState \<Rightarrow> int \<Rightarrow> bool \<Rightarrow> 's securecookie \<Rightarrow> ('s, http_cookie list) act" where
  "SetOAuthStateCookie w name path value maxAge secureMode secCookie =
     bindA (wrapA Wrapped (sc_Encode secCookie name value)) (\<lambda>encoded.
       retA (SetCookie (oauthStateCookie name encoded path maxAge secureMode) w))"

definition ClearOAuthStateCookie :: "http_cookie list \<Rightarrow> string \<Rightarrow> string \<Rightarrow> bool \<Rightarrow> http_cookie list" where
  "ClearOAuthStateCookie w name path secureMode = SetCookie (oauthStateCookie name [] path (-1) secureMode) w"

definition GetOAuthStateCookie :: "'a http_request_scheme \<Rightarrow> string \<Rightarrow> 's securecookie \<Rightarrow> ('s, OAuthState) act" where
  "GetOAuthStateCookie r name secCookie =
     (case map_of (rq_cookies r) name of
        None \<Rightarrow> failA UtilBadRequest
      | Some value \<Rightarrow> wrapA (\<lambda>_. UtilBadRequest) (sc_Decode secCookie name value))"

section \<open>The OpenID Connect client\<close>

record OIDCToken =
  ot_accessToken :: string
  ot_refreshToken :: string
  ot_expiry :: time
  ot_idToken :: string

record 's OIDCConfiguration =
  oc_url :: string
  oc_clientID :: string
  oc_clientSecret :: string
  oc_secureCookie :: "'s securecookie"
  oc_cookieSecureMode :: bool
  oc_offlineAccessAsScope :: bool
  oc_skipTLSVerify :: bool
  oc_additionalRedirectURIs :: "string list"

record 's OIDCIssuerVerifier =
  iv_AuthCodeURL :: "string \<Rightarrow> bool \<Rightarrow> string \<Rightarrow> string \<Rightarrow> string \<Rightarrow> string list \<Rightarrow> string"
  iv_Exchange :: "string \<Rightarrow> string \<Rightarrow> string list \<Rightarrow> ('s, OIDCToken) act"
  iv_RefreshAccessToken :: "string \<Rightarrow> ('s, OIDCToken) act"
  iv_OIDCConfig :: "'s OIDCConfiguration"
  iv_Verify :: "'s TokenVerifier"
  iv_Extract :: TokenExtractor
  iv_GetRedirectURI :: "string \<Rightarrow> string result"

text \<open>The package \<^verbatim>\<open>golang.org/x/oauth2\<close>, as far as the client calls it.\<close>

record oauth2_config =
  o2_clientID :: string
  o2_clientSecret :: string
  o2_endpoint :: string
  o2_scopes :: "string list"
  o2_redirectURL :: string

datatype AuthCodeOption =
  AccessTypeOnline | AccessTypeOffline | S256ChallengeOption string | NonceOption string | VerifierOption string

record oauth2_token =
  tk_accessToken :: string
  tk_refreshToken :: string
  tk_expiry :: time
  tk_idToken :: "string option" \<comment> \<open>\<^verbatim>\<open>Extra("id_token")\<close> if it is a string\<close>

record 's oauth2 =
  o2_AuthCodeURL :: "oauth2_config \<Rightarrow> string \<Rightarrow> AuthCodeOption list \<Rightarrow> string"
  o2_Exchange :: "oauth2_config \<Rightarrow> string \<Rightarrow> AuthCodeOption list \<Rightarrow> ('s, oauth2_token) act"
  o2_Token :: "oauth2_config \<Rightarrow> string \<Rightarrow> ('s, oauth2_token) act" \<comment> \<open>\<^verbatim>\<open>TokenSource(...).Token()\<close>\<close>

record 's OpenIDClient =
  oi_config :: "'s OIDCConfiguration"
  oi_extractor :: TokenExtractor
  oi_redirectURI :: string
  oi_verifier :: "'s oidc"
  oi_endpoint :: string
  oi_oauth2 :: "'s oauth2"

definition oauth2Config :: "'s OpenIDClient \<Rightarrow> string \<Rightarrow> string list \<Rightarrow> oauth2_config" where
  "oauth2Config o2 overwriteRedirectURI scopes =
     (let redirectURI = (if overwriteRedirectURI \<noteq> [] then overwriteRedirectURI else oi_redirectURI o2)
      in \<lparr>o2_clientID = oc_clientID (oi_config o2), o2_clientSecret = oc_clientSecret (oi_config o2),
          o2_endpoint = oi_endpoint o2, o2_scopes = scopes, o2_redirectURL = redirectURI\<rparr>)"

definition AuthCodeURL ::
  "'s OpenIDClient \<Rightarrow> string \<Rightarrow> bool \<Rightarrow> string \<Rightarrow> string \<Rightarrow> string \<Rightarrow> string list \<Rightarrow> string" where
  "AuthCodeURL o2 state offlineAsScope overwriteRedirectURI codeVerifier nonce scopes =
     (let config = oauth2Config o2 overwriteRedirectURI scopes;
          opts = [AccessTypeOnline];
          opts = (if \<not> offlineAsScope then [AccessTypeOffline] else opts);
          opts = (if codeVerifier \<noteq> [] then opts @ [S256ChallengeOption codeVerifier] else opts);
          opts = (if nonce \<noteq> [] then opts @ [NonceOption nonce] else opts)
      in o2_AuthCodeURL (oi_oauth2 o2) config state opts)"

definition Exchange :: "'s OpenIDClient \<Rightarrow> string \<Rightarrow> string \<Rightarrow> string list \<Rightarrow> ('s, OIDCToken) act" where
  "Exchange o2 code overwriteRedirectURI codeVerifier =
     (let config = oauth2Config o2 overwriteRedirectURI [];
          opts = (case codeVerifier of v # _ \<Rightarrow> if v \<noteq> [] then [VerifierOption v] else [] | [] \<Rightarrow> [])
      in bindA (o2_Exchange (oi_oauth2 o2) config code opts) (\<lambda>tokens.
           retA \<lparr>ot_accessToken = tk_accessToken tokens, ot_refreshToken = tk_refreshToken tokens,
                 ot_expiry = tk_expiry tokens,
                 ot_idToken = (case tk_idToken tokens of Some rawIDToken \<Rightarrow> rawIDToken | None \<Rightarrow> [])\<rparr>))"

definition RefreshAccessToken :: "'s OpenIDClient \<Rightarrow> string \<Rightarrow> ('s, OIDCToken) act" where
  "RefreshAccessToken o2 refreshToken =
     bindA (wrapA Wrapped (o2_Token (oi_oauth2 o2) (oauth2Config o2 [] []) refreshToken)) (\<lambda>tokens.
       let rt = (if tk_refreshToken tokens = [] then refreshToken else tk_refreshToken tokens);
           idToken = (case tk_idToken tokens of Some rawIDToken \<Rightarrow> rawIDToken | None \<Rightarrow> [])
       in if idToken = [] then failA (Plain ''token refresh failed: id_token not found in the response'')
          else retA \<lparr>ot_accessToken = tk_accessToken tokens, ot_refreshToken = rt,
                     ot_expiry = tk_expiry tokens, ot_idToken = idToken\<rparr>)"

definition GetRedirectURI :: "net_url \<Rightarrow> 's OpenIDClient \<Rightarrow> string \<Rightarrow> string result" where
  "GetRedirectURI U o2 path =
     (case url_Parse U (oi_redirectURI o2) of
        Inl err \<Rightarrow> Inl err
      | Inr u \<Rightarrow> Inr (url_scheme u @ ''://'' @ url_host u @ path))"

definition openIDClient :: "net_url \<Rightarrow> 's OpenIDClient \<Rightarrow> 's OIDCIssuerVerifier" where
  "openIDClient U o2 =
     \<lparr>iv_AuthCodeURL = AuthCodeURL o2, iv_Exchange = Exchange o2,
      iv_RefreshAccessToken = RefreshAccessToken o2, iv_OIDCConfig = oi_config o2,
      iv_Verify = oidc_Verify (oi_verifier o2), iv_Extract = oi_extractor o2,
      iv_GetRedirectURI = GetRedirectURI U o2\<rparr>"

section \<open>Handlers\<close>

text \<open>\<^verbatim>\<open>Time.Unix()\<close>.\<close>

definition unix_seconds :: "time \<Rightarrow> int" where
  "unix_seconds t = t div 1000000000 - 62135596800"

record 's authHandler =
  ah_verifier :: "'s OIDCIssuerVerifier"
  ah_extractor :: TokenExtractor
  ah_userProvider :: "'s UserProvider"
  ah_kubermaticConfig :: "('s, string) act" \<comment> \<open>the UI configuration of the Kubermatic configuration\<close>

definition idTokenCookieName :: string where "idTokenCookieName = ''token''"
definition refreshTokenCookieName :: string where "refreshTokenCookieName = ''refresh_token''"
definition oauthStateCookieName :: string where "oauthStateCookieName = ''_oauth_state''"
definition oauthStateCookieMaxAge :: int where "oauthStateCookieMaxAge = 300"
definition callbackPath :: string where "callbackPath = ''/api/v2/auth/callback''"
definition maxCookieSize :: nat where "maxCookieSize = 3800"
definition refreshTokenCookieMaxAge :: int where "refreshTokenCookieMaxAge = 2592000"

definition NewAuthHandler ::
  "'s OIDCIssuerVerifier \<Rightarrow> 's UserProvider \<Rightarrow> ('s, string) act \<Rightarrow> 's authHandler" where
  "NewAuthHandler oidcIssuerVerifier userProvider kubermaticConfigProvider =
     \<lparr>ah_verifier = oidcIssuerVerifier,
      ah_extractor = combined_Extract [cookieHeaderBearerTokenExtractor idTokenCookieName,
                                       cookieHeaderBearerMultiTokenExtractor idTokenCookieName],
      ah_userProvider = userProvider, ah_kubermaticConfig = kubermaticConfigProvider\<rparr>"

subsection \<open>Where the browser is sent\<close>

definition requestScheme :: "'a web_request_scheme \<Rightarrow> string" where
  "requestScheme r = (if \<not> wr_tls r then ''http'' else ''https'')"

definition schemeAndHost :: "'s flow_lib \<Rightarrow> 's authHandler \<Rightarrow> 'a web_request_scheme \<Rightarrow> string \<times> string" where
  "schemeAndHost L a r =
     (let fallback = (requestScheme r, wr_host r) in
      case iv_GetRedirectURI (ah_verifier a) callbackPath of
        Inl _ \<Rightarrow> fallback
      | Inr uri \<Rightarrow>
          (case url_Parse (fl_url L) uri of
             Inl _ \<Rightarrow> fallback
           | Inr u \<Rightarrow> if url_host u \<noteq> [] then (url_scheme u, url_host u) else fallback))"

definition getCallbackURI :: "'s flow_lib \<Rightarrow> 's authHandler \<Rightarrow> 'a web_request_scheme \<Rightarrow> string" where
  "getCallbackURI L a r = (case schemeAndHost L a r of (scheme, host) \<Rightarrow> scheme @ ''://'' @ host @ callbackPath)"

definition getBaseURL :: "'s flow_lib \<Rightarrow> 's authHandler \<Rightarrow> 'a web_request_scheme \<Rightarrow> string" where
  "getBaseURL L a r = (case schemeAndHost L a r of (scheme, host) \<Rightarrow> scheme @ ''://'' @ host)"

definition allowed_redirects :: "'s authHandler \<Rightarrow> string list" where
  "allowed_redirects a =
     (let allowed = oc_additionalRedirectURIs (iv_OIDCConfig (ah_verifier a)) in
      case iv_GetRedirectURI (ah_verifier a) callbackPath of Inl _ \<Rightarrow> allowed | Inr uri \<Rightarrow> uri # allowed)"

definition getRequestBaseURL :: "'s flow_lib \<Rightarrow> 's authHandler \<Rightarrow> 'a web_request_scheme \<Rightarrow> string" where
  "getRequestBaseURL L a r =
     (let origin = rq_query r ''origin'' in
      if origin = [] then getBaseURL L a r
      else (case AllowedOrigin (fl_url L) origin (allowed_redirects a) of
              Inl _ \<Rightarrow> getBaseURL L a r
            | Inr origin \<Rightarrow> origin))"

definition loginHandler :: "'s flow_lib \<Rightarrow> 's authHandler \<Rightarrow> 'a web_request_scheme \<Rightarrow> ('s, http_response) act" where
  "loginHandler L a r =
     (let oidcConfig = iv_OIDCConfig (ah_verifier a) in
      bindA (NewOAuthState L) (\<lambda>oauthState.
        let scopes = [''openid'', ''email'', ''profile'', ''groups''];
            scopes = (if oc_offlineAccessAsScope oidcConfig then scopes @ [''offline_access''] else scopes);
            redirectURI = getRequestBaseURL L a r @ callbackPath;
            oauthState = oauthState\<lparr>oa_redirectURI := redirectURI\<rparr>;
            authURL = iv_AuthCodeURL (ah_verifier a) (oa_state oauthState) (oc_offlineAccessAsScope oidcConfig)
                        redirectURI (oa_codeVerifier oauthState) (oa_nonce oauthState) scopes
        in tryA (SetOAuthStateCookie [] oauthStateCookieName ''/'' oauthState oauthStateCookieMaxAge
                   (oc_cookieSecureMode oidcConfig) (oc_secureCookie oidcConfig)) (\<lambda>res. case res of
             Inl _ \<Rightarrow> http_Error [] 500
           | Inr w \<Rightarrow> http_Redirect w authURL)))"

subsection \<open>The session cookies\<close>

definition setNamedCookie :: "string \<Rightarrow> string \<Rightarrow> string \<Rightarrow> int \<Rightarrow> bool \<Rightarrow> http_cookie list \<Rightarrow> http_cookie list" where
  "setNamedCookie name value path maxAge secureMode w =
     SetCookie \<lparr>ck_name = name, ck_value = value, ck_path = path, ck_maxAge = maxAge, ck_httpOnly = True,
                ck_secure = secureMode, ck_sameSiteLax = True\<rparr> w"

definition clearNamedCookie :: "string \<Rightarrow> string \<Rightarrow> bool \<Rightarrow> http_cookie list \<Rightarrow> http_cookie list" where
  "clearNamedCookie name path secureMode w =
     SetCookie \<lparr>ck_name = name, ck_value = [], ck_path = path, ck_maxAge = -1, ck_httpOnly = True,
                ck_secure = secureMode, ck_sameSiteLax = True\<rparr> w"

definition clearAuthCookies :: "'a http_request_scheme \<Rightarrow> bool \<Rightarrow> http_cookie list \<Rightarrow> http_cookie list" where
  "clearAuthCookies r secureMode w =
     (let w = clearNamedCookie idTokenCookieName ''/'' secureMode w;
          w = clearNamedCookie refreshTokenCookieName ''/api/v2/auth'' secureMode w;
          chunkPrefix = idTokenCookieName @ ''-''
      in fold (\<lambda>c w. if HasPrefix (fst c) chunkPrefix then clearNamedCookie (fst c) ''/'' secureMode w else w)
           (rq_cookies r) w)"

text \<open>
  The loop of \<^verbatim>\<open>chunkString\<close> does not end when the chunk size is zero; not returning is \<^const>\<open>None\<close>.
\<close>

partial_function (option) chunk_loop :: "string \<Rightarrow> nat \<Rightarrow> nat \<Rightarrow> string list \<Rightarrow> string list option" where
  "chunk_loop token chunkSize i chunks =
     (if i < length token then
        (let end1 = i + chunkSize;
             end2 = (if end1 > length token then length token else end1)
         in chunk_loop token chunkSize (i + chunkSize) (chunks @ [take (end2 - i) (drop i token)]))
      else Some chunks)"

declare chunk_loop.simps [code]

definition chunkString :: "string \<Rightarrow> nat \<Rightarrow> string list option" where
  "chunkString token chunkSize = chunk_loop token chunkSize 0 []"

text \<open>The block that callback and refresh share: one cookie, or one per chunk.\<close>

definition chunk_cookies :: "string list \<Rightarrow> int \<Rightarrow> bool \<Rightarrow> http_cookie list \<Rightarrow> http_cookie list" where
  "chunk_cookies chunks tokenMaxAge secureMode =
     fold (\<lambda>(i, chunk). setNamedCookie (idTokenCookieName @ ''-'' @ itoa (i + 1)) chunk ''/'' tokenMaxAge secureMode)
       (enumerate 0 chunks)"

definition set_token_cookies :: "string \<Rightarrow> int \<Rightarrow> bool \<Rightarrow> http_cookie list \<Rightarrow> ('s, http_cookie list) act" where
  "set_token_cookies tokenValue tokenMaxAge secureMode w =
     (if length tokenValue \<le> maxCookieSize
      then retA (setNamedCookie idTokenCookieName tokenValue ''/'' tokenMaxAge secureMode w)
      else (case chunkString tokenValue maxCookieSize of
              Some chunks \<Rightarrow> retA (chunk_cookies chunks tokenMaxAge secureMode w)
            | None \<Rightarrow> failA Panic))"

definition set_refresh_cookie :: "string \<Rightarrow> bool \<Rightarrow> http_cookie list \<Rightarrow> http_cookie list" where
  "set_refresh_cookie refreshToken secureMode w =
     (if refreshToken \<noteq> [] then setNamedCookie refreshTokenCookieName refreshToken ''/api/v2/auth''
                              refreshTokenCookieMaxAge secureMode w
      else w)"

text \<open>
  \<^verbatim>\<open>int(time.Until(t).Seconds())\<close>: the difference saturates at the bounds of a 64 bit duration and is
  cut off towards zero. The rounding of the \<^verbatim>\<open>float64\<close> between them is that of the exact quotient.
\<close>

definition duration :: "int \<Rightarrow> int" where
  "duration d = max (- (2 ^ 63)) (min (2 ^ 63 - 1) d)"

definition until_seconds :: "time \<Rightarrow> time \<Rightarrow> int" where
  "until_seconds now t = (let d = duration (t - now) in if d \<ge> 0 then d div 1000000000 else - ((- d) div 1000000000))"

text \<open>The callback in three parts: the cookies and the landing page, the exchange of the code, the check of the state.\<close>

definition landing_page :: "user \<Rightarrow> string" where
  "landing_page userInfo =
     (case us_settings userInfo of
        Some st \<Rightarrow>
          if uset_selectedProjectID st \<noteq> [] then
            (if uset_useClustersView st then ''/projects/'' @ uset_selectedProjectID st @ ''/clusters''
             else ''/projects/'' @ uset_selectedProjectID st @ ''/overview'')
          else ''/''
      | None \<Rightarrow> ''/'')"

definition callback_session ::
  "'s flow_lib \<Rightarrow> 's authHandler \<Rightarrow> 'a web_request_scheme \<Rightarrow> http_cookie list \<Rightarrow> OIDCToken \<Rightarrow> TokenClaims \<Rightarrow>
     ('s, http_response) act" where
  "callback_session L a r w oidcTokens claims =
     (let secureMode = oc_cookieSecureMode (iv_OIDCConfig (ah_verifier a)) in
      bindA (drawA (fl_now L)) (\<lambda>now.
        let tokenMaxAge = until_seconds now (tc_expiry claims) in
        if tokenMaxAge \<le> 0 then http_Error w 500
        else
          let w = clearAuthCookies r secureMode w in
          bindA (set_token_cookies (ot_idToken oidcTokens) tokenMaxAge secureMode w) (\<lambda>w.
            let w = set_refresh_cookie (ot_refreshToken oidcTokens) secureMode w in
            tryA (up_UserByEmail (ah_userProvider a) (tc_email claims)) (\<lambda>res. case res of
              Inl _ \<Rightarrow> http_Redirect w ''/''
            | Inr userInfo \<Rightarrow> http_Redirect w (landing_page userInfo)))))"

definition callback_exchange ::
  "'s flow_lib \<Rightarrow> 's authHandler \<Rightarrow> 'a web_request_scheme \<Rightarrow> http_cookie list \<Rightarrow> OAuthState \<Rightarrow> string \<Rightarrow>
     ('s, http_response) act" where
  "callback_exchange L a r w storedState code =
     (let redirectURI = oa_redirectURI storedState;
          redirectURI = (if redirectURI = [] then getCallbackURI L a r else redirectURI)
      in tryA (iv_Exchange (ah_verifier a) code redirectURI [oa_codeVerifier storedState]) (\<lambda>res. case res of
           Inl _ \<Rightarrow> http_Error w 500
         | Inr oidcTokens \<Rightarrow>
             tryA (iv_Verify (ah_verifier a) (ot_idToken oidcTokens)) (\<lambda>res. case res of
               Inl _ \<Rightarrow> http_Error w 500
             | Inr claims \<Rightarrow>
                 if tc_nonce claims \<noteq> oa_nonce storedState then http_Error w 400
                 else if tc_email claims = [] then http_Error w 400
                 else callback_session L a r w oidcTokens claims)))"

definition callbackHandler :: "'s flow_lib \<Rightarrow> 's authHandler \<Rightarrow> 'a web_request_scheme \<Rightarrow> ('s, http_response) act" where
  "callbackHandler L a r =
     (let oidcConfig = iv_OIDCConfig (ah_verifier a);
          state = rq_query r ''state'';
          code = rq_query r ''code''
      in if state = [] \<or> code = [] then http_Error [] 400
         else tryA (GetOAuthStateCookie r oauthStateCookieName (oc_secureCookie oidcConfig)) (\<lambda>res. case res of
           Inl _ \<Rightarrow> http_Error [] 400
         | Inr storedState \<Rightarrow>
             if oa_state storedState \<noteq> state then http_Error [] 400
             else
               let w = ClearOAuthStateCookie [] oauthStateCookieName ''/'' (oc_cookieSecureMode oidcConfig)
               in callback_exchange L a r w storedState code))"

definition refresh_session ::
  "'s flow_lib \<Rightarrow> 's authHandler \<Rightarrow> 'a web_request_scheme \<Rightarrow> OIDCToken \<Rightarrow> TokenClaims \<Rightarrow> ('s, http_response) act" where
  "refresh_session L a r oidcTokens claims =
     (let secureMode = oc_cookieSecureMode (iv_OIDCConfig (ah_verifier a)) in
      bindA (drawA (fl_now L)) (\<lambda>now.
        let tokenMaxAge = until_seconds now (tc_expiry claims) in
        if tokenMaxAge \<le> 0 then http_Error (clearAuthCookies r secureMode []) 401
        else bindA (set_token_cookies (ot_idToken oidcTokens) tokenMaxAge secureMode (clearAuthCookies r secureMode [])) (\<lambda>w.
          http_Json (set_refresh_cookie (ot_refreshToken oidcTokens) secureMode w)
            (ExpiresAtBody (unix_seconds (tc_expiry claims))))))"

definition refreshHandler :: "'s flow_lib \<Rightarrow> 's authHandler \<Rightarrow> 'a web_request_scheme \<Rightarrow> ('s, http_response) act" where
  "refreshHandler L a r =
     (let cleared = clearAuthCookies r (oc_cookieSecureMode (iv_OIDCConfig (ah_verifier a))) []
      in case map_of (rq_cookies r) refreshTokenCookieName of
           None \<Rightarrow> http_Error cleared 401
         | Some refreshToken \<Rightarrow>
             tryA (iv_RefreshAccessToken (ah_verifier a) refreshToken) (\<lambda>res. case res of
               Inl _ \<Rightarrow> http_Error cleared 401
             | Inr oidcTokens \<Rightarrow>
                 tryA (iv_Verify (ah_verifier a) (ot_idToken oidcTokens)) (\<lambda>res. case res of
                   Inl _ \<Rightarrow> http_Error cleared 401
                 | Inr claims \<Rightarrow>
                     if tc_email claims = [] then http_Error cleared 401
                     else refresh_session L a r oidcTokens claims)))"

subsection \<open>Leaving\<close>

definition getOIDCProviderLogoutURL :: "'s flow_lib \<Rightarrow> string \<Rightarrow> string \<Rightarrow> string \<Rightarrow> string" where
  "getOIDCProviderLogoutURL L config token baseURL =
     (let dashboardRoot = ''/'' in
      case (if config \<noteq> [] then fl_unmarshalUI L config else Inr []) of
        Inl _ \<Rightarrow> dashboardRoot
      | Inr uiConfig \<Rightarrow>
          (case map_of uiConfig ''oidc_logout_url'' of
             Some (JString oidcLogoutURLStr) \<Rightarrow>
               if oidcLogoutURLStr = [] then dashboardRoot
               else (case url_Parse (fl_url L) oidcLogoutURLStr of
                       Inl _ \<Rightarrow> dashboardRoot
                     | Inr oidcLogoutURL \<Rightarrow>
                         (case map_of uiConfig ''oidc_provider'' of
                            Some (JString oidcProvider) \<Rightarrow>
                              let postLogoutRedirectURI = baseURL @ ''/'';
                                  urlQuery = url_Query (fl_url L) oidcLogoutURL;
                                  urlQuery =
                                    (if ToLower oidcProvider = ''keycloak''
                                     then AList.update ''id_token_hint'' [token]
                                            (AList.update ''post_logout_redirect_uri'' [postLogoutRedirectURI] urlQuery)
                                     else if ''redirectUri'' \<in> fst ` set urlQuery
                                     then AList.update ''redirectUri'' [postLogoutRedirectURI] urlQuery
                                     else AList.update ''redirect_uri'' [postLogoutRedirectURI] urlQuery)
                              in url_String (fl_url L)
                                   (oidcLogoutURL\<lparr>url_rawQuery := url_Encode (fl_url L) urlQuery\<rparr>)
                          | _ \<Rightarrow> dashboardRoot))
           | _ \<Rightarrow> dashboardRoot))"

definition logout_finish ::
  "'s authHandler \<Rightarrow> http_cookie list \<Rightarrow> user \<Rightarrow> string \<Rightarrow> TokenClaims \<Rightarrow> string \<Rightarrow> ('s, http_response) act" where
  "logout_finish a w userInfo tokenValue claims redirectPath =
     tryA (up_InvalidateToken (ah_userProvider a) (Some userInfo) tokenValue (tc_expiry claims)) (\<lambda>res. case res of
       Inl _ \<Rightarrow> http_Error w 500
     | Inr _ \<Rightarrow> http_Json w (RedirectBody redirectPath))"

definition logoutHandler :: "'s flow_lib \<Rightarrow> 's authHandler \<Rightarrow> 'a web_request_scheme \<Rightarrow> ('s, http_response) act" where
  "logoutHandler L a r =
     (let w = clearAuthCookies r (oc_cookieSecureMode (iv_OIDCConfig (ah_verifier a))) [] in
      case ah_extractor a (http_request.truncate r) of
        Inl _ \<Rightarrow> http_Error w 401
      | Inr tokenValue \<Rightarrow>
          tryA (iv_Verify (ah_verifier a) tokenValue) (\<lambda>res. case res of
            Inl _ \<Rightarrow> http_Error w 401
          | Inr claims \<Rightarrow>
              if tc_email claims = [] then http_Error w 500
              else tryA (up_UserByEmail (ah_userProvider a) (tc_email claims)) (\<lambda>res. case res of
                Inl _ \<Rightarrow> http_Error w 500
              | Inr userInfo \<Rightarrow>
                  tryA (ah_kubermaticConfig a) (\<lambda>res. case res of
                    Inl _ \<Rightarrow> logout_finish a w userInfo tokenValue claims ''/''
                  | Inr config \<Rightarrow> logout_finish a w userInfo tokenValue claims
                      (getOIDCProviderLogoutURL L config tokenValue (getRequestBaseURL L a r))))))"

definition statusHandler :: "'s authHandler \<Rightarrow> 'a web_request_scheme \<Rightarrow> ('s, http_response) act" where
  "statusHandler a r =
     (case ah_extractor a (http_request.truncate r) of
        Inl _ \<Rightarrow> http_Json [] (ExpiresAtBody 0)
      | Inr tokenValue \<Rightarrow>
          tryA (iv_Verify (ah_verifier a) tokenValue) (\<lambda>res. case res of
            Inl _ \<Rightarrow> http_Error [] 401
          | Inr claims \<Rightarrow> http_Json [] (ExpiresAtBody (unix_seconds (tc_expiry claims)))))"

section \<open>Chunks\<close>

lemma chunk_loop_drop:
  assumes "0 < n"
  shows "\<exists>cs. chunk_loop t n i acc = Some (acc @ cs) \<and> concat cs = drop i t \<and> (\<forall>c \<in> set cs. 0 < length c \<and> length c \<le> n)"
proof (induction "length t - i" arbitrary: i acc rule: less_induct)
  case less
  show ?case
  proof (cases "i < length t")
    case False
    then show ?thesis by (subst chunk_loop.simps) simp
  next
    case True
    define c where "c = take ((if i + n > length t then length t else i + n) - i) (drop i t)"
    have c: "c = take n (drop i t)" by (auto simp: c_def)
    from True assms have "length t - (i + n) < length t - i" by arith
    from less[OF this, of "acc @ [c]"] obtain cs where
      cs: "chunk_loop t n (i + n) (acc @ [c]) = Some (acc @ c # cs)" "concat cs = drop (i + n) t"
        "\<forall>c \<in> set cs. 0 < length c \<and> length c \<le> n" by auto
    have "chunk_loop t n i acc = Some (acc @ c # cs)"
      using True cs(1) by (subst chunk_loop.simps) (simp add: c_def Let_def)
    moreover have "concat (c # cs) = drop i t"
      using cs(2) by (simp add: c add.commute) (metis append_take_drop_id drop_drop add.commute)
    moreover have "0 < length c \<and> length c \<le> n" using True assms by (simp add: c)
    ultimately show ?thesis using cs(3) by (intro exI[of _ "c # cs"]) auto
  qed
qed

end
