(* ===== verification/Browser.thy ===== *)
theory Browser
  imports Auth_Flow Auth_Properties
begin

text \<open>
  The other end of the login: a browser that keeps the cookies of the responses, as RFC 6265 asks of it,
  and sends them back. It is the environment in which the session cookies of \<^verbatim>\<open>pkg/handler/v2/authflow\<close>
  have their meaning; nothing of the program is defined here. The lemmas say which cookies a browser holds
  after the handlers' clearing and setting.
\<close>

section \<open>The cookie jar\<close>

type_synonym jar = "((string \<times> string) \<times> string) list" \<comment> \<open>name and path, value\<close>

abbreviation ckey :: "http_cookie \<Rightarrow> string \<times> string" where
  "ckey c \<equiv> (ck_name c, ck_path c)"

text \<open>A negative \<open>Max-Age\<close> removes the cookie with that name and path, any other replaces it.\<close>

definition keep_cookie :: "http_cookie \<Rightarrow> jar \<Rightarrow> jar" where
  "keep_cookie c jar =
     (if ck_maxAge c < 0 then filter (\<lambda>e. fst e \<noteq> ckey c) jar else AList.update (ckey c) (ck_value c) jar)"

definition receive :: "http_cookie list \<Rightarrow> jar \<Rightarrow> jar" where
  "receive cs jar = fold keep_cookie cs jar"

definition path_match :: "string \<Rightarrow> string \<Rightarrow> bool" where
  "path_match cp p \<longleftrightarrow>
     HasPrefix p cp \<and> (p = cp \<or> (cp \<noteq> [] \<and> last cp = CHR ''/'') \<or> HasPrefix (drop (length cp) p) ''/'')"

text \<open>The cookies of a request for a path, as the server reads them: names that are no tokens are skipped.\<close>

definition sent :: "jar \<Rightarrow> string \<Rightarrow> (string \<times> string) list" where
  "sent jar p = map (\<lambda>((n, cp), v). (n, v)) (filter (\<lambda>((n, cp), v). path_match cp p \<and> isToken n) jar)"

text \<open>The names under which the session token is kept.\<close>

definition session_name :: "string \<Rightarrow> bool" where
  "session_name n \<longleftrightarrow> n = idTokenCookieName \<or> HasPrefix n (idTokenCookieName @ ''-'')"

text \<open>The names the dashboard uses for the whole site.\<close>

definition site_name :: "string \<Rightarrow> bool" where
  "site_name n \<longleftrightarrow> session_name n \<or> n = oauthStateCookieName"

text \<open>A jar that got these cookies from the dashboard: they are all there for the whole site.\<close>

definition jar_ok :: "jar \<Rightarrow> bool" where
  "jar_ok jar \<longleftrightarrow> (\<forall>((n, cp), v) \<in> set jar. site_name n \<longrightarrow> cp = ''/'')"

section \<open>What a browser holds\<close>

lemma map_of_remove: "map_of (filter (\<lambda>e. fst e \<noteq> k) al) = (map_of al)(k := None)"
  by (induction al) (auto simp: fun_eq_iff)

lemma map_of_keep_cookie:
  "map_of (keep_cookie c jar) =
     (map_of jar)(ckey c := if ck_maxAge c < 0 then None else Some (ck_value c))"
  by (simp add: keep_cookie_def map_of_remove update_conv')

lemma receive_append: "receive (cs @ ds) jar = receive ds (receive cs jar)"
  by (simp add: receive_def)

lemma receive_Nil [simp]: "receive [] jar = jar"
  by (simp add: receive_def)

lemma receive_Cons [simp]: "receive (c # cs) jar = receive cs (keep_cookie c jar)"
  by (simp add: receive_def)

lemma receive_other: "(\<forall>c \<in> set cs. ckey c \<noteq> k) \<Longrightarrow> map_of (receive cs jar) k = map_of jar k"
  by (induction cs arbitrary: jar) (auto simp: map_of_keep_cookie)

lemma receive_cleared:
  assumes "\<forall>c \<in> set cs. ck_maxAge c < 0"
  shows "map_of (receive cs jar) k = (if k \<in> ckey ` set cs then None else map_of jar k)"
  using assms by (induction cs arbitrary: jar) (auto simp: map_of_keep_cookie)

lemma receive_distinct:
  assumes "distinct (map ckey cs)" and "c \<in> set cs" and "0 \<le> ck_maxAge c"
  shows "map_of (receive cs jar) (ckey c) = Some (ck_value c)"
  using assms
proof (induction cs arbitrary: jar)
  case (Cons d cs)
  show ?case
  proof (cases "c = d")
    case True
    with Cons.prems(1) have "\<forall>e \<in> set cs. ckey e \<noteq> ckey c" by (auto simp: image_iff)
    from receive_other[OF this] True Cons.prems(3) show ?thesis by (simp add: map_of_keep_cookie)
  qed (use Cons in auto)
qed simp

lemma set_update_subset: "set (AList.update k v al) \<subseteq> insert (k, v) (set al)"
  by (induction al) auto

lemma jar_ok_keep:
  assumes "jar_ok jar" and "site_name (ck_name c) \<longrightarrow> ck_path c = ''/''"
  shows "jar_ok (keep_cookie c jar)"
proof -
  have "set (keep_cookie c jar) \<subseteq> insert (ckey c, ck_value c) (set jar)"
    using set_update_subset[of "ckey c" "ck_value c" jar] by (auto simp: keep_cookie_def)
  then show ?thesis using assms unfolding jar_ok_def by fastforce
qed

lemma jar_ok_receive:
  "jar_ok jar \<Longrightarrow> (\<forall>c \<in> set cs. site_name (ck_name c) \<longrightarrow> ck_path c = ''/'') \<Longrightarrow> jar_ok (receive cs jar)"
  by (induction cs arbitrary: jar) (auto intro: jar_ok_keep)

lemma sent_site:
  assumes "jar_ok jar" and "site_name n" and "isToken n" and "HasPrefix p ''/''"
  shows "map_of (sent jar p) n = map_of jar (n, ''/'')"
proof -
  have "path_match ''/'' p" using assms(4) by (simp add: path_match_def)
  with assms show ?thesis
    by (induction jar) (auto simp: sent_def jar_ok_def)
qed

end
