(* ===== verification/Mem_Extend.thy ===== *)
theory Mem_Extend
  imports Mem_Api
begin

text \<open>
  The in-memory server next to a store of further objects: an environment is lifted to a state that has a
  second part, which its own clients leave alone. It is what the witnesses about presets and SSH keys run on.
\<close>

definition lift_act :: "('a, 'r) act \<Rightarrow> ('a \<times> 'b, 'r) act" where
  "lift_act m = (\<lambda>(a, b). case m a of (r, a') \<Rightarrow> (r, (a', b)))"

definition lift_client :: "('o, 'a) kclient \<Rightarrow> ('o, 'a \<times> 'b) kclient" where
  "lift_client c =
     \<lparr>kGet = (\<lambda>k (a, b). kGet c k a), kList = (\<lambda>sel (a, b). kList c sel a),
      kCreate = (\<lambda>x. lift_act (kCreate c x)), kUpdate = (\<lambda>x. lift_act (kUpdate c x)),
      kDelete = (\<lambda>k. lift_act (kDelete c k)), kPatchStatus = (\<lambda>x y. lift_act (kPatchStatus c x y))\<rparr>"

definition lift_clientset :: "'a clientset \<Rightarrow> ('a \<times> 'b) clientset" where
  "lift_clientset c =
     \<lparr>cs_users = lift_client (cs_users c), cs_upbs = lift_client (cs_upbs c), cs_gpbs = lift_client (cs_gpbs c),
      cs_projects = lift_client (cs_projects c), cs_secrets = lift_client (cs_secrets c),
      cs_settings = lift_client (cs_settings c)\<rparr>"

definition lift_draw :: "('a \<Rightarrow> 'r \<times> 'a) \<Rightarrow> 'a \<times> 'b \<Rightarrow> 'r \<times> 'a \<times> 'b" where
  "lift_draw f = (\<lambda>(a, b). case f a of (r, a') \<Rightarrow> (r, (a', b)))"

definition lift_env :: "'a env \<Rightarrow> ('a \<times> 'b) env" where
  "lift_env E = sdk.extend (sdk.truncate E)
     (env.fields (lift_clientset (privileged E)) (\<lambda>e g. map_sum id lift_clientset (impersonated E e g))
        (lift_draw (randString E)) (lift_draw (clock E)) (saDomain E))"

lemma lift_env_fields [simp]:
  "privileged (lift_env E) = lift_clientset (privileged E)"
  "impersonated (lift_env E) e g = map_sum id lift_clientset (impersonated E e g)"
  "randString (lift_env E) = lift_draw (randString E)" "clock (lift_env E) = lift_draw (clock E)"
  by (simp_all add: lift_env_def sdk.defs env.defs)

lemma lift_client_writes_ok:
  assumes "writes_ok V same get upd c"
  shows "writes_ok (\<lambda>s. V (fst s)) same get upd (lift_client c)"
  using assms unfolding writes_ok_defs lift_client_def lift_act_def
  by (auto split: prod.splits)

lemma lift_list_ok: "list_ok g c \<Longrightarrow> list_ok (\<lambda>s. g (fst s)) (lift_client c)"
  by (simp add: list_ok_def lift_client_def)

lemma lift_get_ok: "get_ok g c \<Longrightarrow> get_ok (\<lambda>s. g (fst s)) (lift_client c)"
  by (simp add: get_ok_def lift_client_def)

lemma lift_clientset_ok: "clientset_ok V c \<Longrightarrow> clientset_ok (\<lambda>s. V (fst s)) (lift_clientset c)"
  by (simp add: clientset_ok_def lift_clientset_def lift_client_writes_ok)

lemma lift_draw_view: "\<forall>s. V (snd (f s)) = V s \<Longrightarrow> V (fst (snd (lift_draw f s))) = V (fst s)"
  by (simp add: lift_draw_def split: prod.splits) (metis snd_conv)

lemma lift_api_ok:
  fixes E :: "'a env"
  assumes api: "api_ok V E"
  shows "api_ok (\<lambda>s :: 'a \<times> 'b. V (fst s)) (lift_env E)"
proof -
  have imp: "clientset_ok (\<lambda>s :: 'a \<times> 'b. V (fst s)) c"
    if "map_sum id lift_clientset (impersonated E e g) = Inr c" for e g c
    using that by (cases "impersonated E e g") (auto intro: lift_clientset_ok api_ok_impersonated[OF api])
  have priv: "clientset_ok (\<lambda>s :: 'a \<times> 'b. V (fst s)) (lift_clientset (privileged E))"
    by (rule lift_clientset_ok[OF api_ok_privileged[OF api]])
  have lifted: "cs_users (lift_clientset c) = lift_client (cs_users c)"
    "cs_upbs (lift_clientset c) = lift_client (cs_upbs c)" "cs_gpbs (lift_clientset c) = lift_client (cs_gpbs c)"
    "cs_projects (lift_clientset c) = lift_client (cs_projects c)"
    "cs_secrets (lift_clientset c) = lift_client (cs_secrets c)"
    "cs_settings (lift_clientset c) = lift_client (cs_settings c)" for c :: "'a clientset"
    by (simp_all add: lift_clientset_def)
  have draws: "\<forall>s. V (snd (randString E s)) = V s" "\<forall>s. V (snd (clock E s)) = V s"
    using api by (simp_all add: api_ok_def)
  show ?thesis
    unfolding api_ok_def lift_env_fields
    by (intro conjI allI impI priv imp lift_draw_view draws; (assumption | (unfold lifted, (rule lift_list_ok lift_get_ok, rule api_okD[OF api])+)))
qed

text \<open>The client of the second part.\<close>

definition extra_client :: "('o objmeta_scheme, 'a \<times> 'o objmeta_scheme list) kclient" where
  "extra_client = mem_client snd (\<lambda>xs (a, _). (a, xs))"

lemma extra_client_ok:
  "list_ok snd extra_client" "get_ok snd extra_client" "create_ok snd extra_client" "delete_ok snd extra_client"
  "update_ok snd extra_client"
  unfolding extra_client_def by (rule mem_client_ok; auto)+

end
