(* ===== verification/Auth_Flow_Properties.thy ===== *)
theory Auth_Flow_Properties
  imports Browser Session_Properties Mem_Extend
begin

text \<open>
  What the browser login guarantees: who may be logged in (the callback checks the signed state, the code
  verifier and the nonce), where a browser may be sent, that the session cookies a browser gets are the ones
  the next request is authenticated by, and that the session is over when refreshing fails or after logout.
\<close>

section \<open>The session cookies\<close>

abbreviation session_extractor :: TokenExtractor where
  "session_extractor \<equiv> combined_Extract [cookieHeaderBearerTokenExtractor idTokenCookieName,
     cookieHeaderBearerMultiTokenExtractor idTokenCookieName]"

lemma itoa_token: "list_all is_token_char (itoa n)"
proof (induction n rule: itoa.induct)
  case (1 n)
  have digit: "is_token_char (char_of (48 + d))" if "d < 10" for d :: nat
    using that by (auto simp: is_token_char_def Let_def)
  show ?case
    using 1 digit[of n] digit[of "n mod 10"] by (subst itoa.simps) auto
qed

lemma token_names [simp]:
  "isToken idTokenCookieName" "isToken refreshTokenCookieName" "isToken oauthStateCookieName"
  "isToken (indexed_cookie idTokenCookieName i)"
proof -
  show "isToken (indexed_cookie idTokenCookieName i)"
    using itoa_token[of i]
    by (simp add: isToken_def indexed_cookie_def idTokenCookieName_def is_token_char_def Let_def)
qed (code_simp+)

lemma session_names [simp]:
  "session_name idTokenCookieName" "session_name (indexed_cookie idTokenCookieName i)"
  "\<not> session_name refreshTokenCookieName" "\<not> session_name oauthStateCookieName"
  by (simp_all add: session_name_def indexed_cookie_def idTokenCookieName_def refreshTokenCookieName_def
      oauthStateCookieName_def HasPrefix_def)

lemma indexed_not_plain [simp]:
  "indexed_cookie idTokenCookieName i \<noteq> idTokenCookieName" "idTokenCookieName \<noteq> indexed_cookie idTokenCookieName i"
  by (simp_all add: indexed_cookie_def)

lemma indexed_cookie_eq [simp]: "indexed_cookie name i = indexed_cookie name j \<longleftrightarrow> i = j"
  using inj_indexed_cookie[of name] by (auto dest: injD)

definition clear_cookie :: "string \<Rightarrow> string \<Rightarrow> bool \<Rightarrow> http_cookie" where
  "clear_cookie name path sm = \<lparr>ck_name = name, ck_value = [], ck_path = path, ck_maxAge = -1, ck_httpOnly = True,
     ck_secure = sm, ck_sameSiteLax = True\<rparr>"

lemma clearNamedCookie_eq:
  "clearNamedCookie name path sm w = (if isToken name then w @ [clear_cookie name path sm] else w)"
  by (simp add: clearNamedCookie_def SetCookie_def clear_cookie_def sanitizeCookieValue_def)

definition chunk_clears :: "(string \<times> string) list \<Rightarrow> bool \<Rightarrow> http_cookie list" where
  "chunk_clears cookies sm = map (\<lambda>c. clear_cookie (fst c) ''/'' sm)
     (filter (\<lambda>c. HasPrefix (fst c) (idTokenCookieName @ ''-'') \<and> isToken (fst c)) cookies)"

lemma clearAuthCookies_eq:
  "clearAuthCookies r sm w = w @ clear_cookie idTokenCookieName ''/'' sm #
     clear_cookie refreshTokenCookieName ''/api/v2/auth'' sm # chunk_clears (rq_cookies r) sm"
proof -
  have "fold (\<lambda>c w. if HasPrefix (fst c) (idTokenCookieName @ ''-'') then clearNamedCookie (fst c) ''/'' sm w else w) cs w =
      w @ chunk_clears cs sm" for cs :: "(string \<times> string) list" and w
    by (induction cs arbitrary: w) (auto simp: chunk_clears_def clearNamedCookie_eq)
  then show ?thesis by (simp add: clearAuthCookies_def clearNamedCookie_eq Let_def)
qed

text \<open>A token that can stand in a cookie as it is, as the base64url text of a JWT can.\<close>

definition cookie_safe :: "string \<Rightarrow> bool" where
  "cookie_safe v \<longleftrightarrow> list_all (\<lambda>c. validCookieValueByte c \<and> c \<noteq> CHR '' '' \<and> c \<noteq> CHR '','') v"

lemma sanitize_safe: "cookie_safe v \<Longrightarrow> sanitizeCookieValue v = v"
proof -
  assume safe: "cookie_safe v"
  then have "filter validCookieValueByte v = v"
    by (simp add: cookie_safe_def list_all_iff)
  with safe show ?thesis
    by (auto simp: sanitizeCookieValue_def Let_def cookie_safe_def list_all_iff list_ex_iff)
qed

lemma cookie_safe_concat: "cookie_safe (concat vs) \<longleftrightarrow> (\<forall>v \<in> set vs. cookie_safe v)"
  by (auto simp: cookie_safe_def list_all_iff)

definition set_cookie :: "string \<Rightarrow> string \<Rightarrow> string \<Rightarrow> int \<Rightarrow> bool \<Rightarrow> http_cookie" where
  "set_cookie name value path age sm = \<lparr>ck_name = name, ck_value = sanitizeCookieValue value, ck_path = path,
     ck_maxAge = age, ck_httpOnly = True, ck_secure = sm, ck_sameSiteLax = True\<rparr>"

lemma setNamedCookie_eq:
  "isToken name \<Longrightarrow> setNamedCookie name value path age sm w = w @ [set_cookie name value path age sm]"
  by (simp add: setNamedCookie_def SetCookie_def set_cookie_def)

lemma cookie_fields [simp]:
  "ckey (clear_cookie n p sm) = (n, p)" "ck_maxAge (clear_cookie n p sm) = -1"
  "ckey (set_cookie n v p age sm) = (n, p)" "ck_maxAge (set_cookie n v p age sm) = age"
  "ck_value (set_cookie n v p age sm) = sanitizeCookieValue v"
  "ck_name (set_cookie n v p age sm) = n" "ck_path (set_cookie n v p age sm) = p"
  "ck_name (clear_cookie n p sm) = n" "ck_path (clear_cookie n p sm) = p"
  by (simp_all add: clear_cookie_def set_cookie_def)

definition chunk_sets :: "nat \<Rightarrow> string list \<Rightarrow> int \<Rightarrow> bool \<Rightarrow> http_cookie list" where
  "chunk_sets k chunks age sm =
     map (\<lambda>(i, c). set_cookie (indexed_cookie idTokenCookieName (Suc i)) c ''/'' age sm) (enumerate k chunks)"

lemma chunk_cookies_eq: "chunk_cookies chunks age sm w = w @ chunk_sets 0 chunks age sm"
proof -
  have "fold (\<lambda>(i, chunk). setNamedCookie (idTokenCookieName @ ''-'' @ itoa (i + 1)) chunk ''/'' age sm)
      (enumerate k chunks) w = w @ chunk_sets k chunks age sm" for k w
  proof (induction chunks arbitrary: k w)
    case (Cons c cs)
    then show ?case
      using setNamedCookie_eq[OF token_names(4)[of "Suc k"]]
      by (simp add: chunk_sets_def indexed_cookie_def)
  qed (simp add: chunk_sets_def)
  then show ?thesis by (simp add: chunk_cookies_def)
qed

lemma chunkString_spec:
  assumes "0 < n"
  obtains cs where "chunkString t n = Some cs" and "concat cs = t" and "\<forall>c \<in> set cs. 0 < length c \<and> length c \<le> n"
  using chunk_loop_drop[OF assms, of t 0 "[]"] by (auto simp: chunkString_def)

lemma set_token_cookies_run:
  obtains cs where "set_token_cookies tok age sm w s = (Inr (w @ cs), s)"
    and "cs = [set_cookie idTokenCookieName tok ''/'' age sm] \<or>
         (\<exists>chunks. cs = chunk_sets 0 chunks age sm \<and> concat chunks = tok)"
proof (cases "length tok \<le> maxCookieSize")
  case True
  then show ?thesis using that by (simp add: set_token_cookies_def setNamedCookie_eq)
next
  case False
  have "0 < maxCookieSize" by (simp add: maxCookieSize_def)
  then obtain chunks where "chunkString tok maxCookieSize = Some chunks" "concat chunks = tok"
    by (rule chunkString_spec)
  with False show ?thesis using that by (simp add: set_token_cookies_def chunk_cookies_eq) blast
qed

lemma chunk_sets_keys: "map ckey (chunk_sets k cs age sm) = map (\<lambda>i. (indexed_cookie idTokenCookieName (Suc i), ''/'')) [k..<k + length cs]"
  by (auto simp: chunk_sets_def enumerate_eq_zip case_prod_beta intro!: nth_equalityI)

lemma chunk_sets_mem: "j < length cs \<Longrightarrow> set_cookie (indexed_cookie idTokenCookieName (Suc j)) (cs ! j) ''/'' age sm \<in> set (chunk_sets 0 cs age sm)"
  by (force simp: chunk_sets_def enumerate_eq_zip in_set_zip)

lemma chunk_sets_names: "c \<in> set (chunk_sets k cs age sm) \<Longrightarrow> ck_path c = ''/'' \<and> ck_maxAge c = age \<and> (\<exists>i. ck_name c = indexed_cookie idTokenCookieName i)"
  by (auto simp: chunk_sets_def)

subsection \<open>The old session is gone\<close>

lemma site_names [simp]:
  "session_name n \<Longrightarrow> site_name n" "site_name oauthStateCookieName" "\<not> site_name refreshTokenCookieName"
  by (simp_all add: site_name_def refreshTokenCookieName_def oauthStateCookieName_def session_name_def
      idTokenCookieName_def HasPrefix_def)

lemma clearAuthCookies_facts:
  "\<forall>c \<in> set (clearAuthCookies r sm []). ck_maxAge c < 0"
  "\<forall>c \<in> set (clearAuthCookies r sm []). site_name (ck_name c) \<longrightarrow> ck_path c = ''/''"
  "\<forall>c \<in> set (clearAuthCookies r sm []). ck_name c \<noteq> oauthStateCookieName"
proof -
  show "\<forall>c \<in> set (clearAuthCookies r sm []). ck_name c \<noteq> oauthStateCookieName"
    by (auto simp: clearAuthCookies_eq chunk_clears_def oauthStateCookieName_def idTokenCookieName_def
        refreshTokenCookieName_def HasPrefix_def)
qed (auto simp: clearAuthCookies_eq chunk_clears_def)

lemma session_lookup:
  assumes "jar_ok jar" and "\<forall>c \<in> set cs. site_name (ck_name c) \<longrightarrow> ck_path c = ''/''"
    and "site_name n" and "isToken n" and "HasPrefix p ''/''"
  shows "map_of (sent (receive cs jar) p) n = map_of (receive cs jar) (n, ''/'')"
  using sent_site[OF jar_ok_receive[OF assms(1,2)]] assms(3-5) by simp

lemma session_cleared:
  assumes jar: "jar_ok jar" and p: "HasPrefix p ''/''" and r: "rq_cookies r = sent jar p"
    and pre: "\<forall>c \<in> set pre. \<not> session_name (ck_name c)" and n: "session_name n" "isToken n"
  shows "map_of (receive (pre @ clearAuthCookies r sm []) jar) (n, ''/'') = None"
proof (cases "(n, ''/'') \<in> ckey ` set (clearAuthCookies r sm [])")
  case True
  then show ?thesis using receive_cleared[OF clearAuthCookies_facts(1)[of r sm]] by (simp add: receive_append)
next
  case False
  have "map_of (receive pre jar) (n, ''/'') = map_of jar (n, ''/'')"
    by (rule receive_other) (use pre n in auto)
  then have *: "map_of (receive (pre @ clearAuthCookies r sm []) jar) (n, ''/'') = map_of jar (n, ''/'')"
    using False receive_cleared[OF clearAuthCookies_facts(1)[of r sm]] by (simp add: receive_append)
  have "n \<noteq> idTokenCookieName" using False by (force simp: clearAuthCookies_eq)
  then have "HasPrefix n (idTokenCookieName @ ''-'')" using n by (simp add: session_name_def)
  then have "n \<notin> fst ` set (rq_cookies r)"
    using False n(2) by (force simp: clearAuthCookies_eq chunk_clears_def)
  then have "map_of (rq_cookies r) n = None" by (simp add: map_of_eq_None_iff)
  then show ?thesis using * sent_site[OF jar site_names(1)[OF n(1)] n(2) p] by (simp add: r)
qed

lemma no_session:
  assumes "map_of (rq_cookies r) idTokenCookieName = None"
    and "map_of (rq_cookies r) (indexed_cookie idTokenCookieName 1) = None"
  shows "isl (session_extractor r)"
  using assms cookie_chunks.simps[of "rq_cookies r" idTokenCookieName 1]
  by (simp add: cookieHeaderBearerTokenExtractor_def cookieHeaderBearerMultiTokenExtractor_def idTokenCookieName_def)

text \<open>After a response that only clears, the browser has no session.\<close>

lemma session_over:
  assumes jar: "jar_ok jar" and p: "HasPrefix p ''/''" and r: "rq_cookies r = sent jar p"
    and p2: "HasPrefix p2 ''/''" and r2: "rq_cookies r2 = sent (receive (clearAuthCookies r sm []) jar) p2"
  shows "isl (session_extractor r2)"
proof -
  have "map_of (rq_cookies r2) n = None" if "session_name n" "isToken n" for n
    using session_lookup[OF jar clearAuthCookies_facts(2)[of r sm] site_names(1)[OF that(1)] that(2) p2] session_cleared[OF jar p r _ that, of "[]" sm]
    by (simp add: r2)
  then show ?thesis by (intro no_session) simp_all
qed

subsection \<open>The new one is there\<close>

lemma session_stored_single:
  assumes "map_of (rq_cookies r) idTokenCookieName = Some tok"
  shows "session_extractor r = Inr tok"
  using assms by (simp add: cookieHeaderBearerTokenExtractor_def idTokenCookieName_def)

lemma session_stored_chunks:
  assumes cleared: "\<And>n. session_name n \<Longrightarrow> isToken n \<Longrightarrow> map_of jar (n, ''/'') = None"
    and look: "\<And>n. session_name n \<Longrightarrow> isToken n \<Longrightarrow>
      map_of (rq_cookies r) n = map_of (receive (chunk_sets 0 chunks age sm) jar) (n, ''/'')"
    and tok: "concat chunks \<noteq> []" "cookie_safe (concat chunks)" and age: "0 < age"
  shows "session_extractor r = Inr (concat chunks)"
proof -
  let ?cs = "chunk_sets 0 chunks age sm"
  have keys: "ckey ` set ?cs = (\<lambda>i. (indexed_cookie idTokenCookieName (Suc i), ''/'')) ` {0..<length chunks}"
    using arg_cong[OF chunk_sets_keys[of 0 chunks age sm], of set] by simp
  have none: "map_of (rq_cookies r) n = None"
    if "session_name n" "isToken n" "(n, ''/'') \<notin> ckey ` set ?cs" for n
  proof -
    have "map_of (receive ?cs jar) (n, ''/'') = map_of jar (n, ''/'')"
      by (rule receive_other) (use that(3) in \<open>auto simp: image_iff\<close>)
    then show ?thesis by (simp add: look[OF that(1,2)] cleared[OF that(1,2)])
  qed
  have plain: "map_of (rq_cookies r) idTokenCookieName = None"
    by (rule none) (simp_all add: keys image_iff)
  have chunk: "map_of (rq_cookies r) (indexed_cookie idTokenCookieName (Suc j)) = Some (chunks ! j)"
    if "j < length chunks" for j
  proof -
    have "distinct (map ckey ?cs)" by (simp add: chunk_sets_keys distinct_map inj_on_def)
    from receive_distinct[OF this chunk_sets_mem[OF that, of age sm], of jar]
    have "map_of (receive ?cs jar) (indexed_cookie idTokenCookieName (Suc j), ''/'') = Some (sanitizeCookieValue (chunks ! j))"
      using age by simp
    moreover have "cookie_safe (chunks ! j)" using tok(2) that by (auto simp: cookie_safe_concat)
    ultimately show ?thesis using look[OF session_names(2) token_names(4)] by (simp add: sanitize_safe)
  qed
  have "map_of (rq_cookies r) (indexed_cookie idTokenCookieName (Suc (length chunks))) = None"
    by (rule none) (simp_all add: keys image_iff)
  then have "cookie_chunks (rq_cookies r) idTokenCookieName 1 = concat chunks"
    using chunk by (intro cookie_chunks_concat) simp_all
  then show ?thesis using plain tok(1)
    by (simp add: cookieHeaderBearerTokenExtractor_def cookieHeaderBearerMultiTokenExtractor_def idTokenCookieName_def)
qed

text \<open>
  The cookies a session starts with: whatever was written before, the clearing of the old session, the
  cookies of the token, and whatever is written after.
\<close>

lemma session_stored:
  assumes jar: "jar_ok jar" and p: "HasPrefix p ''/''" and p2: "HasPrefix p2 ''/''"
    and cs: "cs = [set_cookie idTokenCookieName tok ''/'' age sm] \<or>
         (\<exists>chunks. cs = chunk_sets 0 chunks age sm \<and> concat chunks = tok)"
    and tok: "tok \<noteq> []" "cookie_safe tok" and age: "0 < age"
    and pre: "\<forall>c \<in> set pre. \<not> session_name (ck_name c) \<and> (site_name (ck_name c) \<longrightarrow> ck_path c = ''/'')"
    and post: "\<forall>c \<in> set post. \<not> site_name (ck_name c)"
    and r2: "rq_cookies r2 = sent (receive (pre @ clearAuthCookies r sm [] @ cs @ post) jar) p2"
    and r: "rq_cookies r = sent jar p"
  shows "session_extractor r2 = Inr tok"
proof -
  define jar1 where "jar1 = receive (pre @ clearAuthCookies r sm []) jar"
  have cleared: "map_of jar1 (n, ''/'') = None" if "session_name n" "isToken n" for n
    unfolding jar1_def by (rule session_cleared[OF jar p r _ that]) (use pre in blast)
  have paths: "\<forall>c \<in> set (pre @ clearAuthCookies r sm [] @ cs @ post). site_name (ck_name c) \<longrightarrow> ck_path c = ''/''"
    using pre post cs clearAuthCookies_facts(2)[of r sm] by (auto dest: chunk_sets_names)
  have look: "map_of (rq_cookies r2) n = map_of (receive cs jar1) (n, ''/'')" if n: "session_name n" "isToken n" for n
  proof -
    have "map_of (receive post (receive cs jar1)) (n, ''/'') = map_of (receive cs jar1) (n, ''/'')"
      by (rule receive_other) (use post n in auto)
    then show ?thesis
      using session_lookup[OF jar paths site_names(1)[OF n(1)] n(2) p2] by (simp add: r2 jar1_def receive_append)
  qed
  from cs show ?thesis
  proof (elim disjE exE conjE)
    assume "cs = [set_cookie idTokenCookieName tok ''/'' age sm]"
    then show ?thesis
      using age tok by (intro session_stored_single) (simp add: look map_of_keep_cookie sanitize_safe)
  next
    fix chunks assume "cs = chunk_sets 0 chunks age sm" and "concat chunks = tok"
    then show ?thesis using session_stored_chunks[OF cleared, of r2 chunks age sm] look tok age by simp
  qed
qed

section \<open>Who is logged in\<close>

lemma drawA_eq_Inr: "drawA f s = (Inr x, t) \<longleftrightarrow> f s = (x, t)"
  by (auto simp: drawA_def split: prod.splits)

lemma http_run [simp]:
  "http_Error w code s = (Inr \<lparr>rs_status = code, rs_location = None, rs_setCookies = w, rs_body = ErrorBody\<rparr>, s)"
  "http_Redirect w u s = (Inr \<lparr>rs_status = 303, rs_location = Some u, rs_setCookies = w, rs_body = NoBody\<rparr>, s)"
  "http_Json w b s = (Inr \<lparr>rs_status = 200, rs_location = None, rs_setCookies = w, rs_body = b\<rparr>, s)"
  by (simp_all add: http_Error_def http_Redirect_def http_Json_def)

text \<open>
  A login that the callback accepts: \<open>st\<close> is the state that the request's signed cookie holds, \<open>toks\<close> what the
  provider gave for the code, \<open>claims\<close> the verified claims of its ID token, \<open>age\<close> the seconds until it expires.
\<close>

definition login_accepted ::
  "'s flow_lib \<Rightarrow> 's authHandler \<Rightarrow> 'a web_request_scheme \<Rightarrow> 's \<Rightarrow> OAuthState \<Rightarrow> OIDCToken \<Rightarrow> TokenClaims \<Rightarrow> int \<Rightarrow> 's \<Rightarrow> bool" where
  "login_accepted L a r s st toks claims age s4 \<longleftrightarrow>
     (\<exists>v s1 s2 s3 now.
        map_of (rq_cookies r) oauthStateCookieName = Some v \<and>
        sc_Decode (oc_secureCookie (iv_OIDCConfig (ah_verifier a))) oauthStateCookieName v s = (Inr st, s1) \<and>
        oa_state st = rq_query r ''state'' \<and> oa_state st \<noteq> [] \<and> rq_query r ''code'' \<noteq> [] \<and>
        iv_Exchange (ah_verifier a) (rq_query r ''code'')
          (if oa_redirectURI st = [] then getCallbackURI L a r else oa_redirectURI st) [oa_codeVerifier st] s1 = (Inr toks, s2) \<and>
        iv_Verify (ah_verifier a) (ot_idToken toks) s2 = (Inr claims, s3) \<and>
        tc_nonce claims = oa_nonce st \<and> tc_email claims \<noteq> [] \<and>
        fl_now L s3 = (now, s4) \<and> age = until_seconds now (tc_expiry claims) \<and> 0 < age)"

abbreviation secure_mode :: "'s authHandler \<Rightarrow> bool" where
  "secure_mode a \<equiv> oc_cookieSecureMode (iv_OIDCConfig (ah_verifier a))"

definition refused :: "http_response \<Rightarrow> bool" where
  "refused resp \<longleftrightarrow> 400 \<le> rs_status resp \<and> rs_location resp = None \<and>
     (\<forall>c \<in> set (rs_setCookies resp). ck_name c = oauthStateCookieName \<and> ck_maxAge c < 0)"

lemma clear_state_cookie:
  "ClearOAuthStateCookie [] oauthStateCookieName ''/'' sm = [clear_cookie oauthStateCookieName ''/'' sm]"
  by (simp add: ClearOAuthStateCookie_def SetCookie_def oauthStateCookie_def clear_cookie_def sanitizeCookieValue_def)

definition refresh_sets :: "string \<Rightarrow> bool \<Rightarrow> http_cookie list" where
  "refresh_sets rt sm =
     (if rt = [] then [] else [set_cookie refreshTokenCookieName rt ''/api/v2/auth'' refreshTokenCookieMaxAge sm])"

lemma set_refresh_cookie_eq: "set_refresh_cookie rt sm w = w @ refresh_sets rt sm"
  by (simp add: set_refresh_cookie_def refresh_sets_def setNamedCookie_eq)

lemma refresh_sets_names: "\<forall>c \<in> set (refresh_sets rt sm). \<not> site_name (ck_name c)"
  by (simp add: refresh_sets_def)

text \<open>What the parts of the callback end in.\<close>

definition session_cookies :: "'s authHandler \<Rightarrow> 'a web_request_scheme \<Rightarrow> string \<Rightarrow> int \<Rightarrow> http_cookie list \<Rightarrow> http_cookie list \<Rightarrow> bool" where
  "session_cookies a r tok age w out \<longleftrightarrow>
     (\<exists>cs post. out = w @ clearAuthCookies r (secure_mode a) [] @ cs @ post \<and>
        (cs = [set_cookie idTokenCookieName tok ''/'' age (secure_mode a)] \<or>
           (\<exists>chunks. cs = chunk_sets 0 chunks age (secure_mode a) \<and> concat chunks = tok)) \<and>
        (\<forall>c \<in> set post. \<not> site_name (ck_name c)))"

lemma set_session_run:
  obtains out where "set_token_cookies tok age (secure_mode a) (clearAuthCookies r (secure_mode a) w) s = (Inr out, s)"
    and "session_cookies a r tok age w (set_refresh_cookie rt (secure_mode a) out)"
proof -
  let ?sm = "secure_mode a"
  obtain cs where cs: "set_token_cookies tok age ?sm (clearAuthCookies r ?sm w) s = (Inr (clearAuthCookies r ?sm w @ cs), s)"
    "cs = [set_cookie idTokenCookieName tok ''/'' age ?sm] \<or> (\<exists>chunks. cs = chunk_sets 0 chunks age ?sm \<and> concat chunks = tok)"
    by (rule set_token_cookies_run)
  have "clearAuthCookies r ?sm w = w @ clearAuthCookies r ?sm []" by (simp add: clearAuthCookies_eq)
  with cs refresh_sets_names[of rt ?sm]
  have "session_cookies a r tok age w (set_refresh_cookie rt ?sm (clearAuthCookies r ?sm w @ cs))"
    unfolding session_cookies_def set_refresh_cookie_eq by (metis append.assoc)
  with cs(1) show ?thesis by (rule that)
qed

lemma callback_session_inv:
  assumes "callback_session L a r w toks claims s = (Inr resp, t)"
  obtains now s4 where "fl_now L s = (now, s4)"
    and "(until_seconds now (tc_expiry claims) \<le> 0 \<and> rs_status resp = 500 \<and> rs_location resp = None \<and> rs_setCookies resp = w) \<or>
      (0 < until_seconds now (tc_expiry claims) \<and> rs_status resp = 303 \<and>
       session_cookies a r (ot_idToken toks) (until_seconds now (tc_expiry claims)) w (rs_setCookies resp))"
proof -
  obtain now s4 where now: "fl_now L s = (now, s4)" by (cases "fl_now L s")
  let ?age = "until_seconds now (tc_expiry claims)"
  show thesis
  proof (cases "?age \<le> 0")
    case True
    with assms now show ?thesis by (intro that[OF now]) (auto simp: callback_session_def Let_def drawA_def)
  next
    case False
    obtain out where out: "set_token_cookies (ot_idToken toks) ?age (secure_mode a) (clearAuthCookies r (secure_mode a) w) s4 = (Inr out, s4)"
      "session_cookies a r (ot_idToken toks) ?age w (set_refresh_cookie (ot_refreshToken toks) (secure_mode a) out)"
      by (rule set_session_run)
    from assms now False out(1) have "rs_status resp = 303 \<and> rs_setCookies resp = set_refresh_cookie (ot_refreshToken toks) (secure_mode a) out"
      by (auto simp: callback_session_def Let_def drawA_def tryA_case_Inr)
    with False out(2) show ?thesis by (intro that[OF now]) auto
  qed
qed

lemma callback_exchange_inv:
  assumes "callback_exchange L a r w st code s = (Inr resp, t)"
  shows "(400 \<le> rs_status resp \<and> rs_location resp = None \<and> rs_setCookies resp = w) \<or>
    (\<exists>toks claims s2 s3 now s4.
       iv_Exchange (ah_verifier a) code
         (if oa_redirectURI st = [] then getCallbackURI L a r else oa_redirectURI st) [oa_codeVerifier st] s = (Inr toks, s2) \<and>
       iv_Verify (ah_verifier a) (ot_idToken toks) s2 = (Inr claims, s3) \<and>
       tc_nonce claims = oa_nonce st \<and> tc_email claims \<noteq> [] \<and> fl_now L s3 = (now, s4) \<and>
       0 < until_seconds now (tc_expiry claims) \<and> rs_status resp = 303 \<and>
       session_cookies a r (ot_idToken toks) (until_seconds now (tc_expiry claims)) w (rs_setCookies resp))"
  using assms unfolding callback_exchange_def Let_def tryA_case_Inr
  by (auto split: if_splits elim!: callback_session_inv)

lemma callback_inv:
  assumes "callbackHandler L a r s = (Inr resp, t)"
  shows "refused resp \<or> (\<exists>st toks claims age s4. login_accepted L a r s st toks claims age s4 \<and> rs_status resp = 303 \<and>
    session_cookies a r (ot_idToken toks) age [clear_cookie oauthStateCookieName ''/'' (secure_mode a)] (rs_setCookies resp))"
proof -
  let ?sc = "oc_secureCookie (iv_OIDCConfig (ah_verifier a))" and ?w = "[clear_cookie oauthStateCookieName ''/'' (secure_mode a)]"
  consider "refused resp"
    | st s1 where "GetOAuthStateCookie r oauthStateCookieName ?sc s = (Inr st, s1)" "oa_state st = rq_query r ''state''"
        "oa_state st \<noteq> []" "rq_query r ''code'' \<noteq> []" "callback_exchange L a r ?w st (rq_query r ''code'') s1 = (Inr resp, t)"
    using assms unfolding callbackHandler_def Let_def
    by (auto simp: tryA_case_Inr refused_def clear_state_cookie split: if_splits)
  then show ?thesis
  proof cases
    case 2
    from 2(1) obtain v where v: "map_of (rq_cookies r) oauthStateCookieName = Some v"
      "sc_Decode ?sc oauthStateCookieName v s = (Inr st, s1)"
      by (auto simp: GetOAuthStateCookie_def wrapA_eq_Inr split: option.splits)
    from callback_exchange_inv[OF 2(5)] show ?thesis
    proof
      assume "400 \<le> rs_status resp \<and> rs_location resp = None \<and> rs_setCookies resp = ?w"
      then have "refused resp" by (simp add: refused_def)
      then show ?thesis ..
    qed (use 2 v in \<open>unfold login_accepted_def, blast\<close>)
  qed blast
qed

text \<open>
  C14: nobody is logged in by a forged callback. Whenever the callback writes a cookie that lasts, the
  request carries a signed state cookie, its state parameter is the one in that cookie, the code was
  exchanged with the code verifier and the redirect URI of that cookie, and the ID token the provider gave
  for it is verified, carries the nonce of that cookie and an email address, and has not expired; the
  cookie lasts at most as long as the token. In every other case the response sets no lasting cookie
  and redirects nowhere.
\<close>

theorem callback_needs_state_and_nonce:
  assumes "callbackHandler L a r s = (Inr resp, t)"
    and "rs_location resp \<noteq> None \<or> (\<exists>c \<in> set (rs_setCookies resp). 0 \<le> ck_maxAge c)"
  shows "\<exists>st toks claims age s4. login_accepted L a r s st toks claims age s4 \<and>
    (\<forall>c \<in> set (rs_setCookies resp). session_name (ck_name c) \<longrightarrow> ck_maxAge c \<le> age)"
proof -
  from assms(2) have "\<not> refused resp" by (force simp: refused_def)
  with callback_inv[OF assms(1)] obtain st toks claims age s4 where
    ok: "login_accepted L a r s st toks claims age s4"
      "session_cookies a r (ot_idToken toks) age [clear_cookie oauthStateCookieName ''/'' (secure_mode a)] (rs_setCookies resp)"
    by blast
  from ok(1) have "0 < age" unfolding login_accepted_def by blast
  moreover have "\<forall>c \<in> set (clearAuthCookies r (secure_mode a) []). ck_maxAge c < 0" by (rule clearAuthCookies_facts)
  ultimately have "\<forall>c \<in> set (rs_setCookies resp). session_name (ck_name c) \<longrightarrow> ck_maxAge c \<le> age"
    using ok(2) by (fastforce simp: session_cookies_def dest: chunk_sets_names)
  with ok(1) show ?thesis by blast
qed

section \<open>The session survives the trip through the browser\<close>

text \<open>
  What the handlers rely on in the verifier: an accepted ID token is a JWT, a text that is not empty and
  can stand in a cookie.
\<close>

definition jwt_verifier :: "'s OIDCIssuerVerifier \<Rightarrow> bool" where
  "jwt_verifier V \<longleftrightarrow> (\<forall>tok s claims t. iv_Verify V tok s = (Inr claims, t) \<longrightarrow> tok \<noteq> [] \<and> cookie_safe tok)"

lemma session_cookies_read:
  assumes "session_cookies a r tok age w out" and "tok \<noteq> []" "cookie_safe tok" "0 < age"
    and "\<forall>c \<in> set w. \<not> session_name (ck_name c) \<and> (site_name (ck_name c) \<longrightarrow> ck_path c = ''/'')"
    and "jar_ok jar" "rq_cookies r = sent jar p" "HasPrefix p ''/''"
    and "rq_cookies r2 = sent (receive out jar) p2" "HasPrefix p2 ''/''"
  shows "session_extractor r2 = Inr tok"
proof -
  from assms(1) obtain cs post where out: "out = w @ clearAuthCookies r (secure_mode a) [] @ cs @ post"
    and cs: "cs = [set_cookie idTokenCookieName tok ''/'' age (secure_mode a)] \<or>
       (\<exists>chunks. cs = chunk_sets 0 chunks age (secure_mode a) \<and> concat chunks = tok)"
    and post: "\<forall>c \<in> set post. \<not> site_name (ck_name c)"
    unfolding session_cookies_def by blast
  from assms(9) out have "rq_cookies r2 = sent (receive (w @ clearAuthCookies r (secure_mode a) [] @ cs @ post) jar) p2" by simp
  from session_stored[OF assms(6,8,10) cs assms(2-5) post this assms(7)] show ?thesis .
qed

lemma callback_roundtrip:
  assumes "callbackHandler L a r s = (Inr resp, t)" and "rs_status resp = 303" and "jwt_verifier (ah_verifier a)"
    and "jar_ok jar" and "rq_cookies r = sent jar callbackPath"
    and "rq_cookies r2 = sent (receive (rs_setCookies resp) jar) p2" and "HasPrefix p2 ''/''"
  shows "\<exists>st toks claims age s4. login_accepted L a r s st toks claims age s4 \<and> session_extractor r2 = Inr (ot_idToken toks)"
proof -
  consider "refused resp" | st toks claims age s4 where "login_accepted L a r s st toks claims age s4"
    "session_cookies a r (ot_idToken toks) age [clear_cookie oauthStateCookieName ''/'' (secure_mode a)] (rs_setCookies resp)"
    using callback_inv[OF assms(1)] by blast
  then show ?thesis
  proof cases
    case 1
    with assms(2) show ?thesis by (simp add: refused_def)
  next
    case 2
    from 2(1) assms(3) have "ot_idToken toks \<noteq> []" "cookie_safe (ot_idToken toks)" "0 < age"
      unfolding login_accepted_def jwt_verifier_def by blast+
    moreover have "HasPrefix callbackPath ''/''" by (simp add: callbackPath_def HasPrefix_def)
    ultimately have "session_extractor r2 = Inr (ot_idToken toks)"
      using session_cookies_read[OF 2(2) _ _ _ _ assms(4,5) _ assms(6,7)] by simp
    with 2(1) show ?thesis by blast
  qed
qed

text \<open>
  C15: the session a login starts is the one the browser presents. If the callback redirects, then
  whatever session cookies the browser held before, stale chunks of a longer token included, the next
  request is authenticated by exactly the ID token the provider issued for this login, although the
  token may have been split over several cookies.
\<close>

theorem login_session_roundtrip:
  assumes "callbackHandler L a r s = (Inr resp, t)" and "rs_status resp = 303" and "jwt_verifier (ah_verifier a)"
    and "jar_ok jar" and "rq_cookies r = sent jar callbackPath"
    and "rq_cookies r2 = sent (receive (rs_setCookies resp) jar) p2" and "HasPrefix p2 ''/''"
  shows "\<exists>st toks claims age s4. login_accepted L a r s st toks claims age s4 \<and> session_extractor r2 = Inr (ot_idToken toks)"
  using assms by (rule callback_roundtrip)

section \<open>Refreshing and leaving\<close>

lemma refresh_session_inv:
  assumes "refresh_session L a r toks claims s = (Inr resp, t)"
  obtains now s4 where "fl_now L s = (now, s4)"
    and "(rs_status resp = 401 \<and> rs_setCookies resp = clearAuthCookies r (secure_mode a) []) \<or>
      (0 < until_seconds now (tc_expiry claims) \<and> rs_status resp = 200 \<and>
       session_cookies a r (ot_idToken toks) (until_seconds now (tc_expiry claims)) [] (rs_setCookies resp))"
proof -
  obtain now s4 where now: "fl_now L s = (now, s4)" by (cases "fl_now L s")
  let ?age = "until_seconds now (tc_expiry claims)"
  obtain out where out: "set_token_cookies (ot_idToken toks) ?age (secure_mode a) (clearAuthCookies r (secure_mode a) []) s4 = (Inr out, s4)"
    "session_cookies a r (ot_idToken toks) ?age [] (set_refresh_cookie (ot_refreshToken toks) (secure_mode a) out)"
    by (rule set_session_run)
  from assms now out show thesis
    by (intro that[OF now], cases "?age \<le> 0") (auto simp: refresh_session_def Let_def drawA_def)
qed

lemma refresh_inv:
  assumes "refreshHandler L a r s = (Inr resp, t)"
  shows "(rs_status resp = 401 \<and> rs_setCookies resp = clearAuthCookies r (secure_mode a) []) \<or>
    (\<exists>rt toks claims s1 s2 now s3.
       map_of (rq_cookies r) refreshTokenCookieName = Some rt \<and>
       iv_RefreshAccessToken (ah_verifier a) rt s = (Inr toks, s1) \<and>
       iv_Verify (ah_verifier a) (ot_idToken toks) s1 = (Inr claims, s2) \<and> tc_email claims \<noteq> [] \<and>
       fl_now L s2 = (now, s3) \<and> 0 < until_seconds now (tc_expiry claims) \<and> rs_status resp = 200 \<and>
       session_cookies a r (ot_idToken toks) (until_seconds now (tc_expiry claims)) [] (rs_setCookies resp))"
  using assms unfolding refreshHandler_def Let_def
  by (auto simp: tryA_case_Inr split: if_splits option.splits elim!: refresh_session_inv)

text \<open>
  C17: refreshing either renews the session or ends it. With a 200 the next request of the browser is
  authenticated by the new ID token, which the provider issued for the refresh token of the cookie and which
  is verified and has not expired; with anything else the browser is left without a session token.
\<close>

theorem refresh_renews_or_ends_session:
  assumes "refreshHandler L a r s = (Inr resp, t)" and "jwt_verifier (ah_verifier a)"
    and "jar_ok jar" and "rq_cookies r = sent jar p" and "HasPrefix p ''/''"
    and "rq_cookies r2 = sent (receive (rs_setCookies resp) jar) p2" and "HasPrefix p2 ''/''"
  shows "if rs_status resp = 200
    then \<exists>rt toks claims s1 s2. map_of (rq_cookies r) refreshTokenCookieName = Some rt \<and>
      iv_RefreshAccessToken (ah_verifier a) rt s = (Inr toks, s1) \<and>
      iv_Verify (ah_verifier a) (ot_idToken toks) s1 = (Inr claims, s2) \<and> tc_email claims \<noteq> [] \<and>
      session_extractor r2 = Inr (ot_idToken toks)
    else rs_status resp = 401 \<and> isl (session_extractor r2)"
  using refresh_inv[OF assms(1)]
proof (elim disjE exE conjE)
  assume "rs_status resp = 401" "rs_setCookies resp = clearAuthCookies r (secure_mode a) []"
  then show ?thesis using session_over[OF assms(3,5,4,7), of r2 "secure_mode a"] assms(6) by simp
next
  fix rt toks claims s1 s2 now s3
  assume g: "map_of (rq_cookies r) refreshTokenCookieName = Some rt" "iv_RefreshAccessToken (ah_verifier a) rt s = (Inr toks, s1)"
    "iv_Verify (ah_verifier a) (ot_idToken toks) s1 = (Inr claims, s2)" "tc_email claims \<noteq> []"
    "0 < until_seconds now (tc_expiry claims)" "rs_status resp = 200"
    "session_cookies a r (ot_idToken toks) (until_seconds now (tc_expiry claims)) [] (rs_setCookies resp)"
  from g(3) assms(2) have "ot_idToken toks \<noteq> []" "cookie_safe (ot_idToken toks)" unfolding jwt_verifier_def by blast+
  then have "session_extractor r2 = Inr (ot_idToken toks)"
    using session_cookies_read[OF g(7) _ _ g(5) _ assms(3,4,5,6,7)] by simp
  with g show ?thesis by auto
qed

lemma logout_inv:
  assumes "logoutHandler L a r s = (Inr resp, t)"
  shows "rs_setCookies resp = clearAuthCookies r (secure_mode a) [] \<and>
    (rs_status resp \<noteq> 200 \<or>
     (\<exists>tok claims u s1 s2 s3. ah_extractor a (http_request.truncate r) = Inr tok \<and>
        iv_Verify (ah_verifier a) tok s = (Inr claims, s1) \<and>
        up_UserByEmail (ah_userProvider a) (tc_email claims) s1 = (Inr u, s2) \<and>
        s3 = snd (ah_kubermaticConfig a s2) \<and>
        up_InvalidateToken (ah_userProvider a) (Some u) tok (tc_expiry claims) s3 = (Inr (), t)))"
proof -
  have i: "rs_setCookies resp = w \<and>
      (rs_status resp \<noteq> 200 \<or> up_InvalidateToken (ah_userProvider a) (Some u) tok (tc_expiry claims) s3 = (Inr (), t))"
    if "logout_finish a w u tok claims redirect s3 = (Inr resp, t)" for w tok claims u redirect s3
    using that by (auto simp: logout_finish_def tryA_case_Inr)
  from assms show ?thesis
    unfolding logoutHandler_def Let_def
    by (cases "ah_extractor a (http_request.truncate r)") (auto simp: tryA_case_Inr split: if_splits dest!: i)
qed

text \<open>
  A token that is good until the logout: it verifies, the user it names is found, and when it is put on the list of this user
  it has not expired yet.
\<close>

definition good_until_logout ::
  "('s, 'x) env_scheme \<Rightarrow> ('s \<Rightarrow> store) \<Rightarrow> 's OIDCIssuerVerifier \<Rightarrow> string \<Rightarrow> TokenClaims \<Rightarrow> user \<Rightarrow> 's \<Rightarrow> bool" where
  "good_until_logout E W V tok claims u s \<longleftrightarrow>
     iv_Verify V tok s = (Inr claims, s) \<and> UserByEmail E (tc_email claims) s = (Inr u, s) \<and> ref_ok E u \<and>
     (\<forall>sec s1 old. ensureTokenBlacklistSecret E u s = (Inr sec, s1) \<and> stored_blacklist E (W s) u = Some old \<longrightarrow>
        clock_at E (length old) s1 < tc_expiry claims)"

text \<open>
  C18: logging out ends the session, in the browser and in the dashboard. Whatever the outcome, also when the browser sent no token or one
  that does not verify or whose user is not found, the browser is left without a session token. The answer is 200 only if the session
  token of the request verified. If it had not expired when it was put on the list of its user, then in the state that a logout with the answer 200 leaves
  the dashboard refuses it for this user, so that a copy of it is of no use either.
\<close>

theorem logout_ends_session:
  assumes run: "logoutHandler L (NewAuthHandler V (kube_userProvider E) config) r s = (Inr resp, t)"
    and jar: "jar_ok jar" "rq_cookies r = sent jar p" "HasPrefix p ''/''"
    and r2: "rq_cookies r2 = sent (receive (rs_setCookies resp) jar) p2" "HasPrefix p2 ''/''"
  shows "isl (session_extractor r2) \<and>
    (rs_status resp = 200 \<longrightarrow>
      (\<exists>tok claims s1. session_extractor (http_request.truncate r) = Inr tok \<and> iv_Verify V tok s = (Inr claims, s1) \<and>
        (\<forall>W u. api_ok W E \<and> blacklist_ok E \<and> reads config \<and> keys_ok (st_users (W s)) \<and> keys_ok (st_secrets (W s)) \<and>
           good_until_logout E W V tok claims u s \<longrightarrow>
           checkBlockedTokens (tc_email claims) tok (kube_userProvider E) t = (Inl UtilNotAuthorized, t))))"
proof (intro conjI impI)
  let ?a = "NewAuthHandler V (kube_userProvider E) config"
  note inv = logout_inv[OF run]
  show "isl (session_extractor r2)"
    using session_over[OF jar(1,3,2) r2(2), of r2 "secure_mode ?a"] r2(1) inv by simp
  assume "rs_status resp = 200"
  with inv obtain tok claims u0 s1 s2 s3 where tok: "session_extractor (http_request.truncate r) = Inr tok" "iv_Verify V tok s = (Inr claims, s1)"
    and u0: "UserByEmail E (tc_email claims) s1 = (Inr u0, s2)" "s3 = snd (config s2)"
    and out: "InvalidateToken E (Some u0) tok (tc_expiry claims) s3 = (Inr (), t)"
    by (auto simp: NewAuthHandler_def kube_userProvider_def)
  have "checkBlockedTokens (tc_email claims) tok (kube_userProvider E) t = (Inl UtilNotAuthorized, t)"
    if "api_ok W E" "blacklist_ok E" "reads config" "keys_ok (st_users (W s))" "keys_ok (st_secrets (W s))" "good_until_logout E W V tok claims u s" for W u
  proof -
    from that(6) tok(2) have s1: "s1 = s" and u: "UserByEmail E (tc_email claims) s = (Inr u, s)" "ref_ok E u"
      and valid: "\<forall>sec s1 old. ensureTokenBlacklistSecret E u s = (Inr sec, s1) \<and> stored_blacklist E (W s) u = Some old \<longrightarrow>
        clock_at E (length old) s1 < tc_expiry claims" unfolding good_until_logout_def by auto
    from u0 u(1) s1 that(3) have "u0 = u" "s3 = s" by (auto simp: reads_def)
    with out InvalidateToken_blocks[OF that(1,2) u(2) that(4,5) u(1) _ valid] show ?thesis by simp
  qed
  with tok show "\<exists>tok claims s1. session_extractor (http_request.truncate r) = Inr tok \<and> iv_Verify V tok s = (Inr claims, s1) \<and>
      (\<forall>W u. api_ok W E \<and> blacklist_ok E \<and> reads config \<and> keys_ok (st_users (W s)) \<and> keys_ok (st_secrets (W s)) \<and>
         good_until_logout E W V tok claims u s \<longrightarrow>
         checkBlockedTokens (tc_email claims) tok (kube_userProvider E) t = (Inl UtilNotAuthorized, t))" by blast
qed

section \<open>A login completes\<close>

text \<open>
  What is documented of a codec of signed cookies: it encodes a value as a text that can stand in a cookie, and decodes this text to the value as long
  as the lifetime of the cookie is not over. \<open>lasts s s'\<close> says that it is not over in the state \<open>s'\<close> for a cookie made in the state \<open>s\<close>.
\<close>

definition seals :: "'s securecookie \<Rightarrow> ('s \<Rightarrow> 's \<Rightarrow> bool) \<Rightarrow> bool" where
  "seals sc lasts \<longleftrightarrow> (\<forall>name v s e s1. sc_Encode sc name v s = (Inr e, s1) \<longrightarrow>
     cookie_safe e \<and> (\<forall>s'. lasts s1 s' \<longrightarrow> (\<exists>t. sc_Decode sc name e s' = (Inr v, t))))"

text \<open>
  In the state \<open>s\<close> the provider answers for the code it gave to the user of the login \<open>st\<close>: it exchanges the code for the tokens \<open>toks\<close>, after that the ID token
  verifies, with the nonce of the login and an email address, and when the clock is read then, the token has not expired.
\<close>

definition grants :: "'s flow_lib \<Rightarrow> 's OIDCIssuerVerifier \<Rightarrow> string \<Rightarrow> OAuthState \<Rightarrow> OIDCToken \<Rightarrow> TokenClaims \<Rightarrow> 's \<Rightarrow> bool" where
  "grants L V code st toks claims s \<longleftrightarrow> code \<noteq> [] \<and> (\<exists>s1 s2 now s3.
     iv_Exchange V code (oa_redirectURI st) [oa_codeVerifier st] s = (Inr toks, s1) \<and>
     iv_Verify V (ot_idToken toks) s1 = (Inr claims, s2) \<and> tc_nonce claims = oa_nonce st \<and> tc_email claims \<noteq> [] \<and>
     fl_now L s2 = (now, s3) \<and> 0 < until_seconds now (tc_expiry claims))"

lemma login_accepted_exchange:
  assumes "login_accepted L a r s st' toks claims age s4" and "map_of (rq_cookies r) oauthStateCookieName = Some e"
    and "sc_Decode (oc_secureCookie (iv_OIDCConfig (ah_verifier a))) oauthStateCookieName e s = (Inr st, s2)"
    and "rq_query r ''state'' = oa_state st" and "rq_query r ''code'' = code" and "oa_redirectURI st \<noteq> []"
  shows "\<exists>s5. iv_Exchange (ah_verifier a) code (oa_redirectURI st) [oa_codeVerifier st] s2 = (Inr toks, s5)"
  using assms unfolding login_accepted_def by force

definition login_scopes :: "'s authHandler \<Rightarrow> string list" where
  "login_scopes a = (if oc_offlineAccessAsScope (iv_OIDCConfig (ah_verifier a))
     then [''openid'', ''email'', ''profile'', ''groups'', ''offline_access'']
     else [''openid'', ''email'', ''profile'', ''groups''])"

abbreviation state_codec :: "'s authHandler \<Rightarrow> 's securecookie" where
  "state_codec a \<equiv> oc_secureCookie (iv_OIDCConfig (ah_verifier a))"

text \<open>The login that a request to the login endpoint begins, in the state \<open>s\<close>.\<close>

definition begins_login :: "'s flow_lib \<Rightarrow> 's authHandler \<Rightarrow> 'a web_request_scheme \<Rightarrow> 's \<Rightarrow> OAuthState \<Rightarrow> bool" where
  "begins_login L a r s st \<longleftrightarrow> (\<exists>st0 s0. NewOAuthState L s = (Inr st0, s0) \<and> st = st0\<lparr>oa_redirectURI := getRequestBaseURL L a r @ callbackPath\<rparr>)"

lemma begins_login_state:
  assumes "begins_login L a r s st" and "\<forall>s. fst (fl_text L s) \<noteq> []"
  shows "oa_state st \<noteq> []" and "oa_redirectURI st \<noteq> []"
  using assms unfolding begins_login_def
  by (auto simp: NewOAuthState_def bindA_eq_Inr drawA_eq_Inr callbackPath_def) (metis fst_conv)

lemma login_inv:
  assumes "loginHandler L a r s = (Inr resp, t)" and "rs_status resp = 303" and "seals (state_codec a) lasts"
  obtains st e where "begins_login L a r s st"
    and "rs_location resp = Some (iv_AuthCodeURL (ah_verifier a) (oa_state st)
      (oc_offlineAccessAsScope (iv_OIDCConfig (ah_verifier a))) (oa_redirectURI st) (oa_codeVerifier st) (oa_nonce st) (login_scopes a))"
    and "rs_setCookies resp = [set_cookie oauthStateCookieName e ''/'' 300 (secure_mode a)]" and "cookie_safe e"
    and "\<forall>s'. lasts t s' \<longrightarrow> (\<exists>t'. sc_Decode (state_codec a) oauthStateCookieName e s' = (Inr st, t'))"
proof -
  have "\<exists>st0 s1. NewOAuthState L s = (Inr st0, s1)"
    by (auto simp: NewOAuthState_def bindA_def drawA_def split: prod.splits sum.splits)
  then obtain st0 s1 where st0: "NewOAuthState L s = (Inr st0, s1)" by blast
  define st where "st = st0\<lparr>oa_redirectURI := getRequestBaseURL L a r @ callbackPath\<rparr>"
  from assms(1,2) st0 obtain e where e: "sc_Encode (state_codec a) oauthStateCookieName st s1 = (Inr e, t)"
    and resp: "rs_location resp = Some (iv_AuthCodeURL (ah_verifier a) (oa_state st)
      (oc_offlineAccessAsScope (iv_OIDCConfig (ah_verifier a))) (oa_redirectURI st) (oa_codeVerifier st) (oa_nonce st) (login_scopes a))"
      "rs_setCookies resp = [set_cookie oauthStateCookieName e ''/'' 300 (secure_mode a)]"
    by (auto simp: loginHandler_def Let_def tryA_case_Inr SetOAuthStateCookie_def bindA_eq_Inr wrapA_eq_Inr st_def
        login_scopes_def SetCookie_def oauthStateCookie_def set_cookie_def oauthStateCookieMaxAge_def split: if_splits)
  from assms(3) e have "cookie_safe e" "\<forall>s'. lasts t s' \<longrightarrow> (\<exists>t'. sc_Decode (state_codec a) oauthStateCookieName e s' = (Inr st, t'))"
    unfolding seals_def by blast+
  moreover have "begins_login L a r s st" using st0 by (auto simp: begins_login_def st_def)
  ultimately show thesis using resp that by blast
qed

lemma callback_completes:
  assumes c: "map_of (rq_cookies r) oauthStateCookieName = Some e" and q: "rq_query r ''state'' = oa_state st" "rq_query r ''code'' = code"
    and dec: "sc_Decode (state_codec a) oauthStateCookieName e s = (Inr st, s1)"
    and st: "oa_state st \<noteq> []" "oa_redirectURI st \<noteq> []"
    and g: "grants L (ah_verifier a) code st toks claims s1"
    and up: "\<forall>e s. fst (up_UserByEmail (ah_userProvider a) e s) \<noteq> Inl Panic"
  shows "\<exists>resp t. callbackHandler L a r s = (Inr resp, t) \<and> rs_status resp = 303"
proof -
  let ?w = "[clear_cookie oauthStateCookieName ''/'' (secure_mode a)]"
  from g obtain s2 s3 now s4 where ex: "iv_Exchange (ah_verifier a) code (oa_redirectURI st) [oa_codeVerifier st] s1 = (Inr toks, s2)"
    and ver: "iv_Verify (ah_verifier a) (ot_idToken toks) s2 = (Inr claims, s3)" and now: "fl_now L s3 = (now, s4)"
    and age: "0 < until_seconds now (tc_expiry claims)" unfolding grants_def by blast
  obtain out where out: "set_token_cookies (ot_idToken toks) (until_seconds now (tc_expiry claims)) (secure_mode a)
      (clearAuthCookies r (secure_mode a) ?w) s4 = (Inr out, s4)" by (rule set_session_run)
  obtain res s5 where u: "up_UserByEmail (ah_userProvider a) (tc_email claims) s4 = (res, s5)"
    by (cases "up_UserByEmail (ah_userProvider a) (tc_email claims) s4")
  with up have "res \<noteq> Inl Panic" by (metis fst_conv)
  with now age out u have "\<exists>resp t. callback_session L a r ?w toks claims s3 = (Inr resp, t) \<and> rs_status resp = 303"
    by (cases res) (auto simp: callback_session_def Let_def drawA_def)
  moreover have "callbackHandler L a r s = callback_session L a r ?w toks claims s3"
    using g c q dec st ex ver by (auto simp: callbackHandler_def callback_exchange_def Let_def clear_state_cookie
        GetOAuthStateCookie_def grants_def)
  ultimately show ?thesis by simp
qed

lemma callback_authenticates:
  assumes jwt: "jwt_verifier (ah_verifier a)" and jar: "jar_ok jar"
    and c: "map_of (rq_cookies r) oauthStateCookieName = Some e" and q: "rq_query r ''state'' = oa_state st" "rq_query r ''code'' = code"
    and r: "rq_cookies r = sent jar callbackPath"
    and dec: "sc_Decode (state_codec a) oauthStateCookieName e s = (Inr st, s1)" and st: "oa_redirectURI st \<noteq> []"
    and g: "grants L (ah_verifier a) code st toks claims s1" and run: "callbackHandler L a r s = (Inr resp, t)" "rs_status resp = 303"
    and r2: "rq_cookies r2 = sent (receive (rs_setCookies resp) jar) p2" "HasPrefix p2 ''/''"
  shows "session_extractor r2 = Inr (ot_idToken toks)"
proof -
  from callback_roundtrip[OF run jwt jar r r2] obtain st' toks' claims' age s4
    where acc: "login_accepted L a r s st' toks' claims' age s4" and x: "session_extractor r2 = Inr (ot_idToken toks')" by blast
  from login_accepted_exchange[OF acc c dec q st] g have "toks' = toks" unfolding grants_def by auto
  with x show ?thesis by simp
qed

text \<open>
  C16: a login runs to its end. The login endpoint redirects to the provider, with the state, the nonce and the code verifier of a new login, and gives
  the browser a signed cookie with it. Suppose that the browser comes back from the provider while the cookie is valid, with its cookies, the
  state and a code, and that at this moment the provider exchanges the code for tokens whose ID token is valid and carries the
  nonce. Then the callback succeeds, and the next request of that browser is authenticated by this ID token.
\<close>

theorem login_flow_completes:
  assumes run: "loginHandler L a r s = (Inr resp, t)" "rs_status resp = 303"
    and sc: "seals (state_codec a) lasts" and jwt: "jwt_verifier (ah_verifier a)"
    and drawn: "\<forall>s. fst (fl_text L s) \<noteq> []" and up: "\<forall>e s. fst (up_UserByEmail (ah_userProvider a) e s) \<noteq> Inl Panic"
    and jar: "jar_ok jar"
  shows "\<exists>st e. begins_login L a r s st \<and>
    rs_location resp = Some (iv_AuthCodeURL (ah_verifier a) (oa_state st)
      (oc_offlineAccessAsScope (iv_OIDCConfig (ah_verifier a))) (oa_redirectURI st) (oa_codeVerifier st) (oa_nonce st) (login_scopes a)) \<and>
    rs_setCookies resp = [set_cookie oauthStateCookieName e ''/'' 300 (secure_mode a)] \<and>
    (\<forall>r1 code toks claims s1. lasts t s1 \<and> rq_cookies r1 = sent (receive (rs_setCookies resp) jar) callbackPath \<and>
       rq_query r1 ''state'' = oa_state st \<and> rq_query r1 ''code'' = code \<and>
       grants L (ah_verifier a) code st toks claims (snd (sc_Decode (state_codec a) oauthStateCookieName e s1)) \<longrightarrow>
       (\<exists>resp1 t1. callbackHandler L a (r1 :: 'b web_request_scheme) s1 = (Inr resp1, t1) \<and> rs_status resp1 = 303 \<and>
          (\<forall>r2 p2. HasPrefix p2 ''/'' \<and> rq_cookies r2 = sent (receive (rs_setCookies resp1) (receive (rs_setCookies resp) jar)) p2 \<longrightarrow>
             session_extractor r2 = Inr (ot_idToken toks))))"
proof -
  obtain st e where st: "begins_login L a r s st"
    and loc: "rs_location resp = Some (iv_AuthCodeURL (ah_verifier a) (oa_state st)
      (oc_offlineAccessAsScope (iv_OIDCConfig (ah_verifier a))) (oa_redirectURI st) (oa_codeVerifier st) (oa_nonce st) (login_scopes a))"
    and cs: "rs_setCookies resp = [set_cookie oauthStateCookieName e ''/'' 300 (secure_mode a)]" and e: "cookie_safe e"
    and dec: "\<forall>s'. lasts t s' \<longrightarrow> (\<exists>t'. sc_Decode (state_codec a) oauthStateCookieName e s' = (Inr st, t'))"
    by (rule login_inv[OF run sc])
  note ne = begins_login_state[OF st drawn]
  define jar1 where "jar1 = receive (rs_setCookies resp) jar"
  have jar1: "jar_ok jar1" unfolding jar1_def by (rule jar_ok_receive[OF jar]) (simp add: cs)
  have cp: "HasPrefix callbackPath ''/''" by (simp add: callbackPath_def HasPrefix_def)
  have "map_of jar1 (oauthStateCookieName, ''/'') = Some e" by (simp add: jar1_def cs map_of_keep_cookie sanitize_safe[OF e])
  then have look: "map_of (sent jar1 callbackPath) oauthStateCookieName = Some e" using sent_site[OF jar1 _ _ cp] by simp
  have "\<exists>resp1 t1. callbackHandler L a r1 s1 = (Inr resp1, t1) \<and> rs_status resp1 = 303 \<and>
      (\<forall>r2 p2. HasPrefix p2 ''/'' \<and> rq_cookies r2 = sent (receive (rs_setCookies resp1) jar1) p2 \<longrightarrow> session_extractor r2 = Inr (ot_idToken toks))"
    if l: "lasts t s1" and r1: "rq_cookies r1 = sent jar1 callbackPath" and q: "rq_query r1 ''state'' = oa_state st" "rq_query r1 ''code'' = code"
      and g: "grants L (ah_verifier a) code st toks claims (snd (sc_Decode (state_codec a) oauthStateCookieName e s1))"
    for r1 :: "'b web_request_scheme" and code toks claims s1
  proof -
    from dec l obtain s2 where d: "sc_Decode (state_codec a) oauthStateCookieName e s1 = (Inr st, s2)" by blast
    with g have g: "grants L (ah_verifier a) code st toks claims s2" by simp
    have c: "map_of (rq_cookies r1) oauthStateCookieName = Some e" using look r1 by simp
    from callback_completes[OF c q d ne g up] obtain resp1 t1
      where cb: "callbackHandler L a r1 s1 = (Inr resp1, t1)" "rs_status resp1 = 303" by blast
    with callback_authenticates[OF jwt jar1 c q r1 d ne(2) g cb] show ?thesis by blast
  qed
  then show ?thesis using st loc cs unfolding jar1_def[symmetric] by (intro exI[of _ st] exI[of _ e]) auto
qed

section \<open>Where the browser is sent\<close>

lemma allowed_origin_InrD:
  assumes "allowed_origin U want urls = Inr res"
  shows "\<exists>allowed u. allowed \<in> set urls \<and> url_Parse U allowed = Inr u \<and> isHTTPScheme (url_scheme u) \<and> url_host u \<noteq> [] \<and>
    canonicalOrigin U u = want \<and> res = url_scheme u @ ''://'' @ url_host u"
  using assms by (induction urls) (auto split: sum.splits if_splits)

text \<open>
  the address the browser is sent back to is never one that the client made up. It is the configured
  address of the dashboard (or, if none is configured, that of the request itself), which does not depend on the
  query, or it is the scheme and host of a configured redirect URL, and then the origin the client asked for is
  a bare http or https origin with the same canonical form.
\<close>

theorem redirect_origin_is_configured:
  shows "(getRequestBaseURL L a r = getBaseURL L a r \<or>
     (\<exists>allowed u v. allowed \<in> set (allowed_redirects a) \<and> url_Parse (fl_url L) allowed = Inr u \<and>
        isHTTPScheme (url_scheme u) \<and> url_host u \<noteq> [] \<and> getRequestBaseURL L a r = url_scheme u @ ''://'' @ url_host u \<and>
        url_Parse (fl_url L) (rq_query r ''origin'') = Inr v \<and> isHTTPScheme (url_scheme v) \<and>
        (url_path v = [] \<or> url_path v = ''/'') \<and> canonicalOrigin (fl_url L) v = canonicalOrigin (fl_url L) u)) \<and>
    getBaseURL L a (r\<lparr>rq_query := q\<rparr>) = getBaseURL L a r"
proof
  show "getBaseURL L a (r\<lparr>rq_query := q\<rparr>) = getBaseURL L a r"
    by (simp add: getBaseURL_def schemeAndHost_def requestScheme_def)
  show "getRequestBaseURL L a r = getBaseURL L a r \<or>
     (\<exists>allowed u v. allowed \<in> set (allowed_redirects a) \<and> url_Parse (fl_url L) allowed = Inr u \<and>
        isHTTPScheme (url_scheme u) \<and> url_host u \<noteq> [] \<and> getRequestBaseURL L a r = url_scheme u @ ''://'' @ url_host u \<and>
        url_Parse (fl_url L) (rq_query r ''origin'') = Inr v \<and> isHTTPScheme (url_scheme v) \<and>
        (url_path v = [] \<or> url_path v = ''/'') \<and> canonicalOrigin (fl_url L) v = canonicalOrigin (fl_url L) u)"
  proof (cases "AllowedOrigin (fl_url L) (rq_query r ''origin'') (allowed_redirects a)")
    case (Inr res)
    then obtain v where v: "url_Parse (fl_url L) (rq_query r ''origin'') = Inr v" "isHTTPScheme (url_scheme v)"
        "url_path v = [] \<or> url_path v = ''/''"
      and al: "allowed_origin (fl_url L) (canonicalOrigin (fl_url L) v) (allowed_redirects a) = Inr res"
      by (auto simp: AllowedOrigin_def parseOrigin_def split: sum.splits if_splits)
    from allowed_origin_InrD[OF al] v Inr show ?thesis by (auto simp: getRequestBaseURL_def Let_def)
  qed (simp add: getRequestBaseURL_def Let_def)
qed

text \<open>
  C19: cutting a token into chunks ends for every positive chunk size; the chunks joined are the
  token, none is empty and none is longer than the chunk size. With chunk size zero the loop does not end
  on a token that is not empty.
\<close>

theorem chunkString_terminates:
  assumes "0 < n \<or> t \<noteq> []"
  shows "if n = 0 then chunkString t n = None
    else \<exists>cs. chunkString t n = Some cs \<and> concat cs = t \<and> (\<forall>c \<in> set cs. 0 < length c \<and> length c \<le> n)"
proof (cases "n = 0")
  case True
  have "n = 0 \<longrightarrow> \<not> i < length t" if "chunk_loop t n i cs = Some y" for i cs y
    by (rule chunk_loop.raw_induct[of "\<lambda>t n i cs y. n = 0 \<longrightarrow> \<not> i < length t", OF _ that])
      (fastforce simp: Let_def split: if_splits)
  with True assms show ?thesis unfolding chunkString_def by (cases "chunk_loop t n 0 []") auto
next
  case False
  then show ?thesis using chunk_loop_drop[of n t 0 "[]"] by (simp add: chunkString_def)
qed

section \<open>Witnesses\<close>

text \<open>
  A provider that knows one user: it answers every code with the same ID token, whose nonce is the text that
  the random source of the demo always draws. The clock stands five seconds after the zero time.
\<close>

definition demo_url :: url where
  "demo_url = \<lparr>url_scheme = ''https'', url_host = ''kkp.example.com'', url_hasUser = False, url_path = [], url_rawQuery = [],
     url_forceQuery = False, url_fragment = [], url_rest = []\<rparr>"

definition demo_lib :: "mem flow_lib" where
  "demo_lib = \<lparr>fl_url = \<lparr>url_Parse = (\<lambda>_. Inr demo_url), url_Hostname = url_host, url_Port = (\<lambda>_. []),
       url_Query = (\<lambda>_. []), url_Encode = (\<lambda>_. []), url_String = url_host\<rparr>,
     fl_text = (\<lambda>s. (''abc'', s)), fl_verifier = (\<lambda>s. (''ver'', s)), fl_now = (\<lambda>s. (5000000000, s)),
     fl_unmarshalUI = (\<lambda>_. Inr [])\<rparr>"

definition demo_state :: OAuthState where
  "demo_state = \<lparr>oa_state = ''abc'', oa_nonce = ''abc'', oa_codeVerifier = ''ver'',
     oa_redirectURI = ''https://kkp.example.com/api/v2/auth/callback''\<rparr>"

definition demo_codec :: "mem securecookie" where
  "demo_codec = \<lparr>sc_Encode = (\<lambda>_ v. if v = demo_state then retA ''sealed'' else failA UtilBadRequest),
     sc_Decode = (\<lambda>_ e. if e = ''sealed'' then retA demo_state else failA UtilBadRequest)\<rparr>"

definition demo_claims :: TokenClaims where
  "demo_claims = bob_claims\<lparr>tc_nonce := ''abc'', tc_expiry := 9000000000\<rparr>"

definition demo_tokens :: OIDCToken where
  "demo_tokens = \<lparr>ot_accessToken = ''acc'', ot_refreshToken = ''ref'', ot_expiry = 9000000000, ot_idToken = ''jwt''\<rparr>"

definition demo_verifier :: "mem OIDCIssuerVerifier" where
  "demo_verifier =
     \<lparr>iv_AuthCodeURL = (\<lambda>state _ _ _ nonce _. if state = nonce then state else []),
      iv_Exchange = (\<lambda>_ _ _. retA demo_tokens), iv_RefreshAccessToken = (\<lambda>_. retA demo_tokens),
      iv_OIDCConfig = \<lparr>oc_url = [], oc_clientID = [], oc_clientSecret = [], oc_secureCookie = demo_codec,
        oc_cookieSecureMode = True, oc_offlineAccessAsScope = False, oc_skipTLSVerify = False, oc_additionalRedirectURIs = []\<rparr>,
      iv_Verify = (\<lambda>tok. if tok = ''jwt'' then retA demo_claims else failA UtilNotAuthorized),
      iv_Extract = (\<lambda>_. Inl UtilNotAuthorized), iv_GetRedirectURI = (\<lambda>_. Inl UtilNotAuthorized)\<rparr>"

definition demo_handler :: "mem authHandler" where
  "demo_handler = NewAuthHandler demo_verifier (kube_userProvider still_env) (retA [])"

text \<open>A browser with the chunks of an older session, on its way back from the provider.\<close>

definition demo_jar :: jar where
  "demo_jar = [((''token-1'', ''/''), ''old''), ((''_oauth_state'', ''/''), ''sealed''), ((''refresh_token'', ''/api/v2/auth''), ''r'')]"

definition demo_request :: "jar \<Rightarrow> string \<Rightarrow> web_request" where
  "demo_request jar p = \<lparr>rq_header = (\<lambda>_. []), rq_query = (\<lambda>k. if k = ''state'' then ''abc'' else if k = ''code'' then ''c0de'' else []),
     rq_cookies = sent jar p, rq_vars = (\<lambda>_. None), wr_tls = True, wr_host = ''kkp.example.com''\<rparr>"

lemma demo_facts:
  "jwt_verifier (ah_verifier demo_handler)" "jar_ok demo_jar"
  "rq_cookies (demo_request jar p) = sent jar p"
proof -
  have "cookie_safe ''jwt''" "jar_ok demo_jar" by code_simp+
  then show "jwt_verifier (ah_verifier demo_handler)" "jar_ok demo_jar"
    by (auto simp: jwt_verifier_def demo_handler_def NewAuthHandler_def demo_verifier_def demo_codec_def split: if_splits)
qed (simp add: demo_request_def)

text \<open>A closed run with a given status.\<close>

definition answers :: "http_response result \<times> 's \<Rightarrow> int \<Rightarrow> bool" where
  "answers p code = (case fst p of Inl _ \<Rightarrow> False | Inr resp \<Rightarrow> rs_status resp = code)"

lemma answersE:
  assumes "answers p code"
  obtains resp t where "p = (Inr resp, t)" and "rs_status resp = code"
  using assms by (cases p; cases "fst p") (auto simp: answers_def)

lemma demo_callback: "answers (callbackHandler demo_lib demo_handler (demo_request demo_jar callbackPath) world1) 303"
  by code_simp

lemma demo_callback_cookies:
  "case callbackHandler demo_lib demo_handler (demo_request demo_jar callbackPath) world1 of
     (Inr resp, _) \<Rightarrow> list_ex (\<lambda>c. 0 \<le> ck_maxAge c) (rs_setCookies resp) | _ \<Rightarrow> False"
  by code_simp

theorem callback_needs_state_and_nonce_witness:
  "\<exists>resp t st toks claims age s4. callbackHandler demo_lib demo_handler (demo_request demo_jar callbackPath) world1 = (Inr resp, t) \<and>
     login_accepted demo_lib demo_handler (demo_request demo_jar callbackPath) world1 st toks claims age s4"
proof -
  obtain resp t where run: "callbackHandler demo_lib demo_handler (demo_request demo_jar callbackPath) world1 = (Inr resp, t)"
    by (rule answersE[OF demo_callback])
  with demo_callback_cookies have "\<exists>c \<in> set (rs_setCookies resp). 0 \<le> ck_maxAge c" by (simp add: list_ex_iff)
  with callback_needs_state_and_nonce[OF run] run show ?thesis by blast
qed

lemma demo_tokens_only:
  "iv_Exchange (ah_verifier demo_handler) code redirect verifier s = (Inr toks, t) \<Longrightarrow> ot_idToken toks = ''jwt''"
  "iv_RefreshAccessToken (ah_verifier demo_handler) rt s = (Inr toks, t) \<Longrightarrow> ot_idToken toks = ''jwt''"
  by (auto simp: demo_handler_def NewAuthHandler_def demo_verifier_def demo_tokens_def)

definition demo_next :: "http_response \<Rightarrow> jar \<Rightarrow> http_request" where
  "demo_next resp jar = http_request.truncate (demo_request (receive (rs_setCookies resp) jar) ''/'')"

lemma demo_next_cookies: "rq_cookies (demo_next resp jar) = sent (receive (rs_setCookies resp) jar) ''/''"
  by (simp add: demo_next_def demo_request_def http_request.truncate_def)

theorem login_session_roundtrip_witness:
  "\<exists>resp t. callbackHandler demo_lib demo_handler (demo_request demo_jar callbackPath) world1 = (Inr resp, t) \<and>
     session_extractor (demo_next resp demo_jar) = Inr ''jwt''"
proof -
  obtain resp t where run: "callbackHandler demo_lib demo_handler (demo_request demo_jar callbackPath) world1 = (Inr resp, t)"
    "rs_status resp = 303" by (rule answersE[OF demo_callback])
  have "HasPrefix ''/'' ''/''" by (simp add: HasPrefix_def)
  from login_session_roundtrip[OF run demo_facts(1,2,3) demo_next_cookies this] obtain st toks claims age s4
    where acc: "login_accepted demo_lib demo_handler (demo_request demo_jar callbackPath) world1 st toks claims age s4"
      and x: "session_extractor (demo_next resp demo_jar) = Inr (ot_idToken toks)" by blast
  from acc have "ot_idToken toks = ''jwt''" unfolding login_accepted_def using demo_tokens_only(1) by blast
  with run x show ?thesis by auto
qed

lemma demo_refresh: "answers (refreshHandler demo_lib demo_handler (demo_request demo_jar ''/api/v2/auth/refresh'') world1) 200"
  by code_simp

theorem refresh_renews_or_ends_session_witness:
  "\<exists>resp t. refreshHandler demo_lib demo_handler (demo_request demo_jar ''/api/v2/auth/refresh'') world1 = (Inr resp, t) \<and>
     session_extractor (demo_next resp demo_jar) = Inr ''jwt''"
proof -
  obtain resp t where run: "refreshHandler demo_lib demo_handler (demo_request demo_jar ''/api/v2/auth/refresh'') world1 = (Inr resp, t)"
    "rs_status resp = 200" by (rule answersE[OF demo_refresh])
  have "HasPrefix ''/'' ''/''" "HasPrefix ''/api/v2/auth/refresh'' ''/''" by (simp_all add: HasPrefix_def)
  from refresh_renews_or_ends_session[OF run(1) demo_facts(1,2,3) this(2) demo_next_cookies this(1)] run(2)
  obtain rt toks s1 where "iv_RefreshAccessToken (ah_verifier demo_handler) rt world1 = (Inr toks, s1)"
    and x: "session_extractor (demo_next resp demo_jar) = Inr (ot_idToken toks)" by auto
  with demo_tokens_only(2) run(1) show ?thesis by auto
qed

definition demo_session :: jar where
  "demo_session = [((''token'', ''/''), ''jwt'')]"

lemma demo_logout:
  "answers (logoutHandler demo_lib demo_handler (demo_request demo_session ''/api/v2/auth/logout'') world1) 200"
  "answers (logoutHandler demo_lib demo_handler (demo_request [] ''/api/v2/auth/logout'') world1) 401"
  by code_simp+

text \<open>The first logout has a session, the second has none.\<close>

theorem logout_ends_session_witness:
  "(\<exists>resp t. logoutHandler demo_lib demo_handler (demo_request demo_session ''/api/v2/auth/logout'') world1 = (Inr resp, t) \<and>
     isl (session_extractor (demo_next resp demo_session)) \<and>
     checkBlockedTokens ''bob@acme.com'' ''jwt'' (kube_userProvider still_env) t = (Inl UtilNotAuthorized, t)) \<and>
   (\<exists>resp t. logoutHandler demo_lib demo_handler (demo_request [] ''/api/v2/auth/logout'') world1 = (Inr resp, t) \<and>
     rs_status resp = 401 \<and> isl (session_extractor (demo_next resp [])))"
proof -
  have pp: "HasPrefix ''/api/v2/auth/logout'' ''/''" "HasPrefix ''/'' ''/''" by (simp_all add: HasPrefix_def)
  obtain resp t where run: "logoutHandler demo_lib demo_handler (demo_request demo_session ''/api/v2/auth/logout'') world1 = (Inr resp, t)"
    "rs_status resp = 200" by (rule answersE[OF demo_logout(1)])
  obtain resp' t' where run': "logoutHandler demo_lib demo_handler (demo_request [] ''/api/v2/auth/logout'') world1 = (Inr resp', t')"
    "rs_status resp' = 401" by (rule answersE[OF demo_logout(2)])
  have jar: "jar_ok demo_session" "jar_ok []" and ex: "session_extractor (http_request.truncate (demo_request demo_session ''/api/v2/auth/logout'')) = Inr ''jwt''"
    by code_simp+
  have v: "iv_Verify demo_verifier ''jwt'' world1 = (Inr demo_claims, world1)" by (simp add: demo_verifier_def)
  have c: "tc_email demo_claims = ''bob@acme.com''" "tc_expiry demo_claims = 9000000000" by (simp_all add: demo_claims_def bob_claims_def)
  have g: "good_until_logout still_env mem_store demo_verifier ''jwt'' demo_claims bob world1"
    using v world1_bob bob_ref by (simp add: good_until_logout_def c still_clock)
  note fact = logout_ends_session[OF run(1)[unfolded demo_handler_def] jar(1) demo_facts(3) pp(1) demo_next_cookies pp(2)]
  have "checkBlockedTokens ''bob@acme.com'' ''jwt'' (kube_userProvider still_env) t = (Inl UtilNotAuthorized, t)"
  proof -
    from fact[THEN conjunct2, rule_format, OF run(2)] obtain tok claims s1 where
      "session_extractor (http_request.truncate (demo_request demo_session ''/api/v2/auth/logout'')) = Inr tok"
      "iv_Verify demo_verifier tok world1 = (Inr claims, s1)"
      and all: "\<forall>W u. api_ok W still_env \<and> blacklist_ok still_env \<and> reads (retA [] :: (mem, string) act) \<and> keys_ok (st_users (W world1)) \<and>
        keys_ok (st_secrets (W world1)) \<and> good_until_logout still_env W demo_verifier tok claims u world1 \<longrightarrow>
        checkBlockedTokens (tc_email claims) tok (kube_userProvider still_env) t = (Inl UtilNotAuthorized, t)" by blast
    then have "tok = ''jwt''" "claims = demo_claims" using ex v by simp_all
    with all[rule_format, of mem_store bob] g still_api_ok still_blacklist_ok reads_retA world1_keys c(1) show ?thesis by metis
  qed
  moreover have "isl (session_extractor (demo_next resp' []))"
    using logout_ends_session[OF run'(1)[unfolded demo_handler_def] jar(2) demo_facts(3) pp(1) demo_next_cookies pp(2)] by blast
  ultimately show ?thesis using run run' fact[THEN conjunct1] by blast
qed



text \<open>
  A world for a whole login: a clock in seconds that goes on with every look at it, a source of texts that never repeats one, and a provider that
  takes each of its codes only once and only with the verifier and the redirect URI of the login. The signed cookie carries the time at which
  it was made and its name, and is refused after thirty days; its signature is left out.
\<close>

record flow_world =
  fw_clock :: nat
  fw_draws :: nat
  fw_codes :: "string list"

type_synonym flow_state = "mem \<times> flow_world"

definition flow_lib :: "flow_state flow_lib" where
  "flow_lib = \<lparr>fl_url = fl_url demo_lib,
     fl_text = (\<lambda>(m, w). (CHR ''n'' # itoa (fw_draws w), (m, w\<lparr>fw_draws := Suc (fw_draws w)\<rparr>))),
     fl_verifier = (\<lambda>(m, w). (''ver'' @ itoa (fw_draws w), (m, w\<lparr>fw_draws := Suc (fw_draws w)\<rparr>))),
     fl_now = (\<lambda>(m, w). (int (fw_clock w) * 1000000000, (m, w\<lparr>fw_clock := Suc (fw_clock w)\<rparr>))),
     fl_unmarshalUI = (\<lambda>_. Inr [])\<rparr>"

definition sealed_parts :: "string \<Rightarrow> OAuthState \<Rightarrow> string list" where
  "sealed_parts name v = [name, oa_state v, oa_nonce v, oa_codeVerifier v, oa_redirectURI v]"

definition timed_codec :: "flow_state securecookie" where
  "timed_codec =
     \<lparr>sc_Encode = (\<lambda>name v s.
        let xs = replicate (fw_clock (snd s)) (CHR ''t'') # sealed_parts name v in
        if list_all (\<lambda>x. CHR ''|'' \<notin> set x \<and> cookie_safe x) xs then (Inr (tl (concat (map (\<lambda>x. CHR ''|'' # x) xs))), s)
        else (Inl UtilBadRequest, s)),
      sc_Decode = (\<lambda>name e s.
        case split_on (CHR ''|'') e of
          [at, n, x1, x2, x3, x4] \<Rightarrow>
            if n = name \<and> length at \<le> fw_clock (snd s) \<and> fw_clock (snd s) \<le> length at + 2592000
            then (Inr \<lparr>oa_state = x1, oa_nonce = x2, oa_codeVerifier = x3, oa_redirectURI = x4\<rparr>, s)
            else (Inl UtilBadRequest, s)
        | _ \<Rightarrow> (Inl UtilBadRequest, s))\<rparr>"

definition flow_lasts :: "flow_state \<Rightarrow> flow_state \<Rightarrow> bool" where
  "flow_lasts s s' \<longleftrightarrow> fw_clock (snd s) \<le> fw_clock (snd s') \<and> fw_clock (snd s') \<le> fw_clock (snd s) + 2592000"

lemma split_on_joined:
  "sep \<notin> set x \<Longrightarrow> split_on sep (x @ sep # y) = x # split_on sep y" "sep \<notin> set x \<Longrightarrow> split_on sep x = [x]"
  by (induction x) auto

lemma timed_codec_seals: "seals timed_codec flow_lasts"
proof -
  have "cookie_safe e \<and> (\<forall>s'. flow_lasts s1 s' \<longrightarrow> (\<exists>t. sc_Decode timed_codec name e s' = (Inr v, t)))"
    if "sc_Encode timed_codec name v s = (Inr e, s1)" for name v s e s1
  proof -
    let ?at = "replicate (fw_clock (snd s)) (CHR ''t'')"
    from that have s1: "s1 = s" and xs: "\<forall>x \<in> set (?at # sealed_parts name v). CHR ''|'' \<notin> set x \<and> cookie_safe x"
      and e: "e = ?at @ concat (map (\<lambda>x. CHR ''|'' # x) (sealed_parts name v))"
      by (auto simp: timed_codec_def Let_def list_all_iff split: if_splits)
    have bar: "cookie_safe [CHR ''|'']" by code_simp
    then have "cookie_safe e" using xs unfolding e by (auto simp: cookie_safe_def sealed_parts_def)
    moreover have "split_on (CHR ''|'') e = ?at # sealed_parts name v"
      using xs unfolding e by (simp add: sealed_parts_def split_on_joined)
    then have "\<forall>s'. flow_lasts s1 s' \<longrightarrow> (\<exists>t. sc_Decode timed_codec name e s' = (Inr v, t))"
      by (auto simp: timed_codec_def sealed_parts_def flow_lasts_def s1)
    ultimately show ?thesis ..
  qed
  then show ?thesis unfolding seals_def by blast
qed

definition flow_verifier :: "flow_state OIDCIssuerVerifier" where
  "flow_verifier =
     \<lparr>iv_AuthCodeURL = (\<lambda>state _ redirect _ nonce _. ''https://idp.example.com/auth?state='' @ state @ ''&nonce='' @ nonce @ ''&redirect_uri='' @ redirect),
      iv_Exchange = (\<lambda>code redirect verifier (m, w).
        if code \<in> set (fw_codes w) \<and> redirect = ''https://kkp.example.com/api/v2/auth/callback'' \<and> verifier = [''ver2'']
        then (Inr demo_tokens, (m, w\<lparr>fw_codes := remove1 code (fw_codes w)\<rparr>)) else (Inl UtilBadRequest, (m, w))),
      iv_RefreshAccessToken = (\<lambda>_. failA UtilBadRequest),
      iv_OIDCConfig = \<lparr>oc_url = [], oc_clientID = [], oc_clientSecret = [], oc_secureCookie = timed_codec,
        oc_cookieSecureMode = True, oc_offlineAccessAsScope = False, oc_skipTLSVerify = False, oc_additionalRedirectURIs = []\<rparr>,
      iv_Verify = (\<lambda>tok. if tok = ''jwt'' then retA (demo_claims\<lparr>tc_nonce := ''n1''\<rparr>) else failA UtilNotAuthorized),
      iv_Extract = (\<lambda>_. Inl UtilNotAuthorized), iv_GetRedirectURI = (\<lambda>_. Inl UtilNotAuthorized)\<rparr>"

definition flow_handler :: "flow_state authHandler" where
  "flow_handler = NewAuthHandler flow_verifier (kube_userProvider (lift_env still_env)) (retA [])"

definition flow_request :: "jar \<Rightarrow> string \<Rightarrow> web_request" where
  "flow_request jar p = (demo_request jar p)\<lparr>rq_query := (\<lambda>k. if k = ''state'' then ''n0'' else if k = ''code'' then ''c0de'' else [])\<rparr>"

text \<open>The login begins in the second 5; the browser is back in the second 7.\<close>

definition flow_start :: flow_state where
  "flow_start = (world1, \<lparr>fw_clock = 5, fw_draws = 0, fw_codes = [''c0de'']\<rparr>)"

definition flow_later :: "flow_state \<Rightarrow> flow_state" where
  "flow_later s = (fst s, (snd s)\<lparr>fw_clock := fw_clock (snd s) + 2\<rparr>)"

abbreviation flow_login where "flow_login \<equiv> loginHandler flow_lib flow_handler (flow_request [] ''/'') flow_start"

lemma flow_login_run: "answers flow_login 303" "snd flow_login = (world1, \<lparr>fw_clock = 5, fw_draws = 3, fw_codes = [''c0de'']\<rparr>)"
  by code_simp+

lemma flow_begins:
  assumes "begins_login flow_lib flow_handler (flow_request [] ''/'') flow_start st"
  shows "st = \<lparr>oa_state = ''n0'', oa_nonce = ''n1'', oa_codeVerifier = ''ver2'', oa_redirectURI = ''https://kkp.example.com/api/v2/auth/callback''\<rparr>"
proof -
  have "NewOAuthState flow_lib flow_start = (Inr \<lparr>oa_state = ''n0'', oa_nonce = ''n1'', oa_codeVerifier = ''ver2'', oa_redirectURI = []\<rparr>,
      (world1, \<lparr>fw_clock = 5, fw_draws = 3, fw_codes = [''c0de'']\<rparr>))" by code_simp
  moreover have "getRequestBaseURL flow_lib flow_handler (flow_request [] ''/'') @ callbackPath = ''https://kkp.example.com/api/v2/auth/callback''" by code_simp
  ultimately show ?thesis using assms unfolding begins_login_def by auto
qed

lemma flow_grants:
  assumes "fw_clock w = 7" and "''c0de'' \<in> set (fw_codes w)" and "oa_nonce st = ''n1''" and "oa_codeVerifier st = ''ver2''"
    and "oa_redirectURI st = ''https://kkp.example.com/api/v2/auth/callback''"
  shows "grants flow_lib (ah_verifier flow_handler) ''c0de'' st demo_tokens (demo_claims\<lparr>tc_nonce := ''n1''\<rparr>) (m, w)"
proof -
  have "0 < until_seconds 7000000000 (tc_expiry demo_claims)" by code_simp
  then show ?thesis
    using assms by (simp add: grants_def flow_handler_def NewAuthHandler_def flow_verifier_def demo_tokens_def demo_claims_def bob_claims_def flow_lib_def)
qed

lemma flow_facts:
  "jwt_verifier (ah_verifier flow_handler)" "state_codec flow_handler = timed_codec"
  "\<forall>s. fst (fl_text flow_lib s) \<noteq> []" "\<forall>e s. fst (up_UserByEmail (ah_userProvider flow_handler) e s) \<noteq> Inl Panic"
proof -
  have "cookie_safe ''jwt''" by code_simp
  then show "jwt_verifier (ah_verifier flow_handler)"
    by (auto simp: jwt_verifier_def flow_handler_def NewAuthHandler_def flow_verifier_def split: if_splits)
  show "\<forall>e s. fst (up_UserByEmail (ah_userProvider flow_handler) e s) \<noteq> Inl Panic"
    by (simp add: flow_handler_def NewAuthHandler_def kube_userProvider_def UserByEmail_run api_ok_lists[OF lift_api_ok[OF still_api_ok]]
        del: lift_env_fields split: option.splits)
qed (simp_all add: flow_handler_def NewAuthHandler_def flow_verifier_def flow_lib_def case_prod_beta)

theorem login_flow_completes_witness:
  "\<exists>resp t resp1 t1. flow_login = (Inr resp, t) \<and>
     callbackHandler flow_lib flow_handler (flow_request (receive (rs_setCookies resp) demo_jar) callbackPath) (flow_later t) = (Inr resp1, t1) \<and>
     session_extractor (demo_next resp1 (receive (rs_setCookies resp) demo_jar)) = Inr ''jwt''"
proof -
  obtain resp t where run: "flow_login = (Inr resp, t)" "rs_status resp = 303" by (rule answersE[OF flow_login_run(1)])
  with flow_login_run(2) have t: "t = (world1, \<lparr>fw_clock = 5, fw_draws = 3, fw_codes = [''c0de'']\<rparr>)" by simp
  let ?r1 = "flow_request (receive (rs_setCookies resp) demo_jar) callbackPath"
  have sc: "seals (state_codec flow_handler) flow_lasts" by (simp add: flow_facts(2) timed_codec_seals)
  from login_flow_completes[OF run sc flow_facts(1,3,4) demo_facts(2), unfolded flow_facts(2)] obtain st e where st: "begins_login flow_lib flow_handler (flow_request [] ''/'') flow_start st"
    and go: "\<forall>(r1 :: web_request) code toks claims s1. flow_lasts t s1 \<and> rq_cookies r1 = sent (receive (rs_setCookies resp) demo_jar) callbackPath \<and>
       rq_query r1 ''state'' = oa_state st \<and> rq_query r1 ''code'' = code \<and>
       grants flow_lib (ah_verifier flow_handler) code st toks claims (snd (sc_Decode timed_codec oauthStateCookieName e s1)) \<longrightarrow>
       (\<exists>resp1 t1. callbackHandler flow_lib flow_handler r1 s1 = (Inr resp1, t1) \<and> rs_status resp1 = 303 \<and>
          (\<forall>r2 p2. HasPrefix p2 ''/'' \<and> rq_cookies r2 = sent (receive (rs_setCookies resp1) (receive (rs_setCookies resp) demo_jar)) p2 \<longrightarrow>
             session_extractor r2 = Inr (ot_idToken toks)))" by (elim exE conjE) (rule that)
  note st = flow_begins[OF st]
  have "snd (sc_Decode timed_codec n x s) = s" for n x s by (simp add: timed_codec_def split: list.split)
  then have "grants flow_lib (ah_verifier flow_handler) ''c0de'' st demo_tokens (demo_claims\<lparr>tc_nonce := ''n1''\<rparr>)
      (snd (sc_Decode timed_codec oauthStateCookieName e (flow_later t)))" using flow_grants st by (simp add: flow_later_def t)
  moreover have "flow_lasts t (flow_later t)" by (simp add: flow_lasts_def flow_later_def)
  moreover have "rq_cookies ?r1 = sent (receive (rs_setCookies resp) demo_jar) callbackPath" "rq_query ?r1 ''state'' = oa_state st" "rq_query ?r1 ''code'' = ''c0de''"
    by (simp_all add: flow_request_def demo_request_def st)
  ultimately obtain resp1 t1 where "callbackHandler flow_lib flow_handler ?r1 (flow_later t) = (Inr resp1, t1)"
    and x: "\<forall>r2 p2. HasPrefix p2 ''/'' \<and> rq_cookies r2 = sent (receive (rs_setCookies resp1) (receive (rs_setCookies resp) demo_jar)) p2 \<longrightarrow>
             session_extractor r2 = Inr (ot_idToken demo_tokens)" using go by blast
  moreover have "session_extractor (demo_next resp1 (receive (rs_setCookies resp) demo_jar)) = Inr ''jwt''"
    using x[rule_format, of "''/''" "demo_next resp1 (receive (rs_setCookies resp) demo_jar)"] demo_next_cookies
    by (simp add: HasPrefix_def demo_tokens_def)
  ultimately show ?thesis using run(1) by blast
qed

theorem chunkString_terminates_witness:
  "(\<exists>cs. chunkString ''abcde'' 2 = Some cs \<and> concat cs = ''abcde'') \<and> chunkString ''abcde'' 0 = None"
  using chunkString_terminates[of 2 "''abcde''"] chunkString_terminates[of 0 "''abcde''"] by auto

end
