(* ===== verification/Preset_Provider.thy ===== *)
theory Preset_Provider
  imports Common_Handlers
begin

text \<open>
  Presets, the stored credentials from which clusters are made: the provider
  (\<^verbatim>\<open>pkg/provider/kubernetes/preset.go\<close>) and the reflective helpers of \<^verbatim>\<open>pkg/handler/common/preset.go\<close>.

  The structs of a preset and of a cloud specification belong to the Kubermatic SDK; the records carry the
  fields that the code reads or writes. A nil pointer is \<^const>\<open>None\<close>. The methods of the SDK on presets are
  the fields of the record \<open>preset_sdk\<close>.
\<close>

section \<open>Presets\<close>

record ProviderPreset =
  pv_enabled :: "bool option"
  pv_datacenter :: string
  pv_isCustomizable :: bool

record TokenPreset = ProviderPreset + \<comment> \<open>Digitalocean, Anexia, Fake\<close>
  pt_token :: string

record HetznerPreset = ProviderPreset +
  ph_token :: string
  ph_network :: string

record AzurePreset = ProviderPreset +
  pz_tenantID :: string
  pz_subscriptionID :: string
  pz_clientID :: string
  pz_clientSecret :: string
  pz_resourceGroup :: string
  pz_vnetResourceGroup :: string
  pz_vnet :: string
  pz_subnet :: string
  pz_routeTable :: string
  pz_securityGroup :: string
  pz_loadBalancerSKU :: string

record VSpherePreset = ProviderPreset +
  pvs_username :: string
  pvs_password :: string
  pvs_vmNetName :: string
  pvs_networks :: "string list"
  pvs_datastore :: string
  pvs_datastoreCluster :: string
  pvs_resourcePool :: string
  pvs_basePath :: string

record BaremetalPreset = ProviderPreset +
  pb_tinkerbell :: "string option" \<comment> \<open>the kubeconfig; \<^const>\<open>None\<close> is a nil pointer\<close>

record AWSPreset = ProviderPreset +
  pa_accessKeyID :: string
  pa_secretAccessKey :: string
  pa_assumeRoleARN :: string
  pa_assumeRoleExternalID :: string
  pa_instanceProfileName :: string
  pa_routeTableID :: string
  pa_securityGroupID :: string
  pa_vpcID :: string
  pa_controlPlaneRoleARN :: string

record OpenstackPreset = ProviderPreset +
  po_useToken :: bool
  po_username :: string
  po_password :: string
  po_domain :: string
  po_project :: string
  po_projectID :: string
  po_applicationCredentialID :: string
  po_applicationCredentialSecret :: string
  po_network :: string
  po_securityGroups :: string
  po_floatingIPPool :: string
  po_routerID :: string
  po_subnetID :: string

record GCPPreset = ProviderPreset +
  pg_serviceAccount :: string
  pg_network :: string
  pg_subnetwork :: string

record KubevirtPreset = ProviderPreset +
  pk_kubeconfig :: string
  pk_vpcName :: string
  pk_subnetName :: string

record AlibabaPreset = ProviderPreset +
  pal_accessKeyID :: string
  pal_accessKeySecret :: string

record NutanixPreset = ProviderPreset +
  pn_username :: string
  pn_password :: string
  pn_proxyURL :: string
  pn_clusterName :: string
  pn_projectName :: string
  pn_csiUsername :: string
  pn_csiPassword :: string
  pn_csiEndpoint :: string
  pn_csiPort :: "int option"

record VCDPreset = ProviderPreset +
  pvc_username :: string
  pvc_password :: string
  pvc_organization :: string
  pvc_vdc :: string
  pvc_ovdcNetworks :: "string list option"
  pvc_apiToken :: string

record preset_spec =
  ps_digitalocean :: "TokenPreset option"
  ps_hetzner :: "HetznerPreset option"
  ps_azure :: "AzurePreset option"
  ps_vsphere :: "VSpherePreset option"
  ps_baremetal :: "BaremetalPreset option"
  ps_aws :: "AWSPreset option"
  ps_openstack :: "OpenstackPreset option"
  ps_gcp :: "GCPPreset option"
  ps_kubevirt :: "KubevirtPreset option"
  ps_alibaba :: "AlibabaPreset option"
  ps_anexia :: "TokenPreset option"
  ps_nutanix :: "NutanixPreset option"
  ps_vmwareCloudDirector :: "VCDPreset option"
  ps_fake :: "TokenPreset option"
  ps_gke :: "TokenPreset option" \<comment> \<open>the credentials of an external cluster\<close>
  ps_eks :: "AWSPreset option"
  ps_aks :: "AzurePreset option"
  ps_requiredEmails :: "string list"
  ps_projects :: "string list"
  ps_enabled :: "bool option"

record preset = objmeta +
  pre_spec :: preset_spec

text \<open>The fields of the struct that hold a provider's configuration, by their Go names.\<close>

datatype pfield =
    FDigitalocean | FHetzner | FAzure | FVSphere | FBaremetal | FAWS | FOpenstack | FGCP | FKubevirt
  | FAlibaba | FAnexia | FNutanix | FVMwareCloudDirector | FFake | FGKE | FEKS | FAKS

fun pfield_name :: "pfield \<Rightarrow> string" where
  "pfield_name FDigitalocean = ''Digitalocean''"
| "pfield_name FHetzner = ''Hetzner''"
| "pfield_name FAzure = ''Azure''"
| "pfield_name FVSphere = ''VSphere''"
| "pfield_name FBaremetal = ''Baremetal''"
| "pfield_name FAWS = ''AWS''"
| "pfield_name FOpenstack = ''Openstack''"
| "pfield_name FGCP = ''GCP''"
| "pfield_name FKubevirt = ''Kubevirt''"
| "pfield_name FAlibaba = ''Alibaba''"
| "pfield_name FAnexia = ''Anexia''"
| "pfield_name FNutanix = ''Nutanix''"
| "pfield_name FVMwareCloudDirector = ''VMwareCloudDirector''"
| "pfield_name FFake = ''Fake''"
| "pfield_name FGKE = ''GKE''"
| "pfield_name FEKS = ''EKS''"
| "pfield_name FAKS = ''AKS''"

definition all_pfields :: "pfield list" where
  "all_pfields = [FDigitalocean, FHetzner, FAzure, FVSphere, FBaremetal, FAWS, FOpenstack, FGCP, FKubevirt,
     FAlibaba, FAnexia, FNutanix, FVMwareCloudDirector, FFake, FGKE, FEKS, FAKS]"

text \<open>What the SDK does with presets.\<close>

record preset_sdk =
  matchesRequirements :: "string \<Rightarrow> string list \<Rightarrow> bool result" \<comment> \<open>\<^verbatim>\<open>email.MatchesRequirements\<close>\<close>
  spec_IsEnabled :: "preset_spec \<Rightarrow> bool"
  spec_SetEnabled :: "bool \<Rightarrow> preset_spec \<Rightarrow> preset_spec"
  providerPreset_IsEnabled :: "ProviderPreset \<Rightarrow> bool"
  provider_validateable :: "pfield \<Rightarrow> bool" \<comment> \<open>the type of the field has a method \<^verbatim>\<open>IsValid\<close>\<close>
  provider_IsValid :: "preset_spec \<Rightarrow> pfield \<Rightarrow> bool"
  supportedProviders :: "string list"
  isProviderSupported :: "string \<Rightarrow> bool"
  vmwareCloudDirectorProvider :: string
  openstackProvider :: string
  presetNameAnnotation :: string
  templateNameLabelKey :: string

section \<open>The provider\<close>

definition filter_project :: "string option \<Rightarrow> preset \<Rightarrow> bool" where
  "filter_project projectID preset =
     (case projectID of
        None \<Rightarrow> True
      | Some projectID \<Rightarrow>
          if ps_projects (pre_spec preset) \<noteq> []
          then list_ex (\<lambda>project. projectID = project) (ps_projects (pre_spec preset))
          else True)"

fun filterOutPresets :: "preset_sdk \<Rightarrow> UserInfo \<Rightarrow> string option \<Rightarrow> preset list \<Rightarrow> preset list result" where
  "filterOutPresets K userInfo projectID [] = Inr []"
| "filterOutPresets K userInfo projectID (preset # items) =
     (let matchesProject = filter_project projectID preset in
      case matchesRequirements K (ui_email userInfo) (ps_requiredEmails (pre_spec preset)) of
        Inl err \<Rightarrow> Inl err
      | Inr matchesEmail \<Rightarrow>
          (case filterOutPresets K userInfo projectID items of
             Inl err \<Rightarrow> Inl err
           | Inr result \<Rightarrow>
               if matchesProject \<and> (matchesEmail \<or> ui_isAdmin userInfo) then Inr (preset # result) else Inr result))"

definition GetPresets ::
  "preset_sdk \<Rightarrow> (preset, 's) kclient \<Rightarrow> UserInfo \<Rightarrow> string option \<Rightarrow> ('s, preset list) act" where
  "GetPresets K client userInfo projectID =
     bindA (wrapA Wrapped (listA client Everything)) (\<lambda>presetList.
       liftA (filterOutPresets K userInfo projectID presetList))"

definition GetPreset ::
  "preset_sdk \<Rightarrow> (preset, 's) kclient \<Rightarrow> UserInfo \<Rightarrow> string option \<Rightarrow> string \<Rightarrow> ('s, preset) act" where
  "GetPreset K client userInfo projectID name =
     bindA (GetPresets K client userInfo projectID) (\<lambda>presets.
       case List.find (\<lambda>preset. om_name preset = name) presets of
         Some preset \<Rightarrow> retA preset
       | None \<Rightarrow> failA NewNotFound)"

definition preset_Create :: "(preset, 's) kclient \<Rightarrow> preset \<Rightarrow> ('s, preset) act" where
  "preset_Create client preset = kCreate client preset"

definition preset_Update :: "(preset, 's) kclient \<Rightarrow> preset \<Rightarrow> ('s, preset) act" where
  "preset_Update client preset = kUpdate client preset"

text \<open>Deleting returns an empty preset, whether it succeeds or fails.\<close>

definition zero_spec :: preset_spec where
  "zero_spec = \<lparr>ps_digitalocean = None, ps_hetzner = None, ps_azure = None, ps_vsphere = None, ps_baremetal = None,
     ps_aws = None, ps_openstack = None, ps_gcp = None, ps_kubevirt = None, ps_alibaba = None, ps_anexia = None,
     ps_nutanix = None, ps_vmwareCloudDirector = None, ps_fake = None, ps_gke = None, ps_eks = None, ps_aks = None,
     ps_requiredEmails = [], ps_projects = [], ps_enabled = None\<rparr>"

definition zero_preset :: preset where
  "zero_preset = objmeta.extend blank_meta (preset.fields zero_spec)"

definition preset_Delete :: "(preset, 's) kclient \<Rightarrow> preset \<Rightarrow> ('s, preset) act" where
  "preset_Delete client preset = bindA (kDelete client (key_of preset)) (\<lambda>_. retA zero_preset)"

section \<open>Reflection on the struct of a preset\<close>

text \<open>
  \<^verbatim>\<open>getProviderValue\<close> finds the field whose name is the provider's, in any capitalisation. A provider type
  without a field gives the zero \<^verbatim>\<open>reflect.Value\<close>, on which the setters panic. Provider types are taken not to
  be the names of the other three fields of the struct.
\<close>

definition provider_field :: "string \<Rightarrow> pfield option" where
  "provider_field providerType = List.find (\<lambda>f. EqualFold (pfield_name f) providerType) all_pfields"

fun field_base :: "pfield \<Rightarrow> preset_spec \<Rightarrow> ProviderPreset option" where
  "field_base FDigitalocean s = map_option ProviderPreset.truncate (ps_digitalocean s)"
| "field_base FHetzner s = map_option ProviderPreset.truncate (ps_hetzner s)"
| "field_base FAzure s = map_option ProviderPreset.truncate (ps_azure s)"
| "field_base FVSphere s = map_option ProviderPreset.truncate (ps_vsphere s)"
| "field_base FBaremetal s = map_option ProviderPreset.truncate (ps_baremetal s)"
| "field_base FAWS s = map_option ProviderPreset.truncate (ps_aws s)"
| "field_base FOpenstack s = map_option ProviderPreset.truncate (ps_openstack s)"
| "field_base FGCP s = map_option ProviderPreset.truncate (ps_gcp s)"
| "field_base FKubevirt s = map_option ProviderPreset.truncate (ps_kubevirt s)"
| "field_base FAlibaba s = map_option ProviderPreset.truncate (ps_alibaba s)"
| "field_base FAnexia s = map_option ProviderPreset.truncate (ps_anexia s)"
| "field_base FNutanix s = map_option ProviderPreset.truncate (ps_nutanix s)"
| "field_base FVMwareCloudDirector s = map_option ProviderPreset.truncate (ps_vmwareCloudDirector s)"
| "field_base FFake s = map_option ProviderPreset.truncate (ps_fake s)"
| "field_base FGKE s = map_option ProviderPreset.truncate (ps_gke s)"
| "field_base FEKS s = map_option ProviderPreset.truncate (ps_eks s)"
| "field_base FAKS s = map_option ProviderPreset.truncate (ps_aks s)"

fun field_enable :: "pfield \<Rightarrow> bool \<Rightarrow> preset_spec \<Rightarrow> preset_spec" where
  "field_enable FDigitalocean b s = s\<lparr>ps_digitalocean := map_option (pv_enabled_update (\<lambda>_. Some b)) (ps_digitalocean s)\<rparr>"
| "field_enable FHetzner b s = s\<lparr>ps_hetzner := map_option (pv_enabled_update (\<lambda>_. Some b)) (ps_hetzner s)\<rparr>"
| "field_enable FAzure b s = s\<lparr>ps_azure := map_option (pv_enabled_update (\<lambda>_. Some b)) (ps_azure s)\<rparr>"
| "field_enable FVSphere b s = s\<lparr>ps_vsphere := map_option (pv_enabled_update (\<lambda>_. Some b)) (ps_vsphere s)\<rparr>"
| "field_enable FBaremetal b s = s\<lparr>ps_baremetal := map_option (pv_enabled_update (\<lambda>_. Some b)) (ps_baremetal s)\<rparr>"
| "field_enable FAWS b s = s\<lparr>ps_aws := map_option (pv_enabled_update (\<lambda>_. Some b)) (ps_aws s)\<rparr>"
| "field_enable FOpenstack b s = s\<lparr>ps_openstack := map_option (pv_enabled_update (\<lambda>_. Some b)) (ps_openstack s)\<rparr>"
| "field_enable FGCP b s = s\<lparr>ps_gcp := map_option (pv_enabled_update (\<lambda>_. Some b)) (ps_gcp s)\<rparr>"
| "field_enable FKubevirt b s = s\<lparr>ps_kubevirt := map_option (pv_enabled_update (\<lambda>_. Some b)) (ps_kubevirt s)\<rparr>"
| "field_enable FAlibaba b s = s\<lparr>ps_alibaba := map_option (pv_enabled_update (\<lambda>_. Some b)) (ps_alibaba s)\<rparr>"
| "field_enable FAnexia b s = s\<lparr>ps_anexia := map_option (pv_enabled_update (\<lambda>_. Some b)) (ps_anexia s)\<rparr>"
| "field_enable FNutanix b s = s\<lparr>ps_nutanix := map_option (pv_enabled_update (\<lambda>_. Some b)) (ps_nutanix s)\<rparr>"
| "field_enable FVMwareCloudDirector b s = s\<lparr>ps_vmwareCloudDirector := map_option (pv_enabled_update (\<lambda>_. Some b)) (ps_vmwareCloudDirector s)\<rparr>"
| "field_enable FFake b s = s\<lparr>ps_fake := map_option (pv_enabled_update (\<lambda>_. Some b)) (ps_fake s)\<rparr>"
| "field_enable FGKE b s = s\<lparr>ps_gke := map_option (pv_enabled_update (\<lambda>_. Some b)) (ps_gke s)\<rparr>"
| "field_enable FEKS b s = s\<lparr>ps_eks := map_option (pv_enabled_update (\<lambda>_. Some b)) (ps_eks s)\<rparr>"
| "field_enable FAKS b s = s\<lparr>ps_aks := map_option (pv_enabled_update (\<lambda>_. Some b)) (ps_aks s)\<rparr>"

fun field_copy :: "pfield \<Rightarrow> preset_spec \<Rightarrow> preset_spec \<Rightarrow> preset_spec" where
  "field_copy FDigitalocean src dest = dest\<lparr>ps_digitalocean := ps_digitalocean src\<rparr>"
| "field_copy FHetzner src dest = dest\<lparr>ps_hetzner := ps_hetzner src\<rparr>"
| "field_copy FAzure src dest = dest\<lparr>ps_azure := ps_azure src\<rparr>"
| "field_copy FVSphere src dest = dest\<lparr>ps_vsphere := ps_vsphere src\<rparr>"
| "field_copy FBaremetal src dest = dest\<lparr>ps_baremetal := ps_baremetal src\<rparr>"
| "field_copy FAWS src dest = dest\<lparr>ps_aws := ps_aws src\<rparr>"
| "field_copy FOpenstack src dest = dest\<lparr>ps_openstack := ps_openstack src\<rparr>"
| "field_copy FGCP src dest = dest\<lparr>ps_gcp := ps_gcp src\<rparr>"
| "field_copy FKubevirt src dest = dest\<lparr>ps_kubevirt := ps_kubevirt src\<rparr>"
| "field_copy FAlibaba src dest = dest\<lparr>ps_alibaba := ps_alibaba src\<rparr>"
| "field_copy FAnexia src dest = dest\<lparr>ps_anexia := ps_anexia src\<rparr>"
| "field_copy FNutanix src dest = dest\<lparr>ps_nutanix := ps_nutanix src\<rparr>"
| "field_copy FVMwareCloudDirector src dest = dest\<lparr>ps_vmwareCloudDirector := ps_vmwareCloudDirector src\<rparr>"
| "field_copy FFake src dest = dest\<lparr>ps_fake := ps_fake src\<rparr>"
| "field_copy FGKE src dest = dest\<lparr>ps_gke := ps_gke src\<rparr>"
| "field_copy FEKS src dest = dest\<lparr>ps_eks := ps_eks src\<rparr>"
| "field_copy FAKS src dest = dest\<lparr>ps_aks := ps_aks src\<rparr>"

definition GetProviderPreset :: "preset \<Rightarrow> string \<Rightarrow> ProviderPreset option" where
  "GetProviderPreset p providerType =
     (case provider_field providerType of None \<Rightarrow> None | Some f \<Rightarrow> field_base f (pre_spec p))"

definition PresetHasProvider :: "preset \<Rightarrow> string \<Rightarrow> bool" where
  "PresetHasProvider p providerType =
     (case provider_field providerType of None \<Rightarrow> False | Some f \<Rightarrow> field_base f (pre_spec p) \<noteq> None)"

definition SetPresetProviderEnabled :: "preset \<Rightarrow> string \<Rightarrow> bool \<Rightarrow> preset result" where
  "SetPresetProviderEnabled p providerType enabled =
     (case provider_field providerType of
        None \<Rightarrow> Inl Panic
      | Some f \<Rightarrow>
          if field_base f (pre_spec p) = None then Inl Panic
          else Inr (p\<lparr>pre_spec := field_enable f enabled (pre_spec p)\<rparr>))"

definition GetPresetProviderList :: "preset_sdk \<Rightarrow> preset \<Rightarrow> string list" where
  "GetPresetProviderList K p = filter (PresetHasProvider p) (supportedProviders K)"

definition ValidatePreset :: "preset_sdk \<Rightarrow> preset \<Rightarrow> string \<Rightarrow> unit result" where
  "ValidatePreset K p providerType =
     (case provider_field providerType of
        None \<Rightarrow> Inl (Plain ''missing provider configuration'')
      | Some f \<Rightarrow>
          if field_base f (pre_spec p) = None then Inl (Plain ''missing provider configuration'')
          else if \<not> provider_validateable K f then Inl (Plain ''provider does not implement validateable interface'')
          else if \<not> provider_IsValid K (pre_spec p) f then Inl (Plain ''required fields missing for provider spec'')
          else Inr ())"

definition IsPresetProviderEnabled :: "preset_sdk \<Rightarrow> preset \<Rightarrow> string \<Rightarrow> bool" where
  "IsPresetProviderEnabled K p provider =
     (case GetProviderPreset p provider of None \<Rightarrow> False | Some base \<Rightarrow> providerPreset_IsEnabled K base)"

definition OverridePresetProvider :: "preset \<Rightarrow> string \<Rightarrow> preset \<Rightarrow> preset result" where
  "OverridePresetProvider p providerType newPreset =
     (case provider_field providerType of
        None \<Rightarrow> Inl Panic
      | Some f \<Rightarrow> Inr (p\<lparr>pre_spec := field_copy f (pre_spec newPreset) (pre_spec p)\<rparr>))"

definition RemovePresetProvider :: "preset \<Rightarrow> string \<Rightarrow> preset result" where
  "RemovePresetProvider p providerType =
     (case provider_field providerType of
        None \<Rightarrow> Inl Panic
      | Some f \<Rightarrow> Inr (p\<lparr>pre_spec := field_copy f zero_spec (pre_spec p)\<rparr>))"

end
