(* ===== verification/Preset_Credentials.thy ===== *)
theory Preset_Credentials
  imports Preset_Provider
begin

text \<open>
  Filling the cloud specification of a new cluster with the credentials of a preset: \<^verbatim>\<open>SetCloudCredentials\<close> and
  the functions per provider in \<^verbatim>\<open>pkg/provider/kubernetes/preset.go\<close>, and the interface of the provider.
\<close>

section \<open>Per provider\<close>

definition emptyCredentialError :: go_error where
  "emptyCredentialError = Plain ''the preset does not contain credential for the provider''"

definition setFakeCredentials :: "preset_spec \<Rightarrow> CloudSpec \<Rightarrow> TokenCloud \<Rightarrow> CloudSpec result" where
  "setFakeCredentials preset cloud c =
     (case ps_fake preset of None \<Rightarrow> Inl emptyCredentialError
      | Some p \<Rightarrow> Inr (cloud\<lparr>cl_fake := Some (c\<lparr>ct_token := pt_token p\<rparr>)\<rparr>))"

definition setKubevirtCredentials :: "preset_spec \<Rightarrow> CloudSpec \<Rightarrow> KubevirtCloud \<Rightarrow> CloudSpec result" where
  "setKubevirtCredentials preset cloud c =
     (case ps_kubevirt preset of None \<Rightarrow> Inl emptyCredentialError
      | Some p \<Rightarrow> Inr (cloud\<lparr>cl_kubevirt := Some (c\<lparr>ck_kubeconfig := pk_kubeconfig p, ck_vpcName := pk_vpcName p,
                    ck_subnetName := pk_subnetName p\<rparr>)\<rparr>))"

definition setGCPCredentials :: "preset_spec \<Rightarrow> CloudSpec \<Rightarrow> GCPCloud \<Rightarrow> CloudSpec result" where
  "setGCPCredentials preset cloud c =
     (case ps_gcp preset of None \<Rightarrow> Inl emptyCredentialError
      | Some p \<Rightarrow> Inr (cloud\<lparr>cl_gcp := Some (c\<lparr>cg_serviceAccount := pg_serviceAccount p, cg_network := pg_network p,
                    cg_subnetwork := pg_subnetwork p\<rparr>)\<rparr>))"

definition setAWSCredentials :: "preset_spec \<Rightarrow> CloudSpec \<Rightarrow> AWSCloud \<Rightarrow> CloudSpec result" where
  "setAWSCredentials preset cloud c =
     (case ps_aws preset of None \<Rightarrow> Inl emptyCredentialError
      | Some p \<Rightarrow> Inr (cloud\<lparr>cl_aws := Some (c\<lparr>ca_accessKeyID := pa_accessKeyID p, ca_secretAccessKey := pa_secretAccessKey p,
                    ca_assumeRoleARN := pa_assumeRoleARN p, ca_assumeRoleExternalID := pa_assumeRoleExternalID p,
                    ca_instanceProfileName := pa_instanceProfileName p, ca_routeTableID := pa_routeTableID p,
                    ca_securityGroupID := pa_securityGroupID p, ca_vpcID := pa_vpcID p,
                    ca_controlPlaneRoleARN := pa_controlPlaneRoleARN p\<rparr>)\<rparr>))"

definition setHetznerCredentials :: "preset_spec \<Rightarrow> CloudSpec \<Rightarrow> HetznerCloud \<Rightarrow> CloudSpec result" where
  "setHetznerCredentials preset cloud c =
     (case ps_hetzner preset of None \<Rightarrow> Inl emptyCredentialError
      | Some p \<Rightarrow> Inr (cloud\<lparr>cl_hetzner := Some (c\<lparr>ch_token := ph_token p, ch_network := ph_network p\<rparr>)\<rparr>))"

definition setDigitalOceanCredentials :: "preset_spec \<Rightarrow> CloudSpec \<Rightarrow> TokenCloud \<Rightarrow> CloudSpec result" where
  "setDigitalOceanCredentials preset cloud c =
     (case ps_digitalocean preset of None \<Rightarrow> Inl emptyCredentialError
      | Some p \<Rightarrow> Inr (cloud\<lparr>cl_digitalocean := Some (c\<lparr>ct_token := pt_token p\<rparr>)\<rparr>))"

definition setAzureCredentials :: "preset_spec \<Rightarrow> CloudSpec \<Rightarrow> AzureCloud \<Rightarrow> CloudSpec result" where
  "setAzureCredentials preset cloud c =
     (case ps_azure preset of None \<Rightarrow> Inl emptyCredentialError
      | Some p \<Rightarrow> Inr (cloud\<lparr>cl_azure := Some (c\<lparr>cz_tenantID := pz_tenantID p, cz_clientSecret := pz_clientSecret p,
                    cz_clientID := pz_clientID p, cz_subscriptionID := pz_subscriptionID p,
                    cz_resourceGroup := pz_resourceGroup p, cz_vnetResourceGroup := pz_vnetResourceGroup p,
                    cz_routeTable := pz_routeTable p, cz_securityGroup := pz_securityGroup p,
                    cz_subnet := pz_subnet p, cz_vnet := pz_vnet p, cz_loadBalancerSKU := pz_loadBalancerSKU p\<rparr>)\<rparr>))"

definition setOpenStackCredentials ::
  "preset_spec \<Rightarrow> CloudSpec \<Rightarrow> OpenstackCloud \<Rightarrow> datacenter option \<Rightarrow> CloudSpec result" where
  "setOpenStackCredentials preset cloud c dc =
     (case ps_openstack preset of None \<Rightarrow> Inl emptyCredentialError
      | Some p \<Rightarrow>
          let c = c\<lparr>co_username := po_username p, co_password := po_password p, co_domain := po_domain p,
                    co_project := po_project p, co_projectID := po_projectID p, co_useToken := po_useToken p,
                    co_applicationCredentialID := po_applicationCredentialID p,
                    co_applicationCredentialSecret := po_applicationCredentialSecret p\<rparr>;
              c = (if \<not> pv_isCustomizable p
                   then c\<lparr>co_subnetID := po_subnetID p, co_network := po_network p, co_routerID := po_routerID p,
                          co_floatingIPPool := po_floatingIPPool p, co_securityGroups := po_securityGroups p\<rparr>
                   else c)
          in if co_floatingIPPool c = [] then
               (case dc of
                  None \<Rightarrow> Inl Panic
                | Some dc \<Rightarrow>
                    if dc_openstack dc = Some True then Inl (Plain ''preset error, no floating ip pool specified for OpenStack'')
                    else Inr (cloud\<lparr>cl_openstack := Some c\<rparr>))
             else Inr (cloud\<lparr>cl_openstack := Some c\<rparr>))"

definition setVsphereCredentials ::
  "preset_spec \<Rightarrow> CloudSpec \<Rightarrow> VSphereCloud \<Rightarrow> datacenter option \<Rightarrow> CloudSpec result" where
  "setVsphereCredentials preset cloud c dc =
     (case ps_vsphere preset of None \<Rightarrow> Inl emptyCredentialError
      | Some p \<Rightarrow>
          let c = c\<lparr>cv_password := pvs_password p, cv_username := pvs_username p, cv_vmNetName := pvs_vmNetName p,
                    cv_networks := pvs_networks p, cv_datastore := pvs_datastore p,
                    cv_datastoreCluster := pvs_datastoreCluster p, cv_resourcePool := pvs_resourcePool p,
                    cv_basePath := pvs_basePath p\<rparr>
          in if cv_storagePolicy c = [] then
               (case dc of
                  None \<Rightarrow> Inl Panic
                | Some dc \<Rightarrow>
                    (case dc_vsphere dc of
                       None \<Rightarrow> Inl Panic
                     | Some policy \<Rightarrow> Inr (cloud\<lparr>cl_vsphere := Some (c\<lparr>cv_storagePolicy := policy\<rparr>)\<rparr>)))
             else Inr (cloud\<lparr>cl_vsphere := Some c\<rparr>))"

definition setBaremetalCredentials :: "preset_spec \<Rightarrow> CloudSpec \<Rightarrow> BaremetalCloud \<Rightarrow> CloudSpec result" where
  "setBaremetalCredentials preset cloud c =
     (case ps_baremetal preset of None \<Rightarrow> Inl emptyCredentialError
      | Some p \<Rightarrow>
          (case cb_tinkerbell c of
             None \<Rightarrow> Inr cloud
           | Some _ \<Rightarrow>
               (case pb_tinkerbell p of
                  None \<Rightarrow> Inl Panic
                | Some kubeconfig \<Rightarrow> Inr (cloud\<lparr>cl_baremetal := Some (c\<lparr>cb_tinkerbell := Some kubeconfig\<rparr>)\<rparr>))))"

definition setAlibabaCredentials :: "preset_spec \<Rightarrow> CloudSpec \<Rightarrow> AlibabaCloud \<Rightarrow> CloudSpec result" where
  "setAlibabaCredentials preset cloud c =
     (case ps_alibaba preset of None \<Rightarrow> Inl emptyCredentialError
      | Some p \<Rightarrow> Inr (cloud\<lparr>cl_alibaba := Some (c\<lparr>cal_accessKeyID := pal_accessKeyID p,
                    cal_accessKeySecret := pal_accessKeySecret p\<rparr>)\<rparr>))"

definition setAnexiaCredentials :: "preset_spec \<Rightarrow> CloudSpec \<Rightarrow> TokenCloud \<Rightarrow> CloudSpec result" where
  "setAnexiaCredentials preset cloud c =
     (case ps_anexia preset of None \<Rightarrow> Inl emptyCredentialError
      | Some p \<Rightarrow> Inr (cloud\<lparr>cl_anexia := Some (c\<lparr>ct_token := pt_token p\<rparr>)\<rparr>))"

definition setNutanixCredentials :: "preset_spec \<Rightarrow> CloudSpec \<Rightarrow> NutanixCloud \<Rightarrow> CloudSpec result" where
  "setNutanixCredentials preset cloud c =
     (case ps_nutanix preset of None \<Rightarrow> Inl emptyCredentialError
      | Some p \<Rightarrow>
          let c = c\<lparr>cn_username := pn_username p, cn_password := pn_password p\<rparr>;
              c = (if pn_proxyURL p \<noteq> [] then c\<lparr>cn_proxyURL := pn_proxyURL p\<rparr> else c);
              c = (if pn_clusterName p \<noteq> [] then c\<lparr>cn_clusterName := pn_clusterName p\<rparr> else c);
              c = (if pn_projectName p \<noteq> [] then c\<lparr>cn_projectName := pn_projectName p\<rparr> else c);
              c = (if pn_csiUsername p \<noteq> [] \<and> pn_csiPassword p \<noteq> [] \<and> pn_csiEndpoint p \<noteq> []
                   then c\<lparr>cn_csi := Some (pn_csiUsername p, pn_csiPassword p, pn_csiEndpoint p, pn_csiPort p)\<rparr> else c)
          in Inr (cloud\<lparr>cl_nutanix := Some c\<rparr>))"

definition setVMwareCloudDirectorCredentials :: "preset_spec \<Rightarrow> CloudSpec \<Rightarrow> VCDCloud \<Rightarrow> CloudSpec result" where
  "setVMwareCloudDirectorCredentials preset cloud c =
     (case ps_vmwareCloudDirector preset of None \<Rightarrow> Inl emptyCredentialError
      | Some p \<Rightarrow> Inr (cloud\<lparr>cl_vmwareCloudDirector := Some (c\<lparr>cvc_username := pvc_username p, cvc_password := pvc_password p,
                    cvc_organization := pvc_organization p, cvc_vdc := pvc_vdc p,
                    cvc_ovdcNetworks := pvc_ovdcNetworks p, cvc_apiToken := pvc_apiToken p\<rparr>)\<rparr>))"

section \<open>The choice of the provider\<close>

text \<open>The first provider that the specification has, in the order of the code.\<close>

definition when_set :: "'a option \<Rightarrow> ('a \<Rightarrow> 'b) \<Rightarrow> 'b \<Rightarrow> 'b" where
  "when_set pointer body rest = (case pointer of Some c \<Rightarrow> body c | None \<Rightarrow> rest)"

definition preset_credentials :: "preset_spec \<Rightarrow> CloudSpec \<Rightarrow> datacenter option \<Rightarrow> CloudSpec result" where
  "preset_credentials preset cloud dc =
     when_set (cl_vsphere cloud) (\<lambda>c. setVsphereCredentials preset cloud c dc) (
     when_set (cl_baremetal cloud) (\<lambda>c. setBaremetalCredentials preset cloud c) (
     when_set (cl_openstack cloud) (\<lambda>c. setOpenStackCredentials preset cloud c dc) (
     when_set (cl_azure cloud) (\<lambda>c. setAzureCredentials preset cloud c) (
     when_set (cl_digitalocean cloud) (\<lambda>c. setDigitalOceanCredentials preset cloud c) (
     when_set (cl_hetzner cloud) (\<lambda>c. setHetznerCredentials preset cloud c) (
     when_set (cl_aws cloud) (\<lambda>c. setAWSCredentials preset cloud c) (
     when_set (cl_gcp cloud) (\<lambda>c. setGCPCredentials preset cloud c) (
     when_set (cl_fake cloud) (\<lambda>c. setFakeCredentials preset cloud c) (
     when_set (cl_kubevirt cloud) (\<lambda>c. setKubevirtCredentials preset cloud c) (
     when_set (cl_alibaba cloud) (\<lambda>c. setAlibabaCredentials preset cloud c) (
     when_set (cl_anexia cloud) (\<lambda>c. setAnexiaCredentials preset cloud c) (
     when_set (cl_nutanix cloud) (\<lambda>c. setNutanixCredentials preset cloud c) (
     when_set (cl_vmwareCloudDirector cloud) (\<lambda>c. setVMwareCloudDirectorCredentials preset cloud c) (
       Inl (Plain ''can not find provider to set credentials'')))))))))))))))"

definition SetCloudCredentials ::
  "preset_sdk \<Rightarrow> (preset, 's) kclient \<Rightarrow> UserInfo \<Rightarrow> string \<Rightarrow> string \<Rightarrow> CloudSpec \<Rightarrow> datacenter option \<Rightarrow> ('s, CloudSpec) act" where
  "SetCloudCredentials K client userInfo projectID presetName cloud dc =
     bindA (GetPreset K client userInfo (Some projectID) presetName) (\<lambda>preset.
       liftA (preset_credentials (pre_spec preset) cloud dc))"

section \<open>The interface\<close>

record 's PresetProvider =
  prp_CreatePreset :: "preset \<Rightarrow> ('s, preset) act"
  prp_UpdatePreset :: "preset \<Rightarrow> ('s, preset) act"
  prp_GetPresets :: "UserInfo \<Rightarrow> string option \<Rightarrow> ('s, preset list) act"
  prp_GetPreset :: "UserInfo \<Rightarrow> string option \<Rightarrow> string \<Rightarrow> ('s, preset) act"
  prp_DeletePreset :: "preset \<Rightarrow> ('s, preset) act"
  prp_SetCloudCredentials :: "UserInfo \<Rightarrow> string \<Rightarrow> string \<Rightarrow> CloudSpec \<Rightarrow> datacenter option \<Rightarrow> ('s, CloudSpec) act"

definition NewPresetProvider :: "preset_sdk \<Rightarrow> (preset, 's) kclient \<Rightarrow> 's PresetProvider" where
  "NewPresetProvider K client =
     \<lparr>prp_CreatePreset = preset_Create client, prp_UpdatePreset = preset_Update client,
      prp_GetPresets = GetPresets K client, prp_GetPreset = GetPreset K client,
      prp_DeletePreset = preset_Delete client, prp_SetCloudCredentials = SetCloudCredentials K client\<rparr>"

end
