(* ===== verification/Preset_Handlers.thy ===== *)
theory Preset_Handlers
  imports Preset_Credentials
begin

text \<open>
  The endpoints on presets: \<^verbatim>\<open>pkg/handler/v2/preset/preset.go\<close> and the older list of names in
  \<^verbatim>\<open>pkg/handler/v1/presets/credentials.go\<close>.
\<close>

section \<open>API objects\<close>

record apiPresetProvider =
  app_name :: string
  app_enabled :: bool
  app_isCustomizable :: bool
  app_vcd :: "(string \<times> string list) option" \<comment> \<open>\<^verbatim>\<open>OVDCNetwork\<close>, \<^verbatim>\<open>OVDCNetworks\<close>\<close>
  app_openstack :: "(string \<times> string \<times> string \<times> string \<times> string) option"
    \<comment> \<open>network, security groups, floating IP pool, router, subnet\<close>

record apiPreset =
  apr_name :: string
  apr_enabled :: bool
  apr_providers :: "apiPresetProvider list"

record PresetBody =
  pbd_name :: string
  pbd_spec :: preset_spec

record PresetStats =
  pst_clusters :: nat
  pst_templates :: nat

record Association =
  asc_id :: string
  asc_name :: string
  asc_projectID :: string
  asc_projectName :: string
  asc_provider :: string

record PresetLinkages =
  plk_presetName :: string
  plk_clusters :: "Association list"
  plk_templates :: "Association list"

text \<open>
  The values the endpoints return: some answer with the API form of a preset, some with the stored object
  itself, some with nothing.
\<close>

datatype preset_answer = ApiPreset apiPreset | StoredPreset preset | PresetList "apiPreset list" | NoPreset

section \<open>Conversions\<close>

definition provider_entry :: "preset_sdk \<Rightarrow> preset \<Rightarrow> string \<Rightarrow> apiPresetProvider" where
  "provider_entry K preset providerType =
     (let spec = pre_spec preset;
          vcd = (if providerType = vmwareCloudDirectorProvider K
                 then (case ps_vmwareCloudDirector spec of
                         None \<Rightarrow> None
                       | Some v \<Rightarrow>
                           (case pvc_ovdcNetworks v of Some networks \<Rightarrow> Some ([], networks) | None \<Rightarrow> None))
                 else None);
          openstack = (if providerType = openstackProvider K then ps_openstack spec else None)
      in \<lparr>app_name = providerType, app_enabled = IsPresetProviderEnabled K preset providerType,
          app_isCustomizable = (case openstack of None \<Rightarrow> False | Some p \<Rightarrow> pv_isCustomizable p),
          app_vcd = vcd,
          app_openstack = (case openstack of
             None \<Rightarrow> None
           | Some p \<Rightarrow> if pv_isCustomizable p
                       then Some (po_network p, po_securityGroups p, po_floatingIPPool p, po_routerID p, po_subnetID p)
                       else None)\<rparr>)"

definition newAPIPreset :: "preset_sdk \<Rightarrow> preset \<Rightarrow> bool \<Rightarrow> apiPreset" where
  "newAPIPreset K preset enabled =
     \<lparr>apr_name = om_name preset, apr_enabled = enabled,
      apr_providers = map (provider_entry K preset) (filter (PresetHasProvider preset) (supportedProviders K))\<rparr>"

definition convertAPIToInternalPreset :: "PresetBody \<Rightarrow> preset" where
  "convertAPIToInternalPreset body =
     objmeta.extend (blank_meta\<lparr>om_name := pbd_name body\<rparr>) (preset.fields (pbd_spec body))"

definition mergePresets :: "preset \<Rightarrow> preset \<Rightarrow> string \<Rightarrow> preset result" where
  "mergePresets oldPreset newPreset providerType =
     (case OverridePresetProvider oldPreset providerType newPreset of
        Inl err \<Rightarrow> Inl err
      | Inr oldPreset \<Rightarrow>
          Inr (oldPreset\<lparr>pre_spec := (pre_spec oldPreset)\<lparr>ps_requiredEmails := ps_requiredEmails (pre_spec newPreset)\<rparr>\<rparr>))"

section \<open>Requests\<close>

record listPresetsReq =
  lpr_disabled :: bool
  lpr_name :: string

definition DecodeListPresets :: "http_request \<Rightarrow> listPresetsReq result" where
  "DecodeListPresets r = Inr \<lparr>lpr_disabled = (rq_query r ''disabled'' = ''true''), lpr_name = rq_query r ''name''\<rparr>"

record listProjectPresetsReq = listPresetsReq +
  lpp_projectID :: string

definition DecodeListProjectPresets :: "http_request \<Rightarrow> listProjectPresetsReq result" where
  "DecodeListProjectPresets r =
     (case DecodeListPresets r of
        Inl err \<Rightarrow> Inl err
      | Inr listReq \<Rightarrow>
          (case DecodeProjectRequest r of
             Inl err \<Rightarrow> Inl err
           | Inr projectReq \<Rightarrow> Inr (listPresetsReq.extend listReq (listProjectPresetsReq.fields (req_projectID projectReq)))))"

record updatePresetStatusReq =
  ups_presetName :: string
  ups_provider :: string
  ups_enabled :: bool

definition DecodeUpdatePresetStatus :: "http_request \<Rightarrow> bool result \<Rightarrow> updatePresetStatusReq result" where
  "DecodeUpdatePresetStatus r body =
     (case body of
        Inl err \<Rightarrow> Inl err
      | Inr enabled \<Rightarrow> Inr \<lparr>ups_presetName = mux_var r ''preset_name'', ups_provider = rq_query r ''provider'', ups_enabled = enabled\<rparr>)"

definition updatePresetStatusReq_Validate :: "preset_sdk \<Rightarrow> updatePresetStatusReq \<Rightarrow> unit result" where
  "updatePresetStatusReq_Validate K r =
     (if ups_presetName r = [] then Inl (Plain ''the preset name cannot be empty'')
      else if ups_provider r \<noteq> [] \<and> \<not> isProviderSupported K (ups_provider r) then Inl (Plain ''invalid provider name'')
      else Inr ())"

record listProviderPresetsReq = listPresetsReq +
  lpv_providerName :: string
  lpv_datacenter :: string

definition matchesDatacenter :: "'a listProviderPresetsReq_scheme \<Rightarrow> string \<Rightarrow> bool" where
  "matchesDatacenter l datacenter \<longleftrightarrow>
     datacenter = [] \<or> lpv_datacenter l = [] \<or> EqualFold (lpv_datacenter l) datacenter"

definition listProviderPresetsReq_Validate :: "preset_sdk \<Rightarrow> 'a listProviderPresetsReq_scheme \<Rightarrow> unit result" where
  "listProviderPresetsReq_Validate K l =
     (if lpv_providerName l = [] then Inl (Plain ''the provider name cannot be empty'')
      else if \<not> isProviderSupported K (lpv_providerName l) then Inl (Plain ''invalid provider name'')
      else Inr ())"

definition DecodeListProviderPresets :: "http_request \<Rightarrow> listProviderPresetsReq result" where
  "DecodeListProviderPresets r =
     (case DecodeListPresets r of
        Inl err \<Rightarrow> Inl err
      | Inr listReq \<Rightarrow> Inr (listPresetsReq.extend listReq
          (listProviderPresetsReq.fields (mux_var r ''provider_name'') (rq_query r ''datacenter''))))"

record listProjectProviderPresetsReq = listProviderPresetsReq +
  lpq_projectID :: string

definition DecodeListProjectProviderPresets :: "http_request \<Rightarrow> listProjectProviderPresetsReq result" where
  "DecodeListProjectProviderPresets r =
     (case DecodeListProviderPresets r of
        Inl err \<Rightarrow> Inl err
      | Inr listReq \<Rightarrow>
          (case DecodeProjectRequest r of
             Inl err \<Rightarrow> Inl err
           | Inr projectReq \<Rightarrow> Inr (listProviderPresetsReq.extend listReq (listProjectProviderPresetsReq.fields (req_projectID projectReq)))))"

record createPresetReq =
  cpr_providerName :: string
  cpr_body :: PresetBody

definition createPresetReq_Validate :: "preset_sdk \<Rightarrow> createPresetReq \<Rightarrow> unit result" where
  "createPresetReq_Validate K r =
     (let preset = convertAPIToInternalPreset (cpr_body r) in
      if cpr_providerName r = [] then Inl (Plain ''the provider name cannot be empty'')
      else if \<not> isProviderSupported K (cpr_providerName r) then Inl (Plain ''invalid provider name'')
      else if pbd_name (cpr_body r) = [] then Inl (Plain ''preset name cannot be empty'')
      else if \<not> PresetHasProvider preset (cpr_providerName r) then Inl (Plain ''missing provider configuration'')
      else (case ValidatePreset K preset (cpr_providerName r) of
          Inl err \<Rightarrow> Inl err
        | Inr _ \<Rightarrow>
            if list_ex (\<lambda>providerType. providerType \<noteq> cpr_providerName r \<and> PresetHasProvider preset providerType)
                 (supportedProviders K)
            then Inl (Plain ''found unexpected provider configuration'')
            else Inr ()))"

definition DecodeCreatePreset :: "http_request \<Rightarrow> PresetBody result \<Rightarrow> createPresetReq result" where
  "DecodeCreatePreset r body =
     (case body of Inl err \<Rightarrow> Inl err
      | Inr b \<Rightarrow> Inr \<lparr>cpr_providerName = mux_var r ''provider_name'', cpr_body = b\<rparr>)"

record deletePresetReq =
  dpr_presetName :: string

definition deletePresetReq_Validate :: "deletePresetReq \<Rightarrow> unit result" where
  "deletePresetReq_Validate r = (if dpr_presetName r = [] then Inl (Plain ''preset name cannot be empty'') else Inr ())"

definition DecodeDeletePreset :: "http_request \<Rightarrow> deletePresetReq result" where
  "DecodeDeletePreset r = Inr \<lparr>dpr_presetName = mux_var r ''preset_name''\<rparr>"

record deletePresetProviderReq =
  dpp_presetName :: string
  dpp_providerName :: string

definition DecodeDeletePresetProvider :: "http_request \<Rightarrow> deletePresetProviderReq result" where
  "DecodeDeletePresetProvider r =
     Inr \<lparr>dpp_presetName = mux_var r ''preset_name'', dpp_providerName = mux_var r ''provider_name''\<rparr>"

definition deletePresetProviderReq_Validate :: "preset_sdk \<Rightarrow> deletePresetProviderReq \<Rightarrow> unit result" where
  "deletePresetProviderReq_Validate K r =
     (if dpp_presetName r = [] then Inl (Plain ''the preset name cannot be empty'')
      else if dpp_providerName r = [] then Inl (Plain ''the provider name cannot be empty'')
      else if \<not> isProviderSupported K (dpp_providerName r) then Inl (Plain ''invalid provider name'')
      else Inr ())"

definition deleteProviderPresetReq_Validate :: "preset_sdk \<Rightarrow> deletePresetProviderReq \<Rightarrow> unit result" where
  "deleteProviderPresetReq_Validate K r =
     (if dpp_providerName r = [] then Inl (Plain ''the provider name cannot be empty'')
      else if \<not> isProviderSupported K (dpp_providerName r) then Inl (Plain ''invalid provider name'')
      else if dpp_presetName r = [] then Inl (Plain ''preset name cannot be empty'')
      else Inr ())"

section \<open>Listing\<close>

text \<open>The request is validated, then the caller is looked up; a failing validation is a bad request.\<close>

definition validA :: "unit result \<Rightarrow> ('s, unit) act" where
  "validA v = (case v of Inl _ \<Rightarrow> failA UtilBadRequest | Inr _ \<Rightarrow> retA ())"

definition list_entry :: "preset_sdk \<Rightarrow> bool \<Rightarrow> preset \<Rightarrow> apiPreset list" where
  "list_entry K disabled preset =
     (let enabled = spec_IsEnabled K (pre_spec preset) in
      if \<not> enabled \<and> \<not> disabled then [] else [newAPIPreset K preset enabled])"

definition ListPresets ::
  "preset_sdk \<Rightarrow> 's PresetProvider \<Rightarrow> 's UserInfoGetter \<Rightarrow> 'a listPresetsReq_scheme \<Rightarrow> ('s, preset_answer) act" where
  "ListPresets K presetProvider userInfoGetter req =
     bindA (httpA (userInfoGetter [])) (\<lambda>userInfo.
     bindA (wrapA (\<lambda>_. HTTPError 500) (prp_GetPresets presetProvider userInfo None)) (\<lambda>presets.
       retA (PresetList (concat (map (list_entry K (lpr_disabled req))
         (filter (\<lambda>preset. \<not> (ps_projects (pre_spec preset) \<noteq> [] \<and> \<not> ui_isAdmin userInfo)) presets))))))"

definition ListProjectPresets ::
  "preset_sdk \<Rightarrow> 's PresetProvider \<Rightarrow> 's UserInfoGetter \<Rightarrow> listProjectPresetsReq \<Rightarrow> ('s, preset_answer) act" where
  "ListProjectPresets K presetProvider userInfoGetter req =
     bindA (httpA (userInfoGetter (lpp_projectID req))) (\<lambda>userInfo.
       if lpr_name req \<noteq> [] then
         bindA (httpA (prp_GetPreset presetProvider userInfo (Some (lpp_projectID req)) (lpr_name req))) (\<lambda>preset.
           if \<not> spec_IsEnabled K (pre_spec preset) \<and> \<not> lpr_disabled req then retA NoPreset
           else retA (ApiPreset (newAPIPreset K preset (spec_IsEnabled K (pre_spec preset)))))
       else
         bindA (httpA (prp_GetPresets presetProvider userInfo (Some (lpp_projectID req)))) (\<lambda>presets.
           retA (PresetList (concat (map (list_entry K (lpr_disabled req)) presets)))))"

definition provider_list_entry :: "preset_sdk \<Rightarrow> 'a listProviderPresetsReq_scheme \<Rightarrow> preset \<Rightarrow> apiPreset list" where
  "provider_list_entry K req preset =
     (case GetProviderPreset preset (lpv_providerName req) of
        None \<Rightarrow> []
      | Some providerPreset \<Rightarrow>
          if \<not> matchesDatacenter req (pv_datacenter providerPreset) then []
          else
            let enabled = spec_IsEnabled K (pre_spec preset) \<and> providerPreset_IsEnabled K providerPreset in
            if \<not> lpr_disabled req \<and> \<not> enabled then [] else [newAPIPreset K preset enabled])"

definition ListProviderPresets ::
  "preset_sdk \<Rightarrow> 's PresetProvider \<Rightarrow> 's UserInfoGetter \<Rightarrow> 'a listProviderPresetsReq_scheme \<Rightarrow> ('s, preset_answer) act" where
  "ListProviderPresets K presetProvider userInfoGetter req =
     bindA (validA (listProviderPresetsReq_Validate K req)) (\<lambda>_.
     bindA (httpA (userInfoGetter [])) (\<lambda>userInfo.
     bindA (wrapA (\<lambda>_. HTTPError 500) (prp_GetPresets presetProvider userInfo None)) (\<lambda>presets.
       retA (PresetList (concat (map (provider_list_entry K req)
         (filter (\<lambda>preset. \<not> (ps_projects (pre_spec preset) \<noteq> [] \<and> \<not> ui_isAdmin userInfo)) presets)))))))"

definition ListProjectProviderPresets ::
  "preset_sdk \<Rightarrow> 's PresetProvider \<Rightarrow> 's UserInfoGetter \<Rightarrow> listProjectProviderPresetsReq \<Rightarrow> ('s, preset_answer) act" where
  "ListProjectProviderPresets K presetProvider userInfoGetter req =
     bindA (validA (listProviderPresetsReq_Validate K req)) (\<lambda>_.
     bindA (httpA (userInfoGetter (lpq_projectID req))) (\<lambda>userInfo.
     bindA (wrapA (\<lambda>_. HTTPError 500) (prp_GetPresets presetProvider userInfo (Some (lpq_projectID req)))) (\<lambda>presets.
       retA (PresetList (concat (map (provider_list_entry K req) presets))))))"

section \<open>Changing\<close>

definition adminA :: "'s UserInfoGetter \<Rightarrow> ('s, UserInfo) act" where
  "adminA userInfoGetter =
     bindA (httpA (userInfoGetter [])) (\<lambda>userInfo.
       if \<not> ui_isAdmin userInfo then failA (HTTPError 403) else retA userInfo)"

definition UpdatePresetStatus ::
  "preset_sdk \<Rightarrow> 's PresetProvider \<Rightarrow> 's UserInfoGetter \<Rightarrow> updatePresetStatusReq \<Rightarrow> ('s, preset_answer) act" where
  "UpdatePresetStatus K presetProvider userInfoGetter req =
     bindA (validA (updatePresetStatusReq_Validate K req)) (\<lambda>_.
     bindA (adminA userInfoGetter) (\<lambda>userInfo.
     bindA (httpA (prp_GetPreset presetProvider userInfo None (ups_presetName req))) (\<lambda>preset.
       if ups_provider req = [] then
         bindA (prp_UpdatePreset presetProvider (preset\<lparr>pre_spec := spec_SetEnabled K (ups_enabled req) (pre_spec preset)\<rparr>)) (\<lambda>_.
           retA NoPreset)
       else if \<not> PresetHasProvider preset (ups_provider req) then failA (HTTPError 409)
       else
         bindA (liftA (SetPresetProviderEnabled preset (ups_provider req) (ups_enabled req))) (\<lambda>preset.
         bindA (prp_UpdatePreset presetProvider preset) (\<lambda>_.
           retA NoPreset)))))"

text \<open>The end of creating and updating: the stored preset and whether the provider is enabled.\<close>

definition store_preset :: "preset_sdk \<Rightarrow> 's PresetProvider \<Rightarrow> string \<Rightarrow> preset result \<Rightarrow> ('s, preset_answer) act" where
  "store_preset K presetProvider providerName merged =
     bindA (liftA merged) (\<lambda>preset.
     bindA (prp_UpdatePreset presetProvider preset) (\<lambda>preset.
       let enabled = spec_IsEnabled K (pre_spec preset) \<and> IsPresetProviderEnabled K preset providerName
       in retA (ApiPreset (newAPIPreset K preset enabled))))"

definition CreatePreset ::
  "preset_sdk \<Rightarrow> 's PresetProvider \<Rightarrow> 's UserInfoGetter \<Rightarrow> createPresetReq \<Rightarrow> ('s, preset_answer) act" where
  "CreatePreset K presetProvider userInfoGetter req =
     bindA (validA (createPresetReq_Validate K req)) (\<lambda>_.
     bindA (adminA userInfoGetter) (\<lambda>userInfo.
       tryA (prp_GetPreset presetProvider userInfo None (pbd_name (cpr_body req))) (\<lambda>res. case res of
         Inl err \<Rightarrow>
           if IsNotFound err then
             bindA (prp_CreatePreset presetProvider (convertAPIToInternalPreset (cpr_body req))) (\<lambda>preset.
               retA (StoredPreset preset))
           else failA err
       | Inr preset \<Rightarrow>
           if PresetHasProvider preset (cpr_providerName req) then failA (HTTPError 409)
           else store_preset K presetProvider (cpr_providerName req)
                  (mergePresets preset (convertAPIToInternalPreset (cpr_body req)) (cpr_providerName req)))))"

definition UpdatePreset ::
  "preset_sdk \<Rightarrow> 's PresetProvider \<Rightarrow> 's UserInfoGetter \<Rightarrow> createPresetReq \<Rightarrow> ('s, preset_answer) act" where
  "UpdatePreset K presetProvider userInfoGetter req =
     bindA (validA (createPresetReq_Validate K req)) (\<lambda>_.
     bindA (adminA userInfoGetter) (\<lambda>userInfo.
     bindA (httpA (prp_GetPreset presetProvider userInfo None (pbd_name (cpr_body req)))) (\<lambda>preset.
       store_preset K presetProvider (cpr_providerName req)
         (mergePresets preset (convertAPIToInternalPreset (cpr_body req)) (cpr_providerName req)))))"

definition DeletePreset ::
  "'s PresetProvider \<Rightarrow> 's UserInfoGetter \<Rightarrow> deletePresetReq \<Rightarrow> ('s, preset_answer) act" where
  "DeletePreset presetProvider userInfoGetter req =
     bindA (validA (deletePresetReq_Validate req)) (\<lambda>_.
     bindA (adminA userInfoGetter) (\<lambda>userInfo.
     bindA (wrapA (\<lambda>err. if IsNotFound err then UtilNotFound else err)
              (prp_GetPreset presetProvider userInfo None (dpr_presetName req))) (\<lambda>preset.
     bindA (prp_DeletePreset presetProvider preset) (\<lambda>_.
       retA NoPreset))))"

definition DeletePresetProvider ::
  "preset_sdk \<Rightarrow> 's PresetProvider \<Rightarrow> 's UserInfoGetter \<Rightarrow> deletePresetProviderReq \<Rightarrow> ('s, preset_answer) act" where
  "DeletePresetProvider K presetProvider userInfoGetter req =
     bindA (validA (deletePresetProviderReq_Validate K req)) (\<lambda>_.
     bindA (adminA userInfoGetter) (\<lambda>userInfo.
     bindA (wrapA (\<lambda>err. if IsNotFound err then UtilNotFound else HTTPError 500)
              (prp_GetPreset presetProvider userInfo None (dpp_presetName req))) (\<lambda>preset.
       if \<not> PresetHasProvider preset (dpp_providerName req) then failA UtilNotFound
       else
         bindA (liftA (RemovePresetProvider preset (dpp_providerName req))) (\<lambda>preset.
         bindA (prp_UpdatePreset presetProvider preset) (\<lambda>updated.
           retA (StoredPreset updated))))))"

definition DeleteProviderPreset ::
  "preset_sdk \<Rightarrow> 's PresetProvider \<Rightarrow> 's UserInfoGetter \<Rightarrow> deletePresetProviderReq \<Rightarrow> ('s, preset_answer) act" where
  "DeleteProviderPreset K presetProvider userInfoGetter req =
     bindA (validA (deleteProviderPresetReq_Validate K req)) (\<lambda>_.
     bindA (adminA userInfoGetter) (\<lambda>userInfo.
     bindA (wrapA (\<lambda>err. if IsNotFound err then UtilBadRequest else err)
              (prp_GetPreset presetProvider userInfo None (dpp_presetName req))) (\<lambda>preset.
     bindA (liftA (RemovePresetProvider preset (dpp_providerName req))) (\<lambda>preset.
     bindA (if GetPresetProviderList K preset \<noteq> [] then prp_UpdatePreset presetProvider preset
            else prp_DeletePreset presetProvider preset) (\<lambda>preset.
       retA (ApiPreset (newAPIPreset K preset (spec_IsEnabled K (pre_spec preset)))))))))"

section \<open>Statistics\<close>

record template = objmeta +
  tm_providerName :: "string result"

record 's ClusterTemplateProvider =
  ctp_ListALL :: "selector \<Rightarrow> ('s, template list) act"

definition uses_preset :: "preset_sdk \<Rightarrow> preset \<Rightarrow> 'a objmeta_scheme \<Rightarrow> bool" where
  "uses_preset K preset obj \<longleftrightarrow> mget (om_annotations obj) (presetNameAnnotation K) = om_name preset \<and> om_annotations obj \<noteq> []"

definition GetPresetStats ::
  "'x sdk_scheme \<Rightarrow> preset_sdk \<Rightarrow> 's PresetProvider \<Rightarrow> 's UserInfoGetter \<Rightarrow> 's ClusterProviderGetter \<Rightarrow> 's SeedsGetter \<Rightarrow>
     's ClusterTemplateProvider \<Rightarrow> deletePresetReq \<Rightarrow> ('s, PresetStats) act" where
  "GetPresetStats E K presetProvider userInfoGetter clusterProviderGetter seedsGetter clusterTemplateProvider req =
     bindA (validA (deletePresetReq_Validate req)) (\<lambda>_.
     bindA (httpA (userInfoGetter [])) (\<lambda>userInfo.
     bindA (wrapA (\<lambda>err. if IsNotFound err then UtilBadRequest else KubernetesErrorToHTTPError err)
              (prp_GetPreset presetProvider userInfo None (dpr_presetName req))) (\<lambda>preset.
     bindA (wrapA (\<lambda>_. HTTPError 500) seedsGetter) (\<lambda>seeds.
     bindA (httpA (liftA (newRequirement E (isCredentialPresetLabelKey E) ''true''))) (\<lambda>requirement.
     bindA (range_seeds clusterProviderGetter (\<lambda>clusterProvider n.
              bindA (httpA (cp_ListAll clusterProvider requirement)) (\<lambda>clusters.
                retA (n + length (filter (uses_preset K preset) clusters)))) seeds 0) (\<lambda>associatedClusters.
     bindA (httpA (ctp_ListALL clusterTemplateProvider requirement)) (\<lambda>templates.
       retA \<lparr>pst_clusters = associatedClusters, pst_templates = length (filter (uses_preset K preset) templates)\<rparr>)))))))"

definition getProjectName :: "project result \<Rightarrow> string" where
  "getProjectName r = (case r of Inl _ \<Rightarrow> [] | Inr project \<Rightarrow> pr_name project)"

text \<open>The entry of one object: its project's name, empty when there is none or it cannot be read, and its provider.\<close>

definition association ::
  "'x sdk_scheme \<Rightarrow> 's PrivilegedProjectProvider \<Rightarrow> 'a objmeta_scheme \<Rightarrow> string \<Rightarrow> string result \<Rightarrow> ('s, Association) act" where
  "association E projectProvider obj name provider =
     (let projectID = mget (om_labels obj) (projectIDLabelKey E) in
      bindA (if projectID \<noteq> []
             then tryA (ppp_GetUnsecured projectProvider projectID None) (\<lambda>r. retA (getProjectName r))
             else retA []) (\<lambda>projectName.
        retA \<lparr>asc_id = om_name obj, asc_name = name, asc_projectID = projectID, asc_projectName = projectName,
              asc_provider = (case provider of Inl _ \<Rightarrow> ''unknown'' | Inr p \<Rightarrow> p)\<rparr>))"

definition GetPresetLinkages ::
  "'x sdk_scheme \<Rightarrow> preset_sdk \<Rightarrow> 's PresetProvider \<Rightarrow> 's UserInfoGetter \<Rightarrow> 's ClusterProviderGetter \<Rightarrow> 's SeedsGetter \<Rightarrow>
     's ClusterTemplateProvider \<Rightarrow> 's PrivilegedProjectProvider \<Rightarrow> deletePresetReq \<Rightarrow> ('s, PresetLinkages) act" where
  "GetPresetLinkages E K presetProvider userInfoGetter clusterProviderGetter seedsGetter clusterTemplateProvider projectProvider req =
     bindA (validA (deletePresetReq_Validate req)) (\<lambda>_.
     bindA (adminA userInfoGetter) (\<lambda>userInfo.
     bindA (wrapA (\<lambda>err. if IsNotFound err then UtilBadRequest else KubernetesErrorToHTTPError err)
              (prp_GetPreset presetProvider userInfo None (dpr_presetName req))) (\<lambda>preset.
     bindA (wrapA (\<lambda>_. HTTPError 500) seedsGetter) (\<lambda>seeds.
     bindA (httpA (liftA (newRequirement E (isCredentialPresetLabelKey E) ''true''))) (\<lambda>requirement.
     bindA (range_seeds clusterProviderGetter (\<lambda>clusterProvider acc.
              tryA (cp_ListAll clusterProvider requirement) (\<lambda>r. case r of
                Inl _ \<Rightarrow> retA acc
              | Inr clusters \<Rightarrow>
                  foldA (\<lambda>cluster acc.
                    bindA (association E projectProvider cluster (cl_humanReadableName (cl_spec cluster)) (cl_providerName (cl_cloud (cl_spec cluster)))) (\<lambda>a.
                      retA (acc @ [a]))) (filter (uses_preset K preset) clusters) acc)) seeds []) (\<lambda>clusters.
     bindA (httpA (ctp_ListALL clusterTemplateProvider requirement)) (\<lambda>templates.
     bindA (foldA (\<lambda>template acc.
              bindA (association E projectProvider template (mget (om_labels template) (templateNameLabelKey K)) (tm_providerName template)) (\<lambda>a.
                retA (acc @ [a]))) (filter (uses_preset K preset) templates) []) (\<lambda>templateAssociations.
       retA \<lparr>plk_presetName = om_name preset, plk_clusters = clusters, plk_templates = templateAssociations\<rparr>))))))))"

section \<open>The older list of names\<close>

definition providerNames :: "string list" where
  "providerNames = [''digitalocean'', ''hetzner'', ''azure'', ''vsphere'', ''baremetal'', ''aws'', ''openstack'', ''gcp'',
     ''kubevirt'', ''alibaba'', ''anexia'', ''nutanix'', ''vmwareclouddirector'']"

record providerReq =
  prq_providerName :: string
  prq_datacenter :: string

definition DecodeProviderReq :: "http_request \<Rightarrow> providerReq result" where
  "DecodeProviderReq r = Inr \<lparr>prq_providerName = mux_var r ''provider_name'', prq_datacenter = rq_query r ''datacenter''\<rparr>"

definition providerReq_Validate :: "providerReq \<Rightarrow> unit result" where
  "providerReq_Validate r =
     (if prq_providerName r = [] then Inl (Plain ''the provider name cannot be empty'')
      else if prq_providerName r \<in> set providerNames then Inr ()
      else Inl (Plain ''invalid provider name''))"

definition switch_field :: "string \<Rightarrow> pfield option" where
  "switch_field name = map_of (zip providerNames
     [FDigitalocean, FHetzner, FAzure, FVSphere, FBaremetal, FAWS, FOpenstack, FGCP, FKubevirt, FAlibaba, FAnexia,
      FNutanix, FVMwareCloudDirector]) name"

definition credential_match :: "providerReq \<Rightarrow> preset \<Rightarrow> bool" where
  "credential_match req preset =
     (case switch_field (prq_providerName req) of
        None \<Rightarrow> False
      | Some f \<Rightarrow>
          (case field_base f (pre_spec preset) of
             None \<Rightarrow> False
           | Some base \<Rightarrow> pv_datacenter base = prq_datacenter req \<or> pv_datacenter base = []))"

definition CredentialEndpoint ::
  "'s PresetProvider \<Rightarrow> 's UserInfoGetter \<Rightarrow> providerReq \<Rightarrow> ('s, string list) act" where
  "CredentialEndpoint presetProvider userInfoGetter req =
     bindA (validA (providerReq_Validate req)) (\<lambda>_.
     bindA (httpA (userInfoGetter [])) (\<lambda>userInfo.
     bindA (wrapA (\<lambda>_. HTTPError 500) (prp_GetPresets presetProvider userInfo (Some []))) (\<lambda>presets.
       retA (map om_name (filter (credential_match req) presets)))))"

end
