(* ===== verification/Preset_Properties.thy ===== *)
theory Preset_Properties
  imports Preset_Handlers Access_Control Mem_Extend
begin

text \<open>
  What holds of presets: who sees which, where the credentials of a cluster come from, who changes presets
  and what a change touches.
\<close>

section \<open>Visibility\<close>

text \<open>The presets a caller may use, in a project or (with no project given) anywhere.\<close>

definition visible :: "preset_sdk \<Rightarrow> UserInfo \<Rightarrow> string option \<Rightarrow> preset \<Rightarrow> bool" where
  "visible K i pid p \<longleftrightarrow>
     (pid = None \<or> ps_projects (pre_spec p) = [] \<or> the pid \<in> set (ps_projects (pre_spec p))) \<and>
     (matchesRequirements K (ui_email i) (ps_requiredEmails (pre_spec p)) = Inr True \<or> ui_isAdmin i)"

lemma filter_project_iff:
  "filter_project pid p \<longleftrightarrow> pid = None \<or> ps_projects (pre_spec p) = [] \<or> the pid \<in> set (ps_projects (pre_spec p))"
  by (auto simp: filter_project_def list_ex_iff split: option.split)

lemma filterOutPresets_Inr: "filterOutPresets K i pid ps = Inr out \<Longrightarrow> out = filter (visible K i pid) ps"
  by (induction ps arbitrary: out)
    (auto simp: visible_def filter_project_iff Let_def split: sum.splits if_splits)

lemma reads_GetPresets [reads_intros]: "reads (GetPresets K c i pid)"
  unfolding GetPresets_def by (intro reads_intros)

lemma reads_GetPreset [reads_intros]: "reads (GetPreset K c i pid n)"
  unfolding GetPreset_def by (intro reads_intros)

lemma GetPresets_InrD:
  assumes "list_ok P c" and "GetPresets K c i pid s = (Inr ps, t)"
  shows "ps = filter (visible K i pid) (P s)"
  using assms filterOutPresets_Inr by (auto simp: GetPresets_def bindA_eq_Inr wrapA_eq_Inr)

lemma GetPreset_InrD:
  assumes "list_ok P c" and "GetPreset K c i pid n s = (Inr p, t)"
  shows "t = s" and "p \<in> set (P s)" and "visible K i pid p" and "om_name p = n"
proof -
  show "t = s" using readsD[OF reads_GetPreset assms(2)] .
  from assms(2) obtain ps u where ps: "GetPresets K c i pid s = (Inr ps, u)"
    and f: "List.find (\<lambda>preset. om_name preset = n) ps = Some p"
    by (auto simp: GetPreset_def bindA_eq_Inr split: option.splits)
  from GetPresets_InrD[OF assms(1) ps] find_SomeD[OF f]
  show "p \<in> set (P s)" and "visible K i pid p" and "om_name p = n" by auto
qed

section \<open>Credentials\<close>

text \<open>The provider of a cloud specification is the first one it has, in the order of the code.\<close>

definition cloud_field :: "CloudSpec \<Rightarrow> pfield option" where
  "cloud_field c = map_option snd (List.find (\<lambda>(set, _). set)
     [(cl_vsphere c \<noteq> None, FVSphere), (cl_baremetal c \<noteq> None, FBaremetal), (cl_openstack c \<noteq> None, FOpenstack),
      (cl_azure c \<noteq> None, FAzure), (cl_digitalocean c \<noteq> None, FDigitalocean), (cl_hetzner c \<noteq> None, FHetzner),
      (cl_aws c \<noteq> None, FAWS), (cl_gcp c \<noteq> None, FGCP), (cl_fake c \<noteq> None, FFake), (cl_kubevirt c \<noteq> None, FKubevirt),
      (cl_alibaba c \<noteq> None, FAlibaba), (cl_anexia c \<noteq> None, FAnexia), (cl_nutanix c \<noteq> None, FNutanix),
      (cl_vmwareCloudDirector c \<noteq> None, FVMwareCloudDirector)])"

text \<open>A specification without the part of one provider.\<close>

fun erase :: "pfield \<Rightarrow> CloudSpec \<Rightarrow> CloudSpec" where
  "erase FVSphere c = c\<lparr>cl_vsphere := None\<rparr>"
| "erase FBaremetal c = c\<lparr>cl_baremetal := None\<rparr>"
| "erase FOpenstack c = c\<lparr>cl_openstack := None\<rparr>"
| "erase FAzure c = c\<lparr>cl_azure := None\<rparr>"
| "erase FDigitalocean c = c\<lparr>cl_digitalocean := None\<rparr>"
| "erase FHetzner c = c\<lparr>cl_hetzner := None\<rparr>"
| "erase FAWS c = c\<lparr>cl_aws := None\<rparr>"
| "erase FGCP c = c\<lparr>cl_gcp := None\<rparr>"
| "erase FFake c = c\<lparr>cl_fake := None\<rparr>"
| "erase FKubevirt c = c\<lparr>cl_kubevirt := None\<rparr>"
| "erase FAlibaba c = c\<lparr>cl_alibaba := None\<rparr>"
| "erase FAnexia c = c\<lparr>cl_anexia := None\<rparr>"
| "erase FNutanix c = c\<lparr>cl_nutanix := None\<rparr>"
| "erase FVMwareCloudDirector c = c\<lparr>cl_vmwareCloudDirector := None\<rparr>"
| "erase _ c = c"

lemmas set_credentials_defs = setVsphereCredentials_def setBaremetalCredentials_def setOpenStackCredentials_def
  setAzureCredentials_def setDigitalOceanCredentials_def setHetznerCredentials_def setAWSCredentials_def
  setGCPCredentials_def setFakeCredentials_def setKubevirtCredentials_def setAlibabaCredentials_def
  setAnexiaCredentials_def setNutanixCredentials_def setVMwareCloudDirectorCredentials_def

definition only_at :: "pfield \<Rightarrow> preset_spec \<Rightarrow> CloudSpec \<Rightarrow> CloudSpec result \<Rightarrow> bool" where
  "only_at f spec cloud r \<longleftrightarrow> (\<forall>out. r = Inr out \<longrightarrow> field_base f spec \<noteq> None \<and> erase f out = erase f cloud)"

lemma set_credentials_only:
  "only_at FVSphere spec cloud (setVsphereCredentials spec cloud c1 dc)"
  "only_at FBaremetal spec cloud (setBaremetalCredentials spec cloud c2)"
  "only_at FOpenstack spec cloud (setOpenStackCredentials spec cloud c3 dc)"
  "only_at FAzure spec cloud (setAzureCredentials spec cloud c4)"
  "only_at FDigitalocean spec cloud (setDigitalOceanCredentials spec cloud c5)"
  "only_at FHetzner spec cloud (setHetznerCredentials spec cloud c6)"
  "only_at FAWS spec cloud (setAWSCredentials spec cloud c7)"
  "only_at FGCP spec cloud (setGCPCredentials spec cloud c8)"
  "only_at FFake spec cloud (setFakeCredentials spec cloud c9)"
  "only_at FKubevirt spec cloud (setKubevirtCredentials spec cloud c10)"
  "only_at FAlibaba spec cloud (setAlibabaCredentials spec cloud c11)"
  "only_at FAnexia spec cloud (setAnexiaCredentials spec cloud c12)"
  "only_at FNutanix spec cloud (setNutanixCredentials spec cloud c13)"
  "only_at FVMwareCloudDirector spec cloud (setVMwareCloudDirectorCredentials spec cloud c14)"
  by (auto simp: only_at_def set_credentials_defs Let_def split: option.splits if_splits)

text \<open>\<open>picks\<close> walks down the chain of providers and the list of their fields together.\<close>

definition picks :: "preset_spec \<Rightarrow> CloudSpec \<Rightarrow> (bool \<times> pfield) list \<Rightarrow> CloudSpec result \<Rightarrow> bool" where
  "picks spec cloud L r \<longleftrightarrow>
     (\<forall>out. r = Inr out \<longrightarrow> (\<exists>f. map_option snd (List.find (\<lambda>(set, _). set) L) = Some f \<and> only_at f spec cloud r))"

lemma picks_end: "picks spec cloud [] (Inl e)"
  by (simp add: picks_def)

lemma picks_step:
  assumes "\<And>c. only_at f spec cloud (body c)" and "picks spec cloud L rest"
  shows "picks spec cloud ((x \<noteq> None, f) # L) (when_set x body rest)"
  using assms(2) assms(1)[of "the x"] by (cases x) (auto simp: picks_def when_set_def)

lemma preset_credentials_only:
  assumes "preset_credentials spec cloud dc = Inr out"
  shows "\<exists>f. cloud_field cloud = Some f \<and> field_base f spec \<noteq> None \<and> erase f out = erase f cloud"
proof -
  have "\<exists>L. picks spec cloud L (preset_credentials spec cloud dc) \<and> cloud_field cloud = map_option snd (List.find (\<lambda>(set, _). set) L)"
    unfolding preset_credentials_def cloud_field_def
    by (rule exI, rule conjI, (rule picks_step, rule set_credentials_only)+, rule picks_end, rule refl)
  with assms show ?thesis unfolding picks_def only_at_def by auto
qed

text \<open>
  C20: the credentials of a cluster come from a preset its creator may use. Listing the presets of a project
  returns exactly those that are not bound to other projects and whose requirement on the email address the
  caller meets, or all of them if he is an administrator. If credentials are set on a cloud specification, then
  the named preset is among those he may use in this very project and has a configuration of the provider of
  the specification, and nothing but the part of this provider changes.
\<close>

theorem credentials_from_visible_preset:
  assumes "list_ok P client"
  shows "(GetPresets K client i pid s = (Inr ps, t) \<longrightarrow> t = s \<and> ps = filter (visible K i pid) (P s)) \<and>
    (SetCloudCredentials K client i project name cloud dc s = (Inr out, t) \<longrightarrow>
       t = s \<and> (\<exists>p f. p \<in> set (P s) \<and> om_name p = name \<and> visible K i (Some project) p \<and>
         preset_credentials (pre_spec p) cloud dc = Inr out \<and> cloud_field cloud = Some f \<and>
         field_base f (pre_spec p) \<noteq> None \<and> erase f out = erase f cloud))"
proof (intro conjI impI)
  assume run: "GetPresets K client i pid s = (Inr ps, t)"
  then show "t = s" by (rule readsD[OF reads_GetPresets])
  show "ps = filter (visible K i pid) (P s)" by (rule GetPresets_InrD[OF assms run])
next
  assume "SetCloudCredentials K client i project name cloud dc s = (Inr out, t)"
  then obtain p where p: "GetPreset K client i (Some project) name s = (Inr p, t)"
    and c: "preset_credentials (pre_spec p) cloud dc = Inr out"
    by (auto simp: SetCloudCredentials_def bindA_eq_Inr)
  show "t = s" by (rule GetPreset_InrD(1)[OF assms p])
  show "\<exists>p f. p \<in> set (P s) \<and> om_name p = name \<and> visible K i (Some project) p \<and>
         preset_credentials (pre_spec p) cloud dc = Inr out \<and> cloud_field cloud = Some f \<and>
         field_base f (pre_spec p) \<noteq> None \<and> erase f out = erase f cloud"
    using GetPreset_InrD(2-4)[OF assms p] preset_credentials_only[OF c] c by blast
qed

section \<open>Changes\<close>

lemma adminA_denied: "\<not> us_isAdmin u \<Longrightarrow> isl (fst (adminA (kube_getter E u) s)) \<and> snd (adminA (kube_getter E u) s) = s"
proof -
  assume u: "\<not> us_isAdmin u"
  obtain r where r: "kube_getter E u [] s = (r, s)" by (rule readsE[OF me.getter_reads])
  have "ui_isAdmin i = us_isAdmin u" if "r = Inr i" for i
    by (rule me.getter_admin[OF r[unfolded that]])
  then show ?thesis using u r by (cases r) (auto simp: adminA_def)
qed

lemma validA_run: "validA v s = (case v of Inl _ \<Rightarrow> (Inl UtilBadRequest, s) | Inr _ \<Rightarrow> (Inr (), s))"
  by (simp add: validA_def split: sum.split)

lemma admin_guard:
  assumes "\<not> us_isAdmin u"
  shows "isl (fst (bindA (validA v) (\<lambda>_. bindA (adminA (kube_getter E u)) k) s)) \<and>
    snd (bindA (validA v) (\<lambda>_. bindA (adminA (kube_getter E u)) k) s) = s"
proof -
  obtain e where "adminA (kube_getter E u) s = (Inl e, s)"
    using adminA_denied[OF assms, of E s] by (metis isl_def prod.collapse)
  then show ?thesis by (cases v) (simp_all add: validA_run bindA_def)
qed

text \<open>Two specifications have the same configuration at a field.\<close>

definition same_at :: "pfield \<Rightarrow> preset_spec \<Rightarrow> preset_spec \<Rightarrow> bool" where
  "same_at g a b \<longleftrightarrow> field_copy g a b = b"

lemma field_copy_other: "f \<noteq> g \<Longrightarrow> same_at g (field_copy f src dest) dest"
  by (cases f; cases g) (simp_all add: same_at_def)

lemma field_copy_same: "same_at f (field_copy f src dest) src"
  by (cases f) (simp_all add: same_at_def)

text \<open>What the provider of presets does, as far as changes are concerned.\<close>

definition presets_ok :: "('s \<Rightarrow> preset list) \<Rightarrow> (preset, 's) kclient \<Rightarrow> bool" where
  "presets_ok P c \<longleftrightarrow> list_ok P c \<and> create_ok P c \<and> update_ok P c \<and> delete_ok P c"

text \<open>
  A change of one preset: the one with the same key is replaced by one that the server answered for \<open>p\<close>; all
  others stay.
\<close>

definition replaced :: "preset \<Rightarrow> preset list \<Rightarrow> preset list \<Rightarrow> bool" where
  "replaced p old new \<longleftrightarrow> (\<exists>p'. pre_spec p' = pre_spec p \<and> key_of p' = key_of p \<and>
     new = map (\<lambda>y. if key_of y = key_of p then p' else y) old)"

lemma same_preset: "same_object (a :: preset) b \<Longrightarrow> pre_spec a = pre_spec b \<and> key_of a = key_of b"
  by (cases a; cases b) (simp add: same_object_def)

lemma preset_Update_replaced:
  assumes "presets_ok P c" and "preset_Update c p s = (Inr p', t)"
  shows "replaced p (P s) (P t)" and "pre_spec p' = pre_spec p"
  using update_okD[of P c p s p' t] assms same_preset[of p' p]
  by (auto simp: presets_ok_def preset_Update_def replaced_def)

lemma mergePresets_spec:
  assumes "mergePresets old new providerType = Inr p"
  obtains f where "provider_field providerType = Some f" and "key_of p = key_of old"
    and "same_at f (pre_spec p) (pre_spec new)" and "\<forall>g. g \<noteq> f \<longrightarrow> same_at g (pre_spec p) (pre_spec old)"
    and "ps_requiredEmails (pre_spec p) = ps_requiredEmails (pre_spec new)"
    and "ps_projects (pre_spec p) = ps_projects (pre_spec old)" and "ps_enabled (pre_spec p) = ps_enabled (pre_spec old)"
proof -
  from assms obtain f where f: "provider_field providerType = Some f"
    and p: "p = old\<lparr>pre_spec := (field_copy f (pre_spec new) (pre_spec old))\<lparr>ps_requiredEmails := ps_requiredEmails (pre_spec new)\<rparr>\<rparr>"
    by (auto simp: mergePresets_def OverridePresetProvider_def split: option.splits)
  have emails: "same_at g (a\<lparr>ps_requiredEmails := e\<rparr>) b = same_at g a b" for g a b e
    by (cases g) (simp_all add: same_at_def)
  have keep: "ps_projects (field_copy f a b) = ps_projects b" "ps_enabled (field_copy f a b) = ps_enabled b" for a b
    by (cases f; simp)+
  show thesis
    by (rule that[OF f]) (simp_all add: p emails field_copy_other field_copy_same keep key_of_def)
qed

lemma UpdatePreset_InrD:
  assumes ok: "presets_ok P c" and run: "UpdatePreset K (NewPresetProvider K c) (kube_getter E u) req s = (Inr r, t)"
  obtains old p where "old \<in> set (P s)" and "om_name old = pbd_name (cpr_body req)"
    and "mergePresets old (convertAPIToInternalPreset (cpr_body req)) (cpr_providerName req) = Inr p" and "replaced p (P s) (P t)"
proof -
  have l: "list_ok P c" using ok by (simp add: presets_ok_def)
  have ra: "reads (adminA (kube_getter E u))" unfolding adminA_def by (intro reads_intros me.getter_reads)
  have rv: "reads (validA v)" for v unfolding validA_def by (intro reads_intros)
  from run obtain i old p p' t' where get: "GetPreset K c i None (pbd_name (cpr_body req)) s = (Inr old, s)"
    and m: "mergePresets old (convertAPIToInternalPreset (cpr_body req)) (cpr_providerName req) = Inr p"
    and up: "preset_Update c p s = (Inr p', t)"
    unfolding UpdatePreset_def store_preset_def NewPresetProvider_def
    by (auto simp: bind_reads[OF ra] bind_reads[OF rv] bind_reads[OF reads_wrapA[OF reads_GetPreset]] bind_reads[OF reads_liftA]
        wrapA_eq_Inr bindA_eq_Inr[where m = "preset_Update _ _"] Let_def)
  show thesis
    by (rule that[OF GetPreset_InrD(2,4)[OF l get] m preset_Update_replaced(1)[OF ok up]])
qed

text \<open>
  only administrators change presets, and an update changes what it names. For any other caller the six
  endpoints that change presets fail and leave everything as it was. When an administrator updates the
  configuration of a provider, exactly one preset is replaced, the one of that name; it takes the provider's
  configuration and the required emails from the request, and keeps its other providers, its projects and
  whether it is enabled.
\<close>

theorem preset_changes:
  assumes ok: "presets_ok P c"
  shows "(\<not> us_isAdmin u \<longrightarrow>
     (isl (fst (CreatePreset K pp (kube_getter E u) cr s)) \<and> snd (CreatePreset K pp (kube_getter E u) cr s) = s) \<and>
     (isl (fst (UpdatePreset K pp (kube_getter E u) cr s)) \<and> snd (UpdatePreset K pp (kube_getter E u) cr s) = s) \<and>
     (isl (fst (UpdatePresetStatus K pp (kube_getter E u) ur s)) \<and> snd (UpdatePresetStatus K pp (kube_getter E u) ur s) = s) \<and>
     (isl (fst (DeletePreset pp (kube_getter E u) dr s)) \<and> snd (DeletePreset pp (kube_getter E u) dr s) = s) \<and>
     (isl (fst (DeletePresetProvider K pp (kube_getter E u) pr s)) \<and> snd (DeletePresetProvider K pp (kube_getter E u) pr s) = s) \<and>
     (isl (fst (DeleteProviderPreset K pp (kube_getter E u) pr s)) \<and> snd (DeleteProviderPreset K pp (kube_getter E u) pr s) = s)) \<and>
   (UpdatePreset K (NewPresetProvider K c) (kube_getter E u) cr s = (Inr r, t) \<longrightarrow>
     (\<exists>old p f. old \<in> set (P s) \<and> om_name old = pbd_name (cpr_body cr) \<and> key_of p = key_of old \<and> replaced p (P s) (P t) \<and>
        provider_field (cpr_providerName cr) = Some f \<and> same_at f (pre_spec p) (pbd_spec (cpr_body cr)) \<and>
        (\<forall>g. g \<noteq> f \<longrightarrow> same_at g (pre_spec p) (pre_spec old)) \<and>
        ps_requiredEmails (pre_spec p) = ps_requiredEmails (pbd_spec (cpr_body cr)) \<and>
        ps_projects (pre_spec p) = ps_projects (pre_spec old) \<and> ps_enabled (pre_spec p) = ps_enabled (pre_spec old)))"
proof (rule conjI; rule impI)
  assume "\<not> us_isAdmin u"
  note denied = admin_guard[OF this]
  show "(isl (fst (CreatePreset K pp (kube_getter E u) cr s)) \<and> snd (CreatePreset K pp (kube_getter E u) cr s) = s) \<and>
     (isl (fst (UpdatePreset K pp (kube_getter E u) cr s)) \<and> snd (UpdatePreset K pp (kube_getter E u) cr s) = s) \<and>
     (isl (fst (UpdatePresetStatus K pp (kube_getter E u) ur s)) \<and> snd (UpdatePresetStatus K pp (kube_getter E u) ur s) = s) \<and>
     (isl (fst (DeletePreset pp (kube_getter E u) dr s)) \<and> snd (DeletePreset pp (kube_getter E u) dr s) = s) \<and>
     (isl (fst (DeletePresetProvider K pp (kube_getter E u) pr s)) \<and> snd (DeletePresetProvider K pp (kube_getter E u) pr s) = s) \<and>
     (isl (fst (DeleteProviderPreset K pp (kube_getter E u) pr s)) \<and> snd (DeleteProviderPreset K pp (kube_getter E u) pr s) = s)"
    unfolding CreatePreset_def UpdatePreset_def UpdatePresetStatus_def DeletePreset_def DeletePresetProvider_def DeleteProviderPreset_def
    by (intro conjI[OF denied] denied)
next
  assume run: "UpdatePreset K (NewPresetProvider K c) (kube_getter E u) cr s = (Inr r, t)"
  obtain old p where old: "old \<in> set (P s)" "om_name old = pbd_name (cpr_body cr)"
    and m: "mergePresets old (convertAPIToInternalPreset (cpr_body cr)) (cpr_providerName cr) = Inr p" and rep: "replaced p (P s) (P t)"
    by (rule UpdatePreset_InrD[OF ok run])
  have body: "pre_spec (convertAPIToInternalPreset (cpr_body cr)) = pbd_spec (cpr_body cr)"
    by (simp add: convertAPIToInternalPreset_def objmeta.defs preset.defs blank_meta_def)
  obtain f where "provider_field (cpr_providerName cr) = Some f" "key_of p = key_of old"
    "same_at f (pre_spec p) (pbd_spec (cpr_body cr))" "\<forall>g. g \<noteq> f \<longrightarrow> same_at g (pre_spec p) (pre_spec old)"
    "ps_requiredEmails (pre_spec p) = ps_requiredEmails (pbd_spec (cpr_body cr))"
    "ps_projects (pre_spec p) = ps_projects (pre_spec old)" "ps_enabled (pre_spec p) = ps_enabled (pre_spec old)"
    by (rule mergePresets_spec[OF m, unfolded body])
  with old rep show "\<exists>old p f. old \<in> set (P s) \<and> om_name old = pbd_name (cpr_body cr) \<and> key_of p = key_of old \<and> replaced p (P s) (P t) \<and>
        provider_field (cpr_providerName cr) = Some f \<and> same_at f (pre_spec p) (pbd_spec (cpr_body cr)) \<and>
        (\<forall>g. g \<noteq> f \<longrightarrow> same_at g (pre_spec p) (pre_spec old)) \<and>
        ps_requiredEmails (pre_spec p) = ps_requiredEmails (pbd_spec (cpr_body cr)) \<and>
        ps_projects (pre_spec p) = ps_projects (pre_spec old) \<and> ps_enabled (pre_spec p) = ps_enabled (pre_spec old)"
    by (intro exI[of _ old] exI[of _ p] exI[of _ f]) simp
qed

section \<open>Statistics\<close>

lemma filterOutPresets_total:
  assumes "\<forall>q \<in> set ps. \<exists>b. matchesRequirements K (ui_email i) (ps_requiredEmails (pre_spec q)) = Inr b"
  shows "filterOutPresets K i pid ps = Inr (filter (visible K i pid) ps)"
proof -
  have "\<exists>out. filterOutPresets K i pid ps = Inr out"
    using assms by (induction ps) (auto simp: Let_def)
  then show ?thesis using filterOutPresets_Inr by blast
qed

lemma GetPreset_run:
  assumes "list_ok P c" and "\<forall>q \<in> set (P s). \<exists>b. matchesRequirements K (ui_email i) (ps_requiredEmails (pre_spec q)) = Inr b"
  shows "GetPreset K c i pid n s =
    ((case List.find (\<lambda>p. om_name p = n) (filter (visible K i pid) (P s)) of None \<Rightarrow> Inl NewNotFound | Some p \<Rightarrow> Inr p), s)"
  using assms filterOutPresets_total[OF assms(2)] by (simp add: GetPreset_def GetPresets_def bindA_def wrapA_def split: option.split)

lemma find_unique:
  assumes "distinct (map f xs)" and "x \<in> set xs" and "p x"
  shows "List.find (\<lambda>y. f y = f x) (filter p xs) = Some x"
  using assms by (induction xs) (auto simp: image_iff)

text \<open>
  The statistics of a preset do not respect its projects. A caller who is no administrator and meets the
  requirement on the email address gets the statistics of a preset that is bound to projects, whichever they are, although the same preset is
  not found for him in any project it is not bound to.
\<close>

theorem preset_stats_ignore_projects:
  assumes list: "list_ok P c" and names: "distinct (map om_name (P s))" and p: "p \<in> set (P s)" "om_name p \<noteq> []"
    and total: "\<forall>q \<in> set (P s). \<exists>b. matchesRequirements K (us_email u) (ps_requiredEmails (pre_spec q)) = Inr b"
    and email: "matchesRequirements K (us_email u) (ps_requiredEmails (pre_spec p)) = Inr True"
    and bound: "ps_projects (pre_spec p) \<noteq> []" "pid \<notin> set (ps_projects (pre_spec p))"
    and label: "newRequirement E (isCredentialPresetLabelKey E) ''true'' = Inr sel"
    and i: "kube_getter E u [] s = (Inr i, s)"
  shows "GetPreset K c i (Some pid) (om_name p) s = (Inl NewNotFound, s) \<and>
    GetPresetStats E K (NewPresetProvider K c) (kube_getter E u) cpg (retA []) \<lparr>ctp_ListALL = (\<lambda>_. retA ts)\<rparr>
      \<lparr>dpr_presetName = om_name p\<rparr> s =
      (Inr \<lparr>pst_clusters = 0, pst_templates = length (filter (uses_preset K p) ts)\<rparr>, s)"
proof
  have em: "ui_email i = us_email u" using i by (auto simp: UserInfoGetterFactory_def)
  note run = GetPreset_run[OF list total[folded em]]
  have "\<not> visible K i (Some pid) p" using bound by (simp add: visible_def)
  then have "List.find (\<lambda>q. om_name q = om_name p) (filter (visible K i (Some pid)) (P s)) = None"
    using names p by (auto simp: find_None_iff distinct_map inj_on_def)
  then show "GetPreset K c i (Some pid) (om_name p) s = (Inl NewNotFound, s)" by (simp add: run)
  have "visible K i None p" using email em by (simp add: visible_def)
  then have "GetPreset K c i None (om_name p) s = (Inr p, s)" by (simp add: run find_unique[OF names p(1)])
  then show "GetPresetStats E K (NewPresetProvider K c) (kube_getter E u) cpg (retA []) \<lparr>ctp_ListALL = (\<lambda>_. retA ts)\<rparr>
      \<lparr>dpr_presetName = om_name p\<rparr> s =
      (Inr \<lparr>pst_clusters = 0, pst_templates = length (filter (uses_preset K p) ts)\<rparr>, s)"
    using i label p(2)
    by (simp add: GetPresetStats_def validA_def deletePresetReq_Validate_def NewPresetProvider_def range_seeds_def)
qed

section \<open>Witnesses\<close>

text \<open>An SDK in which a requirement is the exact address, and a store with one preset bound to the project p2.\<close>

definition demo_sdk :: preset_sdk where
  "demo_sdk = \<lparr>matchesRequirements = (\<lambda>e req. Inr (req = [] \<or> e \<in> set req)),
     spec_IsEnabled = (\<lambda>s. ps_enabled s \<noteq> Some False), spec_SetEnabled = (\<lambda>b s. s\<lparr>ps_enabled := Some b\<rparr>),
     providerPreset_IsEnabled = (\<lambda>p. pv_enabled p \<noteq> Some False), provider_validateable = (\<lambda>_. True),
     provider_IsValid = (\<lambda>_ _. True), supportedProviders = [''hetzner'', ''anexia'', ''bringyourown''],
     isProviderSupported = (\<lambda>n. n \<in> {''hetzner'', ''anexia'', ''bringyourown''}),
     vmwareCloudDirectorProvider = ''vmwareclouddirector'', openstackProvider = ''openstack'',
     presetNameAnnotation = ''presetName'', templateNameLabelKey = ''name''\<rparr>"

definition demo_hetzner :: HetznerPreset where
  "demo_hetzner = \<lparr>pv_enabled = None, pv_datacenter = [], pv_isCustomizable = False, ph_token = ''secret'', ph_network = ''net''\<rparr>"

definition demo_preset :: preset where
  "demo_preset = zero_preset\<lparr>om_name := ''shared'', pre_spec := zero_spec\<lparr>ps_hetzner := Some demo_hetzner, ps_projects := [''p2'']\<rparr>\<rparr>"

definition demo_cloud :: CloudSpec where
  "demo_cloud = \<lparr>cl_datacenterName = ''eu'', cl_providerName = Inr ''hetzner'', cl_cloudProvider = ''hetzner'', cl_vsphere = None, cl_baremetal = None, cl_openstack = None, cl_azure = None, cl_digitalocean = None,
     cl_hetzner = Some \<lparr>ch_token = [], ch_network = [], ch_credentialsReference = None\<rparr>, cl_aws = None, cl_gcp = None, cl_fake = None, cl_kubevirt = None,
     cl_alibaba = None, cl_anexia = None, cl_nutanix = None, cl_vmwareCloudDirector = None\<rparr>"

definition demo_info :: UserInfo where
  "demo_info = \<lparr>ui_email = ''bob@acme.com'', ui_groups = [], ui_roles = {}, ui_isAdmin = False, ui_isGlobalViewer = False\<rparr>"

abbreviation demo_env :: "(mem \<times> preset list) env" where
  "demo_env \<equiv> lift_env mem_env"

abbreviation demo_world :: "mem \<times> preset list" where
  "demo_world \<equiv> (world1, [demo_preset])"

lemma demo_presets_ok: "presets_ok snd (extra_client :: (preset, mem \<times> preset list) kclient)"
  by (simp add: presets_ok_def extra_client_ok)

theorem credentials_from_visible_preset_witness:
  "\<exists>out. SetCloudCredentials demo_sdk extra_client demo_info ''p2'' ''shared'' demo_cloud None demo_world = (Inr out, demo_world) \<and>
     cl_hetzner out = Some \<lparr>ch_token = ''secret'', ch_network = ''net'', ch_credentialsReference = None\<rparr> \<and> visible demo_sdk demo_info (Some ''p2'') demo_preset \<and>
     GetPresets demo_sdk extra_client demo_info (Some ''p1'') demo_world = (Inr [], demo_world)"
proof -
  have r: "case SetCloudCredentials demo_sdk extra_client demo_info ''p2'' ''shared'' demo_cloud None demo_world of
      (Inr out, _) \<Rightarrow> cl_hetzner out = Some \<lparr>ch_token = ''secret'', ch_network = ''net'', ch_credentialsReference = None\<rparr> | _ \<Rightarrow> False"
    by code_simp
  then obtain out t where out: "SetCloudCredentials demo_sdk extra_client demo_info ''p2'' ''shared'' demo_cloud None demo_world = (Inr out, t)"
    "cl_hetzner out = Some \<lparr>ch_token = ''secret'', ch_network = ''net'', ch_credentialsReference = None\<rparr>"
    by (auto split: prod.splits sum.splits)
  have "\<not> isl (fst (GetPresets demo_sdk extra_client demo_info (Some ''p1'') demo_world))" by code_simp
  from success_obtain[OF this] obtain ps t' where ps: "GetPresets demo_sdk extra_client demo_info (Some ''p1'') demo_world = (Inr ps, t')" by blast
  have v: "\<not> visible demo_sdk demo_info (Some ''p1'') demo_preset" by code_simp
  note fact = credentials_from_visible_preset[OF extra_client_ok(1)]
  from conjunct1[OF fact, THEN mp, OF ps] have none: "t' = demo_world" "ps = []" using v by simp_all
  from conjunct2[OF fact, THEN mp, OF out(1)] have "t = demo_world" and "visible demo_sdk demo_info (Some ''p2'') demo_preset"
    by (elim conjE exE; simp)+
  then show ?thesis using out ps none by blast
qed

definition demo_update :: createPresetReq where
  "demo_update = \<lparr>cpr_providerName = ''hetzner'', cpr_body = \<lparr>pbd_name = ''shared'',
     pbd_spec = zero_spec\<lparr>ps_hetzner := Some (demo_hetzner\<lparr>ph_token := ''new''\<rparr>)\<rparr>\<rparr>\<rparr>"

end
