(* ===== verification/SSH_Keys.thy ===== *)
theory SSH_Keys
  imports Common_Handlers
begin

text \<open>
  The SSH keys of a project: the provider (\<^verbatim>\<open>pkg/provider/kubernetes/ssh.go\<close>), its interfaces
  (\<^verbatim>\<open>pkg/provider/types.go\<close>) and the endpoints (\<^verbatim>\<open>pkg/handler/v1/ssh/ssh.go\<close>).
\<close>

section \<open>Interfaces\<close>

record SSHKeyListOptions =
  opt_clusterName :: string
  opt_sshKeyName :: string

record 's SSHKeyProvider =
  skp_List :: "project option \<Rightarrow> SSHKeyListOptions option \<Rightarrow> ('s, sshkey list) act"
  skp_Create :: "UserInfo option \<Rightarrow> project \<Rightarrow> string \<Rightarrow> string \<Rightarrow> ('s, sshkey) act"
  skp_Delete :: "UserInfo \<Rightarrow> string \<Rightarrow> ('s, unit) act"
  skp_Get :: "UserInfo \<Rightarrow> string \<Rightarrow> ('s, sshkey) act"
  skp_Update :: "UserInfo \<Rightarrow> sshkey \<Rightarrow> ('s, sshkey) act"

record 's PrivilegedSSHKeyProvider =
  pskp_GetUnsecured :: "string \<Rightarrow> ('s, sshkey) act"
  pskp_UpdateUnsecured :: "sshkey \<Rightarrow> ('s, sshkey) act"
  pskp_CreateUnsecured :: "project \<Rightarrow> string \<Rightarrow> string \<Rightarrow> ('s, sshkey) act"
  pskp_DeleteUnsecured :: "string \<Rightarrow> ('s, unit) act"

section \<open>The provider\<close>

text \<open>The clients for keys: the one of the provider and the factory of those that impersonate a user.\<close>

record 's ssh_clients =
  skc_client :: "(sshkey, 's) kclient"
  skc_impersonated :: "string \<Rightarrow> string list \<Rightarrow> (sshkey, 's) kclient result"

definition ssh_impersonated :: "'s ssh_clients \<Rightarrow> UserInfo \<Rightarrow> ('s, (sshkey, 's) kclient) act" where
  "ssh_impersonated C userInfo = liftA (skc_impersonated C (ui_email userInfo) (ui_groups userInfo))"

definition genUserSSHKey :: "('s, 'x) env_scheme \<Rightarrow> project \<Rightarrow> string \<Rightarrow> string \<Rightarrow> ('s, sshkey) act" where
  "genUserSSHKey E project keyName pubKey =
     bindA (randA E) (\<lambda>r.
       retA (objmeta.extend (blank_meta\<lparr>om_name := ''key-'' @ r\<rparr>)
               (sshkey.fields keyName (om_name project) [] [] pubKey)))"

definition ssh_Create ::
  "('s, 'x) env_scheme \<Rightarrow> 's ssh_clients \<Rightarrow> UserInfo option \<Rightarrow> project \<Rightarrow> string \<Rightarrow> string \<Rightarrow> ('s, sshkey) act" where
  "ssh_Create E C userInfo project keyName pubKey =
     (if keyName = [] then failA (Plain ''the ssh key name is missing but required'')
      else if pubKey = [] then failA (Plain ''the ssh public part of the key is missing but required'')
      else (case userInfo of
          None \<Rightarrow> failA (Plain ''a userInfo is missing but required'')
        | Some userInfo \<Rightarrow>
            bindA (genUserSSHKey E project keyName pubKey) (\<lambda>sshKey.
            bindA (ssh_impersonated C userInfo) (\<lambda>client.
              kCreate client sshKey))))"

definition ssh_CreateUnsecured ::
  "('s, 'x) env_scheme \<Rightarrow> 's ssh_clients \<Rightarrow> project \<Rightarrow> string \<Rightarrow> string \<Rightarrow> ('s, sshkey) act" where
  "ssh_CreateUnsecured E C project keyName pubKey =
     (if keyName = [] then failA (Plain ''the ssh key name is missing but required'')
      else if pubKey = [] then failA (Plain ''the ssh public part of the key is missing but required'')
      else bindA (genUserSSHKey E project keyName pubKey) (\<lambda>sshKey. kCreate (skc_client C) sshKey))"

text \<open>
  The filter appends a key once for its name and once for every occurrence of the cluster among its
  clusters, so with both options set it is the union of the two filters, with repetitions.
\<close>

definition filter_key :: "SSHKeyListOptions \<Rightarrow> sshkey \<Rightarrow> sshkey list" where
  "filter_key options key =
     (if opt_sshKeyName options \<noteq> [] \<and> sk_name key = opt_sshKeyName options then [key] else []) @
     (if opt_clusterName options \<noteq> []
      then map (\<lambda>_. key) (filter (\<lambda>c. c = opt_clusterName options) (sk_clusters key)) else [])"

definition ssh_List :: "'s ssh_clients \<Rightarrow> project option \<Rightarrow> SSHKeyListOptions option \<Rightarrow> ('s, sshkey list) act" where
  "ssh_List C project options =
     (case project of
        None \<Rightarrow> failA (Plain ''a project is missing but required'')
      | Some project \<Rightarrow>
          bindA (listA (skc_client C) Everything) (\<lambda>allKeys.
            let projectKeys = filter (\<lambda>key. sk_project key = om_name project) allKeys in
            case options of
              None \<Rightarrow> retA projectKeys
            | Some options \<Rightarrow>
                if opt_clusterName options = [] \<and> opt_sshKeyName options = [] then retA projectKeys
                else retA (concat (map (filter_key options) projectKeys))))"

definition ssh_Get :: "'s ssh_clients \<Rightarrow> UserInfo \<Rightarrow> string \<Rightarrow> ('s, sshkey) act" where
  "ssh_Get C userInfo keyName = bindA (ssh_impersonated C userInfo) (\<lambda>client. getA client ([], keyName))"

definition ssh_Delete :: "'s ssh_clients \<Rightarrow> UserInfo \<Rightarrow> string \<Rightarrow> ('s, unit) act" where
  "ssh_Delete C userInfo keyName = bindA (ssh_impersonated C userInfo) (\<lambda>client. kDelete client ([], keyName))"

definition ssh_DeleteUnsecured :: "'s ssh_clients \<Rightarrow> string \<Rightarrow> ('s, unit) act" where
  "ssh_DeleteUnsecured C keyName = kDelete (skc_client C) ([], keyName)"

definition ssh_Update :: "'s ssh_clients \<Rightarrow> UserInfo \<Rightarrow> sshkey \<Rightarrow> ('s, sshkey) act" where
  "ssh_Update C userInfo newKey = bindA (ssh_impersonated C userInfo) (\<lambda>client. kUpdate client newKey)"

definition ssh_UpdateUnsecured :: "'s ssh_clients \<Rightarrow> sshkey \<Rightarrow> ('s, sshkey) act" where
  "ssh_UpdateUnsecured C sshKey = kUpdate (skc_client C) sshKey"

definition ssh_GetUnsecured :: "'s ssh_clients \<Rightarrow> string \<Rightarrow> ('s, sshkey) act" where
  "ssh_GetUnsecured C keyName = getA (skc_client C) ([], keyName)"

definition kube_sshKeyProvider :: "('s, 'x) env_scheme \<Rightarrow> 's ssh_clients \<Rightarrow> 's SSHKeyProvider" where
  "kube_sshKeyProvider E C =
     \<lparr>skp_List = ssh_List C, skp_Create = ssh_Create E C, skp_Delete = ssh_Delete C, skp_Get = ssh_Get C,
      skp_Update = ssh_Update C\<rparr>"

definition kube_privilegedSSHKeyProvider :: "('s, 'x) env_scheme \<Rightarrow> 's ssh_clients \<Rightarrow> 's PrivilegedSSHKeyProvider" where
  "kube_privilegedSSHKeyProvider E C =
     \<lparr>pskp_GetUnsecured = ssh_GetUnsecured C, pskp_UpdateUnsecured = ssh_UpdateUnsecured C,
      pskp_CreateUnsecured = ssh_CreateUnsecured E C, pskp_DeleteUnsecured = ssh_DeleteUnsecured C\<rparr>"

section \<open>Requests\<close>

record SSHDeleteReq = ProjectReq +
  sdq_keyID :: string

record SSHCreateReq = ProjectReq +
  scq_key :: apiSSHKey

text \<open>A request that could not be decoded is a nil request without an error.\<close>

definition ssh_DecodeListReq :: "http_request \<Rightarrow> ProjectReq option result" where
  "ssh_DecodeListReq r = (case DecodeProjectRequest r of Inl _ \<Rightarrow> Inr None | Inr req \<Rightarrow> Inr (Some req))"

definition ssh_DecodeDeleteReq :: "http_request \<Rightarrow> SSHDeleteReq result" where
  "ssh_DecodeDeleteReq r =
     (case DecodeProjectRequest r of
        Inl err \<Rightarrow> Inl err
      | Inr dcr \<Rightarrow>
          (case rq_vars r ''key_id'' of
             None \<Rightarrow> Inl (Plain ''parameter is required in order to delete ssh key'')
           | Some keyID \<Rightarrow> Inr \<lparr>req_projectID = req_projectID dcr, sdq_keyID = keyID\<rparr>))"

text \<open>\<open>body\<close> is the outcome of the JSON decoder.\<close>

definition ssh_DecodeCreateReq :: "http_request \<Rightarrow> apiSSHKey result \<Rightarrow> SSHCreateReq result" where
  "ssh_DecodeCreateReq r body =
     (case DecodeProjectRequest r of
        Inl err \<Rightarrow> Inl err
      | Inr dcr \<Rightarrow>
          (case body of
             Inl _ \<Rightarrow> Inl UtilBadRequest
           | Inr key \<Rightarrow>
               if ao_name key = [] then Inl (Plain ''name field cannot be empty'')
               else if ak_publicKey key = [] then Inl (Plain ''spec.publicKey field cannot be empty'')
               else Inr \<lparr>req_projectID = req_projectID dcr, scq_key = key\<rparr>))"

section \<open>Endpoints\<close>

text \<open>\<open>disabled\<close> is \<^verbatim>\<open>features.Enabled(DisableUserSSHKey)\<close>.\<close>

definition createUserSSHKey ::
  "'s UserInfoGetter \<Rightarrow> 's SSHKeyProvider \<Rightarrow> 's PrivilegedSSHKeyProvider \<Rightarrow> project \<Rightarrow> string \<Rightarrow> string \<Rightarrow> ('s, sshkey) act" where
  "createUserSSHKey userInfoGetter keyProvider privilegedSSHKeyProvider project keyName pubKey =
     bindA (userInfoGetter []) (\<lambda>adminUserInfo.
       if ui_isAdmin adminUserInfo then pskp_CreateUnsecured privilegedSSHKeyProvider project keyName pubKey
       else bindA (userInfoGetter (om_name project)) (\<lambda>userInfo.
              skp_Create keyProvider (Some userInfo) project keyName pubKey))"

definition deleteUserSSHKey ::
  "'s UserInfoGetter \<Rightarrow> 's SSHKeyProvider \<Rightarrow> 's PrivilegedSSHKeyProvider \<Rightarrow> project \<Rightarrow> string \<Rightarrow> ('s, unit) act" where
  "deleteUserSSHKey userInfoGetter keyProvider privilegedSSHKeyProvider project keyName =
     bindA (userInfoGetter []) (\<lambda>adminUserInfo.
       if ui_isAdmin adminUserInfo then pskp_DeleteUnsecured privilegedSSHKeyProvider keyName
       else bindA (userInfoGetter (om_name project)) (\<lambda>userInfo. skp_Delete keyProvider userInfo keyName))"

definition ssh_CreateEndpoint ::
  "'s SSHKeyProvider \<Rightarrow> 's PrivilegedSSHKeyProvider \<Rightarrow> 's ProjectProvider \<Rightarrow> 's PrivilegedProjectProvider \<Rightarrow>
     's UserInfoGetter \<Rightarrow> bool \<Rightarrow> SSHCreateReq \<Rightarrow> ('s, apiSSHKey) act" where
  "ssh_CreateEndpoint keyProvider privilegedSSHKeyProvider projectProvider privilegedProjectProvider userInfoGetter disabled req =
     (if disabled then failA (Plain ''User SSH keys feature is disabled'')
      else
        bindA (httpA (GetProject userInfoGetter projectProvider privilegedProjectProvider (req_projectID req) None)) (\<lambda>project.
        bindA (httpA (skp_List keyProvider (Some project)
                        (Some \<lparr>opt_clusterName = [], opt_sshKeyName = ao_name (scq_key req)\<rparr>))) (\<lambda>existingKeys.
          if existingKeys \<noteq> [] then failA UtilAlreadyExists
          else
            bindA (httpA (createUserSSHKey userInfoGetter keyProvider privilegedSSHKeyProvider project
                            (ao_name (scq_key req)) (ak_publicKey (scq_key req)))) (\<lambda>key.
              retA (apiObject.extend
                      \<lparr>ao_id = om_name key, ao_name = sk_name key, ao_annotations = [],
                       ao_creationTimestamp = om_creationTimestamp key, ao_deletionTimestamp = None\<rparr>
                      (apiSSHKey.fields (sk_fingerprint key) (sk_publicKey key)))))))"

definition ssh_DeleteEndpoint ::
  "'s SSHKeyProvider \<Rightarrow> 's PrivilegedSSHKeyProvider \<Rightarrow> 's ProjectProvider \<Rightarrow> 's PrivilegedProjectProvider \<Rightarrow>
     's UserInfoGetter \<Rightarrow> bool \<Rightarrow> SSHDeleteReq \<Rightarrow> ('s, unit) act" where
  "ssh_DeleteEndpoint keyProvider privilegedSSHKeyProvider projectProvider privilegedProjectProvider userInfoGetter disabled req =
     (if disabled then failA (Plain ''SSH keys feature is disabled'')
      else
        bindA (httpA (GetProject userInfoGetter projectProvider privilegedProjectProvider (req_projectID req) None)) (\<lambda>project.
          httpA (deleteUserSSHKey userInfoGetter keyProvider privilegedSSHKeyProvider project (sdq_keyID req))))"

definition ssh_ListEndpoint ::
  "'s SSHKeyProvider \<Rightarrow> 's ProjectProvider \<Rightarrow> 's PrivilegedProjectProvider \<Rightarrow> 's UserInfoGetter \<Rightarrow> bool \<Rightarrow>
     ProjectReq option \<Rightarrow> ('s, apiSSHKey list) act" where
  "ssh_ListEndpoint keyProvider projectProvider privilegedProjectProvider userInfoGetter disabled req =
     (if disabled then failA (Plain ''SSH keys feature is disabled'')
      else (case req of
          None \<Rightarrow> failA UtilBadRequest
        | Some req \<Rightarrow>
            if req_projectID req = [] then failA UtilBadRequest
            else
              bindA (httpA (GetProject userInfoGetter projectProvider privilegedProjectProvider (req_projectID req) None)) (\<lambda>project.
              bindA (httpA (skp_List keyProvider (Some project) None)) (\<lambda>keys.
                retA (ConvertInternalSSHKeysToExternal keys)))))"

end
