(* ===== verification/SSH_Properties.thy ===== *)
theory SSH_Properties
  imports SSH_Keys Access_Control Mem_Extend
begin

text \<open>
  What the requests about SSH keys do to the stored keys, one by one and in any sequence.
\<close>

section \<open>The contract of the key clients\<close>

text \<open>
  \<open>P\<close> is the list of stored keys. Every client that a request gets works on it, and drawing a random name
  does not change it. An impersonating client may be denied anything.
\<close>

definition ssh_ok :: "('s \<Rightarrow> sshkey list) \<Rightarrow> ('s, 'x) env_scheme \<Rightarrow> 's ssh_clients \<Rightarrow> bool" where
  "ssh_ok P E C \<longleftrightarrow>
     list_ok P (skc_client C) \<and> create_ok P (skc_client C) \<and> delete_ok P (skc_client C) \<and>
     (\<forall>e g c. skc_impersonated C e g = Inr c \<longrightarrow> create_ok P c \<and> delete_ok P c) \<and>
     (\<forall>s. P (snd (randString E s)) = P s)"

lemma ssh_okD:
  assumes "ssh_ok P E C"
  shows "list_ok P (skc_client C)" and "create_ok P (skc_client C)" and "delete_ok P (skc_client C)"
    and "skc_impersonated C e g = Inr c \<Longrightarrow> create_ok P c" and "skc_impersonated C e g = Inr c \<Longrightarrow> delete_ok P c"
    and "P (snd (randString E s)) = P s"
  using assms by (simp_all add: ssh_ok_def)

lemma ssh_on_behalf:
  "createUserSSHKey g kp pkp p n k = on_behalf g (om_name p) (pskp_CreateUnsecured pkp p n k) (\<lambda>i. skp_Create kp (Some i) p n k)"
  "deleteUserSSHKey g kp pkp p n = on_behalf g (om_name p) (pskp_DeleteUnsecured pkp n) (\<lambda>i. skp_Delete kp i n)"
  by (simp_all add: on_behalf_def createUserSSHKey_def deleteUserSSHKey_def)

section \<open>Listing\<close>

text \<open>The keys of a project, and whether one of them has a given name.\<close>

definition keys_of :: "string \<Rightarrow> sshkey list \<Rightarrow> sshkey list" where
  "keys_of pid ks = filter (\<lambda>k. sk_project k = pid) ks"

lemma reads_ssh_List [reads_intros]: "reads (ssh_List C p opts)"
  unfolding ssh_List_def by (intro reads_intros)

lemma reads_skp_List [reads_intros]: "reads (skp_List (kube_sshKeyProvider E C) p opts)"
  by (simp add: kube_sshKeyProvider_def reads_ssh_List)

lemma ssh_List_run:
  assumes "list_ok P (skc_client C)"
  shows "ssh_List C (Some p) None s = (Inr (keys_of (om_name p) (P s)), s)"
    and "n \<noteq> [] \<Longrightarrow> ssh_List C (Some p) (Some \<lparr>opt_clusterName = [], opt_sshKeyName = n\<rparr>) s =
      (Inr (filter (\<lambda>k. sk_name k = n) (keys_of (om_name p) (P s))), s)"
proof -
  have "concat (map (filter_key \<lparr>opt_clusterName = [], opt_sshKeyName = n\<rparr>) ks) = filter (\<lambda>k. sk_name k = n) ks"
    if "n \<noteq> []" for ks :: "sshkey list" and n
    using that by (induction ks) (simp_all add: filter_key_def)
  then show "ssh_List C (Some p) None s = (Inr (keys_of (om_name p) (P s)), s)"
    and "n \<noteq> [] \<Longrightarrow> ssh_List C (Some p) (Some \<lparr>opt_clusterName = [], opt_sshKeyName = n\<rparr>) s =
      (Inr (filter (\<lambda>k. sk_name k = n) (keys_of (om_name p) (P s))), s)"
    using assms by (simp_all add: ssh_List_def keys_of_def bindA_def)
qed

section \<open>Creating\<close>

text \<open>A key as the request asks for it, whatever name the object has.\<close>

definition asked_key :: "project \<Rightarrow> string \<Rightarrow> string \<Rightarrow> sshkey \<Rightarrow> bool" where
  "asked_key p n pub k \<longleftrightarrow> sk_name k = n \<and> sk_project k = om_name p \<and> sk_publicKey k = pub \<and> sk_clusters k = []"

lemma same_sshkey:
  "same_object (a :: sshkey) b \<Longrightarrow>
     sk_name a = sk_name b \<and> sk_project a = sk_project b \<and> sk_publicKey a = sk_publicKey b \<and> sk_clusters a = sk_clusters b"
  by (cases a; cases b) (simp add: same_object_def)

lemma genUserSSHKey_run:
  assumes "\<forall>s. P (snd (randString E s)) = P s"
  obtains k t where "genUserSSHKey E p n pub s = (Inr k, t)" and "P t = P s" and "asked_key p n pub k"
proof -
  obtain r t where r: "randString E s = (r, t)" by fastforce
  then have "P t = P s" using assms by (metis snd_conv)
  then show thesis
    using that r by (simp add: genUserSSHKey_def randA_def asked_key_def objmeta.defs sshkey.defs blank_meta_def)
qed

text \<open>What a creation through either provider does to the stored keys.\<close>

definition creates_key :: "('s \<Rightarrow> sshkey list) \<Rightarrow> project \<Rightarrow> string \<Rightarrow> string \<Rightarrow> ('s, sshkey) act \<Rightarrow> bool" where
  "creates_key P p n pub m \<longleftrightarrow>
     (\<forall>s. outcome m s (\<lambda>t. P t = P s) (\<lambda>k t. n \<noteq> [] \<and> asked_key p n pub k \<and> P t = P s @ [k]))"

lemma kCreate_asked:
  assumes "create_ok P c" and "asked_key p n pub k"
  shows "outcome (kCreate c k) s (\<lambda>t. P t = P s) (\<lambda>k' t. asked_key p n pub k' \<and> P t = P s @ [k'])"
  using assms create_okD(1,2)[of P c k s] create_ok_failD[of P c k s] same_sshkey
  by (auto simp: outcome_def asked_key_def split: prod.split sum.split)

lemma generate_and_create:
  assumes "\<forall>s. P (snd (randString E s)) = P s" and "\<And>c. client = Inr c \<Longrightarrow> create_ok P c"
  shows "outcome (bindA (genUserSSHKey E p n pub) (\<lambda>k. bindA (liftA client) (\<lambda>c. kCreate c k))) s
    (\<lambda>t. P t = P s) (\<lambda>k t. asked_key p n pub k \<and> P t = P s @ [k])"
proof -
  obtain k t where g: "genUserSSHKey E p n pub s = (Inr k, t)" "P t = P s" "asked_key p n pub k"
    by (rule genUserSSHKey_run[OF assms(1)])
  have "outcome (bindA (liftA client) (\<lambda>c. kCreate c k)) t (\<lambda>t. P t = P s) (\<lambda>k t. asked_key p n pub k \<and> P t = P s @ [k])"
    using kCreate_asked[OF assms(2) g(3), of _ t] g(2)
    by (cases client) (auto simp: outcome_def)
  then show ?thesis using g by (intro outcome_bindA) (simp add: outcome_def)
qed

lemma ssh_creates:
  assumes ok: "ssh_ok P E C"
  shows "creates_key P p n pub (ssh_CreateUnsecured E C p n pub)" and "creates_key P p n pub (ssh_Create E C (Some i) p n pub)"
proof -
  have r: "\<forall>s. P (snd (randString E s)) = P s" using ssh_okD(6)[OF ok] by blast
  have un: "ssh_CreateUnsecured E C p n pub =
      (if n = [] then failA (Plain ''the ssh key name is missing but required'')
       else if pub = [] then failA (Plain ''the ssh public part of the key is missing but required'')
       else bindA (genUserSSHKey E p n pub) (\<lambda>k. bindA (liftA (Inr (skc_client C))) (\<lambda>c. kCreate c k)))"
    by (simp add: ssh_CreateUnsecured_def bindA_def fun_eq_iff)
  show "creates_key P p n pub (ssh_CreateUnsecured E C p n pub)"
    unfolding creates_key_def un
    by (intro allI outcome_intros refl, rule outcome_mono[OF generate_and_create[OF r]]) (use ssh_okD(2)[OF ok] in auto)
  show "creates_key P p n pub (ssh_Create E C (Some i) p n pub)"
    unfolding creates_key_def ssh_Create_def ssh_impersonated_def option.case
    by (intro allI outcome_intros refl, rule outcome_mono[OF generate_and_create[OF r]]) (use ssh_okD(4)[OF ok] in auto)
qed

lemma createUserSSHKey_creates:
  assumes ok: "ssh_ok P E C"
  shows "creates_key P p n pub
    (createUserSSHKey (kube_getter E u) (kube_sshKeyProvider E C) (kube_privilegedSSHKeyProvider E C) p n pub)"
  unfolding createUserSSHKey_def creates_key_def
  by (intro allI outcome_bind_reads[OF me.getter_reads] outcome_intros refl)
    (simp_all add: kube_sshKeyProvider_def kube_privilegedSSHKeyProvider_def ssh_creates[OF ok, unfolded creates_key_def])

abbreviation kube_ssh_Create :: "('s, 'x) env_scheme \<Rightarrow> 's ssh_clients \<Rightarrow> user \<Rightarrow> bool \<Rightarrow> SSHCreateReq \<Rightarrow> ('s, apiSSHKey) act" where
  "kube_ssh_Create E C u disabled req \<equiv>
     ssh_CreateEndpoint (kube_sshKeyProvider E C) (kube_privilegedSSHKeyProvider E C) (kube_projectProvider E)
       (kube_privilegedProjectProvider E) (kube_getter E u) disabled req"

abbreviation kube_ssh_Delete :: "('s, 'x) env_scheme \<Rightarrow> 's ssh_clients \<Rightarrow> user \<Rightarrow> bool \<Rightarrow> SSHDeleteReq \<Rightarrow> ('s, unit) act" where
  "kube_ssh_Delete E C u disabled req \<equiv>
     ssh_DeleteEndpoint (kube_sshKeyProvider E C) (kube_privilegedSSHKeyProvider E C) (kube_projectProvider E)
       (kube_privilegedProjectProvider E) (kube_getter E u) disabled req"

abbreviation kube_ssh_List :: "('s, 'x) env_scheme \<Rightarrow> 's ssh_clients \<Rightarrow> user \<Rightarrow> bool \<Rightarrow> ProjectReq option \<Rightarrow> ('s, apiSSHKey list) act" where
  "kube_ssh_List E C u disabled req \<equiv>
     ssh_ListEndpoint (kube_sshKeyProvider E C) (kube_projectProvider E) (kube_privilegedProjectProvider E) (kube_getter E u)
       disabled req"

text \<open>No two keys of a project have the same name.\<close>

definition names_unique :: "sshkey list \<Rightarrow> bool" where
  "names_unique ks \<longleftrightarrow> distinct (map (\<lambda>k. (sk_project k, sk_name k)) ks)"

definition fresh_name :: "string \<Rightarrow> string \<Rightarrow> sshkey list \<Rightarrow> bool" where
  "fresh_name pid n ks \<longleftrightarrow> (\<forall>k \<in> set ks. sk_project k = pid \<longrightarrow> sk_name k \<noteq> n)"

lemma names_unique_snoc: "names_unique ks \<Longrightarrow> fresh_name (sk_project k) (sk_name k) ks \<Longrightarrow> names_unique (ks @ [k])"
  by (auto simp: names_unique_def fresh_name_def)

lemma names_unique_filter: "names_unique ks \<Longrightarrow> names_unique (filter f ks)"
  by (simp add: names_unique_def distinct_map_filter)

text \<open>A creation request either leaves the keys as they are or adds one, under a name that is new in the project.\<close>

definition answer_for :: "sshkey \<Rightarrow> apiSSHKey" where
  "answer_for k = apiObject.extend
     \<lparr>ao_id = om_name k, ao_name = sk_name k, ao_annotations = [], ao_creationTimestamp = om_creationTimestamp k,
      ao_deletionTimestamp = None\<rparr> (apiSSHKey.fields (sk_fingerprint k) (sk_publicKey k))"

lemma ssh_Create_outcome:
  assumes api: "api_ok V E" and ok: "ssh_ok P E C"
  shows "outcome (kube_ssh_Create E C u d req) s (\<lambda>t. P t = P s)
    (\<lambda>r t. \<exists>k. r = answer_for k \<and> P t = P s @ [k] \<and> sk_project k = req_projectID req \<and>
       sk_name k = ao_name (scq_key req) \<and> sk_publicKey k = ak_publicKey (scq_key req) \<and> fresh_name (sk_project k) (sk_name k) (P s))"
  unfolding ssh_CreateEndpoint_def
proof (intro outcome_intros outcome_bind_wrap_reads[OF reads_GetProject] outcome_bind_wrap_reads[OF reads_skp_List]
    outcome_bindA[of "wrapA f (createUserSSHKey g kp pkp p n k)" for f g kp pkp p n k] refl)
  fix p existing
  let ?n = "ao_name (scq_key req)" and ?pub = "ak_publicKey (scq_key req)"
  assume "GetProject (kube_getter E u) (kube_projectProvider E) (kube_privilegedProjectProvider E) (req_projectID req) None s = (Inr p, s)"
  then have p: "om_name p = req_projectID req" by (rule GetProject_name[OF api])
  assume "skp_List (kube_sshKeyProvider E C) (Some p) (Some \<lparr>opt_clusterName = [], opt_sshKeyName = ?n\<rparr>) s = (Inr existing, s)"
    and "\<not> existing \<noteq> []"
  then have "fresh_name (req_projectID req) ?n (P s)" if "?n \<noteq> []"
    using ssh_List_run(2)[OF ssh_okD(1)[OF ok] that, of p s] p
    by (auto simp: kube_sshKeyProvider_def fresh_name_def keys_of_def filter_empty_conv)
  then show "outcome (createUserSSHKey (kube_getter E u) (kube_sshKeyProvider E C) (kube_privilegedSSHKeyProvider E C) p ?n ?pub) s
     (\<lambda>t. P t = P s) (\<lambda>key t. outcome (retA (apiObject.extend
         \<lparr>ao_id = om_name key, ao_name = sk_name key, ao_annotations = [], ao_creationTimestamp = om_creationTimestamp key,
          ao_deletionTimestamp = None\<rparr> (apiSSHKey.fields (sk_fingerprint key) (sk_publicKey key)))) t (\<lambda>t. P t = P s)
        (\<lambda>r t. \<exists>k. r = answer_for k \<and> P t = P s @ [k] \<and> sk_project k = req_projectID req \<and>
           sk_name k = ?n \<and> sk_publicKey k = ?pub \<and> fresh_name (sk_project k) (sk_name k) (P s)))"
    using createUserSSHKey_creates[OF ok, unfolded creates_key_def, rule_format, of u p ?n ?pub s] p
    by (elim outcome_mono) (auto intro!: outcome_retA simp: asked_key_def answer_for_def)
qed

section \<open>Deleting\<close>

lemma ssh_Delete_outcome:
  assumes ok: "ssh_ok P E C"
  shows "outcome (kube_ssh_Delete E C u d req) s (\<lambda>t. P t = P s)
    (\<lambda>_ t. P t = filter (\<lambda>k. key_of k \<noteq> ([], sdq_keyID req)) (P s))"
proof -
  have del: "outcome (kDelete c k) s (\<lambda>t. P t = P s) (\<lambda>_ t. P t = filter (\<lambda>x. key_of x \<noteq> k) (P s))"
    if "delete_ok P c" for c k
    using that by (cases "kDelete c k s"; cases "fst (kDelete c k s)") (auto simp: outcome_def dest: delete_okD delete_ok_failD)
  have imp: "outcome (ssh_Delete C i k) s (\<lambda>t. P t = P s) (\<lambda>_ t. P t = filter (\<lambda>x. key_of x \<noteq> ([], k)) (P s))" for i k
    unfolding ssh_Delete_def ssh_impersonated_def
    by (rule outcome_bind_reads[OF reads_liftA]) (auto intro!: del ssh_okD(5)[OF ok])
  show ?thesis
    unfolding ssh_DeleteEndpoint_def deleteUserSSHKey_def
    by (intro outcome_intros outcome_bind_wrap_reads[OF reads_GetProject] outcome_bind_reads[OF me.getter_reads] refl)
      (simp_all add: kube_sshKeyProvider_def kube_privilegedSSHKeyProvider_def ssh_DeleteUnsecured_def imp del[OF ssh_okD(3)[OF ok]])
qed

section \<open>Listing and sequences of requests\<close>

lemma reads_kube_ssh_List: "reads (kube_ssh_List E C u d req)"
  unfolding ssh_ListEndpoint_def by (intro reads_intros)

lemma ssh_List_InrD:
  assumes "api_ok V E" and "ssh_ok P E C" and "kube_ssh_List E C u d (Some req) s = (Inr r, t)"
  shows "r = ConvertInternalSSHKeysToExternal (keys_of (req_projectID req) (P s))"
proof -
  from assms(3) obtain p keys where p: "GetProject (kube_getter E u) (kube_projectProvider E) (kube_privilegedProjectProvider E)
      (req_projectID req) None s = (Inr p, s)" and k: "ssh_List C (Some p) None s = (Inr keys, s)"
    and r: "r = ConvertInternalSSHKeysToExternal keys"
    by (auto simp: ssh_ListEndpoint_def bind_reads reads_wrapA reads_GetProject reads_skp_List wrapA_eq_Inr kube_sshKeyProvider_def
        reads_ssh_List split: if_splits)
  show ?thesis
    using ssh_List_run(1)[OF ssh_okD(1)[OF assms(2)], of p s] k r GetProject_name[OF assms(1) p] by simp
qed

text \<open>Requests of any callers, one after the other, whether they succeed or fail.\<close>

inductive ssh_step :: "('s, 'x) env_scheme \<Rightarrow> 's ssh_clients \<Rightarrow> 's \<Rightarrow> 's \<Rightarrow> bool" for E C where
  create: "kube_ssh_Create E C u d req s = (r, t) \<Longrightarrow> ssh_step E C s t"
| delete: "kube_ssh_Delete E C u d dreq s = (r, t) \<Longrightarrow> ssh_step E C s t"
| list: "kube_ssh_List E C u d lreq s = (r, t) \<Longrightarrow> ssh_step E C s t"

lemma ssh_step_keeps_names:
  assumes "api_ok V E" and "ssh_ok P E C" and "ssh_step E C s t" and "names_unique (P s)"
  shows "names_unique (P t)"
  using assms(3)
proof cases
  case (create u d req r)
  then show ?thesis
    using outcomeD[OF ssh_Create_outcome[OF assms(1,2), of u d req s]] assms(4)
    by (cases r) (auto simp: names_unique_snoc)
next
  case (delete u d req r)
  then show ?thesis
    using outcomeD[OF ssh_Delete_outcome[OF assms(2), of u d req s]] assms(4)
    by (cases r) (auto simp: names_unique_filter)
next
  case (list u d req r)
  then show ?thesis using readsD[OF reads_kube_ssh_List list] assms(4) by simp
qed

text \<open>
  C21: the keys of a project are what its requests made them. A creation that succeeds adds exactly one key, of
  the project of the request, with the name and the public part it asks for, and no key of the project had that
  name before; a deletion that succeeds removes exactly the key with the id it names; a list returns exactly the
  keys of the project and changes nothing. In any sequence of requests, by anybody and whether they succeed
  or fail, no two keys of a project ever get the same name.
\<close>

theorem ssh_keys_of_project:
  assumes "api_ok V E" and "ssh_ok P E C"
  shows "(kube_ssh_Create E C u d req s = (Inr r, t) \<longrightarrow>
      (\<exists>k. r = answer_for k \<and> P t = P s @ [k] \<and> sk_project k = req_projectID req \<and> sk_name k = ao_name (scq_key req) \<and>
         sk_publicKey k = ak_publicKey (scq_key req) \<and> fresh_name (sk_project k) (sk_name k) (P s))) \<and>
    (kube_ssh_Delete E C u d dreq s = (Inr (), t) \<longrightarrow> P t = filter (\<lambda>k. key_of k \<noteq> ([], sdq_keyID dreq)) (P s)) \<and>
    (kube_ssh_List E C u d (Some lreq) s = (Inr rs, t) \<longrightarrow>
      t = s \<and> rs = ConvertInternalSSHKeysToExternal (keys_of (req_projectID lreq) (P s))) \<and>
    ((ssh_step E C)\<^sup>*\<^sup>* s t \<longrightarrow> names_unique (P s) \<longrightarrow> names_unique (P t))"
proof (intro conjI impI)
  show "names_unique (P t)" if "(ssh_step E C)\<^sup>*\<^sup>* s t" "names_unique (P s)"
    using that by (induction rule: rtranclp_induct) (auto intro: ssh_step_keeps_names[OF assms])
qed (rule outcomeD(2)[OF ssh_Create_outcome[OF assms]] outcomeD(2)[OF ssh_Delete_outcome[OF assms(2)]]
    readsD[OF reads_kube_ssh_List] ssh_List_InrD[OF assms]; assumption)+

section \<open>Witness\<close>

text \<open>Bob adds a key to his project; a second one under the same name is refused.\<close>

definition demo_clients :: "(mem \<times> sshkey list) ssh_clients" where
  "demo_clients = \<lparr>skc_client = extra_client, skc_impersonated = (\<lambda>_ _. Inr extra_client)\<rparr>"

abbreviation ssh_env :: "(mem \<times> sshkey list) env" where
  "ssh_env \<equiv> lift_env mem_env"

definition demo_key :: apiSSHKey where
  "demo_key = apiObject.extend
     \<lparr>ao_id = [], ao_name = ''laptop'', ao_annotations = [], ao_creationTimestamp = 0, ao_deletionTimestamp = None\<rparr>
     (apiSSHKey.fields [] ''ssh-rsa AAAA'')"

definition demo_create :: SSHCreateReq where
  "demo_create = \<lparr>req_projectID = ''p1'', scq_key = demo_key\<rparr>"

lemma demo_ssh_ok: "ssh_ok snd ssh_env demo_clients"
  by (simp add: ssh_ok_def demo_clients_def extra_client_ok lift_draw_def split: prod.split)

theorem ssh_keys_of_project_witness:
  "\<exists>r k t t'. kube_ssh_Create ssh_env demo_clients bob False demo_create (world1, []) = (Inr r, t) \<and>
     snd t = [k] \<and> sk_name k = ''laptop'' \<and> sk_project k = ''p1'' \<and>
     (ssh_step ssh_env demo_clients)\<^sup>*\<^sup>* (world1, []) t' \<and> names_unique (snd t') \<and>
     fst (kube_ssh_Create ssh_env demo_clients bob False demo_create t) = Inl UtilAlreadyExists"
proof -
  note fact = ssh_keys_of_project[OF lift_api_ok[OF mem_api_ok] demo_ssh_ok]
  have twice: "case kube_ssh_Create ssh_env demo_clients bob False demo_create (world1, []) of (Inl _, _) \<Rightarrow> False
      | (Inr r, t) \<Rightarrow> fst (kube_ssh_Create ssh_env demo_clients bob False demo_create t) = Inl UtilAlreadyExists" by code_simp
  then obtain r t where run: "kube_ssh_Create ssh_env demo_clients bob False demo_create (world1, []) = (Inr r, t)"
    and again: "fst (kube_ssh_Create ssh_env demo_clients bob False demo_create t) = Inl UtilAlreadyExists"
    by (auto split: prod.splits sum.splits)
  have req: "req_projectID demo_create = ''p1''" "ao_name (scq_key demo_create) = ''laptop''" by code_simp+
  obtain t' where t': "kube_ssh_Create ssh_env demo_clients bob False demo_create t = (Inl UtilAlreadyExists, t')"
    using again by (metis prod.collapse)
  have steps: "(ssh_step ssh_env demo_clients)\<^sup>*\<^sup>* (world1, []) t'"
    by (rule rtranclp.rtrancl_into_rtrancl[OF r_into_rtranclp[of "ssh_step ssh_env demo_clients", OF ssh_step.create[OF run]]
          ssh_step.create[OF t']])
  have "names_unique (snd (world1, [] :: sshkey list))" by (simp add: names_unique_def)
  with conjunct2[OF conjunct2[OF conjunct2[OF fact]], THEN mp, OF steps] have "names_unique (snd t')" by blast
  moreover from conjunct1[OF fact, THEN mp, OF run]
  obtain k where "snd t = [k]" "sk_name k = ''laptop''" "sk_project k = ''p1''" by (auto simp: req)
  ultimately show ?thesis using run steps again by blast
qed

end
