(* ===== verification/Group_Bindings.thy ===== *)
theory Group_Bindings
  imports Common_Handlers
begin

text \<open>
  Bindings of groups of the identity provider to projects: the provider
  (\<^verbatim>\<open>pkg/ee/group-project-binding/provider/provider.go\<close>) and the endpoints
  (\<^verbatim>\<open>pkg/ee/group-project-binding/handler/handler.go\<close>) of the enterprise edition.
\<close>

section \<open>The provider\<close>

record 's GroupProjectBindingProvider =
  gbp_List :: "UserInfo option \<Rightarrow> string \<Rightarrow> ('s, gpb list) act"
  gbp_Get :: "UserInfo option \<Rightarrow> string \<Rightarrow> ('s, gpb) act"
  gbp_Create :: "UserInfo option \<Rightarrow> gpb \<Rightarrow> ('s, gpb) act"
  gbp_Patch :: "UserInfo option \<Rightarrow> gpb \<Rightarrow> gpb \<Rightarrow> ('s, gpb) act"
  gbp_Delete :: "UserInfo option \<Rightarrow> string \<Rightarrow> ('s, unit) act"

text \<open>
  \<^verbatim>\<open>getImpersonatedClient\<close>, and the choice between it and the privileged client that every operation
  makes. The Go client writes the server's answer into the object it is given; the actions return it.
\<close>

definition getImpersonatedClient :: "('s, 'x) env_scheme \<Rightarrow> UserInfo option \<Rightarrow> ('s, 's clientset) act" where
  "getImpersonatedClient E userInfo =
     (case userInfo of
        None \<Rightarrow> failA (Plain ''a user is missing but required'')
      | Some userInfo \<Rightarrow> liftA (impersonated E (ui_email userInfo) (ui_groups userInfo)))"

definition gpb_client :: "('s, 'x) env_scheme \<Rightarrow> UserInfo \<Rightarrow> ('s, (gpb, 's) kclient) act" where
  "gpb_client E userInfo =
     (if \<not> ui_isAdmin userInfo
      then bindA (getImpersonatedClient E (Some userInfo)) (\<lambda>c. retA (cs_gpbs c))
      else retA (cs_gpbs (privileged E)))"

definition gpb_Get :: "('s, 'x) env_scheme \<Rightarrow> UserInfo option \<Rightarrow> string \<Rightarrow> ('s, gpb) act" where
  "gpb_Get E userInfo name =
     (case userInfo of
        None \<Rightarrow> failA (Plain ''a user is missing but required'')
      | Some userInfo \<Rightarrow> bindA (gpb_client E userInfo) (\<lambda>client. getA client ([], name)))"

definition gpb_List :: "('s, 'x) env_scheme \<Rightarrow> UserInfo option \<Rightarrow> string \<Rightarrow> ('s, gpb list) act" where
  "gpb_List E userInfo projectID =
     (case userInfo of
        None \<Rightarrow> failA (Plain ''a user is missing but required'')
      | Some info \<Rightarrow>
          bindA (wrapA Wrapped (liftA (newRequirement E (projectIDLabelKey E) projectID))) (\<lambda>projectReq.
          bindA (listA (cs_gpbs (privileged E)) projectReq) (\<lambda>items.
            case items of
              [] \<Rightarrow> retA []
            | first # _ \<Rightarrow>
                if ui_isAdmin info then retA items
                else bindA (gpb_Get E userInfo (om_name first)) (\<lambda>_. retA items))))"

definition gpb_Create :: "('s, 'x) env_scheme \<Rightarrow> UserInfo option \<Rightarrow> gpb \<Rightarrow> ('s, gpb) act" where
  "gpb_Create E userInfo binding =
     (case userInfo of
        None \<Rightarrow> failA (Plain ''a user is missing but required'')
      | Some userInfo \<Rightarrow> bindA (gpb_client E userInfo) (\<lambda>client. kCreate client binding))"

text \<open>
  A merge patch from the object that was just read sends the fields that differ. No other request comes
  between, so the server ends with the new object: the patch is an update to it.
\<close>

definition gpb_Patch :: "('s, 'x) env_scheme \<Rightarrow> UserInfo option \<Rightarrow> gpb \<Rightarrow> gpb \<Rightarrow> ('s, gpb) act" where
  "gpb_Patch E userInfo oldBinding newBinding =
     (case userInfo of
        None \<Rightarrow> failA (Plain ''a user is missing but required'')
      | Some userInfo \<Rightarrow> bindA (gpb_client E userInfo) (\<lambda>client. kUpdate client newBinding))"

definition gpb_Delete :: "('s, 'x) env_scheme \<Rightarrow> UserInfo option \<Rightarrow> string \<Rightarrow> ('s, unit) act" where
  "gpb_Delete E userInfo name =
     (case userInfo of
        None \<Rightarrow> failA (Plain ''a user is missing but required'')
      | Some info \<Rightarrow>
          bindA (gpb_Get E userInfo name) (\<lambda>binding.
          bindA (gpb_client E info) (\<lambda>client. kDelete client (key_of binding))))"

definition NewGroupProjectBindingProvider :: "('s, 'x) env_scheme \<Rightarrow> 's GroupProjectBindingProvider" where
  "NewGroupProjectBindingProvider E =
     \<lparr>gbp_List = gpb_List E, gbp_Get = gpb_Get E, gbp_Create = gpb_Create E, gbp_Patch = gpb_Patch E,
      gbp_Delete = gpb_Delete E\<rparr>"

section \<open>Requests\<close>

record apiGroupProjectBinding =
  agb_name :: string
  agb_group :: string
  agb_projectID :: string
  agb_role :: string

record groupProjectBindingBody =
  gbb_role :: string
  gbb_group :: string

record groupProjectBindingReq = ProjectReq +
  gbr_bindingName :: string

record createGroupProjectBindingReq = ProjectReq +
  gbc_body :: groupProjectBindingBody

record patchGroupProjectBindingReq = groupProjectBindingReq +
  gbq_body :: groupProjectBindingBody

definition decodeBindingName :: "http_request \<Rightarrow> string result" where
  "decodeBindingName r =
     (let bindingName = mux_var r ''binding_name'' in
      if bindingName = [] then Inl UtilBadRequest else Inr bindingName)"

definition DecodeGroupProjectBindingReq :: "http_request \<Rightarrow> groupProjectBindingReq result" where
  "DecodeGroupProjectBindingReq r =
     (case DecodeProjectRequest r of
        Inl err \<Rightarrow> Inl err
      | Inr projectReq \<Rightarrow>
          (case decodeBindingName r of
             Inl err \<Rightarrow> Inl err
           | Inr bindingName \<Rightarrow> Inr \<lparr>req_projectID = req_projectID projectReq, gbr_bindingName = bindingName\<rparr>))"

text \<open>\<open>body\<close> is the outcome of the JSON decoder.\<close>

definition DecodeCreateGroupProjectBindingReq ::
  "http_request \<Rightarrow> groupProjectBindingBody result \<Rightarrow> createGroupProjectBindingReq result" where
  "DecodeCreateGroupProjectBindingReq r body =
     (case DecodeProjectRequest r of
        Inl err \<Rightarrow> Inl err
      | Inr projectReq \<Rightarrow>
          (case body of
             Inl err \<Rightarrow> Inl err
           | Inr b \<Rightarrow> Inr \<lparr>req_projectID = req_projectID projectReq, gbc_body = b\<rparr>))"

definition DecodePatchGroupProjectBindingReq ::
  "http_request \<Rightarrow> groupProjectBindingBody result \<Rightarrow> patchGroupProjectBindingReq result" where
  "DecodePatchGroupProjectBindingReq r body =
     (case DecodeProjectRequest r of
        Inl err \<Rightarrow> Inl err
      | Inr projectReq \<Rightarrow>
          (case decodeBindingName r of
             Inl err \<Rightarrow> Inl err
           | Inr bindingName \<Rightarrow>
               (case body of
                  Inl err \<Rightarrow> Inl err
                | Inr b \<Rightarrow> Inr \<lparr>req_projectID = req_projectID projectReq, gbr_bindingName = bindingName, gbq_body = b\<rparr>)))"

definition validateRole :: "string \<Rightarrow> unit result" where
  "validateRole role =
     (if role \<notin> {ViewersRole, EditorsRole, OwnersRole} then Inl UtilBadRequest else Inr ())"

definition groupProjectBindingBody_Validate :: "groupProjectBindingBody \<Rightarrow> unit result" where
  "groupProjectBindingBody_Validate body =
     (if gbb_group body = [] then Inl UtilBadRequest else validateRole (gbb_role body))"

section \<open>Endpoints\<close>

definition getUserInfo :: "'s UserInfoGetter \<Rightarrow> string \<Rightarrow> ('s, UserInfo) act" where
  "getUserInfo userInfoGetter projectID =
     bindA (userInfoGetter []) (\<lambda>userInfo.
       if \<not> ui_isAdmin userInfo then userInfoGetter projectID else retA userInfo)"

definition api_binding :: "gpb \<Rightarrow> apiGroupProjectBinding" where
  "api_binding binding = \<lparr>agb_name = om_name binding, agb_group = gpb_group binding,
     agb_projectID = gpb_projectID binding, agb_role = gpb_role binding\<rparr>"

definition ListGroupProjectBindings ::
  "'s UserInfoGetter \<Rightarrow> 's ProjectProvider \<Rightarrow> 's PrivilegedProjectProvider \<Rightarrow> 's GroupProjectBindingProvider \<Rightarrow>
     'a ProjectReq_scheme \<Rightarrow> ('s, apiGroupProjectBinding list) act" where
  "ListGroupProjectBindings userInfoGetter projectProvider privilegedProjectProvider bindingProvider req =
     (if req_projectID req = [] then failA UtilBadRequest
      else
        bindA (httpA (GetProject userInfoGetter projectProvider privilegedProjectProvider (req_projectID req) None)) (\<lambda>kubermaticProject.
        bindA (httpA (getUserInfo userInfoGetter (om_name kubermaticProject))) (\<lambda>userInfo.
        bindA (httpA (gbp_List bindingProvider (Some userInfo) (om_name kubermaticProject))) (\<lambda>bindingList.
          retA (map api_binding bindingList)))))"

definition GetGroupProjectBinding ::
  "'s UserInfoGetter \<Rightarrow> 's ProjectProvider \<Rightarrow> 's PrivilegedProjectProvider \<Rightarrow> 's GroupProjectBindingProvider \<Rightarrow>
     groupProjectBindingReq \<Rightarrow> ('s, apiGroupProjectBinding) act" where
  "GetGroupProjectBinding userInfoGetter projectProvider privilegedProjectProvider bindingProvider req =
     bindA (httpA (GetProject userInfoGetter projectProvider privilegedProjectProvider (req_projectID req) None)) (\<lambda>kubermaticProject.
     bindA (httpA (getUserInfo userInfoGetter (om_name kubermaticProject))) (\<lambda>userInfo.
     bindA (httpA (gbp_Get bindingProvider (Some userInfo) (gbr_bindingName req))) (\<lambda>binding.
       retA (api_binding binding))))"

definition CreateGroupProjectBinding ::
  "('s, 'x) env_scheme \<Rightarrow> 's UserInfoGetter \<Rightarrow> 's ProjectProvider \<Rightarrow> 's PrivilegedProjectProvider \<Rightarrow>
     's GroupProjectBindingProvider \<Rightarrow> createGroupProjectBindingReq \<Rightarrow> ('s, apiGroupProjectBinding) act" where
  "CreateGroupProjectBinding E userInfoGetter projectProvider privilegedProjectProvider bindingProvider req =
     (case groupProjectBindingBody_Validate (gbc_body req) of
        Inl _ \<Rightarrow> failA UtilBadRequest
      | Inr _ \<Rightarrow>
          bindA (httpA (GetProject userInfoGetter projectProvider privilegedProjectProvider (req_projectID req) None)) (\<lambda>kubermaticProject.
          bindA (getUserInfo userInfoGetter (om_name kubermaticProject)) (\<lambda>userInfo.
          bindA (randA E) (\<lambda>r.
            let bindingName = om_name kubermaticProject @ ''-'' @ r in
            bindA (httpA (gbp_Create bindingProvider (Some userInfo)
                (objmeta.extend (blank_meta\<lparr>om_name := bindingName\<rparr>)
                   (gpb.fields (req_projectID req) (gbb_group (gbc_body req)) (gbb_role (gbc_body req)))))) (\<lambda>_.
              retA \<lparr>agb_name = bindingName, agb_group = gbb_group (gbc_body req), agb_projectID = req_projectID req,
                    agb_role = gbb_role (gbc_body req)\<rparr>)))))"

definition DeleteGroupProjectBinding ::
  "'s UserInfoGetter \<Rightarrow> 's ProjectProvider \<Rightarrow> 's PrivilegedProjectProvider \<Rightarrow> 's GroupProjectBindingProvider \<Rightarrow>
     groupProjectBindingReq \<Rightarrow> ('s, unit) act" where
  "DeleteGroupProjectBinding userInfoGetter projectProvider privilegedProjectProvider bindingProvider req =
     bindA (httpA (GetProject userInfoGetter projectProvider privilegedProjectProvider (req_projectID req) None)) (\<lambda>kubermaticProject.
     bindA (httpA (getUserInfo userInfoGetter (om_name kubermaticProject))) (\<lambda>userInfo.
       httpA (gbp_Delete bindingProvider (Some userInfo) (gbr_bindingName req))))"

definition PatchGroupProjectBinding ::
  "'s UserInfoGetter \<Rightarrow> 's ProjectProvider \<Rightarrow> 's PrivilegedProjectProvider \<Rightarrow> 's GroupProjectBindingProvider \<Rightarrow>
     patchGroupProjectBindingReq \<Rightarrow> ('s, apiGroupProjectBinding) act" where
  "PatchGroupProjectBinding userInfoGetter projectProvider privilegedProjectProvider bindingProvider req =
     (case groupProjectBindingBody_Validate (gbq_body req) of
        Inl _ \<Rightarrow> failA UtilBadRequest
      | Inr _ \<Rightarrow>
          bindA (httpA (GetProject userInfoGetter projectProvider privilegedProjectProvider (req_projectID req) None)) (\<lambda>kubermaticProject.
          bindA (httpA (getUserInfo userInfoGetter (om_name kubermaticProject))) (\<lambda>userInfo.
          bindA (httpA (gbp_Get bindingProvider (Some userInfo) (gbr_bindingName req))) (\<lambda>originalBinding.
            let newBinding = originalBinding\<lparr>gpb_group := gbb_group (gbq_body req), gpb_role := gbb_role (gbq_body req)\<rparr> in
            bindA (httpA (gbp_Patch bindingProvider (Some userInfo) originalBinding newBinding)) (\<lambda>newBinding.
              retA \<lparr>agb_name = om_name originalBinding, agb_group = gpb_group newBinding,
                    agb_projectID = om_name kubermaticProject, agb_role = gpb_role newBinding\<rparr>)))))"

end
