(* ===== verification/Group_Binding_Properties.thy ===== *)
theory Group_Binding_Properties
  imports Group_Bindings Access_Control Mem_Extend
begin

text \<open>
  What a group binding does: from its creation until its deletion the members of the group are admitted to
  the project, and nothing else changes.
\<close>

section \<open>The provider\<close>

lemma reads_gpb_client [reads_intros]: "reads (gpb_client E i)"
  unfolding gpb_client_def getImpersonatedClient_def by (intro reads_intros)

lemma reads_gpb_Get [reads_intros]: "reads (gpb_Get E i n)"
  unfolding gpb_Get_def by (intro reads_intros)

lemma reads_getUserInfo [reads_intros]: "reads (getUserInfo (kube_getter E u) pid)"
  unfolding getUserInfo_def by (intro reads_intros me.getter_reads)

lemma gpb_client_writes:
  assumes "api_ok V E" and "gpb_client E i s = (Inr c, t)"
  shows "writes_ok V same_object st_gpbs st_gpbs_update c"
  using assms(2) clientset_okD(3)[OF api_ok_privileged[OF assms(1)]] clientset_okD(3)[OF api_ok_impersonated[OF assms(1)]]
  by (auto simp: gpb_client_def getImpersonatedClient_def bindA_eq_Inr split: if_splits)

lemma gpb_Get_stored:
  assumes "api_ok V E" and "gpb_Get E (Some i) n s = (Inr b, t)"
  shows "b \<in> set (st_gpbs (V s)) \<and> key_of b = ([], n)"
proof -
  from assms(2) obtain c where "gpb_client E i s = (Inr c, s)" and "kGet c ([], n) s = Inr b"
    by (auto simp: gpb_Get_def bind_reads[OF reads_gpb_client])
  then show ?thesis using get_stored[OF gpb_client_writes[OF assms(1)]] by blast
qed

lemma gpb_Create_outcome:
  assumes "api_ok V E"
  shows "outcome (gpb_Create E (Some i) b) s (\<lambda>t. V t = V s)
    (\<lambda>b' t. same_object b' b \<and> V t = st_gpbs_update (\<lambda>xs. xs @ [b']) (V s))"
  unfolding gpb_Create_def option.case
  by (rule outcome_bind_reads[OF reads_gpb_client], rule refl, rule outcome_kCreate[OF gpb_client_writes[OF assms]])

lemma gpb_Patch_outcome:
  assumes "api_ok V E"
  shows "outcome (gpb_Patch E (Some i) old b) s (\<lambda>t. V t = V s)
    (\<lambda>b' t. same_object b' b \<and> V t = st_gpbs_update (map (\<lambda>y. if key_of y = key_of b then b' else y)) (V s))"
  unfolding gpb_Patch_def option.case
  by (rule outcome_bind_reads[OF reads_gpb_client], rule refl, rule outcome_kUpdate[OF gpb_client_writes[OF assms]])

lemma gpb_Delete_outcome:
  assumes "api_ok V E"
  shows "outcome (gpb_Delete E (Some i) n) s (\<lambda>t. V t = V s)
    (\<lambda>_ t. V t = st_gpbs_update (filter (\<lambda>y. key_of y \<noteq> ([], n))) (V s))"
  unfolding gpb_Delete_def option.case
proof (intro outcome_bind_reads[OF reads_gpb_Get] outcome_bind_reads[OF reads_gpb_client] refl)
  fix b c
  assume b: "gpb_Get E (Some i) n s = (Inr b, s)" and c: "gpb_client E i s = (Inr c, s)"
  show "outcome (kDelete c (key_of b)) s (\<lambda>t. V t = V s) (\<lambda>_ t. V t = st_gpbs_update (filter (\<lambda>y. key_of y \<noteq> ([], n))) (V s))"
    using outcome_kDelete[OF gpb_client_writes[OF assms c]] gpb_Get_stored[OF assms b] by simp
qed

section \<open>The endpoints\<close>

abbreviation kube_gpb_Create where
  "kube_gpb_Create E u \<equiv> CreateGroupProjectBinding E (kube_getter E u) (kube_projectProvider E)
     (kube_privilegedProjectProvider E) (NewGroupProjectBindingProvider E)"

abbreviation kube_gpb_Patch where
  "kube_gpb_Patch E u \<equiv> PatchGroupProjectBinding (kube_getter E u) (kube_projectProvider E)
     (kube_privilegedProjectProvider E) (NewGroupProjectBindingProvider E)"

abbreviation kube_gpb_Delete where
  "kube_gpb_Delete E u \<equiv> DeleteGroupProjectBinding (kube_getter E u) (kube_projectProvider E)
     (kube_privilegedProjectProvider E) (NewGroupProjectBindingProvider E)"

text \<open>A binding with what a request asks for: the group, and one of the three roles.\<close>

definition asked_binding :: "groupProjectBindingBody \<Rightarrow> string \<Rightarrow> gpb \<Rightarrow> bool" where
  "asked_binding body pid b \<longleftrightarrow> gpb_group b = gbb_group body \<and> gpb_group b \<noteq> [] \<and> gpb_role b = gbb_role body \<and>
     gpb_role b \<in> {ViewersRole, EditorsRole, OwnersRole} \<and> gpb_projectID b = pid"

lemma same_gpb:
  "same_object (a :: gpb) b \<Longrightarrow> gpb_group a = gpb_group b \<and> gpb_role a = gpb_role b \<and> gpb_projectID a = gpb_projectID b \<and> key_of a = key_of b"
  by (cases a; cases b) (simp add: same_object_def)

lemma body_valid:
  "groupProjectBindingBody_Validate body = Inr v \<Longrightarrow> gbb_group body \<noteq> [] \<and> gbb_role body \<in> {ViewersRole, EditorsRole, OwnersRole}"
  by (auto simp: groupProjectBindingBody_Validate_def validateRole_def split: if_splits)

lemma gpb_CreateEndpoint_outcome:
  assumes api: "api_ok V E"
  shows "outcome (kube_gpb_Create E u req) s (\<lambda>t. V t = V s)
    (\<lambda>r t. \<exists>b. V t = st_gpbs_update (\<lambda>xs. xs @ [b]) (V s) \<and> asked_binding (gbc_body req) (req_projectID req) b \<and> r = api_binding b)"
  unfolding CreateGroupProjectBinding_def
proof (intro outcome_intros outcome_bind_wrap_reads[OF reads_GetProject] outcome_bind_reads[OF reads_getUserInfo] refl)
  fix v p i
  assume valid: "groupProjectBindingBody_Validate (gbc_body req) = Inr v"
  let ?body = "gbc_body req"
  let ?b = "\<lambda>n. objmeta.extend (blank_meta\<lparr>om_name := n\<rparr>) (gpb.fields (req_projectID req) (gbb_group ?body) (gbb_role ?body))"
  have step: "outcome (bindA (httpA (gbp_Create (NewGroupProjectBindingProvider E) (Some i) (?b n)))
      (\<lambda>_. retA \<lparr>agb_name = n, agb_group = gbb_group ?body, agb_projectID = req_projectID req, agb_role = gbb_role ?body\<rparr>)) t
      (\<lambda>t. V t = V s) (\<lambda>r t. \<exists>b. V t = st_gpbs_update (\<lambda>xs. xs @ [b]) (V s) \<and> asked_binding ?body (req_projectID req) b \<and> r = api_binding b)"
    if "V t = V s" for n t
    using that body_valid[OF valid]
    by (intro outcome_bindA outcome_wrapA, simp add: NewGroupProjectBindingProvider_def)
      (rule outcome_mono[OF gpb_Create_outcome[OF api]],
       auto dest!: same_gpb intro!: outcome_retA exI simp: asked_binding_def api_binding_def key_of_def objmeta.defs gpb.defs blank_meta_def)
  show "outcome (bindA (randA E) (\<lambda>r. let bindingName = om_name p @ ''-'' @ r in
      bindA (httpA (gbp_Create (NewGroupProjectBindingProvider E) (Some i) (?b bindingName)))
        (\<lambda>_. retA \<lparr>agb_name = bindingName, agb_group = gbb_group ?body, agb_projectID = req_projectID req, agb_role = gbb_role ?body\<rparr>))) s
      (\<lambda>t. V t = V s) (\<lambda>r t. \<exists>b. V t = st_gpbs_update (\<lambda>xs. xs @ [b]) (V s) \<and> asked_binding ?body (req_projectID req) b \<and> r = api_binding b)"
    unfolding Let_def by (rule outcome_bindA, rule outcome_mono[OF outcome_randA[OF api]]) (auto intro: step)
qed

lemma gpb_DeleteEndpoint_outcome:
  assumes api: "api_ok V E"
  shows "outcome (kube_gpb_Delete E u req) s (\<lambda>t. V t = V s)
    (\<lambda>_ t. V t = st_gpbs_update (filter (\<lambda>b. key_of b \<noteq> ([], gbr_bindingName req))) (V s))"
  unfolding DeleteGroupProjectBinding_def
  by (intro outcome_wrapA outcome_bind_wrap_reads[OF reads_GetProject] outcome_bind_wrap_reads[OF reads_getUserInfo] refl)
    (simp add: NewGroupProjectBindingProvider_def gpb_Delete_outcome[OF api])

text \<open>
  A patch: the named binding is replaced by one with the group and the role of the request. It keeps its own
  project, whichever the request is for; the answer shows the one of the request.
\<close>

definition patched :: "patchGroupProjectBindingReq \<Rightarrow> store \<Rightarrow> apiGroupProjectBinding \<Rightarrow> store \<Rightarrow> bool" where
  "patched req st r st' \<longleftrightarrow>
     (\<exists>old b. old \<in> set (st_gpbs st) \<and> key_of old = ([], gbr_bindingName req) \<and> key_of b = key_of old \<and>
       st' = st_gpbs_update (map (\<lambda>y. if key_of y = key_of old then b else y)) st \<and>
       asked_binding (gbq_body req) (gpb_projectID old) b \<and> r = (api_binding b)\<lparr>agb_projectID := req_projectID req\<rparr>)"

lemma patchedI:
  assumes "old \<in> set (st_gpbs st)" and "key_of old = ([], gbr_bindingName req)"
    and "groupProjectBindingBody_Validate (gbq_body req) = Inr v"
    and "same_object b (old\<lparr>gpb_group := gbb_group (gbq_body req), gpb_role := gbb_role (gbq_body req)\<rparr>)"
    and "st' = st_gpbs_update (map (\<lambda>y. if key_of y = key_of old then b else y)) st"
  shows "patched req st \<lparr>agb_name = om_name old, agb_group = gpb_group b, agb_projectID = req_projectID req, agb_role = gpb_role b\<rparr> st'"
  unfolding patched_def
  by (rule exI[of _ old], rule exI[of _ b]) (use assms same_gpb[OF assms(4)] body_valid[OF assms(3)] in
    \<open>simp add: asked_binding_def api_binding_def key_of_def\<close>)

lemma gpb_PatchEndpoint_outcome:
  assumes api: "api_ok V E"
  shows "outcome (kube_gpb_Patch E u req) s (\<lambda>t. V t = V s) (\<lambda>r t. patched req (V s) r (V t))"
proof -
  have fields: "gbp_Get (NewGroupProjectBindingProvider E) = gpb_Get E" "gbp_Patch (NewGroupProjectBindingProvider E) = gpb_Patch E"
    by (simp_all add: NewGroupProjectBindingProvider_def)
  show ?thesis
    unfolding PatchGroupProjectBinding_def Let_def fields
  proof (intro outcome_intros outcome_bind_wrap_reads[OF reads_GetProject] outcome_bind_wrap_reads[OF reads_getUserInfo]
      outcome_bind_wrap_reads[OF reads_gpb_Get] outcome_bindA[of "httpA (gpb_Patch E i old b)" for i old b] refl)
    fix v p i old
    let ?body = "gbq_body req"
    assume valid: "groupProjectBindingBody_Validate ?body = Inr v" and old: "gpb_Get E (Some i) (gbr_bindingName req) s = (Inr old, s)"
      and "GetProject (kube_getter E u) (kube_projectProvider E) (kube_privilegedProjectProvider E) (req_projectID req) None s = (Inr p, s)"
    then have p: "om_name p = req_projectID req" using GetProject_name[OF api] by blast
    have k: "key_of (old\<lparr>gpb_group := g, gpb_role := r\<rparr>) = key_of old" for g r by (simp add: key_of_def)
    show "outcome (gpb_Patch E (Some i) old (old\<lparr>gpb_group := gbb_group ?body, gpb_role := gbb_role ?body\<rparr>)) s (\<lambda>t. V t = V s)
      (\<lambda>new t. outcome (retA \<lparr>agb_name = om_name old, agb_group = gpb_group new, agb_projectID = om_name p, agb_role = gpb_role new\<rparr>) t
        (\<lambda>t. V t = V s) (\<lambda>r t. patched req (V s) r (V t)))"
      using gpb_Get_stored[OF api old] valid p
      by (intro outcome_mono[OF gpb_Patch_outcome[OF api]] outcome_retA) (auto simp: k intro!: patchedI)
  qed
qed

section \<open>Admission\<close>

lemma MapUserToGroups_granted:
  assumes "api_ok V E"
  shows "MapUserToGroups E w pid t =
    (if granted_groups (st_upbs (V t)) (st_gpbs (V t)) w pid = {} then Inl NewForbidden
     else Inr (granted_groups (st_upbs (V t)) (st_gpbs (V t)) w pid), t)"
  by (rule MapUserToGroups_run) (simp_all add: api_ok_lists[OF assms])

lemma granted_by_binding:
  "b \<in> set gs \<Longrightarrow> gpb_group b \<in> set (us_groups w) \<Longrightarrow> gpb_projectID b = pid \<Longrightarrow>
     suffixed (gpb_group b) pid \<in> granted_groups ms gs w pid"
  unfolding granted_groups_def by blast

text \<open>A user who owes his admission to no other grant.\<close>

definition only_by_group :: "store \<Rightarrow> user \<Rightarrow> string \<Rightarrow> okey \<Rightarrow> bool" where
  "only_by_group st w pid k \<longleftrightarrow> \<not> us_isAdmin w \<and> \<not> us_isGlobalViewer w \<and> own_binding (st_upbs st) (us_email w) pid = [] \<and>
     (\<forall>b \<in> set (st_gpbs st). gpb_group b \<in> set (us_groups w) \<and> gpb_projectID b = pid \<longrightarrow> key_of b = k)"

lemma not_granted_without:
  "only_by_group st w pid k \<Longrightarrow>
     granted_groups (st_upbs st) (filter (\<lambda>b. key_of b \<noteq> k) (st_gpbs st)) w pid = {}"
  unfolding only_by_group_def granted_groups_def by auto

text \<open>
  C22: a group binding admits the members of its group, from its creation to its deletion. Creating one adds
  exactly one binding, of the project of the request, with the group and one of the three roles it asks for, and
  from then on every user in the group is mapped to the group in this project. Patching changes the group and the
  role of the named binding and nothing else; it keeps its own project even if the request is for another one,
  which is the one the answer shows. Deleting removes exactly the named binding, and who was admitted by it
  alone is forbidden.
\<close>

theorem group_binding_admits:
  assumes api: "api_ok V E"
  shows "(kube_gpb_Create E u req s = (Inr r, t) \<longrightarrow>
      (\<exists>b. V t = st_gpbs_update (\<lambda>xs. xs @ [b]) (V s) \<and> asked_binding (gbc_body req) (req_projectID req) b \<and> r = api_binding b \<and>
        (\<forall>w. gpb_group b \<in> set (us_groups w) \<longrightarrow>
           (\<exists>G. MapUserToGroups E w (req_projectID req) t = (Inr G, t) \<and> suffixed (gpb_group b) (req_projectID req) \<in> G)))) \<and>
    (kube_gpb_Patch E u preq s = (Inr r, t) \<longrightarrow> patched preq (V s) r (V t)) \<and>
    (kube_gpb_Delete E u dreq s = (Inr (), t) \<longrightarrow>
      V t = st_gpbs_update (filter (\<lambda>b. key_of b \<noteq> ([], gbr_bindingName dreq))) (V s) \<and>
      (\<forall>w pid. only_by_group (V s) w pid ([], gbr_bindingName dreq) \<longrightarrow> MapUserToGroups E w pid t = (Inl NewForbidden, t)))"
proof (intro conjI impI)
  assume "kube_gpb_Create E u req s = (Inr r, t)"
  from outcomeD(2)[OF gpb_CreateEndpoint_outcome[OF api] this]
  obtain b where b: "V t = st_gpbs_update (\<lambda>xs. xs @ [b]) (V s)" "asked_binding (gbc_body req) (req_projectID req) b" "r = api_binding b"
    by blast
  have "\<exists>G. MapUserToGroups E w (req_projectID req) t = (Inr G, t) \<and> suffixed (gpb_group b) (req_projectID req) \<in> G"
    if "gpb_group b \<in> set (us_groups w)" for w
    using granted_by_binding[of b "st_gpbs (V t)" w "req_projectID req" "st_upbs (V t)"] that b
    by (auto simp: MapUserToGroups_granted[OF api] asked_binding_def)
  with b show "\<exists>b. V t = st_gpbs_update (\<lambda>xs. xs @ [b]) (V s) \<and> asked_binding (gbc_body req) (req_projectID req) b \<and> r = api_binding b \<and>
        (\<forall>w. gpb_group b \<in> set (us_groups w) \<longrightarrow>
           (\<exists>G. MapUserToGroups E w (req_projectID req) t = (Inr G, t) \<and> suffixed (gpb_group b) (req_projectID req) \<in> G))"
    by blast
next
  show "patched preq (V s) r (V t)" if "kube_gpb_Patch E u preq s = (Inr r, t)"
    by (rule outcomeD(2)[OF gpb_PatchEndpoint_outcome[OF api] that])
next
  assume "kube_gpb_Delete E u dreq s = (Inr (), t)"
  from outcomeD(2)[OF gpb_DeleteEndpoint_outcome[OF api] this]
  show V: "V t = st_gpbs_update (filter (\<lambda>b. key_of b \<noteq> ([], gbr_bindingName dreq))) (V s)" .
  show "\<forall>w pid. only_by_group (V s) w pid ([], gbr_bindingName dreq) \<longrightarrow> MapUserToGroups E w pid t = (Inl NewForbidden, t)"
    by (auto simp: MapUserToGroups_granted[OF api] V not_granted_without)
qed

section \<open>Witness\<close>

text \<open>The administrator binds the group qa to the project p1; a member of it, who was forbidden before, is admitted.\<close>

definition qa_request :: createGroupProjectBindingReq where
  "qa_request = \<lparr>req_projectID = ''p1'', gbc_body = \<lparr>gbb_role = ''editors'', gbb_group = ''qa''\<rparr>\<rparr>"

definition qa_user :: user where
  "qa_user = zero_user\<lparr>us_email := ''quinn@acme.com'', us_groups := [''qa'']\<rparr>"

theorem group_binding_admits_witness:
  "fst (MapUserToGroups mem_env qa_user ''p1'' world1) = Inl NewForbidden \<and>
   (\<exists>r t G. kube_gpb_Create mem_env root_user qa_request world1 = (Inr r, t) \<and>
      MapUserToGroups mem_env qa_user ''p1'' t = (Inr G, t) \<and> suffixed ''qa'' ''p1'' \<in> G)"
proof -
  have before: "fst (MapUserToGroups mem_env qa_user ''p1'' world1) = Inl NewForbidden" by code_simp
  have "\<not> isl (fst (kube_gpb_Create mem_env root_user qa_request world1))" by code_simp
  from success_obtain[OF this] obtain r t where run: "kube_gpb_Create mem_env root_user qa_request world1 = (Inr r, t)" by blast
  have req: "req_projectID qa_request = ''p1''" "gbb_group (gbc_body qa_request) = ''qa''" "us_groups qa_user = [''qa'']"
    by (simp_all add: qa_request_def qa_user_def)
  from conjunct1[OF group_binding_admits[OF mem_api_ok], THEN mp, OF run]
  obtain b where b: "asked_binding (gbc_body qa_request) ''p1'' b"
    and w: "\<forall>w. gpb_group b \<in> set (us_groups w) \<longrightarrow>
      (\<exists>G. MapUserToGroups mem_env w ''p1'' t = (Inr G, t) \<and> suffixed (gpb_group b) ''p1'' \<in> G)"
    unfolding req by blast
  have "gpb_group b = ''qa''" using b req by (simp add: asked_binding_def)
  with w[rule_format, of qa_user] req obtain G where "MapUserToGroups mem_env qa_user ''p1'' t = (Inr G, t)" "suffixed ''qa'' ''p1'' \<in> G"
    by auto
  with before run show ?thesis by blast
qed

end
