(* ===== verification/Cluster_Provider.thy ===== *)
theory Cluster_Provider
  imports Project_Handlers
begin

text \<open>
  User clusters: the provider of \<^verbatim>\<open>pkg/provider/kubernetes/cluster.go\<close> and the lookup of a cluster for a caller
  (\<^verbatim>\<open>GetCluster\<close> of \<^verbatim>\<open>pkg/handler/common/cluster.go\<close>, \<^verbatim>\<open>GetClusterClient\<close> of \<^verbatim>\<open>pkg/handler/v1/common/common.go\<close>).
\<close>

section \<open>What lies behind the provider\<close>

text \<open>The objects of a user cluster that the handlers touch, and a client for them.\<close>

record rbac_subject =
  sj_kind :: string
  sj_apiGroup :: string
  sj_name :: string
  sj_namespace :: string

record rbac_role = objmeta +
  rl_rules :: "string list"

text \<open>Role bindings and cluster role bindings; the latter have no namespace.\<close>

record rbac_binding = objmeta +
  rb_roleRef :: "string \<times> string \<times> string" \<comment> \<open>API group, kind, name\<close>
  rb_subjects :: "rbac_subject list"

type_synonym serviceaccount = objmeta

record tokensecret = objmeta +
  ts_generateName :: string
  ts_type :: string

text \<open>Machines and machine deployments, with the version of the kubelet.\<close>

record machine = objmeta +
  mac_kubelet :: string

record 's uclient =
  uc_roles :: "(rbac_role, 's) kclient"
  uc_clusterRoles :: "(rbac_role, 's) kclient"
  uc_roleBindings :: "(rbac_binding, 's) kclient"
  uc_clusterRoleBindings :: "(rbac_binding, 's) kclient"
  uc_serviceAccounts :: "(serviceaccount, 's) kclient"
  uc_secrets :: "(tokensecret, 's) kclient"
  uc_machines :: "(machine, 's) kclient"
  uc_machineDeployments :: "(machine, 's) kclient"
  uc_namespaces :: "(objmeta, 's) kclient"

text \<open>A kubeconfig: the servers by the name of their cluster, and the rest of the text.\<close>

record kubeconfig =
  kc_servers :: "(string \<times> string) list"
  kc_rest :: string

text \<open>
  The fields of the struct \<^verbatim>\<open>ClusterProvider\<close>, and the functions of libraries that its methods call: waiting for
  the cache, the status update of the controller utilities, random names and tokens, parsing a kubeconfig, and
  connecting to a user cluster, as its administrator or impersonating a user with groups.
\<close>

record 's seed_env =
  sv_client :: "(cluster, 's) kclient"
  sv_secrets :: "(secret, 's) kclient"
  sv_impersonated :: "string \<Rightarrow> string list \<Rightarrow> (cluster, 's) kclient result"
  sv_connect :: "cluster \<Rightarrow> (string \<times> string list) option \<Rightarrow> ('s, 's uclient) act"
  sv_waitUntilCached :: "(cluster, 's) kclient \<Rightarrow> okey \<Rightarrow> ('s, unit) act"
  sv_updateClusterStatus :: "cluster \<Rightarrow> (cluster \<Rightarrow> cluster) \<Rightarrow> ('s, cluster) act"
  sv_makeClusterName :: "('s, string) act"
  sv_generateToken :: "('s, string) act"
  sv_loadKubeconfig :: "string \<Rightarrow> kubeconfig result"
  sv_isConnectionRefused :: "go_error \<Rightarrow> bool"
  sv_workerName :: string
  sv_oidcKubeConfEndpoint :: bool
  sv_seedName :: string
  sv_edgeProvider :: string
  sv_adminKubeconfigSecret :: string
  sv_viewerKubeconfigSecret :: string
  sv_viewerTokenSecret :: string
  sv_kubeconfigKey :: string
  sv_viewerTokenKey :: string

record ClusterListOptions =
  clo_clusterSpecName :: string

record ClusterGetOptions =
  cgo_checkInitStatus :: bool

definition seed_impersonated :: "'s seed_env \<Rightarrow> UserInfo option \<Rightarrow> ('s, (cluster, 's) kclient) act" where
  "seed_impersonated S userInfo =
     (case userInfo of
        None \<Rightarrow> failA (Plain ''a userInfo is missing but required'')
      | Some userInfo \<Rightarrow> liftA (sv_impersonated S (ui_email userInfo) (ui_groups userInfo)))"

section \<open>Creating\<close>

definition getClusterLabels :: "'x sdk_scheme \<Rightarrow> smap \<Rightarrow> string \<Rightarrow> string \<Rightarrow> smap" where
  "getClusterLabels K specifiedLabels projectName workerName =
     (let resultLabels = AList.update (projectIDLabelKey K) projectName specifiedLabels in
      if workerName \<noteq> [] then AList.update (workerNameLabelKey K) workerName resultLabels else resultLabels)"

definition zero_health :: health where
  "zero_health = \<lparr>he_AllHealthy = False, he_ControlPlaneHealthy = False, he_infrastructureUp = False, he_controllerManagerUp = False\<rparr>"

text \<open>The new cluster has the specification of the given one and an empty status.\<close>

definition genAPICluster ::
  "'x sdk_scheme \<Rightarrow> 's seed_env \<Rightarrow> project \<Rightarrow> cluster \<Rightarrow> string \<Rightarrow> ('s, cluster) act" where
  "genAPICluster K S project cluster workerName =
     bindA (if om_name cluster \<noteq> [] then retA (om_name cluster) else sv_makeClusterName S) (\<lambda>name.
       retA (objmeta.extend
         (blank_meta\<lparr>om_name := name, om_annotations := om_annotations cluster,
            om_labels := getClusterLabels K (om_labels cluster) (om_name project) workerName\<rparr>)
         (cluster.fields (cl_finalizers cluster)
            ((cl_spec cluster)\<lparr>cl_humanReadableName := TrimSpace (cl_humanReadableName (cl_spec cluster))\<rparr>) zero_health [] [] [] [] [] [] [] None)))"

definition cluster_New ::
  "'x sdk_scheme \<Rightarrow> 's seed_env \<Rightarrow> project option \<Rightarrow> UserInfo option \<Rightarrow> cluster option \<Rightarrow> ('s, cluster) act" where
  "cluster_New K S project userInfo cluster =
     (case (project, userInfo, cluster) of
        (Some project, Some info, Some cluster) \<Rightarrow>
          if sv_oidcKubeConfEndpoint S \<and> cl_oidc (cl_spec cluster) \<noteq> None
          then failA (Plain ''can not set OIDC for the cluster when share config feature is enabled'')
          else
            bindA (genAPICluster K S project cluster (sv_workerName S)) (\<lambda>newCluster.
            bindA (seed_impersonated S userInfo) (\<lambda>seedImpersonatedClient.
            bindA (kCreate seedImpersonatedClient newCluster) (\<lambda>newCluster.
            bindA (wrapA Wrapped (sv_waitUntilCached S seedImpersonatedClient (key_of newCluster))) (\<lambda>_.
              sv_updateClusterStatus S newCluster (\<lambda>c. c\<lparr>cl_userEmail := ui_email info\<rparr>)))))
      | _ \<Rightarrow> failA (Plain ''project and/or userInfo and/or cluster is missing but required''))"

definition cluster_NewUnsecured ::
  "'x sdk_scheme \<Rightarrow> 's seed_env \<Rightarrow> project option \<Rightarrow> cluster option \<Rightarrow> string \<Rightarrow> ('s, cluster) act" where
  "cluster_NewUnsecured K S project cluster userEmail =
     (case (project, cluster) of
        (Some project, Some cluster) \<Rightarrow>
          if sv_oidcKubeConfEndpoint S \<and> cl_oidc (cl_spec cluster) \<noteq> None
          then failA (Plain ''can not set OIDC for the cluster when share config feature is enabled'')
          else
            bindA (genAPICluster K S project cluster (sv_workerName S)) (\<lambda>newCluster.
            bindA (kCreate (sv_client S) newCluster) (\<lambda>newCluster.
            bindA (wrapA Wrapped (sv_waitUntilCached S (sv_client S) (key_of newCluster))) (\<lambda>_.
              sv_updateClusterStatus S newCluster (\<lambda>c. c\<lparr>cl_userEmail := userEmail\<rparr>))))
      | _ \<Rightarrow> failA (Plain ''project and/or cluster is missing but required''))"

section \<open>Reading\<close>

definition cluster_List ::
  "'x sdk_scheme \<Rightarrow> 's seed_env \<Rightarrow> project option \<Rightarrow> ClusterListOptions option \<Rightarrow> ('s, cluster list) act" where
  "cluster_List K S project options =
     (case project of
        None \<Rightarrow> failA (Plain ''project is missing but required'')
      | Some project \<Rightarrow>
          tryA (listA (sv_client S) (LabelEquals (projectIDLabelKey K) (om_name project))) (\<lambda>r. case r of
            Inl err \<Rightarrow> if sv_isConnectionRefused S err then retA [] else failA (Wrapped err)
          | Inr projectClusters \<Rightarrow>
              (case options of
                 None \<Rightarrow> retA projectClusters
               | Some options \<Rightarrow>
                   if clo_clusterSpecName options = [] then retA projectClusters
                   else retA (filter (\<lambda>c. cl_humanReadableName (cl_spec c) = clo_clusterSpecName options) projectClusters))))"

text \<open>An edge cluster has no machine controller, so its health is not asked for.\<close>

definition checkInitStatus :: "'s seed_env \<Rightarrow> ClusterGetOptions option \<Rightarrow> cluster \<Rightarrow> cluster result" where
  "checkInitStatus S options cluster =
     (case options of
        None \<Rightarrow> Inr cluster
      | Some options \<Rightarrow>
          if cgo_checkInitStatus options then
            let healthCheck = cl_health cluster in
            if cl_cloudProvider (cl_cloud (cl_spec cluster)) = sv_edgeProvider S then
              if \<not> he_ControlPlaneHealthy healthCheck \<or> \<not> he_infrastructureUp healthCheck \<or> \<not> he_controllerManagerUp healthCheck
              then Inl NewServiceUnavailable else Inr cluster
            else if \<not> he_AllHealthy healthCheck then Inl NewServiceUnavailable else Inr cluster
          else Inr cluster)"

definition cluster_Get ::
  "'s seed_env \<Rightarrow> UserInfo option \<Rightarrow> string \<Rightarrow> ClusterGetOptions option \<Rightarrow> ('s, cluster) act" where
  "cluster_Get S userInfo clusterName options =
     bindA (seed_impersonated S userInfo) (\<lambda>seedImpersonatedClient.
     bindA (getA seedImpersonatedClient ([], clusterName)) (\<lambda>cluster.
       liftA (checkInitStatus S options cluster)))"

definition cluster_GetUnsecured ::
  "'x sdk_scheme \<Rightarrow> 's seed_env \<Rightarrow> project option \<Rightarrow> string \<Rightarrow> ClusterGetOptions option \<Rightarrow> ('s, cluster) act" where
  "cluster_GetUnsecured K S project clusterName options =
     (case project of
        None \<Rightarrow> failA (Plain ''project is missing but required'')
      | Some project \<Rightarrow>
          bindA (getA (sv_client S) ([], clusterName)) (\<lambda>cluster.
            if mget (om_labels cluster) (projectIDLabelKey K) = om_name project
            then liftA (checkInitStatus S options cluster)
            else failA NewNotFound))"

definition cluster_IsCluster :: "'s seed_env \<Rightarrow> string \<Rightarrow> ('s, bool) act" where
  "cluster_IsCluster S clusterName =
     tryA (getA (sv_client S) ([], clusterName)) (\<lambda>r. case r of Inl _ \<Rightarrow> retA False | Inr _ \<Rightarrow> retA True)"

definition cluster_ListAll :: "'s seed_env \<Rightarrow> selector option \<Rightarrow> ('s, cluster list) act" where
  "cluster_ListAll S labelSelector =
     wrapA Wrapped (listA (sv_client S) (case labelSelector of None \<Rightarrow> Everything | Some sel \<Rightarrow> sel))"

section \<open>Changing\<close>

definition cluster_Delete :: "'s seed_env \<Rightarrow> UserInfo option \<Rightarrow> cluster \<Rightarrow> ('s, unit) act" where
  "cluster_Delete S userInfo cluster =
     bindA (seed_impersonated S userInfo) (\<lambda>seedImpersonatedClient. kDelete seedImpersonatedClient (key_of cluster))"

definition cluster_DeleteUnsecured :: "'s seed_env \<Rightarrow> cluster \<Rightarrow> ('s, unit) act" where
  "cluster_DeleteUnsecured S cluster = kDelete (sv_client S) (key_of cluster)"

text \<open>The worker name is not updated. A nil project makes \<^verbatim>\<open>Update\<close> panic.\<close>

definition cluster_Update ::
  "'x sdk_scheme \<Rightarrow> 's seed_env \<Rightarrow> project option \<Rightarrow> UserInfo option \<Rightarrow> cluster \<Rightarrow> ('s, cluster) act" where
  "cluster_Update K S project userInfo newCluster =
     bindA (seed_impersonated S userInfo) (\<lambda>seedImpersonatedClient.
       case project of
         None \<Rightarrow> failA Panic
       | Some project \<Rightarrow>
           kUpdate seedImpersonatedClient
             (newCluster\<lparr>om_labels := getClusterLabels K (om_labels newCluster) (om_name project) []\<rparr>))"

definition cluster_UpdateUnsecured ::
  "'x sdk_scheme \<Rightarrow> 's seed_env \<Rightarrow> project option \<Rightarrow> cluster \<Rightarrow> ('s, cluster) act" where
  "cluster_UpdateUnsecured K S project cluster =
     (case project of
        None \<Rightarrow> failA (Plain ''project is missing but required'')
      | Some project \<Rightarrow>
          kUpdate (sv_client S)
            (cluster\<lparr>om_labels := getClusterLabels K (om_labels cluster) (om_name project) []\<rparr>))"

section \<open>Kubeconfigs, tokens and clients\<close>

text \<open>Every server of the kubeconfig becomes the external address of the cluster, if it has one.\<close>

definition with_external_address :: "cluster \<Rightarrow> kubeconfig \<Rightarrow> kubeconfig" where
  "with_external_address c config =
     (if cl_externalAddress c \<noteq> []
      then config\<lparr>kc_servers := map (\<lambda>(i, _). (i, cl_externalAddress c)) (kc_servers config)\<rparr> else config)"

definition secret_value :: "secret \<Rightarrow> string \<Rightarrow> string" where
  "secret_value sec key = (case data_lookup (sec_data sec) key of None \<Rightarrow> [] | Some v \<Rightarrow> v)"

definition GetAdminKubeconfigForUserCluster :: "'s seed_env \<Rightarrow> cluster \<Rightarrow> ('s, kubeconfig) act" where
  "GetAdminKubeconfigForUserCluster S c =
     bindA (getA (sv_secrets S) (cl_namespaceName c, sv_adminKubeconfigSecret S)) (\<lambda>sec.
     bindA (liftA (sv_loadKubeconfig S (secret_value sec (sv_kubeconfigKey S)))) (\<lambda>config.
       retA (with_external_address c config)))"

definition GetViewerKubeconfigForUserCluster :: "'s seed_env \<Rightarrow> cluster \<Rightarrow> ('s, kubeconfig) act" where
  "GetViewerKubeconfigForUserCluster S c =
     bindA (getA (sv_secrets S) (cl_namespaceName c, sv_viewerKubeconfigSecret S)) (\<lambda>sec.
       let d = secret_value sec (sv_kubeconfigKey S) in
       if d = [] then failA (Plain ''no kubeconfig found'')
       else
         bindA (liftA (sv_loadKubeconfig S d)) (\<lambda>config.
           retA (with_external_address c config)))"

definition RevokeViewerKubeconfig :: "'s seed_env \<Rightarrow> cluster \<Rightarrow> ('s, unit) act" where
  "RevokeViewerKubeconfig S c = kDelete (sv_secrets S) (cl_namespaceName c, sv_viewerTokenSecret S)"

definition RevokeAdminKubeconfig :: "'s seed_env \<Rightarrow> cluster \<Rightarrow> ('s, unit) act" where
  "RevokeAdminKubeconfig S c =
     bindA (sv_generateToken S) (\<lambda>token.
     bindA (wrapA Wrapped (kPatchStatus (sv_client S) c (c\<lparr>cl_adminToken := token\<rparr>))) (\<lambda>_.
       retA ()))"

definition GetAdminClientForUserCluster :: "'s seed_env \<Rightarrow> cluster \<Rightarrow> ('s, 's uclient) act" where
  "GetAdminClientForUserCluster S c = sv_connect S c None"

text \<open>The groups inside a user cluster are the caller's roles; \<^verbatim>\<open>sets.List\<close> sorts them.\<close>

definition withImpersonation :: "UserInfo \<Rightarrow> string \<times> string list" where
  "withImpersonation userInfo =
     (ui_email userInfo, sorted_list_of_set (ui_roles userInfo) @ [''system:authenticated''])"

definition GetClientForUserCluster :: "'s seed_env \<Rightarrow> UserInfo \<Rightarrow> cluster \<Rightarrow> ('s, 's uclient) act" where
  "GetClientForUserCluster S userInfo c = sv_connect S c (Some (withImpersonation userInfo))"

definition GetTokenForUserCluster :: "'s seed_env \<Rightarrow> UserInfo \<Rightarrow> cluster \<Rightarrow> ('s, string) act" where
  "GetTokenForUserCluster S userInfo cluster =
     (if ''viewers'' \<in> ui_roles userInfo \<and> card (ui_roles userInfo) = 1 then
        bindA (getA (sv_secrets S) (cl_namespaceName cluster, sv_viewerTokenSecret S)) (\<lambda>s.
          retA (secret_value s (sv_viewerTokenKey S)))
      else if ''editors'' \<in> ui_roles userInfo \<or> ''owners'' \<in> ui_roles userInfo then retA (cl_adminToken cluster)
      else failA (Plain ''user role not supported''))"

definition GetSeedName :: "'s seed_env \<Rightarrow> string" where
  "GetSeedName S = sv_seedName S"

section \<open>The interfaces\<close>

record 's UserClusterProvider = "'s ClusterProvider" +
  ucp_New :: "project option \<Rightarrow> UserInfo option \<Rightarrow> cluster option \<Rightarrow> ('s, cluster) act"
  ucp_List :: "project option \<Rightarrow> ClusterListOptions option \<Rightarrow> ('s, cluster list) act"
  ucp_Get :: "UserInfo option \<Rightarrow> string \<Rightarrow> ClusterGetOptions option \<Rightarrow> ('s, cluster) act"
  ucp_Update :: "project option \<Rightarrow> UserInfo option \<Rightarrow> cluster \<Rightarrow> ('s, cluster) act"
  ucp_Delete :: "UserInfo option \<Rightarrow> cluster \<Rightarrow> ('s, unit) act"
  ucp_GetAdminKubeconfig :: "cluster \<Rightarrow> ('s, kubeconfig) act"
  ucp_GetViewerKubeconfig :: "cluster \<Rightarrow> ('s, kubeconfig) act"
  ucp_RevokeViewerKubeconfig :: "cluster \<Rightarrow> ('s, unit) act"
  ucp_RevokeAdminKubeconfig :: "cluster \<Rightarrow> ('s, unit) act"
  ucp_GetAdminClient :: "cluster \<Rightarrow> ('s, 's uclient) act"
  ucp_GetClient :: "UserInfo \<Rightarrow> cluster \<Rightarrow> ('s, 's uclient) act"
  ucp_GetToken :: "UserInfo \<Rightarrow> cluster \<Rightarrow> ('s, string) act"
  ucp_GetSeedName :: string

record 's PrivilegedClusterProvider =
  pcp_GetUnsecured :: "project option \<Rightarrow> string \<Rightarrow> ClusterGetOptions option \<Rightarrow> ('s, cluster) act"
  pcp_UpdateUnsecured :: "project option \<Rightarrow> cluster \<Rightarrow> ('s, cluster) act"
  pcp_DeleteUnsecured :: "cluster \<Rightarrow> ('s, unit) act"
  pcp_NewUnsecured :: "project option \<Rightarrow> cluster option \<Rightarrow> string \<Rightarrow> ('s, cluster) act"

definition NewClusterProvider :: "'x sdk_scheme \<Rightarrow> 's seed_env \<Rightarrow> 's UserClusterProvider" where
  "NewClusterProvider K S =
     \<lparr>cp_IsCluster = cluster_IsCluster S, cp_List = (\<lambda>p. cluster_List K S (Some p) None),
      cp_ListAll = (\<lambda>sel. cluster_ListAll S (Some sel)),
      ucp_New = cluster_New K S, ucp_List = cluster_List K S, ucp_Get = cluster_Get S, ucp_Update = cluster_Update K S,
      ucp_Delete = cluster_Delete S, ucp_GetAdminKubeconfig = GetAdminKubeconfigForUserCluster S,
      ucp_GetViewerKubeconfig = GetViewerKubeconfigForUserCluster S, ucp_RevokeViewerKubeconfig = RevokeViewerKubeconfig S,
      ucp_RevokeAdminKubeconfig = RevokeAdminKubeconfig S, ucp_GetAdminClient = GetAdminClientForUserCluster S,
      ucp_GetClient = GetClientForUserCluster S, ucp_GetToken = GetTokenForUserCluster S, ucp_GetSeedName = GetSeedName S\<rparr>"

definition kube_privilegedClusterProvider :: "'x sdk_scheme \<Rightarrow> 's seed_env \<Rightarrow> 's PrivilegedClusterProvider" where
  "kube_privilegedClusterProvider K S =
     \<lparr>pcp_GetUnsecured = cluster_GetUnsecured K S, pcp_UpdateUnsecured = cluster_UpdateUnsecured K S,
      pcp_DeleteUnsecured = cluster_DeleteUnsecured S, pcp_NewUnsecured = cluster_NewUnsecured K S\<rparr>"

section \<open>The cluster of a request\<close>

text \<open>
  When the API server denies the caller the cluster, a privileged lookup tells whether it exists at all; its
  outcome decides about the error only.
\<close>

definition getClusterForRegularUser ::
  "'s UserInfoGetter \<Rightarrow> 's UserClusterProvider \<Rightarrow> 's PrivilegedClusterProvider \<Rightarrow> project \<Rightarrow> string \<Rightarrow> string \<Rightarrow>
     ClusterGetOptions option \<Rightarrow> ('s, cluster) act" where
  "getClusterForRegularUser userInfoGetter clusterProvider privilegedClusterProvider project projectID clusterID options =
     bindA (httpA (userInfoGetter projectID)) (\<lambda>userInfo.
       tryA (ucp_Get clusterProvider (Some userInfo) clusterID options) (\<lambda>r. case r of
         Inr cluster \<Rightarrow> retA cluster
       | Inl err \<Rightarrow>
           if \<not> isStatus err 403 then failA (KubernetesErrorToHTTPError err)
           else
             tryA (pcp_GetUnsecured privilegedClusterProvider (Some project) clusterID options) (\<lambda>r'. case r' of
               Inl errGetUnsecured \<Rightarrow> failA (KubernetesErrorToHTTPError errGetUnsecured)
             | Inr _ \<Rightarrow> failA (KubernetesErrorToHTTPError err))))"

definition GetInternalCluster ::
  "'s UserInfoGetter \<Rightarrow> 's UserClusterProvider \<Rightarrow> 's PrivilegedClusterProvider \<Rightarrow> project \<Rightarrow> string \<Rightarrow> string \<Rightarrow>
     ClusterGetOptions option \<Rightarrow> ('s, cluster) act" where
  "GetInternalCluster userInfoGetter clusterProvider privilegedClusterProvider project projectID clusterID options =
     bindA (httpA (userInfoGetter [])) (\<lambda>adminUserInfo.
       if ui_isAdmin adminUserInfo
       then httpA (pcp_GetUnsecured privilegedClusterProvider (Some project) clusterID options)
       else getClusterForRegularUser userInfoGetter clusterProvider privilegedClusterProvider project projectID clusterID options)"

text \<open>The two providers of the seed are what the middleware put into the context of the request.\<close>

definition GetCluster ::
  "'s UserClusterProvider \<Rightarrow> 's PrivilegedClusterProvider \<Rightarrow> 's ProjectProvider \<Rightarrow> 's PrivilegedProjectProvider \<Rightarrow>
     's UserInfoGetter \<Rightarrow> string \<Rightarrow> string \<Rightarrow> ClusterGetOptions option \<Rightarrow> ('s, cluster) act" where
  "GetCluster clusterProvider privilegedClusterProvider projectProvider privilegedProjectProvider userInfoGetter
     projectID clusterID options =
     bindA (httpA (GetProject userInfoGetter projectProvider privilegedProjectProvider projectID None)) (\<lambda>project.
       GetInternalCluster userInfoGetter clusterProvider privilegedClusterProvider project projectID clusterID options)"

definition GetClusterClient ::
  "'s UserInfoGetter \<Rightarrow> 's UserClusterProvider \<Rightarrow> cluster \<Rightarrow> string \<Rightarrow> ('s, 's uclient) act" where
  "GetClusterClient userInfoGetter clusterProvider cluster projectID =
     bindA (wrapA Wrapped (userInfoGetter [])) (\<lambda>adminUserInfo.
       if ui_isAdmin adminUserInfo then ucp_GetAdminClient clusterProvider cluster
       else
         bindA (wrapA Wrapped (userInfoGetter projectID)) (\<lambda>userInfo.
           ucp_GetClient clusterProvider userInfo cluster))"

end
