(* ===== verification/Cluster_RBAC.thy ===== *)
theory Cluster_RBAC
  imports Cluster_Provider
begin

text \<open>
  Access inside a user cluster: who is bound to its roles and cluster roles
  (\<^verbatim>\<open>pkg/handler/common/binding.go\<close>, \<^verbatim>\<open>pkg/handler/common/role.go\<close>, the requests of
  \<^verbatim>\<open>pkg/handler/v1/cluster/binding.go\<close> and \<^verbatim>\<open>pkg/handler/v2/cluster/binding.go\<close>) and the service accounts of the
  cluster (\<^verbatim>\<open>pkg/handler/v2/cluster/serviceaccount.go\<close>).
\<close>

section \<open>Requests\<close>

record RoleUser =
  ru_userEmail :: string
  ru_group :: string
  ru_serviceAccount :: string
  ru_serviceAccountNamespace :: string

record apiRoleBinding =
  arb_namespace :: string
  arb_subjects :: "rbac_subject list"
  arb_roleRefName :: string

record apiClusterRoleBinding =
  acb_subjects :: "rbac_subject list"
  acb_roleRefName :: string

text \<open>Requests of the first version name a datacenter; those of the second do not.\<close>

record v1_clusterRoleUserReq = GetClusterReq +
  cru1_roleID :: string
  cru1_body :: RoleUser

record v1_roleUserReq = v1_clusterRoleUserReq +
  ru1_namespace :: string

record ClusterReq = ProjectReq +
  crq_clusterID :: string

record ClusterRoleUserReq = ClusterReq +
  cru_roleID :: string
  cru_body :: RoleUser

record RoleUserReq = ClusterRoleUserReq +
  rur_namespace :: string

definition v1_roleUserReq_Validate :: "'a v1_clusterRoleUserReq_scheme \<Rightarrow> unit result" where
  "v1_roleUserReq_Validate r =
     (if req_projectID r = [] \<or> req_dc r = [] then Inl (Plain ''the project ID and datacenter cannot be empty'')
      else if ru_userEmail (cru1_body r) = [] \<and> ru_group (cru1_body r) = []
      then Inl (Plain ''either user email or group must be set'')
      else Inr ())"

definition RoleUserReq_Validate :: "'a ClusterRoleUserReq_scheme \<Rightarrow> unit result" where
  "RoleUserReq_Validate req =
     (let email = ru_userEmail (cru_body req); grp = ru_group (cru_body req);
          sa = ru_serviceAccount (cru_body req); ns = ru_serviceAccountNamespace (cru_body req) in
      if req_projectID req = [] then Inl (Plain ''the project ID cannot be empty'')
      else if email = [] \<and> grp = [] \<and> sa = [] \<and> ns = [] then Inl (Plain ''either user email, group or service account must be set'')
      else if email \<noteq> [] \<and> (grp \<noteq> [] \<or> sa \<noteq> [] \<or> ns \<noteq> [])
      then Inl (Plain ''user email can not be used in conjunction with group or service account'')
      else if grp \<noteq> [] \<and> (sa \<noteq> [] \<or> ns \<noteq> [])
      then Inl (Plain ''group can not be used in conjunction with email or service account'')
      else if sa = [] \<and> ns \<noteq> [] \<or> sa \<noteq> [] \<and> ns = []
      then Inl (Plain ''both service account and service account namespace must be defined'')
      else Inr ())"

text \<open>\<open>body\<close> is the outcome of the JSON decoder.\<close>

definition v1_DecodeClusterRoleUserReq :: "http_request \<Rightarrow> RoleUser result \<Rightarrow> v1_clusterRoleUserReq result" where
  "v1_DecodeClusterRoleUserReq r body =
     (case DecodeGetClusterReq r of
        Inl err \<Rightarrow> Inl err
      | Inr gcr \<Rightarrow>
          (case required_var r ''role_id'' of
             Inl err \<Rightarrow> Inl err
           | Inr roleID \<Rightarrow>
               (case body of
                  Inl err \<Rightarrow> Inl err
                | Inr b \<Rightarrow> Inr \<lparr>req_projectID = req_projectID gcr, req_dc = req_dc gcr, req_clusterID = req_clusterID gcr,
                                cru1_roleID = roleID, cru1_body = b\<rparr>)))"

definition v1_DecodeRoleUserReq :: "http_request \<Rightarrow> RoleUser result \<Rightarrow> v1_roleUserReq result" where
  "v1_DecodeRoleUserReq r body =
     (case DecodeGetClusterReq r of
        Inl err \<Rightarrow> Inl err
      | Inr gcr \<Rightarrow>
          (case required_var r ''role_id'' of
             Inl err \<Rightarrow> Inl err
           | Inr roleID \<Rightarrow>
               (case required_var r ''namespace'' of
                  Inl err \<Rightarrow> Inl err
                | Inr namespace \<Rightarrow>
                    (case body of
                       Inl err \<Rightarrow> Inl err
                     | Inr b \<Rightarrow> Inr \<lparr>req_projectID = req_projectID gcr, req_dc = req_dc gcr, req_clusterID = req_clusterID gcr,
                                     cru1_roleID = roleID, cru1_body = b, ru1_namespace = namespace\<rparr>))))"

definition DecodeListBindingReq :: "http_request \<Rightarrow> ClusterReq result" where
  "DecodeListBindingReq r =
     (case DecodeClusterID r of
        Inl err \<Rightarrow> Inl err
      | Inr clusterID \<Rightarrow>
          (case DecodeProjectRequest r of
             Inl err \<Rightarrow> Inl err
           | Inr projectReq \<Rightarrow> Inr \<lparr>req_projectID = req_projectID projectReq, crq_clusterID = clusterID\<rparr>))"

definition DecodeClusterRoleUserReq :: "http_request \<Rightarrow> RoleUser result \<Rightarrow> ClusterRoleUserReq result" where
  "DecodeClusterRoleUserReq r body =
     (case DecodeListBindingReq r of
        Inl err \<Rightarrow> Inl err
      | Inr cr \<Rightarrow>
          (case required_var r ''role_id'' of
             Inl err \<Rightarrow> Inl err
           | Inr roleID \<Rightarrow>
               (case body of
                  Inl err \<Rightarrow> Inl err
                | Inr b \<Rightarrow> Inr (ClusterReq.extend cr (ClusterRoleUserReq.fields roleID b)))))"

definition DecodeRoleUserReq :: "http_request \<Rightarrow> RoleUser result \<Rightarrow> RoleUserReq result" where
  "DecodeRoleUserReq r body =
     (case DecodeListBindingReq r of
        Inl err \<Rightarrow> Inl err
      | Inr cr \<Rightarrow>
          (case required_var r ''role_id'' of
             Inl err \<Rightarrow> Inl err
           | Inr roleID \<Rightarrow>
               (case required_var r ''namespace'' of
                  Inl err \<Rightarrow> Inl err
                | Inr namespace \<Rightarrow>
                    (case body of
                       Inl err \<Rightarrow> Inl err
                     | Inr b \<Rightarrow> Inr \<lparr>req_projectID = req_projectID cr, crq_clusterID = crq_clusterID cr,
                                     cru_roleID = roleID, cru_body = b, rur_namespace = namespace\<rparr>))))"

section \<open>Subjects of a binding\<close>

definition UserClusterComponentKey :: string where "UserClusterComponentKey = ''component''"
definition UserClusterBindingComponentValue :: string where "UserClusterBindingComponentValue = ''userClusterBinding''"
definition UserClusterRoleComponentValue :: string where "UserClusterRoleComponentValue = ''userClusterRole''"

abbreviation binding_label :: selector where
  "binding_label \<equiv> LabelEquals UserClusterComponentKey UserClusterBindingComponentValue"

text \<open>A subject that stops the binding of a user: the address in any capitalisation, the others as they are.\<close>

definition already_connected :: "RoleUser \<Rightarrow> rbac_subject \<Rightarrow> bool" where
  "already_connected roleUser subject \<longleftrightarrow>
     (ru_userEmail roleUser \<noteq> [] \<and> EqualFold (sj_name subject) (ru_userEmail roleUser)) \<or>
     (ru_group roleUser \<noteq> [] \<and> sj_name subject = ru_group roleUser) \<or>
     (ru_serviceAccount roleUser \<noteq> [] \<and> sj_name subject = ru_serviceAccount roleUser \<and>
      sj_namespace subject = ru_serviceAccountNamespace roleUser)"

definition new_subjects :: "RoleUser \<Rightarrow> rbac_subject list" where
  "new_subjects roleUser =
     (if ru_userEmail roleUser \<noteq> []
      then [\<lparr>sj_kind = ''User'', sj_apiGroup = ''rbac.authorization.k8s.io'', sj_name = ru_userEmail roleUser, sj_namespace = []\<rparr>]
      else []) @
     (if ru_group roleUser \<noteq> []
      then [\<lparr>sj_kind = ''Group'', sj_apiGroup = ''rbac.authorization.k8s.io'', sj_name = ru_group roleUser, sj_namespace = []\<rparr>]
      else []) @
     (if ru_serviceAccount roleUser \<noteq> []
      then [\<lparr>sj_kind = ''ServiceAccount'', sj_apiGroup = [], sj_name = ru_serviceAccount roleUser,
             sj_namespace = ru_serviceAccountNamespace roleUser\<rparr>]
      else [])"

text \<open>A subject that an unbinding drops.\<close>

definition unbound :: "RoleUser \<Rightarrow> rbac_subject \<Rightarrow> bool" where
  "unbound roleUser subject \<longleftrightarrow>
     (ru_userEmail roleUser \<noteq> [] \<and> sj_name subject = ru_userEmail roleUser) \<or>
     (ru_group roleUser \<noteq> [] \<and> sj_name subject = ru_group roleUser) \<or>
     (ru_serviceAccount roleUser \<noteq> [] \<and> sj_name subject = ru_serviceAccount roleUser \<and>
      sj_namespace subject = ru_serviceAccountNamespace roleUser)"

definition role_name :: "rbac_binding \<Rightarrow> string" where
  "role_name b = snd (snd (rb_roleRef b))"

definition convertInternalRoleBindingToExternal :: "rbac_binding \<Rightarrow> apiRoleBinding" where
  "convertInternalRoleBindingToExternal b =
     \<lparr>arb_namespace = om_namespace b, arb_subjects = rb_subjects b, arb_roleRefName = role_name b\<rparr>"

definition convertInternalClusterRoleBindingToExternal :: "rbac_binding \<Rightarrow> apiClusterRoleBinding" where
  "convertInternalClusterRoleBindingToExternal b = \<lparr>acb_subjects = rb_subjects b, acb_roleRefName = role_name b\<rparr>"

definition generateRBACRoleBinding ::
  "('s, 'x) env_scheme \<Rightarrow> 's uclient \<Rightarrow> string \<Rightarrow> string \<Rightarrow> ('s, rbac_binding) act" where
  "generateRBACRoleBinding E client namespace roleName =
     bindA (randA E) (\<lambda>r.
       kCreate (uc_roleBindings client)
         (objmeta.extend
            (blank_meta\<lparr>om_name := r @ '':'' @ roleName, om_namespace := namespace,
               om_labels := [(UserClusterComponentKey, UserClusterBindingComponentValue)]\<rparr>)
            (rbac_binding.fields (''rbac.authorization.k8s.io'', ''Role'', roleName) [])))"

section \<open>Binding and unbinding\<close>

text \<open>
  The start of every handler: the cluster of the request and a client for it. The list of role bindings is that
  of the server with the label, in one namespace (\<^verbatim>\<open>InNamespace\<close>).
\<close>

definition cluster_client ::
  "'s UserClusterProvider \<Rightarrow> 's PrivilegedClusterProvider \<Rightarrow> 's ProjectProvider \<Rightarrow> 's PrivilegedProjectProvider \<Rightarrow>
     's UserInfoGetter \<Rightarrow> string \<Rightarrow> string \<Rightarrow> ('s, 's uclient) act" where
  "cluster_client clusterProvider privilegedClusterProvider projectProvider privilegedProjectProvider userInfoGetter projectID clusterID =
     bindA (GetCluster clusterProvider privilegedClusterProvider projectProvider privilegedProjectProvider userInfoGetter
              projectID clusterID None) (\<lambda>cluster.
       httpA (GetClusterClient userInfoGetter clusterProvider cluster projectID))"

definition find_binding :: "string \<Rightarrow> rbac_binding list \<Rightarrow> rbac_binding option" where
  "find_binding roleID bindings = List.find (\<lambda>b. role_name b = roleID) bindings"

definition list_roleBindings :: "'s uclient \<Rightarrow> string \<Rightarrow> ('s, rbac_binding list) act" where
  "list_roleBindings client namespace =
     bindA (listA (uc_roleBindings client) binding_label) (\<lambda>items. retA (filter (\<lambda>b. om_namespace b = namespace) items))"

text \<open>The end of a binding: the patch from the object just read is an update to the new one.\<close>

definition bind_subjects :: "(rbac_binding, 's) kclient \<Rightarrow> RoleUser \<Rightarrow> rbac_binding \<Rightarrow> ('s, rbac_binding) act" where
  "bind_subjects client roleUser binding =
     (if list_ex (already_connected roleUser) (rb_subjects binding) then failA UtilBadRequest
      else wrapA Wrapped (kUpdate client (binding\<lparr>rb_subjects := rb_subjects binding @ new_subjects roleUser\<rparr>)))"

definition unbind_subjects :: "(rbac_binding, 's) kclient \<Rightarrow> RoleUser \<Rightarrow> rbac_binding \<Rightarrow> ('s, rbac_binding) act" where
  "unbind_subjects client roleUser binding =
     wrapA Wrapped (kUpdate client (binding\<lparr>rb_subjects := filter (\<lambda>s. \<not> unbound roleUser s) (rb_subjects binding)\<rparr>))"

definition BindUserToRole ::
  "('s, 'x) env_scheme \<Rightarrow> ('s, 's uclient) act \<Rightarrow> RoleUser \<Rightarrow> string \<Rightarrow> string \<Rightarrow> ('s, apiRoleBinding) act" where
  "BindUserToRole E clientFor roleUser roleID namespace =
     bindA clientFor (\<lambda>client.
     bindA (httpA (getA (uc_roles client) (namespace, roleID))) (\<lambda>_.
     bindA (httpA (list_roleBindings client namespace)) (\<lambda>roleBindings.
     bindA (case find_binding roleID roleBindings of
              Some b \<Rightarrow> retA b
            | None \<Rightarrow> httpA (generateRBACRoleBinding E client namespace roleID)) (\<lambda>existingRoleBinding.
     bindA (bind_subjects (uc_roleBindings client) roleUser existingRoleBinding) (\<lambda>binding.
       retA (convertInternalRoleBindingToExternal binding))))))"

definition BindUserToClusterRole ::
  "('s, 's uclient) act \<Rightarrow> RoleUser \<Rightarrow> string \<Rightarrow> ('s, apiClusterRoleBinding) act" where
  "BindUserToClusterRole clientFor clusterRoleUser roleID =
     bindA clientFor (\<lambda>client.
     bindA (httpA (getA (uc_clusterRoles client) ([], roleID))) (\<lambda>_.
     bindA (httpA (listA (uc_clusterRoleBindings client) binding_label)) (\<lambda>clusterRoleBindings.
       case find_binding roleID clusterRoleBindings of
         None \<Rightarrow> failA (Plain ''the cluster role binding not found'')
       | Some existing \<Rightarrow>
           bindA (bind_subjects (uc_clusterRoleBindings client) clusterRoleUser existing) (\<lambda>binding.
             retA (convertInternalClusterRoleBindingToExternal binding)))))"

definition UnbindUserFromRoleBinding ::
  "('s, 's uclient) act \<Rightarrow> RoleUser \<Rightarrow> string \<Rightarrow> string \<Rightarrow> ('s, apiRoleBinding) act" where
  "UnbindUserFromRoleBinding clientFor roleUser roleID namespace =
     bindA clientFor (\<lambda>client.
     bindA (httpA (getA (uc_roles client) (namespace, roleID))) (\<lambda>_.
     bindA (httpA (list_roleBindings client namespace)) (\<lambda>roleBindings.
       case find_binding roleID roleBindings of
         None \<Rightarrow> failA UtilBadRequest
       | Some existing \<Rightarrow>
           bindA (unbind_subjects (uc_roleBindings client) roleUser existing) (\<lambda>binding.
             retA (convertInternalRoleBindingToExternal binding)))))"

definition UnbindUserFromClusterRoleBinding ::
  "('s, 's uclient) act \<Rightarrow> RoleUser \<Rightarrow> string \<Rightarrow> ('s, apiClusterRoleBinding) act" where
  "UnbindUserFromClusterRoleBinding clientFor clusterRoleUser roleID =
     bindA clientFor (\<lambda>client.
     bindA (httpA (getA (uc_clusterRoles client) ([], roleID))) (\<lambda>_.
     bindA (httpA (listA (uc_clusterRoleBindings client) binding_label)) (\<lambda>clusterRoleBindings.
       case find_binding roleID clusterRoleBindings of
         None \<Rightarrow> failA UtilBadRequest
       | Some existing \<Rightarrow>
           bindA (unbind_subjects (uc_clusterRoleBindings client) clusterRoleUser existing) (\<lambda>binding.
             retA (convertInternalClusterRoleBindingToExternal binding)))))"

definition ListRoleBinding :: "('s, 's uclient) act \<Rightarrow> ('s, apiRoleBinding list) act" where
  "ListRoleBinding clientFor =
     bindA clientFor (\<lambda>client.
     bindA (httpA (listA (uc_roleBindings client) binding_label)) (\<lambda>items.
       retA (map convertInternalRoleBindingToExternal items)))"

definition ListClusterRoleBinding :: "('s, 's uclient) act \<Rightarrow> ('s, apiClusterRoleBinding list) act" where
  "ListClusterRoleBinding clientFor =
     bindA clientFor (\<lambda>client.
     bindA (httpA (listA (uc_clusterRoleBindings client) binding_label)) (\<lambda>items.
       retA (map convertInternalClusterRoleBindingToExternal items)))"

section \<open>Roles\<close>

record apiClusterRole = apiObject +
  acr_rules :: "string list"

record apiRole = apiObject +
  arl_namespace :: string
  arl_rules :: "string list"

definition convertInternalClusterRoleToExternal :: "rbac_role \<Rightarrow> apiClusterRole" where
  "convertInternalClusterRoleToExternal clusterRole = apiObject.extend
     \<lparr>ao_id = om_name clusterRole, ao_name = om_name clusterRole, ao_annotations = [],
      ao_creationTimestamp = om_creationTimestamp clusterRole, ao_deletionTimestamp = None\<rparr>
     (apiClusterRole.fields (rl_rules clusterRole))"

definition convertInternalRoleToExternal :: "rbac_role \<Rightarrow> apiRole" where
  "convertInternalRoleToExternal role = apiObject.extend
     \<lparr>ao_id = om_name role, ao_name = om_name role, ao_annotations = [],
      ao_creationTimestamp = om_creationTimestamp role, ao_deletionTimestamp = None\<rparr>
     (apiRole.fields (om_namespace role) (rl_rules role))"

text \<open>
  The names of the roles with the namespaces they occur in. Go ranges over a map, so the order of the names is
  left open; here it is that of the first occurrence.
\<close>

fun add_namespace :: "rbac_role \<Rightarrow> (string \<times> string list) list \<Rightarrow> (string \<times> string list) list" where
  "add_namespace role roleMap =
     AList.update (om_name role)
       ((case map_of roleMap (om_name role) of None \<Rightarrow> [] | Some ns \<Rightarrow> ns) @ [om_namespace role]) roleMap"

definition convertRoleNames :: "rbac_role list \<Rightarrow> (string \<times> string list) list" where
  "convertRoleNames internalRoles = fold add_namespace internalRoles []"

text \<open>The four endpoints look the cluster up as the caller, also for administrators, and ask for its health.\<close>

definition own_client ::
  "'s UserClusterProvider \<Rightarrow> 's UserInfoGetter \<Rightarrow> string \<Rightarrow> string \<Rightarrow> ('s, 's uclient) act" where
  "own_client clusterProvider userInfoGetter projectID clusterID =
     bindA (httpA (userInfoGetter projectID)) (\<lambda>userInfo.
     bindA (ucp_Get clusterProvider (Some userInfo) clusterID (Some \<lparr>cgo_checkInitStatus = True\<rparr>)) (\<lambda>cluster.
       httpA (ucp_GetClient clusterProvider userInfo cluster)))"

abbreviation role_label :: selector where
  "role_label \<equiv> LabelEquals UserClusterComponentKey UserClusterRoleComponentValue"

definition ListClusterRoleEndpoint ::
  "'s UserClusterProvider \<Rightarrow> 's UserInfoGetter \<Rightarrow> string \<Rightarrow> string \<Rightarrow> ('s, apiClusterRole list) act" where
  "ListClusterRoleEndpoint clusterProvider userInfoGetter projectID clusterID =
     bindA (own_client clusterProvider userInfoGetter projectID clusterID) (\<lambda>client.
     bindA (httpA (listA (uc_clusterRoles client) role_label)) (\<lambda>items.
       retA (map convertInternalClusterRoleToExternal items)))"

definition ListClusterRoleNamesEndpoint ::
  "'s UserClusterProvider \<Rightarrow> 's UserInfoGetter \<Rightarrow> string \<Rightarrow> string \<Rightarrow> ('s, string list) act" where
  "ListClusterRoleNamesEndpoint clusterProvider userInfoGetter projectID clusterID =
     bindA (own_client clusterProvider userInfoGetter projectID clusterID) (\<lambda>client.
     bindA (httpA (listA (uc_clusterRoles client) role_label)) (\<lambda>items.
       retA (map om_name items)))"

definition ListRoleEndpoint ::
  "'s UserClusterProvider \<Rightarrow> 's UserInfoGetter \<Rightarrow> string \<Rightarrow> string \<Rightarrow> ('s, apiRole list) act" where
  "ListRoleEndpoint clusterProvider userInfoGetter projectID clusterID =
     bindA (own_client clusterProvider userInfoGetter projectID clusterID) (\<lambda>client.
     bindA (httpA (listA (uc_roles client) role_label)) (\<lambda>items.
       retA (map convertInternalRoleToExternal items)))"

definition ListRoleNamesEndpoint ::
  "'s UserClusterProvider \<Rightarrow> 's UserInfoGetter \<Rightarrow> string \<Rightarrow> string \<Rightarrow> ('s, (string \<times> string list) list) act" where
  "ListRoleNamesEndpoint clusterProvider userInfoGetter projectID clusterID =
     bindA (own_client clusterProvider userInfoGetter projectID clusterID) (\<lambda>client.
     bindA (httpA (listA (uc_roles client) role_label)) (\<lambda>items.
       retA (convertRoleNames items)))"

section \<open>The endpoints on bindings\<close>

text \<open>The endpoints of the second version; \<open>clientFor\<close> is the client for the cluster of a request.\<close>

type_synonym 's client_for = "string \<Rightarrow> string \<Rightarrow> ('s, 's uclient) act"

definition BindUserToRoleEndpoint :: "('s, 'x) env_scheme \<Rightarrow> 's client_for \<Rightarrow> RoleUserReq \<Rightarrow> ('s, apiRoleBinding) act" where
  "BindUserToRoleEndpoint E clientFor req =
     (case RoleUserReq_Validate req of
        Inl _ \<Rightarrow> failA UtilBadRequest
      | Inr _ \<Rightarrow> BindUserToRole E (clientFor (req_projectID req) (crq_clusterID req)) (cru_body req) (cru_roleID req) (rur_namespace req))"

definition UnbindUserFromRoleBindingEndpoint :: "'s client_for \<Rightarrow> RoleUserReq \<Rightarrow> ('s, apiRoleBinding) act" where
  "UnbindUserFromRoleBindingEndpoint clientFor req =
     (case RoleUserReq_Validate req of
        Inl _ \<Rightarrow> failA UtilBadRequest
      | Inr _ \<Rightarrow> UnbindUserFromRoleBinding (clientFor (req_projectID req) (crq_clusterID req)) (cru_body req) (cru_roleID req) (rur_namespace req))"

definition BindUserToClusterRoleEndpoint :: "'s client_for \<Rightarrow> ClusterRoleUserReq \<Rightarrow> ('s, apiClusterRoleBinding) act" where
  "BindUserToClusterRoleEndpoint clientFor req =
     (case RoleUserReq_Validate req of
        Inl _ \<Rightarrow> failA UtilBadRequest
      | Inr _ \<Rightarrow> BindUserToClusterRole (clientFor (req_projectID req) (crq_clusterID req)) (cru_body req) (cru_roleID req))"

definition UnbindUserFromClusterRoleBindingEndpoint :: "'s client_for \<Rightarrow> ClusterRoleUserReq \<Rightarrow> ('s, apiClusterRoleBinding) act" where
  "UnbindUserFromClusterRoleBindingEndpoint clientFor req =
     (case RoleUserReq_Validate req of
        Inl _ \<Rightarrow> failA UtilBadRequest
      | Inr _ \<Rightarrow> UnbindUserFromClusterRoleBinding (clientFor (req_projectID req) (crq_clusterID req)) (cru_body req) (cru_roleID req))"

definition ListRoleBindingEndpoint :: "'s client_for \<Rightarrow> 'a ClusterReq_scheme \<Rightarrow> ('s, apiRoleBinding list) act" where
  "ListRoleBindingEndpoint clientFor req = ListRoleBinding (clientFor (req_projectID req) (crq_clusterID req))"

definition ListClusterRoleBindingEndpoint :: "'s client_for \<Rightarrow> 'a ClusterReq_scheme \<Rightarrow> ('s, apiClusterRoleBinding list) act" where
  "ListClusterRoleBindingEndpoint clientFor req = ListClusterRoleBinding (clientFor (req_projectID req) (crq_clusterID req))"

text \<open>Those of the first version, which differ in the request and its validation.\<close>

definition v1_BindUserToRoleEndpoint :: "('s, 'x) env_scheme \<Rightarrow> 's client_for \<Rightarrow> v1_roleUserReq \<Rightarrow> ('s, apiRoleBinding) act" where
  "v1_BindUserToRoleEndpoint E clientFor req =
     (case v1_roleUserReq_Validate req of
        Inl _ \<Rightarrow> failA UtilBadRequest
      | Inr _ \<Rightarrow> BindUserToRole E (clientFor (req_projectID req) (req_clusterID req)) (cru1_body req) (cru1_roleID req) (ru1_namespace req))"

definition v1_UnbindUserFromRoleBindingEndpoint :: "'s client_for \<Rightarrow> v1_roleUserReq \<Rightarrow> ('s, apiRoleBinding) act" where
  "v1_UnbindUserFromRoleBindingEndpoint clientFor req =
     (case v1_roleUserReq_Validate req of
        Inl _ \<Rightarrow> failA UtilBadRequest
      | Inr _ \<Rightarrow> UnbindUserFromRoleBinding (clientFor (req_projectID req) (req_clusterID req)) (cru1_body req) (cru1_roleID req) (ru1_namespace req))"

definition v1_BindUserToClusterRoleEndpoint :: "'s client_for \<Rightarrow> v1_clusterRoleUserReq \<Rightarrow> ('s, apiClusterRoleBinding) act" where
  "v1_BindUserToClusterRoleEndpoint clientFor req =
     (case v1_roleUserReq_Validate req of
        Inl _ \<Rightarrow> failA UtilBadRequest
      | Inr _ \<Rightarrow> BindUserToClusterRole (clientFor (req_projectID req) (req_clusterID req)) (cru1_body req) (cru1_roleID req))"

definition v1_UnbindUserFromClusterRoleBindingEndpoint :: "'s client_for \<Rightarrow> v1_clusterRoleUserReq \<Rightarrow> ('s, apiClusterRoleBinding) act" where
  "v1_UnbindUserFromClusterRoleBindingEndpoint clientFor req =
     (case v1_roleUserReq_Validate req of
        Inl _ \<Rightarrow> failA UtilBadRequest
      | Inr _ \<Rightarrow> UnbindUserFromClusterRoleBinding (clientFor (req_projectID req) (req_clusterID req)) (cru1_body req) (cru1_roleID req))"

section \<open>Service accounts of a cluster\<close>

record Permission =
  pm_scope :: string
  pm_roleRefName :: string
  pm_namespace :: string

text \<open>A subject that names the service account.\<close>

definition names_sa :: "serviceaccount \<Rightarrow> rbac_subject \<Rightarrow> bool" where
  "names_sa sa subject \<longleftrightarrow> sj_name subject = om_name sa \<and> sj_namespace subject = om_namespace sa"

definition unbind_sa :: "(rbac_binding, 's) kclient \<Rightarrow> serviceaccount \<Rightarrow> rbac_binding \<Rightarrow> ('s, unit) act" where
  "unbind_sa client serviceAccount binding =
     (let newSubjects = filter (\<lambda>s. \<not> names_sa serviceAccount s) (rb_subjects binding);
          shouldUpdate = list_ex (names_sa serviceAccount) (rb_subjects binding) in
      if shouldUpdate then
        bindA (wrapA Wrapped (kUpdate client (binding\<lparr>rb_subjects := newSubjects\<rparr>))) (\<lambda>_. retA ())
      else retA ())"

definition UnbindServiceAccountFromRoles :: "'s uclient \<Rightarrow> serviceaccount \<Rightarrow> ('s, unit) act" where
  "UnbindServiceAccountFromRoles client serviceAccount =
     bindA (wrapA Wrapped (listA (uc_roleBindings client) binding_label)) (\<lambda>items.
       foldA (\<lambda>binding _. unbind_sa (uc_roleBindings client) serviceAccount binding) items ())"

definition UnbindServiceAccountFromClusterRoles :: "'s uclient \<Rightarrow> serviceaccount \<Rightarrow> ('s, unit) act" where
  "UnbindServiceAccountFromClusterRoles client serviceAccount =
     bindA (wrapA Wrapped (listA (uc_clusterRoleBindings client) binding_label)) (\<lambda>items.
       foldA (\<lambda>binding _. unbind_sa (uc_clusterRoleBindings client) serviceAccount binding) items ())"

definition permissions_of :: "serviceaccount \<Rightarrow> (rbac_binding \<Rightarrow> Permission) \<Rightarrow> rbac_binding list \<Rightarrow> Permission list" where
  "permissions_of sa perm bindings =
     concat (map (\<lambda>b. map (\<lambda>_. perm b) (filter (\<lambda>s. sj_kind s = ''ServiceAccount'' \<and> names_sa sa s) (rb_subjects b))) bindings)"

definition GetServiceAccountPermissions :: "'s uclient \<Rightarrow> serviceaccount \<Rightarrow> ('s, Permission list) act" where
  "GetServiceAccountPermissions client serviceAccount =
     bindA (httpA (listA (uc_clusterRoleBindings client) binding_label)) (\<lambda>clusterRoleBindings.
     bindA (httpA (listA (uc_roleBindings client) binding_label)) (\<lambda>roleBindings.
       retA (permissions_of serviceAccount (\<lambda>b. \<lparr>pm_scope = ''Cluster'', pm_roleRefName = role_name b, pm_namespace = []\<rparr>) clusterRoleBindings @
             permissions_of serviceAccount (\<lambda>b. \<lparr>pm_scope = ''Namespace'', pm_roleRefName = role_name b, pm_namespace = om_namespace b\<rparr>) roleBindings)))"

record apiClusterServiceAccount = apiObject +
  acs_namespace :: string

record CreateClusterSAReq = ClusterReq +
  csq_body :: apiClusterServiceAccount

record ClusterSAReq = ClusterReq +
  sar_namespace :: string
  sar_serviceAccountID :: string

definition ServiceAccountComponentKey :: string where "ServiceAccountComponentKey = ''component''"
definition ServiceAccountComponentValue :: string where "ServiceAccountComponentValue = ''clusterServiceAccount''"

definition DecodeListClusterServiceAccount :: "http_request \<Rightarrow> ClusterReq result" where
  "DecodeListClusterServiceAccount r =
     (case DecodeProjectRequest r of
        Inl err \<Rightarrow> Inl err
      | Inr projectReq \<Rightarrow>
          (case DecodeClusterID r of
             Inl err \<Rightarrow> Inl err
           | Inr clusterID \<Rightarrow> Inr \<lparr>req_projectID = req_projectID projectReq, crq_clusterID = clusterID\<rparr>))"

definition DecodeCreateClusterServiceAccount :: "http_request \<Rightarrow> apiClusterServiceAccount result \<Rightarrow> CreateClusterSAReq result" where
  "DecodeCreateClusterServiceAccount r body =
     (case DecodeListBindingReq r of
        Inl err \<Rightarrow> Inl err
      | Inr cr \<Rightarrow>
          (case body of
             Inl err \<Rightarrow> Inl err
           | Inr b \<Rightarrow> Inr (ClusterReq.extend cr (CreateClusterSAReq.fields b))))"

definition DecodeClusterSAReq :: "http_request \<Rightarrow> ClusterSAReq result" where
  "DecodeClusterSAReq r =
     (case DecodeListClusterServiceAccount r of
        Inl err \<Rightarrow> Inl err
      | Inr cr \<Rightarrow>
          (case required_var r ''namespace'' of
             Inl err \<Rightarrow> Inl err
           | Inr ns \<Rightarrow>
               (case required_var r ''service_account_id'' of
                  Inl err \<Rightarrow> Inl err
                | Inr saID \<Rightarrow> Inr (ClusterReq.extend cr (ClusterSAReq.fields ns saID)))))"

definition convertInternalClusterSAToExternal :: "serviceaccount \<Rightarrow> apiClusterServiceAccount" where
  "convertInternalClusterSAToExternal sa = apiObject.extend
     \<lparr>ao_id = om_name sa, ao_name = om_name sa, ao_annotations = [], ao_creationTimestamp = om_creationTimestamp sa,
      ao_deletionTimestamp = None\<rparr> (apiClusterServiceAccount.fields (om_namespace sa))"

definition ListClusterSAEndpoint :: "'s client_for \<Rightarrow> 'a ClusterReq_scheme \<Rightarrow> ('s, apiClusterServiceAccount list) act" where
  "ListClusterSAEndpoint clientFor req =
     bindA (clientFor (req_projectID req) (crq_clusterID req)) (\<lambda>client.
     bindA (httpA (listA (uc_serviceAccounts client) (LabelEquals ServiceAccountComponentKey ServiceAccountComponentValue))) (\<lambda>items.
       retA (map convertInternalClusterSAToExternal items)))"

definition CreateClusterSAEndpoint :: "'s client_for \<Rightarrow> CreateClusterSAReq \<Rightarrow> ('s, apiClusterServiceAccount) act" where
  "CreateClusterSAEndpoint clientFor req =
     bindA (clientFor (req_projectID req) (crq_clusterID req)) (\<lambda>client.
     bindA (httpA (kCreate (uc_serviceAccounts client)
              (blank_meta\<lparr>om_name := ao_name (csq_body req), om_namespace := acs_namespace (csq_body req),
                 om_labels := [(ServiceAccountComponentKey, ServiceAccountComponentValue)]\<rparr>))) (\<lambda>serviceAccount.
     bindA (httpA (kCreate (uc_secrets client)
              (objmeta.extend
                 (blank_meta\<lparr>om_namespace := acs_namespace (csq_body req),
                    om_annotations := [(''kubernetes.io/service-account.name'', om_name serviceAccount)]\<rparr>)
                 (tokensecret.fields (''sa-'' @ om_name serviceAccount @ ''-'') ''kubernetes.io/service-account-token'')))) (\<lambda>_.
       retA (convertInternalClusterSAToExternal serviceAccount))))"

text \<open>The account of the request; only accounts with the label may be asked about or deleted.\<close>

definition labelled_sa :: "'s uclient \<Rightarrow> ClusterSAReq \<Rightarrow> ('s, serviceaccount) act" where
  "labelled_sa client req =
     bindA (httpA (getA (uc_serviceAccounts client) (sar_namespace req, sar_serviceAccountID req))) (\<lambda>serviceAccount.
       if mget (om_labels serviceAccount) ServiceAccountComponentKey \<noteq> ServiceAccountComponentValue
       then failA (HTTPError 403) else retA serviceAccount)"

definition GetClusterSAPermissionsEndpoint :: "'s client_for \<Rightarrow> ClusterSAReq \<Rightarrow> ('s, Permission list) act" where
  "GetClusterSAPermissionsEndpoint clientFor req =
     bindA (clientFor (req_projectID req) (crq_clusterID req)) (\<lambda>client.
     bindA (labelled_sa client req) (\<lambda>serviceAccount.
       GetServiceAccountPermissions client serviceAccount))"

definition DeleteClusterSAKubeconigEndpoint :: "'s client_for \<Rightarrow> ClusterSAReq \<Rightarrow> ('s, unit) act" where
  "DeleteClusterSAKubeconigEndpoint clientFor req =
     bindA (clientFor (req_projectID req) (crq_clusterID req)) (\<lambda>client.
     bindA (labelled_sa client req) (\<lambda>serviceAccount.
     bindA (UnbindServiceAccountFromRoles client serviceAccount) (\<lambda>_.
     bindA (UnbindServiceAccountFromClusterRoles client serviceAccount) (\<lambda>_.
       httpA (kDelete (uc_serviceAccounts client) (key_of serviceAccount))))))"

end
