(* ===== verification/Cluster_RBAC_Properties.thy ===== *)
theory Cluster_RBAC_Properties
  imports Cluster_RBAC Access_Control Mem_Extend
begin

text \<open>
  What holds of the access to user clusters: which client a request gets, and what binding, unbinding and the
  removal of a service account do to the bindings of a cluster.
\<close>

section \<open>The client of a request\<close>

abbreviation kube_client ::
  "('s, 'x) env_scheme \<Rightarrow> 's seed_env \<Rightarrow> user \<Rightarrow> string \<Rightarrow> string \<Rightarrow> ('s, 's uclient) act" where
  "kube_client E S u \<equiv> cluster_client (NewClusterProvider E S) (kube_privilegedClusterProvider E S) (kube_projectProvider E)
     (kube_privilegedProjectProvider E) (kube_getter E u)"

lemma reads_seed_impersonated [reads_intros]: "reads (seed_impersonated S i)"
  unfolding seed_impersonated_def by (intro reads_intros)

lemma reads_cluster_Get [reads_intros]: "reads (cluster_Get S i n opts)"
  unfolding cluster_Get_def by (intro reads_intros)

lemma reads_cluster_GetUnsecured [reads_intros]: "reads (cluster_GetUnsecured K S p n opts)"
  unfolding cluster_GetUnsecured_def by (intro reads_intros)

lemma provider_fields:
  "ucp_Get (NewClusterProvider K S) = cluster_Get S" "ucp_GetAdminClient (NewClusterProvider K S) = GetAdminClientForUserCluster S"
  "ucp_GetClient (NewClusterProvider K S) = GetClientForUserCluster S"
  "pcp_GetUnsecured (kube_privilegedClusterProvider K S) = cluster_GetUnsecured K S"
  by (simp_all add: NewClusterProvider_def kube_privilegedClusterProvider_def)

lemma reads_GetCluster [reads_intros]:
  "reads (GetCluster (NewClusterProvider E S) (kube_privilegedClusterProvider E S) (kube_projectProvider E)
     (kube_privilegedProjectProvider E) (kube_getter E u) pid cid opts)"
  unfolding GetCluster_def GetInternalCluster_def getClusterForRegularUser_def provider_fields
  by (intro reads_intros me.getter_reads)

lemma cluster_Get_InrD:
  "cluster_Get S (Some i) n None s = (Inr c, t) \<Longrightarrow>
     \<exists>client. sv_impersonated S (ui_email i) (ui_groups i) = Inr client \<and> kGet client ([], n) s = Inr c"
  by (auto simp: cluster_Get_def seed_impersonated_def checkInitStatus_def bindA_eq_Inr)

lemma cluster_GetUnsecured_InrD:
  "cluster_GetUnsecured K S (Some p) n None s = (Inr c, t) \<Longrightarrow>
     kGet (sv_client S) ([], n) s = Inr c \<and> mget (om_labels c) (projectIDLabelKey K) = om_name p"
  by (auto simp: cluster_GetUnsecured_def checkInitStatus_def bindA_eq_Inr split: if_splits)

text \<open>What the getter reports for a member: his granted groups, sorted, and his granted roles.\<close>

lemma getter_grants:
  assumes api: "api_ok V E" and sel: "selectors_ok E" and i: "kube_getter E u pid s = (Inr i, t)" and pid: "pid \<noteq> []"
  shows "ui_email i = us_email u"
    and "ui_groups i = sorted_list_of_set (granted_groups (st_upbs (V s)) (st_gpbs (V s)) u pid)"
    and "ui_roles i = granted_roles (st_upbs (V s))
           (filter (\<lambda>b. map_of (om_labels b) (projectIDLabelKey E) = Some pid) (st_gpbs (V s))) u pid"
proof -
  from mapper.getter_project[OF i pid] obtain G where m: "MapUserToGroups E u pid s = (Inr G, s)"
    and R: "MapUserToRoles E u pid s = (Inr (ui_roles i), s)"
    and G: "set (ui_groups i) = G" "sorted (ui_groups i)" "distinct (ui_groups i)"
    by (auto simp: kube_memberMapper_def)
  show "ui_email i = us_email u" by (rule mapper.getter_identity(1)[OF i])
  from m have "G = granted_groups (st_upbs (V s)) (st_gpbs (V s)) u pid"
    using api by (auto elim!: MapUserToGroups_InrD simp: api_ok_lists)
  then show "ui_groups i = sorted_list_of_set (granted_groups (st_upbs (V s)) (st_gpbs (V s)) u pid)"
    using sorted_list_of_set.idem_if_sorted_distinct[OF G(2,3)] G(1) by simp
  obtain q where q: "newRequirement E (projectIDLabelKey E) pid = Inr q"
    using R by (cases "newRequirement E (projectIDLabelKey E) pid") (auto simp: MapUserToRoles_def bindA_def wrapA_def)
  with sel have "q = LabelEquals (projectIDLabelKey E) pid" unfolding selectors_ok_def by blast
  with MapUserToRoles_run[OF q, of s _ _ u] R show "ui_roles i = granted_roles (st_upbs (V s))
           (filter (\<lambda>b. map_of (om_labels b) (projectIDLabelKey E) = Some pid) (st_gpbs (V s))) u pid"
    using list_okD[OF api_okD(3)[OF api]] api_ok_lists[OF api] by simp
qed

text \<open>
  C23: inside a user cluster everybody acts with his own rights. The client a request gets connects as the administrator of the cluster only if the caller is an
  administrator, and then to a cluster that is labelled with the project. For everybody else the
  cluster was returned by the seed's API server to a client that impersonates the caller with exactly the groups
  granted to him in the project, and the connection impersonates him with exactly his roles there.
\<close>

theorem cluster_client_authorized:
  assumes api: "api_ok V E" and sel: "selectors_ok E" and pid: "pid \<noteq> []"
    and run: "kube_client E S u pid cid s = (Inr client, t)"
  shows "(us_isAdmin u \<longrightarrow> (\<exists>c. kGet (sv_client S) ([], cid) s = Inr c \<and>
        mget (om_labels c) (projectIDLabelKey E) = pid \<and> sv_connect S c None s = (Inr client, t))) \<and>
    (\<not> us_isAdmin u \<longrightarrow> (\<exists>c k. sv_impersonated S (us_email u)
          (sorted_list_of_set (granted_groups (st_upbs (V s)) (st_gpbs (V s)) u pid)) = Inr k \<and>
        kGet k ([], cid) s = Inr c \<and>
        sv_connect S c (Some (us_email u, sorted_list_of_set (granted_roles (st_upbs (V s))
          (filter (\<lambda>b. map_of (om_labels b) (projectIDLabelKey E) = Some pid) (st_gpbs (V s))) u pid) @ [''system:authenticated''])) s =
          (Inr client, t)))"
proof -
  from run obtain c where c: "GetCluster (NewClusterProvider E S) (kube_privilegedClusterProvider E S) (kube_projectProvider E)
     (kube_privilegedProjectProvider E) (kube_getter E u) pid cid None s = (Inr c, s)"
    and cl: "GetClusterClient (kube_getter E u) (NewClusterProvider E S) c pid s = (Inr client, t)"
    by (auto simp: cluster_client_def bind_reads reads_GetCluster wrapA_eq_Inr)
  from c obtain p a where p: "GetProject (kube_getter E u) (kube_projectProvider E) (kube_privilegedProjectProvider E) pid None s = (Inr p, s)"
    and a: "kube_getter E u [] s = (Inr a, s)"
    and r: "(if ui_isAdmin a then httpA (cluster_GetUnsecured E S (Some p) cid None)
       else getClusterForRegularUser (kube_getter E u) (NewClusterProvider E S) (kube_privilegedClusterProvider E S) p pid cid None) s = (Inr c, s)"
    unfolding GetCluster_def GetInternalCluster_def provider_fields
    by (auto simp: bind_reads reads_wrapA reads_GetProject me.getter_reads wrapA_eq_Inr)
  from cl have conn: "(if ui_isAdmin a then sv_connect S c None else bindA (wrapA Wrapped (kube_getter E u pid))
      (\<lambda>i. sv_connect S c (Some (withImpersonation i)))) s = (Inr client, t)"
    using a by (auto simp: GetClusterClient_def provider_fields GetAdminClientForUserCluster_def GetClientForUserCluster_def
        bind_reads reads_wrapA me.getter_reads wrapA_eq_Inr)
  have adm: "ui_isAdmin a = us_isAdmin u" by (rule me.getter_admin[OF a])
  show ?thesis
  proof (intro conjI impI)
    assume "us_isAdmin u"
    then show "\<exists>c. kGet (sv_client S) ([], cid) s = Inr c \<and> mget (om_labels c) (projectIDLabelKey E) = pid \<and>
        sv_connect S c None s = (Inr client, t)"
      using r conn adm cluster_GetUnsecured_InrD[of E S p cid s c s] GetProject_name[OF api p] by (auto simp: wrapA_eq_Inr)
  next
    assume "\<not> us_isAdmin u"
    then obtain i j where i: "kube_getter E u pid s = (Inr i, s)" and g: "cluster_Get S (Some i) cid None s = (Inr c, s)"
      and j: "kube_getter E u pid s = (Inr j, s)" and co: "sv_connect S c (Some (withImpersonation j)) s = (Inr client, t)"
      using r conn adm
      by (auto simp: getClusterForRegularUser_def provider_fields bind_reads reads_wrapA me.getter_reads wrapA_eq_Inr
          tryA_case_Inr reads_cluster_Get dest: readsD[OF reads_cluster_Get] split: if_splits)
    have "j = i" using i j by simp
    with cluster_Get_InrD[OF g] co getter_grants[OF api sel i pid]
    show "\<exists>c k. sv_impersonated S (us_email u) (sorted_list_of_set (granted_groups (st_upbs (V s)) (st_gpbs (V s)) u pid)) = Inr k \<and>
        kGet k ([], cid) s = Inr c \<and>
        sv_connect S c (Some (us_email u, sorted_list_of_set (granted_roles (st_upbs (V s))
          (filter (\<lambda>b. map_of (om_labels b) (projectIDLabelKey E) = Some pid) (st_gpbs (V s))) u pid) @ [''system:authenticated''])) s =
          (Inr client, t)"
      by (auto simp: withImpersonation_def)
  qed
qed

section \<open>Bindings of a cluster\<close>

text \<open>
  \<open>R\<close> and \<open>C\<close> are the stored role bindings and cluster role bindings. Every client of the cluster works on them;
  a write to the one kind leaves the other alone.
\<close>

definition rbac_ok :: "('s \<Rightarrow> rbac_binding list) \<Rightarrow> ('s \<Rightarrow> rbac_binding list) \<Rightarrow> 's uclient \<Rightarrow> bool" where
  "rbac_ok R C c \<longleftrightarrow>
     list_ok R (uc_roleBindings c) \<and> create_ok R (uc_roleBindings c) \<and> update_ok R (uc_roleBindings c) \<and>
     list_ok C (uc_clusterRoleBindings c) \<and> update_ok C (uc_clusterRoleBindings c) \<and>
     (\<forall>x s. C (snd (kCreate (uc_roleBindings c) x s)) = C s) \<and>
     (\<forall>x s. C (snd (kUpdate (uc_roleBindings c) x s)) = C s) \<and>
     (\<forall>x s. R (snd (kUpdate (uc_clusterRoleBindings c) x s)) = R s)"

lemma rbac_okD:
  assumes "rbac_ok R C c"
  shows "list_ok R (uc_roleBindings c)" and "create_ok R (uc_roleBindings c)" and "update_ok R (uc_roleBindings c)"
    and "list_ok C (uc_clusterRoleBindings c)" and "update_ok C (uc_clusterRoleBindings c)"
    and "kCreate (uc_roleBindings c) x s = (r, t) \<Longrightarrow> C t = C s"
    and "kUpdate (uc_roleBindings c) x s = (r, t) \<Longrightarrow> C t = C s"
    and "kUpdate (uc_clusterRoleBindings c) x s = (r, t) \<Longrightarrow> R t = R s"
  using assms unfolding rbac_ok_def by (auto dest: arg_cong[of _ _ snd] simp: eq_snd_iff) (metis snd_conv)+

text \<open>What matters of a binding.\<close>

definition sketch :: "rbac_binding \<Rightarrow> okey \<times> smap \<times> (string \<times> string \<times> string) \<times> rbac_subject list" where
  "sketch b = (key_of b, om_labels b, rb_roleRef b, rb_subjects b)"

lemma same_sketch: "same_object (a :: rbac_binding) b \<Longrightarrow> sketch a = sketch b"
  by (cases a; cases b) (simp add: same_object_def sketch_def)

lemma sketch_key: "sketch a = sketch b \<Longrightarrow> key_of a = key_of b"
  by (simp add: sketch_def)


text \<open>The list in which one binding has other subjects.\<close>

definition resubject :: "rbac_binding \<Rightarrow> rbac_subject list \<Rightarrow> rbac_binding list \<Rightarrow> rbac_binding list" where
  "resubject b subs bs = map (\<lambda>y. if key_of y = key_of b then y\<lparr>rb_subjects := subs\<rparr> else y) bs"

lemma update_resubject:
  assumes "update_ok R c" and "keys_ok (R s)" and "b \<in> set (R s)"
    and "kUpdate c (b\<lparr>rb_subjects := subs\<rparr>) s = (Inr b', t)"
  shows "map sketch (R t) = map sketch (resubject b subs (R s))" and "sketch b' = sketch (b\<lparr>rb_subjects := subs\<rparr>)"
proof -
  have k: "key_of (y\<lparr>rb_subjects := z\<rparr>) = key_of y" for y z by (simp add: key_of_def)
  show b': "sketch b' = sketch (b\<lparr>rb_subjects := subs\<rparr>)" by (rule same_sketch[OF update_okD(1)[OF assms(1,4)]])
  have "y = b" if "y \<in> set (R s)" "key_of y = key_of b" for y
    using that assms(2,3) by (auto simp: keys_ok_def distinct_map inj_on_def)
  then show "map sketch (R t) = map sketch (resubject b subs (R s))"
    using b' by (auto simp: update_okD(2)[OF assms(1,4)] resubject_def k)
qed

lemma key_resubject [simp]: "key_of (y\<lparr>rb_subjects := z\<rparr>) = key_of y"
  by (simp add: key_of_def)

lemma map_sketch_induct [consumes 1, case_names Nil Cons]:
  assumes "map sketch xs = map sketch ys" and "P [] []"
    and "\<And>x xs y ys. sketch x = sketch y \<Longrightarrow> map sketch xs = map sketch ys \<Longrightarrow> P xs ys \<Longrightarrow> P (x # xs) (y # ys)"
  shows "P xs ys"
proof -
  have "length xs = length ys" using assms(1) by (metis length_map)
  then show ?thesis using assms(1) by (induction rule: list_induct2) (simp_all add: assms(2,3))
qed




lemma keys_ok_resubject [simp]: "keys_ok (resubject b subs bs) = keys_ok bs"
proof -
  have "map key_of (resubject b subs bs) = map key_of bs" by (simp add: resubject_def)
  then show ?thesis by (simp add: keys_ok_def)
qed

text \<open>The binding that the handlers take: the first one with the label, in the namespace, for the role.\<close>

definition binding_for :: "string option \<Rightarrow> string \<Rightarrow> rbac_binding list \<Rightarrow> rbac_binding option" where
  "binding_for ns roleID bs = List.find
     (\<lambda>b. role_name b = roleID \<and> (ns = None \<or> om_namespace b = the ns) \<and> selects binding_label (om_labels b)) bs"

lemma find_filter: "List.find p (filter q xs) = List.find (\<lambda>x. p x \<and> q x) xs"
  by (induction xs) auto

lemma find_binding_role:
  "find_binding roleID (filter (\<lambda>b. om_namespace b = ns) (filter (\<lambda>b. selects binding_label (om_labels b)) bs)) =
     binding_for (Some ns) roleID bs"
  by (simp add: find_binding_def binding_for_def find_filter conj_ac)

lemma find_binding_cluster:
  "find_binding roleID (filter (\<lambda>b. selects binding_label (om_labels b)) bs) = binding_for None roleID bs"
  by (simp add: find_binding_def binding_for_def find_filter)

lemma binding_for_mem: "binding_for ns roleID bs = Some b \<Longrightarrow> b \<in> set bs"
  by (auto simp: binding_for_def dest: find_SomeD)

lemma binding_for_sketch:
  assumes "map sketch xs = map sketch ys"
  shows "map_option sketch (binding_for ns roleID xs) = map_option sketch (binding_for ns roleID ys)"
  using assms
proof (induction rule: map_sketch_induct)
  case Nil
  show ?case by simp
next
  case (Cons x xs y ys)
  then have "role_name x = role_name y" "om_namespace x = om_namespace y" "om_labels x = om_labels y"
    by (simp_all add: sketch_def role_name_def key_of_def)
  with Cons show ?case by (auto simp: binding_for_def)
qed

lemma binding_for_resubject:
  "binding_for ns roleID (resubject b subs bs) =
     map_option (\<lambda>y. if key_of y = key_of b then y\<lparr>rb_subjects := subs\<rparr> else y) (binding_for ns roleID bs)"
  unfolding binding_for_def resubject_def by (induction bs) (auto simp: role_name_def)

section \<open>Binding and unbinding\<close>




lemma bind_subjects_outcome:
  assumes "update_ok R c" and "keys_ok (R s)" and "b \<in> set (R s)"
  shows "outcome (bind_subjects c ru b) s (\<lambda>t. R t = R s)
    (\<lambda>b' t. \<not> list_ex (already_connected ru) (rb_subjects b) \<and>
       sketch b' = sketch (b\<lparr>rb_subjects := rb_subjects b @ new_subjects ru\<rparr>) \<and>
       map sketch (R t) = map sketch (resubject b (rb_subjects b @ new_subjects ru) (R s)))"
  unfolding bind_subjects_def
proof (intro outcome_intros refl)
  let ?b = "b\<lparr>rb_subjects := rb_subjects b @ new_subjects ru\<rparr>"
  assume "\<not> list_ex (already_connected ru) (rb_subjects b)"
  then show "outcome (kUpdate c ?b) s (\<lambda>t. R t = R s)
    (\<lambda>b' t. \<not> list_ex (already_connected ru) (rb_subjects b) \<and> sketch b' = sketch ?b \<and>
       map sketch (R t) = map sketch (resubject b (rb_subjects b @ new_subjects ru) (R s)))"
    using update_resubject[OF assms] update_ok_failD[OF assms(1), of ?b s]
    by (cases "kUpdate c ?b s"; cases "fst (kUpdate c ?b s)") (auto simp: outcome_def)
qed

lemma unbind_subjects_outcome:
  assumes "update_ok R c" and "keys_ok (R s)" and "b \<in> set (R s)"
  shows "outcome (unbind_subjects c ru b) s (\<lambda>t. R t = R s)
    (\<lambda>b' t. sketch b' = sketch (b\<lparr>rb_subjects := filter (\<lambda>x. \<not> unbound ru x) (rb_subjects b)\<rparr>) \<and>
       map sketch (R t) = map sketch (resubject b (filter (\<lambda>x. \<not> unbound ru x) (rb_subjects b)) (R s)))"
proof -
  let ?b = "b\<lparr>rb_subjects := filter (\<lambda>x. \<not> unbound ru x) (rb_subjects b)\<rparr>"
  show ?thesis
    unfolding unbind_subjects_def
    using update_resubject[OF assms] update_ok_failD[OF assms(1), of ?b s]
    by (intro outcome_wrapA) (cases "kUpdate c ?b s"; cases "fst (kUpdate c ?b s)"; auto simp: outcome_def)
qed

text \<open>
  A request against one cluster: its client is obtained without a write and works on the two lists, and drawing a
  random name changes neither.
\<close>

definition rbac_request ::
  "('s, 'x) env_scheme \<Rightarrow> ('s \<Rightarrow> rbac_binding list) \<Rightarrow> ('s \<Rightarrow> rbac_binding list) \<Rightarrow> ('s, 's uclient) act \<Rightarrow> bool" where
  "rbac_request E R C m \<longleftrightarrow> reads m \<and> (\<forall>s c t. m s = (Inr c, t) \<longrightarrow> rbac_ok R C c) \<and>
     (\<forall>s. R (snd (randString E s)) = R s) \<and> (\<forall>s. C (snd (randString E s)) = C s)"

lemma rbac_requestD:
  assumes "rbac_request E R C m"
  shows "reads m" and "m s = (Inr c, t) \<Longrightarrow> rbac_ok R C c" and "randA E s = (r, t) \<Longrightarrow> R t = R s"
  using assms unfolding rbac_request_def randA_def by (auto split: prod.splits) (metis snd_conv)

text \<open>
  The binding that a new user is added to, and the list it is in: an existing one, or a new one without
  subjects at the end.
\<close>

definition target :: "string \<Rightarrow> string \<Rightarrow> rbac_binding list \<Rightarrow> rbac_binding \<Rightarrow> rbac_binding list \<Rightarrow> bool" where
  "target ns roleID old b bs \<longleftrightarrow> binding_for (Some ns) roleID bs = Some b \<and> keys_ok bs \<and>
     (bs = old \<or> bs = old @ [b] \<and> rb_subjects b = [] \<and> binding_for (Some ns) roleID old = None)"

lemma binding_for_append:
  "binding_for ns roleID (bs @ [b]) =
     (case binding_for ns roleID bs of Some x \<Rightarrow> Some x | None \<Rightarrow> binding_for ns roleID [b])"
  unfolding binding_for_def by (induction bs) auto

lemma generate_target:
  assumes ok: "rbac_request E R C m" and c: "rbac_ok R C c" and keys: "keys_ok (R s)"
    and none: "binding_for (Some ns) roleID (R s) = None"
    and run: "generateRBACRoleBinding E c ns roleID s = (Inr b, t)"
  shows "target ns roleID (R s) b (R t)"
proof -
  from run obtain r u where r: "randA E s = (Inr r, u)" and k: "kCreate (uc_roleBindings c)
      (objmeta.extend (blank_meta\<lparr>om_name := r @ '':'' @ roleID, om_namespace := ns,
               om_labels := [(UserClusterComponentKey, UserClusterBindingComponentValue)]\<rparr>)
            (rbac_binding.fields (''rbac.authorization.k8s.io'', ''Role'', roleID) [])) u = (Inr b, t)"
    by (auto simp: generateRBACRoleBinding_def bindA_eq_Inr)
  note cr = create_okD[OF rbac_okD(2)[OF c] k]
  have Rt: "R t = R s @ [b]" using cr(2) rbac_requestD(3)[OF ok r] by simp
  have sk: "sketch b = ((ns, r @ '':'' @ roleID), [(UserClusterComponentKey, UserClusterBindingComponentValue)],
      (''rbac.authorization.k8s.io'', ''Role'', roleID), [])"
    using same_sketch[OF cr(1)] by (simp add: sketch_def key_of_def objmeta.defs rbac_binding.defs blank_meta_def)
  have "key_of b \<notin> key_of ` set (R s)"
    using cr(3) same_objectD(3)[OF cr(1)] rbac_requestD(3)[OF ok r] by simp
  then have "keys_ok (R t)" using keys by (simp add: Rt keys_ok_def)
  moreover have "binding_for (Some ns) roleID [b] = Some b" "rb_subjects b = []"
    using sk by (auto simp: sketch_def binding_for_def role_name_def key_of_def)
  ultimately show ?thesis using none by (simp add: target_def Rt binding_for_append)
qed

lemma BindUserToRole_InrD:
  assumes ok: "rbac_request E R C m" and keys: "keys_ok (R s)" and run: "BindUserToRole E m ru roleID ns s = (Inr r, t)"
  obtains b bs where "target ns roleID (R s) b bs" and "\<not> list_ex (already_connected ru) (rb_subjects b)"
    and "map sketch (R t) = map sketch (resubject b (rb_subjects b @ new_subjects ru) bs)"
    and "arb_subjects r = rb_subjects b @ new_subjects ru"
proof -
  from run obtain c items b u b' where c: "m s = (Inr c, s)" and items: "list_roleBindings c ns s = (Inr items, s)"
    and b: "(case find_binding roleID items of Some b \<Rightarrow> retA b | None \<Rightarrow> httpA (generateRBACRoleBinding E c ns roleID)) s = (Inr b, u)"
    and bind: "bind_subjects (uc_roleBindings c) ru b u = (Inr b', t)" and r: "r = convertInternalRoleBindingToExternal b'"
    unfolding BindUserToRole_def list_roleBindings_def
    by (subst (asm) bind_reads[OF rbac_requestD(1)[OF ok]]) (auto simp: bindA_eq_Inr wrapA_eq_Inr)
  note okc = rbac_requestD(2)[OF ok c]
  have f: "find_binding roleID items = binding_for (Some ns) roleID (R s)"
    using items list_okD[OF rbac_okD(1)[OF okc]] by (auto simp: list_roleBindings_def bindA_eq_Inr simp flip: find_binding_role)
  have tg: "target ns roleID (R s) b (R u)"
    using b generate_target[OF ok okc keys, of ns roleID b u] keys unfolding f
    by (auto simp: target_def wrapA_eq_Inr split: option.splits)
  then have "keys_ok (R u)" "b \<in> set (R u)" by (auto simp: target_def dest: binding_for_mem)
  from outcomeD(2)[OF bind_subjects_outcome[OF rbac_okD(3)[OF okc] this] bind]
  have "\<not> list_ex (already_connected ru) (rb_subjects b)"
    "map sketch (R t) = map sketch (resubject b (rb_subjects b @ new_subjects ru) (R u))"
    "arb_subjects r = rb_subjects b @ new_subjects ru"
    by (simp_all add: r sketch_def convertInternalRoleBindingToExternal_def)
  with tg show thesis by (rule that)
qed

lemma UnbindUserFromRole_InrD:
  assumes ok: "rbac_request E R C m" and keys: "keys_ok (R s)" and run: "UnbindUserFromRoleBinding m ru roleID ns s = (Inr r, t)"
  obtains b where "binding_for (Some ns) roleID (R s) = Some b"
    and "map sketch (R t) = map sketch (resubject b (filter (\<lambda>x. \<not> unbound ru x) (rb_subjects b)) (R s))"
    and "arb_subjects r = filter (\<lambda>x. \<not> unbound ru x) (rb_subjects b)"
proof -
  from run obtain c items b b' where c: "m s = (Inr c, s)" and items: "list_roleBindings c ns s = (Inr items, s)"
    and b: "find_binding roleID items = Some b"
    and unbind: "unbind_subjects (uc_roleBindings c) ru b s = (Inr b', t)" and r: "r = convertInternalRoleBindingToExternal b'"
    unfolding UnbindUserFromRoleBinding_def list_roleBindings_def
    by (auto simp: bind_reads[OF rbac_requestD(1)[OF ok]] bind_reads reads_wrapA reads_readA reads_bindA reads_retA
        bindA_eq_Inr[where m = "unbind_subjects _ _ _"] wrapA_eq_Inr split: option.splits)
  note okc = rbac_requestD(2)[OF ok c]
  have f: "binding_for (Some ns) roleID (R s) = Some b"
    using b items list_okD[OF rbac_okD(1)[OF okc]] by (auto simp: list_roleBindings_def bindA_eq_Inr simp flip: find_binding_role)
  from outcomeD(2)[OF unbind_subjects_outcome[OF rbac_okD(3)[OF okc] keys binding_for_mem[OF f]] unbind]
  show thesis using that[OF f] by (simp add: r sketch_def convertInternalRoleBindingToExternal_def)
qed


text \<open>
  an address is bound in one capitalisation and unbound in another. If the binding of a role has a subject whose
  name is the address of the request up to capitalisation, but not exactly, then binding the address is refused,
  and unbinding it reports success and leaves this subject bound.
\<close>

theorem unbind_misses_capitalisation:
  assumes ok: "rbac_request E R C m" and keys: "keys_ok (R s)"
    and b: "binding_for (Some ns) roleID (R s) = Some b" and x: "x \<in> set (rb_subjects b)"
    and email: "EqualFold (sj_name x) e" "sj_name x \<noteq> e" "e \<noteq> []"
    and ru: "ru = \<lparr>ru_userEmail = e, ru_group = [], ru_serviceAccount = [], ru_serviceAccountNamespace = []\<rparr>"
  shows "isl (fst (BindUserToRole E m ru roleID ns s)) \<and>
    (UnbindUserFromRoleBinding m ru roleID ns s = (Inr r, t) \<longrightarrow>
       x \<in> set (arb_subjects r) \<and> (\<exists>b'. binding_for (Some ns) roleID (R t) = Some b' \<and> x \<in> set (rb_subjects b')))"
proof (intro conjI impI)
  have con: "already_connected ru x" and un: "\<not> unbound ru x"
    using email by (simp_all add: ru already_connected_def unbound_def)
  show "isl (fst (BindUserToRole E m ru roleID ns s))"
  proof (rule ccontr)
    assume "\<not> isl (fst (BindUserToRole E m ru roleID ns s))"
    from success_obtain[OF this] obtain r t where "BindUserToRole E m ru roleID ns s = (Inr r, t)" by blast
    then obtain b' bs where "target ns roleID (R s) b' bs" "\<not> list_ex (already_connected ru) (rb_subjects b')"
      by (rule BindUserToRole_InrD[OF ok keys])
    then show False using b con x by (auto simp: target_def list_ex_iff)
  qed
  assume "UnbindUserFromRoleBinding m ru roleID ns s = (Inr r, t)"
  then obtain b' where "binding_for (Some ns) roleID (R s) = Some b'"
    and Rt: "map sketch (R t) = map sketch (resubject b' (filter (\<lambda>x. \<not> unbound ru x) (rb_subjects b')) (R s))"
    and r: "arb_subjects r = filter (\<lambda>x. \<not> unbound ru x) (rb_subjects b')"
    by (rule UnbindUserFromRole_InrD[OF ok keys])
  with b have "b' = b" by simp
  then show "x \<in> set (arb_subjects r)" using r x un by simp
  obtain y where y: "binding_for (Some ns) roleID (R t) = Some y"
    and "sketch y = sketch (b\<lparr>rb_subjects := filter (\<lambda>x. \<not> unbound ru x) (rb_subjects b)\<rparr>)"
    using binding_for_sketch[OF Rt, of "Some ns" roleID] b \<open>b' = b\<close> by (auto simp: binding_for_resubject)
  then have "rb_subjects y = filter (\<lambda>x. \<not> unbound ru x) (rb_subjects b)" by (simp add: sketch_def)
  with y x un show "\<exists>b'. binding_for (Some ns) roleID (R t) = Some b' \<and> x \<in> set (rb_subjects b')" by simp
qed

section \<open>Removing a service account\<close>

text \<open>A binding without the account.\<close>

definition without_sa :: "serviceaccount \<Rightarrow> rbac_binding \<Rightarrow> rbac_binding" where
  "without_sa sa b = b\<lparr>rb_subjects := filter (\<lambda>x. \<not> names_sa sa x) (rb_subjects b)\<rparr>"

lemma without_sa_other: "\<not> list_ex (names_sa sa) (rb_subjects b) \<Longrightarrow> without_sa sa b = b"
  by (simp add: without_sa_def list_ex_iff filter_id_conv)

lemma unbind_sa_outcome:
  assumes up: "update_ok R c" and keys: "keys_ok (R s)" and b: "b \<in> set (R s)"
    and run: "unbind_sa c sa b s = (Inr (), t)"
  obtains b' where "sketch b' = sketch (without_sa sa b)" and "R t = map (\<lambda>y. if key_of y = key_of b then b' else y) (R s)"
proof (cases "list_ex (names_sa sa) (rb_subjects b)")
  case True
  with run obtain b' where u: "kUpdate c (without_sa sa b) s = (Inr b', t)"
    by (auto simp: unbind_sa_def Let_def without_sa_def bindA_eq_Inr wrapA_eq_Inr)
  have "key_of (without_sa sa b) = key_of b" by (simp add: without_sa_def)
  then show thesis using that[OF same_sketch[OF update_okD(1)[OF up u]]] update_okD(2)[OF up u] by simp
next
  case False
  have "map (\<lambda>y. if key_of y = key_of b then b else y) (R s) = R s"
    by (rule map_idI) (use keys b in \<open>auto simp: keys_ok_def distinct_map inj_on_def\<close>)
  moreover have "R t = R s" using run False by (simp add: unbind_sa_def Let_def)
  ultimately show thesis using that[of b] without_sa_other[OF False] by simp
qed

lemma unbind_loop:
  assumes up: "update_ok R c"
  shows "keys_ok (R s) \<Longrightarrow> set items \<subseteq> set (R s) \<Longrightarrow> distinct (map key_of items) \<Longrightarrow>
    foldA (\<lambda>b _. unbind_sa c sa b) items () s = (Inr (), t) \<Longrightarrow>
    map sketch (R t) = map (\<lambda>y. if y \<in> set items then sketch (without_sa sa y) else sketch y) (R s)"
proof (induction items arbitrary: s)
  case Nil
  then show ?case by simp
next
  case (Cons b items)
  from Cons.prems(4) obtain u where first: "unbind_sa c sa b s = (Inr (), u)"
    and rest: "foldA (\<lambda>b _. unbind_sa c sa b) items () u = (Inr (), t)"
    by (auto simp: bindA_eq_Inr)
  have b: "b \<in> set (R s)" using Cons.prems(2) by simp
  obtain b' where b': "sketch b' = sketch (without_sa sa b)"
    and Ru: "R u = map (\<lambda>y. if key_of y = key_of b then b' else y) (R s)"
    by (rule unbind_sa_outcome[OF up Cons.prems(1) b first])
  have kb: "key_of b' = key_of b" using sketch_key[OF b'] by (simp add: without_sa_def)
  have uniq: "y = b" if "y \<in> set (R s)" "key_of y = key_of b" for y
    using that Cons.prems(1) b by (auto simp: keys_ok_def distinct_map inj_on_def)
  have other: "key_of y \<noteq> key_of b" if "y \<in> set items" for y
    using that Cons.prems(3) by (auto simp: image_iff)
  have "map key_of (R u) = map key_of (R s)" by (simp add: Ru kb)
  then have "keys_ok (R u)" using Cons.prems(1) by (simp add: keys_ok_def)
  moreover have "set items \<subseteq> set (R u)" using Cons.prems(2) other by (auto simp: Ru image_iff)
  ultimately have "map sketch (R t) = map (\<lambda>y. if y \<in> set items then sketch (without_sa sa y) else sketch y) (R u)"
    using Cons.IH Cons.prems(3) rest by simp
  also have "\<dots> = map (\<lambda>y. if y \<in> set (b # items) then sketch (without_sa sa y) else sketch y) (R s)"
    unfolding Ru map_map
  proof (rule map_cong[OF refl], unfold o_apply)
    fix y assume y: "y \<in> set (R s)"
    show "(if (if key_of y = key_of b then b' else y) \<in> set items then sketch (without_sa sa (if key_of y = key_of b then b' else y))
        else sketch (if key_of y = key_of b then b' else y)) =
      (if y \<in> set (b # items) then sketch (without_sa sa y) else sketch y)"
      using uniq[OF y] other b' kb by (cases "key_of y = key_of b") auto
  qed
  finally show ?case .
qed

text \<open>What all bindings look like when the account is gone: those with the label have lost it.\<close>

definition swept :: "serviceaccount \<Rightarrow> rbac_binding list \<Rightarrow> rbac_binding list" where
  "swept sa bs = map (\<lambda>b. if selects binding_label (om_labels b) then without_sa sa b else b) bs"

lemma unbind_all:
  assumes "update_ok R c" and "keys_ok (R s)"
    and "foldA (\<lambda>b _. unbind_sa c sa b) (filter (\<lambda>b. selects binding_label (om_labels b)) (R s)) () s = (Inr (), t)"
  shows "map sketch (R t) = map sketch (swept sa (R s))"
proof -
  have "distinct (map key_of (filter (\<lambda>b. selects binding_label (om_labels b)) (R s)))"
    using assms(2) by (simp add: keys_ok_def distinct_map_filter)
  from unbind_loop[OF assms(1,2) _ this assms(3)] show ?thesis by (auto simp: swept_def)
qed

lemma permissions_swept: "permissions_of sa perm (filter (\<lambda>b. selects binding_label (om_labels b)) (swept sa bs)) = []"
  by (auto simp: permissions_of_def swept_def without_sa_def filter_empty_conv)

lemma permissions_sketch:
  assumes "map sketch xs = map sketch ys" and "\<And>a b. sketch a = sketch b \<Longrightarrow> perm a = perm b"
  shows "permissions_of sa perm (filter (\<lambda>b. selects binding_label (om_labels b)) xs) =
    permissions_of sa perm (filter (\<lambda>b. selects binding_label (om_labels b)) ys)"
  using assms(1)
proof (induction rule: map_sketch_induct)
  case Nil
  show ?case by simp
next
  case (Cons x xs y ys)
  then have "om_labels x = om_labels y" "rb_subjects x = rb_subjects y" by (simp_all add: sketch_def)
  with Cons assms(2)[OF Cons.hyps(1)] show ?case by (simp add: permissions_of_def)
qed

lemma foldA_frame:
  assumes "\<And>x s r t. f x () s = (r, t) \<Longrightarrow> V t = V s"
  shows "foldA f xs () s = (r, t) \<Longrightarrow> V t = V s"
proof (induction xs arbitrary: s)
  case (Cons x xs)
  obtain r' u where u: "f x () s = (r', u)" by fastforce
  have "V u = V s" by (rule assms[OF u])
  then show ?case using Cons u by (cases r') (auto simp: bindA_def)
qed simp

lemma unbind_sa_frame:
  assumes "\<And>x s r t. kUpdate c x s = (r, t) \<Longrightarrow> V t = V s" and "unbind_sa c sa b s = (r, t)"
  shows "V t = V s"
proof -
  have "V (snd (kUpdate c x s)) = V s" for x s using assms(1) by (metis prod.collapse)
  then show ?thesis using assms(2)
    by (cases "kUpdate c (without_sa sa b) s"; cases "fst (kUpdate c (without_sa sa b) s)")
      (auto simp: unbind_sa_def Let_def without_sa_def bindA_def wrapA_def assms(1) split: if_splits)
qed

text \<open>
  \<open>A\<close> are the stored service accounts of the cluster: deleting one leaves the bindings alone, and the other way round.
\<close>

definition accounts_ok ::
  "('s \<Rightarrow> rbac_binding list) \<Rightarrow> ('s \<Rightarrow> rbac_binding list) \<Rightarrow> ('s \<Rightarrow> serviceaccount list) \<Rightarrow> 's uclient \<Rightarrow> bool" where
  "accounts_ok R C A c \<longleftrightarrow> delete_ok A (uc_serviceAccounts c) \<and> get_ok A (uc_serviceAccounts c) \<and>
     (\<forall>k s. R (snd (kDelete (uc_serviceAccounts c) k s)) = R s) \<and>
     (\<forall>k s. C (snd (kDelete (uc_serviceAccounts c) k s)) = C s) \<and>
     (\<forall>x s. A (snd (kUpdate (uc_roleBindings c) x s)) = A s) \<and>
     (\<forall>x s. A (snd (kUpdate (uc_clusterRoleBindings c) x s)) = A s)"

lemma accounts_okD:
  assumes "accounts_ok R C A c"
  shows "delete_ok A (uc_serviceAccounts c)" and "get_ok A (uc_serviceAccounts c)"
    and "kDelete (uc_serviceAccounts c) k s = (r, t) \<Longrightarrow> R t = R s"
    and "kDelete (uc_serviceAccounts c) k s = (r, t) \<Longrightarrow> C t = C s"
    and "kUpdate (uc_roleBindings c) x s = (r', t) \<Longrightarrow> A t = A s"
    and "kUpdate (uc_clusterRoleBindings c) x s = (r', t) \<Longrightarrow> A t = A s"
  using assms unfolding accounts_ok_def by (metis snd_conv)+

lemma UnbindServiceAccountFromRoles_InrD:
  assumes ok: "rbac_ok R C c" and acc: "accounts_ok R C A c" and keys: "keys_ok (R s)"
    and run: "UnbindServiceAccountFromRoles c sa s = (Inr (), t)"
  shows "map sketch (R t) = map sketch (swept sa (R s))" and "C t = C s" and "A t = A s"
proof -
  from run have loop: "foldA (\<lambda>b _. unbind_sa (uc_roleBindings c) sa b) (filter (\<lambda>b. selects binding_label (om_labels b)) (R s)) () s = (Inr (), t)"
    using list_okD[OF rbac_okD(1)[OF ok]] by (auto simp: UnbindServiceAccountFromRoles_def bindA_eq_Inr wrapA_eq_Inr)
  show "map sketch (R t) = map sketch (swept sa (R s))" by (rule unbind_all[OF rbac_okD(3)[OF ok] keys loop])
  show "C t = C s" by (rule foldA_frame[OF unbind_sa_frame[OF rbac_okD(7)[OF ok]] loop])
  show "A t = A s" by (rule foldA_frame[OF unbind_sa_frame[OF accounts_okD(5)[OF acc]] loop])
qed

lemma UnbindServiceAccountFromClusterRoles_InrD:
  assumes ok: "rbac_ok R C c" and acc: "accounts_ok R C A c" and keys: "keys_ok (C s)"
    and run: "UnbindServiceAccountFromClusterRoles c sa s = (Inr (), t)"
  shows "map sketch (C t) = map sketch (swept sa (C s))" and "R t = R s" and "A t = A s"
proof -
  from run have loop: "foldA (\<lambda>b _. unbind_sa (uc_clusterRoleBindings c) sa b) (filter (\<lambda>b. selects binding_label (om_labels b)) (C s)) () s = (Inr (), t)"
    using list_okD[OF rbac_okD(4)[OF ok]] by (auto simp: UnbindServiceAccountFromClusterRoles_def bindA_eq_Inr wrapA_eq_Inr)
  show "map sketch (C t) = map sketch (swept sa (C s))" by (rule unbind_all[OF rbac_okD(5)[OF ok] keys loop])
  show "R t = R s" by (rule foldA_frame[OF unbind_sa_frame[OF rbac_okD(8)[OF ok]] loop])
  show "A t = A s" by (rule foldA_frame[OF unbind_sa_frame[OF accounts_okD(6)[OF acc]] loop])
qed

lemma no_permissions:
  assumes ok: "rbac_ok R C c" and "map sketch (R t) = map sketch (swept sa bs)" and "map sketch (C t) = map sketch (swept sa cs)"
  shows "GetServiceAccountPermissions c sa t = (Inr [], t)"
proof -
  have "permissions_of sa (\<lambda>b. \<lparr>pm_scope = n, pm_roleRefName = role_name b, pm_namespace = f b\<rparr>)
      (filter (\<lambda>b. selects binding_label (om_labels b)) xs) = []"
    if xs: "map sketch xs = map sketch (swept sa ys)" and f: "\<And>a b. sketch a = sketch b \<Longrightarrow> f a = f b" for n f xs ys
  proof -
    have "role_name a = role_name b" if "sketch a = sketch b" for a b using that by (simp add: sketch_def role_name_def)
    with f have "permissions_of sa (\<lambda>b. \<lparr>pm_scope = n, pm_roleRefName = role_name b, pm_namespace = f b\<rparr>)
        (filter (\<lambda>b. selects binding_label (om_labels b)) xs) =
      permissions_of sa (\<lambda>b. \<lparr>pm_scope = n, pm_roleRefName = role_name b, pm_namespace = f b\<rparr>)
        (filter (\<lambda>b. selects binding_label (om_labels b)) (swept sa ys))"
      by (intro permissions_sketch[OF xs]) (metis (full_types))
    then show ?thesis by (simp only: permissions_swept)
  qed
  from this[OF assms(2), of om_namespace "''Namespace''"] this[OF assms(3), of "\<lambda>_. []" "''Cluster''"] show ?thesis
    using list_okD[OF rbac_okD(1)[OF ok]] list_okD[OF rbac_okD(4)[OF ok]]
    by (auto simp: GetServiceAccountPermissions_def bindA_def wrapA_def sketch_def key_of_def split: sum.splits)
qed

text \<open>
  a deleted service account of a cluster leaves no rights behind. Only an account with the label of the
  dashboard is deleted. When the deletion succeeds, the account is gone, every labelled role binding and cluster role
  binding has lost exactly the subjects that name it, all else about the bindings is unchanged, and the permissions
  that are reported for the account are none.
\<close>

theorem cluster_sa_deleted:
  assumes reads: "reads (clientFor (req_projectID req) (crq_clusterID req))"
    and ok: "\<And>s c t. clientFor (req_projectID req) (crq_clusterID req) s = (Inr c, t) \<Longrightarrow> rbac_ok R C c \<and> accounts_ok R C A c"
    and keys: "keys_ok (R s)" "keys_ok (C s)"
    and run: "DeleteClusterSAKubeconigEndpoint clientFor req s = (Inr (), t)"
  shows "\<exists>c sa. clientFor (req_projectID req) (crq_clusterID req) s = (Inr c, s) \<and>
    sa \<in> set (A s) \<and> key_of sa = (sar_namespace req, sar_serviceAccountID req) \<and>
    mget (om_labels sa) ''component'' = ''clusterServiceAccount'' \<and>
    A t = filter (\<lambda>a. key_of a \<noteq> key_of sa) (A s) \<and>
    map sketch (R t) = map sketch (swept sa (R s)) \<and> map sketch (C t) = map sketch (swept sa (C s)) \<and>
    GetServiceAccountPermissions c sa t = (Inr [], t)"
proof -
  from run obtain c sa u v where c: "clientFor (req_projectID req) (crq_clusterID req) s = (Inr c, s)"
    and sa: "kGet (uc_serviceAccounts c) (sar_namespace req, sar_serviceAccountID req) s = Inr sa"
    and lab: "mget (om_labels sa) ServiceAccountComponentKey = ServiceAccountComponentValue"
    and roles: "UnbindServiceAccountFromRoles c sa s = (Inr (), u)"
    and croles: "UnbindServiceAccountFromClusterRoles c sa u = (Inr (), v)"
    and del: "kDelete (uc_serviceAccounts c) (key_of sa) v = (Inr (), t)"
    unfolding DeleteClusterSAKubeconigEndpoint_def labelled_sa_def
    by (subst (asm) bind_reads[OF reads]) (auto simp: bindA_eq_Inr wrapA_eq_Inr split: if_splits)
  have ok: "rbac_ok R C c" and acc: "accounts_ok R C A c" using ok[OF c] by simp_all
  note r = UnbindServiceAccountFromRoles_InrD[OF ok acc keys(1) roles]
  have "keys_ok (C u)" using keys(2) r(2) by simp
  note cr = UnbindServiceAccountFromClusterRoles_InrD[OF ok acc this croles]
  have R: "map sketch (R t) = map sketch (swept sa (R s))" and C: "map sketch (C t) = map sketch (swept sa (C s))"
    using r cr accounts_okD(3,4)[OF acc del] by simp_all
  have "A t = filter (\<lambda>a. key_of a \<noteq> key_of sa) (A s)"
    using delete_okD[OF accounts_okD(1)[OF acc] del] r(3) cr(3) by simp
  moreover have "sa \<in> set (A s)" "key_of sa = (sar_namespace req, sar_serviceAccountID req)"
    using lookup_key_mem[OF sa[unfolded get_okD[OF accounts_okD(2)[OF acc]]]] by auto
  ultimately show ?thesis
    using c lab R C no_permissions[OF ok R C] by (auto simp: ServiceAccountComponentKey_def ServiceAccountComponentValue_def)
qed

section \<open>Witnesses\<close>

text \<open>A user cluster in memory next to the master: its roles, bindings, service accounts and secrets.\<close>

record mem_cluster =
  mc_roles :: "rbac_role list"
  mc_clusterRoles :: "rbac_role list"
  mc_roleBindings :: "rbac_binding list"
  mc_clusterRoleBindings :: "rbac_binding list"
  mc_accounts :: "serviceaccount list"
  mc_secrets :: "tokensecret list"

type_synonym world = "mem \<times> mem_cluster"

definition mem_uclient :: "world uclient" where
  "mem_uclient =
     \<lparr>uc_roles = mem_client (\<lambda>(a, c). mc_roles c) (\<lambda>xs (a, c). (a, c\<lparr>mc_roles := xs\<rparr>)),
      uc_clusterRoles = mem_client (\<lambda>(a, c). mc_clusterRoles c) (\<lambda>xs (a, c). (a, c\<lparr>mc_clusterRoles := xs\<rparr>)),
      uc_roleBindings = mem_client (\<lambda>(a, c). mc_roleBindings c) (\<lambda>xs (a, c). (a, c\<lparr>mc_roleBindings := xs\<rparr>)),
      uc_clusterRoleBindings = mem_client (\<lambda>(a, c). mc_clusterRoleBindings c) (\<lambda>xs (a, c). (a, c\<lparr>mc_clusterRoleBindings := xs\<rparr>)),
      uc_serviceAccounts = mem_client (\<lambda>(a, c). mc_accounts c) (\<lambda>xs (a, c). (a, c\<lparr>mc_accounts := xs\<rparr>)),
      uc_secrets = mem_client (\<lambda>(a, c). mc_secrets c) (\<lambda>xs (a, c). (a, c\<lparr>mc_secrets := xs\<rparr>)),
      uc_machines = mem_client (\<lambda>_. []) (\<lambda>_ w. w), uc_machineDeployments = mem_client (\<lambda>_. []) (\<lambda>_ w. w), uc_namespaces = mem_client (\<lambda>_. []) (\<lambda>_ w. w)\<rparr>"

abbreviation world_env :: "world env" where
  "world_env \<equiv> lift_env mem_env"



definition demo_binding :: "string \<Rightarrow> string \<Rightarrow> string \<Rightarrow> rbac_subject list \<Rightarrow> rbac_binding" where
  "demo_binding n ns role subs = objmeta.extend
     (blank_meta\<lparr>om_name := n, om_namespace := ns, om_labels := [(UserClusterComponentKey, UserClusterBindingComponentValue)]\<rparr>)
     (rbac_binding.fields (''rbac.authorization.k8s.io'', ''Role'', role) subs)"

definition bob_subject :: rbac_subject where
  "bob_subject = \<lparr>sj_kind = ''User'', sj_apiGroup = ''rbac.authorization.k8s.io'', sj_name = ''Bob@acme.com'', sj_namespace = []\<rparr>"

definition ci_subject :: rbac_subject where
  "ci_subject = \<lparr>sj_kind = ''ServiceAccount'', sj_apiGroup = [], sj_name = ''ci'', sj_namespace = ''default''\<rparr>"

definition ci_account :: serviceaccount where
  "ci_account = blank_meta\<lparr>om_name := ''ci'', om_namespace := ''default'',
     om_labels := [(ServiceAccountComponentKey, ServiceAccountComponentValue)]\<rparr>"

definition world2 :: world where
  "world2 = (world1,
     \<lparr>mc_roles = [objmeta.extend (blank_meta\<lparr>om_name := ''view'', om_namespace := ''default''\<rparr>) (rbac_role.fields [])], mc_clusterRoles = [], mc_roleBindings = [demo_binding ''rb1'' ''default'' ''view'' [bob_subject, ci_subject]],
      mc_clusterRoleBindings = [demo_binding ''crb1'' [] ''admin'' [ci_subject]], mc_accounts = [ci_account], mc_secrets = []\<rparr>)"

lemmas world2_defs = world2_def demo_binding_def bob_subject_def ci_subject_def ci_account_def
  rbac_binding.fields_def objmeta.extend_def



definition drop_bob :: RoleUser where
  "drop_bob = \<lparr>ru_userEmail = ''bob@acme.com'', ru_group = [], ru_serviceAccount = [], ru_serviceAccountNamespace = []\<rparr>"

text \<open>The seed has one cluster, of the project p1; everybody is let in.\<close>

definition demo_fake :: CloudSpec where
  "demo_fake = \<lparr>cl_datacenterName = ''eu'', cl_providerName = Inr ''fake'', cl_cloudProvider = ''fake'', cl_vsphere = None,
     cl_baremetal = None, cl_openstack = None, cl_azure = None, cl_digitalocean = None, cl_hetzner = None, cl_aws = None, cl_gcp = None,
     cl_fake = Some \<lparr>ct_token = [], ct_credentialsReference = None\<rparr>, cl_kubevirt = None, cl_alibaba = None, cl_anexia = None, cl_nutanix = None,
     cl_vmwareCloudDirector = None\<rparr>"

definition demo_spec :: clusterSpec where
  "demo_spec = \<lparr>cl_humanReadableName = ''prod'', cl_cloud = demo_fake, cl_oidc = None, cl_version = Some ''1.30.0'',
     cl_enableUserSSHKeyAgent = None, cl_dashboardEnabled = None, cl_auditLogging = None, cl_containerRuntime = ''containerd'',
     cl_network = \<lparr>cn_konnectivityEnabled = None, cn_proxyMode = ''ipvs'', cn_rest = []\<rparr>, cl_backupConfig = None, cl_encryption = None,
     cl_osm = None, cl_features = [], cl_rest = [], cl_internal = []\<rparr>"

definition demo_cluster :: cluster where
  "demo_cluster = objmeta.extend (blank_meta\<lparr>om_name := ''c1'', om_labels := [(''project-id'', ''p1'')]\<rparr>)
     (cluster.fields [] demo_spec
        \<lparr>he_AllHealthy = True, he_ControlPlaneHealthy = True, he_infrastructureUp = True, he_controllerManagerUp = True\<rparr> [] [] [] [] [] [] [] None)"

definition demo_clusters :: "(cluster, world) kclient" where
  "demo_clusters = mem_client (\<lambda>_. [demo_cluster]) (\<lambda>_ w. w)"

definition demo_seed :: "world seed_env" where
  "demo_seed =
     \<lparr>sv_client = demo_clusters, sv_secrets = mem_client (\<lambda>_. []) (\<lambda>_ w. w), sv_impersonated = (\<lambda>_ _. Inr demo_clusters),
      sv_connect = (\<lambda>_ _. retA mem_uclient), sv_waitUntilCached = (\<lambda>_ _. retA ()), sv_updateClusterStatus = (\<lambda>c f. retA (f c)),
      sv_makeClusterName = retA ''c2'', sv_generateToken = retA ''token'', sv_loadKubeconfig = (\<lambda>t. Inr \<lparr>kc_servers = [], kc_rest = t\<rparr>),
      sv_isConnectionRefused = (\<lambda>_. False), sv_workerName = [], sv_oidcKubeConfEndpoint = False, sv_seedName = ''eu'',
      sv_edgeProvider = ''edge'', sv_adminKubeconfigSecret = ''admin'', sv_viewerKubeconfigSecret = ''viewer'',
      sv_viewerTokenSecret = ''viewer-token'', sv_kubeconfigKey = ''kubeconfig'', sv_viewerTokenKey = ''token''\<rparr>"

theorem cluster_client_authorized_witness:
  "\<exists>client k. kube_client world_env demo_seed bob ''p1'' ''c1'' world2 = (Inr client, world2) \<and>
     sv_impersonated demo_seed ''bob@acme.com'' (sorted_list_of_set {''editors-p1'', ''dev-p1''}) = Inr k"
proof -
  have "\<not> isl (fst (kube_client world_env demo_seed bob ''p1'' ''c1'' world2))" by code_simp
  from success_obtain[OF this] obtain client t where run: "kube_client world_env demo_seed bob ''p1'' ''c1'' world2 = (Inr client, t)" by blast
  have b: "\<not> us_isAdmin bob" "us_email bob = ''bob@acme.com''" by (simp_all add: world1_defs)
  have sel: "selectors_ok world_env" using mem_selectors_ok by (simp add: selectors_ok_def lift_env_def sdk.defs env.defs)
  note fact = cluster_client_authorized[OF lift_api_ok[OF mem_api_ok] sel _ run]
  have "''p1'' \<noteq> []" by simp
  from conjunct2[OF fact[OF this], THEN mp, OF b(1)]
  obtain c k i where k: "sv_impersonated demo_seed (us_email bob)
     (sorted_list_of_set (granted_groups (st_upbs (mem_store (fst world2))) (st_gpbs (mem_store (fst world2))) bob ''p1'')) = Inr k"
    and conn: "sv_connect demo_seed c i world2 = (Inr client, t)" by blast
  have g: "granted_groups (st_upbs (mem_store (fst world2))) (st_gpbs (mem_store (fst world2))) bob ''p1'' = {''editors-p1'', ''dev-p1''}"
    using world1_groups by (simp add: world2_def mem_store_def)
  have "t = world2" using conn by (simp add: demo_seed_def)
  with run k show ?thesis unfolding g b(2) by blast
qed


definition delete_ci :: ClusterSAReq where
  "delete_ci = \<lparr>req_projectID = ''p1'', crq_clusterID = ''c1'', sar_namespace = ''default'', sar_serviceAccountID = ''ci''\<rparr>"

end
