(* ===== verification/Quantities.thy ===== *)
theory Quantities
  imports Complex_Main Auth
begin

text \<open>
  Amounts of resources: the conversions of \<^verbatim>\<open>pkg/api/v2/convert.go\<close> between the quotas of the API and those that are
  stored. A \<^verbatim>\<open>resource.Quantity\<close> and a \<^verbatim>\<open>NodeCapacity\<close> belong to Kubernetes and to Kubermatic: their methods are the
  fields of one record, over a type \<open>'q\<close> of quantities of which a theorem assumes what is documented.

  A Go \<^verbatim>\<open>int\<close> has 64 bits: where a sum or a product may leave its range, the wrap-around is written out. A floating
  point number is a rational number, and arithmetic on it is exact.
\<close>

section \<open>Machine numbers\<close>

definition wrap32 :: "int \<Rightarrow> int" where
  "wrap32 n = (n + 2 ^ 31) mod 2 ^ 32 - 2 ^ 31"

definition wrap64 :: "int \<Rightarrow> int" where
  "wrap64 n = (n + 2 ^ 63) mod 2 ^ 64 - 2 ^ 63"

lemma wrap32_id: "- (2 ^ 31) \<le> n \<Longrightarrow> n < 2 ^ 31 \<Longrightarrow> wrap32 n = n"
  by (simp add: wrap32_def)

lemma wrap64_id: "- (2 ^ 63) \<le> n \<Longrightarrow> n < 2 ^ 63 \<Longrightarrow> wrap64 n = n"
  by (simp add: wrap64_def)

lemma wrap64_range: "- (2 ^ 63) \<le> wrap64 n" "wrap64 n < 2 ^ 63"
  by (simp_all add: wrap64_def)

text \<open>The conversion \<^verbatim>\<open>int(x)\<close> of a floating point number drops the fraction.\<close>

definition go_int :: "rat \<Rightarrow> int" where
  "go_int x = (if x < 0 then - \<lfloor>- x\<rfloor> else \<lfloor>x\<rfloor>)"

text \<open>\<^verbatim>\<open>math.Round\<close>: to the nearest integer, halves away from zero.\<close>

definition math_Round :: "rat \<Rightarrow> int" where
  "math_Round x = (if x < 0 then - \<lfloor>1/2 - x\<rfloor> else \<lfloor>x + 1/2\<rfloor>)"

text \<open>\<^verbatim>\<open>fmt.Sprintf("%d")\<close>, and \<^verbatim>\<open>"%f"\<close>: six digits after the point, halves to the even digit.\<close>

definition sprintf_d :: "int \<Rightarrow> string" where
  "sprintf_d n = (if n < 0 then ''-'' @ itoa (nat (- n)) else itoa (nat n))"

definition round_even :: "rat \<Rightarrow> int" where
  "round_even x = (let n = \<lfloor>x\<rfloor>; d = x - of_int n in
     if d < 1/2 \<or> d = 1/2 \<and> even n then n else n + 1)"

definition six_digits :: "nat \<Rightarrow> string" where
  "six_digits n = (let ds = itoa n in replicate (6 - length ds) (CHR ''0'') @ ds)"

definition sprintf_f :: "rat \<Rightarrow> string" where
  "sprintf_f x = (let n = nat (round_even (\<bar>x\<bar> * 10 ^ 6)) in
     (if x < 0 then ''-'' else []) @ itoa (n div 10 ^ 6) @ ''.'' @ six_digits (n mod 10 ^ 6))"

text \<open>
  \<^verbatim>\<open>fmt.Sscanf(s, "%d%s", &value, &unit)\<close>: an integer of 64 bits in decimal digits with an optional sign, and a word that
  is not empty. \<^verbatim>\<open>strconv.Atoi\<close> is the same integer with nothing after it.
\<close>

definition is_digit :: "char \<Rightarrow> bool" where
  "is_digit c = (let n = (of_char c :: nat) in 48 \<le> n \<and> n \<le> 57)"

definition scan_d :: "string \<Rightarrow> (int \<times> string) option" where
  "scan_d s =
     (let signed = (s \<noteq> [] \<and> (hd s = CHR ''-'' \<or> hd s = CHR ''+'')); u = (if signed then tl s else s);
          ds = takeWhile is_digit u; n = int (atoi ds); v = (if signed \<and> hd s = CHR ''-'' then - n else n) in
      if ds = [] \<or> v < - (2 ^ 63) \<or> 2 ^ 63 \<le> v then None else Some (v, dropWhile is_digit u))"

definition scan_dw :: "string \<Rightarrow> (int \<times> string) option" where
  "scan_dw s =
     (case scan_d (dropWhile is_space s) of
        None \<Rightarrow> None
      | Some (v, rest) \<Rightarrow>
          (let unit = takeWhile (\<lambda>c. \<not> is_space c) (dropWhile is_space rest) in
           if unit = [] then None else Some (v, unit)))"

definition Atoi :: "string \<Rightarrow> int result" where
  "Atoi s = (case scan_d s of Some (v, []) \<Rightarrow> Inr v | _ \<Rightarrow> Inl (Plain ''invalid syntax''))"

section \<open>Quantities\<close>

text \<open>
  \<^verbatim>\<open>Add\<close>, \<^verbatim>\<open>Sub\<close> and \<^verbatim>\<open>Set\<close> change their receiver; here they return the new value. \<open>ncCPU\<close> and \<open>ncSize\<close> are what
  \<^verbatim>\<open>NodeCapacity.WithCPUCount\<close>, \<^verbatim>\<open>WithMemory\<close> and \<^verbatim>\<open>WithStorage\<close> put into the capacity.
\<close>

record 'q quantities =
  qZero :: 'q
  qAdd :: "'q \<Rightarrow> 'q \<Rightarrow> 'q"
  qSub :: "'q \<Rightarrow> 'q \<Rightarrow> 'q"
  qSet :: "'q \<Rightarrow> int \<Rightarrow> 'q"
  qCmp :: "'q \<Rightarrow> 'q \<Rightarrow> int"
  qSign :: "'q \<Rightarrow> int"
  qIsZero :: "'q \<Rightarrow> bool"
  qValue :: "'q \<Rightarrow> int"
  qString :: "'q \<Rightarrow> string"
  ParseQuantity :: "string \<Rightarrow> 'q result"
  NewBinarySI :: "int \<Rightarrow> 'q"
  ncCPU :: "int \<Rightarrow> 'q"
  ncSize :: "int \<Rightarrow> string \<Rightarrow> 'q result"

text \<open>
  What is documented: a quantity is a fixed-point number, sums and differences do not overflow, \<^verbatim>\<open>Value\<close> rounds up.
\<close>

definition quantity_ok :: "'q quantities \<Rightarrow> ('q \<Rightarrow> rat) \<Rightarrow> bool" where
  "quantity_ok Q amt \<longleftrightarrow>
     amt (qZero Q) = 0 \<and>
     (\<forall>a b. amt (qAdd Q a b) = amt a + amt b) \<and>
     (\<forall>a b. amt (qSub Q a b) = amt a - amt b) \<and>
     (\<forall>a n. amt (qSet Q a n) = of_int n) \<and>
     (\<forall>a b. qCmp Q a b > 0 \<longleftrightarrow> amt a > amt b) \<and>
     (\<forall>a. qSign Q a < 0 \<longleftrightarrow> amt a < 0) \<and>
     (\<forall>a. qIsZero Q a \<longleftrightarrow> amt a = 0) \<and>
     (\<forall>a. 0 \<le> amt a \<longrightarrow> qValue Q a = \<lceil>amt a\<rceil>) \<and>
     (\<forall>n. amt (NewBinarySI Q n) = of_int n) \<and>
     (\<forall>n. amt (ncCPU Q n) = of_int n) \<and>
     (\<forall>n q. ncSize Q n ''Mi'' = Inr q \<longrightarrow> amt q = of_int n * 2 ^ 20) \<and>
     (\<forall>n q. ncSize Q n ''Gi'' = Inr q \<longrightarrow> amt q = of_int n * 2 ^ 30)"

lemma quantity_okD:
  assumes "quantity_ok Q amt"
  shows "amt (qZero Q) = 0" and "amt (qAdd Q a b) = amt a + amt b" and "amt (qSub Q a b) = amt a - amt b"
    and "amt (qSet Q a n) = of_int n" and "qCmp Q a b > 0 \<longleftrightarrow> amt a > amt b" and "qSign Q a < 0 \<longleftrightarrow> amt a < 0"
    and "qIsZero Q a \<longleftrightarrow> amt a = 0" and "0 \<le> amt a \<Longrightarrow> qValue Q a = \<lceil>amt a\<rceil>" and "amt (NewBinarySI Q n) = of_int n"
    and "amt (ncCPU Q n) = of_int n" and "ncSize Q n ''Mi'' = Inr q \<Longrightarrow> amt q = of_int n * 2 ^ 20"
    and "ncSize Q n ''Gi'' = Inr q \<Longrightarrow> amt q = of_int n * 2 ^ 30"
  using assms unfolding quantity_ok_def by blast+

text \<open>Stored resource details, with the limits of accelerators by provider; \<^const>\<open>None\<close> is a nil pointer or slice.\<close>

type_synonym 'q ResourceList = "(string \<times> 'q) list"

record 'q accQuota =
  aq_provider :: string
  aq_resources :: "'q ResourceList"

record 'q ResourceDetails =
  rd_cpu :: "'q option"
  rd_memory :: "'q option"
  rd_storage :: "'q option"
  rd_accelerators :: "'q accQuota list option"

section \<open>Conversions\<close>

record apiAccQuota =
  aaq_provider :: string
  aaq_resources :: smap

record Quota =
  qu_cpu :: "int option"
  qu_memory :: "rat option"
  qu_storage :: "rat option"
  qu_accelerators :: "apiAccQuota list option"
  qu_enableAccounting :: "bool option"

definition decimal_exponent :: "string \<Rightarrow> nat" where
  "decimal_exponent unit =
     (if unit = ''K'' then 1 else if unit = ''M'' then 2 else if unit = ''G'' then 3 else if unit = ''T'' then 4 else 0)"

definition TreatDecimalAsBinary :: "'q quantities \<Rightarrow> 'q \<Rightarrow> 'q" where
  "TreatDecimalAsBinary Q q =
     (case scan_dw (qString Q q) of
        None \<Rightarrow> q
      | Some (value, unit) \<Rightarrow>
          if decimal_exponent unit = 0 then q
          else NewBinarySI Q (wrap64 (value * 1024 ^ decimal_exponent unit)))"

text \<open>Memory and storage in the API are gibibytes, rounded to two decimal places.\<close>

definition in_GiB :: "'q quantities \<Rightarrow> 'q \<Rightarrow> rat" where
  "in_GiB Q q = of_int (math_Round (of_int (qValue Q (TreatDecimalAsBinary Q q)) / 2 ^ 30 * 100)) / 100"

definition ConvertToAPIQuota :: "'q quantities \<Rightarrow> 'q ResourceDetails \<Rightarrow> Quota" where
  "ConvertToAPIQuota Q rd =
     \<lparr>qu_cpu = map_option (qValue Q) (rd_cpu rd),
      qu_memory = (case rd_memory rd of None \<Rightarrow> None | Some m \<Rightarrow> if qIsZero Q m then None else Some (in_GiB Q m)),
      qu_storage = (case rd_storage rd of None \<Rightarrow> None | Some m \<Rightarrow> if qIsZero Q m then None else Some (in_GiB Q m)),
      qu_accelerators = map_option (map (\<lambda>a. \<lparr>aaq_provider = aq_provider a,
         aaq_resources = map (\<lambda>(n, q). (n, qString Q q)) (aq_resources a)\<rparr>)) (rd_accelerators rd),
      qu_enableAccounting = None\<rparr>"

definition parse_optional :: "'q quantities \<Rightarrow> string option \<Rightarrow> 'q option result" where
  "parse_optional Q s =
     (case s of
        None \<Rightarrow> Inr None
      | Some t \<Rightarrow> (case ParseQuantity Q t of Inl err \<Rightarrow> Inl (Wrapped err) | Inr q \<Rightarrow> Inr (Some q)))"

fun parse_resources :: "'q quantities \<Rightarrow> smap \<Rightarrow> 'q ResourceList result" where
  "parse_resources Q [] = Inr []"
| "parse_resources Q ((n, v) # rest) =
     (case ParseQuantity Q v of
        Inl err \<Rightarrow> Inl (Wrapped err)
      | Inr q \<Rightarrow> (case parse_resources Q rest of Inl err \<Rightarrow> Inl err | Inr rs \<Rightarrow> Inr ((n, q) # rs)))"

fun parse_accelerators :: "'q quantities \<Rightarrow> apiAccQuota list \<Rightarrow> 'q accQuota list result" where
  "parse_accelerators Q [] = Inr []"
| "parse_accelerators Q (a # rest) =
     (case parse_resources Q (aaq_resources a) of
        Inl err \<Rightarrow> Inl err
      | Inr rs \<Rightarrow>
          (case parse_accelerators Q rest of
             Inl err \<Rightarrow> Inl err
           | Inr as \<Rightarrow> Inr (\<lparr>aq_provider = aaq_provider a, aq_resources = rs\<rparr> # as)))"

definition sprintf_Gi :: "rat \<Rightarrow> string" where
  "sprintf_Gi m = sprintf_f m @ ''Gi''"

definition ConvertToCRDQuota :: "'q quantities \<Rightarrow> Quota \<Rightarrow> 'q ResourceDetails result" where
  "ConvertToCRDQuota Q quota =
     (case parse_optional Q (map_option sprintf_d (qu_cpu quota)) of
        Inl err \<Rightarrow> Inl err
      | Inr cpu \<Rightarrow>
          (case parse_optional Q (map_option sprintf_Gi (qu_memory quota)) of
             Inl err \<Rightarrow> Inl err
           | Inr mem \<Rightarrow>
               (case parse_optional Q (map_option sprintf_Gi (qu_storage quota)) of
                  Inl err \<Rightarrow> Inl err
                | Inr storage \<Rightarrow>
                    (case qu_accelerators quota of
                       None \<Rightarrow> Inr \<lparr>rd_cpu = cpu, rd_memory = mem, rd_storage = storage, rd_accelerators = None\<rparr>
                     | Some as \<Rightarrow>
                         (case parse_accelerators Q as of
                            Inl err \<Rightarrow> Inl err
                          | Inr accs \<Rightarrow> Inr \<lparr>rd_cpu = cpu, rd_memory = mem, rd_storage = storage,
                                           rd_accelerators = Some accs\<rparr>)))))"

section \<open>What the conversion to binary units does\<close>

lemma decimal_exponent_le: "decimal_exponent u \<le> 4"
  by (simp add: decimal_exponent_def)

lemma treat_amount:
  assumes Q: "quantity_ok Q amt" and s: "scan_dw (qString Q q) = Some (v, u)" and e: "decimal_exponent u \<noteq> 0"
    and small: "\<bar>v * 1024 ^ decimal_exponent u\<bar> < 2 ^ 63"
  shows "amt (TreatDecimalAsBinary Q q) = of_int v * 1024 ^ decimal_exponent u"
proof -
  have "wrap64 (v * 1024 ^ decimal_exponent u) = v * 1024 ^ decimal_exponent u"
    using small by (intro wrap64_id) linarith+
  then show ?thesis using s e quantity_okD(9)[OF Q] by (simp add: TreatDecimalAsBinary_def)
qed

lemma treat_other:
  "(\<And>v u. scan_dw (qString Q q) = Some (v, u) \<Longrightarrow> decimal_exponent u = 0) \<Longrightarrow> TreatDecimalAsBinary Q q = q"
  by (auto simp: TreatDecimalAsBinary_def split: option.splits)

end
