(* ===== verification/Resource_Quotas.thy ===== *)
theory Resource_Quotas
  imports Quantities Project_Handlers
begin

text \<open>
  Resource quotas of projects: the provider (\<^verbatim>\<open>pkg/ee/resource-quota/provider.go\<close>), the handlers
  (\<^verbatim>\<open>pkg/ee/resource-quota/handler.go\<close>) and the endpoints with their checks (\<^verbatim>\<open>pkg/handler/v2/resource_quota\<close>).

  A map from names to quantities is an association list, in the order in which Go happens to range over it.
\<close>

section \<open>Quotas\<close>

record accBlocker =
  ab_type :: string
  ab_message :: string
  ab_seedName :: string
  ab_clusterName :: string
  ab_count :: int

record accStatus =
  as_activationPhase :: string
  as_accountingRevision :: string
  as_quotaDigest :: string
  as_observedAt :: time
  as_legacyMachines :: int
  as_invalidMachines :: int
  as_ready :: bool
  as_blockers :: "accBlocker list"

record 'q resourceQuota = objmeta +
  rq_subjectName :: string
  rq_subjectKind :: string
  rq_quota :: "'q ResourceDetails"
  rq_globalUsage :: "'q ResourceDetails"
  rq_localUsage :: "'q ResourceDetails"
  rq_globalAccounting :: "accStatus option"

text \<open>Constants of the Kubermatic SDK.\<close>

record quota_sdk =
  subjectNameLabelKey :: string
  subjectKindLabelKey :: string
  projectSubjectKind :: string
  projectKindName :: string
  accountingAnnotation :: string
  accountingAnnotationValue :: string
  kubevirtCloudProvider :: string

definition DefaultProjectResourceQuotaLabel :: string where
  "DefaultProjectResourceQuotaLabel = ''kkp-default-resource-quota''"
definition totalQuotaName :: string where "totalQuotaName = ''totalquota''"

section \<open>The provider\<close>

record ('s, 'q) quota_clients =
  qc_privileged :: "('q resourceQuota, 's) kclient"
  qc_impersonated :: "string \<Rightarrow> string list \<Rightarrow> ('q resourceQuota, 's) kclient result"

record ('s, 'q) ResourceQuotaProvider =
  rqp_GetUnsecured :: "string \<Rightarrow> ('s, 'q resourceQuota) act"
  rqp_Get :: "UserInfo option \<Rightarrow> string \<Rightarrow> string \<Rightarrow> ('s, 'q resourceQuota option) act"
  rqp_ListUnsecured :: "smap \<Rightarrow> ('s, 'q resourceQuota list) act"
  rqp_CreateUnsecured :: "string \<times> string \<Rightarrow> 'q ResourceDetails \<Rightarrow> ('s, unit) act" \<comment> \<open>kind and name of the subject\<close>
  rqp_PatchUnsecured :: "'q resourceQuota \<Rightarrow> 'q resourceQuota \<Rightarrow> ('s, unit) act"
  rqp_DeleteUnsecured :: "string \<Rightarrow> ('s, unit) act"

definition buildNameFromSubject :: "string \<times> string \<Rightarrow> string" where
  "buildNameFromSubject = (\<lambda>(kind, name). kind @ ''-'' @ name)"

definition quota_GetUnsecured :: "('s, 'q) quota_clients \<Rightarrow> string \<Rightarrow> ('s, 'q resourceQuota) act" where
  "quota_GetUnsecured C name = getA (qc_privileged C) ([], name)"

definition quota_Get ::
  "'x sdk_scheme \<Rightarrow> quota_sdk \<Rightarrow> ('s, 'q) quota_clients \<Rightarrow> UserInfo option \<Rightarrow> string \<Rightarrow> string \<Rightarrow> ('s, 'q resourceQuota option) act" where
  "quota_Get K G C userInfo name kind =
     (case userInfo of
        None \<Rightarrow> failA (Plain ''a user is missing but required'')
      | Some userInfo \<Rightarrow>
          bindA (liftA (qc_impersonated C (ui_email userInfo) (ui_groups userInfo))) (\<lambda>masterImpersonatedClient.
          bindA (wrapA Wrapped (liftA (newRequirement K (subjectNameLabelKey G) name))) (\<lambda>subjectNameReq.
          bindA (wrapA Wrapped (liftA (newRequirement K (subjectKindLabelKey G) kind))) (\<lambda>subjectKindReq.
          bindA (listA (qc_privileged C) (Both subjectNameReq subjectKindReq)) (\<lambda>items.
            case items of
              [] \<Rightarrow> retA None
            | resourceQuota # _ \<Rightarrow>
                bindA (getA masterImpersonatedClient (key_of resourceQuota)) (\<lambda>_. retA (Some resourceQuota)))))))"

definition quota_ListUnsecured :: "('s, 'q) quota_clients \<Rightarrow> smap \<Rightarrow> ('s, 'q resourceQuota list) act" where
  "quota_ListUnsecured C labelSet = listA (qc_privileged C) (SelectorFromSet labelSet)"

definition zero_details :: "'q ResourceDetails" where
  "zero_details = \<lparr>rd_cpu = None, rd_memory = None, rd_storage = None, rd_accelerators = None\<rparr>"

definition quota_CreateUnsecured :: "('s, 'q) quota_clients \<Rightarrow> string \<times> string \<Rightarrow> 'q ResourceDetails \<Rightarrow> ('s, unit) act" where
  "quota_CreateUnsecured C subject quota =
     bindA (kCreate (qc_privileged C)
       (objmeta.extend (blank_meta\<lparr>om_name := buildNameFromSubject subject\<rparr>)
          (resourceQuota.fields (snd subject) (fst subject) quota zero_details zero_details None))) (\<lambda>_. retA ())"

text \<open>The patch from the object just read is an update to the new one.\<close>

definition quota_PatchUnsecured ::
  "('s, 'q) quota_clients \<Rightarrow> 'q resourceQuota \<Rightarrow> 'q resourceQuota \<Rightarrow> ('s, unit) act" where
  "quota_PatchUnsecured C oldResourceQuota newResourceQuota = bindA (kUpdate (qc_privileged C) newResourceQuota) (\<lambda>_. retA ())"

definition quota_DeleteUnsecured :: "('s, 'q) quota_clients \<Rightarrow> string \<Rightarrow> ('s, unit) act" where
  "quota_DeleteUnsecured C name =
     bindA (quota_GetUnsecured C name) (\<lambda>rq. kDelete (qc_privileged C) (key_of rq))"

definition NewResourceQuotaProvider ::
  "'x sdk_scheme \<Rightarrow> quota_sdk \<Rightarrow> ('s, 'q) quota_clients \<Rightarrow> ('s, 'q) ResourceQuotaProvider" where
  "NewResourceQuotaProvider K G C =
     \<lparr>rqp_GetUnsecured = quota_GetUnsecured C, rqp_Get = quota_Get K G C, rqp_ListUnsecured = quota_ListUnsecured C,
      rqp_CreateUnsecured = quota_CreateUnsecured C, rqp_PatchUnsecured = quota_PatchUnsecured C,
      rqp_DeleteUnsecured = quota_DeleteUnsecured C\<rparr>"

section \<open>Sizes of nodes\<close>

text \<open>The sizes of the cloud providers, with the fields that count.\<close>

record AlibabaInstanceType =
  al_cpuCoreCount :: int
  al_memorySize :: rat

record AnexiaNodeSpec =
  ax_cpus :: int
  ax_memory :: int
  ax_diskSize :: "int option"
  ax_disks :: "int list"

record AWSSize =
  aws_memory :: rat
  aws_vcpus :: int

record AzureSize =
  az_numberOfCores :: int
  az_osDiskSizeInMB :: int
  az_resourceDiskSizeInMB :: int
  az_memoryInMB :: int

record DigitaloceanSize =
  do_memory :: int
  do_vcpus :: int
  do_disk :: int

record GCPMachineSize =
  gcp_memory :: int
  gcp_vcpus :: int

record HetznerSize =
  hz_cores :: int
  hz_memory :: rat
  hz_disk :: int

record KubevirtNodeSize =
  kv_cpus :: string
  kv_memory :: string
  kv_primaryDiskSize :: string
  kv_secondaryDisks :: "string list"
  kv_accelerators :: smap

record NutanixNodeSpec =
  nx_cpus :: int
  nx_memoryMB :: int
  nx_diskSize :: "int option"

record OpenstackSize =
  os_memory :: int
  os_vcpus :: int
  os_disk :: int

record VMwareCloudDirectorNodeSpec =
  vcd_cpus :: int
  vcd_cpuCores :: int
  vcd_memoryMB :: int
  vcd_diskSizeGB :: "int option"

record VSphereNodeSpec =
  vs_cpus :: int
  vs_memory :: int
  vs_diskSizeGB :: "int option"

record ProviderNodeTemplate =
  pnt_diskSizeGB :: int
  pnt_alibaba :: "AlibabaInstanceType option"
  pnt_anexia :: "AnexiaNodeSpec option"
  pnt_aws :: "AWSSize option"
  pnt_azure :: "AzureSize option"
  pnt_do :: "DigitaloceanSize option"
  pnt_gcp :: "GCPMachineSize option"
  pnt_hetzner :: "HetznerSize option"
  pnt_kubevirt :: "KubevirtNodeSize option"
  pnt_nutanix :: "NutanixNodeSpec option"
  pnt_openstack :: "OpenstackSize option"
  pnt_vmDirector :: "VMwareCloudDirectorNodeSpec option"
  pnt_vSphere :: "VSphereNodeSpec option"

record 'q NodeCapacity =
  nc_cpu :: 'q
  nc_memory :: 'q
  nc_storage :: 'q

definition bindR :: "'a result \<Rightarrow> ('a \<Rightarrow> 'b result) \<Rightarrow> 'b result" where
  "bindR r k = (case r of Inl err \<Rightarrow> Inl err | Inr x \<Rightarrow> k x)"

lemma bindR_simps [simp]: "bindR (Inl e) k = Inl e" "bindR (Inr x) k = k x"
  by (simp_all add: bindR_def)

lemma bindR_eq_Inr: "bindR r k = Inr y \<longleftrightarrow> (\<exists>x. r = Inr x \<and> k x = Inr y)"
  by (cases r) simp_all

text \<open>A capacity of so many CPUs, and memory and storage in the given units.\<close>

definition capacity :: "'q quantities \<Rightarrow> int \<Rightarrow> int \<Rightarrow> string \<Rightarrow> int \<Rightarrow> string \<Rightarrow> 'q NodeCapacity result" where
  "capacity Q cpus mem memUnit sto stoUnit =
     bindR (ncSize Q mem memUnit) (\<lambda>m.
     bindR (ncSize Q sto stoUnit) (\<lambda>s.
       Inr \<lparr>nc_cpu = ncCPU Q cpus, nc_memory = m, nc_storage = s\<rparr>))"

text \<open>The same where a missing disk size is no storage.\<close>

definition capacity_disk :: "'q quantities \<Rightarrow> int \<Rightarrow> int \<Rightarrow> int option \<Rightarrow> 'q NodeCapacity result" where
  "capacity_disk Q cpus mem disk =
     (case disk of
        Some d \<Rightarrow> capacity Q cpus mem ''Mi'' d ''Gi''
      | None \<Rightarrow> bindR (ncSize Q mem ''Mi'') (\<lambda>m. Inr \<lparr>nc_cpu = ncCPU Q cpus, nc_memory = m, nc_storage = qZero Q\<rparr>))"

definition getAlibabaResourceDetails :: "'q quantities \<Rightarrow> int \<Rightarrow> AlibabaInstanceType \<Rightarrow> 'q NodeCapacity result" where
  "getAlibabaResourceDetails Q diskSizeGB t =
     capacity Q (al_cpuCoreCount t) (go_int (al_memorySize t)) ''Gi'' diskSizeGB ''Gi''"

definition getAnexiaResourceDetails :: "'q quantities \<Rightarrow> AnexiaNodeSpec \<Rightarrow> 'q NodeCapacity result" where
  "getAnexiaResourceDetails Q t =
     (let diskSize = (case ax_diskSize t of Some d \<Rightarrow> d | None \<Rightarrow> foldl (\<lambda>n d. wrap64 (n + d)) 0 (ax_disks t)) in
      capacity Q (ax_cpus t) (ax_memory t) ''Mi'' diskSize ''Gi'')"

definition getAWSResourceDetails :: "'q quantities \<Rightarrow> int \<Rightarrow> AWSSize \<Rightarrow> 'q NodeCapacity result" where
  "getAWSResourceDetails Q diskSizeGB t = capacity Q (aws_vcpus t) \<lceil>aws_memory t * 1024\<rceil> ''Mi'' diskSizeGB ''Gi''"

text \<open>The two disks are added as integers of 32 bits.\<close>

definition getAzureResourceDetails :: "'q quantities \<Rightarrow> AzureSize \<Rightarrow> 'q NodeCapacity result" where
  "getAzureResourceDetails Q t =
     capacity Q (az_numberOfCores t) (az_memoryInMB t) ''Mi'' (wrap32 (az_resourceDiskSizeInMB t + az_osDiskSizeInMB t)) ''Mi''"

definition getDOResourceDetails :: "'q quantities \<Rightarrow> DigitaloceanSize \<Rightarrow> 'q NodeCapacity result" where
  "getDOResourceDetails Q t = capacity Q (do_vcpus t) (do_memory t) ''Mi'' (do_disk t) ''Gi''"

definition getGCPResourceDetails :: "'q quantities \<Rightarrow> int \<Rightarrow> GCPMachineSize \<Rightarrow> 'q NodeCapacity result" where
  "getGCPResourceDetails Q diskSizeGB t = capacity Q (gcp_vcpus t) (gcp_memory t) ''Mi'' diskSizeGB ''Gi''"

definition getHetznerResourceDetails :: "'q quantities \<Rightarrow> HetznerSize \<Rightarrow> 'q NodeCapacity result" where
  "getHetznerResourceDetails Q t = capacity Q (hz_cores t) (go_int (hz_memory t)) ''Gi'' (hz_disk t) ''Gi''"

text \<open>A bare number gets the unit; the accelerators are added to those of the caller.\<close>

definition with_unit :: "string \<Rightarrow> string \<Rightarrow> string" where
  "with_unit s unit = (case Atoi s of Inr _ \<Rightarrow> s @ unit | Inl _ \<Rightarrow> s)"

definition parse_size :: "'q quantities \<Rightarrow> string \<Rightarrow> string \<Rightarrow> 'q result" where
  "parse_size Q s unit = map_sum Wrapped id (ParseQuantity Q (with_unit s unit))"

fun add_disks :: "'q quantities \<Rightarrow> string list \<Rightarrow> 'q \<Rightarrow> 'q result" where
  "add_disks Q [] storage = Inr storage"
| "add_disks Q (d # ds) storage = bindR (parse_size Q d ''Gi'') (\<lambda>s. add_disks Q ds (qAdd Q storage s))"

definition getKubevirtResourceDetails ::
  "'q quantities \<Rightarrow> KubevirtNodeSize \<Rightarrow> ('q NodeCapacity \<times> 'q ResourceList) result" where
  "getKubevirtResourceDetails Q t =
     bindR (map_sum Wrapped id (Atoi (kv_cpus t))) (\<lambda>cpus.
     bindR (parse_size Q (kv_memory t) ''Mi'') (\<lambda>memory.
     bindR (parse_size Q (kv_primaryDiskSize t) ''Gi'') (\<lambda>primary.
     bindR (add_disks Q (kv_secondaryDisks t) primary) (\<lambda>storage.
     bindR (parse_resources Q (kv_accelerators t)) (\<lambda>accelerators.
       Inr (\<lparr>nc_cpu = ncCPU Q cpus, nc_memory = memory, nc_storage = storage\<rparr>, accelerators))))))"

definition getNutanixResourceDetails :: "'q quantities \<Rightarrow> NutanixNodeSpec \<Rightarrow> 'q NodeCapacity result" where
  "getNutanixResourceDetails Q t = capacity_disk Q (nx_cpus t) (nx_memoryMB t) (nx_diskSize t)"

definition getOpenstackResourceDetails :: "'q quantities \<Rightarrow> int \<Rightarrow> OpenstackSize \<Rightarrow> 'q NodeCapacity result" where
  "getOpenstackResourceDetails Q diskSizeGB t =
     capacity Q (os_vcpus t) (os_memory t) ''Mi'' (if diskSizeGB = 0 then os_disk t else diskSizeGB) ''Gi''"

definition getVSphereResourceDetails :: "'q quantities \<Rightarrow> VSphereNodeSpec \<Rightarrow> 'q NodeCapacity result" where
  "getVSphereResourceDetails Q t = capacity_disk Q (vs_cpus t) (vs_memory t) (vs_diskSizeGB t)"

definition getVMCloudDirectorResourceDetails :: "'q quantities \<Rightarrow> VMwareCloudDirectorNodeSpec \<Rightarrow> 'q NodeCapacity result" where
  "getVMCloudDirectorResourceDetails Q t =
     capacity_disk Q (wrap64 (vcd_cpuCores t * vcd_cpus t)) (vcd_memoryMB t) (vcd_diskSizeGB t)"

text \<open>The switch over the size that is set, in its order.\<close>

definition node_capacity :: "'q quantities \<Rightarrow> ProviderNodeTemplate \<Rightarrow> ('q NodeCapacity \<times> 'q ResourceList) result" where
  "node_capacity Q p =
     (let plain = map_sum id (\<lambda>c. (c, [])) in
      case pnt_alibaba p of Some t \<Rightarrow> plain (getAlibabaResourceDetails Q (pnt_diskSizeGB p) t) | None \<Rightarrow>
     (case pnt_anexia p of Some t \<Rightarrow> plain (getAnexiaResourceDetails Q t) | None \<Rightarrow>
     (case pnt_aws p of Some t \<Rightarrow> plain (getAWSResourceDetails Q (pnt_diskSizeGB p) t) | None \<Rightarrow>
     (case pnt_azure p of Some t \<Rightarrow> plain (getAzureResourceDetails Q t) | None \<Rightarrow>
     (case pnt_do p of Some t \<Rightarrow> plain (getDOResourceDetails Q t) | None \<Rightarrow>
     (case pnt_gcp p of Some t \<Rightarrow> plain (getGCPResourceDetails Q (pnt_diskSizeGB p) t) | None \<Rightarrow>
     (case pnt_hetzner p of Some t \<Rightarrow> plain (getHetznerResourceDetails Q t) | None \<Rightarrow>
     (case pnt_kubevirt p of Some t \<Rightarrow> getKubevirtResourceDetails Q t | None \<Rightarrow>
     (case pnt_nutanix p of Some t \<Rightarrow> plain (getNutanixResourceDetails Q t) | None \<Rightarrow>
     (case pnt_openstack p of Some t \<Rightarrow> plain (getOpenstackResourceDetails Q (pnt_diskSizeGB p) t) | None \<Rightarrow>
     (case pnt_vSphere p of Some t \<Rightarrow> plain (getVSphereResourceDetails Q t) | None \<Rightarrow>
     (case pnt_vmDirector p of Some t \<Rightarrow> plain (getVMCloudDirectorResourceDetails Q t) | None \<Rightarrow>
      Inl (Plain ''provider set in request not supported''))))))))))))) "

text \<open>Adding quantities under their names to totals.\<close>

definition add_resource :: "'q quantities \<Rightarrow> string \<times> 'q \<Rightarrow> 'q ResourceList \<Rightarrow> 'q ResourceList" where
  "add_resource Q = (\<lambda>(name, quantity) totals.
     AList.update name (case map_of totals name of Some current \<Rightarrow> qAdd Q current quantity | None \<Rightarrow> quantity) totals)"

definition add_resources :: "'q quantities \<Rightarrow> 'q ResourceList \<Rightarrow> 'q ResourceList \<Rightarrow> 'q ResourceList" where
  "add_resources Q rs totals = fold (add_resource Q) rs totals"

definition add_node ::
  "'q quantities \<Rightarrow> 'q NodeCapacity \<times> 'q ResourceList \<Rightarrow> 'q NodeCapacity \<times> 'q ResourceList \<Rightarrow> 'q NodeCapacity \<times> 'q ResourceList" where
  "add_node Q = (\<lambda>(nc, accelerators) (total, acceleratorTotals).
     (\<lparr>nc_cpu = qAdd Q (nc_cpu total) (nc_cpu nc), nc_memory = qAdd Q (nc_memory total) (nc_memory nc),
       nc_storage = qAdd Q (nc_storage total) (nc_storage nc)\<rparr>,
      add_resources Q accelerators acceleratorTotals))"

definition MapProviderNodeTmplToResourceDetails ::
  "'q quantities \<Rightarrow> quota_sdk \<Rightarrow> ProviderNodeTemplate \<Rightarrow> int \<Rightarrow> 'q ResourceDetails result" where
  "MapProviderNodeTmplToResourceDetails Q G provider replicas =
     bindR (node_capacity Q provider) (\<lambda>node.
       let (total, accs) = (add_node Q node ^^ nat replicas) (\<lparr>nc_cpu = qZero Q, nc_memory = qZero Q, nc_storage = qZero Q\<rparr>, []) in
       Inr \<lparr>rd_cpu = Some (nc_cpu total), rd_memory = Some (nc_memory total), rd_storage = Some (nc_storage total),
         rd_accelerators = (if accs = [] then None else Some [\<lparr>aq_provider = kubevirtCloudProvider G, aq_resources = accs\<rparr>])\<rparr>)"

section \<open>Totals of accelerators\<close>

type_synonym 'q totals = "(string \<times> 'q ResourceList) list"

definition acc_list :: "'q accQuota list option \<Rightarrow> 'q accQuota list" where
  "acc_list as = (case as of None \<Rightarrow> [] | Some xs \<Rightarrow> xs)"

definition get_resources :: "'q totals \<Rightarrow> string \<Rightarrow> 'q ResourceList" where
  "get_resources totals p = (case map_of totals p of None \<Rightarrow> [] | Some rs \<Rightarrow> rs)"

definition addAcceleratorQuantities :: "'q quantities \<Rightarrow> 'q totals \<Rightarrow> 'q accQuota list \<Rightarrow> 'q totals" where
  "addAcceleratorQuantities Q totals accelerators =
     fold (\<lambda>a t. AList.update (aq_provider a) (add_resources Q (aq_resources a) (get_resources t (aq_provider a))) t)
       accelerators totals"

definition sub_resource :: "'q quantities \<Rightarrow> string \<times> 'q \<Rightarrow> 'q ResourceList \<Rightarrow> 'q ResourceList" where
  "sub_resource Q = (\<lambda>(name, quantity) resources.
     case map_of resources name of
       None \<Rightarrow> resources
     | Some current \<Rightarrow>
         (let c = qSub Q current quantity in
          AList.update name (if qSign Q c < 0 then qSet Q c 0 else c) resources))"

definition subtractAcceleratorQuantities :: "'q quantities \<Rightarrow> 'q totals \<Rightarrow> 'q accQuota list \<Rightarrow> 'q totals" where
  "subtractAcceleratorQuantities Q totals accelerators =
     fold (\<lambda>a t. case map_of t (aq_provider a) of
              None \<Rightarrow> t
            | Some resources \<Rightarrow> AList.update (aq_provider a) (fold (sub_resource Q) (aq_resources a) resources) t)
       accelerators totals"

definition acceleratorQuotasFromTotals :: "'q totals \<Rightarrow> 'q accQuota list option" where
  "acceleratorQuotasFromTotals totals =
     (if totals = [] then None
      else Some (map (\<lambda>p. \<lparr>aq_provider = p, aq_resources = get_resources totals p\<rparr>) (sort (map fst totals))))"

text \<open>A quoted name (\<^verbatim>\<open>%q\<close>) is the name in quotes; names with characters that Go escapes do not occur.\<close>

definition exceeds_line :: "'q quantities \<Rightarrow> string \<Rightarrow> 'q \<Rightarrow> 'q \<Rightarrow> string" where
  "exceeds_line Q what calculated limit =
     ''Calculated '' @ what @ '' ('' @ qString Q calculated @ '') exceeds resource quota ('' @ qString Q limit @ '')'' @ [CHR 0x0A]"

definition acceleratorExceedsQuotaMessage :: "'q quantities \<Rightarrow> 'q accQuota list \<Rightarrow> 'q accQuota list \<Rightarrow> string" where
  "acceleratorExceedsQuotaMessage Q limits calculated =
     (let calculatedByProvider = fold (\<lambda>a t. AList.update (aq_provider a) (aq_resources a) t) calculated [] in
      concat (map (\<lambda>limit.
        concat (map (\<lambda>name.
            case map_of (aq_resources limit) name of
              None \<Rightarrow> []
            | Some limitQuantity \<Rightarrow>
                (let calculatedQuantity = (case map_of (get_resources calculatedByProvider (aq_provider limit)) name of
                       Some q \<Rightarrow> q | None \<Rightarrow> qZero Q) in
                 if qCmp Q calculatedQuantity limitQuantity > 0
                 then exceeds_line Q (''accelerator '' @ [CHR 0x22] @ name @ [CHR 0x22]) calculatedQuantity limitQuantity
                 else []))
          (sort (map fst (aq_resources limit))))) limits))"

end
