(* ===== verification/Quota_Handlers.thy ===== *)
theory Quota_Handlers
  imports Resource_Quotas
begin

text \<open>
  The handlers on resource quotas of \<^verbatim>\<open>pkg/ee/resource-quota/handler.go\<close> and the endpoints of
  \<^verbatim>\<open>pkg/handler/v2/resource_quota\<close>, which admit administrators only, except for the quota of one's own project.
\<close>

section \<open>Requests\<close>

record listResourceQuotas =
  lrq_subjectName :: string
  lrq_subjectKind :: string
  lrq_accumulate :: bool

record createResourceQuota =
  crq_subjectName :: string
  crq_subjectKind :: string
  crq_quota :: Quota

record putResourceQuota =
  prq_name :: string
  prq_body :: Quota

record ReplacedResources =
  rr_replicas :: int
  rr_template :: ProviderNodeTemplate

record calculateProjectResourceQuotaUpdate = ProjectReq +
  cqu_replicas :: int
  cqu_replacedResources :: "ReplacedResources option"
  cqu_template :: ProviderNodeTemplate

definition createResourceQuota_Validate :: "createResourceQuota \<Rightarrow> unit result" where
  "createResourceQuota_Validate m =
     (if crq_subjectName m = [] then Inl UtilBadRequest
      else if crq_subjectKind m = [] then Inl UtilBadRequest
      else if qu_enableAccounting (crq_quota m) = Some True then Inl UtilBadRequest
      else Inr ())"

definition DecodeResourceQuotaReq :: "http_request \<Rightarrow> string result" where
  "DecodeResourceQuotaReq r =
     (if mux_var r ''quota_name'' = [] then Inl UtilBadRequest else Inr (mux_var r ''quota_name''))"

definition DecodeListResourceQuotaReq :: "http_request \<Rightarrow> listResourceQuotas result" where
  "DecodeListResourceQuotaReq r =
     (let queryParam = rq_query r ''accumulate'' in
      case (if queryParam \<noteq> [] then ParseBool queryParam else Inr False) of
        Inl err \<Rightarrow> Inl (Wrapped err)
      | Inr accumulate \<Rightarrow>
          Inr \<lparr>lrq_subjectName = rq_query r ''subjectName'', lrq_subjectKind = rq_query r ''subjectKind'', lrq_accumulate = accumulate\<rparr>)"

text \<open>The bodies are what the JSON decoder made of them.\<close>

definition DecodeCreateResourceQuotaReq :: "createResourceQuota result \<Rightarrow> createResourceQuota result" where
  "DecodeCreateResourceQuotaReq body = map_sum (\<lambda>_. UtilBadRequest) id body"

definition DecodePutResourceQuotaReq :: "http_request \<Rightarrow> Quota result \<Rightarrow> putResourceQuota result" where
  "DecodePutResourceQuotaReq r body =
     (if mux_var r ''quota_name'' = [] then Inl UtilBadRequest
      else case body of Inl _ \<Rightarrow> Inl UtilBadRequest | Inr q \<Rightarrow> Inr \<lparr>prq_name = mux_var r ''quota_name'', prq_body = q\<rparr>)"

definition DecodeCalculateProjectResourceQuotaUpdateReq ::
  "http_request \<Rightarrow> (int \<times> ReplacedResources option \<times> ProviderNodeTemplate) result \<Rightarrow> calculateProjectResourceQuotaUpdate result" where
  "DecodeCalculateProjectResourceQuotaUpdateReq r body =
     (case DecodeProjectRequest r of
        Inl err \<Rightarrow> Inl err
      | Inr pReq \<Rightarrow>
          (case body of
             Inl _ \<Rightarrow> Inl UtilBadRequest
           | Inr (replicas, replaced, template) \<Rightarrow>
               Inr \<lparr>req_projectID = req_projectID pReq, cqu_replicas = replicas, cqu_replacedResources = replaced,
                  cqu_template = template\<rparr>))"

section \<open>Answers\<close>

record apiAccStatus =
  aas_activationPhase :: string
  aas_accountingRevision :: string
  aas_quotaDigest :: string
  aas_observedAt :: "time option"
  aas_legacyMachines :: int
  aas_invalidMachines :: int
  aas_ready :: bool
  aas_blockers :: "accBlocker list"

record apiResourceQuota =
  arq_name :: string
  arq_subjectName :: string
  arq_subjectKind :: string
  arq_humanReadableName :: string
  arq_isDefault :: bool
  arq_accountingEnabled :: bool
  arq_quota :: Quota
  arq_globalUsage :: Quota
  arq_localUsage :: Quota
  arq_globalAccounting :: "apiAccStatus option"

record ResourceQuotaUpdateCalculation =
  rqc_resourceQuota :: apiResourceQuota
  rqc_calculatedQuota :: Quota
  rqc_message :: string

definition ConvertToAPIGlobalAcceleratorAccountingStatus :: "accStatus option \<Rightarrow> apiAccStatus option" where
  "ConvertToAPIGlobalAcceleratorAccountingStatus status = map_option (\<lambda>s.
     \<lparr>aas_activationPhase = as_activationPhase s, aas_accountingRevision = as_accountingRevision s,
      aas_quotaDigest = as_quotaDigest s, aas_observedAt = (if as_observedAt s = 0 then None else Some (as_observedAt s)),
      aas_legacyMachines = as_legacyMachines s, aas_invalidMachines = as_invalidMachines s, aas_ready = as_ready s,
      aas_blockers = as_blockers s\<rparr>) status"

definition isDefaultProjectResourceQuota :: "'q resourceQuota \<Rightarrow> bool" where
  "isDefaultProjectResourceQuota q \<longleftrightarrow> mget (om_labels q) DefaultProjectResourceQuotaLabel = ''true''"

definition isAcceleratorAccountingEnabled :: "quota_sdk \<Rightarrow> 'q resourceQuota \<Rightarrow> bool" where
  "isAcceleratorAccountingEnabled G q \<longleftrightarrow> mget (om_annotations q) (accountingAnnotation G) = accountingAnnotationValue G"

definition convertToAPIStruct :: "'q quantities \<Rightarrow> quota_sdk \<Rightarrow> 'q resourceQuota \<Rightarrow> string \<Rightarrow> apiResourceQuota" where
  "convertToAPIStruct Q G q humanReadableSubjectName =
     \<lparr>arq_name = om_name q, arq_subjectName = rq_subjectName q, arq_subjectKind = rq_subjectKind q,
      arq_humanReadableName = humanReadableSubjectName, arq_isDefault = isDefaultProjectResourceQuota q,
      arq_accountingEnabled = isAcceleratorAccountingEnabled G q, arq_quota = ConvertToAPIQuota Q (rq_quota q),
      arq_globalUsage = ConvertToAPIQuota Q (rq_globalUsage q), arq_localUsage = ConvertToAPIQuota Q (rq_localUsage q),
      arq_globalAccounting = ConvertToAPIGlobalAcceleratorAccountingStatus (rq_globalAccounting q)\<rparr>"

section \<open>Reading quotas\<close>

text \<open>Errors of the provider that say that the quota is not there get a status of their own.\<close>

definition quotaNotFound :: "go_error \<Rightarrow> go_error" where
  "quotaNotFound err = (if IsNotFound err then UtilNotFound else err)"

definition GetResourceQuota ::
  "'q quantities \<Rightarrow> quota_sdk \<Rightarrow> ('s, 'q) ResourceQuotaProvider \<Rightarrow> 's PrivilegedProjectProvider \<Rightarrow> string \<Rightarrow> ('s, apiResourceQuota) act" where
  "GetResourceQuota Q G provider projectProvider name =
     bindA (wrapA quotaNotFound (rqp_GetUnsecured provider name)) (\<lambda>resourceQuota.
     bindA (if rq_subjectKind resourceQuota = projectSubjectKind G
            then bindA (httpA (ppp_GetUnsecured projectProvider (rq_subjectName resourceQuota) None)) (\<lambda>project. retA (pr_name project))
            else retA []) (\<lambda>humanReadableName.
       retA (convertToAPIStruct Q G resourceQuota humanReadableName)))"

definition getProjectResourceQuota ::
  "quota_sdk \<Rightarrow> ('s, 'q) ResourceQuotaProvider \<Rightarrow> 's ProjectProvider \<Rightarrow> 's PrivilegedProjectProvider \<Rightarrow> 's UserInfoGetter \<Rightarrow>
     string \<Rightarrow> ('s, 'q resourceQuota option \<times> string) act" where
  "getProjectResourceQuota G quotaProvider projectProvider privilegedProjectProvider userInfoGetter projectID =
     (if projectID = [] then failA UtilBadRequest
      else
        bindA (httpA (GetProject userInfoGetter projectProvider privilegedProjectProvider projectID None)) (\<lambda>project.
        bindA (userInfoGetter (om_name project)) (\<lambda>userInfo.
        bindA (httpA (rqp_Get quotaProvider (Some userInfo) (om_name project) (ToLower (projectKindName G)))) (\<lambda>quota.
          retA (quota, pr_name project)))))"

definition GetResourceQuotaForProject ::
  "'q quantities \<Rightarrow> quota_sdk \<Rightarrow> ('s, 'q) ResourceQuotaProvider \<Rightarrow> 's ProjectProvider \<Rightarrow> 's PrivilegedProjectProvider \<Rightarrow>
     's UserInfoGetter \<Rightarrow> 'a ProjectReq_scheme \<Rightarrow> ('s, apiResourceQuota option) act" where
  "GetResourceQuotaForProject Q G quotaProvider projectProvider privilegedProjectProvider userInfoGetter req =
     bindA (getProjectResourceQuota G quotaProvider projectProvider privilegedProjectProvider userInfoGetter (req_projectID req))
       (\<lambda>(quota, projectName). retA (map_option (\<lambda>q. convertToAPIStruct Q G q projectName) quota))"

definition add_opt :: "'q quantities \<Rightarrow> 'q \<Rightarrow> 'q option \<Rightarrow> 'q" where
  "add_opt Q t x = (case x of None \<Rightarrow> t | Some q \<Rightarrow> qAdd Q t q)"

definition details_of :: "'q quantities \<Rightarrow> 'q ResourceDetails list \<Rightarrow> 'q ResourceDetails" where
  "details_of Q ds =
     \<lparr>rd_cpu = Some (foldl (\<lambda>t d. add_opt Q t (rd_cpu d)) (qZero Q) ds),
      rd_memory = Some (foldl (\<lambda>t d. add_opt Q t (map_option (TreatDecimalAsBinary Q) (rd_memory d))) (qZero Q) ds),
      rd_storage = Some (foldl (\<lambda>t d. add_opt Q t (map_option (TreatDecimalAsBinary Q) (rd_storage d))) (qZero Q) ds),
      rd_accelerators = acceleratorQuotasFromTotals
        (foldl (\<lambda>t d. addAcceleratorQuantities Q t (acc_list (rd_accelerators d))) [] ds)\<rparr>"

definition zero_Quota :: Quota where
  "zero_Quota = \<lparr>qu_cpu = None, qu_memory = None, qu_storage = None, qu_accelerators = None, qu_enableAccounting = None\<rparr>"

definition accumulateQuotas :: "'q quantities \<Rightarrow> 'q resourceQuota list \<Rightarrow> apiResourceQuota" where
  "accumulateQuotas Q items =
     \<lparr>arq_name = totalQuotaName, arq_subjectName = [], arq_subjectKind = [], arq_humanReadableName = totalQuotaName,
      arq_isDefault = False, arq_accountingEnabled = False,
      arq_quota = ConvertToAPIQuota Q (details_of Q (map rq_quota items)),
      arq_globalUsage = ConvertToAPIQuota Q (details_of Q (map rq_globalUsage items)),
      arq_localUsage = zero_Quota, arq_globalAccounting = None\<rparr>"

definition ListResourceQuotas ::
  "'q quantities \<Rightarrow> quota_sdk \<Rightarrow> ('s, 'q) ResourceQuotaProvider \<Rightarrow> 's ProjectProvider \<Rightarrow> listResourceQuotas \<Rightarrow> ('s, apiResourceQuota list) act" where
  "ListResourceQuotas Q G provider projectProvider req =
     (let labelSet = (if lrq_subjectKind req \<noteq> [] then [(subjectKindLabelKey G, lrq_subjectKind req)] else []) @
                     (if lrq_subjectName req \<noteq> [] then [(subjectNameLabelKey G, lrq_subjectName req)] else []) in
      bindA (rqp_ListUnsecured provider labelSet) (\<lambda>items.
        if lrq_accumulate req then retA [accumulateQuotas Q items]
        else
          bindA (httpA (pp_List projectProvider None)) (\<lambda>projects.
            let projectMap = map (\<lambda>p. (om_name p, pr_name p)) (rev projects) in
            retA (map (\<lambda>rq. convertToAPIStruct Q G rq
                (if rq_subjectKind rq = projectSubjectKind G then mget projectMap (rq_subjectName rq) else [])) items))))"

section \<open>Changing quotas\<close>

definition CreateResourceQuota ::
  "'q quantities \<Rightarrow> ('s, 'q) ResourceQuotaProvider \<Rightarrow> createResourceQuota \<Rightarrow> ('s, unit) act" where
  "CreateResourceQuota Q provider req =
     (case createResourceQuota_Validate req of
        Inl _ \<Rightarrow> failA UtilBadRequest
      | Inr _ \<Rightarrow>
          (case ConvertToCRDQuota Q (crq_quota req) of
             Inl _ \<Rightarrow> failA UtilBadRequest
           | Inr crdQuota \<Rightarrow>
               wrapA (\<lambda>err. if IsAlreadyExists err then UtilAlreadyExists else KubernetesErrorToHTTPError err)
                 (rqp_CreateUnsecured provider (crq_subjectKind req, crq_subjectName req) crdQuota)))"

definition applyAcceleratorAccounting ::
  "quota_sdk \<Rightarrow> Quota \<Rightarrow> 'q resourceQuota \<Rightarrow> 'q resourceQuota \<Rightarrow> 'q resourceQuota result" where
  "applyAcceleratorAccounting G body originalResourceQuota newResourceQuota =
     (case qu_enableAccounting body of
        None \<Rightarrow> Inr newResourceQuota
      | Some enable \<Rightarrow>
          (let alreadyEnabled = isAcceleratorAccountingEnabled G originalResourceQuota in
           if \<not> enable then if alreadyEnabled then Inl UtilBadRequest else Inr newResourceQuota
           else if alreadyEnabled then Inr newResourceQuota
           else if isDefaultProjectResourceQuota originalResourceQuota then Inl UtilBadRequest
           else if acc_list (rd_accelerators (rq_quota newResourceQuota)) \<noteq> [] then Inl UtilBadRequest
           else Inr (newResourceQuota\<lparr>om_annotations :=
             AList.update (accountingAnnotation G) (accountingAnnotationValue G) (om_annotations newResourceQuota)\<rparr>)))"

definition PutResourceQuota ::
  "'q quantities \<Rightarrow> quota_sdk \<Rightarrow> ('s, 'q) ResourceQuotaProvider \<Rightarrow> putResourceQuota \<Rightarrow> ('s, unit) act" where
  "PutResourceQuota Q G provider req =
     bindA (wrapA quotaNotFound (rqp_GetUnsecured provider (prq_name req))) (\<lambda>original.
       case ConvertToCRDQuota Q (prq_body req) of
         Inl _ \<Rightarrow> failA UtilBadRequest
       | Inr crd \<Rightarrow>
           (let crdQuota = (if qu_accelerators (prq_body req) = None
                            then crd\<lparr>rd_accelerators := rd_accelerators (rq_quota original)\<rparr> else crd);
                newResourceQuota = original\<lparr>om_labels := AList.delete DefaultProjectResourceQuotaLabel (om_labels original),
                  rq_quota := crdQuota\<rparr> in
            case applyAcceleratorAccounting G (prq_body req) original newResourceQuota of
              Inl err \<Rightarrow> failA err
            | Inr quota \<Rightarrow>
                wrapA (\<lambda>err. if IsNotFound err then UtilNotFound else KubernetesErrorToHTTPError err)
                  (rqp_PatchUnsecured provider original quota)))"

definition DeleteResourceQuota :: "('s, 'q) ResourceQuotaProvider \<Rightarrow> string \<Rightarrow> ('s, unit) act" where
  "DeleteResourceQuota provider name = wrapA quotaNotFound (rqp_DeleteUnsecured provider name)"

section \<open>Calculating the effect of new nodes\<close>

definition opt2 :: "('q \<Rightarrow> 'q \<Rightarrow> 'q) \<Rightarrow> 'q option \<Rightarrow> 'q option \<Rightarrow> 'q option" where
  "opt2 f new x = (case (new, x) of (Some n, Some u) \<Rightarrow> Some (f n u) | _ \<Rightarrow> new)"

definition exceeds :: "'q quantities \<Rightarrow> string \<Rightarrow> 'q option \<Rightarrow> 'q option \<Rightarrow> string" where
  "exceeds Q what limit calculated =
     (case (limit, calculated) of
        (Some l, Some c) \<Rightarrow> if qCmp Q c l > 0 then exceeds_line Q what c l else []
      | _ \<Rightarrow> [])"

text \<open>What the nodes that are to be replaced take away.\<close>

definition subtract_replaced ::
  "'q quantities \<Rightarrow> quota_sdk \<Rightarrow> ReplacedResources option \<Rightarrow> 'q ResourceDetails \<times> 'q totals \<Rightarrow> ('q ResourceDetails \<times> 'q totals) result" where
  "subtract_replaced Q G replacedResources = (\<lambda>(calc, totals).
     case replacedResources of
       None \<Rightarrow> Inr (calc, totals)
     | Some rr \<Rightarrow>
         bindR (MapProviderNodeTmplToResourceDetails Q G (rr_template rr) (rr_replicas rr)) (\<lambda>replaced.
           Inr (calc\<lparr>rd_cpu := opt2 (qSub Q) (rd_cpu calc) (rd_cpu replaced),
                  rd_memory := opt2 (qSub Q) (rd_memory calc) (map_option (TreatDecimalAsBinary Q) (rd_memory replaced)),
                  rd_storage := opt2 (qSub Q) (rd_storage calc) (map_option (TreatDecimalAsBinary Q) (rd_storage replaced))\<rparr>,
                subtractAcceleratorQuantities Q totals (acc_list (rd_accelerators replaced)))))"

definition calculate ::
  "'q quantities \<Rightarrow> quota_sdk \<Rightarrow> 'q ResourceDetails \<Rightarrow> int \<Rightarrow> ReplacedResources option \<Rightarrow> ProviderNodeTemplate \<Rightarrow> 'q ResourceDetails result" where
  "calculate Q G usage replicas replacedResources template =
     bindR (MapProviderNodeTmplToResourceDetails Q G template replicas) (\<lambda>new.
       let totals = addAcceleratorQuantities Q (addAcceleratorQuantities Q [] (acc_list (rd_accelerators new))) (acc_list (rd_accelerators usage)) in
       bindR (subtract_replaced Q G replacedResources
         (new\<lparr>rd_cpu := opt2 (qAdd Q) (rd_cpu new) (rd_cpu usage),
            rd_memory := opt2 (qAdd Q) (rd_memory new) (map_option (TreatDecimalAsBinary Q) (rd_memory usage)),
            rd_storage := opt2 (qAdd Q) (rd_storage new) (map_option (TreatDecimalAsBinary Q) (rd_storage usage))\<rparr>, totals))
         (\<lambda>(calc, totals). Inr (calc\<lparr>rd_accelerators := acceleratorQuotasFromTotals totals\<rparr>)))"

definition exceeds_message :: "'q quantities \<Rightarrow> 'q ResourceDetails \<Rightarrow> 'q ResourceDetails \<Rightarrow> string" where
  "exceeds_message Q limits calc =
     exceeds Q ''cpu'' (rd_cpu limits) (rd_cpu calc) @ exceeds Q ''memory'' (rd_memory limits) (rd_memory calc) @
     exceeds Q ''disk size'' (rd_storage limits) (rd_storage calc) @
     acceleratorExceedsQuotaMessage Q (acc_list (rd_accelerators limits)) (acc_list (rd_accelerators calc))"

definition CalculateResourceQuotaUpdateForProject ::
  "'q quantities \<Rightarrow> quota_sdk \<Rightarrow> ('s, 'q) ResourceQuotaProvider \<Rightarrow> 's ProjectProvider \<Rightarrow> 's PrivilegedProjectProvider \<Rightarrow>
     's UserInfoGetter \<Rightarrow> calculateProjectResourceQuotaUpdate \<Rightarrow> ('s, ResourceQuotaUpdateCalculation option) act" where
  "CalculateResourceQuotaUpdateForProject Q G quotaProvider projectProvider privilegedProjectProvider userInfoGetter req =
     bindA (getProjectResourceQuota G quotaProvider projectProvider privilegedProjectProvider userInfoGetter (req_projectID req))
       (\<lambda>(quota, projectName). case quota of
          None \<Rightarrow> retA None
        | Some q \<Rightarrow>
            (case calculate Q G (rq_globalUsage q) (cqu_replicas req) (cqu_replacedResources req) (cqu_template req) of
               Inl _ \<Rightarrow> failA UtilBadRequest
             | Inr calc \<Rightarrow>
                 retA (Some \<lparr>rqc_resourceQuota = convertToAPIStruct Q G q projectName,
                    rqc_calculatedQuota = ConvertToAPIQuota Q calc,
                    rqc_message = exceeds_message Q (rq_quota q) calc\<rparr>)))"

section \<open>Endpoints\<close>

definition admins_only :: "'s UserInfoGetter \<Rightarrow> ('s, 'a) act \<Rightarrow> ('s, 'a) act" where
  "admins_only userInfoGetter m =
     bindA (userInfoGetter []) (\<lambda>userInfo. if \<not> ui_isAdmin userInfo then failA NewForbidden else m)"

definition GetResourceQuotaEndpoint where
  "GetResourceQuotaEndpoint Q G userInfoGetter provider projectProvider name =
     admins_only userInfoGetter (GetResourceQuota Q G provider projectProvider name)"

definition ListResourceQuotasEndpoint where
  "ListResourceQuotasEndpoint Q G userInfoGetter provider projectProvider req =
     admins_only userInfoGetter (ListResourceQuotas Q G provider projectProvider req)"

definition CreateResourceQuotaEndpoint where
  "CreateResourceQuotaEndpoint Q userInfoGetter provider req =
     admins_only userInfoGetter (CreateResourceQuota Q provider req)"

definition PutResourceQuotaEndpoint where
  "PutResourceQuotaEndpoint Q G userInfoGetter provider req =
     admins_only userInfoGetter (PutResourceQuota Q G provider req)"

definition DeleteResourceQuotaEndpoint where
  "DeleteResourceQuotaEndpoint userInfoGetter provider name =
     admins_only userInfoGetter (DeleteResourceQuota provider name)"

definition GetForProjectEndpoint where
  "GetForProjectEndpoint Q G projectProvider privilegedProjectProvider userInfoGetter quotaProvider req =
     GetResourceQuotaForProject Q G quotaProvider projectProvider privilegedProjectProvider userInfoGetter req"

definition CalculateProjectQuotaUpdateEndpoint where
  "CalculateProjectQuotaUpdateEndpoint Q G projectProvider privilegedProjectProvider userInfoGetter quotaProvider req =
     CalculateResourceQuotaUpdateForProject Q G quotaProvider projectProvider privilegedProjectProvider userInfoGetter req"

end
