(* ===== verification/Quota_Properties.thy ===== *)
theory Quota_Properties
  imports Quota_Handlers Access_Control Mem_Extend
begin

text \<open>
  What holds of resource quotas: that the calculation for new nodes reports exactly the limits that would be
  exceeded, that quotas survive the conversion to the API and back, who may see and change them, and that accounting
  of accelerators cannot be switched off.
\<close>

section \<open>Amounts\<close>

definition opt_amt :: "('q \<Rightarrow> rat) \<Rightarrow> 'q option \<Rightarrow> rat" where
  "opt_amt amt x = (case x of None \<Rightarrow> 0 | Some q \<Rightarrow> amt q)"

lemma opt_amt_simps [simp]: "opt_amt amt None = 0" "opt_amt amt (Some q) = amt q"
  by (simp_all add: opt_amt_def)

text \<open>The amount of a named resource, missing or not.\<close>

definition res_amt :: "('q \<Rightarrow> rat) \<Rightarrow> 'q ResourceList \<Rightarrow> string \<Rightarrow> rat" where
  "res_amt amt rs n = opt_amt amt (map_of rs n)"

text \<open>The sum of all entries under a name in a list of accelerators.\<close>

definition acc_sum :: "('q \<Rightarrow> rat) \<Rightarrow> 'q accQuota list \<Rightarrow> string \<Rightarrow> string \<Rightarrow> rat" where
  "acc_sum amt as p n =
     (\<Sum>a \<leftarrow> as. if aq_provider a = p then (\<Sum>(m, q) \<leftarrow> aq_resources a. if m = n then amt q else 0) else 0)"

lemma acc_sum_simps [simp]:
  "acc_sum amt [] p n = 0"
  "acc_sum amt (a # as) p n =
     (if aq_provider a = p then (\<Sum>(m, q) \<leftarrow> aq_resources a. if m = n then amt q else 0) else 0) + acc_sum amt as p n"
  by (simp_all add: acc_sum_def)

lemma map_of_AList_update: "map_of (AList.update k v xs) = (map_of xs)(k \<mapsto> v)"
  by (rule AList.update_conv')

lemma res_amt_add_resource:
  "quantity_ok Q amt \<Longrightarrow> res_amt amt (add_resource Q (m, q) rs) n = res_amt amt rs n + (if m = n then amt q else 0)"
  by (auto simp: res_amt_def add_resource_def map_of_AList_update quantity_okD(2) split: option.splits)

lemma res_amt_add_resources:
  "quantity_ok Q amt \<Longrightarrow>
     res_amt amt (add_resources Q rs totals) n = res_amt amt totals n + (\<Sum>(m, q) \<leftarrow> rs. if m = n then amt q else 0)"
proof (induction rs arbitrary: totals)
  case Nil
  then show ?case by (simp add: add_resources_def)
next
  case (Cons x rs)
  obtain m q where x: "x = (m, q)" by (cases x)
  have "res_amt amt (add_resources Q (x # rs) totals) n = res_amt amt (add_resources Q rs (add_resource Q x totals)) n"
    by (simp add: add_resources_def)
  then show ?case using Cons by (simp add: x res_amt_add_resource)
qed

lemma get_resources_update: "get_resources (AList.update p rs t) p' = (if p' = p then rs else get_resources t p')"
  by (simp add: get_resources_def map_of_AList_update)

lemma res_amt_addAccelerators:
  "quantity_ok Q amt \<Longrightarrow>
     res_amt amt (get_resources (addAcceleratorQuantities Q totals as) p) n = res_amt amt (get_resources totals p) n + acc_sum amt as p n"
proof (induction as arbitrary: totals)
  case Nil
  then show ?case by (simp add: addAcceleratorQuantities_def)
next
  case (Cons a as)
  have "addAcceleratorQuantities Q totals (a # as) = addAcceleratorQuantities Q
      (AList.update (aq_provider a) (add_resources Q (aq_resources a) (get_resources totals (aq_provider a))) totals) as"
    by (simp add: addAcceleratorQuantities_def)
  with Cons show ?case by (auto simp: get_resources_update res_amt_add_resources)
qed

lemma res_amt_Nil [simp]: "res_amt amt [] n = 0"
  by (simp add: res_amt_def)

lemma get_resources_Nil [simp]: "get_resources [] p = []"
  by (simp add: get_resources_def)

text \<open>The sorted quotas that are made of totals have the same amounts.\<close>

lemma fold_update_resources:
  "map_of (fold (\<lambda>a t. AList.update (aq_provider a) (aq_resources a) t) as t) p =
     (case List.find (\<lambda>a. aq_provider a = p) (rev as) of Some a \<Rightarrow> Some (aq_resources a) | None \<Rightarrow> map_of t p)"
proof (induction as arbitrary: t)
  case Nil
  show ?case by simp
next
  case (Cons a as)
  show ?case by (simp add: Cons map_of_AList_update find_append split: option.splits)
qed

lemma by_provider:
  "get_resources (fold (\<lambda>a t. AList.update (aq_provider a) (aq_resources a) t) (acc_list (acceleratorQuotasFromTotals totals)) []) p =
     get_resources totals p"
proof -
  let ?mk = "\<lambda>p. \<lparr>aq_provider = p, aq_resources = get_resources totals p\<rparr>"
  have find: "List.find (\<lambda>a. aq_provider a = p) (map ?mk ps) = (if p \<in> set ps then Some (?mk p) else None)" for ps
    by (induction ps) auto
  show ?thesis
  proof (cases "totals = []")
    case True
    then show ?thesis by (simp add: acceleratorQuotasFromTotals_def acc_list_def)
  next
    case False
    then have "acc_list (acceleratorQuotasFromTotals totals) = map ?mk (sort (map fst totals))"
      by (simp add: acceleratorQuotasFromTotals_def acc_list_def)
    then have "get_resources (fold (\<lambda>a t. AList.update (aq_provider a) (aq_resources a) t) (acc_list (acceleratorQuotasFromTotals totals)) []) p =
      (if p \<in> set (map fst totals) then get_resources totals p else [])"
      by (simp add: get_resources_def[of "fold _ _ _"] fold_update_resources rev_map find)
    moreover have "get_resources totals p = []" if "p \<notin> set (map fst totals)"
      using that by (metis get_resources_def list.set_map map_of_eq_None_iff option.case(1))
    ultimately show ?thesis by (simp split: if_splits)
  qed
qed

section \<open>The message\<close>

definition in_limit :: "('q \<Rightarrow> rat) \<Rightarrow> 'q option \<Rightarrow> rat \<Rightarrow> bool" where
  "in_limit amt limit x \<longleftrightarrow> (case limit of None \<Rightarrow> True | Some l \<Rightarrow> x \<le> amt l)"

lemma exceeds_line_nonempty [simp]: "exceeds_line Q w c l \<noteq> []"
  by (simp add: exceeds_line_def)

lemma exceeds_Nil:
  "quantity_ok Q amt \<Longrightarrow> exceeds Q w limit (Some c) = [] \<longleftrightarrow> in_limit amt limit (amt c)"
  using quantity_okD(5)[of Q amt c] by (auto simp: exceeds_def in_limit_def not_less split: option.splits)

definition acc_within :: "('q \<Rightarrow> rat) \<Rightarrow> 'q accQuota list \<Rightarrow> (string \<Rightarrow> string \<Rightarrow> rat) \<Rightarrow> bool" where
  "acc_within amt limits x \<longleftrightarrow>
     (\<forall>limit \<in> set limits. \<forall>n l. map_of (aq_resources limit) n = Some l \<longrightarrow> x (aq_provider limit) n \<le> amt l)"

lemma accelerator_message_Nil:
  assumes Q: "quantity_ok Q amt"
  shows "acceleratorExceedsQuotaMessage Q limits (acc_list (acceleratorQuotasFromTotals totals)) = [] \<longleftrightarrow>
    acc_within amt limits (\<lambda>p n. res_amt amt (get_resources totals p) n)"
proof -
  have cmp: "qCmp Q (case map_of rs n of Some q \<Rightarrow> q | None \<Rightarrow> qZero Q) l > 0 \<longleftrightarrow> \<not> res_amt amt rs n \<le> amt l" for rs n l
    using quantity_okD(1,5)[OF Q] by (auto simp: res_amt_def split: option.splits)
  have one: "case_option [] f v = [] \<longleftrightarrow> (\<forall>l. v = Some l \<longrightarrow> f l = [])" for f and v :: "'a option"
    by (cases v) auto
  have if_not_swap: "(if \<not> b then x else y) = (if b then y else x)" for b and x y :: string by simp
  have ite: "(if b then [] else exceeds_line Q w c l) = [] \<longleftrightarrow> b" for b w c l by simp
  show ?thesis
    unfolding acceleratorExceedsQuotaMessage_def Let_def by_provider acc_within_def cmp
    by (simp only: concat_eq_Nil_conv set_map set_sort ball_simps(9) one if_not_swap ite)
      (metis fst_conv map_of_SomeD)
qed

section \<open>Nodes\<close>

lemma sum_res_amt:
  "distinct (map fst rs) \<Longrightarrow> (\<Sum>(m, q) \<leftarrow> rs. if m = n then amt q else 0) = res_amt amt rs n"
proof (induction rs)
  case Nil
  show ?case by simp
next
  case (Cons x rs)
  obtain m q where x: "x = (m, q)" by (cases x)
  from Cons have "map_of rs m = None" by (simp add: x map_of_eq_None_iff)
  with Cons show ?case by (auto simp: x res_amt_def)
qed

lemma distinct_add_resources: "distinct (map fst ts) \<Longrightarrow> distinct (map fst (add_resources Q rs ts))"
proof (induction rs arbitrary: ts)
  case (Cons x rs)
  obtain m q where "x = (m, q)" by (cases x)
  then have "distinct (map fst (add_resource Q x ts))"
    using Cons.prems by (simp add: add_resource_def distinct_update)
  from Cons.IH[OF this] show ?case by (simp add: add_resources_def)
qed (simp add: add_resources_def)

lemma add_nodes:
  assumes Q: "quantity_ok Q amt" and "(add_node Q node ^^ k) (\<lparr>nc_cpu = qZero Q, nc_memory = qZero Q, nc_storage = qZero Q\<rparr>, []) = (tot, accs)"
  shows "amt (nc_cpu tot) = of_nat k * amt (nc_cpu (fst node))" and "amt (nc_memory tot) = of_nat k * amt (nc_memory (fst node))"
    and "amt (nc_storage tot) = of_nat k * amt (nc_storage (fst node))" and "distinct (map fst accs)"
    and "res_amt amt accs n = of_nat k * (\<Sum>(m, q) \<leftarrow> snd node. if m = n then amt q else 0)"
  using assms(2)
proof (atomize (full), induction k arbitrary: tot accs)
  case 0
  then show ?case using quantity_okD(1)[OF Q] by auto
next
  case (Suc k)
  obtain t a where ta: "(add_node Q node ^^ k) (\<lparr>nc_cpu = qZero Q, nc_memory = qZero Q, nc_storage = qZero Q\<rparr>, []) = (t, a)" by fastforce
  have step: "add_node Q node (t, a) = (tot, accs)" using Suc.prems ta by simp
  note IH = Suc.IH[OF ta]
  from step have acc: "accs = add_resources Q (snd node) a"
    and tot: "nc_cpu tot = qAdd Q (nc_cpu t) (nc_cpu (fst node))" "nc_memory tot = qAdd Q (nc_memory t) (nc_memory (fst node))"
      "nc_storage tot = qAdd Q (nc_storage t) (nc_storage (fst node))"
    by (auto simp: add_node_def split: prod.splits)
  show ?case
    using IH distinct_add_resources[of a Q "snd node"] res_amt_add_resources[OF Q, of "snd node" a n]
    by (simp add: acc tot quantity_okD(2)[OF Q] algebra_simps)
qed

text \<open>What so many nodes of a size need.\<close>

definition need :: "('q \<Rightarrow> rat) \<Rightarrow> ('q NodeCapacity \<Rightarrow> 'q) \<Rightarrow> 'q NodeCapacity \<times> 'q ResourceList \<Rightarrow> int \<Rightarrow> rat" where
  "need amt sel node replicas = of_int (max 0 replicas) * amt (sel (fst node))"

definition acc_need :: "quota_sdk \<Rightarrow> ('q \<Rightarrow> rat) \<Rightarrow> 'q NodeCapacity \<times> 'q ResourceList \<Rightarrow> int \<Rightarrow> string \<Rightarrow> string \<Rightarrow> rat" where
  "acc_need G amt node replicas p n =
     (if p = kubevirtCloudProvider G then of_int (max 0 replicas) * (\<Sum>(m, q) \<leftarrow> snd node. if m = n then amt q else 0) else 0)"

lemma of_nat_nat_max: "of_nat (nat r) = (of_int (max 0 r) :: rat)"
  by (simp add: max_def of_nat_nat)

abbreviation res_sum :: "('q \<Rightarrow> rat) \<Rightarrow> 'q ResourceList \<Rightarrow> string \<Rightarrow> rat" where
  "res_sum amt rs n \<equiv> (\<Sum>(m, q) \<leftarrow> rs. if m = n then amt q else 0)"

definition nonneg :: "('q \<Rightarrow> rat) \<Rightarrow> 'q ResourceList \<Rightarrow> bool" where
  "nonneg amt rs \<longleftrightarrow> (\<forall>x \<in> set rs. 0 \<le> amt (snd x))"

definition acc_nonneg :: "('q \<Rightarrow> rat) \<Rightarrow> 'q accQuota list \<Rightarrow> bool" where
  "acc_nonneg amt as \<longleftrightarrow> (\<forall>a \<in> set as. nonneg amt (aq_resources a))"

lemma res_sum_nonneg: "nonneg amt rs \<Longrightarrow> 0 \<le> res_sum amt rs n"
  by (fastforce simp: nonneg_def intro!: sum_list_nonneg)

lemma MapProvider_InrD:
  assumes Q: "quantity_ok Q amt" and run: "MapProviderNodeTmplToResourceDetails Q G tmpl r = Inr rd"
  obtains node cpu mem sto where "node_capacity Q tmpl = Inr node" and "rd_cpu rd = Some cpu" and "rd_memory rd = Some mem"
    and "rd_storage rd = Some sto" and "amt cpu = need amt nc_cpu node r" and "amt mem = need amt nc_memory node r"
    and "amt sto = need amt nc_storage node r"
    and "\<And>p n. acc_sum amt (acc_list (rd_accelerators rd)) p n = acc_need G amt node r p n"
    and "nonneg amt (snd node) \<Longrightarrow> acc_nonneg amt (acc_list (rd_accelerators rd))"
proof -
  from run obtain node where node: "node_capacity Q tmpl = Inr node"
    by (auto simp: MapProviderNodeTmplToResourceDetails_def bindR_eq_Inr)
  obtain tot accs where k: "(add_node Q node ^^ nat r) (\<lparr>nc_cpu = qZero Q, nc_memory = qZero Q, nc_storage = qZero Q\<rparr>, []) = (tot, accs)"
    by fastforce
  have rd: "rd = \<lparr>rd_cpu = Some (nc_cpu tot), rd_memory = Some (nc_memory tot), rd_storage = Some (nc_storage tot),
      rd_accelerators = (if accs = [] then None else Some [\<lparr>aq_provider = kubevirtCloudProvider G, aq_resources = accs\<rparr>])\<rparr>"
    using run node k by (simp add: MapProviderNodeTmplToResourceDetails_def)
  note sums = add_nodes[OF Q k, unfolded of_nat_nat_max]
  have "acc_sum amt (acc_list (rd_accelerators rd)) p n = acc_need G amt node r p n" for p n
    using sums(4) sums(5)[of n] sum_res_amt[of accs n amt] by (auto simp: rd acc_list_def acc_need_def)
  moreover have "acc_nonneg amt (acc_list (rd_accelerators rd))" if n: "nonneg amt (snd node)"
  proof -
    have "0 \<le> amt q" if "(m, q) \<in> set accs" for m q
    proof -
      have "amt q = res_amt amt accs m" using that sums(4) by (simp add: res_amt_def)
      then show ?thesis using sums(5)[of m] res_sum_nonneg[OF n, of m] by simp
    qed
    then show ?thesis by (fastforce simp: rd acc_list_def acc_nonneg_def nonneg_def)
  qed
  ultimately show thesis using that[OF node] sums(1-3) by (simp add: rd need_def)
qed

section \<open>Subtracting what is replaced\<close>

lemma acc_sum_nonneg: "acc_nonneg amt as \<Longrightarrow> 0 \<le> acc_sum amt as p n"
  by (induction as) (auto simp: acc_nonneg_def res_sum_nonneg)

lemma res_amt_sub_resource:
  assumes Q: "quantity_ok Q amt" and "0 \<le> res_amt amt ts n" and "0 \<le> amt q"
  shows "res_amt amt (sub_resource Q (m, q) ts) n = (if m = n then max 0 (res_amt amt ts n - amt q) else res_amt amt ts n)"
  using assms(2,3) quantity_okD(3,4,6)[OF Q]
  by (auto simp: res_amt_def sub_resource_def Let_def map_of_AList_update split: option.splits)

lemma res_amt_sub_resources:
  assumes Q: "quantity_ok Q amt"
  shows "nonneg amt rs \<Longrightarrow> 0 \<le> res_amt amt ts n \<Longrightarrow>
    res_amt amt (fold (sub_resource Q) rs ts) n = max 0 (res_amt amt ts n - res_sum amt rs n)"
proof (induction rs arbitrary: ts)
  case (Cons x rs)
  obtain m q where x: "x = (m, q)" by (cases x)
  have q: "0 \<le> amt q" and rs: "nonneg amt rs" using Cons.prems(1) by (auto simp: nonneg_def x)
  note step = res_amt_sub_resource[OF Q Cons.prems(2) q, of m]
  then have "0 \<le> res_amt amt (sub_resource Q x ts) n" using Cons.prems(2) by (simp add: x)
  from Cons.IH[OF rs this] res_sum_nonneg[OF rs, of n] q show ?case by (auto simp: x step)
qed simp

lemma res_amt_subtract:
  assumes Q: "quantity_ok Q amt"
  shows "acc_nonneg amt as \<Longrightarrow> 0 \<le> res_amt amt (get_resources ts p) n \<Longrightarrow>
    res_amt amt (get_resources (subtractAcceleratorQuantities Q ts as) p) n =
      max 0 (res_amt amt (get_resources ts p) n - acc_sum amt as p n)"
proof (induction as arbitrary: ts)
  case Nil
  then show ?case by (simp add: subtractAcceleratorQuantities_def)
next
  case (Cons a as)
  let ?ts = "case map_of ts (aq_provider a) of None \<Rightarrow> ts
    | Some rs \<Rightarrow> AList.update (aq_provider a) (fold (sub_resource Q) (aq_resources a) rs) ts"
  have a: "nonneg amt (aq_resources a)" and as: "acc_nonneg amt as" using Cons.prems(1) by (auto simp: acc_nonneg_def)
  have step: "res_amt amt (get_resources ?ts p) n = (if aq_provider a = p
      then max 0 (res_amt amt (get_resources ts p) n - res_sum amt (aq_resources a) n) else res_amt amt (get_resources ts p) n)"
  proof (cases "map_of ts (aq_provider a)")
    case None
    then show ?thesis using res_sum_nonneg[OF a, of n] Cons.prems(2) by (auto simp: get_resources_def)
  next
    case (Some rs)
    then have "get_resources ts (aq_provider a) = rs" by (simp add: get_resources_def)
    then show ?thesis using Some Cons.prems(2) res_amt_sub_resources[OF Q a, of rs n] by (auto simp: get_resources_update)
  qed
  have "subtractAcceleratorQuantities Q ts (a # as) = subtractAcceleratorQuantities Q ?ts as"
    by (simp add: subtractAcceleratorQuantities_def)
  moreover have "0 \<le> res_amt amt (get_resources ?ts p) n" unfolding step using Cons.prems(2) by simp
  ultimately show ?case
    using Cons.IH[OF as] acc_sum_nonneg[OF as, of p n] res_sum_nonneg[OF a, of n] by (auto simp: step)
qed

section \<open>The calculation\<close>

text \<open>
  What would be used: what the new nodes need and what is in use, less what the replaced nodes need. \<open>bin\<close> is the
  reading of memory and storage in binary units, which the code applies to the usage and to the replaced nodes.
\<close>

definition replaced :: "'q quantities \<Rightarrow> quota_sdk \<Rightarrow> ReplacedResources option \<Rightarrow> 'q ResourceDetails \<Rightarrow> bool" where
  "replaced Q G rr old \<longleftrightarrow>
     (case rr of
        None \<Rightarrow> old = zero_details
      | Some r \<Rightarrow> MapProviderNodeTmplToResourceDetails Q G (rr_template r) (rr_replicas r) = Inr old)"

definition used ::
  "('q \<Rightarrow> rat) \<Rightarrow> ('q \<Rightarrow> 'q) \<Rightarrow> rat \<Rightarrow> 'q option \<Rightarrow> 'q option \<Rightarrow> rat" where
  "used amt bin new usage old = new + opt_amt amt (map_option bin usage) - opt_amt amt (map_option bin old)"

definition acc_used ::
  "('q \<Rightarrow> rat) \<Rightarrow> (string \<Rightarrow> string \<Rightarrow> rat) \<Rightarrow> 'q ResourceDetails \<Rightarrow> 'q ResourceDetails \<Rightarrow> string \<Rightarrow> string \<Rightarrow> rat" where
  "acc_used amt new usage old p n =
     max 0 (new p n + acc_sum amt (acc_list (rd_accelerators usage)) p n - acc_sum amt (acc_list (rd_accelerators old)) p n)"

lemma opt2_amt:
  "(\<And>a b. amt (f a b) = amt a - amt b) \<Longrightarrow> \<exists>c. opt2 f (Some n) x = Some c \<and> amt c = amt n - opt_amt amt x"
  "(\<And>a b. amt (f a b) = amt a + amt b) \<Longrightarrow> \<exists>c. opt2 f (Some n) x = Some c \<and> amt c = amt n + opt_amt amt x"
  by (auto simp: opt2_def split: option.splits)

text \<open>No accelerator of a size is given as a negative amount.\<close>

definition sizes_ok :: "'q quantities \<Rightarrow> ('q \<Rightarrow> rat) \<Rightarrow> ProviderNodeTemplate \<Rightarrow> bool" where
  "sizes_ok Q amt tmpl \<longleftrightarrow> (\<forall>node. node_capacity Q tmpl = Inr node \<longrightarrow> nonneg amt (snd node))"

definition request_ok :: "'q quantities \<Rightarrow> ('q \<Rightarrow> rat) \<Rightarrow> ReplacedResources option \<Rightarrow> ProviderNodeTemplate \<Rightarrow> bool" where
  "request_ok Q amt rr tmpl \<longleftrightarrow> sizes_ok Q amt tmpl \<and> (\<forall>r. rr = Some r \<longrightarrow> sizes_ok Q amt (rr_template r))"

lemma subtract_replaced_InrD:
  assumes Q: "quantity_ok Q amt" and run: "subtract_replaced Q G rr (new, ts) = Inr (calc, ts')"
    and new: "rd_cpu new = Some c" "rd_memory new = Some m" "rd_storage new = Some x"
    and old_ok: "\<forall>r. rr = Some r \<longrightarrow> sizes_ok Q amt (rr_template r)" and ts: "\<And>p n. 0 \<le> res_amt amt (get_resources ts p) n"
  obtains old c' m' x' where "replaced Q G rr old" and "rd_cpu calc = Some c'" and "rd_memory calc = Some m'" and "rd_storage calc = Some x'"
    and "amt c' = amt c - opt_amt amt (rd_cpu old)"
    and "amt m' = amt m - opt_amt amt (map_option (TreatDecimalAsBinary Q) (rd_memory old))"
    and "amt x' = amt x - opt_amt amt (map_option (TreatDecimalAsBinary Q) (rd_storage old))"
    and "\<And>p n. res_amt amt (get_resources ts' p) n =
      max 0 (res_amt amt (get_resources ts p) n - acc_sum amt (acc_list (rd_accelerators old)) p n)"
proof (cases rr)
  case None
  then show thesis using run new ts that[of zero_details c m x] by (simp add: subtract_replaced_def replaced_def zero_details_def acc_list_def)
next
  case (Some r)
  with run obtain old where old: "MapProviderNodeTmplToResourceDetails Q G (rr_template r) (rr_replicas r) = Inr old"
    and calc: "calc = new\<lparr>rd_cpu := opt2 (qSub Q) (rd_cpu new) (rd_cpu old),
                  rd_memory := opt2 (qSub Q) (rd_memory new) (map_option (TreatDecimalAsBinary Q) (rd_memory old)),
                  rd_storage := opt2 (qSub Q) (rd_storage new) (map_option (TreatDecimalAsBinary Q) (rd_storage old))\<rparr>"
    and ts': "ts' = subtractAcceleratorQuantities Q ts (acc_list (rd_accelerators old))"
    by (auto simp: subtract_replaced_def bindR_eq_Inr)
  obtain node where "node_capacity Q (rr_template r) = Inr node" "nonneg amt (snd node) \<Longrightarrow> acc_nonneg amt (acc_list (rd_accelerators old))"
    by (rule MapProvider_InrD[OF Q old]) blast
  then have nn: "acc_nonneg amt (acc_list (rd_accelerators old))" using old_ok Some unfolding sizes_ok_def by blast
  note sub = opt2_amt(1)[of amt "qSub Q", OF quantity_okD(3)[OF Q]]
  from sub[of c "rd_cpu old"] sub[of m "map_option (TreatDecimalAsBinary Q) (rd_memory old)"]
    sub[of x "map_option (TreatDecimalAsBinary Q) (rd_storage old)"]
  show thesis using that[of old] Some old new res_amt_subtract[OF Q nn ts] by (auto simp: replaced_def calc ts')
qed

lemma calculate_amounts:
  assumes Q: "quantity_ok Q amt" and run: "calculate Q G usage r rr tmpl = Inr calc"
    and ok: "request_ok Q amt rr tmpl" and us: "acc_nonneg amt (acc_list (rd_accelerators usage))"
  obtains node old cpu mem sto totals where "node_capacity Q tmpl = Inr node" and "replaced Q G rr old"
    and "rd_cpu calc = Some cpu" and "rd_memory calc = Some mem" and "rd_storage calc = Some sto"
    and "rd_accelerators calc = acceleratorQuotasFromTotals totals"
    and "amt cpu = used amt id (need amt nc_cpu node r) (rd_cpu usage) (rd_cpu old)"
    and "amt mem = used amt (TreatDecimalAsBinary Q) (need amt nc_memory node r) (rd_memory usage) (rd_memory old)"
    and "amt sto = used amt (TreatDecimalAsBinary Q) (need amt nc_storage node r) (rd_storage usage) (rd_storage old)"
    and "\<And>p n. res_amt amt (get_resources totals p) n = acc_used amt (acc_need G amt node r) usage old p n"
proof -
  let ?bin = "TreatDecimalAsBinary Q"
  from run obtain new calc' totals where new: "MapProviderNodeTmplToResourceDetails Q G tmpl r = Inr new"
    and sub: "subtract_replaced Q G rr (new\<lparr>rd_cpu := opt2 (qAdd Q) (rd_cpu new) (rd_cpu usage),
            rd_memory := opt2 (qAdd Q) (rd_memory new) (map_option ?bin (rd_memory usage)),
            rd_storage := opt2 (qAdd Q) (rd_storage new) (map_option ?bin (rd_storage usage))\<rparr>,
            addAcceleratorQuantities Q (addAcceleratorQuantities Q [] (acc_list (rd_accelerators new))) (acc_list (rd_accelerators usage)))
          = Inr (calc', totals)" (is "subtract_replaced Q G rr (?new, ?ts) = _")
    and calc: "calc = calc'\<lparr>rd_accelerators := acceleratorQuotasFromTotals totals\<rparr>"
    by (auto simp: calculate_def bindR_eq_Inr)
  obtain node c m x where node: "node_capacity Q tmpl = Inr node"
    and parts: "rd_cpu new = Some c" "rd_memory new = Some m" "rd_storage new = Some x"
    and amts: "amt c = need amt nc_cpu node r" "amt m = need amt nc_memory node r" "amt x = need amt nc_storage node r"
    and acc: "\<And>p n. acc_sum amt (acc_list (rd_accelerators new)) p n = acc_need G amt node r p n"
    and nn: "nonneg amt (snd node) \<Longrightarrow> acc_nonneg amt (acc_list (rd_accelerators new))"
    by (rule MapProvider_InrD[OF Q new]) blast
  have nn: "acc_nonneg amt (acc_list (rd_accelerators new))" using nn node ok unfolding request_ok_def sizes_ok_def by blast
  have ts: "res_amt amt (get_resources ?ts p) n = acc_need G amt node r p n + acc_sum amt (acc_list (rd_accelerators usage)) p n" for p n
    by (simp add: res_amt_addAccelerators[OF Q] acc)
  then have ts0: "0 \<le> res_amt amt (get_resources ?ts p) n" for p n
    using acc_sum_nonneg[OF nn, of p n] acc_sum_nonneg[OF us, of p n] by (simp add: acc)
  note add = opt2_amt(2)[of amt "qAdd Q", OF quantity_okD(2)[OF Q]]
  from add[of c "rd_cpu usage"] add[of m "map_option ?bin (rd_memory usage)"] add[of x "map_option ?bin (rd_storage usage)"]
  obtain c1 m1 x1 where one: "rd_cpu ?new = Some c1" "rd_memory ?new = Some m1" "rd_storage ?new = Some x1"
    "amt c1 = amt c + opt_amt amt (rd_cpu usage)" "amt m1 = amt m + opt_amt amt (map_option ?bin (rd_memory usage))"
    "amt x1 = amt x + opt_amt amt (map_option ?bin (rd_storage usage))"
    by (auto simp: parts)
  have old_ok: "\<forall>r. rr = Some r \<longrightarrow> sizes_ok Q amt (rr_template r)" using ok by (simp add: request_ok_def)
  obtain old c' m' x' where "replaced Q G rr old" "rd_cpu calc' = Some c'" "rd_memory calc' = Some m'" "rd_storage calc' = Some x'"
    "amt c' = amt c1 - opt_amt amt (rd_cpu old)" "amt m' = amt m1 - opt_amt amt (map_option ?bin (rd_memory old))"
    "amt x' = amt x1 - opt_amt amt (map_option ?bin (rd_storage old))"
    "\<And>p n. res_amt amt (get_resources totals p) n = max 0 (res_amt amt (get_resources ?ts p) n - acc_sum amt (acc_list (rd_accelerators old)) p n)"
    by (rule subtract_replaced_InrD[OF Q sub one(1-3) old_ok ts0]) blast
  then show thesis using node one amts by (intro that[of node old c' m' x' totals]) (simp_all add: calc used_def acc_used_def ts option.map_id)
qed

section \<open>The quota of a project\<close>

abbreviation kube_quotas where
  "kube_quotas E G C \<equiv> NewResourceQuotaProvider E G C"

lemma quota_fields [simp]:
  "rqp_GetUnsecured (kube_quotas E G C) = quota_GetUnsecured C" "rqp_Get (kube_quotas E G C) = quota_Get E G C"
  "rqp_ListUnsecured (kube_quotas E G C) = quota_ListUnsecured C" "rqp_CreateUnsecured (kube_quotas E G C) = quota_CreateUnsecured C"
  "rqp_PatchUnsecured (kube_quotas E G C) = quota_PatchUnsecured C" "rqp_DeleteUnsecured (kube_quotas E G C) = quota_DeleteUnsecured C"
  by (simp_all add: NewResourceQuotaProvider_def)

lemma reads_quota_Get [reads_intros]: "reads (quota_Get K G C i n k)"
  unfolding quota_Get_def by (intro reads_intros)

lemma reads_quota_GetUnsecured [reads_intros]: "reads (quota_GetUnsecured C n)"
  unfolding quota_GetUnsecured_def by (intro reads_intros)

abbreviation project_quota where
  "project_quota E G C u pid \<equiv> getProjectResourceQuota G (kube_quotas E G C) (kube_projectProvider E) (kube_privilegedProjectProvider E) (kube_getter E u) pid"

lemma reads_project_quota [reads_intros]: "reads (project_quota E G C u pid)"
  unfolding getProjectResourceQuota_def quota_fields by (intro reads_intros me.getter_reads)

text \<open>
  A quota that is handed out: one that is labelled with the project, and that the API server has returned to a client
  impersonating the caller with his groups in the project.
\<close>

definition own_quota ::
  "('s, 'x) env_scheme \<Rightarrow> quota_sdk \<Rightarrow> ('s, 'q) quota_clients \<Rightarrow> user \<Rightarrow> string \<Rightarrow> 's \<Rightarrow> 'q resourceQuota list \<Rightarrow> 'q resourceQuota \<Rightarrow> bool" where
  "own_quota E G C u pid s stored q \<longleftrightarrow> q \<in> set stored \<and>
     map_of (om_labels q) (subjectNameLabelKey G) = Some pid \<and>
     map_of (om_labels q) (subjectKindLabelKey G) = Some (ToLower (projectKindName G)) \<and>
     (\<exists>i c. kube_getter E u pid s = (Inr i, s) \<and> qc_impersonated C (us_email u) (ui_groups i) = Inr c \<and> \<not> isl (kGet c (key_of q) s))"

lemma list_case_run:
  "(case xs of [] \<Rightarrow> m | x # ys \<Rightarrow> k x ys) s = r \<longleftrightarrow> xs = [] \<and> m s = r \<or> (\<exists>x ys. xs = x # ys \<and> k x ys s = r)"
  by (cases xs) auto

lemma quota_Get_SomeD:
  assumes sel: "selectors_ok K" and l: "list_ok qv (qc_privileged C)" and run: "quota_Get K G C (Some i) n k s = (Inr (Some q), t)"
  shows "q \<in> set (qv s)" and "map_of (om_labels q) (subjectNameLabelKey G) = Some n"
    and "map_of (om_labels q) (subjectKindLabelKey G) = Some k"
    and "\<exists>c. qc_impersonated C (ui_email i) (ui_groups i) = Inr c \<and> \<not> isl (kGet c (key_of q) s)"
proof -
  from run obtain c a b items where c: "qc_impersonated C (ui_email i) (ui_groups i) = Inr c"
    and ab: "newRequirement K (subjectNameLabelKey G) n = Inr a" "newRequirement K (subjectKindLabelKey G) k = Inr b"
    and items: "kList (qc_privileged C) (Both a b) s = Inr (q # items)" and g: "\<not> isl (kGet c (key_of q) s)"
    unfolding quota_Get_def by (auto simp: bindA_eq_Inr wrapA_eq_Inr isl_def list_case_run)
  have "q \<in> set (filter (\<lambda>x. selects (Both a b) (om_labels x)) (qv s))"
    using items list_okD[OF l] by (metis list.set_intros(1) sum.inject(2))
  moreover have "a = LabelEquals (subjectNameLabelKey G) n" "b = LabelEquals (subjectKindLabelKey G) k"
    using ab sel unfolding selectors_ok_def by blast+
  ultimately show "q \<in> set (qv s)" "map_of (om_labels q) (subjectNameLabelKey G) = Some n" "map_of (om_labels q) (subjectKindLabelKey G) = Some k"
    by auto
  show "\<exists>c. qc_impersonated C (ui_email i) (ui_groups i) = Inr c \<and> \<not> isl (kGet c (key_of q) s)" using c g by blast
qed

lemma project_quota_own:
  assumes api: "api_ok V E" and sel: "selectors_ok E" and l: "list_ok qv (qc_privileged C)"
    and run: "project_quota E G C u pid s = (Inr (Some q, n), t)"
  shows "t = s" and "own_quota E G C u pid s (qv s) q"
proof -
  show "t = s" by (rule readsD[OF reads_project_quota run])
  from run obtain p i where p: "GetProject (kube_getter E u) (kube_projectProvider E) (kube_privilegedProjectProvider E) pid None s = (Inr p, s)"
    and i: "kube_getter E u (om_name p) s = (Inr i, s)"
    and q: "quota_Get E G C (Some i) (om_name p) (ToLower (projectKindName G)) s = (Inr (Some q), s)"
    unfolding getProjectResourceQuota_def quota_fields
    by (auto simp: bind_reads reads_wrapA reads_GetProject me.getter_reads reads_quota_Get wrapA_eq_Inr split: if_splits)
  have n: "om_name p = pid" by (rule GetProject_name[OF api p])
  have e: "ui_email i = us_email u" by (rule mapper.getter_identity(1)[OF i])
  from quota_Get_SomeD[OF sel l q] i show "own_quota E G C u pid s (qv s) q" unfolding own_quota_def e n by blast
qed

text \<open>
  C25: the calculation for new nodes reports a problem exactly when a limit of the project would be exceeded. It is made
  with a quota that is labelled with the project and that the caller may read, writes nothing, and its message is
  empty if and only if for CPU, memory, storage and every limited accelerator the need of the given number of nodes
  (none, for a negative number), plus the usage, less the need of the nodes that are replaced, is within the limit.
\<close>

theorem quota_update_reports_exceeded:
  assumes Q: "quantity_ok Q amt" and api: "api_ok V E" and sel: "selectors_ok E" and l: "list_ok qv (qc_privileged C)"
    and req: "request_ok Q amt (cqu_replacedResources req) (cqu_template req)"
    and usage: "\<forall>q \<in> set (qv s). acc_nonneg amt (acc_list (rd_accelerators (rq_globalUsage q)))"
    and run: "CalculateProjectQuotaUpdateEndpoint Q G (kube_projectProvider E) (kube_privilegedProjectProvider E) (kube_getter E u)
      (kube_quotas E G C) req s = (Inr (Some r), t)"
  shows "t = s \<and> (\<exists>q node old. own_quota E G C u (req_projectID req) s (qv s) q \<and>
    node_capacity Q (cqu_template req) = Inr node \<and> replaced Q G (cqu_replacedResources req) old \<and>
    (rqc_message r = [] \<longleftrightarrow>
       in_limit amt (rd_cpu (rq_quota q)) (used amt id (need amt nc_cpu node (cqu_replicas req)) (rd_cpu (rq_globalUsage q)) (rd_cpu old)) \<and>
       in_limit amt (rd_memory (rq_quota q))
         (used amt (TreatDecimalAsBinary Q) (need amt nc_memory node (cqu_replicas req)) (rd_memory (rq_globalUsage q)) (rd_memory old)) \<and>
       in_limit amt (rd_storage (rq_quota q))
         (used amt (TreatDecimalAsBinary Q) (need amt nc_storage node (cqu_replicas req)) (rd_storage (rq_globalUsage q)) (rd_storage old)) \<and>
       acc_within amt (acc_list (rd_accelerators (rq_quota q)))
         (acc_used amt (acc_need G amt node (cqu_replicas req)) (rq_globalUsage q) old)))"
proof -
  from run obtain z n where z: "project_quota E G C u (req_projectID req) s = (Inr (z, n), s)"
    and rest: "(case z of None \<Rightarrow> retA None
        | Some q \<Rightarrow>
            (case calculate Q G (rq_globalUsage q) (cqu_replicas req) (cqu_replacedResources req) (cqu_template req) of
               Inl _ \<Rightarrow> failA UtilBadRequest
             | Inr calc \<Rightarrow>
                 retA (Some \<lparr>rqc_resourceQuota = convertToAPIStruct Q G q n, rqc_calculatedQuota = ConvertToAPIQuota Q calc,
                    rqc_message = exceeds_message Q (rq_quota q) calc\<rparr>))) s = (Inr (Some r), t)"
    unfolding CalculateProjectQuotaUpdateEndpoint_def CalculateResourceQuotaUpdateForProject_def
    by (auto simp: bind_reads[OF reads_project_quota])
  from rest obtain q where "z = Some q" by (cases z) auto
  with z rest obtain calc where q: "project_quota E G C u (req_projectID req) s = (Inr (Some q, n), s)" and t: "t = s"
    and calc: "calculate Q G (rq_globalUsage q) (cqu_replicas req) (cqu_replacedResources req) (cqu_template req) = Inr calc"
    and msg: "rqc_message r = exceeds_message Q (rq_quota q) calc"
    by (cases "calculate Q G (rq_globalUsage q) (cqu_replicas req) (cqu_replacedResources req) (cqu_template req)") auto
  note own = project_quota_own(2)[OF api sel l q]
  then have us: "acc_nonneg amt (acc_list (rd_accelerators (rq_globalUsage q)))" using usage by (simp add: own_quota_def)
  obtain node old cpu mem sto totals where node: "node_capacity Q (cqu_template req) = Inr node" "replaced Q G (cqu_replacedResources req) old"
    and parts: "rd_cpu calc = Some cpu" "rd_memory calc = Some mem" "rd_storage calc = Some sto"
      "rd_accelerators calc = acceleratorQuotasFromTotals totals"
    and amts: "amt cpu = used amt id (need amt nc_cpu node (cqu_replicas req)) (rd_cpu (rq_globalUsage q)) (rd_cpu old)"
      "amt mem = used amt (TreatDecimalAsBinary Q) (need amt nc_memory node (cqu_replicas req)) (rd_memory (rq_globalUsage q)) (rd_memory old)"
      "amt sto = used amt (TreatDecimalAsBinary Q) (need amt nc_storage node (cqu_replicas req)) (rd_storage (rq_globalUsage q)) (rd_storage old)"
    and acc: "\<And>p n. res_amt amt (get_resources totals p) n = acc_used amt (acc_need G amt node (cqu_replicas req)) (rq_globalUsage q) old p n"
    by (rule calculate_amounts[OF Q calc req us]) blast
  have "rqc_message r = [] \<longleftrightarrow> in_limit amt (rd_cpu (rq_quota q)) (amt cpu) \<and> in_limit amt (rd_memory (rq_quota q)) (amt mem) \<and>
      in_limit amt (rd_storage (rq_quota q)) (amt sto) \<and>
      acc_within amt (acc_list (rd_accelerators (rq_quota q))) (\<lambda>p n. res_amt amt (get_resources totals p) n)"
    by (simp add: msg exceeds_message_def parts exceeds_Nil[OF Q] accelerator_message_Nil[OF Q])
  then show ?thesis using t own node unfolding amts acc by blast
qed

section \<open>Decimal limits\<close>

text \<open>
  a limit in decimal units is held against a usage in binary units. If the limit and the usage of memory are the same
  quantity in a decimal unit above a thousand, the API reports equal numbers for them, and the calculation for no
  new nodes at all says that the quota is exceeded.
\<close>

theorem decimal_limit_exceeded:
  assumes Q: "quantity_ok Q amt" and q: "rd_memory limits = Some q" "rd_memory usage = Some q"
    and dec: "scan_dw (qString Q q) = Some (v, u)" "decimal_exponent u \<noteq> 0" "amt q = of_int v * 1000 ^ decimal_exponent u"
    and v: "0 < v" "v * 1024 ^ decimal_exponent u < 2 ^ 63"
    and calc: "calculate Q G usage 0 None tmpl = Inr calc"
  shows "exceeds_message Q limits calc \<noteq> [] \<and> qu_memory (ConvertToAPIQuota Q limits) = qu_memory (ConvertToAPIQuota Q usage)"
proof -
  let ?e = "decimal_exponent u"
  from calc obtain new where new: "MapProviderNodeTmplToResourceDetails Q G tmpl 0 = Inr new"
    and c: "rd_memory calc = opt2 (qAdd Q) (rd_memory new) (Some (TreatDecimalAsBinary Q q))"
    by (auto simp: calculate_def bindR_eq_Inr subtract_replaced_def q)
  obtain mem node where "rd_memory new = Some mem" and "amt mem = need amt nc_memory node 0"
    by (rule MapProvider_InrD[OF Q new]) blast
  then have mem: "rd_memory calc = Some (qAdd Q mem (TreatDecimalAsBinary Q q))" "amt mem = 0" by (simp_all add: c opt2_def need_def)
  have "\<bar>v * 1024 ^ ?e\<bar> < 2 ^ 63" using v by (simp add: abs_mult)
  from treat_amount[OF Q dec(1,2) this] have "amt (TreatDecimalAsBinary Q q) = of_int v * 1024 ^ ?e" .
  moreover have "(1000 :: rat) ^ ?e < 1024 ^ ?e" using dec(2) by (intro power_strict_mono) simp_all
  ultimately have "amt q < amt (qAdd Q mem (TreatDecimalAsBinary Q q))"
    using v(1) by (simp add: dec(3) quantity_okD(2)[OF Q] mem(2))
  then have "exceeds Q ''memory'' (rd_memory limits) (rd_memory calc) \<noteq> []"
    unfolding mem(1) exceeds_Nil[OF Q] by (simp add: q in_limit_def)
  then show ?thesis by (simp add: exceeds_message_def q ConvertToAPIQuota_def)
qed

section \<open>To the stored form and back\<close>

text \<open>
  What is documented of parsing: a decimal number is read as itself, a number of gibibytes as that many bytes, and
  what was read with a binary unit is not printed with a decimal one.
\<close>

definition parse_ok :: "'q quantities \<Rightarrow> ('q \<Rightarrow> rat) \<Rightarrow> bool" where
  "parse_ok Q amt \<longleftrightarrow>
     (\<forall>n q. ParseQuantity Q (sprintf_d n) = Inr q \<longrightarrow> amt q = of_int n) \<and>
     (\<forall>x q. 0 \<le> x \<and> ParseQuantity Q (sprintf_Gi x) = Inr q \<longrightarrow>
        amt q = of_int (round_even (x * 10 ^ 6)) / 10 ^ 6 * 2 ^ 30 \<and>
        (\<forall>v u. scan_dw (qString Q q) = Some (v, u) \<longrightarrow> decimal_exponent u = 0))"

definition hundredths :: "rat option \<Rightarrow> bool" where
  "hundredths x \<longleftrightarrow> (case x of None \<Rightarrow> True | Some m \<Rightarrow> 0 < m \<and> m * 100 = of_int \<lfloor>m * 100\<rfloor>)"

text \<open>A quota of the API in the form in which the API shows it.\<close>

definition canonical_quota :: "'q quantities \<Rightarrow> Quota \<Rightarrow> bool" where
  "canonical_quota Q quota \<longleftrightarrow> (\<forall>n. qu_cpu quota = Some n \<longrightarrow> 0 \<le> n) \<and> hundredths (qu_memory quota) \<and> hundredths (qu_storage quota) \<and>
     (\<forall>as. qu_accelerators quota = Some as \<longrightarrow>
        (\<forall>a \<in> set as. \<forall>x \<in> set (aaq_resources a). \<forall>q. ParseQuantity Q (snd x) = Inr q \<longrightarrow> qString Q q = snd x)) \<and>
     qu_enableAccounting quota = None"

lemma round_even_int: "x = of_int n \<Longrightarrow> round_even x = n"
  by (simp add: round_even_def Let_def)

lemma parse_okD:
  assumes "parse_ok Q amt" and "0 < x" and "ParseQuantity Q (sprintf_Gi x) = Inr q"
  shows "amt q = of_int (round_even (x * 10 ^ 6)) / 10 ^ 6 * 2 ^ 30"
    and "scan_dw (qString Q q) = Some (v, u) \<Longrightarrow> decimal_exponent u = 0"
proof -
  have "0 \<le> x" using assms(2) by simp
  with assms(1,3) show "amt q = of_int (round_even (x * 10 ^ 6)) / 10 ^ 6 * 2 ^ 30"
    "scan_dw (qString Q q) = Some (v, u) \<Longrightarrow> decimal_exponent u = 0" unfolding parse_ok_def by blast+
qed

lemma GiB_back:
  assumes Q: "quantity_ok Q amt" and P: "parse_ok Q amt" and m: "hundredths (Some m)"
    and q: "ParseQuantity Q (sprintf_Gi m) = Inr q"
  shows "\<not> qIsZero Q q" and "in_GiB Q q = m"
proof -
  define k where "k = \<lfloor>m * 100\<rfloor>"
  have k: "m * 100 = of_int k" and m0: "0 < m" using m by (simp_all add: hundredths_def k_def)
  then have "0 < k" by (metis mult_pos_pos of_int_0_less_iff zero_less_numeral)
  have "m * 10 ^ 6 = of_int (k * 10 ^ 4)" using k by simp
  from round_even_int[OF this] have r: "of_int (round_even (m * 10 ^ 6)) / 10 ^ 6 = m" using k by simp
  have a: "amt q = m * 2 ^ 30" using parse_okD(1)[OF P m0 q] unfolding r .
  have tr: "TreatDecimalAsBinary Q q = q" by (rule treat_other, rule parse_okD(2)[OF P m0 q])
  show "\<not> qIsZero Q q" using quantity_okD(7)[OF Q] a m0 by simp
  define c where "c = \<lceil>m * 2 ^ 30\<rceil>"
  have v: "qValue Q (TreatDecimalAsBinary Q q) = c"
    using quantity_okD(8)[OF Q, of q] a m0 tr by (simp add: c_def)
  have lo: "m * 2 ^ 30 \<le> of_int c" and hi: "of_int c < m * 2 ^ 30 + 1" unfolding c_def by linarith+
  have "of_int k \<le> (of_int c / 2 ^ 30 * 100 :: rat)" using lo k by (simp add: field_simps)
  moreover have "(of_int c / 2 ^ 30 * 100 :: rat) < of_int k + 1 / 2" using hi k by (simp add: field_simps)
  ultimately have "\<lfloor>of_int c / 2 ^ 30 * 100 + 1 / 2 :: rat\<rfloor> = k" by (intro floor_unique) linarith+
  moreover have "\<not> of_int c / 2 ^ 30 * 100 < (0 :: rat)" using lo m0 by (simp add: not_less)
  ultimately have "math_Round (of_int c / 2 ^ 30 * 100) = k" by (simp add: math_Round_def)
  then show "in_GiB Q q = m" unfolding in_GiB_def v using k by (simp add: field_simps)
qed

lemma parse_resources_back:
  "parse_resources Q rs = Inr qs \<Longrightarrow> (\<forall>x \<in> set rs. \<forall>q. ParseQuantity Q (snd x) = Inr q \<longrightarrow> qString Q q = snd x) \<Longrightarrow>
     map (\<lambda>(n, q). (n, qString Q q)) qs = rs"
  by (induction Q rs arbitrary: qs rule: parse_resources.induct) (auto split: sum.splits)

lemma parse_accelerators_back:
  "parse_accelerators Q as = Inr bs \<Longrightarrow>
     (\<forall>a \<in> set as. \<forall>x \<in> set (aaq_resources a). \<forall>q. ParseQuantity Q (snd x) = Inr q \<longrightarrow> qString Q q = snd x) \<Longrightarrow>
     map (\<lambda>a. \<lparr>aaq_provider = aq_provider a, aaq_resources = map (\<lambda>(n, q). (n, qString Q q)) (aq_resources a)\<rparr>) bs = as"
  by (induction Q as arbitrary: bs rule: parse_accelerators.induct) (auto split: sum.splits dest: parse_resources_back)

lemma parse_optional_InrD:
  "parse_optional Q (map_option f x) = Inr y \<Longrightarrow> (case x of None \<Rightarrow> y = None | Some v \<Rightarrow> \<exists>q. y = Some q \<and> ParseQuantity Q (f v) = Inr q)"
  by (auto simp: parse_optional_def split: option.splits sum.splits)

text \<open>
  a quota of the API that could be stored is shown again as it was given: a whole number of CPUs, memory and storage in
  positive hundredths of a gibibyte, and the canonical text of every accelerator.
\<close>

theorem quota_roundtrip:
  assumes Q: "quantity_ok Q amt" and P: "parse_ok Q amt" and can: "canonical_quota Q quota"
    and run: "ConvertToCRDQuota Q quota = Inr rd"
  shows "ConvertToAPIQuota Q rd = quota"
proof -
  from run have cpu: "parse_optional Q (map_option sprintf_d (qu_cpu quota)) = Inr (rd_cpu rd)"
    and mem: "parse_optional Q (map_option sprintf_Gi (qu_memory quota)) = Inr (rd_memory rd)"
    and sto: "parse_optional Q (map_option sprintf_Gi (qu_storage quota)) = Inr (rd_storage rd)"
    and acc: "case qu_accelerators quota of None \<Rightarrow> rd_accelerators rd = None
      | Some as \<Rightarrow> \<exists>bs. parse_accelerators Q as = Inr bs \<and> rd_accelerators rd = Some bs"
    by (auto simp: ConvertToCRDQuota_def split: sum.splits option.splits)
  have "map_option (qValue Q) (rd_cpu rd) = qu_cpu quota"
    using parse_optional_InrD[OF cpu] can P quantity_okD(8)[OF Q]
    by (auto simp: canonical_quota_def parse_ok_def split: option.splits)
  moreover have "(case rd_memory rd of None \<Rightarrow> None | Some m \<Rightarrow> if qIsZero Q m then None else Some (in_GiB Q m)) = qu_memory quota"
    using parse_optional_InrD[OF mem] can GiB_back[OF Q P] by (auto simp: canonical_quota_def split: option.splits)
  moreover have "(case rd_storage rd of None \<Rightarrow> None | Some m \<Rightarrow> if qIsZero Q m then None else Some (in_GiB Q m)) = qu_storage quota"
    using parse_optional_InrD[OF sto] can GiB_back[OF Q P] by (auto simp: canonical_quota_def split: option.splits)
  moreover have "map_option (map (\<lambda>a. \<lparr>aaq_provider = aq_provider a, aaq_resources = map (\<lambda>(n, q). (n, qString Q q)) (aq_resources a)\<rparr>))
      (rd_accelerators rd) = qu_accelerators quota"
    using acc can parse_accelerators_back[of Q] by (auto simp: canonical_quota_def split: option.splits)
  ultimately show ?thesis using can by (simp add: ConvertToAPIQuota_def canonical_quota_def)
qed

section \<open>Who may see and change quotas\<close>

lemma admins_only_refuses:
  assumes "\<not> us_isAdmin u"
  shows "\<exists>e. admins_only (kube_getter E u) m s = (Inl e, s)"
proof -
  obtain r where r: "kube_getter E u [] s = (r, s)" by (rule readsE[OF me.getter_reads])
  show ?thesis
  proof (cases r)
    case (Inl e)
    with r show ?thesis by (simp add: admins_only_def)
  next
    case (Inr i)
    with r me.getter_admin[of E u s i s] assms show ?thesis by (simp add: admins_only_def)
  qed
qed

lemma admins_only_InrD: "admins_only (kube_getter E u) m s = (Inr x, t) \<Longrightarrow> us_isAdmin u \<and> m s = (Inr x, t)"
  by (auto simp: admins_only_def bind_reads[OF me.getter_reads] dest: me.getter_admin split: if_splits)

text \<open>
  quotas are for administrators, and the one of a project for those who may read it. Nobody else can read, list,
  create, change or delete quotas: every such request fails and changes nothing. A caller who is given the
  quota of a project gets a quota that is labelled with this project and that the API server has returned to a client
  impersonating him with his groups in it.
\<close>

theorem quota_access:
  assumes api: "api_ok V E" and sel: "selectors_ok E" and l: "list_ok qv (qc_privileged C)"
  shows "(\<not> us_isAdmin u \<longrightarrow>
      (\<exists>e. GetResourceQuotaEndpoint Q G (kube_getter E u) (kube_quotas E G C) (kube_privilegedProjectProvider E) n s = (Inl e, s)) \<and>
      (\<exists>e. ListResourceQuotasEndpoint Q G (kube_getter E u) (kube_quotas E G C) (kube_projectProvider E) lreq s = (Inl e, s)) \<and>
      (\<exists>e. CreateResourceQuotaEndpoint Q (kube_getter E u) (kube_quotas E G C) creq s = (Inl e, s)) \<and>
      (\<exists>e. PutResourceQuotaEndpoint Q G (kube_getter E u) (kube_quotas E G C) preq s = (Inl e, s)) \<and>
      (\<exists>e. DeleteResourceQuotaEndpoint (kube_getter E u) (kube_quotas E G C) n s = (Inl e, s))) \<and>
    (GetForProjectEndpoint Q G (kube_projectProvider E) (kube_privilegedProjectProvider E) (kube_getter E u) (kube_quotas E G C) req s =
       (Inr (Some r), t) \<longrightarrow>
      t = s \<and> (\<exists>q name. own_quota E G C u (req_projectID req) s (qv s) q \<and> r = convertToAPIStruct Q G q name))"
proof (intro conjI impI)
  assume "\<not> us_isAdmin u"
  note refuse = admins_only_refuses[OF this]
  show "\<exists>e. GetResourceQuotaEndpoint Q G (kube_getter E u) (kube_quotas E G C) (kube_privilegedProjectProvider E) n s = (Inl e, s)"
    and "\<exists>e. ListResourceQuotasEndpoint Q G (kube_getter E u) (kube_quotas E G C) (kube_projectProvider E) lreq s = (Inl e, s)"
    and "\<exists>e. CreateResourceQuotaEndpoint Q (kube_getter E u) (kube_quotas E G C) creq s = (Inl e, s)"
    and "\<exists>e. PutResourceQuotaEndpoint Q G (kube_getter E u) (kube_quotas E G C) preq s = (Inl e, s)"
    and "\<exists>e. DeleteResourceQuotaEndpoint (kube_getter E u) (kube_quotas E G C) n s = (Inl e, s)"
    unfolding GetResourceQuotaEndpoint_def ListResourceQuotasEndpoint_def CreateResourceQuotaEndpoint_def PutResourceQuotaEndpoint_def
      DeleteResourceQuotaEndpoint_def by (rule refuse)+
next
  assume "GetForProjectEndpoint Q G (kube_projectProvider E) (kube_privilegedProjectProvider E) (kube_getter E u) (kube_quotas E G C) req s =
       (Inr (Some r), t)"
  then obtain q n where q: "project_quota E G C u (req_projectID req) s = (Inr (Some q, n), s)" and "t = s" "r = convertToAPIStruct Q G q n"
    unfolding GetForProjectEndpoint_def GetResourceQuotaForProject_def by (auto simp: bind_reads[OF reads_project_quota])
  with project_quota_own(2)[OF api sel l q]
  show "t = s" "\<exists>q name. own_quota E G C u (req_projectID req) s (qv s) q \<and> r = convertToAPIStruct Q G q name" by blast+
qed

section \<open>Well-formed quotas, and accounting\<close>

definition quota_client_ok :: "('s \<Rightarrow> 'q resourceQuota list) \<Rightarrow> ('q resourceQuota, 's) kclient \<Rightarrow> bool" where
  "quota_client_ok qv c \<longleftrightarrow> list_ok qv c \<and> get_ok qv c \<and> create_ok qv c \<and> update_ok qv c \<and> delete_ok qv c"

text \<open>A request that changes quotas, by whomever and whether or not it succeeds.\<close>

inductive quota_step :: "'q quantities \<Rightarrow> ('s, 'x) env_scheme \<Rightarrow> quota_sdk \<Rightarrow> ('s, 'q) quota_clients \<Rightarrow> 's \<Rightarrow> 's \<Rightarrow> bool"
  for Q E G C where
  create: "CreateResourceQuotaEndpoint Q (kube_getter E u) (kube_quotas E G C) creq s = (r, t) \<Longrightarrow> quota_step Q E G C s t"
| put: "PutResourceQuotaEndpoint Q G (kube_getter E u) (kube_quotas E G C) preq s = (r, t) \<Longrightarrow> quota_step Q E G C s t"
| delete: "DeleteResourceQuotaEndpoint (kube_getter E u) (kube_quotas E G C) n s = (r, t) \<Longrightarrow> quota_step Q E G C s t"

definition quota_wf :: "'q resourceQuota \<Rightarrow> bool" where
  "quota_wf q \<longleftrightarrow> rq_subjectName q \<noteq> [] \<and> rq_subjectKind q \<noteq> [] \<and>
     key_of q = ([], buildNameFromSubject (rq_subjectKind q, rq_subjectName q))"

lemma same_quota:
  assumes "same_object (a :: 'q resourceQuota) b"
  shows "key_of a = key_of b" and "rq_subjectName a = rq_subjectName b" and "rq_subjectKind a = rq_subjectKind b"
    and "rq_quota a = rq_quota b" and "om_annotations a = om_annotations b" and "om_labels a = om_labels b"
  using assms by (cases a; cases b; simp add: same_object_def)+

lemma outcome_admins_only:
  "F s \<Longrightarrow> (us_isAdmin u \<Longrightarrow> outcome m s F H) \<Longrightarrow> outcome (admins_only (kube_getter E u) m) s F H"
  unfolding admins_only_def
  by (intro outcome_bind_reads[OF me.getter_reads] outcome_intros) (auto dest: me.getter_admin)

text \<open>A new quota, as it is stored.\<close>

definition created_quota :: "createResourceQuota \<Rightarrow> 'q resourceQuota \<Rightarrow> bool" where
  "created_quota creq q \<longleftrightarrow> quota_wf q \<and> rq_subjectName q = crq_subjectName creq \<and> rq_subjectKind q = crq_subjectKind creq \<and>
     om_annotations q = []"

lemma CreateUnsecured_outcome:
  assumes C: "quota_client_ok qv (qc_privileged C)" and v: "createResourceQuota_Validate creq = Inr v"
  shows "outcome (quota_CreateUnsecured C (crq_subjectKind creq, crq_subjectName creq) crd) s (\<lambda>t. qv t = qv s)
    (\<lambda>_ t. \<exists>q. qv t = qv s @ [q] \<and> created_quota creq q \<and> key_of q \<notin> key_of ` set (qv s))"
proof -
  have ok: "create_ok qv (qc_privileged C)" using C by (simp add: quota_client_ok_def)
  have new: "outcome (kCreate (qc_privileged C) x) s (\<lambda>t. qv t = qv s) (\<lambda>q t. qv t = qv s @ [q] \<and> same_object q x \<and> key_of x \<notin> key_of ` set (qv s))" for x
    using create_okD[OF ok, of x s] create_ok_failD[OF ok, of x s]
    by (cases "kCreate (qc_privileged C) x s"; cases "fst (kCreate (qc_privileged C) x s)") (auto simp: outcome_def)
  have names: "crq_subjectName creq \<noteq> []" "crq_subjectKind creq \<noteq> []"
    using v by (auto simp: createResourceQuota_Validate_def split: if_splits)
  show ?thesis
    unfolding quota_CreateUnsecured_def
  proof (rule outcome_bindA, rule outcome_mono[OF new], assumption, elim conjE, intro outcome_retA exI conjI)
    let ?x = "objmeta.extend (blank_meta\<lparr>om_name := buildNameFromSubject (crq_subjectKind creq, crq_subjectName creq)\<rparr>)
        (resourceQuota.fields (snd (crq_subjectKind creq, crq_subjectName creq)) (fst (crq_subjectKind creq, crq_subjectName creq)) crd zero_details zero_details None)"
    fix q t assume q: "same_object q ?x" and k: "key_of ?x \<notin> key_of ` set (qv s)"
    from same_quota[OF q] names show "created_quota creq q"
      by (simp add: created_quota_def quota_wf_def key_of_def blank_meta_def objmeta.defs resourceQuota.defs)
    from k show "key_of q \<notin> key_of ` set (qv s)" unfolding same_quota(1)[OF q] .
  qed assumption
qed

lemma create_outcome:
  assumes C: "quota_client_ok qv (qc_privileged C)"
  shows "outcome (CreateResourceQuotaEndpoint Q (kube_getter E u) (kube_quotas E G C) creq) s (\<lambda>t. qv t = qv s)
    (\<lambda>_ t. \<exists>q. qv t = qv s @ [q] \<and> created_quota creq q \<and> key_of q \<notin> key_of ` set (qv s))"
  unfolding CreateResourceQuotaEndpoint_def CreateResourceQuota_def quota_fields
  by (intro outcome_admins_only outcome_intros CreateUnsecured_outcome[OF C] refl)

text \<open>What an update makes of a quota.\<close>

definition put_quota :: "quota_sdk \<Rightarrow> putResourceQuota \<Rightarrow> 'q resourceQuota \<Rightarrow> 'q resourceQuota \<Rightarrow> bool" where
  "put_quota G preq old q \<longleftrightarrow> key_of q = key_of old \<and> rq_subjectName q = rq_subjectName old \<and> rq_subjectKind q = rq_subjectKind old \<and>
     \<not> isDefaultProjectResourceQuota q \<and>
     (isAcceleratorAccountingEnabled G old \<longrightarrow> isAcceleratorAccountingEnabled G q \<and> qu_enableAccounting (prq_body preq) \<noteq> Some False) \<and>
     (isAcceleratorAccountingEnabled G q \<and> \<not> isAcceleratorAccountingEnabled G old \<longrightarrow>
        qu_enableAccounting (prq_body preq) = Some True \<and> \<not> isDefaultProjectResourceQuota old \<and> acc_list (rd_accelerators (rq_quota q)) = [])"

lemma mget_delete: "mget (AList.delete k m) k = []"
  by (simp add: mget_def delete_conv')

lemma mget_update: "mget (AList.update k v m) k = v"
  by (simp add: mget_def update_conv')

lemma applyAccounting_put:
  assumes "applyAcceleratorAccounting G (prq_body preq) old (old\<lparr>om_labels := AList.delete DefaultProjectResourceQuotaLabel (om_labels old), rq_quota := crd\<rparr>) = Inr new"
    and so: "same_object q new"
  shows "put_quota G preq old q"
proof -
  let ?n = "old\<lparr>om_labels := AList.delete DefaultProjectResourceQuotaLabel (om_labels old), rq_quota := crd\<rparr>"
  have en: "isAcceleratorAccountingEnabled G ?n = isAcceleratorAccountingEnabled G old" by (simp add: isAcceleratorAccountingEnabled_def)
  consider (kept) "new = ?n" "isAcceleratorAccountingEnabled G old \<longrightarrow> qu_enableAccounting (prq_body preq) \<noteq> Some False"
    | (on) "new = ?n\<lparr>om_annotations := AList.update (accountingAnnotation G) (accountingAnnotationValue G) (om_annotations old)\<rparr>"
        "qu_enableAccounting (prq_body preq) = Some True" "\<not> isDefaultProjectResourceQuota old" "acc_list (rd_accelerators crd) = []"
    using assms(1) by (auto simp: applyAcceleratorAccounting_def Let_def split: option.splits if_splits)
  then show ?thesis
  proof cases
    case kept
    with same_quota[OF so] en show ?thesis
      by (auto simp: put_quota_def key_of_def isDefaultProjectResourceQuota_def isAcceleratorAccountingEnabled_def mget_delete)
  next
    case on
    with same_quota[OF so] show ?thesis
      by (auto simp: put_quota_def key_of_def isDefaultProjectResourceQuota_def isAcceleratorAccountingEnabled_def mget_delete mget_update)
  qed
qed

lemma applyAccounting_key:
  "applyAcceleratorAccounting G body old new = Inr q \<Longrightarrow> key_of q = key_of new"
  by (auto simp: applyAcceleratorAccounting_def Let_def key_of_def split: option.splits if_splits)

lemma PatchUnsecured_outcome:
  assumes C: "quota_client_ok qv (qc_privileged C)"
  shows "outcome (quota_PatchUnsecured C old new) s (\<lambda>t. qv t = qv s)
    (\<lambda>_ t. \<exists>q. same_object q new \<and> qv t = map (\<lambda>y. if key_of y = key_of new then q else y) (qv s))"
proof -
  have up: "update_ok qv (qc_privileged C)" using C by (simp add: quota_client_ok_def)
  have upd: "outcome (kUpdate (qc_privileged C) x) s (\<lambda>t. qv t = qv s)
      (\<lambda>q t. same_object q x \<and> qv t = map (\<lambda>y. if key_of y = key_of x then q else y) (qv s))" for x
    using update_okD[OF up, of x s] update_ok_failD[OF up, of x s]
    by (cases "kUpdate (qc_privileged C) x s"; cases "fst (kUpdate (qc_privileged C) x s)") (auto simp: outcome_def)
  show ?thesis
    unfolding quota_PatchUnsecured_def by (rule outcome_bindA, rule outcome_mono[OF upd]) (auto intro: outcome_retA)
qed

lemma put_outcome:
  assumes C: "quota_client_ok qv (qc_privileged C)"
  shows "outcome (PutResourceQuotaEndpoint Q G (kube_getter E u) (kube_quotas E G C) preq) s (\<lambda>t. qv t = qv s)
    (\<lambda>_ t. \<exists>old q. lookup_key ([], prq_name preq) (qv s) = Inr old \<and> put_quota G preq old q \<and>
       qv t = map (\<lambda>y. if key_of y = key_of old then q else y) (qv s))"
proof -
  have get: "get_ok qv (qc_privileged C)" using C by (simp add: quota_client_ok_def)
  have patch: "outcome (quota_PatchUnsecured C old new) s (\<lambda>t. qv t = qv s)
      (\<lambda>_ t. \<exists>old q. lookup_key ([], prq_name preq) (qv s) = Inr old \<and> put_quota G preq old q \<and>
         qv t = map (\<lambda>y. if key_of y = key_of old then q else y) (qv s))"
    if old: "quota_GetUnsecured C (prq_name preq) s = (Inr old, s)"
      and new: "applyAcceleratorAccounting G (prq_body preq) old (old\<lparr>om_labels := AList.delete DefaultProjectResourceQuotaLabel (om_labels old),
        rq_quota := crd\<rparr>) = Inr new" for old crd new
  proof (rule outcome_mono[OF PatchUnsecured_outcome[OF C]])
    fix t assume "\<exists>q. same_object q new \<and> qv t = map (\<lambda>y. if key_of y = key_of new then q else y) (qv s)"
    then obtain q where "same_object q new" "qv t = map (\<lambda>y. if key_of y = key_of new then q else y) (qv s)" by blast
    moreover have "key_of new = key_of old" using applyAccounting_key[OF new] by (simp add: key_of_def)
    moreover have "lookup_key ([], prq_name preq) (qv s) = Inr old" using old get_okD[OF get] by (simp add: quota_GetUnsecured_def)
    ultimately show "\<exists>old q. lookup_key ([], prq_name preq) (qv s) = Inr old \<and> put_quota G preq old q \<and>
         qv t = map (\<lambda>y. if key_of y = key_of old then q else y) (qv s)"
      using applyAccounting_put[OF new] by (intro exI[of _ old] exI[of _ q]) simp
  qed
  show ?thesis
    unfolding PutResourceQuotaEndpoint_def PutResourceQuota_def quota_fields Let_def
    by (intro outcome_admins_only outcome_intros outcome_bind_wrap_reads[OF reads_quota_GetUnsecured] refl patch)
qed

lemma delete_outcome:
  assumes C: "quota_client_ok qv (qc_privileged C)"
  shows "outcome (DeleteResourceQuotaEndpoint (kube_getter E u) (kube_quotas E G C) n) s (\<lambda>t. qv t = qv s)
    (\<lambda>_ t. qv t = filter (\<lambda>q. key_of q \<noteq> ([], n)) (qv s))"
proof -
  have del: "delete_ok qv (qc_privileged C)" and get: "get_ok qv (qc_privileged C)" using C by (simp_all add: quota_client_ok_def)
  have d: "outcome (kDelete (qc_privileged C) k) s (\<lambda>t. qv t = qv s) (\<lambda>_ t. qv t = filter (\<lambda>q. key_of q \<noteq> k) (qv s))" for k
    using delete_okD[OF del, of k s] delete_ok_failD[OF del, of k s]
    by (cases "kDelete (qc_privileged C) k s"; cases "fst (kDelete (qc_privileged C) k s)") (auto simp: outcome_def)
  show ?thesis
    unfolding DeleteResourceQuotaEndpoint_def DeleteResourceQuota_def quota_fields quota_DeleteUnsecured_def
  proof (intro outcome_admins_only outcome_wrapA outcome_bind_reads[OF reads_quota_GetUnsecured] refl)
    fix q assume "quota_GetUnsecured C n s = (Inr q, s)"
    then have "key_of q = ([], n)" using get_okD[OF get] lookup_key_mem[of "([], n)" "qv s" q] by (simp add: quota_GetUnsecured_def)
    with d[of "key_of q"] show "outcome (kDelete (qc_privileged C) (key_of q)) s (\<lambda>t. qv t = qv s) (\<lambda>_ t. qv t = filter (\<lambda>q. key_of q \<noteq> ([], n)) (qv s))"
      by simp
  qed
qed

text \<open>What a request has done to the stored quotas.\<close>

lemma quota_step_cases:
  assumes C: "quota_client_ok qv (qc_privileged C)" and step: "quota_step Q E G C s t"
  obtains "qv t = qv s"
  | creq q where "qv t = qv s @ [q]" and "created_quota creq q" and "key_of q \<notin> key_of ` set (qv s)"
  | preq old q where "lookup_key ([], prq_name preq) (qv s) = Inr old" and "put_quota G preq old q"
      and "qv t = map (\<lambda>y. if key_of y = key_of old then q else y) (qv s)"
  | n where "qv t = filter (\<lambda>q. key_of q \<noteq> ([], n)) (qv s)"
  using step
proof cases
  case (create u creq r)
  then show thesis using outcomeD[OF create_outcome[OF C, of Q E u G creq s]] that by (cases r) blast+
next
  case (put u preq r)
  then show thesis using outcomeD[OF put_outcome[OF C, of Q G E u preq s]] that by (cases r) blast+
next
  case (delete u n r)
  then show thesis using outcomeD[OF delete_outcome[OF C, of E u G n s]] that by (cases r) blast+
qed

text \<open>
  A quota has a subject, and is named after it; no two quotas have the same name, so that a subject has at most one.
\<close>

definition quotas_typed :: "'q resourceQuota list \<Rightarrow> bool" where
  "quotas_typed qs \<longleftrightarrow> keys_ok qs \<and> (\<forall>q \<in> set qs. quota_wf q)"

lemma keys_ok_replace:
  assumes "keys_ok xs" and "key_of q = k"
  shows "keys_ok (map (\<lambda>y. if key_of y = k then q else y) xs)"
proof -
  have "map key_of (map (\<lambda>y. if key_of y = k then q else y) xs) = map key_of xs" using assms(2) by simp
  with assms(1) show ?thesis unfolding keys_ok_def by argo
qed

lemma quota_step_typed:
  assumes C: "quota_client_ok qv (qc_privileged C)" and step: "quota_step Q E G C s t" and typed: "quotas_typed (qv s)"
  shows "quotas_typed (qv t)"
  using C step
proof (cases rule: quota_step_cases)
  case (2 creq q)
  then show ?thesis using typed by (simp add: quotas_typed_def keys_ok_def created_quota_def)
next
  case (3 preq old q)
  have "old \<in> set (qv s)" using lookup_key_mem[OF 3(1)] by blast
  then have "quota_wf q" using 3(2) typed by (simp add: quotas_typed_def quota_wf_def put_quota_def)
  moreover have "key_of q = key_of old" using 3(2) by (simp add: put_quota_def)
  ultimately show ?thesis using typed keys_ok_replace[of "qv s" q] by (auto simp: quotas_typed_def 3(3))
next
  case (4 n)
  then show ?thesis using typed by (auto simp: quotas_typed_def keys_ok_def distinct_map inj_on_def)
qed (use typed in simp)

text \<open>
  C26: the stored quotas stay well-formed under every sequence of requests that create, change or delete quotas, of whatever
  callers and with whatever outcome: each has a subject with a kind and is named after it, and no two have the same name.
\<close>

theorem quotas_well_formed:
  assumes C: "quota_client_ok qv (qc_privileged C)" and steps: "(quota_step Q E G C)\<^sup>*\<^sup>* s t" and typed: "quotas_typed (qv s)"
  shows "quotas_typed (qv t)"
  using steps by (induction rule: rtranclp_induct) (auto simp: typed intro: quota_step_typed[OF C])

text \<open>
  C27: accounting of accelerators is never switched off. Where it was enabled it stays enabled as long as the quota is
  stored, and a request enables it only for a stored quota that is not a project's default and that is left without
  limits for accelerators.
\<close>

theorem accounting_irreversible:
  assumes C: "quota_client_ok qv (qc_privileged C)" and step: "quota_step Q E G C s t" and keys: "keys_ok (qv s)"
    and val: "accountingAnnotationValue G \<noteq> []"
  shows "(\<forall>q \<in> set (qv s). isAcceleratorAccountingEnabled G q \<longrightarrow>
      key_of q \<notin> key_of ` set (qv t) \<or> (\<exists>q' \<in> set (qv t). key_of q' = key_of q \<and> isAcceleratorAccountingEnabled G q')) \<and>
    (\<forall>q' \<in> set (qv t). isAcceleratorAccountingEnabled G q' \<longrightarrow>
      (\<exists>q \<in> set (qv s). key_of q = key_of q' \<and>
        (isAcceleratorAccountingEnabled G q \<or> \<not> isDefaultProjectResourceQuota q \<and> acc_list (rd_accelerators (rq_quota q')) = [])))"
  using C step
proof (cases rule: quota_step_cases)
  case (2 creq q)
  then have "\<not> isAcceleratorAccountingEnabled G q" using val by (simp add: created_quota_def isAcceleratorAccountingEnabled_def mget_def)
  with 2 show ?thesis by auto
next
  case (3 preq old q)
  note old = lookup_key_mem[OF 3(1)]
  have same: "x = old" if "x \<in> set (qv s)" "key_of x = key_of old" for x
    using that old keys by (auto simp: keys_ok_def distinct_map inj_on_def)
  from 3(2) old show ?thesis unfolding 3(3) put_quota_def by (auto dest: same)
qed auto

section \<open>A concrete arithmetic of quantities for the witnesses\<close>

text \<open>A quantity is an amount with the text it is printed as; decimal numbers of bytes, gigabytes and gibibytes are read.\<close>

type_synonym demo_quantity = "rat \<times> string"

fun demo_digits :: "nat \<Rightarrow> int \<Rightarrow> string" where
  "demo_digits 0 n = []"
| "demo_digits (Suc k) n = (if n < 10 then [char_of (48 + n)] else demo_digits k (n div 10) @ [char_of (48 + n mod 10)])"

definition demo_text :: "rat \<Rightarrow> demo_quantity" where
  "demo_text r = (r, if r < 0 then ''-'' @ demo_digits 20 \<lceil>- r\<rceil>
     else if 2 ^ 30 \<le> r \<and> \<lceil>r\<rceil> mod 2 ^ 30 = 0 then demo_digits 20 (\<lceil>r\<rceil> div 2 ^ 30) @ ''Gi''
     else demo_digits 20 \<lceil>r\<rceil>)"

definition demo_Parse :: "string \<Rightarrow> demo_quantity result" where
  "demo_Parse s =
     (let ds = takeWhile is_digit s; rest = dropWhile is_digit s; fs = takeWhile is_digit (tl rest) in
      if ds = [] then Inl (Plain ''invalid quantity'')
      else if rest = [] then Inr (of_nat (atoi ds), s)
      else if rest = ''G'' then Inr (of_nat (atoi ds) * 10 ^ 9, s)
      else if hd rest = CHR ''.'' \<and> length fs = 6 \<and> dropWhile is_digit (tl rest) = ''Gi''
        then Inr (of_int (int (atoi ds) * 10 ^ 6 + int (atoi fs)) / 10 ^ 6 * 2 ^ 30, s)
      else Inl (Plain ''invalid quantity''))"

definition demo_Q :: "demo_quantity quantities" where
  "demo_Q =
     \<lparr>qZero = (0, ''0''), qAdd = (\<lambda>a b. demo_text (fst a + fst b)), qSub = (\<lambda>a b. demo_text (fst a - fst b)),
      qSet = (\<lambda>_ n. demo_text (of_int n)),
      qCmp = (\<lambda>a b. if fst a < fst b then - 1 else if fst b < fst a then 1 else 0),
      qSign = (\<lambda>a. if fst a < 0 then - 1 else if 0 < fst a then 1 else 0), qIsZero = (\<lambda>a. fst a = 0),
      qValue = (\<lambda>a. \<lceil>fst a\<rceil>), qString = snd, ParseQuantity = demo_Parse,
      NewBinarySI = (\<lambda>n. demo_text (of_int n)), ncCPU = (\<lambda>n. demo_text (of_int n)),
      ncSize = (\<lambda>n u. if u = ''Mi'' then Inr (demo_text (of_int n * 2 ^ 20))
                      else if u = ''Gi'' then Inr (demo_text (of_int n * 2 ^ 30)) else Inl (Plain ''unit''))\<rparr>"

lemma demo_quantity_ok: "quantity_ok demo_Q fst"
  by (auto simp: quantity_ok_def demo_Q_def demo_text_def)

lemma itoa_digits: "itoa n \<noteq> []" "\<forall>c \<in> set (itoa n). is_digit c"
proof -
  have "is_digit (char_of (48 + d))" if "d < 10" for d :: nat using that by (simp add: is_digit_def)
  then have "itoa n \<noteq> [] \<and> (\<forall>c \<in> set (itoa n). is_digit c)"
    by (induction n rule: itoa.induct) (subst (1 2) itoa.simps, auto)
  then show "itoa n \<noteq> []" "\<forall>c \<in> set (itoa n). is_digit c" by blast+
qed

lemma scan_digits:
  assumes "\<forall>c \<in> set ds. is_digit c" and "rest = [] \<or> \<not> is_digit (hd rest)"
  shows "takeWhile is_digit (ds @ rest) = ds" and "dropWhile is_digit (ds @ rest) = rest"
  using assms by (cases rest; simp add: takeWhile_append dropWhile_append)+

lemma atoi_zeros: "atoi (replicate k (CHR ''0'') @ ds) = atoi ds"
  by (induction k) (simp_all add: atoi_def)

lemma six_digits_digits: "\<forall>c \<in> set (six_digits n). is_digit c" "atoi (six_digits n) = n"
  using itoa_digits(2)[of n] by (auto simp: six_digits_def Let_def atoi_zeros atoi_itoa is_digit_def)

lemma digit_no_space: "is_digit c \<Longrightarrow> \<not> is_space c \<and> c \<noteq> CHR ''-'' \<and> c \<noteq> CHR ''+''"
  by (auto simp: is_digit_def is_space_def Let_def)

lemma demo_Parse_d:
  assumes "demo_Parse (sprintf_d n) = Inr q"
  shows "fst q = of_int n"
proof (cases "n < 0")
  case True
  then have "takeWhile is_digit (sprintf_d n) = []" by (simp add: sprintf_d_def is_digit_def)
  with assms show ?thesis by (simp add: demo_Parse_def)
next
  case False
  note d = itoa_digits(2)[of "nat n"] itoa_digits(1)[of "nat n"]
  have "takeWhile is_digit (itoa (nat n)) = itoa (nat n)" "dropWhile is_digit (itoa (nat n)) = []"
    using scan_digits[OF d(1), of "[]"] by simp_all
  with assms False d(2) show ?thesis by (auto simp: demo_Parse_def sprintf_d_def atoi_itoa)
qed

lemma demo_Parse_f:
  assumes x: "0 \<le> x" and q: "demo_Parse (sprintf_Gi x) = Inr q"
  shows "fst q = of_int (round_even (x * 10 ^ 6)) / 10 ^ 6 * 2 ^ 30"
    and "scan_dw (snd q) = Some (v, u) \<Longrightarrow> decimal_exponent u = 0"
proof -
  define n where "n = nat (round_even (x * 10 ^ 6))"
  have "0 \<le> \<lfloor>x * 10 ^ 6\<rfloor>" using x by simp
  then have "0 \<le> round_even (x * 10 ^ 6)" by (simp add: round_even_def Let_def)
  then have n: "(of_int (round_even (x * 10 ^ 6)) :: rat) = of_nat n" by (simp add: n_def)
  let ?rest = "CHR ''.'' # six_digits (n mod 10 ^ 6) @ ''Gi''"
  have s: "sprintf_Gi x = itoa (n div 10 ^ 6) @ ?rest" using x by (simp add: sprintf_Gi_def sprintf_f_def n_def Let_def)
  have w: "takeWhile is_digit (itoa (n div 10 ^ 6) @ ?rest) = itoa (n div 10 ^ 6)" "dropWhile is_digit (itoa (n div 10 ^ 6) @ ?rest) = ?rest"
    by (rule scan_digits[OF itoa_digits(2)], simp add: is_digit_def)+
  have w': "takeWhile is_digit (six_digits (n mod 10 ^ 6) @ ''Gi'') = six_digits (n mod 10 ^ 6)"
    by (rule scan_digits(1)[OF six_digits_digits(1)]) (simp add: is_digit_def)
  have "int (n div 10 ^ 6) * 10 ^ 6 + int (n mod 10 ^ 6) = int (n div 10 ^ 6 * 10 ^ 6 + n mod 10 ^ 6)"
    by (simp only: of_nat_add of_nat_mult of_nat_power of_nat_numeral)
  also have "\<dots> = int n" by (simp only: div_mult_mod_eq)
  finally have i: "int (n div 10 ^ 6) * 10 ^ 6 + int (n mod 10 ^ 6) = int n" .
  have "q = (of_int (int (n div 10 ^ 6) * 10 ^ 6 + int (n mod 10 ^ 6)) / 10 ^ 6 * 2 ^ 30, sprintf_Gi x)"
    using q unfolding s demo_Parse_def w Let_def list.sel w' itoa_digits atoi_itoa six_digits_digits(2)
    by (simp add: itoa_digits(1) split: if_splits)
  then have q: "fst q = of_nat n / 10 ^ 6 * 2 ^ 30" "snd q = itoa (n div 10 ^ 6) @ ?rest" unfolding i by (simp_all add: s)
  then show "fst q = of_int (round_even (x * 10 ^ 6)) / 10 ^ 6 * 2 ^ 30" unfolding n by blast
  show "decimal_exponent u = 0" if "scan_dw (snd q) = Some (v, u)"
  proof -
    obtain c cs where c: "itoa (n div 10 ^ 6) = c # cs" using itoa_digits(1) by (cases "itoa (n div 10 ^ 6)") auto
    then have "\<not> is_space c \<and> c \<noteq> CHR ''-'' \<and> c \<noteq> CHR ''+''" using itoa_digits(2)[of "n div 10 ^ 6"] digit_no_space by auto
    then have "dropWhile is_space (snd q) = snd q" "scan_d (snd q) = None \<or> (\<exists>v. scan_d (snd q) = Some (v, ?rest))"
      using w unfolding q(2) c scan_d_def Let_def by auto
    with that have "u = takeWhile (\<lambda>c. \<not> is_space c) ?rest"
      by (auto simp: scan_dw_def Let_def is_space_def split: if_splits)
    then have "hd u = CHR ''.''" by (simp add: is_space_def)
    then show ?thesis by (auto simp: decimal_exponent_def)
  qed
qed

lemma demo_parse_ok: "parse_ok demo_Q fst"
  unfolding parse_ok_def using demo_Parse_d demo_Parse_f by (auto simp: demo_Q_def)

text \<open>The project p1 has a quota with a decimal limit for memory and one for accelerators.\<close>

type_synonym quota_world = "mem \<times> demo_quantity resourceQuota list"

abbreviation quota_env :: "quota_world env" where
  "quota_env \<equiv> lift_env mem_env"

definition demo_G :: quota_sdk where
  "demo_G = \<lparr>subjectNameLabelKey = ''subject-name'', subjectKindLabelKey = ''subject-kind'', projectSubjectKind = ''project'',
     projectKindName = ''Project'', accountingAnnotation = ''accounting'', accountingAnnotationValue = ''v1'',
     kubevirtCloudProvider = ''kubevirt''\<rparr>"

definition demo_quotas :: "(quota_world, demo_quantity) quota_clients" where
  "demo_quotas = \<lparr>qc_privileged = extra_client, qc_impersonated = (\<lambda>_ _. Inr extra_client)\<rparr>"

definition demo_gpus :: "rat \<Rightarrow> demo_quantity accQuota list option" where
  "demo_gpus n = Some [\<lparr>aq_provider = ''kubevirt'', aq_resources = [(''gpu'', demo_text n)]\<rparr>]"

definition demo_limits :: "demo_quantity ResourceDetails" where
  "demo_limits = \<lparr>rd_cpu = Some (demo_text 64), rd_memory = Some (16 * 10 ^ 9, ''16G''), rd_storage = None, rd_accelerators = demo_gpus 3\<rparr>"

definition demo_usage :: "demo_quantity ResourceDetails" where
  "demo_usage = \<lparr>rd_cpu = Some (demo_text 4), rd_memory = Some (16 * 10 ^ 9, ''16G''), rd_storage = None, rd_accelerators = demo_gpus 1\<rparr>"

definition p1_quota :: "demo_quantity resourceQuota" where
  "p1_quota = objmeta.extend
     (blank_meta\<lparr>om_name := ''project-p1'', om_labels := [(''subject-name'', ''p1''), (''subject-kind'', ''project'')]\<rparr>)
     (resourceQuota.fields ''p1'' ''project'' demo_limits demo_usage zero_details None)"

definition world3 :: quota_world where
  "world3 = (world1, [p1_quota])"

definition demo_template :: ProviderNodeTemplate where
  "demo_template = \<lparr>pnt_diskSizeGB = 0, pnt_alibaba = None, pnt_anexia = None, pnt_aws = None, pnt_azure = None, pnt_do = None,
     pnt_gcp = None, pnt_hetzner = None,
     pnt_kubevirt = Some \<lparr>kv_cpus = ''4'', kv_memory = ''2.000000Gi'', kv_primaryDiskSize = ''20.000000Gi'', kv_secondaryDisks = [],
       kv_accelerators = [(''gpu'', ''1'')]\<rparr>,
     pnt_nutanix = None, pnt_openstack = None, pnt_vmDirector = None, pnt_vSphere = None\<rparr>"

definition demo_calculation :: calculateProjectResourceQuotaUpdate where
  "demo_calculation = \<lparr>req_projectID = ''p1'', cqu_replicas = 3, cqu_replacedResources = None, cqu_template = demo_template\<rparr>"

lemma quota_env_ok: "selectors_ok quota_env" "list_ok snd (qc_privileged demo_quotas)" "quota_client_ok snd (qc_privileged demo_quotas)"
  using mem_selectors_ok extra_client_ok
  by (simp_all add: selectors_ok_def lift_env_def sdk.defs env.defs quota_client_ok_def demo_quotas_def)

lemma demo_template_ok: "sizes_ok demo_Q fst demo_template"
proof -
  have "case node_capacity demo_Q demo_template of Inl _ \<Rightarrow> True | Inr node \<Rightarrow> nonneg fst (snd node)" by code_simp
  then show ?thesis by (auto simp: sizes_ok_def)
qed

abbreviation demo_calculate where
  "demo_calculate req \<equiv> CalculateProjectQuotaUpdateEndpoint demo_Q demo_G (kube_projectProvider quota_env)
     (kube_privilegedProjectProvider quota_env) (kube_getter quota_env bob) (kube_quotas quota_env demo_G demo_quotas) req"

theorem quota_update_reports_exceeded_witness:
  "\<exists>r q. demo_calculate demo_calculation world3 = (Inr (Some r), world3) \<and> rqc_message r \<noteq> [] \<and>
     own_quota quota_env demo_G demo_quotas bob ''p1'' world3 (snd world3) q"
proof -
  have "case demo_calculate demo_calculation world3 of (Inr (Some r), t) \<Rightarrow> rqc_message r \<noteq> [] | _ \<Rightarrow> False" by code_simp
  then obtain r t where run: "demo_calculate demo_calculation world3 = (Inr (Some r), t)" and msg: "rqc_message r \<noteq> []"
    by (auto split: prod.splits sum.splits option.splits)
  have req: "request_ok demo_Q fst (cqu_replacedResources demo_calculation) (cqu_template demo_calculation)"
    using demo_template_ok by (simp add: request_ok_def demo_calculation_def)
  have us: "\<forall>q \<in> set (snd world3). acc_nonneg fst (acc_list (rd_accelerators (rq_globalUsage q)))" by code_simp
  have "req_projectID demo_calculation = ''p1''" by (simp add: demo_calculation_def)
  with quota_update_reports_exceeded[OF demo_quantity_ok lift_api_ok[OF mem_api_ok] quota_env_ok(1,2) req us run] run msg
  show ?thesis by auto
qed

definition demo_api_quota :: Quota where
  "demo_api_quota = \<lparr>qu_cpu = Some 8, qu_memory = Some (25 / 2), qu_storage = None,
     qu_accelerators = Some [\<lparr>aaq_provider = ''kubevirt'', aaq_resources = [(''gpu'', ''2'')]\<rparr>], qu_enableAccounting = None\<rparr>"

definition demo_new_quota :: createResourceQuota where
  "demo_new_quota = \<lparr>crq_subjectName = ''p2'', crq_subjectKind = ''project'', crq_quota = demo_api_quota\<lparr>qu_memory := None\<rparr>\<rparr>"

definition demo_enable :: putResourceQuota where
  "demo_enable = \<lparr>prq_name = ''project-p1'', prq_body = demo_api_quota\<lparr>qu_memory := None, qu_accelerators := Some [], qu_enableAccounting := Some True\<rparr>\<rparr>"

abbreviation demo_create_quota where
  "demo_create_quota u \<equiv> CreateResourceQuotaEndpoint demo_Q (kube_getter quota_env u) (kube_quotas quota_env demo_G demo_quotas) demo_new_quota"

abbreviation demo_put_quota where
  "demo_put_quota u \<equiv> PutResourceQuotaEndpoint demo_Q demo_G (kube_getter quota_env u) (kube_quotas quota_env demo_G demo_quotas) demo_enable"

theorem quotas_well_formed_witness:
  "\<exists>r t. demo_create_quota root_user world3 = (Inr r, t) \<and> quotas_typed (snd t) \<and> length (snd t) = 2"
proof -
  have "case demo_create_quota root_user world3 of (Inr r, t) \<Rightarrow> length (snd t) = 2 | _ \<Rightarrow> False" by code_simp
  then obtain r t where run: "demo_create_quota root_user world3 = (Inr r, t)" and len: "length (snd t) = 2"
    by (auto split: prod.splits sum.splits)
  have "(quota_step demo_Q quota_env demo_G demo_quotas)\<^sup>*\<^sup>* world3 t" by (rule r_into_rtranclp, rule quota_step.create[OF run])
  moreover have "quotas_typed (snd world3)" by code_simp
  ultimately have "quotas_typed (snd t)" using quotas_well_formed[OF quota_env_ok(3)] by blast
  with run len show ?thesis by blast
qed

theorem accounting_irreversible_witness:
  "\<exists>r t. demo_put_quota root_user world3 = (Inr r, t) \<and> list_ex (isAcceleratorAccountingEnabled demo_G) (snd t) \<and>
     \<not> list_ex isDefaultProjectResourceQuota (snd world3)"
proof -
  have "case demo_put_quota root_user world3 of (Inr r, t) \<Rightarrow> list_ex (isAcceleratorAccountingEnabled demo_G) (snd t) | _ \<Rightarrow> False" by code_simp
  then obtain r t where run: "demo_put_quota root_user world3 = (Inr r, t)" and on: "list_ex (isAcceleratorAccountingEnabled demo_G) (snd t)"
    by (auto split: prod.splits sum.splits)
  have off: "\<not> list_ex (isAcceleratorAccountingEnabled demo_G) (snd world3)" "keys_ok (snd world3)" "accountingAnnotationValue demo_G \<noteq> []" by code_simp+
  from accounting_irreversible[OF quota_env_ok(3) quota_step.put[OF run] off(2,3)] on off(1)
  have "\<exists>q \<in> set (snd world3). \<not> isDefaultProjectResourceQuota q" unfolding list_ex_iff by blast
  moreover have "snd world3 = [p1_quota]" by (simp add: world3_def)
  ultimately have "\<not> list_ex isDefaultProjectResourceQuota (snd world3)" by simp
  with run on show ?thesis by blast
qed

end
