(* ===== verification/Clusters.thy ===== *)
theory Clusters
  imports Cluster_RBAC SSH_Keys
begin

text \<open>
  The endpoints that read, list and delete clusters, attach SSH keys to them and revoke their tokens
  (\<^verbatim>\<open>pkg/handler/common/cluster.go\<close>, \<^verbatim>\<open>pkg/handler/v2/cluster/cluster.go\<close>), and the lookup of datacenters
  (\<^verbatim>\<open>pkg/provider/conversions.go\<close>).
\<close>

section \<open>What the SDK provides\<close>

text \<open>
  Functions and constants of Kubermatic that the endpoints call: the match of an address with the requirements of a
  datacenter (its first result), support for the external cloud controller manager, finalizers, the clusters of an SSH
  key, proxy values, the configuration and the events of a seed.
\<close>

record 's cluster_sdk =
  cx_matchesRequirements :: "string \<Rightarrow> string list \<Rightarrow> bool"
  cx_ccmSupported :: "datacenter \<Rightarrow> cluster \<Rightarrow> bool"
  cx_needCCMMigration :: "cluster \<Rightarrow> bool"
  cx_externalCloudProvider :: string
  cx_vsphereCSIClusterID :: string
  cx_hasFinalizer :: "string list \<Rightarrow> string \<Rightarrow> bool"
  cx_addFinalizer :: "string list \<Rightarrow> string \<Rightarrow> string list"
  cx_nodeDeletionFinalizer :: string
  cx_lbCleanupFinalizer :: string
  cx_pvCleanupFinalizer :: string
  cx_isUsedByCluster :: "sshkey \<Rightarrow> string \<Rightarrow> bool"
  cx_addToCluster :: "sshkey \<Rightarrow> string \<Rightarrow> sshkey"
  cx_removeFromCluster :: "sshkey \<Rightarrow> string \<Rightarrow> sshkey"
  cx_proxyEmpty :: "OSMSettings \<Rightarrow> bool"
  cx_proxyString :: "string option \<Rightarrow> string"
  cx_config :: "('s, unit) act"
  cx_listEvents :: "string \<Rightarrow> string \<Rightarrow> ('s, event list) act"

section \<open>Datacenters\<close>

definition canAccessDatacenter :: "'s cluster_sdk \<Rightarrow> datacenter \<Rightarrow> string \<Rightarrow> bool" where
  "canAccessDatacenter X dc emailAddress = cx_matchesRequirements X emailAddress (dc_requiredEmails dc)"

definition matching_datacenters :: "seedmap \<Rightarrow> string \<Rightarrow> (seed \<times> datacenter) list" where
  "matching_datacenters seeds datacenterName =
     concat (map (\<lambda>(_, seed). case map_of (sd_datacenters seed) datacenterName of None \<Rightarrow> [] | Some dc \<Rightarrow> [(seed, dc)]) seeds)"

definition DatacenterFromSeedMap ::
  "'s cluster_sdk \<Rightarrow> UserInfo \<Rightarrow> 's SeedsGetter \<Rightarrow> string \<Rightarrow> ('s, seed \<times> datacenter) act" where
  "DatacenterFromSeedMap X userInfo seedsGetter datacenterName =
     bindA (wrapA (\<lambda>_. HTTPError 500) seedsGetter) (\<lambda>seeds.
       case matching_datacenters seeds datacenterName of
         [] \<Rightarrow> failA (HTTPError 404)
       | [(seed, dc)] \<Rightarrow>
           if \<not> ui_isAdmin userInfo \<and> \<not> canAccessDatacenter X dc (ui_email userInfo) then failA (HTTPError 403)
           else retA (seed, dc)
       | _ \<Rightarrow> failA (HTTPError 500))"

definition FindSeedNameForDatacenter :: "'s SeedsGetter option \<Rightarrow> string \<Rightarrow> ('s, string) act" where
  "FindSeedNameForDatacenter seedsGetter datacenter =
     (case seedsGetter of
        None \<Rightarrow> failA (Plain ''seeds getter is not set'')
      | Some getter \<Rightarrow>
          bindA (wrapA Wrapped getter) (\<lambda>seeds.
            case List.find (\<lambda>(name, seed). map_of (sd_datacenters seed) datacenter \<noteq> None) seeds of
              Some (name, _) \<Rightarrow> retA name
            | None \<Rightarrow> failA (Plain ''can not find seed for datacenter'')))"

section \<open>Clusters of the API\<close>

text \<open>A nil pointer on the way to the proxy settings is \<^const>\<open>None\<close>.\<close>

record apiClusterSpec =
  as_cloud :: CloudSpec
  as_oidc :: "string option"
  as_version :: "string option"
  as_enableUserSSHKeyAgent :: "bool option"
  as_dashboardEnabled :: "bool option"
  as_auditLogging :: "AuditLogging option"
  as_containerRuntime :: string
  as_network :: "ClusterNetwork option"
  as_backupConfig :: "string option"
  as_encryption :: "EncryptionConfiguration option"
  as_proxy :: "(string \<times> string) option" \<comment> \<open>HTTP proxy, exceptions\<close>
  as_rest :: string

record apiCluster = apiObject +
  ac_labels :: smap
  ac_inheritedLabels :: smap
  ac_type :: string
  ac_credential :: string
  ac_spec :: apiClusterSpec
  ac_version :: string
  ac_url :: string
  ac_externalCCMMigration :: string
  ac_encryptionPhase :: "string option"
  ac_machineDeploymentCount :: "int option"

definition KubernetesClusterType :: string where "KubernetesClusterType = ''kubernetes''"

definition has_feature :: "cluster \<Rightarrow> string \<Rightarrow> bool" where
  "has_feature c f = (map_of (cl_features (cl_spec c)) f = Some True)"

definition convertInternalCCMStatusToExternal :: "'s cluster_sdk \<Rightarrow> cluster \<Rightarrow> datacenter \<Rightarrow> string" where
  "convertInternalCCMStatusToExternal X c dc =
     (if has_feature c (cx_externalCloudProvider X)
      then if cx_needCCMMigration X c then ''InProgress'' else ''NotNeeded''
      else if cx_ccmSupported X dc c then ''Supported'' else ''Unsupported'')"

definition external_spec :: "'s cluster_sdk \<Rightarrow> clusterSpec \<Rightarrow> apiClusterSpec" where
  "external_spec X sp =
     \<lparr>as_cloud = cl_cloud sp, as_oidc = cl_oidc sp, as_version = cl_version sp,
      as_enableUserSSHKeyAgent = cl_enableUserSSHKeyAgent sp, as_dashboardEnabled = cl_dashboardEnabled sp,
      as_auditLogging = cl_auditLogging sp, as_containerRuntime = cl_containerRuntime sp, as_network = Some (cl_network sp),
      as_backupConfig = cl_backupConfig sp, as_encryption = cl_encryption sp,
      as_proxy = (case cl_osm sp of
          None \<Rightarrow> None
        | Some osm \<Rightarrow> if cx_proxyEmpty X osm then None
                      else Some (cx_proxyString X (osm_httpProxy osm), cx_proxyString X (osm_noProxy osm))),
      as_rest = cl_rest sp\<rparr>"

definition ConvertInternalClusterToExternal ::
  "'x sdk_scheme \<Rightarrow> 's cluster_sdk \<Rightarrow> cluster \<Rightarrow> datacenter \<Rightarrow> bool \<Rightarrow> apiCluster" where
  "ConvertInternalClusterToExternal K X c dc filterSystemLabels =
     apiObject.extend
       \<lparr>ao_id = om_name c, ao_name = cl_humanReadableName (cl_spec c), ao_annotations = om_annotations c,
        ao_creationTimestamp = om_creationTimestamp c, ao_deletionTimestamp = om_deletionTimestamp c\<rparr>
       (apiCluster.fields
          (if filterSystemLabels then FilterLabels K ClusterResourceType (om_labels c) else om_labels c)
          (cl_inheritedLabels c) KubernetesClusterType [] (external_spec X (cl_spec c)) (cl_controlPlaneVersion c) (cl_url c)
          (convertInternalCCMStatusToExternal X c dc) (cl_encryptionPhase c) None)"

section \<open>Reading clusters\<close>

definition get_datacenter ::
  "'s cluster_sdk \<Rightarrow> 's UserInfoGetter \<Rightarrow> 's SeedsGetter \<Rightarrow> cluster \<Rightarrow> ('s, seed \<times> datacenter) act" where
  "get_datacenter X userInfoGetter seedsGetter c =
     bindA (httpA (userInfoGetter [])) (\<lambda>adminUserInfo.
       httpA (DatacenterFromSeedMap X adminUserInfo seedsGetter (cl_datacenterName (cl_cloud (cl_spec c)))))"

definition GetEndpoint ::
  "'x sdk_scheme \<Rightarrow> 's cluster_sdk \<Rightarrow> 's UserClusterProvider \<Rightarrow> 's PrivilegedClusterProvider \<Rightarrow> 's ProjectProvider \<Rightarrow>
     's PrivilegedProjectProvider \<Rightarrow> 's SeedsGetter \<Rightarrow> 's UserInfoGetter \<Rightarrow> string \<Rightarrow> string \<Rightarrow> ('s, apiCluster) act" where
  "GetEndpoint K X clusterProvider privilegedClusterProvider projectProvider privilegedProjectProvider seedsGetter userInfoGetter
     projectID clusterID =
     bindA (GetCluster clusterProvider privilegedClusterProvider projectProvider privilegedProjectProvider userInfoGetter
              projectID clusterID None) (\<lambda>cluster.
     bindA (get_datacenter X userInfoGetter seedsGetter cluster) (\<lambda>(_, dc).
     bindA (cx_config X) (\<lambda>_.
       retA (ConvertInternalClusterToExternal K X cluster dc True))))"

definition listClusterMachineDeployments ::
  "'s UserInfoGetter \<Rightarrow> 's UserClusterProvider \<Rightarrow> cluster \<Rightarrow> string \<Rightarrow> ('s, machine list) act" where
  "listClusterMachineDeployments userInfoGetter clusterProvider cluster projectID =
     bindA (GetClusterClient userInfoGetter clusterProvider cluster projectID) (\<lambda>client.
     bindA (listA (uc_machineDeployments client) Everything) (\<lambda>items.
       retA (filter (\<lambda>md. om_namespace md = ''kube-system'') items)))"

text \<open>Clusters in a datacenter that the caller may not use are left out.\<close>

fun external_clusters ::
  "'x sdk_scheme \<Rightarrow> 's cluster_sdk \<Rightarrow> UserInfo \<Rightarrow> 's SeedsGetter \<Rightarrow> cluster list \<Rightarrow> ('s, apiCluster list) act" where
  "external_clusters K X adminUserInfo seedsGetter [] = retA []"
| "external_clusters K X adminUserInfo seedsGetter (c # cs) =
     tryA (DatacenterFromSeedMap X adminUserInfo seedsGetter (cl_datacenterName (cl_cloud (cl_spec c)))) (\<lambda>r. case r of
       Inl err \<Rightarrow>
         if err = HTTPError 403 then external_clusters K X adminUserInfo seedsGetter cs
         else failA (KubernetesErrorToHTTPError err)
     | Inr (_, dc) \<Rightarrow>
         bindA (external_clusters K X adminUserInfo seedsGetter cs) (\<lambda>rest.
           retA (ConvertInternalClusterToExternal K X c dc True # rest)))"

text \<open>
  The counts are fetched by one goroutine per cluster, here one after the other. Each writes its count to its own position
  of the answer, or its error to its own position of a list whose first entry is returned. An index out of range
  panics, which ends the process.
\<close>

fun machine_counts ::
  "(cluster \<Rightarrow> ('s, machine list) act) \<Rightarrow> nat \<Rightarrow> cluster list \<Rightarrow> apiCluster list \<times> go_error list \<Rightarrow>
     ('s, apiCluster list \<times> go_error list) act" where
  "machine_counts listMDs pos [] acc = retA acc"
| "machine_counts listMDs pos (c # cs) acc =
     tryA (listMDs c) (\<lambda>r. case r of
       Inl er \<Rightarrow> machine_counts listMDs (Suc pos) cs (fst acc, snd acc @ [er])
     | Inr mds \<Rightarrow>
         if pos < length (fst acc)
         then machine_counts listMDs (Suc pos) cs
                ((fst acc)[pos := (fst acc ! pos)\<lparr>ac_machineDeploymentCount := Some (int (length mds))\<rparr>], snd acc)
         else failA Panic)"

definition GetClusters ::
  "'x sdk_scheme \<Rightarrow> 's cluster_sdk \<Rightarrow> 's UserInfoGetter \<Rightarrow> 's UserClusterProvider \<Rightarrow> 's ProjectProvider \<Rightarrow>
     's PrivilegedProjectProvider \<Rightarrow> 's SeedsGetter \<Rightarrow> string \<Rightarrow> bool \<Rightarrow> ('s, apiCluster list) act" where
  "GetClusters K X userInfoGetter clusterProvider projectProvider privilegedProjectProvider seedsGetter projectID
     includeMachineDeploymentCount =
     bindA (GetProject userInfoGetter projectProvider privilegedProjectProvider projectID None) (\<lambda>project.
     bindA (httpA (userInfoGetter [])) (\<lambda>adminUserInfo.
     bindA (ucp_List clusterProvider (Some project) None) (\<lambda>clusters.
     bindA (cx_config X) (\<lambda>_.
     bindA (external_clusters K X adminUserInfo seedsGetter clusters) (\<lambda>apiClusters.
       if includeMachineDeploymentCount then
         bindA (machine_counts (\<lambda>c. listClusterMachineDeployments userInfoGetter clusterProvider c projectID) 0 clusters
                  (apiClusters, [])) (\<lambda>(apiClusters, listErrs).
           case listErrs of [] \<Rightarrow> retA apiClusters | er # _ \<Rightarrow> failA er)
       else retA apiClusters)))))"

text \<open>
  The list over all seeds. A seed in an invalid phase, or whose clusters cannot be read, is named as broken; one whose
  provider cannot be made is left out silently.
\<close>

record ProjectClusterList =
  pcl_clusters :: "apiCluster list"
  pcl_errorMessage :: "string option"

text \<open>\<^verbatim>\<open>strings.Join\<close>.\<close>

fun strings_Join :: "string list \<Rightarrow> string \<Rightarrow> string" where
  "strings_Join [] sep = []"
| "strings_Join [x] sep = x"
| "strings_Join (x # xs) sep = x @ sep @ strings_Join xs sep"

definition broken_message :: "bool \<Rightarrow> string list \<Rightarrow> string" where
  "broken_message isAdmin brokenSeeds =
     (if isAdmin then ''Failed to fetch data for following seeds: '' @ strings_Join brokenSeeds '', '' @ ''.''
      else ''Failed to fetch data for one or more seeds. Please contact an administrator.'')"

definition ListEndpoint ::
  "'x sdk_scheme \<Rightarrow> 's cluster_sdk \<Rightarrow> 's ProjectProvider \<Rightarrow> 's PrivilegedProjectProvider \<Rightarrow> 's SeedsGetter \<Rightarrow>
     (seed \<Rightarrow> ('s, 's UserClusterProvider) act) \<Rightarrow> 's UserInfoGetter \<Rightarrow> string \<Rightarrow> bool \<Rightarrow> ('s, ProjectClusterList) act" where
  "ListEndpoint K X projectProvider privilegedProjectProvider seedsGetter clusterProviderGetter userInfoGetter projectID
     showDeploymentMachineCount =
     bindA (httpA seedsGetter) (\<lambda>seeds.
     bindA (foldA (\<lambda>(_, seed) (allClusters, brokenSeeds).
              if sd_invalid seed then retA (allClusters, brokenSeeds @ [sd_name seed])
              else tryA (clusterProviderGetter seed) (\<lambda>r. case r of
                Inl _ \<Rightarrow> retA (allClusters, brokenSeeds)
              | Inr seedClusterProvider \<Rightarrow>
                  tryA (GetClusters K X userInfoGetter seedClusterProvider projectProvider privilegedProjectProvider seedsGetter
                          projectID showDeploymentMachineCount) (\<lambda>r. case r of
                    Inl _ \<Rightarrow> retA (allClusters, brokenSeeds @ [sd_name seed])
                  | Inr seedClusters \<Rightarrow> retA (allClusters @ seedClusters, brokenSeeds)))) seeds ([], []))
       (\<lambda>(allClusters, brokenSeeds).
         if brokenSeeds = [] then retA \<lparr>pcl_clusters = allClusters, pcl_errorMessage = None\<rparr>
         else
           bindA (userInfoGetter []) (\<lambda>user.
             retA \<lparr>pcl_clusters = allClusters, pcl_errorMessage = Some (broken_message (ui_isAdmin user) brokenSeeds)\<rparr>)))"

definition GetClusterEventsEndpoint ::
  "'s cluster_sdk \<Rightarrow> 's UserClusterProvider \<Rightarrow> 's PrivilegedClusterProvider \<Rightarrow> 's ProjectProvider \<Rightarrow>
     's PrivilegedProjectProvider \<Rightarrow> 's UserInfoGetter \<Rightarrow> string \<Rightarrow> string \<Rightarrow> string \<Rightarrow> ('s, apiEvent list) act" where
  "GetClusterEventsEndpoint X clusterProvider privilegedClusterProvider projectProvider privilegedProjectProvider userInfoGetter
     projectID clusterID eventType =
     bindA (httpA (GetProject userInfoGetter projectProvider privilegedProjectProvider projectID None)) (\<lambda>project.
     bindA (httpA (GetInternalCluster userInfoGetter clusterProvider privilegedClusterProvider project projectID clusterID
                     (Some \<lparr>cgo_checkInitStatus = False\<rparr>))) (\<lambda>cluster.
     bindA (httpA (GetEvents (cx_listEvents X) cluster [])) (\<lambda>events.
       let eventTypeAPI = (if eventType = ''warning'' then ''Warning'' else if eventType = ''normal'' then ''Normal'' else []) in
       retA (if eventTypeAPI \<noteq> [] then FilterEventsByType events eventTypeAPI else events))))"

definition ListNamespaceEndpoint ::
  "'s UserClusterProvider \<Rightarrow> 's PrivilegedClusterProvider \<Rightarrow> 's ProjectProvider \<Rightarrow> 's PrivilegedProjectProvider \<Rightarrow>
     's UserInfoGetter \<Rightarrow> string \<Rightarrow> string \<Rightarrow> ('s, string list) act" where
  "ListNamespaceEndpoint clusterProvider privilegedClusterProvider projectProvider privilegedProjectProvider userInfoGetter
     projectID clusterID =
     bindA (cluster_client clusterProvider privilegedClusterProvider projectProvider privilegedProjectProvider userInfoGetter
              projectID clusterID) (\<lambda>client.
     bindA (httpA (listA (uc_namespaces client) Everything)) (\<lambda>items.
       retA (map om_name items)))"

section \<open>Changing and deleting clusters\<close>

definition updateCluster ::
  "'s UserInfoGetter \<Rightarrow> 's UserClusterProvider \<Rightarrow> 's PrivilegedClusterProvider \<Rightarrow> project \<Rightarrow> cluster \<Rightarrow> ('s, cluster) act" where
  "updateCluster userInfoGetter clusterProvider privilegedClusterProvider project cluster =
     bindA (wrapA Wrapped (userInfoGetter [])) (\<lambda>adminUserInfo.
       if ui_isAdmin adminUserInfo then pcp_UpdateUnsecured privilegedClusterProvider (Some project) cluster
       else
         bindA (wrapA Wrapped (userInfoGetter (om_name project))) (\<lambda>userInfo.
           ucp_Update clusterProvider (Some project) (Some userInfo) cluster))"

definition updateAndDeleteClusterForRegularUser ::
  "'s UserInfoGetter \<Rightarrow> 's UserClusterProvider \<Rightarrow> project \<Rightarrow> cluster \<Rightarrow> ('s, unit) act" where
  "updateAndDeleteClusterForRegularUser userInfoGetter clusterProvider project cluster =
     bindA (wrapA (\<lambda>_. HTTPError 500) (userInfoGetter (om_name project))) (\<lambda>userInfo.
     bindA (httpA (ucp_Update clusterProvider (Some project) (Some userInfo) cluster)) (\<lambda>cluster.
       httpA (ucp_Delete clusterProvider (Some userInfo) cluster)))"

definition updateAndDeleteCluster ::
  "'s UserInfoGetter \<Rightarrow> 's UserClusterProvider \<Rightarrow> 's PrivilegedClusterProvider \<Rightarrow> project \<Rightarrow> cluster \<Rightarrow> ('s, unit) act" where
  "updateAndDeleteCluster userInfoGetter clusterProvider privilegedClusterProvider project cluster =
     bindA (wrapA (\<lambda>_. HTTPError 500) (userInfoGetter [])) (\<lambda>adminUserInfo.
       if ui_isAdmin adminUserInfo then
         bindA (httpA (pcp_UpdateUnsecured privilegedClusterProvider (Some project) cluster)) (\<lambda>cluster.
           httpA (pcp_DeleteUnsecured privilegedClusterProvider cluster))
       else updateAndDeleteClusterForRegularUser userInfoGetter clusterProvider project cluster)"

text \<open>Only a cluster that was up once gets the finalizers that clean up its load balancers and volumes.\<close>

definition cleanup_finalizers :: "'s cluster_sdk \<Rightarrow> bool \<Rightarrow> bool \<Rightarrow> string list \<Rightarrow> string list" where
  "cleanup_finalizers X deleteVolumes deleteLoadBalancers fs =
     (if cx_hasFinalizer X fs (cx_nodeDeletionFinalizer X) then
        let fs = (if deleteLoadBalancers then cx_addFinalizer X fs (cx_lbCleanupFinalizer X) else fs) in
        if deleteVolumes then cx_addFinalizer X fs (cx_pvCleanupFinalizer X) else fs
      else fs)"

definition DeleteEndpoint ::
  "'s cluster_sdk \<Rightarrow> 's UserClusterProvider \<Rightarrow> 's PrivilegedClusterProvider \<Rightarrow> 's UserInfoGetter \<Rightarrow> string \<Rightarrow> string \<Rightarrow> bool \<Rightarrow> bool \<Rightarrow>
     's ProjectProvider \<Rightarrow> 's PrivilegedProjectProvider \<Rightarrow> ('s, unit) act" where
  "DeleteEndpoint X clusterProvider privilegedClusterProvider userInfoGetter projectID clusterID deleteVolumes deleteLoadBalancers
     projectProvider privilegedProjectProvider =
     bindA (httpA (GetProject userInfoGetter projectProvider privilegedProjectProvider projectID None)) (\<lambda>project.
     bindA (GetInternalCluster userInfoGetter clusterProvider privilegedClusterProvider project projectID clusterID
              (Some \<lparr>cgo_checkInitStatus = False\<rparr>)) (\<lambda>existingCluster.
       updateAndDeleteCluster userInfoGetter clusterProvider privilegedClusterProvider project
         (existingCluster\<lparr>cl_finalizers := cleanup_finalizers X deleteVolumes deleteLoadBalancers (cl_finalizers existingCluster)\<rparr>)))"

definition MigrateEndpointToExternalCCM ::
  "'s cluster_sdk \<Rightarrow> (cluster, 's) kclient \<Rightarrow> 's UserClusterProvider \<Rightarrow> 's PrivilegedClusterProvider \<Rightarrow> 's UserInfoGetter \<Rightarrow> string \<Rightarrow>
     string \<Rightarrow> 's ProjectProvider \<Rightarrow> 's SeedsGetter \<Rightarrow> 's PrivilegedProjectProvider \<Rightarrow> ('s, unit) act" where
  "MigrateEndpointToExternalCCM X seedAdminClient clusterProvider privilegedClusterProvider userInfoGetter projectID clusterID
     projectProvider seedsGetter privilegedProjectProvider =
     bindA (httpA (userInfoGetter [])) (\<lambda>adminUserInfo.
     bindA (GetCluster clusterProvider privilegedClusterProvider projectProvider privilegedProjectProvider userInfoGetter
              projectID clusterID None) (\<lambda>oldCluster.
     bindA (cx_config X) (\<lambda>_.
     bindA (httpA (DatacenterFromSeedMap X adminUserInfo seedsGetter (cl_datacenterName (cl_cloud (cl_spec oldCluster))))) (\<lambda>(_, dc).
       if \<not> cx_ccmSupported X dc oldCluster then failA UtilBadRequest
       else if has_feature oldCluster (cx_externalCloudProvider X) then failA UtilBadRequest
       else
         let fs = AList.update (cx_externalCloudProvider X) True (cl_features (cl_spec oldCluster));
             fs = (if cl_vsphere (cl_cloud (cl_spec oldCluster)) \<noteq> None then AList.update (cx_vsphereCSIClusterID X) True fs else fs) in
         bindA (httpA (kUpdate seedAdminClient (oldCluster\<lparr>cl_spec := (cl_spec oldCluster)\<lparr>cl_features := fs\<rparr>\<rparr>))) (\<lambda>_.
           retA ())))))"

definition RevokeAdminTokenEndpoint ::
  "'s UserClusterProvider \<Rightarrow> 's PrivilegedClusterProvider \<Rightarrow> 's ProjectProvider \<Rightarrow> 's PrivilegedProjectProvider \<Rightarrow>
     's UserInfoGetter \<Rightarrow> string \<Rightarrow> string \<Rightarrow> ('s, unit) act" where
  "RevokeAdminTokenEndpoint clusterProvider privilegedClusterProvider projectProvider privilegedProjectProvider userInfoGetter
     projectID clusterID =
     bindA (GetCluster clusterProvider privilegedClusterProvider projectProvider privilegedProjectProvider userInfoGetter
              projectID clusterID None) (\<lambda>cluster.
       httpA (ucp_RevokeAdminKubeconfig clusterProvider cluster))"

definition RevokeViewerTokenEndpoint ::
  "'s UserClusterProvider \<Rightarrow> 's PrivilegedClusterProvider \<Rightarrow> 's ProjectProvider \<Rightarrow> 's PrivilegedProjectProvider \<Rightarrow>
     's UserInfoGetter \<Rightarrow> string \<Rightarrow> string \<Rightarrow> ('s, unit) act" where
  "RevokeViewerTokenEndpoint clusterProvider privilegedClusterProvider projectProvider privilegedProjectProvider userInfoGetter
     projectID clusterID =
     bindA (GetCluster clusterProvider privilegedClusterProvider projectProvider privilegedProjectProvider userInfoGetter
              projectID clusterID None) (\<lambda>cluster.
       httpA (ucp_RevokeViewerKubeconfig clusterProvider cluster))"

section \<open>SSH keys of a cluster\<close>

definition getSSHKey ::
  "'s UserInfoGetter \<Rightarrow> 's SSHKeyProvider \<Rightarrow> 's PrivilegedSSHKeyProvider \<Rightarrow> string \<Rightarrow> string \<Rightarrow> ('s, sshkey) act" where
  "getSSHKey userInfoGetter sshKeyProvider privilegedSSHKeyProvider projectID keyName =
     bindA (wrapA (\<lambda>_. HTTPError 500) (userInfoGetter [])) (\<lambda>adminUserInfo.
       if ui_isAdmin adminUserInfo then pskp_GetUnsecured privilegedSSHKeyProvider keyName
       else
         bindA (wrapA (\<lambda>_. HTTPError 500) (userInfoGetter projectID)) (\<lambda>userInfo.
           skp_Get sshKeyProvider userInfo keyName))"

definition UpdateClusterSSHKey ::
  "'s UserInfoGetter \<Rightarrow> 's SSHKeyProvider \<Rightarrow> 's PrivilegedSSHKeyProvider \<Rightarrow> sshkey \<Rightarrow> string \<Rightarrow> ('s, unit) act" where
  "UpdateClusterSSHKey userInfoGetter sshKeyProvider privilegedSSHKeyProvider clusterSSHKey projectID =
     bindA (wrapA (\<lambda>_. HTTPError 500) (userInfoGetter [])) (\<lambda>adminUserInfo.
       if ui_isAdmin adminUserInfo then
         bindA (httpA (pskp_UpdateUnsecured privilegedSSHKeyProvider clusterSSHKey)) (\<lambda>_. retA ())
       else
         bindA (wrapA (\<lambda>_. HTTPError 500) (userInfoGetter projectID)) (\<lambda>userInfo.
         bindA (httpA (skp_Update sshKeyProvider userInfo clusterSSHKey)) (\<lambda>_.
           retA ())))"

text \<open>
  What both endpoints begin with: the project and the cluster are looked up, and the key has to be one of the project's;
  \<open>missing\<close> is the error when it is not.
\<close>

definition project_key ::
  "'s UserClusterProvider \<Rightarrow> 's PrivilegedClusterProvider \<Rightarrow> 's UserInfoGetter \<Rightarrow> 's ProjectProvider \<Rightarrow> 's PrivilegedProjectProvider \<Rightarrow>
     's SSHKeyProvider \<Rightarrow> 's PrivilegedSSHKeyProvider \<Rightarrow> go_error \<Rightarrow> string \<Rightarrow> string \<Rightarrow> string \<Rightarrow> ('s, sshkey) act" where
  "project_key clusterProvider privilegedClusterProvider userInfoGetter projectProvider privilegedProjectProvider sshKeyProvider
     privilegedSSHKeyProvider missing projectID clusterID keyID =
     bindA (httpA (GetProject userInfoGetter projectProvider privilegedProjectProvider projectID None)) (\<lambda>project.
     bindA (httpA (GetInternalCluster userInfoGetter clusterProvider privilegedClusterProvider project projectID clusterID
                     (Some \<lparr>cgo_checkInitStatus = False\<rparr>))) (\<lambda>_.
     bindA (httpA (skp_List sshKeyProvider (Some project) None)) (\<lambda>projectSSHKeys.
       if \<not> list_ex (\<lambda>key. om_name key = keyID) projectSSHKeys then failA missing
       else httpA (getSSHKey userInfoGetter sshKeyProvider privilegedSSHKeyProvider projectID keyID))))"

definition AssignSSHKeyEndpoint ::
  "'s cluster_sdk \<Rightarrow> 's UserClusterProvider \<Rightarrow> 's PrivilegedClusterProvider \<Rightarrow> 's UserInfoGetter \<Rightarrow> 's ProjectProvider \<Rightarrow>
     's PrivilegedProjectProvider \<Rightarrow> 's SSHKeyProvider \<Rightarrow> 's PrivilegedSSHKeyProvider \<Rightarrow> string \<Rightarrow> string \<Rightarrow> string \<Rightarrow> ('s, apiSSHKey) act" where
  "AssignSSHKeyEndpoint X clusterProvider privilegedClusterProvider userInfoGetter projectProvider privilegedProjectProvider
     sshKeyProvider privilegedSSHKeyProvider projectID clusterID keyID =
     (if keyID = [] then failA UtilBadRequest
      else
        bindA (project_key clusterProvider privilegedClusterProvider userInfoGetter projectProvider privilegedProjectProvider
                 sshKeyProvider privilegedSSHKeyProvider (Plain ''the given ssh key does not belong to the given project'')
                 projectID clusterID keyID) (\<lambda>sshKey.
          let apiKey = apiObject.extend
                \<lparr>ao_id = om_name sshKey, ao_name = sk_name sshKey, ao_annotations = [],
                 ao_creationTimestamp = om_creationTimestamp sshKey, ao_deletionTimestamp = None\<rparr> (apiSSHKey.fields [] []) in
          if cx_isUsedByCluster X sshKey clusterID then retA apiKey
          else
            bindA (UpdateClusterSSHKey userInfoGetter sshKeyProvider privilegedSSHKeyProvider (cx_addToCluster X sshKey clusterID)
                     projectID) (\<lambda>_.
              retA apiKey)))"

definition DetachSSHKeyEndpoint ::
  "'s cluster_sdk \<Rightarrow> 's UserClusterProvider \<Rightarrow> 's PrivilegedClusterProvider \<Rightarrow> 's UserInfoGetter \<Rightarrow> 's ProjectProvider \<Rightarrow>
     's PrivilegedProjectProvider \<Rightarrow> 's SSHKeyProvider \<Rightarrow> 's PrivilegedSSHKeyProvider \<Rightarrow> string \<Rightarrow> string \<Rightarrow> string \<Rightarrow> ('s, unit) act" where
  "DetachSSHKeyEndpoint X clusterProvider privilegedClusterProvider userInfoGetter projectProvider privilegedProjectProvider
     sshKeyProvider privilegedSSHKeyProvider projectID clusterID keyID =
     bindA (project_key clusterProvider privilegedClusterProvider userInfoGetter projectProvider privilegedProjectProvider
              sshKeyProvider privilegedSSHKeyProvider UtilNotFound projectID clusterID keyID) (\<lambda>clusterSSHKey.
       httpA (UpdateClusterSSHKey userInfoGetter sshKeyProvider privilegedSSHKeyProvider
                (cx_removeFromCluster X clusterSSHKey clusterID) projectID))"

definition ListSSHKeysEndpoint ::
  "'s UserClusterProvider \<Rightarrow> 's PrivilegedClusterProvider \<Rightarrow> 's UserInfoGetter \<Rightarrow> 's ProjectProvider \<Rightarrow> 's PrivilegedProjectProvider \<Rightarrow>
     's SSHKeyProvider \<Rightarrow> string \<Rightarrow> string \<Rightarrow> ('s, apiSSHKey list) act" where
  "ListSSHKeysEndpoint clusterProvider privilegedClusterProvider userInfoGetter projectProvider privilegedProjectProvider
     sshKeyProvider projectID clusterID =
     bindA (httpA (GetProject userInfoGetter projectProvider privilegedProjectProvider projectID None)) (\<lambda>project.
     bindA (httpA (GetInternalCluster userInfoGetter clusterProvider privilegedClusterProvider project projectID clusterID
                     (Some \<lparr>cgo_checkInitStatus = False\<rparr>))) (\<lambda>_.
     bindA (httpA (skp_List sshKeyProvider (Some project) (Some \<lparr>opt_clusterName = clusterID, opt_sshKeyName = []\<rparr>))) (\<lambda>keys.
       retA (ConvertInternalSSHKeysToExternal keys))))"

end
