(* ===== verification/Cluster_Properties.thy ===== *)
theory Cluster_Properties
  imports Clusters Cluster_RBAC_Properties SSH_Properties
begin

text \<open>
  What holds of the endpoints of clusters: attaching and detaching SSH keys, deleting a cluster, and counting the machine
  deployments of listed clusters.
\<close>

section \<open>Looking up\<close>

abbreviation kube_clusters where
  "kube_clusters E S \<equiv> NewClusterProvider E S"
abbreviation kube_clusters_priv where
  "kube_clusters_priv E S \<equiv> kube_privilegedClusterProvider E S"

lemma reads_GetInternalCluster [reads_intros]:
  "reads (GetInternalCluster (kube_getter E u) (kube_clusters E S) (kube_clusters_priv E S) p pid cid opts)"
  unfolding GetInternalCluster_def getClusterForRegularUser_def provider_fields by (intro reads_intros me.getter_reads)

text \<open>A client that may be denied an object, but never returns one that is not stored.\<close>

definition may_get :: "('s \<Rightarrow> 'a objmeta_scheme list) \<Rightarrow> ('a objmeta_scheme, 's) kclient \<Rightarrow> bool" where
  "may_get P c \<longleftrightarrow> (\<forall>k s x. kGet c k s = Inr x \<longrightarrow> lookup_key k (P s) = Inr x)"

lemma get_ok_may_get: "get_ok P c \<Longrightarrow> may_get P c"
  by (simp add: may_get_def get_okD)

section \<open>SSH keys of a cluster\<close>

definition keys_contract :: "('s \<Rightarrow> sshkey list) \<Rightarrow> 's ssh_clients \<Rightarrow> bool" where
  "keys_contract P C \<longleftrightarrow> list_ok P (skc_client C) \<and> may_get P (skc_client C) \<and> update_ok P (skc_client C) \<and>
     (\<forall>e g c. skc_impersonated C e g = Inr c \<longrightarrow> may_get P c \<and> update_ok P c)"

text \<open>What is documented of the methods of a key: the test, appending, and removing from a list without repetitions.\<close>

definition key_methods_ok :: "'s cluster_sdk \<Rightarrow> bool" where
  "key_methods_ok X \<longleftrightarrow> (\<forall>k c. cx_isUsedByCluster X k c \<longleftrightarrow> c \<in> set (sk_clusters k)) \<and>
     (\<forall>k c. cx_addToCluster X k c = k\<lparr>sk_clusters := sk_clusters k @ [c]\<rparr>) \<and>
     (\<forall>k c. distinct (sk_clusters k) \<longrightarrow> cx_removeFromCluster X k c = k\<lparr>sk_clusters := filter (\<lambda>x. x \<noteq> c) (sk_clusters k)\<rparr>)"

text \<open>A key without the metadata that the API server manages.\<close>

definition outline :: "sshkey \<Rightarrow> okey \<times> string \<times> string \<times> string \<times> string list" where
  "outline k = (key_of k, sk_name k, sk_project k, sk_publicKey k, sk_clusters k)"

definition with_clusters :: "sshkey \<Rightarrow> string list \<Rightarrow> sshkey list \<Rightarrow> (okey \<times> string \<times> string \<times> string \<times> string list) list" where
  "with_clusters k cs ks = map (\<lambda>y. if key_of y = key_of k then outline (k\<lparr>sk_clusters := cs\<rparr>) else outline y) ks"

definition stored_keys_ok :: "sshkey list \<Rightarrow> bool" where
  "stored_keys_ok ks \<longleftrightarrow> keys_ok ks \<and> (\<forall>k \<in> set ks. om_namespace k = [] \<and> distinct (sk_clusters k))"

lemma stored_keys_unique: "stored_keys_ok ks \<Longrightarrow> k \<in> set ks \<Longrightarrow> k' \<in> set ks \<Longrightarrow> om_name k = om_name k' \<Longrightarrow> k = k'"
  unfolding stored_keys_ok_def keys_ok_def distinct_map inj_on_def by (metis key_of_def)

abbreviation kube_project_key where
  "kube_project_key E S C u \<equiv> project_key (kube_clusters E S) (kube_clusters_priv E S) (kube_getter E u) (kube_projectProvider E)
     (kube_privilegedProjectProvider E) (kube_sshKeyProvider E C) (kube_privilegedSSHKeyProvider E C)"

abbreviation kube_assign where
  "kube_assign E S X C u \<equiv> AssignSSHKeyEndpoint X (kube_clusters E S) (kube_clusters_priv E S) (kube_getter E u) (kube_projectProvider E)
     (kube_privilegedProjectProvider E) (kube_sshKeyProvider E C) (kube_privilegedSSHKeyProvider E C)"

abbreviation kube_detach where
  "kube_detach E S X C u \<equiv> DetachSSHKeyEndpoint X (kube_clusters E S) (kube_clusters_priv E S) (kube_getter E u) (kube_projectProvider E)
     (kube_privilegedProjectProvider E) (kube_sshKeyProvider E C) (kube_privilegedSSHKeyProvider E C)"

lemma ssh_fields:
  "skp_Get (kube_sshKeyProvider E C) = ssh_Get C" "skp_Update (kube_sshKeyProvider E C) = ssh_Update C"
  "skp_List (kube_sshKeyProvider E C) = ssh_List C"
  "pskp_GetUnsecured (kube_privilegedSSHKeyProvider E C) = ssh_GetUnsecured C"
  "pskp_UpdateUnsecured (kube_privilegedSSHKeyProvider E C) = ssh_UpdateUnsecured C"
  by (simp_all add: kube_sshKeyProvider_def kube_privilegedSSHKeyProvider_def)

lemma reads_ssh_Get [reads_intros]: "reads (ssh_Get C i k)"
  unfolding ssh_Get_def ssh_impersonated_def by (intro reads_intros)

lemma reads_ssh_GetUnsecured [reads_intros]: "reads (ssh_GetUnsecured C k)"
  unfolding ssh_GetUnsecured_def by (intro reads_intros)

lemma reads_getSSHKey [reads_intros]:
  "reads (getSSHKey (kube_getter E u) (kube_sshKeyProvider E C) (kube_privilegedSSHKeyProvider E C) pid k)"
  unfolding getSSHKey_def ssh_fields by (intro reads_intros me.getter_reads)

lemma reads_project_key [reads_intros]: "reads (kube_project_key E S C u e pid cid kid)"
  unfolding project_key_def ssh_fields by (intro reads_intros me.getter_reads)

lemma ssh_Get_InrD:
  assumes "keys_contract P C"
  shows "ssh_Get C i k s = (Inr x, t) \<Longrightarrow> lookup_key ([], k) (P s) = Inr x"
    and "ssh_GetUnsecured C k s = (Inr x, t) \<Longrightarrow> lookup_key ([], k) (P s) = Inr x"
  using assms unfolding keys_contract_def may_get_def
  by (auto simp: ssh_Get_def ssh_GetUnsecured_def ssh_impersonated_def bindA_eq_Inr)

lemma getSSHKey_InrD:
  assumes C: "keys_contract P C"
    and run: "getSSHKey (kube_getter E u) (kube_sshKeyProvider E C) (kube_privilegedSSHKeyProvider E C) pid kid s = (Inr k, s)"
  shows "lookup_key ([], kid) (P s) = Inr k"
  using run ssh_Get_InrD[OF C]
  unfolding getSSHKey_def ssh_fields by (auto simp: bind_reads reads_wrapA me.getter_reads wrapA_eq_Inr split: if_splits)

lemma project_key_InrD:
  assumes api: "api_ok V E" and C: "keys_contract P C" and ok: "stored_keys_ok (P s)"
    and run: "kube_project_key E S C u e pid cid kid s = (Inr k, t)"
  shows "t = s" and "k \<in> set (P s)" and "om_name k = kid" and "sk_project k = pid"
proof -
  show "t = s" by (rule readsD[OF reads_project_key run])
  have l: "list_ok P (skc_client C)" using C by (simp add: keys_contract_def)
  from run obtain p k' where p: "GetProject (kube_getter E u) (kube_projectProvider E) (kube_privilegedProjectProvider E) pid None s = (Inr p, s)"
    and k': "k' \<in> set (keys_of (om_name p) (P s))" "om_name k' = kid"
    and k: "getSSHKey (kube_getter E u) (kube_sshKeyProvider E C) (kube_privilegedSSHKeyProvider E C) pid kid s = (Inr k, s)"
    unfolding project_key_def ssh_fields
    by (auto simp: bind_reads reads_wrapA reads_GetProject reads_GetInternalCluster reads_ssh_List reads_getSSHKey wrapA_eq_Inr
        ssh_List_run(1)[OF l] list_ex_iff split: if_splits dest: readsD[OF reads_getSSHKey])
  have "k \<in> set (P s)" "om_name k = kid" using lookup_key_mem[OF getSSHKey_InrD[OF C k]] by (auto simp: key_of_def)
  then show "k \<in> set (P s)" "om_name k = kid" by blast+
  moreover have "k' \<in> set (P s)" "sk_project k' = om_name p" using k'(1) by (auto simp: keys_of_def)
  ultimately show "sk_project k = pid" using stored_keys_unique[OF ok, of k k'] k'(2) GetProject_name[OF api p] by simp
qed

lemma update_run: "keys_contract P C \<Longrightarrow> (ssh_Update C i x s = (Inr y, t) \<or> ssh_UpdateUnsecured C x s = (Inr y, t)) \<Longrightarrow>
   same_object y x \<and> P t = map (\<lambda>z. if key_of z = key_of x then y else z) (P s)"
  unfolding keys_contract_def ssh_Update_def ssh_UpdateUnsecured_def ssh_impersonated_def
  by (auto simp: bindA_eq_Inr) (blast dest: update_okD)+

lemma UpdateClusterSSHKey_InrD:
  assumes C: "keys_contract P C"
    and run: "UpdateClusterSSHKey (kube_getter E u) (kube_sshKeyProvider E C) (kube_privilegedSSHKeyProvider E C) x pid s = (Inr v, t)"
  obtains y where "same_object y x" and "P t = map (\<lambda>z. if key_of z = key_of x then y else z) (P s)"
proof -
  from run obtain i y where "ssh_Update C i x s = (Inr y, t) \<or> ssh_UpdateUnsecured C x s = (Inr y, t)"
    unfolding UpdateClusterSSHKey_def ssh_fields
    by (auto simp: wrapA_eq_Inr bindA_eq_Inr split: if_splits dest!: readsD[OF me.getter_reads])
  from update_run[OF C this] that show thesis by blast
qed

lemma outline_update:
  assumes so: "same_object y (k\<lparr>sk_clusters := cs\<rparr>)" and P: "ks' = map (\<lambda>z. if key_of z = key_of (k\<lparr>sk_clusters := cs\<rparr>) then y else z) ks"
  shows "map outline ks' = with_clusters k cs ks"
    and "stored_keys_ok ks \<Longrightarrow> k \<in> set ks \<Longrightarrow> distinct cs \<Longrightarrow> stored_keys_ok ks'"
    and "z \<in> set ks' \<Longrightarrow> om_name z = om_name k \<Longrightarrow> stored_keys_ok ks \<Longrightarrow> k \<in> set ks \<Longrightarrow> z = y"
proof -
  have key: "key_of (k\<lparr>sk_clusters := cs\<rparr>) = key_of k" by (simp add: key_of_def)
  have o: "outline y = outline (k\<lparr>sk_clusters := cs\<rparr>)" using same_sshkey[OF so] same_objectD(3)[OF so] by (simp add: outline_def)
  show "map outline ks' = with_clusters k cs ks" unfolding P with_clusters_def key by (simp add: o)
  have ky: "key_of y = key_of k" using same_objectD(3)[OF so] key by simp
  show "stored_keys_ok ks'" if ok: "stored_keys_ok ks" "k \<in> set ks" "distinct cs"
  proof -
    have "map key_of ks' = map key_of ks" unfolding P key using ky by simp
    then have "keys_ok ks'" using ok(1) unfolding stored_keys_ok_def keys_ok_def by argo
    moreover have "om_namespace y = []" "distinct (sk_clusters y)"
      using same_objectD(2)[OF so] same_sshkey[OF so] ok by (auto simp: stored_keys_ok_def)
    ultimately show ?thesis using ok(1) by (auto simp: stored_keys_ok_def P)
  qed
  show "z = y" if "z \<in> set ks'" "om_name z = om_name k" "stored_keys_ok ks" "k \<in> set ks"
    using that ky unfolding P key stored_keys_ok_def by (auto simp: key_of_def split: if_splits)
qed

definition attached :: "string \<Rightarrow> string list \<Rightarrow> string list" where
  "attached c cs = (if c \<in> set cs then cs else cs @ [c])"

lemma attached_simps [simp]:
  "distinct cs \<Longrightarrow> distinct (attached c cs)" "filter (\<lambda>x. x \<noteq> c) (attached c cs) = filter (\<lambda>x. x \<noteq> c) cs"
  by (simp_all add: attached_def)

lemma assign_InrD:
  assumes api: "api_ok V E" and C: "keys_contract P C" and X: "key_methods_ok X" and ok: "stored_keys_ok (P s)"
    and run: "kube_assign E S X C u pid cid kid s = (Inr r, t)"
  obtains k y where "k \<in> set (P s)" "om_name k = kid" "sk_project k = pid"
    "same_object y (k\<lparr>sk_clusters := attached cid (sk_clusters k)\<rparr>)"
    "P t = map (\<lambda>z. if key_of z = key_of (k\<lparr>sk_clusters := attached cid (sk_clusters k)\<rparr>) then y else z) (P s)"
proof -
  let ?e = "Plain ''the given ssh key does not belong to the given project''"
  from run obtain k t1 where "kube_project_key E S C u ?e pid cid kid s = (Inr k, t1)"
    and r1: "if cx_isUsedByCluster X k cid then t = t1
      else \<exists>v. UpdateClusterSSHKey (kube_getter E u) (kube_sshKeyProvider E C) (kube_privilegedSSHKeyProvider E C) (cx_addToCluster X k cid) pid t1 = (Inr v, t)"
    unfolding AssignSSHKeyEndpoint_def Let_def by (auto simp: bindA_eq_Inr split: if_splits)
  moreover from this(1) have t1: "t1 = s" by (rule readsD[OF reads_project_key])
  ultimately have pk: "kube_project_key E S C u ?e pid cid kid s = (Inr k, s)" by blast
  note rest = r1[unfolded t1]
  note k = project_key_InrD[OF api C ok pk]
  show thesis
  proof (cases "cid \<in> set (sk_clusters k)")
    case True
    then have "t = s" "attached cid (sk_clusters k) = sk_clusters k" using rest X by (simp_all add: key_methods_ok_def attached_def)
    moreover have "map (\<lambda>z. if key_of z = key_of k then k else z) (P s) = P s"
      using stored_keys_unique[OF ok k(2)] by (intro map_idI) (auto simp: key_of_def)
    ultimately have "same_object k (k\<lparr>sk_clusters := attached cid (sk_clusters k)\<rparr>)"
      "P t = map (\<lambda>z. if key_of z = key_of (k\<lparr>sk_clusters := attached cid (sk_clusters k)\<rparr>) then k else z) (P s)"
      by (simp_all add: same_object_def)
    then show thesis by (rule that[OF k(2-4)])
  next
    case False
    let ?x = "k\<lparr>sk_clusters := attached cid (sk_clusters k)\<rparr>"
    from False X have "\<not> cx_isUsedByCluster X k cid" "cx_addToCluster X k cid = ?x" by (simp_all add: key_methods_ok_def attached_def)
    with rest obtain v where v: "UpdateClusterSSHKey (kube_getter E u) (kube_sshKeyProvider E C) (kube_privilegedSSHKeyProvider E C) ?x pid s = (Inr v, t)"
      by auto
    obtain y where "same_object y ?x" and "P t = map (\<lambda>z. if key_of z = key_of ?x then y else z) (P s)"
      by (rule UpdateClusterSSHKey_InrD[OF C v])
    then show thesis by (rule that[OF k(2-4)])
  qed
qed

lemma detach_InrD:
  assumes api: "api_ok V E" and C: "keys_contract P C" and X: "key_methods_ok X" and ok: "stored_keys_ok (P s)"
    and run: "kube_detach E S X C u pid cid kid s = (Inr r, t)"
  obtains k where "k \<in> set (P s)" "om_name k = kid" "sk_project k = pid"
    "map outline (P t) = with_clusters k (filter (\<lambda>x. x \<noteq> cid) (sk_clusters k)) (P s)"
proof -
  from run obtain k w where pk: "kube_project_key E S C u UtilNotFound pid cid kid s = (Inr k, s)"
    and w: "UpdateClusterSSHKey (kube_getter E u) (kube_sshKeyProvider E C) (kube_privilegedSSHKeyProvider E C) (cx_removeFromCluster X k cid) pid s = (Inr w, t)"
    unfolding DetachSSHKeyEndpoint_def by (auto simp: bind_reads[OF reads_project_key] wrapA_eq_Inr)
  note k = project_key_InrD[OF api C ok pk]
  have rm: "cx_removeFromCluster X k cid = k\<lparr>sk_clusters := filter (\<lambda>x. x \<noteq> cid) (sk_clusters k)\<rparr>"
    using X ok k(2) by (simp add: key_methods_ok_def stored_keys_ok_def)
  obtain y where "same_object y (k\<lparr>sk_clusters := filter (\<lambda>x. x \<noteq> cid) (sk_clusters k)\<rparr>)"
    "P t = map (\<lambda>x. if key_of x = key_of (k\<lparr>sk_clusters := filter (\<lambda>x. x \<noteq> cid) (sk_clusters k)\<rparr>) then y else x) (P s)"
    by (rule UpdateClusterSSHKey_InrD[OF C w[unfolded rm]])
  from outline_update(1)[OF this] show thesis by (rule that[OF k(2-4)])
qed

text \<open>
  attaching an SSH key to a cluster and detaching it again. The key is one of the project, attaching adds the cluster
  to its clusters, once, and changes no other key; detaching it afterwards, by whomever, leaves all keys as they were
  before, if the cluster was not among the clusters of the key.
\<close>

theorem cluster_key_roundtrip:
  assumes api: "api_ok V E" and C: "keys_contract P C" and X: "key_methods_ok X" and ok: "stored_keys_ok (P s)"
    and run: "kube_assign E S X C u pid cid kid s = (Inr r, t)"
  shows "\<exists>k \<in> set (P s). om_name k = kid \<and> sk_project k = pid \<and>
    map outline (P t) = with_clusters k (attached cid (sk_clusters k)) (P s) \<and>
    (\<forall>u' v t'. kube_detach E S X C u' pid cid kid t = (Inr v, t') \<longrightarrow>
       map outline (P t') = with_clusters k (filter (\<lambda>x. x \<noteq> cid) (sk_clusters k)) (P s))"
proof -
  obtain k y where k: "k \<in> set (P s)" "om_name k = kid" "sk_project k = pid"
    and so: "same_object y (k\<lparr>sk_clusters := attached cid (sk_clusters k)\<rparr>)"
    and Pt: "P t = map (\<lambda>z. if key_of z = key_of (k\<lparr>sk_clusters := attached cid (sk_clusters k)\<rparr>) then y else z) (P s)"
    by (rule assign_InrD[OF assms])
  note upd = outline_update[OF so Pt]
  have "distinct (sk_clusters k)" using ok k(1) by (simp add: stored_keys_ok_def)
  then have ok': "stored_keys_ok (P t)" by (intro upd(2)[OF ok k(1)]) simp
  have "map outline (P t') = with_clusters k (filter (\<lambda>x. x \<noteq> cid) (sk_clusters k)) (P s)"
    if det: "kube_detach E S X C u' pid cid kid t = (Inr v, t')" for u' v t'
  proof -
    obtain z where z: "z \<in> set (P t)" "om_name z = kid"
      and out: "map outline (P t') = with_clusters z (filter (\<lambda>x. x \<noteq> cid) (sk_clusters z)) (P t)"
      by (rule detach_InrD[OF api C X ok' det])
    have "z = y" using upd(3)[OF z(1) _ ok k(1)] z(2) k(2) by simp
    then have zc: "sk_clusters z = attached cid (sk_clusters k)" "key_of z = key_of k"
      "outline (z\<lparr>sk_clusters := ds\<rparr>) = outline (k\<lparr>sk_clusters := ds\<rparr>)" for ds
      using same_sshkey[OF so] same_objectD(3)[OF so] by (auto simp: outline_def key_of_def)
    have "key_of y = key_of k" "key_of (k\<lparr>sk_clusters := attached cid (sk_clusters k)\<rparr>) = key_of k"
      using same_objectD(3)[OF so] by (simp_all add: key_of_def)
    then show ?thesis unfolding out with_clusters_def Pt zc by simp
  qed
  then have "\<forall>u' v t'. kube_detach E S X C u' pid cid kid t = (Inr v, t') \<longrightarrow>
       map outline (P t') = with_clusters k (filter (\<lambda>x. x \<noteq> cid) (sk_clusters k)) (P s)" by blast
  then show ?thesis using k upd(1) by (intro bexI[of _ k]) simp_all
qed

section \<open>Counting machine deployments\<close>

abbreviation dc_of :: "cluster \<Rightarrow> string" where "dc_of c \<equiv> cl_datacenterName (cl_cloud (cl_spec c))"

abbreviation with_count :: "apiCluster \<Rightarrow> machine list \<Rightarrow> apiCluster" where
  "with_count a mds \<equiv> a\<lparr>ac_machineDeploymentCount := Some (int (length mds))\<rparr>"

lemma reads_DatacenterFromSeedMap [reads_intros]: "reads sg \<Longrightarrow> reads (DatacenterFromSeedMap X i sg n)"
  unfolding DatacenterFromSeedMap_def by (intro reads_intros) (auto split: list.splits if_splits intro: reads_intros)

lemma external_clusters_ids:
  assumes sg: "reads sg" and run: "external_clusters K X i sg cs s = (Inr as, t)"
  shows "t = s" and "map ao_id as = map om_name (filter (\<lambda>c. fst (DatacenterFromSeedMap X i sg (dc_of c) s) \<noteq> Inl (HTTPError 403)) cs)"
proof -
  have "t = s \<and> map ao_id as = map om_name (filter (\<lambda>c. fst (DatacenterFromSeedMap X i sg (dc_of c) s) \<noteq> Inl (HTTPError 403)) cs)"
    using run
  proof (induction cs arbitrary: as t)
    case (Cons c cs)
    from Cons.prems obtain r where r: "DatacenterFromSeedMap X i sg (dc_of c) s = (r, s)"
      and rest: "(case r of Inl err \<Rightarrow> if err = HTTPError 403 then external_clusters K X i sg cs else failA (KubernetesErrorToHTTPError err)
          | Inr (_, dc) \<Rightarrow> bindA (external_clusters K X i sg cs) (\<lambda>rest. retA (ConvertInternalClusterToExternal K X c dc True # rest))) s = (Inr as, t)"
      by (auto simp: tryA_eq_Inr dest: readsD[OF reads_DatacenterFromSeedMap[OF sg]])
    show ?case
    proof (cases r)
      case (Inl err)
      then show ?thesis using rest r Cons.IH[of as t] by (auto split: if_splits)
    next
      case (Inr p)
      then show ?thesis using rest r
        by (auto simp: bindA_eq_Inr ConvertInternalClusterToExternal_def apiObject.defs apiCluster.defs split: prod.splits dest!: Cons.IH)
    qed
  qed simp
  then show "t = s" "map ao_id as = map om_name (filter (\<lambda>c. fst (DatacenterFromSeedMap X i sg (dc_of c) s) \<noteq> Inl (HTTPError 403)) cs)"
    by blast+
qed

lemma machine_counts_run:
  assumes "\<forall>c \<in> set cs. L c s = (Inr (mds c), s)" and "pos \<le> length as"
  shows "machine_counts L pos cs (as, []) s =
    (if pos + length cs \<le> length as
     then Inr (take pos as @ map2 (\<lambda>a c. with_count a (mds c)) (drop pos as) cs @ drop (pos + length cs) as, []) else Inl Panic, s)"
  using assms
proof (induction cs arbitrary: pos as)
  case (Cons c cs)
  show ?case
  proof (cases "pos < length as")
    case True
    define bs where "bs = as[pos := with_count (as ! pos) (mds c)]"
    have len: "length bs = length as" by (simp add: bs_def)
    have "machine_counts L pos (c # cs) (as, []) s = machine_counts L (Suc pos) cs (bs, []) s"
      using Cons.prems True by (simp add: bs_def)
    also have "\<dots> = (if Suc pos + length cs \<le> length bs
       then Inr (take (Suc pos) bs @ map2 (\<lambda>a c. with_count a (mds c)) (drop (Suc pos) bs) cs @ drop (Suc pos + length cs) bs, []) else Inl Panic, s)"
      by (rule Cons.IH) (use Cons.prems True in \<open>auto simp: len\<close>)
    finally have run: "machine_counts L pos (c # cs) (as, []) s = \<dots>" .
    have d: "drop (Suc pos) bs = drop (Suc pos) as" "drop (Suc pos + length cs) bs = drop (pos + length (c # cs)) as"
      "take (Suc pos) bs = take pos as @ [with_count (as ! pos) (mds c)]" "drop pos as = as ! pos # drop (Suc pos) as"
      using True by (simp_all add: bs_def take_Suc_conv_app_nth Cons_nth_drop_Suc)
    show ?thesis unfolding run len d by simp
  qed (use Cons.prems in simp)
qed simp

definition project_clusters :: "'x sdk_scheme \<Rightarrow> string \<Rightarrow> cluster list \<Rightarrow> cluster list" where
  "project_clusters K pid cs = filter (\<lambda>c. map_of (om_labels c) (projectIDLabelKey K) = Some pid) cs"

lemma cluster_List_run:
  "list_ok P (sv_client S) \<Longrightarrow> cluster_List K S (Some p) None s = (Inr (project_clusters K (om_name p) (P s)), s)"
  by (simp add: cluster_List_def list_okD project_clusters_def)

lemma bindA_retA_id: "bindA m retA = m"
  by (rule ext) (simp add: act_defs split: prod.split sum.split)

abbreviation kube_GetClusters where
  "kube_GetClusters E S X sg u \<equiv> GetClusters E X (kube_getter E u) (kube_clusters E S) (kube_projectProvider E) (kube_privilegedProjectProvider E) sg"

text \<open>
  C34: counting the machine deployments while listing clusters. The list leaves out the clusters of the project whose
  datacenter the caller may not use. With the count, if the machine deployments of every cluster of the project can be listed, each cluster is listed with the number of its own machine
  deployments if none was left out; otherwise the counts are written past the end of the list, and the server panics.
\<close>

theorem machine_counts_panic:
  assumes api: "api_ok V E" and P: "list_ok P (sv_client S)" and sg: "reads sg" and cfg: "reads (cx_config X)"
    and run: "kube_GetClusters E S X sg u pid False s = (Inr as, t)"
    and mds: "\<forall>c \<in> set (project_clusters E pid (P s)).
      listClusterMachineDeployments (kube_getter E u) (kube_clusters E S) c pid s = (Inr (mds c), s)"
  shows "t = s \<and> (\<exists>i. kube_getter E u [] s = (Inr i, s) \<and>
      map ao_id as = map om_name (filter (\<lambda>c. fst (DatacenterFromSeedMap X i sg (dc_of c) s) \<noteq> Inl (HTTPError 403)) (project_clusters E pid (P s)))) \<and>
    kube_GetClusters E S X sg u pid True s =
      (if length as = length (project_clusters E pid (P s))
       then Inr (map2 (\<lambda>a c. with_count a (mds c)) as (project_clusters E pid (P s))) else Inl Panic, s)"
proof -
  from run obtain p i v where p: "GetProject (kube_getter E u) (kube_projectProvider E) (kube_privilegedProjectProvider E) pid None s = (Inr p, s)"
    and i: "kube_getter E u [] s = (Inr i, s)" and v: "cx_config X s = (Inr v, s)"
    and ext: "external_clusters E X i sg (project_clusters E (om_name p) (P s)) s = (Inr as, t)"
    unfolding GetClusters_def
    by (auto simp: bind_reads reads_wrapA reads_GetProject me.getter_reads cfg cluster_List_run[OF P] NewClusterProvider_def wrapA_eq_Inr bindA_retA_id)
  note name = GetProject_name[OF api p]
  note ids = external_clusters_ids[OF sg ext]
  have ext': "external_clusters E X i sg (project_clusters E pid (P s)) s = (Inr as, s)" using ext ids(1) name by simp
  from ids(2) have len: "length as \<le> length (project_clusters E pid (P s))"
    unfolding name by (metis length_filter_le length_map)
  have "kube_GetClusters E S X sg u pid True s =
      (if length as = length (project_clusters E pid (P s))
       then Inr (map2 (\<lambda>a c. with_count a (mds c)) as (project_clusters E pid (P s))) else Inl Panic, s)"
    using p i v ext' name len machine_counts_run[of _ "\<lambda>c. listClusterMachineDeployments (kube_getter E u) (kube_clusters E S) c pid", OF mds, of 0 as]
    by (auto simp: GetClusters_def cluster_List_run[OF P] NewClusterProvider_def)
  with ids i show ?thesis unfolding name by blast
qed

section \<open>Deleting a cluster\<close>

abbreviation kube_delete where
  "kube_delete E S X u pid cid vols lbs \<equiv> DeleteEndpoint X (kube_clusters E S) (kube_clusters_priv E S) (kube_getter E u) pid cid vols lbs
     (kube_projectProvider E) (kube_privilegedProjectProvider E)"

text \<open>What is documented of finalizers: the test and the addition.\<close>

definition finalizers_ok :: "'s cluster_sdk \<Rightarrow> bool" where
  "finalizers_ok X \<longleftrightarrow> (\<forall>fs f. cx_hasFinalizer X fs f \<longleftrightarrow> f \<in> set fs) \<and> (\<forall>fs f. set (cx_addFinalizer X fs f) = insert f (set fs))"

lemma cleanup_finalizers_set:
  assumes "finalizers_ok X"
  shows "set (cleanup_finalizers X vols lbs fs) = set fs \<union>
    (if cx_nodeDeletionFinalizer X \<in> set fs
     then (if lbs then {cx_lbCleanupFinalizer X} else {}) \<union> (if vols then {cx_pvCleanupFinalizer X} else {}) else {})"
  using assms by (auto simp: finalizers_ok_def cleanup_finalizers_def Let_def)

text \<open>The three requests that delete a cluster \<open>c\<close>, all sent by the client \<open>k\<close>.\<close>

definition deletes_with :: "(cluster, 's) kclient \<Rightarrow> string \<Rightarrow> cluster \<Rightarrow> cluster \<Rightarrow> 's \<Rightarrow> 's \<Rightarrow> bool" where
  "deletes_with k cid c c' s t \<longleftrightarrow> kGet k ([], cid) s = Inr c \<and>
     (\<exists>c'' t'. kUpdate k c' s = (Inr c'', t') \<and> kDelete k (key_of c'') t' = (Inr (), t))"

lemma no_check: "checkInitStatus S (Some \<lparr>cgo_checkInitStatus = False\<rparr>) c = Inr c"
  by (simp add: checkInitStatus_def)

lemma delete_as_admin:
  assumes "cluster_GetUnsecured K S (Some p) cid (Some \<lparr>cgo_checkInitStatus = False\<rparr>) s = (Inr c, s)"
    and "cluster_UpdateUnsecured K S (Some p) c' s = (Inr c'', t')" and "cluster_DeleteUnsecured S c'' t' = (Inr v, t)"
  shows "deletes_with (sv_client S) cid c (c'\<lparr>om_labels := getClusterLabels K (om_labels c') (om_name p) []\<rparr>) s t \<and>
     mget (om_labels c) (projectIDLabelKey K) = om_name p"
  using assms by (auto simp: deletes_with_def cluster_GetUnsecured_def cluster_UpdateUnsecured_def cluster_DeleteUnsecured_def
      bindA_eq_Inr no_check split: if_splits)

lemma delete_as_member:
  assumes "cluster_Get S (Some i) cid (Some \<lparr>cgo_checkInitStatus = False\<rparr>) s = (Inr c, s)"
    and "cluster_Update K S (Some p) (Some i) c' s = (Inr c'', t')" and "cluster_Delete S (Some i) c'' t' = (Inr v, t)"
  shows "\<exists>k. sv_impersonated S (ui_email i) (ui_groups i) = Inr k \<and>
     deletes_with k cid c (c'\<lparr>om_labels := getClusterLabels K (om_labels c') (om_name p) []\<rparr>) s t"
  using assms by (auto simp: deletes_with_def cluster_Get_def cluster_Update_def cluster_Delete_def seed_impersonated_def
      bindA_eq_Inr no_check split: if_splits)

lemma getClusterForRegularUser_InrD:
  assumes "getClusterForRegularUser (kube_getter E u) (kube_clusters E S) (kube_clusters_priv E S) p pid cid opts s = (Inr c, s)"
  obtains i where "kube_getter E u pid s = (Inr i, s)" and "cluster_Get S (Some i) cid opts s = (Inr c, s)"
  using assms unfolding getClusterForRegularUser_def provider_fields
  by (auto simp: bind_reads reads_wrapA me.getter_reads wrapA_eq_Inr tryA_case_Inr split: if_splits dest: readsD[OF reads_cluster_Get])

text \<open>
  C28: deleting a cluster. A successful request reads the cluster, updates it and deletes it, in this order and with one
  client: the privileged one only for administrators, and then the cluster has to be labelled with the project; for
  everybody else a client that impersonates the caller with exactly the groups granted to him in the project. The update
  keeps the finalizers of the cluster and adds those that clean up its load balancers and volumes as asked, if the
  cluster was up once, and nothing else.
\<close>

theorem cluster_deletion_authorized:
  assumes api: "api_ok V E" and sel: "selectors_ok E" and pid: "pid \<noteq> []" and X: "finalizers_ok X"
    and run: "kube_delete E S X u pid cid vols lbs s = (Inr v, t)"
  shows "\<exists>k c fs. deletes_with k cid c (c\<lparr>cl_finalizers := fs, om_labels := getClusterLabels E (om_labels c) pid []\<rparr>) s t \<and>
    set fs = set (cl_finalizers c) \<union> (if cx_nodeDeletionFinalizer X \<in> set (cl_finalizers c)
      then (if lbs then {cx_lbCleanupFinalizer X} else {}) \<union> (if vols then {cx_pvCleanupFinalizer X} else {}) else {}) \<and>
    (if us_isAdmin u then k = sv_client S \<and> mget (om_labels c) (projectIDLabelKey E) = pid
     else sv_impersonated S (us_email u) (sorted_list_of_set (granted_groups (st_upbs (V s)) (st_gpbs (V s)) u pid)) = Inr k)"
proof -
  let ?o = "Some \<lparr>cgo_checkInitStatus = False\<rparr>"
  from run obtain p c where p: "GetProject (kube_getter E u) (kube_projectProvider E) (kube_privilegedProjectProvider E) pid None s = (Inr p, s)"
    and g: "GetInternalCluster (kube_getter E u) (kube_clusters E S) (kube_clusters_priv E S) p pid cid ?o s = (Inr c, s)"
    and upd: "updateAndDeleteCluster (kube_getter E u) (kube_clusters E S) (kube_clusters_priv E S) p
       (c\<lparr>cl_finalizers := cleanup_finalizers X vols lbs (cl_finalizers c)\<rparr>) s = (Inr v, t)"
    unfolding DeleteEndpoint_def by (auto simp: bind_reads reads_wrapA reads_GetProject reads_GetInternalCluster wrapA_eq_Inr)
  from g obtain a where a: "kube_getter E u [] s = (Inr a, s)"
    and get: "(if ui_isAdmin a then httpA (cluster_GetUnsecured E S (Some p) cid ?o)
       else getClusterForRegularUser (kube_getter E u) (kube_clusters E S) (kube_clusters_priv E S) p pid cid ?o) s = (Inr c, s)"
    unfolding GetInternalCluster_def provider_fields by (auto simp: bind_reads reads_wrapA me.getter_reads wrapA_eq_Inr)
  have name: "om_name p = pid" by (rule GetProject_name[OF api p])
  have adm: "ui_isAdmin a = us_isAdmin u" by (rule me.getter_admin[OF a])
  let ?c = "c\<lparr>cl_finalizers := cleanup_finalizers X vols lbs (cl_finalizers c)\<rparr>"
  let ?d = "c\<lparr>cl_finalizers := cleanup_finalizers X vols lbs (cl_finalizers c), om_labels := getClusterLabels E (om_labels c) pid []\<rparr>"
  have "\<exists>k. deletes_with k cid c ?d s t \<and>
    (if us_isAdmin u then k = sv_client S \<and> mget (om_labels c) (projectIDLabelKey E) = pid
     else sv_impersonated S (us_email u) (sorted_list_of_set (granted_groups (st_upbs (V s)) (st_gpbs (V s)) u pid)) = Inr k)"
  proof (cases "us_isAdmin u")
    case True
    with upd adm obtain c'' t' where "cluster_UpdateUnsecured E S (Some p) ?c s = (Inr c'', t')" "cluster_DeleteUnsecured S c'' t' = (Inr v, t)"
      using a by (auto simp: updateAndDeleteCluster_def kube_privilegedClusterProvider_def bindA_eq_Inr wrapA_eq_Inr)
    with delete_as_admin[of E S p cid s c ?c c'' t' v t] get adm True show ?thesis by (auto simp: wrapA_eq_Inr name)
  next
    case False
    with get adm obtain i where i: "kube_getter E u pid s = (Inr i, s)" "cluster_Get S (Some i) cid ?o s = (Inr c, s)"
      by (auto elim: getClusterForRegularUser_InrD)
    from False upd adm obtain c'' t' where "cluster_Update E S (Some p) (Some i) ?c s = (Inr c'', t')" "cluster_Delete S (Some i) c'' t' = (Inr v, t)"
      using a i(1) by (auto simp: updateAndDeleteCluster_def updateAndDeleteClusterForRegularUser_def name
          NewClusterProvider_def bindA_eq_Inr wrapA_eq_Inr)
    with delete_as_member[OF i(2), of E p ?c c'' t' v t] False getter_grants(1,2)[OF api sel i(1) pid] show ?thesis by (auto simp: name)
  qed
  with cleanup_finalizers_set[OF X, of vols lbs "cl_finalizers c"] show ?thesis by blast
qed

section \<open>Witnesses\<close>

definition empty_client :: "('o objmeta_scheme, 's) kclient" where
  "empty_client = mem_client (\<lambda>_. []) (\<lambda>_ w. w)"

definition empty_uclient :: "'s uclient" where
  "empty_uclient =
     \<lparr>uc_roles = empty_client, uc_clusterRoles = empty_client, uc_roleBindings = empty_client, uc_clusterRoleBindings = empty_client,
      uc_serviceAccounts = empty_client, uc_secrets = empty_client, uc_machines = empty_client,
      uc_machineDeployments = empty_client, uc_namespaces = empty_client\<rparr>"

text \<open>A seed whose clusters are those of one client.\<close>

definition seed_of :: "(cluster, 's) kclient \<Rightarrow> 's seed_env" where
  "seed_of k =
     \<lparr>sv_client = k, sv_secrets = empty_client, sv_impersonated = (\<lambda>_ _. Inr k),
      sv_connect = (\<lambda>_ _. retA empty_uclient), sv_waitUntilCached = (\<lambda>_ _. retA ()), sv_updateClusterStatus = (\<lambda>c f. retA (f c)),
      sv_makeClusterName = retA ''c2'', sv_generateToken = retA ''token'', sv_loadKubeconfig = (\<lambda>t. Inr \<lparr>kc_servers = [], kc_rest = t\<rparr>),
      sv_isConnectionRefused = (\<lambda>_. False), sv_workerName = [], sv_oidcKubeConfEndpoint = False, sv_seedName = ''eu'',
      sv_edgeProvider = ''edge'', sv_adminKubeconfigSecret = ''admin'', sv_viewerKubeconfigSecret = ''viewer'',
      sv_viewerTokenSecret = ''viewer-token'', sv_kubeconfigKey = ''kubeconfig'', sv_viewerTokenKey = ''token''\<rparr>"

definition demo_sdk :: "'s cluster_sdk" where
  "demo_sdk =
     \<lparr>cx_matchesRequirements = (\<lambda>e rs. rs = [] \<or> e \<in> set rs), cx_ccmSupported = (\<lambda>_ _. False), cx_needCCMMigration = (\<lambda>_. False),
      cx_externalCloudProvider = ''externalCloudProvider'', cx_vsphereCSIClusterID = ''vsphereCSIClusterID'',
      cx_hasFinalizer = (\<lambda>fs f. f \<in> set fs), cx_addFinalizer = (\<lambda>fs f. if f \<in> set fs then fs else fs @ [f]),
      cx_nodeDeletionFinalizer = ''nodes'', cx_lbCleanupFinalizer = ''lb'', cx_pvCleanupFinalizer = ''pv'',
      cx_isUsedByCluster = (\<lambda>k c. c \<in> set (sk_clusters k)), cx_addToCluster = (\<lambda>k c. k\<lparr>sk_clusters := sk_clusters k @ [c]\<rparr>),
      cx_removeFromCluster = (\<lambda>k c. k\<lparr>sk_clusters := filter (\<lambda>x. x \<noteq> c) (sk_clusters k)\<rparr>),
      cx_proxyEmpty = (\<lambda>_. True), cx_proxyString = (\<lambda>v. case v of None \<Rightarrow> [] | Some v \<Rightarrow> v), cx_config = retA (),
      cx_listEvents = (\<lambda>_ _. retA [])\<rparr>"

lemma demo_sdk_ok: "key_methods_ok demo_sdk" "finalizers_ok demo_sdk"
  by (auto simp: key_methods_ok_def finalizers_ok_def demo_sdk_def)

text \<open>Bob attaches his key to the cluster of his project and detaches it.\<close>

abbreviation one_cluster :: "(mem \<times> sshkey list) seed_env" where
  "one_cluster \<equiv> seed_of (mem_client (\<lambda>_. [demo_cluster]) (\<lambda>_ w. w))"

definition laptop :: sshkey where
  "laptop = objmeta.extend (blank_meta\<lparr>om_name := ''key-1'', om_labels := [(''project-id'', ''p1'')]\<rparr>) (sshkey.fields ''laptop'' ''p1'' [] ''fp'' ''ssh-rsa AAAA'')"

text \<open>The project has a second cluster, in a datacenter that is not for Bob.\<close>

abbreviation seed_env_of :: "(mem \<times> cluster list) env" where "seed_env_of \<equiv> lift_env mem_env"
abbreviation demo_seed_of :: "(mem \<times> cluster list) seed_env" where "demo_seed_of \<equiv> seed_of extra_client"

definition us_cluster :: cluster where
  "us_cluster = demo_cluster\<lparr>om_name := ''c2'', cl_spec := demo_spec\<lparr>cl_cloud := demo_fake\<lparr>cl_datacenterName := ''us''\<rparr>\<rparr>\<rparr>"

definition demo_seeds :: "(mem \<times> cluster list) SeedsGetter" where
  "demo_seeds = retA [(''kubermatic'', \<lparr>sd_name = ''kubermatic'', sd_invalid = False, sd_datacenters =
     [(''eu'', \<lparr>dc_openstack = None, dc_vsphere = None, dc_requiredEmails = []\<rparr>),
      (''us'', \<lparr>dc_openstack = None, dc_vsphere = None, dc_requiredEmails = [''eve@acme.com'']\<rparr>)]\<rparr>)]"

theorem machine_counts_panic_witness:
  "\<exists>as. kube_GetClusters seed_env_of demo_seed_of demo_sdk demo_seeds bob ''p1'' False (world1, [demo_cluster, us_cluster]) =
       (Inr as, (world1, [demo_cluster, us_cluster])) \<and> map ao_id as = [''c1''] \<and>
     kube_GetClusters seed_env_of demo_seed_of demo_sdk demo_seeds bob ''p1'' True (world1, [demo_cluster, us_cluster]) =
       (Inl Panic, (world1, [demo_cluster, us_cluster]))"
proof -
  let ?s = "(world1, [demo_cluster, us_cluster])"
  have ids: "case kube_GetClusters seed_env_of demo_seed_of demo_sdk demo_seeds bob ''p1'' False ?s of (Inl _, _) \<Rightarrow> False
      | (Inr as, _) \<Rightarrow> map ao_id as = [''c1'']" by code_simp
  then obtain as t where run: "kube_GetClusters seed_env_of demo_seed_of demo_sdk demo_seeds bob ''p1'' False ?s = (Inr as, t)"
    and as: "map ao_id as = [''c1'']" by (auto split: prod.splits sum.splits)
  have P: "list_ok snd (sv_client demo_seed_of)" by (simp add: seed_of_def extra_client_ok)
  have rd: "reads demo_seeds" "reads (cx_config demo_sdk)" by (simp_all add: demo_seeds_def demo_sdk_def reads_retA)
  have cs: "project_clusters seed_env_of ''p1'' (snd ?s) = [demo_cluster, us_cluster]" by code_simp
  have mds: "listClusterMachineDeployments (kube_getter seed_env_of bob) (kube_clusters seed_env_of demo_seed_of) c ''p1'' ?s = (Inr [], ?s)" for c
  proof -
    have "\<not> isl (fst (kube_getter seed_env_of bob [] ?s))" "\<not> isl (fst (kube_getter seed_env_of bob ''p1'' ?s))" by code_simp+
    then obtain a i where "kube_getter seed_env_of bob [] ?s = (Inr a, ?s)" "kube_getter seed_env_of bob ''p1'' ?s = (Inr i, ?s)"
      by (metis success_obtain readsD[OF me.getter_reads])
    then show ?thesis
      by (auto simp: listClusterMachineDeployments_def GetClusterClient_def provider_fields GetAdminClientForUserCluster_def
          GetClientForUserCluster_def seed_of_def empty_uclient_def empty_client_def mem_client_def)
  qed
  have "\<forall>c \<in> set (project_clusters seed_env_of ''p1'' (snd ?s)).
      listClusterMachineDeployments (kube_getter seed_env_of bob) (kube_clusters seed_env_of demo_seed_of) c ''p1'' ?s = (Inr [], ?s)"
    using mds by blast
  from machine_counts_panic[OF lift_api_ok[OF mem_api_ok] P rd run this] as run show ?thesis
    unfolding cs by (auto dest: arg_cong[where f = length])
qed

text \<open>Bob deletes the cluster with its volumes.\<close>

definition up_cluster :: cluster where
  "up_cluster = demo_cluster\<lparr>cl_finalizers := [''nodes'']\<rparr>"

theorem cluster_deletion_authorized_witness:
  "\<exists>t k c fs. kube_delete seed_env_of demo_seed_of demo_sdk bob ''p1'' ''c1'' True False (world1, [up_cluster]) = (Inr (), t) \<and> snd t = [] \<and>
     deletes_with k ''c1'' c (c\<lparr>cl_finalizers := fs, om_labels := getClusterLabels seed_env_of (om_labels c) ''p1'' []\<rparr>) (world1, [up_cluster]) t \<and>
     sv_impersonated demo_seed_of ''bob@acme.com'' (sorted_list_of_set {''editors-p1'', ''dev-p1''}) = Inr k"
proof -
  let ?s = "(world1, [up_cluster])"
  have del: "case kube_delete seed_env_of demo_seed_of demo_sdk bob ''p1'' ''c1'' True False ?s of (Inl _, _) \<Rightarrow> False
      | (Inr _, t) \<Rightarrow> snd t = []" by code_simp
  then obtain t where run: "kube_delete seed_env_of demo_seed_of demo_sdk bob ''p1'' ''c1'' True False ?s = (Inr (), t)" and t: "snd t = []"
    by (auto split: prod.splits sum.splits)
  have b: "\<not> us_isAdmin bob" "us_email bob = ''bob@acme.com''" by (simp_all add: world1_defs)
  have sel: "selectors_ok seed_env_of" using mem_selectors_ok by (simp add: selectors_ok_def lift_env_def sdk.defs env.defs)
  have pid: "''p1'' \<noteq> []" by simp
  have g: "granted_groups (st_upbs (mem_store (fst ?s))) (st_gpbs (mem_store (fst ?s))) bob ''p1'' = {''editors-p1'', ''dev-p1''}"
    using world1_groups by (simp add: mem_store_def)
  from cluster_deletion_authorized[OF lift_api_ok[OF mem_api_ok] sel pid demo_sdk_ok(2) run] show ?thesis
    unfolding g b(2) using run t b(1) by auto
qed

end
