(* ===== verification/Cluster_Credentials.thy ===== *)
theory Cluster_Credentials
  imports Common_Handlers
begin

text \<open>
  The credentials of a cluster: they are moved from its cloud specification into a secret of the seed
  (\<^verbatim>\<open>pkg/provider/kubernetes/credentials.go\<close>), from where the cloud providers read them
  (\<^verbatim>\<open>GetCredentialsForCluster\<close> in the packages of \<^verbatim>\<open>pkg/provider/cloud\<close>).
\<close>

section \<open>What other packages provide\<close>

text \<open>The constants of the package \<^verbatim>\<open>resources\<close> that name the keys of a secret.\<close>

datatype credkey =
    AWSAccessKeyID | AWSSecretAccessKey
  | AzureTenantID | AzureSubscriptionID | AzureClientID | AzureClientSecret
  | DigitaloceanToken | GCPServiceAccount | HetznerToken
  | OpenstackUsername | OpenstackPassword | OpenstackProject | OpenstackProjectID | OpenstackTenant | OpenstackTenantID
  | OpenstackDomain | OpenstackApplicationCredentialID | OpenstackApplicationCredentialSecret | OpenstackToken
  | KubeVirtKubeconfig
  | VsphereUsername | VspherePassword | VsphereInfraManagementUserUsername | VsphereInfraManagementUserPassword
  | TinkerbellKubeconfig | AlibabaAccessKeyID | AlibabaAccessKeySecret | AnexiaToken
  | NutanixUsername | NutanixPassword | NutanixProxyURL | NutanixCSIUsername | NutanixCSIPassword
  | VMwareCloudDirectorUsername | VMwareCloudDirectorPassword | VMwareCloudDirectorAPIToken
  | VMwareCloudDirectorOrganization | VMwareCloudDirectorVDC

record OpenstackCredentials =
  oc_username :: string
  oc_password :: string
  oc_project :: string
  oc_projectID :: string
  oc_domain :: string
  oc_applicationCredentialID :: string
  oc_applicationCredentialSecret :: string
  oc_token :: string

record VMwareCloudDirectorCredentials =
  vc_username :: string
  vc_password :: string
  vc_organization :: string
  vc_apiToken :: string
  vc_vdc :: string

text \<open>What the cloud is asked to validate, by provider.\<close>

datatype validation =
    ValidateAWS string string
  | ValidateAzure string string string string
  | ValidateDigitalocean string
  | ValidateGCP string
  | ValidateHetzner string
  | ValidateOpenstack OpenstackCredentials
  | ValidateVSphere string string
  | ValidateAlibaba string string
  | ValidateAnexia string
  | ValidateNutanix string string string
  | ValidateVMwareCloudDirector string string string string string

text \<open>
  \<open>cd_reconcile\<close> is \<^verbatim>\<open>reconciling.ReconcileSecrets\<close> for one secret: it creates or changes the secret of that namespace
  and name to what the given function makes of it. \<open>cd_validate\<close> asks the cloud of a datacenter.
\<close>

record 's credentials_sdk =
  cd_key :: "credkey \<Rightarrow> string"
  cd_projectIDLabelKey :: string
  cd_namespace :: string
  cd_getSecretName :: "cluster \<Rightarrow> string"
  cd_reconcile :: "string \<Rightarrow> string \<Rightarrow> (secret \<Rightarrow> secret) \<Rightarrow> ('s, unit) act"
  cd_validate :: "datacenter \<Rightarrow> validation \<Rightarrow> ('s, unit) act"
  cd_secrets :: "(secret, 's) kclient"

section \<open>Moving credentials into a secret\<close>

abbreviation cloud_of :: "cluster \<Rightarrow> CloudSpec" where "cloud_of c \<equiv> cl_cloud (cl_spec c)"

definition with_cloud :: "CloudSpec \<Rightarrow> cluster \<Rightarrow> cluster" where
  "with_cloud cloud c = c\<lparr>cl_spec := (cl_spec c)\<lparr>cl_cloud := cloud\<rparr>\<rparr>"

definition credentialSecretReconcilerFactory :: "'s credentials_sdk \<Rightarrow> smap \<Rightarrow> (credkey \<times> string) list \<Rightarrow> (secret \<Rightarrow> secret) result" where
  "credentialSecretReconcilerFactory R clusterLabels secretData =
     (let projectID = mget clusterLabels (cd_projectIDLabelKey R) in
      if projectID = [] then Inl (Plain ''cluster is missing the project label'')
      else Inr (\<lambda>existing. existing
        \<lparr>om_labels := AList.update (cd_projectIDLabelKey R) projectID (om_labels existing),
         sec_data := Some (map (\<lambda>(k, v). (cd_key R k, v)) secretData)\<rparr>))"

definition ensureCredentialSecret :: "'s credentials_sdk \<Rightarrow> cluster \<Rightarrow> (credkey \<times> string) list \<Rightarrow> ('s, credentials_ref) act" where
  "ensureCredentialSecret R c secretData =
     bindA (liftA (credentialSecretReconcilerFactory R (om_labels c) secretData)) (\<lambda>reconciler.
     bindA (cd_reconcile R (cd_namespace R) (cd_getSecretName R c) reconciler) (\<lambda>_.
       retA (cd_namespace R, cd_getSecretName R c)))"

text \<open>Nothing is validated when no datacenter is given.\<close>

definition validated :: "'s credentials_sdk \<Rightarrow> datacenter option \<Rightarrow> validation \<Rightarrow> ('s, unit) act" where
  "validated R validate v = (case validate of None \<Rightarrow> retA () | Some dc \<Rightarrow> wrapA Wrapped (cd_validate R dc v))"

definition createOrUpdateAWSSecret :: "'s credentials_sdk \<Rightarrow> datacenter option \<Rightarrow> AWSCloud \<Rightarrow> cluster \<Rightarrow> ('s, cluster \<times> bool) act" where
  "createOrUpdateAWSSecret R validate spec c =
     (if ca_accessKeyID spec = [] \<and> ca_secretAccessKey spec = [] then retA (c, False)
      else
        bindA (validated R validate (ValidateAWS (ca_accessKeyID spec) (ca_secretAccessKey spec))) (\<lambda>_.
        bindA (ensureCredentialSecret R c [(AWSAccessKeyID, ca_accessKeyID spec), (AWSSecretAccessKey, ca_secretAccessKey spec)]) (\<lambda>credentialRef.
          retA (with_cloud ((cloud_of c)\<lparr>cl_aws := Some (spec\<lparr>ca_credentialsReference := Some credentialRef, ca_accessKeyID := [], ca_secretAccessKey := []\<rparr>)\<rparr>) c, True))))"

definition createOrUpdateAzureSecret :: "'s credentials_sdk \<Rightarrow> datacenter option \<Rightarrow> AzureCloud \<Rightarrow> cluster \<Rightarrow> ('s, cluster \<times> bool) act" where
  "createOrUpdateAzureSecret R validate spec c =
     (if cz_tenantID spec = [] \<and> cz_subscriptionID spec = [] \<and> cz_clientID spec = [] \<and> cz_clientSecret spec = [] then retA (c, False)
      else
        bindA (validated R validate (ValidateAzure (cz_tenantID spec) (cz_subscriptionID spec) (cz_clientID spec) (cz_clientSecret spec))) (\<lambda>_.
        bindA (ensureCredentialSecret R c [(AzureTenantID, cz_tenantID spec), (AzureSubscriptionID, cz_subscriptionID spec), (AzureClientID, cz_clientID spec), (AzureClientSecret, cz_clientSecret spec)]) (\<lambda>credentialRef.
          retA (with_cloud ((cloud_of c)\<lparr>cl_azure := Some (spec\<lparr>cz_credentialsReference := Some credentialRef, cz_tenantID := [], cz_subscriptionID := [], cz_clientID := [], cz_clientSecret := []\<rparr>)\<rparr>) c, True))))"

definition createOrUpdateDigitaloceanSecret :: "'s credentials_sdk \<Rightarrow> datacenter option \<Rightarrow> TokenCloud \<Rightarrow> cluster \<Rightarrow> ('s, cluster \<times> bool) act" where
  "createOrUpdateDigitaloceanSecret R validate spec c =
     (if ct_token spec = [] then retA (c, False)
      else
        bindA (validated R validate (ValidateDigitalocean (ct_token spec))) (\<lambda>_.
        bindA (ensureCredentialSecret R c [(DigitaloceanToken, ct_token spec)]) (\<lambda>credentialRef.
          retA (with_cloud ((cloud_of c)\<lparr>cl_digitalocean := Some (spec\<lparr>ct_credentialsReference := Some credentialRef, ct_token := []\<rparr>)\<rparr>) c, True))))"

definition createOrUpdateGCPSecret :: "'s credentials_sdk \<Rightarrow> datacenter option \<Rightarrow> GCPCloud \<Rightarrow> cluster \<Rightarrow> ('s, cluster \<times> bool) act" where
  "createOrUpdateGCPSecret R validate spec c =
     (if cg_serviceAccount spec = [] then retA (c, False)
      else
        bindA (validated R validate (ValidateGCP (cg_serviceAccount spec))) (\<lambda>_.
        bindA (ensureCredentialSecret R c [(GCPServiceAccount, cg_serviceAccount spec)]) (\<lambda>credentialRef.
          retA (with_cloud ((cloud_of c)\<lparr>cl_gcp := Some (spec\<lparr>cg_credentialsReference := Some credentialRef, cg_serviceAccount := []\<rparr>)\<rparr>) c, True))))"

definition createOrUpdateHetznerSecret :: "'s credentials_sdk \<Rightarrow> datacenter option \<Rightarrow> HetznerCloud \<Rightarrow> cluster \<Rightarrow> ('s, cluster \<times> bool) act" where
  "createOrUpdateHetznerSecret R validate spec c =
     (if ch_token spec = [] then retA (c, False)
      else
        bindA (validated R validate (ValidateHetzner (ch_token spec))) (\<lambda>_.
        bindA (ensureCredentialSecret R c [(HetznerToken, ch_token spec)]) (\<lambda>credentialRef.
          retA (with_cloud ((cloud_of c)\<lparr>cl_hetzner := Some (spec\<lparr>ch_credentialsReference := Some credentialRef, ch_token := []\<rparr>)\<rparr>) c, True))))"

text \<open>The values of the old secret, and those of the specification (\<^verbatim>\<open>openstack.GetCredentialsForCluster\<close>).\<close>

abbreviation no_openstack :: OpenstackCredentials where
  "no_openstack \<equiv> \<lparr>oc_username = [], oc_password = [], oc_project = [], oc_projectID = [], oc_domain = [],
     oc_applicationCredentialID = [], oc_applicationCredentialSecret = [], oc_token = []\<rparr>"

definition from_secret :: "'s credentials_sdk \<Rightarrow> credentials_ref option \<Rightarrow> credkey \<Rightarrow> ('s, string) act" where
  "from_secret R ref k = secretKeySelectorValue (cd_secrets R) ref (cd_key R k)"

text \<open>An inline value, or else that of the secret.\<close>

definition inline_or_secret :: "'s credentials_sdk \<Rightarrow> credentials_ref option \<Rightarrow> string \<Rightarrow> credkey \<Rightarrow> ('s, string) act" where
  "inline_or_secret R ref v k =
     (if v \<noteq> [] then retA v else if ref = None then failA (Plain ''no credentials provided'') else from_secret R ref k)"

text \<open>A failure to read is ignored.\<close>

definition secret_or_empty :: "'s credentials_sdk \<Rightarrow> credentials_ref option \<Rightarrow> credkey \<Rightarrow> ('s, string) act" where
  "secret_or_empty R ref k = tryA (from_secret R ref k) (\<lambda>r. case r of Inl _ \<Rightarrow> retA [] | Inr v \<Rightarrow> retA v)"

definition firstKey :: "'s credentials_sdk \<Rightarrow> credentials_ref option \<Rightarrow> credkey \<Rightarrow> credkey \<Rightarrow> ('s, string) act" where
  "firstKey R configVar key fallbackKey =
     tryA (from_secret R configVar key) (\<lambda>r. case r of Inl _ \<Rightarrow> from_secret R configVar fallbackKey | Inr v \<Rightarrow> retA v)"

definition openstack_project :: "'s credentials_sdk \<Rightarrow> credentials_ref option \<Rightarrow> string \<Rightarrow> credkey \<Rightarrow> credkey \<Rightarrow> ('s, string) act" where
  "openstack_project R ref v k k' = (if v = [] \<and> ref \<noteq> None \<and> snd (the ref) \<noteq> [] then firstKey R ref k k' else retA v)"

definition openstack_GetCredentialsForCluster :: "'s credentials_sdk \<Rightarrow> OpenstackCloud \<Rightarrow> ('s, OpenstackCredentials) act" where
  "openstack_GetCredentialsForCluster R cl =
     (let ref = co_credentialsReference cl in
      if co_applicationCredentialID cl \<noteq> [] \<and> co_applicationCredentialSecret cl \<noteq> []
      then retA (no_openstack\<lparr>oc_applicationCredentialSecret := co_applicationCredentialSecret cl,
                   oc_applicationCredentialID := co_applicationCredentialID cl\<rparr>)
      else
        bindA (if co_applicationCredentialID cl = [] \<and> ref \<noteq> None then secret_or_empty R ref OpenstackApplicationCredentialID
               else retA (co_applicationCredentialID cl)) (\<lambda>applicationCredentialID.
        if co_applicationCredentialID cl = [] \<and> ref \<noteq> None \<and> applicationCredentialID \<noteq> [] then
          bindA (from_secret R ref OpenstackApplicationCredentialSecret) (\<lambda>applicationCredentialSecret.
            retA (no_openstack\<lparr>oc_applicationCredentialSecret := applicationCredentialSecret,
                    oc_applicationCredentialID := applicationCredentialID\<rparr>))
        else
          bindA (inline_or_secret R ref (co_domain cl) OpenstackDomain) (\<lambda>domain.
          if co_useToken cl \<and> co_token cl \<noteq> [] then retA (no_openstack\<lparr>oc_token := co_token cl, oc_domain := domain\<rparr>)
          else
            bindA (if \<not> co_useToken cl \<and> ref \<noteq> None then secret_or_empty R ref OpenstackToken else retA []) (\<lambda>token.
            if token \<noteq> [] then retA (no_openstack\<lparr>oc_token := token, oc_domain := domain\<rparr>)
            else
              bindA (inline_or_secret R ref (co_username cl) OpenstackUsername) (\<lambda>username.
              bindA (inline_or_secret R ref (co_password cl) OpenstackPassword) (\<lambda>password.
              bindA (openstack_project R ref (co_project cl) OpenstackProject OpenstackTenant) (\<lambda>project.
              bindA (openstack_project R ref (co_projectID cl) OpenstackProjectID OpenstackTenantID) (\<lambda>projectID.
                retA \<lparr>oc_username = username, oc_password = password, oc_project = project, oc_projectID = projectID, oc_domain = domain,
                      oc_applicationCredentialID = applicationCredentialID,
                      oc_applicationCredentialSecret = co_applicationCredentialSecret cl, oc_token = []\<rparr>))))))))"

text \<open>Project and domain are taken from the credentials read before if the specification does not have them.\<close>

definition filled :: "OpenstackCloud \<Rightarrow> OpenstackCredentials \<Rightarrow> OpenstackCloud" where
  "filled spec oldCred =
     spec\<lparr>co_project := (if co_project spec = [] then oc_project oldCred else co_project spec),
          co_projectID := (if co_projectID spec = [] then oc_projectID oldCred else co_projectID spec),
          co_domain := (if co_domain spec = [] then oc_domain oldCred else co_domain spec)\<rparr>"

text \<open>\<open>rawToken\<close> is the bearer token of the request, if the context has one.\<close>

definition auth_token :: "string option \<Rightarrow> bool \<Rightarrow> string result" where
  "auth_token rawToken useToken =
     (if \<not> useToken then Inr []
      else
        (case rawToken of
           None \<Rightarrow> Inl (Plain ''failed to get authentication token'')
         | Some token \<Rightarrow> if token = [] then Inl (Plain ''failed to get authentication token'') else Inr token))"

definition createOrUpdateOpenstackSecret ::
  "'s credentials_sdk \<Rightarrow> string option \<Rightarrow> datacenter option \<Rightarrow> OpenstackCloud \<Rightarrow> cluster \<Rightarrow> ('s, cluster \<times> bool) act" where
  "createOrUpdateOpenstackSecret R rawToken validate spec c =
     (if co_username spec = [] \<and> co_password spec = [] \<and> co_project spec = [] \<and> co_projectID spec = [] \<and> co_domain spec = [] \<and>
         co_applicationCredentialID spec = [] \<and> co_applicationCredentialSecret spec = [] \<and> \<not> co_useToken spec
      then retA (c, False)
      else
        bindA (openstack_GetCredentialsForCluster R spec) (\<lambda>oldCred.
        let spec = filled spec oldCred in
        bindA (liftA (auth_token rawToken (co_useToken spec))) (\<lambda>authToken.
        bindA (validated R validate (ValidateOpenstack
                 \<lparr>oc_username = co_username spec, oc_password = co_password spec, oc_project = co_project spec, oc_projectID = co_projectID spec,
                  oc_domain = co_domain spec, oc_applicationCredentialID = co_applicationCredentialID spec,
                  oc_applicationCredentialSecret = co_applicationCredentialSecret spec, oc_token = authToken\<rparr>)) (\<lambda>_.
        bindA (ensureCredentialSecret R c
                 [(OpenstackUsername, co_username spec), (OpenstackPassword, co_password spec), (OpenstackProject, co_project spec),
                  (OpenstackProjectID, co_projectID spec), (OpenstackDomain, co_domain spec),
                  (OpenstackApplicationCredentialID, co_applicationCredentialID spec),
                  (OpenstackApplicationCredentialSecret, co_applicationCredentialSecret spec), (OpenstackToken, authToken)]) (\<lambda>credentialRef.
          retA (with_cloud ((cloud_of c)\<lparr>cl_openstack := Some (spec\<lparr>co_credentialsReference := Some credentialRef, co_username := [], co_password := [],
                  co_project := [], co_projectID := [], co_domain := [], co_applicationCredentialSecret := [], co_applicationCredentialID := [],
                  co_useToken := False\<rparr>)\<rparr>) c, True))))))"

definition createOrUpdateKubevirtSecret :: "'s credentials_sdk \<Rightarrow> KubevirtCloud \<Rightarrow> cluster \<Rightarrow> ('s, cluster \<times> bool) act" where
  "createOrUpdateKubevirtSecret R spec c =
     (if ck_kubeconfig spec = [] then retA (c, False)
      else
        bindA (ensureCredentialSecret R c [(KubeVirtKubeconfig, ck_kubeconfig spec)]) (\<lambda>credentialRef.
          retA (with_cloud ((cloud_of c)\<lparr>cl_kubevirt := Some (spec\<lparr>ck_credentialsReference := Some credentialRef, ck_kubeconfig := []\<rparr>)\<rparr>) c, True)))"

definition createVSphereSecret :: "'s credentials_sdk \<Rightarrow> datacenter option \<Rightarrow> VSphereCloud \<Rightarrow> cluster \<Rightarrow> ('s, cluster \<times> bool) act" where
  "createVSphereSecret R validate spec c =
     (if cv_username spec = [] \<and> cv_password spec = [] \<and> cv_infraUsername spec = [] \<and> cv_infraPassword spec = [] then retA (c, False)
      else
        bindA (validated R validate (ValidateVSphere (cv_username spec) (cv_password spec))) (\<lambda>_.
        bindA (ensureCredentialSecret R c
                 [(VsphereUsername, cv_username spec), (VspherePassword, cv_password spec),
                  (VsphereInfraManagementUserUsername, cv_infraUsername spec), (VsphereInfraManagementUserPassword, cv_infraPassword spec)])
          (\<lambda>credentialRef.
          retA (with_cloud ((cloud_of c)\<lparr>cl_vsphere := Some (spec\<lparr>cv_credentialsReference := Some credentialRef, cv_username := [],
                  cv_password := [], cv_infraUsername := [], cv_infraPassword := []\<rparr>)\<rparr>) c, True))))"

text \<open>The kubeconfig of Tinkerbell is behind a pointer.\<close>

definition createOrUpdateBaremetalSecret :: "'s credentials_sdk \<Rightarrow> BaremetalCloud \<Rightarrow> cluster \<Rightarrow> ('s, cluster \<times> bool) act" where
  "createOrUpdateBaremetalSecret R spec c =
     (case cb_tinkerbell spec of
        None \<Rightarrow> failA (Plain ''tinkerbell is required'')
      | Some kubeconfig \<Rightarrow>
          if kubeconfig = [] then retA (c, False)
          else
            bindA (ensureCredentialSecret R c [(TinkerbellKubeconfig, kubeconfig)]) (\<lambda>credentialRef.
              retA (with_cloud ((cloud_of c)\<lparr>cl_baremetal := Some (spec\<lparr>cb_credentialsReference := Some credentialRef,
                      cb_tinkerbell := Some []\<rparr>)\<rparr>) c, True)))"

definition createAlibabaSecret :: "'s credentials_sdk \<Rightarrow> datacenter option \<Rightarrow> AlibabaCloud \<Rightarrow> cluster \<Rightarrow> ('s, cluster \<times> bool) act" where
  "createAlibabaSecret R validate spec c =
     (if cal_accessKeyID spec = [] \<and> cal_accessKeySecret spec = [] then retA (c, False)
      else
        bindA (validated R validate (ValidateAlibaba (cal_accessKeyID spec) (cal_accessKeySecret spec))) (\<lambda>_.
        bindA (ensureCredentialSecret R c [(AlibabaAccessKeyID, cal_accessKeyID spec), (AlibabaAccessKeySecret, cal_accessKeySecret spec)]) (\<lambda>credentialRef.
          retA (with_cloud ((cloud_of c)\<lparr>cl_alibaba := Some (spec\<lparr>cal_credentialsReference := Some credentialRef, cal_accessKeyID := [], cal_accessKeySecret := []\<rparr>)\<rparr>) c, True))))"

definition createOrUpdateAnexiaSecret :: "'s credentials_sdk \<Rightarrow> datacenter option \<Rightarrow> TokenCloud \<Rightarrow> cluster \<Rightarrow> ('s, cluster \<times> bool) act" where
  "createOrUpdateAnexiaSecret R validate spec c =
     (if ct_token spec = [] then retA (c, False)
      else
        bindA (validated R validate (ValidateAnexia (ct_token spec))) (\<lambda>_.
        bindA (ensureCredentialSecret R c [(AnexiaToken, ct_token spec)]) (\<lambda>credentialRef.
          retA (with_cloud ((cloud_of c)\<lparr>cl_anexia := Some (spec\<lparr>ct_credentialsReference := Some credentialRef, ct_token := []\<rparr>)\<rparr>) c, True))))"

text \<open>The fields of the CSI part are its user, password, endpoint and port.\<close>

definition createOrUpdateNutanixSecret :: "'s credentials_sdk \<Rightarrow> datacenter option \<Rightarrow> NutanixCloud \<Rightarrow> cluster \<Rightarrow> ('s, cluster \<times> bool) act" where
  "createOrUpdateNutanixSecret R validate spec c =
     (if cn_username spec = [] \<and> cn_password spec = [] \<and> cn_proxyURL spec = [] \<and>
         (case cn_csi spec of None \<Rightarrow> True | Some (u, p, _, _) \<Rightarrow> u = [] \<and> p = []) then retA (c, False)
      else
        bindA (validated R validate (ValidateNutanix (cn_proxyURL spec) (cn_username spec) (cn_password spec))) (\<lambda>_.
        bindA (ensureCredentialSecret R c
                 ([(NutanixUsername, cn_username spec), (NutanixPassword, cn_password spec)] @
                  (if cn_proxyURL spec \<noteq> [] then [(NutanixProxyURL, cn_proxyURL spec)] else []) @
                  (case cn_csi spec of None \<Rightarrow> [] | Some (u, p, _, _) \<Rightarrow> [(NutanixCSIUsername, u), (NutanixCSIPassword, p)]))) (\<lambda>credentialRef.
          retA (with_cloud ((cloud_of c)\<lparr>cl_nutanix := Some (spec\<lparr>cn_credentialsReference := Some credentialRef, cn_username := [],
                  cn_password := [], cn_proxyURL := [],
                  cn_csi := map_option (\<lambda>(_, _, endpoint, port). ([], [], endpoint, port)) (cn_csi spec)\<rparr>)\<rparr>) c, True))))"

definition createOrUpdateVMwareCloudDirectorSecret ::
  "'s credentials_sdk \<Rightarrow> datacenter option \<Rightarrow> VCDCloud \<Rightarrow> cluster \<Rightarrow> ('s, cluster \<times> bool) act" where
  "createOrUpdateVMwareCloudDirectorSecret R validate spec c =
     (if cvc_username spec = [] \<and> cvc_password spec = [] \<and> cvc_organization spec = [] \<and> cvc_vdc spec = [] \<and> cvc_apiToken spec = []
      then retA (c, False)
      else
        bindA (validated R validate (ValidateVMwareCloudDirector (cvc_username spec) (cvc_password spec) (cvc_apiToken spec)
                 (cvc_organization spec) (cvc_vdc spec))) (\<lambda>_.
        bindA (ensureCredentialSecret R c
                 [(VMwareCloudDirectorUsername, cvc_username spec), (VMwareCloudDirectorPassword, cvc_password spec),
                  (VMwareCloudDirectorAPIToken, cvc_apiToken spec), (VMwareCloudDirectorOrganization, cvc_organization spec),
                  (VMwareCloudDirectorVDC, cvc_vdc spec)]) (\<lambda>credentialRef.
          retA (with_cloud ((cloud_of c)\<lparr>cl_vmwareCloudDirector := Some (spec\<lparr>cvc_credentialsReference := Some credentialRef, cvc_username := [],
                  cvc_password := [], cvc_apiToken := [], cvc_organization := [], cvc_vdc := []\<rparr>)\<rparr>) c, True))))"

fun first_some :: "'a option list \<Rightarrow> 'a option" where
  "first_some [] = None"
| "first_some (x # xs) = (case x of None \<Rightarrow> first_some xs | Some a \<Rightarrow> Some a)"

text \<open>The first provider that the cloud specification has decides.\<close>

definition createOrUpdateCredentialSecretForCluster ::
  "'s credentials_sdk \<Rightarrow> string option \<Rightarrow> datacenter option \<Rightarrow> cluster \<Rightarrow> ('s, cluster \<times> bool) act" where
  "createOrUpdateCredentialSecretForCluster R rawToken validate c =
     (let cloud = cloud_of c in
      case first_some
        [map_option (\<lambda>spec. createOrUpdateAWSSecret R validate spec c) (cl_aws cloud),
         map_option (\<lambda>spec. createOrUpdateAzureSecret R validate spec c) (cl_azure cloud),
         map_option (\<lambda>spec. createOrUpdateDigitaloceanSecret R validate spec c) (cl_digitalocean cloud),
         map_option (\<lambda>spec. createOrUpdateGCPSecret R validate spec c) (cl_gcp cloud),
         map_option (\<lambda>spec. createOrUpdateHetznerSecret R validate spec c) (cl_hetzner cloud),
         map_option (\<lambda>spec. createOrUpdateOpenstackSecret R rawToken validate spec c) (cl_openstack cloud),
         map_option (\<lambda>spec. createOrUpdateKubevirtSecret R spec c) (cl_kubevirt cloud),
         map_option (\<lambda>spec. createVSphereSecret R validate spec c) (cl_vsphere cloud),
         map_option (\<lambda>spec. createOrUpdateBaremetalSecret R spec c) (cl_baremetal cloud),
         map_option (\<lambda>spec. createAlibabaSecret R validate spec c) (cl_alibaba cloud),
         map_option (\<lambda>spec. createOrUpdateAnexiaSecret R validate spec c) (cl_anexia cloud),
         map_option (\<lambda>spec. createOrUpdateNutanixSecret R validate spec c) (cl_nutanix cloud),
         map_option (\<lambda>spec. createOrUpdateVMwareCloudDirectorSecret R validate spec c) (cl_vmwareCloudDirector cloud)] of
        None \<Rightarrow> retA (c, False)
      | Some create \<Rightarrow> create)"

definition CreateOrUpdateCredentialSecretForClusterWithValidation ::
  "'s credentials_sdk \<Rightarrow> string option \<Rightarrow> datacenter option \<Rightarrow> cluster \<Rightarrow> ('s, cluster \<times> bool) act" where
  "CreateOrUpdateCredentialSecretForClusterWithValidation R rawToken validate c =
     createOrUpdateCredentialSecretForCluster R rawToken validate c"

definition CreateOrUpdateCredentialSecretForCluster :: "'s credentials_sdk \<Rightarrow> string option \<Rightarrow> cluster \<Rightarrow> ('s, cluster) act" where
  "CreateOrUpdateCredentialSecretForCluster R rawToken c =
     bindA (createOrUpdateCredentialSecretForCluster R rawToken None c) (\<lambda>(c, _). retA c)"

section \<open>Reading credentials\<close>

text \<open>\<^verbatim>\<open>GetCredentialsForCluster\<close> of each provider, for the part of the cloud specification that is its own.\<close>

definition aws_GetCredentialsForCluster :: "'s credentials_sdk \<Rightarrow> AWSCloud \<Rightarrow> ('s, string \<times> string \<times> string \<times> string) act" where
  "aws_GetCredentialsForCluster R cl =
     bindA (inline_or_secret R (ca_credentialsReference cl) (ca_accessKeyID cl) AWSAccessKeyID) (\<lambda>accessKeyID.
     bindA (inline_or_secret R (ca_credentialsReference cl) (ca_secretAccessKey cl) AWSSecretAccessKey) (\<lambda>secretAccessKey.
       retA (accessKeyID, secretAccessKey, ca_assumeRoleARN cl, ca_assumeRoleExternalID cl)))"

definition azure_GetCredentialsForCluster :: "'s credentials_sdk \<Rightarrow> AzureCloud \<Rightarrow> ('s, string \<times> string \<times> string \<times> string) act" where
  "azure_GetCredentialsForCluster R cl =
     bindA (inline_or_secret R (cz_credentialsReference cl) (cz_tenantID cl) AzureTenantID) (\<lambda>tenantID.
     bindA (inline_or_secret R (cz_credentialsReference cl) (cz_subscriptionID cl) AzureSubscriptionID) (\<lambda>subscriptionID.
     bindA (inline_or_secret R (cz_credentialsReference cl) (cz_clientID cl) AzureClientID) (\<lambda>clientID.
     bindA (inline_or_secret R (cz_credentialsReference cl) (cz_clientSecret cl) AzureClientSecret) (\<lambda>clientSecret.
       retA (tenantID, subscriptionID, clientID, clientSecret)))))"

definition digitalocean_GetCredentialsForCluster :: "'s credentials_sdk \<Rightarrow> TokenCloud \<Rightarrow> ('s, string) act" where
  "digitalocean_GetCredentialsForCluster R cl = inline_or_secret R (ct_credentialsReference cl) (ct_token cl) DigitaloceanToken"

definition gcp_GetCredentialsForCluster :: "'s credentials_sdk \<Rightarrow> GCPCloud \<Rightarrow> ('s, string) act" where
  "gcp_GetCredentialsForCluster R cl = inline_or_secret R (cg_credentialsReference cl) (cg_serviceAccount cl) GCPServiceAccount"

definition hetzner_GetCredentialsForCluster :: "'s credentials_sdk \<Rightarrow> HetznerCloud \<Rightarrow> ('s, string) act" where
  "hetzner_GetCredentialsForCluster R cl = inline_or_secret R (ch_credentialsReference cl) (ch_token cl) HetznerToken"

definition kubevirt_GetCredentialsForCluster :: "'s credentials_sdk \<Rightarrow> KubevirtCloud \<Rightarrow> ('s, string) act" where
  "kubevirt_GetCredentialsForCluster R cl = inline_or_secret R (ck_credentialsReference cl) (ck_kubeconfig cl) KubeVirtKubeconfig"

definition alibaba_GetCredentialsForCluster :: "'s credentials_sdk \<Rightarrow> AlibabaCloud \<Rightarrow> ('s, string \<times> string) act" where
  "alibaba_GetCredentialsForCluster R cl =
     bindA (inline_or_secret R (cal_credentialsReference cl) (cal_accessKeyID cl) AlibabaAccessKeyID) (\<lambda>accessKeyID.
     bindA (inline_or_secret R (cal_credentialsReference cl) (cal_accessKeySecret cl) AlibabaAccessKeySecret) (\<lambda>accessKeySecret.
       retA (accessKeyID, accessKeySecret)))"

definition anexia_GetCredentialsForCluster :: "'s credentials_sdk \<Rightarrow> TokenCloud \<Rightarrow> ('s, string) act" where
  "anexia_GetCredentialsForCluster R cl = inline_or_secret R (ct_credentialsReference cl) (ct_token cl) AnexiaToken"

text \<open>Some value, or else that of a key.\<close>

definition or_secret :: "'s credentials_sdk \<Rightarrow> credentials_ref option \<Rightarrow> credkey \<Rightarrow> string \<Rightarrow> ('s, string) act" where
  "or_secret R ref k v = (if v = [] then from_secret R ref k else retA v)"

definition getUsernameAndPassword :: "'s credentials_sdk \<Rightarrow> VSphereCloud \<Rightarrow> bool \<Rightarrow> ('s, string \<times> string) act" where
  "getUsernameAndPassword R cl infraManagementUser =
     (let ref = cv_credentialsReference cl;
          username = (if infraManagementUser then cv_infraUsername cl else []);
          password = (if infraManagementUser then cv_infraPassword cl else []);
          username = (if username = [] then cv_username cl else username);
          password = (if password = [] then cv_password cl else password)
      in if username \<noteq> [] \<and> password \<noteq> [] then retA (username, password)
         else if ref = None then failA (Plain ''empty credentialsReference'')
         else
           bindA (if infraManagementUser then or_secret R ref VsphereInfraManagementUserUsername username else retA username) (\<lambda>username.
           bindA (or_secret R ref VsphereUsername username) (\<lambda>username.
           bindA (if infraManagementUser then or_secret R ref VsphereInfraManagementUserPassword password else retA password) (\<lambda>password.
           bindA (or_secret R ref VspherePassword password) (\<lambda>password.
             if username = [] then failA (Plain ''unable to get username'')
             else if password = [] then failA (Plain ''unable to get password'')
             else retA (username, password))))))"

text \<open>\<open>dcUser\<close> is the user that the datacenter has for the infrastructure.\<close>

definition vsphere_GetCredentialsForCluster ::
  "'s credentials_sdk \<Rightarrow> (string \<times> string) option \<Rightarrow> VSphereCloud \<Rightarrow> ('s, string \<times> string) act" where
  "vsphere_GetCredentialsForCluster R dcUser cl =
     (case dcUser of
        Some (u, p) \<Rightarrow> if u \<noteq> [] \<and> p \<noteq> [] then retA (u, p) else getUsernameAndPassword R cl True
      | None \<Rightarrow> getUsernameAndPassword R cl True)"

text \<open>The user, the password and the proxy; the other fields of the result are those of the datacenter.\<close>

definition nutanix_getCredentials :: "'s credentials_sdk \<Rightarrow> NutanixCloud \<Rightarrow> ('s, string \<times> string \<times> string) act" where
  "nutanix_getCredentials R cl =
     bindA (inline_or_secret R (cn_credentialsReference cl) (cn_username cl) NutanixUsername) (\<lambda>username.
     bindA (inline_or_secret R (cn_credentialsReference cl) (cn_password cl) NutanixPassword) (\<lambda>password.
     bindA (if cn_proxyURL cl = [] \<and> cn_credentialsReference cl \<noteq> None then secret_or_empty R (cn_credentialsReference cl) NutanixProxyURL
            else retA (cn_proxyURL cl)) (\<lambda>proxyURL.
       retA (username, password, proxyURL))))"

definition vmwareclouddirector_GetCredentialsForCluster ::
  "'s credentials_sdk \<Rightarrow> VCDCloud \<Rightarrow> ('s, VMwareCloudDirectorCredentials) act" where
  "vmwareclouddirector_GetCredentialsForCluster R cl =
     (let ref = cvc_credentialsReference cl in
      bindA (inline_or_secret R ref (cvc_organization cl) VMwareCloudDirectorOrganization) (\<lambda>organization.
      bindA (inline_or_secret R ref (cvc_vdc cl) VMwareCloudDirectorVDC) (\<lambda>vdc.
      bindA (if cvc_apiToken cl = [] \<and> ref \<noteq> None then secret_or_empty R ref VMwareCloudDirectorAPIToken else retA (cvc_apiToken cl)) (\<lambda>apiToken.
        if apiToken \<noteq> []
        then retA \<lparr>vc_username = [], vc_password = [], vc_organization = organization, vc_apiToken = apiToken, vc_vdc = vdc\<rparr>
        else
          bindA (inline_or_secret R ref (cvc_username cl) VMwareCloudDirectorUsername) (\<lambda>username.
          bindA (inline_or_secret R ref (cvc_password cl) VMwareCloudDirectorPassword) (\<lambda>password.
            retA \<lparr>vc_username = username, vc_password = password, vc_organization = organization, vc_apiToken = [], vc_vdc = vdc\<rparr>))))))"

end
