(* ===== verification/Credential_Properties.thy ===== *)
theory Credential_Properties
  imports Cluster_Credentials Cluster_RBAC_Properties
begin

text \<open>
  What holds of the credentials of clusters: once moved into a secret they are not in the specification any more, and the
  cloud providers read them back from there.
\<close>

section \<open>The contract of the secrets\<close>

text \<open>
  Reconciling a secret stores under its name what the function makes of some object, and no two keys of the
  secret of one provider have the same name.
\<close>

definition provider_keys :: "credkey list list" where
  "provider_keys =
     [[AWSAccessKeyID, AWSSecretAccessKey], [AzureTenantID, AzureSubscriptionID, AzureClientID, AzureClientSecret],
      [DigitaloceanToken], [GCPServiceAccount], [HetznerToken],
      [OpenstackUsername, OpenstackPassword, OpenstackProject, OpenstackProjectID, OpenstackDomain, OpenstackApplicationCredentialID,
       OpenstackApplicationCredentialSecret, OpenstackToken],
      [KubeVirtKubeconfig], [VsphereUsername, VspherePassword, VsphereInfraManagementUserUsername, VsphereInfraManagementUserPassword],
      [TinkerbellKubeconfig], [AlibabaAccessKeyID, AlibabaAccessKeySecret], [AnexiaToken],
      [NutanixUsername, NutanixPassword, NutanixProxyURL, NutanixCSIUsername, NutanixCSIPassword],
      [VMwareCloudDirectorUsername, VMwareCloudDirectorPassword, VMwareCloudDirectorAPIToken, VMwareCloudDirectorOrganization,
       VMwareCloudDirectorVDC]]"

definition creds_ok :: "('s \<Rightarrow> secret list) \<Rightarrow> 's credentials_sdk \<Rightarrow> bool" where
  "creds_ok P R \<longleftrightarrow> get_ok P (cd_secrets R) \<and>
     (\<forall>ns name f s u t. cd_reconcile R ns name f s = (Inr u, t) \<longrightarrow>
        (\<exists>old x. lookup_key (ns, name) (P t) = Inr x \<and> same_object x ((f old)\<lparr>om_name := name, om_namespace := ns\<rparr>))) \<and>
     cd_namespace R \<noteq> [] \<and> (\<forall>c. cd_getSecretName R c \<noteq> []) \<and> (\<forall>k. cd_key R k \<noteq> []) \<and>
     list_all (\<lambda>ks. distinct (map (cd_key R) ks)) provider_keys"

lemma same_credential_secret: "same_object (x :: secret) y \<Longrightarrow> sec_data x = sec_data y"
  by (cases x; cases y) (simp add: same_object_def secret.defs objmeta.defs)

text \<open>The values of the secret, by key.\<close>

definition stored_values :: "'s credentials_sdk \<Rightarrow> credentials_ref \<Rightarrow> (credkey \<times> string) list \<Rightarrow> 's \<Rightarrow> bool" where
  "stored_values R ref data t \<longleftrightarrow> (\<forall>k. from_secret R (Some ref) k t =
     (case map_of (map (\<lambda>(k, v). (cd_key R k, v)) data) (cd_key R k) of
        None \<Rightarrow> (Inl (Plain ''secret has no key''), t) | Some v \<Rightarrow> (Inr v, t)))"

lemma ensureCredentialSecret_InrD:
  assumes ok: "creds_ok P R" and run: "ensureCredentialSecret R c data s = (Inr ref, t)"
  shows "stored_values R ref data t \<and> snd ref \<noteq> []"
proof -
  from run obtain f u where f: "credentialSecretReconcilerFactory R (om_labels c) data = Inr f"
    and r: "cd_reconcile R (cd_namespace R) (cd_getSecretName R c) f s = (Inr u, t)" and ref: "ref = (cd_namespace R, cd_getSecretName R c)"
    by (auto simp: ensureCredentialSecret_def bindA_eq_Inr)
  from f have d: "sec_data (f old) = Some (map (\<lambda>(k, v). (cd_key R k, v)) data)" for old
    by (auto simp: credentialSecretReconcilerFactory_def Let_def split: if_splits)
  from ok r obtain old x where x: "lookup_key ref (P t) = Inr x"
    and so: "same_object x ((f old)\<lparr>om_name := snd ref, om_namespace := fst ref\<rparr>)"
    unfolding creds_ok_def ref by fastforce
  have "sec_data x = Some (map (\<lambda>(k, v). (cd_key R k, v)) data)" using same_credential_secret[OF so] d by simp
  moreover have "get_ok P (cd_secrets R)" using ok by (simp add: creds_ok_def)
  then have "kGet (cd_secrets R) ref t = Inr x" using x by (simp add: get_okD)
  ultimately show ?thesis using ok unfolding stored_values_def from_secret_def secretKeySelectorValue_def creds_ok_def
    by (auto simp: ref data_lookup_def split: option.splits)
qed

section \<open>The provider of a cluster\<close>

datatype provider_spec =
    PAWS AWSCloud | PAzure AzureCloud | PDigitalocean TokenCloud | PGCP GCPCloud | PHetzner HetznerCloud | POpenstack OpenstackCloud
  | PKubevirt KubevirtCloud | PVSphere VSphereCloud | PBaremetal BaremetalCloud | PAlibaba AlibabaCloud | PAnexia TokenCloud
  | PNutanix NutanixCloud | PVCD VCDCloud

definition selected :: "CloudSpec \<Rightarrow> provider_spec option" where
  "selected cloud = first_some
     [map_option PAWS (cl_aws cloud), map_option PAzure (cl_azure cloud), map_option PDigitalocean (cl_digitalocean cloud),
      map_option PGCP (cl_gcp cloud), map_option PHetzner (cl_hetzner cloud), map_option POpenstack (cl_openstack cloud),
      map_option PKubevirt (cl_kubevirt cloud), map_option PVSphere (cl_vsphere cloud), map_option PBaremetal (cl_baremetal cloud),
      map_option PAlibaba (cl_alibaba cloud), map_option PAnexia (cl_anexia cloud), map_option PNutanix (cl_nutanix cloud),
      map_option PVCD (cl_vmwareCloudDirector cloud)]"

text \<open>
  The credentials that a specification holds itself: those that are moved into a secret, and those that are left where they are, the
  token of OpenStack, the kubeconfig for the CSI driver of KubeVirt and the role that AWS is to assume.
\<close>

fun moved_credentials :: "provider_spec \<Rightarrow> string list" where
  "moved_credentials (PAWS x) = [ca_accessKeyID x, ca_secretAccessKey x]"
| "moved_credentials (PAzure x) = [cz_tenantID x, cz_subscriptionID x, cz_clientID x, cz_clientSecret x]"
| "moved_credentials (PDigitalocean x) = [ct_token x]"
| "moved_credentials (PGCP x) = [cg_serviceAccount x]"
| "moved_credentials (PHetzner x) = [ch_token x]"
| "moved_credentials (POpenstack x) = [co_username x, co_password x, co_project x, co_projectID x, co_domain x,
     co_applicationCredentialID x, co_applicationCredentialSecret x]"
| "moved_credentials (PKubevirt x) = [ck_kubeconfig x]"
| "moved_credentials (PVSphere x) = [cv_username x, cv_password x, cv_infraUsername x, cv_infraPassword x]"
| "moved_credentials (PBaremetal x) = (case cb_tinkerbell x of None \<Rightarrow> [] | Some k \<Rightarrow> [k])"
| "moved_credentials (PAlibaba x) = [cal_accessKeyID x, cal_accessKeySecret x]"
| "moved_credentials (PAnexia x) = [ct_token x]"
| "moved_credentials (PNutanix x) = [cn_username x, cn_password x, cn_proxyURL x] @
     (case cn_csi x of None \<Rightarrow> [] | Some (u, p, _, _) \<Rightarrow> [u, p])"
| "moved_credentials (PVCD x) = [cvc_username x, cvc_password x, cvc_organization x, cvc_vdc x, cvc_apiToken x]"

fun left_credentials :: "provider_spec \<Rightarrow> string list" where
  "left_credentials (POpenstack x) = [co_token x]"
| "left_credentials (PKubevirt x) = [ck_csiKubeconfig x]"
| "left_credentials (PAWS x) = [ca_assumeRoleARN x, ca_assumeRoleExternalID x]"
| "left_credentials _ = []"

definition inline_credentials :: "provider_spec \<Rightarrow> string list" where
  "inline_credentials p = moved_credentials p @ left_credentials p"

text \<open>What each provider does, as one function of its part of the specification.\<close>

fun move_credentials :: "'s credentials_sdk \<Rightarrow> string option \<Rightarrow> datacenter option \<Rightarrow> cluster \<Rightarrow> provider_spec \<Rightarrow> ('s, cluster \<times> bool) act" where
  "move_credentials R tok v c (PAWS x) = createOrUpdateAWSSecret R v x c"
| "move_credentials R tok v c (PAzure x) = createOrUpdateAzureSecret R v x c"
| "move_credentials R tok v c (PDigitalocean x) = createOrUpdateDigitaloceanSecret R v x c"
| "move_credentials R tok v c (PGCP x) = createOrUpdateGCPSecret R v x c"
| "move_credentials R tok v c (PHetzner x) = createOrUpdateHetznerSecret R v x c"
| "move_credentials R tok v c (POpenstack x) = createOrUpdateOpenstackSecret R tok v x c"
| "move_credentials R tok v c (PKubevirt x) = createOrUpdateKubevirtSecret R x c"
| "move_credentials R tok v c (PVSphere x) = createVSphereSecret R v x c"
| "move_credentials R tok v c (PBaremetal x) = createOrUpdateBaremetalSecret R x c"
| "move_credentials R tok v c (PAlibaba x) = createAlibabaSecret R v x c"
| "move_credentials R tok v c (PAnexia x) = createOrUpdateAnexiaSecret R v x c"
| "move_credentials R tok v c (PNutanix x) = createOrUpdateNutanixSecret R v x c"
| "move_credentials R tok v c (PVCD x) = createOrUpdateVMwareCloudDirectorSecret R v x c"

lemma first_some_map: "map_option f (first_some xs) = first_some (map (map_option f) xs)"
  by (induction xs) (auto split: option.splits)

lemma createOrUpdate_selected:
  "createOrUpdateCredentialSecretForCluster R tok v c =
     (case selected (cloud_of c) of None \<Rightarrow> retA (c, False) | Some p \<Rightarrow> move_credentials R tok v c p)"
proof -
  have "map_option (move_credentials R tok v c) (selected (cloud_of c)) = first_some
     [map_option (\<lambda>x. move_credentials R tok v c (PAWS x)) (cl_aws (cloud_of c)), map_option (\<lambda>x. move_credentials R tok v c (PAzure x)) (cl_azure (cloud_of c)),
      map_option (\<lambda>x. move_credentials R tok v c (PDigitalocean x)) (cl_digitalocean (cloud_of c)), map_option (\<lambda>x. move_credentials R tok v c (PGCP x)) (cl_gcp (cloud_of c)),
      map_option (\<lambda>x. move_credentials R tok v c (PHetzner x)) (cl_hetzner (cloud_of c)), map_option (\<lambda>x. move_credentials R tok v c (POpenstack x)) (cl_openstack (cloud_of c)),
      map_option (\<lambda>x. move_credentials R tok v c (PKubevirt x)) (cl_kubevirt (cloud_of c)), map_option (\<lambda>x. move_credentials R tok v c (PVSphere x)) (cl_vsphere (cloud_of c)),
      map_option (\<lambda>x. move_credentials R tok v c (PBaremetal x)) (cl_baremetal (cloud_of c)), map_option (\<lambda>x. move_credentials R tok v c (PAlibaba x)) (cl_alibaba (cloud_of c)),
      map_option (\<lambda>x. move_credentials R tok v c (PAnexia x)) (cl_anexia (cloud_of c)), map_option (\<lambda>x. move_credentials R tok v c (PNutanix x)) (cl_nutanix (cloud_of c)),
      map_option (\<lambda>x. move_credentials R tok v c (PVCD x)) (cl_vmwareCloudDirector (cloud_of c))]"
    unfolding selected_def first_some_map by (simp add: option.map_comp comp_def del: first_some.simps)
  then have "createOrUpdateCredentialSecretForCluster R tok v c =
      (case map_option (move_credentials R tok v c) (selected (cloud_of c)) of None \<Rightarrow> retA (c, False) | Some a \<Rightarrow> a)"
    unfolding createOrUpdateCredentialSecretForCluster_def Let_def by (simp del: first_some.simps)
  then show ?thesis by (simp split: option.splits)
qed

lemma selected_SomeD:
  assumes "selected cloud = Some p"
  shows "case p of
      PAWS x \<Rightarrow> cl_aws cloud = Some x
    | PAzure x \<Rightarrow> cl_azure cloud = Some x
    | PDigitalocean x \<Rightarrow> cl_digitalocean cloud = Some x
    | PGCP x \<Rightarrow> cl_gcp cloud = Some x
    | PHetzner x \<Rightarrow> cl_hetzner cloud = Some x
    | POpenstack x \<Rightarrow> cl_openstack cloud = Some x
    | PKubevirt x \<Rightarrow> cl_kubevirt cloud = Some x
    | PVSphere x \<Rightarrow> cl_vsphere cloud = Some x
    | PBaremetal x \<Rightarrow> cl_baremetal cloud = Some x
    | PAlibaba x \<Rightarrow> cl_alibaba cloud = Some x
    | PAnexia x \<Rightarrow> cl_anexia cloud = Some x
    | PNutanix x \<Rightarrow> cl_nutanix cloud = Some x
    | PVCD x \<Rightarrow> cl_vmwareCloudDirector cloud = Some x"
  using assms unfolding selected_def by (simp split: option.splits add: split_option_all) (auto split: option.splits)

text \<open>The specification with another part for the provider, and the part without its credentials.\<close>

fun put :: "provider_spec \<Rightarrow> CloudSpec \<Rightarrow> CloudSpec" where
  "put (PAWS x) cloud = cloud\<lparr>cl_aws := Some x\<rparr>"
| "put (PAzure x) cloud = cloud\<lparr>cl_azure := Some x\<rparr>"
| "put (PDigitalocean x) cloud = cloud\<lparr>cl_digitalocean := Some x\<rparr>"
| "put (PGCP x) cloud = cloud\<lparr>cl_gcp := Some x\<rparr>"
| "put (PHetzner x) cloud = cloud\<lparr>cl_hetzner := Some x\<rparr>"
| "put (POpenstack x) cloud = cloud\<lparr>cl_openstack := Some x\<rparr>"
| "put (PKubevirt x) cloud = cloud\<lparr>cl_kubevirt := Some x\<rparr>"
| "put (PVSphere x) cloud = cloud\<lparr>cl_vsphere := Some x\<rparr>"
| "put (PBaremetal x) cloud = cloud\<lparr>cl_baremetal := Some x\<rparr>"
| "put (PAlibaba x) cloud = cloud\<lparr>cl_alibaba := Some x\<rparr>"
| "put (PAnexia x) cloud = cloud\<lparr>cl_anexia := Some x\<rparr>"
| "put (PNutanix x) cloud = cloud\<lparr>cl_nutanix := Some x\<rparr>"
| "put (PVCD x) cloud = cloud\<lparr>cl_vmwareCloudDirector := Some x\<rparr>"

fun cleared :: "credentials_ref \<Rightarrow> provider_spec \<Rightarrow> provider_spec" where
  "cleared ref (PAWS x) = PAWS (x\<lparr>ca_credentialsReference := Some ref, ca_accessKeyID := [], ca_secretAccessKey := []\<rparr>)"
| "cleared ref (PAzure x) = PAzure (x\<lparr>cz_credentialsReference := Some ref, cz_tenantID := [], cz_subscriptionID := [], cz_clientID := [], cz_clientSecret := []\<rparr>)"
| "cleared ref (PDigitalocean x) = PDigitalocean (x\<lparr>ct_credentialsReference := Some ref, ct_token := []\<rparr>)"
| "cleared ref (PGCP x) = PGCP (x\<lparr>cg_credentialsReference := Some ref, cg_serviceAccount := []\<rparr>)"
| "cleared ref (PHetzner x) = PHetzner (x\<lparr>ch_credentialsReference := Some ref, ch_token := []\<rparr>)"
| "cleared ref (POpenstack x) = POpenstack (x\<lparr>co_credentialsReference := Some ref, co_username := [], co_password := [],
     co_project := [], co_projectID := [], co_domain := [], co_applicationCredentialSecret := [], co_applicationCredentialID := [], co_useToken := False\<rparr>)"
| "cleared ref (PKubevirt x) = PKubevirt (x\<lparr>ck_credentialsReference := Some ref, ck_kubeconfig := []\<rparr>)"
| "cleared ref (PVSphere x) = PVSphere (x\<lparr>cv_credentialsReference := Some ref, cv_username := [], cv_password := [], cv_infraUsername := [], cv_infraPassword := []\<rparr>)"
| "cleared ref (PBaremetal x) = PBaremetal (x\<lparr>cb_credentialsReference := Some ref, cb_tinkerbell := Some []\<rparr>)"
| "cleared ref (PAlibaba x) = PAlibaba (x\<lparr>cal_credentialsReference := Some ref, cal_accessKeyID := [], cal_accessKeySecret := []\<rparr>)"
| "cleared ref (PAnexia x) = PAnexia (x\<lparr>ct_credentialsReference := Some ref, ct_token := []\<rparr>)"
| "cleared ref (PNutanix x) = PNutanix (x\<lparr>cn_credentialsReference := Some ref, cn_username := [], cn_password := [], cn_proxyURL := [],
     cn_csi := map_option (\<lambda>(_, _, endpoint, port). ([], [], endpoint, port)) (cn_csi x)\<rparr>)"
| "cleared ref (PVCD x) = PVCD (x\<lparr>cvc_credentialsReference := Some ref, cvc_username := [], cvc_password := [], cvc_apiToken := [], cvc_organization := [], cvc_vdc := []\<rparr>)"

text \<open>The data of the secret. For OpenStack it depends on the credentials read before and on the token of the request.\<close>

fun secret_data :: "OpenstackCredentials \<Rightarrow> string \<Rightarrow> provider_spec \<Rightarrow> (credkey \<times> string) list" where
  "secret_data old auth (PAWS x) = [(AWSAccessKeyID, ca_accessKeyID x), (AWSSecretAccessKey, ca_secretAccessKey x)]"
| "secret_data old auth (PAzure x) = [(AzureTenantID, cz_tenantID x), (AzureSubscriptionID, cz_subscriptionID x), (AzureClientID, cz_clientID x), (AzureClientSecret, cz_clientSecret x)]"
| "secret_data old auth (PDigitalocean x) = [(DigitaloceanToken, ct_token x)]"
| "secret_data old auth (PGCP x) = [(GCPServiceAccount, cg_serviceAccount x)]"
| "secret_data old auth (PHetzner x) = [(HetznerToken, ch_token x)]"
| "secret_data old auth (POpenstack x) =
     [(OpenstackUsername, co_username x), (OpenstackPassword, co_password x),
      (OpenstackProject, co_project (filled x old)), (OpenstackProjectID, co_projectID (filled x old)), (OpenstackDomain, co_domain (filled x old)),
      (OpenstackApplicationCredentialID, co_applicationCredentialID x),
      (OpenstackApplicationCredentialSecret, co_applicationCredentialSecret x), (OpenstackToken, auth)]"
| "secret_data old auth (PKubevirt x) = [(KubeVirtKubeconfig, ck_kubeconfig x)]"
| "secret_data old auth (PVSphere x) = [(VsphereUsername, cv_username x), (VspherePassword, cv_password x), (VsphereInfraManagementUserUsername, cv_infraUsername x), (VsphereInfraManagementUserPassword, cv_infraPassword x)]"
| "secret_data old auth (PBaremetal x) = [(TinkerbellKubeconfig, the (cb_tinkerbell x))]"
| "secret_data old auth (PAlibaba x) = [(AlibabaAccessKeyID, cal_accessKeyID x), (AlibabaAccessKeySecret, cal_accessKeySecret x)]"
| "secret_data old auth (PAnexia x) = [(AnexiaToken, ct_token x)]"
| "secret_data old auth (PNutanix x) =
     [(NutanixUsername, cn_username x), (NutanixPassword, cn_password x)] @
     (if cn_proxyURL x \<noteq> [] then [(NutanixProxyURL, cn_proxyURL x)] else []) @
     (case cn_csi x of None \<Rightarrow> [] | Some (u, p, _, _) \<Rightarrow> [(NutanixCSIUsername, u), (NutanixCSIPassword, p)])"
| "secret_data old auth (PVCD x) = [(VMwareCloudDirectorUsername, cvc_username x), (VMwareCloudDirectorPassword, cvc_password x), (VMwareCloudDirectorAPIToken, cvc_apiToken x), (VMwareCloudDirectorOrganization, cvc_organization x), (VMwareCloudDirectorVDC, cvc_vdc x)]"

definition move_context :: "'s credentials_sdk \<Rightarrow> string option \<Rightarrow> provider_spec \<Rightarrow> OpenstackCredentials \<Rightarrow> string \<Rightarrow> 's \<Rightarrow> bool" where
  "move_context R tok p old auth s \<longleftrightarrow> (case p of
     POpenstack x \<Rightarrow> openstack_GetCredentialsForCluster R x s = (Inr old, s) \<and> auth_token tok (co_useToken x) = Inr auth
   | _ \<Rightarrow> True)"

lemma reads_from_secret [reads_intros]: "reads (from_secret R ref k)"
  unfolding from_secret_def by (intro reads_intros)

lemma reads_openstack [reads_intros]: "reads (openstack_GetCredentialsForCluster R x)"
  unfolding openstack_GetCredentialsForCluster_def inline_or_secret_def secret_or_empty_def openstack_project_def firstKey_def Let_def
  by (intro reads_intros; (simp split: sum.split; intro reads_intros allI impI conjI)?)

lemma filled_simps [simp]:
  "co_username (filled x old) = co_username x" "co_password (filled x old) = co_password x" "co_useToken (filled x old) = co_useToken x"
  "co_applicationCredentialID (filled x old) = co_applicationCredentialID x" "co_token (filled x old) = co_token x"
  "co_applicationCredentialSecret (filled x old) = co_applicationCredentialSecret x"
  "(filled x old)\<lparr>co_credentialsReference := ref, co_username := [], co_password := [], co_project := [], co_projectID := [], co_domain := [],
     co_applicationCredentialSecret := [], co_applicationCredentialID := [], co_useToken := False\<rparr> =
   x\<lparr>co_credentialsReference := ref, co_username := [], co_password := [], co_project := [], co_projectID := [], co_domain := [],
     co_applicationCredentialSecret := [], co_applicationCredentialID := [], co_useToken := False\<rparr>"
  by (simp_all add: filled_def)

lemma move_openstack:
  assumes "createOrUpdateOpenstackSecret R tok v x c s = (Inr (c', True), t)"
  shows "\<exists>ref s' old auth. ensureCredentialSecret R c (secret_data old auth (POpenstack x)) s' = (Inr ref, t) \<and>
     c' = with_cloud (put (cleared ref (POpenstack x)) (cloud_of c)) c \<and> move_context R tok (POpenstack x) old auth s"
proof -
  from assms obtain old auth s1 s2 s3 ref where o: "openstack_GetCredentialsForCluster R x s = (Inr old, s1)"
    and a: "auth_token tok (co_useToken x) = Inr auth"
    and e: "ensureCredentialSecret R c (secret_data old auth (POpenstack x)) s3 = (Inr ref, t)"
    and c: "c' = with_cloud (put (cleared ref (POpenstack x)) (cloud_of c)) c"
    unfolding createOrUpdateOpenstackSecret_def Let_def by (auto simp: bindA_eq_Inr split: if_splits)
  moreover have "s1 = s" by (rule readsD[OF reads_openstack o])
  ultimately have "move_context R tok (POpenstack x) old auth s" by (simp add: move_context_def)
  with e c show ?thesis by blast
qed

lemma move_True:
  assumes "move_credentials R tok v c p s = (Inr (c', True), t)"
  shows "\<exists>ref s' old auth. ensureCredentialSecret R c (secret_data old auth p) s' = (Inr ref, t) \<and>
     c' = with_cloud (put (cleared ref p) (cloud_of c)) c \<and> move_context R tok p old auth s"
proof (cases p)
  case (POpenstack x)
  with assms have "createOrUpdateOpenstackSecret R tok v x c s = (Inr (c', True), t)" by simp
  from move_openstack[OF this] show ?thesis unfolding POpenstack .
qed (use assms in \<open>auto simp: createOrUpdateAWSSecret_def createOrUpdateAzureSecret_def createOrUpdateDigitaloceanSecret_def
    createOrUpdateGCPSecret_def createOrUpdateHetznerSecret_def createOrUpdateKubevirtSecret_def createVSphereSecret_def
    createOrUpdateBaremetalSecret_def createAlibabaSecret_def createOrUpdateAnexiaSecret_def createOrUpdateNutanixSecret_def
    createOrUpdateVMwareCloudDirectorSecret_def move_context_def bindA_eq_Inr split: if_splits option.splits\<close>)

lemma move_False:
  assumes "move_credentials R tok v c p s = (Inr (c', False), t)"
  shows "c' = c \<and> t = s \<and> (\<forall>w \<in> set (moved_credentials p). w = [])"
  using assms by (cases p) (auto simp: createOrUpdateAWSSecret_def createOrUpdateAzureSecret_def createOrUpdateDigitaloceanSecret_def
    createOrUpdateGCPSecret_def createOrUpdateHetznerSecret_def createOrUpdateKubevirtSecret_def createVSphereSecret_def
    createOrUpdateBaremetalSecret_def createAlibabaSecret_def createOrUpdateAnexiaSecret_def createOrUpdateNutanixSecret_def
    createOrUpdateVMwareCloudDirectorSecret_def createOrUpdateOpenstackSecret_def Let_def bindA_eq_Inr split: if_splits option.splits)

lemma createOrUpdate_cloud_only:
  assumes "createOrUpdateCredentialSecretForCluster R tok v c s = (Inr (c', changed), t)"
  shows "c' = with_cloud (cloud_of c') c"
proof (cases "selected (cloud_of c)")
  case None
  with assms show ?thesis by (simp add: createOrUpdate_selected with_cloud_def)
next
  case (Some p)
  with assms have mv: "move_credentials R tok v c p s = (Inr (c', changed), t)" by (simp add: createOrUpdate_selected)
  with move_False[of R tok v c p s c' t] move_True[of R tok v c p s c' t] show ?thesis
    by (cases changed) (auto simp: with_cloud_def)
qed

lemma cleared_moved: "w \<in> set (moved_credentials (cleared ref p)) \<Longrightarrow> w = []"
  by (cases p) (auto split: option.splits)

lemma cleared_left [simp]: "left_credentials (cleared ref p) = left_credentials p"
  by (cases p) simp_all

lemma nothing_moved: "\<forall>w \<in> set (moved_credentials p). w = [] \<Longrightarrow> inline_credentials p = map (\<lambda>_. []) (moved_credentials p) @ left_credentials p"
  unfolding inline_credentials_def by (metis (no_types, lifting) map_idI)

lemma selected_cleared: "selected cloud = Some p \<Longrightarrow> selected (put (cleared ref p) cloud) = Some (cleared ref p)"
  by (cases p) (auto simp: selected_def split: option.split_asm)

section \<open>Reading back\<close>

text \<open>
  What the cloud providers read, as a list. The dashboard has no function that reads the kubeconfig of Tinkerbell; it is
  read by its reference.
\<close>

fun read_credentials :: "'s credentials_sdk \<Rightarrow> provider_spec \<Rightarrow> ('s, string list) act" where
  "read_credentials R (PAWS x) = bindA (aws_GetCredentialsForCluster R x) (\<lambda>(a, b, _, _). retA [a, b])"
| "read_credentials R (PAzure x) = bindA (azure_GetCredentialsForCluster R x) (\<lambda>(a, b, c, d). retA [a, b, c, d])"
| "read_credentials R (PDigitalocean x) = bindA (digitalocean_GetCredentialsForCluster R x) (\<lambda>a. retA [a])"
| "read_credentials R (PGCP x) = bindA (gcp_GetCredentialsForCluster R x) (\<lambda>a. retA [a])"
| "read_credentials R (PHetzner x) = bindA (hetzner_GetCredentialsForCluster R x) (\<lambda>a. retA [a])"
| "read_credentials R (POpenstack x) = bindA (openstack_GetCredentialsForCluster R x) (\<lambda>o1. retA [oc_username o1, oc_password o1,
     oc_project o1, oc_projectID o1, oc_domain o1, oc_applicationCredentialID o1, oc_applicationCredentialSecret o1, oc_token o1])"
| "read_credentials R (PKubevirt x) = bindA (kubevirt_GetCredentialsForCluster R x) (\<lambda>a. retA [a])"
| "read_credentials R (PVSphere x) = bindA (vsphere_GetCredentialsForCluster R None x) (\<lambda>(a, b). retA [a, b])"
| "read_credentials R (PBaremetal x) = bindA (from_secret R (cb_credentialsReference x) TinkerbellKubeconfig) (\<lambda>a. retA [a])"
| "read_credentials R (PAlibaba x) = bindA (alibaba_GetCredentialsForCluster R x) (\<lambda>(a, b). retA [a, b])"
| "read_credentials R (PAnexia x) = bindA (anexia_GetCredentialsForCluster R x) (\<lambda>a. retA [a])"
| "read_credentials R (PNutanix x) = bindA (nutanix_getCredentials R x) (\<lambda>(a, b, c). retA [a, b, c])"
| "read_credentials R (PVCD x) = bindA (vmwareclouddirector_GetCredentialsForCluster R x) (\<lambda>v.
     retA [vc_username v, vc_password v, vc_organization v, vc_apiToken v, vc_vdc v])"

text \<open>
  The credentials that the provider is supplied with. OpenStack prefers an application credential to a token and a token to a user, and the
  token is the one of the request; vSphere prefers the user for the infrastructure, and both his name and his password have to be
  there; VMware Cloud Director prefers a token.
\<close>

fun supplied :: "OpenstackCredentials \<Rightarrow> string \<Rightarrow> provider_spec \<Rightarrow> string list option" where
  "supplied old auth (POpenstack x) =
     (if co_applicationCredentialID x \<noteq> []
      then Some [[], [], [], [], [], co_applicationCredentialID x, co_applicationCredentialSecret x, []]
      else if auth \<noteq> [] then Some [[], [], [], [], co_domain (filled x old), [], [], auth]
      else Some [co_username x, co_password x, co_project (filled x old), co_projectID (filled x old), co_domain (filled x old), [], [], []])"
| "supplied old auth (PVSphere x) =
     (let u = (if cv_infraUsername x = [] then cv_username x else cv_infraUsername x);
          p = (if cv_infraPassword x = [] then cv_password x else cv_infraPassword x)
      in if u = [] \<or> p = [] then None else Some [u, p])"
| "supplied old auth (PNutanix x) = Some [cn_username x, cn_password x, cn_proxyURL x]"
| "supplied old auth (PVCD x) =
     (if cvc_apiToken x \<noteq> [] then Some [[], [], cvc_organization x, cvc_apiToken x, cvc_vdc x]
      else Some [cvc_username x, cvc_password x, cvc_organization x, [], cvc_vdc x])"
| "supplied old auth (PBaremetal x) = map_option (\<lambda>k. [k]) (cb_tinkerbell x)"
| "supplied old auth p = Some (moved_credentials p)"

lemma stored_value:
  assumes ok: "creds_ok P R" and st: "stored_values R ref data t" and ks: "map fst data = ks" "ks \<in> set provider_keys" and kv: "(k, v) \<in> set data"
  shows "from_secret R (Some ref) k t = (Inr v, t)"
proof -
  have "distinct (map (cd_key R) ks)" using ok ks(2) by (auto simp: creds_ok_def list_all_iff)
  then have "distinct (map fst (map (\<lambda>(k, v). (cd_key R k, v)) data))" unfolding ks(1)[symmetric] by (simp add: comp_def case_prod_beta)
  moreover have "(cd_key R k, v) \<in> set (map (\<lambda>(k, v). (cd_key R k, v)) data)" using kv by force
  ultimately have "map_of (map (\<lambda>(k, v). (cd_key R k, v)) data) (cd_key R k) = Some v" by (rule map_of_is_SomeI)
  then show ?thesis using st by (simp add: stored_values_def)
qed

lemma inline_stored: "inline_or_secret R (Some ref) [] k = from_secret R (Some ref) k"
  by (simp add: inline_or_secret_def)

lemma secret_or_empty_run [simp]:
  "from_secret R ref k t = (Inr v, t) \<Longrightarrow> secret_or_empty R ref k t = (Inr v, t)"
  "from_secret R ref k t = (Inl (Plain m), t) \<Longrightarrow> secret_or_empty R ref k t = (Inr [], t)"
  by (simp_all add: secret_or_empty_def)

lemma firstKey_run [simp]: "from_secret R ref k t = (Inr v, t) \<Longrightarrow> firstKey R ref k k' t = (Inr v, t)"
  by (simp add: firstKey_def)

lemmas readers = aws_GetCredentialsForCluster_def azure_GetCredentialsForCluster_def digitalocean_GetCredentialsForCluster_def
  gcp_GetCredentialsForCluster_def hetzner_GetCredentialsForCluster_def kubevirt_GetCredentialsForCluster_def
  alibaba_GetCredentialsForCluster_def anexia_GetCredentialsForCluster_def vsphere_GetCredentialsForCluster_def
  getUsernameAndPassword_def or_secret_def nutanix_getCredentials_def vmwareclouddirector_GetCredentialsForCluster_def
  openstack_GetCredentialsForCluster_def openstack_project_def inline_stored Let_def

text \<open>Nutanix stores some of its keys only if they are needed, in the order of the list.\<close>

lemma nutanix_read_back:
  assumes ok: "creds_ok P R" and st: "stored_values R ref (secret_data old auth (PNutanix x)) t"
  shows "read_credentials R (cleared ref (PNutanix x)) t = (Inr [cn_username x, cn_password x, cn_proxyURL x], t)"
proof -
  have "[NutanixUsername, NutanixPassword, NutanixProxyURL, NutanixCSIUsername, NutanixCSIPassword] \<in> set provider_keys"
    by (simp add: provider_keys_def)
  with ok have d: "distinct (map (cd_key R) [NutanixUsername, NutanixPassword, NutanixProxyURL, NutanixCSIUsername, NutanixCSIPassword])"
    unfolding creds_ok_def list_all_iff by blast
  note v = st[unfolded stored_values_def, rule_format]
  have "from_secret R (Some ref) NutanixUsername t = (Inr (cn_username x), t)" "from_secret R (Some ref) NutanixPassword t = (Inr (cn_password x), t)"
    "from_secret R (Some ref) NutanixProxyURL t = (Inr (cn_proxyURL x), t) \<or>
     cn_proxyURL x = [] \<and> from_secret R (Some ref) NutanixProxyURL t = (Inl (Plain ''secret has no key''), t)"
    using d by (auto simp: v split: option.splits)
  then show ?thesis by (auto simp: readers)
qed

lemma read_back:
  assumes ok: "creds_ok P R" and st: "stored_values R ref (secret_data old auth p) t" and g: "supplied old auth p = Some vs"
    and n: "snd ref \<noteq> []"
  shows "read_credentials R (cleared ref p) t = (Inr vs, t)"
proof (cases p)
  case (PNutanix x)
  with nutanix_read_back[OF ok] st g show ?thesis by simp
next
  case (POpenstack x)
  have "map fst (secret_data old auth p) \<in> set provider_keys" by (simp add: POpenstack provider_keys_def)
  note v = stored_value[OF ok st refl this]
  note v = v[of OpenstackUsername "co_username x"] v[of OpenstackPassword "co_password x"]
    v[of OpenstackProject "co_project (filled x old)"] v[of OpenstackProjectID "co_projectID (filled x old)"]
    v[of OpenstackDomain "co_domain (filled x old)"]
    v[of OpenstackApplicationCredentialID "co_applicationCredentialID x"]
    v[of OpenstackApplicationCredentialSecret "co_applicationCredentialSecret x"] v[of OpenstackToken auth]
  show ?thesis using g v n unfolding POpenstack by (auto simp: readers split: if_splits)
next
  case (PVSphere x)
  have "map fst (secret_data old auth p) \<in> set provider_keys" by (simp add: PVSphere provider_keys_def)
  note v = stored_value[OF ok st refl this]
  note v = v[of VsphereUsername "cv_username x"] v[of VspherePassword "cv_password x"]
    v[of VsphereInfraManagementUserUsername "cv_infraUsername x"] v[of VsphereInfraManagementUserPassword "cv_infraPassword x"]
  show ?thesis using g v unfolding PVSphere by (auto simp: readers split: if_splits)
next
  case (PVCD x)
  have "map fst (secret_data old auth p) \<in> set provider_keys" by (simp add: PVCD provider_keys_def)
  note v = stored_value[OF ok st refl this]
  note v = v[of VMwareCloudDirectorUsername "cvc_username x"] v[of VMwareCloudDirectorPassword "cvc_password x"]
    v[of VMwareCloudDirectorAPIToken "cvc_apiToken x"] v[of VMwareCloudDirectorOrganization "cvc_organization x"] v[of VMwareCloudDirectorVDC "cvc_vdc x"]
  show ?thesis using g v unfolding PVCD by (auto simp: readers split: if_splits)
next
  case (PBaremetal x)
  have "map fst (secret_data old auth p) \<in> set provider_keys" by (simp add: PBaremetal provider_keys_def)
  from stored_value[OF ok st refl this, of TinkerbellKubeconfig] g show ?thesis unfolding PBaremetal by (auto split: option.splits)
qed (use g stored_value[OF ok st refl] in \<open>auto simp: readers provider_keys_def\<close>)

section \<open>Properties\<close>

text \<open>
  C32: which credentials stay in the specification of a cluster. After its credential secret was ensured, the part of the
  specification for its cloud provider still holds the token of OpenStack, the kubeconfig for the CSI driver of KubeVirt and the
  role that AWS is to assume, as they were before; all other credentials in it are empty. Nothing else of the cluster
  was changed, and nothing at all if there was nothing to move. The fake provider of the tests, edge clusters and clusters that bring
  their own nodes have no credential secret and are left as they are.
\<close>

theorem credentials_leave_the_spec:
  assumes run: "createOrUpdateCredentialSecretForCluster R tok v c s = (Inr (c', changed), t)"
  shows "(case selected (cloud_of c) of
      None \<Rightarrow> \<not> changed
    | Some p \<Rightarrow> \<exists>q. selected (cloud_of c') = Some q \<and> inline_credentials q = map (\<lambda>_. []) (moved_credentials q) @ left_credentials p) \<and>
    c' = with_cloud (cloud_of c') c \<and> (\<not> changed \<longrightarrow> c' = c \<and> t = s)"
proof (cases "selected (cloud_of c)")
  case None
  with run show ?thesis by (simp add: createOrUpdate_selected with_cloud_def)
next
  case (Some p)
  with run have mv: "move_credentials R tok v c p s = (Inr (c', changed), t)" by (simp add: createOrUpdate_selected)
  show ?thesis
  proof (cases changed)
    case False
    with move_False[of R tok v c p s c' t] mv Some nothing_moved[of p] createOrUpdate_cloud_only[OF run] show ?thesis by simp
  next
    case True
    with mv have "move_credentials R tok v c p s = (Inr (c', True), t)" by simp
    from move_True[OF this] obtain ref where c': "c' = with_cloud (put (cleared ref p) (cloud_of c)) c" by blast
    have "inline_credentials (cleared ref p) = map (\<lambda>_. []) (moved_credentials (cleared ref p)) @ left_credentials p"
      using nothing_moved[of "cleared ref p"] cleared_moved by auto
    with True Some selected_cleared[OF Some, of ref] show ?thesis unfolding c' by (simp add: with_cloud_def)
  qed
qed

text \<open>
  C33: the credentials are read back from the secret. Once the credentials of a cluster were moved, its cloud provider reads
  what was supplied. For most providers these are the credentials of the specification. Where a provider takes one kind of credentials
  rather than another, it reads that kind only. For OpenStack a specification that asks for the use of a token is supplied with the bearer
  token of the request, not with the token in the specification, and project and domain that are not in the specification are
  those of the secret that it referred to before.
\<close>

theorem credentials_roundtrip:
  assumes ok: "creds_ok P R" and sel: "selected (cloud_of c) = Some p"
    and run: "createOrUpdateCredentialSecretForCluster R tok v c s = (Inr (c', True), t)"
  shows "\<exists>q old auth. selected (cloud_of c') = Some q \<and> move_context R tok p old auth s \<and>
    (\<forall>vs. supplied old auth p = Some vs \<longrightarrow> read_credentials R q t = (Inr vs, t))"
proof -
  from run sel have "move_credentials R tok v c p s = (Inr (c', True), t)" by (simp add: createOrUpdate_selected)
  from move_True[OF this] obtain ref s' old auth where e: "ensureCredentialSecret R c (secret_data old auth p) s' = (Inr ref, t)"
    and c': "c' = with_cloud (put (cleared ref p) (cloud_of c)) c" and m: "move_context R tok p old auth s" by blast
  note st = ensureCredentialSecret_InrD[OF ok e]
  have "selected (cloud_of c') = Some (cleared ref p)" using selected_cleared[OF sel] unfolding c' by (simp add: with_cloud_def)
  with m read_back[OF ok conjunct1[OF st] _ conjunct2[OF st]] show ?thesis by blast
qed

section \<open>Witnesses\<close>

fun demo_credkey :: "credkey \<Rightarrow> string" where
  "demo_credkey AWSAccessKeyID = ''accessKeyId''"
| "demo_credkey AWSSecretAccessKey = ''secretAccessKey''"
| "demo_credkey AzureTenantID = ''tenantID''"
| "demo_credkey AzureSubscriptionID = ''subscriptionID''"
| "demo_credkey AzureClientID = ''clientID''"
| "demo_credkey AzureClientSecret = ''clientSecret''"
| "demo_credkey DigitaloceanToken = ''token''"
| "demo_credkey GCPServiceAccount = ''serviceAccount''"
| "demo_credkey HetznerToken = ''token''"
| "demo_credkey OpenstackUsername = ''username''"
| "demo_credkey OpenstackPassword = ''password''"
| "demo_credkey OpenstackProject = ''project''"
| "demo_credkey OpenstackProjectID = ''projectID''"
| "demo_credkey OpenstackTenant = ''tenant''"
| "demo_credkey OpenstackTenantID = ''tenantID''"
| "demo_credkey OpenstackDomain = ''domain''"
| "demo_credkey OpenstackApplicationCredentialID = ''applicationCredentialID''"
| "demo_credkey OpenstackApplicationCredentialSecret = ''applicationCredentialSecret''"
| "demo_credkey OpenstackToken = ''token''"
| "demo_credkey KubeVirtKubeconfig = ''kubeConfig''"
| "demo_credkey VsphereUsername = ''username''"
| "demo_credkey VspherePassword = ''password''"
| "demo_credkey VsphereInfraManagementUserUsername = ''infraManagementUserUsername''"
| "demo_credkey VsphereInfraManagementUserPassword = ''infraManagementUserPassword''"
| "demo_credkey TinkerbellKubeconfig = ''kubeConfig''"
| "demo_credkey AlibabaAccessKeyID = ''accessKeyId''"
| "demo_credkey AlibabaAccessKeySecret = ''accessKeySecret''"
| "demo_credkey AnexiaToken = ''token''"
| "demo_credkey NutanixUsername = ''username''"
| "demo_credkey NutanixPassword = ''password''"
| "demo_credkey NutanixProxyURL = ''proxyURL''"
| "demo_credkey NutanixCSIUsername = ''csiUsername''"
| "demo_credkey NutanixCSIPassword = ''csiPassword''"
| "demo_credkey VMwareCloudDirectorUsername = ''username''"
| "demo_credkey VMwareCloudDirectorPassword = ''password''"
| "demo_credkey VMwareCloudDirectorAPIToken = ''apiToken''"
| "demo_credkey VMwareCloudDirectorOrganization = ''organization''"
| "demo_credkey VMwareCloudDirectorVDC = ''vdc''"

definition demo_reconcile :: "string \<Rightarrow> string \<Rightarrow> (secret \<Rightarrow> secret) \<Rightarrow> (secret list, unit) act" where
  "demo_reconcile ns name f xs =
     (let old = (case List.find (\<lambda>x. key_of x = (ns, name)) xs of
           None \<Rightarrow> objmeta.extend blank_meta (secret.fields None ''Opaque'') | Some x \<Rightarrow> x)
      in (Inr (), (f old)\<lparr>om_name := name, om_namespace := ns\<rparr> # filter (\<lambda>x. key_of x \<noteq> (ns, name)) xs))"

definition demo_credentials :: "secret list credentials_sdk" where
  "demo_credentials =
     \<lparr>cd_key = demo_credkey, cd_projectIDLabelKey = ''project-id'', cd_namespace = ''kubermatic'',
      cd_getSecretName = (\<lambda>c. ''credential-'' @ om_name c), cd_reconcile = demo_reconcile, cd_validate = (\<lambda>_ _. retA ()),
      cd_secrets = mem_client id (\<lambda>xs _. xs)\<rparr>"

lemma demo_credentials_ok: "creds_ok id demo_credentials"
proof -
  have g: "get_ok id (cd_secrets demo_credentials)" unfolding demo_credentials_def credentials_sdk.simps by (rule mem_client_ok) auto
  have k: "cd_key demo_credentials k \<noteq> []" for k by (cases k) (simp_all add: demo_credentials_def)
  have r: "\<exists>old x. lookup_key (ns, name) t = Inr x \<and> same_object x ((f old)\<lparr>om_name := name, om_namespace := ns\<rparr>)"
    if "cd_reconcile demo_credentials ns name f s = (Inr u, t)" for ns name f s u t
  proof -
    from that obtain old where "hd t = (f old)\<lparr>om_name := name, om_namespace := ns\<rparr>" "t \<noteq> []"
      by (auto simp: demo_credentials_def demo_reconcile_def Let_def)
    then have "lookup_key (ns, name) t = Inr ((f old)\<lparr>om_name := name, om_namespace := ns\<rparr>)"
      by (cases t) (auto simp: lookup_key_def key_of_def)
    then show ?thesis by (auto simp: same_object_def)
  qed
  have d: "list_all (\<lambda>ks. distinct (map (cd_key demo_credentials) ks)) provider_keys" by code_simp
  show ?thesis using g k r d unfolding creds_ok_def by (simp add: demo_credentials_def)
qed

definition hetzner_cluster :: cluster where
  "hetzner_cluster = with_cloud (demo_fake\<lparr>cl_hetzner := Some \<lparr>ch_token = ''secret'', ch_network = [], ch_credentialsReference = None\<rparr>\<rparr>) demo_cluster"

abbreviation hetzner_run where
  "hetzner_run \<equiv> createOrUpdateCredentialSecretForCluster demo_credentials None None hetzner_cluster []"

fun is_hetzner :: "provider_spec option \<Rightarrow> bool" where
  "is_hetzner (Some (PHetzner _)) = True"
| "is_hetzner _ = False"

lemma hetzner_moved: obtains c' t x where "hetzner_run = (Inr (c', True), t)" and "selected (cloud_of c') = Some (PHetzner x)"
proof -
  have "\<not> isl (fst hetzner_run)" "case fst hetzner_run of Inl _ \<Rightarrow> False | Inr r \<Rightarrow> snd r \<and> is_hetzner (selected (cloud_of (fst r)))" by code_simp+
  then obtain c' t where "hetzner_run = (Inr (c', True), t)" "is_hetzner (selected (cloud_of c'))"
    by (cases hetzner_run) (auto split: sum.splits)
  then show thesis using that by (auto elim: is_hetzner.elims(2))
qed

theorem credentials_leave_the_spec_witness:
  "\<exists>c' t p. hetzner_run = (Inr (c', True), t) \<and> selected (cloud_of c') = Some p \<and> inline_credentials p = [[]]"
proof -
  obtain c' t x where run: "hetzner_run = (Inr (c', True), t)" and sel: "selected (cloud_of c') = Some (PHetzner x)" by (rule hetzner_moved)
  have "is_hetzner (selected (cloud_of hetzner_cluster))" by code_simp
  then obtain y where "selected (cloud_of hetzner_cluster) = Some (PHetzner y)" by (auto elim: is_hetzner.elims(2))
  with credentials_leave_the_spec[OF run] sel have "inline_credentials (PHetzner x) = [[]]" by simp
  with run sel show ?thesis by blast
qed

theorem credentials_roundtrip_witness:
  "\<exists>c' t q. hetzner_run = (Inr (c', True), t) \<and> selected (cloud_of c') = Some q \<and> read_credentials demo_credentials q t = (Inr [''secret''], t)"
proof -
  obtain c' t where run: "hetzner_run = (Inr (c', True), t)" by (rule hetzner_moved)
  define x where "x = \<lparr>ch_token = ''secret'', ch_network = [], ch_credentialsReference = None\<rparr>"
  have sel: "selected (cloud_of hetzner_cluster) = Some (PHetzner x)"
    by (simp add: hetzner_cluster_def with_cloud_def selected_def demo_fake_def x_def)
  from credentials_roundtrip[OF demo_credentials_ok sel run] obtain q old auth where q: "selected (cloud_of c') = Some q"
    and "\<forall>vs. supplied old auth (PHetzner x) = Some vs \<longrightarrow> read_credentials demo_credentials q t = (Inr vs, t)" by blast
  then have "read_credentials demo_credentials q t = (Inr [''secret''], t)" by (simp add: x_def)
  with run q show ?thesis by blast
qed

end
