(* ===== verification/Cluster_Create.thy ===== *)
theory Cluster_Create
  imports Clusters Preset_Credentials Cluster_Credentials
begin

text \<open>
  Creating and patching clusters (\<^verbatim>\<open>pkg/handler/common/cluster.go\<close>, \<^verbatim>\<open>pkg/handler/v2/cluster/cluster.go\<close>), the
  specification of a new cluster (\<^verbatim>\<open>pkg/resources/cluster/cluster.go\<close>) and the check of kubelet versions
  (\<^verbatim>\<open>pkg/handler/v1/common/version_skew.go\<close>).
\<close>

section \<open>Requests\<close>

record NodeDeployment =
  nd_name :: string
  nd_rest :: string

record Application =
  app_name :: string
  app_namespace :: string
  app_annotations :: smap
  app_ref :: string
  app_rest :: string

text \<open>The key of \<^verbatim>\<open>EncryptionAtRest\<close>, if it is given.\<close>

record CreateClusterSpec =
  ccs_cluster :: apiCluster
  ccs_nodeDeployment :: "NodeDeployment option"
  ccs_applications :: "Application list"
  ccs_encryptionAtRest :: "string option"

record CreateClusterReq = ProjectReq +
  ccr_body :: CreateClusterSpec
  ccr_seedName :: string

record PatchReq = ClusterReq +
  ptr_patch :: string
  ptr_skipKubeletVersionValidation :: bool

record ClusterDeleteReq = ClusterReq +
  dlr_deleteVolumes :: bool
  dlr_deleteLoadBalancers :: bool

record ListClustersReq = ProjectReq +
  lcr_showDeploymentMachineCount :: bool

record AssignSSHKeysReq = ClusterReq +
  asr_keyID :: string

record EventsReq = ClusterReq +
  evr_type :: string

section \<open>What other packages provide\<close>

datatype version_check = VersionOK | VersionSkew | VersionError go_error

text \<open>
  Templates, cloud providers and versions are texts. \<open>gx_features\<close> and \<open>gx_setFeatures\<close> read and write the feature gates
  of the process, a map that all requests share. Defaulting, mutating and validating specifications is up to
  Kubermatic; since a copy of a specification shares the maps and pointers of the original, \<open>gx_mutateCreate\<close> gets and
  returns both the specification \<^verbatim>\<open>spec\<close> and the cluster that was made from it. \<open>gx_waits\<close> is what
  happens elsewhere while the creation of a cluster waits, second by second. \<open>gx_machineDeployment\<close> is the JSON text of the machine
  deployment made for a node deployment, \<open>gx_mergePatch\<close> the cluster of the API after a JSON merge patch;
  \<^const>\<open>None\<close> is a nil pointer.
\<close>

type_synonym features = "(string \<times> bool) list"

record 's cluster_gen =
  gx_features :: "('s, features) act"
  gx_setFeatures :: "features \<Rightarrow> ('s, unit) act"
  gx_disabledAuditWebhookBackendDCs :: "settings \<Rightarrow> string list"
  gx_defaultingTemplate :: "seed \<Rightarrow> ('s, string option) act"
  gx_cloudProvider :: "datacenter \<Rightarrow> ('s, string) act"
  gx_defaultClusterSpec :: "clusterSpec \<Rightarrow> string option \<Rightarrow> seed \<Rightarrow> string \<Rightarrow> ('s, clusterSpec) act"
  gx_mutateCreate :: "clusterSpec \<Rightarrow> cluster \<Rightarrow> seed \<Rightarrow> string \<Rightarrow> ('s, clusterSpec \<times> cluster) act"
  gx_mutateUpdate :: "cluster \<Rightarrow> cluster \<Rightarrow> seed \<Rightarrow> string \<Rightarrow> ('s, cluster) act"
  gx_validateNew :: "clusterSpec \<Rightarrow> datacenter \<Rightarrow> seed \<Rightarrow> string \<Rightarrow> features \<Rightarrow> ('s, unit) act"
  gx_validateUpdate :: "cluster \<Rightarrow> cluster \<Rightarrow> datacenter \<Rightarrow> seed \<Rightarrow> string \<Rightarrow> features \<Rightarrow> ('s, unit) act"
  gx_validateUpdateWindow :: "clusterSpec \<Rightarrow> unit result"
  gx_makeClusterName :: "('s, string) act"
  gx_randString6 :: "('s, string) act"
  gx_machineDeployment :: "cluster \<Rightarrow> NodeDeployment \<Rightarrow> datacenter \<Rightarrow> settings \<Rightarrow> string result"
  gx_marshalApplications :: "Application list \<Rightarrow> string result"
  gx_mergePatch :: "apiCluster \<Rightarrow> string \<Rightarrow> apiCluster option result"
  gx_waits :: "('s \<Rightarrow> 's) list"
  gx_masterSecrets :: "(secret, 's) kclient"
  gx_kubermaticNamespace :: string
  gx_bringYourOwn :: string
  gx_isCredentialPresetLabelKey :: string
  gx_presetNameAnnotation :: string
  gx_presetInvalidatedAnnotation :: string
  gx_initialMachineDeploymentAnnotation :: string
  gx_initialApplicationsAnnotation :: string
  gx_initialCNIValuesAnnotation :: string
  gx_applicationEnforcedAnnotation :: string
  gx_encryptionAtRestFeature :: string
  gx_versionsForProvider :: "string \<Rightarrow> string list result"
  gx_semverEqual :: "string \<Rightarrow> string \<Rightarrow> bool"
  gx_parseVersion :: "string \<Rightarrow> string result"
  gx_ensureVersionCompatible :: "string option \<Rightarrow> string \<Rightarrow> version_check"
  gx_isDNS1123Label :: "string \<Rightarrow> bool"
  gx_urlParse :: "string \<Rightarrow> (string \<times> string) result" \<comment> \<open>scheme and host\<close>

definition EncryptionKeyAnnotation :: string where "EncryptionKeyAnnotation = ''kubermatic.io/encryption-key''"
definition ClusterNameAnnotation :: string where "ClusterNameAnnotation = ''kubermatic.io/cluster-name''"
definition ClusterTypes :: "string list" where "ClusterTypes = [KubernetesClusterType]"

section \<open>Decoding\<close>

definition cluster_request :: "http_request \<Rightarrow> ClusterReq result" where
  "cluster_request r =
     (case DecodeClusterID r of
        Inl err \<Rightarrow> Inl err
      | Inr clusterID \<Rightarrow>
          (case DecodeProjectRequest r of
             Inl err \<Rightarrow> Inl err
           | Inr projectReq \<Rightarrow> Inr \<lparr>req_projectID = req_projectID projectReq, crq_clusterID = clusterID\<rparr>))"

definition DecodeAdminTokenReq :: "http_request \<Rightarrow> ClusterReq result" where
  "DecodeAdminTokenReq r = cluster_request r"

definition DecodeListSSHKeysReq :: "http_request \<Rightarrow> ClusterReq result" where
  "DecodeListSSHKeysReq r = cluster_request r"

definition v2_DecodeGetClusterReq :: "http_request \<Rightarrow> ClusterReq result" where
  "v2_DecodeGetClusterReq r = cluster_request r"

definition DecodeAssignSSHKeyReq :: "http_request \<Rightarrow> AssignSSHKeysReq result" where
  "DecodeAssignSSHKeyReq r =
     (case cluster_request r of
        Inl err \<Rightarrow> Inl err
      | Inr cr \<Rightarrow>
          (case DecodeSSHKeyID r of
             Inl err \<Rightarrow> Inl err
           | Inr keyID \<Rightarrow> Inr (ClusterReq.extend cr (AssignSSHKeysReq.fields keyID))))"

definition DecodeGetClusterEvents :: "http_request \<Rightarrow> EventsReq result" where
  "DecodeGetClusterEvents r =
     (case cluster_request r of
        Inl err \<Rightarrow> Inl err
      | Inr cr \<Rightarrow>
          let type = rq_query r ''type'' in
          if type \<noteq> [] \<and> type \<noteq> ''warning'' \<and> type \<noteq> ''normal'' then Inl (Plain ''wrong query parameter, unsupported type'')
          else Inr (ClusterReq.extend cr (EventsReq.fields type)))"

text \<open>\<open>body\<close> is what reading the body of the request gave.\<close>

definition DecodePatchReq :: "http_request \<Rightarrow> string result \<Rightarrow> PatchReq result" where
  "DecodePatchReq r body =
     (case cluster_request r of
        Inl err \<Rightarrow> Inl err
      | Inr cr \<Rightarrow>
          (case body of
             Inl err \<Rightarrow> Inl err
           | Inr patch \<Rightarrow>
               let queryParam = rq_query r ''skip_kubelet_version_validation'' in
               if queryParam \<noteq> [] then
                 (case ParseBool queryParam of
                    Inl err \<Rightarrow> Inl (Wrapped err)
                  | Inr skip \<Rightarrow> Inr (ClusterReq.extend cr (PatchReq.fields patch skip)))
               else Inr (ClusterReq.extend cr (PatchReq.fields patch False))))"

definition header_flag :: "http_request \<Rightarrow> string \<Rightarrow> bool result" where
  "header_flag r name = (if rq_header r name \<noteq> [] then ParseBool (rq_header r name) else Inr False)"

definition DecodeClusterDeleteReq :: "http_request \<Rightarrow> ClusterDeleteReq result" where
  "DecodeClusterDeleteReq r =
     (case cluster_request r of
        Inl err \<Rightarrow> Inl err
      | Inr cr \<Rightarrow>
          (case header_flag r ''DeleteVolumes'' of
             Inl err \<Rightarrow> Inl err
           | Inr deleteVolumes \<Rightarrow>
               (case header_flag r ''DeleteLoadBalancers'' of
                  Inl err \<Rightarrow> Inl err
                | Inr deleteLB \<Rightarrow> Inr (ClusterReq.extend cr (ClusterDeleteReq.fields deleteVolumes deleteLB)))))"

definition DecodeListClustersReq :: "http_request \<Rightarrow> ListClustersReq result" where
  "DecodeListClustersReq r =
     (case DecodeProjectRequest r of
        Inl err \<Rightarrow> Inl err
      | Inr pr \<Rightarrow> Inr (ProjectReq.extend pr (ListClustersReq.fields (EqualFold (rq_query r ''show_dm_count'') ''true''))))"

text \<open>\<open>body\<close> is what the JSON decoder made of the body.\<close>

definition DecodeCreateReq :: "'s SeedsGetter option \<Rightarrow> http_request \<Rightarrow> CreateClusterSpec result \<Rightarrow> ('s, CreateClusterReq) act" where
  "DecodeCreateReq seedsGetter r body =
     bindA (liftA (DecodeProjectRequest r)) (\<lambda>pr.
     bindA (liftA body) (\<lambda>b.
       let cl = ccs_cluster b;
           b = b\<lparr>ccs_cluster := (if ac_type cl = [] then cl\<lparr>ac_type := KubernetesClusterType\<rparr> else cl)\<rparr> in
       bindA (FindSeedNameForDatacenter seedsGetter (cl_datacenterName (as_cloud (ac_spec (ccs_cluster b))))) (\<lambda>seedName.
         retA (ProjectReq.extend pr (CreateClusterReq.fields b seedName)))))"

section \<open>Validation\<close>

definition validateAuditWebhookBackendAllowed ::
  "string list \<Rightarrow> string \<Rightarrow> AuditLogging option \<Rightarrow> AuditLogging option \<Rightarrow> unit result" where
  "validateAuditWebhookBackendAllowed disabledDCs datacenterName oldAuditLogging newAuditLogging =
     (let oldWebhookBackend = Option.bind oldAuditLogging al_webhookBackend;
          newWebhookBackend = Option.bind newAuditLogging al_webhookBackend
      in if newWebhookBackend = None then Inr ()
         else if oldWebhookBackend \<noteq> None \<and> oldWebhookBackend = newWebhookBackend then Inr ()
         else if datacenterName \<in> set disabledDCs then Inl UtilBadRequest
         else Inr ())"

definition validateApplications :: "'s cluster_gen \<Rightarrow> Application list \<Rightarrow> unit result" where
  "validateApplications G apps =
     (if list_all (\<lambda>app. app_namespace app = [] \<or> gx_isDNS1123Label G (app_namespace app)) apps then Inr ()
      else Inl (Plain ''invalid namespace for application''))"

definition ValidateClusterSpec :: "'s cluster_gen \<Rightarrow> CreateClusterSpec \<Rightarrow> unit result" where
  "ValidateClusterSpec G body =
     (let cl = ccs_cluster body; sp = ac_spec cl in
      if cl_datacenterName (as_cloud sp) = [] then Inl (Plain ''cluster datacenter name is empty'')
      else if ao_id cl \<noteq> [] then Inl (Plain ''cluster.ID is read-only'')
      else if ac_type cl \<notin> set ClusterTypes then Inl (Plain ''invalid cluster type'')
      else
        (case as_version sp of
           None \<Rightarrow> Inl (Plain ''Version is required but was not specified'')
         | Some ver \<Rightarrow>
             if 100 < length (ao_name cl) then Inl (Plain ''invalid cluster name: too long'')
             else
               (case validateApplications G (ccs_applications body) of
                  Inl err \<Rightarrow> Inl err
                | Inr _ \<Rightarrow>
                    (case cl_providerName (as_cloud sp) of
                       Inl err \<Rightarrow> Inl (Wrapped err)
                     | Inr providerName \<Rightarrow>
                         (case gx_versionsForProvider G providerName of
                            Inl err \<Rightarrow> Inl (Wrapped err)
                          | Inr versions \<Rightarrow>
                              if list_ex (gx_semverEqual G ver) versions then Inr () else Inl (Plain ''unsupported version''))))))"

definition CreateClusterReq_Validate :: "'s cluster_gen \<Rightarrow> CreateClusterReq \<Rightarrow> unit result" where
  "CreateClusterReq_Validate G req =
     (if req_projectID req = [] then Inl (Plain ''the project ID cannot be empty'') else ValidateClusterSpec G (ccr_body req))"

definition valid_no_proxy_entry :: "string \<Rightarrow> bool" where
  "valid_no_proxy_entry token =
     (let entry = TrimSpace token in
      entry \<noteq> [] \<and> \<not> (CHR '' '' \<in> set entry \<or> CHR 0x09 \<in> set entry) \<and> \<not> Contains entry ''://'')"

definition ValidateProxySettings :: "'s cluster_gen \<Rightarrow> string \<Rightarrow> string \<Rightarrow> unit result" where
  "ValidateProxySettings G httpProxy noProxy =
     (if httpProxy \<noteq> [] \<and>
         (case gx_urlParse G httpProxy of
            Inl _ \<Rightarrow> True
          | Inr (scheme, host) \<Rightarrow> (scheme \<noteq> ''http'' \<and> scheme \<noteq> ''https'') \<or> host = [])
      then Inl (Plain ''invalid httpProxy'')
      else if noProxy \<noteq> [] \<and> \<not> list_all valid_no_proxy_entry (split_on (CHR '','') noProxy) then Inl (Plain ''invalid noProxy'')
      else Inr ())"

section \<open>The specification of a new cluster\<close>

definition CloudProviderForCluster :: "'s cluster_gen \<Rightarrow> clusterSpec \<Rightarrow> datacenter \<Rightarrow> ('s, string) act" where
  "CloudProviderForCluster G spec dc =
     bindA (wrapA Wrapped (liftA (cl_providerName (cl_cloud spec)))) (\<lambda>providerName.
       if providerName = [] then failA (Plain ''cluster has no cloud provider'') else gx_cloudProvider G dc)"

definition proxyValueOrNil :: "string \<Rightarrow> string option" where
  "proxyValueOrNil v = (if v = [] then None else Some v)"

definition osm_settings :: "'s cluster_gen \<Rightarrow> (string \<times> string) option \<Rightarrow> OSMSettings option result" where
  "osm_settings G proxy =
     (case proxy of
        None \<Rightarrow> Inr None
      | Some (httpProxy, noProxy) \<Rightarrow>
          (case ValidateProxySettings G httpProxy noProxy of
             Inl err \<Rightarrow> Inl err
           | Inr _ \<Rightarrow> Inr (Some \<lparr>osm_httpProxy = proxyValueOrNil httpProxy, osm_noProxy = proxyValueOrNil noProxy, osm_rest = []\<rparr>)))"

definition enc_on :: "EncryptionConfiguration option \<Rightarrow> bool" where
  "enc_on e = (case e of None \<Rightarrow> False | Some e \<Rightarrow> enc_enabled e)"

text \<open>The feature gates are changed for the whole process, and become the features of the cluster.\<close>

definition Spec :: "'s cluster_gen \<Rightarrow> apiCluster \<Rightarrow> string option \<Rightarrow> seed \<Rightarrow> datacenter \<Rightarrow> ('s, clusterSpec \<times> string) act" where
  "Spec G apiCluster template seed dc =
     (let sp = ac_spec apiCluster in
      bindA (gx_features G) (\<lambda>features.
      let features = (if enc_on (as_encryption sp) then AList.update ''encryptionAtRest'' True features
                      else AList.delete ''encryptionAtRest'' features) in
      bindA (gx_setFeatures G features) (\<lambda>_.
      bindA (liftA (osm_settings G (as_proxy sp))) (\<lambda>osm.
      let spec =
        \<lparr>cl_humanReadableName = ao_name apiCluster, cl_cloud = as_cloud sp, cl_oidc = as_oidc sp, cl_version = as_version sp,
         cl_enableUserSSHKeyAgent = (case as_enableUserSSHKeyAgent sp of None \<Rightarrow> Some True | Some b \<Rightarrow> Some b),
         cl_dashboardEnabled = (case as_dashboardEnabled sp of None \<Rightarrow> Some True | Some b \<Rightarrow> Some b),
         cl_auditLogging = as_auditLogging sp,
         cl_containerRuntime = (if as_containerRuntime sp = [] then ''containerd'' else as_containerRuntime sp),
         cl_network = (case as_network sp of
             None \<Rightarrow> \<lparr>cn_konnectivityEnabled = None, cn_proxyMode = [], cn_rest = []\<rparr> | Some n \<Rightarrow> n),
         cl_backupConfig = None, cl_encryption = as_encryption sp, cl_osm = osm, cl_features = features,
         cl_rest = as_rest sp, cl_internal = []\<rparr> in
      bindA (CloudProviderForCluster G spec dc) (\<lambda>cloudProvider.
      bindA (gx_defaultClusterSpec G spec template seed cloudProvider) (\<lambda>spec.
        retA (spec, cloudProvider)))))))"

section \<open>Encryption at rest\<close>

definition getEncryptionSecretName :: "string \<Rightarrow> string" where
  "getEncryptionSecretName clusterName = ''encryption-key-cluster-'' @ clusterName"

text \<open>A secret that exists already is left as it is.\<close>

definition createEncryptionSecret :: "'s cluster_gen \<Rightarrow> cluster \<Rightarrow> string \<Rightarrow> ('s, unit) act" where
  "createEncryptionSecret G c encryptionKey =
     (if encryptionKey = [] then failA (Plain ''encryption key is required'')
      else
        let sec = objmeta.extend (blank_meta\<lparr>om_name := getEncryptionSecretName (om_name c), om_namespace := gx_kubermaticNamespace G,
                    om_annotations := [(ClusterNameAnnotation, om_name c)]\<rparr>)
                  (secret.fields (Some [(''key'', encryptionKey)]) ''Opaque'') in
        tryA (kCreate (gx_masterSecrets G) sec) (\<lambda>r. case r of
          Inl err \<Rightarrow> if IsAlreadyExists err then retA () else failA (Wrapped err)
        | Inr _ \<Rightarrow> retA ()))"

definition setupEncryptionSpec :: "cluster \<Rightarrow> cluster result" where
  "setupEncryptionSpec c =
     (case cl_encryption (cl_spec c) of
        None \<Rightarrow> Inl (Plain ''encryption configuration is nil'')
      | Some e \<Rightarrow>
          let secretName = getEncryptionSecretName (om_name c);
              e = e\<lparr>enc_resources := (case enc_resources e of None \<Rightarrow> Some [''secrets''] | Some rs \<Rightarrow> Some rs),
                    enc_secretbox := Some [\<lparr>sbk_name = secretName, sbk_secretRef = (secretName, ''key'')\<rparr>]\<rparr>
          in Inr (c\<lparr>cl_spec := (cl_spec c)\<lparr>cl_encryption := Some e\<rparr>\<rparr>))"

definition handleEncryptionAtRest :: "'s cluster_gen \<Rightarrow> cluster \<Rightarrow> string option \<Rightarrow> ('s, cluster) act" where
  "handleEncryptionAtRest G c encryptionAtRest =
     (if \<not> enc_on (cl_encryption (cl_spec c)) then retA c
      else
        (case encryptionAtRest of
           None \<Rightarrow> failA (Plain ''encryption key is required when encryption at rest is enabled'')
         | Some key \<Rightarrow>
             if key = [] then failA (Plain ''encryption key is required when encryption at rest is enabled'')
             else
               bindA (wrapA Wrapped (liftA (setupEncryptionSpec c))) (\<lambda>c.
               bindA (createEncryptionSecret G c key) (\<lambda>_.
                 retA c))))"

definition handleEncryptionAtRestUpdate :: "'s cluster_gen \<Rightarrow> cluster \<Rightarrow> cluster \<Rightarrow> string option \<Rightarrow> ('s, cluster) act" where
  "handleEncryptionAtRestUpdate G existingCluster updatedCluster encryptionAtRest =
     (let wasEnabled = enc_on (cl_encryption (cl_spec existingCluster));
          willBeEnabled = enc_on (cl_encryption (cl_spec updatedCluster))
      in if \<not> wasEnabled \<and> willBeEnabled then
           (case encryptionAtRest of
              None \<Rightarrow> failA (Plain ''encryption key is required when enabling encryption at rest'')
            | Some key \<Rightarrow>
                if key = [] then failA (Plain ''encryption key is required when enabling encryption at rest'')
                else bindA (createEncryptionSecret G updatedCluster key) (\<lambda>_. retA updatedCluster))
         else if wasEnabled \<and> willBeEnabled
         then retA (updatedCluster\<lparr>cl_spec := (cl_spec updatedCluster)\<lparr>cl_encryption := cl_encryption (cl_spec existingCluster)\<rparr>\<rparr>)
         else retA updatedCluster)"

section \<open>Creating clusters\<close>

definition IsBringYourOwnProvider :: "'s cluster_gen \<Rightarrow> CloudSpec \<Rightarrow> bool result" where
  "IsBringYourOwnProvider G spec =
     (case cl_providerName spec of Inl err \<Rightarrow> Inl err | Inr providerName \<Rightarrow> Inr (providerName = gx_bringYourOwn G))"

text \<open>The preset is read without looking at the error, so a nil pointer may be followed.\<close>

definition checkIfPresetCustomized ::
  "string \<Rightarrow> UserInfo \<Rightarrow> CloudSpec \<Rightarrow> 's PresetProvider \<Rightarrow> string \<Rightarrow> ('s, bool) act" where
  "checkIfPresetCustomized projectID adminUserInfo cloudSpec credentialManager credentialName =
     tryA (prp_GetPreset credentialManager adminUserInfo (Some projectID) credentialName) (\<lambda>r.
       case cl_openstack cloudSpec of
         None \<Rightarrow> retA False
       | Some os \<Rightarrow>
           (case r of
              Inl _ \<Rightarrow> failA Panic
            | Inr preset \<Rightarrow>
                (case ps_openstack (pre_spec preset) of
                   None \<Rightarrow> failA Panic
                 | Some p \<Rightarrow>
                     retA (pv_isCustomizable p \<and>
                       (po_network p \<noteq> co_network os \<or> po_routerID p \<noteq> co_routerID os \<or>
                        po_floatingIPPool p \<noteq> co_floatingIPPool os \<or> po_securityGroups p \<noteq> co_securityGroups os)))))"

text \<open>The cluster of the request with the credentials of its preset, and the labels and annotations of the new cluster.\<close>

definition with_preset ::
  "'s cluster_gen \<Rightarrow> 's PresetProvider \<Rightarrow> UserInfo \<Rightarrow> string \<Rightarrow> apiCluster \<Rightarrow> datacenter \<Rightarrow> ('s, smap \<times> smap \<times> apiCluster) act" where
  "with_preset G credentialManager adminUserInfo projectID cl dc =
     (let credentialName = ac_credential cl; labels = ac_labels cl; annotations = ao_annotations cl in
      if credentialName = [] then retA (labels, annotations, cl)
      else
        bindA (wrapA (\<lambda>_. UtilBadRequest) (prp_SetCloudCredentials credentialManager adminUserInfo projectID credentialName
                 (as_cloud (ac_spec cl)) (Some dc))) (\<lambda>cloudSpec.
        bindA (checkIfPresetCustomized projectID adminUserInfo (as_cloud (ac_spec cl)) credentialManager credentialName) (\<lambda>customized.
          let cl' = cl\<lparr>ac_spec := (ac_spec cl)\<lparr>as_cloud := cloudSpec\<rparr>\<rparr> in
          if customized then retA (labels, annotations, cl'\<lparr>ac_credential := []\<rparr>)
          else retA (AList.update (gx_isCredentialPresetLabelKey G) ''true'' labels,
                     AList.update (gx_presetNameAnnotation G) credentialName annotations, cl'))))"

text \<open>
  The request for the first machines becomes an annotation. On the way the specification of the cluster is set back to
  \<open>spec\<close>, as it was before the encryption was set up and the cluster mutated, except for what both share.
\<close>

definition with_node_deployment ::
  "'s cluster_gen \<Rightarrow> datacenter \<Rightarrow> settings \<Rightarrow> clusterSpec \<Rightarrow> NodeDeployment option \<Rightarrow> cluster \<Rightarrow> ('s, cluster) act" where
  "with_node_deployment G dc globalSettings spec nodeDeployment c =
     (case nodeDeployment of
        None \<Rightarrow> retA c
      | Some nd \<Rightarrow>
          bindA (wrapA (\<lambda>_. UtilBadRequest) (liftA (IsBringYourOwnProvider G (cl_cloud spec)))) (\<lambda>isBYO.
            if isBYO then retA c
            else
              bindA (if nd_name nd = []
                     then bindA (gx_randString6 G) (\<lambda>r. retA (om_name c @ ''-worker-'' @ r)) else retA (nd_name nd)) (\<lambda>name.
                let c = c\<lparr>cl_spec := spec\<rparr> in
                bindA (wrapA Wrapped (liftA (gx_machineDeployment G c (nd\<lparr>nd_name := name\<rparr>) dc globalSettings))) (\<lambda>data.
                  retA (c\<lparr>om_annotations := AList.update (gx_initialMachineDeploymentAnnotation G) data (om_annotations c)\<rparr>)))))"

definition initial_applications :: "'s cluster_gen \<Rightarrow> Application list \<Rightarrow> string result" where
  "initial_applications G apps =
     (if apps = [] then Inr ''[]''
      else
        let apps = map (\<lambda>app. if app_name app = [] then app\<lparr>app_name := app_ref app @ ''-instance''\<rparr> else app) apps in
        (case gx_marshalApplications G (filter (\<lambda>app. map_of (app_annotations app) (gx_applicationEnforcedAnnotation G) \<noteq> Some ''true'') apps) of
           Inl err \<Rightarrow> Inl (Wrapped err) | Inr data \<Rightarrow> Inr data))"

definition GenerateCluster ::
  "'s cluster_gen \<Rightarrow> 's cluster_sdk \<Rightarrow> 'x sdk_scheme \<Rightarrow> string \<Rightarrow> CreateClusterSpec \<Rightarrow> 's SeedsGetter \<Rightarrow> 's PresetProvider \<Rightarrow>
     's UserInfoGetter \<Rightarrow> 's SettingsProvider \<Rightarrow> ('s, cluster) act" where
  "GenerateCluster G X K projectID body seedsGetter credentialManager userInfoGetter settingsProvider =
     bindA (httpA (userInfoGetter [])) (\<lambda>adminUserInfo.
     bindA (httpA (sp_GetGlobalSettings settingsProvider)) (\<lambda>globalSettings.
     let dcName = cl_datacenterName (as_cloud (ac_spec (ccs_cluster body))) in
     bindA (liftA (validateAuditWebhookBackendAllowed (gx_disabledAuditWebhookBackendDCs G globalSettings) dcName None
              (as_auditLogging (ac_spec (ccs_cluster body))))) (\<lambda>_.
     bindA (httpA (DatacenterFromSeedMap X adminUserInfo seedsGetter dcName)) (\<lambda>(seed, dc).
     bindA (cx_config X) (\<lambda>_.
     bindA (with_preset G credentialManager adminUserInfo projectID (ccs_cluster body) dc) (\<lambda>(labels, annotations, cl).
     bindA (httpA (gx_defaultingTemplate G seed)) (\<lambda>defaultingTemplate.
     bindA (wrapA (\<lambda>_. UtilBadRequest) (Spec G cl defaultingTemplate seed dc)) (\<lambda>(spec, cloudProvider).
     bindA (gx_makeClusterName G) (\<lambda>name.
     let c = objmeta.extend (blank_meta\<lparr>om_name := name, om_labels := labels, om_annotations := annotations\<rparr>)
               (cluster.fields [] spec zero_health [] [] [] [] [] [] [] None) in
     bindA (wrapA (\<lambda>_. UtilBadRequest) (handleEncryptionAtRest G c (ccs_encryptionAtRest body))) (\<lambda>c.
     let spec = spec\<lparr>cl_encryption := cl_encryption (cl_spec c)\<rparr> in
     bindA (wrapA (\<lambda>_. UtilBadRequest) (gx_mutateCreate G spec c seed cloudProvider)) (\<lambda>(spec, c).
     bindA (gx_features G) (\<lambda>features.
     bindA (wrapA (\<lambda>_. UtilBadRequest) (gx_validateNew G (cl_spec c) dc seed cloudProvider features)) (\<lambda>_.
     bindA (httpA (liftA (gx_validateUpdateWindow G (cl_spec c)))) (\<lambda>_.
     bindA (with_node_deployment G dc globalSettings spec (ccs_nodeDeployment body) c) (\<lambda>c.
     bindA (liftA (initial_applications G (ccs_applications body))) (\<lambda>data.
     let annotations = AList.update (gx_initialApplicationsAnnotation G) data (om_annotations c);
         annotations = (case map_of (ao_annotations cl) (gx_initialCNIValuesAnnotation G) of
             None \<Rightarrow> annotations | Some v \<Rightarrow> AList.update (gx_initialCNIValuesAnnotation G) v annotations);
         sp = (cl_spec c)\<lparr>cl_enableUserSSHKeyAgent :=
                 (case as_enableUserSSHKeyAgent (ac_spec cl) of None \<Rightarrow> Some True | Some b \<Rightarrow> Some b)\<rparr>;
         sp = (case as_backupConfig (ac_spec cl) of None \<Rightarrow> sp | Some b \<Rightarrow> sp\<lparr>cl_backupConfig := Some b\<rparr>) in
     retA (c\<lparr>om_annotations := annotations, om_labels := AList.update (projectIDLabelKey K) projectID (om_labels c), cl_spec := sp\<rparr>)
     ))))))))))))))))"

definition createNewCluster ::
  "'s UserInfoGetter \<Rightarrow> 's UserClusterProvider \<Rightarrow> 's PrivilegedClusterProvider \<Rightarrow> project \<Rightarrow> cluster \<Rightarrow> ('s, cluster) act" where
  "createNewCluster userInfoGetter clusterProvider privilegedClusterProvider project c =
     bindA (httpA (userInfoGetter [])) (\<lambda>adminUserInfo.
       if ui_isAdmin adminUserInfo
       then pcp_NewUnsecured privilegedClusterProvider (Some project) (Some c) (ui_email adminUserInfo)
       else
         bindA (httpA (userInfoGetter (om_name project))) (\<lambda>userInfo.
           ucp_New clusterProvider (Some project) (Some userInfo) (Some c)))"

text \<open>\<^verbatim>\<open>wait.PollUntilContextTimeout\<close>: the first attempt is made at once, then one after each wait, until one succeeds.\<close>

fun poll :: "('s, 'a) act \<Rightarrow> ('s \<Rightarrow> 's) list \<Rightarrow> ('s, bool) act" where
  "poll attempt [] = tryA attempt (\<lambda>r. case r of Inl _ \<Rightarrow> retA False | Inr _ \<Rightarrow> retA True)"
| "poll attempt (w # ws) = tryA attempt (\<lambda>r. case r of Inl _ \<Rightarrow> (\<lambda>s. poll attempt ws (w s)) | Inr _ \<Rightarrow> retA True)"

definition CreateEndpoint ::
  "'s cluster_gen \<Rightarrow> 's cluster_sdk \<Rightarrow> 'x sdk_scheme \<Rightarrow> 's UserClusterProvider \<Rightarrow> 's PrivilegedClusterProvider \<Rightarrow> string \<Rightarrow> CreateClusterSpec \<Rightarrow>
     's ProjectProvider \<Rightarrow> 's PrivilegedProjectProvider \<Rightarrow> 's SeedsGetter \<Rightarrow> 's PresetProvider \<Rightarrow> 's UserInfoGetter \<Rightarrow> 's SettingsProvider \<Rightarrow>
     ('s, apiCluster) act" where
  "CreateEndpoint G X K clusterProvider privilegedClusterProvider projectID body projectProvider privilegedProjectProvider seedsGetter
     credentialManager userInfoGetter settingsProvider =
     bindA (httpA (userInfoGetter [])) (\<lambda>adminUserInfo.
     bindA (httpA (DatacenterFromSeedMap X adminUserInfo seedsGetter
              (cl_datacenterName (as_cloud (ac_spec (ccs_cluster body)))))) (\<lambda>(_, dc).
     bindA (GenerateCluster G X K projectID body seedsGetter credentialManager userInfoGetter settingsProvider) (\<lambda>partialCluster.
     bindA (httpA (GetProject userInfoGetter projectProvider privilegedProjectProvider projectID
              (Some \<lparr>includeUninitialized = False\<rparr>))) (\<lambda>project.
     bindA (httpA (ucp_List clusterProvider (Some project)
              (Some \<lparr>clo_clusterSpecName = cl_humanReadableName (cl_spec partialCluster)\<rparr>))) (\<lambda>existingClusters.
       if existingClusters \<noteq> [] then failA UtilAlreadyExists
       else
         bindA (httpA (createNewCluster userInfoGetter clusterProvider privilegedClusterProvider project partialCluster)) (\<lambda>newCluster.
         bindA (cx_config X) (\<lambda>_.
         bindA (poll (GetInternalCluster userInfoGetter clusterProvider privilegedClusterProvider project projectID (om_name newCluster)
                        (Some \<lparr>cgo_checkInitStatus = False\<rparr>)) (gx_waits G)) (\<lambda>ready.
           if ready then retA (ConvertInternalClusterToExternal K X newCluster dc True)
           else failA (HTTPError 500)))))))))"

definition v2_CreateEndpoint ::
  "'s cluster_gen \<Rightarrow> 's cluster_sdk \<Rightarrow> 'x sdk_scheme \<Rightarrow> 's UserClusterProvider \<Rightarrow> 's PrivilegedClusterProvider \<Rightarrow> CreateClusterReq \<Rightarrow>
     's ProjectProvider \<Rightarrow> 's PrivilegedProjectProvider \<Rightarrow> 's SeedsGetter \<Rightarrow> 's PresetProvider \<Rightarrow> 's UserInfoGetter \<Rightarrow> 's SettingsProvider \<Rightarrow>
     ('s, apiCluster) act" where
  "v2_CreateEndpoint G X K clusterProvider privilegedClusterProvider req projectProvider privilegedProjectProvider seedsGetter
     credentialManager userInfoGetter settingsProvider =
     bindA (cx_config X) (\<lambda>_.
     bindA (wrapA (\<lambda>_. UtilBadRequest) (liftA (CreateClusterReq_Validate G req))) (\<lambda>_.
       CreateEndpoint G X K clusterProvider privilegedClusterProvider (req_projectID req) (ccr_body req) projectProvider
         privilegedProjectProvider seedsGetter credentialManager userInfoGetter settingsProvider))"

section \<open>Kubelet versions\<close>

text \<open>The sets are lists without repetitions; Go iterates over them in any order.\<close>

definition getKubeletVersions :: "'s uclient \<Rightarrow> ('s, string list) act" where
  "getKubeletVersions client =
     bindA (wrapA Wrapped (listA (uc_machines client) Everything)) (\<lambda>machineList.
     bindA (httpA (listA (uc_machineDeployments client) Everything)) (\<lambda>machineDeployments.
       retA (remdups (map (\<lambda>m. TrimSpace (mac_kubelet m)) (filter (\<lambda>m. om_ownerReferences m = []) machineList @ machineDeployments)))))"

fun incompatible_versions :: "'s cluster_gen \<Rightarrow> string option \<Rightarrow> string list \<Rightarrow> string list result" where
  "incompatible_versions G clusterVersion [] = Inr []"
| "incompatible_versions G clusterVersion (ver # vers) =
     (case gx_parseVersion G ver of
        Inl err \<Rightarrow> Inl (Wrapped err)
      | Inr kubeletVersion \<Rightarrow>
          (case gx_ensureVersionCompatible G clusterVersion kubeletVersion of
             VersionError err \<Rightarrow> Inl (Wrapped err)
           | VersionOK \<Rightarrow> incompatible_versions G clusterVersion vers
           | VersionSkew \<Rightarrow>
               (case incompatible_versions G clusterVersion vers of
                  Inl err \<Rightarrow> Inl err
                | Inr bad \<Rightarrow> Inr (List.insert kubeletVersion bad))))"

definition CheckClusterVersionSkew ::
  "'s cluster_gen \<Rightarrow> 's UserInfoGetter \<Rightarrow> 's UserClusterProvider \<Rightarrow> cluster \<Rightarrow> string \<Rightarrow> ('s, string list) act" where
  "CheckClusterVersionSkew G userInfoGetter clusterProvider c projectID =
     bindA (wrapA Wrapped (GetClusterClient userInfoGetter clusterProvider c projectID)) (\<lambda>client.
     bindA (wrapA Wrapped (getKubeletVersions client)) (\<lambda>kubeletVersions.
       liftA (incompatible_versions G (cl_version (cl_spec c)) kubeletVersions)))"

section \<open>Patching clusters\<close>

definition applyProxyOverridePatch :: "'s cluster_gen \<Rightarrow> (string \<times> string) option \<Rightarrow> cluster \<Rightarrow> cluster result" where
  "applyProxyOverridePatch G proxy c =
     (case proxy of
        None \<Rightarrow> Inr c
      | Some (httpProxy, noProxy) \<Rightarrow>
          (case ValidateProxySettings G httpProxy noProxy of
             Inl _ \<Rightarrow> Inl UtilBadRequest
           | Inr _ \<Rightarrow>
               let osm = (if httpProxy = [] \<and> noProxy = []
                          then map_option (\<lambda>osm. osm\<lparr>osm_httpProxy := None, osm_noProxy := None\<rparr>) (cl_osm (cl_spec c))
                          else
                            let old = (case cl_osm (cl_spec c) of None \<Rightarrow> \<lparr>osm_httpProxy = None, osm_noProxy = None, osm_rest = []\<rparr> | Some osm \<Rightarrow> osm)
                            in Some (old\<lparr>osm_httpProxy := proxyValueOrNil httpProxy, osm_noProxy := proxyValueOrNil noProxy\<rparr>))
               in Inr (c\<lparr>cl_spec := (cl_spec c)\<lparr>cl_osm := osm\<rparr>\<rparr>)))"

text \<open>Only these fields of a cluster are taken over from the patched one.\<close>

definition take_over :: "cluster \<Rightarrow> apiCluster \<Rightarrow> ClusterNetwork \<Rightarrow> cluster" where
  "take_over old patched network =
     (let sp = ac_spec patched in
      old\<lparr>om_labels := ac_labels patched, om_annotations := ao_annotations patched,
          cl_spec := (cl_spec old)
            \<lparr>cl_humanReadableName := ao_name patched, cl_cloud := as_cloud sp, cl_version := as_version sp, cl_oidc := as_oidc sp,
             cl_auditLogging := as_auditLogging sp, cl_containerRuntime := as_containerRuntime sp,
             cl_network := (cl_network (cl_spec old))\<lparr>cn_konnectivityEnabled := cn_konnectivityEnabled network, cn_proxyMode := cn_proxyMode network\<rparr>,
             cl_backupConfig := as_backupConfig sp, cl_dashboardEnabled := as_dashboardEnabled sp, cl_encryption := as_encryption sp,
             cl_rest := as_rest sp\<rparr>\<rparr>)"

text \<open>When credentials were changed the cluster is not linked to its preset any more.\<close>

definition unlink_preset :: "'s cluster_gen \<Rightarrow> cluster \<Rightarrow> cluster" where
  "unlink_preset G c =
     c\<lparr>om_labels := AList.delete (gx_isCredentialPresetLabelKey G) (om_labels c),
       om_annotations := AList.delete (gx_presetInvalidatedAnnotation G) (AList.delete (gx_presetNameAnnotation G) (om_annotations c))\<rparr>"

text \<open>The key for the encryption comes as an annotation, which is removed.\<close>

definition take_encryption_key :: "'s cluster_gen \<Rightarrow> cluster \<Rightarrow> (cluster \<times> string option) result" where
  "take_encryption_key G c =
     (case map_of (om_annotations c) EncryptionKeyAnnotation of
        None \<Rightarrow> Inr (c, None)
      | Some key \<Rightarrow>
          let c = c\<lparr>cl_spec := (cl_spec c)\<lparr>cl_features := AList.update (gx_encryptionAtRestFeature G) True (cl_features (cl_spec c))\<rparr>\<rparr> in
          (case (if enc_on (cl_encryption (cl_spec c)) then setupEncryptionSpec c else Inr c) of
             Inl _ \<Rightarrow> Inl UtilBadRequest
           | Inr c \<Rightarrow> Inr (c\<lparr>om_annotations := AList.delete EncryptionKeyAnnotation (om_annotations c)\<rparr>, Some key)))"

definition PatchEndpoint ::
  "'s cluster_gen \<Rightarrow> 's cluster_sdk \<Rightarrow> 's credentials_sdk \<Rightarrow> 'x sdk_scheme \<Rightarrow> 's UserClusterProvider \<Rightarrow> 's PrivilegedClusterProvider \<Rightarrow>
     string option \<Rightarrow> 's UserInfoGetter \<Rightarrow> string \<Rightarrow> string \<Rightarrow> string \<Rightarrow> 's SeedsGetter \<Rightarrow> 's ProjectProvider \<Rightarrow> 's PrivilegedProjectProvider \<Rightarrow>
     bool \<Rightarrow> 's SettingsProvider \<Rightarrow> ('s, apiCluster) act" where
  "PatchEndpoint G X R K clusterProvider privilegedClusterProvider rawToken userInfoGetter projectID clusterID patch seedsGetter
     projectProvider privilegedProjectProvider skipKubeletVersionValidation settingsProvider =
     bindA (httpA (GetProject userInfoGetter projectProvider privilegedProjectProvider projectID None)) (\<lambda>project.
     bindA (httpA (GetInternalCluster userInfoGetter clusterProvider privilegedClusterProvider project projectID clusterID
              (Some \<lparr>cgo_checkInitStatus = False\<rparr>))) (\<lambda>oldInternalCluster.
     bindA (wrapA (\<lambda>_. HTTPError 500) (userInfoGetter [])) (\<lambda>userInfo.
     bindA (wrapA Wrapped (DatacenterFromSeedMap X userInfo seedsGetter (cl_datacenterName (cloud_of oldInternalCluster)))) (\<lambda>(seed, dc).
     bindA (cx_config X) (\<lambda>_.
     bindA (wrapA (\<lambda>_. UtilBadRequest) (liftA (gx_mergePatch G (ConvertInternalClusterToExternal K X oldInternalCluster dc False) patch)))
       (\<lambda>patchedCluster. case patchedCluster of None \<Rightarrow> failA Panic | Some patchedCluster \<Rightarrow>
     bindA (httpA (sp_GetGlobalSettings settingsProvider)) (\<lambda>globalSettings.
     bindA (liftA (validateAuditWebhookBackendAllowed (gx_disabledAuditWebhookBackendDCs G globalSettings)
              (cl_datacenterName (cloud_of oldInternalCluster)) (cl_auditLogging (cl_spec oldInternalCluster))
              (as_auditLogging (ac_spec patchedCluster)))) (\<lambda>_.
     case as_network (ac_spec patchedCluster) of None \<Rightarrow> failA Panic | Some network \<Rightarrow>
     bindA (liftA (applyProxyOverridePatch G (as_proxy (ac_spec patchedCluster)) (take_over oldInternalCluster patchedCluster network))) (\<lambda>c.
     bindA (if skipKubeletVersionValidation then retA []
            else wrapA Wrapped (CheckClusterVersionSkew G userInfoGetter clusterProvider c projectID)) (\<lambda>incompatibleKubelets.
       if incompatibleKubelets \<noteq> [] then failA UtilBadRequest
       else
     bindA (httpA (gx_defaultingTemplate G seed)) (\<lambda>defaultingTemplate.
     bindA (CloudProviderForCluster G (cl_spec c) dc) (\<lambda>cloudProvider.
     bindA (gx_defaultClusterSpec G (cl_spec c) defaultingTemplate seed cloudProvider) (\<lambda>spec.
     bindA (httpA (CreateOrUpdateCredentialSecretForClusterWithValidation R rawToken (Some dc) (c\<lparr>cl_spec := spec\<rparr>))) (\<lambda>(c, changed).
     bindA (wrapA (\<lambda>_. UtilBadRequest) (gx_mutateUpdate G oldInternalCluster (if changed then unlink_preset G c else c) seed cloudProvider)) (\<lambda>c.
     bindA (liftA (take_encryption_key G c)) (\<lambda>(c, encryptionAtRest).
     bindA (gx_features G) (\<lambda>features.
     bindA (wrapA (\<lambda>_. UtilBadRequest) (gx_validateUpdate G c oldInternalCluster dc seed cloudProvider features)) (\<lambda>_.
     bindA (httpA (liftA (gx_validateUpdateWindow G (cl_spec c)))) (\<lambda>_.
     bindA (wrapA (\<lambda>_. UtilBadRequest) (handleEncryptionAtRestUpdate G oldInternalCluster c encryptionAtRest)) (\<lambda>c.
     bindA (httpA (updateCluster userInfoGetter clusterProvider privilegedClusterProvider project c)) (\<lambda>updatedCluster.
       retA (ConvertInternalClusterToExternal K X updatedCluster dc True))))))))))))))))))))))"

end
