(* ===== verification/Cluster_Change_Properties.thy ===== *)
theory Cluster_Change_Properties
  imports Cluster_Create Cluster_Properties Credential_Properties
begin

text \<open>
  What holds of creating and patching clusters: in whose name and where a cluster is created, and how the key of the
  encryption at rest travels from a request into a secret of the master cluster.
\<close>

section \<open>Creating clusters\<close>

abbreviation kube_create where
  "kube_create G E S X u pid body sg cm st \<equiv> CreateEndpoint G X E (kube_clusters E S) (kube_clusters_priv E S) pid body
     (kube_projectProvider E) (kube_privilegedProjectProvider E) sg cm (kube_getter E u) st"

text \<open>The client that acts for a user in a project: the privileged one for administrators, else one that impersonates.\<close>

definition acts_for :: "('s, 'x) env_scheme \<Rightarrow> 's seed_env \<Rightarrow> store \<Rightarrow> user \<Rightarrow> string \<Rightarrow> (cluster, 's) kclient \<Rightarrow> bool" where
  "acts_for E S st u pid k \<longleftrightarrow>
     (if us_isAdmin u then k = sv_client S
      else sv_impersonated S (us_email u) (sorted_list_of_set (granted_groups (st_upbs st) (st_gpbs st) u pid)) = Inr k)"

lemma change_fields:
  "ucp_New (NewClusterProvider K S) = cluster_New K S" "ucp_Update (NewClusterProvider K S) = cluster_Update K S"
  "ucp_List (NewClusterProvider K S) = cluster_List K S"
  "pcp_NewUnsecured (kube_privilegedClusterProvider K S) = cluster_NewUnsecured K S"
  "pcp_UpdateUnsecured (kube_privilegedClusterProvider K S) = cluster_UpdateUnsecured K S"
  by (simp_all add: NewClusterProvider_def kube_privilegedClusterProvider_def)

lemma mget_getClusterLabels:
  "workerNameLabelKey K \<noteq> projectIDLabelKey K \<Longrightarrow> mget (getClusterLabels K ls pid w) (projectIDLabelKey K) = pid"
  by (simp add: getClusterLabels_def Let_def mget_def update_conv')

lemma genAPICluster_InrD:
  assumes "genAPICluster K S p c w s = (Inr c', t)"
  shows "(om_name c \<noteq> [] \<and> om_name c' = om_name c \<and> t = s \<or> om_name c = [] \<and> sv_makeClusterName S s = (Inr (om_name c'), t)) \<and>
    om_labels c' = getClusterLabels K (om_labels c) (om_name p) w \<and>
    cl_spec c' = (cl_spec c)\<lparr>cl_humanReadableName := TrimSpace (cl_humanReadableName (cl_spec c))\<rparr>"
  using assms by (auto simp: genAPICluster_def bindA_eq_Inr objmeta.defs cluster.defs split: if_splits)

text \<open>
  The request that creates a cluster from the generated one, \<open>part\<close>, in a project: it is sent by the client \<open>k\<close> in the state \<open>s\<close>, or, if \<open>part\<close> has no name,
  after one was drawn there. The specification is that of \<open>part\<close> with the spaces around the name cut off.
\<close>

definition creates_with :: "('s, 'x) env_scheme \<Rightarrow> 's seed_env \<Rightarrow> (cluster, 's) kclient \<Rightarrow> string \<Rightarrow> cluster \<Rightarrow> 's \<Rightarrow> bool" where
  "creates_with E S k pid part s \<longleftrightarrow> (\<exists>c s' c' t.
     (om_name part \<noteq> [] \<and> om_name c = om_name part \<and> s' = s \<or> om_name part = [] \<and> sv_makeClusterName S s = (Inr (om_name c), s')) \<and>
     kCreate k c s' = (Inr c', t) \<and> mget (om_labels c) (projectIDLabelKey E) = pid \<and>
     cl_spec c = (cl_spec part)\<lparr>cl_humanReadableName := TrimSpace (cl_humanReadableName (cl_spec part))\<rparr>)"

lemma creates_withI:
  assumes "genAPICluster E S p part w s = (Inr c, s')" and "kCreate k c s' = (Inr c', t)" and "workerNameLabelKey E \<noteq> projectIDLabelKey E"
  shows "creates_with E S k (om_name p) part s"
  using genAPICluster_InrD[OF assms(1)] assms(2) mget_getClusterLabels[OF assms(3)] unfolding creates_with_def by metis

lemma cluster_NewUnsecured_InrD:
  assumes "cluster_NewUnsecured E S (Some p) (Some c) mail s = (Inr c', t)" and "workerNameLabelKey E \<noteq> projectIDLabelKey E"
  shows "creates_with E S (sv_client S) (om_name p) c s"
  using assms(1) unfolding cluster_NewUnsecured_def
  by (auto elim!: bindA_InrE split: if_splits intro: creates_withI[OF _ _ assms(2)])

lemma cluster_New_InrD:
  assumes "cluster_New E S (Some p) (Some i) (Some c) s = (Inr c', t)" and "workerNameLabelKey E \<noteq> projectIDLabelKey E"
  shows "\<exists>k. sv_impersonated S (ui_email i) (ui_groups i) = Inr k \<and> creates_with E S k (om_name p) c s"
  using assms(1) unfolding cluster_New_def seed_impersonated_def
  by (auto simp: bindA_eq_Inr split: if_splits intro: creates_withI[OF _ _ assms(2)])

lemma cluster_List_named:
  assumes "list_ok P (sv_client S)"
  shows "cluster_List K S (Some p) (Some \<lparr>clo_clusterSpecName = n\<rparr>) s =
    (Inr (if n = [] then project_clusters K (om_name p) (P s)
          else filter (\<lambda>c. cl_humanReadableName (cl_spec c) = n) (project_clusters K (om_name p) (P s))), s)"
  using assms by (simp add: cluster_List_def list_okD project_clusters_def)

lemma createNewCluster_InrD:
  assumes api: "api_ok V E" and sel: "selectors_ok E" and name: "om_name p \<noteq> []" and wk: "workerNameLabelKey E \<noteq> projectIDLabelKey E"
    and run: "createNewCluster (kube_getter E u) (kube_clusters E S) (kube_clusters_priv E S) p c s = (Inr c', t)"
  shows "\<exists>k. acts_for E S (V s) u (om_name p) k \<and> creates_with E S k (om_name p) c s"
proof -
  from run obtain a where a: "kube_getter E u [] s = (Inr a, s)"
    and r: "(if ui_isAdmin a then cluster_NewUnsecured E S (Some p) (Some c) (ui_email a)
       else bindA (httpA (kube_getter E u (om_name p))) (\<lambda>i. cluster_New E S (Some p) (Some i) (Some c))) s = (Inr c', t)"
    unfolding createNewCluster_def change_fields
    by (auto simp: bind_reads reads_wrapA me.getter_reads wrapA_eq_Inr)
  have adm: "ui_isAdmin a = us_isAdmin u" by (rule me.getter_admin[OF a])
  show ?thesis
  proof (cases "us_isAdmin u")
    case True
    with r adm cluster_NewUnsecured_InrD[of E S p c "ui_email a" s c' t] wk show ?thesis by (simp add: acts_for_def)
  next
    case False
    with r adm obtain i where i: "kube_getter E u (om_name p) s = (Inr i, s)" and n: "cluster_New E S (Some p) (Some i) (Some c) s = (Inr c', t)"
      by (auto simp: bind_reads reads_wrapA me.getter_reads wrapA_eq_Inr)
    from cluster_New_InrD[OF n wk] False show ?thesis
      by (simp add: acts_for_def getter_grants(1,2)[OF api sel i name])
  qed
qed

lemma DatacenterFromSeedMap_InrD:
  assumes "DatacenterFromSeedMap X i sg n s = (Inr (seed, dc), t)"
  shows "(ui_isAdmin i \<or> canAccessDatacenter X dc (ui_email i)) \<and> (\<exists>seeds. sg s = (Inr seeds, t) \<and> matching_datacenters seeds n = [(seed, dc)])"
proof -
  from assms obtain seeds t' where sg: "sg s = (Inr seeds, t')" and "(case matching_datacenters seeds n of [] \<Rightarrow> failA (HTTPError 404)
       | [(seed, dc)] \<Rightarrow> if \<not> ui_isAdmin i \<and> \<not> canAccessDatacenter X dc (ui_email i) then failA (HTTPError 403) else retA (seed, dc)
       | _ \<Rightarrow> failA (HTTPError 500)) t' = (Inr (seed, dc), t)"
    unfolding DatacenterFromSeedMap_def by (auto elim!: bindA_InrE simp: wrapA_eq_Inr simp del: split_paired_Ex split_paired_All)
  then show ?thesis
    by (cases "matching_datacenters seeds n"; cases "tl (matching_datacenters seeds n)"; cases "hd (matching_datacenters seeds n)")
      (auto split: if_splits)
qed

text \<open>The datacenter and the name of a cluster. Defaulting and mutating a specification, which the SDK does, leave both alone.\<close>

definition place :: "clusterSpec \<Rightarrow> string \<times> string" where
  "place sp = (cl_datacenterName (cl_cloud sp), cl_humanReadableName sp)"

definition keeps_place :: "'s cluster_gen \<Rightarrow> bool" where
  "keeps_place G \<longleftrightarrow>
     (\<forall>sp tpl seed cp s sp' t. gx_defaultClusterSpec G sp tpl seed cp s = (Inr sp', t) \<longrightarrow> place sp' = place sp) \<and>
     (\<forall>sp c seed cp s sp' c' t. gx_mutateCreate G sp c seed cp s = (Inr (sp', c'), t) \<longrightarrow>
        place sp' = place sp \<and> place (cl_spec c') = place (cl_spec c))"

lemma preset_credentials_datacenter:
  "preset_credentials preset cloud dc = Inr cloud' \<Longrightarrow> cl_datacenterName cloud' = cl_datacenterName cloud"
  unfolding preset_credentials_def when_set_def setVsphereCredentials_def setBaremetalCredentials_def setOpenStackCredentials_def
    setAzureCredentials_def setDigitalOceanCredentials_def setHetznerCredentials_def setAWSCredentials_def setGCPCredentials_def
    setFakeCredentials_def setKubevirtCredentials_def setAlibabaCredentials_def setAnexiaCredentials_def setNutanixCredentials_def
    setVMwareCloudDirectorCredentials_def Let_def
  by (auto split: option.split_asm if_split_asm)

lemma with_preset_InrD:
  assumes "with_preset G (NewPresetProvider KP kp) i pid cl dc s = (Inr (ls, anns, cl'), t)"
  shows "ao_name cl' = ao_name cl \<and> cl_datacenterName (as_cloud (ac_spec cl')) = cl_datacenterName (as_cloud (ac_spec cl))"
  using assms unfolding with_preset_def NewPresetProvider_def SetCloudCredentials_def Let_def
  by (auto elim!: bindA_InrE simp: wrapA_eq_Inr dest!: preset_credentials_datacenter split: if_split_asm)

lemma Spec_InrD:
  assumes "keeps_place G" and "Spec G cl tpl seed dc s = (Inr (sp, cp), t)"
  shows "place sp = (cl_datacenterName (as_cloud (ac_spec cl)), ao_name cl)"
  using assms unfolding Spec_def Let_def keeps_place_def by (fastforce elim!: bindA_InrE simp: place_def)

lemma handleEncryptionAtRest_place:
  "handleEncryptionAtRest G c key s = (Inr c', t) \<Longrightarrow> place (cl_spec c') = place (cl_spec c)"
  by (auto simp: handleEncryptionAtRest_def setupEncryptionSpec_def Let_def wrapA_eq_Inr place_def elim!: bindA_InrE split: if_splits option.splits)

lemma with_node_deployment_place:
  assumes "with_node_deployment G dc gs sp nd c s = (Inr c', t)" and "place sp = place (cl_spec c)"
  shows "place (cl_spec c') = place (cl_spec c)"
  using assms by (auto simp: with_node_deployment_def Let_def wrapA_eq_Inr elim!: bindA_InrE split: if_splits option.splits)

lemma GenerateCluster_place:
  assumes keeps: "keeps_place G"
    and run: "GenerateCluster G X K pid body sg (NewPresetProvider KP kp) g st s = (Inr c, t)"
  shows "place (cl_spec c) = (cl_datacenterName (as_cloud (ac_spec (ccs_cluster body))), ao_name (ccs_cluster body))"
proof -
  obtain i dc s1 ls anns cl s2 tpl seed s3 sp cp s4 name s5 c1 s6 s7 sp2 c2 s8 gs s9 c3 s10 an la agent where
    pre: "with_preset G (NewPresetProvider KP kp) i pid (ccs_cluster body) dc s1 = (Inr (ls, anns, cl), s2)"
    and spec: "Spec G cl tpl seed dc s3 = (Inr (sp, cp), s4)"
    and enc: "handleEncryptionAtRest G (objmeta.extend (blank_meta\<lparr>om_name := name, om_labels := ls, om_annotations := anns\<rparr>)
       (cluster.fields [] sp zero_health [] [] [] [] [] [] [] None)) (ccs_encryptionAtRest body) s5 = (Inr c1, s6)"
    and mut: "gx_mutateCreate G (sp\<lparr>cl_encryption := cl_encryption (cl_spec c1)\<rparr>) c1 seed cp s7 = (Inr (sp2, c2), s8)"
    and nd: "with_node_deployment G dc gs sp2 (ccs_nodeDeployment body) c2 s9 = (Inr c3, s10)"
    and c: "c = c3\<lparr>om_annotations := an, om_labels := la, cl_spec := (case as_backupConfig (ac_spec cl) of
       None \<Rightarrow> (cl_spec c3)\<lparr>cl_enableUserSSHKeyAgent := agent\<rparr>
     | Some b \<Rightarrow> (cl_spec c3)\<lparr>cl_enableUserSSHKeyAgent := agent, cl_backupConfig := Some b\<rparr>)\<rparr>"
    using run unfolding GenerateCluster_def Let_def by (auto elim!: bindA_InrE simp: wrapA_eq_Inr split: prod.split_asm)
  from mut keeps have "place sp2 = place (sp\<lparr>cl_encryption := cl_encryption (cl_spec c1)\<rparr>)" "place (cl_spec c2) = place (cl_spec c1)"
    unfolding keeps_place_def by blast+
  moreover have "place (sp\<lparr>cl_encryption := e\<rparr>) = place sp" for e by (simp add: place_def)
  moreover have "place (cl_spec c1) = place sp" using handleEncryptionAtRest_place[OF enc] by (simp add: objmeta.defs cluster.defs)
  ultimately have "place (cl_spec c3) = place sp" using with_node_deployment_place[OF nd] by simp
  moreover have "place (cl_spec c) = place (cl_spec c3)" by (simp add: c place_def split: option.split)
  ultimately show ?thesis using Spec_InrD[OF keeps spec] with_preset_InrD[OF pre] by simp
qed

text \<open>
  C29: creating a cluster. A successful request names a datacenter that exactly one seed has and that the caller, unless he
  is an administrator, may use. The cluster that is generated from the request is in that datacenter and has the name of the request,
  provided that defaulting and mutation in the SDK leave these two alone. It is created, labelled with the project, with the privileged client
  only for administrators, and else with one that impersonates the caller with exactly the groups granted to him in the project. When it is
  created, no cluster of the project on this seed has the name that was asked for; but the cluster is stored with this name
  trimmed, so that a name with spaces around it evades the comparison.
\<close>

theorem cluster_creation_authorized:
  assumes api: "api_ok V E" and sel: "selectors_ok E" and pid: "pid \<noteq> []" and wk: "workerNameLabelKey E \<noteq> projectIDLabelKey E"
    and P: "list_ok P (sv_client S)" and sg: "reads sg"
    and run: "kube_create G E S X u pid body sg (NewPresetProvider KP kp) st s = (Inr a, t)"
  shows "(\<exists>seeds seed dc. sg s = (Inr seeds, s) \<and>
      matching_datacenters seeds (cl_datacenterName (as_cloud (ac_spec (ccs_cluster body)))) = [(seed, dc)] \<and>
      (us_isAdmin u \<or> canAccessDatacenter X dc (us_email u))) \<and>
    (\<exists>part s' k. GenerateCluster G X E pid body sg (NewPresetProvider KP kp) (kube_getter E u) st s = (Inr part, s') \<and>
      (keeps_place G \<longrightarrow> cl_datacenterName (cl_cloud (cl_spec part)) = cl_datacenterName (as_cloud (ac_spec (ccs_cluster body))) \<and>
         cl_humanReadableName (cl_spec part) = ao_name (ccs_cluster body)) \<and>
      acts_for E S (V s') u pid k \<and> creates_with E S k pid part s' \<and>
      (\<forall>d \<in> set (project_clusters E pid (P s')). cl_humanReadableName (cl_spec part) \<noteq> [] \<and>
         cl_humanReadableName (cl_spec d) \<noteq> cl_humanReadableName (cl_spec part)))"
proof -
  let ?dc = "cl_datacenterName (as_cloud (ac_spec (ccs_cluster body)))"
  obtain i s1 seed dc s2 c s3 p s4 s5 c' s6 where i: "kube_getter E u [] s = (Inr i, s1)"
    and d: "DatacenterFromSeedMap X i sg ?dc s1 = (Inr (seed, dc), s2)"
    and g: "GenerateCluster G X E pid body sg (NewPresetProvider KP kp) (kube_getter E u) st s2 = (Inr c, s3)"
    and p: "GetProject (kube_getter E u) (kube_projectProvider E) (kube_privilegedProjectProvider E) pid (Some \<lparr>includeUninitialized = False\<rparr>) s3 = (Inr p, s4)"
    and l: "cluster_List E S (Some p) (Some \<lparr>clo_clusterSpecName = cl_humanReadableName (cl_spec c)\<rparr>) s4 = (Inr [], s5)"
    and n: "createNewCluster (kube_getter E u) (kube_clusters E S) (kube_clusters_priv E S) p c s5 = (Inr c', s6)"
    using run unfolding CreateEndpoint_def change_fields
    by (auto elim!: bindA_InrE simp: wrapA_eq_Inr split: prod.split_asm if_split_asm)
  have st: "s1 = s" "s2 = s1" "s4 = s3"
    using readsD[OF me.getter_reads i] readsD[OF reads_DatacenterFromSeedMap[OF sg] d] readsD[OF reads_GetProject p] by auto
  have name: "om_name p = pid" using GetProject_name[OF api] p unfolding st by blast
  from l have none: "s5 = s3" "\<forall>d \<in> set (project_clusters E pid (P s3)). cl_humanReadableName (cl_spec c) \<noteq> [] \<and>
      cl_humanReadableName (cl_spec d) \<noteq> cl_humanReadableName (cl_spec c)"
    by (auto simp: cluster_List_named[OF P] name st filter_empty_conv split: if_splits)
  have "ui_isAdmin i = us_isAdmin u" "ui_email i = us_email u"
    using me.getter_admin[OF i] mapper.getter_identity(1)[OF i] by auto
  with DatacenterFromSeedMap_InrD[OF d] have "\<exists>seeds seed dc. sg s = (Inr seeds, s) \<and> matching_datacenters seeds ?dc = [(seed, dc)] \<and>
      (us_isAdmin u \<or> canAccessDatacenter X dc (us_email u))" unfolding st by auto
  moreover from createNewCluster_InrD[OF api sel _ wk n] pid none obtain k where "acts_for E S (V s3) u pid k"
    "creates_with E S k pid c s3" unfolding name by auto
  moreover have "keeps_place G \<longrightarrow> cl_datacenterName (cl_cloud (cl_spec c)) = ?dc \<and> cl_humanReadableName (cl_spec c) = ao_name (ccs_cluster body)"
    using GenerateCluster_place[OF _ g] by (simp add: place_def)
  ultimately show ?thesis using none(2) g unfolding st by blast
qed

section \<open>Encryption at rest\<close>

abbreviation kube_patch where
  "kube_patch G E S X R tok u pid cid patch sg skip st \<equiv> PatchEndpoint G X R E (kube_clusters E S) (kube_clusters_priv E S) tok (kube_getter E u)
     pid cid patch sg (kube_projectProvider E) (kube_privilegedProjectProvider E) skip st"

text \<open>
  The function of the SDK that mutates an updated cluster leaves the annotation with the key alone, and the annotations that unlinking a
  preset removes are others.
\<close>

definition keeps_key :: "'s cluster_gen \<Rightarrow> bool" where
  "keeps_key G \<longleftrightarrow> gx_presetNameAnnotation G \<noteq> EncryptionKeyAnnotation \<and> gx_presetInvalidatedAnnotation G \<noteq> EncryptionKeyAnnotation \<and>
     (\<forall>old c seed cp s c' t. gx_mutateUpdate G old c seed cp s = (Inr c', t) \<longrightarrow>
        map_of (om_annotations c') EncryptionKeyAnnotation = map_of (om_annotations c) EncryptionKeyAnnotation)"

lemma unlink_preset_key:
  "keeps_key G \<Longrightarrow> map_of (om_annotations (unlink_preset G c)) EncryptionKeyAnnotation = map_of (om_annotations c) EncryptionKeyAnnotation"
  by (auto simp: keeps_key_def unlink_preset_def delete_conv')

lemma changed_annotations:
  assumes keeps: "keeps_key G" and proxy: "applyProxyOverridePatch G px (take_over old patched net) = Inr c1"
    and cred: "CreateOrUpdateCredentialSecretForClusterWithValidation R tok v (c1\<lparr>cl_spec := sp\<rparr>) s = (Inr (c2, changed), s')"
    and mut: "gx_mutateUpdate G old (if changed then unlink_preset G c2 else c2) seed cp s'' = (Inr c3, t)"
  shows "map_of (om_annotations c3) EncryptionKeyAnnotation = map_of (ao_annotations patched) EncryptionKeyAnnotation"
proof -
  from proxy have "om_annotations c1 = ao_annotations patched"
    by (auto simp: applyProxyOverridePatch_def take_over_def Let_def split: option.splits prod.splits sum.splits)
  moreover have "om_annotations c2 = om_annotations c1"
    using arg_cong[where f = om_annotations, OF createOrUpdate_cloud_only[OF cred[unfolded CreateOrUpdateCredentialSecretForClusterWithValidation_def]]]
    by (simp add: with_cloud_def)
  ultimately show ?thesis
    using keeps mut unlink_preset_key[OF keeps] unfolding keeps_key_def by (metis (full_types))
qed

lemma PatchEndpoint_InrD:
  assumes run: "kube_patch G E S X R tok u pid cid patch sg skip st s = (Inr a, t)"
  obtains p old dc patched c key c' c'' u' s1 s2 where
    "GetProject (kube_getter E u) (kube_projectProvider E) (kube_privilegedProjectProvider E) pid None s = (Inr p, s)"
    and "GetInternalCluster (kube_getter E u) (kube_clusters E S) (kube_clusters_priv E S) p pid cid (Some \<lparr>cgo_checkInitStatus = False\<rparr>) s = (Inr old, s)"
    and "gx_mergePatch G (ConvertInternalClusterToExternal E X old dc False) patch = Inr (Some patched)"
    and "keeps_key G \<longrightarrow> map_of (om_annotations c) EncryptionKeyAnnotation = map_of (ao_annotations patched) EncryptionKeyAnnotation"
    and "take_encryption_key G c = Inr (c', key)"
    and "handleEncryptionAtRestUpdate G old c' key s1 = (Inr c'', s2)"
    and "updateCluster (kube_getter E u) (kube_clusters E S) (kube_clusters_priv E S) p c'' s2 = (Inr u', t)"
proof -
  obtain p s0 old s0' dc patched net c1 sp s3 c2 changed s4 seed cp s4' c s5 c' key s1 c'' s2 u' where
    p: "GetProject (kube_getter E u) (kube_projectProvider E) (kube_privilegedProjectProvider E) pid None s = (Inr p, s0)"
    and o: "GetInternalCluster (kube_getter E u) (kube_clusters E S) (kube_clusters_priv E S) p pid cid (Some \<lparr>cgo_checkInitStatus = False\<rparr>) s0 = (Inr old, s0')"
    and m: "gx_mergePatch G (ConvertInternalClusterToExternal E X old dc False) patch = Inr (Some patched)"
    and c1: "applyProxyOverridePatch G (as_proxy (ac_spec patched)) (take_over old patched net) = Inr c1"
    and c2: "CreateOrUpdateCredentialSecretForClusterWithValidation R tok (Some dc) (c1\<lparr>cl_spec := sp\<rparr>) s3 = (Inr (c2, changed), s4)"
    and c3: "gx_mutateUpdate G old (if changed then unlink_preset G c2 else c2) seed cp s4' = (Inr c, s5)"
    and r: "take_encryption_key G c = Inr (c', key)" "handleEncryptionAtRestUpdate G old c' key s1 = (Inr c'', s2)"
      "updateCluster (kube_getter E u) (kube_clusters E S) (kube_clusters_priv E S) p c'' s2 = (Inr u', t)"
    using run unfolding PatchEndpoint_def
    by (auto elim!: bindA_InrE simp: wrapA_eq_Inr split: prod.split_asm option.split_asm if_split_asm)
  have s0: "s0 = s" "s0' = s" using readsD[OF reads_GetProject p] readsD[OF reads_GetInternalCluster o] by auto
  have "keeps_key G \<longrightarrow> map_of (om_annotations c) EncryptionKeyAnnotation = map_of (ao_annotations patched) EncryptionKeyAnnotation"
    using changed_annotations[OF _ c1 c2 c3] by blast
  then show thesis by (intro that[OF _ _ m _ r]) (use p o s0 in simp_all)
qed

text \<open>
  What is documented of creating an object that exists: the request fails with that error and leaves the objects alone,
  and it fails like this for no other reason.
\<close>

definition exists_ok :: "('s \<Rightarrow> 'a objmeta_scheme list) \<Rightarrow> ('a objmeta_scheme, 's) kclient \<Rightarrow> bool" where
  "exists_ok P k \<longleftrightarrow> (\<forall>x s. key_of x \<in> key_of ` set (P s) \<longrightarrow> (\<exists>e. kCreate k x s = (Inl e, s) \<and> IsAlreadyExists e)) \<and>
     (\<forall>x s e t. kCreate k x s = (Inl e, t) \<longrightarrow> IsAlreadyExists e \<longrightarrow> key_of x \<in> key_of ` set (P s))"

abbreviation key_secret :: "'s cluster_gen \<Rightarrow> string \<Rightarrow> okey" where
  "key_secret G cluster \<equiv> (gx_kubermaticNamespace G, getEncryptionSecretName cluster)"

text \<open>The secret that a request for encryption creates.\<close>

definition encryption_secret :: "'s cluster_gen \<Rightarrow> cluster \<Rightarrow> string \<Rightarrow> secret" where
  "encryption_secret G c key = objmeta.extend (blank_meta\<lparr>om_name := getEncryptionSecretName (om_name c), om_namespace := gx_kubermaticNamespace G,
     om_annotations := [(ClusterNameAnnotation, om_name c)]\<rparr>) (secret.fields (Some [(''key'', key)]) ''Opaque'')"

lemma encryption_secret_fields:
  "key_of (encryption_secret G c key) = key_secret G (om_name c)" "sec_data (encryption_secret G c key) = Some [(''key'', key)]"
  by (simp_all add: encryption_secret_def key_of_def objmeta.defs secret.defs)

lemma createEncryptionSecret_eq:
  "createEncryptionSecret G c key = (if key = [] then failA (Plain ''encryption key is required'')
     else tryA (kCreate (gx_masterSecrets G) (encryption_secret G c key)) (\<lambda>r. case r of
       Inl err \<Rightarrow> if IsAlreadyExists err then retA () else failA (Wrapped err) | Inr _ \<Rightarrow> retA ()))"
  by (simp add: createEncryptionSecret_def encryption_secret_def)

lemma createEncryptionSecret_InrD:
  assumes ok: "create_ok P (gx_masterSecrets G)" "exists_ok P (gx_masterSecrets G)"
    and run: "createEncryptionSecret G c key s = (Inr v, t)"
  shows "key \<noteq> [] \<and> (if key_secret G (om_name c) \<in> key_of ` set (P s) then P t = P s
     else \<exists>sec. key_of sec = key_secret G (om_name c) \<and> sec_data sec = Some [(''key'', key)] \<and> P t = P s @ [sec])"
proof -
  define sec where "sec = encryption_secret G c key"
  note k = encryption_secret_fields(1)[of G c key, folded sec_def] and d = encryption_secret_fields(2)[of G c key, folded sec_def]
  from run have ne: "key \<noteq> []" and r: "(\<exists>e. kCreate (gx_masterSecrets G) sec s = (Inl e, t) \<and> IsAlreadyExists e) \<or>
      (\<exists>x. kCreate (gx_masterSecrets G) sec s = (Inr x, t))"
    unfolding createEncryptionSecret_eq sec_def by (auto simp: tryA_case_Inr split: if_splits)
  show ?thesis
  proof (cases "\<exists>x. kCreate (gx_masterSecrets G) sec s = (Inr x, t)")
    case True
    then obtain x where x: "kCreate (gx_masterSecrets G) sec s = (Inr x, t)" by blast
    from create_okD[OF ok(1) x] same_secret(1)[of x sec] k d ne show ?thesis by (auto simp: same_object_def key_of_def)
  next
    case False
    with r ok(2) create_ok_failD[OF ok(1)] k ne show ?thesis unfolding exists_ok_def by fastforce
  qed
qed

lemma take_encryption_key_InrD:
  assumes "take_encryption_key G c = Inr (c', key)"
  shows "map_of (om_annotations c') EncryptionKeyAnnotation = None \<and> om_name c' = om_name c \<and>
    key = map_of (om_annotations c) EncryptionKeyAnnotation \<and>
    (key \<noteq> None \<longrightarrow> enc_on (cl_encryption (cl_spec c')) \<longrightarrow> (\<exists>e. cl_encryption (cl_spec c') = Some e \<and>
       enc_secretbox e = Some [\<lparr>sbk_name = getEncryptionSecretName (om_name c), sbk_secretRef = (getEncryptionSecretName (om_name c), ''key'')\<rparr>]))"
  using assms by (auto simp: take_encryption_key_def setupEncryptionSpec_def Let_def delete_conv' enc_on_def
      split: option.splits sum.splits if_splits)

text \<open>
  The encryption of a cluster after a patch that came with a key or without: as it was, or with that key. A secret for the key is created
  if there is none of its name, and holds the key; otherwise the secrets are left as they are.
\<close>

definition encryption_kept :: "'s cluster_gen \<Rightarrow> secret list \<Rightarrow> secret list \<Rightarrow> string option \<Rightarrow> cluster \<Rightarrow> cluster \<Rightarrow> bool" where
  "encryption_kept G before after key old c \<longleftrightarrow>
     (if \<not> enc_on (cl_encryption (cl_spec old)) \<and> enc_on (cl_encryption (cl_spec c)) then
        (\<exists>k. key = Some k \<and> k \<noteq> [] \<and>
           (if key_secret G (om_name c) \<in> key_of ` set before then after = before
            else \<exists>sec. key_of sec = key_secret G (om_name c) \<and> sec_data sec = Some [(''key'', k)] \<and> after = before @ [sec])) \<and>
        (\<exists>e. cl_encryption (cl_spec c) = Some e \<and> enc_secretbox e =
           Some [\<lparr>sbk_name = getEncryptionSecretName (om_name c), sbk_secretRef = (getEncryptionSecretName (om_name c), ''key'')\<rparr>])
      else after = before \<and>
        (enc_on (cl_encryption (cl_spec c)) \<longrightarrow> cl_encryption (cl_spec c) = cl_encryption (cl_spec old)))"

lemma handleEncryptionAtRestUpdate_InrD:
  assumes ok: "create_ok P (gx_masterSecrets G)" "exists_ok P (gx_masterSecrets G)"
    and key: "take_encryption_key G c = Inr (c', key)" and run: "handleEncryptionAtRestUpdate G old c' key s = (Inr c'', t)"
  shows "map_of (om_annotations c'') EncryptionKeyAnnotation = None \<and> encryption_kept G (P s) (P t) key old c''"
proof (cases "\<not> enc_on (cl_encryption (cl_spec old)) \<and> enc_on (cl_encryption (cl_spec c'))")
  case True
  with run obtain k v where k: "key = Some k" "c'' = c'" and c: "createEncryptionSecret G c' k s = (Inr v, t)"
    by (auto simp: handleEncryptionAtRestUpdate_def bindA_eq_Inr split: option.splits if_splits)
  have "\<exists>k. key = Some k \<and> k \<noteq> [] \<and> (if key_secret G (om_name c'') \<in> key_of ` set (P s) then P t = P s
      else \<exists>sec. key_of sec = key_secret G (om_name c'') \<and> sec_data sec = Some [(''key'', k)] \<and> P t = P s @ [sec])"
    using k createEncryptionSecret_InrD[OF ok c] by blast
  with True k(2) take_encryption_key_InrD[OF key] show ?thesis unfolding encryption_kept_def by auto
next
  case False
  with run take_encryption_key_InrD[OF key] show ?thesis
    by (auto simp: handleEncryptionAtRestUpdate_def encryption_kept_def Let_def enc_on_def split: if_splits option.splits)
qed

lemma GetInternalCluster_acts:
  assumes api: "api_ok V E" and sel: "selectors_ok E" and pid: "pid \<noteq> []" and name: "om_name p = pid"
    and run: "GetInternalCluster (kube_getter E u) (kube_clusters E S) (kube_clusters_priv E S) p pid cid (Some \<lparr>cgo_checkInitStatus = False\<rparr>) s = (Inr c, s)"
  shows "\<exists>k. acts_for E S (V s) u pid k \<and> kGet k ([], cid) s = Inr c"
proof -
  let ?o = "Some \<lparr>cgo_checkInitStatus = False\<rparr>"
  from run obtain a where a: "kube_getter E u [] s = (Inr a, s)"
    and get: "(if ui_isAdmin a then httpA (cluster_GetUnsecured E S (Some p) cid ?o)
       else getClusterForRegularUser (kube_getter E u) (kube_clusters E S) (kube_clusters_priv E S) p pid cid ?o) s = (Inr c, s)"
    unfolding GetInternalCluster_def provider_fields by (auto simp: bind_reads reads_wrapA me.getter_reads wrapA_eq_Inr)
  have adm: "ui_isAdmin a = us_isAdmin u" by (rule me.getter_admin[OF a])
  show ?thesis
  proof (cases "us_isAdmin u")
    case True
    with get adm show ?thesis
      by (auto simp: acts_for_def wrapA_eq_Inr cluster_GetUnsecured_def bindA_eq_Inr no_check split: if_splits)
  next
    case False
    with get adm obtain i where i: "kube_getter E u pid s = (Inr i, s)" "cluster_Get S (Some i) cid ?o s = (Inr c, s)"
      by (auto elim: getClusterForRegularUser_InrD)
    from i(2) False show ?thesis
      by (auto simp: acts_for_def cluster_Get_def seed_impersonated_def bindA_eq_Inr no_check getter_grants(1,2)[OF api sel i(1) pid] split: if_splits)
  qed
qed

lemma updateCluster_acts:
  assumes api: "api_ok V E" and sel: "selectors_ok E" and pid: "pid \<noteq> []" and name: "om_name p = pid"
    and run: "updateCluster (kube_getter E u) (kube_clusters E S) (kube_clusters_priv E S) p c s = (Inr c', t)"
  shows "\<exists>k. acts_for E S (V s) u pid k \<and> kUpdate k (c\<lparr>om_labels := getClusterLabels E (om_labels c) pid []\<rparr>) s = (Inr c', t)"
proof -
  from run obtain a where a: "kube_getter E u [] s = (Inr a, s)"
    and upd: "(if ui_isAdmin a then cluster_UpdateUnsecured E S (Some p) c
       else bindA (wrapA Wrapped (kube_getter E u pid)) (\<lambda>i. cluster_Update E S (Some p) (Some i) c)) s = (Inr c', t)"
    unfolding updateCluster_def change_fields name by (auto simp: bind_reads reads_wrapA me.getter_reads wrapA_eq_Inr)
  have adm: "ui_isAdmin a = us_isAdmin u" by (rule me.getter_admin[OF a])
  show ?thesis
  proof (cases "us_isAdmin u")
    case True
    with upd adm show ?thesis by (simp add: acts_for_def cluster_UpdateUnsecured_def name)
  next
    case False
    with upd adm obtain i where i: "kube_getter E u pid s = (Inr i, s)" and upd': "cluster_Update E S (Some p) (Some i) c s = (Inr c', t)"
      by (auto simp: bind_reads reads_wrapA me.getter_reads wrapA_eq_Inr)
    from upd' False show ?thesis
      by (auto simp: acts_for_def cluster_Update_def seed_impersonated_def bindA_eq_Inr name getter_grants(1,2)[OF api sel i pid])
  qed
qed

text \<open>
  C30: patching a cluster. A successful request reads the cluster and updates it with the privileged client for
  administrators, and else with one that impersonates the caller with exactly the groups granted to him in the project at
  that moment. The key that came with the request is in no annotation of what is stored. Encryption is enabled only with a
  key: right before the update a secret of the master cluster, to which the cluster then refers, was created with exactly this key, or there was
  a secret of this name already, which was left as it was. The key is the annotation of the cluster that the patch makes, if the
  mutation of the SDK leaves it alone. In all other cases no secret for a key is written, and as long as
  encryption is enabled its configuration stays as it was.
\<close>

theorem patch_encryption:
  assumes api: "api_ok V E" and sel: "selectors_ok E" and pid: "pid \<noteq> []"
    and ok: "create_ok P (gx_masterSecrets G)" "exists_ok P (gx_masterSecrets G)"
    and run: "kube_patch G E S X R tok u pid cid patch sg skip st s = (Inr a, t)"
  shows "\<exists>k0 old dc patched key c0 s1 s2 k c c'. acts_for E S (V s) u pid k0 \<and> kGet k0 ([], cid) s = Inr old \<and>
    gx_mergePatch G (ConvertInternalClusterToExternal E X old dc False) patch = Inr (Some patched) \<and>
    (keeps_key G \<longrightarrow> key = map_of (ao_annotations patched) EncryptionKeyAnnotation) \<and>
    handleEncryptionAtRestUpdate G old c0 key s1 = (Inr c, s2) \<and> encryption_kept G (P s1) (P s2) key old c \<and>
    map_of (om_annotations c) EncryptionKeyAnnotation = None \<and>
    acts_for E S (V s2) u pid k \<and> kUpdate k (c\<lparr>om_labels := getClusterLabels E (om_labels c) pid []\<rparr>) s2 = (Inr c', t)"
proof -
  obtain p old dc patched c key c' c'' u' s1 s2 where
    p: "GetProject (kube_getter E u) (kube_projectProvider E) (kube_privilegedProjectProvider E) pid None s = (Inr p, s)"
    and o: "GetInternalCluster (kube_getter E u) (kube_clusters E S) (kube_clusters_priv E S) p pid cid (Some \<lparr>cgo_checkInitStatus = False\<rparr>) s = (Inr old, s)"
    and m: "gx_mergePatch G (ConvertInternalClusterToExternal E X old dc False) patch = Inr (Some patched)"
    and ann: "keeps_key G \<longrightarrow> map_of (om_annotations c) EncryptionKeyAnnotation = map_of (ao_annotations patched) EncryptionKeyAnnotation"
    and key: "take_encryption_key G c = Inr (c', key)" and h: "handleEncryptionAtRestUpdate G old c' key s1 = (Inr c'', s2)"
    and upd: "updateCluster (kube_getter E u) (kube_clusters E S) (kube_clusters_priv E S) p c'' s2 = (Inr u', t)"
    by (rule PatchEndpoint_InrD[OF run])
  have name: "om_name p = pid" by (rule GetProject_name[OF api p])
  have "keeps_key G \<longrightarrow> key = map_of (ao_annotations patched) EncryptionKeyAnnotation" using ann take_encryption_key_InrD[OF key] by simp
  with GetInternalCluster_acts[OF api sel pid name o] updateCluster_acts[OF api sel pid name upd] m h
    handleEncryptionAtRestUpdate_InrD[OF ok key h] show ?thesis by blast
qed

text \<open>
  C31: a key that replaces another. When encryption was enabled with a key, and is enabled again later with another key,
  after it was disabled, the second request succeeds, but the secret still holds the first key.
\<close>

theorem encryption_key_not_replaced:
  assumes ok: "create_ok P (gx_masterSecrets G)" "exists_ok P (gx_masterSecrets G)"
    and off: "\<not> enc_on (cl_encryption (cl_spec c0))" "\<not> enc_on (cl_encryption (cl_spec c2))"
    and on: "enc_on (cl_encryption (cl_spec c1))" "enc_on (cl_encryption (cl_spec c3))"
    and new: "key_secret G (om_name c1) \<notin> key_of ` set (P s)" and same: "om_name c3 = om_name c1"
    and first: "handleEncryptionAtRestUpdate G c0 c1 (Some key) s = (Inr c, s1)" and later: "P s2 = P s1" and key': "key' \<noteq> []"
  shows "handleEncryptionAtRestUpdate G c2 c3 (Some key') s2 = (Inr c3, s2) \<and>
    (\<exists>sec \<in> set (P s2). key_of sec = key_secret G (om_name c3) \<and> sec_data sec = Some [(''key'', key)])"
proof -
  from first off on have "createEncryptionSecret G c1 key s = (Inr (), s1)"
    by (auto simp: handleEncryptionAtRestUpdate_def bindA_eq_Inr split: if_splits)
  from createEncryptionSecret_InrD[OF ok this] new obtain sec where "P s2 = P s @ [sec]" "key_of sec = key_secret G (om_name c3)"
    "sec_data sec = Some [(''key'', key)]" unfolding later same by auto
  then have sec: "sec \<in> set (P s2)" "key_of sec = key_secret G (om_name c3)" "sec_data sec = Some [(''key'', key)]" by simp_all
  then have "key_secret G (om_name c3) \<in> key_of ` set (P s2)" by (metis image_eqI)
  then obtain e where "kCreate (gx_masterSecrets G) (encryption_secret G c3 key') s2 = (Inl e, s2)" "IsAlreadyExists e"
    using ok(2) unfolding exists_ok_def by (metis encryption_secret_fields(1))
  then have "createEncryptionSecret G c3 key' s2 = (Inr (), s2)"
    using key' by (cases "e = Panic") (auto simp: createEncryptionSecret_eq tryA_case_Inr has_reason_def)
  with off on key' have "handleEncryptionAtRestUpdate G c2 c3 (Some key') s2 = (Inr c3, s2)"
    by (simp add: handleEncryptionAtRestUpdate_def)
  with sec show ?thesis by blast
qed

section \<open>Witnesses\<close>

text \<open>The in-memory server, the clusters of a seed, and the secrets of the master cluster.\<close>

type_synonym change_world = "(mem \<times> cluster list) \<times> secret list"

abbreviation change_env :: "change_world env" where "change_env \<equiv> lift_env seed_env_of"
abbreviation change_seed :: "change_world seed_env" where "change_seed \<equiv> seed_of (lift_client extra_client)"

definition change_seeds :: "change_world SeedsGetter" where
  "change_seeds = retA [(''kubermatic'', \<lparr>sd_name = ''kubermatic'', sd_invalid = False, sd_datacenters =
     [(''eu'', \<lparr>dc_openstack = None, dc_vsphere = None, dc_requiredEmails = [''bob@acme.com'']\<rparr>)]\<rparr>)]"

definition plain_presets :: preset_sdk where
  "plain_presets = \<lparr>matchesRequirements = (\<lambda>e req. Inr (req = [] \<or> e \<in> set req)), spec_IsEnabled = (\<lambda>_. True), spec_SetEnabled = (\<lambda>_ sp. sp),
     providerPreset_IsEnabled = (\<lambda>_. True), provider_validateable = (\<lambda>_. False), provider_IsValid = (\<lambda>_ _. True), supportedProviders = [],
     isProviderSupported = (\<lambda>_. False), vmwareCloudDirectorProvider = ''vmwareclouddirector'', openstackProvider = ''openstack'',
     presetNameAnnotation = ''presetName'', templateNameLabelKey = ''name''\<rparr>"

text \<open>A patch is the key of the encryption; the others take a cluster as it is.\<close>

definition demo_merge :: "apiCluster \<Rightarrow> string \<Rightarrow> apiCluster option result" where
  "demo_merge c patch = Inr (Some (c\<lparr>ao_annotations := [(EncryptionKeyAnnotation, patch)],
     ac_spec := (ac_spec c)\<lparr>as_encryption := Some \<lparr>enc_enabled = True, enc_resources = None, enc_secretbox = None\<rparr>\<rparr>\<rparr>))"

definition gen_with :: "(secret, 's) kclient \<Rightarrow> 's cluster_gen" where
  "gen_with secrets = \<lparr>gx_features = retA [], gx_setFeatures = (\<lambda>_. retA ()), gx_disabledAuditWebhookBackendDCs = (\<lambda>_. []),
     gx_defaultingTemplate = (\<lambda>_. retA None), gx_cloudProvider = (\<lambda>_. retA ''fake''), gx_defaultClusterSpec = (\<lambda>sp _ _ _. retA sp),
     gx_mutateCreate = (\<lambda>sp c _ _. retA (sp, c)), gx_mutateUpdate = (\<lambda>_ c _ _. retA c), gx_validateNew = (\<lambda>_ _ _ _ _. retA ()),
     gx_validateUpdate = (\<lambda>_ _ _ _ _ _. retA ()), gx_validateUpdateWindow = (\<lambda>_. Inr ()), gx_makeClusterName = retA ''c7'',
     gx_randString6 = retA ''abcdef'', gx_machineDeployment = (\<lambda>_ _ _ _. Inr ''{}''), gx_marshalApplications = (\<lambda>_. Inr ''[]''),
     gx_mergePatch = demo_merge, gx_waits = [], gx_masterSecrets = secrets, gx_kubermaticNamespace = ''kubermatic'',
     gx_bringYourOwn = ''bringyourown'', gx_isCredentialPresetLabelKey = ''is-credential-preset'', gx_presetNameAnnotation = ''presetName'',
     gx_presetInvalidatedAnnotation = ''presetInvalidated'', gx_initialMachineDeploymentAnnotation = ''initial-machinedeployment'',
     gx_initialApplicationsAnnotation = ''initial-applications'', gx_initialCNIValuesAnnotation = ''initial-cni'',
     gx_applicationEnforcedAnnotation = ''enforced'', gx_encryptionAtRestFeature = ''encryptionAtRest'', gx_versionsForProvider = (\<lambda>_. Inr [''1.30.0'']),
     gx_semverEqual = (=), gx_parseVersion = Inr, gx_ensureVersionCompatible = (\<lambda>_ _. VersionOK), gx_isDNS1123Label = (\<lambda>_. True),
     gx_urlParse = (\<lambda>_. Inr (''http'', ''proxy''))\<rparr>"

abbreviation demo_gen :: "change_world cluster_gen" where "demo_gen \<equiv> gen_with extra_client"

lemma extra_exists_ok: "exists_ok snd extra_client"
  by (auto simp: exists_ok_def extra_client_def mem_client_def has_reason_def split: if_splits)

lemma change_ok: "create_ok snd (gx_masterSecrets demo_gen)" "exists_ok snd (gx_masterSecrets demo_gen)"
  by (simp_all add: gen_with_def extra_client_ok extra_exists_ok)

text \<open>Bob creates a cluster in the datacenter that is for him.\<close>

definition demo_body :: "string \<Rightarrow> CreateClusterSpec" where
  "demo_body name = \<lparr>ccs_cluster = (ConvertInternalClusterToExternal change_env (demo_sdk :: change_world cluster_sdk) demo_cluster
       \<lparr>dc_openstack = None, dc_vsphere = None, dc_requiredEmails = []\<rparr> True)\<lparr>ao_id := [], ao_name := name\<rparr>,
     ccs_nodeDeployment = None, ccs_applications = [], ccs_encryptionAtRest = None\<rparr>"

abbreviation demo_create where
  "demo_create name \<equiv> kube_create demo_gen change_env change_seed demo_sdk bob ''p1'' (demo_body name) change_seeds
     (NewPresetProvider plain_presets empty_client) (kube_settingsProvider change_env) ((world1, [demo_cluster]), [])"

lemma change_selectors: "selectors_ok change_env"
  using mem_selectors_ok by (simp add: selectors_ok_def lift_env_def sdk.defs env.defs)

lemma demo_create_names:
  "case demo_create ''shop'' of (Inl _, _) \<Rightarrow> False | (Inr _, t) \<Rightarrow> map (\<lambda>c. cl_humanReadableName (cl_spec c)) (snd (fst t)) = [''prod'', ''shop'']"
  "isl (fst (demo_create ''prod''))"
  "case demo_create ''prod '' of (Inl _, _) \<Rightarrow> False | (Inr _, t) \<Rightarrow> map (\<lambda>c. cl_humanReadableName (cl_spec c)) (snd (fst t)) = [''prod'', ''prod'']"
  by code_simp+

text \<open>The second name is refused, but not with a space behind it.\<close>

theorem cluster_creation_authorized_witness:
  "\<exists>a (t :: change_world). demo_create ''shop'' = (Inr a, t) \<and> map (\<lambda>c. cl_humanReadableName (cl_spec c)) (snd (fst t)) = [''prod'', ''shop''] \<and>
     (\<exists>part s' k. acts_for change_env change_seed (mem_store (fst (fst s'))) bob ''p1'' k \<and> creates_with change_env change_seed k ''p1'' part s' \<and>
        cl_humanReadableName (cl_spec part) = ''shop'')"
proof -
  from demo_create_names(1) obtain a and t :: change_world where run: "demo_create ''shop'' = (Inr a, t)"
    and names: "map (\<lambda>c. cl_humanReadableName (cl_spec c)) (snd (fst t)) = [''prod'', ''shop'']" by (auto split: prod.splits sum.splits)
  have P: "list_ok (\<lambda>s. snd (fst s)) (sv_client change_seed)" by (simp add: seed_of_def lift_list_ok extra_client_ok)
  have rd: "reads change_seeds" by (simp add: change_seeds_def reads_retA)
  have k: "''p1'' \<noteq> []" "workerNameLabelKey change_env \<noteq> projectIDLabelKey change_env" by code_simp+
  have kp: "keeps_place demo_gen" by (simp add: keeps_place_def gen_with_def)
  have n: "ao_name (ccs_cluster (demo_body ''shop'')) = ''shop''" by (simp add: demo_body_def)
  from cluster_creation_authorized[OF lift_api_ok[OF lift_api_ok[OF mem_api_ok]] change_selectors k P rd run, THEN conjunct2] kp n
  obtain part k and s' :: change_world where "acts_for change_env change_seed (mem_store (fst (fst s'))) bob ''p1'' k"
    "creates_with change_env change_seed k ''p1'' part s'" "cl_humanReadableName (cl_spec part) = ''shop''" by auto
  with run names show ?thesis by (intro exI conjI)
qed

text \<open>Bob encrypts his cluster.\<close>

definition demo_R :: "change_world credentials_sdk" where
  "demo_R = \<lparr>cd_key = (\<lambda>_. []), cd_projectIDLabelKey = ''project-id'', cd_namespace = ''kubermatic'', cd_getSecretName = om_name,
     cd_reconcile = (\<lambda>_ _ _. retA ()), cd_validate = (\<lambda>_ _. retA ()), cd_secrets = empty_client\<rparr>"

abbreviation demo_patch where
  "demo_patch key \<equiv> kube_patch demo_gen change_env change_seed demo_sdk demo_R None bob ''p1'' ''c1'' key change_seeds True
     (kube_settingsProvider change_env) ((world1, [demo_cluster]), [])"

theorem patch_encryption_witness:
  "\<exists>a t old (s1 :: change_world) (s2 :: change_world) k c. demo_patch ''secret'' = (Inr a, t) \<and> keeps_key demo_gen \<and>
     encryption_kept demo_gen (snd s1) (snd s2) (Some ''secret'') old c \<and> acts_for change_env change_seed (mem_store (fst (fst s2))) bob ''p1'' k \<and>
     map_of (om_annotations c) EncryptionKeyAnnotation = None \<and> map sec_data (snd t) = [Some [(''key'', ''secret'')]]"
proof -
  have "case demo_patch ''secret'' of (Inl _, _) \<Rightarrow> False | (Inr _, t) \<Rightarrow> map sec_data (snd t) = [Some [(''key'', ''secret'')]]" by code_simp
  then obtain a t where run: "demo_patch ''secret'' = (Inr a, t)" and t: "map sec_data (snd t) = [Some [(''key'', ''secret'')]]"
    by (auto split: prod.splits sum.splits)
  have k: "''p1'' \<noteq> []" by simp
  have kk: "keeps_key demo_gen" by (simp add: keeps_key_def gen_with_def EncryptionKeyAnnotation_def)
  have mg: "map_of (ao_annotations q) EncryptionKeyAnnotation = Some ''secret''" if "gx_mergePatch demo_gen o1 ''secret'' = Inr (Some q)" for o1 q
    using that by (auto simp: gen_with_def demo_merge_def)
  from patch_encryption[OF lift_api_ok[OF lift_api_ok[OF mem_api_ok]] change_selectors k change_ok run] obtain k old c and s1 :: change_world and s2 :: change_world where
    "acts_for change_env change_seed (mem_store (fst (fst s2))) bob ''p1'' k" "map_of (om_annotations c) EncryptionKeyAnnotation = None"
    "encryption_kept demo_gen (snd s1) (snd s2) (Some ''secret'') old c" using kk mg by (metis (no_types, lifting))
  with run t kk show ?thesis by (intro exI conjI)
qed

text \<open>The second key is dropped.\<close>

definition encrypted_cluster :: cluster where
  "encrypted_cluster = demo_cluster\<lparr>cl_spec := demo_spec\<lparr>cl_encryption := Some \<lparr>enc_enabled = True, enc_resources = None, enc_secretbox = None\<rparr>\<rparr>\<rparr>"

theorem encryption_key_not_replaced_witness:
  "\<exists>t. handleEncryptionAtRestUpdate demo_gen demo_cluster encrypted_cluster (Some ''one'') ((world1, []), []) = (Inr encrypted_cluster, t) \<and>
     handleEncryptionAtRestUpdate demo_gen demo_cluster encrypted_cluster (Some ''two'') t = (Inr encrypted_cluster, t) \<and>
     (\<exists>sec \<in> set (snd t). sec_data sec = Some [(''key'', ''one'')])"
proof -
  let ?s = "((world1, []), []) :: change_world"
  have off: "\<not> enc_on (cl_encryption (cl_spec demo_cluster))" and on: "enc_on (cl_encryption (cl_spec encrypted_cluster))" by code_simp+
  have "\<not> isl (fst (handleEncryptionAtRestUpdate demo_gen demo_cluster encrypted_cluster (Some ''one'') ?s))" by code_simp
  then obtain c t where run: "handleEncryptionAtRestUpdate demo_gen demo_cluster encrypted_cluster (Some ''one'') ?s = (Inr c, t)"
    by (auto dest!: success_obtain)
  with off on have c: "c = encrypted_cluster" by (auto simp: handleEncryptionAtRestUpdate_def bindA_eq_Inr split: if_splits)
  have "key_secret demo_gen (om_name encrypted_cluster) \<notin> key_of ` set (snd ?s)" "''two'' \<noteq> []" by simp_all
  from encryption_key_not_replaced[OF change_ok off off on on this(1) refl run refl this(2)] run c show ?thesis by blast
qed

end
