(* ===== verification/Cluster_Templates.thy ===== *)
theory Cluster_Templates
  imports Cluster_Create SSH_Keys
begin

text \<open>
  Cluster templates and their instances: the providers (\<^verbatim>\<open>pkg/provider/kubernetes/cluster_template.go\<close>,
  \<^verbatim>\<open>cluster_template_instance.go\<close>) and the endpoints (\<^verbatim>\<open>pkg/handler/v2/cluster_template\<close>). A template is seen by
  everybody, by the members of a project or by its user, which a label says.
\<close>

section \<open>Templates and instances\<close>

record template = objmeta +
  tpl_credential :: string
  tpl_clusterLabels :: smap
  tpl_inheritedLabels :: smap
  tpl_userSSHKeys :: "(string \<times> string) list" \<comment> \<open>name and ID\<close>
  tpl_finalizers :: "string list"
  tpl_spec :: clusterSpec

record template_instance = objmeta +
  ins_projectID :: string
  ins_templateID :: string
  ins_templateName :: string
  ins_replicas :: int

text \<open>
  The labels and annotations of Kubermatic, the decoders of the annotations, a random string of ten characters, and the
  encoders of an exported template. \<open>ts_nodeDeployment\<close> is the node deployment (annotations, labels and specification)
  made of a machine deployment.
\<close>

record 's template_sdk =
  ts_scopeLabel :: string
  ts_userAnnotation :: string
  ts_projectLabel :: string
  ts_nameLabel :: string
  ts_ownerAnnotation :: string
  ts_userScope :: string
  ts_projectScope :: string
  ts_globalScope :: string
  ts_credentialsFinalizer :: string
  ts_apiVersion :: string
  ts_projectKind :: string
  ts_nodeDeployment :: "string \<Rightarrow> (smap \<times> smap \<times> string) result"
  ts_unmarshalApplications :: "string \<Rightarrow> Application list result"
  ts_randString10 :: "('s, string) act"

section \<open>The provider of templates\<close>

text \<open>The interface, as the endpoints use it.\<close>

record 's ClusterTemplateProvider =
  ctp_CreateorUpdate :: "UserInfo option \<Rightarrow> template option \<Rightarrow> string \<Rightarrow> string \<Rightarrow> bool \<Rightarrow> ('s, template) act"
  ctp_List :: "UserInfo option \<Rightarrow> string \<Rightarrow> ('s, template list) act"
  ctp_ListALL :: "selector option \<Rightarrow> ('s, template list) act"
  ctp_Get :: "UserInfo option \<Rightarrow> string \<Rightarrow> string \<Rightarrow> ('s, template) act"
  ctp_Delete :: "UserInfo option \<Rightarrow> string \<Rightarrow> string \<Rightarrow> ('s, unit) act"

definition only_viewer :: "UserInfo \<Rightarrow> bool" where
  "only_viewer userInfo = (''viewers'' \<in> ui_roles userInfo \<and> card (ui_roles userInfo) = 1)"

definition createTemplate :: "(template, 's) kclient \<Rightarrow> template \<Rightarrow> ('s, template) act" where
  "createTemplate k clusterTemplate = kCreate k clusterTemplate"

text \<open>The template that is replaced is read for its version only.\<close>

definition updateTemplate :: "(template, 's) kclient \<Rightarrow> template \<Rightarrow> ('s, template) act" where
  "updateTemplate k clusterTemplate =
     bindA (getA k ([], om_name clusterTemplate)) (\<lambda>_. kUpdate k clusterTemplate)"

definition template_CreateorUpdate ::
  "'s template_sdk \<Rightarrow> (template, 's) kclient \<Rightarrow> UserInfo option \<Rightarrow> template option \<Rightarrow> string \<Rightarrow> string \<Rightarrow> bool \<Rightarrow> ('s, template) act" where
  "template_CreateorUpdate T k userInfo clusterTemplate scope projectID update =
     (case (userInfo, clusterTemplate) of
        (Some userInfo, Some clusterTemplate) \<Rightarrow>
          if scope = [] then failA (Plain ''cluster template scope is missing but required'')
          else if ui_isAdmin userInfo then (if update then updateTemplate k clusterTemplate else createTemplate k clusterTemplate)
          else if scope = ts_globalScope T then failA (Plain ''the global scope is reserved only for admins'')
          else if only_viewer userInfo then failA (HTTPError 403)
          else if scope = ts_projectScope T \<and> projectID = [] then failA (Plain ''project ID is missing but required'')
          else if update then updateTemplate k clusterTemplate else createTemplate k clusterTemplate
      | _ \<Rightarrow> failA (Plain ''userInfo and/or cluster is missing but required''))"

definition scope_of :: "'s template_sdk \<Rightarrow> template \<Rightarrow> string" where
  "scope_of T t = mget (om_labels t) (ts_scopeLabel T)"

definition template_List ::
  "'x sdk_scheme \<Rightarrow> 's template_sdk \<Rightarrow> (template, 's) kclient \<Rightarrow> UserInfo option \<Rightarrow> string \<Rightarrow> ('s, template list) act" where
  "template_List K T k userInfo projectID =
     (case userInfo of
        None \<Rightarrow> failA (Plain ''userInfo is missing but required'')
      | Some userInfo \<Rightarrow>
          bindA (listA k Everything) (\<lambda>items.
            retA (filter (\<lambda>t. scope_of T t = ts_globalScope T \<or>
              EqualFold (mget (om_annotations t) (ts_userAnnotation T)) (ui_email userInfo) \<and> scope_of T t = ts_userScope T \<or>
              projectID \<noteq> [] \<and> mget (om_labels t) (projectIDLabelKey K) = projectID \<and> scope_of T t = ts_projectScope T) items)))"

definition template_Get ::
  "'x sdk_scheme \<Rightarrow> 's template_sdk \<Rightarrow> (template, 's) kclient \<Rightarrow> UserInfo option \<Rightarrow> string \<Rightarrow> string \<Rightarrow> ('s, template) act" where
  "template_Get K T k userInfo projectID templateID =
     (case userInfo of
        None \<Rightarrow> failA (Plain ''userInfo is missing but required'')
      | Some userInfo \<Rightarrow>
          if templateID = [] then failA (Plain ''templateID is missing but required'')
          else
            bindA (getA k ([], templateID)) (\<lambda>result.
              if ui_isAdmin userInfo then retA result
              else if scope_of T result = ts_globalScope T then retA result
              else if scope_of T result = ts_userScope T \<and>
                \<not> EqualFold (mget (om_annotations result) (ts_userAnnotation T)) (ui_email userInfo) then failA (HTTPError 403)
              else if projectID \<noteq> [] \<and> mget (om_labels result) (projectIDLabelKey K) \<noteq> projectID \<and> scope_of T result = ts_projectScope T
              then failA (HTTPError 403)
              else retA result))"

definition template_Delete ::
  "'x sdk_scheme \<Rightarrow> 's template_sdk \<Rightarrow> (template, 's) kclient \<Rightarrow> UserInfo option \<Rightarrow> string \<Rightarrow> string \<Rightarrow> ('s, unit) act" where
  "template_Delete K T k userInfo projectID templateID =
     (case userInfo of
        None \<Rightarrow> failA (Plain ''userInfo is missing but required'')
      | Some info \<Rightarrow>
          if templateID = [] then failA (Plain ''templateID is missing but required'')
          else
            bindA (template_Get K T k userInfo projectID templateID) (\<lambda>result.
              if \<not> ui_isAdmin info \<and> scope_of T result = ts_globalScope T then failA (HTTPError 403)
              else if only_viewer info then failA (HTTPError 403)
              else kDelete k (key_of result)))"

definition template_ListALL :: "(template, 's) kclient \<Rightarrow> selector option \<Rightarrow> ('s, template list) act" where
  "template_ListALL k labelSelector = listA k (case labelSelector of None \<Rightarrow> Everything | Some sel \<Rightarrow> sel)"

definition NewClusterTemplateProvider :: "'x sdk_scheme \<Rightarrow> 's template_sdk \<Rightarrow> (template, 's) kclient \<Rightarrow> 's ClusterTemplateProvider" where
  "NewClusterTemplateProvider K T k =
     \<lparr>ctp_CreateorUpdate = template_CreateorUpdate T k, ctp_List = template_List K T k, ctp_ListALL = template_ListALL k,
      ctp_Get = template_Get K T k, ctp_Delete = template_Delete K T k\<rparr>"

section \<open>The provider of instances\<close>

record ClusterTemplateInstanceListOptions =
  tio_projectID :: string
  tio_templateID :: string

text \<open>The clients of a seed: the privileged one, and one for a user and his groups.\<close>

record 's instance_clients =
  ic_privileged :: "(template_instance, 's) kclient"
  ic_impersonated :: "string \<Rightarrow> string list \<Rightarrow> (template_instance, 's) kclient result"

definition instance_client :: "'s instance_clients \<Rightarrow> UserInfo \<Rightarrow> ('s, (template_instance, 's) kclient) act" where
  "instance_client C userInfo = liftA (ic_impersonated C (ui_email userInfo) (ui_groups userInfo))"

definition ClusterTemplateLabelKey :: string where "ClusterTemplateLabelKey = ''template-id''"

definition GetClusterTemplateInstanceName :: "'s template_sdk \<Rightarrow> string \<Rightarrow> string \<Rightarrow> ('s, string) act" where
  "GetClusterTemplateInstanceName T projectID templateID =
     bindA (ts_randString10 T) (\<lambda>r. retA (projectID @ ''-'' @ templateID @ ''-'' @ r))"

definition addProjectReferenceForClusterTemplateInstance ::
  "'x sdk_scheme \<Rightarrow> 's template_sdk \<Rightarrow> project \<Rightarrow> template_instance \<Rightarrow> template_instance" where
  "addProjectReferenceForClusterTemplateInstance K T project templateInstance =
     templateInstance\<lparr>om_ownerReferences :=
         [\<lparr>or_apiVersion = ts_apiVersion T, or_kind = ts_projectKind T, or_uid = om_uid project, or_name = om_name project\<rparr>],
       om_labels := AList.update (projectIDLabelKey K) (om_name project) (om_labels templateInstance)\<rparr>"

definition createClusterTemplateInstance ::
  "'x sdk_scheme \<Rightarrow> 's template_sdk \<Rightarrow> UserInfo \<Rightarrow> template \<Rightarrow> project \<Rightarrow> int \<Rightarrow> ('s, template_instance) act" where
  "createClusterTemplateInstance K T userInfo t project replicas =
     bindA (GetClusterTemplateInstanceName T (om_name project) (om_name t)) (\<lambda>name.
       retA (addProjectReferenceForClusterTemplateInstance K T project
         (objmeta.extend (blank_meta\<lparr>om_name := name, om_labels := [(ClusterTemplateLabelKey, om_name t)],
                            om_annotations := [(ts_ownerAnnotation T, ui_email userInfo)]\<rparr>)
            (template_instance.fields (om_name project) (om_name t) (cl_humanReadableName (tpl_spec t)) replicas))))"

definition instance_Create ::
  "'x sdk_scheme \<Rightarrow> 's template_sdk \<Rightarrow> 's instance_clients \<Rightarrow> UserInfo \<Rightarrow> template \<Rightarrow> project \<Rightarrow> int \<Rightarrow> ('s, template_instance) act" where
  "instance_Create K T C userInfo t project replicas =
     bindA (instance_client C userInfo) (\<lambda>impersonationClient.
     bindA (createClusterTemplateInstance K T userInfo t project replicas) (\<lambda>ins.
       kCreate impersonationClient ins))"

definition instance_CreateUnsecured ::
  "'x sdk_scheme \<Rightarrow> 's template_sdk \<Rightarrow> 's instance_clients \<Rightarrow> UserInfo \<Rightarrow> template \<Rightarrow> project \<Rightarrow> int \<Rightarrow> ('s, template_instance) act" where
  "instance_CreateUnsecured K T C userInfo t project replicas =
     bindA (createClusterTemplateInstance K T userInfo t project replicas) (\<lambda>ins.
       kCreate (ic_privileged C) ins)"

definition instance_GetUnsecured :: "'s instance_clients \<Rightarrow> string \<Rightarrow> ('s, template_instance) act" where
  "instance_GetUnsecured C name = getA (ic_privileged C) ([], name)"

definition instance_selector :: "'s template_sdk \<Rightarrow> ClusterTemplateInstanceListOptions \<Rightarrow> selector" where
  "instance_selector T options = SelectorFromSet
     ((if tio_projectID options \<noteq> [] then [(ts_projectLabel T, tio_projectID options)] else []) @
      (if tio_templateID options \<noteq> [] then [(ClusterTemplateLabelKey, tio_templateID options)] else []))"

definition instance_ListUnsecured ::
  "'s template_sdk \<Rightarrow> 's instance_clients \<Rightarrow> ClusterTemplateInstanceListOptions \<Rightarrow> ('s, template_instance list) act" where
  "instance_ListUnsecured T C options = listA (ic_privileged C) (instance_selector T options)"

definition instance_Get :: "'s instance_clients \<Rightarrow> UserInfo \<Rightarrow> string \<Rightarrow> ('s, template_instance) act" where
  "instance_Get C userInfo name =
     bindA (instance_client C userInfo) (\<lambda>impersonationClient. getA impersonationClient ([], name))"

definition instance_List ::
  "'s template_sdk \<Rightarrow> 's instance_clients \<Rightarrow> UserInfo \<Rightarrow> ClusterTemplateInstanceListOptions \<Rightarrow> ('s, template_instance list) act" where
  "instance_List T C userInfo options =
     bindA (instance_client C userInfo) (\<lambda>impersonationClient. listA impersonationClient (instance_selector T options))"

definition instance_Patch :: "'s instance_clients \<Rightarrow> UserInfo \<Rightarrow> template_instance \<Rightarrow> ('s, template_instance) act" where
  "instance_Patch C userInfo ins =
     bindA (instance_client C userInfo) (\<lambda>impersonationClient.
     bindA (instance_Get C userInfo (om_name ins)) (\<lambda>_.
       kUpdate impersonationClient ins))"

definition instance_PatchUnsecured :: "'s instance_clients \<Rightarrow> template_instance \<Rightarrow> ('s, template_instance) act" where
  "instance_PatchUnsecured C ins =
     bindA (instance_GetUnsecured C (om_name ins)) (\<lambda>_. kUpdate (ic_privileged C) ins)"

section \<open>Requests\<close>

record createClusterTemplateReq = ProjectReq +
  ctr_name :: string
  ctr_scope :: string
  ctr_userSSHKeys :: "(string \<times> string) list"
  ctr_spec :: CreateClusterSpec
  ctr_seedName :: string

record updateClusterTemplateReq = createClusterTemplateReq +
  utr_templateID :: string

record getClusterTemplatesReq = ProjectReq +
  gtr_templateID :: string

record exportClusterTemplatesReq = getClusterTemplatesReq +
  etr_format :: string

record createInstanceReq = getClusterTemplatesReq +
  cir_replicas :: int

record ClusterTemplateInfo =
  ti_labels :: smap
  ti_annotations :: smap
  ti_inheritedLabels :: smap
  ti_credential :: string
  ti_spec :: apiClusterSpec

record ClusterTemplateNodeDeployment =
  tnd_annotations :: smap
  tnd_labels :: smap
  tnd_spec :: string

record apiClusterTemplate = apiObject +
  at_name :: string
  at_id :: string
  at_projectID :: string
  at_user :: string
  at_scope :: string
  at_userSSHKeys :: "(string \<times> string) list"
  at_cluster :: "ClusterTemplateInfo option"
  at_nodeDeployment :: "ClusterTemplateNodeDeployment option"
  at_applications :: "Application list"

record importClusterTemplateReq = ProjectReq +
  itr_body :: apiClusterTemplate
  itr_seedName :: string

text \<open>The body of a request, as the JSON decoder gives it: name, scope, keys and cluster.\<close>

type_synonym template_body = "string \<times> string \<times> (string \<times> string) list \<times> CreateClusterSpec"

definition scopeList :: "'s template_sdk \<Rightarrow> string list" where
  "scopeList T = [ts_userScope T, ts_projectScope T, ts_globalScope T]"

definition with_type :: "CreateClusterSpec \<Rightarrow> CreateClusterSpec" where
  "with_type b =
     (let cl = ccs_cluster b in b\<lparr>ccs_cluster := (if ac_type cl = [] then cl\<lparr>ac_type := KubernetesClusterType\<rparr> else cl)\<rparr>)"

definition template_DecodeCreateReq ::
  "'s SeedsGetter option \<Rightarrow> http_request \<Rightarrow> template_body result \<Rightarrow> ('s, createClusterTemplateReq) act" where
  "template_DecodeCreateReq seedsGetter r body =
     bindA (liftA (DecodeProjectRequest r)) (\<lambda>pr.
     bindA (liftA body) (\<lambda>(name, scope, keys, spec).
       let spec = with_type spec in
       bindA (FindSeedNameForDatacenter seedsGetter (cl_datacenterName (as_cloud (ac_spec (ccs_cluster spec))))) (\<lambda>seedName.
         retA (ProjectReq.extend pr (createClusterTemplateReq.fields name scope keys spec seedName)))))"

definition template_DecodeUpdateReq ::
  "'s SeedsGetter option \<Rightarrow> http_request \<Rightarrow> template_body result \<Rightarrow> ('s, updateClusterTemplateReq) act" where
  "template_DecodeUpdateReq seedsGetter r body =
     bindA (template_DecodeCreateReq seedsGetter r body) (\<lambda>req.
       retA (createClusterTemplateReq.extend req (updateClusterTemplateReq.fields (mux_var r ''template_id''))))"

definition template_DecodeListReq :: "http_request \<Rightarrow> ProjectReq result" where
  "template_DecodeListReq r = DecodeProjectRequest r"

definition template_DecodeGetReq :: "http_request \<Rightarrow> getClusterTemplatesReq result" where
  "template_DecodeGetReq r =
     (case DecodeProjectRequest r of
        Inl err \<Rightarrow> Inl err
      | Inr pr \<Rightarrow> Inr (ProjectReq.extend pr (getClusterTemplatesReq.fields (mux_var r ''template_id''))))"

definition DecodeCreateInstanceReq :: "http_request \<Rightarrow> int result \<Rightarrow> createInstanceReq result" where
  "DecodeCreateInstanceReq r body =
     (case template_DecodeGetReq r of
        Inl err \<Rightarrow> Inl err
      | Inr req \<Rightarrow>
          (case body of Inl err \<Rightarrow> Inl err | Inr replicas \<Rightarrow> Inr (getClusterTemplatesReq.extend req (createInstanceReq.fields replicas))))"

definition yamlFormat :: string where "yamlFormat = ''yaml''"
definition jsonFormat :: string where "jsonFormat = ''json''"

definition DecodeExportReq :: "http_request \<Rightarrow> exportClusterTemplatesReq result" where
  "DecodeExportReq r =
     (case template_DecodeGetReq r of
        Inl err \<Rightarrow> Inl err
      | Inr req \<Rightarrow>
          let queryParam = rq_query r ''format'' in
          if queryParam \<noteq> [] \<and> queryParam \<notin> {yamlFormat, jsonFormat} then Inl (Plain ''not supported file format'')
          else Inr (getClusterTemplatesReq.extend req (exportClusterTemplatesReq.fields queryParam)))"

text \<open>A body without a cluster is a nil pointer that is followed.\<close>

definition DecodeImportReq :: "'s SeedsGetter option \<Rightarrow> http_request \<Rightarrow> apiClusterTemplate result \<Rightarrow> ('s, importClusterTemplateReq) act" where
  "DecodeImportReq seedsGetter r body =
     bindA (liftA (DecodeProjectRequest r)) (\<lambda>pr.
     bindA (liftA body) (\<lambda>b.
       case at_cluster b of
         None \<Rightarrow> failA Panic
       | Some cl \<Rightarrow>
           bindA (FindSeedNameForDatacenter seedsGetter (cl_datacenterName (as_cloud (ti_spec cl)))) (\<lambda>seedName.
             retA (ProjectReq.extend pr (importClusterTemplateReq.fields b seedName)))))"

definition valid_template :: "'s cluster_gen \<Rightarrow> 's template_sdk \<Rightarrow> string \<Rightarrow> string \<Rightarrow> string \<Rightarrow> CreateClusterSpec \<Rightarrow> unit result" where
  "valid_template G T projectID name scope spec =
     (if projectID = [] \<or> name = [] \<or> scope = [] then Inl (Plain ''the name, project ID and scope cannot be empty'')
      else
        (case ValidateClusterSpec G spec of
           Inl err \<Rightarrow> Inl err
         | Inr _ \<Rightarrow> if scope \<in> set (scopeList T) then Inr () else Inl (Plain ''invalid scope name'')))"

definition createClusterTemplateReq_Validate :: "'s cluster_gen \<Rightarrow> 's template_sdk \<Rightarrow> createClusterTemplateReq \<Rightarrow> unit result" where
  "createClusterTemplateReq_Validate G T req = valid_template G T (req_projectID req) (ctr_name req) (ctr_scope req) (ctr_spec req)"

definition updateClusterTemplateReq_Validate :: "'s cluster_gen \<Rightarrow> 's template_sdk \<Rightarrow> updateClusterTemplateReq \<Rightarrow> unit result" where
  "updateClusterTemplateReq_Validate G T req = valid_template G T (req_projectID req) (ctr_name req) (ctr_scope req) (ctr_spec req)"

definition listClusterTemplatesReq_Validate :: "ProjectReq \<Rightarrow> unit result" where
  "listClusterTemplatesReq_Validate req = (if req_projectID req = [] then Inl (Plain ''project ID cannot be empty'') else Inr ())"

definition getClusterTemplatesReq_Validate :: "'a getClusterTemplatesReq_scheme \<Rightarrow> unit result" where
  "getClusterTemplatesReq_Validate req =
     (if req_projectID req = [] then Inl (Plain ''project ID cannot be empty'')
      else if gtr_templateID req = [] then Inl (Plain ''cluster template ID cannot be empty'')
      else Inr ())"

definition getApplicationsFromRequest :: "importClusterTemplateReq \<Rightarrow> Application list" where
  "getApplicationsFromRequest req =
     map (\<lambda>app. \<lparr>app_name = [], app_namespace = app_namespace app, app_annotations = [], app_ref = app_ref app, app_rest = app_rest app\<rparr>)
       (at_applications (itr_body req))"

definition import_nodes :: "importClusterTemplateReq \<Rightarrow> NodeDeployment option" where
  "import_nodes req = map_option (\<lambda>nd. \<lparr>nd_name = [], nd_rest = tnd_spec nd\<rparr>) (at_nodeDeployment (itr_body req))"

definition zero_apiCluster :: "apiClusterSpec \<Rightarrow> apiCluster" where
  "zero_apiCluster sp = apiObject.extend
     \<lparr>ao_id = [], ao_name = [], ao_annotations = [], ao_creationTimestamp = 0, ao_deletionTimestamp = None\<rparr>
     (apiCluster.fields [] [] KubernetesClusterType [] sp [] [] [] None None)"

definition importClusterTemplateReq_Validate :: "'s cluster_gen \<Rightarrow> 's template_sdk \<Rightarrow> importClusterTemplateReq \<Rightarrow> unit result" where
  "importClusterTemplateReq_Validate G T req =
     (case at_cluster (itr_body req) of
        None \<Rightarrow> Inl (Plain ''the cluster cannot be empty'')
      | Some cl \<Rightarrow>
          valid_template G T (req_projectID req) (at_name (itr_body req)) (at_scope (itr_body req))
            \<lparr>ccs_cluster = zero_apiCluster (ti_spec cl), ccs_nodeDeployment = import_nodes req,
             ccs_applications = getApplicationsFromRequest req, ccs_encryptionAtRest = None\<rparr>)"

section \<open>Endpoints\<close>

text \<open>The encryption is not shown.\<close>

definition convertInternalClusterTemplatetoExternal ::
  "'x sdk_scheme \<Rightarrow> 's cluster_sdk \<Rightarrow> 's cluster_gen \<Rightarrow> 's template_sdk \<Rightarrow> template \<Rightarrow> apiClusterTemplate result" where
  "convertInternalClusterTemplatetoExternal K X G T t =
     (let md = mget (om_annotations t) (gx_initialMachineDeploymentAnnotation G);
          rawApps = mget (om_annotations t) (gx_initialApplicationsAnnotation G) in
      case (if md \<noteq> [] then ts_nodeDeployment T md else Inr ([], [], [])) of
        Inl err \<Rightarrow> Inl err
      | Inr (annotations, labels, spec) \<Rightarrow>
          (case (if rawApps \<noteq> [] then ts_unmarshalApplications T rawApps else Inr []) of
             Inl err \<Rightarrow> Inl err
           | Inr apps \<Rightarrow>
               Inr (apiObject.extend
                 \<lparr>ao_id = om_name t, ao_name = cl_humanReadableName (tpl_spec t), ao_annotations = om_annotations t,
                  ao_creationTimestamp = om_creationTimestamp t, ao_deletionTimestamp = om_deletionTimestamp t\<rparr>
                 (apiClusterTemplate.fields (mget (om_labels t) (ts_nameLabel T)) (om_name t) (mget (om_labels t) (ts_projectLabel T))
                    (mget (om_annotations t) (ts_userAnnotation T)) (scope_of T t) (tpl_userSSHKeys t)
                    (Some \<lparr>ti_labels = FilterLabels K ClusterResourceType (tpl_clusterLabels t), ti_annotations = om_annotations t,
                           ti_inheritedLabels = tpl_inheritedLabels t, ti_credential = tpl_credential t,
                           ti_spec = (external_spec X (tpl_spec t))\<lparr>as_encryption := None\<rparr>\<rparr>)
                    (Some \<lparr>tnd_annotations = annotations, tnd_labels = labels, tnd_spec = spec\<rparr>) apps))))"

definition template_keys ::
  "'s template_sdk \<Rightarrow> 's SSHKeyProvider \<Rightarrow> project \<Rightarrow> string \<Rightarrow> (string \<times> string) list \<Rightarrow> ('s, (string \<times> string) list) act" where
  "template_keys T sshKeyProvider project scope userSSHKeys =
     (if userSSHKeys \<noteq> [] \<and> scope = ts_projectScope T then
        bindA (httpA (skp_List sshKeyProvider (Some project) None)) (\<lambda>projectSSHKeys.
          if list_all (\<lambda>(_, i). list_ex (\<lambda>key. om_name key = i) projectSSHKeys) userSSHKeys then retA userSSHKeys
          else failA (Plain ''the given ssh key does not belong to the given project''))
      else retA [])"

text \<open>
  The new template. Its specification shares the cloud specification with the cluster whose credentials were moved, so
  it is the one without inline credentials.
\<close>

definition new_template ::
  "'s cluster_gen \<Rightarrow> 's cluster_sdk \<Rightarrow> 's credentials_sdk \<Rightarrow> 's template_sdk \<Rightarrow> cluster \<Rightarrow> cluster \<Rightarrow> smap \<Rightarrow> project \<Rightarrow> string \<Rightarrow> string \<Rightarrow> string \<Rightarrow>
     bool \<Rightarrow> template" where
  "new_template G X R T partialCluster moved inheritedLabels project email name scope isBYO =
     (let preset = map_of (om_labels partialCluster) (gx_isCredentialPresetLabelKey G);
          labels = AList.update (ts_nameLabel T) name (AList.update (ts_scopeLabel T) scope [(ts_projectLabel T, om_name project)]);
          annotations = AList.update (ts_userAnnotation T) email
            (AList.update (gx_initialMachineDeploymentAnnotation G)
               (mget (om_annotations partialCluster) (gx_initialMachineDeploymentAnnotation G)) (om_annotations partialCluster)) in
      objmeta.extend
        (blank_meta\<lparr>om_name := om_name partialCluster,
           om_labels := (case preset of None \<Rightarrow> labels | Some v \<Rightarrow> AList.update (gx_isCredentialPresetLabelKey G) v labels),
           om_annotations := (case preset of None \<Rightarrow> annotations
             | Some _ \<Rightarrow> AList.update (gx_presetNameAnnotation G) (mget annotations (gx_presetNameAnnotation G)) annotations)\<rparr>)
        (template.fields (cd_getSecretName R partialCluster) (om_labels partialCluster) inheritedLabels []
           (if isBYO then [] else cx_addFinalizer X [] (ts_credentialsFinalizer T)) (cl_spec moved)))"

definition createOrUpdateClusterTemplate ::
  "'s cluster_gen \<Rightarrow> 's cluster_sdk \<Rightarrow> 's credentials_sdk \<Rightarrow> 'x sdk_scheme \<Rightarrow> 's template_sdk \<Rightarrow> string option \<Rightarrow> 's UserInfoGetter \<Rightarrow> 's SeedsGetter \<Rightarrow>
     's ProjectProvider \<Rightarrow> 's PrivilegedProjectProvider \<Rightarrow> 's SSHKeyProvider \<Rightarrow> 's PresetProvider \<Rightarrow> 's SettingsProvider \<Rightarrow> 's ClusterTemplateProvider \<Rightarrow>
     CreateClusterSpec \<Rightarrow> string \<Rightarrow> string \<Rightarrow> string \<Rightarrow> (string \<times> string) list \<Rightarrow> string \<Rightarrow> ('s, apiClusterTemplate) act" where
  "createOrUpdateClusterTemplate G X R K T rawToken userInfoGetter seedsGetter projectProvider privilegedProjectProvider sshKeyProvider
     credentialManager settingsProvider clusterTemplateProvider createCluster projectID name scope userSSHKeys clusterTemplateID =
     bindA (httpA (GetProject userInfoGetter projectProvider privilegedProjectProvider projectID (Some \<lparr>includeUninitialized = False\<rparr>))) (\<lambda>project.
     bindA (httpA (userInfoGetter projectID)) (\<lambda>userInfo.
     bindA (GenerateCluster G X K projectID createCluster seedsGetter credentialManager userInfoGetter settingsProvider) (\<lambda>c.
     let isUpdateRequest = clusterTemplateID \<noteq> [];
         partialCluster = (if isUpdateRequest then c\<lparr>om_name := clusterTemplateID\<rparr> else c) in
     bindA (CreateOrUpdateCredentialSecretForCluster R rawToken partialCluster) (\<lambda>moved.
     bindA (httpA (liftA (IsBringYourOwnProvider G (cloud_of moved)))) (\<lambda>isBYO.
     bindA (template_keys T sshKeyProvider project scope userSSHKeys) (\<lambda>keys.
     let newClusterTemplate = (new_template G X R T partialCluster moved (ac_inheritedLabels (ccs_cluster createCluster)) project (ui_email userInfo)
           name scope isBYO)\<lparr>tpl_userSSHKeys := keys\<rparr> in
     bindA (httpA (ctp_CreateorUpdate clusterTemplateProvider (Some userInfo) (Some newClusterTemplate) scope (om_name project) isUpdateRequest)) (\<lambda>ct.
       liftA (convertInternalClusterTemplatetoExternal K X G T ct))))))))"

definition template_CreateEndpoint where
  "template_CreateEndpoint G X R K T rawToken userInfoGetter seedsGetter projectProvider privilegedProjectProvider sshKeyProvider
     credentialManager settingsProvider clusterTemplateProvider req =
     bindA (cx_config X) (\<lambda>_.
     bindA (wrapA (\<lambda>_. NewBadRequest) (liftA (createClusterTemplateReq_Validate G T req))) (\<lambda>_.
       createOrUpdateClusterTemplate G X R K T rawToken userInfoGetter seedsGetter projectProvider privilegedProjectProvider sshKeyProvider
         credentialManager settingsProvider clusterTemplateProvider (ctr_spec req) (req_projectID req) (ctr_name req) (ctr_scope req)
         (ctr_userSSHKeys req) []))"

definition template_UpdateEndpoint where
  "template_UpdateEndpoint G X R K T rawToken userInfoGetter seedsGetter projectProvider privilegedProjectProvider sshKeyProvider
     credentialManager settingsProvider clusterTemplateProvider req =
     bindA (cx_config X) (\<lambda>_.
     bindA (wrapA (\<lambda>_. NewBadRequest) (liftA (updateClusterTemplateReq_Validate G T req))) (\<lambda>_.
       createOrUpdateClusterTemplate G X R K T rawToken userInfoGetter seedsGetter projectProvider privilegedProjectProvider sshKeyProvider
         credentialManager settingsProvider clusterTemplateProvider (ctr_spec req) (req_projectID req) (ctr_name req) (ctr_scope req)
         (ctr_userSSHKeys req) (utr_templateID req)))"

definition ImportEndpoint where
  "ImportEndpoint G X R K T rawToken userInfoGetter seedsGetter projectProvider privilegedProjectProvider sshKeyProvider
     credentialManager settingsProvider clusterTemplateProvider req =
     bindA (cx_config X) (\<lambda>_.
     bindA (wrapA (\<lambda>_. NewBadRequest) (liftA (importClusterTemplateReq_Validate G T req))) (\<lambda>_.
       let b = itr_body req in
       case at_cluster b of
         None \<Rightarrow> failA Panic
       | Some cl \<Rightarrow>
           createOrUpdateClusterTemplate G X R K T rawToken userInfoGetter seedsGetter projectProvider privilegedProjectProvider sshKeyProvider
             credentialManager settingsProvider clusterTemplateProvider
             \<lparr>ccs_cluster = (zero_apiCluster (ti_spec cl))\<lparr>ao_name := at_name b, ac_labels := ti_labels cl,
                 ac_inheritedLabels := ti_inheritedLabels cl, ac_credential := ti_credential cl\<rparr>,
              ccs_nodeDeployment = import_nodes req, ccs_applications = getApplicationsFromRequest req, ccs_encryptionAtRest = None\<rparr>
             (req_projectID req) (at_name b) (at_scope b) (at_userSSHKeys b) []))"

definition template_ListEndpoint ::
  "'x sdk_scheme \<Rightarrow> 's cluster_sdk \<Rightarrow> 's cluster_gen \<Rightarrow> 's template_sdk \<Rightarrow> 's ProjectProvider \<Rightarrow> 's PrivilegedProjectProvider \<Rightarrow> 's UserInfoGetter \<Rightarrow>
     's ClusterTemplateProvider \<Rightarrow> ProjectReq \<Rightarrow> ('s, apiClusterTemplate list) act" where
  "template_ListEndpoint K X G T projectProvider privilegedProjectProvider userInfoGetter clusterTemplateProvider req =
     bindA (wrapA (\<lambda>_. NewBadRequest) (liftA (listClusterTemplatesReq_Validate req))) (\<lambda>_.
     bindA (httpA (GetProject userInfoGetter projectProvider privilegedProjectProvider (req_projectID req)
              (Some \<lparr>includeUninitialized = False\<rparr>))) (\<lambda>project.
     bindA (httpA (userInfoGetter [])) (\<lambda>userInfo.
     bindA (httpA (ctp_List clusterTemplateProvider (Some userInfo) (om_name project))) (\<lambda>templates.
       let rs = map (convertInternalClusterTemplatetoExternal K X G T) templates in
       if list_ex isl rs then failA (HTTPError 500) else retA (map projr rs)))))"

definition getClusterTemplate ::
  "'x sdk_scheme \<Rightarrow> 's cluster_sdk \<Rightarrow> 's cluster_gen \<Rightarrow> 's template_sdk \<Rightarrow> 's ProjectProvider \<Rightarrow> 's PrivilegedProjectProvider \<Rightarrow> 's UserInfoGetter \<Rightarrow>
     's ClusterTemplateProvider \<Rightarrow> string \<Rightarrow> string \<Rightarrow> ('s, apiClusterTemplate) act" where
  "getClusterTemplate K X G T projectProvider privilegedProjectProvider userInfoGetter clusterTemplateProvider projectID clusterTemplateID =
     bindA (httpA (GetProject userInfoGetter projectProvider privilegedProjectProvider projectID (Some \<lparr>includeUninitialized = False\<rparr>))) (\<lambda>project.
     bindA (httpA (userInfoGetter projectID)) (\<lambda>userInfo.
     bindA (httpA (ctp_Get clusterTemplateProvider (Some userInfo) (om_name project) clusterTemplateID)) (\<lambda>t.
       liftA (convertInternalClusterTemplatetoExternal K X G T t))))"

definition template_GetEndpoint ::
  "'x sdk_scheme \<Rightarrow> 's cluster_sdk \<Rightarrow> 's cluster_gen \<Rightarrow> 's template_sdk \<Rightarrow> 's ProjectProvider \<Rightarrow> 's PrivilegedProjectProvider \<Rightarrow> 's UserInfoGetter \<Rightarrow>
     's ClusterTemplateProvider \<Rightarrow> getClusterTemplatesReq \<Rightarrow> ('s, apiClusterTemplate) act" where
  "template_GetEndpoint K X G T projectProvider privilegedProjectProvider userInfoGetter clusterTemplateProvider req =
     bindA (wrapA (\<lambda>_. NewBadRequest) (liftA (getClusterTemplatesReq_Validate req))) (\<lambda>_.
       getClusterTemplate K X G T projectProvider privilegedProjectProvider userInfoGetter clusterTemplateProvider
         (req_projectID req) (gtr_templateID req))"

text \<open>What is encoded of an exported template: the template, the suffix of the file and the format.\<close>

record encodeClusterTemplateResponse =
  ecr_clusterTemplate :: apiClusterTemplate
  ecr_fileSuffix :: string
  ecr_format :: string

definition ExportEndpoint ::
  "'x sdk_scheme \<Rightarrow> 's cluster_sdk \<Rightarrow> 's cluster_gen \<Rightarrow> 's template_sdk \<Rightarrow> 's ProjectProvider \<Rightarrow> 's PrivilegedProjectProvider \<Rightarrow> 's UserInfoGetter \<Rightarrow>
     's ClusterTemplateProvider \<Rightarrow> exportClusterTemplatesReq \<Rightarrow> ('s, encodeClusterTemplateResponse) act" where
  "ExportEndpoint K X G T projectProvider privilegedProjectProvider userInfoGetter clusterTemplateProvider req =
     bindA (wrapA (\<lambda>_. NewBadRequest) (liftA (getClusterTemplatesReq_Validate req))) (\<lambda>_.
     bindA (getClusterTemplate K X G T projectProvider privilegedProjectProvider userInfoGetter clusterTemplateProvider
              (req_projectID req) (gtr_templateID req)) (\<lambda>ct.
       case at_cluster ct of
         None \<Rightarrow> failA Panic
       | Some cl \<Rightarrow>
           retA \<lparr>ecr_clusterTemplate = ct\<lparr>at_id := [], at_projectID := [],
                   at_cluster := Some (cl\<lparr>ti_labels := AList.delete (projectIDLabelKey K) (ti_labels cl), ti_credential := []\<rparr>)\<rparr>,
                 ecr_fileSuffix = gtr_templateID req, ecr_format = etr_format req\<rparr>))"

text \<open>The headers and the body of the answer; \<open>yaml\<close> and \<open>json\<close> are the encoders.\<close>

definition EncodeClusterTemplate ::
  "(apiClusterTemplate \<Rightarrow> string result) \<Rightarrow> (apiClusterTemplate \<Rightarrow> string result) \<Rightarrow> encodeClusterTemplateResponse \<Rightarrow> (smap \<times> string) result" where
  "EncodeClusterTemplate yaml json rsp =
     (let filename = ''clusterTemplate'' @ (if ecr_fileSuffix rsp \<noteq> [] then ''-'' @ ecr_fileSuffix rsp else []);
          headers = [(''Content-Type'', ''application/octet-stream''), (''Content-disposition'', ''attachment; filename='' @ filename),
                     (''Cache-Control'', ''no-cache'')] in
      case (if ecr_format rsp = yamlFormat then yaml else json) (ecr_clusterTemplate rsp) of
        Inl err \<Rightarrow> Inl err | Inr b \<Rightarrow> Inr (headers, b))"

definition template_DeleteEndpoint ::
  "'s ProjectProvider \<Rightarrow> 's PrivilegedProjectProvider \<Rightarrow> 's UserInfoGetter \<Rightarrow> 's ClusterTemplateProvider \<Rightarrow> getClusterTemplatesReq \<Rightarrow> ('s, unit) act" where
  "template_DeleteEndpoint projectProvider privilegedProjectProvider userInfoGetter clusterTemplateProvider req =
     bindA (wrapA (\<lambda>_. NewBadRequest) (liftA (getClusterTemplatesReq_Validate req))) (\<lambda>_.
     bindA (httpA (GetProject userInfoGetter projectProvider privilegedProjectProvider (req_projectID req)
              (Some \<lparr>includeUninitialized = False\<rparr>))) (\<lambda>project.
     bindA (httpA (userInfoGetter (req_projectID req))) (\<lambda>userInfo.
       httpA (ctp_Delete clusterTemplateProvider (Some userInfo) (om_name project) (gtr_templateID req)))))"

record apiClusterTemplateInstance =
  ati_name :: string
  ati_projectID :: string
  ati_templateID :: string
  ati_templateName :: string
  ati_replicas :: int

definition instance_answer :: "template_instance \<Rightarrow> apiClusterTemplateInstance" where
  "instance_answer ins = \<lparr>ati_name = om_name ins, ati_projectID = ins_projectID ins, ati_templateID = ins_templateID ins,
     ati_templateName = ins_templateName ins, ati_replicas = ins_replicas ins\<rparr>"

text \<open>\<open>clientsFor\<close> gives the clients of a seed.\<close>

definition CreateInstanceEndpoint ::
  "'x sdk_scheme \<Rightarrow> 's cluster_sdk \<Rightarrow> 's template_sdk \<Rightarrow> 's ProjectProvider \<Rightarrow> 's PrivilegedProjectProvider \<Rightarrow> 's UserInfoGetter \<Rightarrow>
     's ClusterTemplateProvider \<Rightarrow> 's SeedsGetter \<Rightarrow> (seed \<Rightarrow> ('s, 's instance_clients) act) \<Rightarrow> createInstanceReq \<Rightarrow> ('s, apiClusterTemplateInstance) act" where
  "CreateInstanceEndpoint K X T projectProvider privilegedProjectProvider userInfoGetter clusterTemplateProvider seedsGetter clientsFor req =
     bindA (wrapA (\<lambda>_. NewBadRequest) (liftA (getClusterTemplatesReq_Validate req))) (\<lambda>_.
     bindA (httpA (GetProject userInfoGetter projectProvider privilegedProjectProvider (req_projectID req)
              (Some \<lparr>includeUninitialized = False\<rparr>))) (\<lambda>project.
     bindA (httpA (userInfoGetter [])) (\<lambda>adminUserInfo.
     bindA (httpA (ctp_Get clusterTemplateProvider (Some adminUserInfo) (om_name project) (gtr_templateID req))) (\<lambda>ct.
     bindA (wrapA Wrapped (DatacenterFromSeedMap X adminUserInfo seedsGetter (cl_datacenterName (cl_cloud (tpl_spec ct))))) (\<lambda>(seed, _).
     bindA (httpA (clientsFor seed)) (\<lambda>C.
       if ui_isAdmin adminUserInfo then
         bindA (httpA (instance_CreateUnsecured K T C adminUserInfo ct project (cir_replicas req))) (\<lambda>ins. retA (instance_answer ins))
       else
         bindA (httpA (userInfoGetter (om_name project))) (\<lambda>userInfo.
         bindA (httpA (instance_Create K T C userInfo ct project (cir_replicas req))) (\<lambda>ins. retA (instance_answer ins)))))))))"

end
