(* ===== verification/Template_Properties.thy ===== *)
theory Template_Properties
  imports Cluster_Templates Cluster_Change_Properties
begin

text \<open>
  What holds of cluster templates: who may see and delete them, and what an update does not check.
\<close>

section \<open>Access\<close>

text \<open>The templates that somebody may use in a project.\<close>

definition may_use :: "'x sdk_scheme \<Rightarrow> 's template_sdk \<Rightarrow> user \<Rightarrow> string \<Rightarrow> template \<Rightarrow> bool" where
  "may_use K T u pid t \<longleftrightarrow>
     scope_of T t = ts_globalScope T \<or>
     scope_of T t = ts_userScope T \<and> EqualFold (mget (om_annotations t) (ts_userAnnotation T)) (us_email u) \<or>
     scope_of T t = ts_projectScope T \<and> mget (om_labels t) (projectIDLabelKey K) = pid"

definition templates_ok :: "('s \<Rightarrow> template list) \<Rightarrow> (template, 's) kclient \<Rightarrow> bool" where
  "templates_ok P k \<longleftrightarrow> list_ok P k \<and> get_ok P k \<and> update_ok P k \<and> delete_ok P k"

text \<open>Every stored template has one of the three scopes, as the endpoints create them.\<close>

definition scoped :: "'s template_sdk \<Rightarrow> template list \<Rightarrow> bool" where
  "scoped T ts \<longleftrightarrow> (\<forall>t \<in> set ts. scope_of T t \<in> set (scopeList T))"

abbreviation kube_templates where "kube_templates E T k \<equiv> NewClusterTemplateProvider E T k"

abbreviation kube_get_template where
  "kube_get_template E X G T k u req \<equiv> template_GetEndpoint E X G T (kube_projectProvider E) (kube_privilegedProjectProvider E) (kube_getter E u)
     (kube_templates E T k) req"

abbreviation kube_list_templates where
  "kube_list_templates E X G T k u req \<equiv> template_ListEndpoint E X G T (kube_projectProvider E) (kube_privilegedProjectProvider E) (kube_getter E u)
     (kube_templates E T k) req"

abbreviation kube_delete_template where
  "kube_delete_template E T k u req \<equiv> template_DeleteEndpoint (kube_projectProvider E) (kube_privilegedProjectProvider E) (kube_getter E u)
     (kube_templates E T k) req"

lemma template_fields:
  "ctp_Get (kube_templates E T k) = template_Get E T k" "ctp_List (kube_templates E T k) = template_List E T k"
  "ctp_Delete (kube_templates E T k) = template_Delete E T k" "ctp_CreateorUpdate (kube_templates E T k) = template_CreateorUpdate T k"
  by (simp_all add: NewClusterTemplateProvider_def)

lemma reads_template_Get [reads_intros]: "reads (template_Get K T k i pid tid)"
  unfolding template_Get_def by (intro reads_intros)

lemma template_Get_InrD:
  assumes ok: "templates_ok P k" and pid: "pid \<noteq> []" and sc: "scoped T (P s)" and mail: "ui_email i = us_email u"
    and run: "template_Get K T k (Some i) pid tid s = (Inr t, s)"
  shows "t \<in> set (P s) \<and> key_of t = ([], tid) \<and> (ui_isAdmin i \<or> may_use K T u pid t)"
proof -
  from run have g: "kGet k ([], tid) s = Inr t" and c: "ui_isAdmin i \<or> scope_of T t = ts_globalScope T \<or>
      (scope_of T t = ts_userScope T \<longrightarrow> EqualFold (mget (om_annotations t) (ts_userAnnotation T)) (ui_email i)) \<and>
      (scope_of T t = ts_projectScope T \<longrightarrow> mget (om_labels t) (projectIDLabelKey K) = pid)"
    using pid by (auto simp: template_Get_def bindA_eq_Inr split: if_splits)
  have mem: "t \<in> set (P s)" "key_of t = ([], tid)"
    using lookup_key_mem[of "([], tid)" "P s" t] g get_okD[of P k] ok by (auto simp: templates_ok_def)
  with sc have "scope_of T t \<in> set (scopeList T)" by (auto simp: scoped_def)
  with c mem mail show ?thesis by (auto simp: may_use_def scopeList_def)
qed

lemma convert_id: "convertInternalClusterTemplatetoExternal K X G T t = Inr a \<Longrightarrow> at_id a = om_name t"
  by (auto simp: convertInternalClusterTemplatetoExternal_def Let_def apiObject.defs apiClusterTemplate.defs split: sum.splits prod.splits)

lemma template_List_run:
  assumes "templates_ok P k" and "pid \<noteq> []" and "ui_email i = us_email u"
  shows "template_List K T k (Some i) pid s = (Inr (filter (may_use K T u pid) (P s)), s)"
  using assms by (auto simp: template_List_def templates_ok_def list_ok_Everything may_use_def intro!: filter_cong)

text \<open>Who sees a project: an administrator, or somebody in whose name the API server returns it.\<close>

definition sees_project :: "('s, 'x) env_scheme \<Rightarrow> user \<Rightarrow> string \<Rightarrow> 's \<Rightarrow> bool" where
  "sees_project E u pid s \<longleftrightarrow> us_isAdmin u \<or> (\<exists>i c p. kube_getter E u pid s = (Inr i, s) \<and>
     impersonated E (us_email u) (ui_groups i) = Inr c \<and> kGet (cs_projects c) ([], pid) s = Inr p)"

lemma GetProject_sees:
  "GetProject (kube_getter E u) (kube_projectProvider E) (kube_privilegedProjectProvider E) pid opts s = (Inr p, t) \<Longrightarrow> sees_project E u pid s"
  using GetProject_InrD(3)[of E u pid opts s p t] unfolding sees_project_def by blast

text \<open>
  C35: access to templates. Reading, listing and deleting templates in a project is for administrators and
  callers who may read the project. Who is no administrator reads only templates that are for everybody, for him, or for
  this project; everybody is listed exactly these. A deletion removes exactly the named template, which the caller may read; one that is for
  everybody is only deleted by an administrator, and nobody deletes who is only a viewer.
\<close>

theorem template_access:
  assumes api: "api_ok V E" and ok: "templates_ok P k" and sc: "scoped T (P s)"
  shows "(kube_get_template E X G T k u req s = (Inr a, t) \<longrightarrow> t = s \<and> sees_project E u (req_projectID req) s \<and>
      (\<exists>x \<in> set (P s). at_id a = om_name x \<and> om_name x = gtr_templateID req \<and> (us_isAdmin u \<or> may_use E T u (req_projectID req) x))) \<and>
    (kube_list_templates E X G T k u lreq s = (Inr as, t) \<longrightarrow> t = s \<and> sees_project E u (req_projectID lreq) s \<and>
      map at_id as = map om_name (filter (may_use E T u (req_projectID lreq)) (P s))) \<and>
    (kube_delete_template E T k u req s = (Inr v, t) \<longrightarrow> sees_project E u (req_projectID req) s \<and>
      (\<exists>x \<in> set (P s). om_name x = gtr_templateID req \<and> P t = filter (\<lambda>y. key_of y \<noteq> key_of x) (P s) \<and>
         (us_isAdmin u \<or> may_use E T u (req_projectID req) x \<and> scope_of T x \<noteq> ts_globalScope T) \<and>
         (\<exists>i. kube_getter E u (req_projectID req) s = (Inr i, s) \<and> \<not> only_viewer i)))"
proof (intro conjI impI)
  assume run: "kube_get_template E X G T k u req s = (Inr a, t)"
  then obtain p i x where pid: "req_projectID req \<noteq> []"
    and p: "GetProject (kube_getter E u) (kube_projectProvider E) (kube_privilegedProjectProvider E) (req_projectID req)
      (Some \<lparr>includeUninitialized = False\<rparr>) s = (Inr p, s)"
    and i: "kube_getter E u (req_projectID req) s = (Inr i, s)"
    and x: "template_Get E T k (Some i) (om_name p) (gtr_templateID req) s = (Inr x, s)"
    and a: "convertInternalClusterTemplatetoExternal E X G T x = Inr a" and t: "t = s"
    unfolding template_GetEndpoint_def getClusterTemplate_def template_fields
    by (auto simp: bind_reads reads_wrapA reads_liftA reads_GetProject me.getter_reads reads_template_Get wrapA_eq_Inr
        getClusterTemplatesReq_Validate_def split: if_splits)
  note n = GetProject_name[OF api p] and m = mapper.getter_identity[OF i]
  from template_Get_InrD[OF ok pid sc m(1) x[unfolded n]] have x: "x \<in> set (P s)" "om_name x = gtr_templateID req"
      "us_isAdmin u \<or> may_use E T u (req_projectID req) x" by (auto simp: key_of_def m(2))
  show "t = s" "sees_project E u (req_projectID req) s" by (rule t, rule GetProject_sees[OF p])
  show "\<exists>x \<in> set (P s). at_id a = om_name x \<and> om_name x = gtr_templateID req \<and> (us_isAdmin u \<or> may_use E T u (req_projectID req) x)"
    using x convert_id[OF a] by blast
next
  assume run: "kube_list_templates E X G T k u lreq s = (Inr as, t)"
  have rl: "reads (template_List E T k i pid)" for i pid unfolding template_List_def by (intro reads_intros)
  from run obtain p i xs where pid: "req_projectID lreq \<noteq> []"
    and p: "GetProject (kube_getter E u) (kube_projectProvider E) (kube_privilegedProjectProvider E) (req_projectID lreq)
      (Some \<lparr>includeUninitialized = False\<rparr>) s = (Inr p, s)"
    and i: "kube_getter E u [] s = (Inr i, s)" and xs: "template_List E T k (Some i) (om_name p) s = (Inr xs, s)"
    and as: "\<not> list_ex isl (map (convertInternalClusterTemplatetoExternal E X G T) xs)"
      "as = map projr (map (convertInternalClusterTemplatetoExternal E X G T) xs)" and t: "t = s"
    unfolding template_ListEndpoint_def template_fields
    by (auto simp: bind_reads reads_wrapA reads_liftA reads_GetProject me.getter_reads rl wrapA_eq_Inr Let_def
        listClusterTemplatesReq_Validate_def split: if_splits)
  note n = GetProject_name[OF api p] and m = mapper.getter_identity[OF i]
  from xs have "xs = filter (may_use E T u (req_projectID lreq)) (P s)" unfolding n by (simp add: template_List_run[OF ok pid m(1)])
  moreover have "map at_id as = map om_name xs"
  proof -
    have "at_id (projr (convertInternalClusterTemplatetoExternal E X G T x)) = om_name x" if "x \<in> set xs" for x
      using as(1) that convert_id[of E X G T x] by (cases "convertInternalClusterTemplatetoExternal E X G T x") (auto simp: list_ex_iff)
    then show ?thesis by (simp add: as(2))
  qed
  ultimately show "t = s" "sees_project E u (req_projectID lreq) s"
      "map at_id as = map om_name (filter (may_use E T u (req_projectID lreq)) (P s))" using t GetProject_sees[OF p] by simp_all
next
  assume run: "kube_delete_template E T k u req s = (Inr v, t)"
  then obtain p i where pid: "req_projectID req \<noteq> []"
    and p: "GetProject (kube_getter E u) (kube_projectProvider E) (kube_privilegedProjectProvider E) (req_projectID req)
      (Some \<lparr>includeUninitialized = False\<rparr>) s = (Inr p, s)"
    and i: "kube_getter E u (req_projectID req) s = (Inr i, s)"
    and d: "template_Delete E T k (Some i) (om_name p) (gtr_templateID req) s = (Inr v, t)"
    unfolding template_DeleteEndpoint_def template_fields
    by (auto simp: bind_reads reads_wrapA reads_liftA reads_GetProject me.getter_reads wrapA_eq_Inr
        getClusterTemplatesReq_Validate_def split: if_splits)
  note n = GetProject_name[OF api p] and m = mapper.getter_identity[OF i]
  from d obtain x where x: "template_Get E T k (Some i) (req_projectID req) (gtr_templateID req) s = (Inr x, s)"
    and g: "ui_isAdmin i \<or> scope_of T x \<noteq> ts_globalScope T" "\<not> only_viewer i" and del: "kDelete k (key_of x) s = (Inr (), t)"
    unfolding n by (auto simp: template_Delete_def bind_reads reads_template_Get split: if_splits)
  show "sees_project E u (req_projectID req) s" by (rule GetProject_sees[OF p])
  from template_Get_InrD[OF ok pid sc m(1) x] delete_okD[of P k, OF _ del] ok g m(2) i
  show "\<exists>x \<in> set (P s). om_name x = gtr_templateID req \<and> P t = filter (\<lambda>y. key_of y \<noteq> key_of x) (P s) \<and>
         (us_isAdmin u \<or> may_use E T u (req_projectID req) x \<and> scope_of T x \<noteq> ts_globalScope T) \<and>
         (\<exists>i. kube_getter E u (req_projectID req) s = (Inr i, s) \<and> \<not> only_viewer i)"
    by (auto simp: key_of_def templates_ok_def)
qed

section \<open>What an update does not check\<close>

text \<open>
  C36: updating a template. The template that is replaced is not looked at: an update by somebody who is no administrator, and
  not only a viewer, replaces every template, be it for everybody, of another user or of another project.
\<close>

theorem template_update_unchecked:
  assumes ok: "templates_ok P k" and upd: "\<forall>x s. key_of x \<in> key_of ` set (P s) \<longrightarrow> \<not> isl (fst (kUpdate k x s))"
    and old: "old \<in> set (P s)" and new: "key_of new = key_of old" "om_namespace new = []"
    and i: "\<not> ui_isAdmin i" "\<not> only_viewer i" and scope: "scope \<noteq> []" "scope \<noteq> ts_globalScope T" and pid: "pid \<noteq> []"
  shows "\<exists>new' t. template_CreateorUpdate T k (Some i) (Some new) scope pid True s = (Inr new', t) \<and> same_object new' new \<and>
      P t = map (\<lambda>y. if key_of y = key_of old then new' else y) (P s)"
proof -
  have "key_of new \<in> key_of ` set (P s)" using old new(1) by simp
  then obtain y where get: "kGet k (key_of new) s = Inr y"
    using ok get_okD[of P k] unfolding templates_ok_def
    by (cases "lookup_key (key_of new) (P s)") (auto simp: lookup_key_def find_None_iff split: option.splits)
  from upd \<open>key_of new \<in> _\<close> obtain new' t where u: "kUpdate k new s = (Inr new', t)" by (metis success_obtain)
  have "template_CreateorUpdate T k (Some i) (Some new) scope pid True s = (Inr new', t)"
    using i scope pid get u new(2) by (simp add: template_CreateorUpdate_def updateTemplate_def key_of_def)
  with update_okD[of P k, OF _ u] ok new(1) show ?thesis by (auto simp: templates_ok_def)
qed

text \<open>
  The credentials of the request are written into the secret of the name it gives before anything is checked, so that
  they are changed even if the update is refused, as for somebody who is only a viewer.
\<close>

lemma template_credentials_first:
  assumes i: "\<not> ui_isAdmin i" "only_viewer i" and scope: "scope \<noteq> []" "scope \<noteq> ts_globalScope T" and tid: "tid \<noteq> []"
    and p: "GetProject g pp ppp pid (Some \<lparr>includeUninitialized = False\<rparr>) s0 = (Inr p, s0)" "om_name p = pid" and g: "g pid s0 = (Inr i, s0)"
    and c: "GenerateCluster G X K pid body sg cm g st s0 = (Inr c, s1)"
      "CreateOrUpdateCredentialSecretForCluster R tok (c\<lparr>om_name := tid\<rparr>) s1 = (Inr c', s2)" "cl_providerName (cloud_of c') = Inr prov"
  shows "createOrUpdateClusterTemplate G X R K T tok g sg pp ppp keys cm st (NewClusterTemplateProvider K T k) body pid name scope [] tid s0 =
        (Inl (HTTPError 403), s2)"
  using assms by (simp add: createOrUpdateClusterTemplate_def IsBringYourOwnProvider_def template_keys_def template_fields template_CreateorUpdate_def)

section \<open>Witnesses\<close>

text \<open>Three templates: for everybody, for Bob, and for a project that is not Bob's.\<close>

definition demo_T :: "(mem \<times> template list) template_sdk" where
  "demo_T = \<lparr>ts_scopeLabel = ''scope'', ts_userAnnotation = ''user'', ts_projectLabel = ''project-id'', ts_nameLabel = ''name'',
     ts_ownerAnnotation = ''owner'', ts_userScope = ''user'', ts_projectScope = ''project'', ts_globalScope = ''global'',
     ts_credentialsFinalizer = ''cleanup-credentials'', ts_apiVersion = ''kubermatic.k8c.io/v1'', ts_projectKind = ''Project'',
     ts_nodeDeployment = (\<lambda>_. Inr ([], [], ''{}'')), ts_unmarshalApplications = (\<lambda>_. Inr []), ts_randString10 = retA ''abcdefghij''\<rparr>"

definition sample_template :: "string \<Rightarrow> string \<Rightarrow> smap \<Rightarrow> smap \<Rightarrow> template" where
  "sample_template n scope ls as = objmeta.extend (blank_meta\<lparr>om_name := n, om_labels := (''scope'', scope) # ls, om_annotations := as\<rparr>)
     (template.fields [] [] [] [] [] demo_spec)"

definition demo_templates :: "template list" where
  "demo_templates = [sample_template ''t1'' ''global'' [] [], sample_template ''t2'' ''user'' [] [(''user'', ''bob@acme.com'')],
     sample_template ''t3'' ''project'' [(''project-id'', ''p2'')] []]"

abbreviation template_world :: "(mem \<times> template list)" where "template_world \<equiv> (world1, demo_templates)"

abbreviation template_env :: "(mem \<times> template list) env" where "template_env \<equiv> lift_env mem_env"

abbreviation demo_req :: "string \<Rightarrow> getClusterTemplatesReq" where "demo_req n \<equiv> \<lparr>req_projectID = ''p1'', gtr_templateID = n\<rparr>"

lemma demo_templates_ok: "templates_ok snd extra_client" and demo_scoped: "scoped demo_T demo_templates"
  by (simp add: templates_ok_def extra_client_ok, code_simp)

theorem template_access_witness:
  "(\<exists>a. kube_get_template template_env demo_sdk (gen_with empty_client) demo_T extra_client bob (demo_req ''t1'') template_world = (Inr a, template_world) \<and>
     at_id a = ''t1'') \<and>
   (\<exists>as. kube_list_templates template_env demo_sdk (gen_with empty_client) demo_T extra_client bob \<lparr>req_projectID = ''p1''\<rparr> template_world =
       (Inr as, template_world) \<and> map at_id as = map om_name (filter (may_use template_env demo_T bob ''p1'') demo_templates)) \<and>
   (\<exists>t. kube_delete_template template_env demo_T extra_client bob (demo_req ''t2'') template_world = (Inr (), t) \<and> map om_name (snd t) = [''t1'', ''t3'']) \<and>
   isl (fst (kube_delete_template template_env demo_T extra_client bob (demo_req ''t1'') template_world))"
proof -
  note fact = template_access[OF lift_api_ok[OF mem_api_ok] demo_templates_ok, where s = template_world and T = demo_T and X = demo_sdk and
      G = "gen_with empty_client" and u = bob, unfolded snd_conv, OF demo_scoped]
  have "\<not> isl (fst (kube_get_template template_env demo_sdk (gen_with empty_client) demo_T extra_client bob (demo_req ''t1'') template_world))" by code_simp
  then obtain a t where a: "kube_get_template template_env demo_sdk (gen_with empty_client) demo_T extra_client bob (demo_req ''t1'') template_world = (Inr a, t)"
    by (auto dest!: success_obtain)
  have "\<not> isl (fst (kube_list_templates template_env demo_sdk (gen_with empty_client) demo_T extra_client bob \<lparr>req_projectID = ''p1''\<rparr> template_world))" by code_simp
  then obtain as t' where as: "kube_list_templates template_env demo_sdk (gen_with empty_client) demo_T extra_client bob \<lparr>req_projectID = ''p1''\<rparr> template_world = (Inr as, t')"
    by (auto dest!: success_obtain)
  have "\<not> isl (fst (kube_delete_template template_env demo_T extra_client bob (demo_req ''t2'') template_world))" by code_simp
  then obtain t2 where d: "kube_delete_template template_env demo_T extra_client bob (demo_req ''t2'') template_world = (Inr (), t2)"
    by (auto dest!: success_obtain)
  have bob: "\<not> us_isAdmin bob" by (simp add: world1_defs)
  have "isl (fst (kube_delete_template template_env demo_T extra_client bob (demo_req ''t1'') template_world))"
  proof (rule ccontr)
    assume "\<not> ?thesis"
    then obtain v t1 where "kube_delete_template template_env demo_T extra_client bob (demo_req ''t1'') template_world = (Inr v, t1)"
      by (auto dest!: success_obtain)
    with fact[where req = "demo_req ''t1''", THEN conjunct2, THEN conjunct2] bob obtain x where
      "x \<in> set demo_templates" "om_name x = ''t1''" "scope_of demo_T x \<noteq> ts_globalScope demo_T" by (cases t1) auto
    then show False by (auto simp: demo_templates_def sample_template_def scope_of_def demo_T_def objmeta.defs template.defs mget_def)
  qed
  moreover have "map om_name (snd t2) = [''t1'', ''t3'']"
    using fact[where req = "demo_req ''t2''", THEN conjunct2, THEN conjunct2] d
    by (auto simp: demo_templates_def sample_template_def key_of_def objmeta.defs template.defs)
  moreover have t: "t = template_world" "at_id a = ''t1''" using fact[THEN conjunct1, THEN mp, OF a] by auto
  moreover have t': "t' = template_world" "map at_id as = map om_name (filter (may_use template_env demo_T bob ''p1'') demo_templates)"
    using fact[THEN conjunct2, THEN conjunct1, THEN mp, OF as] by auto
  ultimately show ?thesis using a[unfolded t(1)] as[unfolded t'(1)] d by (intro exI conjI)
qed

text \<open>Bob replaces the template that is for everybody.\<close>

definition bob_in_p1 :: UserInfo where
  "bob_in_p1 = \<lparr>ui_email = ''bob@acme.com'', ui_groups = [''editors-p1''], ui_roles = {''editors''}, ui_isAdmin = False, ui_isGlobalViewer = False\<rparr>"

theorem template_update_unchecked_witness:
  "\<exists>new t. template_CreateorUpdate demo_T extra_client (Some bob_in_p1) (Some (sample_template ''t1'' ''user'' [] [])) ''user'' ''p1'' True template_world = (Inr new, t) \<and>
     scope_of demo_T (hd demo_templates) = ts_globalScope demo_T \<and> map (scope_of demo_T) (snd t) = [''user'', ''user'', ''project'']"
proof -
  let ?new = "sample_template ''t1'' ''user'' [] []"
  have upd: "\<forall>x s. key_of x \<in> key_of ` set (snd s) \<longrightarrow> \<not> isl (fst (kUpdate extra_client x s))"
    by (auto simp: extra_client_def mem_client_def Let_def split: if_splits option.splits prod.splits)
  have "hd demo_templates \<in> set (snd template_world)" "key_of ?new = key_of (hd demo_templates)" "om_namespace ?new = []"
    "\<not> ui_isAdmin bob_in_p1" "\<not> only_viewer bob_in_p1" "''user'' \<noteq> []" "''user'' \<noteq> ts_globalScope demo_T" "''p1'' \<noteq> []"
    by (simp_all add: demo_templates_def sample_template_def key_of_def objmeta.defs template.defs demo_T_def bob_in_p1_def only_viewer_def blank_meta_def)
  from template_update_unchecked[OF demo_templates_ok upd this] obtain new t where
    run: "template_CreateorUpdate demo_T extra_client (Some bob_in_p1) (Some ?new) ''user'' ''p1'' True template_world = (Inr new, t)"
    and "same_object new ?new" and "snd t = map (\<lambda>y. if key_of y = key_of (hd demo_templates) then new else y) demo_templates" by auto
  then have "map (scope_of demo_T) (snd t) = [''user'', ''user'', ''project'']" "scope_of demo_T (hd demo_templates) = ts_globalScope demo_T"
    by (auto simp: demo_templates_def sample_template_def key_of_def objmeta.defs template.defs demo_T_def scope_of_def same_object_def mget_def)
  with run show ?thesis by (intro exI conjI)
qed

end
