(* ===== verification/Etcd_Backups.thy ===== *)
theory Etcd_Backups
  imports Cluster_Create
begin

text \<open>
  Backups of the etcd of a cluster and restores from them: the providers
  (\<^verbatim>\<open>pkg/provider/kubernetes/etcdbackupconfig.go\<close>, \<^verbatim>\<open>etcdrestore.go\<close>) and the endpoints
  (\<^verbatim>\<open>pkg/handler/v2/etcdbackupconfig\<close>, \<^verbatim>\<open>pkg/handler/v2/etcdrestore\<close>). Both kinds of objects are in the namespace of the cluster
  on its seed.
\<close>

section \<open>Objects\<close>

text \<open>A reference to an object; what is not its name is not looked at.\<close>

record object_ref =
  rf_name :: string
  rf_rest :: string

record backupStatus =
  bs_scheduledTime :: "time option"
  bs_backupName :: string
  bs_jobName :: string
  bs_backupStartTime :: "time option"
  bs_backupFinishedTime :: "time option"
  bs_backupPhase :: string
  bs_backupMessage :: string
  bs_deleteJobName :: string
  bs_deleteStartTime :: "time option"
  bs_deleteFinishedTime :: "time option"
  bs_deletePhase :: string
  bs_deleteMessage :: string

record backupCondition =
  bc_status :: string
  bc_lastHeartbeatTime :: time
  bc_lastTransitionTime :: time
  bc_reason :: string
  bc_message :: string

record backup_config = objmeta +
  ebc_name :: string \<comment> \<open>of the specification\<close>
  ebc_cluster :: object_ref
  ebc_schedule :: string
  ebc_keep :: "int option"
  ebc_destination :: string
  ebc_currentBackups :: "backupStatus list"
  ebc_conditions :: "(string \<times> backupCondition) list" \<comment> \<open>a map by type, in the order of iteration\<close>
  ebc_cleanupRunning :: bool

record etcd_restore = objmeta +
  er_name :: string \<comment> \<open>of the specification\<close>
  er_cluster :: object_ref
  er_backupName :: string
  er_secret :: string
  er_destination :: string
  er_phase :: string
  er_restoreTime :: "time option"

text \<open>What the code uses of the SDK and of the Kubernetes libraries. \<open>eb_enabled\<close> is the field of the global settings.\<close>

record 's etcd_sdk =
  eb_enabled :: "settings \<Rightarrow> bool"
  eb_getReference :: "cluster \<Rightarrow> object_ref result"
  eb_randString10 :: "('s, string) act"
  eb_isConnectionRefused :: "go_error \<Rightarrow> bool"
  eb_phaseCompleted :: string

section \<open>The clients of a seed\<close>

record ('o, 's) seed_clients =
  sc_privileged :: "('o, 's) kclient"
  sc_impersonated :: "string \<Rightarrow> string list \<Rightarrow> ('o, 's) kclient result"

definition own_seed_client :: "('o, 's) seed_clients \<Rightarrow> UserInfo \<Rightarrow> ('s, ('o, 's) kclient) act" where
  "own_seed_client C userInfo = liftA (sc_impersonated C (ui_email userInfo) (ui_groups userInfo))"

text \<open>Listing in a namespace; the empty name stands for all of them.\<close>

definition listNamespaceA :: "('a objmeta_scheme, 's) kclient \<Rightarrow> string \<Rightarrow> ('s, 'a objmeta_scheme list) act" where
  "listNamespaceA k ns = bindA (listA k Everything) (\<lambda>items. retA (filter (\<lambda>x. ns = [] \<or> om_namespace x = ns) items))"

section \<open>The provider of backup configurations\<close>

definition ebc_Create :: "(backup_config, 's) seed_clients \<Rightarrow> UserInfo \<Rightarrow> backup_config \<Rightarrow> ('s, backup_config) act" where
  "ebc_Create C userInfo etcdBackupConfig = bindA (own_seed_client C userInfo) (\<lambda>client. kCreate client etcdBackupConfig)"

definition ebc_CreateUnsecured :: "(backup_config, 's) seed_clients \<Rightarrow> backup_config \<Rightarrow> ('s, backup_config) act" where
  "ebc_CreateUnsecured C etcdBackupConfig = kCreate (sc_privileged C) etcdBackupConfig"

definition ebc_Get :: "(backup_config, 's) seed_clients \<Rightarrow> UserInfo \<Rightarrow> cluster \<Rightarrow> string \<Rightarrow> ('s, backup_config) act" where
  "ebc_Get C userInfo c name = bindA (own_seed_client C userInfo) (\<lambda>client. getA client (cl_namespaceName c, name))"

definition ebc_GetUnsecured :: "(backup_config, 's) seed_clients \<Rightarrow> cluster \<Rightarrow> string \<Rightarrow> ('s, backup_config) act" where
  "ebc_GetUnsecured C c name = getA (sc_privileged C) (cl_namespaceName c, name)"

definition ebc_List :: "(backup_config, 's) seed_clients \<Rightarrow> UserInfo \<Rightarrow> cluster \<Rightarrow> ('s, backup_config list) act" where
  "ebc_List C userInfo c = bindA (own_seed_client C userInfo) (\<lambda>client. listNamespaceA client (cl_namespaceName c))"

definition ebc_ListUnsecured :: "(backup_config, 's) seed_clients \<Rightarrow> cluster \<Rightarrow> ('s, backup_config list) act" where
  "ebc_ListUnsecured C c = listNamespaceA (sc_privileged C) (cl_namespaceName c)"

definition ebc_Delete :: "(backup_config, 's) seed_clients \<Rightarrow> UserInfo \<Rightarrow> cluster \<Rightarrow> string \<Rightarrow> ('s, unit) act" where
  "ebc_Delete C userInfo c name = bindA (own_seed_client C userInfo) (\<lambda>client. kDelete client (cl_namespaceName c, name))"

definition ebc_DeleteUnsecured :: "(backup_config, 's) seed_clients \<Rightarrow> cluster \<Rightarrow> string \<Rightarrow> ('s, unit) act" where
  "ebc_DeleteUnsecured C c name = kDelete (sc_privileged C) (cl_namespaceName c, name)"

definition ebc_Patch :: "(backup_config, 's) seed_clients \<Rightarrow> UserInfo \<Rightarrow> backup_config \<Rightarrow> backup_config \<Rightarrow> ('s, backup_config) act" where
  "ebc_Patch C userInfo oldConfig newConfig = bindA (own_seed_client C userInfo) (\<lambda>client. kUpdate client newConfig)"

definition ebc_PatchUnsecured :: "(backup_config, 's) seed_clients \<Rightarrow> backup_config \<Rightarrow> backup_config \<Rightarrow> ('s, backup_config) act" where
  "ebc_PatchUnsecured C oldConfig newConfig = kUpdate (sc_privileged C) newConfig"

section \<open>All seeds\<close>

text \<open>
  The clients of the seeds that can be connected, in the order of iteration: an invalid seed or one without a kubeconfig is
  left out, but a client that cannot be built fails the whole. \<open>imp\<close> and \<open>priv\<close> build the clients from a kubeconfig.
\<close>

definition project_clients ::
  "(seed \<Rightarrow> ('s, 'c) act) \<Rightarrow> ('c \<Rightarrow> string \<Rightarrow> string list \<Rightarrow> ('o, 's) kclient result) \<Rightarrow> ('c \<Rightarrow> ('s, ('o, 's) kclient) act) \<Rightarrow>
     (string \<times> seed) list \<Rightarrow> ('s, ('o, 's) seed_clients list) act" where
  "project_clients seedKubeconfigGetter imp priv seeds =
     foldA (\<lambda>(_, seed) acc.
       if sd_invalid seed then retA acc
       else
         tryA (seedKubeconfigGetter seed) (\<lambda>r.
           case r of
             Inl _ \<Rightarrow> retA acc
           | Inr cfg \<Rightarrow> bindA (priv cfg) (\<lambda>client. retA (acc @ [\<lparr>sc_privileged = client, sc_impersonated = imp cfg\<rparr>])))) seeds []"

definition EtcdBackupConfigProjectProviderFactory ::
  "(seed \<Rightarrow> ('s, 'c) act) \<Rightarrow> ('c \<Rightarrow> string \<Rightarrow> string list \<Rightarrow> (backup_config, 's) kclient result) \<Rightarrow>
     ('c \<Rightarrow> ('s, (backup_config, 's) kclient) act) \<Rightarrow> (string \<times> seed) list \<Rightarrow> ('s, (backup_config, 's) seed_clients list) act" where
  "EtcdBackupConfigProjectProviderFactory = project_clients"

definition EtcdRestoreProjectProviderFactory ::
  "(seed \<Rightarrow> ('s, 'c) act) \<Rightarrow> ('c \<Rightarrow> string \<Rightarrow> string list \<Rightarrow> (etcd_restore, 's) kclient result) \<Rightarrow>
     ('c \<Rightarrow> ('s, (etcd_restore, 's) kclient) act) \<Rightarrow> (string \<times> seed) list \<Rightarrow> ('s, (etcd_restore, 's) seed_clients list) act" where
  "EtcdRestoreProjectProviderFactory = project_clients"

text \<open>The objects of a project on one seed, none if the seed does not answer.\<close>

definition list_or_skip ::
  "'x sdk_scheme \<Rightarrow> 's etcd_sdk \<Rightarrow> string \<Rightarrow> ('a objmeta_scheme, 's) kclient \<Rightarrow> 'a objmeta_scheme list list \<Rightarrow> ('s, 'a objmeta_scheme list list) act" where
  "list_or_skip K B projectID client acc =
     tryA (listA client (LabelEquals (projectIDLabelKey K) projectID)) (\<lambda>r.
       case r of
         Inl err \<Rightarrow> if eb_isConnectionRefused B err then retA acc else failA err
       | Inr items \<Rightarrow> retA (acc @ [items]))"

definition ebc_project_List ::
  "'x sdk_scheme \<Rightarrow> 's etcd_sdk \<Rightarrow> (backup_config, 's) seed_clients list \<Rightarrow> UserInfo \<Rightarrow> string \<Rightarrow> ('s, backup_config list list) act" where
  "ebc_project_List K B seeds userInfo projectID =
     foldA (\<lambda>C acc. bindA (own_seed_client C userInfo) (\<lambda>client. list_or_skip K B projectID client acc)) seeds []"

definition ebc_project_ListUnsecured ::
  "'x sdk_scheme \<Rightarrow> 's etcd_sdk \<Rightarrow> (backup_config, 's) seed_clients list \<Rightarrow> string \<Rightarrow> ('s, backup_config list list) act" where
  "ebc_project_ListUnsecured K B seeds projectID = foldA (\<lambda>C. list_or_skip K B projectID (sc_privileged C)) seeds []"

section \<open>The provider of restores\<close>

definition er_Create :: "(etcd_restore, 's) seed_clients \<Rightarrow> UserInfo \<Rightarrow> etcd_restore \<Rightarrow> ('s, etcd_restore) act" where
  "er_Create C userInfo etcdRestore = bindA (own_seed_client C userInfo) (\<lambda>client. kCreate client etcdRestore)"

definition er_CreateUnsecured :: "(etcd_restore, 's) seed_clients \<Rightarrow> etcd_restore \<Rightarrow> ('s, etcd_restore) act" where
  "er_CreateUnsecured C etcdRestore = kCreate (sc_privileged C) etcdRestore"

definition er_Get :: "(etcd_restore, 's) seed_clients \<Rightarrow> UserInfo \<Rightarrow> cluster \<Rightarrow> string \<Rightarrow> ('s, etcd_restore) act" where
  "er_Get C userInfo c name = bindA (own_seed_client C userInfo) (\<lambda>client. getA client (cl_namespaceName c, name))"

definition er_GetUnsecured :: "(etcd_restore, 's) seed_clients \<Rightarrow> cluster \<Rightarrow> string \<Rightarrow> ('s, etcd_restore) act" where
  "er_GetUnsecured C c name = getA (sc_privileged C) (cl_namespaceName c, name)"

definition er_List :: "(etcd_restore, 's) seed_clients \<Rightarrow> UserInfo \<Rightarrow> cluster \<Rightarrow> ('s, etcd_restore list) act" where
  "er_List C userInfo c = bindA (own_seed_client C userInfo) (\<lambda>client. listNamespaceA client (cl_namespaceName c))"

definition er_ListUnsecured :: "(etcd_restore, 's) seed_clients \<Rightarrow> cluster \<Rightarrow> ('s, etcd_restore list) act" where
  "er_ListUnsecured C c = listNamespaceA (sc_privileged C) (cl_namespaceName c)"

definition er_Delete :: "(etcd_restore, 's) seed_clients \<Rightarrow> UserInfo \<Rightarrow> cluster \<Rightarrow> string \<Rightarrow> ('s, unit) act" where
  "er_Delete C userInfo c name = bindA (own_seed_client C userInfo) (\<lambda>client. kDelete client (cl_namespaceName c, name))"

definition er_DeleteUnsecured :: "(etcd_restore, 's) seed_clients \<Rightarrow> cluster \<Rightarrow> string \<Rightarrow> ('s, unit) act" where
  "er_DeleteUnsecured C c name = kDelete (sc_privileged C) (cl_namespaceName c, name)"

definition er_project_List ::
  "'x sdk_scheme \<Rightarrow> 's etcd_sdk \<Rightarrow> (etcd_restore, 's) seed_clients list \<Rightarrow> UserInfo \<Rightarrow> string \<Rightarrow> ('s, etcd_restore list list) act" where
  "er_project_List K B seeds userInfo projectID =
     foldA (\<lambda>C acc. bindA (own_seed_client C userInfo) (\<lambda>client. list_or_skip K B projectID client acc)) seeds []"

definition er_project_ListUnsecured ::
  "'x sdk_scheme \<Rightarrow> 's etcd_sdk \<Rightarrow> (etcd_restore, 's) seed_clients list \<Rightarrow> string \<Rightarrow> ('s, etcd_restore list list) act" where
  "er_project_ListUnsecured K B seeds projectID = foldA (\<lambda>C. list_or_skip K B projectID (sc_privileged C)) seeds []"

end
