(* ===== verification/Etcd_Handlers.thy ===== *)
theory Etcd_Handlers
  imports Etcd_Backups
begin

text \<open>
  The endpoints of \<^verbatim>\<open>pkg/handler/v2/etcdbackupconfig/etcdbackupconfig.go\<close> and \<^verbatim>\<open>pkg/handler/v2/etcdrestore/etcdrestore.go\<close>. The
  providers of the seed are what the middleware put into the context of the request.
\<close>

section \<open>Requests and answers\<close>

record EtcdBackupConfigSpec =
  es_clusterID :: string
  es_schedule :: string
  es_keep :: "int option"
  es_destination :: string

record apiBackupStatus =
  abs_scheduledTime :: time
  abs_backupName :: string
  abs_jobName :: string
  abs_backupStartTime :: time
  abs_backupFinishedTime :: time
  abs_backupPhase :: string
  abs_backupMessage :: string
  abs_deleteJobName :: string
  abs_deleteStartTime :: time
  abs_deleteFinishedTime :: time
  abs_deletePhase :: string
  abs_deleteMessage :: string

record EtcdBackupConfigCondition =
  ec_type :: string
  ec_status :: string
  ec_lastHeartbeatTime :: time
  ec_lastTransitionTime :: time
  ec_reason :: string
  ec_message :: string

record apiEtcdBackupConfig = apiObject +
  ae_spec :: EtcdBackupConfigSpec
  ae_currentBackups :: "apiBackupStatus list"
  ae_conditions :: "EtcdBackupConfigCondition list"
  ae_cleanupRunning :: bool

record EtcdRestoreSpec =
  rs_clusterID :: string
  rs_backupName :: string
  rs_secret :: string
  rs_destination :: string

record apiEtcdRestore = apiObject +
  ar_name :: string
  ar_spec :: EtcdRestoreSpec
  ar_phase :: string
  ar_restoreTime :: "time option"

record createEtcdBackupConfigReq = ClusterReq +
  ceb_name :: string
  ceb_spec :: EtcdBackupConfigSpec

record getEtcdBackupConfigReq = ClusterReq +
  geb_id :: string

record patchEtcdBackupConfigReq = getEtcdBackupConfigReq +
  peb_body :: EtcdBackupConfigSpec

record listProjectEtcdBackupConfigReq = ProjectReq +
  lpe_type :: string

record createEtcdRestoreReq = ClusterReq +
  cer_name :: string
  cer_spec :: EtcdRestoreSpec

record getEtcdRestoreReq = ClusterReq +
  ger_name :: string

definition DecodeCreateEtcdBackupConfigReq :: "http_request \<Rightarrow> (string \<times> EtcdBackupConfigSpec) result \<Rightarrow> createEtcdBackupConfigReq result" where
  "DecodeCreateEtcdBackupConfigReq r body =
     (case v2_DecodeGetClusterReq r of
        Inl err \<Rightarrow> Inl err
      | Inr cr \<Rightarrow>
          (case body of
             Inl err \<Rightarrow> Inl err
           | Inr (name, spec) \<Rightarrow> Inr (ClusterReq.extend cr (createEtcdBackupConfigReq.fields name spec))))"

definition DecodeListEtcdBackupConfigReq :: "http_request \<Rightarrow> ClusterReq result" where
  "DecodeListEtcdBackupConfigReq r = v2_DecodeGetClusterReq r"

definition DecodeGetEtcdBackupConfigReq :: "http_request \<Rightarrow> getEtcdBackupConfigReq result" where
  "DecodeGetEtcdBackupConfigReq r =
     (case v2_DecodeGetClusterReq r of
        Inl err \<Rightarrow> Inl err
      | Inr cr \<Rightarrow>
          (case required_var r ''ebc_id'' of
             Inl err \<Rightarrow> Inl err
           | Inr i \<Rightarrow> Inr (ClusterReq.extend cr (getEtcdBackupConfigReq.fields i))))"

definition DecodePatchEtcdBackupConfigReq :: "http_request \<Rightarrow> EtcdBackupConfigSpec result \<Rightarrow> patchEtcdBackupConfigReq result" where
  "DecodePatchEtcdBackupConfigReq r body =
     (case DecodeGetEtcdBackupConfigReq r of
        Inl err \<Rightarrow> Inl err
      | Inr req \<Rightarrow>
          (case body of Inl err \<Rightarrow> Inl err | Inr b \<Rightarrow> Inr (getEtcdBackupConfigReq.extend req (patchEtcdBackupConfigReq.fields b))))"

definition DecodeListProjectEtcdBackupConfigReq :: "http_request \<Rightarrow> listProjectEtcdBackupConfigReq result" where
  "DecodeListProjectEtcdBackupConfigReq r =
     (case DecodeProjectRequest r of
        Inl err \<Rightarrow> Inl err
      | Inr pr \<Rightarrow> Inr (ProjectReq.extend pr (listProjectEtcdBackupConfigReq.fields (rq_query r ''type''))))"

definition automaticBackup :: string where "automaticBackup = ''automatic''"
definition snapshot :: string where "snapshot = ''snapshot''"

definition listProjectEtcdBackupConfigReq_validate :: "listProjectEtcdBackupConfigReq \<Rightarrow> unit result" where
  "listProjectEtcdBackupConfigReq_validate r =
     (if lpe_type r \<noteq> [] \<and> lpe_type r \<noteq> automaticBackup \<and> lpe_type r \<noteq> snapshot then Inl UtilBadRequest else Inr ())"

definition DecodeCreateEtcdRestoreReq :: "http_request \<Rightarrow> (string \<times> EtcdRestoreSpec) result \<Rightarrow> createEtcdRestoreReq result" where
  "DecodeCreateEtcdRestoreReq r body =
     (case v2_DecodeGetClusterReq r of
        Inl err \<Rightarrow> Inl err
      | Inr cr \<Rightarrow>
          (case body of
             Inl err \<Rightarrow> Inl err
           | Inr (name, spec) \<Rightarrow> Inr (ClusterReq.extend cr (createEtcdRestoreReq.fields name spec))))"

definition createEtcdRestoreReq_validate :: "createEtcdRestoreReq \<Rightarrow> unit result" where
  "createEtcdRestoreReq_validate r = (if rs_backupName (cer_spec r) = [] then Inl UtilBadRequest else Inr ())"

definition DecodeListEtcdRestoreReq :: "http_request \<Rightarrow> ClusterReq result" where
  "DecodeListEtcdRestoreReq r = v2_DecodeGetClusterReq r"

definition DecodeGetEtcdRestoreReq :: "http_request \<Rightarrow> getEtcdRestoreReq result" where
  "DecodeGetEtcdRestoreReq r =
     (case v2_DecodeGetClusterReq r of
        Inl err \<Rightarrow> Inl err
      | Inr cr \<Rightarrow>
          (case required_var r ''er_name'' of
             Inl err \<Rightarrow> Inl err
           | Inr n \<Rightarrow> Inr (ClusterReq.extend cr (getEtcdRestoreReq.fields n))))"

definition DecodeListProjectEtcdRestoreReq :: "http_request \<Rightarrow> ProjectReq result" where
  "DecodeListProjectEtcdRestoreReq r = DecodeProjectRequest r"

section \<open>Conversions\<close>

text \<open>The id of a backup configuration has the name of its cluster in front, for it is listed with those of other clusters.\<close>

definition GenEtcdBackupConfigID :: "string \<Rightarrow> string \<Rightarrow> string" where
  "GenEtcdBackupConfigID ebcName clusterName = clusterName @ ''-'' @ ebcName"

definition decodeEtcdBackupConfigID :: "string \<Rightarrow> string \<Rightarrow> string" where
  "decodeEtcdBackupConfigID i clusterName = TrimPrefix i (clusterName @ ''-'')"

text \<open>A missing time is shown as the zero time.\<close>

definition shown_time :: "time option \<Rightarrow> time" where
  "shown_time t = (case t of None \<Rightarrow> 0 | Some t \<Rightarrow> t)"

definition external_backup :: "backupStatus \<Rightarrow> apiBackupStatus" where
  "external_backup b =
     \<lparr>abs_scheduledTime = shown_time (bs_scheduledTime b), abs_backupName = bs_backupName b, abs_jobName = bs_jobName b,
      abs_backupStartTime = shown_time (bs_backupStartTime b), abs_backupFinishedTime = shown_time (bs_backupFinishedTime b),
      abs_backupPhase = bs_backupPhase b, abs_backupMessage = bs_backupMessage b, abs_deleteJobName = bs_deleteJobName b,
      abs_deleteStartTime = shown_time (bs_deleteStartTime b), abs_deleteFinishedTime = shown_time (bs_deleteFinishedTime b),
      abs_deletePhase = bs_deletePhase b, abs_deleteMessage = bs_deleteMessage b\<rparr>"

definition external_condition :: "string \<times> backupCondition \<Rightarrow> EtcdBackupConfigCondition" where
  "external_condition = (\<lambda>(conditionType, condition).
     \<lparr>ec_type = conditionType, ec_status = bc_status condition, ec_lastHeartbeatTime = bc_lastHeartbeatTime condition,
      ec_lastTransitionTime = bc_lastTransitionTime condition, ec_reason = bc_reason condition, ec_message = bc_message condition\<rparr>)"

definition convertInternalToAPIEtcdBackupConfig :: "backup_config \<Rightarrow> apiEtcdBackupConfig" where
  "convertInternalToAPIEtcdBackupConfig ebc = apiObject.extend
     \<lparr>ao_id = GenEtcdBackupConfigID (om_name ebc) (rf_name (ebc_cluster ebc)), ao_name = ebc_name ebc, ao_annotations = om_annotations ebc,
      ao_creationTimestamp = om_creationTimestamp ebc, ao_deletionTimestamp = om_deletionTimestamp ebc\<rparr>
     (apiEtcdBackupConfig.fields
        \<lparr>es_clusterID = rf_name (ebc_cluster ebc), es_schedule = ebc_schedule ebc, es_keep = ebc_keep ebc, es_destination = ebc_destination ebc\<rparr>
        (map external_backup (ebc_currentBackups ebc)) (sort_key ec_type (map external_condition (ebc_conditions ebc))) (ebc_cleanupRunning ebc))"

definition convertAPIToInternalEtcdBackupConfig ::
  "'s etcd_sdk \<Rightarrow> string \<Rightarrow> EtcdBackupConfigSpec \<Rightarrow> cluster \<Rightarrow> ('s, backup_config) act" where
  "convertAPIToInternalEtcdBackupConfig B name ebcSpec c =
     bindA (wrapA (\<lambda>_. HTTPError 500) (liftA (eb_getReference B c))) (\<lambda>clusterObjectRef.
     bindA (eb_randString10 B) (\<lambda>n.
       retA (objmeta.extend (blank_meta\<lparr>om_name := n, om_namespace := cl_namespaceName c\<rparr>)
         (backup_config.fields name clusterObjectRef (es_schedule ebcSpec) (es_keep ebcSpec) (es_destination ebcSpec) [] [] False))))"

definition getEtcdBackupConfigType :: "apiEtcdBackupConfig \<Rightarrow> string" where
  "getEtcdBackupConfigType ebc = (if es_schedule (ae_spec ebc) = [] then snapshot else automaticBackup)"

definition convertInternalToAPIEtcdRestore :: "etcd_restore \<Rightarrow> apiEtcdRestore" where
  "convertInternalToAPIEtcdRestore er = apiObject.extend
     \<lparr>ao_id = [], ao_name = er_name er, ao_annotations = om_annotations er, ao_creationTimestamp = om_creationTimestamp er,
      ao_deletionTimestamp = om_deletionTimestamp er\<rparr>
     (apiEtcdRestore.fields (om_name er)
        \<lparr>rs_clusterID = rf_name (er_cluster er), rs_backupName = er_backupName er, rs_secret = er_secret er, rs_destination = er_destination er\<rparr>
        (er_phase er) (if er_restoreTime er = Some 0 then None else er_restoreTime er))"

definition convertAPIToInternalEtcdRestore :: "'s etcd_sdk \<Rightarrow> string \<Rightarrow> EtcdRestoreSpec \<Rightarrow> cluster \<Rightarrow> etcd_restore result" where
  "convertAPIToInternalEtcdRestore B name erSpec c =
     (case eb_getReference B c of
        Inl _ \<Rightarrow> Inl (HTTPError 500)
      | Inr clusterObjectRef \<Rightarrow>
          Inr (objmeta.extend (blank_meta\<lparr>om_name := name, om_namespace := cl_namespaceName c\<rparr>)
            (etcd_restore.fields name clusterObjectRef (rs_backupName erSpec) (rs_secret erSpec) (rs_destination erSpec) [] None)))"

section \<open>With the rights of the caller\<close>

definition getAdminUserInfoPrivilegedProvider :: "'s UserInfoGetter \<Rightarrow> 'p \<Rightarrow> ('s, UserInfo \<times> 'p option) act" where
  "getAdminUserInfoPrivilegedProvider userInfoGetter p =
     bindA (userInfoGetter []) (\<lambda>userInfo. retA (userInfo, if ui_isAdmin userInfo then Some p else None))"

definition getUserInfoProvider :: "'s UserInfoGetter \<Rightarrow> 'p \<Rightarrow> string \<Rightarrow> ('s, UserInfo \<times> 'p) act" where
  "getUserInfoProvider userInfoGetter p projectID = bindA (userInfoGetter projectID) (\<lambda>userInfo. retA (userInfo, p))"

text \<open>What the operations below share: the privileged one for administrators, else the one in the name of the caller.\<close>

definition with_rights :: "'s UserInfoGetter \<Rightarrow> 'p \<Rightarrow> string \<Rightarrow> ('p \<Rightarrow> ('s, 'a) act) \<Rightarrow> ('p \<Rightarrow> UserInfo \<Rightarrow> ('s, 'a) act) \<Rightarrow> ('s, 'a) act" where
  "with_rights userInfoGetter p projectID unsecured secured =
     bindA (getAdminUserInfoPrivilegedProvider userInfoGetter p) (\<lambda>(adminUserInfo, privilegedProvider).
       if ui_isAdmin adminUserInfo then (case privilegedProvider of None \<Rightarrow> failA Panic | Some q \<Rightarrow> unsecured q)
       else bindA (getUserInfoProvider userInfoGetter p projectID) (\<lambda>(userInfo, q). secured q userInfo))"

definition createEtcdBackupConfig where
  "createEtcdBackupConfig userInfoGetter C projectID etcdBackupConfig =
     with_rights userInfoGetter C projectID (\<lambda>C. ebc_CreateUnsecured C etcdBackupConfig) (\<lambda>C userInfo. ebc_Create C userInfo etcdBackupConfig)"

definition getEtcdBackupConfig where
  "getEtcdBackupConfig userInfoGetter C cluster projectID name =
     with_rights userInfoGetter C projectID (\<lambda>C. ebc_GetUnsecured C cluster name) (\<lambda>C userInfo. ebc_Get C userInfo cluster name)"

definition listEtcdBackupConfig where
  "listEtcdBackupConfig userInfoGetter C cluster projectID =
     with_rights userInfoGetter C projectID (\<lambda>C. ebc_ListUnsecured C cluster) (\<lambda>C userInfo. ebc_List C userInfo cluster)"

definition deleteEtcdBackupConfig where
  "deleteEtcdBackupConfig userInfoGetter C cluster projectID name =
     with_rights userInfoGetter C projectID (\<lambda>C. ebc_DeleteUnsecured C cluster name) (\<lambda>C userInfo. ebc_Delete C userInfo cluster name)"

definition patchEtcdBackupConfig where
  "patchEtcdBackupConfig userInfoGetter C projectID oldConfig newConfig =
     with_rights userInfoGetter C projectID (\<lambda>C. ebc_PatchUnsecured C oldConfig newConfig)
       (\<lambda>C userInfo. ebc_Patch C userInfo oldConfig newConfig)"

definition createEtcdRestore where
  "createEtcdRestore userInfoGetter C projectID etcdRestore =
     with_rights userInfoGetter C projectID (\<lambda>C. er_CreateUnsecured C etcdRestore) (\<lambda>C userInfo. er_Create C userInfo etcdRestore)"

definition getEtcdRestore where
  "getEtcdRestore userInfoGetter C cluster projectID name =
     with_rights userInfoGetter C projectID (\<lambda>C. er_GetUnsecured C cluster name) (\<lambda>C userInfo. er_Get C userInfo cluster name)"

definition listEtcdRestore where
  "listEtcdRestore userInfoGetter C cluster projectID =
     with_rights userInfoGetter C projectID (\<lambda>C. er_ListUnsecured C cluster) (\<lambda>C userInfo. er_List C userInfo cluster)"

definition deleteEtcdRestore where
  "deleteEtcdRestore userInfoGetter C cluster projectID name =
     with_rights userInfoGetter C projectID (\<lambda>C. er_DeleteUnsecured C cluster name) (\<lambda>C userInfo. er_Delete C userInfo cluster name)"

definition IsEtcdBackupEnabled :: "'s etcd_sdk \<Rightarrow> 's SettingsProvider \<Rightarrow> ('s, unit) act" where
  "IsEtcdBackupEnabled B settingsProvider =
     bindA (httpA (sp_GetGlobalSettings settingsProvider)) (\<lambda>globalSettings.
       if eb_enabled B globalSettings then retA () else failA (Plain ''etcd backup feature is disabled by the admin''))"

text \<open>\<open>None\<close> is a missing provider.\<close>

definition listProjectEtcdBackupConfig ::
  "'x sdk_scheme \<Rightarrow> 's etcd_sdk \<Rightarrow> (backup_config, 's) seed_clients list option \<Rightarrow> string \<Rightarrow> ('s, backup_config list list) act" where
  "listProjectEtcdBackupConfig K B seeds projectID =
     (case seeds of None \<Rightarrow> failA (HTTPError 500) | Some Cs \<Rightarrow> ebc_project_ListUnsecured K B Cs projectID)"

definition listProjectEtcdRestore ::
  "'x sdk_scheme \<Rightarrow> 's etcd_sdk \<Rightarrow> (etcd_restore, 's) seed_clients list option \<Rightarrow> string \<Rightarrow> ('s, etcd_restore list list) act" where
  "listProjectEtcdRestore K B seeds projectID =
     (case seeds of None \<Rightarrow> failA (HTTPError 500) | Some Cs \<Rightarrow> er_project_ListUnsecured K B Cs projectID)"

section \<open>Endpoints of backup configurations\<close>

text \<open>\<open>cl\<close> reads the cluster of the request, \<^verbatim>\<open>handlercommon.GetCluster\<close> with the providers of the server.\<close>

type_synonym 's cluster_getter = "'s UserInfoGetter \<Rightarrow> string \<Rightarrow> string \<Rightarrow> ClusterGetOptions option \<Rightarrow> ('s, cluster) act"

definition ebc_CreateEndpoint ::
  "'x sdk_scheme \<Rightarrow> 's etcd_sdk \<Rightarrow> 's cluster_getter \<Rightarrow> 's UserInfoGetter \<Rightarrow> 's SettingsProvider \<Rightarrow> (backup_config, 's) seed_clients \<Rightarrow>
     createEtcdBackupConfigReq \<Rightarrow> ('s, apiEtcdBackupConfig) act" where
  "ebc_CreateEndpoint K B cl userInfoGetter settingsProvider C req =
     bindA (IsEtcdBackupEnabled B settingsProvider) (\<lambda>_.
     bindA (cl userInfoGetter (req_projectID req) (crq_clusterID req) None) (\<lambda>c.
     bindA (convertAPIToInternalEtcdBackupConfig B (ceb_name req) (ceb_spec req) c) (\<lambda>ebc.
     bindA (httpA (createEtcdBackupConfig userInfoGetter C (req_projectID req)
              (ebc\<lparr>om_labels := [(projectIDLabelKey K, req_projectID req)]\<rparr>))) (\<lambda>ebc.
       retA (convertInternalToAPIEtcdBackupConfig ebc)))))"

definition ebc_GetEndpoint ::
  "'s etcd_sdk \<Rightarrow> 's cluster_getter \<Rightarrow> 's UserInfoGetter \<Rightarrow> 's SettingsProvider \<Rightarrow> (backup_config, 's) seed_clients \<Rightarrow>
     getEtcdBackupConfigReq \<Rightarrow> ('s, apiEtcdBackupConfig) act" where
  "ebc_GetEndpoint B cl userInfoGetter settingsProvider C req =
     bindA (IsEtcdBackupEnabled B settingsProvider) (\<lambda>_.
     bindA (cl userInfoGetter (req_projectID req) (crq_clusterID req) None) (\<lambda>c.
     bindA (httpA (getEtcdBackupConfig userInfoGetter C c (req_projectID req) (decodeEtcdBackupConfigID (geb_id req) (crq_clusterID req)))) (\<lambda>ebc.
       retA (convertInternalToAPIEtcdBackupConfig ebc))))"

definition ebc_ListEndpoint ::
  "'s etcd_sdk \<Rightarrow> 's cluster_getter \<Rightarrow> 's UserInfoGetter \<Rightarrow> 's SettingsProvider \<Rightarrow> (backup_config, 's) seed_clients \<Rightarrow>
     ClusterReq \<Rightarrow> ('s, apiEtcdBackupConfig list) act" where
  "ebc_ListEndpoint B cl userInfoGetter settingsProvider C req =
     bindA (IsEtcdBackupEnabled B settingsProvider) (\<lambda>_.
     bindA (cl userInfoGetter (req_projectID req) (crq_clusterID req) None) (\<lambda>c.
     bindA (httpA (listEtcdBackupConfig userInfoGetter C c (req_projectID req))) (\<lambda>ebcs.
       retA (map convertInternalToAPIEtcdBackupConfig ebcs))))"

definition ebc_DeleteEndpoint ::
  "'s etcd_sdk \<Rightarrow> 's cluster_getter \<Rightarrow> 's UserInfoGetter \<Rightarrow> 's SettingsProvider \<Rightarrow> (backup_config, 's) seed_clients \<Rightarrow>
     getEtcdBackupConfigReq \<Rightarrow> ('s, unit) act" where
  "ebc_DeleteEndpoint B cl userInfoGetter settingsProvider C req =
     bindA (IsEtcdBackupEnabled B settingsProvider) (\<lambda>_.
     bindA (cl userInfoGetter (req_projectID req) (crq_clusterID req) None) (\<lambda>c.
       httpA (deleteEtcdBackupConfig userInfoGetter C c (req_projectID req) (decodeEtcdBackupConfigID (geb_id req) (crq_clusterID req)))))"

definition ebc_PatchEndpoint ::
  "'s etcd_sdk \<Rightarrow> 's cluster_getter \<Rightarrow> 's UserInfoGetter \<Rightarrow> 's SettingsProvider \<Rightarrow> (backup_config, 's) seed_clients \<Rightarrow>
     patchEtcdBackupConfigReq \<Rightarrow> ('s, apiEtcdBackupConfig) act" where
  "ebc_PatchEndpoint B cl userInfoGetter settingsProvider C req =
     bindA (IsEtcdBackupEnabled B settingsProvider) (\<lambda>_.
     bindA (cl userInfoGetter (req_projectID req) (crq_clusterID req) None) (\<lambda>c.
     bindA (httpA (getEtcdBackupConfig userInfoGetter C c (req_projectID req) (decodeEtcdBackupConfigID (geb_id req) (crq_clusterID req)))) (\<lambda>originalEBC.
     let newEBC = originalEBC\<lparr>ebc_keep := es_keep (peb_body req), ebc_schedule := es_schedule (peb_body req),
                    ebc_destination := es_destination (peb_body req)\<rparr> in
     bindA (httpA (patchEtcdBackupConfig userInfoGetter C (req_projectID req) originalEBC newEBC)) (\<lambda>ebc.
       retA (convertInternalToAPIEtcdBackupConfig ebc)))))"

definition ebc_ProjectListEndpoint ::
  "'x sdk_scheme \<Rightarrow> 's etcd_sdk \<Rightarrow> 's UserInfoGetter \<Rightarrow> 's ProjectProvider \<Rightarrow> 's PrivilegedProjectProvider \<Rightarrow> 's SettingsProvider \<Rightarrow>
     (backup_config, 's) seed_clients list option \<Rightarrow> listProjectEtcdBackupConfigReq \<Rightarrow> ('s, apiEtcdBackupConfig list) act" where
  "ebc_ProjectListEndpoint K B userInfoGetter projectProvider privilegedProjectProvider settingsProvider seeds req =
     bindA (liftA (listProjectEtcdBackupConfigReq_validate req)) (\<lambda>_.
     bindA (httpA (GetProject userInfoGetter projectProvider privilegedProjectProvider (req_projectID req) None)) (\<lambda>_.
     bindA (IsEtcdBackupEnabled B settingsProvider) (\<lambda>_.
     bindA (httpA (listProjectEtcdBackupConfig K B seeds (req_projectID req))) (\<lambda>ebcLists.
       retA (filter (\<lambda>a. lpe_type req = [] \<or> EqualFold (lpe_type req) (getEtcdBackupConfigType a))
         (map convertInternalToAPIEtcdBackupConfig (concat ebcLists)))))))"

section \<open>Endpoints of restores\<close>

definition er_CreateEndpoint ::
  "'x sdk_scheme \<Rightarrow> 's etcd_sdk \<Rightarrow> 's cluster_getter \<Rightarrow> 's UserInfoGetter \<Rightarrow> 's SettingsProvider \<Rightarrow> (etcd_restore, 's) seed_clients \<Rightarrow>
     createEtcdRestoreReq \<Rightarrow> ('s, apiEtcdRestore) act" where
  "er_CreateEndpoint K B cl userInfoGetter settingsProvider C req =
     bindA (IsEtcdBackupEnabled B settingsProvider) (\<lambda>_.
     bindA (cl userInfoGetter (req_projectID req) (crq_clusterID req) None) (\<lambda>c.
     bindA (liftA (createEtcdRestoreReq_validate req)) (\<lambda>_.
     bindA (if cer_name req = [] then eb_randString10 B else retA (cer_name req)) (\<lambda>name.
     bindA (liftA (convertAPIToInternalEtcdRestore B name (cer_spec req) c)) (\<lambda>er.
     bindA (httpA (createEtcdRestore userInfoGetter C (req_projectID req)
              (er\<lparr>om_labels := [(projectIDLabelKey K, req_projectID req)]\<rparr>))) (\<lambda>er.
       retA (convertInternalToAPIEtcdRestore er)))))))"

definition er_GetEndpoint ::
  "'s etcd_sdk \<Rightarrow> 's cluster_getter \<Rightarrow> 's UserInfoGetter \<Rightarrow> 's SettingsProvider \<Rightarrow> (etcd_restore, 's) seed_clients \<Rightarrow>
     getEtcdRestoreReq \<Rightarrow> ('s, apiEtcdRestore) act" where
  "er_GetEndpoint B cl userInfoGetter settingsProvider C req =
     bindA (IsEtcdBackupEnabled B settingsProvider) (\<lambda>_.
     bindA (cl userInfoGetter (req_projectID req) (crq_clusterID req) None) (\<lambda>c.
     bindA (httpA (getEtcdRestore userInfoGetter C c (req_projectID req) (ger_name req))) (\<lambda>er.
       retA (convertInternalToAPIEtcdRestore er))))"

definition er_ListEndpoint ::
  "'s etcd_sdk \<Rightarrow> 's cluster_getter \<Rightarrow> 's UserInfoGetter \<Rightarrow> 's SettingsProvider \<Rightarrow> (etcd_restore, 's) seed_clients \<Rightarrow>
     ClusterReq \<Rightarrow> ('s, apiEtcdRestore list) act" where
  "er_ListEndpoint B cl userInfoGetter settingsProvider C req =
     bindA (IsEtcdBackupEnabled B settingsProvider) (\<lambda>_.
     bindA (cl userInfoGetter (req_projectID req) (crq_clusterID req) None) (\<lambda>c.
     bindA (httpA (listEtcdRestore userInfoGetter C c (req_projectID req))) (\<lambda>ers.
       retA (map convertInternalToAPIEtcdRestore ers))))"

text \<open>A restore in progress is not deleted.\<close>

definition er_DeleteEndpoint ::
  "'s etcd_sdk \<Rightarrow> 's cluster_getter \<Rightarrow> 's UserInfoGetter \<Rightarrow> 's SettingsProvider \<Rightarrow> (etcd_restore, 's) seed_clients \<Rightarrow>
     getEtcdRestoreReq \<Rightarrow> ('s, unit) act" where
  "er_DeleteEndpoint B cl userInfoGetter settingsProvider C req =
     bindA (IsEtcdBackupEnabled B settingsProvider) (\<lambda>_.
     bindA (cl userInfoGetter (req_projectID req) (crq_clusterID req) None) (\<lambda>c.
     bindA (httpA (getEtcdRestore userInfoGetter C c (req_projectID req) (ger_name req))) (\<lambda>er.
       if er_phase er \<noteq> eb_phaseCompleted B \<and> er_phase er \<noteq> [] then failA (HTTPError 409)
       else httpA (deleteEtcdRestore userInfoGetter C c (req_projectID req) (ger_name req)))))"

definition er_ProjectListEndpoint ::
  "'x sdk_scheme \<Rightarrow> 's etcd_sdk \<Rightarrow> 's UserInfoGetter \<Rightarrow> 's ProjectProvider \<Rightarrow> 's PrivilegedProjectProvider \<Rightarrow> 's SettingsProvider \<Rightarrow>
     (etcd_restore, 's) seed_clients list option \<Rightarrow> ProjectReq \<Rightarrow> ('s, apiEtcdRestore list) act" where
  "er_ProjectListEndpoint K B userInfoGetter projectProvider privilegedProjectProvider settingsProvider seeds req =
     bindA (IsEtcdBackupEnabled B settingsProvider) (\<lambda>_.
     bindA (httpA (GetProject userInfoGetter projectProvider privilegedProjectProvider (req_projectID req) None)) (\<lambda>_.
     bindA (httpA (listProjectEtcdRestore K B seeds (req_projectID req))) (\<lambda>erLists.
       retA (map convertInternalToAPIEtcdRestore (concat erLists)))))"

end
