(* ===== verification/Etcd_Properties.thy ===== *)
theory Etcd_Properties
  imports Etcd_Handlers Cluster_Change_Properties
begin

text \<open>
  What holds of backups and restores: they are reached through a cluster the caller may read, with his rights on its
  seed, and a new backup configuration is found again under the id it is answered with.
\<close>

section \<open>Acting with the rights of the caller\<close>

abbreviation kube_get_cluster where
  "kube_get_cluster E S \<equiv> GetCluster (NewClusterProvider E S) (kube_privilegedClusterProvider E S) (kube_projectProvider E) (kube_privilegedProjectProvider E)"

text \<open>The cluster that a user reads in a project: as an administrator one of this project, else what his own client returns.\<close>

definition reads_cluster :: "('s, 'x) env_scheme \<Rightarrow> 's seed_env \<Rightarrow> store \<Rightarrow> user \<Rightarrow> string \<Rightarrow> string \<Rightarrow> 's \<Rightarrow> cluster \<Rightarrow> bool" where
  "reads_cluster E S st u pid cid s c \<longleftrightarrow>
     (\<exists>k. acts_for E S st u pid k \<and> kGet k ([], cid) s = Inr c) \<and> (us_isAdmin u \<longrightarrow> mget (om_labels c) (projectIDLabelKey E) = pid)"

lemma GetCluster_InrD:
  assumes api: "api_ok V E" and sel: "selectors_ok E" and pid: "pid \<noteq> []"
    and run: "kube_get_cluster E S (kube_getter E u) pid cid None s = (Inr c, t)"
  shows "t = s \<and> reads_cluster E S (V s) u pid cid s c"
proof -
  have t: "t = s" by (rule readsD[OF reads_GetCluster run])
  from run obtain p a where p: "GetProject (kube_getter E u) (kube_projectProvider E) (kube_privilegedProjectProvider E) pid None s = (Inr p, s)"
    and a: "kube_getter E u [] s = (Inr a, s)"
    and r: "(if ui_isAdmin a then httpA (cluster_GetUnsecured E S (Some p) cid None)
       else getClusterForRegularUser (kube_getter E u) (kube_clusters E S) (kube_clusters_priv E S) p pid cid None) s = (Inr c, s)"
    unfolding GetCluster_def GetInternalCluster_def provider_fields t
    by (auto simp: bind_reads reads_wrapA reads_GetProject me.getter_reads wrapA_eq_Inr)
  have adm: "ui_isAdmin a = us_isAdmin u" by (rule me.getter_admin[OF a])
  have "reads_cluster E S (V s) u pid cid s c"
  proof (cases "us_isAdmin u")
    case True
    with r adm cluster_GetUnsecured_InrD[of E S p cid s c s] GetProject_name[OF api p] show ?thesis
      by (auto simp: reads_cluster_def acts_for_def wrapA_eq_Inr)
  next
    case False
    with r adm obtain i where i: "kube_getter E u pid s = (Inr i, s)" "cluster_Get S (Some i) cid None s = (Inr c, s)"
      by (auto elim: getClusterForRegularUser_InrD)
    from cluster_Get_InrD[OF i(2)] getter_grants(1,2)[OF api sel i(1) pid] False show ?thesis
      by (auto simp: reads_cluster_def acts_for_def)
  qed
  with t show ?thesis by simp
qed

text \<open>The client for the objects of a seed that acts for a user in a project.\<close>

definition seed_acts_for :: "('o, 's) seed_clients \<Rightarrow> store \<Rightarrow> user \<Rightarrow> string \<Rightarrow> ('o, 's) kclient \<Rightarrow> bool" where
  "seed_acts_for C st u pid k \<longleftrightarrow>
     (if us_isAdmin u then k = sc_privileged C
      else sc_impersonated C (us_email u) (sorted_list_of_set (granted_groups (st_upbs st) (st_gpbs st) u pid)) = Inr k)"

lemma with_rights_eq:
  "with_rights g C pid unsecured secured =
     bindA (g []) (\<lambda>a. if ui_isAdmin a then unsecured C else bindA (g pid) (\<lambda>i. secured C i))"
  by (auto simp: with_rights_def getAdminUserInfoPrivilegedProvider_def getUserInfoProvider_def act_defs fun_eq_iff split: prod.split sum.split)

lemma with_rights_InrD:
  assumes api: "api_ok V E" and sel: "selectors_ok E" and pid: "pid \<noteq> []"
    and run: "with_rights (kube_getter E u) C pid (\<lambda>C. f (sc_privileged C)) (\<lambda>C i. bindA (own_seed_client C i) f) s = (Inr x, t)"
  shows "\<exists>k. seed_acts_for C (V s) u pid k \<and> f k s = (Inr x, t)"
proof -
  from run obtain a where a: "kube_getter E u [] s = (Inr a, s)"
    and r: "if ui_isAdmin a then f (sc_privileged C) s = (Inr x, t)
       else (\<exists>i k. kube_getter E u pid s = (Inr i, s) \<and> sc_impersonated C (ui_email i) (ui_groups i) = Inr k \<and> f k s = (Inr x, t))"
    unfolding with_rights_eq own_seed_client_def by (auto simp: bind_reads me.getter_reads reads_liftA split: if_splits)
  show ?thesis
  proof (cases "us_isAdmin u")
    case True
    with r me.getter_admin[OF a] show ?thesis by (auto simp: seed_acts_for_def)
  next
    case False
    with r me.getter_admin[OF a] obtain i k where i: "kube_getter E u pid s = (Inr i, s)"
      and "sc_impersonated C (ui_email i) (ui_groups i) = Inr k" "f k s = (Inr x, t)" by auto
    with getter_grants(1,2)[OF api sel i pid] False show ?thesis by (auto simp: seed_acts_for_def)
  qed
qed

section \<open>Backup configurations\<close>

lemmas ebc_defs = ebc_Create_def ebc_CreateUnsecured_def ebc_Get_def ebc_GetUnsecured_def ebc_Delete_def ebc_DeleteUnsecured_def

abbreviation kube_create_backup where
  "kube_create_backup E S B u st C req \<equiv> ebc_CreateEndpoint E B (kube_get_cluster E S) (kube_getter E u) st C req"

abbreviation kube_get_backup where
  "kube_get_backup E S B u st C req \<equiv> ebc_GetEndpoint B (kube_get_cluster E S) (kube_getter E u) st C req"

text \<open>
  The contract: the clients of the seed create and read the stored objects, reading the settings and drawing a name do not
  change them, and a reference to a cluster has the name of the cluster.
\<close>

definition seed_contract :: "('s \<Rightarrow> 'a objmeta_scheme list) \<Rightarrow> ('a objmeta_scheme, 's) seed_clients \<Rightarrow> bool" where
  "seed_contract P C \<longleftrightarrow> (\<forall>k. k = sc_privileged C \<or> (\<exists>e g. sc_impersonated C e g = Inr k) \<longrightarrow> create_ok P k \<and> may_get P k \<and> delete_ok P k)"

lemma seed_contractD: "seed_contract P C \<Longrightarrow> seed_acts_for C st u pid k \<Longrightarrow> create_ok P k \<and> may_get P k \<and> delete_ok P k"
  unfolding seed_contract_def seed_acts_for_def by (metis (full_types))

definition etcd_contract :: "('s \<Rightarrow> 'a objmeta_scheme list) \<Rightarrow> 's etcd_sdk \<Rightarrow> 's SettingsProvider \<Rightarrow> bool" where
  "etcd_contract P B st \<longleftrightarrow> (\<forall>s. P (snd (sp_GetGlobalSettings st s)) = P s) \<and> (\<forall>s. P (snd (eb_randString10 B s)) = P s) \<and>
     (\<forall>c r. eb_getReference B c = Inr r \<longrightarrow> rf_name r = om_name c)"

lemma etcd_contractD:
  assumes "etcd_contract P B st"
  shows "sp_GetGlobalSettings st s = (r, s') \<Longrightarrow> P s' = P s" and "eb_randString10 B s = (q, s') \<Longrightarrow> P s' = P s"
    and "eb_getReference B c = Inr f \<Longrightarrow> rf_name f = om_name c"
  using assms unfolding etcd_contract_def by (metis snd_conv, metis snd_conv, blast)

lemma enabled_InrD:
  assumes "IsEtcdBackupEnabled B st s = (Inr v, s')" and "etcd_contract P B st"
  shows "P s' = P s"
proof -
  obtain gs where "sp_GetGlobalSettings st s = (Inr gs, s')"
    using assms(1) by (auto simp: IsEtcdBackupEnabled_def bindA_eq_Inr wrapA_eq_Inr split: if_splits)
  then show ?thesis by (rule etcd_contractD(1)[OF assms(2)])
qed

definition seed_names :: "'s seed_env \<Rightarrow> bool" where
  "seed_names S \<longleftrightarrow> (\<forall>k n s c. (k = sv_client S \<or> (\<exists>e g. sv_impersonated S e g = Inr k)) \<and> kGet k ([], n) s = Inr c \<longrightarrow> om_name c = n)"

lemma reads_cluster_name: "seed_names S \<Longrightarrow> reads_cluster E S st u pid cid s c \<Longrightarrow> om_name c = cid"
  unfolding seed_names_def reads_cluster_def acts_for_def by (metis (full_types))

lemma create_backup_InrD:
  assumes api: "api_ok V E" and sel: "selectors_ok E" and C: "seed_contract P C" and B: "etcd_contract P B st" and S: "seed_names S"
    and pid: "req_projectID req \<noteq> []" and run: "kube_create_backup E S B u st C req s = (Inr a, t)"
  obtains c k y x s1 s2 where "IsEtcdBackupEnabled B st s = (Inr (), s1)"
    and "reads_cluster E S (V s1) u (req_projectID req) (crq_clusterID req) s1 c"
    and "seed_acts_for C (V s2) u (req_projectID req) k" and "kCreate k y s2 = (Inr x, t)" and "P s2 = P s" and "P t = P s @ [x]" and "key_of x \<notin> key_of ` set (P s)"
    and "om_namespace x = cl_namespaceName c" and "rf_name (ebc_cluster x) = crq_clusterID req"
    and "om_labels x = [(projectIDLabelKey E, req_projectID req)]" and "a = convertInternalToAPIEtcdBackupConfig x"
proof -
  from run obtain s1 c s1' ebc s2 x where en: "IsEtcdBackupEnabled B st s = (Inr (), s1)"
    and c: "kube_get_cluster E S (kube_getter E u) (req_projectID req) (crq_clusterID req) None s1 = (Inr c, s1')"
    and ebc: "convertAPIToInternalEtcdBackupConfig B (ceb_name req) (ceb_spec req) c s1' = (Inr ebc, s2)"
    and x: "createEtcdBackupConfig (kube_getter E u) C (req_projectID req) (ebc\<lparr>om_labels := [(projectIDLabelKey E, req_projectID req)]\<rparr>) s2 = (Inr x, t)"
    and a: "a = convertInternalToAPIEtcdBackupConfig x"
    unfolding ebc_CreateEndpoint_def by (auto elim!: bindA_InrE simp: wrapA_eq_Inr)
  from GetCluster_InrD[OF api sel pid c] have s1': "s1' = s1"
    and rc: "reads_cluster E S (V s1) u (req_projectID req) (crq_clusterID req) s1 c" by auto
  from ebc[unfolded s1'] obtain r n where r: "eb_getReference B c = Inr r" and n: "eb_randString10 B s1 = (Inr n, s2)"
    and e: "ebc = objmeta.extend (blank_meta\<lparr>om_name := n, om_namespace := cl_namespaceName c\<rparr>)
         (backup_config.fields (ceb_name req) r (es_schedule (ceb_spec req)) (es_keep (ceb_spec req)) (es_destination (ceb_spec req)) [] [] False)"
    unfolding convertAPIToInternalEtcdBackupConfig_def by (auto simp: bindA_eq_Inr wrapA_eq_Inr)
  have P2: "P s2 = P s" using enabled_InrD[OF en B] etcd_contractD(2)[OF B n] by simp
  from x obtain k where k: "seed_acts_for C (V s2) u (req_projectID req) k"
    and cr: "kCreate k (ebc\<lparr>om_labels := [(projectIDLabelKey E, req_projectID req)]\<rparr>) s2 = (Inr x, t)"
    unfolding createEtcdBackupConfig_def ebc_defs
    by (auto dest!: with_rights_InrD[OF api sel pid, where f = "\<lambda>k. kCreate k (ebc\<lparr>om_labels := [(projectIDLabelKey E, req_projectID req)]\<rparr>)"])
  note ok = create_okD[OF conjunct1[OF seed_contractD[OF C k]] cr]
  have "rf_name r = crq_clusterID req" using etcd_contractD(3)[OF B r] reads_cluster_name[OF S rc] by simp
  with ok(1) have "om_namespace x = cl_namespaceName c" "rf_name (ebc_cluster x) = crq_clusterID req"
      "om_labels x = [(projectIDLabelKey E, req_projectID req)]"
    unfolding same_object_def e by (cases x; auto simp: key_of_def objmeta.defs backup_config.defs)+
  moreover from ok have "key_of x \<notin> key_of ` set (P s)" by (simp add: P2 same_object_def)
  ultimately show ?thesis using that[OF en rc k cr P2 ok(2)[unfolded P2]] a by blast
qed

text \<open>
  C37: a backup configuration is found under its id. Creating one for a cluster, which the caller has to be allowed to read, stores one
  new configuration, in the namespace of the cluster and labelled with the project. It is created by the client that acts for the
  caller: the privileged one for administrators, else one that impersonates him with exactly the groups granted to him in the project. The
  id in the answer is the name of the cluster and that of the configuration; whoever may read it gets, under this
  id, the answer that its creator got, as long as nothing changes it.
\<close>

theorem backup_config_roundtrip:
  assumes api: "api_ok V E" and sel: "selectors_ok E" and C: "seed_contract P C" and B: "etcd_contract P B st" and S: "seed_names S"
    and pid: "req_projectID req \<noteq> []"
    and ns: "\<forall>w w' v v' c c'. reads_cluster E S (V w) v (req_projectID req) (crq_clusterID req) w c \<and>
      reads_cluster E S (V w') v' (req_projectID req) (crq_clusterID req) w' c' \<longrightarrow> cl_namespaceName c = cl_namespaceName c'"
    and run: "kube_create_backup E S B u st C req s = (Inr a, t)"
  shows "(\<exists>c k y x s1 s2. IsEtcdBackupEnabled B st s = (Inr (), s1) \<and> reads_cluster E S (V s1) u (req_projectID req) (crq_clusterID req) s1 c \<and>
      seed_acts_for C (V s2) u (req_projectID req) k \<and> kCreate k y s2 = (Inr x, t) \<and> P s2 = P s \<and> P t = P s @ [x] \<and>
      key_of x = (cl_namespaceName c, decodeEtcdBackupConfigID (ao_id a) (crq_clusterID req)) \<and>
      om_labels x = [(projectIDLabelKey E, req_projectID req)]) \<and>
    (\<forall>u' s' b t'. P s' = P t \<and>
      kube_get_backup E S B u' st C \<lparr>req_projectID = req_projectID req, crq_clusterID = crq_clusterID req, geb_id = ao_id a\<rparr> s' = (Inr b, t') \<longrightarrow> b = a)"
proof -
  let ?pid = "req_projectID req" and ?cid = "crq_clusterID req"
  obtain c k y x s1 s2 where en: "IsEtcdBackupEnabled B st s = (Inr (), s1)" and rc: "reads_cluster E S (V s1) u ?pid ?cid s1 c"
    and k: "seed_acts_for C (V s2) u ?pid k" and cr: "kCreate k y s2 = (Inr x, t)" "P s2 = P s" and P: "P t = P s @ [x]" and fresh: "key_of x \<notin> key_of ` set (P s)"
    and x: "om_namespace x = cl_namespaceName c" "rf_name (ebc_cluster x) = ?cid" "om_labels x = [(projectIDLabelKey E, ?pid)]"
    and a: "a = convertInternalToAPIEtcdBackupConfig x" by (rule create_backup_InrD[OF api sel C B S pid run])
  have i: "ao_id a = ?cid @ ''-'' @ om_name x"
    by (simp add: a convertInternalToAPIEtcdBackupConfig_def apiObject.defs apiEtcdBackupConfig.defs GenEtcdBackupConfigID_def x)
  have d: "decodeEtcdBackupConfigID (ao_id a) ?cid = om_name x"
    using TrimPrefix_append[of "?cid @ ''-''" "om_name x"] by (simp add: decodeEtcdBackupConfigID_def i)
  have key: "key_of x = (cl_namespaceName c, decodeEtcdBackupConfigID (ao_id a) ?cid)" by (simp add: key_of_def x d)
  have "b = a" if same: "P s' = P t" and get: "kube_get_backup E S B u' st C \<lparr>req_projectID = ?pid, crq_clusterID = ?cid, geb_id = ao_id a\<rparr> s' = (Inr b, t')"
    for u' s' b t'
  proof -
    from get obtain w c' w' y where en: "IsEtcdBackupEnabled B st s' = (Inr (), w)"
      and c': "kube_get_cluster E S (kube_getter E u') ?pid ?cid None w = (Inr c', w')"
      and y: "getEtcdBackupConfig (kube_getter E u') C c' ?pid (om_name x) w' = (Inr y, t')" and b: "b = convertInternalToAPIEtcdBackupConfig y"
      unfolding ebc_GetEndpoint_def by (auto elim!: bindA_InrE simp: wrapA_eq_Inr d)
    from GetCluster_InrD[OF api sel pid c'] have w': "w' = w" and rc': "reads_cluster E S (V w) u' ?pid ?cid w c'" by auto
    from y obtain k' where k': "seed_acts_for C (V w) u' ?pid k'" and g: "kGet k' (cl_namespaceName c', om_name x) w = Inr y"
      unfolding getEtcdBackupConfig_def ebc_defs w'
      by (auto dest!: with_rights_InrD[OF api sel pid, where f = "\<lambda>k. getA k (cl_namespaceName c', om_name x)"])
    have "cl_namespaceName c' = cl_namespaceName c" using ns rc rc' by blast
    with g key d have "kGet k' (key_of x) w = Inr y" by simp
    moreover have "may_get P k'" using seed_contractD[OF C k'] by blast
    ultimately have "lookup_key (key_of x) (P s @ [x]) = Inr y"
      using enabled_InrD[OF en B] same P unfolding may_get_def by metis
    moreover have "List.find (\<lambda>z. key_of z = key_of x) (P s) = None" using fresh by (auto simp: find_None_iff image_iff)
    ultimately have "y = x" by (simp add: lookup_key_def find_append)
    then show ?thesis using a b by simp
  qed
  with en rc k cr P key x(3) show ?thesis by blast
qed

section \<open>Restores\<close>

abbreviation kube_delete_restore where
  "kube_delete_restore E S B u st C req \<equiv> er_DeleteEndpoint B (kube_get_cluster E S) (kube_getter E u) st C req"

lemmas er_defs = er_Get_def er_GetUnsecured_def er_Delete_def er_DeleteUnsecured_def

text \<open>
  C38: a restore in progress is kept. A restore is deleted only through a cluster that the caller may read, with one client that acts
  with his rights, and only when it has not started or is completed; nothing else is deleted.
\<close>

theorem running_restore_kept:
  assumes api: "api_ok V E" and sel: "selectors_ok E" and C: "seed_contract P C" and B: "etcd_contract P B st"
    and pid: "req_projectID req \<noteq> []" and run: "kube_delete_restore E S B u st C req s = (Inr v, t)"
  shows "\<exists>c k s1 x. reads_cluster E S (V s1) u (req_projectID req) (crq_clusterID req) s1 c \<and>
    seed_acts_for C (V s1) u (req_projectID req) k \<and> kDelete k (cl_namespaceName c, ger_name req) s1 = (Inr (), t) \<and>
    x \<in> set (P s) \<and> key_of x = (cl_namespaceName c, ger_name req) \<and> er_phase x \<in> {[], eb_phaseCompleted B} \<and>
    P t = filter (\<lambda>y. key_of y \<noteq> key_of x) (P s)"
proof -
  let ?pid = "req_projectID req"
  from run obtain s1 c s2 x s3 where en: "IsEtcdBackupEnabled B st s = (Inr (), s1)"
    and c: "kube_get_cluster E S (kube_getter E u) ?pid (crq_clusterID req) None s1 = (Inr c, s2)"
    and x: "getEtcdRestore (kube_getter E u) C c ?pid (ger_name req) s2 = (Inr x, s3)"
    and ph: "er_phase x \<in> {[], eb_phaseCompleted B}"
    and d: "deleteEtcdRestore (kube_getter E u) C c ?pid (ger_name req) s3 = (Inr v, t)"
    unfolding er_DeleteEndpoint_def by (auto elim!: bindA_InrE simp: wrapA_eq_Inr split: if_splits)
  from GetCluster_InrD[OF api sel pid c] have s2: "s2 = s1" and rc: "reads_cluster E S (V s1) u ?pid (crq_clusterID req) s1 c" by auto
  let ?key = "(cl_namespaceName c, ger_name req)"
  from x obtain k where k: "seed_acts_for C (V s1) u ?pid k" and g: "kGet k ?key s1 = Inr x" and s3: "s3 = s1"
    using with_rights_InrD[OF api sel pid, where f = "\<lambda>k. getA k ?key", OF x[unfolded getEtcdRestore_def er_defs s2]] by auto
  from d obtain k' where k': "seed_acts_for C (V s1) u ?pid k'" and del: "kDelete k' ?key s1 = (Inr (), t)"
    using with_rights_InrD[OF api sel pid, where f = "\<lambda>k. kDelete k ?key", OF d[unfolded deleteEtcdRestore_def er_defs s3]] by auto
  have P: "P s1 = P s" by (rule enabled_InrD[OF en B])
  have "may_get P k" using seed_contractD[OF C k] by blast
  then have "lookup_key ?key (P s) = Inr x" using g P unfolding may_get_def by metis
  then have x: "x \<in> set (P s)" "key_of x = ?key" using lookup_key_mem[of ?key "P s" x] by auto
  have "delete_ok P k'" using seed_contractD[OF C k'] by blast
  from delete_okD[OF this del] have "P t = filter (\<lambda>y. key_of y \<noteq> key_of x) (P s)" by (simp add: P x(2))
  with rc k' del x ph show ?thesis by blast
qed

section \<open>Witnesses\<close>

text \<open>A seed with one cluster, and a second part of the state for the backups or the restores.\<close>

definition backed_cluster :: cluster where
  "backed_cluster = demo_cluster\<lparr>cl_namespaceName := ''cluster-c1''\<rparr>"

abbreviation one_seed :: "'s seed_env" where "one_seed \<equiv> seed_of (mem_client (\<lambda>_. [backed_cluster]) (\<lambda>_ w. w))"

definition demo_B :: "'s etcd_sdk" where
  "demo_B = \<lparr>eb_enabled = (\<lambda>_. True), eb_getReference = (\<lambda>c. Inr \<lparr>rf_name = om_name c, rf_rest = ''Cluster''\<rparr>), eb_randString10 = retA ''x2b4c6d8f9'',
     eb_isConnectionRefused = (\<lambda>_. False), eb_phaseCompleted = ''Completed''\<rparr>"

definition both_clients :: "('a objmeta_scheme, 's \<times> 'a objmeta_scheme list) seed_clients" where
  "both_clients = \<lparr>sc_privileged = extra_client, sc_impersonated = (\<lambda>_ _. Inr extra_client)\<rparr>"

abbreviation pair_env :: "(mem \<times> 'b) env" where "pair_env \<equiv> lift_env mem_env"

lemma both_clients_ok: "seed_contract snd both_clients"
  by (auto simp: seed_contract_def both_clients_def extra_client_ok get_ok_may_get)

lemma one_seed_names: "seed_names one_seed"
  by (auto simp: seed_names_def seed_of_def mem_client_def key_of_def split: option.splits if_splits)

lemma one_seed_cluster: "reads_cluster E one_seed st u pid cid s c \<Longrightarrow> c = backed_cluster"
  by (auto simp: reads_cluster_def acts_for_def seed_of_def mem_client_def split: option.splits if_splits)

lemma one_seed_namespace: "reads_cluster E one_seed st u pid cid s c \<Longrightarrow> cl_namespaceName c = ''cluster-c1''"
  using one_seed_cluster by (fastforce simp: backed_cluster_def)

lemma pair_settings: "snd (snd (GetGlobalSettings pair_env s)) = snd s"
  by (cases s) (auto simp: GetGlobalSettings_def createDefaultGlobalSettings_def lift_act_def lift_env_fields lift_clientset_def lift_client_def act_defs Let_def split: prod.splits sum.splits)

lemma demo_B_ok: "etcd_contract snd demo_B (kube_settingsProvider pair_env)"
  by (simp add: etcd_contract_def demo_B_def kube_settingsProvider_def pair_settings)

lemma pair_selectors: "selectors_ok pair_env"
  using mem_selectors_ok by (simp add: selectors_ok_def lift_env_def sdk.defs env.defs)

text \<open>Bob creates a configuration and reads it.\<close>

definition demo_ceb :: createEtcdBackupConfigReq where
  "demo_ceb = \<lparr>req_projectID = ''p1'', crq_clusterID = ''c1'', ceb_name = ''nightly'',
     ceb_spec = \<lparr>es_clusterID = ''c1'', es_schedule = ''@daily'', es_keep = Some 3, es_destination = ''s3''\<rparr>\<rparr>"

type_synonym backup_world = "mem \<times> backup_config list"

abbreviation demo_backup :: "apiEtcdBackupConfig result \<times> backup_world" where
  "demo_backup \<equiv> kube_create_backup pair_env one_seed demo_B bob (kube_settingsProvider pair_env) both_clients demo_ceb (world1, [])"

abbreviation read_backup :: "string \<Rightarrow> backup_world \<Rightarrow> apiEtcdBackupConfig result \<times> backup_world" where
  "read_backup i \<equiv> kube_get_backup pair_env one_seed demo_B bob (kube_settingsProvider pair_env) both_clients
     \<lparr>req_projectID = ''p1'', crq_clusterID = ''c1'', geb_id = i\<rparr>"

theorem backup_config_roundtrip_witness:
  "\<exists>a t t'. demo_backup = (Inr a, t) \<and> read_backup (ao_id a) t = (Inr a, t') \<and> map om_namespace (snd t) = [''cluster-c1'']"
proof -
  have "case demo_backup of (Inl _, _) \<Rightarrow> False | (Inr a, t) \<Rightarrow> \<not> isl (fst (read_backup (ao_id a) t))" by code_simp
  then obtain a t where run: "demo_backup = (Inr a, t)" and get: "\<not> isl (fst (read_backup (ao_id a) t))" by (auto split: prod.splits sum.splits)
  from get obtain b t' where b: "read_backup (ao_id a) t = (Inr b, t')" by (auto dest!: success_obtain)
  have req: "req_projectID demo_ceb = ''p1''" "crq_clusterID demo_ceb = ''c1''" by (simp_all add: demo_ceb_def)
  have ns: "\<forall>w w' v v' c c'. reads_cluster (pair_env :: backup_world env) one_seed (mem_store (fst w)) v (req_projectID demo_ceb) (crq_clusterID demo_ceb) w c \<and>
      reads_cluster pair_env one_seed (mem_store (fst w')) v' (req_projectID demo_ceb) (crq_clusterID demo_ceb) w' c' \<longrightarrow>
      cl_namespaceName c = cl_namespaceName c'" by (auto dest!: one_seed_cluster)
  have pid: "req_projectID demo_ceb \<noteq> []" by (simp add: req)
  note fact = backup_config_roundtrip[OF lift_api_ok[OF mem_api_ok] pair_selectors both_clients_ok demo_B_ok one_seed_names pid ns run, unfolded req]
  from fact b have "b = a" by blast
  note b = b[unfolded this]
  from fact[THEN conjunct1] obtain c x and s1 :: backup_world where "reads_cluster pair_env one_seed (mem_store (fst s1)) bob ''p1'' ''c1'' s1 c"
    and "snd t = [x]" "om_namespace x = cl_namespaceName c" by (auto simp: key_of_def)
  then have "map om_namespace (snd t) = [''cluster-c1'']" by (simp add: one_seed_namespace)
  with run b show ?thesis by (intro exI conjI)
qed

text \<open>Bob deletes the restore that is completed; the one in progress stays.\<close>

definition demo_restore :: "string \<Rightarrow> string \<Rightarrow> etcd_restore" where
  "demo_restore n phase = objmeta.extend (blank_meta\<lparr>om_name := n, om_namespace := ''cluster-c1''\<rparr>)
     (etcd_restore.fields n \<lparr>rf_name = ''c1'', rf_rest = ''Cluster''\<rparr> ''b1'' [] ''s3'' phase None)"

type_synonym restore_world = "mem \<times> etcd_restore list"

abbreviation delete_restore :: "string \<Rightarrow> unit result \<times> restore_world" where
  "delete_restore n \<equiv> kube_delete_restore pair_env one_seed demo_B bob (kube_settingsProvider pair_env) both_clients
     \<lparr>req_projectID = ''p1'', crq_clusterID = ''c1'', ger_name = n\<rparr> (world1, [demo_restore ''r1'' ''Completed'', demo_restore ''r2'' ''Started''])"

theorem running_restore_kept_witness:
  "(\<exists>t. delete_restore ''r1'' = (Inr (), t) \<and> map om_name (snd t) = [''r2'']) \<and> isl (fst (delete_restore ''r2''))"
proof -
  have "\<not> isl (fst (delete_restore ''r1''))" by code_simp
  then obtain t where run: "delete_restore ''r1'' = (Inr (), t)" by (auto dest!: success_obtain)
  have no: "om_name (demo_restore n ph) = n" "er_phase (demo_restore n ph) = ph" for n ph
    by (simp_all add: demo_restore_def objmeta.defs etcd_restore.defs)
  have fact: "\<exists>x. x \<in> {demo_restore ''r1'' ''Completed'', demo_restore ''r2'' ''Started''} \<and> om_name x = n \<and> er_phase x \<in> {[], ''Completed''} \<and>
      snd t = filter (\<lambda>y. key_of y \<noteq> key_of x) [demo_restore ''r1'' ''Completed'', demo_restore ''r2'' ''Started'']"
    if "delete_restore n = (Inr v, t)" for n v t
  proof -
    let ?req = "\<lparr>req_projectID = ''p1'', crq_clusterID = ''c1'', ger_name = n\<rparr>"
    have p: "req_projectID ?req \<noteq> []" by simp
    from running_restore_kept[OF lift_api_ok[OF mem_api_ok] pair_selectors both_clients_ok demo_B_ok p that] obtain x and c :: cluster where
      "x \<in> set (snd (world1, [demo_restore ''r1'' ''Completed'', demo_restore ''r2'' ''Started'']))" "key_of x = (cl_namespaceName c, ger_name ?req)"
      "er_phase x \<in> {[], eb_phaseCompleted (demo_B :: restore_world etcd_sdk)}"
      "snd t = filter (\<lambda>y. key_of y \<noteq> key_of x) (snd (world1, [demo_restore ''r1'' ''Completed'', demo_restore ''r2'' ''Started'']))"
      by (elim exE conjE) (rule that)
    then show ?thesis by (intro exI[of _ x]) (simp add: key_of_def demo_B_def)
  qed
  from fact[OF run] have "map om_name (snd t) = [''r2'']" by (auto simp: key_of_def no)
  moreover have "isl (fst (delete_restore ''r2''))"
  proof (rule ccontr)
    assume "\<not> ?thesis"
    then obtain v t' where "delete_restore ''r2'' = (Inr v, t')" by (auto dest!: success_obtain)
    from fact[OF this] show False by (auto simp: no)
  qed
  ultimately show ?thesis using run by (intro exI conjI)
qed

end
