(* ===== verification/Datacenters.thy ===== *)
theory Datacenters
  imports Common_Handlers
begin

text \<open>
  The datacenters of the seeds, listed, created, changed and deleted (\<^verbatim>\<open>pkg/handler/v1/dc/datacenter.go\<close>). A datacenter is an entry of
  a map in the specification of its seed.
\<close>

section \<open>Datacenters and seeds\<close>

text \<open>The settings of the cloud providers; at most one should be given.\<close>

record dc_clouds =
  dp_alibaba :: "string option"
  dp_bringYourOwn :: "string option"
  dp_digitalocean :: "string option"
  dp_aws :: "string option"
  dp_openstack :: "string option"
  dp_hetzner :: "string option"
  dp_vsphere :: "string option"
  dp_baremetal :: "string option"
  dp_azure :: "string option"
  dp_edge :: "string option"
  dp_gcp :: "string option"
  dp_kubevirt :: "string option"
  dp_anexia :: "string option"
  dp_nutanix :: "string option"
  dp_vmwareCloudDirector :: "string option"
  dp_fake :: "string option"

text \<open>What a seed stores. The last field stands for those that the API does not show.\<close>

record dcSpec =
  ds_clouds :: dc_clouds
  ds_requiredEmails :: "string list"
  ds_enforceAuditLogging :: bool
  ds_enforcedAuditWebhookSettings :: "string option"
  ds_enforcePodSecurityPolicy :: bool
  ds_defaultOperatingSystemProfiles :: smap
  ds_kubeLB :: "string option"
  ds_machineFlavorFilter :: "string option"
  ds_disableCSIDriver :: bool
  ds_rest :: string

record seedDatacenter =
  sdc_country :: string
  sdc_location :: string
  sdc_node :: "string option"
  sdc_spec :: dcSpec

record fullSeed = objmeta +
  fs_datacenters :: "(string \<times> seedDatacenter) list"
  fs_kubeconfig :: "string \<times> string \<times> string" \<comment> \<open>namespace, name and field of the secret\<close>
  fs_rest :: string

text \<open>What the API shows.\<close>

record DatacenterSpec =
  ad_seed :: string
  ad_country :: string
  ad_location :: string
  ad_provider :: string
  ad_clouds :: dc_clouds
  ad_node :: string
  ad_requiredEmails :: "string list"
  ad_enforceAuditLogging :: bool
  ad_enforcedAuditWebhookSettings :: "string option"
  ad_enforcePodSecurityPolicy :: bool
  ad_ipv6Enabled :: bool
  ad_defaultOperatingSystemProfiles :: smap
  ad_machineFlavorFilter :: "string option"
  ad_disableCSIDriver :: bool
  ad_kubeLB :: "string option"

record apiDatacenter =
  adc_name :: string
  adc_spec :: DatacenterSpec

text \<open>
  The SDK: the name of the provider of a stored datacenter, whether it has IPv6, matching an e-mail address, the names of
  the providers, by the constant of the source; and a patch of the JSON of a datacenter and the seed in it.
\<close>

record dc_sdk =
  dk_providerName :: "dcSpec \<Rightarrow> string result"
  dk_ipv6Enabled :: "seedDatacenter \<Rightarrow> string \<Rightarrow> bool"
  dk_matchesRequirements :: "string \<Rightarrow> string list \<Rightarrow> bool result"
  dk_constant :: "string \<Rightarrow> string"
  dk_mergePatch :: "apiDatacenter \<Rightarrow> string \<Rightarrow> apiDatacenter result"
  dk_patchSeed :: "string \<Rightarrow> string result"

type_synonym 's FullSeedsGetter = "('s, (string \<times> fullSeed) list) act"

section \<open>The provider of seeds\<close>

text \<open>\<open>reconcile\<close> stores what a function makes of the secret of a namespace and a name, which may be new.\<close>

definition seed_UpdateUnsecured :: "(fullSeed, 's) kclient \<Rightarrow> fullSeed \<Rightarrow> ('s, fullSeed) act" where
  "seed_UpdateUnsecured k seed = kUpdate k seed"

definition seed_CreateUnsecured :: "(fullSeed, 's) kclient \<Rightarrow> fullSeed \<Rightarrow> ('s, fullSeed) act" where
  "seed_CreateUnsecured k seed = kCreate k seed"

definition seedKubeconfigSecretReconcilerFactory :: "smap \<Rightarrow> secret \<Rightarrow> secret" where
  "seedKubeconfigSecretReconcilerFactory secretData existing = existing\<lparr>sec_data := Some secretData\<rparr>"

definition ensureKubeconfigSecret ::
  "(string \<Rightarrow> string \<Rightarrow> (secret \<Rightarrow> secret) \<Rightarrow> ('s, unit) act) \<Rightarrow> fullSeed \<Rightarrow> smap \<Rightarrow> ('s, string \<times> string \<times> string) act" where
  "ensureKubeconfigSecret reconcile seed secretData =
     (let name = ''kubeconfig-'' @ om_name seed in
      bindA (reconcile (om_namespace seed) name (seedKubeconfigSecretReconcilerFactory secretData)) (\<lambda>_.
        retA (om_namespace seed, name, [])))"

definition CreateOrUpdateKubeconfigSecretForSeed ::
  "(string \<Rightarrow> string \<Rightarrow> (secret \<Rightarrow> secret) \<Rightarrow> ('s, unit) act) \<Rightarrow> string \<Rightarrow> fullSeed \<Rightarrow> string \<Rightarrow> ('s, fullSeed) act" where
  "CreateOrUpdateKubeconfigSecretForSeed reconcile kubeconfigKey seed kubeconfig =
     bindA (ensureKubeconfigSecret reconcile seed [(kubeconfigKey, kubeconfig)]) (\<lambda>r. retA (seed\<lparr>fs_kubeconfig := r\<rparr>))"

definition DefaultSeedName :: string where "DefaultSeedName = ''kubermatic''"
definition DefaultKubeconfigFieldPath :: string where "DefaultKubeconfigFieldPath = ''kubeconfig''"

text \<open>\<open>setDefaults\<close> is the defaulting of the SDK.\<close>

definition SeedGetterFactory :: "(fullSeed \<Rightarrow> fullSeed) \<Rightarrow> (fullSeed, 's) kclient \<Rightarrow> string \<Rightarrow> string \<Rightarrow> ('s, fullSeed) act" where
  "SeedGetterFactory setDefaults client seedName namespace =
     tryA (getA client (namespace, seedName)) (\<lambda>r.
       case r of
         Inl err \<Rightarrow> if IsNotFound err then failA err else failA (Wrapped err)
       | Inr seed \<Rightarrow> retA (setDefaults seed))"

definition SeedsGetterFactory :: "(fullSeed \<Rightarrow> fullSeed) \<Rightarrow> (fullSeed, 's) kclient \<Rightarrow> string \<Rightarrow> 's FullSeedsGetter" where
  "SeedsGetterFactory setDefaults client namespace =
     tryA (getA client (namespace, DefaultSeedName)) (\<lambda>r.
       case r of
         Inl err \<Rightarrow> if IsNotFound err then retA [] else failA (Wrapped err)
       | Inr seed \<Rightarrow> retA [(DefaultSeedName, setDefaults seed)])"

definition GetSeedKubeconfigSecret :: "(secret, 's) kclient \<Rightarrow> fullSeed \<Rightarrow> ('s, secret) act" where
  "GetSeedKubeconfigSecret client seed =
     (case fs_kubeconfig seed of
        (namespace, name, _) \<Rightarrow>
          wrapA Wrapped (getA client (if namespace = [] then om_namespace seed else namespace, name)))"

definition GetSeedKubeconfig :: "(secret, 's) kclient \<Rightarrow> fullSeed \<Rightarrow> ('s, string) act" where
  "GetSeedKubeconfig client seed =
     bindA (GetSeedKubeconfigSecret client seed) (\<lambda>sec.
       let fieldPath = (case fs_kubeconfig seed of (_, _, p) \<Rightarrow> if p = [] then DefaultKubeconfigFieldPath else p) in
       case data_lookup (sec_data sec) fieldPath of
         None \<Rightarrow> failA (Plain ''secret has no such key'')
       | Some v \<Rightarrow> retA v)"

definition SeedKubeconfigGetterFactory :: "(string \<Rightarrow> 'c result) \<Rightarrow> (secret, 's) kclient \<Rightarrow> fullSeed \<Rightarrow> ('s, 'c) act" where
  "SeedKubeconfigGetterFactory restConfig client seed =
     bindA (GetSeedKubeconfig client seed) (\<lambda>kubeconfig. wrapA Wrapped (liftA (restConfig kubeconfig)))"

section \<open>Conversions\<close>

definition ConvertInternalDCToExternalSpec :: "dc_sdk \<Rightarrow> seedDatacenter \<Rightarrow> string \<Rightarrow> DatacenterSpec result" where
  "ConvertInternalDCToExternalSpec D dc seedName =
     (case dk_providerName D (sdc_spec dc) of
        Inl err \<Rightarrow> Inl err
      | Inr p \<Rightarrow>
          Inr \<lparr>ad_seed = seedName, ad_country = sdc_country dc, ad_location = sdc_location dc, ad_provider = p, ad_clouds = ds_clouds (sdc_spec dc),
               ad_node = (case sdc_node dc of None \<Rightarrow> [] | Some n \<Rightarrow> n), ad_requiredEmails = ds_requiredEmails (sdc_spec dc),
               ad_enforceAuditLogging = ds_enforceAuditLogging (sdc_spec dc),
               ad_enforcedAuditWebhookSettings = ds_enforcedAuditWebhookSettings (sdc_spec dc),
               ad_enforcePodSecurityPolicy = ds_enforcePodSecurityPolicy (sdc_spec dc), ad_ipv6Enabled = dk_ipv6Enabled D dc p,
               ad_defaultOperatingSystemProfiles = ds_defaultOperatingSystemProfiles (sdc_spec dc),
               ad_machineFlavorFilter = ds_machineFlavorFilter (sdc_spec dc), ad_disableCSIDriver = ds_disableCSIDriver (sdc_spec dc),
               ad_kubeLB = ds_kubeLB (sdc_spec dc)\<rparr>)"

definition convertInternalDCToExternal :: "dc_sdk \<Rightarrow> seedDatacenter \<Rightarrow> string \<Rightarrow> string \<Rightarrow> apiDatacenter result" where
  "convertInternalDCToExternal D dc dcName seedName =
     (case ConvertInternalDCToExternalSpec D dc seedName of
        Inl err \<Rightarrow> Inl err | Inr dcSpec \<Rightarrow> Inr \<lparr>adc_name = dcName, adc_spec = dcSpec\<rparr>)"

text \<open>
  The bare-metal settings, the operating system profiles, the load balancer settings and the flag of the CSI driver are not
  among the fields that are copied.
\<close>

definition convertExternalDCToInternal :: "DatacenterSpec \<Rightarrow> seedDatacenter" where
  "convertExternalDCToInternal d =
     \<lparr>sdc_country = ad_country d, sdc_location = ad_location d, sdc_node = Some (ad_node d),
      sdc_spec = \<lparr>ds_clouds = (ad_clouds d)\<lparr>dp_baremetal := None\<rparr>, ds_requiredEmails = ad_requiredEmails d,
        ds_enforceAuditLogging = ad_enforceAuditLogging d, ds_enforcedAuditWebhookSettings = ad_enforcedAuditWebhookSettings d,
        ds_enforcePodSecurityPolicy = ad_enforcePodSecurityPolicy d, ds_defaultOperatingSystemProfiles = [], ds_kubeLB = None,
        ds_machineFlavorFilter = ad_machineFlavorFilter d, ds_disableCSIDriver = False, ds_rest = []\<rparr>\<rparr>"

definition GetProviderName :: "dc_sdk \<Rightarrow> DatacenterSpec \<Rightarrow> string result" where
  "GetProviderName D dcSpec =
     (let c = ad_clouds dcSpec;
          given = filter (\<lambda>(_, f). f \<noteq> None)
            [(''AlibabaCloudProvider'', dp_alibaba c), (''BringYourOwnCloudProvider'', dp_bringYourOwn c),
             (''DigitaloceanCloudProvider'', dp_digitalocean c), (''AWSCloudProvider'', dp_aws c), (''OpenstackCloudProvider'', dp_openstack c),
             (''HetznerCloudProvider'', dp_hetzner c), (''VSphereCloudProvider'', dp_vsphere c), (''BaremetalCloudProvider'', dp_baremetal c),
             (''AzureCloudProvider'', dp_azure c), (''EdgeCloudProvider'', dp_edge c), (''GCPCloudProvider'', dp_gcp c),
             (''KubevirtCloudProvider'', dp_kubevirt c), (''AnexiaCloudProvider'', dp_anexia c), (''NutanixCloudProvider'', dp_nutanix c),
             (''VMwareCloudDirectorCloudProvider'', dp_vmwareCloudDirector c), (''FakeCloudProvider'', dp_fake c)] in
      case given of [(n, _)] \<Rightarrow> Inr (dk_constant D n) | _ \<Rightarrow> Inl (Plain ''only one DC provider should be specified''))"

definition validateProvider :: "dc_sdk \<Rightarrow> DatacenterSpec \<Rightarrow> unit result" where
  "validateProvider D dcSpec = (case GetProviderName D dcSpec of Inl err \<Rightarrow> Inl err | Inr _ \<Rightarrow> Inr ())"

section \<open>Requests\<close>

record createDCReq =
  cdc_seed :: string
  cdc_name :: string
  cdc_spec :: DatacenterSpec

record updateDCReq = createDCReq +
  udc_dc :: string

record patchDCReq =
  pdc_patch :: string
  pdc_dc :: string
  pdc_seed :: string

text \<open>A datacenter of a seed, or a datacenter of a provider: two names of the path.\<close>

definition DecodeLegacyDcReq :: "http_request \<Rightarrow> string result" where
  "DecodeLegacyDcReq r = Inr (mux_var r ''dc'')"

definition DecodeListDCForSeedReq :: "http_request \<Rightarrow> string result" where
  "DecodeListDCForSeedReq r = required_var r ''seed_name''"

definition two_vars :: "http_request \<Rightarrow> string \<Rightarrow> string \<Rightarrow> (string \<times> string) result" where
  "two_vars r a b =
     (case required_var r a of
        Inl err \<Rightarrow> Inl err
      | Inr x \<Rightarrow> (case required_var r b of Inl err \<Rightarrow> Inl err | Inr y \<Rightarrow> Inr (x, y)))"

definition DecodeGetDCForSeedReq :: "http_request \<Rightarrow> (string \<times> string) result" where
  "DecodeGetDCForSeedReq r = two_vars r ''seed_name'' ''dc''"

definition DecodeForProviderDCListReq :: "http_request \<Rightarrow> string result" where
  "DecodeForProviderDCListReq r = required_var r ''provider_name''"

definition DecodeForProviderDCGetReq :: "http_request \<Rightarrow> (string \<times> string) result" where
  "DecodeForProviderDCGetReq r = two_vars r ''provider_name'' ''dc''"

definition DecodeDeleteDCReq :: "http_request \<Rightarrow> (string \<times> string) result" where
  "DecodeDeleteDCReq r = two_vars r ''seed_name'' ''dc''"

definition DecodeCreateDCReq :: "http_request \<Rightarrow> (string \<times> DatacenterSpec) result \<Rightarrow> createDCReq result" where
  "DecodeCreateDCReq r body =
     (case required_var r ''seed_name'' of
        Inl err \<Rightarrow> Inl err
      | Inr seed \<Rightarrow>
          (case body of Inl err \<Rightarrow> Inl err | Inr (name, spec) \<Rightarrow> Inr \<lparr>cdc_seed = seed, cdc_name = name, cdc_spec = spec\<rparr>))"

definition DecodeUpdateDCReq :: "http_request \<Rightarrow> (string \<times> DatacenterSpec) result \<Rightarrow> updateDCReq result" where
  "DecodeUpdateDCReq r body =
     (case DecodeCreateDCReq r body of
        Inl err \<Rightarrow> Inl err
      | Inr req \<Rightarrow>
          (case required_var r ''dc'' of Inl err \<Rightarrow> Inl err | Inr dc \<Rightarrow> Inr (createDCReq.extend req (updateDCReq.fields dc))))"

definition DecodePatchDCReq :: "http_request \<Rightarrow> string result \<Rightarrow> patchDCReq result" where
  "DecodePatchDCReq r body =
     (case body of
        Inl err \<Rightarrow> Inl err
      | Inr patch \<Rightarrow>
          (case two_vars r ''dc'' ''seed_name'' of
             Inl err \<Rightarrow> Inl err | Inr (dc, seed) \<Rightarrow> Inr \<lparr>pdc_patch = patch, pdc_dc = dc, pdc_seed = seed\<rparr>))"

definition createDCReq_validate :: "dc_sdk \<Rightarrow> 'a createDCReq_scheme \<Rightarrow> unit result" where
  "createDCReq_validate D req =
     (case validateProvider D (cdc_spec req) of
        Inl err \<Rightarrow> Inl err
      | Inr _ \<Rightarrow>
          if EqualFold (cdc_seed req) (ad_seed (cdc_spec req)) then Inr ()
          else Inl (Plain ''path seed and request seed not equal''))"

definition patchDCReq_validate :: "dc_sdk \<Rightarrow> patchDCReq \<Rightarrow> unit result" where
  "patchDCReq_validate D req =
     (case dk_patchSeed D (pdc_patch req) of
        Inl _ \<Rightarrow> Inl (HTTPError 400)
      | Inr seed \<Rightarrow> if seed \<noteq> [] \<and> \<not> EqualFold seed (pdc_seed req) then Inl (HTTPError 400) else Inr ())"

section \<open>Listing\<close>

text \<open>A datacenter whose provider is not known is left out.\<close>

definition getAPIDCsFromSeed :: "dc_sdk \<Rightarrow> fullSeed \<Rightarrow> apiDatacenter list" where
  "getAPIDCsFromSeed D seed =
     List.map_filter (\<lambda>(datacenterName, datacenter).
       case ConvertInternalDCToExternalSpec D datacenter (om_name seed) of
         Inl _ \<Rightarrow> None | Inr spec \<Rightarrow> Some \<lparr>adc_name = datacenterName, adc_spec = spec\<rparr>) (fs_datacenters seed)"

definition getAPIDCsFromSeedMap :: "dc_sdk \<Rightarrow> (string \<times> fullSeed) list \<Rightarrow> apiDatacenter list" where
  "getAPIDCsFromSeedMap D seeds = concat (map (\<lambda>(_, seed). getAPIDCsFromSeed D seed) seeds)"

fun filterDCsByEmail :: "dc_sdk \<Rightarrow> UserInfo \<Rightarrow> apiDatacenter list \<Rightarrow> apiDatacenter list result" where
  "filterDCsByEmail D userInfo [] = Inr []"
| "filterDCsByEmail D userInfo (dc # dcs) =
     (case dk_matchesRequirements D (ui_email userInfo) (ad_requiredEmails (adc_spec dc)) of
        Inl err \<Rightarrow> Inl err
      | Inr matches \<Rightarrow>
          (case filterDCsByEmail D userInfo dcs of Inl err \<Rightarrow> Inl err | Inr r \<Rightarrow> Inr (if matches then dc # r else r)))"

definition filterDCsByProvider :: "string \<Rightarrow> apiDatacenter list \<Rightarrow> apiDatacenter list" where
  "filterDCsByProvider providerName dcs = filter (\<lambda>dc. ad_provider (adc_spec dc) = providerName) dcs"

definition filterDCsByName :: "apiDatacenter list \<Rightarrow> string \<Rightarrow> apiDatacenter result" where
  "filterDCsByName dcs dcName =
     (case filter (\<lambda>dc. adc_name dc = dcName) dcs of
        [] \<Rightarrow> Inl UtilNotFound | [dc] \<Rightarrow> Inr dc | _ \<Rightarrow> Inl (Plain ''did not find one datacenter''))"

text \<open>What the endpoints share: the seeds, the caller, and the datacenters that are not for others.\<close>

definition get_seeds :: "'s FullSeedsGetter \<Rightarrow> ('s, (string \<times> fullSeed) list) act" where
  "get_seeds seedsGetter = wrapA (\<lambda>_. HTTPError 500) seedsGetter"

definition for_caller :: "dc_sdk \<Rightarrow> UserInfo \<Rightarrow> apiDatacenter list \<Rightarrow> apiDatacenter list result" where
  "for_caller D userInfo dcs =
     (if ui_isAdmin userInfo then Inr dcs
      else (case filterDCsByEmail D userInfo dcs of Inl _ \<Rightarrow> Inl (HTTPError 500) | Inr r \<Rightarrow> Inr r))"

definition dc_ListEndpoint :: "dc_sdk \<Rightarrow> 's FullSeedsGetter \<Rightarrow> 's UserInfoGetter \<Rightarrow> ('s, apiDatacenter list) act" where
  "dc_ListEndpoint D seedsGetter userInfoGetter =
     bindA (get_seeds seedsGetter) (\<lambda>seeds.
     bindA (httpA (userInfoGetter [])) (\<lambda>userInfo.
     bindA (liftA (for_caller D userInfo (getAPIDCsFromSeedMap D seeds))) (\<lambda>dcs.
       retA (sort_key adc_name dcs))))"

definition ListEndpointForProvider :: "dc_sdk \<Rightarrow> 's FullSeedsGetter \<Rightarrow> 's UserInfoGetter \<Rightarrow> string \<Rightarrow> ('s, apiDatacenter list) act" where
  "ListEndpointForProvider D seedsGetter userInfoGetter providerName =
     bindA (get_seeds seedsGetter) (\<lambda>seeds.
     bindA (httpA (userInfoGetter [])) (\<lambda>userInfo.
     bindA (liftA (for_caller D userInfo (filterDCsByProvider providerName (getAPIDCsFromSeedMap D seeds)))) (\<lambda>dcs.
       retA (sort_key adc_name dcs))))"

definition GetDatacenter :: "dc_sdk \<Rightarrow> UserInfo \<Rightarrow> 's FullSeedsGetter \<Rightarrow> string \<Rightarrow> ('s, apiDatacenter) act" where
  "GetDatacenter D userInfo seedsGetter datacenterToGet =
     bindA (get_seeds seedsGetter) (\<lambda>seeds.
     bindA (liftA (for_caller D userInfo (getAPIDCsFromSeedMap D seeds))) (\<lambda>dcs.
       liftA (filterDCsByName dcs datacenterToGet)))"

definition dc_GetEndpoint :: "dc_sdk \<Rightarrow> 's FullSeedsGetter \<Rightarrow> 's UserInfoGetter \<Rightarrow> string \<Rightarrow> ('s, apiDatacenter) act" where
  "dc_GetEndpoint D seedsGetter userInfoGetter dc =
     bindA (httpA (userInfoGetter [])) (\<lambda>userInfo. GetDatacenter D userInfo seedsGetter dc)"

definition GetEndpointForProvider ::
  "dc_sdk \<Rightarrow> 's FullSeedsGetter \<Rightarrow> 's UserInfoGetter \<Rightarrow> string \<Rightarrow> string \<Rightarrow> ('s, apiDatacenter) act" where
  "GetEndpointForProvider D seedsGetter userInfoGetter providerName dc =
     bindA (get_seeds seedsGetter) (\<lambda>seeds.
     bindA (httpA (userInfoGetter [])) (\<lambda>userInfo.
     bindA (liftA (for_caller D userInfo (filterDCsByProvider providerName (getAPIDCsFromSeedMap D seeds)))) (\<lambda>dcs.
       liftA (filterDCsByName dcs dc))))"

definition seed_datacenters :: "dc_sdk \<Rightarrow> 's FullSeedsGetter \<Rightarrow> 's UserInfoGetter \<Rightarrow> string \<Rightarrow> ('s, apiDatacenter list) act" where
  "seed_datacenters D seedsGetter userInfoGetter seedName =
     bindA (get_seeds seedsGetter) (\<lambda>seeds.
     bindA (httpA (userInfoGetter [])) (\<lambda>userInfo.
       case map_of seeds seedName of
         None \<Rightarrow> failA UtilNotFound
       | Some seed \<Rightarrow> liftA (for_caller D userInfo (getAPIDCsFromSeed D seed))))"

definition ListEndpointForSeed :: "dc_sdk \<Rightarrow> 's FullSeedsGetter \<Rightarrow> 's UserInfoGetter \<Rightarrow> string \<Rightarrow> ('s, apiDatacenter list) act" where
  "ListEndpointForSeed D seedsGetter userInfoGetter seedName =
     bindA (seed_datacenters D seedsGetter userInfoGetter seedName) (\<lambda>dcs. retA (sort_key adc_name dcs))"

definition GetEndpointForSeed :: "dc_sdk \<Rightarrow> 's FullSeedsGetter \<Rightarrow> 's UserInfoGetter \<Rightarrow> string \<Rightarrow> string \<Rightarrow> ('s, apiDatacenter) act" where
  "GetEndpointForSeed D seedsGetter userInfoGetter seedName dc =
     bindA (seed_datacenters D seedsGetter userInfoGetter seedName) (\<lambda>dcs. liftA (filterDCsByName dcs dc))"

section \<open>Changing\<close>

definition validateUser :: "'s UserInfoGetter \<Rightarrow> ('s, unit) act" where
  "validateUser userInfoGetter =
     bindA (httpA (userInfoGetter [])) (\<lambda>userInfo. if ui_isAdmin userInfo then retA () else failA (HTTPError 403))"

text \<open>What the endpoints share: the seed of the request, and storing it.\<close>

definition requested_seed :: "'s FullSeedsGetter \<Rightarrow> string \<Rightarrow> ('s, fullSeed) act" where
  "requested_seed seedsGetter seedName =
     bindA (get_seeds seedsGetter) (\<lambda>seeds. case map_of seeds seedName of None \<Rightarrow> failA (HTTPError 400) | Some seed \<Rightarrow> retA seed)"

definition update_seed :: "(fullSeed, 's) kclient \<Rightarrow> fullSeed \<Rightarrow> ('s, fullSeed) act" where
  "update_seed masterClient seed = wrapA (\<lambda>_. HTTPError 500) (kUpdate masterClient seed)"

definition dc_CreateEndpoint ::
  "dc_sdk \<Rightarrow> 's FullSeedsGetter \<Rightarrow> 's UserInfoGetter \<Rightarrow> (fullSeed, 's) kclient \<Rightarrow> createDCReq \<Rightarrow> ('s, apiDatacenter) act" where
  "dc_CreateEndpoint D seedsGetter userInfoGetter masterClient req =
     bindA (wrapA (\<lambda>_. HTTPError 400) (liftA (createDCReq_validate D req))) (\<lambda>_.
     bindA (validateUser userInfoGetter) (\<lambda>_.
     bindA (requested_seed seedsGetter (ad_seed (cdc_spec req))) (\<lambda>seed.
       if map_of (fs_datacenters seed) (cdc_name req) \<noteq> None then failA (HTTPError 400)
       else
         bindA (update_seed masterClient (seed\<lparr>fs_datacenters :=
                  AList.update (cdc_name req) (convertExternalDCToInternal (cdc_spec req)) (fs_datacenters seed)\<rparr>)) (\<lambda>_.
           retA \<lparr>adc_name = cdc_name req, adc_spec = cdc_spec req\<rparr>))))"

text \<open>
  Renaming a datacenter. The names are compared without their case, so that a new name that differs from the old one
  in its case only is not checked, and the old entry is kept.
\<close>

definition renamed :: "string \<Rightarrow> string \<Rightarrow> (string \<times> seedDatacenter) list \<Rightarrow> (string \<times> seedDatacenter) list result" where
  "renamed old new dcs =
     (if EqualFold old new then Inr dcs
      else if map_of dcs new \<noteq> None then Inl (HTTPError 400)
      else Inr (AList.delete old dcs))"

definition dc_UpdateEndpoint ::
  "dc_sdk \<Rightarrow> 's FullSeedsGetter \<Rightarrow> 's UserInfoGetter \<Rightarrow> (fullSeed, 's) kclient \<Rightarrow> updateDCReq \<Rightarrow> ('s, apiDatacenter) act" where
  "dc_UpdateEndpoint D seedsGetter userInfoGetter masterClient req =
     bindA (wrapA (\<lambda>_. HTTPError 400) (liftA (createDCReq_validate D req))) (\<lambda>_.
     bindA (validateUser userInfoGetter) (\<lambda>_.
     bindA (requested_seed seedsGetter (ad_seed (cdc_spec req))) (\<lambda>seed.
       if map_of (fs_datacenters seed) (udc_dc req) = None then failA (HTTPError 400)
       else
         bindA (liftA (renamed (udc_dc req) (cdc_name req) (fs_datacenters seed))) (\<lambda>dcs.
         bindA (update_seed masterClient (seed\<lparr>fs_datacenters :=
                  AList.update (cdc_name req) (convertExternalDCToInternal (cdc_spec req)) dcs\<rparr>)) (\<lambda>_.
           retA \<lparr>adc_name = cdc_name req, adc_spec = cdc_spec req\<rparr>)))))"

definition dc_PatchEndpoint ::
  "dc_sdk \<Rightarrow> 's FullSeedsGetter \<Rightarrow> 's UserInfoGetter \<Rightarrow> (fullSeed, 's) kclient \<Rightarrow> patchDCReq \<Rightarrow> ('s, apiDatacenter) act" where
  "dc_PatchEndpoint D seedsGetter userInfoGetter masterClient req =
     bindA (liftA (patchDCReq_validate D req)) (\<lambda>_.
     bindA (validateUser userInfoGetter) (\<lambda>_.
     bindA (requested_seed seedsGetter (pdc_seed req)) (\<lambda>seed.
       case map_of (fs_datacenters seed) (pdc_dc req) of
         None \<Rightarrow> failA (HTTPError 400)
       | Some currentDC \<Rightarrow>
           bindA (wrapA (\<lambda>_. HTTPError 500) (liftA (convertInternalDCToExternal D currentDC (pdc_dc req) (pdc_seed req)))) (\<lambda>currentAPIDC.
           bindA (wrapA (\<lambda>_. HTTPError 500) (liftA (dk_mergePatch D currentAPIDC (pdc_patch req)))) (\<lambda>patched.
           bindA (wrapA (\<lambda>_. HTTPError 400) (liftA (validateProvider D (adc_spec patched)))) (\<lambda>_.
           let kubermaticPatched = convertExternalDCToInternal (adc_spec patched) in
           bindA (wrapA (\<lambda>_. HTTPError 500) (liftA (dk_providerName D (sdc_spec kubermaticPatched)))) (\<lambda>providerName.
           bindA (liftA (renamed (pdc_dc req) (adc_name patched) (fs_datacenters seed))) (\<lambda>dcs.
           let dcName = (if EqualFold (pdc_dc req) (adc_name patched) then pdc_dc req else adc_name patched) in
           bindA (update_seed masterClient (seed\<lparr>fs_datacenters := AList.update dcName kubermaticPatched dcs\<rparr>)) (\<lambda>_.
             retA (patched\<lparr>adc_spec := (adc_spec patched)\<lparr>ad_provider := providerName\<rparr>\<rparr>)))))))))) "

definition dc_DeleteEndpoint ::
  "'s FullSeedsGetter \<Rightarrow> 's UserInfoGetter \<Rightarrow> (fullSeed, 's) kclient \<Rightarrow> string \<times> string \<Rightarrow> ('s, unit) act" where
  "dc_DeleteEndpoint seedsGetter userInfoGetter masterClient = (\<lambda>(seedName, dc).
     bindA (validateUser userInfoGetter) (\<lambda>_.
     bindA (requested_seed seedsGetter seedName) (\<lambda>seed.
       if map_of (fs_datacenters seed) dc = None then failA (HTTPError 400)
       else
         bindA (update_seed masterClient (seed\<lparr>fs_datacenters := AList.delete dc (fs_datacenters seed)\<rparr>)) (\<lambda>_. retA ()))))"

end
