(* ===== verification/Datacenter_Properties.thy ===== *)
theory Datacenter_Properties
  imports Datacenters Access_Control Mem_Extend
begin

text \<open>
  What holds of datacenters: who is shown which, who changes them and what a change leaves alone, and what the conversion
  of a datacenter loses.
\<close>

section \<open>Access\<close>

text \<open>The datacenters that a user may see.\<close>

definition may_see :: "dc_sdk \<Rightarrow> user \<Rightarrow> apiDatacenter \<Rightarrow> bool" where
  "may_see D u dc \<longleftrightarrow> us_isAdmin u \<or> dk_matchesRequirements D (us_email u) (ad_requiredEmails (adc_spec dc)) = Inr True"

lemma filterDCsByEmail_InrD:
  "filterDCsByEmail D i dcs = Inr r \<Longrightarrow> r = filter (\<lambda>dc. dk_matchesRequirements D (ui_email i) (ad_requiredEmails (adc_spec dc)) = Inr True) dcs"
  by (induction dcs arbitrary: r) (auto split: sum.splits)

lemma for_caller_InrD:
  "for_caller D i dcs = Inr r \<Longrightarrow> ui_isAdmin i = us_isAdmin u \<Longrightarrow> ui_email i = us_email u \<Longrightarrow> r = filter (may_see D u) dcs"
  by (auto simp: for_caller_def may_see_def dest!: filterDCsByEmail_InrD intro!: filter_cong split: if_splits sum.splits)

lemma validateUser_InrD:
  assumes "validateUser (kube_getter E u) s = (Inr v, t)"
  shows "t = s \<and> us_isAdmin u"
proof -
  from assms obtain a s1 where a: "kube_getter E u [] s = (Inr a, s1)" "ui_isAdmin a" "t = s1"
    by (auto simp: validateUser_def wrapA_eq_Inr elim!: bindA_InrE split: if_splits)
  with me.getter_admin[OF a(1)] readsD[OF me.getter_reads a(1)] show ?thesis by simp
qed

text \<open>A change of one seed that concerns some of its datacenters only.\<close>

definition changes_seed :: "(fullSeed, 's) kclient \<Rightarrow> (string \<times> fullSeed) list \<Rightarrow> string \<Rightarrow> string set \<Rightarrow> 's \<Rightarrow> 's \<Rightarrow> bool" where
  "changes_seed k seeds sn ns s t \<longleftrightarrow> (\<exists>seed dcs seed'. map_of seeds sn = Some seed \<and> kUpdate k (seed\<lparr>fs_datacenters := dcs\<rparr>) s = (Inr seed', t) \<and>
     (\<forall>n. n \<notin> ns \<longrightarrow> map_of dcs n = map_of (fs_datacenters seed) n))"

lemma requested_seed_InrD:
  assumes "reads sg" and "requested_seed sg sn s = (Inr seed, t)"
  shows "t = s \<and> (\<exists>seeds. sg s = (Inr seeds, s) \<and> map_of seeds sn = Some seed)"
  using assms by (auto simp: requested_seed_def get_seeds_def bind_reads reads_wrapA wrapA_eq_Inr split: option.splits)

lemma renamed_InrD: "renamed old new dcs = Inr dcs' \<Longrightarrow> n \<noteq> old \<Longrightarrow> map_of dcs' n = map_of dcs n"
  by (auto simp: renamed_def delete_conv' split: if_splits)

abbreviation kube_create_dc where "kube_create_dc D E sg k u req \<equiv> dc_CreateEndpoint D sg (kube_getter E u) k req"
abbreviation kube_update_dc where "kube_update_dc D E sg k u req \<equiv> dc_UpdateEndpoint D sg (kube_getter E u) k req"
abbreviation kube_patch_dc where "kube_patch_dc D E sg k u req \<equiv> dc_PatchEndpoint D sg (kube_getter E u) k req"
abbreviation kube_delete_dc where "kube_delete_dc E sg k u req \<equiv> dc_DeleteEndpoint sg (kube_getter E u) k req"

lemma find_and_update:
  assumes rd: "reads sg" and run: "bindA (validateUser (kube_getter E u)) (\<lambda>_. bindA (requested_seed sg sn) f) s = (Inr x, t)"
  obtains seeds seed where "us_isAdmin u" and "sg s = (Inr seeds, s)" and "map_of seeds sn = Some seed" and "f seed s = (Inr x, t)"
proof -
  from run obtain v s1 seed s2 where "validateUser (kube_getter E u) s = (Inr v, s1)" "requested_seed sg sn s1 = (Inr seed, s2)" "f seed s2 = (Inr x, t)"
    by (auto elim!: bindA_InrE)
  with validateUser_InrD requested_seed_InrD[OF rd] that show ?thesis by metis
qed

lemma create_dc_InrD:
  assumes rd: "reads sg" and run: "kube_create_dc D E sg k u req s = (Inr a, t)"
  obtains seeds seed seed' where "us_isAdmin u" and "sg s = (Inr seeds, s)" and "map_of seeds (ad_seed (cdc_spec req)) = Some seed"
    and "map_of (fs_datacenters seed) (cdc_name req) = None"
    and "kUpdate k (seed\<lparr>fs_datacenters := AList.update (cdc_name req) (convertExternalDCToInternal (cdc_spec req)) (fs_datacenters seed)\<rparr>) s = (Inr seed', t)"
proof -
  from run obtain v where run: "bindA (validateUser (kube_getter E u)) (\<lambda>_. bindA (requested_seed sg (ad_seed (cdc_spec req))) (\<lambda>seed.
       if map_of (fs_datacenters seed) (cdc_name req) \<noteq> None then failA (HTTPError 400)
       else bindA (update_seed k (seed\<lparr>fs_datacenters :=
                  AList.update (cdc_name req) (convertExternalDCToInternal (cdc_spec req)) (fs_datacenters seed)\<rparr>)) (\<lambda>_.
           retA \<lparr>adc_name = cdc_name req, adc_spec = cdc_spec req\<rparr>))) s = (Inr a, t)"
    unfolding dc_CreateEndpoint_def by (auto simp: bind_reads reads_wrapA reads_liftA)
  obtain seeds seed where g: "us_isAdmin u" "sg s = (Inr seeds, s)" "map_of seeds (ad_seed (cdc_spec req)) = Some seed"
    and f: "(if map_of (fs_datacenters seed) (cdc_name req) \<noteq> None then failA (HTTPError 400)
       else bindA (update_seed k (seed\<lparr>fs_datacenters :=
                  AList.update (cdc_name req) (convertExternalDCToInternal (cdc_spec req)) (fs_datacenters seed)\<rparr>)) (\<lambda>_.
           retA \<lparr>adc_name = cdc_name req, adc_spec = cdc_spec req\<rparr>)) s = (Inr a, t)" by (rule find_and_update[OF rd run])
  then show ?thesis using that[OF g] by (auto simp: update_seed_def bindA_eq_Inr wrapA_eq_Inr split: if_splits)
qed

lemma update_dc_InrD:
  assumes rd: "reads sg" and run: "kube_update_dc D E sg k u req s = (Inr a, t)"
  obtains seeds where "us_isAdmin u" and "sg s = (Inr seeds, s)" and "changes_seed k seeds (ad_seed (cdc_spec req)) {udc_dc req, cdc_name req} s t"
proof -
  from run obtain v where run: "bindA (validateUser (kube_getter E u)) (\<lambda>_. bindA (requested_seed sg (ad_seed (cdc_spec req))) (\<lambda>seed.
       if map_of (fs_datacenters seed) (udc_dc req) = None then failA (HTTPError 400)
       else bindA (liftA (renamed (udc_dc req) (cdc_name req) (fs_datacenters seed))) (\<lambda>dcs.
         bindA (update_seed k (seed\<lparr>fs_datacenters := AList.update (cdc_name req) (convertExternalDCToInternal (cdc_spec req)) dcs\<rparr>)) (\<lambda>_.
           retA \<lparr>adc_name = cdc_name req, adc_spec = cdc_spec req\<rparr>)))) s = (Inr a, t)"
    unfolding dc_UpdateEndpoint_def by (auto simp: bind_reads reads_wrapA reads_liftA)
  obtain seeds seed where g: "us_isAdmin u" "sg s = (Inr seeds, s)" "map_of seeds (ad_seed (cdc_spec req)) = Some seed"
    and f: "(if map_of (fs_datacenters seed) (udc_dc req) = None then failA (HTTPError 400)
       else bindA (liftA (renamed (udc_dc req) (cdc_name req) (fs_datacenters seed))) (\<lambda>dcs.
         bindA (update_seed k (seed\<lparr>fs_datacenters := AList.update (cdc_name req) (convertExternalDCToInternal (cdc_spec req)) dcs\<rparr>)) (\<lambda>_.
           retA \<lparr>adc_name = cdc_name req, adc_spec = cdc_spec req\<rparr>))) s = (Inr a, t)" by (rule find_and_update[OF rd run])
  from f obtain dcs seed' where r: "renamed (udc_dc req) (cdc_name req) (fs_datacenters seed) = Inr dcs"
    and up: "kUpdate k (seed\<lparr>fs_datacenters := AList.update (cdc_name req) (convertExternalDCToInternal (cdc_spec req)) dcs\<rparr>) s = (Inr seed', t)"
    by (auto simp: update_seed_def bindA_eq_Inr wrapA_eq_Inr split: if_splits)
  have "changes_seed k seeds (ad_seed (cdc_spec req)) {udc_dc req, cdc_name req} s t"
    using g(3) up renamed_InrD[OF r] unfolding changes_seed_def by (intro exI conjI) (auto simp: update_conv')
  with g that show ?thesis by blast
qed

text \<open>The datacenters of a seed after a patch, if it is accepted.\<close>

definition patched_datacenters ::
  "dc_sdk \<Rightarrow> patchDCReq \<Rightarrow> fullSeed \<Rightarrow> apiDatacenter \<Rightarrow> (string \<times> seedDatacenter) list \<Rightarrow> bool" where
  "patched_datacenters D req seed patched dcs \<longleftrightarrow> (\<exists>cur api dcs'. map_of (fs_datacenters seed) (pdc_dc req) = Some cur \<and>
     convertInternalDCToExternal D cur (pdc_dc req) (pdc_seed req) = Inr api \<and> dk_mergePatch D api (pdc_patch req) = Inr patched \<and>
     renamed (pdc_dc req) (adc_name patched) (fs_datacenters seed) = Inr dcs' \<and>
     dcs = AList.update (if EqualFold (pdc_dc req) (adc_name patched) then pdc_dc req else adc_name patched)
       (convertExternalDCToInternal (adc_spec patched)) dcs')"

lemma patch_dc_InrD:
  assumes rd: "reads sg" and run: "kube_patch_dc D E sg k u req s = (Inr a, t)"
  obtains seeds seed patched dcs seed' where "us_isAdmin u" and "sg s = (Inr seeds, s)" and "map_of seeds (pdc_seed req) = Some seed"
    and "patched_datacenters D req seed patched dcs" and "kUpdate k (seed\<lparr>fs_datacenters := dcs\<rparr>) s = (Inr seed', t)"
    and "adc_name a = adc_name patched"
proof -
  from run obtain v s1 seed s2 where v: "validateUser (kube_getter E u) s = (Inr v, s1)" and fs: "requested_seed sg (pdc_seed req) s1 = (Inr seed, s2)"
    and f: "\<exists>patched dcs seed'. patched_datacenters D req seed patched dcs \<and> kUpdate k (seed\<lparr>fs_datacenters := dcs\<rparr>) s2 = (Inr seed', t) \<and>
      adc_name a = adc_name patched"
    unfolding dc_PatchEndpoint_def patched_datacenters_def update_seed_def
    by (fastforce simp: wrapA_eq_Inr Let_def elim!: bindA_InrE split: option.split_asm)
  from validateUser_InrD[OF v] requested_seed_InrD[OF rd fs] f that show ?thesis by auto
qed

lemma patched_datacenters_others:
  "patched_datacenters D req seed patched dcs \<Longrightarrow> n \<notin> {pdc_dc req, adc_name patched} \<Longrightarrow> map_of dcs n = map_of (fs_datacenters seed) n"
  by (auto simp: patched_datacenters_def update_conv' renamed_InrD)

lemma delete_dc_InrD:
  assumes rd: "reads sg" and run: "kube_delete_dc E sg k u (sn, dc) s = (Inr a, t)"
  obtains seeds where "us_isAdmin u" and "sg s = (Inr seeds, s)" and "changes_seed k seeds sn {dc} s t"
proof -
  from run obtain v s1 seed s2 seed' where v: "validateUser (kube_getter E u) s = (Inr v, s1)" and fs: "requested_seed sg sn s1 = (Inr seed, s2)"
    and up: "kUpdate k (seed\<lparr>fs_datacenters := AList.delete dc (fs_datacenters seed)\<rparr>) s2 = (Inr seed', t)"
    unfolding dc_DeleteEndpoint_def update_seed_def by (auto simp: wrapA_eq_Inr elim!: bindA_InrE split: if_split_asm)
  from validateUser_InrD[OF v] requested_seed_InrD[OF rd fs] obtain seeds where g: "us_isAdmin u" "sg s = (Inr seeds, s)" "map_of seeds sn = Some seed" "s2 = s"
    by auto
  with up have "changes_seed k seeds sn {dc} s t" unfolding changes_seed_def by (intro exI conjI) (auto simp: delete_conv')
  with g that show ?thesis by blast
qed

lemma dc_list_InrD:
  assumes rd: "reads sg" and run: "dc_ListEndpoint D sg (kube_getter E u) s = (Inr as, t)"
  obtains seeds where "sg s = (Inr seeds, s)" and "t = s" and "as = sort_key adc_name (filter (may_see D u) (getAPIDCsFromSeedMap D seeds))"
proof -
  from run obtain seeds s1 i s2 dcs where sg: "sg s = (Inr seeds, s1)" and i: "kube_getter E u [] s1 = (Inr i, s2)"
    and dcs: "for_caller D i (getAPIDCsFromSeedMap D seeds) = Inr dcs" and as: "as = sort_key adc_name dcs" "t = s2"
    unfolding dc_ListEndpoint_def get_seeds_def by (auto simp: wrapA_eq_Inr elim!: bindA_InrE)
  from readsD[OF rd sg] readsD[OF me.getter_reads i] have "s1 = s" "s2 = s" by auto
  moreover from for_caller_InrD[OF dcs me.getter_admin[OF i] mapper.getter_identity(1)[OF i]] have "dcs = filter (may_see D u) (getAPIDCsFromSeedMap D seeds)" .
  ultimately show ?thesis using that sg as by simp
qed

lemma dc_get_InrD:
  assumes rd: "reads sg" and run: "dc_GetEndpoint D sg (kube_getter E u) n s = (Inr a, t)"
  obtains seeds where "sg s = (Inr seeds, s)" and "t = s" and "filter (\<lambda>dc. adc_name dc = n) (filter (may_see D u) (getAPIDCsFromSeedMap D seeds)) = [a]"
proof -
  from run obtain i s1 seeds s2 dcs where i: "kube_getter E u [] s = (Inr i, s1)" and sg: "sg s1 = (Inr seeds, s2)"
    and dcs: "for_caller D i (getAPIDCsFromSeedMap D seeds) = Inr dcs" and a: "filterDCsByName dcs n = Inr a" "t = s2"
    unfolding dc_GetEndpoint_def GetDatacenter_def get_seeds_def by (auto simp: wrapA_eq_Inr elim!: bindA_InrE)
  from readsD[OF rd sg] readsD[OF me.getter_reads i] have "s1 = s" "s2 = s" by auto
  moreover from for_caller_InrD[OF dcs me.getter_admin[OF i] mapper.getter_identity(1)[OF i]] have "dcs = filter (may_see D u) (getAPIDCsFromSeedMap D seeds)" .
  moreover from a(1) have "filter (\<lambda>dc. adc_name dc = n) dcs = [a]" by (auto simp: filterDCsByName_def split: list.splits)
  ultimately show ?thesis using that sg a(2) by simp
qed

text \<open>
  C39: access to datacenters. Everybody is listed exactly the datacenters he may see, sorted by name: all of them if he is an
  administrator, else those whose required addresses his address matches. One that he gets is the only one of its
  name among these. Only administrators create, change and delete datacenters, in the seed of the request, and no
  datacenter of another name is touched.
\<close>

theorem datacenter_access:
  assumes rd: "reads sg" and seeds: "sg s = (Inr seeds, s')"
  shows "(dc_ListEndpoint D sg (kube_getter E u) s = (Inr as, t) \<longrightarrow>
      t = s \<and> as = sort_key adc_name (filter (may_see D u) (getAPIDCsFromSeedMap D seeds))) \<and>
    (dc_GetEndpoint D sg (kube_getter E u) n s = (Inr a, t) \<longrightarrow>
      t = s \<and> filter (\<lambda>dc. adc_name dc = n) (filter (may_see D u) (getAPIDCsFromSeedMap D seeds)) = [a]) \<and>
    (kube_create_dc D E sg k u creq s = (Inr a, t) \<longrightarrow> us_isAdmin u \<and> changes_seed k seeds (ad_seed (cdc_spec creq)) {cdc_name creq} s t) \<and>
    (kube_update_dc D E sg k u ureq s = (Inr a, t) \<longrightarrow>
      us_isAdmin u \<and> changes_seed k seeds (ad_seed (cdc_spec ureq)) {udc_dc ureq, cdc_name ureq} s t) \<and>
    (kube_patch_dc D E sg k u preq s = (Inr a, t) \<longrightarrow> us_isAdmin u \<and> changes_seed k seeds (pdc_seed preq) {pdc_dc preq, adc_name a} s t) \<and>
    (kube_delete_dc E sg k u (sn, n) s = (Inr v, t) \<longrightarrow> us_isAdmin u \<and> changes_seed k seeds sn {n} s t)"
proof (intro conjI impI)
  assume "dc_ListEndpoint D sg (kube_getter E u) s = (Inr as, t)"
  then show "t = s" "as = sort_key adc_name (filter (may_see D u) (getAPIDCsFromSeedMap D seeds))" using seeds by (auto elim: dc_list_InrD[OF rd])
next
  assume "dc_GetEndpoint D sg (kube_getter E u) n s = (Inr a, t)"
  then show "t = s" "filter (\<lambda>dc. adc_name dc = n) (filter (may_see D u) (getAPIDCsFromSeedMap D seeds)) = [a]" using seeds by (auto elim: dc_get_InrD[OF rd])
next
  assume run: "kube_create_dc D E sg k u creq s = (Inr a, t)"
  show "us_isAdmin u" by (rule create_dc_InrD[OF rd run])
  show "changes_seed k seeds (ad_seed (cdc_spec creq)) {cdc_name creq} s t"
    by (rule create_dc_InrD[OF rd run], unfold changes_seed_def, intro exI conjI) (use seeds in \<open>auto simp: update_conv'\<close>)
next
  assume run: "kube_update_dc D E sg k u ureq s = (Inr a, t)"
  then show "us_isAdmin u" "changes_seed k seeds (ad_seed (cdc_spec ureq)) {udc_dc ureq, cdc_name ureq} s t" using seeds by (auto elim: update_dc_InrD[OF rd])
next
  assume run: "kube_patch_dc D E sg k u preq s = (Inr a, t)"
  show "us_isAdmin u" by (rule patch_dc_InrD[OF rd run])
  show "changes_seed k seeds (pdc_seed preq) {pdc_dc preq, adc_name a} s t"
    by (rule patch_dc_InrD[OF rd run], unfold changes_seed_def, intro exI conjI) (use seeds in \<open>auto simp: patched_datacenters_others\<close>)
next
  assume run: "kube_delete_dc E sg k u (sn, n) s = (Inr v, t)"
  then show "us_isAdmin u" "changes_seed k seeds sn {n} s t" using seeds by (auto elim: delete_dc_InrD[OF rd])
qed

section \<open>What the conversion loses\<close>

definition no_clouds :: dc_clouds where
  "no_clouds = \<lparr>dp_alibaba = None, dp_bringYourOwn = None, dp_digitalocean = None, dp_aws = None, dp_openstack = None, dp_hetzner = None, dp_vsphere = None,
     dp_baremetal = None, dp_azure = None, dp_edge = None, dp_gcp = None, dp_kubevirt = None, dp_anexia = None, dp_nutanix = None,
     dp_vmwareCloudDirector = None, dp_fake = None\<rparr>"

text \<open>A datacenter without what is not copied.\<close>

definition stripped :: "seedDatacenter \<Rightarrow> seedDatacenter" where
  "stripped dc = dc\<lparr>sdc_node := Some (case sdc_node dc of None \<Rightarrow> [] | Some n \<Rightarrow> n),
     sdc_spec := (sdc_spec dc)\<lparr>ds_clouds := (ds_clouds (sdc_spec dc))\<lparr>dp_baremetal := None\<rparr>, ds_defaultOperatingSystemProfiles := [],
       ds_kubeLB := None, ds_disableCSIDriver := False, ds_rest := []\<rparr>\<rparr>"

lemma convert_back: "ConvertInternalDCToExternalSpec D dc n = Inr a \<Longrightarrow> convertExternalDCToInternal a = stripped dc"
  by (auto simp: ConvertInternalDCToExternalSpec_def convertExternalDCToInternal_def stripped_def split: sum.splits)

lemma update_seed_stored:
  assumes ok: "update_ok P k" and up: "kUpdate k (seed\<lparr>fs_datacenters := dcs\<rparr>) s = (Inr seed', t)" and stored: "seed \<in> set (P s)"
  shows "seed' \<in> set (P t)" and "key_of seed' = key_of seed" and "fs_datacenters seed' = dcs"
proof -
  note u = update_okD[OF ok up]
  show "key_of seed' = key_of seed" using u(1) by (simp add: same_object_def key_of_def)
  show "fs_datacenters seed' = dcs" using u(1) by (cases seed; cases seed') (simp add: same_object_def)
  have "key_of (seed\<lparr>fs_datacenters := dcs\<rparr>) = key_of seed" by (simp add: key_of_def)
  with u(2) stored show "seed' \<in> set (P t)" by force
qed

text \<open>
  C40: fields are lost. A patch that changes nothing of the datacenter that the API shows resets, in the stored datacenter, the settings of
  a bare-metal provider, the operating system profiles, the load balancer settings, the flag that disables the CSI driver and what the
  API does not show. And a datacenter whose only provider is bare metal is accepted and stored without any provider.
\<close>

theorem datacenter_fields_lost:
  assumes rd: "reads sg" and seeds: "sg s = (Inr seeds, s')" and ok: "update_ok P k" and stored: "\<forall>(n, seed) \<in> set seeds. seed \<in> set (P s)"
  shows "(kube_patch_dc D E sg k u preq s = (Inr a, t) \<and> map_of seeds (pdc_seed preq) = Some seed \<and>
      map_of (fs_datacenters seed) (pdc_dc preq) = Some cur \<and> (\<forall>api. dk_mergePatch D api (pdc_patch preq) = Inr api) \<longrightarrow>
      (\<exists>seed' \<in> set (P t). key_of seed' = key_of seed \<and> map_of (fs_datacenters seed') (pdc_dc preq) = Some (stripped cur))) \<and>
    (kube_create_dc D E sg k u creq s = (Inr a, t) \<and> map_of seeds (ad_seed (cdc_spec creq)) = Some seed \<and>
      (ad_clouds (cdc_spec creq))\<lparr>dp_baremetal := None\<rparr> = no_clouds \<longrightarrow>
      (\<exists>seed' \<in> set (P t). key_of seed' = key_of seed \<and>
        (\<exists>dc. map_of (fs_datacenters seed') (cdc_name creq) = Some dc \<and> ds_clouds (sdc_spec dc) = no_clouds)))"
proof (intro conjI impI)
  assume "kube_patch_dc D E sg k u preq s = (Inr a, t) \<and> map_of seeds (pdc_seed preq) = Some seed \<and>
      map_of (fs_datacenters seed) (pdc_dc preq) = Some cur \<and> (\<forall>api. dk_mergePatch D api (pdc_patch preq) = Inr api)"
  then have run: "kube_patch_dc D E sg k u preq s = (Inr a, t)" and seed: "map_of seeds (pdc_seed preq) = Some seed"
    and cur: "map_of (fs_datacenters seed) (pdc_dc preq) = Some cur" and same: "\<And>api. dk_mergePatch D api (pdc_patch preq) = Inr api" by auto
  obtain sds sd patched dcs seed' where g: "sg s = (Inr sds, s)" "map_of sds (pdc_seed preq) = Some sd"
    and p: "patched_datacenters D preq sd patched dcs" and up: "kUpdate k (sd\<lparr>fs_datacenters := dcs\<rparr>) s = (Inr seed', t)"
    by (rule patch_dc_InrD[OF rd run])
  have sd: "sd = seed" using g seeds seed by simp
  have "seed \<in> set (P s)" using stored map_of_SomeD[OF seed] by auto
  note st = update_seed_stored[OF ok up[unfolded sd] this]
  from p cur same have "dcs = AList.update (pdc_dc preq) (stripped cur) (fs_datacenters seed)"
    unfolding patched_datacenters_def sd
    by (auto simp: convertInternalDCToExternal_def renamed_def dest: convert_back split: sum.splits)
  with st show "\<exists>seed' \<in> set (P t). key_of seed' = key_of seed \<and> map_of (fs_datacenters seed') (pdc_dc preq) = Some (stripped cur)"
    by (auto simp: update_conv')
next
  assume "kube_create_dc D E sg k u creq s = (Inr a, t) \<and> map_of seeds (ad_seed (cdc_spec creq)) = Some seed \<and>
      (ad_clouds (cdc_spec creq))\<lparr>dp_baremetal := None\<rparr> = no_clouds"
  then have run: "kube_create_dc D E sg k u creq s = (Inr a, t)" and seed: "map_of seeds (ad_seed (cdc_spec creq)) = Some seed"
    and bm: "(ad_clouds (cdc_spec creq))\<lparr>dp_baremetal := None\<rparr> = no_clouds" by auto
  let ?dc = "convertExternalDCToInternal (cdc_spec creq)"
  obtain sds sd seed' where g: "sg s = (Inr sds, s)" "map_of sds (ad_seed (cdc_spec creq)) = Some sd" "map_of (fs_datacenters sd) (cdc_name creq) = None"
    and up: "kUpdate k (sd\<lparr>fs_datacenters := AList.update (cdc_name creq) ?dc (fs_datacenters sd)\<rparr>) s = (Inr seed', t)"
    by (rule create_dc_InrD[OF rd run])
  have sd: "sd = seed" using g seeds seed by simp
  have "seed \<in> set (P s)" using stored map_of_SomeD[OF seed] by auto
  note st = update_seed_stored[OF ok up[unfolded sd] this]
  have "ds_clouds (sdc_spec ?dc) = no_clouds" using bm by (simp add: convertExternalDCToInternal_def)
  with st show "\<exists>seed' \<in> set (P t). key_of seed' = key_of seed \<and>
      (\<exists>dc. map_of (fs_datacenters seed') (cdc_name creq) = Some dc \<and> ds_clouds (sdc_spec dc) = no_clouds)"
    by (intro bexI[of _ seed']) (auto simp: update_conv')
qed

section \<open>Witnesses\<close>

text \<open>One seed with two datacenters, one of which is for Bob.\<close>

definition demo_dc :: "string list \<Rightarrow> seedDatacenter" where
  "demo_dc mails = \<lparr>sdc_country = ''DE'', sdc_location = ''Hamburg'', sdc_node = None,
     sdc_spec = \<lparr>ds_clouds = no_clouds\<lparr>dp_fake := Some ''fake''\<rparr>, ds_requiredEmails = mails, ds_enforceAuditLogging = False,
       ds_enforcedAuditWebhookSettings = None, ds_enforcePodSecurityPolicy = False, ds_defaultOperatingSystemProfiles = [(''ubuntu'', ''osp-ubuntu'')],
       ds_kubeLB = Some ''lb'', ds_machineFlavorFilter = None, ds_disableCSIDriver = True, ds_rest = []\<rparr>\<rparr>"

definition demo_full_seed :: fullSeed where
  "demo_full_seed = objmeta.extend (blank_meta\<lparr>om_name := ''kubermatic''\<rparr>)
     (fullSeed.fields [(''us'', demo_dc [''eve@acme.com'']), (''eu'', demo_dc [''bob@acme.com''])] ([], [], []) [])"

definition demo_dc_sdk :: dc_sdk where
  "demo_dc_sdk = \<lparr>dk_providerName = (\<lambda>sp. if dp_fake (ds_clouds sp) \<noteq> None then Inr ''fake'' else Inl (Plain ''no provider'')),
     dk_ipv6Enabled = (\<lambda>_ _. False), dk_matchesRequirements = (\<lambda>e rs. Inr (rs = [] \<or> e \<in> set rs)), dk_constant = (\<lambda>n. n),
     dk_mergePatch = (\<lambda>a _. Inr a), dk_patchSeed = (\<lambda>_. Inr [])\<rparr>"

type_synonym seed_world = "mem \<times> fullSeed list"

abbreviation seed_world_env :: "seed_world env" where "seed_world_env \<equiv> lift_env mem_env"

text \<open>The seeds as the server reads them.\<close>

abbreviation demo_getter :: "seed_world FullSeedsGetter" where
  "demo_getter \<equiv> SeedsGetterFactory (\<lambda>seed. seed) extra_client []"

abbreviation demo_world_seeds :: seed_world where "demo_world_seeds \<equiv> (world1, [demo_full_seed])"

lemma demo_getter_reads: "reads demo_getter"
  unfolding SeedsGetterFactory_def by (intro reads_intros; (auto intro!: reads_intros split: sum.split)?)

lemma demo_getter_run: "demo_getter demo_world_seeds = (Inr [(''kubermatic'', demo_full_seed)], demo_world_seeds)"
  by (simp add: SeedsGetterFactory_def extra_client_def mem_client_def key_of_def demo_full_seed_def objmeta.defs fullSeed.defs blank_meta_def
      DefaultSeedName_def tryA_def readA_def)

theorem datacenter_access_witness:
  "(\<exists>as. dc_ListEndpoint demo_dc_sdk demo_getter (kube_getter seed_world_env bob) demo_world_seeds = (Inr as, demo_world_seeds) \<and> map adc_name as = [''eu'']) \<and>
   isl (fst (kube_delete_dc seed_world_env demo_getter extra_client bob (''kubermatic'', ''us'') demo_world_seeds)) \<and>
   (\<exists>t. kube_delete_dc seed_world_env demo_getter extra_client root_user (''kubermatic'', ''us'') demo_world_seeds = (Inr (), t) \<and>
     changes_seed extra_client [(''kubermatic'', demo_full_seed)] ''kubermatic'' {''us''} demo_world_seeds t)"
proof -
  note fact = datacenter_access[OF demo_getter_reads demo_getter_run]
  have "case dc_ListEndpoint demo_dc_sdk demo_getter (kube_getter seed_world_env bob) demo_world_seeds of (Inl _, _) \<Rightarrow> False
      | (Inr as, _) \<Rightarrow> map adc_name as = [''eu'']" by code_simp
  then obtain as t where l: "dc_ListEndpoint demo_dc_sdk demo_getter (kube_getter seed_world_env bob) demo_world_seeds = (Inr as, t)"
    and as: "map adc_name as = [''eu'']" by (auto split: prod.splits sum.splits)
  have t: "t = demo_world_seeds" using fact[THEN conjunct1, THEN mp, OF l] by blast
  have "\<not> isl (fst (kube_delete_dc seed_world_env demo_getter extra_client root_user (''kubermatic'', ''us'') demo_world_seeds))" by code_simp
  then obtain t' where d: "kube_delete_dc seed_world_env demo_getter extra_client root_user (''kubermatic'', ''us'') demo_world_seeds = (Inr (), t')"
    by (auto dest!: success_obtain)
  have del: "kube_delete_dc seed_world_env demo_getter extra_client u (sn, n) demo_world_seeds = (Inr v, w) \<Longrightarrow>
      us_isAdmin u \<and> changes_seed extra_client [(''kubermatic'', demo_full_seed)] sn {n} demo_world_seeds w" for u sn n v w
    using fact by blast
  have "isl (fst (kube_delete_dc seed_world_env demo_getter extra_client bob (''kubermatic'', ''us'') demo_world_seeds))"
  proof (rule ccontr)
    assume "\<not> ?thesis"
    then obtain v w where "kube_delete_dc seed_world_env demo_getter extra_client bob (''kubermatic'', ''us'') demo_world_seeds = (Inr v, w)"
      by (auto dest!: success_obtain)
    from del[OF this] show False by (simp add: world1_defs)
  qed
  with l[unfolded t] as d del[OF d] show ?thesis by (intro conjI exI) auto
qed

text \<open>An administrator patches nothing, and creates a bare-metal datacenter.\<close>

definition demo_patch_dc :: patchDCReq where
  "demo_patch_dc = \<lparr>pdc_patch = ''{}'', pdc_dc = ''eu'', pdc_seed = ''kubermatic''\<rparr>"

definition demo_metal :: createDCReq where
  "demo_metal = \<lparr>cdc_seed = ''kubermatic'', cdc_name = ''metal'', cdc_spec = \<lparr>ad_seed = ''kubermatic'', ad_country = ''DE'', ad_location = ''Hamburg'',
     ad_provider = [], ad_clouds = no_clouds\<lparr>dp_baremetal := Some ''tinkerbell''\<rparr>, ad_node = [], ad_requiredEmails = [], ad_enforceAuditLogging = False,
     ad_enforcedAuditWebhookSettings = None, ad_enforcePodSecurityPolicy = False, ad_ipv6Enabled = False, ad_defaultOperatingSystemProfiles = [],
     ad_machineFlavorFilter = None, ad_disableCSIDriver = False, ad_kubeLB = None\<rparr>\<rparr>"

theorem datacenter_fields_lost_witness:
  "(\<exists>a t. kube_patch_dc demo_dc_sdk seed_world_env demo_getter extra_client root_user demo_patch_dc demo_world_seeds = (Inr a, t) \<and>
     (\<exists>seed \<in> set (snd t). \<exists>dc. map_of (fs_datacenters seed) ''eu'' = Some dc \<and> \<not> ds_disableCSIDriver (sdc_spec dc) \<and> ds_kubeLB (sdc_spec dc) = None)) \<and>
   (\<exists>a t. kube_create_dc demo_dc_sdk seed_world_env demo_getter extra_client root_user demo_metal demo_world_seeds = (Inr a, t) \<and>
     (\<exists>seed \<in> set (snd t). \<exists>dc. map_of (fs_datacenters seed) ''metal'' = Some dc \<and> ds_clouds (sdc_spec dc) = no_clouds))"
proof -
  have stored: "\<forall>(n, seed) \<in> set [(''kubermatic'', demo_full_seed)]. seed \<in> set (snd demo_world_seeds)" by simp
  note fact = datacenter_fields_lost[OF demo_getter_reads demo_getter_run extra_client_ok(5) stored, where E = seed_world_env and D = demo_dc_sdk]
  have "\<not> isl (fst (kube_patch_dc demo_dc_sdk seed_world_env demo_getter extra_client root_user demo_patch_dc demo_world_seeds))" by code_simp
  then obtain a t where p: "kube_patch_dc demo_dc_sdk seed_world_env demo_getter extra_client root_user demo_patch_dc demo_world_seeds = (Inr a, t)"
    by (auto dest!: success_obtain)
  have "\<not> isl (fst (kube_create_dc demo_dc_sdk seed_world_env demo_getter extra_client root_user demo_metal demo_world_seeds))" by code_simp
  then obtain b w where c: "kube_create_dc demo_dc_sdk seed_world_env demo_getter extra_client root_user demo_metal demo_world_seeds = (Inr b, w)"
    by (auto dest!: success_obtain)
  have cur: "map_of (fs_datacenters demo_full_seed) ''eu'' = Some (demo_dc [''bob@acme.com''])"
    by (simp add: demo_full_seed_def objmeta.defs fullSeed.defs)
  have "\<exists>seed' \<in> set (snd t). map_of (fs_datacenters seed') ''eu'' = Some (stripped (demo_dc [''bob@acme.com'']))"
    using fact[THEN conjunct1, THEN mp, of root_user demo_patch_dc a t demo_full_seed "demo_dc [''bob@acme.com'']"] p cur
    by (auto simp: demo_patch_dc_def demo_dc_sdk_def)
  then have "\<exists>seed \<in> set (snd t). \<exists>dc. map_of (fs_datacenters seed) ''eu'' = Some dc \<and> \<not> ds_disableCSIDriver (sdc_spec dc) \<and> ds_kubeLB (sdc_spec dc) = None"
    by (elim bexE, intro bexI exI[of _ "stripped (demo_dc [''bob@acme.com''])"]) (simp_all add: stripped_def)
  moreover have "\<exists>seed \<in> set (snd w). \<exists>dc. map_of (fs_datacenters seed) ''metal'' = Some dc \<and> ds_clouds (sdc_spec dc) = no_clouds"
    using fact[THEN conjunct2, THEN mp, of root_user demo_metal b w demo_full_seed] c
    by (auto simp: demo_metal_def no_clouds_def)
  ultimately show ?thesis using p c by (intro conjI exI)
qed

end
