(* ===== verification/Spec2Isabelle.thy ===== *)
theory Spec2Isabelle
  imports Member_Properties Project_Provider User_Provider Service_Accounts Auth Common_Handlers
    Project_Handlers User_Handlers SA_Handlers Middleware Access_Control Member_Endpoints
    User_Properties Session_Properties Token_Properties Auth_Properties Project_Properties
    Auth_Flow_Properties Preset_Properties SSH_Properties Group_Binding_Properties Cluster_RBAC_Properties Quota_Properties
    Cluster_Properties Credential_Properties Cluster_Change_Properties Template_Properties
    Etcd_Properties Datacenter_Properties
begin

text \<open>
  Verification of the access-control core of the Kubermatic dashboard API: the Go program under
  \<^verbatim>\<open>src/modules/api\<close>. All paths below are relative to \<^verbatim>\<open>src/modules/api/pkg\<close>.

  \<^bold>\<open>The program.\<close> A request reaches an endpoint through a chain of middleware (\<^verbatim>\<open>handler/middleware\<close>): a
  token is extracted and verified (\<^verbatim>\<open>handler/auth\<close>), the user of the token is read or created, and the
  providers for the seed of the request are put into the context. The endpoint (\<^verbatim>\<open>handler/v1\<close>,
  \<^verbatim>\<open>handler/v2\<close>, \<^verbatim>\<open>handler/common\<close>) asks the user info getter (\<^verbatim>\<open>provider/userinfo.go\<close>) for the rights of the
  caller in the project and calls providers (\<^verbatim>\<open>provider/kubernetes\<close>), which read and write objects of the
  Kubernetes API: with the privileged client for administrators and impersonating the caller for everybody
  else. A browser gets its token from the login flow (\<^verbatim>\<open>handler/v2/authflow\<close>), in cookies.

  \<^bold>\<open>The model.\<close> A Go function that can fail and talks to the API server is an action
  \<open>('s, 'a) act\<close> of \<open>Go_Prelude\<close>: a function from the state to an error or a value and the new state. The
  state is whatever is behind the clients; \<open>Kube_Api\<close> has the objects as records and a client as a record of
  its calls, so every theorem quantifies over all API servers that keep a contract. The contract is a
  hypothesis with a name: \<open>list_ok\<close>, \<open>get_ok\<close>, \<open>create_ok\<close>, \<open>update_ok\<close>, \<open>delete_ok\<close> for one kind of objects,
  and \<open>api_ok\<close> of \<open>Api_Contract\<close> for all kinds together (a write changes one list by one object, a read
  returns what is stored, an impersonating client may be denied). \<open>Mem_Api\<close> and \<open>Mem_Extend\<close> are a
  server that satisfies it, on which the witnesses run.

  \<^item> \<open>Provider_Types\<close>: the interfaces of \<^verbatim>\<open>provider/types.go\<close>, as records of functions.
  \<^item> \<open>Member_Provider\<close>, \<open>Member_Properties\<close>: \<^verbatim>\<open>provider/kubernetes/member.go\<close> and \<^verbatim>\<open>provider/userinfo.go\<close>. The groups
    and roles of a user refine the set of grants that the bindings give; nothing leaks from other projects.
  \<^item> \<open>Project_Provider\<close>, \<open>User_Provider\<close>, \<open>Service_Accounts\<close>: \<^verbatim>\<open>project.go\<close>, \<^verbatim>\<open>settings.go\<close>, \<^verbatim>\<open>user.go\<close>, \<^verbatim>\<open>admin.go\<close>,
    \<^verbatim>\<open>sa.go\<close>, \<^verbatim>\<open>sa_token.go\<close> of \<^verbatim>\<open>provider/kubernetes\<close>; \<open>User_Properties\<close> has what holds of users, administrators
    and the settings.
  \<^item> \<open>Auth\<close>, \<open>Auth_Properties\<close>: signing and verifying tokens (\<^verbatim>\<open>serviceaccount/jwt.go\<close>, \<^verbatim>\<open>handler/auth\<close>), the
    chains of extractors and verifiers.
  \<^item> \<open>Common_Handlers\<close>, \<open>Project_Handlers\<close>, \<open>User_Handlers\<close>, \<open>SA_Handlers\<close>, \<open>Middleware\<close>: the endpoints
    of projects, members, users, service accounts and their tokens, and the middleware.
  \<^item> \<open>Access_Control\<close>: the locale \<open>caller\<close> states what the endpoints rely on in the user info getter and is
    interpreted on the getter the server is wired with; ten functions that write do it with the
    rights of the caller and not with privileged providers, and \<^verbatim>\<open>GetProject\<close> hands out projects only to those with a grant.
  \<^item> \<open>Member_Endpoints\<close>, \<open>Project_Properties\<close>, \<open>Token_Properties\<close>, \<open>Session_Properties\<close>: what the endpoints do to
    the stored objects, the life of service account tokens, and that a token is refused after its logout.
  \<^item> \<open>Auth_Flow\<close>, \<open>Browser\<close>, \<open>Auth_Flow_Properties\<close>: login, callback, refresh, logout and status of
    \<^verbatim>\<open>handler/v2/authflow\<close>, the state cookie and the check of origins in \<^verbatim>\<open>handler/auth\<close>, against a browser that
    keeps cookies. Nobody is logged in without the state and the nonce of the cookie, the browser then
    presents exactly the token of this login, however many cookies it takes, and logging out ends the session.
  \<^item> \<open>Preset_Provider\<close>, \<open>Preset_Credentials\<close>, \<open>Preset_Handlers\<close>, \<open>Preset_Properties\<close>: presets
    (\<^verbatim>\<open>provider/kubernetes/preset.go\<close>, \<^verbatim>\<open>handler/common/preset.go\<close>, \<^verbatim>\<open>handler/v2/preset\<close>, \<^verbatim>\<open>handler/v1/presets\<close>).
    The reflective access to the fields of a preset is a datatype of the fields and three functions on it.
  \<^item> \<open>SSH_Keys\<close>, \<open>SSH_Properties\<close>: \<^verbatim>\<open>provider/kubernetes/ssh.go\<close> and \<^verbatim>\<open>handler/v1/ssh\<close>, with the requests as a
    step relation.

  \<^item> \<open>Group_Bindings\<close>, \<open>Group_Binding_Properties\<close>: \<^verbatim>\<open>ee/group-project-binding\<close>. A binding admits the members of its
    group from its creation to its deletion.
  \<^item> \<open>Cluster_Provider\<close>: \<^verbatim>\<open>provider/kubernetes/cluster.go\<close>, and how a request gets at a cluster and a client for it
    (\<^verbatim>\<open>handler/common/cluster.go\<close>, \<^verbatim>\<open>handler/v1/common/common.go\<close>). A user cluster is the record \<open>uclient\<close> of the clients
    for the objects in it.
  \<^item> \<open>Cluster_RBAC\<close>, \<open>Cluster_RBAC_Properties\<close>: roles, bindings and service accounts of a user cluster
    (\<^verbatim>\<open>binding.go\<close> and \<^verbatim>\<open>role.go\<close> of \<^verbatim>\<open>handler/common\<close>, \<^verbatim>\<open>handler/v1/cluster\<close>, \<^verbatim>\<open>handler/v2/cluster\<close>). A caller acts in a
    cluster with exactly his roles in the project, unbinding restores what binding changed, and a deleted
    service account keeps no rights.
  \<^item> \<open>Quantities\<close>, \<open>Resource_Quotas\<close>, \<open>Quota_Handlers\<close>, \<open>Quota_Properties\<close>: resource quotas of projects (\<^verbatim>\<open>api/v2/convert.go\<close>,
    \<^verbatim>\<open>ee/resource-quota\<close>, \<^verbatim>\<open>handler/v2/resource_quota\<close>). The calculation for new nodes reports exactly the limits that
    would be exceeded, what is stored stays well-formed, and accounting of accelerators is never switched off.
  \<^item> \<open>Cloud_Spec\<close>: specifications of clusters and their clouds, which presets, clusters and their templates share.
  \<^item> \<open>Clusters\<close>, \<open>Cluster_Properties\<close>: listing, reading, migrating and deleting clusters and attaching SSH keys to them
    (\<^verbatim>\<open>handler/common/cluster.go\<close>, \<^verbatim>\<open>handler/v2/cluster/cluster.go\<close>, \<^verbatim>\<open>provider/conversions.go\<close>). A cluster is deleted with the
    rights of the caller, attaching and detaching a key restores the keys, and listing panics for a caller who may not use
    the datacenter of some cluster.
  \<^item> \<open>Cluster_Credentials\<close>, \<open>Credential_Properties\<close>: moving the credentials of a cluster into a secret and reading them
    (\<^verbatim>\<open>provider/kubernetes/credentials.go\<close>, \<^verbatim>\<open>GetCredentialsForCluster\<close> of \<^verbatim>\<open>provider/cloud\<close>). All but three kinds of them leave the specification of the
    cluster, and what a provider is supplied with is read back.
  \<^item> \<open>Cluster_Create\<close>, \<open>Cluster_Change_Properties\<close>: creating and patching clusters (the same files, \<^verbatim>\<open>resources/cluster/cluster.go\<close>,
    \<^verbatim>\<open>handler/v1/common/version_skew.go\<close>), with presets, encryption at rest, proxies, initial machines and applications.
    Clusters are created and changed with the rights of the caller, and the key of the encryption ends up in a secret only.
  \<^item> \<open>Cluster_Templates\<close>, \<open>Template_Properties\<close>: templates of clusters and their instances (\<^verbatim>\<open>cluster_template.go\<close> and
    \<^verbatim>\<open>cluster_template_instance.go\<close> of \<^verbatim>\<open>provider/kubernetes\<close>, \<^verbatim>\<open>handler/v2/cluster_template\<close>). Templates are seen by those they are for,
    and deleted by their users, but an update replaces every template.
  \<^item> \<open>Etcd_Backups\<close>, \<open>Etcd_Handlers\<close>, \<open>Etcd_Properties\<close>: backups of the etcd of a cluster and restores from them (\<^verbatim>\<open>etcdbackupconfig.go\<close> and
    \<^verbatim>\<open>etcdrestore.go\<close> of \<^verbatim>\<open>provider/kubernetes\<close>, \<^verbatim>\<open>handler/v2/etcdbackupconfig\<close>, \<^verbatim>\<open>handler/v2/etcdrestore\<close>). They are reached through a cluster that
    the caller may read, a backup configuration is found again under its id, and a running restore is kept.
  \<^item> \<open>Datacenters\<close>, \<open>Datacenter_Properties\<close>: datacenters and seeds (\<^verbatim>\<open>handler/v1/dc\<close>, \<^verbatim>\<open>provider/kubernetes/seed.go\<close>). Everybody sees the
    datacenters that are for him and administrators change them; what a change loses of a datacenter is a theorem, too.

  \<^bold>\<open>What stands for other code.\<close> The clients of the API server, the Kubermatic SDK (label keys, names of
  service accounts, groups, defaulting, mutating and validating clusters; the records \<open>sdk\<close>, \<open>env\<close>, \<open>preset_sdk\<close>,
  \<open>cluster_sdk\<close>, \<open>credentials_sdk\<close>, \<open>cluster_gen\<close>, \<open>template_sdk\<close>, \<open>etcd_sdk\<close> and \<open>dc_sdk\<close>), random strings, the clock, the JOSE,
  OIDC, OAuth2 and securecookie libraries, quantities of resources (\<open>quantities\<close>), \<^verbatim>\<open>net/url\<close>, the mail address parser, the mux variables and the JSON
  decoder are arguments of the definitions that use them.

  \<^bold>\<open>Abstractions.\<close> Messages of errors are dropped or reduced to a tag, kinds and HTTP codes are kept; a run-time
  panic is the error \<open>Panic\<close>. A nil map is an empty one, except the data of a secret, where the difference
  shows. Case mapping is that of ASCII. The map of seeds is a list in the order of iteration. The expiry of an
  OIDC token, a JSON number, is a pair of integers. The normalisation that \<^verbatim>\<open>http.Redirect\<close> applies to relative
  paths is not modelled. A patch that is computed from an object just read is an update to the new object. The
  names of roles are listed in the order of the roles, where Go ranges over a map, and the accelerators of a provider in that
  of an association list. Floating point numbers are rational numbers; integers wrap around where they may leave their
  width. A request runs alone: the model has no interference between two requests, and a
  theorem about several requests speaks of a sequence of them. There is no fuel; the one loop that may run
  forever, cutting a token into chunks of size 0, is a partial function with a theorem that says when it ends.

  \<^bold>\<open>Not modelled.\<close> The health and the metrics of clusters, machines, external clusters, addons,
  constraints, the destinations of backups and what is left of the enterprise edition; the cloud providers, which are calls of vendor SDKs; the registration of routes, which is
  a list of calls of a router; logging and metrics; the watch on the settings; the Angular front end.
\<close>

end
